(* ===== verification/Prelude.thy ===== *)
theory Prelude
  imports Main "HOL-Library.AList" "HOL-Library.Char_ord" "HOL-Library.List_Lexorder"
    "HOL-Library.Multiset"
begin

text \<open>
  Shared ground of the PlanRace development: Python's exceptions as a datatype and the
  sum type of computations that may raise, the string and byte primitives the sources
  use, insertion-ordered dictionaries as association lists, and generic list lemmas.

  A Python \<open>str\<close> is modelled by its UTF-8 byte sequence and \<open>bytes\<close> by the bytes
  themselves, both as \<open>string\<close> (a list of 8-bit characters): \<open>.encode("utf-8")\<close> is the
  identity, code-point order is byte order, and \<open>py_len\<close> counts code points.
\<close>

named_theorems result_simps \<open>unfolding rules for computations that may raise\<close>
named_theorems valid_defs \<open>field constraints of the wire models\<close>

section \<open>Exceptions and results\<close>

datatype pyerr =
    ValueError string
  | TypeError string
  | RuntimeError string
  | KeyError string
  | IndexError
  | OverflowError
  | DecimalOverflow
  | AssertionError string
  | OSError string
  | DatabaseError string
  | AdmissionError string
  | WorkerFailure string
  | ZeroDivisionError
  | StatisticsError
  | LifecycleError string
  | ResponseVerificationError string
  | UnsupportedNetworkError string
  | ResultOracleError string
  | ResultLimitExceeded string
  | UnsupportedResultType string
  | EvaluationConfigurationError string
  | HTTPException nat string
  | SdkError string
  | EvidenceVerificationError string
  | ClientError string
  | SqlglotError string
  | InfinityReached

type_synonym 'a result = "pyerr + 'a"

definition rbind :: "'a result \<Rightarrow> ('a \<Rightarrow> 'b result) \<Rightarrow> 'b result" where
  "rbind m f = (case m of Inl e \<Rightarrow> Inl e | Inr x \<Rightarrow> f x)"

definition rcheck :: "bool \<Rightarrow> pyerr \<Rightarrow> unit result" where
  "rcheck ok e = (if ok then Inr () else Inl e)"

definition is_ok :: "'a result \<Rightarrow> bool" where
  "is_ok m = (case m of Inl _ \<Rightarrow> False | Inr _ \<Rightarrow> True)"

fun rmap :: "('a \<Rightarrow> 'b result) \<Rightarrow> 'a list \<Rightarrow> 'b list result" where
  "rmap f [] = Inr []"
| "rmap f (x # xs) = rbind (f x) (\<lambda>y. rbind (rmap f xs) (\<lambda>ys. Inr (y # ys)))"

fun rfold :: "('s \<Rightarrow> 'a \<Rightarrow> 's result) \<Rightarrow> 's \<Rightarrow> 'a list \<Rightarrow> 's result" where
  "rfold f s [] = Inr s"
| "rfold f s (x # xs) = rbind (f s x) (\<lambda>s'. rfold f s' xs)"

lemma rbind_Inl [simp, result_simps]: "rbind (Inl e) f = Inl e"
  by (simp add: rbind_def)

lemma rbind_Inr [simp, result_simps]: "rbind (Inr x) f = f x"
  by (simp add: rbind_def)

lemma rbind_eq_Inr [result_simps]: "rbind m f = Inr y \<longleftrightarrow> (\<exists>x. m = Inr x \<and> f x = Inr y)"
  by (cases m) auto

lemma rbind_eq_Inl [result_simps]:
  "rbind m f = Inl e \<longleftrightarrow> m = Inl e \<or> (\<exists>x. m = Inr x \<and> f x = Inl e)"
  by (cases m) auto

lemma rbind_InrE [elim!]:
  assumes "rbind m f = Inr y"
  obtains x where "m = Inr x" and "f x = Inr y"
  using assms by (cases m) auto

lemma rcheck_Inr [simp, result_simps]: "rcheck ok e = Inr u \<longleftrightarrow> ok"
  by (simp add: rcheck_def)

lemma rcheck_Inl [simp, result_simps]: "rcheck ok e = Inl e' \<longleftrightarrow> \<not> ok \<and> e' = e"
  by (auto simp add: rcheck_def)

lemma rcheck_True [simp]: "rcheck True e = Inr ()"
  and rcheck_False [simp]: "rcheck False e = Inl e"
  by (simp_all add: rcheck_def)

lemma is_ok_simps [simp]: "is_ok (Inr x)" "\<not> is_ok (Inl e)"
  by (simp_all add: is_ok_def)

lemma is_ok_iff: "is_ok m \<longleftrightarrow> (\<exists>x. m = Inr x)"
  by (cases m) auto

lemma rmap_Inr_iff:
  "rmap f xs = Inr ys \<longleftrightarrow> length ys = length xs \<and> (\<forall>i < length xs. f (xs ! i) = Inr (ys ! i))"
proof (induction xs arbitrary: ys)
  case Nil
  then show ?case by auto
next
  case (Cons x xs)
  show ?case
  proof
    assume "rmap f (x # xs) = Inr ys"
    then obtain z zs where z: "f x = Inr z" "rmap f xs = Inr zs" "ys = z # zs" by auto
    from z(2) have "length zs = length xs \<and> (\<forall>i < length xs. f (xs ! i) = Inr (zs ! i))"
      by (simp add: Cons.IH)
    with z show "length ys = length (x # xs) \<and> (\<forall>i < length (x # xs). f ((x # xs) ! i) = Inr (ys ! i))"
      by (auto simp: nth_Cons split: nat.splits)
  next
    assume a: "length ys = length (x # xs) \<and> (\<forall>i < length (x # xs). f ((x # xs) ! i) = Inr (ys ! i))"
    then obtain z zs where ys: "ys = z # zs" by (cases ys) auto
    have "f x = Inr z" using a ys by (auto dest: spec [of _ 0])
    moreover have "rmap f xs = Inr zs" unfolding Cons.IH using a ys by force
    ultimately show "rmap f (x # xs) = Inr ys" using ys by simp
  qed
qed

lemma rmap_map: "(\<And>x. x \<in> set xs \<Longrightarrow> f x = Inr (g x)) \<Longrightarrow> rmap f xs = Inr (map g xs)"
  by (induction xs) auto

lemma rbind_cong [fundef_cong]:
  "m = n \<Longrightarrow> (\<And>x. n = Inr x \<Longrightarrow> f x = g x) \<Longrightarrow> rbind m f = rbind n g"
  by (cases n) auto

lemma rmap_cong [fundef_cong]:
  "xs = ys \<Longrightarrow> (\<And>x. x \<in> set ys \<Longrightarrow> f x = g x) \<Longrightarrow> rmap f xs = rmap g ys"
  by (induction xs arbitrary: ys) auto

lemma rfold_cong [fundef_cong]:
  "s = t \<Longrightarrow> xs = ys \<Longrightarrow> (\<And>u x. x \<in> set ys \<Longrightarrow> f u x = g u x) \<Longrightarrow> rfold f s xs = rfold g t ys"
proof (induction xs arbitrary: s t ys)
  case (Cons x xs)
  then show ?case by (cases "g t x") auto
qed simp

lemma rfold_unit_ok: "(\<And>x. x \<in> set xs \<Longrightarrow> f () x = Inr ()) \<Longrightarrow> rfold f () xs = Inr ()"
  by (induction xs) auto

lemma rmap_length: "rmap f xs = Inr ys \<Longrightarrow> length ys = length xs"
  by (simp add: rmap_Inr_iff)

lemma rfold_append:
  "rfold f s (xs @ ys) = rbind (rfold f s xs) (\<lambda>s'. rfold f s' ys)"
proof (induction xs arbitrary: s)
  case Nil
  then show ?case by simp
next
  case (Cons x xs)
  then show ?case by (cases "f s x") auto
qed

lemma rfold_invariant:
  assumes "rfold f s xs = Inr t" and "P s"
    and "\<And>s x s'. x \<in> set xs \<Longrightarrow> P s \<Longrightarrow> f s x = Inr s' \<Longrightarrow> P s'"
  shows "P t"
  using assms
proof (induction xs arbitrary: s)
  case Nil
  then show ?case by simp
next
  case (Cons x xs)
  then obtain s' where s': "f s x = Inr s'" "rfold f s' xs = Inr t" by auto
  have "P s'" by (rule Cons.prems(3) [OF _ Cons.prems(2) s'(1)]) simp
  moreover have "\<And>u y u'. y \<in> set xs \<Longrightarrow> P u \<Longrightarrow> f u y = Inr u' \<Longrightarrow> P u'"
    using Cons.prems(3) by auto
  ultimately show ?case using Cons.IH [OF s'(2)] by blast
qed

section \<open>Characters and strings\<close>

type_synonym bytes = string

definition char_between :: "char \<Rightarrow> char \<Rightarrow> char \<Rightarrow> bool" where
  "char_between lo hi c \<longleftrightarrow> lo \<le> c \<and> c \<le> hi"

definition is_digit :: "char \<Rightarrow> bool" where
  "is_digit c \<longleftrightarrow> char_between (CHR ''0'') (CHR ''9'') c"

definition is_lower :: "char \<Rightarrow> bool" where
  "is_lower c \<longleftrightarrow> char_between (CHR ''a'') (CHR ''z'') c"

definition is_upper :: "char \<Rightarrow> bool" where
  "is_upper c \<longleftrightarrow> char_between (CHR ''A'') (CHR ''Z'') c"

definition is_lower_hex :: "char \<Rightarrow> bool" where
  "is_lower_hex c \<longleftrightarrow> is_digit c \<or> char_between (CHR ''a'') (CHR ''f'') c"

definition is_ident_start :: "char \<Rightarrow> bool" where
  "is_ident_start c \<longleftrightarrow> is_upper c \<or> is_lower c \<or> c = CHR ''_''"

definition is_ident_char :: "char \<Rightarrow> bool" where
  "is_ident_char c \<longleftrightarrow> is_ident_start c \<or> is_digit c"

text \<open>The base-58 alphabet of SS58 addresses: \<open>[1-9A-HJ-NP-Za-km-z]\<close>.\<close>

definition is_base58 :: "char \<Rightarrow> bool" where
  "is_base58 c \<longleftrightarrow> char_between (CHR ''1'') (CHR ''9'') c
     \<or> char_between (CHR ''A'') (CHR ''H'') c \<or> char_between (CHR ''J'') (CHR ''N'') c
     \<or> char_between (CHR ''P'') (CHR ''Z'') c \<or> char_between (CHR ''a'') (CHR ''k'') c
     \<or> char_between (CHR ''m'') (CHR ''z'') c"

lemmas char_class_defs = char_between_def is_digit_def is_lower_def is_upper_def
  is_lower_hex_def is_ident_start_def is_ident_char_def is_base58_def less_eq_char_def less_char_def

text \<open>\<open>len\<close> of a \<open>str\<close>: the bytes that are not UTF-8 continuation bytes.\<close>

definition is_continuation :: "char \<Rightarrow> bool" where
  "is_continuation c \<longleftrightarrow> 128 \<le> (of_char c :: nat) \<and> (of_char c :: nat) < 192"

definition py_len :: "string \<Rightarrow> nat" where
  "py_len s = length (filter (\<lambda>c. \<not> is_continuation c) s)"

definition starts_with :: "string \<Rightarrow> string \<Rightarrow> bool" where
  "starts_with p s \<longleftrightarrow> take (length p) s = p"

lemma starts_with_append [simp]: "starts_with p (p @ s)"
  by (simp add: starts_with_def)

lemma starts_with_iff: "starts_with p s \<longleftrightarrow> (\<exists>r. s = p @ r)"
  by (metis append_eq_conv_conj append_take_drop_id starts_with_def)

fun join :: "string \<Rightarrow> string list \<Rightarrow> string" where
  "join sep [] = []"
| "join sep [x] = x"
| "join sep (x # y # xs) = x @ sep @ join sep (y # xs)"

text \<open>
  \<open>str.lower\<close> on ASCII. No other code point lower-cases to a letter of the names the code
  compares with (only the Kelvin sign gives a plain \<open>k\<close>), so every comparison is the same.
\<close>

definition py_lower :: "string \<Rightarrow> string" where
  "py_lower = map (\<lambda>c. if is_upper c then char_of ((of_char c :: nat) + 32) else c)"

text \<open>\<open>p in s\<close> on strings and \<open>s[:n]\<close> on the code points of a UTF-8 string.\<close>

fun is_infix :: "string \<Rightarrow> string \<Rightarrow> bool" where
  "is_infix p [] = (p = [])"
| "is_infix p (c # s) = (starts_with p (c # s) \<or> is_infix p s)"

fun py_take :: "nat \<Rightarrow> string \<Rightarrow> string" where
  "py_take n [] = []"
| "py_take n (c # s) = (if is_continuation c then c # py_take n s
     else case n of 0 \<Rightarrow> [] | Suc m \<Rightarrow> c # py_take m s)"

definition is_ascii :: "string \<Rightarrow> bool" where
  "is_ascii s \<longleftrightarrow> (\<forall>c \<in> set s. (of_char c :: nat) < 128)"

subsection \<open>Decimal rendering of integers\<close>

definition digit_char :: "nat \<Rightarrow> char" where
  "digit_char d = char_of (48 + d)"

definition char_digit :: "char \<Rightarrow> nat" where
  "char_digit c = of_char c - 48"

fun nat_str :: "nat \<Rightarrow> string" where
  "nat_str n = (if n < 10 then [digit_char n] else nat_str (n div 10) @ [digit_char (n mod 10)])"

declare nat_str.simps [simp del]

definition int_str :: "int \<Rightarrow> string" where
  "int_str i = (if i < 0 then ''-'' @ nat_str (nat (- i)) else nat_str (nat i))"

definition str_nat :: "string \<Rightarrow> nat" where
  "str_nat s = foldl (\<lambda>acc c. 10 * acc + char_digit c) 0 s"

lemma of_char_digit_char: "d < 10 \<Longrightarrow> (of_char (digit_char d) :: nat) = 48 + d"
  by (simp add: digit_char_def)

lemma char_digit_digit_char [simp]: "d < 10 \<Longrightarrow> char_digit (digit_char d) = d"
  by (simp add: char_digit_def of_char_digit_char)

lemma is_digit_digit_char [simp]: "d < 10 \<Longrightarrow> is_digit (digit_char d)"
  by (simp add: char_class_defs of_char_digit_char)

lemma nat_str_digits: "c \<in> set (nat_str n) \<Longrightarrow> is_digit c"
proof (induction n rule: nat_str.induct)
  case (1 n)
  then show ?case by (subst (asm) nat_str.simps) (auto split: if_splits)
qed

lemma nat_str_nonempty [simp]: "nat_str n \<noteq> []"
  by (subst nat_str.simps) simp

lemma str_nat_snoc: "str_nat (s @ [c]) = 10 * str_nat s + char_digit c"
  by (simp add: str_nat_def)

lemma str_nat_nat_str [simp]: "str_nat (nat_str n) = n"
proof (induction n rule: nat_str.induct)
  case (1 n)
  show ?case
  proof (cases "n < 10")
    case True
    then show ?thesis by (subst nat_str.simps) (simp add: str_nat_def)
  next
    case False
    then show ?thesis
      using 1 by (subst nat_str.simps) (simp add: str_nat_snoc)
  qed
qed

lemma nat_str_inject [simp]: "nat_str m = nat_str n \<longleftrightarrow> m = n"
  by (metis str_nat_nat_str)

lemma minus_not_digit [simp]: "\<not> is_digit (CHR ''-'')"
  by (simp add: char_class_defs)

lemma nat_str_Cons_minus: "nat_str n \<noteq> CHR ''-'' # s"
  using nat_str_digits [of "CHR ''-''" n] by auto

lemma int_str_inject [simp]: "int_str i = int_str j \<longleftrightarrow> i = j"
  using nat_str_Cons_minus [of "nat i"] nat_str_Cons_minus [of "nat j"]
  by (auto simp: int_str_def) metis

lemma takeWhile_digits:
  "(\<And>c. c \<in> set s \<Longrightarrow> P c) \<Longrightarrow> (r = [] \<or> \<not> P (hd r)) \<Longrightarrow> takeWhile P (s @ r) = s"
  by (cases r) (auto simp: takeWhile_append)

subsection \<open>Hexadecimal rendering of bytes\<close>

definition hex_digit :: "nat \<Rightarrow> char" where
  "hex_digit d = (if d < 10 then char_of (48 + d) else char_of (87 + d))"

definition byte_hex :: "char \<Rightarrow> string" where
  "byte_hex c = [hex_digit (of_char c div 16), hex_digit (of_char c mod 16)]"

definition bytes_hex :: "bytes \<Rightarrow> string" where
  "bytes_hex bs = concat (map byte_hex bs)"

lemma of_char_less_256: "(of_char c :: nat) < 256"
  by (rule nat_of_char_less_256)

lemma of_char_div_16 [simp]: "(of_char c :: nat) div 16 < 16"
  using of_char_less_256 [of c] by (simp only: less_mult_imp_div_less)

lemma hex_digit_inject: "a < 16 \<Longrightarrow> b < 16 \<Longrightarrow> hex_digit a = hex_digit b \<longleftrightarrow> a = b"
  by (auto simp: hex_digit_def dest!: arg_cong [where f = "of_char :: char \<Rightarrow> nat"] split: if_splits)

lemma is_lower_hex_hex_digit [simp]: "d < 16 \<Longrightarrow> is_lower_hex (hex_digit d)"
  by (auto simp: hex_digit_def char_class_defs)

lemma byte_hex_inject: "byte_hex a = byte_hex b \<longleftrightarrow> a = b"
proof
  assume "byte_hex a = byte_hex b"
  then have "(of_char a :: nat) div 16 = of_char b div 16"
    "(of_char a :: nat) mod 16 = of_char b mod 16"
    by (auto simp: byte_hex_def hex_digit_inject)
  then have "(of_char a :: nat) = of_char b" by (metis div_mult_mod_eq)
  then show "a = b" by simp
qed simp

lemma length_byte_hex [simp]: "length (byte_hex c) = 2"
  by (simp add: byte_hex_def)

lemma byte_hex_append [simp]: "byte_hex a @ r = byte_hex b @ s \<longleftrightarrow> a = b \<and> r = s"
  by (simp add: append_eq_append_conv byte_hex_inject)

lemma length_bytes_hex [simp]: "length (bytes_hex bs) = 2 * length bs"
  by (induction bs) (simp_all add: bytes_hex_def)

lemma bytes_hex_Nil [simp]: "bytes_hex [] = []"
  and bytes_hex_Cons [simp]: "bytes_hex (b # bs) = byte_hex b @ bytes_hex bs"
  by (simp_all add: bytes_hex_def)

lemma bytes_hex_inject [simp]: "bytes_hex xs = bytes_hex ys \<longleftrightarrow> xs = ys"
proof
  assume "bytes_hex xs = bytes_hex ys"
  then show "xs = ys"
  proof (induction xs arbitrary: ys)
    case Nil
    then show ?case by (cases ys) (simp_all add: byte_hex_def)
  next
    case (Cons x xs)
    then obtain y zs where ys: "ys = y # zs"
      by (cases ys) (simp_all add: byte_hex_def)
    with Cons.prems have "byte_hex x = byte_hex y \<and> bytes_hex xs = bytes_hex zs"
      by (simp add: append_eq_append_conv)
    with Cons.IH ys show ?case by (simp add: byte_hex_inject)
  qed
qed simp

lemma bytes_hex_lower_hex: "c \<in> set (bytes_hex bs) \<Longrightarrow> is_lower_hex c"
proof (induction bs)
  case (Cons b bs)
  then show ?case by (auto simp: byte_hex_def)
qed simp

subsection \<open>Big-endian integers: \<open>int.to_bytes(width, "big")\<close>\<close>

fun be_bytes :: "nat \<Rightarrow> nat \<Rightarrow> bytes" where
  "be_bytes 0 n = []"
| "be_bytes (Suc w) n = be_bytes w (n div 256) @ [char_of (n mod 256)]"

definition to_bytes_big :: "nat \<Rightarrow> nat \<Rightarrow> bytes result" where
  "to_bytes_big w n = (if n < 256 ^ w then Inr (be_bytes w n) else Inl OverflowError)"

lemma length_be_bytes [simp]: "length (be_bytes w n) = w"
  by (induction w arbitrary: n) auto

lemma be_bytes_inject: "m < 256 ^ w \<Longrightarrow> n < 256 ^ w \<Longrightarrow> be_bytes w m = be_bytes w n \<longleftrightarrow> m = n"
proof (induction w arbitrary: m n)
  case (Suc w)
  have "m div 256 < 256 ^ w" "n div 256 < 256 ^ w"
    using Suc.prems by (simp_all add: less_mult_imp_div_less mult.commute)
  note IH = Suc.IH [OF this]
  show ?case
  proof
    assume "be_bytes (Suc w) m = be_bytes (Suc w) n"
    then have "m div 256 = n div 256"
      "(of_char (char_of (m mod 256)) :: nat) = of_char (char_of (n mod 256))"
      using IH by auto
    then show "m = n" by simp (metis div_mult_mod_eq)
  qed simp
qed simp

section \<open>Dictionaries in insertion order\<close>

text \<open>
  A Python \<open>dict\<close> keeps insertion order; it is an association list whose keys are
  distinct. \<open>AList.update\<close> is \<open>d[k] = v\<close>: it overwrites in place or appends.
\<close>

type_synonym ('k, 'v) dict = "('k \<times> 'v) list"

definition keys :: "('k, 'v) dict \<Rightarrow> 'k list" where
  "keys d = map fst d"

definition dict_values :: "('k, 'v) dict \<Rightarrow> 'v list" where
  "dict_values d = map snd d"

definition wf_dict :: "('k, 'v) dict \<Rightarrow> bool" where
  "wf_dict d \<longleftrightarrow> distinct (keys d)"

text \<open>\<open>defaultdict(list)[k].append(v)\<close> and \<open>setdefault(k, []).append(v)\<close>.\<close>

definition dict_append :: "'k \<Rightarrow> 'v \<Rightarrow> ('k, 'v list) dict \<Rightarrow> ('k, 'v list) dict" where
  "dict_append k v d = AList.update k ((case map_of d k of None \<Rightarrow> [] | Some vs \<Rightarrow> vs) @ [v]) d"

definition group_by :: "('a \<Rightarrow> 'k) \<Rightarrow> 'a list \<Rightarrow> ('k, 'a list) dict" where
  "group_by f xs = foldl (\<lambda>d x. dict_append (f x) x d) [] xs"

lemma update_new_key: "k \<notin> set (keys d) \<Longrightarrow> AList.update k v d = d @ [(k, v)]"
  by (induction d) (auto simp: keys_def)

lemma set_keys_update [simp]: "set (keys (AList.update k v d)) = insert k (set (keys d))"
  by (simp add: keys_def dom_update)

lemma wf_dict_Nil [simp]: "wf_dict []"
  by (simp add: wf_dict_def keys_def)

lemma wf_dict_update [simp]: "wf_dict d \<Longrightarrow> wf_dict (AList.update k v d)"
  unfolding wf_dict_def keys_def by (rule distinct_update)

lemma map_of_dict_append:
  "map_of (dict_append k v d) k' =
     (if k' = k then Some ((case map_of d k of None \<Rightarrow> [] | Some vs \<Rightarrow> vs) @ [v]) else map_of d k')"
  by (simp add: dict_append_def update_conv')

lemma wf_dict_append [simp]: "wf_dict d \<Longrightarrow> wf_dict (dict_append k v d)"
  by (simp add: dict_append_def)

lemma group_by_snoc: "group_by f (xs @ [x]) = dict_append (f x) x (group_by f xs)"
  by (simp add: group_by_def)

lemma wf_group_by [simp]: "wf_dict (group_by f xs)"
proof (induction xs rule: rev_induct)
  case Nil
  then show ?case by (simp add: group_by_def)
next
  case (snoc x xs)
  then show ?case by (simp add: group_by_snoc)
qed

lemma map_of_group_by:
  "map_of (group_by f xs) k =
     (if k \<in> f ` set xs then Some (filter (\<lambda>x. f x = k) xs) else None)"
proof (induction xs rule: rev_induct)
  case Nil
  then show ?case by (simp add: group_by_def)
next
  case (snoc x xs)
  show ?case
  proof (cases "f x = k")
    case True
    show ?thesis
    proof (cases "k \<in> f ` set xs")
      case False
      then have "filter (\<lambda>x. f x = k) xs = []" by (auto simp: filter_empty_conv)
      with False True snoc show ?thesis by (simp add: group_by_snoc map_of_dict_append)
    qed (use True snoc in \<open>simp add: group_by_snoc map_of_dict_append\<close>)
  next
    case False
    with snoc show ?thesis by (auto simp: group_by_snoc map_of_dict_append)
  qed
qed

lemma group_by_entry:
  "(k, ys) \<in> set (group_by f xs) \<Longrightarrow> k \<in> f ` set xs \<and> ys = filter (\<lambda>x. f x = k) xs"
proof -
  assume "(k, ys) \<in> set (group_by f xs)"
  moreover have "distinct (map fst (group_by f xs))"
    using wf_group_by [of f xs] by (simp add: wf_dict_def keys_def)
  ultimately have "map_of (group_by f xs) k = Some ys" by (simp add: map_of_is_SomeI)
  then show ?thesis by (auto simp: map_of_group_by split: if_splits)
qed

lemma set_keys_group_by [simp]: "set (keys (group_by f xs)) = f ` set xs"
proof -
  have "set (keys (group_by f xs)) = dom (map_of (group_by f xs))"
    by (simp add: keys_def dom_map_of_conv_image_fst)
  also have "\<dots> = f ` set xs" by (auto simp: map_of_group_by dom_def)
  finally show ?thesis .
qed

lemma distinct_keys_group_by [simp]: "distinct (keys (group_by f xs))"
  using wf_group_by [of f xs] by (simp add: wf_dict_def)

lemma group_by_entry_nonempty: "(k, ys) \<in> set (group_by f xs) \<Longrightarrow> ys \<noteq> []"
  by (drule group_by_entry) (auto simp: filter_empty_conv)

lemma group_by_entry_member:
  "(k, ys) \<in> set (group_by f xs) \<Longrightarrow> y \<in> set ys \<Longrightarrow> y \<in> set xs \<and> f y = k"
  by (drule group_by_entry) auto

lemma mset_dict_append:
  "wf_dict d \<Longrightarrow> mset (concat (dict_values (dict_append k v d))) = add_mset v (mset (concat (dict_values d)))"
proof (induction d)
  case (Cons e d)
  then have "wf_dict d" "fst e \<notin> set (keys d)" by (simp_all add: wf_dict_def keys_def)
  then have "map_of d (fst e) = None" by (simp add: keys_def map_of_eq_None_iff)
  with Cons.IH [OF \<open>wf_dict d\<close>] show ?case by (cases e) (auto simp: dict_append_def dict_values_def)
qed (simp add: dict_append_def dict_values_def)

lemma mset_group_by: "mset (concat (dict_values (group_by f xs))) = mset xs"
  by (induction xs rule: rev_induct) (simp_all add: group_by_snoc mset_dict_append, simp add: group_by_def dict_values_def)

lemma wf_dict_map_of: "wf_dict d \<Longrightarrow> (k, v) \<in> set d \<Longrightarrow> map_of d k = Some v"
  by (simp add: wf_dict_def keys_def)

section \<open>Lists\<close>

lemma sum_list_group_by:
  fixes g :: "'a \<Rightarrow> 'b::comm_monoid_add"
  shows "sum_list (map (\<lambda>(k, ys). sum_list (map g ys)) (group_by f xs)) = sum_list (map g xs)"
proof -
  let ?d = "group_by f xs"
  have "sum_list (map (\<lambda>(k, ys). sum_list (map g ys)) ?d) =
      sum_list (map (\<lambda>k. sum_list (map g (filter (\<lambda>x. f x = k) xs))) (keys ?d))"
    by (auto simp: keys_def comp_def dest!: group_by_entry intro!: arg_cong [where f = sum_list] map_cong)
  also have "\<dots> = (\<Sum>k \<in> f ` set xs. sum_list (map g (filter (\<lambda>x. f x = k) xs)))"
    by (metis distinct_keys_group_by set_keys_group_by sum_list_distinct_conv_sum_set)
  also have "\<dots> = sum_list (map g xs)"
  proof (induction xs)
    case (Cons x xs)
    have "(\<Sum>k \<in> f ` set (x # xs). sum_list (map g (filter (\<lambda>y. f y = k) (x # xs)))) =
        (\<Sum>k \<in> insert (f x) (f ` set xs).
          (if k = f x then g x else 0) + sum_list (map g (filter (\<lambda>y. f y = k) xs)))"
      by (auto intro!: sum.cong)
    also have "\<dots> = g x + (\<Sum>k \<in> insert (f x) (f ` set xs). sum_list (map g (filter (\<lambda>y. f y = k) xs)))"
      by (simp add: sum.distrib)
    also have "(\<Sum>k \<in> insert (f x) (f ` set xs). sum_list (map g (filter (\<lambda>y. f y = k) xs))) =
        (\<Sum>k \<in> f ` set xs. sum_list (map g (filter (\<lambda>y. f y = k) xs)))"
    proof (cases "f x \<in> f ` set xs")
      case False
      then have "filter (\<lambda>y. f y = f x) xs = []" by (auto simp: filter_empty_conv image_iff)
      with False show ?thesis by simp
    qed (simp add: insert_absorb)
    finally show ?case using Cons.IH by simp
  qed simp
  finally show ?thesis .
qed

lemma sorted_list_insort_hd: "sorted xs \<Longrightarrow> x \<in> set xs \<Longrightarrow> hd xs \<le> x"
  by (cases xs) auto

lemma sort_mset_eqI: "mset xs = mset ys \<Longrightarrow> sort xs = sort (ys :: 'a::linorder list)"
  by (simp add: properties_for_sort)

lemma sort_eq_iff_mset: "sort xs = sort (ys :: 'a::linorder list) \<longleftrightarrow> mset xs = mset ys"
  by (metis mset_sort sort_mset_eqI)

lemma distinct_length_card: "length xs = card (set xs) \<longleftrightarrow> distinct xs"
  using card_distinct distinct_card by metis

end
