(* ===== verification/PyFloat.thy ===== *)
theory PyFloat
  imports Complex_Main Prelude
begin

text \<open>
  Python floats. A finite float is modelled by the real number it denotes and every
  arithmetic operation rounds its exact result to 53 significant bits, ties to even, as
  IEEE-754 double arithmetic does (\<open>fl\<close>). \<open>fl\<close> has no exponent range; \<open>dbl\<close> adds subnormals and
  underflow, and \<open>Doubles\<close> adds overflow. \<open>math.fsum\<close> rounds the exact sum once (of doubles it
  never underflows, so \<open>fl\<close> is exact there); \<open>math.log2\<close>,
  \<open>math.exp\<close>, \<open>math.log\<close>, \<open>math.log1p\<close>, \<open>math.sqrt\<close> and \<open>**\<close> are taken as correctly
  rounded. A float that comes from outside may also be an infinity or a NaN (\<open>pyfloat\<close>).

  The locale \<open>rounding\<close> states what the clients need of a rounding (monotone,
  idempotent, odd, exact at 1, relative error); \<open>fl\<close> is shown to provide it.
\<close>

section \<open>The interface of a monotone rounding\<close>

text \<open>What \<open>fl\<close> and \<open>dbl\<close> have in common; only \<open>fl\<close> has a relative error.\<close>

locale monotone_rounding =
  fixes rnd :: "real \<Rightarrow> real"
  assumes mono: "x \<le> y \<Longrightarrow> rnd x \<le> rnd y"
    and idem: "rnd (rnd x) = rnd x"
    and minus: "rnd (- x) = - rnd x"
    and one: "rnd 1 = 1"
begin

lemma zero: "rnd 0 = 0"
  using minus [of 0] by simp

lemma nonneg: "0 \<le> x \<Longrightarrow> 0 \<le> rnd x"
  using mono [of 0 x] by (simp add: zero)

lemma nonpos: "x \<le> 0 \<Longrightarrow> rnd x \<le> 0"
  using mono [of x 0] by (simp add: zero)

lemma le_one: "x \<le> 1 \<Longrightarrow> rnd x \<le> 1"
  using mono [of x 1] by (simp add: one)

lemma ge_one: "1 \<le> x \<Longrightarrow> 1 \<le> rnd x"
  using mono [of 1 x] by (simp add: one)

lemma upper: "x \<le> y \<Longrightarrow> rnd y = y \<Longrightarrow> rnd x \<le> y"
  using mono [of x y] by simp

lemma lower: "y \<le> x \<Longrightarrow> rnd y = y \<Longrightarrow> y \<le> rnd x"
  using mono [of y x] by simp

lemma pos_arg: "0 < rnd x \<Longrightarrow> 0 < x"
  using nonpos [of x] by linarith

lemma bound: "\<bar>x\<bar> \<le> y \<Longrightarrow> rnd y = y \<Longrightarrow> \<bar>rnd x\<bar> \<le> y"
  using upper [of x y] lower [of "- y" x] by (simp add: minus abs_le_iff)

end

section \<open>The interface of a rounding\<close>

locale rounding =
  fixes rnd :: "real \<Rightarrow> real"
  assumes rnd_mono: "x \<le> y \<Longrightarrow> rnd x \<le> rnd y"
    and rnd_idem: "rnd (rnd x) = rnd x"
    and rnd_minus: "rnd (- x) = - rnd x"
    and rnd_one: "rnd 1 = 1"
    and rnd_error: "\<bar>rnd x - x\<bar> \<le> \<bar>x\<bar> / 2 ^ 53"
begin

lemma rnd_zero: "rnd 0 = 0"
  using rnd_error [of 0] by simp

lemma rnd_nonneg: "0 \<le> x \<Longrightarrow> 0 \<le> rnd x"
  using rnd_mono [of 0 x] by (simp add: rnd_zero)

lemma rnd_nonpos: "x \<le> 0 \<Longrightarrow> rnd x \<le> 0"
  using rnd_mono [of x 0] by (simp add: rnd_zero)

lemma rnd_le_one: "x \<le> 1 \<Longrightarrow> rnd x \<le> 1"
  using rnd_mono [of x 1] by (simp add: rnd_one)

lemma rnd_ge_one: "1 \<le> x \<Longrightarrow> 1 \<le> rnd x"
  using rnd_mono [of 1 x] by (simp add: rnd_one)

lemma rnd_ge_minus_one: "- 1 \<le> x \<Longrightarrow> - 1 \<le> rnd x"
  using rnd_mono [of "- 1" x] by (simp add: rnd_minus rnd_one)

lemma rnd_upper: "rnd x \<le> y" if "x \<le> y" "rnd y = y"
  using rnd_mono [OF that(1)] that(2) by simp

lemma rnd_lower: "y \<le> rnd x" if "y \<le> x" "rnd y = y"
  using rnd_mono [OF that(1)] that(2) by simp

lemma rnd_positive: "0 < x \<Longrightarrow> 0 < rnd x"
proof -
  assume x: "0 < x"
  have "x - rnd x \<le> \<bar>x\<bar> / 2 ^ 53" using rnd_error [of x] by linarith
  also have "\<dots> < x" using x by simp
  finally show "0 < rnd x" by simp
qed

lemma rnd_negative: "x < 0 \<Longrightarrow> rnd x < 0"
  using rnd_positive [of "- x"] by (simp add: rnd_minus)

lemma rnd_pos_iff: "0 < rnd x \<longleftrightarrow> 0 < x"
  using rnd_positive rnd_nonpos not_le by metis

lemma rnd_eq_zero_iff: "rnd x = 0 \<longleftrightarrow> x = 0"
  using rnd_positive [of x] rnd_negative [of x] by (cases x "0 :: real" rule: linorder_cases) (auto simp: rnd_zero)

lemma rnd_le_of_rnd_le: "x \<le> y \<Longrightarrow> rnd x \<le> rnd y"
  by (rule rnd_mono)

lemmas rnd_bounds = rnd_nonneg rnd_nonpos rnd_le_one rnd_ge_one rnd_ge_minus_one

end

sublocale rounding \<subseteq> monotone_rounding rnd
  by unfold_locales (rule rnd_mono rnd_idem rnd_minus rnd_one; assumption?)+

section \<open>Rounding to 53 bits, ties to even\<close>

definition rne :: "real \<Rightarrow> int" where
  "rne y = (let f = \<lfloor>y\<rfloor>; d = y - of_int f in
     if d < 1 / 2 then f else if 1 / 2 < d then f + 1 else if even f then f else f + 1)"

definition fl :: "real \<Rightarrow> real" where
  "fl x = (if x = 0 then 0
     else (let e = \<lfloor>log 2 \<bar>x\<bar>\<rfloor> - 52 in of_int (rne (x / 2 powr of_int e)) * 2 powr of_int e))"

lemma rne_of_int [simp]: "rne (of_int i) = i"
  by (simp add: rne_def Let_def)

lemma rne_error: "\<bar>of_int (rne y) - y\<bar> \<le> 1 / 2"
proof -
  define f where "f = \<lfloor>y\<rfloor>"
  have "of_int f \<le> y" "y < of_int f + 1" unfolding f_def by linarith+
  then show ?thesis by (auto simp: rne_def Let_def abs_if simp flip: f_def)
qed

lemma rne_mono: "x \<le> y \<Longrightarrow> rne x \<le> rne y"
proof (rule ccontr)
  assume le: "x \<le> y" and "\<not> rne x \<le> rne y"
  then have gt: "rne y + 1 \<le> rne x" by simp
  have a: "of_int (rne x) \<le> x + 1 / 2" "y - 1 / 2 \<le> of_int (rne y)"
    using rne_error [of x] rne_error [of y] by linarith+
  with gt le have "y = x" by linarith
  with gt show False by simp
qed

lemma rne_minus: "rne (- y) = - rne y"
proof (cases "of_int \<lfloor>y\<rfloor> = y")
  case True
  then have "rne y = \<lfloor>y\<rfloor>" "rne (- y) = - \<lfloor>y\<rfloor>"
    by (metis rne_of_int, metis of_int_minus rne_of_int)
  then show ?thesis by simp
next
  case False
  then have f: "\<lfloor>- y\<rfloor> = - \<lfloor>y\<rfloor> - 1" by linarith
  have d: "- y - of_int \<lfloor>- y\<rfloor> = 1 - (y - of_int \<lfloor>y\<rfloor>)" using f by simp
  show ?thesis
    unfolding rne_def Let_def d using f by auto
qed

text \<open>Within a binade the scaled argument lies between \<open>2^52\<close> and \<open>2^53\<close>.\<close>

lemma fl_binade:
  fixes x :: real
  assumes "0 < x"
  defines "e \<equiv> \<lfloor>log 2 x\<rfloor> - 52"
  shows "2 powr 52 \<le> x / 2 powr of_int e" and "x / 2 powr of_int e < 2 powr 53"
proof -
  have l: "of_int e + 52 \<le> log 2 x" "log 2 x < of_int e + 53"
    unfolding e_def by linarith+
  have "2 powr (of_int e + 52) \<le> x" "x < 2 powr (of_int e + 53)"
    using l assms(1) by (simp_all add: le_log_iff log_less_iff)
  then show "2 powr 52 \<le> x / 2 powr of_int e" "x / 2 powr of_int e < 2 powr 53"
    by (simp_all add: powr_add field_simps)
qed

lemma fl_pos_eq:
  "0 < x \<Longrightarrow> fl x = of_int (rne (x / 2 powr of_int (\<lfloor>log 2 x\<rfloor> - 52))) * 2 powr of_int (\<lfloor>log 2 x\<rfloor> - 52)"
  by (simp add: fl_def Let_def)

lemma fl_minus: "fl (- x) = - fl x"
  by (simp add: fl_def Let_def rne_minus)

lemma fl_error_pos:
  assumes "0 < x"
  shows "\<bar>fl x - x\<bar> \<le> x / 2 ^ 53"
proof -
  define e where "e = \<lfloor>log 2 x\<rfloor> - 52"
  define s :: real where "s = 2 powr of_int e"
  have s: "0 < s" by (simp add: s_def)
  have "2 powr 52 \<le> x / s" using fl_binade(1) [OF assms] by (simp add: e_def s_def)
  then have "s * 2 ^ 52 \<le> x" using s by (simp add: field_simps powr_numeral)
  then have half: "s / 2 \<le> x / 2 ^ 53" by simp
  have "fl x - x = (of_int (rne (x / s)) - x / s) * s"
    using assms s by (simp add: fl_pos_eq e_def s_def algebra_simps)
  then have "\<bar>fl x - x\<bar> = \<bar>of_int (rne (x / s)) - x / s\<bar> * s"
    using s by (simp add: abs_mult)
  also have "\<dots> \<le> (1 / 2) * s"
    using rne_error s by (intro mult_right_mono) auto
  finally show ?thesis using half by simp
qed

lemma fl_error: "\<bar>fl x - x\<bar> \<le> \<bar>x\<bar> / 2 ^ 53"
proof (cases x "0 :: real" rule: linorder_cases)
  case less
  then have "\<bar>fl (- x) - (- x)\<bar> \<le> (- x) / 2 ^ 53" by (intro fl_error_pos) simp
  then have "\<bar>- (fl x - x)\<bar> \<le> (- x) / 2 ^ 53" by (simp only: fl_minus)
  with less show ?thesis by simp
next
  case equal
  then show ?thesis by (simp add: fl_def)
next
  case greater
  with fl_error_pos show ?thesis by simp
qed

text \<open>An integer multiple of a power of two with at most 53 bits is a float.\<close>

lemma fl_exact_powr:
  assumes "x = of_int m * 2 powr of_int k" and "\<bar>m\<bar> \<le> 2 ^ 53"
  shows "fl x = x"
proof (cases "m = 0")
  case True
  with assms show ?thesis by (simp add: fl_def)
next
  case False
  define e where "e = \<lfloor>log 2 \<bar>x\<bar>\<rfloor> - 52"
  have ax: "\<bar>x\<bar> = of_int \<bar>m\<bar> * 2 powr of_int k" using assms(1) by (simp add: abs_mult)
  then have pos: "0 < \<bar>x\<bar>" using False by simp
  have "log 2 \<bar>x\<bar> = log 2 (of_int \<bar>m\<bar>) + of_int k"
    using False ax by (simp add: log_mult log_powr)
  moreover have "log 2 (of_int \<bar>m\<bar>) \<le> 53"
  proof -
    have "log 2 (of_int \<bar>m\<bar>) \<le> log 2 (2 ^ 53 :: real)"
      using False assms(2) by (subst log_le_cancel_iff) (simp_all flip: of_int_abs of_int_power_le_of_int_cancel_iff)
    then show ?thesis by (simp only: log_nat_power) simp
  qed
  ultimately have "log 2 \<bar>x\<bar> \<le> of_int (k + 53)" by simp
  show ?thesis
  proof (cases "log 2 \<bar>x\<bar> = of_int (k + 53)")
    case True
    then have e: "e = k + 1" by (simp add: e_def)
    have "\<bar>x\<bar> = 2 powr of_int (k + 53)" using powr_log_cancel [of 2 "\<bar>x\<bar>"] pos True by simp
    then have "of_int \<bar>m\<bar> = (2 powr 53 :: real)" using ax by (simp add: powr_add)
    then have "of_int \<bar>m\<bar> = (of_int (2 ^ 53) :: real)" by simp
    then have "\<bar>m\<bar> = 2 ^ 53" by (simp only: of_int_eq_iff)
    then have "m = 2 * (sgn m * 2 ^ 52)" by (auto simp: sgn_if split: if_splits)
    then obtain n where m: "m = 2 * n" by blast
    have "x / 2 powr of_int e = of_int n"
      using m assms(1) e by (simp add: powr_add)
    moreover have "x \<noteq> 0" using pos by simp
    ultimately have "fl x = of_int n * 2 powr of_int e" by (simp add: fl_def Let_def flip: e_def)
    also have "\<dots> = x" using m assms(1) e by (simp add: powr_add)
    finally show ?thesis .
  next
    case False
    with \<open>log 2 \<bar>x\<bar> \<le> of_int (k + 53)\<close> have "log 2 \<bar>x\<bar> < of_int (k + 53)" by simp
    then have "e \<le> k" unfolding e_def by linarith
    then obtain j where j: "k = e + int j" by (metis zle_iff_zadd)
    have "x / 2 powr of_int e = of_int (m * 2 ^ j)"
      using assms(1) j by (simp add: powr_add powr_realpow)
    moreover have "x \<noteq> 0" using pos by simp
    ultimately have "fl x = of_int (m * 2 ^ j) * 2 powr of_int e"
      by (simp only: fl_def Let_def e_def [symmetric] rne_of_int if_False)
    also have "\<dots> = x" using assms(1) j by (simp add: powr_add powr_realpow)
    finally show ?thesis .
  qed
qed

lemma fl_is_float:
  "\<exists>m k. fl x = of_int m * 2 powr of_int k \<and> \<bar>m\<bar> \<le> 2 ^ 53"
proof (cases "x = 0")
  case True
  then show ?thesis by (intro exI [of _ 0]) (simp add: fl_def)
next
  case False
  define e where "e = \<lfloor>log 2 \<bar>x\<bar>\<rfloor> - 52"
  have pos: "0 < \<bar>x\<bar>" using False by simp
  have "\<bar>x\<bar> / 2 powr of_int e < 2 powr 53" using fl_binade(2) [OF pos] by (simp add: e_def)
  then have "\<bar>x / 2 powr of_int e\<bar> \<le> of_int (2 ^ 53)"
    unfolding abs_divide by simp
  then have "x / 2 powr of_int e \<le> of_int (2 ^ 53)" "of_int (- (2 ^ 53)) \<le> x / 2 powr of_int e"
    unfolding abs_le_iff by simp_all
  note this [THEN rne_mono]
  then have "\<bar>rne (x / 2 powr of_int e)\<bar> \<le> 2 ^ 53" by (simp only: rne_of_int)
  moreover have "fl x = of_int (rne (x / 2 powr of_int e)) * 2 powr of_int e"
    using False by (simp add: fl_def Let_def e_def)
  ultimately show ?thesis by blast
qed

lemma fl_idem: "fl (fl x) = fl x"
  using fl_is_float [of x] fl_exact_powr by blast

lemma fl_one: "fl 1 = 1"
  using fl_exact_powr [of 1 1 0] by simp

lemma fl_powr: "fl (2 powr of_int k) = 2 powr of_int k"
  using fl_exact_powr [of _ 1 k] by simp

lemma fl_mono_pos:
  assumes "0 < x" "x \<le> y"
  shows "fl x \<le> fl y"
proof -
  define a b where "a = \<lfloor>log 2 x\<rfloor> - 52" and "b = \<lfloor>log 2 y\<rfloor> - 52"
  have y: "0 < y" using assms by simp
  have "log 2 x \<le> log 2 y" using assms y by simp
  then have ab: "a \<le> b" unfolding a_def b_def by (simp add: floor_mono)
  show ?thesis
  proof (cases "a = b")
    case True
    have "x / 2 powr of_int a \<le> y / 2 powr of_int a" using assms by (intro divide_right_mono) auto
    then have "rne (x / 2 powr of_int a) \<le> rne (y / 2 powr of_int a)" by (rule rne_mono)
    then show ?thesis using assms y True
      by (simp add: fl_pos_eq mult_right_mono flip: a_def b_def)
  next
    case False
    with ab have ab': "a + 1 \<le> b" by simp
    have "rne (x / 2 powr of_int a) \<le> rne (of_int (2 ^ 53))"
      using fl_binade(2) [OF assms(1)] by (intro rne_mono) (simp add: a_def)
    then have "of_int (rne (x / 2 powr of_int a)) \<le> (of_int (2 ^ 53) :: real)"
      by (simp only: rne_of_int of_int_le_iff)
    then have "fl x \<le> of_int (2 ^ 53) * 2 powr of_int a"
      using assms(1) by (simp only: fl_pos_eq a_def [symmetric]) (simp add: mult_right_mono)
    also have "\<dots> = 2 powr of_int (a + 53)" by (simp add: powr_add)
    also have "\<dots> \<le> 2 powr of_int (b + 52)" using ab' by (intro powr_mono) auto
    also have "\<dots> = of_int (2 ^ 52) * 2 powr of_int b" by (simp add: powr_add)
    also have "\<dots> \<le> fl y"
    proof -
      have "rne (of_int (2 ^ 52)) \<le> rne (y / 2 powr of_int b)"
        using fl_binade(1) [OF y] by (intro rne_mono) (simp add: b_def)
      then have "(of_int (2 ^ 52) :: real) \<le> of_int (rne (y / 2 powr of_int b))"
        by (simp only: rne_of_int of_int_le_iff)
      then show ?thesis
        using y by (simp only: fl_pos_eq b_def [symmetric]) (simp add: mult_right_mono)
    qed
    finally show ?thesis .
  qed
qed

lemma fl_nonneg_aux: "0 \<le> x \<Longrightarrow> 0 \<le> fl x"
proof -
  assume "0 \<le> x"
  moreover have "x - fl x \<le> \<bar>x\<bar> / 2 ^ 53" using fl_error [of x] by linarith
  ultimately show ?thesis by simp
qed

lemma fl_mono: "x \<le> y \<Longrightarrow> fl x \<le> fl y"
proof -
  assume le: "x \<le> y"
  consider "0 < x" | "x \<le> 0" "0 \<le> y" | "y < 0" using le by linarith
  then show ?thesis
  proof cases
    case 2
    then show ?thesis using fl_nonneg_aux [of y] fl_nonneg_aux [of "- x"] by (simp add: fl_minus)
  next
    case 3
    then have "fl (- y) \<le> fl (- x)" using le by (intro fl_mono_pos) auto
    then show ?thesis by (simp add: fl_minus)
  qed (use le fl_mono_pos in auto)
qed

interpretation fl: rounding fl
  by unfold_locales (rule fl_mono fl_idem fl_minus fl_one fl_error; assumption?)+

lemmas fl_zero [simp] = fl.rnd_zero
lemmas fl_one_simp [simp] = fl_one
lemmas fl_idem_simp [simp] = fl_idem

lemma fl_of_int: "\<bar>m\<bar> \<le> 2 ^ 53 \<Longrightarrow> fl (of_int m) = of_int m"
  using fl_exact_powr [of "of_int m" m 0] by simp

lemma fl_of_nat: "n \<le> 2 ^ 53 \<Longrightarrow> fl (of_nat n) = of_nat n"
  using fl_of_int [of "int n"] by simp

lemma fl_dyadic: "x * 2 ^ k = of_int m \<Longrightarrow> \<bar>m\<bar> \<le> 2 ^ 53 \<Longrightarrow> fl x = x"
  using fl_exact_powr [of x m "- int k"] by (simp add: powr_minus powr_realpow field_simps)

text \<open>Evaluating a rounding, and scaling by a power of two.\<close>

lemma fl_eval:
  assumes "x * 2 ^ k = y" "2 ^ 52 \<le> y" "y < 2 ^ 53"
  shows "fl x = of_int (rne y) / 2 ^ k"
proof -
  have x: "x = y / 2 ^ k" using assms(1) by (simp add: field_simps)
  with assms(2) have "0 < x" by simp
  note x = x this
  have "log 2 x = log 2 y - real k"
    using assms(2) x by (simp add: log_divide log_nat_power)
  moreover have "52 \<le> log 2 y" "log 2 y < 53"
    using assms(2,3) by (simp_all add: le_log_iff log_less_iff powr_realpow)
  ultimately have "\<lfloor>log 2 x\<rfloor> - 52 = - int k" by linarith
  then have "fl x = of_int (rne (x / 2 powr of_int (- int k))) * 2 powr of_int (- int k)"
    using fl_pos_eq [OF x(2)] by simp
  also have "2 powr real_of_int (- int k) = 1 / 2 ^ k" by (simp add: powr_minus powr_realpow inverse_eq_divide)
  finally show ?thesis using assms(1) by simp
qed

lemma rne_nearest: "\<bar>y - of_int m\<bar> < 1 / 2 \<or> \<bar>y - of_int m\<bar> = 1 / 2 \<and> even m \<Longrightarrow> rne y = m"
proof -
  assume a: "\<bar>y - of_int m\<bar> < 1 / 2 \<or> \<bar>y - of_int m\<bar> = 1 / 2 \<and> even m"
  define f where "f = \<lfloor>y\<rfloor>"
  have f: "of_int f \<le> y" "y < of_int f + 1" unfolding f_def by linarith+
  with a have "f = m \<or> f + 1 = m" by linarith
  then show ?thesis
  proof
    assume "f = m"
    then show ?thesis using a f by (auto simp: rne_def Let_def simp flip: f_def)
  next
    assume m: "f + 1 = m"
    then have "real_of_int m = of_int f + 1" "even m \<longleftrightarrow> odd f" by auto
    with a f show ?thesis by (auto simp: rne_def Let_def simp flip: f_def)
  qed
qed

lemma fl_nearest:
  assumes "2 ^ 52 \<le> x * 2 ^ k" "x * 2 ^ k < 2 ^ 53"
    and "\<bar>x * 2 ^ k - of_int m\<bar> < 1 / 2 \<or> \<bar>x * 2 ^ k - of_int m\<bar> = 1 / 2 \<and> even m"
  shows "fl x = of_int m / 2 ^ k"
  using fl_eval [OF refl assms(1,2)] rne_nearest [OF assms(3)] by simp

lemma fl_scale: "fl (2 powr of_int k * x) = 2 powr of_int k * fl x"
proof (cases "x = 0")
  case False
  let ?e = "\<lfloor>log 2 \<bar>x\<bar>\<rfloor> - 52"
  have "log 2 \<bar>2 powr of_int k * x\<bar> = of_int k + log 2 \<bar>x\<bar>"
    using False by (simp add: abs_mult log_mult)
  then have e: "\<lfloor>log 2 \<bar>2 powr of_int k * x\<bar>\<rfloor> - 52 = k + ?e" by linarith
  have "(2 powr of_int k * x) / 2 powr of_int (k + ?e) = x / 2 powr of_int ?e"
    by (simp add: powr_add)
  then show ?thesis
    using False by (simp add: fl_def Let_def e) (simp add: powr_add powr_diff)
qed simp

section \<open>Rounding to doubles\<close>

text \<open>The nearest double, subnormals and zero included: \<open>fl\<close> with the gradual underflow of IEEE-754.\<close>

definition min_normal :: real where "min_normal = 2 powr (- 1022)"
definition subnormal_unit :: real where "subnormal_unit = 2 powr (- 1074)"
definition float_bound :: real where "float_bound = 2 powr 1024"

definition dbl :: "real \<Rightarrow> real" where
  "dbl x = (if \<bar>x\<bar> < min_normal then of_int (rne (x / subnormal_unit)) * subnormal_unit else fl x)"

lemma min_normal_pos [simp]: "0 < min_normal" "0 \<le> min_normal" "min_normal \<noteq> 0"
  by (simp_all add: min_normal_def)

lemma min_normal_units: "min_normal = of_int (2 ^ 52) * subnormal_unit"
proof -
  have "(of_int (2 ^ 52) :: real) = 2 powr 52" by (simp add: powr_numeral)
  then show ?thesis by (simp only: min_normal_def subnormal_unit_def powr_add [symmetric]) simp
qed

lemma fl_min_normal: "fl min_normal = min_normal"
  using fl_powr [of "- 1022"] by (simp add: min_normal_def)

lemma dbl_normal: "min_normal \<le> \<bar>x\<bar> \<Longrightarrow> dbl x = fl x"
  by (simp add: dbl_def)

lemma dbl_small: "\<bar>x\<bar> < min_normal \<Longrightarrow> dbl x = of_int (rne (x / subnormal_unit)) * subnormal_unit"
  by (simp add: dbl_def)

lemma dbl_minus: "dbl (- x) = - dbl x"
  by (simp add: dbl_def fl_minus rne_minus)

lemma dbl_small_bounds:
  assumes "\<bar>x\<bar> < min_normal"
  shows "\<bar>dbl x\<bar> \<le> min_normal"
proof -
  have u: "0 < subnormal_unit" by (simp add: subnormal_unit_def)
  have "\<bar>x / subnormal_unit\<bar> < of_int (2 ^ 52)"
    using assms u unfolding min_normal_units by (simp add: abs_divide divide_less_eq)
  then have "x / subnormal_unit \<le> of_int (2 ^ 52)" "of_int (- (2 ^ 52)) \<le> x / subnormal_unit"
    unfolding abs_less_iff of_int_minus by linarith+
  note this [THEN rne_mono]
  then have "\<bar>rne (x / subnormal_unit)\<bar> \<le> 2 ^ 52" by (simp only: rne_of_int)
  then have "\<bar>of_int (rne (x / subnormal_unit))\<bar> \<le> (of_int (2 ^ 52) :: real)"
    by (simp only: of_int_abs [symmetric] of_int_le_iff)
  then show ?thesis
    using u unfolding dbl_small [OF assms] min_normal_units by (simp only: abs_mult) (simp add: mult_right_mono)
qed

lemma fl_large_bounds: "min_normal \<le> x \<Longrightarrow> min_normal \<le> fl x"
  using fl_mono [of min_normal x] by (simp add: fl_min_normal)

lemma dbl_mono: "x \<le> y \<Longrightarrow> dbl x \<le> dbl y"
proof -
  assume le: "x \<le> y"
  have small: "dbl x \<le> dbl y" if "\<bar>x\<bar> < min_normal" "\<bar>y\<bar> < min_normal"
    using rne_mono [of "x / subnormal_unit" "y / subnormal_unit"] le
    by (simp add: dbl_small that subnormal_unit_def divide_right_mono)
  have large: "fl (- x) \<ge> min_normal" if "\<not> \<bar>x\<bar> < min_normal" "x < 0" for x
    using that by (intro fl_large_bounds) simp
  consider "\<bar>x\<bar> < min_normal" "\<bar>y\<bar> < min_normal" | "\<bar>x\<bar> < min_normal" "min_normal \<le> y"
    | "x \<le> - min_normal" "\<bar>y\<bar> < min_normal" | "min_normal \<le> \<bar>x\<bar>" "min_normal \<le> \<bar>y\<bar>"
    using le by linarith
  then show ?thesis
  proof cases
    case 2
    have "dbl y = fl y" using 2(2) by (intro dbl_normal) simp
    then show ?thesis using dbl_small_bounds [OF 2(1)] fl_large_bounds [OF 2(2)] by linarith
  next
    case 3
    have "dbl x = fl x" "min_normal \<le> fl (- x)" using 3(1) by (auto intro: dbl_normal fl_large_bounds)
    then show ?thesis using dbl_small_bounds [OF 3(2)] by (simp add: fl_minus)
  next
    case 4
    then show ?thesis using fl_mono [OF le] by (simp add: dbl_normal)
  qed (rule small)
qed

lemma dbl_idem: "dbl (dbl x) = dbl x"
proof (cases "\<bar>x\<bar> < min_normal")
  case True
  let ?k = "rne (x / subnormal_unit)"
  have d: "dbl x = of_int ?k * subnormal_unit" by (rule dbl_small [OF True])
  have u: "subnormal_unit \<noteq> 0" by (simp add: subnormal_unit_def)
  consider "\<bar>dbl x\<bar> < min_normal" | "\<bar>dbl x\<bar> = min_normal" using dbl_small_bounds [OF True] by linarith
  then show ?thesis
  proof cases
    case 1
    have "dbl x / subnormal_unit = of_int ?k" using u by (simp add: d)
    then show ?thesis using dbl_small [OF 1] d by simp
  next
    case 2
    then have "dbl x = min_normal \<or> dbl x = - min_normal" by linarith
    then show ?thesis using fl_min_normal by (auto simp: dbl_normal dbl_minus fl_minus)
  qed
next
  case False
  then have "min_normal \<le> \<bar>fl x\<bar>"
    using fl_large_bounds [of x] fl_large_bounds [of "- x"] by (auto simp: fl_minus abs_if split: if_splits)
  with False show ?thesis by (simp add: dbl_normal)
qed

lemma dbl_one: "dbl 1 = 1"
proof -
  have "min_normal \<le> 2 powr 0" unfolding min_normal_def by (rule powr_mono) simp_all
  then show ?thesis by (simp add: dbl_normal fl_one)
qed

interpretation dbl: monotone_rounding dbl
  by unfold_locales (rule dbl_mono dbl_idem dbl_minus dbl_one; assumption?)+

lemmas dbl_simps [simp] = dbl.zero dbl_one dbl_idem

lemma dbl_eq_fl: "fl x = x \<Longrightarrow> min_normal \<le> \<bar>x\<bar> \<Longrightarrow> dbl x = x"
  by (simp add: dbl_normal)

lemma one_ge_min_normal: "min_normal \<le> 1"
proof -
  have "min_normal \<le> 2 powr 0" unfolding min_normal_def by (rule powr_mono) simp_all
  then show ?thesis by simp
qed

text \<open>Powers of two and integers of the range are doubles.\<close>

lemma dbl_powr: "- 1022 \<le> k \<Longrightarrow> dbl (2 powr of_int k) = 2 powr of_int k"
  by (rule dbl_eq_fl [OF fl_powr]) (simp add: min_normal_def)

lemma dbl_of_int: "\<bar>m\<bar> \<le> 2 ^ 53 \<Longrightarrow> dbl (of_int m) = of_int m"
proof (cases "m = 0")
  case False
  assume m: "\<bar>m\<bar> \<le> 2 ^ 53"
  have "1 \<le> \<bar>real_of_int m\<bar>" using False by linarith
  then show ?thesis using one_ge_min_normal by (intro dbl_eq_fl fl_of_int m) linarith
qed simp

lemma dbl_numeral: "numeral n \<le> (2 ^ 53 :: int) \<Longrightarrow> dbl (numeral n) = numeral n"
  using dbl_of_int [of "numeral n"] by simp

lemma subnormal_unit_pos [simp]: "0 < subnormal_unit" "0 \<le> subnormal_unit" "subnormal_unit \<noteq> 0"
  by (simp_all add: subnormal_unit_def)

lemma dbl_error: "\<bar>dbl x - x\<bar> \<le> \<bar>x\<bar> / 2 ^ 53 + subnormal_unit"
proof (cases "\<bar>x\<bar> < min_normal")
  case True
  let ?q = "x / subnormal_unit"
  have "\<bar>of_int (rne ?q) - ?q\<bar> \<le> 1" using rne_error [of ?q] by linarith
  then have "\<bar>of_int (rne ?q) - ?q\<bar> * subnormal_unit \<le> 1 * subnormal_unit" by (intro mult_right_mono) simp_all
  moreover have "dbl x - x = (of_int (rne ?q) - ?q) * subnormal_unit" by (simp add: dbl_small [OF True] left_diff_distrib)
  ultimately have "\<bar>dbl x - x\<bar> \<le> subnormal_unit" by (simp add: abs_mult)
  moreover have "0 \<le> \<bar>x\<bar> / 2 ^ 53" by simp
  ultimately show ?thesis by linarith
next
  case False
  then have "\<bar>dbl x - x\<bar> \<le> \<bar>x\<bar> / 2 ^ 53" using fl_error [of x] by (simp add: dbl_normal)
  moreover have "0 < subnormal_unit" by simp
  ultimately show ?thesis by linarith
qed

section \<open>Floats that may be special\<close>

datatype pyfloat = Fin real | PosInf | NegInf | NaN

fun isfinite :: "pyfloat \<Rightarrow> bool" where
  "isfinite (Fin _) = True"
| "isfinite _ = False"

fun float_val :: "pyfloat \<Rightarrow> real" where
  "float_val (Fin x) = x"
| "float_val _ = 0"

text \<open>Python's \<open><\<close> on floats: every comparison with a NaN is false.\<close>

fun float_lt :: "pyfloat \<Rightarrow> pyfloat \<Rightarrow> bool" where
  "float_lt NaN _ = False"
| "float_lt _ NaN = False"
| "float_lt (Fin x) (Fin y) = (x < y)"
| "float_lt NegInf y = (y \<noteq> NegInf)"
| "float_lt PosInf _ = False"
| "float_lt (Fin _) PosInf = True"
| "float_lt (Fin _) NegInf = False"

section \<open>\<open>math\<close> and \<open>statistics\<close>\<close>

definition fsum :: "real list \<Rightarrow> real" where
  "fsum xs = fl (sum_list xs)"

definition fmean :: "real list \<Rightarrow> real result" where
  "fmean xs = (if xs = [] then Inl StatisticsError else Inr (dbl (fsum xs / real (length xs))))"

definition median :: "real list \<Rightarrow> real result" where
  "median xs = (let s = sort xs; n = length s in
     if n = 0 then Inl StatisticsError
     else if odd n then Inr (s ! (n div 2))
     else Inr (dbl (fl (s ! (n div 2 - 1) + s ! (n div 2)) / 2)))"

definition isclose :: "real \<Rightarrow> real \<Rightarrow> real \<Rightarrow> bool" where
  "isclose a b abs_tol \<longleftrightarrow> a = b
     \<or> fl \<bar>b - a\<bar> \<le> fl (fl (1 / 10 ^ 9) * \<bar>b\<bar>) \<or> fl \<bar>b - a\<bar> \<le> fl (fl (1 / 10 ^ 9) * \<bar>a\<bar>)
     \<or> fl \<bar>b - a\<bar> \<le> abs_tol"

definition math_log2 :: "real \<Rightarrow> real result" where
  "math_log2 x = (if x \<le> 0 then Inl (ValueError ''math domain error'') else Inr (fl (log 2 x)))"

definition math_log :: "real \<Rightarrow> real result" where
  "math_log x = (if x \<le> 0 then Inl (ValueError ''math domain error'') else Inr (fl (ln x)))"

definition math_exp :: "real \<Rightarrow> real" where
  "math_exp x = fl (exp x)"

definition math_log1p :: "real \<Rightarrow> real result" where
  "math_log1p x = (if x \<le> -1 then Inl (ValueError ''math domain error'') else Inr (fl (ln (1 + x))))"

definition py_div :: "real \<Rightarrow> real \<Rightarrow> real result" where
  "py_div x y = (if y = 0 then Inl ZeroDivisionError else Inr (fl (x / y)))"

lemma py_div_Inr: "py_div x y = Inr z \<longleftrightarrow> y \<noteq> 0 \<and> z = fl (x / y)"
  by (auto simp: py_div_def)

text \<open>Division with gradual underflow, for quotients that stay in the range.\<close>

definition dbl_div :: "real \<Rightarrow> real \<Rightarrow> real result" where
  "dbl_div x y = (if y = 0 then Inl ZeroDivisionError else Inr (dbl (x / y)))"

lemma dbl_div_Inr: "dbl_div x y = Inr z \<longleftrightarrow> y \<noteq> 0 \<and> z = dbl (x / y)"
  by (auto simp: dbl_div_def)

lemma sum_list_bounds:
  assumes "\<And>x. x \<in> set xs \<Longrightarrow> lo \<le> x" "\<And>x. x \<in> set xs \<Longrightarrow> x \<le> (hi :: real)"
  shows "real (length xs) * lo \<le> sum_list xs \<and> sum_list xs \<le> real (length xs) * hi"
  using assms
proof (induction xs)
  case (Cons x xs)
  then have "lo \<le> x" "x \<le> hi"
    "real (length xs) * lo \<le> sum_list xs" "sum_list xs \<le> real (length xs) * hi" by auto
  then show ?case by (simp add: distrib_right)
qed simp

lemma fsum_nonneg: "(\<And>x. x \<in> set xs \<Longrightarrow> 0 \<le> x) \<Longrightarrow> 0 \<le> fsum xs"
  by (simp add: fsum_def fl.rnd_nonneg sum_list_nonneg)

lemma fsum_nonpos: "(\<And>x. x \<in> set xs \<Longrightarrow> x \<le> 0) \<Longrightarrow> fsum xs \<le> 0"
  using sum_list_bounds [of xs "Min (set xs)" 0] sum_list_nonneg [of "map uminus xs"]
  by (cases "xs = []") (auto simp: fsum_def intro!: fl.rnd_nonpos)

lemma fsum_ge_member:
  assumes "x \<in> set xs" "\<And>y. y \<in> set xs \<Longrightarrow> 0 \<le> y" "fl x = x"
  shows "x \<le> fsum xs"
proof -
  have "x \<le> sum_list xs" using assms(1,2) by (intro member_le_sum_list) auto
  then show ?thesis unfolding fsum_def by (rule fl.rnd_lower) (rule assms(3))
qed

lemma fsum_pos: "x \<in> set xs \<Longrightarrow> 0 < x \<Longrightarrow> (\<And>y. y \<in> set xs \<Longrightarrow> 0 \<le> y) \<Longrightarrow> 0 < fsum xs"
  unfolding fsum_def by (rule fl.rnd_positive) (rule order_less_le_trans, assumption, rule member_le_sum_list)

lemma fmean_le:
  assumes "fmean xs = Inr m" "\<And>x. x \<in> set xs \<Longrightarrow> x \<le> 0"
  shows "m \<le> 0"
proof -
  have "m = dbl (fsum xs / real (length xs))" using assms(1) by (simp add: fmean_def split: if_splits)
  moreover have "fsum xs \<le> 0" using assms(2) by (rule fsum_nonpos)
  ultimately show ?thesis by (simp add: divide_nonpos_nonneg dbl.nonpos)
qed

lemma fmean_ge:
  assumes "fmean xs = Inr m" "\<And>x. x \<in> set xs \<Longrightarrow> 0 \<le> x"
  shows "0 \<le> m"
proof -
  have "m = dbl (fsum xs / real (length xs))" using assms(1) by (simp add: fmean_def split: if_splits)
  moreover have "0 \<le> fsum xs" using assms(2) by (rule fsum_nonneg)
  ultimately show ?thesis by (simp add: dbl.nonneg)
qed

end
