(* ===== verification/Json.thy ===== *)
theory Json
  imports PyFloat
begin

text \<open>
  The canonical JSON of \<open>planrace/models_v2.py\<close>: Python values that reach
  \<open>canonical_json_bytes\<close>, the check \<open>_assert_canonical_value\<close>, and
  \<open>json.dumps(..., ensure_ascii=False, sort_keys=True, separators=(",", ":"))\<close>.
  The main result is that the rendering is unambiguous: two values with the same bytes
  are equal up to the order of object keys.
\<close>

section \<open>Values\<close>

datatype json =
    JNull
  | JBool bool
  | JInt int
  | JStr string
  | JArr "json list"
  | JObj "(string \<times> json) list"

text \<open>Arbitrary Python values, as far as the sources inspect their types.\<close>

datatype pyval =
    PNone
  | PBool bool
  | PInt int
  | PFloat pyfloat
  | PStr string
  | PBytes bytes
  | PSeq "pyval list" \<comment> \<open>a list or tuple\<close>
  | PMap "(pyval \<times> pyval) list" \<comment> \<open>a mapping\<close>
  | PObj string "(string \<times> pyval) list" \<comment> \<open>another object: type name and attributes\<close>

fun type_name :: "pyval \<Rightarrow> string" where
  "type_name PNone = ''NoneType''"
| "type_name (PBool _) = ''bool''"
| "type_name (PInt _) = ''int''"
| "type_name (PFloat _) = ''float''"
| "type_name (PStr _) = ''str''"
| "type_name (PBytes _) = ''bytes''"
| "type_name (PSeq _) = ''list''"
| "type_name (PMap _) = ''dict''"
| "type_name (PObj t _) = t"

text \<open>\<open>_assert_canonical_value\<close>: the first offending value decides the error.\<close>

fun assert_canonical_value :: "pyval \<Rightarrow> unit result" where
  "assert_canonical_value PNone = Inr ()"
| "assert_canonical_value (PBool _) = Inr ()"
| "assert_canonical_value (PInt _) = Inr ()"
| "assert_canonical_value (PStr _) = Inr ()"
| "assert_canonical_value (PFloat _) =
     Inl (TypeError ''floats are not permitted in PlanRace v2 canonical payloads'')"
| "assert_canonical_value (PSeq xs) = rfold (\<lambda>_ x. assert_canonical_value x) () xs"
| "assert_canonical_value (PMap kvs) = rfold (\<lambda>_ (k, v).
     (case k of PStr _ \<Rightarrow> assert_canonical_value v
      | _ \<Rightarrow> Inl (TypeError ''canonical object keys must be strings''))) () kvs"
| "assert_canonical_value v = Inl (TypeError (''unsupported canonical value type: '' @ type_name v))"

section \<open>\<open>json.dumps\<close>\<close>

definition escape_char :: "char \<Rightarrow> string" where
  "escape_char c =
     (if c = CHR 0x22 then [CHR 0x5C, CHR 0x22]
      else if c = CHR 0x5C then [CHR 0x5C, CHR 0x5C]
      else if c = CHR 0x0A then [CHR 0x5C, CHR ''n'']
      else if c = CHR 0x0D then [CHR 0x5C, CHR ''r'']
      else if c = CHR 0x09 then [CHR 0x5C, CHR ''t'']
      else if c = CHR 0x08 then [CHR 0x5C, CHR ''b'']
      else if c = CHR 0x0C then [CHR 0x5C, CHR ''f'']
      else if (of_char c :: nat) < 32 then [CHR 0x5C, CHR ''u'', CHR ''0'', CHR ''0''] @ byte_hex c
      else [c])"

definition render_str :: "string \<Rightarrow> string" where
  "render_str s = CHR 0x22 # concat (map escape_char s) @ [CHR 0x22]"

text \<open>Rendering in the order given; \<open>sort_keys\<close> is the separate pass \<open>canon\<close>.\<close>

fun render :: "json \<Rightarrow> string" where
  "render JNull = ''null''"
| "render (JBool b) = (if b then ''true'' else ''false'')"
| "render (JInt i) = int_str i"
| "render (JStr s) = render_str s"
| "render (JArr xs) = ''['' @ join '','' (map render xs) @ '']''"
| "render (JObj kvs) = ''{'' @ join '','' (map (\<lambda>(k, v). render_str k @ '':'' @ render v) kvs) @ ''}''"

fun canon :: "json \<Rightarrow> json" where
  "canon (JArr xs) = JArr (map canon xs)"
| "canon (JObj kvs) = JObj (sort_key fst (map (\<lambda>(k, v). (k, canon v)) kvs))"
| "canon v = v"

definition json_dumps :: "json \<Rightarrow> bytes" where
  "json_dumps v = render (canon v)"

fun py_of_json :: "json \<Rightarrow> pyval" where
  "py_of_json JNull = PNone"
| "py_of_json (JBool b) = PBool b"
| "py_of_json (JInt i) = PInt i"
| "py_of_json (JStr s) = PStr s"
| "py_of_json (JArr xs) = PSeq (map py_of_json xs)"
| "py_of_json (JObj kvs) = PMap (map (\<lambda>(k, v). (PStr k, py_of_json v)) kvs)"

text \<open>A value that passes the check is one of the JSON values above.\<close>

fun json_of_py :: "pyval \<Rightarrow> json" where
  "json_of_py (PBool b) = JBool b"
| "json_of_py (PInt i) = JInt i"
| "json_of_py (PStr s) = JStr s"
| "json_of_py (PSeq xs) = JArr (map json_of_py xs)"
| "json_of_py (PMap kvs) = JObj (map (\<lambda>(k, v). (case k of PStr s \<Rightarrow> s | _ \<Rightarrow> [], json_of_py v)) kvs)"
| "json_of_py _ = JNull"

definition canonical_json_bytes :: "pyval \<Rightarrow> bytes result" where
  "canonical_json_bytes v = rbind (assert_canonical_value v) (\<lambda>_. Inr (json_dumps (json_of_py v)))"

section \<open>The rendering is unambiguous\<close>

lemma assert_canonical_py_of_json: "assert_canonical_value (py_of_json v) = Inr ()"
proof (induction v)
  case (JArr xs)
  then show ?case by (auto intro!: rfold_unit_ok)
next
  case (JObj kvs)
  then show ?case by (auto intro!: rfold_unit_ok)
qed simp_all

lemma json_of_py_of_json [simp]: "json_of_py (py_of_json v) = v"
proof (induction v)
  case (JArr xs)
  then show ?case by (simp add: map_idI)
next
  case (JObj kvs)
  then show ?case by (auto intro!: map_idI)
qed simp_all

lemma canonical_json_bytes_json: "canonical_json_bytes (py_of_json v) = Inr (json_dumps v)"
  by (simp add: canonical_json_bytes_def assert_canonical_py_of_json)

text \<open>What may follow a value in a document: nothing, or a separator, never a digit.\<close>

definition delim :: "string \<Rightarrow> bool" where
  "delim r \<longleftrightarrow> r = [] \<or> \<not> is_digit (hd r)"

lemma delim_simps [simp]:
  "delim []" "delim (CHR '','' # r)" "delim (CHR '']'' # r)" "delim (CHR ''}'' # r)"
  by (simp_all add: delim_def char_class_defs)

lemma escape_char_nonempty [simp]: "escape_char c \<noteq> []"
  by (simp add: escape_char_def)

lemma escape_char_hd_quote [simp]: "hd (escape_char c) \<noteq> CHR 0x22"
  by (simp add: escape_char_def)

lemma escape_char_prefix:
  "escape_char c @ r = escape_char d @ s \<Longrightarrow> c = d \<and> r = s"
  by (simp add: escape_char_def split: if_splits)

lemma hd_escape_body: "t \<noteq> [] \<Longrightarrow> hd (concat (map escape_char t) @ r) \<noteq> CHR 0x22"
  by (cases t) simp_all

lemma escape_body_prefix:
  "concat (map escape_char s) @ CHR 0x22 # r = concat (map escape_char t) @ CHR 0x22 # q
    \<Longrightarrow> s = t \<and> r = q"
proof (induction s arbitrary: t)
  case Nil
  then have "hd (concat (map escape_char t) @ CHR 0x22 # q) = CHR 0x22" by (simp flip: Nil.prems)
  then have "t = []" using hd_escape_body by blast
  with Nil show ?case by simp
next
  case (Cons c s)
  then have "hd (concat (map escape_char t) @ CHR 0x22 # q) \<noteq> CHR 0x22"
    using hd_escape_body [of "c # s" "CHR 0x22 # r"] unfolding Cons.prems by simp
  then obtain d t' where t: "t = d # t'" by (cases t) auto
  with Cons.prems have
    "escape_char c @ concat (map escape_char s) @ CHR 0x22 # r =
     escape_char d @ concat (map escape_char t') @ CHR 0x22 # q" by simp
  note p = escape_char_prefix [OF this]
  from Cons.IH [OF conjunct2 [OF p]] conjunct1 [OF p] t show ?case by simp
qed

lemma render_str_prefix: "render_str s @ r = render_str t @ q \<Longrightarrow> s = t \<and> r = q"
  using escape_body_prefix [of s r t q] by (simp add: render_str_def)

lemma int_str_prefix:
  assumes "int_str i @ r = int_str j @ q" "delim r" "delim q"
  shows "i = j \<and> r = q"
proof -
  have tw: "nat_str m = nat_str n \<and> r = q"
    if "nat_str m @ r = nat_str n @ q" for m n
  proof -
    have "takeWhile is_digit (nat_str m @ r) = nat_str m"
      by (rule takeWhile_digits [OF nat_str_digits]) (use assms(2) in \<open>simp_all add: delim_def\<close>)
    moreover have "takeWhile is_digit (nat_str n @ q) = nat_str n"
      by (rule takeWhile_digits [OF nat_str_digits]) (use assms(3) in \<open>simp_all add: delim_def\<close>)
    ultimately have "nat_str m = nat_str n" using that by simp
    with that show ?thesis by simp
  qed
  have no_minus: "nat_str n @ s \<noteq> CHR ''-'' # t" for n s t
    using nat_str_digits [OF hd_in_set [OF nat_str_nonempty [of n]]] by (cases "nat_str n") auto
  consider (neg) "i < 0" "j < 0" | (pos) "\<not> i < 0" "\<not> j < 0" | (mixed) "(i < 0) \<noteq> (j < 0)"
    by blast
  then show ?thesis
  proof cases
    case neg
    with assms(1) have "nat_str (nat (- i)) @ r = nat_str (nat (- j)) @ q" by (simp add: int_str_def)
    from tw [OF this] neg show ?thesis by auto
  next
    case pos
    with assms(1) have "nat_str (nat i) @ r = nat_str (nat j) @ q" by (simp add: int_str_def)
    from tw [OF this] pos show ?thesis by auto
  next
    case mixed
    with assms(1) no_minus [of "nat i" r] no_minus [of "nat j" q] show ?thesis
      by (simp add: int_str_def split: if_splits) (metis no_minus)+
  qed
qed

definition first_char_class :: "char \<Rightarrow> nat" where
  "first_char_class c =
     (if c = CHR ''n'' then 0 else if c = CHR ''t'' \<or> c = CHR ''f'' then 1
      else if c = CHR ''-'' \<or> is_digit c then 2 else if c = CHR 0x22 then 3
      else if c = CHR ''['' then 4 else if c = CHR ''{'' then 5 else 6)"

fun json_class :: "json \<Rightarrow> nat" where
  "json_class JNull = 0"
| "json_class (JBool _) = 1"
| "json_class (JInt _) = 2"
| "json_class (JStr _) = 3"
| "json_class (JArr _) = 4"
| "json_class (JObj _) = 5"

lemma int_str_hd: "hd (int_str i @ r) = CHR ''-'' \<or> is_digit (hd (int_str i @ r))"
  using nat_str_digits [OF hd_in_set [OF nat_str_nonempty]] by (simp add: int_str_def)

lemma int_str_nonempty [simp]: "int_str i \<noteq> []"
  by (simp add: int_str_def)

lemma render_nonempty [simp]: "render v \<noteq> []"
  by (cases v) (auto simp: render_str_def)

lemma render_class: "first_char_class (hd (render v @ r)) = json_class v"
proof (cases v)
  case (JInt i)
  then show ?thesis using int_str_hd [of i r]
    by (auto simp: first_char_class_def char_class_defs)
qed (auto simp: first_char_class_def render_str_def char_class_defs)

lemma render_class_eq: "render v @ r = render w @ q \<Longrightarrow> json_class v = json_class w"
  using render_class by metis

text \<open>
  Lists of items separated by commas and closed by a bracket: unambiguous when the items
  are, provided no item starts with the closing bracket.
\<close>

lemma join_prefix:
  assumes items: "\<And>x y r q. x \<in> set xs \<Longrightarrow> y \<in> set ys \<Longrightarrow> f x @ r = f y @ q \<Longrightarrow> D r \<Longrightarrow> D q \<Longrightarrow> x = y \<and> r = q"
    and D: "\<And>s. D (CHR '','' # s)" "\<And>s. D (cl # s)"
    and start: "\<And>x. f x \<noteq> [] \<and> hd (f x) \<noteq> cl" and cl: "cl = CHR '']'' \<or> cl = CHR ''}''"
    and eq: "join '','' (map f xs) @ cl # r = join '','' (map f ys) @ cl # q"
  shows "xs = ys \<and> r = q"
  using items eq
proof (induction xs arbitrary: ys)
  case Nil
  show ?case
  proof (cases ys)
    case (Cons y ys')
    have "hd (join '','' (map f ys) @ cl # q) = hd (f y)"
      using Cons start [of y] by (cases ys') auto
    moreover have "hd (join '','' (map f ys) @ cl # q) = cl"
      using Nil.prems(2) [symmetric] by (simp only: list.map join.simps append_Nil list.sel)
    ultimately show ?thesis using start [of y] by simp
  qed (use Nil in simp)
next
  case (Cons x xs)
  show ?case
  proof (cases ys)
    case Nil
    have "hd (join '','' (map f (x # xs)) @ cl # r) = hd (f x)"
      using start [of x] by (cases xs) auto
    moreover have "hd (join '','' (map f (x # xs)) @ cl # r) = cl"
      using Cons.prems(2) Nil by (simp only: list.map join.simps append_Nil list.sel)
    ultimately show ?thesis using start [of x] by simp
  next
    case ys: (Cons y ys')
    define rx where "rx = (if xs = [] then cl # r else CHR '','' # join '','' (map f xs) @ cl # r)"
    define ry where "ry = (if ys' = [] then cl # q else CHR '','' # join '','' (map f ys') @ cl # q)"
    have "f x @ rx = f y @ ry"
      using Cons.prems(2) ys unfolding rx_def ry_def by (cases xs; cases ys') auto
    moreover have "D rx" "D ry" unfolding rx_def ry_def using D by auto
    ultimately have xy: "x = y" "rx = ry"
      using Cons.prems(1) [of x y rx ry] ys by (simp_all only: list.set_intros simp_thms)
    have IH: "join '','' (map f xs) @ cl # r = join '','' (map f ys') @ cl # q \<Longrightarrow> xs = ys' \<and> r = q"
      using Cons.IH Cons.prems(1) ys by (metis list.set_intros(2))
    have "xs = ys' \<and> r = q"
      using xy(2) IH cl unfolding rx_def ry_def by (auto split: if_splits)
    with xy(1) ys show ?thesis by simp
  qed
qed

lemma render_hd_not_bracket: "hd (render v) \<noteq> CHR '']'' \<and> hd (render v) \<noteq> CHR ''}''"
  using render_class [of v "[]"] by (cases v) (auto simp: first_char_class_def char_class_defs)

theorem render_prefix:
  "render v @ r = render w @ q \<Longrightarrow> delim r \<Longrightarrow> delim q \<Longrightarrow> v = w \<and> r = q"
proof (induction v arbitrary: w r q)
  case JNull
  then show ?case using render_class_eq [of JNull r w q] by (cases w) auto
next
  case (JBool b)
  then show ?case using render_class_eq [of "JBool b" r w q] by (cases w) (auto split: if_splits)
next
  case (JInt i)
  then obtain j where "w = JInt j" using render_class_eq [of "JInt i" r w q] by (cases w) auto
  with JInt int_str_prefix [of i r j q] show ?case by simp
next
  case (JStr s)
  then obtain t where "w = JStr t" using render_class_eq [of "JStr s" r w q] by (cases w) auto
  with JStr render_str_prefix [of s r t q] show ?case by simp
next
  case (JArr xs)
  then obtain ys where w: "w = JArr ys" using render_class_eq [of "JArr xs" r w q] by (cases w) auto
  have "xs = ys \<and> r = q"
    by (rule join_prefix [where f = render and cl = "CHR '']''" and D = delim])
      (use JArr w render_hd_not_bracket in auto)
  with w show ?case by simp
next
  case (JObj kvs)
  then obtain lws where w: "w = JObj lws" using render_class_eq [of "JObj kvs" r w q] by (cases w) auto
  let ?f = "\<lambda>(k, v). render_str k @ '':'' @ render v"
  have "kvs = lws \<and> r = q"
  proof (rule join_prefix [where f = ?f and cl = "CHR ''}''" and D = delim])
    fix p p' s t
    assume p: "p \<in> set kvs" "?f p @ s = ?f p' @ t" "delim s" "delim t"
    obtain k v k' v' where kv: "p = (k, v)" "p' = (k', v')" by fastforce
    have "k = k'" "render v @ s = render v' @ t"
      using p(2) kv render_str_prefix [of k "CHR '':'' # render v @ s" k' "CHR '':'' # render v' @ t"] by auto
    with JObj.IH [OF p(1), of v s v' t] p(3,4) kv show "p = p' \<and> s = t" by simp
  qed (use JObj.prems w in \<open>auto simp: render_str_def\<close>)
  with w show ?case by simp
qed

corollary render_inject [simp]: "render v = render w \<longleftrightarrow> v = w"
  using render_prefix [of v "[]" w "[]"] by auto

corollary json_dumps_eq_iff: "json_dumps v = json_dumps w \<longleftrightarrow> canon v = canon w"
  by (simp add: json_dumps_def)

text \<open>For an object whose keys are already in order, sorting changes nothing.\<close>

lemma canon_JObj_sorted:
  "sorted (map fst kvs) \<Longrightarrow> canon (JObj kvs) = JObj (map (\<lambda>(k, v). (k, canon v)) kvs)"
  by (simp add: sorted_sort_id sort_key_id_if_sorted comp_def case_prod_beta)

end
