(* ===== verification/Sha256.thy ===== *)
theory Sha256
  imports Prelude "HOL-Library.Word"
begin

text \<open>
  \<open>hashlib.sha256\<close> as FIPS 180-4 defines it, on byte strings: padding, the message
  schedule, the compression function and the big-endian digest. \<open>sha256_collision\<close> names
  what the digest comparisons of the program rely on nobody finding.
\<close>

unbundle bit_operations_syntax

type_synonym u32 = "32 word"

definition rotr :: "nat \<Rightarrow> u32 \<Rightarrow> u32" where
  "rotr n x = drop_bit n x OR push_bit (32 - n) x"

definition ch_fun :: "u32 \<Rightarrow> u32 \<Rightarrow> u32 \<Rightarrow> u32" where
  "ch_fun x y z = (x AND y) XOR ((NOT x) AND z)"

definition maj_fun :: "u32 \<Rightarrow> u32 \<Rightarrow> u32 \<Rightarrow> u32" where
  "maj_fun x y z = (x AND y) XOR (x AND z) XOR (y AND z)"

definition big_sigma0 :: "u32 \<Rightarrow> u32" where
  "big_sigma0 x = rotr 2 x XOR rotr 13 x XOR rotr 22 x"

definition big_sigma1 :: "u32 \<Rightarrow> u32" where
  "big_sigma1 x = rotr 6 x XOR rotr 11 x XOR rotr 25 x"

definition small_sigma0 :: "u32 \<Rightarrow> u32" where
  "small_sigma0 x = rotr 7 x XOR rotr 18 x XOR drop_bit 3 x"

definition small_sigma1 :: "u32 \<Rightarrow> u32" where
  "small_sigma1 x = rotr 17 x XOR rotr 19 x XOR drop_bit 10 x"

text \<open>The constants of FIPS 180-4, in decimal.\<close>

definition round_constants :: "u32 list" where
  "round_constants = [
    1116352408, 1899447441, 3049323471, 3921009573, 961987163, 1508970993, 2453635748, 2870763221,
    3624381080, 310598401, 607225278, 1426881987, 1925078388, 2162078206, 2614888103, 3248222580,
    3835390401, 4022224774, 264347078, 604807628, 770255983, 1249150122, 1555081692, 1996064986,
    2554220882, 2821834349, 2952996808, 3210313671, 3336571891, 3584528711, 113926993, 338241895,
    666307205, 773529912, 1294757372, 1396182291, 1695183700, 1986661051, 2177026350, 2456956037,
    2730485921, 2820302411, 3259730800, 3345764771, 3516065817, 3600352804, 4094571909, 275423344,
    430227734, 506948616, 659060556, 883997877, 958139571, 1322822218, 1537002063, 1747873779,
    1955562222, 2024104815, 2227730452, 2361852424, 2428436474, 2756734187, 3204031479, 3329325298]"

definition initial_hash :: "u32 list" where
  "initial_hash = [1779033703, 3144134277, 1013904242, 2773480762,
    1359893119, 2600822924, 528734635, 1541459225]"

definition sha_pad :: "bytes \<Rightarrow> bytes" where
  "sha_pad m = m @ [CHR 0x80] @ replicate (nat ((55 - int (length m)) mod 64)) (CHR 0x00)
     @ be_bytes 8 (8 * length m)"

definition be_word :: "bytes \<Rightarrow> u32" where
  "be_word bs = foldl (\<lambda>acc b. push_bit 8 acc OR of_nat (of_char b)) 0 bs"

function chunks :: "nat \<Rightarrow> 'a list \<Rightarrow> 'a list list" where
  "chunks n xs = (if xs = [] \<or> n = 0 then [] else take n xs # chunks n (drop n xs))"
  by pat_completeness auto
termination
  by (relation "measure (\<lambda>(n, xs). length xs)") auto

declare chunks.simps [simp del]

text \<open>The message schedule, newest word first.\<close>

fun schedule :: "nat \<Rightarrow> u32 list \<Rightarrow> u32 list" where
  "schedule 0 w = w"
| "schedule (Suc n) w =
     schedule n ((small_sigma1 (w ! 1) + w ! 6 + small_sigma0 (w ! 14) + w ! 15) # w)"

fun compress_round :: "u32 list \<Rightarrow> u32 \<times> u32 \<Rightarrow> u32 list" where
  "compress_round [a, b, c, d, e, f, g, h] (k, w) =
     (let t1 = h + big_sigma1 e + ch_fun e f g + k + w; t2 = big_sigma0 a + maj_fun a b c
      in [t1 + t2, a, b, c, d + t1, e, f, g])"
| "compress_round s _ = s"

definition compress :: "u32 list \<Rightarrow> bytes \<Rightarrow> u32 list" where
  "compress hs block =
     map2 (+) hs (foldl compress_round hs
       (zip round_constants (rev (schedule 48 (rev (map be_word (chunks 4 block)))))))"

definition word_bytes :: "u32 \<Rightarrow> bytes" where
  "word_bytes w = be_bytes 4 (unat w)"

definition sha256 :: "bytes \<Rightarrow> bytes" where
  "sha256 m = concat (map word_bytes (foldl compress initial_hash (chunks 64 (sha_pad m))))"

definition sha256_hex :: "bytes \<Rightarrow> string" where
  "sha256_hex m = bytes_hex (sha256 m)"

definition sha256_collision :: "bytes \<Rightarrow> bytes \<Rightarrow> bool" where
  "sha256_collision x y \<longleftrightarrow> x \<noteq> y \<and> sha256 x = sha256 y"

lemma sha256_eq_or_collision: "sha256 x = sha256 y \<Longrightarrow> x = y \<or> sha256_collision x y"
  by (simp add: sha256_collision_def)

lemma sha256_hex_inject: "sha256_hex x = sha256_hex y \<longleftrightarrow> sha256 x = sha256 y"
  by (simp add: sha256_hex_def)

lemma length_compress_round [simp]: "length (compress_round s kw) = length s"
  by (cases "(s, kw)" rule: compress_round.cases) (auto simp: Let_def)

lemma length_compress [simp]: "length (compress hs b) = length hs"
proof -
  have "length (foldl compress_round s kws) = length s" for s kws
    by (induction kws arbitrary: s) auto
  then show ?thesis by (simp add: compress_def)
qed

text \<open>A digest is 32 bytes, 64 hexadecimal characters.\<close>

lemma length_sha256 [simp]: "length (sha256 m) = 32"
proof -
  have "length (foldl compress hs bs) = length hs" for hs bs
    by (induction bs arbitrary: hs) auto
  moreover have "length (concat (map word_bytes ws)) = 4 * length ws" for ws
    by (induction ws) (simp_all add: word_bytes_def)
  ultimately show ?thesis by (simp add: sha256_def initial_hash_def)
qed

lemma length_sha256_hex [simp]: "length (sha256_hex m) = 64"
  by (simp add: sha256_hex_def)

lemma sha256_hex_lower_hex: "c \<in> set (sha256_hex m) \<Longrightarrow> is_lower_hex c"
  by (simp add: sha256_hex_def bytes_hex_lower_hex)

end
