(* ===== verification/Digest.thy ===== *)
theory Digest
  imports Json Sha256
begin

text \<open>
  Domain-separated digests of \<open>planrace/models_v2.py\<close>: the length-delimited frame around
  a domain and a canonical payload, and what equality of two digests says about the
  payloads. The locale \<open>binding_digest\<close> is the interface the models rely on: a digest of
  JSON values in a domain that determines both, unless the two framed preimages collide.
\<close>

section \<open>Framing\<close>

definition frame :: "bytes \<Rightarrow> bytes \<Rightarrow> bytes" where
  "frame domain payload =
     be_bytes 2 (length domain) @ domain @ be_bytes 8 (length payload) @ payload"

definition PLANRACE_PREFIX :: string where
  "PLANRACE_PREFIX = ''planrace/2:''"

text \<open>\<open>domain_separated_digest\<close> on an arbitrary Python value, with every way it can raise.\<close>

definition domain_separated_digest :: "string \<Rightarrow> pyval \<Rightarrow> string result" where
  "domain_separated_digest domain v =
     rbind (rcheck (starts_with PLANRACE_PREFIX domain)
              (ValueError (''v2 digest domain must start with '' @ [CHR 0x27] @ PLANRACE_PREFIX @ [CHR 0x27]))) (\<lambda>_.
     rbind (canonical_json_bytes v) (\<lambda>payload.
     rbind (rcheck (is_ascii domain) (ValueError ''ascii codec cannot encode'')) (\<lambda>_.
     rbind (to_bytes_big 2 (length domain)) (\<lambda>len_domain.
     rbind (to_bytes_big 8 (length payload)) (\<lambda>len_payload.
       Inr (''sha256:'' @ sha256_hex (len_domain @ domain @ len_payload @ payload)))))))"

text \<open>
  The same digest of a value that is JSON by construction, in a domain the source spells
  out as a constant: the value every model digest below has.
\<close>

definition v2_digest :: "string \<Rightarrow> json \<Rightarrow> string" where
  "v2_digest domain v = ''sha256:'' @ sha256_hex (frame domain (json_dumps v))"

definition v2_preimage :: "string \<Rightarrow> json \<Rightarrow> bytes" where
  "v2_preimage domain v = frame domain (json_dumps v)"

lemma frame_inject:
  assumes "length d < 65536" "length d' < 65536" "frame d p = frame d' p'"
  shows "d = d' \<and> p = p'"
proof -
  have "be_bytes 2 (length d) = be_bytes 2 (length d')"
    and rest: "d @ be_bytes 8 (length p) @ p = d' @ be_bytes 8 (length p') @ p'"
    using assms(3) by (simp_all add: frame_def append_eq_append_conv)
  then have "length d = length d'"
    using assms(1,2) be_bytes_inject [of "length d" 2 "length d'"] by simp
  with rest show ?thesis by (simp add: append_eq_append_conv)
qed

lemma domain_separated_digest_json:
  assumes "starts_with PLANRACE_PREFIX d" "is_ascii d" "length d < 65536"
    and "length (json_dumps v) < 256 ^ 8"
  shows "domain_separated_digest d (py_of_json v) = Inr (v2_digest d v)"
  using assms by (simp add: domain_separated_digest_def canonical_json_bytes_json to_bytes_big_def
      v2_digest_def frame_def)

lemma domain_separated_digest_Inr:
  assumes "domain_separated_digest d v = Inr h"
  obtains p where "starts_with PLANRACE_PREFIX d" "length d < 65536"
    "canonical_json_bytes v = Inr p" "h = ''sha256:'' @ sha256_hex (frame d p)"
  using assms
  by (auto simp: domain_separated_digest_def to_bytes_big_def frame_def split: if_splits)

section \<open>Equal digests\<close>

lemma length_v2_digest [simp]: "length (v2_digest d v) = 71"
  by (simp add: v2_digest_def)

locale binding_digest =
  fixes digest :: "string \<Rightarrow> json \<Rightarrow> string"
    and preimage :: "string \<Rightarrow> json \<Rightarrow> bytes"
  assumes digest_collision:
      "digest d v = digest d' w \<Longrightarrow> preimage d v = preimage d' w \<or> sha256_collision (preimage d v) (preimage d' w)"
    and preimage_inject:
      "length d < 65536 \<Longrightarrow> length d' < 65536 \<Longrightarrow> preimage d v = preimage d' w
        \<longleftrightarrow> d = d' \<and> canon v = canon w"
    and digest_cong: "preimage d v = preimage d' w \<Longrightarrow> digest d v = digest d' w"
begin

lemma binding:
  assumes "length d < 65536" "length d' < 65536" "digest d v = digest d' w"
  shows "d = d' \<and> canon v = canon w \<or> sha256_collision (preimage d v) (preimage d' w)"
  using digest_collision [OF assms(3)] preimage_inject [OF assms(1,2)] by blast

lemma binding_same_domain:
  assumes "length d < 65536" "digest d v = digest d w"
  shows "canon v = canon w \<or> sha256_collision (preimage d v) (preimage d w)"
  using binding [OF assms(1,1,2)] by blast

lemma digest_canon: "length d < 65536 \<Longrightarrow> canon v = canon w \<Longrightarrow> digest d v = digest d w"
  by (rule digest_cong) (simp add: preimage_inject)

lemma other_domain_collides:
  assumes "length d < 65536" "length d' < 65536" "d \<noteq> d'" "digest d v = digest d' w"
  shows "sha256_collision (preimage d v) (preimage d' w)"
  using binding [OF assms(1,2,4)] assms(3) by blast

end

interpretation v2: binding_digest v2_digest v2_preimage
proof
  fix d d' v w
  show "v2_preimage d v = v2_preimage d' w \<or> sha256_collision (v2_preimage d v) (v2_preimage d' w)"
    if "v2_digest d v = v2_digest d' w"
    using that by (auto simp: v2_digest_def v2_preimage_def sha256_hex_inject dest: sha256_eq_or_collision)
  show "(v2_preimage d v = v2_preimage d' w) = (d = d' \<and> canon v = canon w)"
    if "length d < 65536" "length d' < 65536"
    using frame_inject [OF that] by (auto simp: v2_preimage_def simp flip: json_dumps_eq_iff)
  show "v2_digest d v = v2_digest d' w" if "v2_preimage d v = v2_preimage d' w"
    using that by (simp add: v2_digest_def v2_preimage_def)
qed

section \<open>Objects with the same keys\<close>

lemma canon_JObj_iff:
  assumes "map fst kvs = map fst lws" "distinct (map fst kvs)"
  shows "canon (JObj kvs) = canon (JObj lws) \<longleftrightarrow> map (canon \<circ> snd) kvs = map (canon \<circ> snd) lws"
proof
  let ?f = "\<lambda>(k, v). (k, canon v)"
  have len: "length kvs = length lws" using assms(1) map_eq_imp_length_eq by blast
  assume "canon (JObj kvs) = canon (JObj lws)"
  then have "sort_key fst (map ?f kvs) = sort_key fst (map ?f lws)" by simp
  from arg_cong [OF this, of mset] have "mset (map ?f kvs) = mset (map ?f lws)"
    by (simp only: mset_sort)
  then have set: "set (map ?f kvs) = set (map ?f lws)" by (metis set_mset_mset)
  show "map (canon \<circ> snd) kvs = map (canon \<circ> snd) lws"
  proof (rule nth_equalityI)
    fix i assume i: "i < length (map (canon \<circ> snd) kvs)"
    then have "?f (kvs ! i) \<in> set (map ?f kvs)" by simp
    then have "?f (kvs ! i) \<in> set (map ?f lws)" using set by simp
    then obtain j where j: "j < length lws" "?f (kvs ! i) = ?f (lws ! j)"
      by (auto simp: in_set_conv_nth)
    then have "map fst kvs ! i = map fst lws ! j" using i len by (simp add: case_prod_beta)
    then have "i = j" using assms i j(1) len
      by (metis length_map nth_eq_iff_index_eq)
    with j i len show "map (canon \<circ> snd) kvs ! i = map (canon \<circ> snd) lws ! i"
      by (simp add: case_prod_beta)
  qed (simp add: len)
next
  assume "map (canon \<circ> snd) kvs = map (canon \<circ> snd) lws"
  then have "map (\<lambda>(k, v). (k, canon v)) kvs = map (\<lambda>(k, v). (k, canon v)) lws"
    using assms(1) by (simp add: list_eq_iff_nth_eq case_prod_beta)
  then show "canon (JObj kvs) = canon (JObj lws)" by simp
qed

lemmas canon_obj = canon_JObj_iff

text \<open>Values without objects are their own canonical form.\<close>

definition jstrs :: "string list \<Rightarrow> json" where
  "jstrs xs = JArr (map JStr xs)"

definition jopt :: "('a \<Rightarrow> json) \<Rightarrow> 'a option \<Rightarrow> json" where
  "jopt f x = (case x of None \<Rightarrow> JNull | Some y \<Rightarrow> f y)"

lemma canon_jstrs [simp]: "canon (jstrs xs) = jstrs xs"
  by (simp add: jstrs_def)

lemma jstrs_inject [simp]: "jstrs xs = jstrs ys \<longleftrightarrow> xs = ys"
  by (simp add: jstrs_def inj_def inj_map_eq_map)

lemma canon_JArr_map_inject:
  assumes "\<And>x y. canon (f x) = canon (f y) \<longleftrightarrow> R x y"
  shows "canon (JArr (map f xs)) = canon (JArr (map f ys)) \<longleftrightarrow> list_all2 R xs ys"
  using assms by (auto simp: list_all2_conv_all_nth list_eq_iff_nth_eq)

end
