(* ===== verification/Models.thy ===== *)
theory Models
  imports Digest
begin

text \<open>
  The wire models of \<open>planrace/models_v2.py\<close>: records and datatypes with the source's
  fields, their field constraints and after-validators as predicates, their JSON dumps,
  the bundle, strategy, request and response digests, and the SQL compiler of the index
  language. The lemmas show that a digest determines its model up to a SHA-256 collision.
\<close>

section \<open>Constants and annotated strings\<close>

definition PROTOCOL_VERSION_V2 :: string where
  "PROTOCOL_VERSION_V2 = ''planrace/2''"

definition COMMITMENT_DOMAIN_V2 :: string where
  "COMMITMENT_DOMAIN_V2 = ''planrace/2:task-commitment''"

definition ARTIFACT_DOMAIN_V2 :: string where
  "ARTIFACT_DOMAIN_V2 = ''planrace/2:optimization-bundle''"

definition STRATEGY_DOMAIN_V2 :: string where
  "STRATEGY_DOMAIN_V2 = ''planrace/2:executable-strategy''"

definition REQUEST_DOMAIN_V2 :: string where
  "REQUEST_DOMAIN_V2 = ''planrace/2:optimization-request''"

definition RESPONSE_DOMAIN_V2 :: string where
  "RESPONSE_DOMAIN_V2 = ''planrace/2:optimization-response''"

definition MAX_INDEXES_V2 :: nat where "MAX_INDEXES_V2 = 4"
definition MAX_COLUMNS_PER_INDEX_V2 :: nat where "MAX_COLUMNS_PER_INDEX_V2 = 8"
definition MAX_PREDICATES_V2 :: nat where "MAX_PREDICATES_V2 = 8"
definition MAX_PUBLIC_SQL_BYTES_V2 :: nat where "MAX_PUBLIC_SQL_BYTES_V2 = 64 * 1024"

lemmas v2_constants = PROTOCOL_VERSION_V2_def COMMITMENT_DOMAIN_V2_def ARTIFACT_DOMAIN_V2_def
  STRATEGY_DOMAIN_V2_def REQUEST_DOMAIN_V2_def RESPONSE_DOMAIN_V2_def MAX_INDEXES_V2_def
  MAX_COLUMNS_PER_INDEX_V2_def MAX_PREDICATES_V2_def MAX_PUBLIC_SQL_BYTES_V2_def

definition valid_sha256_digest :: "string \<Rightarrow> bool" where
  "valid_sha256_digest s \<longleftrightarrow> length s = 71 \<and> starts_with ''sha256:'' s
     \<and> list_all is_lower_hex (drop 7 s)"

definition valid_opaque_id :: "string \<Rightarrow> bool" where
  "valid_opaque_id s \<longleftrightarrow> length s = 32 \<and> list_all is_lower_hex s"

definition valid_hotkey :: "string \<Rightarrow> bool" where
  "valid_hotkey s \<longleftrightarrow> 32 \<le> length s \<and> length s \<le> 64 \<and> list_all is_base58 s"

definition valid_sql_text :: "string \<Rightarrow> bool" where
  "valid_sql_text s \<longleftrightarrow> 1 \<le> py_len s \<and> py_len s \<le> MAX_PUBLIC_SQL_BYTES_V2"

definition valid_safe_identifier :: "string \<Rightarrow> bool" where
  "valid_safe_identifier s \<longleftrightarrow> s \<noteq> [] \<and> length s \<le> 63
     \<and> is_ident_start (hd s) \<and> list_all is_ident_char (tl s)"

definition valid_family_id :: "string \<Rightarrow> bool" where
  "valid_family_id s \<longleftrightarrow> s \<noteq> [] \<and> length s \<le> 63
     \<and> (is_lower (hd s) \<or> is_digit (hd s))
     \<and> list_all (\<lambda>c. is_lower c \<or> is_digit c \<or> c = CHR ''-'') (tl s)"

definition valid_hex32 :: "string \<Rightarrow> bool" where
  "valid_hex32 s \<longleftrightarrow> length s = 64 \<and> list_all is_lower_hex s"

definition valid_signature_hex :: "string \<Rightarrow> bool" where
  "valid_signature_hex s \<longleftrightarrow> length s = 128 \<and> list_all is_lower_hex s"

lemmas annotated_string_defs = valid_sha256_digest_def valid_opaque_id_def valid_hotkey_def
  valid_sql_text_def valid_safe_identifier_def valid_family_id_def valid_hex32_def
  valid_signature_hex_def

section \<open>Predicates and indexes\<close>

datatype predicate_literal =
    IntegerLiteral int
  | TextLiteral string
  | BooleanLiteral bool
  | NullLiteral

datatype operator = OpEq | OpNe | OpLt | OpLte | OpGt | OpGte | OpIsNull | OpIsNotNull

fun operator_str :: "operator \<Rightarrow> string" where
  "operator_str OpEq = ''eq''"
| "operator_str OpNe = ''ne''"
| "operator_str OpLt = ''lt''"
| "operator_str OpLte = ''lte''"
| "operator_str OpGt = ''gt''"
| "operator_str OpGte = ''gte''"
| "operator_str OpIsNull = ''is_null''"
| "operator_str OpIsNotNull = ''is_not_null''"

record predicate_atom =
  atom_column :: string
  atom_operator :: operator
  atom_value :: predicate_literal

record predicate_expression =
  pred_atoms :: "predicate_atom list"

datatype direction = Asc | Desc

fun direction_str :: "direction \<Rightarrow> string" where
  "direction_str Asc = ''asc''"
| "direction_str Desc = ''desc''"

record index_column =
  col_column :: string
  col_direction :: direction

record index_spec =
  ix_table :: string
  ix_key_columns :: "index_column list"
  ix_include_columns :: "string list"
  ix_unique :: bool
  ix_predicate :: "predicate_expression option"

fun valid_literal :: "predicate_literal \<Rightarrow> bool" where
  "valid_literal (TextLiteral s) = (py_len s \<le> 256)"
| "valid_literal _ = True"

text \<open>\<open>PredicateAtom\<close> with \<open>validate_null_operator\<close>.\<close>

definition valid_atom :: "predicate_atom \<Rightarrow> bool" where
  "valid_atom a \<longleftrightarrow> valid_safe_identifier (atom_column a) \<and> valid_literal (atom_value a)
     \<and> (atom_value a = NullLiteral) = (atom_operator a \<in> {OpIsNull, OpIsNotNull})"

definition valid_predicate :: "predicate_expression \<Rightarrow> bool" where
  "valid_predicate p \<longleftrightarrow> 1 \<le> length (pred_atoms p) \<and> length (pred_atoms p) \<le> MAX_PREDICATES_V2
     \<and> list_all valid_atom (pred_atoms p)"

text \<open>\<open>IndexSpec\<close> with \<open>reject_duplicate_columns\<close>.\<close>

definition valid_index_spec :: "index_spec \<Rightarrow> bool" where
  "valid_index_spec s \<longleftrightarrow> valid_safe_identifier (ix_table s)
     \<and> 1 \<le> length (ix_key_columns s) \<and> length (ix_key_columns s) \<le> MAX_COLUMNS_PER_INDEX_V2
     \<and> list_all (\<lambda>c. valid_safe_identifier (col_column c)) (ix_key_columns s)
     \<and> length (ix_include_columns s) \<le> MAX_COLUMNS_PER_INDEX_V2
     \<and> list_all valid_safe_identifier (ix_include_columns s)
     \<and> (case ix_predicate s of None \<Rightarrow> True | Some p \<Rightarrow> valid_predicate p)
     \<and> distinct (map col_column (ix_key_columns s) @ ix_include_columns s)
     \<and> \<not> (ix_unique s \<and> ix_include_columns s \<noteq> [])"

subsection \<open>\<open>model_dump(mode="json")\<close>\<close>

fun json_of_literal :: "predicate_literal \<Rightarrow> json" where
  "json_of_literal (IntegerLiteral i) = JObj [(''kind'', JStr ''integer''), (''value'', JInt i)]"
| "json_of_literal (TextLiteral s) = JObj [(''kind'', JStr ''text''), (''value'', JStr s)]"
| "json_of_literal (BooleanLiteral b) = JObj [(''kind'', JStr ''boolean''), (''value'', JBool b)]"
| "json_of_literal NullLiteral = JObj [(''kind'', JStr ''null'')]"

definition json_of_atom :: "predicate_atom \<Rightarrow> json" where
  "json_of_atom a = JObj [(''column'', JStr (atom_column a)),
     (''operator'', JStr (operator_str (atom_operator a))), (''value'', json_of_literal (atom_value a))]"

definition json_of_predicate :: "predicate_expression \<Rightarrow> json" where
  "json_of_predicate p = JObj [(''conjunction'', JStr ''and''),
     (''atoms'', JArr (map json_of_atom (pred_atoms p)))]"

definition json_of_column :: "index_column \<Rightarrow> json" where
  "json_of_column c = JObj [(''column'', JStr (col_column c)),
     (''direction'', JStr (direction_str (col_direction c)))]"

definition json_of_index :: "index_spec \<Rightarrow> json" where
  "json_of_index s = JObj [(''table'', JStr (ix_table s)),
     (''key_columns'', JArr (map json_of_column (ix_key_columns s))),
     (''include_columns'', jstrs (ix_include_columns s)),
     (''unique'', JBool (ix_unique s)),
     (''predicate'', jopt json_of_predicate (ix_predicate s))]"

lemma operator_str_inject [simp]: "operator_str a = operator_str b \<longleftrightarrow> a = b"
  by (cases a; cases b) simp_all

lemma direction_str_inject [simp]: "direction_str a = direction_str b \<longleftrightarrow> a = b"
  by (cases a; cases b) simp_all

lemma canon_json_of_literal [simp]: "canon (json_of_literal a) = canon (json_of_literal b) \<longleftrightarrow> a = b"
proof -
  have "json_of_literal x = JObj [(''kind'', JStr ''null'')] \<or>
    (\<exists>k v. json_of_literal x = JObj [(''kind'', JStr k), (''value'', v)] \<and> canon v = v)" for x
    by (cases x) auto
  show ?thesis
    by (cases a; cases b) (simp_all add: less_eq_char_def less_char_def)
qed

lemma canon_json_of_atom [simp]: "canon (json_of_atom a) = canon (json_of_atom b) \<longleftrightarrow> a = b"
  by (simp add: json_of_atom_def canon_obj del: canon.simps) (auto simp: predicate_atom.equality)

lemma canon_json_of_predicate [simp]:
  "canon (json_of_predicate p) = canon (json_of_predicate q) \<longleftrightarrow> p = q"
proof -
  have "canon (JArr (map json_of_atom xs)) = canon (JArr (map json_of_atom ys)) \<longleftrightarrow> xs = ys" for xs ys
    by (simp only: canon_JArr_map_inject [where R = "(=)"] canon_json_of_atom list.rel_eq)
  then show ?thesis
    by (simp add: json_of_predicate_def canon_obj del: canon.simps) auto
qed

lemma canon_json_of_column [simp]: "canon (json_of_column c) = canon (json_of_column d) \<longleftrightarrow> c = d"
  by (simp add: json_of_column_def canon_obj del: canon.simps) (auto simp: index_column.equality)

lemma canon_columns [simp]:
  "canon (JArr (map json_of_column xs)) = canon (JArr (map json_of_column ys)) \<longleftrightarrow> xs = ys"
  by (simp only: canon_JArr_map_inject [where R = "(=)"] canon_json_of_column list.rel_eq)

lemma canon_jopt_inject:
  assumes "\<And>x. f x \<noteq> JNull" "\<And>x y. canon (f x) = canon (f y) \<longleftrightarrow> x = y" "\<And>x. canon (f x) \<noteq> JNull"
  shows "canon (jopt f a) = canon (jopt f b) \<longleftrightarrow> a = b"
  using assms by (cases a; cases b) (auto simp: jopt_def dest: sym)

lemma canon_jopt_predicate [simp]:
  "canon (jopt json_of_predicate p) = canon (jopt json_of_predicate q) \<longleftrightarrow> p = q"
  by (rule canon_jopt_inject) (simp_all, simp_all add: json_of_predicate_def)

lemma canon_json_of_index [simp]: "canon (json_of_index s) = canon (json_of_index t) \<longleftrightarrow> s = t"
  by (simp add: json_of_index_def canon_obj del: canon.simps(1,2)) (auto intro: index_spec.equality)

section \<open>Bundles\<close>

datatype estimated_intent = FilterIntent | JoinIntent | OrderIntent | GroupIntent | CoveringIntent
  | MixedIntent | NoIndexIntent

fun intent_str :: "estimated_intent \<Rightarrow> string" where
  "intent_str FilterIntent = ''filter''"
| "intent_str JoinIntent = ''join''"
| "intent_str OrderIntent = ''order''"
| "intent_str GroupIntent = ''group''"
| "intent_str CoveringIntent = ''covering''"
| "intent_str MixedIntent = ''mixed''"
| "intent_str NoIndexIntent = ''no_index''"

record bundle_metadata =
  md_strategy :: string
  md_estimated_intent :: estimated_intent
  md_rationale :: string

record optimization_bundle =
  ob_protocol_version :: string
  ob_task_id :: string
  ob_engine_image_digest :: string
  ob_indexes :: "index_spec list"
  ob_metadata :: bundle_metadata
  ob_artifact_digest :: string

definition valid_metadata :: "bundle_metadata \<Rightarrow> bool" where
  "valid_metadata m \<longleftrightarrow> 1 \<le> py_len (md_strategy m) \<and> py_len (md_strategy m) \<le> 128
     \<and> py_len (md_rationale m) \<le> 512"

definition json_of_metadata :: "bundle_metadata \<Rightarrow> json" where
  "json_of_metadata m = JObj [(''strategy'', JStr (md_strategy m)),
     (''estimated_intent'', JStr (intent_str (md_estimated_intent m))),
     (''rationale'', JStr (md_rationale m))]"

text \<open>The bundle without its own digest: \<open>model_dump(exclude={"artifact_digest"})\<close>.\<close>

definition json_of_bundle_contents :: "optimization_bundle \<Rightarrow> json" where
  "json_of_bundle_contents b = JObj [(''protocol_version'', JStr (ob_protocol_version b)),
     (''task_id'', JStr (ob_task_id b)),
     (''engine_image_digest'', JStr (ob_engine_image_digest b)),
     (''indexes'', JArr (map json_of_index (ob_indexes b))),
     (''metadata'', json_of_metadata (ob_metadata b))]"

definition json_of_bundle :: "optimization_bundle \<Rightarrow> json" where
  "json_of_bundle b = JObj [(''protocol_version'', JStr (ob_protocol_version b)),
     (''task_id'', JStr (ob_task_id b)),
     (''engine_image_digest'', JStr (ob_engine_image_digest b)),
     (''indexes'', JArr (map json_of_index (ob_indexes b))),
     (''metadata'', json_of_metadata (ob_metadata b)),
     (''artifact_digest'', JStr (ob_artifact_digest b))]"

definition optimization_bundle_digest :: "optimization_bundle \<Rightarrow> string" where
  "optimization_bundle_digest b = v2_digest ARTIFACT_DOMAIN_V2 (json_of_bundle_contents b)"

text \<open>\<open>OptimizationBundle\<close>: field constraints and \<open>verify_artifact_digest\<close>.\<close>

definition valid_bundle_fields :: "optimization_bundle \<Rightarrow> bool" where
  "valid_bundle_fields b \<longleftrightarrow> ob_protocol_version b = PROTOCOL_VERSION_V2
     \<and> valid_opaque_id (ob_task_id b) \<and> valid_sha256_digest (ob_engine_image_digest b)
     \<and> length (ob_indexes b) \<le> MAX_INDEXES_V2 \<and> list_all valid_index_spec (ob_indexes b)
     \<and> valid_metadata (ob_metadata b) \<and> valid_sha256_digest (ob_artifact_digest b)"

definition validate_bundle :: "optimization_bundle \<Rightarrow> optimization_bundle result" where
  "validate_bundle b =
     rbind (rcheck (valid_bundle_fields b) (ValueError ''validation error'')) (\<lambda>_.
     rbind (rcheck (ob_artifact_digest b = optimization_bundle_digest b)
              (ValueError ''artifact_digest does not match bundle contents'')) (\<lambda>_. Inr b))"

text \<open>\<open>OptimizationBundle.create\<close>.\<close>

definition optimization_bundle_create ::
  "string \<Rightarrow> string \<Rightarrow> index_spec list \<Rightarrow> bundle_metadata \<Rightarrow> optimization_bundle result" where
  "optimization_bundle_create task_id engine indexes metadata =
     (let payload = JObj [(''protocol_version'', JStr PROTOCOL_VERSION_V2),
            (''task_id'', JStr task_id), (''engine_image_digest'', JStr engine),
            (''indexes'', JArr (map json_of_index indexes)), (''metadata'', json_of_metadata metadata)]
      in validate_bundle \<lparr>ob_protocol_version = PROTOCOL_VERSION_V2, ob_task_id = task_id,
           ob_engine_image_digest = engine, ob_indexes = indexes, ob_metadata = metadata,
           ob_artifact_digest = v2_digest ARTIFACT_DOMAIN_V2 payload\<rparr>)"

lemma intent_str_inject [simp]: "intent_str a = intent_str b \<longleftrightarrow> a = b"
  by (cases a; cases b) simp_all

lemma canon_json_of_metadata [simp]: "canon (json_of_metadata m) = canon (json_of_metadata n) \<longleftrightarrow> m = n"
  by (auto simp add: json_of_metadata_def canon_obj simp del: canon.simps(1,2) intro: bundle_metadata.equality)

lemma canon_indexes [simp]:
  "canon (JArr (map json_of_index xs)) = canon (JArr (map json_of_index ys)) \<longleftrightarrow> xs = ys"
  by (simp only: canon_JArr_map_inject [where R = "(=)"] canon_json_of_index list.rel_eq)

lemma canon_json_of_bundle_contents:
  "canon (json_of_bundle_contents a) = canon (json_of_bundle_contents b) \<longleftrightarrow>
     ob_protocol_version a = ob_protocol_version b \<and> ob_task_id a = ob_task_id b
     \<and> ob_engine_image_digest a = ob_engine_image_digest b \<and> ob_indexes a = ob_indexes b
     \<and> ob_metadata a = ob_metadata b"
  by (simp add: json_of_bundle_contents_def canon_obj del: canon.simps(1,2))

lemma canon_json_of_bundle [simp]: "canon (json_of_bundle a) = canon (json_of_bundle b) \<longleftrightarrow> a = b"
  by (simp add: json_of_bundle_def canon_obj del: canon.simps(1,2)) (auto intro: optimization_bundle.equality)

lemma length_v2_domains [simp]:
  "length COMMITMENT_DOMAIN_V2 < 65536" "length ARTIFACT_DOMAIN_V2 < 65536"
  "length STRATEGY_DOMAIN_V2 < 65536" "length REQUEST_DOMAIN_V2 < 65536"
  "length RESPONSE_DOMAIN_V2 < 65536"
  by (simp_all add: v2_constants)

lemma valid_sha256_v2_digest [simp]: "valid_sha256_digest (v2_digest d v)"
  by (auto simp: valid_sha256_digest_def v2_digest_def starts_with_def list_all_iff sha256_hex_lower_hex)

lemma create_digest:
  "optimization_bundle_create tid eng ixs md = Inr b \<Longrightarrow>
     b = \<lparr>ob_protocol_version = PROTOCOL_VERSION_V2, ob_task_id = tid, ob_engine_image_digest = eng,
          ob_indexes = ixs, ob_metadata = md, ob_artifact_digest = optimization_bundle_digest b\<rparr>"
  by (auto simp: optimization_bundle_create_def validate_bundle_def Let_def result_simps)

lemma bundle_create_ok:
  assumes "valid_opaque_id tid" "valid_sha256_digest eng" "length ixs \<le> MAX_INDEXES_V2"
    "list_all valid_index_spec ixs" "valid_metadata md"
  shows "\<exists>b. optimization_bundle_create tid eng ixs md = Inr b"
  using assms by (simp add: optimization_bundle_create_def validate_bundle_def Let_def
      valid_bundle_fields_def optimization_bundle_digest_def json_of_bundle_contents_def)

lemma bundle_digest_binding:
  assumes "optimization_bundle_digest a = optimization_bundle_digest b"
  shows "a\<lparr>ob_artifact_digest := d\<rparr> = b\<lparr>ob_artifact_digest := d\<rparr>
    \<or> sha256_collision (v2_preimage ARTIFACT_DOMAIN_V2 (json_of_bundle_contents a))
        (v2_preimage ARTIFACT_DOMAIN_V2 (json_of_bundle_contents b))"
  using v2.binding_same_domain [OF length_v2_domains(2) assms [unfolded optimization_bundle_digest_def]]
  by (auto simp: canon_json_of_bundle_contents intro: optimization_bundle.equality)

section \<open>Strategy digests\<close>

text \<open>
  \<open>optimization_strategy_digest\<close>: the engine and the ordered indexes, the atoms of each
  predicate sorted by their canonical encoding.
\<close>

definition normalized_atoms :: "predicate_atom list \<Rightarrow> json list" where
  "normalized_atoms atoms = sort_key json_dumps (map json_of_atom atoms)"

definition json_of_normalized_predicate :: "predicate_expression \<Rightarrow> json" where
  "json_of_normalized_predicate p = JObj [(''conjunction'', JStr ''and''),
     (''atoms'', JArr (normalized_atoms (pred_atoms p)))]"

definition json_of_normalized_index :: "index_spec \<Rightarrow> json" where
  "json_of_normalized_index s = JObj [(''table'', JStr (ix_table s)),
     (''key_columns'', JArr (map json_of_column (ix_key_columns s))),
     (''include_columns'', jstrs (ix_include_columns s)),
     (''unique'', JBool (ix_unique s)),
     (''predicate'', jopt json_of_normalized_predicate (ix_predicate s))]"

definition strategy_payload :: "optimization_bundle \<Rightarrow> json" where
  "strategy_payload b = JObj [(''protocol_version'', JStr (ob_protocol_version b)),
     (''engine_image_digest'', JStr (ob_engine_image_digest b)),
     (''indexes'', JArr (map json_of_normalized_index (ob_indexes b)))]"

definition optimization_strategy_digest :: "optimization_bundle \<Rightarrow> string" where
  "optimization_strategy_digest b = v2_digest STRATEGY_DOMAIN_V2 (strategy_payload b)"

text \<open>What the digest is meant to identify: indexes that differ only in the order of a conjunction.\<close>

definition same_predicate :: "predicate_expression option \<Rightarrow> predicate_expression option \<Rightarrow> bool" where
  "same_predicate p q \<longleftrightarrow> (case (p, q) of (None, None) \<Rightarrow> True
     | (Some a, Some b) \<Rightarrow> mset (pred_atoms a) = mset (pred_atoms b) | _ \<Rightarrow> False)"

definition same_index :: "index_spec \<Rightarrow> index_spec \<Rightarrow> bool" where
  "same_index s t \<longleftrightarrow> ix_table s = ix_table t \<and> ix_key_columns s = ix_key_columns t
     \<and> ix_include_columns s = ix_include_columns t \<and> ix_unique s = ix_unique t
     \<and> same_predicate (ix_predicate s) (ix_predicate t)"

definition same_strategy :: "optimization_bundle \<Rightarrow> optimization_bundle \<Rightarrow> bool" where
  "same_strategy a b \<longleftrightarrow> ob_protocol_version a = ob_protocol_version b
     \<and> ob_engine_image_digest a = ob_engine_image_digest b
     \<and> list_all2 same_index (ob_indexes a) (ob_indexes b)"

lemma inj_json_of_atom: "inj json_of_atom"
  by (rule injI) (metis canon_json_of_atom)

lemma inj_dumps_atom: "inj_on json_dumps (range json_of_atom)"
  by (rule inj_onI) (auto simp: json_dumps_eq_iff)

lemma normalized_atoms_iff:
  "map canon (normalized_atoms xs) = map canon (normalized_atoms ys) \<longleftrightarrow> mset xs = mset ys"
proof
  assume "map canon (normalized_atoms xs) = map canon (normalized_atoms ys)"
  then have "mset (map canon (normalized_atoms xs)) = mset (map canon (normalized_atoms ys))" by simp
  then have "image_mset (canon \<circ> json_of_atom) (mset xs) = image_mset (canon \<circ> json_of_atom) (mset ys)"
    by (simp add: normalized_atoms_def multiset.map_comp)
  moreover have "inj (canon \<circ> json_of_atom)" by (rule injI) simp
  ultimately show "mset xs = mset ys" using multiset.inj_map by (metis injD)
next
  assume m: "mset xs = mset ys"
  have "normalized_atoms xs = normalized_atoms ys"
    unfolding normalized_atoms_def
  proof (rule properties_for_sort_key)
    show "mset (sort_key json_dumps (map json_of_atom ys)) = mset (map json_of_atom xs)" using m by simp
  next
    fix k assume k: "k \<in> set (sort_key json_dumps (map json_of_atom ys))"
    show "filter (\<lambda>x. json_dumps k = json_dumps x) (sort_key json_dumps (map json_of_atom ys)) =
        filter (\<lambda>x. json_dumps k = json_dumps x) (map json_of_atom xs)"
    proof -
      from k have kr: "k \<in> range json_of_atom" by auto
      have eq: "x = k" if "x \<in> set (filter (\<lambda>x. json_dumps k = json_dumps x) zs)"
        "set zs \<subseteq> range json_of_atom" for x zs
        using that kr inj_dumps_atom by (auto dest: inj_onD)
      have rep: "filter (\<lambda>x. json_dumps k = json_dumps x) zs = replicate (count (mset zs) k) k"
        if "set zs \<subseteq> range json_of_atom" for zs
      proof -
        have "filter (\<lambda>x. json_dumps k = json_dumps x) zs = filter (HOL.eq k) zs"
          using eq [OF _ that] by (intro filter_cong) auto
        then show ?thesis by (simp only: replicate_count_mset_eq_filter_eq)
      qed
      show ?thesis using m by (subst (1 2) rep) auto
    qed
  qed (rule sorted_sort_key)
  then show "map canon (normalized_atoms xs) = map canon (normalized_atoms ys)" by simp
qed

lemma canon_normalized_index:
  "canon (json_of_normalized_index s) = canon (json_of_normalized_index t) \<longleftrightarrow> same_index s t"
proof -
  have p: "canon (jopt json_of_normalized_predicate p) = canon (jopt json_of_normalized_predicate q)
      \<longleftrightarrow> same_predicate p q" for p q
    by (cases p; cases q)
      (simp_all add: jopt_def json_of_normalized_predicate_def canon_obj same_predicate_def
        normalized_atoms_iff del: canon.simps(2), simp_all)
  show ?thesis
    by (simp add: json_of_normalized_index_def canon_obj same_index_def p del: canon.simps(1,2))
qed

lemma strategy_payload_iff: "canon (strategy_payload a) = canon (strategy_payload b) \<longleftrightarrow> same_strategy a b"
  by (simp add: strategy_payload_def canon_obj same_strategy_def del: canon.simps(1,2))
    (simp only: canon_JArr_map_inject [OF canon_normalized_index])
end
