(* ===== verification/TaskModels.thy ===== *)
theory TaskModels
  imports Models
begin

text \<open>
  The task, reveal, request and response models of \<open>planrace/models_v2.py\<close>: records with
  the source's fields, field constraints and after-validators, JSON dumps, the request
  digest and the bytes a response signature covers. Every dump determines its record.
\<close>

section \<open>Parts of a public task\<close>

datatype value_type = IntegerType | TextType | BooleanType

fun value_type_str :: "value_type \<Rightarrow> string" where
  "value_type_str IntegerType = ''integer''"
| "value_type_str TextType = ''text''"
| "value_type_str BooleanType = ''boolean''"

datatype param_value = IntValue int | StrValue string | BoolValue bool

fun type_of_value :: "param_value \<Rightarrow> value_type" where
  "type_of_value (IntValue _) = IntegerType"
| "type_of_value (StrValue _) = TextType"
| "type_of_value (BoolValue _) = BooleanType"

text \<open>Python's \<open>>\<close> on two values of one type.\<close>

fun value_greater :: "param_value \<Rightarrow> param_value \<Rightarrow> bool" where
  "value_greater (IntValue a) (IntValue b) = (b < a)"
| "value_greater (StrValue a) (StrValue b) = (b < a)"
| "value_greater (BoolValue a) (BoolValue b) = (a \<and> \<not> b)"
| "value_greater _ _ = False"

datatype distribution = Uniform | LogUniform | Categorical | BoundaryWeighted
  | OrderedUniformPairLow | OrderedUniformPairHigh

fun distribution_str :: "distribution \<Rightarrow> string" where
  "distribution_str Uniform = ''uniform''"
| "distribution_str LogUniform = ''log_uniform''"
| "distribution_str Categorical = ''categorical''"
| "distribution_str BoundaryWeighted = ''boundary_weighted''"
| "distribution_str OrderedUniformPairLow = ''ordered_uniform_pair_low''"
| "distribution_str OrderedUniformPairHigh = ''ordered_uniform_pair_high''"

record parameter_range =
  pr_name :: string
  pr_value_type :: value_type
  pr_minimum :: param_value
  pr_maximum :: param_value
  pr_distribution :: distribution

text \<open>\<open>ParameterRange\<close> with \<open>validate_range_types\<close>.\<close>

definition validate_range_types :: "parameter_range \<Rightarrow> parameter_range result" where
  "validate_range_types r =
     rbind (rcheck (type_of_value (pr_minimum r) = pr_value_type r
              \<and> type_of_value (pr_maximum r) = pr_value_type r)
            (ValueError ''parameter range endpoints do not match value_type'')) (\<lambda>_.
     rbind (rcheck (\<not> (pr_value_type r \<noteq> BooleanType \<and> value_greater (pr_minimum r) (pr_maximum r)))
            (ValueError ''parameter range minimum exceeds maximum'')) (\<lambda>_. Inr r))"

definition valid_parameter_range :: "parameter_range \<Rightarrow> bool" where
  "valid_parameter_range r \<longleftrightarrow> valid_safe_identifier (pr_name r) \<and> is_ok (validate_range_types r)"

datatype data_profile = UniformProfile | SkewedProfile | CorrelatedProfile | NullHeavyProfile
  | DuplicateHeavyProfile

fun data_profile_str :: "data_profile \<Rightarrow> string" where
  "data_profile_str UniformProfile = ''uniform''"
| "data_profile_str SkewedProfile = ''skewed''"
| "data_profile_str CorrelatedProfile = ''correlated''"
| "data_profile_str NullHeavyProfile = ''null_heavy''"
| "data_profile_str DuplicateHeavyProfile = ''duplicate_heavy''"

record published_statistics =
  ps_row_count_min :: int
  ps_row_count_max :: int
  ps_selectivity_min_bps :: int
  ps_selectivity_max_bps :: int
  ps_data_profiles :: "data_profile list"

definition valid_published_statistics :: "published_statistics \<Rightarrow> bool" where
  "valid_published_statistics p \<longleftrightarrow> 0 \<le> ps_row_count_min p \<and> 0 \<le> ps_row_count_max p
     \<and> 0 \<le> ps_selectivity_min_bps p \<and> ps_selectivity_min_bps p \<le> 10000
     \<and> 0 \<le> ps_selectivity_max_bps p \<and> ps_selectivity_max_bps p \<le> 10000
     \<and> 1 \<le> length (ps_data_profiles p)
     \<and> ps_row_count_min p \<le> ps_row_count_max p \<and> ps_selectivity_min_bps p \<le> ps_selectivity_max_bps p"

record public_training_fixture =
  tf_fixture_id :: string
  tf_generator_seed_hex :: string
  tf_content_digest :: string
  tf_row_count :: int

definition valid_training_fixture :: "public_training_fixture \<Rightarrow> bool" where
  "valid_training_fixture f \<longleftrightarrow> valid_safe_identifier (tf_fixture_id f) \<and> valid_hex32 (tf_generator_seed_hex f)
     \<and> valid_sha256_digest (tf_content_digest f) \<and> 0 \<le> tf_row_count f"

record artifact_budget =
  ab_max_indexes :: int
  ab_max_columns_per_index :: int
  ab_max_predicates_per_index :: int
  ab_max_bundle_bytes :: int

definition valid_artifact_budget :: "artifact_budget \<Rightarrow> bool" where
  "valid_artifact_budget b \<longleftrightarrow> 0 \<le> ab_max_indexes b \<and> ab_max_indexes b \<le> int MAX_INDEXES_V2
     \<and> 1 \<le> ab_max_columns_per_index b \<and> ab_max_columns_per_index b \<le> int MAX_COLUMNS_PER_INDEX_V2
     \<and> 0 \<le> ab_max_predicates_per_index b \<and> ab_max_predicates_per_index b \<le> int MAX_PREDICATES_V2
     \<and> 1024 \<le> ab_max_bundle_bytes b \<and> ab_max_bundle_bytes b \<le> 65536"

definition default_artifact_budget :: artifact_budget where
  "default_artifact_budget = \<lparr>ab_max_indexes = int MAX_INDEXES_V2,
     ab_max_columns_per_index = int MAX_COLUMNS_PER_INDEX_V2,
     ab_max_predicates_per_index = int MAX_PREDICATES_V2, ab_max_bundle_bytes = 65536\<rparr>"

text \<open>\<open>artifact_type\<close>, \<open>allows_raw_sql\<close> and \<open>miner_controls_index_name\<close> are literal-typed
  constants and appear in the dump only.\<close>

record artifact_grammar =
  ag_allowed_predicate_operators :: "operator list"
  ag_allows_unique :: bool
  ag_allows_partial :: bool

definition default_artifact_grammar :: artifact_grammar where
  "default_artifact_grammar = \<lparr>
     ag_allowed_predicate_operators = [OpEq, OpNe, OpLt, OpLte, OpGt, OpGte, OpIsNull, OpIsNotNull],
     ag_allows_unique = True, ag_allows_partial = True\<rparr>"

fun json_of_value :: "param_value \<Rightarrow> json" where
  "json_of_value (IntValue i) = JInt i"
| "json_of_value (StrValue s) = JStr s"
| "json_of_value (BoolValue b) = JBool b"

definition json_of_range :: "parameter_range \<Rightarrow> json" where
  "json_of_range r = JObj [(''name'', JStr (pr_name r)),
     (''value_type'', JStr (value_type_str (pr_value_type r))),
     (''minimum'', json_of_value (pr_minimum r)), (''maximum'', json_of_value (pr_maximum r)),
     (''distribution'', JStr (distribution_str (pr_distribution r)))]"

definition json_of_statistics :: "published_statistics \<Rightarrow> json" where
  "json_of_statistics p = JObj [(''row_count_min'', JInt (ps_row_count_min p)),
     (''row_count_max'', JInt (ps_row_count_max p)),
     (''selectivity_min_bps'', JInt (ps_selectivity_min_bps p)),
     (''selectivity_max_bps'', JInt (ps_selectivity_max_bps p)),
     (''data_profiles'', jstrs (map data_profile_str (ps_data_profiles p)))]"

definition json_of_training :: "public_training_fixture \<Rightarrow> json" where
  "json_of_training f = JObj [(''fixture_id'', JStr (tf_fixture_id f)),
     (''generator_seed_hex'', JStr (tf_generator_seed_hex f)),
     (''content_digest'', JStr (tf_content_digest f)), (''row_count'', JInt (tf_row_count f))]"

definition json_of_budget :: "artifact_budget \<Rightarrow> json" where
  "json_of_budget b = JObj [(''max_indexes'', JInt (ab_max_indexes b)),
     (''max_columns_per_index'', JInt (ab_max_columns_per_index b)),
     (''max_predicates_per_index'', JInt (ab_max_predicates_per_index b)),
     (''max_bundle_bytes'', JInt (ab_max_bundle_bytes b))]"

definition json_of_grammar :: "artifact_grammar \<Rightarrow> json" where
  "json_of_grammar g = JObj [(''artifact_type'', JStr ''structured-index-spec-v1''),
     (''allowed_predicate_operators'', jstrs (map operator_str (ag_allowed_predicate_operators g))),
     (''allows_unique'', JBool (ag_allows_unique g)), (''allows_partial'', JBool (ag_allows_partial g)),
     (''allows_raw_sql'', JBool False), (''miner_controls_index_name'', JBool False)]"

lemma value_type_str_inject [simp]: "value_type_str a = value_type_str b \<longleftrightarrow> a = b"
  by (cases a; cases b) simp_all

lemma distribution_str_inject [simp]: "distribution_str a = distribution_str b \<longleftrightarrow> a = b"
  by (cases a; cases b) simp_all

lemma data_profile_str_inject [simp]: "data_profile_str a = data_profile_str b \<longleftrightarrow> a = b"
  by (cases a; cases b) simp_all

lemma map_data_profile_str_inject [simp]:
  "map data_profile_str a = map data_profile_str b \<longleftrightarrow> a = b"
  by (rule inj_map_eq_map) (simp add: inj_def)

lemma map_operator_str_inject [simp]: "map operator_str a = map operator_str b \<longleftrightarrow> a = b"
  by (rule inj_map_eq_map) (simp add: inj_def)

lemma canon_json_of_value [simp]: "canon (json_of_value a) = canon (json_of_value b) \<longleftrightarrow> a = b"
  by (cases a; cases b) simp_all

lemma canon_json_of_range [simp]: "canon (json_of_range a) = canon (json_of_range b) \<longleftrightarrow> a = b"
  by (simp add: json_of_range_def canon_obj del: canon.simps(1,2)) (auto intro: parameter_range.equality)

lemma canon_json_of_ranges [simp]:
  "canon (JArr (map json_of_range a)) = canon (JArr (map json_of_range b)) \<longleftrightarrow> a = b"
  by (simp only: canon_JArr_map_inject [where R = "(=)"] canon_json_of_range list.rel_eq)

lemma canon_json_of_statistics [simp]:
  "canon (json_of_statistics a) = canon (json_of_statistics b) \<longleftrightarrow> a = b"
  by (simp add: json_of_statistics_def canon_obj del: canon.simps(1,2)) (auto intro: published_statistics.equality)

lemma canon_json_of_training [simp]:
  "canon (json_of_training a) = canon (json_of_training b) \<longleftrightarrow> a = b"
  by (simp add: json_of_training_def canon_obj del: canon.simps(1,2)) (auto intro: public_training_fixture.equality)

lemma canon_json_of_budget [simp]: "canon (json_of_budget a) = canon (json_of_budget b) \<longleftrightarrow> a = b"
  by (simp add: json_of_budget_def canon_obj del: canon.simps(1,2)) (auto intro: artifact_budget.equality)

lemma canon_json_of_grammar [simp]: "canon (json_of_grammar a) = canon (json_of_grammar b) \<longleftrightarrow> a = b"
  by (simp add: json_of_grammar_def canon_obj del: canon.simps(1,2)) (auto intro: artifact_grammar.equality)

section \<open>Tasks, fixtures and reveals\<close>

record public_task =
  pt_protocol_version :: string
  pt_task_id :: string
  pt_validator_hotkey :: string
  pt_engine_image_digest :: string
  pt_generator_source_digest :: string
  pt_benchmark_policy_digest :: string
  pt_benchmark_family_id :: string
  pt_schema_sql :: string
  pt_reference_sql :: string
  pt_public_training_fixture :: public_training_fixture
  pt_parameter_ranges :: "parameter_range list"
  pt_published_statistics :: published_statistics
  pt_artifact_budget :: artifact_budget
  pt_artifact_grammar :: artifact_grammar
  pt_hidden_holdout_count :: int
  pt_commitment :: string
  pt_deadline_unix_ms :: int

definition valid_public_task :: "public_task \<Rightarrow> bool" where
  "valid_public_task t \<longleftrightarrow> pt_protocol_version t = PROTOCOL_VERSION_V2
     \<and> valid_opaque_id (pt_task_id t) \<and> valid_hotkey (pt_validator_hotkey t)
     \<and> valid_sha256_digest (pt_engine_image_digest t) \<and> valid_sha256_digest (pt_generator_source_digest t)
     \<and> valid_sha256_digest (pt_benchmark_policy_digest t) \<and> valid_family_id (pt_benchmark_family_id t)
     \<and> valid_sql_text (pt_schema_sql t) \<and> valid_sql_text (pt_reference_sql t)
     \<and> valid_training_fixture (pt_public_training_fixture t)
     \<and> 1 \<le> length (pt_parameter_ranges t) \<and> list_all valid_parameter_range (pt_parameter_ranges t)
     \<and> valid_published_statistics (pt_published_statistics t)
     \<and> valid_artifact_budget (pt_artifact_budget t)
     \<and> 2 \<le> pt_hidden_holdout_count t \<and> pt_hidden_holdout_count t \<le> 64
     \<and> valid_sha256_digest (pt_commitment t) \<and> 0 < pt_deadline_unix_ms t"

record hidden_fixture =
  hf_fixture_id :: string
  hf_content_digest :: string
  hf_database_file_digest :: "string option"
  hf_parameter_set_digest :: string
  hf_row_count :: int

definition valid_hidden_fixture :: "hidden_fixture \<Rightarrow> bool" where
  "valid_hidden_fixture f \<longleftrightarrow> valid_safe_identifier (hf_fixture_id f)
     \<and> valid_sha256_digest (hf_content_digest f)
     \<and> (case hf_database_file_digest f of None \<Rightarrow> True | Some d \<Rightarrow> valid_sha256_digest d)
     \<and> valid_sha256_digest (hf_parameter_set_digest f) \<and> 0 \<le> hf_row_count f"

record task_reveal =
  tr_protocol_version :: string
  tr_task_id :: string
  tr_secret_seed_hex :: string
  tr_salt_hex :: string
  tr_hidden_fixtures :: "hidden_fixture list"
  tr_hidden_fixture_merkle_root :: string

definition valid_task_reveal :: "task_reveal \<Rightarrow> bool" where
  "valid_task_reveal r \<longleftrightarrow> tr_protocol_version r = PROTOCOL_VERSION_V2 \<and> valid_opaque_id (tr_task_id r)
     \<and> valid_hex32 (tr_secret_seed_hex r) \<and> valid_hex32 (tr_salt_hex r)
     \<and> 2 \<le> length (tr_hidden_fixtures r) \<and> length (tr_hidden_fixtures r) \<le> 64
     \<and> list_all valid_hidden_fixture (tr_hidden_fixtures r)
     \<and> valid_sha256_digest (tr_hidden_fixture_merkle_root r)"

definition json_of_task :: "public_task \<Rightarrow> json" where
  "json_of_task t = JObj [(''protocol_version'', JStr (pt_protocol_version t)),
     (''task_id'', JStr (pt_task_id t)), (''validator_hotkey'', JStr (pt_validator_hotkey t)),
     (''engine_image_digest'', JStr (pt_engine_image_digest t)),
     (''generator_source_digest'', JStr (pt_generator_source_digest t)),
     (''benchmark_policy_digest'', JStr (pt_benchmark_policy_digest t)),
     (''benchmark_family_id'', JStr (pt_benchmark_family_id t)),
     (''schema_sql'', JStr (pt_schema_sql t)), (''reference_sql'', JStr (pt_reference_sql t)),
     (''public_training_fixture'', json_of_training (pt_public_training_fixture t)),
     (''parameter_ranges'', JArr (map json_of_range (pt_parameter_ranges t))),
     (''published_statistics'', json_of_statistics (pt_published_statistics t)),
     (''artifact_budget'', json_of_budget (pt_artifact_budget t)),
     (''artifact_grammar'', json_of_grammar (pt_artifact_grammar t)),
     (''hidden_holdout_count'', JInt (pt_hidden_holdout_count t)),
     (''commitment'', JStr (pt_commitment t)), (''deadline_unix_ms'', JInt (pt_deadline_unix_ms t))]"

definition json_of_fixture :: "hidden_fixture \<Rightarrow> json" where
  "json_of_fixture f = JObj [(''fixture_id'', JStr (hf_fixture_id f)),
     (''content_digest'', JStr (hf_content_digest f)),
     (''database_file_digest'', jopt JStr (hf_database_file_digest f)),
     (''parameter_set_digest'', JStr (hf_parameter_set_digest f)),
     (''row_count'', JInt (hf_row_count f))]"

lemma canon_json_of_task [simp]: "canon (json_of_task a) = canon (json_of_task b) \<longleftrightarrow> a = b"
  by (simp add: json_of_task_def canon_obj del: canon.simps(1,2)) (auto intro: public_task.equality)

lemma canon_jopt_str [simp]: "canon (jopt JStr a) = canon (jopt JStr b) \<longleftrightarrow> a = b"
  by (rule canon_jopt_inject) simp_all

lemma canon_json_of_fixture [simp]: "canon (json_of_fixture a) = canon (json_of_fixture b) \<longleftrightarrow> a = b"
  by (simp add: json_of_fixture_def canon_obj del: canon.simps(1,2)) (auto intro: hidden_fixture.equality)

section \<open>Requests and responses\<close>

record optimization_request =
  rq_protocol_version :: string
  rq_request_id :: string
  rq_task :: public_task
  rq_validator_hotkey :: string
  rq_miner_hotkey :: string
  rq_request_nonce :: int
  rq_issued_at_unix_ms :: int
  rq_expires_at_unix_ms :: int

text \<open>\<open>OptimizationRequestV2\<close> with \<open>validate_request\<close>.\<close>

definition valid_request :: "optimization_request \<Rightarrow> bool" where
  "valid_request r \<longleftrightarrow> rq_protocol_version r = PROTOCOL_VERSION_V2 \<and> valid_opaque_id (rq_request_id r)
     \<and> valid_public_task (rq_task r) \<and> valid_hotkey (rq_validator_hotkey r) \<and> valid_hotkey (rq_miner_hotkey r)
     \<and> 0 \<le> rq_request_nonce r \<and> 0 < rq_issued_at_unix_ms r \<and> 0 < rq_expires_at_unix_ms r
     \<and> rq_validator_hotkey r = pt_validator_hotkey (rq_task r)
     \<and> rq_issued_at_unix_ms r < rq_expires_at_unix_ms r"

definition json_of_request :: "optimization_request \<Rightarrow> json" where
  "json_of_request r = JObj [(''protocol_version'', JStr (rq_protocol_version r)),
     (''request_id'', JStr (rq_request_id r)), (''task'', json_of_task (rq_task r)),
     (''validator_hotkey'', JStr (rq_validator_hotkey r)), (''miner_hotkey'', JStr (rq_miner_hotkey r)),
     (''request_nonce'', JInt (rq_request_nonce r)),
     (''issued_at_unix_ms'', JInt (rq_issued_at_unix_ms r)),
     (''expires_at_unix_ms'', JInt (rq_expires_at_unix_ms r))]"

definition optimization_request_digest :: "optimization_request \<Rightarrow> string" where
  "optimization_request_digest r = v2_digest REQUEST_DOMAIN_V2 (json_of_request r)"

record signed_response =
  sr_protocol_version :: string
  sr_request_id :: string
  sr_task_id :: string
  sr_request_digest :: string
  sr_validator_hotkey :: string
  sr_miner_hotkey :: string
  sr_request_nonce :: int
  sr_issued_at_unix_ms :: int
  sr_expires_at_unix_ms :: int
  sr_artifact_digest :: string
  sr_artifact :: optimization_bundle
  sr_signature :: string

text \<open>\<open>SignedOptimizationResponse\<close> with \<open>validate_response_links\<close>.\<close>

definition valid_response_fields :: "signed_response \<Rightarrow> bool" where
  "valid_response_fields r \<longleftrightarrow> sr_protocol_version r = PROTOCOL_VERSION_V2
     \<and> valid_opaque_id (sr_request_id r) \<and> valid_opaque_id (sr_task_id r)
     \<and> valid_sha256_digest (sr_request_digest r) \<and> valid_hotkey (sr_validator_hotkey r)
     \<and> valid_hotkey (sr_miner_hotkey r) \<and> 0 \<le> sr_request_nonce r \<and> 0 < sr_issued_at_unix_ms r
     \<and> 0 < sr_expires_at_unix_ms r \<and> valid_sha256_digest (sr_artifact_digest r)
     \<and> is_ok (validate_bundle (sr_artifact r)) \<and> valid_signature_hex (sr_signature r)"

definition validate_response :: "signed_response \<Rightarrow> signed_response result" where
  "validate_response r =
     rbind (rcheck (valid_response_fields r) (ValueError ''validation error'')) (\<lambda>_.
     rbind (rcheck (sr_task_id r = ob_task_id (sr_artifact r))
              (ValueError ''response task_id does not match artifact'')) (\<lambda>_.
     rbind (rcheck (sr_artifact_digest r = ob_artifact_digest (sr_artifact r))
              (ValueError ''response artifact_digest does not match artifact'')) (\<lambda>_.
     rbind (rcheck (sr_issued_at_unix_ms r < sr_expires_at_unix_ms r)
              (ValueError ''response expiry must follow issue time'')) (\<lambda>_. Inr r))))"

definition json_of_response_contents :: "signed_response \<Rightarrow> json" where
  "json_of_response_contents r = JObj [(''protocol_version'', JStr (sr_protocol_version r)),
     (''request_id'', JStr (sr_request_id r)), (''task_id'', JStr (sr_task_id r)),
     (''request_digest'', JStr (sr_request_digest r)),
     (''validator_hotkey'', JStr (sr_validator_hotkey r)), (''miner_hotkey'', JStr (sr_miner_hotkey r)),
     (''request_nonce'', JInt (sr_request_nonce r)),
     (''issued_at_unix_ms'', JInt (sr_issued_at_unix_ms r)),
     (''expires_at_unix_ms'', JInt (sr_expires_at_unix_ms r)),
     (''artifact_digest'', JStr (sr_artifact_digest r)), (''artifact'', json_of_bundle (sr_artifact r))]"

definition optimization_response_signing_bytes :: "signed_response \<Rightarrow> bytes" where
  "optimization_response_signing_bytes r =
     frame RESPONSE_DOMAIN_V2 (json_dumps (json_of_response_contents r))"

lemma canon_json_of_request [simp]: "canon (json_of_request a) = canon (json_of_request b) \<longleftrightarrow> a = b"
  by (simp add: json_of_request_def canon_obj del: canon.simps(1,2)) (auto intro: optimization_request.equality)

lemma request_digest_binding:
  assumes "optimization_request_digest a = optimization_request_digest b"
  shows "a = b \<or> sha256_collision (v2_preimage REQUEST_DOMAIN_V2 (json_of_request a))
                  (v2_preimage REQUEST_DOMAIN_V2 (json_of_request b))"
  using v2.binding_same_domain [OF length_v2_domains(4) assms [unfolded optimization_request_digest_def]]
  by simp

text \<open>The signature covers every field but itself.\<close>

lemma signing_bytes_inject:
  "optimization_response_signing_bytes a = optimization_response_signing_bytes b
     \<longleftrightarrow> a\<lparr>sr_signature := s\<rparr> = b\<lparr>sr_signature := s\<rparr>"
proof -
  have "canon (json_of_response_contents a) = canon (json_of_response_contents b)
      \<longleftrightarrow> a\<lparr>sr_signature := s\<rparr> = b\<lparr>sr_signature := s\<rparr>"
    by (cases a; cases b) (simp add: json_of_response_contents_def canon_obj del: canon.simps(1,2))
  moreover have "optimization_response_signing_bytes a = optimization_response_signing_bytes b
      \<longleftrightarrow> json_dumps (json_of_response_contents a) = json_dumps (json_of_response_contents b)"
    unfolding optimization_response_signing_bytes_def
    using frame_inject [OF length_v2_domains(5) length_v2_domains(5)] by metis
  ultimately show ?thesis by (simp only: json_dumps_eq_iff)
qed

end
