(* ===== verification/Replay.thy ===== *)
theory Replay
  imports Prelude
begin

text \<open>
  Replay protection: \<open>MemoryResponseReplayStore\<close> and \<open>SQLiteResponseReplayStore\<close> of
  \<open>planrace/auth_v2.py\<close>, \<open>SQLiteNonceStore\<close> of \<open>planrace/nonce.py\<close> and the
  \<open>FreshNonceGenerator\<close> of \<open>planrace/auth.py\<close>. A SQLite table is the list of its rows;
  each call is one transaction under the store's lock, so a run is a sequence of calls.
  The locale \<open>replay_store\<close> is the contract the callers rely on, interpreted on all three.
\<close>

section \<open>The contract of a replay store\<close>

text \<open>A run of calls \<open>(t, k, e)\<close>: the answers it gives and the state it leaves.\<close>

fun run_checks :: "('s \<Rightarrow> int \<Rightarrow> 'k \<Rightarrow> int \<Rightarrow> 's \<times> bool) \<Rightarrow> 's \<Rightarrow> (int \<times> 'k \<times> int) list \<Rightarrow> bool list" where
  "run_checks check s [] = []"
| "run_checks check s ((t, k, e) # cs) = (let (s', ok) = check s t k e in ok # run_checks check s' cs)"

fun run_store :: "('s \<Rightarrow> int \<Rightarrow> 'k \<Rightarrow> int \<Rightarrow> 's \<times> bool) \<Rightarrow> 's \<Rightarrow> (int \<times> 'k \<times> int) list \<Rightarrow> 's" where
  "run_store check s [] = s"
| "run_store check s ((t, k, e) # cs) = run_store check (fst (check s t k e)) cs"

lemma run_store_invariant:
  assumes "P s" and "\<And>s t k e. P s \<Longrightarrow> P (fst (check s t k e))"
  shows "P (run_store check s cs)"
  using assms by (induction check s cs rule: run_store.induct) auto

text \<open>
  \<open>check s t k e\<close> offers key \<open>k\<close> with expiry \<open>e\<close> at time \<open>t\<close>; \<open>retained s t k\<close> says the
  store still remembers \<open>k\<close> at time \<open>t\<close>; \<open>alive k e t\<close> says a key accepted with expiry \<open>e\<close>
  must be remembered at \<open>t\<close>.
\<close>

locale replay_store =
  fixes check :: "'s \<Rightarrow> int \<Rightarrow> 'k \<Rightarrow> int \<Rightarrow> 's \<times> bool"
    and retained :: "'s \<Rightarrow> int \<Rightarrow> 'k \<Rightarrow> bool"
    and alive :: "'k \<Rightarrow> int \<Rightarrow> int \<Rightarrow> bool"
  assumes accepted_retained: "check s t k e = (s', True) \<Longrightarrow> alive k e t' \<Longrightarrow> retained s' t' k"
    and retained_rejected: "retained s t k \<Longrightarrow> \<not> snd (check s t k e)"
    and retained_kept: "retained s t' k' \<Longrightarrow> t \<le> t' \<Longrightarrow> retained (fst (check s t k e)) t' k'"
begin

lemma retained_run_rejected:
  assumes "retained s t' k'" "sorted (map fst cs)" "i < length cs" "cs ! i = (t', k', e')"
  shows "\<not> run_checks check s cs ! i"
  using assms
proof (induction cs arbitrary: s i)
  case (Cons x cs)
  obtain t k e where x: "x = (t, k, e)" by (cases x)
  note 2 = Cons [unfolded x]
  obtain s' ok where c: "check s t k e = (s', ok)" by fastforce
  show ?case
  proof (cases i)
    case 0
    with 2 c x retained_rejected [of s t k e] show ?thesis by auto
  next
    case (Suc j)
    then have j: "j < length cs" "cs ! j = (t', k', e')" using 2 by auto
    then have "t' \<in> set (map fst cs)" by (metis fst_conv in_set_conv_nth length_map nth_map)
    then have "t \<le> t'" using 2 by auto
    then have "retained s' t' k'" using retained_kept [OF 2(2), of t k e] c by simp
    with 2 c x Suc j show ?thesis by auto
  qed
qed simp

text \<open>An accepted key is not accepted again while it must be remembered.\<close>

theorem no_replay:
  assumes "sorted (map fst cs)" "i < j" "j < length cs"
    and "cs ! i = (t, k, e)" "cs ! j = (t', k, e')" "run_checks check s cs ! i" "alive k e t'"
  shows "\<not> run_checks check s cs ! j"
  using assms
proof (induction cs arbitrary: s i j)
  case (Cons x cs)
  obtain u l f where x: "x = (u, l, f)" by (cases x)
  note 2 = Cons [unfolded x]
  obtain s' ok where c: "check s u l f = (s', ok)" by fastforce
  obtain j' where j': "j = Suc j'" "j' < length cs" using 2 by (cases j) auto
  show ?case
  proof (cases i)
    case 0
    then have "check s t k e = (s', True)" using 2 c by simp
    then have "retained s' t' k" using 2(8) by (rule accepted_retained)
    then have "\<not> run_checks check s' cs ! j'"
      by (rule retained_run_rejected) (use 2 j' in auto)
    with c x j' show ?thesis by simp
  next
    case (Suc i')
    with 2 c x j' show ?thesis by auto
  qed
qed simp

end

section \<open>The stores\<close>

type_synonym response_key = "string \<times> int \<times> string"

record memory_store =
  mem_keys :: "response_key list"
  mem_max_entries :: int

definition memory_store_init :: "int \<Rightarrow> memory_store result" where
  "memory_store_init max_entries =
     (if max_entries < 1 then Inl (ValueError ''max_entries must be positive'')
      else Inr \<lparr>mem_keys = [], mem_max_entries = max_entries\<rparr>)"

definition memory_check_and_store :: "memory_store \<Rightarrow> response_key \<Rightarrow> int \<Rightarrow> memory_store \<times> bool" where
  "memory_check_and_store s key expires_at =
     (if key \<in> set (mem_keys s) then (s, False)
      else if mem_max_entries s \<le> int (length (mem_keys s)) then (s, False)
      else (s\<lparr>mem_keys := mem_keys s @ [key]\<rparr>, True))"

record sqlite_response_store =
  srs_rows :: "(response_key \<times> int) list"
  srs_max_entries :: int

definition sqlite_response_store_init :: "int \<Rightarrow> sqlite_response_store result" where
  "sqlite_response_store_init max_entries =
     (if max_entries < 1 then Inl (ValueError ''max_entries must be positive'')
      else Inr \<lparr>srs_rows = [], srs_max_entries = max_entries\<rparr>)"

text \<open>The delete and the insert are one transaction; a primary-key clash is the \<open>IntegrityError\<close>.\<close>

definition sqlite_response_check_and_store ::
  "sqlite_response_store \<Rightarrow> int \<Rightarrow> response_key \<Rightarrow> int \<Rightarrow> sqlite_response_store \<times> bool" where
  "sqlite_response_check_and_store s now key expires_at =
     (let rows = filter (\<lambda>(_, e). \<not> e \<le> now) (srs_rows s); s' = s\<lparr>srs_rows := rows\<rparr> in
      if srs_max_entries s \<le> int (length rows) then (s', False)
      else if key \<in> fst ` set rows then (s', False)
      else (s'\<lparr>srs_rows := rows @ [(key, expires_at)]\<rparr>, True))"

type_synonym nonce_key = "string \<times> int"

record nonce_config =
  nc_ttl_ns :: int
  nc_max_entries :: int

definition nonce_store_init :: "int \<Rightarrow> int \<Rightarrow> nonce_config result" where
  "nonce_store_init ttl_ns max_entries =
     (if ttl_ns < 1 \<or> max_entries < 1 then Inl (ValueError ''nonce retention limits must be positive'')
      else Inr \<lparr>nc_ttl_ns = ttl_ns, nc_max_entries = max_entries\<rparr>)"

definition nonce_check_and_store ::
  "nonce_config \<Rightarrow> nonce_key list \<Rightarrow> int \<Rightarrow> nonce_key \<Rightarrow> nonce_key list \<times> bool" where
  "nonce_check_and_store cfg rows now key =
     (let rows' = filter (\<lambda>(_, n). \<not> n < now - nc_ttl_ns cfg) rows in
      if nc_max_entries cfg \<le> int (length rows') then (rows', False)
      else if key \<in> set rows' then (rows', False)
      else (rows' @ [key], True))"

text \<open>\<open>FreshNonceGenerator.__call__\<close>: the state is the last value, initially \<open>-1\<close>.\<close>

definition fresh_nonce :: "int \<Rightarrow> int \<Rightarrow> int \<times> int" where
  "fresh_nonce prev clock = (let value = max clock (prev + 1) in (value, value))"

fun fresh_nonces :: "int \<Rightarrow> int list \<Rightarrow> int list" where
  "fresh_nonces prev [] = []"
| "fresh_nonces prev (c # cs) = (let (prev', v) = fresh_nonce prev c in v # fresh_nonces prev' cs)"

section \<open>The stores keep the contract\<close>

interpretation memory: replay_store
  "\<lambda>s t k e. memory_check_and_store s k e" "\<lambda>s t k. k \<in> set (mem_keys s)" "\<lambda>k e t. True"
  by unfold_locales (auto simp: memory_check_and_store_def split: if_splits)

interpretation sqlite: replay_store
  sqlite_response_check_and_store "\<lambda>s t k. \<exists>e. (k, e) \<in> set (srs_rows s) \<and> t < e" "\<lambda>k e t. t < e"
  by unfold_locales
    (force simp: sqlite_response_check_and_store_def Let_def image_iff split: if_splits)+

interpretation nonce: replay_store
  "\<lambda>s t k e. nonce_check_and_store cfg s t k" "\<lambda>s t k. k \<in> set s \<and> t - nc_ttl_ns cfg \<le> snd k"
  "\<lambda>k e t. t - nc_ttl_ns cfg \<le> snd k" for cfg
  by unfold_locales (auto simp: nonce_check_and_store_def Let_def split: if_splits)

section \<open>Capacity and keys\<close>

lemma memory_capacity:
  "memory_check_and_store s k e = (s', ok) \<Longrightarrow> int (length (mem_keys s)) \<le> mem_max_entries s
    \<Longrightarrow> int (length (mem_keys s')) \<le> mem_max_entries s' \<and> mem_max_entries s' = mem_max_entries s"
  by (auto simp: memory_check_and_store_def split: if_splits)

lemma sqlite_response_capacity:
  assumes "sqlite_response_check_and_store s t k e = (s', ok)"
    and "int (length (srs_rows s)) \<le> srs_max_entries s" "distinct (map fst (srs_rows s))"
  shows "int (length (srs_rows s')) \<le> srs_max_entries s' \<and> distinct (map fst (srs_rows s'))
    \<and> srs_max_entries s' = srs_max_entries s"
proof -
  let ?rows = "filter (\<lambda>(_, e). \<not> e \<le> t) (srs_rows s)"
  have "int (length ?rows) \<le> srs_max_entries s"
    using assms(2) length_filter_le [of "\<lambda>(_, e). \<not> e \<le> t" "srs_rows s"] by linarith
  moreover have "distinct (map fst ?rows)" using assms(3) by (simp add: distinct_map_filter)
  ultimately show ?thesis
    using assms(1) by (auto simp: sqlite_response_check_and_store_def Let_def split: if_splits)
qed

lemma nonce_capacity:
  assumes "nonce_check_and_store cfg rows t k = (rows', ok)"
    and "int (length rows) \<le> nc_max_entries cfg" "distinct rows"
  shows "int (length rows') \<le> nc_max_entries cfg \<and> distinct rows'"
proof -
  let ?rows = "filter (\<lambda>(_, n). \<not> n < t - nc_ttl_ns cfg) rows"
  have "int (length ?rows) \<le> nc_max_entries cfg"
    using assms(2) length_filter_le [of "\<lambda>(_, n). \<not> n < t - nc_ttl_ns cfg" rows] by linarith
  then show ?thesis
    using assms(1,3) by (auto simp: nonce_check_and_store_def Let_def split: if_splits)
qed

lemma fresh_nonces_greater: "v \<in> set (fresh_nonces prev cs) \<Longrightarrow> prev < v"
  by (induction cs arbitrary: prev) (fastforce simp: fresh_nonce_def Let_def)+

lemma fresh_nonces_sorted: "sorted_wrt (<) (fresh_nonces prev cs)"
proof (induction cs arbitrary: prev)
  case (Cons c cs)
  then show ?case
    using fresh_nonces_greater by (fastforce simp: fresh_nonce_def Let_def)
qed simp

lemma fresh_nonces_at_least_clock:
  "i < length cs \<Longrightarrow> cs ! i \<le> fresh_nonces prev cs ! i"
proof (induction cs arbitrary: prev i)
  case (Cons c cs)
  then show ?case by (cases i) (auto simp: fresh_nonce_def Let_def)
qed simp

end
