(* ===== verification/Auth.thy ===== *)
theory Auth
  imports TaskModels Replay
begin

text \<open>
  Bidirectional response authentication, \<open>planrace/auth_v2.py\<close>: resolving a signer,
  signing a response and verifying one. The sr25519 primitives belong to the Bittensor
  SDK and are parameters: \<open>sign\<close> of a signer and \<open>kp_verify address message signature\<close>.
  The replay store is a parameter too, any state with a check operation, so that the
  theorems hold for both stores of \<open>Replay\<close>.
\<close>

section \<open>\<open>bytes.fromhex\<close>\<close>

definition hex_value :: "char \<Rightarrow> nat option" where
  "hex_value c =
     (let n = of_char c :: nat in
      if 48 \<le> n \<and> n \<le> 57 then Some (n - 48)
      else if 97 \<le> n \<and> n \<le> 102 then Some (n - 87)
      else if 65 \<le> n \<and> n \<le> 70 then Some (n - 55) else None)"

definition is_space :: "char \<Rightarrow> bool" where
  "is_space c \<longleftrightarrow> c = CHR '' '' \<or> (9 \<le> (of_char c :: nat) \<and> (of_char c :: nat) \<le> 13)"

fun bytes_fromhex :: "string \<Rightarrow> bytes result" where
  "bytes_fromhex [] = Inr []"
| "bytes_fromhex [c] =
     (if is_space c then Inr [] else Inl (ValueError ''non-hexadecimal number found in fromhex() arg''))"
| "bytes_fromhex (c # d # s) =
     (if is_space c then bytes_fromhex (d # s)
      else case (hex_value c, hex_value d) of
          (Some h, Some l) \<Rightarrow> rbind (bytes_fromhex s) (\<lambda>bs. Inr (char_of (16 * h + l) # bs))
        | _ \<Rightarrow> Inl (ValueError ''non-hexadecimal number found in fromhex() arg''))"

lemma hex_value_hex_digit [simp]: "d < 16 \<Longrightarrow> hex_value (hex_digit d) = Some d"
  by (simp add: hex_value_def hex_digit_def Let_def)

lemma hex_digit_not_space [simp]: "d < 16 \<Longrightarrow> \<not> is_space (hex_digit d)"
  by (auto simp: is_space_def hex_digit_def dest!: arg_cong [where f = "of_char :: char \<Rightarrow> nat"] split: if_splits)

lemma bytes_fromhex_hex [simp]: "bytes_fromhex (bytes_hex bs) = Inr bs"
proof (induction bs)
  case (Cons b bs)
  have "(char_of (16 * (of_char b div 16) + of_char b mod 16 :: nat) :: char) = b" by simp
  with Cons show ?case by (simp add: byte_hex_def)
qed simp

section \<open>Signers\<close>

text \<open>
  A signing object as \<open>resolve_response_signer\<close> inspects it: an address if it has one, a
  callable \<open>sign\<close> if it has one, and whether its \<open>crypto_type\<close> is sr25519. A wallet is an
  object with a \<open>hotkey\<close> attribute.
\<close>

record response_signer =
  sg_ss58_address :: "string option"
  sg_sign :: "(bytes \<Rightarrow> pyval) option"
  sg_is_sr25519 :: bool

datatype wallet_or_signer = WithHotkey response_signer | PlainSigner response_signer

fun signer_candidate :: "wallet_or_signer \<Rightarrow> response_signer" where
  "signer_candidate (WithHotkey h) = h"
| "signer_candidate (PlainSigner s) = s"

definition resolve_response_signer :: "wallet_or_signer \<Rightarrow> (string \<times> (bytes \<Rightarrow> pyval)) result" where
  "resolve_response_signer w =
     (let candidate = signer_candidate w in
      case (sg_ss58_address candidate, sg_sign candidate) of
        (Some address, Some sign) \<Rightarrow>
          (if \<not> sg_is_sr25519 candidate
           then Inl (TypeError ''response signer must be an sr25519 hotkey'')
           else Inr (address, sign))
      | _ \<Rightarrow> Inl (TypeError ''response signer must expose hotkey ss58_address and sign(bytes)''))"

section \<open>Signing\<close>

definition response_placeholder :: "optimization_request \<Rightarrow> optimization_bundle \<Rightarrow> int \<Rightarrow> int \<Rightarrow> signed_response" where
  "response_placeholder request artifact issued expires = \<lparr>sr_protocol_version = PROTOCOL_VERSION_V2,
     sr_request_id = rq_request_id request, sr_task_id = pt_task_id (rq_task request),
     sr_request_digest = optimization_request_digest request,
     sr_validator_hotkey = rq_validator_hotkey request, sr_miner_hotkey = rq_miner_hotkey request,
     sr_request_nonce = rq_request_nonce request, sr_issued_at_unix_ms = issued,
     sr_expires_at_unix_ms = expires, sr_artifact_digest = ob_artifact_digest artifact,
     sr_artifact = artifact, sr_signature = replicate 128 (CHR ''0'')\<rparr>"

text \<open>What the signer returned must be 64 bytes; the response is validated again with it.\<close>

definition attach_signature :: "signed_response \<Rightarrow> pyval \<Rightarrow> signed_response result" where
  "attach_signature placeholder signature =
     (case signature of
        PBytes bs \<Rightarrow>
          (if length bs \<noteq> 64 then Inl (ValueError ''hotkey signer returned an invalid signature'')
           else validate_response (placeholder\<lparr>sr_signature := bytes_hex bs\<rparr>))
      | _ \<Rightarrow> Inl (ValueError ''hotkey signer returned an invalid signature''))"

definition sign_optimization_response ::
  "optimization_request \<Rightarrow> optimization_bundle \<Rightarrow> wallet_or_signer \<Rightarrow> int \<Rightarrow> int \<Rightarrow> signed_response result" where
  "sign_optimization_response request artifact miner_signer issued_at expires_at =
     rbind (resolve_response_signer miner_signer) (\<lambda>(address, sign).
     rbind (rcheck (address = rq_miner_hotkey request)
              (ValueError ''signer does not match request miner_hotkey'')) (\<lambda>_.
     rbind (rcheck (ob_task_id artifact = pt_task_id (rq_task request))
              (ValueError ''artifact belongs to a different task'')) (\<lambda>_.
     rbind (rcheck (ob_engine_image_digest artifact = pt_engine_image_digest (rq_task request))
              (ValueError ''artifact engine digest does not match task'')) (\<lambda>_.
     rbind (rcheck (\<not> issued_at < rq_issued_at_unix_ms request)
              (ValueError ''response cannot predate request'')) (\<lambda>_.
     rbind (rcheck (\<not> rq_expires_at_unix_ms request < expires_at)
              (ValueError ''response cannot outlive request'')) (\<lambda>_.
     rbind (validate_response (response_placeholder request artifact issued_at expires_at)) (\<lambda>placeholder.
       attach_signature placeholder (sign (optimization_response_signing_bytes placeholder)))))))))"

section \<open>Verification\<close>

text \<open>
  Building the public key and verifying can raise; \<open>TypeError\<close> and \<open>ValueError\<close> count as a
  bad signature, any other exception passes through.
\<close>

fun catch_type_value_error :: "bool result \<Rightarrow> bool result" where
  "catch_type_value_error (Inl (TypeError _)) = Inr False"
| "catch_type_value_error (Inl (ValueError _)) = Inr False"
| "catch_type_value_error r = r"

definition response_checks ::
  "(string \<Rightarrow> bytes \<Rightarrow> bytes \<Rightarrow> bool result) \<Rightarrow> signed_response \<Rightarrow> optimization_request \<Rightarrow> int
    \<Rightarrow> (int, string) dict \<Rightarrow> int \<Rightarrow> int \<Rightarrow> unit result" where
  "response_checks kp_verify response request expected_miner_uid metagraph now skew =
     rbind (rcheck (0 \<le> skew) (ValueError ''max_clock_skew_ms cannot be negative'')) (\<lambda>_.
     rbind (rcheck (map_of metagraph expected_miner_uid = Some (rq_miner_hotkey request))
              (ResponseVerificationError ''metagraph_identity_mismatch'')) (\<lambda>_.
     rbind (rcheck (sr_miner_hotkey response = rq_miner_hotkey request)
              (ResponseVerificationError ''wrong_miner'')) (\<lambda>_.
     rbind (rcheck (sr_validator_hotkey response = rq_validator_hotkey request)
              (ResponseVerificationError ''wrong_receiver'')) (\<lambda>_.
     rbind (rcheck (sr_request_id response = rq_request_id request)
              (ResponseVerificationError ''wrong_request'')) (\<lambda>_.
     rbind (rcheck (sr_task_id response = pt_task_id (rq_task request))
              (ResponseVerificationError ''wrong_task'')) (\<lambda>_.
     rbind (rcheck (sr_request_nonce response = rq_request_nonce request)
              (ResponseVerificationError ''wrong_nonce'')) (\<lambda>_.
     rbind (rcheck (sr_request_digest response = optimization_request_digest request)
              (ResponseVerificationError ''request_digest_mismatch'')) (\<lambda>_.
     rbind (rcheck (ob_engine_image_digest (sr_artifact response) = pt_engine_image_digest (rq_task request))
              (ResponseVerificationError ''engine_digest_mismatch'')) (\<lambda>_.
     rbind (rcheck (sr_artifact_digest response = optimization_bundle_digest (sr_artifact response))
              (ResponseVerificationError ''artifact_digest_mismatch'')) (\<lambda>_.
     rbind (rcheck (\<not> sr_issued_at_unix_ms response < rq_issued_at_unix_ms request - skew)
              (ResponseVerificationError ''response_predates_request'')) (\<lambda>_.
     rbind (rcheck (\<not> now + skew < sr_issued_at_unix_ms response)
              (ResponseVerificationError ''response_from_future'')) (\<lambda>_.
     rbind (rcheck (\<not> rq_expires_at_unix_ms request < sr_expires_at_unix_ms response)
              (ResponseVerificationError ''response_outlives_request'')) (\<lambda>_.
     rbind (rcheck (\<not> sr_expires_at_unix_ms response < now)
              (ResponseVerificationError ''response_expired'')) (\<lambda>_.
     rbind (catch_type_value_error (rbind (bytes_fromhex (sr_signature response)) (\<lambda>signature.
              kp_verify (sr_miner_hotkey response) (optimization_response_signing_bytes response) signature)))
       (\<lambda>ok. rcheck ok (ResponseVerificationError ''bad_signature'')))))))))))))))) "

definition response_key :: "signed_response \<Rightarrow> response_key" where
  "response_key r = (sr_miner_hotkey r, sr_request_nonce r, sr_request_id r)"

definition verify_signed_response ::
  "(string \<Rightarrow> bytes \<Rightarrow> bytes \<Rightarrow> bool result) \<Rightarrow> ('s \<Rightarrow> response_key \<Rightarrow> int \<Rightarrow> 's \<times> bool)
    \<Rightarrow> signed_response \<Rightarrow> optimization_request \<Rightarrow> int \<Rightarrow> (int, string) dict \<Rightarrow> 's \<Rightarrow> int \<Rightarrow> int
    \<Rightarrow> 's \<times> optimization_bundle result" where
  "verify_signed_response kp_verify check_and_store response request expected_miner_uid metagraph store now skew =
     (case response_checks kp_verify response request expected_miner_uid metagraph now skew of
        Inl e \<Rightarrow> (store, Inl e)
      | Inr _ \<Rightarrow>
          (let (store', fresh) = check_and_store store (response_key response) (sr_expires_at_unix_ms response)
           in (store', if fresh then Inr (sr_artifact response)
                       else Inl (ResponseVerificationError ''response_replayed''))))"

section \<open>What an accepted response is\<close>

text \<open>The bindings between a response and the request it answers.\<close>

definition response_bound ::
  "signed_response \<Rightarrow> optimization_request \<Rightarrow> int \<Rightarrow> (int, string) dict \<Rightarrow> int \<Rightarrow> int \<Rightarrow> bool" where
  "response_bound response request uid metagraph now skew \<longleftrightarrow>
     map_of metagraph uid = Some (sr_miner_hotkey response)
     \<and> sr_miner_hotkey response = rq_miner_hotkey request
     \<and> sr_validator_hotkey response = rq_validator_hotkey request
     \<and> sr_request_id response = rq_request_id request
     \<and> sr_task_id response = pt_task_id (rq_task request)
     \<and> sr_request_nonce response = rq_request_nonce request
     \<and> sr_request_digest response = optimization_request_digest request
     \<and> ob_engine_image_digest (sr_artifact response) = pt_engine_image_digest (rq_task request)
     \<and> sr_artifact_digest response = optimization_bundle_digest (sr_artifact response)
     \<and> rq_issued_at_unix_ms request - skew \<le> sr_issued_at_unix_ms response
     \<and> sr_issued_at_unix_ms response \<le> now + skew
     \<and> sr_expires_at_unix_ms response \<le> rq_expires_at_unix_ms request
     \<and> now \<le> sr_expires_at_unix_ms response"

definition signature_verifies :: "(string \<Rightarrow> bytes \<Rightarrow> bytes \<Rightarrow> bool result) \<Rightarrow> signed_response \<Rightarrow> bool" where
  "signature_verifies kp_verify r \<longleftrightarrow> (\<exists>sig. bytes_fromhex (sr_signature r) = Inr sig
     \<and> kp_verify (sr_miner_hotkey r) (optimization_response_signing_bytes r) sig = Inr True)"

lemma catch_eq_True: "catch_type_value_error r = Inr True \<longleftrightarrow> r = Inr True"
  by (cases r rule: catch_type_value_error.cases) auto

lemma response_checks_iff:
  "response_checks kp_verify response request uid metagraph now skew = Inr u \<longleftrightarrow>
     0 \<le> skew \<and> response_bound response request uid metagraph now skew
     \<and> signature_verifies kp_verify response"
proof -
  have "rbind (catch_type_value_error r) (\<lambda>ok. rcheck ok e) = Inr u \<longleftrightarrow> r = Inr True" for r e
    using catch_eq_True [of r] by (auto simp: rbind_eq_Inr)
  then show ?thesis
    by (auto simp: response_checks_def response_bound_def signature_verifies_def rbind_eq_Inr)
qed

lemma verify_accepts_iff:
  "verify_signed_response kp_verify check response request uid metagraph store now skew = (store', Inr bundle) \<longleftrightarrow>
     0 \<le> skew \<and> response_bound response request uid metagraph now skew
     \<and> signature_verifies kp_verify response
     \<and> check store (response_key response) (sr_expires_at_unix_ms response) = (store', True)
     \<and> bundle = sr_artifact response"
proof (cases "response_checks kp_verify response request uid metagraph now skew")
  case (Inl e)
  then have "\<not> (0 \<le> skew \<and> response_bound response request uid metagraph now skew
      \<and> signature_verifies kp_verify response)"
    unfolding response_checks_iff [of kp_verify response request uid metagraph now skew "()", symmetric]
    by simp
  with Inl show ?thesis by (auto simp: verify_signed_response_def)
next
  case (Inr u)
  then have "0 \<le> skew \<and> response_bound response request uid metagraph now skew
      \<and> signature_verifies kp_verify response"
    by (simp only: response_checks_iff)
  with Inr show ?thesis by (auto simp: verify_signed_response_def split: prod.splits)
qed

text \<open>A rejected response leaves the store alone unless the replay check itself refused it.\<close>

lemma verify_reject_frame:
  "verify_signed_response kp_verify check response request uid metagraph store now skew = (store', Inl e)
    \<Longrightarrow> e \<noteq> ResponseVerificationError ''response_replayed'' \<Longrightarrow> store' = store"
  by (auto simp: verify_signed_response_def split: sum.splits prod.splits if_splits)

section \<open>Signing produces acceptable responses\<close>

lemma signing_bytes_update [simp]:
  "optimization_response_signing_bytes (p\<lparr>sr_signature := s\<rparr>) = optimization_response_signing_bytes p"
  by (subst signing_bytes_inject [where s = s]) simp

lemma validate_response_Inr: "validate_response r = Inr r' \<Longrightarrow> r' = r
    \<and> sr_artifact_digest r = optimization_bundle_digest (sr_artifact r)"
  by (auto simp: validate_response_def valid_response_fields_def is_ok_iff validate_bundle_def)

lemma sign_response_Inr:
  assumes "sign_optimization_response request artifact signer issued expires = Inr r"
  shows "\<exists>sign signature. resolve_response_signer signer = Inr (rq_miner_hotkey request, sign)
    \<and> sign (optimization_response_signing_bytes (response_placeholder request artifact issued expires))
        = PBytes signature
    \<and> r = (response_placeholder request artifact issued expires)\<lparr>sr_signature := bytes_hex signature\<rparr>
    \<and> ob_artifact_digest artifact = optimization_bundle_digest artifact
    \<and> ob_engine_image_digest artifact = pt_engine_image_digest (rq_task request)
    \<and> rq_issued_at_unix_ms request \<le> issued \<and> expires \<le> rq_expires_at_unix_ms request"
proof -
  let ?p = "response_placeholder request artifact issued expires"
  obtain address sign where res: "resolve_response_signer signer = Inr (address, sign)"
    using assms unfolding sign_optimization_response_def by (cases "resolve_response_signer signer") auto
  have "address = rq_miner_hotkey request
      \<and> ob_engine_image_digest artifact = pt_engine_image_digest (rq_task request)
      \<and> \<not> issued < rq_issued_at_unix_ms request \<and> \<not> rq_expires_at_unix_ms request < expires
      \<and> (\<exists>p. validate_response ?p = Inr p
        \<and> attach_signature p (sign (optimization_response_signing_bytes p)) = Inr r)"
    using assms unfolding sign_optimization_response_def res rbind_Inr prod.case rbind_eq_Inr rcheck_Inr
    by blast
  then have rest: "address = rq_miner_hotkey request"
      "ob_engine_image_digest artifact = pt_engine_image_digest (rq_task request)"
      "\<not> issued < rq_issued_at_unix_ms request" "\<not> rq_expires_at_unix_ms request < expires"
    and ex: "\<exists>p. validate_response ?p = Inr p
        \<and> attach_signature p (sign (optimization_response_signing_bytes p)) = Inr r"
    by blast+
  from ex obtain p where p: "validate_response ?p = Inr p"
    and ok: "attach_signature p (sign (optimization_response_signing_bytes p)) = Inr r" by blast
  from ok obtain signature where "sign (optimization_response_signing_bytes p) = PBytes signature"
      "validate_response (p\<lparr>sr_signature := bytes_hex signature\<rparr>) = Inr r"
    by (auto simp: attach_signature_def split: pyval.splits if_splits)
  moreover have "p = ?p" "ob_artifact_digest artifact = optimization_bundle_digest artifact"
    using validate_response_Inr [OF p] by (simp_all add: response_placeholder_def)
  ultimately show ?thesis using res rest validate_response_Inr [of "p\<lparr>sr_signature := bytes_hex signature\<rparr>" r]
    by (auto simp: not_less)
qed

lemma sign_response_fields:
  assumes "sign_optimization_response request artifact signer issued expires = Inr r"
  shows "sr_task_id r = pt_task_id (rq_task request)" "sr_artifact r = artifact"
    "sr_request_id r = rq_request_id request" "sr_miner_hotkey r = rq_miner_hotkey request"
    "sr_expires_at_unix_ms r = expires"
  using sign_response_Inr [OF assms] by (auto simp: response_placeholder_def)

lemma sign_then_verify:
  assumes "sign_optimization_response request artifact signer issued expires = Inr r"
    and "\<And>address sign m sig. resolve_response_signer signer = Inr (address, sign)
          \<Longrightarrow> sign m = PBytes sig \<Longrightarrow> kp_verify address m sig = Inr True"
    and "map_of metagraph uid = Some (rq_miner_hotkey request)"
    and "0 \<le> skew" "issued \<le> now + skew" "now \<le> expires"
    and "check store (response_key r) expires = (store', True)"
  shows "verify_signed_response kp_verify check r request uid metagraph store now skew = (store', Inr artifact)"
proof -
  obtain sign signature where s: "resolve_response_signer signer = Inr (rq_miner_hotkey request, sign)"
    "sign (optimization_response_signing_bytes (response_placeholder request artifact issued expires)) = PBytes signature"
    and r: "r = (response_placeholder request artifact issued expires)\<lparr>sr_signature := bytes_hex signature\<rparr>"
    and d: "ob_artifact_digest artifact = optimization_bundle_digest artifact"
      "ob_engine_image_digest artifact = pt_engine_image_digest (rq_task request)"
      "rq_issued_at_unix_ms request \<le> issued" "expires \<le> rq_expires_at_unix_ms request"
    using sign_response_Inr [OF assms(1)] by blast
  have m: "sr_miner_hotkey r = rq_miner_hotkey request" "sr_signature r = bytes_hex signature"
    "sr_artifact r = artifact" "sr_expires_at_unix_ms r = expires"
    by (simp_all add: r response_placeholder_def)
  have "kp_verify (rq_miner_hotkey request) (optimization_response_signing_bytes r) signature = Inr True"
    unfolding r signing_bytes_update by (rule assms(2) [OF s])
  then have "signature_verifies kp_verify r" by (simp add: signature_verifies_def m)
  moreover have "response_bound r request uid metagraph now skew"
    using assms d by (simp add: response_bound_def r response_placeholder_def)
  ultimately show ?thesis using assms(4,7) by (simp add: verify_accepts_iff m)
qed

end
