(* ===== verification/Commitment.thy ===== *)
theory Commitment
  imports TaskModels Auth
begin

text \<open>
  Opaque task creation and the post-deadline audit of \<open>planrace/taskgen_v2.py\<close>:
  \<open>create_task_v2\<close>, the Merkle root over the ordered hidden fixtures, the commitment payload
  and \<open>audit_task_reveal\<close>. The entropy source is a parameter (a state and its
  \<open>token_bytes\<close>), and so is the fixture factory. The lemmas show that an honest task
  passes its audit and that root and commitment determine what they commit to, unless two
  of the byte strings actually hashed collide.
\<close>

section \<open>The Merkle root\<close>

definition MERKLE_LEAF_DOMAIN :: string where "MERKLE_LEAF_DOMAIN = ''planrace/2:hidden-fixture-leaf''"
definition MERKLE_NODE_DOMAIN :: string where "MERKLE_NODE_DOMAIN = ''planrace/2:hidden-fixture-node''"

definition json_of_leaf :: "nat \<Rightarrow> hidden_fixture \<Rightarrow> json" where
  "json_of_leaf i f = JObj [(''index'', JInt (int i)), (''fixture'', json_of_fixture f)]"

definition json_of_node :: "string \<Rightarrow> string \<Rightarrow> json" where
  "json_of_node l r = JObj [(''left'', JStr l), (''right'', JStr r)]"

definition merkle_leaf :: "nat \<Rightarrow> hidden_fixture \<Rightarrow> string" where
  "merkle_leaf i f = v2_digest MERKLE_LEAF_DOMAIN (json_of_leaf i f)"

definition merkle_node :: "string \<Rightarrow> string \<Rightarrow> string" where
  "merkle_node l r = v2_digest MERKLE_NODE_DOMAIN (json_of_node l r)"

text \<open>One turn of the loop: an odd level repeats its last digest, then neighbours pair up.\<close>

definition pad_level :: "'a list \<Rightarrow> 'a list" where
  "pad_level level = (if odd (length level) then level @ [List.last level] else level)"

fun pair_nodes :: "string list \<Rightarrow> string list" where
  "pair_nodes (l # r # level) = merkle_node l r # pair_nodes level"
| "pair_nodes _ = []"

definition next_level :: "string list \<Rightarrow> string list" where
  "next_level level = pair_nodes (pad_level level)"

lemma length_pair_nodes [simp]: "length (pair_nodes level) = length level div 2"
  by (induction level rule: pair_nodes.induct) auto

lemma length_pad_level: "length (pad_level level) = 2 * ((length level + 1) div 2)"
  by (auto simp: pad_level_def elim: oddE)

lemma length_next_level [simp]: "length (next_level level) = (length level + 1) div 2"
  by (simp add: next_level_def length_pad_level)

function merkle_loop :: "string list \<Rightarrow> string list" where
  "merkle_loop level = (if 1 < length level then merkle_loop (next_level level) else level)"
  by auto
termination by (relation "measure length") auto

declare merkle_loop.simps [simp del]

definition fixture_leaves :: "hidden_fixture list \<Rightarrow> string list" where
  "fixture_leaves fs = map (\<lambda>(i, f). merkle_leaf i f) (enumerate 0 fs)"

definition hidden_fixture_merkle_root :: "hidden_fixture list \<Rightarrow> string result" where
  "hidden_fixture_merkle_root fs =
     (if length fs < 2 then Inl (ValueError ''at least two hidden fixtures are required'')
      else Inr (hd (merkle_loop (fixture_leaves fs))))"

text \<open>The byte strings the computation hashes: the leaves' and, level by level, the nodes'.\<close>

fun node_preimages :: "string list \<Rightarrow> bytes list" where
  "node_preimages (l # r # level) =
     v2_preimage MERKLE_NODE_DOMAIN (json_of_node l r) # node_preimages level"
| "node_preimages _ = []"

function loop_preimages :: "string list \<Rightarrow> bytes list" where
  "loop_preimages level =
     (if 1 < length level then node_preimages (pad_level level) @ loop_preimages (next_level level) else [])"
  by auto
termination by (relation "measure length") auto

declare loop_preimages.simps [simp del]

definition merkle_preimages :: "hidden_fixture list \<Rightarrow> bytes list" where
  "merkle_preimages fs =
     map (\<lambda>(i, f). v2_preimage MERKLE_LEAF_DOMAIN (json_of_leaf i f)) (enumerate 0 fs)
     @ loop_preimages (fixture_leaves fs)"

subsection \<open>Digests of leaves and nodes\<close>

lemma length_merkle_domains [simp]:
  "length MERKLE_LEAF_DOMAIN < 65536" "length MERKLE_NODE_DOMAIN < 65536"
  by (simp_all add: MERKLE_LEAF_DOMAIN_def MERKLE_NODE_DOMAIN_def)

lemma merkle_domains_differ [simp]: "MERKLE_LEAF_DOMAIN \<noteq> MERKLE_NODE_DOMAIN"
  by (simp add: MERKLE_LEAF_DOMAIN_def MERKLE_NODE_DOMAIN_def)

lemma canon_json_of_leaf [simp]:
  "canon (json_of_leaf i f) = canon (json_of_leaf j g) \<longleftrightarrow> i = j \<and> f = g"
  by (simp add: json_of_leaf_def canon_obj del: canon.simps(1,2))

lemma canon_json_of_node [simp]:
  "canon (json_of_node l r) = canon (json_of_node l' r') \<longleftrightarrow> l = l' \<and> r = r'"
  by (simp add: json_of_node_def canon_obj del: canon.simps(1,2))

definition no_collisions :: "bytes list \<Rightarrow> bytes list \<Rightarrow> bool" where
  "no_collisions A B \<longleftrightarrow> \<not> (\<exists>x \<in> set A. \<exists>y \<in> set B. sha256_collision x y)"

lemma no_collisions_append [simp]:
  "no_collisions (A @ B) C \<longleftrightarrow> no_collisions A C \<and> no_collisions B C"
  "no_collisions A (B @ C) \<longleftrightarrow> no_collisions A B \<and> no_collisions A C"
  by (auto simp: no_collisions_def)

lemma no_collisionsD: "no_collisions A B \<Longrightarrow> x \<in> set A \<Longrightarrow> y \<in> set B \<Longrightarrow> \<not> sha256_collision x y"
  by (auto simp: no_collisions_def)

lemma sha256_collision_sym: "sha256_collision x y \<longleftrightarrow> sha256_collision y x"
  by (auto simp: sha256_collision_def)

lemma no_collisions_sym: "no_collisions A B \<Longrightarrow> no_collisions B A"
  unfolding no_collisions_def using sha256_collision_sym by blast

lemma pair_nodes_nth:
  "i < length level div 2 \<Longrightarrow> pair_nodes level ! i = merkle_node (level ! (2 * i)) (level ! (2 * i + 1))"
proof (induction level arbitrary: i rule: pair_nodes.induct)
  case (1 l r level)
  then show ?case by (cases i) auto
qed auto

lemma node_preimages_nth:
  "i < length level div 2
    \<Longrightarrow> v2_preimage MERKLE_NODE_DOMAIN (json_of_node (level ! (2 * i)) (level ! (2 * i + 1))) \<in> set (node_preimages level)"
proof (induction level arbitrary: i rule: pair_nodes.induct)
  case (1 l r level)
  then show ?case by (cases i) auto
qed auto

lemma set_pad_level [simp]: "set (pad_level xs) = set xs"
  by (auto simp: pad_level_def) (metis last_in_set length_0_conv even_zero)

text \<open>A node of the next level, its children and its preimage.\<close>

lemma next_level_nth:
  assumes "i < length (next_level xs)"
  shows "next_level xs ! i = merkle_node (pad_level xs ! (2 * i)) (pad_level xs ! (2 * i + 1))"
    and "pad_level xs ! (2 * i) = xs ! (2 * i)" and "2 * i < length xs"
    and "v2_preimage MERKLE_NODE_DOMAIN (json_of_node (pad_level xs ! (2 * i)) (pad_level xs ! (2 * i + 1)))
          \<in> set (node_preimages (pad_level xs))"
proof -
  have i: "i < length (pad_level xs) div 2" using assms by (simp add: next_level_def)
  show "next_level xs ! i = merkle_node (pad_level xs ! (2 * i)) (pad_level xs ! (2 * i + 1))"
    unfolding next_level_def by (rule pair_nodes_nth [OF i])
  show "v2_preimage MERKLE_NODE_DOMAIN (json_of_node (pad_level xs ! (2 * i)) (pad_level xs ! (2 * i + 1)))
          \<in> set (node_preimages (pad_level xs))"
    by (rule node_preimages_nth [OF i])
  show l: "2 * i < length xs" using assms by simp
  then show "pad_level xs ! (2 * i) = xs ! (2 * i)" by (auto simp: pad_level_def nth_append)
qed

lemma merkle_node_eqD:
  assumes "merkle_node l r = merkle_node l' r'"
    and "no_collisions A B" "v2_preimage MERKLE_NODE_DOMAIN (json_of_node l r) \<in> set A"
      "v2_preimage MERKLE_NODE_DOMAIN (json_of_node l' r') \<in> set B"
  shows "l = l' \<and> r = r'"
  using v2.binding_same_domain [OF length_merkle_domains(2) assms(1) [unfolded merkle_node_def]]
    no_collisionsD [OF assms(2-4)] by simp

subsection \<open>The root determines the fixtures\<close>

text \<open>
  Two levels at the same height: equal digests sit at equal positions, and no digest of one
  is a digest of a higher level of the other.
\<close>

definition aligned :: "string list \<Rightarrow> string list \<Rightarrow> bool" where
  "aligned xs ys \<longleftrightarrow> (\<forall>i < length xs. \<forall>j < length ys. xs ! i = ys ! j \<longrightarrow> i = j)"

function upper_digests :: "string list \<Rightarrow> string set" where
  "upper_digests level =
     (if 1 < length level then set (next_level level) \<union> upper_digests (next_level level) else {})"
  by auto
termination by (relation "measure length") auto

declare upper_digests.simps [simp del]

definition below :: "string list \<Rightarrow> string list \<Rightarrow> bool" where
  "below xs ys \<longleftrightarrow> set xs \<inter> upper_digests ys = {}"

lemma loop_preimages_step:
  "1 < length xs \<Longrightarrow> set (loop_preimages xs) = set (node_preimages (pad_level xs)) \<union> set (loop_preimages (next_level xs))"
  by (subst loop_preimages.simps) simp

lemma upper_digests_node:
  "y \<in> upper_digests xs \<Longrightarrow> \<exists>l r. y = merkle_node l r \<and> l \<in> set xs \<union> upper_digests xs
     \<and> v2_preimage MERKLE_NODE_DOMAIN (json_of_node l r) \<in> set (loop_preimages xs)"
proof (induction xs rule: upper_digests.induct)
  case (1 xs)
  then have long: "1 < length xs" by (subst (asm) upper_digests.simps) (auto split: if_splits)
  show ?case
  proof (cases "y \<in> set (next_level xs)")
    case True
    then obtain i where i: "i < length (next_level xs)" "y = next_level xs ! i"
      by (metis in_set_conv_nth)
    note n = next_level_nth [OF i(1)]
    have "xs ! (2 * i) \<in> set xs" using n(3) by simp
    then show ?thesis
      using n i(2) loop_preimages_step [OF long]
      by (intro exI [of _ "pad_level xs ! (2 * i)"] exI [of _ "pad_level xs ! (2 * i + 1)"]) simp
  next
    case False
    then have "y \<in> upper_digests (next_level xs)"
      using 1(2) long by (subst (asm) upper_digests.simps) auto
    from 1(1) [OF long this] obtain l r where "y = merkle_node l r"
      "l \<in> set (next_level xs) \<union> upper_digests (next_level xs)"
      "v2_preimage MERKLE_NODE_DOMAIN (json_of_node l r) \<in> set (loop_preimages (next_level xs))"
      by blast
    moreover have "upper_digests xs = set (next_level xs) \<union> upper_digests (next_level xs)"
      using long by (subst upper_digests.simps) simp
    ultimately show ?thesis using loop_preimages_step [OF long] by blast
  qed
qed

lemma aligned_next:
  assumes "aligned xs ys" "no_collisions (loop_preimages xs) (loop_preimages ys)"
    and "1 < length xs" "1 < length ys"
  shows "aligned (next_level xs) (next_level ys)"
  unfolding aligned_def
proof (intro allI impI)
  fix i j assume i: "i < length (next_level xs)" and j: "j < length (next_level ys)"
    and eq: "next_level xs ! i = next_level ys ! j"
  note ni = next_level_nth [OF i] and nj = next_level_nth [OF j]
  have "pad_level xs ! (2 * i) = pad_level ys ! (2 * j)"
    using merkle_node_eqD [OF eq [unfolded ni(1) nj(1)] assms(2)] ni(4) nj(4)
      loop_preimages_step [OF assms(3)] loop_preimages_step [OF assms(4)] by simp
  then have "xs ! (2 * i) = ys ! (2 * j)" using ni(2) nj(2) by simp
  then have "2 * i = 2 * j" using assms(1) ni(3) nj(3) by (simp only: aligned_def)
  then show "i = j" by simp
qed

lemma below_next:
  assumes "below xs ys" "no_collisions (loop_preimages xs) (loop_preimages ys)"
    and "1 < length xs" "1 < length ys"
  shows "below (next_level xs) (next_level ys)"
proof -
  have "False" if x: "y \<in> set (next_level xs)" and y: "y \<in> upper_digests (next_level ys)" for y
  proof -
    obtain i where i: "i < length (next_level xs)" "y = next_level xs ! i"
      using x by (metis in_set_conv_nth)
    note ni = next_level_nth [OF i(1)]
    have up: "upper_digests ys = set (next_level ys) \<union> upper_digests (next_level ys)"
      using assms(4) by (subst upper_digests.simps) simp
    obtain l r where lr: "y = merkle_node l r" "l \<in> upper_digests ys"
      "v2_preimage MERKLE_NODE_DOMAIN (json_of_node l r) \<in> set (loop_preimages ys)"
      using upper_digests_node [OF y] up loop_preimages_step [OF assms(4)] by blast
    have "merkle_node (pad_level xs ! (2 * i)) (pad_level xs ! (2 * i + 1)) = merkle_node l r"
      using ni(1) i(2) lr(1) by simp
    from merkle_node_eqD [OF this assms(2) _ lr(3)]
    have "pad_level xs ! (2 * i) = l" using ni(4) loop_preimages_step [OF assms(3)] by simp
    then have "l \<in> set xs" using ni(2,3) nth_mem [of "2 * i" xs] by simp
    with lr(2) assms(1) show False by (auto simp: below_def)
  qed
  then show ?thesis by (auto simp: below_def)
qed

lemma pad_level_inject:
  assumes "pad_level xs = pad_level ys" "aligned xs ys" "xs \<noteq> []" "ys \<noteq> []"
  shows "xs = ys"
proof -
  have *: False if "pad_level xs = pad_level ys" "aligned xs ys" "odd (length xs)" "even (length ys)"
    for xs ys :: "string list"
  proof -
    from that have "ys = xs @ [List.last xs]" by (simp add: pad_level_def)
    moreover from this that(3) have "xs ! (length xs - 1) = ys ! length xs"
      by (cases xs rule: rev_cases) (auto simp: nth_append)
    ultimately have "length xs - 1 = length xs"
      using that(2,3) unfolding aligned_def by (cases xs) auto
    with that(3) show False by (cases xs) auto
  qed
  have sym: "aligned ys xs" using assms(2) unfolding aligned_def by metis
  show ?thesis
    using assms * [OF assms(1,2)] * [OF assms(1) [symmetric] sym]
    by (cases "odd (length xs)"; cases "odd (length ys)") (auto simp: pad_level_def)
qed

lemma merkle_loop_upper:
  "1 < length xs \<Longrightarrow> hd (merkle_loop xs) \<in> upper_digests xs"
proof (induction xs rule: merkle_loop.induct)
  case (1 xs)
  have loop: "merkle_loop xs = merkle_loop (next_level xs)" using 1(2) by (subst merkle_loop.simps) simp
  have up: "upper_digests xs = set (next_level xs) \<union> upper_digests (next_level xs)"
    using 1(2) by (subst upper_digests.simps) simp
  show ?case
  proof (cases "1 < length (next_level xs)")
    case True
    then show ?thesis using 1(1) [OF 1(2) True] loop up by simp
  next
    case False
    then have "merkle_loop (next_level xs) = next_level xs" by (subst merkle_loop.simps) simp
    moreover have "next_level xs \<noteq> []" using 1(2) length_next_level [of xs] by force
    ultimately show ?thesis using loop up by simp
  qed
qed

lemma merkle_loop_binding:
  assumes "hd (merkle_loop xs) = hd (merkle_loop ys)" "xs \<noteq> []" "ys \<noteq> []"
    and "aligned xs ys" "below xs ys" "below ys xs"
    and "no_collisions (loop_preimages xs) (loop_preimages ys)"
    and "no_collisions (loop_preimages ys) (loop_preimages xs)"
  shows "xs = ys"
  using assms
proof (induction xs arbitrary: ys rule: merkle_loop.induct)
  case (1 xs)
  have short: "merkle_loop zs = zs" if "\<not> 1 < length zs" for zs
    using that by (subst merkle_loop.simps) simp
  have False if "\<not> 1 < length xs" "1 < length ys"
    using merkle_loop_upper [OF that(2)] short [OF that(1)] 1(2,3,6) hd_in_set [of xs]
    by (auto simp: below_def)
  moreover have False if "1 < length xs" "\<not> 1 < length ys"
    using merkle_loop_upper [OF that(1)] short [OF that(2)] 1(2,4,7) hd_in_set [of ys]
    unfolding below_def by (metis disjoint_iff)
  moreover have ?case if "\<not> 1 < length xs" "\<not> 1 < length ys"
    using that short 1(2,3,4) by (cases xs; cases ys) auto
  moreover have ?case if long: "1 < length xs" "1 < length ys"
  proof -
    have loop: "merkle_loop zs = merkle_loop (next_level zs)" if "1 < length zs" for zs
      using that by (subst merkle_loop.simps) simp
    have ne: "next_level xs \<noteq> []" "next_level ys \<noteq> []"
      using long length_next_level [of xs] length_next_level [of ys] by force+
    have nc: "no_collisions (loop_preimages (next_level xs)) (loop_preimages (next_level ys))"
      "no_collisions (loop_preimages (next_level ys)) (loop_preimages (next_level xs))"
      using 1(8,9) loop_preimages_step [OF long(1)] loop_preimages_step [OF long(2)]
      by (auto simp: no_collisions_def)
    have eq: "next_level xs = next_level ys"
      using 1(1) [OF long(1) _ ne _ _ _ nc] aligned_next [OF 1(5,8) long]
        below_next [OF 1(6,8) long] below_next [OF 1(7,9) long(2,1)]
        1(2) loop [OF long(1)] loop [OF long(2)] by simp
    have "pad_level xs = pad_level ys"
    proof (rule nth_equalityI)
      show len: "length (pad_level xs) = length (pad_level ys)"
        using arg_cong [OF eq, of length] by (simp add: length_pad_level)
      fix k assume "k < length (pad_level xs)"
      then have i: "k div 2 < length (next_level xs)" by (simp add: length_pad_level)
      then have j: "k div 2 < length (next_level ys)" using eq by simp
      note ni = next_level_nth [OF i] and nj = next_level_nth [OF j]
      have "merkle_node (pad_level xs ! (2 * (k div 2))) (pad_level xs ! (2 * (k div 2) + 1)) =
          merkle_node (pad_level ys ! (2 * (k div 2))) (pad_level ys ! (2 * (k div 2) + 1))"
        using ni(1) nj(1) eq by simp
      from merkle_node_eqD [OF this 1(8)]
      have "pad_level xs ! (2 * (k div 2)) = pad_level ys ! (2 * (k div 2))
          \<and> pad_level xs ! (2 * (k div 2) + 1) = pad_level ys ! (2 * (k div 2) + 1)"
        using ni(4) nj(4) loop_preimages_step [OF long(1)] loop_preimages_step [OF long(2)] by simp
      then show "pad_level xs ! k = pad_level ys ! k"
        by (cases "even k") (auto elim: oddE)
    qed
    then show ?case using pad_level_inject 1(3,4,5) by blast
  qed
  ultimately show ?case by blast
qed

lemma fixture_leaves_nth [simp]: "i < length fs \<Longrightarrow> fixture_leaves fs ! i = merkle_leaf i (fs ! i)"
  by (simp add: fixture_leaves_def nth_enumerate_eq)

lemma length_fixture_leaves [simp]: "length (fixture_leaves fs) = length fs"
  by (simp add: fixture_leaves_def)

lemma leaf_preimage_mem:
  "i < length fs \<Longrightarrow> v2_preimage MERKLE_LEAF_DOMAIN (json_of_leaf i (fs ! i)) \<in> set (merkle_preimages fs)"
  by (force simp: merkle_preimages_def in_set_enumerate_eq)

lemma leaves_eqD:
  assumes "merkle_leaf i (fs ! i) = merkle_leaf j (gs ! j)" "i < length fs" "j < length gs"
    and "no_collisions (merkle_preimages fs) (merkle_preimages gs)"
  shows "i = j \<and> fs ! i = gs ! j"
  using v2.binding_same_domain [OF length_merkle_domains(1) assms(1) [unfolded merkle_leaf_def]]
    no_collisionsD [OF assms(4) leaf_preimage_mem [OF assms(2)] leaf_preimage_mem [OF assms(3)]]
  by (simp only: canon_json_of_leaf) blast

lemma leaves_below:
  assumes "no_collisions (merkle_preimages fs) (merkle_preimages gs)"
  shows "below (fixture_leaves fs) (fixture_leaves gs)"
proof -
  have "False" if x: "y \<in> set (fixture_leaves fs)" and y: "y \<in> upper_digests (fixture_leaves gs)" for y
  proof -
    obtain i where i: "i < length fs" "y = merkle_leaf i (fs ! i)"
      using x by (metis fixture_leaves_nth in_set_conv_nth length_fixture_leaves)
    obtain l r where lr: "y = merkle_node l r"
      "v2_preimage MERKLE_NODE_DOMAIN (json_of_node l r) \<in> set (loop_preimages (fixture_leaves gs))"
      using upper_digests_node [OF y] by blast
    have "sha256_collision (v2_preimage MERKLE_LEAF_DOMAIN (json_of_leaf i (fs ! i)))
        (v2_preimage MERKLE_NODE_DOMAIN (json_of_node l r))"
      using v2.other_domain_collides [OF length_merkle_domains merkle_domains_differ]
        i(2) lr(1) by (simp add: merkle_leaf_def merkle_node_def)
    moreover have "v2_preimage MERKLE_NODE_DOMAIN (json_of_node l r) \<in> set (merkle_preimages gs)"
      using lr(2) by (simp add: merkle_preimages_def)
    ultimately show False using no_collisionsD [OF assms leaf_preimage_mem [OF i(1)]] by blast
  qed
  then show ?thesis by (auto simp: below_def)
qed

lemma merkle_root_binding:
  assumes "hidden_fixture_merkle_root fs = Inr digest" "hidden_fixture_merkle_root gs = Inr digest"
    and "no_collisions (merkle_preimages fs) (merkle_preimages gs)"
    and "no_collisions (merkle_preimages gs) (merkle_preimages fs)"
  shows "fs = gs"
proof -
  have len: "2 \<le> length fs" "2 \<le> length gs" and
    heads: "hd (merkle_loop (fixture_leaves fs)) = hd (merkle_loop (fixture_leaves gs))"
    using assms(1,2) by (auto simp: hidden_fixture_merkle_root_def split: if_splits)
  have "aligned (fixture_leaves fs) (fixture_leaves gs)"
    unfolding aligned_def using leaves_eqD [OF _ _ _ assms(3)] by auto
  moreover have "no_collisions (loop_preimages (fixture_leaves fs)) (loop_preimages (fixture_leaves gs))"
    "no_collisions (loop_preimages (fixture_leaves gs)) (loop_preimages (fixture_leaves fs))"
    using assms(3,4) by (simp_all add: merkle_preimages_def)
  moreover have "fixture_leaves fs \<noteq> []" "fixture_leaves gs \<noteq> []"
    using len by (auto simp flip: length_0_conv)
  ultimately have eq: "fixture_leaves fs = fixture_leaves gs"
    using merkle_loop_binding [OF heads] leaves_below [OF assms(3)] leaves_below [OF assms(4)] by blast
  show ?thesis
  proof (rule nth_equalityI)
    show l: "length fs = length gs" using arg_cong [OF eq, of length] by simp
    fix i assume i: "i < length fs"
    then have "merkle_leaf i (fs ! i) = merkle_leaf i (gs ! i)"
      using arg_cong [OF eq, of "\<lambda>xs. xs ! i"] l by simp
    then show "fs ! i = gs ! i" using leaves_eqD [OF _ i _ assms(3)] i l by auto
  qed
qed

section \<open>The commitment payload\<close>

text \<open>
  The validator's side of a task, the keyword arguments of \<open>create_task_v2\<close> and
  \<open>_commitment_payload\<close>; an absent budget or grammar means the default one.
\<close>

record task_spec =
  ts_validator_hotkey :: string
  ts_engine_image_digest :: string
  ts_generator_source_digest :: string
  ts_benchmark_policy_digest :: string
  ts_benchmark_family_id :: string
  ts_schema_sql :: string
  ts_reference_sql :: string
  ts_public_training_fixture :: public_training_fixture
  ts_parameter_ranges :: "parameter_range list"
  ts_published_statistics :: published_statistics
  ts_artifact_budget :: "artifact_budget option"
  ts_artifact_grammar :: "artifact_grammar option"
  ts_deadline_unix_ms :: int

definition spec_budget :: "task_spec \<Rightarrow> artifact_budget" where
  "spec_budget s = (case ts_artifact_budget s of Some b \<Rightarrow> b | None \<Rightarrow> default_artifact_budget)"

definition spec_grammar :: "task_spec \<Rightarrow> artifact_grammar" where
  "spec_grammar s = (case ts_artifact_grammar s of Some g \<Rightarrow> g | None \<Rightarrow> default_artifact_grammar)"

record commitment_payload =
  cp_protocol_version :: string
  cp_task_id :: string
  cp_validator_hotkey :: string
  cp_engine_image_digest :: string
  cp_generator_source_digest :: string
  cp_benchmark_policy_digest :: string
  cp_benchmark_family_id :: string
  cp_schema_sql :: string
  cp_reference_sql :: string
  cp_public_training_fixture :: public_training_fixture
  cp_parameter_ranges :: "parameter_range list"
  cp_published_statistics :: published_statistics
  cp_artifact_budget :: artifact_budget
  cp_artifact_grammar :: artifact_grammar
  cp_secret_seed_hex :: string
  cp_salt_hex :: string
  cp_hidden_fixture_merkle_root :: string
  cp_deadline_unix_ms :: int

text \<open>\<open>TaskCommitmentPayloadV2\<close>; the embedded models are instances and already valid.\<close>

definition valid_commitment_payload :: "commitment_payload \<Rightarrow> bool" where
  "valid_commitment_payload p \<longleftrightarrow> cp_protocol_version p = PROTOCOL_VERSION_V2
     \<and> valid_opaque_id (cp_task_id p) \<and> valid_hotkey (cp_validator_hotkey p)
     \<and> valid_sha256_digest (cp_engine_image_digest p) \<and> valid_sha256_digest (cp_generator_source_digest p)
     \<and> valid_sha256_digest (cp_benchmark_policy_digest p) \<and> valid_family_id (cp_benchmark_family_id p)
     \<and> valid_hex32 (cp_secret_seed_hex p) \<and> valid_hex32 (cp_salt_hex p)
     \<and> valid_sha256_digest (cp_hidden_fixture_merkle_root p)"

definition json_of_commitment :: "commitment_payload \<Rightarrow> json" where
  "json_of_commitment p = JObj [(''protocol_version'', JStr (cp_protocol_version p)),
     (''task_id'', JStr (cp_task_id p)), (''validator_hotkey'', JStr (cp_validator_hotkey p)),
     (''engine_image_digest'', JStr (cp_engine_image_digest p)),
     (''generator_source_digest'', JStr (cp_generator_source_digest p)),
     (''benchmark_policy_digest'', JStr (cp_benchmark_policy_digest p)),
     (''benchmark_family_id'', JStr (cp_benchmark_family_id p)),
     (''schema_sql'', JStr (cp_schema_sql p)), (''reference_sql'', JStr (cp_reference_sql p)),
     (''public_training_fixture'', json_of_training (cp_public_training_fixture p)),
     (''parameter_ranges'', JArr (map json_of_range (cp_parameter_ranges p))),
     (''published_statistics'', json_of_statistics (cp_published_statistics p)),
     (''artifact_budget'', json_of_budget (cp_artifact_budget p)),
     (''artifact_grammar'', json_of_grammar (cp_artifact_grammar p)),
     (''secret_seed_hex'', JStr (cp_secret_seed_hex p)), (''salt_hex'', JStr (cp_salt_hex p)),
     (''hidden_fixture_merkle_root'', JStr (cp_hidden_fixture_merkle_root p)),
     (''deadline_unix_ms'', JInt (cp_deadline_unix_ms p))]"

lemma canon_json_of_commitment [simp]:
  "canon (json_of_commitment a) = canon (json_of_commitment b) \<longleftrightarrow> a = b"
  by (simp add: json_of_commitment_def canon_obj del: canon.simps(1,2)) (auto intro: commitment_payload.equality)

definition commitment_payload :: "string \<Rightarrow> task_spec \<Rightarrow> task_reveal \<Rightarrow> commitment_payload result" where
  "commitment_payload task_id s reveal =
     (let p = \<lparr>cp_protocol_version = PROTOCOL_VERSION_V2, cp_task_id = task_id,
          cp_validator_hotkey = ts_validator_hotkey s, cp_engine_image_digest = ts_engine_image_digest s,
          cp_generator_source_digest = ts_generator_source_digest s,
          cp_benchmark_policy_digest = ts_benchmark_policy_digest s,
          cp_benchmark_family_id = ts_benchmark_family_id s, cp_schema_sql = ts_schema_sql s,
          cp_reference_sql = ts_reference_sql s,
          cp_public_training_fixture = ts_public_training_fixture s,
          cp_parameter_ranges = ts_parameter_ranges s,
          cp_published_statistics = ts_published_statistics s,
          cp_artifact_budget = spec_budget s, cp_artifact_grammar = spec_grammar s,
          cp_secret_seed_hex = tr_secret_seed_hex reveal, cp_salt_hex = tr_salt_hex reveal,
          cp_hidden_fixture_merkle_root = tr_hidden_fixture_merkle_root reveal,
          cp_deadline_unix_ms = ts_deadline_unix_ms s\<rparr>
      in rbind (rcheck (valid_commitment_payload p) (ValueError ''validation error'')) (\<lambda>_. Inr p))"

definition commitment_digest :: "commitment_payload \<Rightarrow> string" where
  "commitment_digest p = v2_digest COMMITMENT_DOMAIN_V2 (json_of_commitment p)"

lemma commitment_digest_binding:
  assumes "commitment_digest a = commitment_digest b"
  shows "a = b \<or> sha256_collision (v2_preimage COMMITMENT_DOMAIN_V2 (json_of_commitment a))
                  (v2_preimage COMMITMENT_DOMAIN_V2 (json_of_commitment b))"
  using v2.binding_same_domain [OF length_v2_domains(1) assms [unfolded commitment_digest_def]] by simp

section \<open>Creating a task\<close>

record private_task =
  pv_public :: public_task
  pv_reveal :: task_reveal

text \<open>An entropy source: its state and what \<open>token_bytes\<close> returns.\<close>

type_synonym 'e entropy = "'e \<Rightarrow> nat \<Rightarrow> 'e \<times> pyval"

definition draw_exact :: "'e entropy \<Rightarrow> nat \<Rightarrow> 'e \<Rightarrow> ('e \<times> bytes) result" where
  "draw_exact token_bytes n e =
     (case token_bytes e n of
        (e', PBytes v) \<Rightarrow>
          (if length v = n then Inr (e', v)
           else Inl (ValueError (''entropy source must return exactly '' @ nat_str n @ '' bytes'')))
      | _ \<Rightarrow> Inl (ValueError (''entropy source must return exactly '' @ nat_str n @ '' bytes'')))"

definition public_of_spec :: "string \<Rightarrow> task_spec \<Rightarrow> nat \<Rightarrow> string \<Rightarrow> public_task" where
  "public_of_spec task_id s holdouts commitment = \<lparr>pt_protocol_version = PROTOCOL_VERSION_V2,
     pt_task_id = task_id, pt_validator_hotkey = ts_validator_hotkey s,
     pt_engine_image_digest = ts_engine_image_digest s,
     pt_generator_source_digest = ts_generator_source_digest s,
     pt_benchmark_policy_digest = ts_benchmark_policy_digest s,
     pt_benchmark_family_id = ts_benchmark_family_id s, pt_schema_sql = ts_schema_sql s,
     pt_reference_sql = ts_reference_sql s, pt_public_training_fixture = ts_public_training_fixture s,
     pt_parameter_ranges = ts_parameter_ranges s, pt_published_statistics = ts_published_statistics s,
     pt_artifact_budget = spec_budget s, pt_artifact_grammar = spec_grammar s,
     pt_hidden_holdout_count = int holdouts, pt_commitment = commitment,
     pt_deadline_unix_ms = ts_deadline_unix_ms s\<rparr>"

definition create_task_v2 ::
  "task_spec \<Rightarrow> (bytes \<Rightarrow> hidden_fixture list result) \<Rightarrow> 'e entropy \<Rightarrow> 'e \<Rightarrow> private_task result" where
  "create_task_v2 s hidden_fixture_factory token_bytes e0 =
     rbind (draw_exact token_bytes 16 e0) (\<lambda>(e1, task_id_bytes).
     rbind (draw_exact token_bytes 32 e1) (\<lambda>(e2, secret_seed).
     rbind (draw_exact token_bytes 32 e2) (\<lambda>(_, salt).
     rbind (rcheck (salt \<noteq> secret_seed)
              (ValueError ''entropy source repeated the task seed as the salt'')) (\<lambda>_.
     rbind (hidden_fixture_factory secret_seed) (\<lambda>hidden_fixtures.
     rbind (rcheck (\<not> length hidden_fixtures < 2)
              (ValueError ''PlanRace v2 requires at least two private holdout fixtures'')) (\<lambda>_.
     rbind (rcheck (card (set (map hf_fixture_id hidden_fixtures)) = length hidden_fixtures)
              (ValueError ''hidden fixture IDs must be unique'')) (\<lambda>_.
     rbind (hidden_fixture_merkle_root hidden_fixtures) (\<lambda>hidden_root.
      let task_id = bytes_hex task_id_bytes;
          reveal = \<lparr>tr_protocol_version = PROTOCOL_VERSION_V2, tr_task_id = task_id,
            tr_secret_seed_hex = bytes_hex secret_seed, tr_salt_hex = bytes_hex salt,
            tr_hidden_fixtures = hidden_fixtures, tr_hidden_fixture_merkle_root = hidden_root\<rparr>
      in rbind (rcheck (valid_task_reveal reveal) (ValueError ''validation error'')) (\<lambda>_.
         rbind (commitment_payload task_id s reveal) (\<lambda>payload.
          let public = public_of_spec task_id s (length hidden_fixtures) (commitment_digest payload)
          in rbind (rcheck (valid_public_task public) (ValueError ''validation error'')) (\<lambda>_.
               Inr \<lparr>pv_public = public, pv_reveal = reveal\<rparr>)))))))))))"

section \<open>Auditing a reveal\<close>

definition spec_of_public :: "public_task \<Rightarrow> task_spec" where
  "spec_of_public t = \<lparr>ts_validator_hotkey = pt_validator_hotkey t,
     ts_engine_image_digest = pt_engine_image_digest t,
     ts_generator_source_digest = pt_generator_source_digest t,
     ts_benchmark_policy_digest = pt_benchmark_policy_digest t,
     ts_benchmark_family_id = pt_benchmark_family_id t, ts_schema_sql = pt_schema_sql t,
     ts_reference_sql = pt_reference_sql t, ts_public_training_fixture = pt_public_training_fixture t,
     ts_parameter_ranges = pt_parameter_ranges t, ts_published_statistics = pt_published_statistics t,
     ts_artifact_budget = Some (pt_artifact_budget t), ts_artifact_grammar = Some (pt_artifact_grammar t),
     ts_deadline_unix_ms = pt_deadline_unix_ms t\<rparr>"

text \<open>The optional regeneration check: whether the factory reproduces the revealed fixtures.\<close>

definition regenerates ::
  "(bytes \<Rightarrow> hidden_fixture list result) option \<Rightarrow> task_reveal \<Rightarrow> bool result" where
  "regenerates regenerate reveal =
     (case regenerate of
        None \<Rightarrow> Inr True
      | Some factory \<Rightarrow> rbind (bytes_fromhex (tr_secret_seed_hex reveal)) (\<lambda>seed.
          rbind (factory seed) (\<lambda>fs. Inr (fs = tr_hidden_fixtures reveal))))"

definition audit_task_reveal ::
  "public_task \<Rightarrow> task_reveal \<Rightarrow> (bytes \<Rightarrow> hidden_fixture list result) option \<Rightarrow> bool result" where
  "audit_task_reveal public reveal regenerate =
     (if pt_task_id public \<noteq> tr_task_id reveal then Inr False
      else if pt_hidden_holdout_count public \<noteq> int (length (tr_hidden_fixtures reveal)) then Inr False
      else rbind (hidden_fixture_merkle_root (tr_hidden_fixtures reveal)) (\<lambda>calculated_root.
        if calculated_root \<noteq> tr_hidden_fixture_merkle_root reveal then Inr False
        else rbind (regenerates regenerate reveal) (\<lambda>same.
          if \<not> same then Inr False
          else rbind (commitment_payload (pt_task_id public) (spec_of_public public) reveal) (\<lambda>payload.
            Inr (pt_commitment public = commitment_digest payload)))))"

lemma commitment_payload_public:
  "commitment_payload tid (spec_of_public (public_of_spec t s n c)) reveal = commitment_payload tid s reveal"
  by (simp add: commitment_payload_def spec_of_public_def public_of_spec_def spec_budget_def spec_grammar_def
      split: option.splits)

section \<open>Honest tasks pass their audit; a commitment opens one way\<close>

lemma create_task_v2_Inr:
  assumes "create_task_v2 s factory token_bytes e0 = Inr p"
  obtains tid seed salt fs payload where
    "pv_reveal p = \<lparr>tr_protocol_version = PROTOCOL_VERSION_V2, tr_task_id = bytes_hex tid,
        tr_secret_seed_hex = bytes_hex seed, tr_salt_hex = bytes_hex salt, tr_hidden_fixtures = fs,
        tr_hidden_fixture_merkle_root = hd (merkle_loop (fixture_leaves fs))\<rparr>"
    and "commitment_payload (bytes_hex tid) s (pv_reveal p) = Inr payload"
    and "pv_public p = public_of_spec (bytes_hex tid) s (length fs) (commitment_digest payload)"
    and "factory seed = Inr fs" and "2 \<le> length fs" and "distinct (map hf_fixture_id fs)"
    and "salt \<noteq> seed" and "length tid = 16" and "length seed = 32" and "length salt = 32"
    and "valid_task_reveal (pv_reveal p)" and "valid_public_task (pv_public p)"
proof -
  have draw: "length v = n" if "draw_exact token_bytes n e = Inr (e', v)" for n e e' v
    using that by (auto simp: draw_exact_def split: prod.splits pyval.splits if_splits)
  obtain e1 tid where 1: "draw_exact token_bytes 16 e0 = Inr (e1, tid)"
    using assms by (cases "draw_exact token_bytes 16 e0") (auto simp: create_task_v2_def)
  obtain e2 seed where 2: "draw_exact token_bytes 32 e1 = Inr (e2, seed)"
    using assms 1 by (cases "draw_exact token_bytes 32 e1") (auto simp: create_task_v2_def)
  obtain e3 salt where 3: "draw_exact token_bytes 32 e2 = Inr (e3, salt)"
    using assms 1 2 by (cases "draw_exact token_bytes 32 e2") (auto simp: create_task_v2_def)
  obtain fs where 4: "factory seed = Inr fs" "salt \<noteq> seed"
    using assms 1 2 3 by (cases "factory seed"; cases "salt = seed") (auto simp: create_task_v2_def)
  let ?rev = "\<lparr>tr_protocol_version = PROTOCOL_VERSION_V2, tr_task_id = bytes_hex tid,
        tr_secret_seed_hex = bytes_hex seed, tr_salt_hex = bytes_hex salt, tr_hidden_fixtures = fs,
        tr_hidden_fixture_merkle_root = hd (merkle_loop (fixture_leaves fs))\<rparr>"
  have 5: "2 \<le> length fs" "card (set (map hf_fixture_id fs)) = length (map hf_fixture_id fs)"
    using assms by (auto simp: create_task_v2_def 1 2 3 4 rbind_eq_Inr)
  then have dist: "distinct (map hf_fixture_id fs)" by (simp only: card_distinct)
  have root: "hidden_fixture_merkle_root fs = Inr (hd (merkle_loop (fixture_leaves fs)))"
    using 5 by (simp add: hidden_fixture_merkle_root_def)
  obtain payload where 6: "commitment_payload (bytes_hex tid) s ?rev = Inr payload"
    and p: "valid_task_reveal ?rev"
      "valid_public_task (public_of_spec (bytes_hex tid) s (length fs) (commitment_digest payload))"
      "p = \<lparr>pv_public = public_of_spec (bytes_hex tid) s (length fs) (commitment_digest payload), pv_reveal = ?rev\<rparr>"
    using assms by (auto simp: create_task_v2_def 1 2 3 4 root Let_def rbind_eq_Inr)
  show thesis
    by (rule that [of tid seed salt fs payload]) (use 1 2 3 4 5 6 p dist draw in simp_all)
qed

lemma create_audit:
  assumes "create_task_v2 s factory token_bytes e0 = Inr p"
    and "regenerate = None \<or> regenerate = Some factory"
  shows "audit_task_reveal (pv_public p) (pv_reveal p) regenerate = Inr True"
  using assms(1)
proof (rule create_task_v2_Inr)
  fix tid seed salt fs payload
  assume rev: "pv_reveal p = \<lparr>tr_protocol_version = PROTOCOL_VERSION_V2, tr_task_id = bytes_hex tid,
        tr_secret_seed_hex = bytes_hex seed, tr_salt_hex = bytes_hex salt, tr_hidden_fixtures = fs,
        tr_hidden_fixture_merkle_root = hd (merkle_loop (fixture_leaves fs))\<rparr>"
    and pay: "commitment_payload (bytes_hex tid) s (pv_reveal p) = Inr payload"
    and pub: "pv_public p = public_of_spec (bytes_hex tid) s (length fs) (commitment_digest payload)"
    and fs: "factory seed = Inr fs" "2 \<le> length fs"
  have "regenerates regenerate (pv_reveal p) = Inr True"
    using assms(2) fs by (auto simp: regenerates_def rev)
  moreover have "hidden_fixture_merkle_root fs = Inr (hd (merkle_loop (fixture_leaves fs)))"
    using fs by (simp add: hidden_fixture_merkle_root_def)
  moreover have "pt_task_id (pv_public p) = bytes_hex tid" "pt_hidden_holdout_count (pv_public p) = int (length fs)"
    "pt_commitment (pv_public p) = commitment_digest payload"
    by (simp_all add: pub public_of_spec_def)
  ultimately show ?thesis
    using pay by (simp add: audit_task_reveal_def rev commitment_payload_public pub)
qed

lemma audit_True:
  assumes "audit_task_reveal public reveal regenerate = Inr True"
  shows "pt_task_id public = tr_task_id reveal
    \<and> hidden_fixture_merkle_root (tr_hidden_fixtures reveal) = Inr (tr_hidden_fixture_merkle_root reveal)
    \<and> regenerates regenerate reveal = Inr True
    \<and> (\<exists>payload. commitment_payload (pt_task_id public) (spec_of_public public) reveal = Inr payload
         \<and> pt_commitment public = commitment_digest payload)"
  using assms by (auto simp: audit_task_reveal_def split: if_splits)

text \<open>The preimage of a task's commitment under a reveal.\<close>

definition commitment_preimages :: "public_task \<Rightarrow> task_reveal \<Rightarrow> bytes list" where
  "commitment_preimages public reveal =
     (case commitment_payload (pt_task_id public) (spec_of_public public) reveal of
        Inr p \<Rightarrow> [v2_preimage COMMITMENT_DOMAIN_V2 (json_of_commitment p)] | Inl _ \<Rightarrow> [])"

lemma audit_binding:
  assumes "audit_task_reveal t r g = Inr True" "audit_task_reveal t' r' g' = Inr True"
    and "pt_commitment t = pt_commitment t'"
    and nc: "no_collisions (commitment_preimages t r) (commitment_preimages t' r')"
    "no_collisions (merkle_preimages (tr_hidden_fixtures r)) (merkle_preimages (tr_hidden_fixtures r'))"
    "no_collisions (merkle_preimages (tr_hidden_fixtures r')) (merkle_preimages (tr_hidden_fixtures r))"
  shows "tr_task_id r = tr_task_id r' \<and> tr_secret_seed_hex r = tr_secret_seed_hex r'
    \<and> tr_salt_hex r = tr_salt_hex r' \<and> tr_hidden_fixtures r = tr_hidden_fixtures r'
    \<and> spec_of_public t = spec_of_public t'"
proof -
  obtain p where p: "commitment_payload (pt_task_id t) (spec_of_public t) r = Inr p" "pt_commitment t = commitment_digest p"
    using audit_True [OF assms(1)] by blast
  obtain p' where p': "commitment_payload (pt_task_id t') (spec_of_public t') r' = Inr p'" "pt_commitment t' = commitment_digest p'"
    using audit_True [OF assms(2)] by blast
  have "p = p'"
    using commitment_digest_binding [of p p'] p p' assms(3) nc(1)
    by (simp add: commitment_preimages_def no_collisions_def)
  then have eq: "pt_task_id t = pt_task_id t'" "tr_secret_seed_hex r = tr_secret_seed_hex r'"
    "tr_salt_hex r = tr_salt_hex r'" "tr_hidden_fixture_merkle_root r = tr_hidden_fixture_merkle_root r'"
    "spec_of_public t = spec_of_public t'"
    using p(1) p'(1)
    by (auto simp: commitment_payload_def Let_def rbind_eq_Inr spec_of_public_def spec_budget_def spec_grammar_def)
  moreover have "tr_hidden_fixtures r = tr_hidden_fixtures r'"
    using audit_True [OF assms(1)] audit_True [OF assms(2)] eq(4)
    by (intro merkle_root_binding [OF _ _ nc(2,3)]) auto
  ultimately show ?thesis using audit_True [OF assms(1)] audit_True [OF assms(2)] by simp
qed

end
