(* ===== verification/Lifecycle.thy ===== *)
theory Lifecycle
  imports Commitment
begin

text \<open>
  \<open>TaskLifecycleV2\<close> of \<open>planrace/taskgen_v2.py\<close>: the open, sealed and revealed phases of a
  task, its one submission boundary, and the runs of a lifecycle. Every method holds the
  lock for its whole body, so concurrent callers are a sequence of events. The replay store
  is threaded through as the source passes it; the signature check and the store are the
  parameters \<open>kp_verify\<close> and \<open>check\<close> of \<open>Auth\<close>.
\<close>

section \<open>State and operations\<close>

datatype task_phase = OPEN | SEALED | REVEALED

record lifecycle =
  lc_task :: private_task
  lc_phase :: task_phase
  lc_submissions :: "(string, signed_response) dict"

definition lifecycle_init :: "private_task \<Rightarrow> lifecycle" where
  "lifecycle_init task = \<lparr>lc_task = task, lc_phase = OPEN, lc_submissions = []\<rparr>"

definition lc_public_task :: "lifecycle \<Rightarrow> public_task" where
  "lc_public_task l = pv_public (lc_task l)"

definition lc_deadline :: "lifecycle \<Rightarrow> int" where
  "lc_deadline l = pt_deadline_unix_ms (pv_public (lc_task l))"

definition DEFAULT_CLOCK_SKEW_MS :: int where "DEFAULT_CLOCK_SKEW_MS = 5000"

definition submission_guards ::
  "lifecycle \<Rightarrow> signed_response \<Rightarrow> optimization_request \<Rightarrow> int \<Rightarrow> unit result" where
  "submission_guards l response request now =
     rbind (rcheck (lc_phase l = OPEN) (LifecycleError ''submissions_sealed'')) (\<lambda>_.
     rbind (rcheck (\<not> lc_deadline l \<le> now) (LifecycleError ''submission_after_deadline'')) (\<lambda>_.
     rbind (rcheck (rq_task request = lc_public_task l) (LifecycleError ''request_not_for_lifecycle_task'')) (\<lambda>_.
     rbind (rcheck (sr_task_id response = pt_task_id (lc_public_task l)) (LifecycleError ''wrong_task'')) (\<lambda>_.
       rcheck (sr_request_id response \<notin> set (keys (lc_submissions l))) (LifecycleError ''duplicate_request'')))))"

definition submit_verified ::
  "(string \<Rightarrow> bytes \<Rightarrow> bytes \<Rightarrow> bool result) \<Rightarrow> ('s \<Rightarrow> response_key \<Rightarrow> int \<Rightarrow> 's \<times> bool)
    \<Rightarrow> lifecycle \<Rightarrow> 's \<Rightarrow> signed_response \<Rightarrow> optimization_request \<Rightarrow> int \<Rightarrow> (int, string) dict \<Rightarrow> int
    \<Rightarrow> lifecycle \<times> 's \<times> unit result" where
  "submit_verified kp_verify check l store response request uid metagraph now =
     (case submission_guards l response request now of
        Inl e \<Rightarrow> (l, store, Inl e)
      | Inr _ \<Rightarrow>
          (case verify_signed_response kp_verify check response request uid metagraph store now
                  DEFAULT_CLOCK_SKEW_MS of
             (store', Inl e) \<Rightarrow> (l, store', Inl e)
           | (store', Inr _) \<Rightarrow>
               (l\<lparr>lc_submissions := AList.update (sr_request_id response) response (lc_submissions l)\<rparr>,
                store', Inr ())))"

definition seal :: "lifecycle \<Rightarrow> int \<Rightarrow> lifecycle \<times> signed_response list result" where
  "seal l now =
     (if now < lc_deadline l then (l, Inl (LifecycleError ''seal_before_deadline''))
      else if lc_phase l = REVEALED then (l, Inl (LifecycleError ''already_revealed''))
      else (l\<lparr>lc_phase := SEALED\<rparr>, Inr (dict_values (lc_submissions l))))"

definition reveal :: "lifecycle \<Rightarrow> int \<Rightarrow> lifecycle \<times> task_reveal result" where
  "reveal l now =
     (if now < lc_deadline l then (l, Inl (LifecycleError ''reveal_before_deadline''))
      else if lc_phase l = OPEN then (l, Inl (LifecycleError ''submissions_not_sealed''))
      else (l\<lparr>lc_phase := REVEALED\<rparr>, Inr (pv_reveal (lc_task l))))"

definition sealed_bundles :: "lifecycle \<Rightarrow> optimization_bundle list result" where
  "sealed_bundles l =
     (if lc_phase l = OPEN then Inl (LifecycleError ''submissions_not_sealed'')
      else Inr (map sr_artifact (dict_values (lc_submissions l))))"

section \<open>Runs\<close>

text \<open>One call of the lifecycle with its arguments, and the state and answer it leaves.\<close>

datatype event =
    Submit signed_response optimization_request int "(int, string) dict" int
  | Seal int
  | Reveal int
  | Bundles

datatype answer =
    Submitted "unit result"
  | Sealed "signed_response list result"
  | Revealed "task_reveal result"
  | GotBundles "optimization_bundle list result"

fun lifecycle_call ::
  "(string \<Rightarrow> bytes \<Rightarrow> bytes \<Rightarrow> bool result) \<Rightarrow> ('s \<Rightarrow> response_key \<Rightarrow> int \<Rightarrow> 's \<times> bool)
    \<Rightarrow> lifecycle \<times> 's \<Rightarrow> event \<Rightarrow> (lifecycle \<times> 's) \<times> answer" where
  "lifecycle_call kp_verify check (l, store) (Submit response request uid metagraph now) =
     (let (l', store', r) = submit_verified kp_verify check l store response request uid metagraph now
      in ((l', store'), Submitted r))"
| "lifecycle_call kp_verify check (l, store) (Seal now) =
     (let (l', r) = seal l now in ((l', store), Sealed r))"
| "lifecycle_call kp_verify check (l, store) (Reveal now) =
     (let (l', r) = reveal l now in ((l', store), Revealed r))"
| "lifecycle_call kp_verify check (l, store) Bundles = ((l, store), GotBundles (sealed_bundles l))"

text \<open>The states and answers of a run, as a step relation over its history.\<close>

inductive lifecycle_run ::
  "(string \<Rightarrow> bytes \<Rightarrow> bytes \<Rightarrow> bool result) \<Rightarrow> ('s \<Rightarrow> response_key \<Rightarrow> int \<Rightarrow> 's \<times> bool)
    \<Rightarrow> lifecycle \<times> 's \<Rightarrow> (event \<times> answer) list \<Rightarrow> lifecycle \<times> 's \<Rightarrow> bool"
  for kp_verify :: "string \<Rightarrow> bytes \<Rightarrow> bytes \<Rightarrow> bool result"
    and check :: "'s \<Rightarrow> response_key \<Rightarrow> int \<Rightarrow> 's \<times> bool" and s0 :: "lifecycle \<times> 's" where
  run_start: "lifecycle_run kp_verify check s0 [] s0"
| run_step: "lifecycle_run kp_verify check s0 h s \<Longrightarrow> lifecycle_call kp_verify check s e = (s', a)
    \<Longrightarrow> lifecycle_run kp_verify check s0 (h @ [(e, a)]) s'"

inductive_cases run_snocE: "lifecycle_run kp_verify check s0 (h @ [(e, a)]) s'"

text \<open>The run an event list produces, for evaluation.\<close>

fun run_events ::
  "(string \<Rightarrow> bytes \<Rightarrow> bytes \<Rightarrow> bool result) \<Rightarrow> ('s \<Rightarrow> response_key \<Rightarrow> int \<Rightarrow> 's \<times> bool)
    \<Rightarrow> lifecycle \<times> 's \<Rightarrow> event list \<Rightarrow> (event \<times> answer) list \<times> (lifecycle \<times> 's)" where
  "run_events kp_verify check s [] = ([], s)"
| "run_events kp_verify check s (e # es) =
     (let (s', a) = lifecycle_call kp_verify check s e; (h, t) = run_events kp_verify check s' es
      in ((e, a) # h, t))"

lemma lifecycle_run_trans:
  "lifecycle_run v c s0 h s \<Longrightarrow> lifecycle_run v c s h' t \<Longrightarrow> lifecycle_run v c s0 (h @ h') t"
proof (rotate_tac, induction h' t rule: lifecycle_run.induct)
  case (run_step h' s1 e s' a)
  then show ?case using lifecycle_run.run_step by (metis append.assoc)
qed simp

lemma run_events_run: "run_events v c s es = (h, t) \<Longrightarrow> lifecycle_run v c s h t"
proof (induction es arbitrary: s h)
  case (Cons e es)
  obtain s' a where c: "lifecycle_call v c s e = (s', a)" by fastforce
  obtain h' t' where r: "run_events v c s' es = (h', t')" by (cases "run_events v c s' es") auto
  have "h = (e, a) # h'" "t = t'" using Cons.prems c r by auto
  moreover have "lifecycle_run v c s [(e, a)] s'"
    using lifecycle_run.run_step [OF lifecycle_run.run_start c] by simp
  ultimately show ?case using lifecycle_run_trans Cons.IH r by fastforce
qed (auto intro: lifecycle_run.run_start)

section \<open>The invariant\<close>

text \<open>
  Every stored response was verified for this task before the deadline, under its own
  request id, and at most once per request.
\<close>

definition accepted_submission ::
  "(string \<Rightarrow> bytes \<Rightarrow> bytes \<Rightarrow> bool result) \<Rightarrow> (event \<times> answer) list \<Rightarrow> lifecycle \<Rightarrow> signed_response \<Rightarrow> bool" where
  "accepted_submission kp_verify h l r \<longleftrightarrow>
     (\<exists>request uid metagraph now. (Submit r request uid metagraph now, Submitted (Inr ())) \<in> set h
        \<and> now < lc_deadline l \<and> rq_task request = lc_public_task l
        \<and> response_bound r request uid metagraph now DEFAULT_CLOCK_SKEW_MS \<and> signature_verifies kp_verify r)"

definition lifecycle_inv ::
  "(string \<Rightarrow> bytes \<Rightarrow> bytes \<Rightarrow> bool result) \<Rightarrow> private_task \<Rightarrow> (event \<times> answer) list \<Rightarrow> lifecycle \<Rightarrow> bool" where
  "lifecycle_inv kp_verify task h l \<longleftrightarrow> lc_task l = task \<and> wf_dict (lc_submissions l)
     \<and> (\<forall>(k, r) \<in> set (lc_submissions l). k = sr_request_id r \<and> accepted_submission kp_verify h l r)
     \<and> (lc_phase l \<noteq> OPEN \<longrightarrow> (\<exists>now r. (Seal now, Sealed (Inr r)) \<in> set h \<and> lc_deadline l \<le> now))
     \<and> (lc_phase l = REVEALED \<longrightarrow> (\<exists>now r. (Reveal now, Revealed (Inr r)) \<in> set h))"

lemma submission_guards_iff: "submission_guards l response request now = Inr u \<longleftrightarrow>
    lc_phase l = OPEN \<and> now < lc_deadline l \<and> rq_task request = lc_public_task l
    \<and> sr_task_id response = pt_task_id (lc_public_task l)
    \<and> sr_request_id response \<notin> set (keys (lc_submissions l))"
  by (auto simp: submission_guards_def rbind_eq_Inr)

lemma submit_verified_cases:
  assumes "submit_verified v c l store response request uid metagraph now = (l', store', r)"
  obtains (rejected) e where "r = Inl e" "l' = l"
  | (accepted) "r = Inr ()" "lc_phase l = OPEN" "now < lc_deadline l" "rq_task request = lc_public_task l"
      "sr_request_id response \<notin> set (keys (lc_submissions l))"
      "response_bound response request uid metagraph now DEFAULT_CLOCK_SKEW_MS" "signature_verifies v response"
      "c store (response_key response) (sr_expires_at_unix_ms response) = (store', True)"
      "l' = l\<lparr>lc_submissions := AList.update (sr_request_id response) response (lc_submissions l)\<rparr>"
proof (cases "submission_guards l response request now")
  case (Inl e)
  then show thesis using assms rejected [of e] by (simp add: submit_verified_def)
next
  case (Inr u)
  note g = Inr [unfolded submission_guards_iff]
  obtain st res where ver: "verify_signed_response v c response request uid metagraph store now DEFAULT_CLOCK_SKEW_MS = (st, res)"
    by fastforce
  show thesis
  proof (cases res)
    case (Inl e)
    then show thesis using assms Inr ver by (auto simp: submit_verified_def intro: rejected)
  next
    case (Inr b)
    then have eqs: "r = Inr ()" "st = store'"
      "l' = l\<lparr>lc_submissions := AList.update (sr_request_id response) response (lc_submissions l)\<rparr>"
      using assms \<open>submission_guards l response request now = Inr u\<close> ver by (auto simp: submit_verified_def)
    have acc: "response_bound response request uid metagraph now DEFAULT_CLOCK_SKEW_MS"
      "signature_verifies v response" "c store (response_key response) (sr_expires_at_unix_ms response) = (store', True)"
      using ver Inr eqs(2) by (simp_all add: verify_accepts_iff)
    show thesis using accepted [OF eqs(1)] g acc eqs(3) by blast
  qed
qed

lemma update_new: "k \<notin> set (keys d) \<Longrightarrow> AList.update k v d = d @ [(k, v)]"
  by (induction d) (auto simp: keys_def)

lemma lc_update_simps [simp]:
  "lc_deadline (l\<lparr>lc_submissions := d\<rparr>) = lc_deadline l" "lc_deadline (l\<lparr>lc_phase := p\<rparr>) = lc_deadline l"
  "lc_public_task (l\<lparr>lc_submissions := d\<rparr>) = lc_public_task l" "lc_public_task (l\<lparr>lc_phase := p\<rparr>) = lc_public_task l"
  by (simp_all add: lc_deadline_def lc_public_task_def)

lemma accepted_submission_mono:
  "accepted_submission v h l r \<Longrightarrow> lc_task l' = lc_task l \<Longrightarrow> accepted_submission v (h @ h') l' r"
  by (fastforce simp: accepted_submission_def lc_deadline_def lc_public_task_def)

lemma lifecycle_call_inv:
  assumes inv: "lifecycle_inv v task h (fst s)" and call: "lifecycle_call v c s e = (s', a)"
  shows "lifecycle_inv v task (h @ [(e, a)]) (fst s')"
proof -
  obtain l store where s: "s = (l, store)" by fastforce
  obtain l' store' where s': "s' = (l', store')" by fastforce
  have old: "\<And>k r. (k, r) \<in> set (lc_submissions l) \<Longrightarrow> k = sr_request_id r \<and> accepted_submission v h l r"
    and base: "lc_task l = task" "wf_dict (lc_submissions l)"
      "lc_phase l \<noteq> OPEN \<Longrightarrow> \<exists>now r. (Seal now, Sealed (Inr r)) \<in> set h \<and> lc_deadline l \<le> now"
      "lc_phase l = REVEALED \<Longrightarrow> \<exists>now r. (Reveal now, Revealed (Inr r)) \<in> set h"
    using inv by (auto simp: lifecycle_inv_def s)
  have keep: "lifecycle_inv v task (h @ [(e, a)]) l''"
    if "lc_task l'' = lc_task l" "lc_submissions l'' = lc_submissions l"
      "lc_phase l'' \<noteq> OPEN \<Longrightarrow> lc_phase l \<noteq> OPEN \<or> (\<exists>now r. e = Seal now \<and> a = Sealed (Inr r) \<and> lc_deadline l \<le> now)"
      "lc_phase l'' = REVEALED \<Longrightarrow> lc_phase l = REVEALED \<or> (\<exists>now r. e = Reveal now \<and> a = Revealed (Inr r))" for l''
    unfolding lifecycle_inv_def
    using base that old accepted_submission_mono [of v h l _ l'' "[(e, a)]"]
    by (fastforce simp: lc_deadline_def)
  show ?thesis
  proof (cases e)
    case (Submit response request uid metagraph now)
    obtain r where sub: "submit_verified v c l store response request uid metagraph now = (l', store', r)"
      and a: "a = Submitted r"
      using call Submit s s' by (auto split: prod.splits)
    from sub show ?thesis
    proof (cases rule: submit_verified_cases)
      case (rejected e')
      then show ?thesis using keep [of l] by (simp add: s')
    next
      case accepted
      have new: "accepted_submission v (h @ [(e, a)]) l' response"
        unfolding accepted_submission_def using accepted Submit a by auto
      have "accepted_submission v (h @ [(e, a)]) l' r" if "(k, r) \<in> set (lc_submissions l)" for k r
        using old [OF that] accepted(9) by (auto intro: accepted_submission_mono)
      then show ?thesis
        using base accepted old new by (auto simp: lifecycle_inv_def s' update_new wf_dict_def keys_def)
    qed
  next
    case (Seal now)
    have "(l', store', a) = (if now < lc_deadline l then (l, store, Sealed (Inl (LifecycleError ''seal_before_deadline'')))
      else if lc_phase l = REVEALED then (l, store, Sealed (Inl (LifecycleError ''already_revealed'')))
      else (l\<lparr>lc_phase := SEALED\<rparr>, store, Sealed (Inr (dict_values (lc_submissions l)))))"
      using call by (auto simp: s s' Seal seal_def split: if_splits)
    then show ?thesis using keep [of l'] Seal by (auto simp: s' split: if_splits)
  next
    case (Reveal now)
    have "(l', store', a) = (if now < lc_deadline l then (l, store, Revealed (Inl (LifecycleError ''reveal_before_deadline'')))
      else if lc_phase l = OPEN then (l, store, Revealed (Inl (LifecycleError ''submissions_not_sealed'')))
      else (l\<lparr>lc_phase := REVEALED\<rparr>, store, Revealed (Inr (pv_reveal (lc_task l)))))"
      using call by (auto simp: s s' Reveal reveal_def split: if_splits)
    then show ?thesis using keep [of l'] Reveal by (auto simp: s' split: if_splits)
  next
    case Bundles
    then show ?thesis using keep [of l] call by (simp add: s s')
  qed
qed

lemma lifecycle_run_inv:
  "lifecycle_run v c s0 h s \<Longrightarrow> fst s0 = lifecycle_init task \<Longrightarrow> lifecycle_inv v task h (fst s)"
proof (induction rule: lifecycle_run.induct)
  case run_start
  then show ?case by (simp add: lifecycle_inv_def lifecycle_init_def wf_dict_def keys_def)
next
  case (run_step h s e s' a)
  then show ?case using lifecycle_call_inv by blast
qed

section \<open>After the seal\<close>

text \<open>What an answer may be once the sealed submissions are \<open>rs\<close>.\<close>

fun sealed_answer :: "signed_response list \<Rightarrow> answer \<Rightarrow> bool" where
  "sealed_answer rs (Submitted r) \<longleftrightarrow> r = Inl (LifecycleError ''submissions_sealed'')"
| "sealed_answer rs (Sealed r) \<longleftrightarrow> is_ok r \<longrightarrow> r = Inr rs"
| "sealed_answer rs (Revealed r) \<longleftrightarrow> True"
| "sealed_answer rs (GotBundles r) \<longleftrightarrow> r = Inr (map sr_artifact rs)"

lemma sealed_call:
  assumes "lifecycle_call v c s e = (s', a)" "lc_phase (fst s) \<noteq> OPEN"
  shows "lc_phase (fst s') \<noteq> OPEN \<and> lc_submissions (fst s') = lc_submissions (fst s)
    \<and> lc_task (fst s') = lc_task (fst s) \<and> sealed_answer (dict_values (lc_submissions (fst s))) a"
proof (cases s)
  case (Pair l store)
  then show ?thesis
  proof (cases e)
    case (Submit response request uid metagraph now)
    have "submission_guards l response request now = Inl (LifecycleError ''submissions_sealed'')"
      using assms(2) Pair by (simp add: submission_guards_def)
    then show ?thesis using assms Pair Submit by (auto simp: submit_verified_def)
  qed (use assms Pair in \<open>auto simp: seal_def reveal_def sealed_bundles_def split: if_splits\<close>)
qed

lemma sealed_run:
  assumes "lifecycle_run v c s h t" "lc_phase (fst s) \<noteq> OPEN"
  shows "lc_phase (fst t) \<noteq> OPEN \<and> lc_submissions (fst t) = lc_submissions (fst s)
    \<and> (\<forall>x \<in> set h. sealed_answer (dict_values (lc_submissions (fst s))) (snd x))"
  using assms
proof (induction rule: lifecycle_run.induct)
  case (run_step h s1 e s' a)
  then show ?case using sealed_call [OF run_step(2)] by auto
qed simp

lemma run_split:
  "lifecycle_run v c s0 (h @ h') t \<Longrightarrow> \<exists>s. lifecycle_run v c s0 h s \<and> lifecycle_run v c s h' t"
proof (induction h' arbitrary: t rule: rev_induct)
  case Nil
  then show ?case using lifecycle_run.run_start [of v c t] by (metis append_Nil2)
next
  case (snoc x h')
  obtain e a where x: "x = (e, a)" by fastforce
  have "lifecycle_run v c s0 ((h @ h') @ [(e, a)]) t" using snoc.prems x by simp
  then obtain u where u: "lifecycle_run v c s0 (h @ h') u" "lifecycle_call v c u e = (t, a)"
    by (rule run_snocE)
  from snoc.IH [OF u(1)] obtain s where "lifecycle_run v c s0 h s" "lifecycle_run v c s h' u" by blast
  then show ?case using lifecycle_run.run_step [OF _ u(2)] x by blast
qed

lemma run_middle:
  assumes "lifecycle_run v c s0 (h @ (e, a) # h') t"
  obtains s s' where "lifecycle_run v c s0 h s" "lifecycle_call v c s e = (s', a)" "lifecycle_run v c s' h' t"
proof -
  have "lifecycle_run v c s0 ((h @ [(e, a)]) @ h') t" using assms by simp
  from run_split [OF this] obtain s' where s': "lifecycle_run v c s0 (h @ [(e, a)]) s'" "lifecycle_run v c s' h' t"
    by blast
  from s'(1) show thesis by (rule run_snocE) (use s'(2) that in blast)
qed

lemma seal_final:
  assumes "lifecycle_run v c s0 (h @ (Seal now, Sealed (Inr rs)) # h') t" "x \<in> set h'"
  shows "sealed_answer rs (snd x)"
  using assms(1)
proof (rule run_middle)
  fix s s' assume call: "lifecycle_call v c s (Seal now) = (s', Sealed (Inr rs))" and run: "lifecycle_run v c s' h' t"
  have "lc_phase (fst s') \<noteq> OPEN \<and> dict_values (lc_submissions (fst s')) = rs"
    using call by (cases s) (auto simp: seal_def split: if_splits)
  then show ?thesis using sealed_run [OF run] assms(2) by auto
qed

lemma reveal_after_seal:
  assumes "lifecycle_run v c (lifecycle_init task, store) (h @ (Reveal now, Revealed (Inr r)) # h') t"
  shows "r = pv_reveal task \<and> pt_deadline_unix_ms (pv_public task) \<le> now
    \<and> (\<exists>now' rs. (Seal now', Sealed (Inr rs)) \<in> set h \<and> pt_deadline_unix_ms (pv_public task) \<le> now')"
  using assms
proof (rule run_middle)
  fix s s' assume run: "lifecycle_run v c (lifecycle_init task, store) h s"
    and call: "lifecycle_call v c s (Reveal now) = (s', Revealed (Inr r))"
  have inv: "lifecycle_inv v task h (fst s)" using lifecycle_run_inv [OF run] by simp
  have "r = pv_reveal (lc_task (fst s)) \<and> lc_deadline (fst s) \<le> now \<and> lc_phase (fst s) \<noteq> OPEN"
    using call by (cases s) (auto simp: reveal_def split: if_splits)
  with inv show ?thesis by (auto simp: lifecycle_inv_def lc_deadline_def)
qed

end
