(* ===== verification/IndexSql.thy ===== *)
theory IndexSql
  imports Models
begin

text \<open>
  The validator-side SQL compiler of \<open>planrace/models_v2.py\<close> (\<open>compile_index_sql\<close> and its
  helpers), and a lexer for the SQL it emits (words, double-quoted identifiers with
  doubled quotes, single-quoted strings with doubled quotes, one-character symbols). The
  compiled statement lexes back to the tokens of its index specification: a literal
  cannot leave its string and an identifier cannot leave its quotes.
\<close>

section \<open>The compiler\<close>

definition INDEX_NAME_DOMAIN :: string where
  "INDEX_NAME_DOMAIN = ''planrace/2:index-name''"

definition validator_index_name :: "index_spec \<Rightarrow> string" where
  "validator_index_name spec =
     ''planrace_'' @ take 20 (drop 7 (v2_digest INDEX_NAME_DOMAIN (json_of_index spec)))"

definition quote_identifier :: "string \<Rightarrow> string" where
  "quote_identifier v = [CHR 0x22] @ v @ [CHR 0x22]"

text \<open>\<open>value.replace("'", "''")\<close>.\<close>

definition double_quotes :: "string \<Rightarrow> string" where
  "double_quotes s = concat (map (\<lambda>c. if c = CHR 0x27 then [CHR 0x27, CHR 0x27] else [c]) s)"

fun compile_literal :: "predicate_literal \<Rightarrow> string result" where
  "compile_literal (IntegerLiteral i) = Inr (int_str i)"
| "compile_literal (BooleanLiteral b) = Inr (if b then ''1'' else ''0'')"
| "compile_literal (TextLiteral s) = Inr ([CHR 0x27] @ double_quotes s @ [CHR 0x27])"
| "compile_literal NullLiteral = Inl (ValueError ''NULL must be compiled through an IS NULL operator'')"

fun operator_sql :: "operator \<Rightarrow> string result" where
  "operator_sql OpEq = Inr ''=''"
| "operator_sql OpNe = Inr ''!=''"
| "operator_sql OpLt = Inr ''<''"
| "operator_sql OpLte = Inr ''<=''"
| "operator_sql OpGt = Inr ''>''"
| "operator_sql OpGte = Inr ''>=''"
| "operator_sql _ = Inl (KeyError ''operator'')"

definition compile_predicate :: "predicate_atom \<Rightarrow> string result" where
  "compile_predicate a =
     (let column = quote_identifier (atom_column a) in
      case atom_operator a of
        OpIsNull \<Rightarrow> Inr (column @ '' IS NULL'')
      | OpIsNotNull \<Rightarrow> Inr (column @ '' IS NOT NULL'')
      | p \<Rightarrow> rbind (operator_sql p) (\<lambda>q. rbind (compile_literal (atom_value a)) (\<lambda>l.
               Inr (column @ '' '' @ q @ '' '' @ l))))"

fun direction_sql :: "direction \<Rightarrow> string" where
  "direction_sql Asc = ''ASC''"
| "direction_sql Desc = ''DESC''"

definition compile_index_sql :: "index_spec \<Rightarrow> string result" where
  "compile_index_sql spec =
     (let unique = (if ix_unique spec then ''UNIQUE '' else '''');
          columns = map (\<lambda>c. quote_identifier (col_column c) @ '' '' @ direction_sql (col_direction c))
              (ix_key_columns spec) @ map quote_identifier (ix_include_columns spec);
          sql = ''CREATE '' @ unique @ ''INDEX '' @ quote_identifier (validator_index_name spec)
            @ '' ON '' @ quote_identifier (ix_table spec) @ '' ('' @ join '', '' columns @ '')''
      in case ix_predicate spec of
           None \<Rightarrow> Inr sql
         | Some p \<Rightarrow> rbind (rmap compile_predicate (pred_atoms p)) (\<lambda>atoms.
             Inr (sql @ '' WHERE '' @ join '' AND '' atoms)))"

section \<open>A lexer for the emitted SQL\<close>

datatype sql_token = SqlWord string | SqlIdent string | SqlString string | SqlSymbol char

datatype lex_state = LNone | LWord string | LIdent string | LString string

text \<open>Words in progress are kept reversed; \<open>None\<close> is an unterminated quote.\<close>

function sql_lex :: "lex_state \<Rightarrow> string \<Rightarrow> sql_token list option" where
  "sql_lex LNone [] = Some []"
| "sql_lex LNone (c # s) =
     (if c = CHR '' '' then sql_lex LNone s
      else if c = CHR 0x22 then sql_lex (LIdent []) s
      else if c = CHR 0x27 then sql_lex (LString []) s
      else if is_ident_char c then sql_lex (LWord [c]) s
      else map_option ((#) (SqlSymbol c)) (sql_lex LNone s))"
| "sql_lex (LWord w) [] = Some [SqlWord (rev w)]"
| "sql_lex (LWord w) (c # s) =
     (if is_ident_char c then sql_lex (LWord (c # w)) s
      else map_option ((#) (SqlWord (rev w))) (sql_lex LNone (c # s)))"
| "sql_lex (LIdent w) [] = None"
| "sql_lex (LIdent w) (c # s) =
     (if c \<noteq> CHR 0x22 then sql_lex (LIdent (c # w)) s
      else case s of
          d # s' \<Rightarrow> if d = CHR 0x22 then sql_lex (LIdent (d # w)) s'
            else map_option ((#) (SqlIdent (rev w))) (sql_lex LNone s)
        | [] \<Rightarrow> Some [SqlIdent (rev w)])"
| "sql_lex (LString w) [] = None"
| "sql_lex (LString w) (c # s) =
     (if c \<noteq> CHR 0x27 then sql_lex (LString (c # w)) s
      else case s of
          d # s' \<Rightarrow> if d = CHR 0x27 then sql_lex (LString (d # w)) s'
            else map_option ((#) (SqlString (rev w))) (sql_lex LNone s)
        | [] \<Rightarrow> Some [SqlString (rev w)])"
  by pat_completeness auto
termination
  by (relation "measure (\<lambda>(st, s). 2 * length s + (case st of LWord _ \<Rightarrow> 1 | _ \<Rightarrow> 0))") auto

section \<open>Tokens of an index specification\<close>

definition int_tokens :: "int \<Rightarrow> sql_token list" where
  "int_tokens i = (if i < 0 then [SqlSymbol (CHR ''-'')] else []) @ [SqlWord (nat_str (nat \<bar>i\<bar>))]"

fun literal_tokens :: "predicate_literal \<Rightarrow> sql_token list" where
  "literal_tokens (IntegerLiteral i) = int_tokens i"
| "literal_tokens (BooleanLiteral b) = [SqlWord (if b then ''1'' else ''0'')]"
| "literal_tokens (TextLiteral s) = [SqlString s]"
| "literal_tokens NullLiteral = []"

definition atom_tokens :: "predicate_atom \<Rightarrow> sql_token list" where
  "atom_tokens a = SqlIdent (atom_column a) #
     (case atom_operator a of
        OpIsNull \<Rightarrow> [SqlWord ''IS'', SqlWord ''NULL'']
      | OpIsNotNull \<Rightarrow> [SqlWord ''IS'', SqlWord ''NOT'', SqlWord ''NULL'']
      | p \<Rightarrow> (case operator_sql p of Inr q \<Rightarrow> map SqlSymbol q | Inl _ \<Rightarrow> [])
             @ literal_tokens (atom_value a))"

fun sep_tokens :: "sql_token list \<Rightarrow> sql_token list list \<Rightarrow> sql_token list" where
  "sep_tokens sep [] = []"
| "sep_tokens sep [t] = t"
| "sep_tokens sep (t # u # ts) = t @ sep @ sep_tokens sep (u # ts)"

definition column_tokens :: "index_column \<Rightarrow> sql_token list" where
  "column_tokens c = [SqlIdent (col_column c), SqlWord (direction_sql (col_direction c))]"

definition index_tokens :: "index_spec \<Rightarrow> sql_token list" where
  "index_tokens s = [SqlWord ''CREATE''] @ (if ix_unique s then [SqlWord ''UNIQUE''] else [])
     @ [SqlWord ''INDEX'', SqlIdent (validator_index_name s), SqlWord ''ON'', SqlIdent (ix_table s)]
     @ [SqlSymbol (CHR ''('')]
     @ sep_tokens [SqlSymbol (CHR '','')] (map column_tokens (ix_key_columns s)
         @ map (\<lambda>c. [SqlIdent c]) (ix_include_columns s))
     @ [SqlSymbol (CHR '')'')]
     @ (case ix_predicate s of None \<Rightarrow> []
        | Some p \<Rightarrow> SqlWord ''WHERE'' # sep_tokens [SqlWord ''AND''] (map atom_tokens (pred_atoms p)))"

section \<open>Lexing piece by piece\<close>

definition boundary :: "string \<Rightarrow> bool" where
  "boundary r \<longleftrightarrow> r = [] \<or> (\<not> is_ident_char (hd r) \<and> hd r \<noteq> CHR 0x22 \<and> hd r \<noteq> CHR 0x27)"

definition lexes :: "string \<Rightarrow> sql_token list \<Rightarrow> bool" where
  "lexes s ts \<longleftrightarrow> (\<forall>r. boundary r \<longrightarrow> sql_lex LNone (s @ r) = map_option (\<lambda>q. ts @ q) (sql_lex LNone r))"

named_theorems lex_intros \<open>pieces of SQL that lex on their own\<close>

lemma boundary_simps [simp]:
  "boundary []" "boundary (CHR '' '' # r)" "boundary (CHR '','' # r)" "boundary (CHR '')'' # r)"
  by (simp_all add: boundary_def char_class_defs)

lemma special_not_ident [simp]:
  "\<not> is_ident_char (CHR '' '')" "\<not> is_ident_char (CHR 0x22)" "\<not> is_ident_char (CHR 0x27)"
  "\<not> is_ident_char (CHR '','')" "\<not> is_ident_char (CHR ''('')" "\<not> is_ident_char (CHR '')'')"
  "\<not> is_ident_char (CHR ''-'')"
  by (simp_all add: char_class_defs)

lemma lexes_Nil [simp]: "lexes [] []"
  by (simp add: lexes_def option.map_ident)

lemma lexes_space:
  assumes "lexes s ts" "lexes t us"
  shows "lexes (s @ '' '' @ t) (ts @ us)"
  unfolding lexes_def
proof (intro allI impI)
  fix r assume r: "boundary r"
  have "sql_lex LNone (s @ CHR '' '' # t @ r) = map_option (\<lambda>q. ts @ q) (sql_lex LNone (CHR '' '' # t @ r))"
    using assms(1) by (simp add: lexes_def)
  also have "sql_lex LNone (CHR '' '' # t @ r) = map_option (\<lambda>q. us @ q) (sql_lex LNone r)"
    using assms(2) r by (simp add: lexes_def)
  finally show "sql_lex LNone ((s @ '' '' @ t) @ r) = map_option (\<lambda>q. (ts @ us) @ q) (sql_lex LNone r)"
    by (simp add: option.map_comp comp_def)
qed

lemma lexes_comma:
  assumes "lexes s ts" "lexes t us"
  shows "lexes (s @ '', '' @ t) (ts @ [SqlSymbol (CHR '','')] @ us)"
  unfolding lexes_def
proof (intro allI impI)
  fix r assume r: "boundary r"
  have "sql_lex LNone (s @ CHR '','' # CHR '' '' # t @ r)
      = map_option (\<lambda>q. ts @ q) (sql_lex LNone (CHR '','' # CHR '' '' # t @ r))"
    using assms(1) by (simp add: lexes_def)
  also have "sql_lex LNone (CHR '','' # CHR '' '' # t @ r)
      = map_option ((#) (SqlSymbol (CHR '',''))) (map_option (\<lambda>q. us @ q) (sql_lex LNone r))"
    using assms(2) r by (simp add: lexes_def)
  finally show "sql_lex LNone ((s @ '', '' @ t) @ r)
      = map_option (\<lambda>q. (ts @ [SqlSymbol (CHR '','')] @ us) @ q) (sql_lex LNone r)"
    by (simp add: option.map_comp comp_def)
qed

lemma lexes_parens:
  assumes "lexes s ts"
  shows "lexes (''('' @ s @ '')'') ([SqlSymbol (CHR ''('')] @ ts @ [SqlSymbol (CHR '')'')])"
  unfolding lexes_def
proof (intro allI impI)
  fix r assume r: "boundary r"
  have "sql_lex LNone (s @ CHR '')'' # r) = map_option (\<lambda>q. ts @ q) (sql_lex LNone (CHR '')'' # r))"
    using assms by (simp add: lexes_def)
  then show "sql_lex LNone ((''('' @ s @ '')'') @ r)
      = map_option (\<lambda>q. ([SqlSymbol (CHR ''('')] @ ts @ [SqlSymbol (CHR '')'')]) @ q) (sql_lex LNone r)"
    by (simp add: option.map_comp comp_def)
qed

lemma lex_LWord:
  "list_all is_ident_char s \<Longrightarrow> boundary r \<Longrightarrow>
     sql_lex (LWord w) (s @ r) = map_option ((#) (SqlWord (rev w @ s))) (sql_lex LNone r)"
proof (induction s arbitrary: w)
  case Nil
  then show ?case by (cases r) (auto simp: boundary_def)
qed auto

lemma lexes_word:
  assumes "s \<noteq> []" "list_all is_ident_char s"
  shows "lexes s [SqlWord s]"
  using assms by (cases s) (auto simp: lexes_def lex_LWord)

lemma lex_LIdent:
  "CHR 0x22 \<notin> set s \<Longrightarrow> boundary r \<Longrightarrow>
     sql_lex (LIdent w) (s @ CHR 0x22 # r) = map_option ((#) (SqlIdent (rev w @ s))) (sql_lex LNone r)"
proof (induction s arbitrary: w)
  case Nil
  then show ?case by (cases r) (auto simp: boundary_def)
qed auto

lemma lexes_quote_identifier:
  "CHR 0x22 \<notin> set s \<Longrightarrow> lexes (quote_identifier s) [SqlIdent s]"
  by (simp add: lexes_def quote_identifier_def lex_LIdent)

lemma lex_LString:
  "boundary r \<Longrightarrow> sql_lex (LString w) (double_quotes s @ CHR 0x27 # r)
     = map_option ((#) (SqlString (rev w @ s))) (sql_lex LNone r)"
proof (induction s arbitrary: w)
  case Nil
  then show ?case by (cases r) (auto simp: boundary_def double_quotes_def)
qed (auto simp: double_quotes_def)

lemma lexes_text_literal: "lexes ([CHR 0x27] @ double_quotes s @ [CHR 0x27]) [SqlString s]"
  by (simp add: lexes_def lex_LString)

lemma lexes_symbols:
  assumes "\<And>c. c \<in> set s \<Longrightarrow> \<not> is_ident_char c \<and> c \<noteq> CHR 0x22 \<and> c \<noteq> CHR 0x27 \<and> c \<noteq> CHR '' ''"
  shows "lexes s (map SqlSymbol s)"
  using assms
proof (induction s)
  case (Cons c s)
  then have "lexes s (map SqlSymbol s)" "\<not> is_ident_char c" "c \<noteq> CHR 0x22" "c \<noteq> CHR 0x27" "c \<noteq> CHR '' ''"
    by auto
  then show ?case by (simp add: lexes_def option.map_comp comp_def)
qed simp

lemma nat_str_ident: "list_all is_ident_char (nat_str n)"
  by (auto simp: list_all_iff is_ident_char_def nat_str_digits)

lemma lexes_int: "lexes (int_str i) (int_tokens i)"
proof (cases "i < 0")
  case True
  have "lexes (nat_str (nat (- i))) [SqlWord (nat_str (nat (- i)))]"
    by (rule lexes_word) (simp_all add: nat_str_ident)
  with True show ?thesis
    by (simp add: lexes_def int_str_def int_tokens_def option.map_comp comp_def)
next
  case False
  have "lexes (nat_str (nat i)) [SqlWord (nat_str (nat i))]"
    by (rule lexes_word) (simp_all add: nat_str_ident)
  with False show ?thesis by (simp add: int_str_def int_tokens_def)
qed

lemma lexes_join_comma:
  assumes "list_all2 lexes ss tss"
  shows "lexes (join '', '' ss) (sep_tokens [SqlSymbol (CHR '','')] tss)"
  using assms
proof (induction ss tss rule: list_all2_induct)
  case (Cons s ss t tss)
  then show ?case
    by (cases ss; cases tss) (auto dest: lexes_comma [of s t "join '', '' ss"])
qed simp

lemma lexes_join_and:
  assumes "list_all2 lexes ss tss"
  shows "lexes (join '' AND '' ss) (sep_tokens [SqlWord ''AND''] tss)"
  using assms
proof (induction ss tss rule: list_all2_induct)
  case (Cons s ss t tss)
  have "lexes ''AND'' [SqlWord ''AND'']" by (rule lexes_word) (simp_all add: char_class_defs)
  from lexes_space [OF this Cons(3)] Cons(1)
  have "lexes (s @ '' '' @ ''AND'' @ '' '' @ join '' AND '' ss)
      (t @ [SqlWord ''AND''] @ sep_tokens [SqlWord ''AND''] tss)"
    by (rule lexes_space [rotated])
  with Cons show ?case by (cases ss; cases tss) auto
qed simp

section \<open>The compiled statement is the specification's tokens\<close>

lemma valid_identifier_chars: "valid_safe_identifier s \<Longrightarrow> c \<in> set s \<Longrightarrow> is_ident_char c"
  unfolding valid_safe_identifier_def by (cases s) (auto simp: list_all_iff is_ident_char_def)

lemma valid_identifier_no_quote: "valid_safe_identifier s \<Longrightarrow> CHR 0x22 \<notin> set s"
  using valid_identifier_chars [of s "CHR 0x22"] by auto

lemma set_take_drop: "c \<in> set (take n (drop m s)) \<Longrightarrow> c \<in> set (drop m s)"
  by (rule in_set_takeD)

lemma validator_index_name_no_quote: "CHR 0x22 \<notin> set (validator_index_name s)"
proof
  assume "CHR 0x22 \<in> set (validator_index_name s)"
  then have "CHR 0x22 \<in> set (drop 7 (v2_digest INDEX_NAME_DOMAIN (json_of_index s)))"
    by (auto simp: validator_index_name_def dest: set_take_drop)
  then have "is_lower_hex (CHR 0x22)"
    by (auto simp: v2_digest_def dest: sha256_hex_lower_hex)
  then show False by (simp add: char_class_defs)
qed

lemma lexes_word_space: "lexes t us \<Longrightarrow> w \<noteq> [] \<Longrightarrow> list_all is_ident_char w \<Longrightarrow>
    lexes (w @ '' '' @ t) (SqlWord w # us)"
  using lexes_space [OF lexes_word] by fastforce

lemma lexes_ident_space: "lexes t us \<Longrightarrow> CHR 0x22 \<notin> set s \<Longrightarrow>
    lexes (quote_identifier s @ '' '' @ t) (SqlIdent s # us)"
  using lexes_space [OF lexes_quote_identifier] by fastforce

lemma lexes_literal:
  "compile_literal v = Inr l \<Longrightarrow> lexes l (literal_tokens v)"
  by (cases v) (auto simp: lexes_int lexes_text_literal [simplified] char_class_defs intro!: lexes_word
      split: if_splits)

lemma lexes_atom:
  assumes "valid_atom a" "compile_predicate a = Inr s"
  shows "lexes s (atom_tokens a)"
proof -
  have q: "CHR 0x22 \<notin> set (atom_column a)"
    using assms(1) by (simp add: valid_atom_def valid_identifier_no_quote)
  have w: "lexes ''NULL'' [SqlWord ''NULL'']" by (rule lexes_word) (simp_all add: char_class_defs)
  have null: "lexes (''IS'' @ '' '' @ ''NULL'') [SqlWord ''IS'', SqlWord ''NULL'']"
    by (rule lexes_word_space [OF w]) (simp_all add: char_class_defs)
  have not_null: "lexes (''IS'' @ '' '' @ ''NOT'' @ '' '' @ ''NULL'') [SqlWord ''IS'', SqlWord ''NOT'', SqlWord ''NULL'']"
    by (intro lexes_word_space w) (simp_all add: char_class_defs)
  have cmp: "lexes (quote_identifier (atom_column a) @ '' '' @ o' @ '' '' @ l)
      (SqlIdent (atom_column a) # map SqlSymbol o' @ literal_tokens (atom_value a))"
    if "operator_sql p = Inr o'" "compile_literal (atom_value a) = Inr l" for p o' l
    by (intro lexes_ident_space lexes_space lexes_symbols lexes_literal that q)
      (use that(1) in \<open>cases p; auto simp: char_class_defs\<close>)
  note null' = lexes_ident_space [OF null q] and not_null' = lexes_ident_space [OF not_null q]
  show ?thesis
  proof (cases "atom_operator a = OpIsNull \<or> atom_operator a = OpIsNotNull")
    case True
    with assms(2) null' not_null' show ?thesis
      by (auto simp: compile_predicate_def atom_tokens_def Let_def)
  next
    case False
    then obtain o' l where o': "operator_sql (atom_operator a) = Inr o'" "compile_literal (atom_value a) = Inr l"
      "s = quote_identifier (atom_column a) @ '' '' @ o' @ '' '' @ l"
      using assms(2) by (auto simp: compile_predicate_def Let_def result_simps split: operator.splits)
    then show ?thesis
      using cmp [OF o'(1,2)] False by (cases "atom_operator a") (auto simp: atom_tokens_def)
  qed
qed

lemma compile_predicate_valid: "valid_atom a \<Longrightarrow> \<exists>s. compile_predicate a = Inr s"
  by (cases "atom_operator a"; cases "atom_value a")
    (auto simp: compile_predicate_def valid_atom_def Let_def)

lemma lexes_column:
  assumes "valid_safe_identifier (col_column c)"
  shows "lexes (quote_identifier (col_column c) @ '' '' @ direction_sql (col_direction c)) (column_tokens c)"
  unfolding column_tokens_def using assms
  by (intro lexes_ident_space lexes_word valid_identifier_no_quote)
    (cases "col_direction c"; simp add: char_class_defs)+

lemma lexes_columns:
  assumes "valid_index_spec spec"
  shows "list_all2 lexes
    (map (\<lambda>c. quote_identifier (col_column c) @ '' '' @ direction_sql (col_direction c)) (ix_key_columns spec)
       @ map quote_identifier (ix_include_columns spec))
    (map column_tokens (ix_key_columns spec) @ map (\<lambda>c. [SqlIdent c]) (ix_include_columns spec))"
proof (rule list_all2_appendI)
  have "valid_safe_identifier (col_column c)" if "c \<in> set (ix_key_columns spec)" for c
    using assms that by (simp add: valid_index_spec_def list_all_iff)
  then show "list_all2 lexes
      (map (\<lambda>c. quote_identifier (col_column c) @ '' '' @ direction_sql (col_direction c)) (ix_key_columns spec))
      (map column_tokens (ix_key_columns spec))"
    by (simp only: list_all2_map1 list_all2_map2 list_all2_same) (blast intro: lexes_column)
  have "valid_safe_identifier c" if "c \<in> set (ix_include_columns spec)" for c
    using assms that by (simp add: valid_index_spec_def list_all_iff)
  then show "list_all2 lexes (map quote_identifier (ix_include_columns spec))
      (map (\<lambda>c. [SqlIdent c]) (ix_include_columns spec))"
    by (simp only: list_all2_map1 list_all2_map2 list_all2_same)
      (simp add: lexes_quote_identifier valid_identifier_no_quote)
qed

lemma lexes_where:
  assumes "list_all valid_atom as" "rmap compile_predicate as = Inr ss"
  shows "list_all2 lexes ss (map atom_tokens as)"
  using assms by (auto simp: list_all2_conv_all_nth rmap_Inr_iff list_all_length lexes_atom)

lemma lexes_create_prefix:
  assumes "valid_index_spec spec" "lexes rest ts"
  shows "lexes (''CREATE '' @ (if ix_unique spec then ''UNIQUE '' else '''') @ ''INDEX ''
      @ quote_identifier (validator_index_name spec) @ '' ON '' @ quote_identifier (ix_table spec) @ '' '' @ rest)
    ([SqlWord ''CREATE''] @ (if ix_unique spec then [SqlWord ''UNIQUE''] else [])
      @ [SqlWord ''INDEX'', SqlIdent (validator_index_name spec), SqlWord ''ON'', SqlIdent (ix_table spec)] @ ts)"
proof -
  have t: "CHR 0x22 \<notin> set (ix_table spec)"
    using assms(1) by (simp add: valid_index_spec_def valid_identifier_no_quote)
  have "lexes (''INDEX'' @ '' '' @ quote_identifier (validator_index_name spec) @ '' '' @ ''ON'' @ '' ''
      @ quote_identifier (ix_table spec) @ '' '' @ rest)
    (SqlWord ''INDEX'' # SqlIdent (validator_index_name spec) # SqlWord ''ON'' # SqlIdent (ix_table spec) # ts)"
    by (intro lexes_word_space lexes_ident_space assms(2) t validator_index_name_no_quote)
      (simp_all add: char_class_defs)
  then have i: "lexes (''INDEX '' @ quote_identifier (validator_index_name spec) @ '' ON ''
      @ quote_identifier (ix_table spec) @ '' '' @ rest)
    (SqlWord ''INDEX'' # SqlIdent (validator_index_name spec) # SqlWord ''ON'' # SqlIdent (ix_table spec) # ts)"
    by simp
  have c: "list_all is_ident_char ''CREATE''" "list_all is_ident_char ''UNIQUE''"
    by (simp_all add: char_class_defs)
  show ?thesis
    using lexes_word_space [OF i _ c(1)] lexes_word_space [OF lexes_word_space [OF i _ c(2)] _ c(1)]
    by simp
qed

lemma compile_index_sql_tokens:
  assumes v: "valid_index_spec spec"
  shows "\<exists>sql. compile_index_sql spec = Inr sql \<and> sql_lex LNone sql = Some (index_tokens spec)"
proof -
  define cols where "cols = map (\<lambda>c. quote_identifier (col_column c) @ '' '' @ direction_sql (col_direction c))
      (ix_key_columns spec) @ map quote_identifier (ix_include_columns spec)"
  define ctoks where "ctoks = map column_tokens (ix_key_columns spec) @ map (\<lambda>c. [SqlIdent c]) (ix_include_columns spec)"
  have cols: "lexes (''('' @ join '', '' cols @ '')'')
      ([SqlSymbol (CHR ''('')] @ sep_tokens [SqlSymbol (CHR '','')] ctoks @ [SqlSymbol (CHR '')'')])"
    unfolding cols_def ctoks_def by (intro lexes_parens lexes_join_comma lexes_columns v)
  have whole: "sql_lex LNone s = Some ts" if "lexes s ts" for s ts
    using that by (auto simp: lexes_def dest: spec [of _ "[]"])
  show ?thesis
  proof (cases "ix_predicate spec")
    case None
    with whole [OF lexes_create_prefix [OF v cols]] show ?thesis
      by (simp add: compile_index_sql_def index_tokens_def Let_def cols_def ctoks_def)
  next
    case (Some p)
    then have va: "list_all valid_atom (pred_atoms p)"
      using v by (simp add: valid_index_spec_def valid_predicate_def)
    then obtain ss where ss: "rmap compile_predicate (pred_atoms p) = Inr ss"
      using rmap_map [of "pred_atoms p" compile_predicate "\<lambda>a. projr (compile_predicate a)"]
        compile_predicate_valid by (fastforce simp: list_all_iff)
    have w: "list_all is_ident_char ''WHERE''" by (simp add: char_class_defs)
    note wh = lexes_word_space [OF lexes_join_and [OF lexes_where [OF va ss]] _ w]
    have "lexes ((''('' @ join '', '' cols @ '')'') @ '' '' @ ''WHERE'' @ '' '' @ join '' AND '' ss)
      (([SqlSymbol (CHR ''('')] @ sep_tokens [SqlSymbol (CHR '','')] ctoks @ [SqlSymbol (CHR '')'')])
        @ SqlWord ''WHERE'' # sep_tokens [SqlWord ''AND''] (map atom_tokens (pred_atoms p)))"
      by (rule lexes_space [OF cols wh]) simp
    from whole [OF lexes_create_prefix [OF v this]] Some ss show ?thesis
      by (simp add: compile_index_sql_def index_tokens_def Let_def cols_def ctoks_def)
  qed
qed

end
