(* ===== verification/Samples.thy ===== *)
theory Samples
  imports Lifecycle IndexSql
begin

text \<open>
  Concrete values of the models, valid by evaluation: the inputs the properties are applied
  to, and evidence that the hypotheses of the theorems can hold together.
\<close>

definition sample_digest :: string where "sample_digest = ''sha256:'' @ replicate 64 (CHR ''a'')"
definition sample_validator :: string where "sample_validator = replicate 48 (CHR ''5'')"
definition sample_miner :: string where "sample_miner = replicate 48 (CHR ''6'')"

definition sample_index :: index_spec where
  "sample_index = \<lparr>ix_table = ''orders'',
     ix_key_columns = [\<lparr>col_column = ''customer_id'', col_direction = Asc\<rparr>],
     ix_include_columns = [''amount''], ix_unique = False,
     ix_predicate = Some \<lparr>pred_atoms = [\<lparr>atom_column = ''status'', atom_operator = OpEq,
       atom_value = TextLiteral ''o'' \<rparr>]\<rparr>\<rparr>"

definition sample_metadata :: bundle_metadata where
  "sample_metadata = \<lparr>md_strategy = ''cover'', md_estimated_intent = CoveringIntent, md_rationale = ''''\<rparr>"

definition sample_training :: public_training_fixture where
  "sample_training = \<lparr>tf_fixture_id = ''train'', tf_generator_seed_hex = replicate 64 (CHR ''0''),
     tf_content_digest = sample_digest, tf_row_count = 100\<rparr>"

definition sample_range :: parameter_range where
  "sample_range = \<lparr>pr_name = ''low'', pr_value_type = IntegerType, pr_minimum = IntValue 1,
     pr_maximum = IntValue 9, pr_distribution = Uniform\<rparr>"

definition sample_statistics :: published_statistics where
  "sample_statistics = \<lparr>ps_row_count_min = 10, ps_row_count_max = 1000, ps_selectivity_min_bps = 1,
     ps_selectivity_max_bps = 5000, ps_data_profiles = [UniformProfile]\<rparr>"

definition sample_fixture :: "string \<Rightarrow> hidden_fixture" where
  "sample_fixture name = \<lparr>hf_fixture_id = name, hf_content_digest = sample_digest,
     hf_database_file_digest = None, hf_parameter_set_digest = sample_digest, hf_row_count = 7\<rparr>"

definition sample_factory :: "bytes \<Rightarrow> hidden_fixture list result" where
  "sample_factory seed = Inr [sample_fixture ''one'', sample_fixture ''two'', sample_fixture ''three'']"

text \<open>An entropy source that counts its draws.\<close>

definition sample_entropy :: "nat entropy" where
  "sample_entropy k n = (Suc k, PBytes (replicate n (char_of k)))"

definition sample_spec :: task_spec where
  "sample_spec = \<lparr>ts_validator_hotkey = sample_validator, ts_engine_image_digest = sample_digest,
     ts_generator_source_digest = sample_digest, ts_benchmark_policy_digest = sample_digest,
     ts_benchmark_family_id = ''custom'', ts_schema_sql = ''s'', ts_reference_sql = ''r'',
     ts_public_training_fixture = sample_training, ts_parameter_ranges = [sample_range],
     ts_published_statistics = sample_statistics, ts_artifact_budget = None,
     ts_artifact_grammar = None, ts_deadline_unix_ms = 1000\<rparr>"

lemmas sample_defs = sample_digest_def sample_validator_def sample_miner_def sample_index_def
  sample_metadata_def sample_training_def sample_range_def sample_statistics_def sample_fixture_def
  sample_factory_def sample_entropy_def sample_spec_def

lemma sample_strings_valid [simp]:
  "valid_sha256_digest sample_digest" "valid_hotkey sample_validator" "valid_hotkey sample_miner"
  by (simp_all add: sample_defs annotated_string_defs starts_with_def list_all_iff char_class_defs)

lemma sample_index_valid [simp]: "valid_index_spec sample_index"
  by (simp add: sample_defs valid_index_spec_def annotated_string_defs MAX_COLUMNS_PER_INDEX_V2_def
      valid_predicate_def MAX_PREDICATES_V2_def valid_atom_def py_len_def is_continuation_def char_class_defs)

lemma sample_metadata_valid [simp]: "valid_metadata sample_metadata"
  by (simp add: sample_defs valid_metadata_def py_len_def is_continuation_def)

lemma valid_sha256_merkle_node [simp]: "valid_sha256_digest (merkle_node l r)"
  by (simp add: merkle_node_def)

lemma sample_root: "hidden_fixture_merkle_root [sample_fixture a, sample_fixture b, sample_fixture c]
    = Inr (merkle_node (merkle_node (merkle_leaf 0 (sample_fixture a)) (merkle_leaf 1 (sample_fixture b)))
        (merkle_node (merkle_leaf 2 (sample_fixture c)) (merkle_leaf 2 (sample_fixture c))))"
proof -
  have leaves: "fixture_leaves [x, y, z] = [merkle_leaf 0 x, merkle_leaf 1 y, merkle_leaf 2 z]" for x y z
    by (simp add: fixture_leaves_def numeral_2_eq_2)
  have levels: "next_level [x, y, z] = [merkle_node x y, merkle_node z z]"
    "next_level [x, y] = [merkle_node x y]" for x y z
    by (simp_all add: next_level_def pad_level_def)
  have "merkle_loop [x, y, z] = [merkle_node (merkle_node x y) (merkle_node z z)]" for x y z
    by (subst merkle_loop.simps, simp add: levels, subst merkle_loop.simps, simp add: levels,
        subst merkle_loop.simps, simp)
  then show ?thesis by (simp add: hidden_fixture_merkle_root_def leaves)
qed

definition sample_task :: private_task where
  "sample_task = projr (create_task_v2 sample_spec sample_factory sample_entropy 0)"

lemma sample_bytes_hex [simp]: "bytes_hex (replicate n (CHR 0x01)) = concat (replicate n ''01'')"
  "bytes_hex (replicate n (CHR 0x02)) = concat (replicate n ''02'')"
  "bytes_hex (replicate n (CHR 0x00)) = concat (replicate n ''00'')"
  by (induction n) (simp_all add: byte_hex_def hex_digit_def char_of_eq_iff)

lemma list_all_concat_replicate [simp]:
  "list_all P (concat (replicate n s)) \<longleftrightarrow> n = 0 \<or> list_all P s"
  by (induction n) auto

lemma length_concat_replicate [simp]: "length (concat (replicate n s)) = n * length s"
  by (induction n) auto

lemma sample_create: "is_ok (create_task_v2 sample_spec sample_factory sample_entropy 0)"
proof -
  have ids: "valid_safe_identifier ''one''" "valid_safe_identifier ''two''" "valid_safe_identifier ''three''"
    "valid_safe_identifier ''train''" "valid_safe_identifier ''low''" "valid_family_id ''custom''"
    by (simp_all add: annotated_string_defs char_class_defs)
  have hex: "valid_opaque_id (concat (replicate 16 ''00''))" "valid_hex32 (concat (replicate 32 ''01''))"
    "valid_hex32 (concat (replicate 32 ''02''))" "valid_hex32 (replicate 64 (CHR ''0''))"
    by (simp_all add: annotated_string_defs char_class_defs list_all_iff)
  have sql: "valid_sql_text ''s''" "valid_sql_text ''r''"
    by (simp_all add: valid_sql_text_def py_len_def is_continuation_def MAX_PUBLIC_SQL_BYTES_V2_def)
  have parts: "valid_hidden_fixture (sample_fixture s) = valid_safe_identifier s"
    "valid_training_fixture sample_training" "valid_parameter_range sample_range"
    "valid_published_statistics sample_statistics" "valid_artifact_budget default_artifact_budget" for s
    using ids hex by (simp_all add: valid_hidden_fixture_def sample_fixture_def valid_training_fixture_def
        sample_training_def valid_parameter_range_def validate_range_types_def sample_range_def
        valid_published_statistics_def sample_statistics_def valid_artifact_budget_def
        default_artifact_budget_def v2_constants)
  have draws: "draw_exact sample_entropy n k = Inr (Suc k, replicate n (char_of k))" for n k
    by (simp add: draw_exact_def sample_entropy_def)
  have fixtures: "hf_fixture_id (sample_fixture s) = s" for s by (simp add: sample_fixture_def)
  have seeds: "replicate 32 (char_of (1::nat)) \<noteq> (replicate 32 (char_of (2::nat)) :: string)"
    "char_of (0::nat) = CHR 0x00" "char_of (Suc 0) = CHR 0x01" "char_of (2::nat) = CHR 0x02"
    by (simp_all add: char_of_eq_iff)
  show ?thesis
    using ids hex sql
    by (simp add: create_task_v2_def draws seeds sample_factory_def fixtures sample_root Let_def
        valid_task_reveal_def parts commitment_payload_def valid_commitment_payload_def
        valid_public_task_def public_of_spec_def sample_spec_def spec_budget_def commitment_digest_def
        numeral_2_eq_2 [symmetric])
qed

lemma sample_task_created: "create_task_v2 sample_spec sample_factory sample_entropy 0 = Inr sample_task"
  using sample_create by (auto simp: is_ok_iff sample_task_def)

section \<open>A request, a bundle and a signed response\<close>

definition sample_bundle :: optimization_bundle where
  "sample_bundle = projr (optimization_bundle_create (pt_task_id (pv_public sample_task)) sample_digest
     [sample_index] sample_metadata)"

definition sample_request :: optimization_request where
  "sample_request = \<lparr>rq_protocol_version = PROTOCOL_VERSION_V2,
     rq_request_id = replicate 32 (CHR ''b''), rq_task = pv_public sample_task,
     rq_validator_hotkey = sample_validator, rq_miner_hotkey = sample_miner, rq_request_nonce = 5,
     rq_issued_at_unix_ms = 100, rq_expires_at_unix_ms = 900\<rparr>"

text \<open>A toy signature scheme: one signature, valid for every message and key.\<close>

definition sample_signer :: wallet_or_signer where
  "sample_signer = WithHotkey \<lparr>sg_ss58_address = Some sample_miner,
     sg_sign = Some (\<lambda>_. PBytes (replicate 64 (CHR 0x01))), sg_is_sr25519 = True\<rparr>"

definition sample_verify :: "string \<Rightarrow> bytes \<Rightarrow> bytes \<Rightarrow> bool result" where
  "sample_verify address message signature = Inr (signature = replicate 64 (CHR 0x01))"

definition sample_response :: signed_response where
  "sample_response = projr (sign_optimization_response sample_request sample_bundle sample_signer 200 800)"

definition sample_metagraph :: "(int, string) dict" where
  "sample_metagraph = [(1, sample_miner)]"

lemma sample_task_facts [simp]:
  "pt_task_id (pv_public sample_task) = concat (replicate 16 ''00'')"
  "pt_engine_image_digest (pv_public sample_task) = sample_digest"
  "pt_validator_hotkey (pv_public sample_task) = sample_validator"
  "pt_deadline_unix_ms (pv_public sample_task) = 1000"
  and sample_task_valid [simp]: "valid_public_task (pv_public sample_task)"
proof -
  have "draw_exact sample_entropy 16 0 = Inr (Suc 0, replicate 16 (CHR 0x00))"
    by (simp add: draw_exact_def sample_entropy_def char_of_eq_iff)
  moreover have "pt_task_id (pv_public p) = bytes_hex tid"
    if "create_task_v2 sample_spec sample_factory sample_entropy 0 = Inr p"
      "draw_exact sample_entropy 16 0 = Inr (e, tid)" for p e tid
    using that by (auto simp: create_task_v2_def Let_def public_of_spec_def)
  ultimately show "pt_task_id (pv_public sample_task) = concat (replicate 16 ''00'')"
    using sample_task_created by fastforce
  show "pt_engine_image_digest (pv_public sample_task) = sample_digest"
    "pt_validator_hotkey (pv_public sample_task) = sample_validator"
    "pt_deadline_unix_ms (pv_public sample_task) = 1000" "valid_public_task (pv_public sample_task)"
    using sample_task_created
    by (auto elim!: create_task_v2_Inr simp: public_of_spec_def sample_spec_def)
qed

lemma sample_bundle_created:
  "optimization_bundle_create (concat (replicate 16 ''00'')) sample_digest [sample_index] sample_metadata = Inr sample_bundle"
proof -
  have "valid_opaque_id (concat (replicate 16 ''00''))"
    by (simp add: valid_opaque_id_def char_class_defs)
  then have "\<exists>b. optimization_bundle_create (concat (replicate 16 ''00'')) sample_digest [sample_index] sample_metadata = Inr b"
    by (intro bundle_create_ok) (simp_all add: MAX_INDEXES_V2_def)
  then show ?thesis by (auto simp: sample_bundle_def)
qed

lemma sample_bundle_facts [simp]:
  "ob_task_id sample_bundle = concat (replicate 16 ''00'')"
  "ob_engine_image_digest sample_bundle = sample_digest"
  "ob_artifact_digest sample_bundle = optimization_bundle_digest sample_bundle"
  using create_digest [OF sample_bundle_created]
  by (metis optimization_bundle.select_convs)+

lemma sample_bundle_valid [simp]: "validate_bundle sample_bundle = Inr sample_bundle"
  using sample_bundle_created by (auto simp: optimization_bundle_create_def validate_bundle_def Let_def)

lemma valid_request_digest [simp]: "valid_sha256_digest (optimization_request_digest r)"
  "valid_sha256_digest (optimization_bundle_digest b)"
  by (simp_all add: optimization_request_digest_def optimization_bundle_digest_def)

lemma sample_sign: "is_ok (sign_optimization_response sample_request sample_bundle sample_signer 200 800)"
proof -
  have ids: "valid_opaque_id (concat (replicate 16 ''00''))" "valid_opaque_id (replicate 32 (CHR ''b''))"
    "valid_signature_hex (replicate 128 (CHR ''0''))" "valid_signature_hex (concat (replicate 64 ''01''))"
    by (simp_all add: valid_opaque_id_def valid_signature_hex_def char_class_defs list_all_iff)
  have ok: "validate_response (response_placeholder sample_request sample_bundle 200 800\<lparr>sr_signature := s\<rparr>)
      = Inr (response_placeholder sample_request sample_bundle 200 800\<lparr>sr_signature := s\<rparr>)"
    if "valid_signature_hex s" for s
    using ids that by (simp add: validate_response_def valid_response_fields_def response_placeholder_def
        sample_request_def)
  have "validate_response (response_placeholder sample_request sample_bundle 200 800)
      = Inr (response_placeholder sample_request sample_bundle 200 800)"
    using ok [OF ids(3)] by (simp add: response_placeholder_def)
  then show ?thesis
    using ok [OF ids(4)]
    by (simp add: sign_optimization_response_def resolve_response_signer_def sample_signer_def
        attach_signature_def sample_request_def [of] del: replicate.simps)
qed

lemma sample_response_signed:
  "sign_optimization_response sample_request sample_bundle sample_signer 200 800 = Inr sample_response"
  using sample_sign by (auto simp: is_ok_iff sample_response_def)

text \<open>The signed response, submitted in time to a lifecycle with an in-memory replay store.\<close>

definition sample_store :: memory_store where
  "sample_store = \<lparr>mem_keys = [], mem_max_entries = 10\<rparr>"

definition sample_events :: "event list" where
  "sample_events = [Submit sample_response sample_request 1 sample_metagraph 300, Seal 1000, Bundles, Reveal 1000]"

definition sample_sealed :: lifecycle where
  "sample_sealed = \<lparr>lc_task = sample_task, lc_phase = SEALED,
     lc_submissions = [(sr_request_id sample_response, sample_response)]\<rparr>"

definition sample_store' :: memory_store where
  "sample_store' = fst (memory_check_and_store sample_store (response_key sample_response) 800)"

lemma sample_accepted:
  "verify_signed_response sample_verify memory_check_and_store sample_response sample_request 1
     sample_metagraph sample_store 300 DEFAULT_CLOCK_SKEW_MS = (sample_store', Inr sample_bundle)"
proof (rule sign_then_verify [OF sample_response_signed])
  show "sample_verify address m sig = Inr True"
    if "resolve_response_signer sample_signer = Inr (address, sign)" "sign m = PBytes sig" for address sign m sig
    using that by (auto simp: sample_verify_def resolve_response_signer_def sample_signer_def)
qed (simp_all add: sample_metagraph_def sample_request_def DEFAULT_CLOCK_SKEW_MS_def sample_store'_def
    sample_store_def memory_check_and_store_def)

lemma sample_response_task [simp]:
  "sr_task_id sample_response = concat (replicate 16 ''00'')" "sr_artifact sample_response = sample_bundle"
  using sign_response_fields [OF sample_response_signed] by (simp_all add: sample_request_def)

lemma sample_run:
  "run_events sample_verify memory_check_and_store (lifecycle_init sample_task, sample_store) sample_events =
     ([(Submit sample_response sample_request 1 sample_metagraph 300, Submitted (Inr ())),
       (Seal 1000, Sealed (Inr [sample_response])), (Bundles, GotBundles (Inr [sample_bundle])),
       (Reveal 1000, Revealed (Inr (pv_reveal sample_task)))],
      (sample_sealed\<lparr>lc_phase := REVEALED\<rparr>, sample_store'))"
proof -
  have "submission_guards (lifecycle_init sample_task) sample_response sample_request 300 = Inr ()"
    by (simp add: submission_guards_iff lifecycle_init_def lc_deadline_def lc_public_task_def
        sample_request_def keys_def)
  then show ?thesis
    using sample_accepted
    by (simp add: sample_events_def submit_verified_def seal_def reveal_def sealed_bundles_def
        lifecycle_init_def lc_deadline_def sample_sealed_def dict_values_def)
qed

lemmas sample_lifecycle_run = run_events_run [OF sample_run]

end
