(* ===== verification/Protocol_Properties.thy ===== *)
theory Protocol_Properties
  imports Samples
begin

text \<open>
  The properties of the wire protocol: canonical bytes and digests, artifact identity and
  compilation, replay stores, response authentication, task commitments and the task
  lifecycle. Each is a few steps over the lemmas of the component theories; the witnesses
  apply them to the values of \<open>Samples\<close>.
\<close>

section \<open>Canonical bytes and digests\<close>

text \<open>Canonical JSON is injective. Two JSON values get the same canonical bytes exactly when
  they are equal up to the order of object keys.\<close>

theorem canonical_json_injective:
  "canonical_json_bytes (py_of_json v) = canonical_json_bytes (py_of_json w) \<longleftrightarrow> canon v = canon w"
  by (simp add: canonical_json_bytes_json json_dumps_eq_iff)

text \<open>A domain-separated digest binds its domain and its canonical payload. Two computations that
  return the same digest had the same domain and the same bytes, or exhibit a SHA-256
  collision between the two framed byte strings they hashed.\<close>

theorem domain_digest_binding:
  assumes "domain_separated_digest d v = Inr h" "domain_separated_digest d' w = Inr h"
  shows "\<exists>p q. canonical_json_bytes v = Inr p \<and> canonical_json_bytes w = Inr q
    \<and> (d = d' \<and> p = q \<or> sha256_collision (frame d p) (frame d' q))"
proof -
  obtain p where p: "length d < 65536" "canonical_json_bytes v = Inr p" "h = ''sha256:'' @ sha256_hex (frame d p)"
    using assms(1) by (rule domain_separated_digest_Inr)
  obtain q where q: "length d' < 65536" "canonical_json_bytes w = Inr q" "h = ''sha256:'' @ sha256_hex (frame d' q)"
    using assms(2) by (rule domain_separated_digest_Inr)
  have "frame d p = frame d' q \<or> sha256_collision (frame d p) (frame d' q)"
    using p(3) q(3) by (simp add: sha256_hex_inject sha256_eq_or_collision)
  then show ?thesis using frame_inject [OF p(1) q(1)] p(2) q(2) by blast
qed

lemma small_digest: "domain_separated_digest ''planrace/2:x'' (PInt 1) = Inr (v2_digest ''planrace/2:x'' (JInt 1))"
  using domain_separated_digest_json [of "''planrace/2:x''" "JInt 1"]
  by (simp add: PLANRACE_PREFIX_def starts_with_def is_ascii_def json_dumps_def int_str_def nat_str.simps)

theorem domain_digest_binding_witness:
  "\<exists>p q. canonical_json_bytes (PInt 1) = Inr p \<and> canonical_json_bytes (PInt 1) = Inr q
    \<and> (''planrace/2:x'' = ''planrace/2:x'' \<and> p = q \<or> sha256_collision (frame ''planrace/2:x'' p) (frame ''planrace/2:x'' q))"
  by (rule domain_digest_binding [OF small_digest small_digest])

section \<open>Artifacts\<close>

text \<open>C7: the strategy digest identifies strategies. Two bundles have the same strategy digest exactly
  when they agree on protocol, engine and ordered indexes up to the order of predicate atoms
  (metadata and task do not count), collisions of the two hashed payloads apart.\<close>

theorem strategy_digest_iff:
  "optimization_strategy_digest a = optimization_strategy_digest b \<longleftrightarrow>
     same_strategy a b
     \<or> sha256_collision (v2_preimage STRATEGY_DOMAIN_V2 (strategy_payload a))
         (v2_preimage STRATEGY_DOMAIN_V2 (strategy_payload b))"
  unfolding optimization_strategy_digest_def strategy_payload_iff [symmetric]
  using v2.binding_same_domain [OF length_v2_domains(3), of "strategy_payload a" "strategy_payload b"]
    v2.digest_canon [OF length_v2_domains(3), of "strategy_payload a" "strategy_payload b"]
  by (auto simp: sha256_collision_def v2_digest_def v2_preimage_def sha256_hex_inject)

text \<open>Creating a bundle succeeds exactly on valid inputs and yields the bundle whose recorded
  digest is the digest of its contents; every failure is the validation error.\<close>

theorem bundle_create_functional:
  "optimization_bundle_create tid eng ixs md =
     (if valid_opaque_id tid \<and> valid_sha256_digest eng \<and> length ixs \<le> MAX_INDEXES_V2
         \<and> list_all valid_index_spec ixs \<and> valid_metadata md
      then Inr \<lparr>ob_protocol_version = PROTOCOL_VERSION_V2, ob_task_id = tid, ob_engine_image_digest = eng,
             ob_indexes = ixs, ob_metadata = md, ob_artifact_digest = optimization_bundle_digest
               \<lparr>ob_protocol_version = PROTOCOL_VERSION_V2, ob_task_id = tid, ob_engine_image_digest = eng,
                ob_indexes = ixs, ob_metadata = md, ob_artifact_digest = ''''\<rparr>\<rparr>
      else Inl (ValueError ''validation error''))"
  by (cases "valid_opaque_id tid \<and> valid_sha256_digest eng \<and> length ixs \<le> MAX_INDEXES_V2
         \<and> list_all valid_index_spec ixs \<and> valid_metadata md")
    (auto simp: optimization_bundle_create_def validate_bundle_def Let_def valid_bundle_fields_def
      optimization_bundle_digest_def json_of_bundle_contents_def rbind_def rcheck_def)

text \<open>A validated bundle cannot be altered under its digest. Two bundles that both validate and
  carry the same artifact digest are equal, unless their hashed contents collide.\<close>

theorem bundle_digest_tamper:
  assumes "validate_bundle a = Inr a'" "validate_bundle b = Inr b'"
    and "ob_artifact_digest a = ob_artifact_digest b"
  shows "a = b \<or> sha256_collision (v2_preimage ARTIFACT_DOMAIN_V2 (json_of_bundle_contents a))
      (v2_preimage ARTIFACT_DOMAIN_V2 (json_of_bundle_contents b))"
proof -
  have "optimization_bundle_digest a = optimization_bundle_digest b"
    using assms by (auto simp: validate_bundle_def)
  from bundle_digest_binding [OF this, of "ob_artifact_digest a"] assms(3) show ?thesis
    by (cases a; cases b) auto
qed

theorem bundle_digest_tamper_witness:
  "sample_bundle = sample_bundle \<or> sha256_collision
     (v2_preimage ARTIFACT_DOMAIN_V2 (json_of_bundle_contents sample_bundle))
     (v2_preimage ARTIFACT_DOMAIN_V2 (json_of_bundle_contents sample_bundle))"
  by (rule bundle_digest_tamper [OF sample_bundle_valid sample_bundle_valid refl])

text \<open>C3: compiling a valid index is injection-free. The SQL lexes, under SQLite's quoting rules, to
  exactly the tokens of the declared index: every identifier one quoted identifier, every
  literal one literal, whatever characters the miner put in them.\<close>

theorem compile_index_sql_lexes:
  assumes "valid_index_spec spec"
  shows "\<exists>sql. compile_index_sql spec = Inr sql \<and> sql_lex LNone sql = Some (index_tokens spec)"
  using assms by (rule compile_index_sql_tokens)

theorem compile_index_sql_lexes_witness:
  "\<exists>sql. compile_index_sql sample_index = Inr sql \<and> sql_lex LNone sql = Some (index_tokens sample_index)"
  by (rule compile_index_sql_lexes) (rule sample_index_valid)

section \<open>Replay protection\<close>

text \<open>The in-memory replay store accepts a key at most once, in any sequence of calls.\<close>

theorem memory_store_no_replay:
  assumes "sorted (map fst cs)" "i < j" "j < length cs" "cs ! i = (t, k, e)" "cs ! j = (t', k, e')"
    and "run_checks (\<lambda>s t k e. memory_check_and_store s k e) s cs ! i"
  shows "\<not> run_checks (\<lambda>s t k e. memory_check_and_store s k e) s cs ! j"
  using memory.no_replay [OF assms] by simp

theorem memory_store_no_replay_witness:
  "\<not> run_checks (\<lambda>s t k e. memory_check_and_store s k e) sample_store
     [(0, (''m'', 1, ''r''), 9), (5, (''m'', 1, ''r''), 9)] ! 1"
  by (rule memory_store_no_replay [where i = 0]) (simp_all add: sample_store_def memory_check_and_store_def)

text \<open>C8: the SQLite response store accepts a key at most once before the accepted expiry, whatever
  other keys come in between and whatever the clock deletes, as long as the clock is monotone.\<close>

theorem sqlite_store_no_replay:
  assumes "sorted (map fst cs)" "i < j" "j < length cs" "cs ! i = (t, k, e)" "cs ! j = (t', k, e')"
    and "run_checks sqlite_response_check_and_store s cs ! i" "t' < e"
  shows "\<not> run_checks sqlite_response_check_and_store s cs ! j"
  using assms by (rule sqlite.no_replay)

theorem sqlite_store_no_replay_witness:
  "\<not> run_checks sqlite_response_check_and_store \<lparr>srs_rows = [], srs_max_entries = 3\<rparr>
     [(0, (''m'', 1, ''r''), 9), (3, (''m'', 2, ''r''), 4), (5, (''m'', 1, ''r''), 9)] ! 2"
  by (rule sqlite_store_no_replay [where i = 0 and e = 9 and t = 0 and t' = 5])
    (simp_all add: sqlite_response_check_and_store_def)

text \<open>The nonce store accepts a validator's nonce at most once while the nonce's own time stamp is
  within the retention window; older nonces are the request age check's to refuse.\<close>

theorem nonce_store_no_replay:
  assumes "sorted (map fst cs)" "i < j" "j < length cs" "cs ! i = (t, k, e)" "cs ! j = (t', k, e')"
    and "run_checks (\<lambda>s t k e. nonce_check_and_store cfg s t k) s cs ! i" "t' - nc_ttl_ns cfg \<le> snd k"
  shows "\<not> run_checks (\<lambda>s t k e. nonce_check_and_store cfg s t k) s cs ! j"
  using assms by (rule nonce.no_replay)

theorem nonce_store_no_replay_witness:
  "\<not> run_checks (\<lambda>s t k e. nonce_check_and_store \<lparr>nc_ttl_ns = 10, nc_max_entries = 4\<rparr> s t k) []
     [(100, (''v'', 100), 0), (105, (''v'', 100), 0)] ! 1"
  by (rule nonce_store_no_replay [where i = 0 and t = 100 and t' = 105 and k = "(''v'', 100)"]) (simp_all add: nonce_check_and_store_def)

text \<open>A replay store never holds more than its configured number of entries and never holds a key
  twice, after any sequence of calls, for all three stores.\<close>

theorem replay_store_capacity:
  assumes "memory_store_init m = Inr mem0" "sqlite_response_store_init r = Inr sql0"
    and "nonce_store_init ttl n = Inr cfg"
  shows "int (length (mem_keys (run_store (\<lambda>s t k e. memory_check_and_store s k e) mem0 cs))) \<le> m
    \<and> int (length (srs_rows (run_store sqlite_response_check_and_store sql0 cs))) \<le> r
    \<and> distinct (map fst (srs_rows (run_store sqlite_response_check_and_store sql0 cs)))
    \<and> int (length (run_store (\<lambda>s t k e. nonce_check_and_store cfg s t k) [] ns)) \<le> n
    \<and> distinct (run_store (\<lambda>s t k e. nonce_check_and_store cfg s t k) [] ns)"
proof -
  have "int (length (mem_keys (run_store (\<lambda>s t k e. memory_check_and_store s k e) mem0 cs))) \<le>
      mem_max_entries (run_store (\<lambda>s t k e. memory_check_and_store s k e) mem0 cs)
    \<and> mem_max_entries (run_store (\<lambda>s t k e. memory_check_and_store s k e) mem0 cs) = m"
    by (rule run_store_invariant)
      (use assms(1) memory_capacity in \<open>auto simp: memory_store_init_def split: if_splits\<close>, (metis prod.collapse)+)
  moreover have "int (length (srs_rows (run_store sqlite_response_check_and_store sql0 cs))) \<le>
      srs_max_entries (run_store sqlite_response_check_and_store sql0 cs)
    \<and> distinct (map fst (srs_rows (run_store sqlite_response_check_and_store sql0 cs)))
    \<and> srs_max_entries (run_store sqlite_response_check_and_store sql0 cs) = r"
    by (rule run_store_invariant)
      (use assms(2) sqlite_response_capacity in \<open>auto simp: sqlite_response_store_init_def split: if_splits\<close>,
        (metis prod.collapse)+)
  moreover have "int (length (run_store (\<lambda>s t k e. nonce_check_and_store cfg s t k) [] ns)) \<le> n
    \<and> distinct (run_store (\<lambda>s t k e. nonce_check_and_store cfg s t k) [] ns)"
    by (rule run_store_invariant)
      (use assms(3) nonce_capacity [of cfg] in \<open>auto simp: nonce_store_init_def split: if_splits\<close>,
        (metis prod.collapse nonce_config.select_convs(2))+)
  ultimately show ?thesis by simp
qed

theorem replay_store_capacity_witness:
  "length (run_store (\<lambda>s t k e. nonce_check_and_store \<lparr>nc_ttl_ns = 5, nc_max_entries = 2\<rparr> s t k) []
     [(1, (''v'', 1), 0), (2, (''v'', 2), 0), (3, (''v'', 3), 0)]) \<le> 2"
  using replay_store_capacity [of 1 "\<lparr>mem_keys = [], mem_max_entries = 1\<rparr>" 1
      "\<lparr>srs_rows = [], srs_max_entries = 1\<rparr>" 5 2 "\<lparr>nc_ttl_ns = 5, nc_max_entries = 2\<rparr>" "[]"
      "[(1, (''v'', 1), 0), (2, (''v'', 2), 0), (3, (''v'', 3), 0)]"]
  by (simp only: memory_store_init_def sqlite_response_store_init_def nonce_store_init_def) simp

text \<open>Fresh nonces are strictly increasing, one per call and never behind the clock, even when the
  clock goes backwards.\<close>

theorem fresh_nonces_increase:
  "sorted_wrt (<) (fresh_nonces prev cs) \<and> list_all2 (\<le>) cs (fresh_nonces prev cs)"
proof -
  have "length (fresh_nonces prev cs) = length cs"
    by (induction cs arbitrary: prev) (auto simp: fresh_nonce_def Let_def)
  then show ?thesis
    using fresh_nonces_sorted [of prev cs] fresh_nonces_at_least_clock [of _ cs prev]
    by (simp add: list_all2_conv_all_nth)
qed

section \<open>Response authentication\<close>

text \<open>C2: a response is accepted exactly when it is bound to the request on every field the protocol
  names (metagraph identity, both hotkeys, request, task, nonce, request digest, engine and
  artifact digests, the time window), its signature verifies over all its fields, and the
  replay store had not seen it; the accepted artifact is the response's.\<close>

theorem verify_accepts_exactly:
  "verify_signed_response kp_verify check response request uid metagraph store now skew = (store', Inr bundle)
    \<longleftrightarrow> 0 \<le> skew \<and> response_bound response request uid metagraph now skew
      \<and> signature_verifies kp_verify response
      \<and> check store (response_key response) (sr_expires_at_unix_ms response) = (store', True)
      \<and> bundle = sr_artifact response"
  by (rule verify_accepts_iff)

text \<open>A rejected response leaves the replay store unchanged, so a forger cannot fill it; only a
  response that passed every check, the signature included, reaches the store.\<close>

theorem reject_leaves_store:
  assumes "verify_signed_response kp_verify check response request uid metagraph store now skew = (store', Inl e)"
    and "\<not> signature_verifies kp_verify response \<or> \<not> response_bound response request uid metagraph now skew"
  shows "store' = store"
proof (cases "response_checks kp_verify response request uid metagraph now skew")
  case (Inl e')
  then show ?thesis using assms(1) by (simp add: verify_signed_response_def)
next
  case (Inr u)
  then have "response_bound response request uid metagraph now skew \<and> signature_verifies kp_verify response"
    by (simp only: response_checks_iff)
  with assms(2) show ?thesis by blast
qed

theorem reject_leaves_store_witness:
  "fst (verify_signed_response (\<lambda>a m s. Inr False) memory_check_and_store sample_response sample_request 1
     sample_metagraph sample_store 300 DEFAULT_CLOCK_SKEW_MS) = sample_store"
proof -
  have "\<not> signature_verifies (\<lambda>a m s. Inr False) sample_response" by (simp add: signature_verifies_def)
  moreover from this have "\<not> (\<exists>st b. verify_signed_response (\<lambda>a m s. Inr False) memory_check_and_store
      sample_response sample_request 1 sample_metagraph sample_store 300 DEFAULT_CLOCK_SKEW_MS = (st, Inr b))"
    by (simp add: verify_accepts_iff)
  ultimately show ?thesis
    using reject_leaves_store [of "\<lambda>a m s. Inr False" memory_check_and_store sample_response sample_request 1
        sample_metagraph sample_store 300 DEFAULT_CLOCK_SKEW_MS]
    by (metis old.sum.exhaust prod.collapse)
qed

text \<open>C9: what an honest miner signs, the validator accepts: for any signer whose signatures verify, a
  response signed for a request is accepted inside its time window, against the validator's
  metagraph, by a store that has not seen it.\<close>

theorem sign_verify_roundtrip:
  assumes "sign_optimization_response request artifact signer issued expires = Inr r"
    and "\<And>address sign m sig. resolve_response_signer signer = Inr (address, sign)
          \<Longrightarrow> sign m = PBytes sig \<Longrightarrow> kp_verify address m sig = Inr True"
    and "map_of metagraph uid = Some (rq_miner_hotkey request)"
    and "0 \<le> skew" "issued \<le> now + skew" "now \<le> expires"
    and "check store (response_key r) expires = (store', True)"
  shows "verify_signed_response kp_verify check r request uid metagraph store now skew = (store', Inr artifact)"
  using assms by (rule sign_then_verify)

theorem sign_verify_roundtrip_witness:
  "verify_signed_response sample_verify memory_check_and_store sample_response sample_request 1
     sample_metagraph sample_store 300 DEFAULT_CLOCK_SKEW_MS = (sample_store', Inr sample_bundle)"
proof (rule sign_verify_roundtrip [OF sample_response_signed])
  show "sample_verify address m sig = Inr True"
    if "resolve_response_signer sample_signer = Inr (address, sign)" "sign m = PBytes sig" for address sign m sig
    using that by (auto simp: sample_verify_def resolve_response_signer_def sample_signer_def)
qed (simp_all add: sample_metagraph_def sample_request_def DEFAULT_CLOCK_SKEW_MS_def sample_store'_def
    sample_store_def memory_check_and_store_def)

section \<open>Task commitments\<close>

text \<open>A task created by the validator passes the public audit of its own reveal, with and without
  regenerating the fixtures, for every entropy source and every deterministic fixture factory
  for which creation succeeds.\<close>

theorem created_task_audits:
  assumes "create_task_v2 s factory token_bytes e0 = Inr p"
  shows "audit_task_reveal (pv_public p) (pv_reveal p) None = Inr True
    \<and> audit_task_reveal (pv_public p) (pv_reveal p) (Some factory) = Inr True"
  using create_audit [OF assms] by blast

theorem created_task_audits_witness:
  "audit_task_reveal (pv_public sample_task) (pv_reveal sample_task) None = Inr True
    \<and> audit_task_reveal (pv_public sample_task) (pv_reveal sample_task) (Some sample_factory) = Inr True"
  by (rule created_task_audits [OF sample_task_created])

text \<open>C4: the Merkle root binds the ordered fixture list, its length included: two lists with the same
  root are equal unless two byte strings hashed in the two trees collide. Repeating the last
  digest of an odd level does not create a second opening.\<close>

theorem merkle_root_binds_list:
  assumes "hidden_fixture_merkle_root fs = Inr digest" "hidden_fixture_merkle_root gs = Inr digest"
  shows "fs = gs \<or> (\<exists>x \<in> set (merkle_preimages fs). \<exists>y \<in> set (merkle_preimages gs). sha256_collision x y)"
proof (rule disjCI)
  assume "\<not> (\<exists>x \<in> set (merkle_preimages fs). \<exists>y \<in> set (merkle_preimages gs). sha256_collision x y)"
  then have "no_collisions (merkle_preimages fs) (merkle_preimages gs)" by (simp only: no_collisions_def) blast
  then show "fs = gs" using merkle_root_binding [OF assms] no_collisions_sym by blast
qed

theorem merkle_root_binds_list_witness:
  "[sample_fixture ''a'', sample_fixture ''b'', sample_fixture ''c''] =
     [sample_fixture ''a'', sample_fixture ''b'', sample_fixture ''c'']
    \<or> (\<exists>x \<in> set (merkle_preimages [sample_fixture ''a'', sample_fixture ''b'', sample_fixture ''c'']).
       \<exists>y \<in> set (merkle_preimages [sample_fixture ''a'', sample_fixture ''b'', sample_fixture ''c'']).
         sha256_collision x y)"
  by (rule merkle_root_binds_list [OF sample_root sample_root])

text \<open>C5: a commitment opens one way. Two reveals that both pass the audit against public tasks with the
  same commitment agree on task id, secret seed, salt, the whole fixture list and every
  committed task field, unless two of the byte strings they hash collide.\<close>

theorem commitment_opens_one_way:
  assumes "audit_task_reveal t r g = Inr True" "audit_task_reveal t' r' g' = Inr True"
    and "pt_commitment t = pt_commitment t'"
  shows "tr_task_id r = tr_task_id r' \<and> tr_secret_seed_hex r = tr_secret_seed_hex r'
      \<and> tr_salt_hex r = tr_salt_hex r' \<and> tr_hidden_fixtures r = tr_hidden_fixtures r'
      \<and> spec_of_public t = spec_of_public t'
    \<or> (\<exists>x \<in> set (commitment_preimages t r @ merkle_preimages (tr_hidden_fixtures r)).
       \<exists>y \<in> set (commitment_preimages t' r' @ merkle_preimages (tr_hidden_fixtures r')). sha256_collision x y)"
proof (rule disjCI)
  assume "\<not> (\<exists>x \<in> set (commitment_preimages t r @ merkle_preimages (tr_hidden_fixtures r)).
       \<exists>y \<in> set (commitment_preimages t' r' @ merkle_preimages (tr_hidden_fixtures r')). sha256_collision x y)"
  then have "no_collisions (commitment_preimages t r) (commitment_preimages t' r')"
    and m: "no_collisions (merkle_preimages (tr_hidden_fixtures r)) (merkle_preimages (tr_hidden_fixtures r'))"
    unfolding no_collisions_def by auto
  with assms show "tr_task_id r = tr_task_id r' \<and> tr_secret_seed_hex r = tr_secret_seed_hex r'
      \<and> tr_salt_hex r = tr_salt_hex r' \<and> tr_hidden_fixtures r = tr_hidden_fixtures r'
      \<and> spec_of_public t = spec_of_public t'"
    using audit_binding [OF assms] no_collisions_sym [OF m] by blast
qed

lemma sample_audit: "audit_task_reveal (pv_public sample_task) (pv_reveal sample_task) None = Inr True"
  by (rule create_audit [OF sample_task_created]) simp

theorem commitment_opens_one_way_witness:
  "tr_task_id (pv_reveal sample_task) = tr_task_id (pv_reveal sample_task)
      \<and> tr_secret_seed_hex (pv_reveal sample_task) = tr_secret_seed_hex (pv_reveal sample_task)
      \<and> tr_salt_hex (pv_reveal sample_task) = tr_salt_hex (pv_reveal sample_task)
      \<and> tr_hidden_fixtures (pv_reveal sample_task) = tr_hidden_fixtures (pv_reveal sample_task)
      \<and> spec_of_public (pv_public sample_task) = spec_of_public (pv_public sample_task)
    \<or> (\<exists>x \<in> set (commitment_preimages (pv_public sample_task) (pv_reveal sample_task)
          @ merkle_preimages (tr_hidden_fixtures (pv_reveal sample_task))).
       \<exists>y \<in> set (commitment_preimages (pv_public sample_task) (pv_reveal sample_task)
          @ merkle_preimages (tr_hidden_fixtures (pv_reveal sample_task))). sha256_collision x y)"
  by (rule commitment_opens_one_way [OF sample_audit sample_audit refl])

section \<open>The task lifecycle\<close>

text \<open>C1: in every run of a lifecycle, whatever the order and the times of the calls, each stored
  response is stored under its own request id, at most once per id, and was submitted before
  the deadline with a request for exactly this task, bound to it and with a verified
  signature; a sealed phase was reached by a seal at or after the deadline.\<close>

theorem lifecycle_invariant:
  assumes "lifecycle_run kp_verify check (lifecycle_init task, store) h (l, store')"
  shows "lifecycle_inv kp_verify task h l"
  using lifecycle_run_inv [OF assms] by simp

theorem lifecycle_invariant_witness:
  "\<exists>h. lifecycle_inv sample_verify sample_task h (sample_sealed\<lparr>lc_phase := REVEALED\<rparr>)"
  using lifecycle_invariant [OF sample_lifecycle_run] by blast

text \<open>The seal is final. After a successful seal no submission succeeds, every later seal and every
  bundle query answers with exactly the sealed responses, in every continuation of the run.\<close>

theorem sealed_set_is_final:
  assumes "lifecycle_run kp_verify check s0 (h @ (Seal now, Sealed (Inr rs)) # h') t" "(e, a) \<in> set h'"
  shows "sealed_answer rs a"
  using seal_final [OF assms] by simp

theorem sealed_set_is_final_witness: "sealed_answer [sample_response] (GotBundles (Inr [sample_bundle]))"
  by (rule sealed_set_is_final [where e = Bundles and now = 1000
        and h = "[(Submit sample_response sample_request 1 sample_metagraph 300, Submitted (Inr ()))]"
        and h' = "[(Bundles, GotBundles (Inr [sample_bundle])), (Reveal 1000, Revealed (Inr (pv_reveal sample_task)))]"])
    (use sample_lifecycle_run in simp_all)

text \<open>C6: the secret is revealed only after the seal. A successful reveal returns the task's own reveal,
  happens at or after the deadline, and a seal at or after the deadline precedes it in the run.\<close>

theorem reveal_only_after_seal:
  assumes "lifecycle_run kp_verify check (lifecycle_init task, store) (h @ (Reveal now, Revealed (Inr r)) # h') t"
  shows "r = pv_reveal task \<and> pt_deadline_unix_ms (pv_public task) \<le> now
    \<and> (\<exists>now' rs. (Seal now', Sealed (Inr rs)) \<in> set h \<and> pt_deadline_unix_ms (pv_public task) \<le> now')"
  using assms by (rule reveal_after_seal)

theorem reveal_only_after_seal_witness:
  "\<exists>now' rs. (Seal now', Sealed (Inr rs)) \<in>
      set [(Submit sample_response sample_request 1 sample_metagraph 300, Submitted (Inr ())),
           (Seal 1000, Sealed (Inr [sample_response])), (Bundles, GotBundles (Inr [sample_bundle]))]
    \<and> pt_deadline_unix_ms (pv_public sample_task) \<le> now'"
  using reveal_only_after_seal [where now = 1000 and h' = "[]"
      and h = "[(Submit sample_response sample_request 1 sample_metagraph 300, Submitted (Inr ())),
           (Seal 1000, Sealed (Inr [sample_response])), (Bundles, GotBundles (Inr [sample_bundle]))]"]
    sample_lifecycle_run by fastforce

text \<open>A lifecycle is not stuck. From the deadline on, a task that is not revealed can be sealed, the
  seal returns the stored responses, and a reveal right after it returns the secret; the
  task's public part, its submissions and its deadline are untouched by both.\<close>

theorem lifecycle_completes:
  assumes "lc_deadline l \<le> now" "now \<le> now'" "lc_phase l \<noteq> REVEALED"
  shows "seal l now = (l\<lparr>lc_phase := SEALED\<rparr>, Inr (dict_values (lc_submissions l)))
    \<and> reveal (l\<lparr>lc_phase := SEALED\<rparr>) now' = (l\<lparr>lc_phase := REVEALED\<rparr>, Inr (pv_reveal (lc_task l)))
    \<and> sealed_bundles (l\<lparr>lc_phase := REVEALED\<rparr>) = Inr (map sr_artifact (dict_values (lc_submissions l)))"
  using assms by (simp add: seal_def reveal_def sealed_bundles_def)

theorem lifecycle_completes_witness:
  "seal (lifecycle_init sample_task) 1000 = (lifecycle_init sample_task\<lparr>lc_phase := SEALED\<rparr>, Inr [])"
  using lifecycle_completes [of "lifecycle_init sample_task" 1000 1000]
  by (simp add: lifecycle_init_def lc_deadline_def dict_values_def)

end
