(* ===== verification/Doubles.thy ===== *)
theory Doubles
  imports PyFloat
begin

text \<open>
  Doubles with their exponent range. \<open>dbl\<close> rounds to the nearest double, subnormals and zero
  included, so underflow is that of IEEE-754; \<open>double_of\<close> also overflows to an infinity. In the
  scoring code an operation that overflows is where the model stops: Python goes on with an
  infinity, and the model returns \<open>InfinityReached\<close>, which no theorem counts as a result of
  the code. Exceptions of Python (\<open>OverflowError\<close> of \<open>**\<close> and of integers that are too large,
  \<open>ZeroDivisionError\<close>, the domain error of \<open>log2\<close>) are raised as the code raises them.
\<close>

definition double_of :: "real \<Rightarrow> pyfloat" where
  "double_of x = (let r = dbl x in if float_bound \<le> r then PosInf else if r \<le> - float_bound then NegInf else Fin r)"

section \<open>Operations\<close>

definition in_range :: "real \<Rightarrow> bool" where
  "in_range x \<longleftrightarrow> \<bar>x\<bar> < float_bound"

text \<open>An operation of IEEE arithmetic, and the conversions and powers that raise \<open>OverflowError\<close>.\<close>

definition ieee :: "real \<Rightarrow> real result" where
  "ieee x = (if in_range (dbl x) then Inr (dbl x) else Inl InfinityReached)"

definition or_overflow :: "real \<Rightarrow> real result" where
  "or_overflow x = (if in_range (dbl x) then Inr (dbl x) else Inl OverflowError)"

definition ieee_div :: "real \<Rightarrow> real \<Rightarrow> real result" where
  "ieee_div x y = (if y = 0 then Inl ZeroDivisionError else ieee (x / y))"

definition int_div :: "int \<Rightarrow> int \<Rightarrow> real result" where
  "int_div a b = (if b = 0 then Inl ZeroDivisionError else or_overflow (of_int a / of_int b))"

definition float_of_int :: "int \<Rightarrow> real result" where
  "float_of_int n = or_overflow (of_int n)"

text \<open>\<open>2.0 ** x\<close>.\<close>

definition two_power :: "real \<Rightarrow> real result" where
  "two_power x = or_overflow (2 powr x)"

lemma ieee_Inr [result_simps]: "ieee x = Inr y \<longleftrightarrow> in_range (dbl x) \<and> y = dbl x"
  by (auto simp: ieee_def)

lemma or_overflow_Inr [result_simps]: "or_overflow x = Inr y \<longleftrightarrow> in_range (dbl x) \<and> y = dbl x"
  by (auto simp: or_overflow_def)

lemma ieee_div_Inr [result_simps]: "ieee_div x y = Inr z \<longleftrightarrow> y \<noteq> 0 \<and> in_range (dbl (x / y)) \<and> z = dbl (x / y)"
  by (auto simp: ieee_div_def ieee_Inr)

lemmas float_op_defs = ieee_def or_overflow_def ieee_div_def int_div_def float_of_int_def two_power_def

text \<open>An operation whose exact result has a moderate size stays in the range, with the same bounds.\<close>

lemma dbl_pow: "dbl (2 ^ n) = 2 ^ n"
  using dbl_powr [of "int n"] by (simp add: powr_realpow)

lemma dbl_inverse_pow: "n \<le> 1022 \<Longrightarrow> dbl (1 / 2 ^ n) = 1 / 2 ^ n"
  using dbl_powr [of "- int n"] by (simp add: powr_minus powr_realpow inverse_eq_divide)

lemma dbl_le_pow: "x \<le> 2 ^ n \<Longrightarrow> dbl x \<le> 2 ^ n"
  by (rule dbl.upper [OF _ dbl_pow])

lemma dbl_ge_inverse_pow: "1 / 2 ^ n \<le> x \<Longrightarrow> n \<le> 1022 \<Longrightarrow> 1 / 2 ^ n \<le> dbl x"
  by (rule dbl.lower [OF _ dbl_inverse_pow])

lemma in_range_pow: "\<bar>x\<bar> \<le> 2 ^ n \<Longrightarrow> n \<le> 1023 \<Longrightarrow> in_range (dbl x)"
proof -
  assume x: "\<bar>x\<bar> \<le> 2 ^ n" and n: "n \<le> 1023"
  have "\<bar>dbl x\<bar> \<le> 2 ^ n" by (rule dbl.bound [OF x dbl_pow])
  also have "(2 :: real) ^ n \<le> 2 ^ 1023" using n by (intro power_increasing) simp_all
  also have "\<dots> < float_bound"
  proof -
    have "(2 :: real) ^ 1023 = 2 powr 1023" by (subst powr_realpow [symmetric]) simp_all
    also have "\<dots> < 2 powr 1024" by (intro powr_less_mono) simp_all
    finally show ?thesis by (simp only: float_bound_def)
  qed
  finally show ?thesis by (simp add: in_range_def)
qed

lemma ieee_pow: "\<bar>x\<bar> \<le> 2 ^ n \<Longrightarrow> n \<le> 1023 \<Longrightarrow> ieee x = Inr (dbl x)"
  using in_range_pow by (simp add: ieee_def)

lemma or_overflow_pow: "\<bar>x\<bar> \<le> 2 ^ n \<Longrightarrow> n \<le> 1023 \<Longrightarrow> or_overflow x = Inr (dbl x)"
  using in_range_pow by (simp add: or_overflow_def)

end
