(* ===== verification/Scoring.thy ===== *)
theory Scoring
  imports Digest Doubles
begin

text \<open>
  Baseline-relative scoring of \<open>planrace/scoring_v2.py\<close>: the winsorized mean, the
  MAD-based standard error, the validated policy, trial and evidence records, and
  \<open>score_benchmark\<close>. Ratios, totals and rewards are computed with the exponent range of
  doubles (\<open>Doubles\<close>): they underflow as in the code, raise what the code raises, and the model
  stops with \<open>InfinityReached\<close> where the code goes on with an infinity. The statistics work on
  values whose sums and differences are exact when they are small, so \<open>fl\<close> is the IEEE rounding
  of those, and which are far from the largest double (logarithms of doubles, rewards); \<open>math.log2\<close> and \<open>**\<close> are taken as correctly
  rounded. The lemmas bound every score that is returned, show that a candidate that is nowhere
  faster earns nothing, and that timings of a moderate size are always scored.
\<close>

section \<open>Validation helpers and robust statistics\<close>

fun float_le :: "pyfloat \<Rightarrow> pyfloat \<Rightarrow> bool" where
  "float_le NaN _ = False"
| "float_le _ NaN = False"
| "float_le (Fin x) (Fin y) = (x \<le> y)"
| "float_le NegInf _ = True"
| "float_le _ PosInf = True"
| "float_le _ _ = False"

definition require_finite_non_negative :: "string \<Rightarrow> pyfloat \<Rightarrow> unit result" where
  "require_finite_non_negative name v =
     rcheck (\<not> (\<not> isfinite v \<or> float_lt v (Fin 0))) (ValueError (name @ '' must be finite and non-negative''))"

text \<open>\<open>0.0 <= v < 0.5\<close> and \<open>0.0 <= v <= 1.0\<close> on floats that may be special.\<close>

definition in_half_open :: "pyfloat \<Rightarrow> real \<Rightarrow> bool" where
  "in_half_open v hi \<longleftrightarrow> float_le (Fin 0) v \<and> float_lt v (Fin hi)"

definition in_unit :: "pyfloat \<Rightarrow> bool" where
  "in_unit v \<longleftrightarrow> float_le (Fin 0) v \<and> float_le v (Fin 1)"

text \<open>How many values each tail gives up: the requested width, but a centre value stays.\<close>

definition winsor_width :: "nat \<Rightarrow> real \<Rightarrow> int \<Rightarrow> nat" where
  "winsor_width n fraction minimum_width =
     (let requested = max \<lfloor>fl (fl (real n) * fraction)\<rfloor> (if fraction \<noteq> 0 then minimum_width else 0)
      in nat (min requested ((int n - 1) div 2)))"

definition winsorized_mean :: "real list \<Rightarrow> real \<Rightarrow> int \<Rightarrow> real result" where
  "winsorized_mean vs fraction minimum_width =
     rbind (rcheck (vs \<noteq> []) (ValueError ''at least one value is required'')) (\<lambda>_.
     rbind (rcheck (0 \<le> fraction \<and> fraction < 1 / 2) (ValueError ''winsor fraction must be in [0, 0.5)'')) (\<lambda>_.
     rbind (rcheck (\<not> minimum_width < 0) (ValueError ''minimum_width must be non-negative'')) (\<lambda>_.
      let ordered = sort vs; width = winsor_width (length ordered) fraction minimum_width
      in if width = 0 then fmean ordered
         else let lower = ordered ! width; upper = ordered ! (length ordered - width - 1)
              in fmean (map (\<lambda>v. min upper (max lower v)) ordered))))"

definition robust_standard_error :: "real list \<Rightarrow> real result" where
  "robust_standard_error vs =
     (if length vs < 2 then Inr 0
      else rbind (median vs) (\<lambda>center.
           rbind (median (map (\<lambda>v. \<bar>fl (v - center)\<bar>) vs)) (\<lambda>mad.
             Inr (dbl (dbl (fl (14826 / 10000) * mad) / fl (sqrt (real (length vs))))))))"

section \<open>Validated records\<close>

definition HORIZONS :: "int list" where "HORIZONS = [1, 10, 100, 1000]"

record benchmark_policy =
  bp_horizons :: "int list"
  bp_horizon_weights :: "pyfloat list"
  bp_minimum_trials :: int
  bp_winsor_fraction :: pyfloat
  bp_confidence_z :: pyfloat
  bp_maximum_timeout_rate :: pyfloat
  bp_storage_penalty_at_database_size :: pyfloat

definition benchmark_policy_check :: "benchmark_policy \<Rightarrow> unit result" where
  "benchmark_policy_check p =
     rbind (rcheck (\<not> (bp_horizons p = [] \<or> list_ex (\<lambda>h. h < 1) (bp_horizons p)))
              (ValueError ''horizons must be positive'')) (\<lambda>_.
     rbind (rcheck (length (bp_horizons p) = length (bp_horizon_weights p))
              (ValueError ''each horizon needs one weight'')) (\<lambda>_.
     rbind (rcheck (\<not> list_ex (\<lambda>w. float_lt w (Fin 0) \<or> \<not> isfinite w) (bp_horizon_weights p))
              (ValueError ''horizon weights must be finite and non-negative'')) (\<lambda>_.
     rbind (rcheck (isclose (fsum (map float_val (bp_horizon_weights p))) 1 (fl (1 / 10 ^ 12)))
              (ValueError ''horizon weights must sum to one'')) (\<lambda>_.
     rbind (rcheck (\<not> bp_minimum_trials p < 2) (ValueError ''minimum_trials must be at least two'')) (\<lambda>_.
     rbind (rcheck (in_half_open (bp_winsor_fraction p) (1 / 2))
              (ValueError ''winsor_fraction must be in [0, 0.5)'')) (\<lambda>_.
     rbind (require_finite_non_negative ''confidence_z'' (bp_confidence_z p)) (\<lambda>_.
     rbind (rcheck (in_half_open (bp_maximum_timeout_rate p) 1)
              (ValueError ''maximum_timeout_rate must be in [0, 1)'')) (\<lambda>_.
       require_finite_non_negative ''storage_penalty_at_database_size''
         (bp_storage_penalty_at_database_size p)))))))))"

definition DEFAULT_BENCHMARK_POLICY :: benchmark_policy where
  "DEFAULT_BENCHMARK_POLICY = \<lparr>bp_horizons = HORIZONS,
     bp_horizon_weights = map (\<lambda>n. Fin (fl (n / 100))) [15, 25, 30, 30],
     bp_minimum_trials = 6, bp_winsor_fraction = Fin (fl (10 / 100)), bp_confidence_z = Fin (fl (128 / 100)),
     bp_maximum_timeout_rate = Fin (fl (20 / 100)),
     bp_storage_penalty_at_database_size = Fin (fl (10 / 100))\<rparr>"

record interleaved_trial =
  it_worker_id :: string
  it_order :: string
  it_baseline_cold_ms :: pyfloat
  it_candidate_cold_ms :: pyfloat
  it_baseline_warm_ms :: pyfloat
  it_candidate_warm_ms :: pyfloat
  it_baseline_timed_out :: bool
  it_candidate_timed_out :: bool

definition positive_timing :: "string \<Rightarrow> pyfloat \<Rightarrow> unit result" where
  "positive_timing name v =
     rbind (require_finite_non_negative name v) (\<lambda>_.
       rcheck (v \<noteq> Fin 0) (ValueError (name @ '' must be greater than zero'')))"

definition interleaved_trial_check :: "interleaved_trial \<Rightarrow> unit result" where
  "interleaved_trial_check t =
     rbind (rcheck (it_worker_id t \<noteq> []) (ValueError ''worker_id is required'')) (\<lambda>_.
     rbind (rcheck (it_order t \<in> {''baseline-first'', ''candidate-first''})
              (ValueError ''invalid execution order'')) (\<lambda>_.
     rbind (positive_timing ''baseline_cold_ms'' (it_baseline_cold_ms t)) (\<lambda>_.
     rbind (positive_timing ''candidate_cold_ms'' (it_candidate_cold_ms t)) (\<lambda>_.
     rbind (positive_timing ''baseline_warm_ms'' (it_baseline_warm_ms t)) (\<lambda>_.
       positive_timing ''candidate_warm_ms'' (it_candidate_warm_ms t))))))"

record benchmark_evidence =
  be_correct :: bool
  be_compliant :: bool
  be_setup_ms :: pyfloat
  be_artifact_storage_bytes :: int
  be_database_bytes :: int
  be_trials :: "interleaved_trial list"

definition benchmark_evidence_check :: "benchmark_evidence \<Rightarrow> unit result" where
  "benchmark_evidence_check e =
     rbind (require_finite_non_negative ''setup_ms'' (be_setup_ms e)) (\<lambda>_.
     rbind (rcheck (\<not> be_artifact_storage_bytes e < 0)
              (ValueError ''artifact_storage_bytes must be non-negative'')) (\<lambda>_.
       rcheck (\<not> be_database_bytes e \<le> 0) (ValueError ''database_bytes must be positive'')))"

text \<open>Records that passed their \<open>__post_init__\<close>, the only ones the scorer sees.\<close>

definition valid_policy :: "benchmark_policy \<Rightarrow> bool" where
  "valid_policy p \<longleftrightarrow> is_ok (benchmark_policy_check p)"

definition valid_evidence :: "benchmark_evidence \<Rightarrow> bool" where
  "valid_evidence e \<longleftrightarrow> is_ok (benchmark_evidence_check e)
     \<and> list_all (\<lambda>t. is_ok (interleaved_trial_check t)) (be_trials e)"

text \<open>A \<open>Fin x\<close> stands for a float only when \<open>x\<close> is representable.\<close>

fun is_double :: "pyfloat \<Rightarrow> bool" where
  "is_double (Fin x) \<longleftrightarrow> dbl x = x"
| "is_double _ \<longleftrightarrow> True"

definition trial_doubles :: "interleaved_trial \<Rightarrow> bool" where
  "trial_doubles t \<longleftrightarrow> is_double (it_baseline_cold_ms t) \<and> is_double (it_candidate_cold_ms t)
     \<and> is_double (it_baseline_warm_ms t) \<and> is_double (it_candidate_warm_ms t)"

section \<open>\<open>score_benchmark\<close>\<close>

record horizon_score =
  hs_horizon :: int
  hs_relative_speedup :: real
  hs_lower_confidence_speedup :: real
  hs_relative_savings :: real

record benchmark_score =
  bs_eligible :: bool
  bs_benchmark_valid :: bool
  bs_reward :: real
  bs_failure_code :: "string option"
  bs_worker_id :: "string option"
  bs_timeout_rate :: real
  bs_storage_ratio :: real
  bs_horizons :: "horizon_score list"

text \<open>The zero scores of the gates: who failed, and with what code.\<close>

definition zero_score :: "bool \<Rightarrow> string \<Rightarrow> string option \<Rightarrow> real \<Rightarrow> real \<Rightarrow> benchmark_score" where
  "zero_score benchmark_valid code worker timeout_rate storage_ratio =
     \<lparr>bs_eligible = False, bs_benchmark_valid = benchmark_valid, bs_reward = 0,
      bs_failure_code = Some code, bs_worker_id = worker, bs_timeout_rate = timeout_rate,
      bs_storage_ratio = storage_ratio, bs_horizons = []\<rparr>"

definition order_count :: "string \<Rightarrow> interleaved_trial list \<Rightarrow> int" where
  "order_count order ts = int (length (filter (\<lambda>t. it_order t = order) ts))"

definition balanced_orders :: "interleaved_trial list \<Rightarrow> bool" where
  "balanced_orders ts \<longleftrightarrow> \<not> (order_count ''baseline-first'' ts = 0 \<or> order_count ''candidate-first'' ts = 0
     \<or> 1 < \<bar>order_count ''baseline-first'' ts - order_count ''candidate-first'' ts\<bar>)"

definition baseline_total :: "int \<Rightarrow> interleaved_trial \<Rightarrow> real result" where
  "baseline_total horizon t =
     rbind (float_of_int (horizon - 1)) (\<lambda>k.
     rbind (ieee (k * float_val (it_baseline_warm_ms t))) (\<lambda>warm.
     ieee (float_val (it_baseline_cold_ms t) + warm)))"

definition candidate_total :: "benchmark_evidence \<Rightarrow> real \<Rightarrow> int \<Rightarrow> interleaved_trial \<Rightarrow> real result" where
  "candidate_total e multiplier horizon t =
     rbind (ieee (float_val (be_setup_ms e) + float_val (it_candidate_cold_ms t))) (\<lambda>cold.
     rbind (float_of_int (horizon - 1)) (\<lambda>k.
     rbind (ieee (k * float_val (it_candidate_warm_ms t))) (\<lambda>warm.
     rbind (ieee (cold + warm)) (\<lambda>total_ms. ieee (total_ms * multiplier)))))"

definition log_speedup :: "benchmark_evidence \<Rightarrow> real \<Rightarrow> int \<Rightarrow> interleaved_trial \<Rightarrow> real result" where
  "log_speedup e multiplier horizon t =
     rbind (baseline_total horizon t) (\<lambda>b.
     rbind (candidate_total e multiplier horizon t) (\<lambda>c.
     rbind (ieee_div b c) math_log2))"

text \<open>\<open>max(0.0, min(1.0, 1.0 - 1.0 / lower_confidence_speedup))\<close>.\<close>

definition savings_of :: "real \<Rightarrow> real result" where
  "savings_of lower_confidence =
     rbind (ieee_div 1 lower_confidence) (\<lambda>inverse.
     rbind (ieee (1 - inverse)) (\<lambda>d. Inr (max 0 (min 1 d))))"

definition score_horizon ::
  "benchmark_evidence \<Rightarrow> benchmark_policy \<Rightarrow> real \<Rightarrow> interleaved_trial list \<Rightarrow> int \<Rightarrow> horizon_score result" where
  "score_horizon e p multiplier completed horizon =
     rbind (rmap (log_speedup e multiplier horizon) completed) (\<lambda>log_speedups.
     rbind (winsorized_mean log_speedups (float_val (bp_winsor_fraction p)) 1) (\<lambda>center.
     rbind (robust_standard_error log_speedups) (\<lambda>se.
     rbind (ieee (float_val (bp_confidence_z p) * se)) (\<lambda>margin.
     rbind (ieee (center - margin)) (\<lambda>lower_bound.
     rbind (two_power center) (\<lambda>speedup.
     rbind (two_power lower_bound) (\<lambda>lower_confidence.
     rbind (savings_of lower_confidence) (\<lambda>savings.
       Inr \<lparr>hs_horizon = horizon, hs_relative_speedup = speedup,
         hs_lower_confidence_speedup = lower_confidence, hs_relative_savings = savings\<rparr>))))))))"

text \<open>The loop over \<open>zip(horizons, horizon_weights)\<close>: the scores so far and the weighted savings.\<close>

definition weigh_horizon ::
  "benchmark_evidence \<Rightarrow> benchmark_policy \<Rightarrow> real \<Rightarrow> interleaved_trial list
    \<Rightarrow> horizon_score list \<times> real \<Rightarrow> int \<times> pyfloat \<Rightarrow> (horizon_score list \<times> real) result" where
  "weigh_horizon e p multiplier completed state entry =
     rbind (score_horizon e p multiplier completed (fst entry)) (\<lambda>s.
     rbind (ieee (float_val (snd entry) * hs_relative_savings s)) (\<lambda>part.
     rbind (ieee (snd state + part)) (\<lambda>weighted. Inr (fst state @ [s], weighted))))"

definition score_horizons ::
  "benchmark_evidence \<Rightarrow> benchmark_policy \<Rightarrow> real \<Rightarrow> interleaved_trial list \<Rightarrow> (horizon_score list \<times> real) result" where
  "score_horizons e p multiplier completed =
     rbind (rcheck (length (bp_horizons p) = length (bp_horizon_weights p))
              (ValueError ''zip() argument lengths differ'')) (\<lambda>_.
     rfold (weigh_horizon e p multiplier completed) ([], 0) (zip (bp_horizons p) (bp_horizon_weights p)))"

text \<open>The scored part of \<open>score_benchmark\<close>, once every gate is passed.\<close>

definition score_completed ::
  "benchmark_evidence \<Rightarrow> benchmark_policy \<Rightarrow> string option \<Rightarrow> real \<Rightarrow> real \<Rightarrow> interleaved_trial list \<Rightarrow> benchmark_score result" where
  "score_completed e p worker timeout_rate storage_ratio completed =
     rbind (ieee (storage_ratio * float_val (bp_storage_penalty_at_database_size p))) (\<lambda>penalty.
     rbind (ieee (1 + penalty)) (\<lambda>multiplier.
     rbind (score_horizons e p multiplier completed) (\<lambda>(scores, weighted_savings).
     let reliability = dbl ((dbl (1 - timeout_rate)) ^ 2) in
     rbind (ieee (100 * weighted_savings)) (\<lambda>full.
     rbind (ieee (full * reliability)) (\<lambda>reward.
       Inr \<lparr>bs_eligible = 0 < reward, bs_benchmark_valid = True, bs_reward = reward,
         bs_failure_code = (if 0 < reward then None else Some ''no_relative_improvement''),
         bs_worker_id = worker, bs_timeout_rate = timeout_rate,
         bs_storage_ratio = storage_ratio, bs_horizons = scores\<rparr>)))))"

text \<open>The gates before the score: the first that fails decides, in the order of the code.\<close>

definition gate_benchmark :: "benchmark_evidence \<Rightarrow> benchmark_policy \<Rightarrow> real \<Rightarrow> benchmark_score result" where
  "gate_benchmark e p storage_ratio =
     (let trials = be_trials e
      in if int (length trials) < bp_minimum_trials p
         then Inr (zero_score False ''insufficient_trials'' None 0 storage_ratio)
      else if card (set (map it_worker_id trials)) \<noteq> 1
         then Inr (zero_score False ''mixed_workers'' None 0 storage_ratio)
      else let worker = Some (it_worker_id (hd trials)) in
         if \<not> balanced_orders trials
         then Inr (zero_score False ''unbalanced_interleaving'' worker 0 storage_ratio)
      else if list_ex it_baseline_timed_out trials
         then Inr (zero_score False ''baseline_timeout'' worker 0 storage_ratio)
      else rbind (fmean (map (\<lambda>t. if it_candidate_timed_out t then 1 else 0) trials)) (\<lambda>timeout_rate.
         if \<not> be_correct e
         then Inr (zero_score True ''result_mismatch'' worker timeout_rate storage_ratio)
         else if \<not> be_compliant e
         then Inr (zero_score True ''policy_rejected'' worker timeout_rate storage_ratio)
         else if float_val (bp_maximum_timeout_rate p) < timeout_rate
         then Inr (zero_score True ''timeout_rate'' worker timeout_rate storage_ratio)
         else let completed = filter (\<lambda>t. \<not> it_candidate_timed_out t) trials in
           if length completed < 2
           then Inr (zero_score True ''candidate_timeout'' worker timeout_rate storage_ratio)
           else if \<not> balanced_orders completed
           then Inr (zero_score True ''timeout_order_imbalance'' worker timeout_rate storage_ratio)
           else score_completed e p worker timeout_rate storage_ratio completed))"

definition score_benchmark :: "benchmark_evidence \<Rightarrow> benchmark_policy \<Rightarrow> benchmark_score result" where
  "score_benchmark e p =
     rbind (int_div (be_artifact_storage_bytes e) (be_database_bytes e)) (gate_benchmark e p)"

section \<open>What validation gives\<close>

lemma finite_non_negative [simp]:
  "require_finite_non_negative name v = Inr u \<longleftrightarrow> isfinite v \<and> 0 \<le> float_val v"
  by (cases v) (auto simp: require_finite_non_negative_def)

lemma in_half_open_iff: "in_half_open v hi \<longleftrightarrow> isfinite v \<and> 0 \<le> float_val v \<and> float_val v < hi"
  by (cases v) (auto simp: in_half_open_def)

lemma in_unit_iff: "in_unit v \<longleftrightarrow> isfinite v \<and> 0 \<le> float_val v \<and> float_val v \<le> 1"
  by (cases v) (auto simp: in_unit_def)

lemma positive_timing_iff [simp]:
  "positive_timing name v = Inr u \<longleftrightarrow> isfinite v \<and> 0 < float_val v"
  by (cases v) (auto simp: positive_timing_def rbind_eq_Inr)

lemma valid_policyD:
  assumes "valid_policy p"
  shows "bp_horizons p \<noteq> []" "h \<in> set (bp_horizons p) \<Longrightarrow> 1 \<le> h"
    "length (bp_horizons p) = length (bp_horizon_weights p)"
    "w \<in> set (bp_horizon_weights p) \<Longrightarrow> isfinite w \<and> 0 \<le> float_val w"
    "2 \<le> bp_minimum_trials p" "0 \<le> float_val (bp_winsor_fraction p)" "float_val (bp_winsor_fraction p) < 1 / 2"
    "0 \<le> float_val (bp_confidence_z p)" "0 \<le> float_val (bp_maximum_timeout_rate p)"
    "float_val (bp_maximum_timeout_rate p) < 1" "0 \<le> float_val (bp_storage_penalty_at_database_size p)"
proof -
  have w: "\<not> (float_lt w (Fin 0) \<or> \<not> isfinite w) \<longleftrightarrow> isfinite w \<and> 0 \<le> float_val w" for w
    by (cases w) auto
  have "\<exists>u. benchmark_policy_check p = Inr u" using assms by (simp add: valid_policy_def is_ok_iff)
  then have ok: "bp_horizons p \<noteq> [] \<and> (\<forall>h \<in> set (bp_horizons p). 1 \<le> h)
      \<and> length (bp_horizons p) = length (bp_horizon_weights p)
      \<and> (\<forall>w \<in> set (bp_horizon_weights p). isfinite w \<and> 0 \<le> float_val w)
      \<and> 2 \<le> bp_minimum_trials p \<and> in_half_open (bp_winsor_fraction p) (1 / 2)
      \<and> 0 \<le> float_val (bp_confidence_z p) \<and> in_half_open (bp_maximum_timeout_rate p) 1
      \<and> 0 \<le> float_val (bp_storage_penalty_at_database_size p)"
    unfolding benchmark_policy_check_def rbind_eq_Inr rcheck_Inr finite_non_negative list_ex_iff
    using w by (auto simp: not_less)
  then show "bp_horizons p \<noteq> []" "h \<in> set (bp_horizons p) \<Longrightarrow> 1 \<le> h"
    "length (bp_horizons p) = length (bp_horizon_weights p)"
    "w \<in> set (bp_horizon_weights p) \<Longrightarrow> isfinite w \<and> 0 \<le> float_val w"
    "2 \<le> bp_minimum_trials p" "0 \<le> float_val (bp_winsor_fraction p)" "float_val (bp_winsor_fraction p) < 1 / 2"
    "0 \<le> float_val (bp_confidence_z p)" "0 \<le> float_val (bp_maximum_timeout_rate p)"
    "float_val (bp_maximum_timeout_rate p) < 1" "0 \<le> float_val (bp_storage_penalty_at_database_size p)"
    by (auto simp: in_half_open_iff)
qed

lemma valid_evidenceD:
  assumes "valid_evidence e"
  shows "0 \<le> float_val (be_setup_ms e)" "0 \<le> be_artifact_storage_bytes e" "0 < be_database_bytes e"
    "t \<in> set (be_trials e) \<Longrightarrow> 0 < float_val (it_baseline_cold_ms t) \<and> 0 < float_val (it_candidate_cold_ms t)
      \<and> 0 < float_val (it_baseline_warm_ms t) \<and> 0 < float_val (it_candidate_warm_ms t)
      \<and> it_order t \<in> {''baseline-first'', ''candidate-first''}"
  using assms by (auto simp: valid_evidence_def is_ok_iff benchmark_evidence_check_def
      interleaved_trial_check_def rbind_eq_Inr list_all_iff)

section \<open>The statistics\<close>

lemma sort_Nil_iff [simp]: "sort xs = [] \<longleftrightarrow> xs = []"
  by (metis length_0_conv length_sort)

lemma fmean_ok: "xs \<noteq> [] \<Longrightarrow> \<exists>m. fmean xs = Inr m"
  by (simp add: fmean_def)

lemma median_ok: "xs \<noteq> [] \<Longrightarrow> \<exists>m. median xs = Inr m"
  by (auto simp: median_def Let_def)

lemma sort_nth_mem: "i < length xs \<Longrightarrow> sort xs ! i \<in> set xs"
  by (metis length_sort nth_mem set_sort)

lemma median_nonneg:
  assumes "median xs = Inr m" "\<And>x. x \<in> set xs \<Longrightarrow> 0 \<le> x"
  shows "0 \<le> m"
proof -
  let ?n = "length xs"
  have ne: "xs \<noteq> []" using assms(1) by (auto simp: median_def)
  then have n: "0 < ?n" by simp
  have a: "0 \<le> sort xs ! (?n div 2)" using assms(2) sort_nth_mem [of "?n div 2" xs] n by simp
  show ?thesis
  proof (cases "odd ?n")
    case True
    then show ?thesis using assms(1) a ne by (simp add: median_def Let_def)
  next
    case False
    have "0 \<le> sort xs ! (?n div 2 - 1)"
      using assms(2) sort_nth_mem [of "?n div 2 - 1" xs] n by (simp add: less_imp_diff_less)
    with a False assms(1) ne show ?thesis
      by (auto simp: median_def Let_def intro!: dbl.nonneg fl.rnd_nonneg)
  qed
qed

lemma robust_standard_error_ok: "\<exists>s. robust_standard_error vs = Inr s \<and> 0 \<le> s"
proof (cases "length vs < 2")
  case False
  then have ne: "vs \<noteq> []" by auto
  then obtain c where c: "median vs = Inr c" using median_ok by blast
  obtain m where m: "median (map (\<lambda>v. \<bar>fl (v - c)\<bar>) vs) = Inr m" using median_ok ne by blast
  have "0 \<le> m" by (rule median_nonneg [OF m]) auto
  with c m False show ?thesis
    by (simp add: robust_standard_error_def dbl.nonneg fl.rnd_nonneg)
qed (simp add: robust_standard_error_def)

lemma winsorized_mean_ok:
  assumes "vs \<noteq> []" "0 \<le> f" "f < 1 / 2" "0 \<le> w"
  shows "\<exists>m. winsorized_mean vs f w = Inr m"
  using assms by (auto simp: winsorized_mean_def Let_def fmean_def)

text \<open>The winsorized values lie between the extremes of the sample.\<close>

lemma winsor_width_less: "0 < winsor_width n f w \<Longrightarrow> 2 * winsor_width n f w < n"
proof -
  define r where "r = max \<lfloor>fl (fl (real n) * f)\<rfloor> (if f \<noteq> 0 then w else 0)"
  define h where "h = (int n - 1) div 2"
  have "winsor_width n f w = nat (min r h)"
    by (simp only: winsor_width_def Let_def r_def h_def)
  moreover assume "0 < winsor_width n f w"
  ultimately have "0 < min r h" "int (winsor_width n f w) = min r h" by linarith+
  moreover have "2 * h \<le> int n - 1" unfolding h_def by linarith
  ultimately show ?thesis by linarith
qed

lemma winsorized_mean_cases:
  assumes "winsorized_mean vs f w = Inr m"
  shows "\<exists>ws. fmean ws = Inr m \<and> length ws = length vs
    \<and> (\<forall>x \<in> set ws. \<exists>a \<in> set vs. \<exists>b \<in> set vs. a \<le> x \<and> x \<le> b)"
proof (cases "winsor_width (length vs) f w = 0")
  case True
  then have "fmean (sort vs) = Inr m" using assms
    by (auto simp: winsorized_mean_def Let_def rbind_eq_Inr)
  then show ?thesis by (intro exI [of _ "sort vs"]) auto
next
  case False
  define width where "width = winsor_width (length vs) f w"
  let ?lo = "sort vs ! width" and ?hi = "sort vs ! (length vs - width - 1)"
  let ?ws = "map (\<lambda>v. min ?hi (max ?lo v)) (sort vs)"
  have w: "width < length vs" "length vs - width - 1 < length vs" "width \<le> length vs - width - 1"
    using winsor_width_less [of "length vs" f w] False unfolding width_def by linarith+
  have le: "?lo \<le> ?hi" using w by (intro sorted_nth_mono) auto
  have mem: "?lo \<in> set vs" "?hi \<in> set vs" using w by (simp_all add: sort_nth_mem)
  have "fmean ?ws = Inr m"
    using assms False by (auto simp: winsorized_mean_def Let_def width_def rbind_eq_Inr)
  moreover have "?lo \<le> x \<and> x \<le> ?hi" if "x \<in> set ?ws" for x
  proof -
    have "\<exists>v. x = min ?hi (max ?lo v)" using that by (simp only: set_map image_iff) blast
    then obtain v where "x = min ?hi (max ?lo v)" by blast
    with le show ?thesis by linarith
  qed
  then have "\<forall>x \<in> set ?ws. \<exists>a \<in> set vs. \<exists>b \<in> set vs. a \<le> x \<and> x \<le> b" using mem by blast
  ultimately show ?thesis by (intro exI [of _ ?ws]) simp
qed

lemma winsorized_mean_sign:
  assumes "winsorized_mean vs f w = Inr m"
  shows "(\<And>v. v \<in> set vs \<Longrightarrow> v \<le> 0) \<Longrightarrow> m \<le> 0" "(\<And>v. v \<in> set vs \<Longrightarrow> 0 \<le> v) \<Longrightarrow> 0 \<le> m"
proof -
  obtain ws where ws: "fmean ws = Inr m" "\<forall>x \<in> set ws. \<exists>a \<in> set vs. \<exists>b \<in> set vs. a \<le> x \<and> x \<le> b"
    using winsorized_mean_cases [OF assms] by blast
  show "m \<le> 0" if "\<And>v. v \<in> set vs \<Longrightarrow> v \<le> 0"
    using fmean_le [OF ws(1)] ws(2) that by (meson order_trans)
  show "0 \<le> m" if "\<And>v. v \<in> set vs \<Longrightarrow> 0 \<le> v"
    using fmean_ge [OF ws(1)] ws(2) that by (meson order_trans)
qed

section \<open>Totals and speedups\<close>

lemma float_of_int_nonneg: "float_of_int n = Inr k \<Longrightarrow> 0 \<le> n \<Longrightarrow> 0 \<le> k"
  by (auto simp: float_of_int_def or_overflow_Inr intro: dbl.nonneg)

lemma baseline_total_nonneg:
  assumes "valid_evidence e" "t \<in> set (be_trials e)" "1 \<le> h" "baseline_total h t = Inr b"
  shows "0 \<le> b"
proof -
  note t = valid_evidenceD(4) [OF assms(1,2)]
  obtain k where k: "float_of_int (h - 1) = Inr k" "b = dbl (float_val (it_baseline_cold_ms t) + dbl (k * float_val (it_baseline_warm_ms t)))"
    using assms(4) by (auto simp: baseline_total_def ieee_Inr)
  have "0 \<le> k" using float_of_int_nonneg [OF k(1)] assms(3) by simp
  then show ?thesis using t unfolding k(2) by (intro dbl.nonneg add_nonneg_nonneg mult_nonneg_nonneg) simp_all
qed

lemma candidate_total_Inr:
  assumes "candidate_total e m h t = Inr c"
  obtains k where "float_of_int (h - 1) = Inr k"
    "c = dbl (dbl (dbl (float_val (be_setup_ms e) + float_val (it_candidate_cold_ms t))
      + dbl (k * float_val (it_candidate_warm_ms t))) * m)"
  using assms by (auto simp: candidate_total_def ieee_Inr intro: that)

lemma candidate_total_nonneg:
  assumes "valid_evidence e" "t \<in> set (be_trials e)" "1 \<le> h" "1 \<le> m" "candidate_total e m h t = Inr c"
  shows "0 \<le> c"
proof -
  note t = valid_evidenceD(4) [OF assms(1,2)]
  obtain k where k: "float_of_int (h - 1) = Inr k" "c = dbl (dbl (dbl (float_val (be_setup_ms e) + float_val (it_candidate_cold_ms t))
      + dbl (k * float_val (it_candidate_warm_ms t))) * m)" by (rule candidate_total_Inr [OF assms(5)])
  have "0 \<le> k" using float_of_int_nonneg [OF k(1)] assms(3) by simp
  then show ?thesis using t assms(4) valid_evidenceD(1) [OF assms(1)]
    unfolding k(2) by (intro dbl.nonneg add_nonneg_nonneg mult_nonneg_nonneg) simp_all
qed

text \<open>A candidate at most as fast as the baseline, on every timing of the trial.\<close>

definition not_faster :: "interleaved_trial \<Rightarrow> bool" where
  "not_faster t \<longleftrightarrow> float_val (it_baseline_cold_ms t) \<le> float_val (it_candidate_cold_ms t)
     \<and> float_val (it_baseline_warm_ms t) \<le> float_val (it_candidate_warm_ms t)"

lemma not_faster_total:
  assumes "valid_evidence e" "t \<in> set (be_trials e)" "1 \<le> h" "1 \<le> m" "trial_doubles t" "not_faster t"
    and "baseline_total h t = Inr b" "candidate_total e m h t = Inr c"
  shows "b \<le> c"
proof -
  note t = valid_evidenceD(4) [OF assms(1,2)]
  let ?bc = "float_val (it_baseline_cold_ms t)" and ?cc = "float_val (it_candidate_cold_ms t)"
  obtain k where k: "float_of_int (h - 1) = Inr k" "b = dbl (?bc + dbl (k * float_val (it_baseline_warm_ms t)))"
    using assms(7) by (auto simp: baseline_total_def ieee_Inr)
  let ?cw = "dbl (k * float_val (it_candidate_warm_ms t))"
  have c: "c = dbl (dbl (dbl (float_val (be_setup_ms e) + ?cc) + ?cw) * m)"
    by (rule candidate_total_Inr [OF assms(8)]) (use k in simp)
  have d: "dbl ?cc = ?cc" using assms(5) t by (cases "it_candidate_cold_ms t") (auto simp: trial_doubles_def)
  have "?cc \<le> dbl (float_val (be_setup_ms e) + ?cc)"
    by (rule dbl.lower [OF _ d]) (simp add: valid_evidenceD(1) [OF assms(1)])
  then have cold: "?bc \<le> dbl (float_val (be_setup_ms e) + ?cc)" using assms(6) by (simp add: not_faster_def)
  have h: "0 \<le> k" using float_of_int_nonneg [OF k(1)] assms(3) by simp
  have warm: "dbl (k * float_val (it_baseline_warm_ms t)) \<le> ?cw"
    using assms(6) h by (intro dbl_mono mult_left_mono) (simp_all add: not_faster_def)
  let ?inner = "dbl (dbl (float_val (be_setup_ms e) + ?cc) + ?cw)"
  have "b \<le> ?inner" unfolding k(2) using cold warm by (intro dbl_mono) simp
  moreover have pos: "0 \<le> ?inner"
    using t valid_evidenceD(1) [OF assms(1)] h by (intro dbl.nonneg add_nonneg_nonneg mult_nonneg_nonneg) simp_all
  moreover have "?inner \<le> dbl (?inner * m)"
    by (rule dbl.lower) (use pos assms(4) mult_left_mono [of 1 m ?inner] in simp_all)
  ultimately show ?thesis unfolding c by simp
qed

lemma not_faster_log:
  assumes "valid_evidence e" "t \<in> set (be_trials e)" "1 \<le> h" "1 \<le> m" "trial_doubles t" "not_faster t"
    and "log_speedup e m h t = Inr l"
  shows "l \<le> 0"
proof -
  obtain b c where bc: "baseline_total h t = Inr b" "candidate_total e m h t = Inr c" "c \<noteq> 0"
    "math_log2 (dbl (b / c)) = Inr l" using assms(7) by (auto simp: log_speedup_def ieee_div_Inr)
  have "0 \<le> c" "0 \<le> b" using candidate_total_nonneg baseline_total_nonneg assms(1-4) bc by blast+
  moreover have "b \<le> c" by (rule not_faster_total [OF assms(1-6) bc(1,2)])
  ultimately have "dbl (b / c) \<le> 1" using bc(3) by (intro dbl.le_one) simp
  moreover have "0 < dbl (b / c)" "l = fl (log 2 (dbl (b / c)))" using bc(4) by (auto simp: math_log2_def split: if_splits)
  ultimately show ?thesis by (simp add: fl.rnd_nonpos)
qed

section \<open>One horizon\<close>

lemma savings_of_Inr:
  assumes "savings_of lc = Inr s" "0 \<le> lc"
  shows "0 \<le> s" "s \<le> 1" "0 < s \<Longrightarrow> 1 < lc"
proof -
  have s: "lc \<noteq> 0" "s = max 0 (min 1 (dbl (1 - dbl (1 / lc))))"
    using assms(1) by (auto simp: savings_of_def ieee_div_Inr ieee_Inr)
  then show "0 \<le> s" "s \<le> 1" by simp_all
  show "1 < lc" if "0 < s"
  proof (rule ccontr)
    assume "\<not> 1 < lc"
    then have "1 \<le> dbl (1 / lc)" using s(1) assms(2) by (intro dbl.ge_one) simp
    then have "dbl (1 - dbl (1 / lc)) \<le> 0" by (intro dbl.nonpos) simp
    with that s(2) show False by simp
  qed
qed

lemma score_horizon_Inr:
  assumes "score_horizon e p m completed h = Inr s"
  obtains ls c se where "rmap (log_speedup e m h) completed = Inr ls"
    "winsorized_mean ls (float_val (bp_winsor_fraction p)) 1 = Inr c" "robust_standard_error ls = Inr se"
    "hs_horizon s = h" "hs_relative_speedup s = dbl (2 powr c)"
    "hs_lower_confidence_speedup s = dbl (2 powr dbl (c - dbl (float_val (bp_confidence_z p) * se)))"
    "savings_of (hs_lower_confidence_speedup s) = Inr (hs_relative_savings s)"
  using assms unfolding score_horizon_def
  by (auto simp: ieee_Inr two_power_def or_overflow_Inr intro!: that)

lemma score_horizon_facts:
  assumes "valid_policy p" "score_horizon e p m completed h = Inr s"
  shows "hs_horizon s = h \<and> 0 \<le> hs_relative_savings s \<and> hs_relative_savings s \<le> 1
    \<and> hs_lower_confidence_speedup s \<le> hs_relative_speedup s
    \<and> (0 < hs_relative_savings s \<longrightarrow> 1 < hs_lower_confidence_speedup s)"
proof -
  obtain ls c se where h: "winsorized_mean ls (float_val (bp_winsor_fraction p)) 1 = Inr c" "robust_standard_error ls = Inr se"
    "hs_horizon s = h" "hs_relative_speedup s = dbl (2 powr c)"
    "hs_lower_confidence_speedup s = dbl (2 powr dbl (c - dbl (float_val (bp_confidence_z p) * se)))"
    "savings_of (hs_lower_confidence_speedup s) = Inr (hs_relative_savings s)"
    by (rule score_horizon_Inr [OF assms(2)]) (rule that)
  have "0 \<le> se" using robust_standard_error_ok [of ls] h(2) by auto
  then have "0 \<le> dbl (float_val (bp_confidence_z p) * se)" using valid_policyD(8) [OF assms(1)] by (intro dbl.nonneg) simp
  moreover have "dbl c = c" using winsorized_mean_cases [OF h(1)] by (auto simp: fmean_def split: if_splits)
  ultimately have "dbl (c - dbl (float_val (bp_confidence_z p) * se)) \<le> c" by (intro dbl.upper) simp
  then have "hs_lower_confidence_speedup s \<le> hs_relative_speedup s" unfolding h(4,5) by (intro dbl_mono) simp
  moreover have "0 \<le> hs_lower_confidence_speedup s" unfolding h(5) by (intro dbl.nonneg) simp
  ultimately show ?thesis using savings_of_Inr [OF h(6)] h(3) by blast
qed

lemma rmap_Inr_mem: "rmap f xs = Inr ys \<Longrightarrow> y \<in> set ys \<Longrightarrow> \<exists>x \<in> set xs. f x = Inr y"
  unfolding rmap_Inr_iff in_set_conv_nth by fastforce

lemma score_horizon_slow:
  assumes "valid_policy p" "valid_evidence e" "set completed \<subseteq> set (be_trials e)" "1 \<le> h" "1 \<le> m"
    and "\<And>t. t \<in> set completed \<Longrightarrow> trial_doubles t \<and> not_faster t" "score_horizon e p m completed h = Inr s"
  shows "hs_relative_savings s = 0"
proof -
  obtain ls c se where l: "rmap (log_speedup e m h) completed = Inr ls"
    "winsorized_mean ls (float_val (bp_winsor_fraction p)) 1 = Inr c" "hs_relative_speedup s = dbl (2 powr c)"
    by (rule score_horizon_Inr [OF assms(7)]) (rule that)
  have "l \<le> 0" if l': "l \<in> set ls" for l
  proof -
    obtain t where "t \<in> set completed" "log_speedup e m h t = Inr l" using rmap_Inr_mem [OF l(1) l'] by blast
    then show ?thesis using not_faster_log [OF assms(2) _ assms(4,5)] assms(3,6) by blast
  qed
  then have "c \<le> 0" by (rule winsorized_mean_sign(1) [OF l(2)])
  then have "hs_relative_speedup s \<le> 1" unfolding l(3) by (intro dbl.le_one) (use powr_mono [of c 0 2] in simp)
  then show ?thesis using score_horizon_facts [OF assms(1,7)] by force
qed

section \<open>All horizons and the reward\<close>

definition savings_bound :: "pyfloat list \<Rightarrow> real" where
  "savings_bound ws = foldl (\<lambda>acc w. dbl (acc + dbl (float_val w))) 0 ws"

lemma horizons_fold:
  assumes "valid_policy p" "valid_evidence e" "set completed \<subseteq> set (be_trials e)" "1 \<le> m"
    and "rfold (weigh_horizon e p m completed) (scores, acc) hws = Inr (result, ws)"
    and "\<And>h w. (h, w) \<in> set hws \<Longrightarrow> 1 \<le> h \<and> 0 \<le> float_val w" "0 \<le> acc" "acc \<le> bound"
  shows "\<exists>scores'. result = scores @ scores' \<and> map hs_horizon scores' = map fst hws
    \<and> list_all (\<lambda>s. 0 \<le> hs_relative_savings s \<and> hs_relative_savings s \<le> 1
         \<and> hs_lower_confidence_speedup s \<le> hs_relative_speedup s) scores'
    \<and> 0 \<le> ws \<and> ws \<le> foldl (\<lambda>acc w. dbl (acc + dbl (float_val w))) bound (map snd hws)
    \<and> ((\<forall>t \<in> set completed. trial_doubles t \<and> not_faster t) \<longrightarrow> ws = dbl acc \<or> ws = acc)
    \<and> (0 < ws \<longrightarrow> 0 < acc \<or> list_ex (\<lambda>s. 1 < hs_lower_confidence_speedup s) scores')"
  using assms(5-)
proof (induction hws arbitrary: scores acc bound)
  case Nil
  then show ?case by auto
next
  case (Cons hw hws)
  obtain h w where hw: "hw = (h, w)" by (cases hw)
  have h: "1 \<le> h" and w: "0 \<le> float_val w" using Cons.prems(2) [of h w] hw by auto
  obtain mid where "weigh_horizon e p m completed (scores, acc) (h, w) = Inr mid"
    "rfold (weigh_horizon e p m completed) mid hws = Inr (result, ws)"
    using Cons.prems(1) unfolding hw rfold.simps by auto
  then obtain s where sc: "score_horizon e p m completed h = Inr s"
    and rest: "rfold (weigh_horizon e p m completed) (scores @ [s], dbl (acc + dbl (float_val w * hs_relative_savings s))) hws
      = Inr (result, ws)"
    unfolding weigh_horizon_def [of _ _ _ _ "(scores, acc)" "(h, w)"] by (auto simp: ieee_Inr)
  have s: "hs_horizon s = h" "0 \<le> hs_relative_savings s" "hs_relative_savings s \<le> 1"
    "hs_lower_confidence_speedup s \<le> hs_relative_speedup s"
    "0 < hs_relative_savings s \<longrightarrow> 1 < hs_lower_confidence_speedup s"
    using score_horizon_facts [OF assms(1) sc] by simp_all
  let ?inc = "dbl (float_val w * hs_relative_savings s)"
  let ?acc = "dbl (acc + ?inc)" and ?bound = "dbl (bound + dbl (float_val w))"
  have inc: "0 \<le> ?inc" "?inc \<le> dbl (float_val w)"
    using s w mult_left_mono [of "hs_relative_savings s" 1 "float_val w"]
    by (auto intro!: dbl.nonneg dbl_mono)
  have acc: "0 \<le> ?acc" "?acc \<le> ?bound" using inc Cons.prems(3,4) by (auto intro!: dbl.nonneg dbl_mono)
  have pairs: "\<And>h w. (h, w) \<in> set hws \<Longrightarrow> 1 \<le> h \<and> 0 \<le> float_val w" using Cons.prems(2) by auto
  obtain scores' where IH: "result = (scores @ [s]) @ scores'" "map hs_horizon scores' = map fst hws"
    "list_all (\<lambda>s. 0 \<le> hs_relative_savings s \<and> hs_relative_savings s \<le> 1
         \<and> hs_lower_confidence_speedup s \<le> hs_relative_speedup s) scores'"
    "0 \<le> ws" "ws \<le> foldl (\<lambda>acc w. dbl (acc + dbl (float_val w))) ?bound (map snd hws)"
    "(\<forall>t \<in> set completed. trial_doubles t \<and> not_faster t) \<longrightarrow> ws = dbl ?acc \<or> ws = ?acc"
    "0 < ws \<longrightarrow> 0 < ?acc \<or> list_ex (\<lambda>s. 1 < hs_lower_confidence_speedup s) scores'"
    using Cons.IH [OF rest pairs acc] by blast
  have none: "ws = dbl acc" if "\<forall>t \<in> set completed. trial_doubles t \<and> not_faster t"
    using IH(6) score_horizon_slow [OF assms(1-3) h assms(4) _ sc] that by auto
  have gain: "0 < acc \<or> 1 < hs_lower_confidence_speedup s" if "0 < ?acc"
  proof -
    have "0 < acc + ?inc" by (rule dbl.pos_arg [OF that])
    then have "0 < acc \<or> 0 < ?inc" using Cons.prems(3) inc by linarith
    moreover have "0 < hs_relative_savings s" if "0 < ?inc"
      using dbl.pos_arg [OF that] s(2) w by (auto simp: zero_less_mult_iff)
    ultimately show ?thesis using s(5) by blast
  qed
  show ?case
    using IH(1-5) none gain IH(7) s by (intro exI [of _ "s # scores'"]) (auto simp: hw)
qed

lemma score_horizons_facts:
  assumes "valid_policy p" "valid_evidence e" "set completed \<subseteq> set (be_trials e)" "1 \<le> m"
    and "score_horizons e p m completed = Inr (scores, ws)"
  shows "map hs_horizon scores = bp_horizons p"
    and "list_all (\<lambda>s. 0 \<le> hs_relative_savings s \<and> hs_relative_savings s \<le> 1
         \<and> hs_lower_confidence_speedup s \<le> hs_relative_speedup s) scores"
    and "0 \<le> ws" "ws \<le> savings_bound (bp_horizon_weights p)"
    and "(\<forall>t \<in> set completed. trial_doubles t \<and> not_faster t) \<longrightarrow> ws = 0"
    and "0 < ws \<longrightarrow> list_ex (\<lambda>s. 1 < hs_lower_confidence_speedup s) scores"
proof -
  note pol = valid_policyD [OF assms(1)]
  have w: "\<And>h w. (h, w) \<in> set (zip (bp_horizons p) (bp_horizon_weights p)) \<Longrightarrow> 1 \<le> h \<and> 0 \<le> float_val w"
    using pol(2,4) by (auto dest: set_zip_leftD set_zip_rightD)
  have r: "rfold (weigh_horizon e p m completed) ([], 0) (zip (bp_horizons p) (bp_horizon_weights p)) = Inr (scores, ws)"
    using assms(5) by (auto simp: score_horizons_def rbind_eq_Inr)
  note f = horizons_fold [OF assms(1-4) r w order_refl order_refl, simplified]
  show "map hs_horizon scores = bp_horizons p" "0 \<le> ws" "ws \<le> savings_bound (bp_horizon_weights p)"
    "list_all (\<lambda>s. 0 \<le> hs_relative_savings s \<and> hs_relative_savings s \<le> 1
         \<and> hs_lower_confidence_speedup s \<le> hs_relative_speedup s) scores"
    "(\<forall>t \<in> set completed. trial_doubles t \<and> not_faster t) \<longrightarrow> ws = 0"
    "0 < ws \<longrightarrow> list_ex (\<lambda>s. 1 < hs_lower_confidence_speedup s) scores"
    using f pol(3) by (simp_all add: savings_bound_def)
qed

text \<open>A returned score, gate by gate.\<close>

definition gates_passed :: "benchmark_evidence \<Rightarrow> benchmark_policy \<Rightarrow> bool" where
  "gates_passed e p \<longleftrightarrow> bp_minimum_trials p \<le> int (length (be_trials e))
     \<and> card (set (map it_worker_id (be_trials e))) = 1 \<and> balanced_orders (be_trials e)
     \<and> \<not> list_ex it_baseline_timed_out (be_trials e) \<and> be_correct e \<and> be_compliant e
     \<and> 2 \<le> length (filter (\<lambda>t. \<not> it_candidate_timed_out t) (be_trials e))
     \<and> balanced_orders (filter (\<lambda>t. \<not> it_candidate_timed_out t) (be_trials e))"

definition is_zero :: "benchmark_score result \<Rightarrow> bool" where
  "is_zero r \<longleftrightarrow> (\<exists>valid code worker rate ratio. r = Inr (zero_score valid code worker rate ratio))"

lemma is_zero_score [simp]: "is_zero (Inr (zero_score valid code worker rate ratio))"
  unfolding is_zero_def by blast

lemma gate_benchmark_cases:
  assumes "valid_policy p"
  obtains (gate) valid code worker rate ratio' where
      "gate_benchmark e p ratio = Inr (zero_score valid code worker rate ratio')"
  | (scored) worker rate where "gates_passed e p" "0 \<le> rate" "rate \<le> float_val (bp_maximum_timeout_rate p)"
      "gate_benchmark e p ratio = score_completed e p worker rate ratio
         (filter (\<lambda>t. \<not> it_candidate_timed_out t) (be_trials e))"
proof -
  let ?ts = "be_trials e"
  let ?flags = "map (\<lambda>t. if it_candidate_timed_out t then 1 else (0::real)) ?ts"
  show thesis
  proof (cases "int (length ?ts) < bp_minimum_trials p")
    case True
    then show thesis by (intro gate) (simp add: gate_benchmark_def Let_def)
  next
    case long: False
    then have ne: "?ts \<noteq> []" using valid_policyD(5) [OF assms] by auto
    define rate where "rate = dbl (fsum ?flags / real (length ?ts))"
    have rate: "fmean ?flags = Inr rate" using ne by (simp add: fmean_def rate_def)
    have "0 \<le> rate" by (rule fmean_ge [OF rate]) auto
    let ?m = "float_val (bp_maximum_timeout_rate p)"
    have "is_zero (gate_benchmark e p ratio)" if "\<not> gates_passed e p \<or> ?m < rate"
      using that long by (auto simp: gate_benchmark_def Let_def gates_passed_def rate if_distrib [of is_zero])
    moreover have "gate_benchmark e p ratio = score_completed e p (Some (it_worker_id (hd ?ts))) rate ratio
         (filter (\<lambda>t. \<not> it_candidate_timed_out t) ?ts)" if "gates_passed e p" "rate \<le> ?m"
      using that by (simp add: gate_benchmark_def Let_def gates_passed_def rate not_less)
    ultimately show thesis
      using scored [OF _ \<open>0 \<le> rate\<close>] gate unfolding is_zero_def by (meson not_less)
  qed
qed

lemma savings_bound_nonneg:
  assumes "\<And>w. w \<in> set ws \<Longrightarrow> 0 \<le> float_val w"
  shows "0 \<le> savings_bound ws"
proof -
  have "0 \<le> foldl (\<lambda>acc w. dbl (acc + dbl (float_val w))) acc ws" if "0 \<le> acc" for acc
    using assms that
  proof (induction ws arbitrary: acc)
    case (Cons w ws)
    have "0 \<le> dbl (acc + dbl (float_val w))" using Cons.prems by (intro dbl.nonneg add_nonneg_nonneg) auto
    then show ?case using Cons by simp
  qed simp
  then show ?thesis by (simp add: savings_bound_def)
qed

text \<open>Every score that is returned.\<close>

definition sound_score :: "benchmark_evidence \<Rightarrow> benchmark_policy \<Rightarrow> benchmark_score \<Rightarrow> bool" where
  "sound_score e p s \<longleftrightarrow> 0 \<le> bs_reward s \<and> bs_reward s \<le> dbl (100 * savings_bound (bp_horizon_weights p))
    \<and> (bs_eligible s \<longleftrightarrow> 0 < bs_reward s) \<and> (bs_eligible s \<longleftrightarrow> bs_failure_code s = None)
    \<and> list_all (\<lambda>h. 0 \<le> hs_relative_savings h \<and> hs_relative_savings h \<le> 1
         \<and> hs_lower_confidence_speedup h \<le> hs_relative_speedup h) (bs_horizons s)
    \<and> (bs_eligible s \<longrightarrow> gates_passed e p \<and> bs_benchmark_valid s
         \<and> bs_timeout_rate s \<le> float_val (bp_maximum_timeout_rate p)
         \<and> list_ex (\<lambda>h. 1 < hs_lower_confidence_speedup h) (bs_horizons s))
    \<and> (list_all (\<lambda>t. it_candidate_timed_out t \<or> trial_doubles t \<and> not_faster t) (be_trials e)
         \<longrightarrow> bs_reward s = 0)"

lemma score_completed_sound:
  assumes "valid_policy p" "valid_evidence e" "0 \<le> ratio" "0 \<le> rate" "rate \<le> float_val (bp_maximum_timeout_rate p)"
    and "gates_passed e p"
    and "score_completed e p worker rate ratio (filter (\<lambda>t. \<not> it_candidate_timed_out t) (be_trials e)) = Inr s"
  shows "sound_score e p s"
proof -
  note pol = valid_policyD [OF assms(1)]
  let ?finished = "filter (\<lambda>t. \<not> it_candidate_timed_out t) (be_trials e)"
  let ?m = "dbl (1 + dbl (ratio * float_val (bp_storage_penalty_at_database_size p)))"
  define rel where "rel = dbl ((dbl (1 - rate)) ^ 2)"
  obtain scores ws where h: "score_horizons e p ?m ?finished = Inr (scores, ws)"
    and s: "s = \<lparr>bs_eligible = 0 < dbl (dbl (100 * ws) * rel), bs_benchmark_valid = True, bs_reward = dbl (dbl (100 * ws) * rel),
        bs_failure_code = (if 0 < dbl (dbl (100 * ws) * rel) then None else Some ''no_relative_improvement''),
        bs_worker_id = worker, bs_timeout_rate = rate, bs_storage_ratio = ratio, bs_horizons = scores\<rparr>"
    using assms(7) unfolding score_completed_def rel_def by (auto simp: ieee_Inr Let_def split: prod.splits)
  have m: "1 \<le> ?m" using assms(3) pol(11) by (intro dbl.ge_one) (simp add: dbl.nonneg)
  have sub: "set ?finished \<subseteq> set (be_trials e)" by auto
  note f = score_horizons_facts [OF assms(1,2) sub m h]
  have "rate < 1" using assms(5) pol(10) by simp
  then have "0 \<le> dbl (1 - rate)" "dbl (1 - rate) \<le> 1" using assms(4) by (auto intro!: dbl.nonneg dbl.le_one)
  then have rel: "0 \<le> rel" "rel \<le> 1" unfolding rel_def by (auto intro!: dbl.nonneg dbl.le_one power_le_one)
  have hundred: "0 \<le> dbl (100 * ws)" using f(3) by (intro dbl.nonneg) simp
  have reward: "0 \<le> dbl (dbl (100 * ws) * rel)" using hundred rel by (intro dbl.nonneg) simp
  have "dbl (dbl (100 * ws) * rel) \<le> dbl (100 * ws)"
    using hundred rel mult_left_mono [of rel 1 "dbl (100 * ws)"] by (intro dbl.upper) simp_all
  also have "\<dots> \<le> dbl (100 * savings_bound (bp_horizon_weights p))" using f(4) by (intro dbl_mono) simp
  finally have upper: "dbl (dbl (100 * ws) * rel) \<le> dbl (100 * savings_bound (bp_horizon_weights p))" .
  have pos: "0 < ws" if "0 < dbl (dbl (100 * ws) * rel)"
    using dbl.pos_arg [OF that] dbl.pos_arg [of "100 * ws"] rel hundred by (auto simp: zero_less_mult_iff)
  have none: "dbl (dbl (100 * ws) * rel) = 0"
    if "list_all (\<lambda>t. it_candidate_timed_out t \<or> trial_doubles t \<and> not_faster t) (be_trials e)"
    using f(5) that by (auto simp: list_all_iff)
  show ?thesis using reward upper f(2,6) pos none assms(5,6) by (simp add: sound_score_def s)
qed

lemma score_benchmark_sound:
  assumes "valid_policy p" "valid_evidence e" "score_benchmark e p = Inr s"
  shows "sound_score e p s"
proof -
  note pol = valid_policyD [OF assms(1)]
  obtain ratio where r: "int_div (be_artifact_storage_bytes e) (be_database_bytes e) = Inr ratio" "gate_benchmark e p ratio = Inr s"
    using assms(3) by (auto simp: score_benchmark_def)
  have ratio: "0 \<le> ratio"
    using r(1) valid_evidenceD [OF assms(2)] by (auto simp: int_div_def or_overflow_Inr intro!: dbl.nonneg split: if_splits)
  have zero: "0 \<le> dbl (100 * savings_bound (bp_horizon_weights p))"
    using savings_bound_nonneg [of "bp_horizon_weights p"] pol(4) by (intro dbl.nonneg) simp
  from assms(1) show ?thesis
  proof (cases rule: gate_benchmark_cases [of p e ratio])
    case (gate valid code worker rate ratio')
    then show ?thesis using r(2) zero by (auto simp: zero_score_def sound_score_def)
  next
    case (scored worker rate)
    then show ?thesis using score_completed_sound [OF assms(1,2) ratio scored(2,3,1)] r(2) by simp
  qed
qed

section \<open>Moderate inputs are always scored\<close>

text \<open>
  Timings between \<open>2^-40\<close> and \<open>2^40\<close> milliseconds (about a billionth of a microsecond to 34
  years), and policies whose numbers are of that kind. In this range no total underflows, every
  logarithm is at most 142 in size, and the lower confidence bound is at least \<open>2^-874\<close>.
\<close>

definition moderate_time :: "pyfloat \<Rightarrow> bool" where
  "moderate_time v \<longleftrightarrow> 1 / 2 ^ 40 \<le> float_val v \<and> float_val v \<le> 2 ^ 40"

definition moderate_trial :: "interleaved_trial \<Rightarrow> bool" where
  "moderate_trial t \<longleftrightarrow> moderate_time (it_baseline_cold_ms t) \<and> moderate_time (it_candidate_cold_ms t)
     \<and> moderate_time (it_baseline_warm_ms t) \<and> moderate_time (it_candidate_warm_ms t)"

definition moderate_evidence :: "benchmark_evidence \<Rightarrow> bool" where
  "moderate_evidence e \<longleftrightarrow> float_val (be_setup_ms e) \<le> 2 ^ 40 \<and> list_all moderate_trial (be_trials e)
     \<and> int (length (be_trials e)) \<le> 2 ^ 30 \<and> be_artifact_storage_bytes e \<le> 2 ^ 20 * be_database_bytes e"

definition moderate_policy :: "benchmark_policy \<Rightarrow> bool" where
  "moderate_policy p \<longleftrightarrow> list_all (\<lambda>h. h \<le> 2 ^ 20) (bp_horizons p) \<and> length (bp_horizons p) \<le> 2 ^ 20
     \<and> list_all (\<lambda>w. float_val w \<le> 2) (bp_horizon_weights p) \<and> float_val (bp_confidence_z p) \<le> 2
     \<and> float_val (bp_storage_penalty_at_database_size p) \<le> 2 ^ 20"

lemma float_of_int_exact: "0 \<le> n \<Longrightarrow> n \<le> 2 ^ 53 \<Longrightarrow> float_of_int n = Inr (of_int n)"
proof -
  assume n: "0 \<le> n" "n \<le> 2 ^ 53"
  have "real_of_int n \<le> of_int (2 ^ 53)" using n(2) by (simp only: of_int_le_iff)
  then have "or_overflow (of_int n) = Inr (dbl (of_int n))" using n(1) by (intro or_overflow_pow [of _ 53]) simp_all
  then show ?thesis using n by (simp add: float_of_int_def dbl_of_int)
qed

text \<open>The warm part of a total, at a moderate horizon.\<close>

lemma warm_part:
  assumes "moderate_time v" "1 \<le> h" "h \<le> 2 ^ 20"
  shows "ieee (of_int (h - 1) * float_val v) = Inr (dbl (of_int (h - 1) * float_val v))"
    and "0 \<le> dbl (of_int (h - 1) * float_val v)" "dbl (of_int (h - 1) * float_val v) \<le> 2 ^ 60"
proof -
  have v: "0 \<le> float_val v" "float_val v \<le> 2 ^ 40"
    using assms(1) order_trans [of 0 "1 / 2 ^ 40" "float_val v"] by (simp_all add: moderate_time_def)
  have k: "0 \<le> real_of_int (h - 1)" "real_of_int (h - 1) \<le> of_int (2 ^ 20)"
    using assms(2,3) by (simp, simp only: of_int_le_iff)
  have "real_of_int (h - 1) * float_val v \<le> 2 ^ 20 * 2 ^ 40" using k v by (intro mult_mono) simp_all
  then have le: "real_of_int (h - 1) * float_val v \<le> 2 ^ 60" by simp
  have "0 \<le> real_of_int (h - 1) * float_val v" using k v by simp
  then show "0 \<le> dbl (of_int (h - 1) * float_val v)" by (rule dbl.nonneg)
  show "ieee (of_int (h - 1) * float_val v) = Inr (dbl (of_int (h - 1) * float_val v))"
    using le \<open>0 \<le> real_of_int (h - 1) * float_val v\<close> by (intro ieee_pow [of _ 60]) simp_all
  show "dbl (of_int (h - 1) * float_val v) \<le> 2 ^ 60" by (rule dbl_le_pow [OF le])
qed

lemma moderate_baseline:
  assumes "moderate_trial t" "1 \<le> h" "h \<le> 2 ^ 20"
  shows "\<exists>b. baseline_total h t = Inr b \<and> 1 / 2 ^ 40 \<le> b \<and> b \<le> 2 ^ 61"
proof -
  let ?w = "dbl (of_int (h - 1) * float_val (it_baseline_warm_ms t))"
  let ?c = "float_val (it_baseline_cold_ms t)"
  have c: "1 / 2 ^ 40 \<le> ?c" "?c \<le> 2 ^ 40" and v: "moderate_time (it_baseline_warm_ms t)"
    using assms(1) by (simp_all add: moderate_trial_def moderate_time_def)
  note w = warm_part [OF v assms(2,3)]
  have le: "?c + ?w \<le> 2 ^ 61" and ge: "1 / 2 ^ 40 \<le> ?c + ?w" using c w by simp_all
  have "0 \<le> ?c + ?w" using ge order_trans [of 0 "1 / 2 ^ 40" "?c + ?w"] by simp
  then have "ieee (?c + ?w) = Inr (dbl (?c + ?w))" using le by (intro ieee_pow [of _ 61]) simp_all
  moreover have "float_of_int (h - 1) = Inr (of_int (h - 1))" using assms(2,3) by (intro float_of_int_exact) simp_all
  ultimately have "baseline_total h t = Inr (dbl (?c + ?w))" using w(1) by (simp add: baseline_total_def)
  moreover have "dbl (?c + ?w) \<le> 2 ^ 61" by (rule dbl_le_pow [OF le])
  moreover have "1 / 2 ^ 40 \<le> dbl (?c + ?w)" by (rule dbl_ge_inverse_pow [OF ge]) simp
  ultimately show ?thesis by blast
qed

lemma moderate_candidate:
  assumes "moderate_trial t" "1 \<le> h" "h \<le> 2 ^ 20" "0 \<le> float_val (be_setup_ms e)" "float_val (be_setup_ms e) \<le> 2 ^ 40"
    and "1 \<le> m" "m \<le> 2 ^ 41"
  shows "\<exists>c. candidate_total e m h t = Inr c \<and> 1 / 2 ^ 40 \<le> c \<and> c \<le> 2 ^ 102"
proof -
  let ?w = "dbl (of_int (h - 1) * float_val (it_candidate_warm_ms t))"
  let ?s = "float_val (be_setup_ms e) + float_val (it_candidate_cold_ms t)"
  have c: "1 / 2 ^ 40 \<le> float_val (it_candidate_cold_ms t)" "float_val (it_candidate_cold_ms t) \<le> 2 ^ 40"
    and v: "moderate_time (it_candidate_warm_ms t)"
    using assms(1) by (simp_all add: moderate_trial_def moderate_time_def)
  note w = warm_part [OF v assms(2,3)]
  have s: "1 / 2 ^ 40 \<le> ?s" "?s \<le> 2 ^ 41" using c assms(4,5) by simp_all
  then have "0 \<le> ?s" using order_trans [of 0 "1 / 2 ^ 40" ?s] by simp
  then have s1: "ieee ?s = Inr (dbl ?s)" using s by (intro ieee_pow [of _ 41]) simp_all
  have s2: "1 / 2 ^ 40 \<le> dbl ?s" "dbl ?s \<le> 2 ^ 41"
    by (rule dbl_ge_inverse_pow [OF s(1)], simp, rule dbl_le_pow [OF s(2)])
  have i: "1 / 2 ^ 40 \<le> dbl ?s + ?w" "dbl ?s + ?w \<le> 2 ^ 61" using s2 w by simp_all
  then have "0 \<le> dbl ?s + ?w" using order_trans [of 0 "1 / 2 ^ 40" "dbl ?s + ?w"] by simp
  then have i1: "ieee (dbl ?s + ?w) = Inr (dbl (dbl ?s + ?w))" using i by (intro ieee_pow [of _ 61]) simp_all
  have i2: "1 / 2 ^ 40 \<le> dbl (dbl ?s + ?w)" "dbl (dbl ?s + ?w) \<le> 2 ^ 61"
    by (rule dbl_ge_inverse_pow [OF i(1)], simp, rule dbl_le_pow [OF i(2)])
  let ?p = "dbl (dbl ?s + ?w) * m"
  have pos: "0 \<le> dbl (dbl ?s + ?w)" using i2(1) order_trans [of 0 "1 / 2 ^ 40" "dbl (dbl ?s + ?w)"] by simp
  have "?p \<le> 2 ^ 61 * 2 ^ 41" using i2 assms(6,7) pos by (intro mult_mono) simp_all
  then have le: "?p \<le> 2 ^ 102" by simp
  have "x \<le> x * m" if "0 \<le> x" for x using mult_left_mono [OF assms(6) that] by simp
  then have ge: "1 / 2 ^ 40 \<le> ?p" using i2(1) pos order_trans by blast
  have "0 \<le> ?p" using pos assms(6) by simp
  then have "ieee ?p = Inr (dbl ?p)" using le by (intro ieee_pow [of _ 102]) simp_all
  moreover have "float_of_int (h - 1) = Inr (of_int (h - 1))" using assms(2,3) by (intro float_of_int_exact) simp_all
  ultimately have "candidate_total e m h t = Inr (dbl ?p)" using w(1) s1 i1 by (simp add: candidate_total_def)
  moreover have "dbl ?p \<le> 2 ^ 102" by (rule dbl_le_pow [OF le])
  moreover have "1 / 2 ^ 40 \<le> dbl ?p" by (rule dbl_ge_inverse_pow [OF ge]) simp
  ultimately show ?thesis by blast
qed

lemma moderate_log_speedup:
  assumes "moderate_trial t" "1 \<le> h" "h \<le> 2 ^ 20" "0 \<le> float_val (be_setup_ms e)" "float_val (be_setup_ms e) \<le> 2 ^ 40"
    and "1 \<le> m" "m \<le> 2 ^ 41"
  shows "\<exists>l. log_speedup e m h t = Inr l \<and> - 142 \<le> l \<and> l \<le> 101"
proof -
  obtain b where b: "baseline_total h t = Inr b" "1 / 2 ^ 40 \<le> b" "b \<le> 2 ^ 61"
    using moderate_baseline [OF assms(1-3)] by blast
  obtain c where c: "candidate_total e m h t = Inr c" "1 / 2 ^ 40 \<le> c" "c \<le> 2 ^ 102"
    using moderate_candidate [OF assms] by blast
  have pos: "0 < b" "0 < c" using b(2) c(2) less_le_trans [of 0 "1 / 2 ^ 40 :: real"] by simp_all
  have "b / c \<le> 2 ^ 61 / (1 / 2 ^ 40)" using b c pos by (intro frac_le) simp_all
  then have le: "b / c \<le> 2 ^ 101" by simp
  have "(1 / 2 ^ 40) / 2 ^ 102 \<le> b / c" using b c pos by (intro frac_le) simp_all
  then have ge: "1 / 2 ^ 142 \<le> b / c" by simp
  have "ieee (b / c) = Inr (dbl (b / c))" using le pos by (intro ieee_pow [of _ 101]) simp_all
  moreover have r: "dbl (b / c) \<le> 2 ^ 101" "1 / 2 ^ 142 \<le> dbl (b / c)"
    using dbl_le_pow [OF le] dbl_ge_inverse_pow [OF ge] by simp_all
  moreover have q: "0 < dbl (b / c)" using r(2) less_le_trans [of 0 "1 / 2 ^ 142 :: real"] by simp
  ultimately have l: "log_speedup e m h t = Inr (fl (log 2 (dbl (b / c))))"
    using b(1) c(1) pos by (simp add: log_speedup_def ieee_div_def math_log2_def)
  have "log 2 (dbl (b / c)) \<le> log 2 (2 powr 101)" using q r(1) by (subst log_le_cancel_iff) simp_all
  then have "log 2 (dbl (b / c)) \<le> 101" by (simp only: log_powr_cancel)
  then have "fl (log 2 (dbl (b / c))) \<le> 101" using fl_of_int [of 101] by (intro fl.upper) simp_all
  moreover have "log 2 (2 powr (- 142)) \<le> log 2 (dbl (b / c))" using q r(2)
    by (subst log_le_cancel_iff) (simp_all add: powr_minus powr_numeral inverse_eq_divide)
  then have "- 142 \<le> log 2 (dbl (b / c))" by (simp only: log_powr_cancel)
  then have "- 142 \<le> fl (log 2 (dbl (b / c)))" using fl_of_int [of "- 142"] by (intro fl.lower) simp_all
  ultimately show ?thesis using l by blast
qed

text \<open>The statistics of values in an interval.\<close>

lemma small_int_exact:
  assumes "\<bar>k\<bar> \<le> 2 ^ 50"
  shows "dbl (of_int k) = of_int k" "fl (of_int k) = of_int k" "fl (of_int (2 * k)) = of_int (2 * k)"
    "dbl (of_int (2 * k)) = of_int (2 * k)"
proof -
  have "\<bar>k\<bar> \<le> 1125899906842624" using assms by simp
  then have "\<bar>k\<bar> \<le> 2 ^ 53" "\<bar>2 * k\<bar> \<le> 2 ^ 53" by (simp_all only: power_numeral) (simp, linarith?)+
  then show "dbl (of_int k) = of_int k" "fl (of_int k) = of_int k" "fl (of_int (2 * k)) = of_int (2 * k)"
    "dbl (of_int (2 * k)) = of_int (2 * k)" using dbl_of_int fl_of_int by blast+
qed

lemma below_2_50: "\<bar>k\<bar> \<le> 2 ^ 20 \<Longrightarrow> \<bar>k :: int\<bar> \<le> 2 ^ 50"
  by simp

lemma median_bounds:
  assumes "median xs = Inr m" "\<And>x. x \<in> set xs \<Longrightarrow> of_int lo \<le> x \<and> x \<le> of_int hi" "\<bar>lo\<bar> \<le> 2 ^ 50" "\<bar>hi\<bar> \<le> 2 ^ 50"
  shows "of_int lo \<le> m \<and> m \<le> of_int hi"
proof -
  let ?n = "length xs"
  have ne: "xs \<noteq> []" using assms(1) by (auto simp: median_def)
  then have n: "0 < ?n" by simp
  have a: "of_int lo \<le> sort xs ! (?n div 2)" "sort xs ! (?n div 2) \<le> of_int hi"
    using assms(2) sort_nth_mem [of "?n div 2" xs] n by simp_all
  show ?thesis
  proof (cases "odd ?n")
    case True
    then show ?thesis using assms(1) a ne by (simp add: median_def Let_def)
  next
    case False
    let ?b = "sort xs ! (?n div 2 - 1)" and ?a = "sort xs ! (?n div 2)"
    have b: "of_int lo \<le> ?b" "?b \<le> of_int hi"
      using assms(2) sort_nth_mem [of "?n div 2 - 1" xs] n by (simp_all add: less_imp_diff_less)
    have m: "m = dbl (fl (?b + ?a) / 2)" using False assms(1) ne by (simp add: median_def Let_def split: if_splits)
    have e: "fl (of_int (2 * lo)) = of_int (2 * lo)" "fl (of_int (2 * hi)) = of_int (2 * hi)"
      using small_int_exact assms(3,4) by blast+
    have "of_int (2 * lo) \<le> fl (?b + ?a)" "fl (?b + ?a) \<le> of_int (2 * hi)"
      using a b by (intro fl.lower [OF _ e(1)] fl.upper [OF _ e(2)]; simp)+
    moreover have "dbl (of_int lo) = of_int lo" "dbl (of_int hi) = of_int hi" using small_int_exact assms(3,4) by blast+
    ultimately show ?thesis unfolding m by (intro conjI dbl.lower dbl.upper) simp_all
  qed
qed

lemma fmean_bounds:
  assumes "fmean xs = Inr m" "\<And>x. x \<in> set xs \<Longrightarrow> of_int lo \<le> x \<and> x \<le> of_int hi" "\<bar>lo\<bar> \<le> 2 ^ 20" "\<bar>hi\<bar> \<le> 2 ^ 20"
    and "int (length xs) \<le> 2 ^ 30"
  shows "of_int lo \<le> m \<and> m \<le> of_int hi"
proof -
  let ?n = "length xs"
  have ne: "xs \<noteq> []" and m: "m = dbl (fsum xs / real ?n)" using assms(1) by (auto simp: fmean_def split: if_splits)
  have b: "real ?n * of_int lo \<le> sum_list xs" "sum_list xs \<le> real ?n * of_int hi"
    using sum_list_bounds [of xs "of_int lo" "of_int hi"] assms(2) by auto
  have small: "\<bar>int ?n * k\<bar> \<le> 2 ^ 53" if "\<bar>k\<bar> \<le> 2 ^ 20" for k :: int
  proof -
    have "\<bar>int ?n * k\<bar> \<le> 2 ^ 30 * 2 ^ 20" unfolding abs_mult using assms(5) that by (intro mult_mono) simp_all
    then show ?thesis by simp
  qed
  have e: "fl (real ?n * of_int k) = real ?n * of_int k" if "\<bar>k\<bar> \<le> 2 ^ 20" for k
    using fl_of_int [OF small [OF that]] by simp
  have s: "real ?n * of_int lo \<le> fsum xs" "fsum xs \<le> real ?n * of_int hi"
    unfolding fsum_def by (rule fl.lower [OF b(1) e [OF assms(3)]], rule fl.upper [OF b(2) e [OF assms(4)]])
  then have "of_int lo \<le> fsum xs / real ?n" "fsum xs / real ?n \<le> of_int hi"
    using ne by (simp_all add: field_simps)
  moreover have "dbl (of_int lo) = of_int lo" "dbl (of_int hi) = of_int hi" using small_int_exact(1) [OF below_2_50] assms(3,4) by blast+
  ultimately show ?thesis unfolding m by (intro conjI dbl.lower dbl.upper) simp_all
qed

lemma winsorized_mean_bounds:
  assumes "winsorized_mean xs f w = Inr m" "\<And>x. x \<in> set xs \<Longrightarrow> of_int lo \<le> x \<and> x \<le> of_int hi" "\<bar>lo\<bar> \<le> 2 ^ 20" "\<bar>hi\<bar> \<le> 2 ^ 20"
    and "int (length xs) \<le> 2 ^ 30"
  shows "of_int lo \<le> m \<and> m \<le> of_int hi"
proof -
  obtain ws where ws: "fmean ws = Inr m" "length ws = length xs" "\<forall>x \<in> set ws. \<exists>a \<in> set xs. \<exists>b \<in> set xs. a \<le> x \<and> x \<le> b"
    using winsorized_mean_cases [OF assms(1)] by blast
  show ?thesis
  proof (rule fmean_bounds [OF ws(1) _ assms(3,4)])
    fix x assume "x \<in> set ws"
    then show "of_int lo \<le> x \<and> x \<le> of_int hi" using ws(3) assms(2) by (meson order_trans)
  qed (use assms(5) ws(2) in simp)
qed

lemma standard_error_bound:
  assumes "robust_standard_error xs = Inr se" "\<And>x. x \<in> set xs \<Longrightarrow> of_int lo \<le> x \<and> x \<le> of_int hi"
    and "\<bar>lo\<bar> \<le> 2 ^ 20" "\<bar>hi\<bar> \<le> 2 ^ 20" "lo \<le> hi" "3 * (hi - lo) \<le> 2 * b" "\<bar>b\<bar> \<le> 2 ^ 50"
  shows "se \<le> of_int b"
proof (cases "length xs < 2")
  case True
  then show ?thesis using assms(1,5,6) by (simp add: robust_standard_error_def)
next
  case False
  obtain c where c: "median xs = Inr c" using assms(1) False by (auto simp: robust_standard_error_def)
  obtain mad where mad: "median (map (\<lambda>v. \<bar>fl (v - c)\<bar>) xs) = Inr mad"
    and se: "se = dbl (dbl (fl (14826 / 10000) * mad) / fl (sqrt (real (length xs))))"
    using assms(1) False c by (auto simp: robust_standard_error_def)
  have cb: "of_int lo \<le> c \<and> c \<le> of_int hi"
    by (rule median_bounds [OF c assms(2) below_2_50 [OF assms(3)] below_2_50 [OF assms(4)]])
  have "\<bar>lo\<bar> \<le> 1048576" "\<bar>hi\<bar> \<le> 1048576" using assms(3,4) by simp_all
  then have "\<bar>hi - lo\<bar> \<le> 2097152" by linarith
  then have diff: "\<bar>hi - lo\<bar> \<le> 2 ^ 50" by simp
  note e = small_int_exact(2) [OF diff]
  have "\<bar>fl (v - c)\<bar> \<le> of_int (hi - lo)" if "v \<in> set xs" for v
    using assms(2) [OF that] cb by (intro fl.bound [OF _ e]) (simp add: abs_le_iff)
  then have "of_int 0 \<le> mad \<and> mad \<le> of_int (hi - lo)"
    by (intro median_bounds [OF mad]) (use assms(5) diff in auto)
  then have m: "0 \<le> mad" "mad \<le> of_int (hi - lo)" by simp_all
  have "fl (3 / 2) = 3 / 2" by (rule fl_dyadic [of _ 1 3]) simp_all
  then have k: "0 \<le> fl (14826 / 10000)" "fl (14826 / 10000) \<le> 3 / 2"
    using fl.upper [of "14826 / 10000" "3 / 2"] by (simp_all add: fl.nonneg)
  have "fl (14826 / 10000) * mad \<le> 3 / 2 * of_int (hi - lo)" using k m by (intro mult_mono) simp_all
  moreover have "3 / 2 * of_int (hi - lo) \<le> real_of_int b"
  proof -
    have "real_of_int (3 * (hi - lo)) \<le> of_int (2 * b)" using assms(6) by (simp only: of_int_le_iff)
    then show ?thesis by simp
  qed
  ultimately have le: "fl (14826 / 10000) * mad \<le> of_int b" by simp
  note i = small_int_exact(1) [OF assms(7)]
  have d: "dbl (fl (14826 / 10000) * mad) \<le> of_int b" by (rule dbl.upper [OF le i])
  have "1 \<le> sqrt (real (length xs))" using False by simp
  then have q: "1 \<le> fl (sqrt (real (length xs)))" by (rule fl.ge_one)
  have "0 \<le> dbl (fl (14826 / 10000) * mad)" using k m by (intro dbl.nonneg) simp
  then have "dbl (fl (14826 / 10000) * mad) / fl (sqrt (real (length xs))) \<le> dbl (fl (14826 / 10000) * mad) / 1"
    using q by (intro divide_left_mono) simp_all
  with d have "dbl (fl (14826 / 10000) * mad) / fl (sqrt (real (length xs))) \<le> of_int b" by simp
  then show ?thesis unfolding se by (rule dbl.upper [OF _ i])
qed

lemma moderate_horizon:
  assumes "valid_policy p" "valid_evidence e" "moderate_policy p" "moderate_evidence e"
    and "set completed \<subseteq> set (be_trials e)" "completed \<noteq> []" "length completed \<le> length (be_trials e)"
    and "h \<in> set (bp_horizons p)" "1 \<le> m" "m \<le> 2 ^ 41"
  shows "\<exists>s. score_horizon e p m completed h = Inr s"
proof -
  note pol = valid_policyD [OF assms(1)]
  have h: "1 \<le> h" "h \<le> 2 ^ 20" using pol(2) [OF assms(8)] assms(3,8) by (auto simp: moderate_policy_def list_all_iff)
  have su: "0 \<le> float_val (be_setup_ms e)" "float_val (be_setup_ms e) \<le> 2 ^ 40"
    using valid_evidenceD(1) [OF assms(2)] assms(4) by (simp_all add: moderate_evidence_def)
  define lg where "lg t = projr (log_speedup e m h t)" for t
  have one: "log_speedup e m h t = Inr (lg t) \<and> - 142 \<le> lg t \<and> lg t \<le> 101" if "t \<in> set completed" for t
  proof -
    have "moderate_trial t" using that assms(4,5) by (auto simp: moderate_evidence_def list_all_iff)
    from moderate_log_speedup [OF this h su assms(9,10)] show ?thesis by (auto simp: lg_def)
  qed
  define ls where "ls = map lg completed"
  have logs: "rmap (log_speedup e m h) completed = Inr ls" unfolding ls_def by (rule rmap_map) (use one in blast)
  have range: "of_int (- 142) \<le> l \<and> l \<le> of_int 101" if "l \<in> set ls" for l using that one by (auto simp: ls_def)
  obtain c where c: "winsorized_mean ls (float_val (bp_winsor_fraction p)) 1 = Inr c"
    using winsorized_mean_ok [of ls "float_val (bp_winsor_fraction p)" 1] assms(6) pol(6,7) by (auto simp: ls_def)
  obtain se where se: "robust_standard_error ls = Inr se" "0 \<le> se" using robust_standard_error_ok by blast
  have "int (length ls) \<le> 2 ^ 30" using assms(4,7) by (simp add: ls_def moderate_evidence_def)
  from winsorized_mean_bounds [OF c range _ _ this] have cb: "- 142 \<le> c" "c \<le> 101" by simp_all
  have seb: "se \<le> 365" using standard_error_bound [OF se(1) range, of 365] by simp
  define z where "z = float_val (bp_confidence_z p)"
  have z: "0 \<le> z" "z \<le> 2" using pol(8) assms(3) by (simp_all add: z_def moderate_policy_def)
  have "z * se \<le> 2 * 365" using z seb se(2) by (intro mult_mono) simp_all
  then have zs: "0 \<le> z * se" "z * se \<le> of_int 730" using z se(2) by simp_all
  then have m1: "ieee (z * se) = Inr (dbl (z * se))" by (intro ieee_pow [of _ 10]) simp_all
  have mb: "0 \<le> dbl (z * se)" "dbl (z * se) \<le> of_int 730"
    using zs dbl.upper [OF zs(2) dbl_of_int] by (simp_all add: dbl.nonneg)
  let ?lb = "dbl (c - dbl (z * se))"
  have l1: "ieee (c - dbl (z * se)) = Inr ?lb" using cb mb by (intro ieee_pow [of _ 10]) (simp_all add: abs_le_iff)
  have lb: "of_int (- 872) \<le> ?lb" "?lb \<le> of_int 101"
    using cb mb by (intro dbl.lower [OF _ dbl_of_int]; simp) (use cb mb in \<open>intro dbl.upper [OF _ dbl_of_int]; simp\<close>)
  have p1: "two_power c = Inr (dbl (2 powr c))"
  proof -
    have "2 powr c \<le> 2 powr 101" using cb by (intro powr_mono) simp_all
    then have "\<bar>2 powr c\<bar> \<le> 2 ^ 101" by (simp add: powr_numeral)
    then show ?thesis unfolding two_power_def by (rule or_overflow_pow) simp
  qed
  let ?lc = "dbl (2 powr ?lb)"
  have le: "2 powr ?lb \<le> 2 ^ 101"
  proof -
    have "2 powr ?lb \<le> 2 powr 101" using lb by (intro powr_mono) simp_all
    then show ?thesis by (simp add: powr_numeral)
  qed
  then have p2: "two_power ?lb = Inr ?lc" unfolding two_power_def by (intro or_overflow_pow [of _ 101]) simp_all
  have "2 powr (- 872) \<le> 2 powr ?lb" using lb by (intro powr_mono) simp_all
  then have "1 / 2 ^ 872 \<le> 2 powr ?lb" by (simp only: powr_minus powr_numeral inverse_eq_divide)
  then have lc: "1 / 2 ^ 872 \<le> ?lc" by (rule dbl_ge_inverse_pow) simp
  have lc0: "0 < ?lc" by (rule less_le_trans [OF _ lc]) simp
  have "1 / ?lc \<le> 1 / (1 / 2 ^ 872)" using lc lc0 by (intro divide_left_mono) simp_all
  then have inv: "\<bar>1 / ?lc\<bar> \<le> 2 ^ 872" using lc0 by simp
  then have i1: "ieee (1 / ?lc) = Inr (dbl (1 / ?lc))" by (rule ieee_pow) simp
  have "0 \<le> dbl (1 / ?lc)" "dbl (1 / ?lc) \<le> 2 ^ 872"
    using lc0 by (simp add: dbl.nonneg) (use dbl.bound [OF inv dbl_pow] in \<open>simp only: abs_le_iff\<close>)
  then have "\<bar>1 - dbl (1 / ?lc)\<bar> \<le> 2 ^ 872" by (simp add: abs_le_iff) 
  then have i2: "ieee (1 - dbl (1 / ?lc)) = Inr (dbl (1 - dbl (1 / ?lc)))" by (rule ieee_pow) simp
  have "savings_of ?lc = Inr (max 0 (min 1 (dbl (1 - dbl (1 / ?lc)))))"
    using lc0 by (simp add: savings_of_def ieee_div_def i1 i2)
  then show ?thesis by (simp add: score_horizon_def logs c se(1) m1 l1 p1 p2 flip: z_def)
qed

lemma moderate_horizons:
  assumes "valid_policy p" "valid_evidence e" "moderate_policy p" "moderate_evidence e"
    and "set completed \<subseteq> set (be_trials e)" "completed \<noteq> []" "length completed \<le> length (be_trials e)" "1 \<le> m" "m \<le> 2 ^ 41"
  shows "\<exists>scores ws. score_horizons e p m completed = Inr (scores, ws) \<and> 0 \<le> ws \<and> ws \<le> 2 ^ 22"
proof -
  note pol = valid_policyD [OF assms(1)]
  have fold: "\<exists>scores' ws. rfold (weigh_horizon e p m completed) (scores, acc) hws = Inr (scores', ws) \<and> 0 \<le> ws
      \<and> ws \<le> of_int (n + 2 * int (length hws))"
    if "set hws \<subseteq> set (zip (bp_horizons p) (bp_horizon_weights p))" "0 \<le> acc" "acc \<le> of_int n" "0 \<le> n"
      "n + 2 * int (length hws) \<le> 2 ^ 22" for scores acc hws n
    using that
  proof (induction hws arbitrary: scores acc n)
    case (Cons hw hws)
    obtain h w where hw: "hw = (h, w)" by (cases hw)
    have mem: "h \<in> set (bp_horizons p)" "w \<in> set (bp_horizon_weights p)"
      using Cons.prems(1) by (auto simp: hw dest: set_zip_leftD set_zip_rightD)
    have w: "0 \<le> float_val w" "float_val w \<le> 2"
      using pol(4) [OF mem(2)] mem(2) assms(3) by (simp_all add: moderate_policy_def list_all_iff)
    obtain s where s: "score_horizon e p m completed h = Inr s"
      using moderate_horizon [OF assms(1-7) mem(1) assms(8,9)] by blast
    have sav: "0 \<le> hs_relative_savings s" "hs_relative_savings s \<le> 1" using score_horizon_facts [OF assms(1) s] by simp_all
    let ?x = "float_val w * hs_relative_savings s"
    have "?x \<le> 2 * 1" using w sav by (intro mult_mono) simp_all
    then have x: "0 \<le> ?x" "?x \<le> of_int 2" using w sav by simp_all
    have x1: "ieee ?x = Inr (dbl ?x)" using x by (intro ieee_pow [of _ 1]) simp_all
    have x2: "0 \<le> dbl ?x" "dbl ?x \<le> 2" using x(1) dbl.upper [OF x(2) dbl_of_int] by (simp_all add: dbl.nonneg)
    have n2: "\<bar>n + 2\<bar> \<le> 2 ^ 22" using Cons.prems(4,5) by simp
    then have n3: "\<bar>n + 2\<bar> \<le> 2 ^ 53" by simp
    have a: "0 \<le> acc + dbl ?x" "acc + dbl ?x \<le> of_int (n + 2)" using Cons.prems(2,3) x2 by simp_all
    have "real_of_int (n + 2) \<le> of_int (2 ^ 22)" using n2 by (simp only: of_int_le_iff)
    then have a1: "ieee (acc + dbl ?x) = Inr (dbl (acc + dbl ?x))" using a by (intro ieee_pow [of _ 22]) simp_all
    have a2: "0 \<le> dbl (acc + dbl ?x)" "dbl (acc + dbl ?x) \<le> of_int (n + 2)"
      using a(1) dbl.upper [OF a(2) dbl_of_int [OF n3]] by (simp_all add: dbl.nonneg)
    have "weigh_horizon e p m completed (scores, acc) (h, w) = Inr (scores @ [s], dbl (acc + dbl ?x))"
      by (simp add: weigh_horizon_def s x1 a1)
    then have step: "rfold (weigh_horizon e p m completed) (scores, acc) (hw # hws)
        = rfold (weigh_horizon e p m completed) (scores @ [s], dbl (acc + dbl ?x)) hws" by (simp only: hw rfold.simps rbind_Inr)
    have sub: "set hws \<subseteq> set (zip (bp_horizons p) (bp_horizon_weights p))" "0 \<le> n + 2" "n + 2 + 2 * int (length hws) \<le> 2 ^ 22"
      using Cons.prems by simp_all
    have "n + 2 + 2 * int (length hws) = n + 2 * int (length (hw # hws))" by simp
    with Cons.IH [OF sub(1) a2 sub(2,3)] show ?case unfolding step by metis
  qed auto
  have "int (length (zip (bp_horizons p) (bp_horizon_weights p))) \<le> 2 ^ 20"
    using assms(3) pol(3) by (simp add: moderate_policy_def)
  then have len: "0 + 2 * int (length (zip (bp_horizons p) (bp_horizon_weights p))) \<le> 2 ^ 22" by simp
  obtain scores ws where r: "rfold (weigh_horizon e p m completed) ([], 0) (zip (bp_horizons p) (bp_horizon_weights p)) = Inr (scores, ws)"
    "0 \<le> ws" "ws \<le> of_int (0 + 2 * int (length (zip (bp_horizons p) (bp_horizon_weights p))))"
    using fold [of "zip (bp_horizons p) (bp_horizon_weights p)" 0 0 "[]"] len by auto
  have "real_of_int (0 + 2 * int (length (zip (bp_horizons p) (bp_horizon_weights p)))) \<le> of_int (2 ^ 22)"
    using len by (simp only: of_int_le_iff)
  with r show ?thesis using pol(3) by (simp add: score_horizons_def)
qed

lemma moderate_scored:
  assumes "valid_policy p" "valid_evidence e" "moderate_policy p" "moderate_evidence e"
  shows "\<exists>s. score_benchmark e p = Inr s"
proof -
  note pol = valid_policyD [OF assms(1)] and ev = valid_evidenceD [OF assms(2)]
  let ?r = "of_int (be_artifact_storage_bytes e) / of_int (be_database_bytes e) :: real"
  have "real_of_int (be_artifact_storage_bytes e) \<le> of_int (2 ^ 20 * be_database_bytes e)"
    using assms(4) unfolding moderate_evidence_def by (simp only: of_int_le_iff)
  then have r: "0 \<le> ?r" "?r \<le> 2 ^ 20" using ev(2,3) by (simp_all add: divide_le_eq)
  have r1: "int_div (be_artifact_storage_bytes e) (be_database_bytes e) = Inr (dbl ?r)"
    using ev(3) r or_overflow_pow [of ?r 20] by (simp add: int_div_def)
  have r2: "0 \<le> dbl ?r" "dbl ?r \<le> 2 ^ 20" by (rule dbl.nonneg [OF r(1)], rule dbl_le_pow [OF r(2)])
  from assms(1) have "\<exists>s. gate_benchmark e p (dbl ?r) = Inr s"
  proof (cases rule: gate_benchmark_cases [of p e "dbl ?r"])
    case (scored worker rate)
    let ?finished = "filter (\<lambda>t. \<not> it_candidate_timed_out t) (be_trials e)"
    let ?x = "dbl ?r * float_val (bp_storage_penalty_at_database_size p)"
    have "?x \<le> 2 ^ 20 * 2 ^ 20" using r2 pol(11) assms(3) by (intro mult_mono) (simp_all add: moderate_policy_def)
    then have x: "0 \<le> ?x" "?x \<le> 2 ^ 40" using r2 pol(11) by simp_all
    have x1: "ieee ?x = Inr (dbl ?x)" using x by (intro ieee_pow [of _ 40]) simp_all
    have x2: "0 \<le> dbl ?x" "dbl ?x \<le> 2 ^ 40" using x(1) dbl_le_pow [OF x(2)] by (simp_all add: dbl.nonneg)
    then have y: "1 + dbl ?x \<le> 2 ^ 41" by simp
    have y1: "ieee (1 + dbl ?x) = Inr (dbl (1 + dbl ?x))" using x2 y by (intro ieee_pow [of _ 41]) simp_all
    have m: "1 \<le> dbl (1 + dbl ?x)" "dbl (1 + dbl ?x) \<le> 2 ^ 41" using x2(1) dbl_le_pow [OF y] by (simp_all add: dbl.ge_one)
    have "2 \<le> length ?finished" using scored(1) by (simp add: gates_passed_def)
    then have "?finished \<noteq> []" by auto
    then obtain scores ws where h: "score_horizons e p (dbl (1 + dbl ?x)) ?finished = Inr (scores, ws)" "0 \<le> ws" "ws \<le> 2 ^ 22"
      using moderate_horizons [OF assms, of ?finished "dbl (1 + dbl ?x)"] m by auto
    have f: "100 * ws \<le> 2 ^ 29" using h(3) by simp
    have f1: "ieee (100 * ws) = Inr (dbl (100 * ws))" using h(2) f by (intro ieee_pow [of _ 29]) simp_all
    have f2: "0 \<le> dbl (100 * ws)" "dbl (100 * ws) \<le> 2 ^ 29" using h(2) dbl_le_pow [OF f] by (simp_all add: dbl.nonneg)
    define rel where "rel = dbl ((dbl (1 - rate)) ^ 2)"
    have "rate \<le> 1" using scored(3) pol(10) by simp
    then have "0 \<le> dbl (1 - rate)" "dbl (1 - rate) \<le> 1" using scored(2) by (auto intro!: dbl.nonneg dbl.le_one)
    then have rel: "0 \<le> rel" "rel \<le> 1" unfolding rel_def by (auto intro!: dbl.nonneg dbl.le_one power_le_one)
    have "dbl (100 * ws) * rel \<le> 2 ^ 29 * 1" using f2 rel by (intro mult_mono) simp_all
    then have "ieee (dbl (100 * ws) * rel) = Inr (dbl (dbl (100 * ws) * rel))" using f2 rel by (intro ieee_pow [of _ 29]) simp_all
    then show ?thesis by (simp add: scored(4) score_completed_def x1 y1 h(1) f1 Let_def flip: rel_def)
  qed blast
  then show ?thesis by (simp add: score_benchmark_def r1)
qed

lemma default_policy_moderate: "moderate_policy DEFAULT_BENCHMARK_POLICY"
proof -
  have "fl x \<le> 2" if "x \<le> 2" for x using fl.upper [OF that] fl_of_int [of 2] by simp
  moreover have "fl (10 / 100) \<le> 2 ^ 20" using fl.upper [of "10 / 100" "2 ^ 20"] fl_of_int [of "2 ^ 20"] by simp
  ultimately show ?thesis by (simp add: moderate_policy_def DEFAULT_BENCHMARK_POLICY_def HORIZONS_def)
qed

lemma dbl_unit: "1 / 2 ^ 53 \<le> x \<Longrightarrow> dbl x = fl x"
proof -
  assume x: "1 / 2 ^ 53 \<le> x"
  have "min_normal \<le> 2 powr (- 53)" unfolding min_normal_def by (intro powr_mono) simp_all
  also have "2 powr (- 53) = (1 / 2 ^ 53 :: real)" by (simp only: powr_minus powr_numeral inverse_eq_divide)
  finally show ?thesis using x by (intro dbl_normal) simp
qed

lemma default_weights_bound: "savings_bound (bp_horizon_weights DEFAULT_BENCHMARK_POLICY) = 1"
proof -
  have w: "fl (15 / 100) = 5404319552844595 / 2 ^ 55" "fl (30 / 100) = 5404319552844595 / 2 ^ 54"
    by (subst fl_nearest [where k = 55 and m = 5404319552844595], simp_all,
        subst fl_nearest [where k = 54 and m = 5404319552844595], simp_all)
  have q: "fl (25 / 100) = 1 / 4" by (rule trans [OF fl_dyadic [where k = 2 and m = 1]]) simp_all
  have 1: "fl (5404319552844595 / 2 ^ 55 + 1 / 4) = 7205759403792794 / 2 ^ 54"
    by (subst fl_nearest [where k = 54 and m = 7205759403792794]) simp_all
  have 2: "fl (7205759403792794 / 2 ^ 54 + 5404319552844595 / 2 ^ 54) = 6305039478318694 / 2 ^ 53"
    by (subst fl_nearest [where k = 53 and m = 6305039478318694]) simp_all
  have 3: "fl (6305039478318694 / 2 ^ 53 + 5404319552844595 / 2 ^ 54) = 1"
    by (subst fl_nearest [where k = 53 and m = 9007199254740992]) simp_all
  have d: "dbl (5404319552844595 / 2 ^ 55) = 5404319552844595 / 2 ^ 55" "dbl (1 / 4) = 1 / 4"
    "dbl (5404319552844595 / 2 ^ 54) = 5404319552844595 / 2 ^ 54"
    using fl_idem [of "15 / 100"] fl_idem [of "25 / 100"] fl_idem [of "30 / 100"] unfolding w q by (simp_all add: dbl_unit)
  have "savings_bound (bp_horizon_weights DEFAULT_BENCHMARK_POLICY) =
      dbl (dbl (dbl (dbl (dbl (fl (15 / 100))) + dbl (fl (25 / 100))) + dbl (fl (30 / 100))) + dbl (fl (30 / 100)))"
    by (simp add: savings_bound_def DEFAULT_BENCHMARK_POLICY_def)
  also have "\<dots> = dbl (dbl (dbl (5404319552844595 / 2 ^ 55 + 1 / 4) + 5404319552844595 / 2 ^ 54) + 5404319552844595 / 2 ^ 54)"
    by (simp only: w q d)
  also have "dbl (5404319552844595 / 2 ^ 55 + 1 / 4) = 7205759403792794 / 2 ^ 54"
    by (subst dbl_unit) (simp, rule 1)
  also have "dbl (7205759403792794 / 2 ^ 54 + 5404319552844595 / 2 ^ 54) = 6305039478318694 / 2 ^ 53"
    by (subst dbl_unit) (simp, rule 2)
  also have "dbl (6305039478318694 / 2 ^ 53 + 5404319552844595 / 2 ^ 54) = 1"
    by (subst dbl_unit) (simp, rule 3)
  finally show ?thesis .
qed

end
