(* ===== verification/Aggregation.thy ===== *)
theory Aggregation
  imports Scoring "HOL-Library.Product_Lexorder"
begin

text \<open>
  Multi-epoch aggregation of \<open>planrace/scoring_v2.py\<close>: observations against a closed task
  schedule, the evaluate-once accounting of duplicate strategies, and the gated aggregate
  of one miner. Dictionaries are association lists in insertion order.
\<close>

section \<open>Observations, schedule and policy\<close>

record epoch_observation =
  eo_miner_id :: string
  eo_epoch :: int
  eo_family :: string
  eo_task_id :: string
  eo_task_commitment :: string
  eo_evidence_digest :: string
  eo_reward :: pyfloat
  eo_available :: bool
  eo_correct :: bool
  eo_compliant :: bool
  eo_strategy_digest :: string
  eo_behavior_digest :: string
  eo_duplicate_group_size :: int

definition epoch_observation_check :: "epoch_observation \<Rightarrow> unit result" where
  "epoch_observation_check ob =
     rbind (rcheck (list_all (\<lambda>s. s \<noteq> []) [eo_miner_id ob, eo_family ob, eo_task_id ob, eo_task_commitment ob,
                eo_evidence_digest ob, eo_strategy_digest ob, eo_behavior_digest ob])
              (ValueError ''observation identity, task, evidence, and strategy are required'')) (\<lambda>_.
     rbind (rcheck (\<not> eo_epoch ob < 0) (ValueError ''epoch must be non-negative'')) (\<lambda>_.
     rbind (require_finite_non_negative ''reward'' (eo_reward ob)) (\<lambda>_.
     rbind (rcheck (\<not> float_lt (Fin 100) (eo_reward ob)) (ValueError ''reward cannot exceed 100'')) (\<lambda>_.
       rcheck (\<not> eo_duplicate_group_size ob < 1) (ValueError ''duplicate_group_size must be positive'')))))"

definition valid_observation :: "epoch_observation \<Rightarrow> bool" where
  "valid_observation ob \<longleftrightarrow> is_ok (epoch_observation_check ob)"

definition eo_value :: "epoch_observation \<Rightarrow> real" where
  "eo_value ob = float_val (eo_reward ob)"

record scheduled_task =
  st_epoch :: int
  st_family :: string
  st_task_id :: string
  st_task_commitment :: string

definition scheduled_task_check :: "scheduled_task \<Rightarrow> unit result" where
  "scheduled_task_check t =
     rcheck (\<not> (st_epoch t < 0 \<or> st_family t = [] \<or> st_task_id t = [] \<or> st_task_commitment t = []))
       (ValueError ''scheduled task fields are required'')"

record aggregation_policy =
  ap_required_families :: "string list"
  ap_task_schedule :: "scheduled_task list"
  ap_minimum_tasks :: int
  ap_minimum_tasks_per_family :: int
  ap_minimum_availability :: pyfloat
  ap_minimum_compliance :: pyfloat
  ap_minimum_correctness :: pyfloat
  ap_winsor_fraction :: pyfloat
  ap_confidence_z :: pyfloat
  ap_maximum_weight :: pyfloat
  ap_minimum_distinct_strategies :: int

definition family_count :: "string \<Rightarrow> string list \<Rightarrow> int" where
  "family_count family fs = int (length (filter (\<lambda>f. f = family) fs))"

definition aggregation_policy_check :: "aggregation_policy \<Rightarrow> unit result" where
  "aggregation_policy_check p =
     (let families = ap_required_families p; tasks = ap_task_schedule p;
          n = int (length families) in
     rbind (rcheck (families \<noteq> [] \<and> distinct families)
              (ValueError ''required_families must be unique and non-empty'')) (\<lambda>_.
     rbind (rcheck (tasks \<noteq> []) (ValueError ''a precommitted task_schedule is required'')) (\<lambda>_.
     rbind (rcheck (distinct (map st_task_id tasks) \<and> distinct (map st_task_commitment tasks)
                \<and> distinct (map st_epoch tasks))
              (ValueError ''scheduled task IDs, commitments, and epochs must be unique'')) (\<lambda>_.
     rbind (rcheck (list_all (\<lambda>t. st_family t \<in> set families) tasks)
              (ValueError ''schedule contains a family outside required_families'')) (\<lambda>_.
     rbind (rcheck (\<not> ap_minimum_tasks p < n)
              (ValueError ''minimum_tasks cannot be smaller than the family count'')) (\<lambda>_.
     rbind (rcheck (\<not> ap_minimum_tasks_per_family p < 1)
              (ValueError ''minimum_tasks_per_family must be positive'')) (\<lambda>_.
     rbind (rcheck (\<not> ap_minimum_tasks p < ap_minimum_tasks_per_family p * n)
              (ValueError ''minimum_tasks cannot satisfy the per-family quota'')) (\<lambda>_.
     rbind (rcheck (\<not> int (length tasks) < ap_minimum_tasks p)
              (ValueError ''minimum_tasks cannot exceed the schedule'')) (\<lambda>_.
     rbind (rcheck (\<not> list_ex (\<lambda>f. family_count f (map st_family tasks) < ap_minimum_tasks_per_family p) families)
              (ValueError ''task_schedule cannot satisfy the per-family quota'')) (\<lambda>_.
     rbind (rcheck (in_unit (ap_minimum_availability p)) (ValueError ''minimum_availability must be in [0, 1]'')) (\<lambda>_.
     rbind (rcheck (in_unit (ap_minimum_compliance p)) (ValueError ''minimum_compliance must be in [0, 1]'')) (\<lambda>_.
     rbind (rcheck (in_unit (ap_minimum_correctness p)) (ValueError ''minimum_correctness must be in [0, 1]'')) (\<lambda>_.
     rbind (rcheck (in_half_open (ap_winsor_fraction p) (1 / 2))
              (ValueError ''winsor_fraction must be in [0, 0.5)'')) (\<lambda>_.
     rbind (require_finite_non_negative ''confidence_z'' (ap_confidence_z p)) (\<lambda>_.
     rbind (rcheck (float_lt (Fin 0) (ap_maximum_weight p) \<and> float_le (ap_maximum_weight p) (Fin 1))
              (ValueError ''maximum_weight must be in (0, 1]'')) (\<lambda>_.
       rcheck (\<not> ap_minimum_distinct_strategies p < 1)
         (ValueError ''minimum_distinct_strategies must be positive'')))))))))))))))))"

definition valid_aggregation_policy :: "aggregation_policy \<Rightarrow> bool" where
  "valid_aggregation_policy p \<longleftrightarrow> is_ok (aggregation_policy_check p)
     \<and> list_all (\<lambda>t. is_ok (scheduled_task_check t)) (ap_task_schedule p)"

section \<open>Evaluate-once accounting\<close>

type_synonym task_metadata = "int \<times> string \<times> string"

definition counts_for_reward :: "epoch_observation \<Rightarrow> bool" where
  "counts_for_reward ob \<longleftrightarrow> eo_available ob \<and> eo_compliant ob \<and> eo_correct ob"

text \<open>The first loop: the metadata seen per task, the groups and the untouched observations.\<close>

definition group_step ::
  "(string, task_metadata) dict \<times> (string \<times> string, epoch_observation list) dict \<times> epoch_observation list
    \<Rightarrow> epoch_observation
    \<Rightarrow> ((string, task_metadata) dict \<times> (string \<times> string, epoch_observation list) dict \<times> epoch_observation list) result" where
  "group_step = (\<lambda>(task_metadata, groups, untouched) ob.
     let metadata = (eo_epoch ob, eo_family ob, eo_task_commitment ob);
         previous = (case map_of task_metadata (eo_task_id ob) of Some m \<Rightarrow> m | None \<Rightarrow> metadata);
         task_metadata' = (if map_of task_metadata (eo_task_id ob) = None
           then AList.update (eo_task_id ob) metadata task_metadata else task_metadata)
     in rbind (rcheck (previous = metadata) (ValueError ''task_id maps to inconsistent schedule metadata'')) (\<lambda>_.
        if counts_for_reward ob
        then Inr (task_metadata', dict_append (eo_task_commitment ob, eo_strategy_digest ob) ob groups, untouched)
        else Inr (task_metadata', groups, untouched @ [ob])))"

text \<open>One group: the shared reward of its members. \<open>dataclasses.replace\<close> validates again.\<close>

definition share_reward :: "real \<Rightarrow> nat \<Rightarrow> epoch_observation \<Rightarrow> epoch_observation result" where
  "share_reward shared group_size ob =
     (let ob' = ob\<lparr>eo_reward := Fin shared, eo_duplicate_group_size := int group_size\<rparr>
      in rbind (epoch_observation_check ob') (\<lambda>_. Inr ob'))"

definition share_group :: "epoch_observation list \<Rightarrow> epoch_observation list result" where
  "share_group members =
     rbind (rcheck (distinct (map eo_miner_id members))
              (ValueError ''duplicate miner observation for one task strategy'')) (\<lambda>_.
      let rewards = map eo_value members; group_size = length members
      in rbind (rcheck (\<not> (card (set (map eo_evidence_digest members)) \<noteq> 1
                 \<or> fl (1 / 10 ^ 9) < fl (Max (set rewards) - Min (set rewards))))
              (ValueError ''cached duplicate strategy evidence is inconsistent'')) (\<lambda>_.
         rmap (share_reward (fl (hd rewards / real group_size)) group_size) members))"

definition deduplicate_task_rewards :: "epoch_observation list \<Rightarrow> epoch_observation list result" where
  "deduplicate_task_rewards observations =
     rbind (rfold group_step ([], [], []) observations) (\<lambda>(_, groups, untouched).
     rbind (rmap share_group (dict_values groups)) (\<lambda>shared.
       Inr (sort_key (\<lambda>ob. (eo_miner_id ob, eo_epoch ob)) (untouched @ concat shared))))"

section \<open>One miner's aggregate\<close>

record miner_aggregate =
  ma_miner_id :: string
  ma_eligible :: bool
  ma_reward :: real
  ma_center :: real
  ma_uncertainty :: real
  ma_availability :: real
  ma_compliance :: real
  ma_correctness :: real
  ma_task_count :: int
  ma_family_scores :: "(string \<times> real) list"
  ma_strategy_digest :: string
  ma_behavior_digest :: string
  ma_failure_code :: "string option"

text \<open>Matching observations with the schedule: at most one per scheduled task, none outside it.\<close>

definition match_step ::
  "(string, scheduled_task) dict \<Rightarrow> (string, epoch_observation) dict \<Rightarrow> epoch_observation
    \<Rightarrow> (string, epoch_observation) dict result" where
  "match_step tasks by_task ob =
     (case map_of tasks (eo_task_id ob) of
        None \<Rightarrow> Inl (ValueError ''observation is outside the precommitted task schedule'')
      | Some t \<Rightarrow>
          rbind (rcheck ((eo_epoch ob, eo_family ob, eo_task_commitment ob)
                    = (st_epoch t, st_family t, st_task_commitment t))
                  (ValueError ''observation does not match its scheduled task'')) (\<lambda>_.
          rbind (rcheck (map_of by_task (eo_task_id ob) = None)
                  (ValueError ''duplicate observation for one scheduled task'')) (\<lambda>_.
            Inr (AList.update (eo_task_id ob) ob by_task))))"

definition schedule_dict :: "aggregation_policy \<Rightarrow> (string, scheduled_task) dict" where
  "schedule_dict p = foldl (\<lambda>d t. AList.update (st_task_id t) t d) [] (ap_task_schedule p)"

definition gated_reward :: "(string, epoch_observation) dict \<Rightarrow> scheduled_task \<Rightarrow> real" where
  "gated_reward by_task t =
     (case map_of by_task (st_task_id t) of
        Some ob \<Rightarrow> (if counts_for_reward ob then eo_value ob else 0)
      | None \<Rightarrow> 0)"

text \<open>\<open>fmean\<close> of a flag over a possibly empty list, \<open>0.0\<close> when it is empty.\<close>

definition flag_rate :: "(epoch_observation \<Rightarrow> bool) \<Rightarrow> epoch_observation list \<Rightarrow> real result" where
  "flag_rate flag os = (if os = [] then Inr 0 else fmean (map (\<lambda>ob. if flag ob then 1 else 0) os))"

definition family_score :: "aggregation_policy \<Rightarrow> real list \<Rightarrow> real result" where
  "family_score p rewards =
     rbind (winsorized_mean rewards (float_val (ap_winsor_fraction p)) 0) (\<lambda>m.
     rbind (robust_standard_error rewards) (\<lambda>se.
       Inr (max 0 (fl (m - fl (float_val (ap_confidence_z p) * se))))))"

text \<open>The geometric centre: \<open>exp(fmean(log ...))\<close> when every family score is positive.\<close>

definition geometric_center :: "real list \<Rightarrow> real result" where
  "geometric_center scores =
     (if list_all (\<lambda>s. 0 < s) scores
      then rbind (rmap math_log scores) (\<lambda>logs. rbind (fmean logs) (\<lambda>m. Inr (math_exp m)))
      else Inr 0)"

definition portfolio :: "(epoch_observation \<Rightarrow> string) \<Rightarrow> epoch_observation list \<Rightarrow> json" where
  "portfolio digest available =
     JArr (map (\<lambda>(family, d). jstrs [family, d]) (sort (remdups (map (\<lambda>ob. (eo_family ob, digest ob)) available))))"

definition STRATEGY_PORTFOLIO_DOMAIN :: string where
  "STRATEGY_PORTFOLIO_DOMAIN = ''planrace/2:strategy-portfolio''"
definition BEHAVIOR_PORTFOLIO_DOMAIN :: string where
  "BEHAVIOR_PORTFOLIO_DOMAIN = ''planrace/2:behavior-portfolio''"

definition failure_code ::
  "aggregation_policy \<Rightarrow> epoch_observation list \<Rightarrow> real \<Rightarrow> real \<Rightarrow> real \<Rightarrow> real list \<Rightarrow> real \<Rightarrow> string option" where
  "failure_code p available availability compliance correctness scores reward =
     (if int (length available) < ap_minimum_tasks p then Some ''insufficient_tasks''
      else if list_ex (\<lambda>f. family_count f (map eo_family available) < ap_minimum_tasks_per_family p)
          (ap_required_families p) then Some ''insufficient_family_tasks''
      else if availability < float_val (ap_minimum_availability p) then Some ''availability_gate''
      else if compliance < float_val (ap_minimum_compliance p) then Some ''compliance_gate''
      else if correctness < float_val (ap_minimum_correctness p) then Some ''correctness_gate''
      else if list_ex (\<lambda>s. s \<le> 0) scores then Some ''worst_family_gate''
      else if reward \<le> 0 then Some ''no_robust_improvement'' else None)"

text \<open>\<open>by_family\<close>: the gated reward of every scheduled task, missing ones as zero.\<close>

definition family_rewards :: "aggregation_policy \<Rightarrow> (string, epoch_observation) dict \<Rightarrow> string \<Rightarrow> real list" where
  "family_rewards p by_task family =
     map (gated_reward by_task) (filter (\<lambda>t. st_family t = family) (ap_task_schedule p))"

definition aggregate_scheduled_miner ::
  "string \<Rightarrow> epoch_observation list \<Rightarrow> aggregation_policy \<Rightarrow> miner_aggregate result" where
  "aggregate_scheduled_miner miner_id observations p =
     rbind (rfold (match_step (schedule_dict p)) [] observations) (\<lambda>by_task.
      let available = filter eo_available observations;
          task_count = length available;
          availability = fl (real task_count / real (length (ap_task_schedule p)))
      in rbind (flag_rate eo_compliant available) (\<lambda>compliance.
         rbind (flag_rate eo_correct available) (\<lambda>correctness.
         rbind (rmap (\<lambda>f. rbind (family_score p (family_rewards p by_task f)) (\<lambda>s. Inr (f, s)))
                 (ap_required_families p)) (\<lambda>family_scores.
         rbind (geometric_center (map snd family_scores)) (\<lambda>center.
         rbind (robust_standard_error (map snd family_scores)) (\<lambda>se.
          let scores = map snd family_scores;
              uncertainty = fl (float_val (ap_confidence_z p) * se);
              reward = fl (fl (max 0 (fl (center - uncertainty)) * availability) * compliance);
              code = failure_code p available availability compliance correctness scores reward
          in Inr \<lparr>ma_miner_id = miner_id, ma_eligible = (code = None),
               ma_reward = (if code = None then reward else 0), ma_center = center,
               ma_uncertainty = uncertainty, ma_availability = availability,
               ma_compliance = compliance, ma_correctness = correctness,
               ma_task_count = int task_count, ma_family_scores = family_scores,
               ma_strategy_digest = v2_digest STRATEGY_PORTFOLIO_DOMAIN
                 (JObj [(''family_strategies'', portfolio eo_strategy_digest available)]),
               ma_behavior_digest = v2_digest BEHAVIOR_PORTFOLIO_DOMAIN
                 (JObj [(''family_behaviors'', portfolio eo_behavior_digest available)]),
               ma_failure_code = code\<rparr>))))))"

definition aggregate_miner :: "epoch_observation list \<Rightarrow> aggregation_policy \<Rightarrow> miner_aggregate result" where
  "aggregate_miner observations p =
     rbind (rcheck (observations \<noteq> []) (ValueError ''observations cannot be empty'')) (\<lambda>_.
     rbind (rcheck (card (set (map eo_miner_id observations)) = 1)
              (ValueError ''observations must belong to one miner'')) (\<lambda>_.
       aggregate_scheduled_miner (eo_miner_id (hd observations)) observations p))"

definition aggregate_network ::
  "epoch_observation list \<Rightarrow> string list \<Rightarrow> aggregation_policy \<Rightarrow> miner_aggregate list result" where
  "aggregate_network observations miner_ids p =
     rbind (rcheck (miner_ids \<noteq> [] \<and> distinct miner_ids)
              (ValueError ''miner_ids must be unique and non-empty'')) (\<lambda>_.
     rbind (rcheck (list_all (\<lambda>ob. eo_miner_id ob \<in> set miner_ids) observations)
              (ValueError ''observation belongs to a miner outside the declared roster'')) (\<lambda>_.
     rbind (deduplicate_task_rewards observations) (\<lambda>deduplicated.
       let by_miner = group_by eo_miner_id deduplicated
       in rmap (\<lambda>m. aggregate_scheduled_miner m
                 (case map_of by_miner m of Some os \<Rightarrow> os | None \<Rightarrow> []) p) miner_ids)))"

section \<open>Accounting keeps the reward of a group\<close>

definition task_strategy :: "epoch_observation \<Rightarrow> string \<times> string" where
  "task_strategy ob = (eo_task_commitment ob, eo_strategy_digest ob)"

lemma group_fold:
  assumes "rfold group_step ([], [], []) obs = Inr (md, groups, untouched)"
  shows "groups = group_by task_strategy (filter counts_for_reward obs)
    \<and> untouched = filter (\<lambda>ob. \<not> counts_for_reward ob) obs"
  using assms
proof (induction obs arbitrary: md groups untouched rule: rev_induct)
  case Nil
  then show ?case by (simp add: group_by_def)
next
  case (snoc ob obs)
  then obtain md' groups' untouched' where prev: "rfold group_step ([], [], []) obs = Inr (md', groups', untouched')"
    and step: "group_step (md', groups', untouched') ob = Inr (md, groups, untouched)"
    by (auto simp: rfold_append)
  from snoc.IH [OF prev] step show ?case
    by (auto simp: group_step_def Let_def group_by_snoc task_strategy_def split: if_splits)
qed

definition with_share :: "epoch_observation list \<Rightarrow> epoch_observation \<Rightarrow> epoch_observation" where
  "with_share members ob = ob\<lparr>eo_reward := Fin (fl (eo_value (hd members) / real (length members))),
     eo_duplicate_group_size := int (length members)\<rparr>"

lemma with_share_simps [simp]:
  "counts_for_reward (with_share ms ob) = counts_for_reward ob"
  "task_strategy (with_share ms ob) = task_strategy ob"
  "eo_miner_id (with_share ms ob) = eo_miner_id ob"
  "eo_value (with_share ms ob) = fl (eo_value (hd ms) / real (length ms))"
  by (simp_all add: with_share_def counts_for_reward_def task_strategy_def eo_value_def)

lemma share_group_Inr:
  assumes "share_group ms = Inr ns" "ms \<noteq> []"
  shows "ns = map (with_share ms) ms \<and> distinct (map eo_miner_id ms)
    \<and> card (set (map eo_evidence_digest ms)) = 1"
proof -
  have r: "rmap (share_reward (fl (hd (map eo_value ms) / real (length ms))) (length ms)) ms = Inr ns"
    and d: "distinct (map eo_miner_id ms)" "card (set (map eo_evidence_digest ms)) = 1"
    using assms(1) by (auto simp: share_group_def Let_def rbind_eq_Inr)
  have "share_reward (fl (hd (map eo_value ms) / real (length ms))) (length ms) ob = Inr ob' \<Longrightarrow> ob' = with_share ms ob"
    for ob ob' using assms(2) by (auto simp: share_reward_def Let_def with_share_def hd_map rbind_eq_Inr)
  with r have "ns = map (with_share ms) ms" by (simp add: rmap_Inr_iff list_eq_iff_nth_eq)
  with d show ?thesis by blast
qed

lemma concat_one_group:
  assumes "distinct (map fst d)" "map_of d k = Some ms"
    and "\<And>k' ms' ob. (k', ms') \<in> set d \<Longrightarrow> ob \<in> set (g ms') \<Longrightarrow> P ob \<longleftrightarrow> k' = k"
  shows "filter P (concat (map (\<lambda>(k', ms'). g ms') d)) = g ms"
  using assms
proof (induction d)
  case (Cons x d)
  obtain k' ms' where x: "x = (k', ms')" by (cases x)
  have rest: "P ob \<longleftrightarrow> k'' = k" if "(k'', ms'') \<in> set d" "ob \<in> set (g ms'')" for k'' ms'' ob
    using Cons.prems(3) that by auto
  have hd: "P ob \<longleftrightarrow> k' = k" if "ob \<in> set (g ms')" for ob
    using Cons.prems(3) [of k' ms' ob] that x by auto
  show ?case
  proof (cases "k' = k")
    case True
    have other: "k'' \<noteq> k" if "(k'', ms'') \<in> set d" for k'' ms''
      using Cons.prems(1) True x that by (force simp: image_iff)
    have "filter P (concat (map (\<lambda>(k', ms'). g ms') d)) = []"
      unfolding filter_empty_conv using rest other by auto
    with True hd x Cons.prems(2) show ?thesis by (simp add: filter_id_conv)
  next
    case False
    then have "filter P (g ms') = []" using hd by (simp add: filter_empty_conv)
    with False x Cons.IH [OF _ _ rest] Cons.prems(1,2) show ?thesis by simp
  qed
qed simp

text \<open>The observations of one task and strategy that can earn a reward.\<close>

definition strategy_group :: "string \<times> string \<Rightarrow> epoch_observation list \<Rightarrow> epoch_observation list" where
  "strategy_group k obs = filter (\<lambda>ob. counts_for_reward ob \<and> task_strategy ob = k) obs"

lemma deduplicate_group:
  assumes "deduplicate_task_rewards obs = Inr out" "strategy_group k obs \<noteq> []"
  shows "mset (strategy_group k out) = mset (map (with_share (strategy_group k obs)) (strategy_group k obs))
    \<and> distinct (map eo_miner_id (strategy_group k obs))
    \<and> card (set (map eo_evidence_digest (strategy_group k obs))) = 1"
proof -
  let ?earning = "filter counts_for_reward obs"
  let ?d = "group_by task_strategy ?earning"
  let ?G = "strategy_group k obs"
  let ?P = "\<lambda>ob. counts_for_reward ob \<and> task_strategy ob = k"
  have G: "?G = filter (\<lambda>ob. task_strategy ob = k) ?earning" by (simp add: strategy_group_def conj_commute)
  obtain md groups untouched shared where f: "rfold group_step ([], [], []) obs = Inr (md, groups, untouched)"
    and sh: "rmap share_group (dict_values groups) = Inr shared"
    and out: "out = sort_key (\<lambda>ob. (eo_miner_id ob, eo_epoch ob)) (untouched @ concat shared)"
    using assms(1) by (auto simp: deduplicate_task_rewards_def rbind_eq_Inr)
  have gr: "groups = ?d" "untouched = filter (\<lambda>ob. \<not> counts_for_reward ob) obs"
    using group_fold [OF f] by auto
  have some: "map_of ?d k = Some ?G"
    using assms(2) unfolding G by (auto simp: map_of_group_by filter_empty_conv)
  then have mem: "(k, ?G) \<in> set ?d" by (rule map_of_SomeD)
  have each: "share_group (snd e) = Inr (map (with_share (snd e)) (snd e))
      \<and> distinct (map eo_miner_id (snd e)) \<and> card (set (map eo_evidence_digest (snd e))) = 1"
    if e: "e \<in> set ?d" for e
  proof -
    obtain i where i: "i < length ?d" "?d ! i = e" using e by (metis in_set_conv_nth)
    then have "share_group (snd e) = Inr (shared ! i)"
      using sh by (auto simp: rmap_Inr_iff dict_values_def gr(1))
    moreover have "snd e \<noteq> []" using group_by_entry_nonempty [of "fst e" "snd e"] e by simp
    ultimately show ?thesis using share_group_Inr by metis
  qed
  have "rmap share_group (dict_values ?d) = Inr (map (\<lambda>ms. map (with_share ms) ms) (dict_values ?d))"
    by (rule rmap_map) (use each in \<open>auto simp: dict_values_def\<close>)
  then have shared: "shared = map (\<lambda>(k', ms). map (with_share ms) ms) ?d"
    using sh by (simp add: gr(1) dict_values_def case_prod_beta' comp_def)
  have "filter ?P (concat shared) = map (with_share ?G) ?G"
    unfolding shared
  proof (rule concat_one_group [where g = "\<lambda>ms. map (with_share ms) ms", OF _ some])
    show "distinct (map fst ?d)" using distinct_keys_group_by [of task_strategy ?earning] by (simp add: keys_def)
    show "?P ob \<longleftrightarrow> k' = k" if "(k', ms') \<in> set ?d" "ob \<in> set (map (with_share ms') ms')" for k' ms' ob
      using that group_by_entry_member by fastforce
  qed
  moreover have "filter ?P untouched = []" by (auto simp: gr(2) filter_empty_conv)
  ultimately have "mset (filter ?P (untouched @ concat shared)) = mset (map (with_share ?G) ?G)" by simp
  moreover have "mset (strategy_group k out) = mset (filter ?P (untouched @ concat shared))"
    unfolding strategy_group_def out by (simp add: mset_filter)
  ultimately show ?thesis using each [OF mem] by simp
qed

lemma group_mass:
  assumes "deduplicate_task_rewards obs = Inr out" "strategy_group k obs \<noteq> []"
  shows "\<bar>sum_list (map eo_value (strategy_group k out)) - eo_value (hd (strategy_group k obs))\<bar>
    \<le> \<bar>eo_value (hd (strategy_group k obs))\<bar> / 2 ^ 53"
proof -
  let ?G = "strategy_group k obs"
  let ?n = "real (length ?G)" and ?r = "eo_value (hd ?G)"
  have n: "0 < ?n" using assms(2) by simp
  have "sum_list (map eo_value (strategy_group k out)) = sum_mset (image_mset eo_value (mset (strategy_group k out)))"
    by (metis mset_map sum_mset_sum_list)
  also have "\<dots> = sum_list (map eo_value (map (with_share ?G) ?G))"
    using deduplicate_group [OF assms] by (metis mset_map sum_mset_sum_list)
  also have "\<dots> = ?n * fl (?r / ?n)" by (simp add: comp_def sum_list_triv)
  finally have "sum_list (map eo_value (strategy_group k out)) = ?n * fl (?r / ?n)" .
  moreover have "\<bar>?n * fl (?r / ?n) - ?r\<bar> = ?n * \<bar>fl (?r / ?n) - ?r / ?n\<bar>"
  proof -
    have "?n * fl (?r / ?n) - ?r = ?n * (fl (?r / ?n) - ?r / ?n)" using n by (simp add: right_diff_distrib)
    then show ?thesis by (simp only: abs_mult abs_of_nat)
  qed
  moreover have "?n * \<bar>fl (?r / ?n) - ?r / ?n\<bar> \<le> ?n * (\<bar>?r / ?n\<bar> / 2 ^ 53)"
    using n fl_error [of "?r / ?n"] by (intro mult_left_mono) simp_all
  moreover have "?n * (\<bar>?r / ?n\<bar> / 2 ^ 53) = \<bar>?r\<bar> / 2 ^ 53" using n by (simp add: abs_divide)
  ultimately show ?thesis by simp
qed

section \<open>One miner's aggregate: totality and gates\<close>

lemma valid_aggregation_policyD:
  assumes "valid_aggregation_policy p"
  shows "ap_required_families p \<noteq> []" "distinct (ap_required_families p)" "ap_task_schedule p \<noteq> []"
    "distinct (map st_task_id (ap_task_schedule p))"
    "f \<in> set (ap_required_families p) \<Longrightarrow> \<exists>t \<in> set (ap_task_schedule p). st_family t = f"
    "1 \<le> ap_minimum_tasks_per_family p" "int (length (ap_required_families p)) \<le> ap_minimum_tasks p"
    "0 \<le> float_val (ap_winsor_fraction p)" "float_val (ap_winsor_fraction p) < 1 / 2"
    "0 \<le> float_val (ap_confidence_z p)" "0 < float_val (ap_maximum_weight p)"
    "float_val (ap_maximum_weight p) \<le> 1" "1 \<le> ap_minimum_distinct_strategies p"
proof -
  have mw: "float_lt (Fin 0) v \<and> float_le v (Fin 1) \<longleftrightarrow> isfinite v \<and> 0 < float_val v \<and> float_val v \<le> 1" for v
    by (cases v) auto
  have ok: "ap_required_families p \<noteq> []" "distinct (ap_required_families p)" "ap_task_schedule p \<noteq> []"
    "distinct (map st_task_id (ap_task_schedule p))"
    "\<not> list_ex (\<lambda>f. family_count f (map st_family (ap_task_schedule p)) < ap_minimum_tasks_per_family p) (ap_required_families p)"
    "1 \<le> ap_minimum_tasks_per_family p" "int (length (ap_required_families p)) \<le> ap_minimum_tasks p"
    "in_half_open (ap_winsor_fraction p) (1 / 2)"
    "0 \<le> float_val (ap_confidence_z p)" "float_lt (Fin 0) (ap_maximum_weight p) \<and> float_le (ap_maximum_weight p) (Fin 1)"
    "1 \<le> ap_minimum_distinct_strategies p"
    using assms unfolding valid_aggregation_policy_def is_ok_iff aggregation_policy_check_def Let_def
      rbind_eq_Inr rcheck_Inr finite_non_negative by (simp_all add: not_less)
  then show "ap_required_families p \<noteq> []" "distinct (ap_required_families p)" "ap_task_schedule p \<noteq> []"
    "distinct (map st_task_id (ap_task_schedule p))"
    "1 \<le> ap_minimum_tasks_per_family p" "int (length (ap_required_families p)) \<le> ap_minimum_tasks p"
    "0 \<le> float_val (ap_winsor_fraction p)" "float_val (ap_winsor_fraction p) < 1 / 2"
    "0 \<le> float_val (ap_confidence_z p)" "0 < float_val (ap_maximum_weight p)"
    "float_val (ap_maximum_weight p) \<le> 1" "1 \<le> ap_minimum_distinct_strategies p"
    by (auto simp: in_half_open_iff mw)
  show "\<exists>t \<in> set (ap_task_schedule p). st_family t = f" if "f \<in> set (ap_required_families p)"
  proof -
    have "1 \<le> family_count f (map st_family (ap_task_schedule p))"
      using ok(5,6) that by (fastforce simp: list_ex_iff)
    then have "filter (\<lambda>f'. f' = f) (map st_family (ap_task_schedule p)) \<noteq> []"
      by (metis family_count_def int_one_le_iff_zero_less length_greater_0_conv of_nat_0_less_iff)
    then show ?thesis by (auto simp: filter_empty_conv)
  qed
qed

lemma schedule_dict_Some: "map_of (schedule_dict p) k = Some t \<Longrightarrow> t \<in> set (ap_task_schedule p) \<and> st_task_id t = k"
proof -
  have "map_of (foldl (\<lambda>d t. AList.update (st_task_id t) t d) d ts) k = Some t
    \<Longrightarrow> map_of d k = Some t \<or> t \<in> set ts \<and> st_task_id t = k" for d ts
  proof (induction ts arbitrary: d)
    case (Cons u ts)
    then show ?case by (fastforce simp: update_conv' split: if_splits)
  qed simp
  then show "map_of (schedule_dict p) k = Some t \<Longrightarrow> t \<in> set (ap_task_schedule p) \<and> st_task_id t = k"
    by (fastforce simp: schedule_dict_def)
qed

text \<open>Matched observations: one per task, each for a task of the schedule, with its metadata.\<close>

lemma matched_observations:
  assumes "rfold (match_step (schedule_dict p)) [] obs = Inr by_task"
  shows "distinct (map eo_task_id obs) \<and> set (map eo_task_id obs) \<subseteq> set (map st_task_id (ap_task_schedule p))
    \<and> (\<forall>k. map_of by_task k = find (\<lambda>ob. eo_task_id ob = k) obs)"
  using assms
proof (induction obs arbitrary: by_task rule: rev_induct)
  case (snoc ob obs)
  then obtain d where d: "rfold (match_step (schedule_dict p)) [] obs = Inr d"
    and step: "match_step (schedule_dict p) d ob = Inr by_task" by (auto simp: rfold_append)
  note IH = snoc.IH [OF d]
  obtain t where t: "map_of (schedule_dict p) (eo_task_id ob) = Some t" "map_of d (eo_task_id ob) = None"
    "by_task = AList.update (eo_task_id ob) ob d"
    using step by (auto simp: match_step_def rbind_eq_Inr split: option.splits)
  have new: "eo_task_id ob \<notin> set (map eo_task_id obs)" using IH t(2) by (fastforce simp: find_None_iff)
  have "find (\<lambda>x. eo_task_id x = k) (obs @ [ob]) = (if k = eo_task_id ob then Some ob else find (\<lambda>x. eo_task_id x = k) obs)" for k
    using new by (induction obs) auto
  moreover have "eo_task_id ob \<in> set (map st_task_id (ap_task_schedule p))"
    using schedule_dict_Some [OF t(1)] by (metis image_eqI set_map)
  ultimately show ?case using IH new t(3) by (auto simp: update_conv')
qed simp

lemma matched_length:
  assumes "rfold (match_step (schedule_dict p)) [] obs = Inr by_task"
  shows "length (filter P obs) \<le> length (ap_task_schedule p)"
proof -
  have "length (filter P obs) \<le> length obs" by simp
  also have "\<dots> = card (set (map eo_task_id obs))"
    using matched_observations [OF assms] distinct_card by fastforce
  also have "\<dots> \<le> card (set (map st_task_id (ap_task_schedule p)))"
    using matched_observations [OF assms] by (intro card_mono) auto
  also have "\<dots> \<le> length (ap_task_schedule p)" using card_length [of "map st_task_id (ap_task_schedule p)"] by simp
  finally show ?thesis .
qed

lemma flag_rate_ok: "\<exists>r. flag_rate flag os = Inr r \<and> 0 \<le> r"
proof (cases "os = []")
  case False
  then obtain m where m: "fmean (map (\<lambda>ob. if flag ob then 1 else 0) os) = Inr m" using fmean_ok by blast
  have "0 \<le> m" by (rule fmean_ge [OF m]) auto
  with m False show ?thesis by (simp add: flag_rate_def)
qed (simp add: flag_rate_def)

lemma family_score_ok:
  assumes "valid_aggregation_policy p" "rewards \<noteq> []"
  shows "\<exists>s. family_score p rewards = Inr s \<and> 0 \<le> s"
proof -
  note pol = valid_aggregation_policyD [OF assms(1)]
  obtain m where "winsorized_mean rewards (float_val (ap_winsor_fraction p)) 0 = Inr m"
    using winsorized_mean_ok [OF assms(2) pol(8,9), of 0] by auto
  moreover obtain se where "robust_standard_error rewards = Inr se" using robust_standard_error_ok by blast
  ultimately show ?thesis by (simp add: family_score_def)
qed

lemma geometric_center_ok:
  assumes "scores \<noteq> []"
  shows "\<exists>c. geometric_center scores = Inr c \<and> 0 \<le> c"
proof (cases "list_all (\<lambda>s. 0 < s) scores")
  case True
  then have "rmap math_log scores = Inr (map (\<lambda>s. fl (ln s)) scores)"
    by (intro rmap_map) (auto simp: math_log_def list_all_iff)
  moreover obtain m where "fmean (map (\<lambda>s. fl (ln s)) scores) = Inr m" using fmean_ok assms by blast
  moreover have "0 \<le> math_exp m" by (simp add: math_exp_def fl.rnd_nonneg)
  ultimately show ?thesis using True by (simp add: geometric_center_def)
qed (simp add: geometric_center_def)

lemma aggregate_ok:
  assumes "valid_aggregation_policy p"
    and "rfold (match_step (schedule_dict p)) [] obs = Inr by_task"
  shows "\<exists>m. aggregate_scheduled_miner miner obs p = Inr m \<and> ma_miner_id m = miner
    \<and> 0 \<le> ma_reward m \<and> (ma_eligible m \<longleftrightarrow> 0 < ma_reward m) \<and> (ma_eligible m \<longleftrightarrow> ma_failure_code m = None)
    \<and> 0 \<le> ma_availability m \<and> ma_availability m \<le> 1
    \<and> map fst (ma_family_scores m) = ap_required_families p
    \<and> list_all (\<lambda>(f, s). family_score p (family_rewards p by_task f) = Inr s) (ma_family_scores m)
    \<and> ma_task_count m = int (length (filter eo_available obs))
    \<and> (ma_eligible m \<longrightarrow> ap_minimum_tasks p \<le> ma_task_count m
         \<and> list_all (\<lambda>f. ap_minimum_tasks_per_family p \<le> family_count f (map eo_family (filter eo_available obs)))
             (ap_required_families p)
         \<and> float_val (ap_minimum_availability p) \<le> ma_availability m
         \<and> float_val (ap_minimum_compliance p) \<le> ma_compliance m
         \<and> float_val (ap_minimum_correctness p) \<le> ma_correctness m
         \<and> list_all (\<lambda>(f, s). 0 < s) (ma_family_scores m))"
proof -
  note pol = valid_aggregation_policyD [OF assms(1)]
  let ?av = "filter eo_available obs"
  let ?availability = "fl (real (length ?av) / real (length (ap_task_schedule p)))"
  obtain compliance where c: "flag_rate eo_compliant ?av = Inr compliance" "0 \<le> compliance"
    using flag_rate_ok by blast
  obtain correctness where k: "flag_rate eo_correct ?av = Inr correctness" using flag_rate_ok by blast
  have ne: "family_rewards p by_task f \<noteq> []" if "f \<in> set (ap_required_families p)" for f
    using pol(5) [OF that] by (auto simp: family_rewards_def filter_empty_conv)
  define score where "score f = projr (family_score p (family_rewards p by_task f))" for f
  have score: "family_score p (family_rewards p by_task f) = Inr (score f)" "0 \<le> score f"
    if "f \<in> set (ap_required_families p)" for f
    using family_score_ok [OF assms(1) ne [OF that]] by (auto simp: score_def)
  let ?fs = "map (\<lambda>f. (f, score f)) (ap_required_families p)"
  have fs: "rmap (\<lambda>f. rbind (family_score p (family_rewards p by_task f)) (\<lambda>s. Inr (f, s)))
      (ap_required_families p) = Inr ?fs"
    by (rule rmap_map) (simp add: score)
  obtain center where center: "geometric_center (map snd ?fs) = Inr center" "0 \<le> center"
    using geometric_center_ok [of "map snd ?fs"] pol(1) by auto
  obtain se where se: "robust_standard_error (map snd ?fs) = Inr se" using robust_standard_error_ok by blast
  define uncertainty where "uncertainty = fl (float_val (ap_confidence_z p) * se)"
  define reward where "reward = fl (fl (max 0 (fl (center - uncertainty)) * ?availability) * compliance)"
  define code where "code = failure_code p ?av ?availability compliance correctness (map snd ?fs) reward"
  have av: "0 \<le> ?availability" "?availability \<le> 1"
    using matched_length [OF assms(2), of eo_available] pol(3)
    by (auto intro!: fl.rnd_nonneg fl.rnd_le_one simp: divide_le_eq)
  have reward0: "0 \<le> reward"
    unfolding reward_def using av c(2) by (intro fl.rnd_nonneg mult_nonneg_nonneg) auto
  define m where "m = \<lparr>ma_miner_id = miner, ma_eligible = (code = None),
       ma_reward = (if code = None then reward else 0), ma_center = center,
       ma_uncertainty = uncertainty, ma_availability = ?availability,
       ma_compliance = compliance, ma_correctness = correctness,
       ma_task_count = int (length ?av), ma_family_scores = ?fs,
       ma_strategy_digest = v2_digest STRATEGY_PORTFOLIO_DOMAIN
         (JObj [(''family_strategies'', portfolio eo_strategy_digest ?av)]),
       ma_behavior_digest = v2_digest BEHAVIOR_PORTFOLIO_DOMAIN
         (JObj [(''family_behaviors'', portfolio eo_behavior_digest ?av)]),
       ma_failure_code = code\<rparr>"
  have res: "aggregate_scheduled_miner miner obs p = Inr m"
    using assms(2) c k fs center se
    by (simp add: aggregate_scheduled_miner_def Let_def m_def reward_def uncertainty_def code_def)
  have gates: "ap_minimum_tasks p \<le> int (length ?av)
      \<and> list_all (\<lambda>f. ap_minimum_tasks_per_family p \<le> family_count f (map eo_family ?av)) (ap_required_families p)
      \<and> float_val (ap_minimum_availability p) \<le> ?availability
      \<and> float_val (ap_minimum_compliance p) \<le> compliance
      \<and> float_val (ap_minimum_correctness p) \<le> correctness
      \<and> list_all (\<lambda>(f, s). 0 < s) ?fs \<and> 0 < reward" if "code = None"
    using that unfolding code_def failure_code_def
    by (simp add: list_ex_iff list_all_iff not_less not_le split: if_splits)
  have fst: "map fst ?fs = ap_required_families p" by (simp add: comp_def)
  show ?thesis
    using res reward0 av gates score fst by (intro exI [of _ m]) (auto simp: m_def list_all_iff)
qed

end
