(* ===== verification/Allocation.thy ===== *)
theory Allocation
  imports Aggregation
begin

text \<open>
  Weight allocation of \<open>planrace/scoring_v2.py\<close>: concentration metrics, the capped
  normalization loop, \<open>allocate_weights\<close> and the rank correlation \<open>kendall_tau_b\<close>. The
  loop is a recursion on the remaining recipients; it ends because each turn that caps
  removes one.
\<close>

section \<open>Concentration metrics\<close>

record concentration_metrics =
  cm_gini :: real
  cm_hhi :: real
  cm_top1_share :: real
  cm_effective_miners :: real

definition empty_metrics :: concentration_metrics where
  "empty_metrics = \<lparr>cm_gini = 0, cm_hhi = 0, cm_top1_share = 0, cm_effective_miners = 0\<rparr>"

definition concentration_metrics :: "(string, real) dict \<Rightarrow> concentration_metrics result" where
  "concentration_metrics weights =
     rbind (rcheck (\<not> list_ex (\<lambda>v. v < 0) (dict_values weights))
              (ValueError ''weights must be finite and non-negative'')) (\<lambda>_.
      let vs = sort (dict_values weights); total = fsum vs
      in if vs = [] \<or> total = 0 then Inr empty_metrics
         else let normalized = map (\<lambda>v. fl (v / total)) vs; count = length normalized;
                  gini_numerator = fsum (map (\<lambda>(i, v). fl (of_int (2 * int i - int count - 1) * v))
                    (enumerate 1 normalized));
                  hhi = fsum (map (\<lambda>v. fl (v * v)) normalized)
              in rbind (py_div 1 hhi) (\<lambda>effective.
                 Inr \<lparr>cm_gini = fl (gini_numerator / real count), cm_hhi = hhi,
                      cm_top1_share = Max (set normalized), cm_effective_miners = effective\<rparr>))"

section \<open>Capped normalization\<close>

definition dict_merge :: "('k, 'v) dict \<Rightarrow> ('k, 'v) dict \<Rightarrow> ('k, 'v) dict" where
  "dict_merge d e = foldl (\<lambda>d (k, v). AList.update k v d) d e"

definition cap_slack :: "real \<Rightarrow> real" where
  "cap_slack maximum_weight = fl (maximum_weight + fl (1 / 10 ^ 15))"

definition proposed_weights :: "(string, real) dict \<Rightarrow> real \<Rightarrow> (string, real) dict" where
  "proposed_weights remaining mass =
     (let total = fsum (dict_values remaining) in map (\<lambda>(k, v). (k, fl (fl (mass * v) / total))) remaining)"

definition capped_keys :: "real \<Rightarrow> (string, real) dict \<Rightarrow> string list" where
  "capped_keys maximum_weight proposed =
     map fst (filter (\<lambda>(k, v). cap_slack maximum_weight < v) proposed)"

lemma capped_keys_shrink:
  assumes "capped_keys mx (proposed_weights remaining mass) \<noteq> []"
  shows "length (filter (\<lambda>(k, _). k \<notin> set (capped_keys mx (proposed_weights remaining mass))) remaining)
    < length remaining"
proof -
  obtain k where k: "k \<in> set (capped_keys mx (proposed_weights remaining mass))"
    using assms by (cases "capped_keys mx (proposed_weights remaining mass)") auto
  then obtain v where "(k, v) \<in> set remaining"
    by (auto simp: capped_keys_def proposed_weights_def Let_def)
  with k show ?thesis by (intro length_filter_less) auto
qed

function cap_loop :: "real \<Rightarrow> (string, real) dict \<Rightarrow> real \<Rightarrow> (string, real) dict \<Rightarrow> (string, real) dict" where
  "cap_loop maximum_weight remaining mass weights =
     (if remaining = [] then weights
      else if fsum (dict_values remaining) \<le> 0
      then dict_merge weights (map (\<lambda>(k, _). (k, fl (mass / real (length remaining)))) remaining)
      else let proposed = proposed_weights remaining mass; capped = capped_keys maximum_weight proposed
           in if capped = [] then dict_merge weights proposed
              else cap_loop maximum_weight (filter (\<lambda>(k, _). k \<notin> set capped) remaining)
                     (foldl (\<lambda>m _. fl (m - maximum_weight)) mass (sort capped))
                     (foldl (\<lambda>w k. AList.update k maximum_weight w) weights (sort capped)))"
  by pat_completeness auto
termination
  by (relation "measure (\<lambda>(_, remaining, _, _). length remaining)") (auto intro: capped_keys_shrink)

declare cap_loop.simps [simp del]

text \<open>Floating residue goes to the smallest weight that stays under the cap with it.\<close>

definition place_residue :: "real \<Rightarrow> (string, real) dict \<Rightarrow> (string, real) dict" where
  "place_residue maximum_weight weights =
     (let residue = fl (1 - fsum (dict_values weights)) in
      if fl (1 / 10 ^ 15) < \<bar>residue\<bar>
      then case find (\<lambda>(k, v). fl (v + residue) \<le> fl (maximum_weight + fl (1 / 10 ^ 12)))
             (sort_key (\<lambda>(k, v). (v, k)) weights) of
             Some (k, v) \<Rightarrow> AList.update k (fl (v + residue)) weights
           | None \<Rightarrow> weights
      else weights)"

definition capped_normalize :: "(string, real) dict \<Rightarrow> real \<Rightarrow> (string, real) dict result" where
  "capped_normalize raw maximum_weight =
     rbind (rcheck (\<not> fl (real (length raw) * maximum_weight) < fl (1 - fl (1 / 10 ^ 12)))
              (ValueError ''not enough recipients to satisfy the concentration cap'')) (\<lambda>_.
       Inr (place_residue maximum_weight (cap_loop maximum_weight raw 1 [])))"

section \<open>Allocation\<close>

record allocation_result =
  al_planned :: bool
  al_reason :: "string option"
  al_weights :: "(string \<times> real) list"
  al_duplicate_groups :: "(string \<times> string list) list"
  al_strategy_weights :: "(string \<times> real) list"
  al_concentration :: concentration_metrics

definition unplanned :: "string \<Rightarrow> (string \<times> string list) list \<Rightarrow> allocation_result" where
  "unplanned reason groups = \<lparr>al_planned = False, al_reason = Some reason, al_weights = [],
     al_duplicate_groups = groups, al_strategy_weights = [], al_concentration = empty_metrics\<rparr>"

definition eligible_aggregates :: "miner_aggregate list \<Rightarrow> miner_aggregate list" where
  "eligible_aggregates aggregates = filter (\<lambda>a. ma_eligible a \<and> 0 < ma_reward a) aggregates"

text \<open>The mass of each executable strategy of a group, and the least of them.\<close>

definition exact_strategy_mass :: "miner_aggregate list \<Rightarrow> (string, real) dict" where
  "exact_strategy_mass members =
     foldl (\<lambda>d m. AList.update (ma_strategy_digest m)
        (fl ((case map_of d (ma_strategy_digest m) of Some v \<Rightarrow> v | None \<Rightarrow> 0) + ma_reward m)) d) [] members"

definition raw_group :: "miner_aggregate list \<Rightarrow> real" where
  "raw_group members = Min (set (dict_values (exact_strategy_mass members)))"

definition member_weights :: "real \<Rightarrow> miner_aggregate list \<Rightarrow> (string, real) dict result" where
  "member_weights group_weight members =
     (let member_reward = fsum (map ma_reward members)
      in rmap (\<lambda>m. rbind (py_div (fl (group_weight * ma_reward m)) member_reward)
                (\<lambda>w. Inr (ma_miner_id m, w))) members)"

definition allocate_weights :: "miner_aggregate list \<Rightarrow> aggregation_policy \<Rightarrow> allocation_result result" where
  "allocate_weights aggregates p =
     (let eligible = eligible_aggregates aggregates in
      if eligible = [] then Inr (unplanned ''all_failed'' [])
      else let by_digest = group_by ma_behavior_digest eligible;
               duplicate_groups = map (\<lambda>(d, ms). (d, sort (map ma_miner_id ms)))
                 (filter (\<lambda>(d, ms). 1 < length ms) (sort_key fst by_digest))
           in if int (length by_digest) < ap_minimum_distinct_strategies p
              then Inr (unplanned ''insufficient_strategy_diversity'' duplicate_groups)
              else case capped_normalize (map (\<lambda>(d, ms). (d, raw_group ms)) by_digest)
                          (float_val (ap_maximum_weight p)) of
                     Inl _ \<Rightarrow> Inr (unplanned ''insufficient_recipients_for_cap'' duplicate_groups)
                   | Inr normalized_groups \<Rightarrow>
                       rbind (rmap (\<lambda>(d, ms). case map_of normalized_groups d of
                                 Some g \<Rightarrow> member_weights g ms | None \<Rightarrow> Inl (KeyError d)) by_digest) (\<lambda>ws.
                        let strategy_weights = sort_key fst normalized_groups
                        in rbind (concentration_metrics strategy_weights) (\<lambda>metrics.
                           Inr \<lparr>al_planned = True, al_reason = None,
                             al_weights = sort_key fst (dict_merge [] (concat ws)),
                             al_duplicate_groups = duplicate_groups,
                             al_strategy_weights = strategy_weights, al_concentration = metrics\<rparr>)))"

section \<open>Rank correlation\<close>

text \<open>The ordered pairs the double loop visits.\<close>

fun all_pairs :: "'a list \<Rightarrow> ('a \<times> 'a) list" where
  "all_pairs [] = []"
| "all_pairs (x # xs) = map (\<lambda>y. (x, y)) xs @ all_pairs xs"

record pair_counts =
  concordant :: int
  discordant :: int
  ties_first :: int
  ties_second :: int

definition count_pair :: "(string \<rightharpoonup> real) \<Rightarrow> (string \<rightharpoonup> real) \<Rightarrow> pair_counts \<Rightarrow> string \<times> string \<Rightarrow> pair_counts" where
  "count_pair f g c = (\<lambda>(left, right).
     let delta_first = fl (the (f left) - the (f right)); delta_second = fl (the (g left) - the (g right)) in
     if delta_first = 0 \<and> delta_second = 0 then c
     else if delta_first = 0 then c\<lparr>ties_first := ties_first c + 1\<rparr>
     else if delta_second = 0 then c\<lparr>ties_second := ties_second c + 1\<rparr>
     else if 0 < fl (delta_first * delta_second) then c\<lparr>concordant := concordant c + 1\<rparr>
     else c\<lparr>discordant := discordant c + 1\<rparr>)"

definition kendall_counts :: "(string, real) dict \<Rightarrow> (string, real) dict \<Rightarrow> pair_counts" where
  "kendall_counts d e = foldl (count_pair (map_of d) (map_of e))
     \<lparr>concordant = 0, discordant = 0, ties_first = 0, ties_second = 0\<rparr>
     (all_pairs (sort (filter (\<lambda>k. k \<in> set (keys e)) (keys d))))"

definition kendall_tau_b :: "(string, real) dict \<Rightarrow> (string, real) dict \<Rightarrow> real result" where
  "kendall_tau_b d e =
     rbind (rcheck (\<not> length (filter (\<lambda>k. k \<in> set (keys e)) (keys d)) < 2)
              (ValueError ''at least two shared items are required'')) (\<lambda>_.
      let c = kendall_counts d e;
          first_pairs = concordant c + discordant c + ties_first c;
          second_pairs = concordant c + discordant c + ties_second c;
          denominator = fl (sqrt (fl (of_int (first_pairs * second_pairs))))
      in if denominator = 0 then Inr 1
         else py_div (fl (of_int (concordant c - discordant c))) denominator)"

section \<open>The cap\<close>

definition cap_bound :: "real \<Rightarrow> real" where
  "cap_bound maximum_weight = fl (maximum_weight + fl (1 / 10 ^ 12))"

lemma le_cap_bound:
  assumes "0 \<le> mx" "mx \<le> 1"
  shows "mx \<le> cap_bound mx"
proof -
  let ?a = "fl (1 / 10 ^ 12)"
  have a: "1 / 2 ^ 40 \<le> ?a" "?a \<le> 1"
    by (rule fl.rnd_lower [OF _ fl_dyadic [where k = 40 and m = 1]], simp_all, rule fl.rnd_le_one, simp)
  have "\<bar>fl (mx + ?a) - (mx + ?a)\<bar> \<le> \<bar>mx + ?a\<bar> / 2 ^ 53" by (rule fl_error)
  also have "\<bar>mx + ?a\<bar> / 2 ^ 53 \<le> 2 / 2 ^ 53" using assms a by (intro divide_right_mono) simp_all
  finally have "mx + ?a - 2 / 2 ^ 53 \<le> fl (mx + ?a)" by linarith
  moreover have "2 / 2 ^ 53 \<le> (1 :: real) / 2 ^ 40" by simp
  ultimately show ?thesis using a unfolding cap_bound_def by linarith
qed

lemma cap_slack_le_bound: "cap_slack mx \<le> cap_bound mx"
  unfolding cap_slack_def cap_bound_def by (intro fl_mono add_left_mono) (simp add: fl_mono)

lemma keys_Cons: "keys ((k, v) # d) = k # keys d"
  by (simp add: keys_def)

lemma set_keys_foldl_update [simp]:
  "set (keys (foldl (\<lambda>w k. AList.update k v w) d ks)) = set ks \<union> set (keys d)"
  by (induction ks arbitrary: d) auto

lemma set_keys_dict_merge [simp]: "set (keys (dict_merge d e)) = set (keys d) \<union> set (keys e)"
proof -
  have "set (keys (foldl (\<lambda>d (k, v). AList.update k v d) d e)) = set (keys d) \<union> set (keys e)"
  proof (induction e arbitrary: d)
    case (Cons kv e)
    then show ?case by (cases kv) (auto simp: keys_Cons)
  qed (simp add: keys_def)
  then show ?thesis by (simp add: dict_merge_def)
qed

lemma wf_foldl_update [simp]: "wf_dict d \<Longrightarrow> wf_dict (foldl (\<lambda>w k. AList.update k v w) d ks)"
  by (induction ks arbitrary: d) auto

lemma wf_dict_merge [simp]: "wf_dict d \<Longrightarrow> wf_dict (dict_merge d e)"
  unfolding dict_merge_def by (induction e arbitrary: d) auto

lemma set_dict_values_update: "set (dict_values (AList.update k v d)) \<subseteq> insert v (set (dict_values d))"
  by (induction d) (auto simp: dict_values_def)

lemma dict_values_update_le:
  "(\<And>x. x \<in> set (dict_values d) \<Longrightarrow> x \<le> c) \<Longrightarrow> v \<le> c \<Longrightarrow> x \<in> set (dict_values (AList.update k v d)) \<Longrightarrow> x \<le> c"
  using set_dict_values_update [of k v d] by blast

lemma dict_values_foldl_le:
  "(\<And>x. x \<in> set (dict_values d) \<Longrightarrow> x \<le> c) \<Longrightarrow> v \<le> c
    \<Longrightarrow> x \<in> set (dict_values (foldl (\<lambda>w k. AList.update k v w) d ks)) \<Longrightarrow> x \<le> c"
proof (induction ks arbitrary: d)
  case (Cons k ks)
  show ?case using Cons.IH [of "AList.update k v d"] Cons.prems dict_values_update_le [of d c v _ k] by simp
qed simp

lemma dict_values_merge_le:
  "(\<And>x. x \<in> set (dict_values d) \<Longrightarrow> x \<le> c) \<Longrightarrow> (\<And>x. x \<in> set (dict_values e) \<Longrightarrow> x \<le> c)
    \<Longrightarrow> x \<in> set (dict_values (dict_merge d e)) \<Longrightarrow> x \<le> c"
proof (induction e arbitrary: d)
  case Nil
  then show ?case by (simp add: dict_merge_def)
next
  case (Cons kv e)
  obtain k v where kv: "kv = (k, v)" by (cases kv)
  have "x \<in> set (dict_values (dict_merge (AList.update k v d) e))"
    using Cons.prems(3) by (simp add: dict_merge_def kv)
  moreover have "v \<le> c" using Cons.prems(2) by (simp add: kv dict_values_def)
  ultimately show ?case
    using Cons.IH [of "AList.update k v d"] Cons.prems(1,2) dict_values_update_le [of d c v _ k]
    by (simp add: dict_values_def)
qed

lemma cap_loop_bounds:
  assumes "\<And>v. v \<in> set (dict_values remaining) \<Longrightarrow> 0 < v" "0 \<le> mx" "mx \<le> 1" "wf_dict weights"
    and "\<And>v. v \<in> set (dict_values weights) \<Longrightarrow> v \<le> cap_bound mx"
  shows "wf_dict (cap_loop mx remaining mass weights)
    \<and> set (keys (cap_loop mx remaining mass weights)) = set (keys weights) \<union> set (keys remaining)
    \<and> (\<forall>v \<in> set (dict_values (cap_loop mx remaining mass weights)). v \<le> cap_bound mx)"
  using assms
proof (induction mx remaining mass weights rule: cap_loop.induct)
  case (1 mx remaining mass weights)
  let ?p = "proposed_weights remaining mass" and ?c = "capped_keys mx (proposed_weights remaining mass)"
  have kp: "keys ?p = keys remaining" by (simp add: proposed_weights_def Let_def keys_def comp_def case_prod_beta)
  show ?case
  proof (cases "remaining = []")
    case True
    then show ?thesis using 1(5,6) by (simp add: cap_loop.simps keys_def)
  next
    case ne: False
    then obtain v where "v \<in> set (dict_values remaining)" by (cases remaining) (auto simp: dict_values_def)
    then have total: "\<not> fsum (dict_values remaining) \<le> 0"
      using fsum_pos [of v "dict_values remaining"] 1(2) by (force simp: less_imp_le not_le)
    show ?thesis
    proof (cases "?c = []")
      case True
      then have loop: "cap_loop mx remaining mass weights = dict_merge weights ?p"
        using ne total by (simp add: cap_loop.simps Let_def)
      have le: "v \<le> cap_bound mx" if "v \<in> set (dict_values ?p)" for v
      proof -
        have "\<not> cap_slack mx < v"
          using True that by (force simp: capped_keys_def filter_empty_conv dict_values_def)
        then show ?thesis using cap_slack_le_bound [of mx] by linarith
      qed
      have "\<forall>v \<in> set (dict_values (dict_merge weights ?p)). v \<le> cap_bound mx"
        using dict_values_merge_le [OF 1(6) le] by blast
      then show ?thesis unfolding loop using 1(5) kp by simp
    next
      case False
      let ?r = "filter (\<lambda>(k, _). k \<notin> set ?c) remaining"
      let ?w = "foldl (\<lambda>w k. AList.update k mx w) weights (sort ?c)"
      have loop: "cap_loop mx remaining mass weights = cap_loop mx ?r (foldl (\<lambda>m _. fl (m - mx)) mass (sort ?c)) ?w"
        using ne total False by (subst cap_loop.simps) (simp add: Let_def)
      have pos: "0 < v" if "v \<in> set (dict_values ?r)" for v using 1(2) that by (auto simp: dict_values_def)
      have w: "v \<le> cap_bound mx" if "v \<in> set (dict_values ?w)" for v
        using dict_values_foldl_le [of weights "cap_bound mx" mx v "sort ?c"] 1(6) le_cap_bound [OF 1(3,4)] that by blast
      have "set ?c \<subseteq> set (keys remaining)" unfolding kp [symmetric] by (auto simp: capped_keys_def keys_def)
      then have ks: "set ?c \<union> set (keys ?r) = set (keys remaining)" by (auto simp: keys_def)
      have wf: "wf_dict ?w" using 1(5) by simp
      let ?m = "foldl (\<lambda>m _. fl (m - mx)) mass (sort ?c)"
      have IH: "wf_dict (cap_loop mx ?r ?m ?w)
          \<and> set (keys (cap_loop mx ?r ?m ?w)) = set (keys ?w) \<union> set (keys ?r)
          \<and> (\<forall>v \<in> set (dict_values (cap_loop mx ?r ?m ?w)). v \<le> cap_bound mx)"
        by (rule 1(1) [OF ne total refl refl False]) (fact pos 1(3) 1(4) wf w)+
      have "set (keys ?w) \<union> set (keys ?r) = set (keys weights) \<union> set (keys remaining)"
        using ks by auto
      with IH show ?thesis unfolding loop by (elim conjE) (intro conjI, assumption, (erule trans, assumption), assumption)
    qed
  qed
qed

lemma place_residue_bounds:
  assumes "wf_dict w" "\<And>v. v \<in> set (dict_values w) \<Longrightarrow> v \<le> cap_bound mx"
  shows "wf_dict (place_residue mx w) \<and> set (keys (place_residue mx w)) = set (keys w)
    \<and> (\<forall>v \<in> set (dict_values (place_residue mx w)). v \<le> cap_bound mx)"
proof -
  let ?res = "fl (1 - fsum (dict_values w))"
  let ?find = "find (\<lambda>(k, v). fl (v + ?res) \<le> fl (mx + fl (1 / 10 ^ 12))) (sort_key (\<lambda>(k, v). (v, k)) w)"
  show ?thesis
  proof (cases "fl (1 / 10 ^ 15) < \<bar>?res\<bar> \<and> ?find \<noteq> None")
    case True
    then obtain k v where f: "?find = Some (k, v)" by auto
    then have kv: "(k, v) \<in> set w" "fl (v + ?res) \<le> cap_bound mx"
      by (auto simp: find_Some_iff cap_bound_def) (metis nth_mem set_sort length_sort)
    have "place_residue mx w = AList.update k (fl (v + ?res)) w"
      using True f by (simp add: place_residue_def Let_def)
    moreover have "k \<in> set (keys w)" using kv(1) by (force simp: keys_def)
    ultimately show ?thesis
      using assms dict_values_update_le [of w "cap_bound mx" "fl (v + ?res)"] kv(2) by (auto simp: insert_absorb)
  next
    case False
    then have "place_residue mx w = w" by (auto simp: place_residue_def Let_def split: option.splits)
    then show ?thesis using assms by simp
  qed
qed

lemma capped_normalize_bounds:
  assumes "capped_normalize raw mx = Inr w" "\<And>v. v \<in> set (dict_values raw) \<Longrightarrow> 0 < v" "0 \<le> mx" "mx \<le> 1"
  shows "wf_dict w \<and> set (keys w) = set (keys raw) \<and> (\<forall>v \<in> set (dict_values w). v \<le> cap_bound mx)"
proof -
  let ?l = "cap_loop mx raw 1 []"
  have "wf_dict ?l \<and> set (keys ?l) = set (keys raw) \<and> (\<forall>v \<in> set (dict_values ?l). v \<le> cap_bound mx)"
    using cap_loop_bounds [of raw mx "[]" 1] assms(2-4) by (simp add: dict_values_def keys_def)
  then show ?thesis
    using place_residue_bounds [of ?l mx] assms(1) by (auto simp: capped_normalize_def rbind_eq_Inr)
qed

section \<open>Groups of equivalent strategies\<close>

lemma exact_strategy_mass_snoc:
  "exact_strategy_mass (ms @ [m]) = AList.update (ma_strategy_digest m)
     (fl ((case map_of (exact_strategy_mass ms) (ma_strategy_digest m) of Some v \<Rightarrow> v | None \<Rightarrow> 0) + ma_reward m))
     (exact_strategy_mass ms)"
  by (simp add: exact_strategy_mass_def)

lemma keys_exact_strategy_mass [simp]:
  "set (keys (exact_strategy_mass ms)) = ma_strategy_digest ` set ms"
proof (induction ms rule: rev_induct)
  case Nil
  then show ?case by (simp add: exact_strategy_mass_def keys_def)
qed (auto simp: exact_strategy_mass_snoc)

lemma exact_strategy_mass_pos:
  "(\<And>m. m \<in> set ms \<Longrightarrow> 0 < ma_reward m) \<Longrightarrow> v \<in> set (dict_values (exact_strategy_mass ms)) \<Longrightarrow> 0 < v"
proof (induction ms arbitrary: v rule: rev_induct)
  case Nil
  then show ?case by (simp add: exact_strategy_mass_def dict_values_def)
next
  case (snoc m ms)
  let ?old = "case map_of (exact_strategy_mass ms) (ma_strategy_digest m) of Some v \<Rightarrow> v | None \<Rightarrow> 0"
  have old: "0 \<le> ?old"
  proof (cases "map_of (exact_strategy_mass ms) (ma_strategy_digest m)")
    case (Some w)
    then have "w \<in> set (dict_values (exact_strategy_mass ms))"
      by (metis dict_values_def image_eqI map_of_SomeD set_map snd_conv)
    with snoc Some show ?thesis by (simp add: less_imp_le)
  qed simp
  have "0 < ma_reward m" using snoc.prems(1) by simp
  with old have "0 < fl (?old + ma_reward m)" by (intro fl.rnd_positive) linarith
  moreover have "v = fl (?old + ma_reward m) \<or> v \<in> set (dict_values (exact_strategy_mass ms))"
    using snoc.prems(2) set_dict_values_update unfolding exact_strategy_mass_snoc by fastforce
  ultimately show ?case using snoc by auto
qed

lemma exact_strategy_mass_nonempty: "ms \<noteq> [] \<Longrightarrow> dict_values (exact_strategy_mass ms) \<noteq> []"
proof -
  assume "ms \<noteq> []"
  then have "set (keys (exact_strategy_mass ms)) \<noteq> {}" by simp
  then show ?thesis by (auto simp: keys_def dict_values_def)
qed

lemma raw_group_pos:
  assumes "ms \<noteq> []" "\<And>m. m \<in> set ms \<Longrightarrow> 0 < ma_reward m"
  shows "0 < raw_group ms"
  unfolding raw_group_def using exact_strategy_mass_nonempty [OF assms(1)] exact_strategy_mass_pos [OF assms(2)]
  by (subst Min_gr_iff) auto

text \<open>One more encoding of an observed behaviour never raises the mass of its group.\<close>

lemma raw_group_variant:
  assumes "ms \<noteq> []" "ma_strategy_digest m \<notin> ma_strategy_digest ` set ms"
  shows "raw_group (ms @ [m]) \<le> raw_group ms"
proof -
  have "ma_strategy_digest m \<notin> set (keys (exact_strategy_mass ms))" using assms(2) by simp
  then have "exact_strategy_mass (ms @ [m]) = exact_strategy_mass ms @ [(ma_strategy_digest m,
      fl ((case map_of (exact_strategy_mass ms) (ma_strategy_digest m) of Some v \<Rightarrow> v | None \<Rightarrow> 0) + ma_reward m))]"
    unfolding exact_strategy_mass_snoc by (rule update_new_key)
  then have "set (dict_values (exact_strategy_mass ms)) \<subseteq> set (dict_values (exact_strategy_mass (ms @ [m])))"
    by (auto simp: dict_values_def)
  then show ?thesis
    unfolding raw_group_def using exact_strategy_mass_nonempty [OF assms(1)] by (intro Min_antimono) auto
qed

section \<open>What is planned\<close>

lemma member_weights_keys:
  assumes "member_weights g ms = Inr w"
  shows "map fst w = map ma_miner_id ms"
proof -
  have "length w = length ms" and
    e: "\<And>i. i < length ms \<Longrightarrow> fst (w ! i) = ma_miner_id (ms ! i)"
    using assms by (auto simp: member_weights_def Let_def rmap_Inr_iff rbind_eq_Inr) (metis fst_conv)
  then show ?thesis by (simp add: list_eq_iff_nth_eq)
qed

lemma allocate_planned:
  assumes "allocate_weights ags p = Inr r" "al_planned r" "valid_aggregation_policy p"
  shows "al_reason r = None
    \<and> ap_minimum_distinct_strategies p \<le> int (card (ma_behavior_digest ` set (eligible_aggregates ags)))
    \<and> set (map fst (al_strategy_weights r)) = ma_behavior_digest ` set (eligible_aggregates ags)
    \<and> set (map fst (al_weights r)) = ma_miner_id ` set (eligible_aggregates ags)
    \<and> distinct (map fst (al_strategy_weights r)) \<and> distinct (map fst (al_weights r))
    \<and> list_all (\<lambda>(d, w). 0 \<le> w \<and> w \<le> cap_bound (float_val (ap_maximum_weight p))) (al_strategy_weights r)"
proof -
  note pol = valid_aggregation_policyD [OF assms(3)]
  let ?el = "eligible_aggregates ags"
  let ?bd = "group_by ma_behavior_digest ?el"
  let ?raw = "map (\<lambda>(d, ms). (d, raw_group ms)) ?bd"
  let ?mx = "float_val (ap_maximum_weight p)"
  have el: "?el \<noteq> []" and bd: "ap_minimum_distinct_strategies p \<le> int (length ?bd)"
    using assms(1,2) by (auto simp: allocate_weights_def Let_def unplanned_def split: if_splits)
  obtain ng where ng: "capped_normalize ?raw ?mx = Inr ng"
    using assms(1,2) el bd by (cases "capped_normalize ?raw ?mx") (auto simp: allocate_weights_def Let_def unplanned_def)
  obtain ws metrics where ws: "rmap (\<lambda>(d, ms). case map_of ng d of
        Some g \<Rightarrow> member_weights g ms | None \<Rightarrow> Inl (KeyError d)) ?bd = Inr ws"
    and met: "concentration_metrics (sort_key fst ng) = Inr metrics"
    and r: "al_reason r = None" "al_weights r = sort_key fst (dict_merge [] (concat ws))"
      "al_strategy_weights r = sort_key fst ng"
    using assms(1,2) el bd ng by (auto simp: allocate_weights_def Let_def rbind_eq_Inr)
  have entry: "ms \<noteq> [] \<and> (\<forall>m \<in> set ms. 0 < ma_reward m)" if "(d, ms) \<in> set ?bd" for d ms
    using group_by_entry_nonempty [OF that] group_by_entry_member [OF that] by (auto simp: eligible_aggregates_def)
  have pos: "0 < v" if "v \<in> set (dict_values ?raw)" for v
    using that entry raw_group_pos by (fastforce simp: dict_values_def)
  have b: "wf_dict ng \<and> set (keys ng) = set (keys ?raw) \<and> (\<forall>v \<in> set (dict_values ng). v \<le> cap_bound ?mx)"
    by (rule capped_normalize_bounds [OF ng pos]) (use pol in simp_all)
  have kraw: "set (keys ?raw) = ma_behavior_digest ` set ?el"
  proof -
    have "keys ?raw = keys ?bd" by (simp add: keys_def comp_def case_prod_beta')
    then show ?thesis by simp
  qed
  have card: "length ?bd = card (ma_behavior_digest ` set ?el)"
    using distinct_card [OF distinct_keys_group_by [of ma_behavior_digest ?el]]
    unfolding set_keys_group_by by (simp add: keys_def)
  have nonneg: "0 \<le> v" if "v \<in> set (dict_values ng)" for v
    using met that by (force simp: concentration_metrics_def rbind_eq_Inr list_ex_iff dict_values_def)
  have keys_ws: "set (map fst (concat ws)) = ma_miner_id ` set ?el"
  proof -
    have len: "length ws = length ?bd" using ws by (rule rmap_length)
    have i: "map fst (ws ! i) = map ma_miner_id (snd (?bd ! i))" if "i < length ?bd" for i
      using ws that member_weights_keys
      by (fastforce simp: rmap_Inr_iff case_prod_beta split: option.splits)
    have "map (map fst) ws = map (map ma_miner_id \<circ> snd) ?bd"
      using len i by (simp add: list_eq_iff_nth_eq)
    then have "concat (map (map fst) ws) = concat (map (map ma_miner_id \<circ> snd) ?bd)" by simp
    then have "map fst (concat ws) = concat (map (map ma_miner_id \<circ> snd) ?bd)" by (simp add: map_concat)
    then have "set (map fst (concat ws)) = (\<Union>e \<in> set ?bd. ma_miner_id ` set (snd e))" by simp
    also have "\<dots> = ma_miner_id ` set ?el"
    proof
      show "(\<Union>e \<in> set ?bd. ma_miner_id ` set (snd e)) \<subseteq> ma_miner_id ` set ?el"
        using group_by_entry_member by fastforce
      have "\<exists>e \<in> set ?bd. m \<in> set (snd e)" if "m \<in> set ?el" for m
      proof -
        have "map_of ?bd (ma_behavior_digest m) = Some (filter (\<lambda>x. ma_behavior_digest x = ma_behavior_digest m) ?el)"
          using that by (simp add: map_of_group_by)
        from map_of_SomeD [OF this] show ?thesis using that by force
      qed
      then show "ma_miner_id ` set ?el \<subseteq> (\<Union>e \<in> set ?bd. ma_miner_id ` set (snd e))" by fastforce
    qed
    finally show ?thesis .
  qed
  have wfw: "wf_dict (dict_merge [] (concat ws))" by simp
  have ds: "distinct (map fst (sort_key fst d))" if "wf_dict d" for d :: "(string, real) dict"
    using that unfolding wf_dict_def keys_def by (metis distinct_map distinct_sort mset_sort set_sort
        mset_map mset_eq_imp_distinct_iff)
  have bounds: "list_all (\<lambda>(d, w). 0 \<le> w \<and> w \<le> cap_bound ?mx) (sort_key fst ng)"
    using b nonneg by (force simp: list_all_iff dict_values_def)
  have "set (map fst (sort_key fst (dict_merge [] (concat ws)))) = set (keys (dict_merge [] (concat ws)))"
    by (simp add: keys_def)
  also have "\<dots> = set (keys (concat ws))" unfolding set_keys_dict_merge by (simp add: keys_def)
  also have "\<dots> = ma_miner_id ` set ?el" using keys_ws by (simp only: keys_def)
  finally have kw: "set (map fst (al_weights r)) = ma_miner_id ` set ?el" by (simp only: r)
  have "set (map fst (sort_key fst ng)) = set (keys ng)" by (simp add: keys_def)
  then have ksw: "set (map fst (al_strategy_weights r)) = ma_behavior_digest ` set ?el"
    using b kraw by (simp only: r)
  show ?thesis
    using r(1) bd ksw kw ds [OF wfw] ds [of ng] b bounds unfolding card r(2,3) by blast
qed

lemma allocate_unplanned:
  assumes "allocate_weights ags p = Inr r" "\<not> al_planned r"
  shows "al_weights r = [] \<and> al_strategy_weights r = [] \<and> al_concentration r = empty_metrics \<and> al_reason r \<noteq> None"
  using assms by (auto simp: allocate_weights_def Let_def unplanned_def rbind_eq_Inr split: if_splits sum.splits)

section \<open>Rank correlation\<close>

lemma kendall_counts_nonneg:
  "0 \<le> concordant (kendall_counts d e) \<and> 0 \<le> discordant (kendall_counts d e)
    \<and> 0 \<le> ties_first (kendall_counts d e) \<and> 0 \<le> ties_second (kendall_counts d e)"
proof -
  have "0 \<le> concordant (foldl (count_pair f g) c ps) \<and> 0 \<le> discordant (foldl (count_pair f g) c ps)
    \<and> 0 \<le> ties_first (foldl (count_pair f g) c ps) \<and> 0 \<le> ties_second (foldl (count_pair f g) c ps)"
    if "0 \<le> concordant c \<and> 0 \<le> discordant c \<and> 0 \<le> ties_first c \<and> 0 \<le> ties_second c" for f g c ps
    using that
  proof (induction ps arbitrary: c)
    case (Cons q ps)
    have "0 \<le> concordant (count_pair f g c q) \<and> 0 \<le> discordant (count_pair f g c q)
      \<and> 0 \<le> ties_first (count_pair f g c q) \<and> 0 \<le> ties_second (count_pair f g c q)"
      using Cons.prems by (cases q) (simp add: count_pair_def Let_def)
    then show ?case using Cons.IH by simp
  qed simp
  then show ?thesis by (simp add: kendall_counts_def)
qed

lemma length_all_pairs: "2 * length (all_pairs xs) = length xs * (length xs - 1)"
proof (induction xs)
  case (Cons x xs)
  then show ?case by (cases xs) (auto simp: algebra_simps)
qed simp

lemma kendall_counts_bound:
  "concordant (kendall_counts d e) + discordant (kendall_counts d e)
    \<le> int (length (all_pairs (sort (filter (\<lambda>k. k \<in> set (keys e)) (keys d)))))"
proof -
  have "concordant (foldl (count_pair f g) c ps) + discordant (foldl (count_pair f g) c ps)
    \<le> concordant c + discordant c + int (length ps)" for f g c ps
  proof (induction ps arbitrary: c)
    case (Cons q ps)
    have "concordant (count_pair f g c q) + discordant (count_pair f g c q) \<le> concordant c + discordant c + 1"
      by (cases q) (simp add: count_pair_def Let_def)
    then show ?case using Cons.IH [of "count_pair f g c q"] by simp
  qed simp
  from this [of "map_of d" "map_of e" "\<lparr>concordant = 0, discordant = 0, ties_first = 0, ties_second = 0\<rparr>"]
  show ?thesis by (simp add: kendall_counts_def)
qed

text \<open>Up to ten thousand items every pair count squares to an exact float.\<close>

lemma kendall_range:
  assumes "kendall_tau_b d e = Inr t" "length d \<le> 10000"
  shows "- 1 \<le> t \<and> t \<le> 1"
proof -
  define c where "c = kendall_counts d e"
  define a where "a = concordant c + discordant c + ties_first c"
  define b where "b = concordant c + discordant c + ties_second c"
  define x where "x = \<bar>concordant c - discordant c\<bar>"
  define den where "den = fl (sqrt (fl (of_int (a * b))))"
  have nn: "0 \<le> concordant c" "0 \<le> discordant c" "0 \<le> ties_first c" "0 \<le> ties_second c"
    using kendall_counts_nonneg [of d e] by (simp_all add: c_def)
  show ?thesis
  proof (cases "den = 0")
    case True
    then show ?thesis using assms by (auto simp: kendall_tau_b_def Let_def rbind_eq_Inr c_def a_def b_def den_def)
  next
    case False
    then have t: "t = fl (fl (of_int (concordant c - discordant c)) / den)"
      using assms by (auto simp: kendall_tau_b_def Let_def rbind_eq_Inr py_div_def c_def a_def b_def den_def)
    let ?n = "length (filter (\<lambda>k. k \<in> set (keys e)) (keys d))"
    let ?ps = "all_pairs (sort (filter (\<lambda>k. k \<in> set (keys e)) (keys d)))"
    have "length (keys d) \<le> 10000" using assms(2) by (simp add: keys_def)
    then have "?n \<le> 10000" by (rule order_trans [OF length_filter_le])
    then have "?n * (?n - 1) \<le> 10000 * 9999" by (intro mult_mono) auto
    then have pairs: "int (length ?ps) \<le> 49995000" using length_all_pairs [of "sort (filter (\<lambda>k. k \<in> set (keys e)) (keys d))"] by simp
    have x: "0 \<le> x" "x \<le> a" "x \<le> b" "x \<le> 49995000"
      using nn kendall_counts_bound [of d e] pairs by (auto simp: x_def a_def b_def c_def)
    have fx: "fl (of_int x) = of_int x" using x by (intro fl_of_int) simp
    have "x * x \<le> a * b" using x by (intro mult_mono) auto
    moreover have "x * x \<le> 49995000 * 49995000" using x by (intro mult_mono) auto
    then have "fl (of_int (x * x)) = of_int (x * x)" using x by (intro fl_of_int) simp
    ultimately have "of_int (x * x) \<le> fl (of_int (a * b))" by (metis fl_mono of_int_le_iff)
    then have "sqrt (of_int (x * x)) \<le> sqrt (fl (of_int (a * b)))" by (rule real_sqrt_le_mono)
    then have "of_int x \<le> sqrt (fl (of_int (a * b)))" using x by simp
    then have le: "of_int x \<le> den" unfolding den_def by (rule fl.rnd_lower) (rule fx)
    then have den: "0 < den" using x False by (simp add: order_less_le)
    have "fl (of_int (concordant c - discordant c)) = of_int (concordant c - discordant c)"
      using x by (intro fl_of_int) (simp add: x_def)
    then have t: "t = fl (of_int (concordant c - discordant c) / den)" using t by simp
    have "\<bar>of_int (concordant c - discordant c)\<bar> \<le> den" using le by (simp add: x_def)
    then have "- 1 \<le> of_int (concordant c - discordant c) / den" "of_int (concordant c - discordant c) / den \<le> 1"
      using den by (simp_all add: divide_le_eq le_divide_eq abs_le_iff)
    then show ?thesis unfolding t by (simp only: fl.rnd_ge_minus_one fl.rnd_le_one)
  qed
qed

end
