(* ===== verification/Weights.thy ===== *)
theory Weights
  imports Json "HOL-Library.Product_Lexorder"
begin

text \<open>
  Score-to-weight planning and the guarded submission of \<open>planrace/weights.py\<close> and
  \<open>planrace/network.py\<close>. The chain's \<open>set_weights\<close> is a parameter acting on a world
  state, so that "nothing was submitted" is a statement about that state.
\<close>

section \<open>Network allowlist\<close>

text \<open>Python's whitespace characters, as UTF-8.\<close>

definition whitespace_encodings :: "string list" where
  "whitespace_encodings = map (\<lambda>n. [char_of n]) [9, 10, 11, 12, 13, 28, 29, 30, 31, 32 :: nat]
     @ map (map char_of) [[194, 133], [194, 160], [225, 154, 128 :: nat]]
     @ map (\<lambda>n. map char_of [226, 128, n]) ([128..<139] @ [168, 169, 175 :: nat])
     @ map (map char_of) [[226, 129, 159], [227, 128, 128 :: nat]]"

text \<open>Dropping encodings from the front; each turn drops at least one byte.\<close>

function strip_front :: "string list \<Rightarrow> string \<Rightarrow> string" where
  "strip_front encodings s =
     (case find (\<lambda>w. w \<noteq> [] \<and> starts_with w s) encodings of
        None \<Rightarrow> s | Some w \<Rightarrow> strip_front encodings (drop (length w) s))"
  by pat_completeness auto
termination
proof (relation "measure (\<lambda>(_, s). length s)")
  fix encodings w and s :: string
  assume "find (\<lambda>w. w \<noteq> [] \<and> starts_with w s) encodings = Some w"
  then have "w \<noteq> []" "take (length w) s = w" by (auto simp: find_Some_iff starts_with_def)
  then have "s \<noteq> []" "w \<noteq> []" by auto
  then show "((encodings, drop (length w) s), (encodings, s)) \<in> measure (\<lambda>(_, s). length s)"
    by simp
qed simp

declare strip_front.simps [simp del]

definition py_strip :: "string \<Rightarrow> string" where
  "py_strip s = rev (strip_front (map rev whitespace_encodings) (rev (strip_front whitespace_encodings s)))"

definition ALLOWED_NETWORKS :: "string list" where "ALLOWED_NETWORKS = [''local'', ''test'']"

definition MAINNET_ALIASES :: "string list" where
  "MAINNET_ALIASES = [''finney'', ''main'', ''mainnet'', ''wss://entrypoint-finney.opentensor.ai'',
     ''wss://entrypoint-finney.opentensor.ai:443'']"

text \<open>The error carries the reason; the quoted input is left out of the message.\<close>

definition ensure_supported_network :: "string \<Rightarrow> string result" where
  "ensure_supported_network v =
     (let normalized = py_lower (py_strip v) in
      if normalized \<in> set ALLOWED_NETWORKS then Inr normalized
      else Inl (UnsupportedNetworkError
        (if normalized \<in> set MAINNET_ALIASES then ''mainnet is prohibited'' else ''not allowlisted'')))"

lemma ensure_supported_network_Inr:
  "ensure_supported_network v = Inr n \<Longrightarrow> n \<in> {''local'', ''test''}"
  by (auto simp: ensure_supported_network_def Let_def ALLOWED_NETWORKS_def split: if_splits)

section \<open>Plans\<close>

record weight_plan =
  wp_planned :: bool
  wp_reason :: "string option"
  wp_uids :: "int list"
  wp_weights :: "real list"

record hotkey_weight_plan =
  hp_planned :: bool
  hp_reason :: "string option"
  hp_hotkeys :: "string list"
  hp_weights :: "real list"

record metagraph_snapshot =
  ms_block_hash :: string
  ms_uid_by_hotkey :: "(string, pyval) dict"

fun valid_uid :: "pyval \<Rightarrow> bool" where
  "valid_uid (PInt n) \<longleftrightarrow> 0 \<le> n"
| "valid_uid _ \<longleftrightarrow> False"

fun uid_of :: "pyval \<Rightarrow> int" where
  "uid_of (PInt n) = n"
| "uid_of _ = 0"

fun valid_hotkey_key :: "pyval \<Rightarrow> bool" where
  "valid_hotkey_key (PStr s) \<longleftrightarrow> s \<noteq> []"
| "valid_hotkey_key _ \<longleftrightarrow> False"

fun hotkey_of :: "pyval \<Rightarrow> string" where
  "hotkey_of (PStr s) = s"
| "hotkey_of _ = []"

definition bad_score :: "pyfloat \<Rightarrow> bool" where
  "bad_score v \<longleftrightarrow> \<not> isfinite v \<or> float_lt v (Fin 0)"

text \<open>The normalized weights of the positive scores, in key order: the shared core of both planners.
  \<open>fsum\<close> raises when the total leaves the range; a quotient never exceeds one (a score is not
  more than the rounded total) but may underflow, to zero in the end.\<close>

definition positive_scores :: "(pyval \<Rightarrow> 'k) \<Rightarrow> (pyval, pyfloat) dict \<Rightarrow> ('k, real) dict" where
  "positive_scores key scores = map (\<lambda>(k, v). (key k, float_val v)) (filter (\<lambda>(k, v). float_lt (Fin 0) v) scores)"

definition normalized_weights :: "('k::linorder, real) dict \<Rightarrow> real list result" where
  "normalized_weights positive =
     (let total = fsum (dict_values positive)
      in rbind (rcheck (total < float_bound) OverflowError) (\<lambda>_.
        rmap (\<lambda>(k, v). dbl_div v total) (sort_key fst positive)))"

definition plan_weights :: "(pyval, pyfloat) dict \<Rightarrow> int \<Rightarrow> weight_plan result" where
  "plan_weights scores minimum_positive_uids =
     rbind (rcheck (\<not> minimum_positive_uids < 1) (ValueError ''minimum_positive_uids must be positive'')) (\<lambda>_.
     rbind (rcheck (list_all valid_uid (keys scores)) (ValueError ''UIDs must be non-negative integers'')) (\<lambda>_.
     rbind (rcheck (\<not> list_ex bad_score (dict_values scores)) (ValueError ''scores must be finite and non-negative'')) (\<lambda>_.
      let positive = positive_scores uid_of scores
      in if int (length positive) < minimum_positive_uids
         then Inr \<lparr>wp_planned = False, wp_reason = Some ''insufficient_positive_uids'', wp_uids = [], wp_weights = []\<rparr>
         else rbind (normalized_weights positive) (\<lambda>weights.
           Inr \<lparr>wp_planned = True, wp_reason = None, wp_uids = map fst (sort_key fst positive), wp_weights = weights\<rparr>))))"

definition plan_hotkey_weights :: "(pyval, pyfloat) dict \<Rightarrow> int \<Rightarrow> hotkey_weight_plan result" where
  "plan_hotkey_weights scores minimum_positive_hotkeys =
     rbind (rcheck (\<not> minimum_positive_hotkeys < 1) (ValueError ''minimum_positive_hotkeys must be positive'')) (\<lambda>_.
     rbind (rcheck (list_all valid_hotkey_key (keys scores)) (ValueError ''hotkeys must be non-empty strings'')) (\<lambda>_.
     rbind (rcheck (\<not> list_ex bad_score (dict_values scores)) (ValueError ''scores must be finite and non-negative'')) (\<lambda>_.
      let positive = positive_scores hotkey_of scores
      in if int (length positive) < minimum_positive_hotkeys
         then Inr \<lparr>hp_planned = False, hp_reason = Some ''insufficient_positive_hotkeys'', hp_hotkeys = [], hp_weights = []\<rparr>
         else rbind (normalized_weights positive) (\<lambda>weights.
           Inr \<lparr>hp_planned = True, hp_reason = None, hp_hotkeys = map fst (sort_key fst positive), hp_weights = weights\<rparr>))))"

text \<open>The \<open>KeyError\<close> of the first missing hotkey becomes a \<open>ValueError\<close>.\<close>

definition snapshot_uid :: "metagraph_snapshot \<Rightarrow> string \<Rightarrow> pyval result" where
  "snapshot_uid snapshot hotkey =
     (case map_of (ms_uid_by_hotkey snapshot) hotkey of
        Some u \<Rightarrow> Inr u
      | None \<Rightarrow> Inl (ValueError (''scored hotkey missing from finalized metagraph: '' @ hotkey)))"

definition resolve_hotkey_weight_plan :: "hotkey_weight_plan \<Rightarrow> metagraph_snapshot \<Rightarrow> weight_plan result" where
  "resolve_hotkey_weight_plan plan snapshot =
     (if \<not> hp_planned plan
      then Inr \<lparr>wp_planned = False, wp_reason = hp_reason plan, wp_uids = [], wp_weights = []\<rparr>
      else
     rbind (rcheck (\<not> (\<not> starts_with ''0x'' (ms_block_hash snapshot) \<or> py_len (ms_block_hash snapshot) \<noteq> 66))
              (ValueError ''snapshot block_hash must be a 32-byte 0x-prefixed digest'')) (\<lambda>_.
     rbind (rmap (snapshot_uid snapshot) (hp_hotkeys plan)) (\<lambda>uids.
     rbind (rcheck (list_all valid_uid uids) (ValueError ''snapshot contains an invalid UID'')) (\<lambda>_.
     rbind (rcheck (distinct uids) (ValueError ''snapshot maps multiple scored hotkeys to one UID'')) (\<lambda>_.
     rbind (rcheck (length uids = length (hp_weights plan)) (ValueError ''zip() argument lengths differ'')) (\<lambda>_.
      let pairs = sort (zip (map uid_of uids) (hp_weights plan))
      in Inr \<lparr>wp_planned = True, wp_reason = None, wp_uids = map fst pairs, wp_weights = map snd pairs\<rparr>))))))"

section \<open>Submission\<close>

record set_weights_call =
  sw_netuid :: int
  sw_weights :: "real list"
  sw_uids :: "int list"
  sw_wallet :: string
  sw_hotkey :: string
  sw_network :: string

definition submit_weight_plan ::
  "('w \<Rightarrow> set_weights_call \<Rightarrow> 'w \<times> 'r result) \<Rightarrow> 'w \<Rightarrow> weight_plan \<Rightarrow> string \<Rightarrow> int \<Rightarrow> string \<Rightarrow> string \<Rightarrow> bool
    \<Rightarrow> 'w \<times> 'r option result" where
  "submit_weight_plan setter world plan network netuid wallet_name hotkey_name dry_run =
     (case ensure_supported_network network of
        Inl e \<Rightarrow> (world, Inl e)
      | Inr safe_network \<Rightarrow>
          if \<not> wp_planned plan
          then (world, Inl (ValueError (''cannot submit an unplanned update: ''
                 @ (case wp_reason plan of Some r \<Rightarrow> r | None \<Rightarrow> ''None''))))
          else if netuid < 0 then (world, Inl (ValueError ''netuid must be non-negative''))
          else if dry_run then (world, Inr None)
          else let (world', r) = setter world \<lparr>sw_netuid = netuid, sw_weights = wp_weights plan,
                     sw_uids = wp_uids plan, sw_wallet = wallet_name, sw_hotkey = hotkey_name,
                     sw_network = safe_network\<rparr>
               in (world', rbind r (\<lambda>x. Inr (Some x))))"

section \<open>What a plan guarantees\<close>

lemma normalized_weights_ok:
  assumes "positive \<noteq> []" "\<And>v. v \<in> set (dict_values positive) \<Longrightarrow> 0 < v"
  shows "normalized_weights positive = (if fsum (dict_values positive) < float_bound
      then Inr (map (\<lambda>(k, v). dbl (v / fsum (dict_values positive))) (sort_key fst positive)) else Inl OverflowError)"
    and "0 < fsum (dict_values positive)"
proof -
  let ?T = "fsum (dict_values positive)"
  obtain v where "v \<in> set (dict_values positive)" using assms(1) by (cases positive) (auto simp: dict_values_def)
  then show pos: "0 < ?T"
    using fsum_pos [of v "dict_values positive"] assms(2) by (simp add: less_imp_le)
  have "rmap (\<lambda>(k, v). dbl_div v ?T) (sort_key fst positive) = Inr (map (\<lambda>(k, v). dbl (v / ?T)) (sort_key fst positive))"
    using pos by (intro rmap_map) (auto simp: dbl_div_def)
  then show "normalized_weights positive = (if ?T < float_bound
      then Inr (map (\<lambda>(k, v). dbl (v / ?T)) (sort_key fst positive)) else Inl OverflowError)"
    by (simp add: normalized_weights_def Let_def)
qed

lemma positive_scores_pos:
  assumes "\<not> list_ex bad_score (dict_values scores)" "v \<in> set (dict_values (positive_scores key scores))"
  shows "0 < v"
proof -
  have "0 < float_val x" if "\<not> bad_score x" "float_lt (Fin 0) x" for x using that by (cases x) (auto simp: bad_score_def)
  then show ?thesis using assms by (fastforce simp: positive_scores_def dict_values_def list_ex_iff)
qed

lemma sum_dbl_error:
  "(\<And>x. x \<in> set xs \<Longrightarrow> 0 \<le> x) \<Longrightarrow>
     \<bar>sum_list (map dbl xs) - sum_list xs\<bar> \<le> sum_list xs / 2 ^ 53 + real (length xs) * subnormal_unit"
proof (induction xs)
  case (Cons x xs)
  have "\<bar>sum_list (map dbl xs) - sum_list xs\<bar> \<le> sum_list xs / 2 ^ 53 + real (length xs) * subnormal_unit" using Cons by simp
  moreover have "\<bar>dbl x - x\<bar> \<le> x / 2 ^ 53 + subnormal_unit" using dbl_error [of x] Cons.prems [of x] by simp
  moreover have "\<bar>sum_list (map dbl (x # xs)) - sum_list (x # xs)\<bar>
      \<le> \<bar>dbl x - x\<bar> + \<bar>sum_list (map dbl xs) - sum_list xs\<bar>" by simp
  moreover have "sum_list (x # xs) / 2 ^ 53 = x / 2 ^ 53 + sum_list xs / 2 ^ 53" by (simp add: add_divide_distrib)
  moreover have "real (length (x # xs)) * subnormal_unit = real (length xs) * subnormal_unit + subnormal_unit"
    by (simp add: distrib_right)
  ultimately show ?case by linarith
qed simp

text \<open>Dividing by a rounded total: the normalized weights sum to one within \<open>2^-51\<close> and one unit of
  the subnormals for each weight.\<close>

lemma normalized_sum:
  assumes "xs \<noteq> []" "\<And>x. x \<in> set xs \<Longrightarrow> 0 < x"
  shows "\<bar>sum_list (map (\<lambda>v. dbl (v / fsum xs)) xs) - 1\<bar> \<le> 1 / 2 ^ 51 + real (length xs) * subnormal_unit"
proof -
  define S where "S = sum_list xs"
  define T where "T = fsum xs"
  define W where "W = sum_list (map (\<lambda>v. dbl (v / T)) xs)"
  define E where "E = real (length xs) * subnormal_unit"
  obtain x where "x \<in> set xs" using assms(1) by (cases xs) auto
  then have S: "0 < S" and T: "0 < T"
    using assms(2) fsum_pos [of x xs] member_le_sum_list [of x xs]
    by (auto simp: S_def T_def less_imp_le intro: order_less_le_trans)
  have st: "\<bar>T - S\<bar> \<le> S / 2 ^ 53" using fl_error [of S] S by (simp add: T_def S_def fsum_def)
  have "sum_list (map (\<lambda>v. v / T) ys) = sum_list ys / T" for ys
    by (induction ys) (simp_all add: add_divide_distrib)
  then have "sum_list (map (\<lambda>v. v / T) xs) = S / T" by (simp add: S_def)
  moreover have "W = sum_list (map dbl (map (\<lambda>v. v / T) xs))" by (simp add: W_def comp_def)
  moreover have "\<bar>sum_list (map dbl (map (\<lambda>v. v / T) xs)) - sum_list (map (\<lambda>v. v / T) xs)\<bar>
      \<le> sum_list (map (\<lambda>v. v / T) xs) / 2 ^ 53 + real (length (map (\<lambda>v. v / T) xs)) * subnormal_unit"
    using assms(2) T by (intro sum_dbl_error) (auto intro: less_imp_le)
  ultimately have w: "\<bar>W - S / T\<bar> \<le> S / T / 2 ^ 53 + E" by (simp add: E_def)
  have q: "\<bar>S / T - 1\<bar> \<le> 1 / 2 ^ 52"
  proof -
    have "S / 2 ^ 53 \<le> S / 2" "S / 2 + S / 2 = S" using S by simp_all
    then have "S \<le> T + T" using st unfolding abs_le_iff by linarith
    then have "S \<le> T * 2" by simp
    then have "S / 2 ^ 53 \<le> T / 2 ^ 52" by simp
    then have "\<bar>T - S\<bar> \<le> T / 2 ^ 52" using st by linarith
    moreover have "S / T - 1 = (S - T) / T" using T by (simp add: diff_divide_distrib)
    ultimately show ?thesis using T by (simp add: abs_divide divide_le_eq abs_minus_commute)
  qed
  then have "S / T \<le> 1 + 1 / 2 ^ 52" unfolding abs_le_iff by linarith
  then have "S / T / 2 ^ 53 \<le> (1 + 1 / 2 ^ 52) / 2 ^ 53" by (rule divide_right_mono) simp
  then have "\<bar>W - 1\<bar> \<le> 1 / 2 ^ 52 + (1 + 1 / 2 ^ 52) / 2 ^ 53 + E" using w q by linarith
  also have "\<dots> \<le> 1 / 2 ^ 51 + E" by simp
  finally show ?thesis by (simp add: W_def T_def E_def)
qed

lemma distinct_positive_scores:
  assumes "wf_dict scores" "list_all P (keys scores)" "\<And>a b. P a \<Longrightarrow> P b \<Longrightarrow> key a = key b \<Longrightarrow> a = b"
  shows "distinct (map fst (positive_scores key scores))"
proof -
  have "map fst (positive_scores key scores) = map key (map fst (filter (\<lambda>(k, v). float_lt (Fin 0) v) scores))"
    by (simp add: positive_scores_def comp_def case_prod_beta')
  moreover have "distinct (map fst (filter (\<lambda>(k, v). float_lt (Fin 0) v) scores))"
    using assms(1) by (simp add: wf_dict_def keys_def distinct_map_filter)
  moreover have "inj_on key (set (map fst (filter (\<lambda>(k, v). float_lt (Fin 0) v) scores)))"
    using assms(2,3) by (intro inj_onI) (auto simp: list_all_iff keys_def)
  ultimately show ?thesis by (metis distinct_map)
qed

text \<open>The guarantees of a plan over distinct positive scores.\<close>

lemma normalized_plan:
  fixes positive :: "('k::linorder, real) dict"
  assumes "positive \<noteq> []" "\<And>v. v \<in> set (dict_values positive) \<Longrightarrow> 0 < v" "distinct (map fst positive)"
    and "normalized_weights positive = Inr ws"
  shows "length ws = length positive \<and> list_all (\<lambda>w. 0 \<le> w) ws
    \<and> \<bar>sum_list ws - 1\<bar> \<le> 1 / 2 ^ 51 + real (length ws) * subnormal_unit
    \<and> sorted_wrt (<) (map fst (sort_key fst positive))"
proof -
  note n = normalized_weights_ok [OF assms(1,2)]
  let ?T = "fsum (dict_values positive)"
  have ws: "ws = map (\<lambda>(k, v). dbl (v / ?T)) (sort_key fst positive)" using assms(4) n(1) by (simp split: if_splits)
  have "\<bar>sum_list (map (\<lambda>v. dbl (v / ?T)) (dict_values positive)) - 1\<bar>
      \<le> 1 / 2 ^ 51 + real (length (dict_values positive)) * subnormal_unit"
    using assms(1,2) by (intro normalized_sum) (auto simp: dict_values_def)
  moreover have "sum_list ws = sum_list (map (\<lambda>v. dbl (v / ?T)) (dict_values positive))"
  proof -
    have "mset ws = mset (map (\<lambda>v. dbl (v / ?T)) (dict_values positive))"
      by (simp add: ws dict_values_def case_prod_beta' multiset.map_comp comp_def)
    then show ?thesis by (metis sum_mset_sum_list)
  qed
  moreover have "list_all (\<lambda>w. 0 \<le> w) ws"
  proof -
    have "0 \<le> v" if "(k, v) \<in> set positive" for k v
      using that assms(2) [of v] by (force simp: dict_values_def)
    then show ?thesis using n(2) by (auto simp: ws list_all_iff intro!: dbl.nonneg divide_nonneg_pos)
  qed
  moreover have "sorted_wrt (<) (map fst (sort_key fst positive))"
  proof -
    have "distinct (map fst (sort_key fst positive))"
      using assms(3) by (metis distinct_map distinct_sort set_sort)
    moreover have "sorted (map fst (sort_key fst positive))" by (rule sorted_sort_key)
    ultimately show ?thesis by (simp add: strict_sorted_iff)
  qed
  ultimately show ?thesis by (simp add: ws dict_values_def)
qed

end
