(* ===== verification/Scoring_Properties.thy ===== *)
theory Scoring_Properties
  imports Allocation Weights
begin

text \<open>
  The properties of the incentive layer: benchmark scores, evaluate-once accounting, miner
  aggregates, weight allocation, rank correlation and the guarded weight submission, with
  concrete policies, evidence and observations as witnesses.
\<close>

section \<open>Concrete policy and evidence\<close>

definition sample_trial :: "real \<Rightarrow> string \<Rightarrow> interleaved_trial" where
  "sample_trial candidate_ms order = \<lparr>it_worker_id = ''w'', it_order = order,
     it_baseline_cold_ms = Fin 8, it_candidate_cold_ms = Fin candidate_ms,
     it_baseline_warm_ms = Fin 8, it_candidate_warm_ms = Fin candidate_ms,
     it_baseline_timed_out = False, it_candidate_timed_out = False\<rparr>"

definition sample_evidence :: "real \<Rightarrow> benchmark_evidence" where
  "sample_evidence candidate_ms = \<lparr>be_correct = True, be_compliant = True, be_setup_ms = Fin 0,
     be_artifact_storage_bytes = 0, be_database_bytes = 4096,
     be_trials = map (sample_trial candidate_ms) [''baseline-first'', ''candidate-first'', ''baseline-first'',
       ''candidate-first'', ''baseline-first'', ''candidate-first'']\<rparr>"

lemma sample_evidence_valid: "0 < c \<Longrightarrow> valid_evidence (sample_evidence c)"
  by (simp add: valid_evidence_def is_ok_iff benchmark_evidence_check_def interleaved_trial_check_def
      sample_evidence_def sample_trial_def rbind_eq_Inr require_finite_non_negative_def)

lemma default_weight_values:
  "fl (15 / 100) = 5404319552844595 / 2 ^ 55" "fl (30 / 100) = 5404319552844595 / 2 ^ 54" "fl (25 / 100) = 1 / 4"
proof -
  show "fl (15 / 100) = 5404319552844595 / 2 ^ 55"
    by (subst fl_nearest [where k = 55 and m = 5404319552844595]) simp_all
  show "fl (30 / 100) = 5404319552844595 / 2 ^ 54"
    by (subst fl_nearest [where k = 54 and m = 5404319552844595]) simp_all
  show "fl (25 / 100) = 1 / 4" by (rule trans [OF fl_dyadic [where k = 2 and m = 1]]) simp_all
qed

lemma default_fractions:
  "0 \<le> fl (10 / 100) \<and> fl (10 / 100) < 1 / 2" "0 \<le> fl (20 / 100) \<and> fl (20 / 100) < 1" "0 \<le> fl (128 / 100)"
proof -
  have f: "fl (1 / 4) = 1 / 4" by (rule trans [OF fl_dyadic [where k = 2 and m = 1]]) simp_all
  have "fl (10 / 100) \<le> 1 / 4" "fl (20 / 100) \<le> 1 / 4" by (rule fl.rnd_upper [OF _ f], simp)+
  then show "0 \<le> fl (10 / 100) \<and> fl (10 / 100) < 1 / 2" "0 \<le> fl (20 / 100) \<and> fl (20 / 100) < 1"
    by (auto intro!: fl.rnd_nonneg)
  show "0 \<le> fl (128 / 100)" by (rule fl.rnd_nonneg) simp
qed

lemma default_policy_valid: "valid_policy DEFAULT_BENCHMARK_POLICY"
proof -
  have s: "fsum [fl (15 / 100), fl (25 / 100), fl (30 / 100), fl (30 / 100)] = 1"
    unfolding fsum_def default_weight_values
    by (subst fl_nearest [where k = 53 and m = 9007199254740992]) simp_all
  have n: "0 \<le> fl (15 / 100)" "0 \<le> fl (25 / 100)" "0 \<le> fl (30 / 100)" by (rule fl.rnd_nonneg, simp)+
  show ?thesis
    unfolding valid_policy_def is_ok_iff benchmark_policy_check_def rbind_eq_Inr rcheck_Inr
      finite_non_negative in_half_open_iff
    using s n default_fractions by (simp add: DEFAULT_BENCHMARK_POLICY_def HORIZONS_def isclose_def)
qed

lemma small_floats: "fl (1 / 2) = 1 / 2" "fl 2 = 2"
proof -
  show "fl (1 / 2) = 1 / 2" by (rule trans [OF fl_dyadic [where k = 1 and m = 1]]) simp_all
  show "fl 2 = 2" using fl_of_int [of 2] by simp
qed

text \<open>The arithmetic of small integers and of halves is exact.\<close>

lemma ieee_int: "\<bar>m\<bar> \<le> 2 ^ 53 \<Longrightarrow> ieee (of_int m) = Inr (of_int m)"
proof -
  assume m: "\<bar>m\<bar> \<le> 2 ^ 53"
  have "\<bar>real_of_int m\<bar> \<le> of_int (2 ^ 53)" using m by (simp only: of_int_abs [symmetric] of_int_le_iff)
  then show ?thesis using dbl_of_int [OF m] by (subst ieee_pow [of _ 53]) simp_all
qed

lemma ieee_numerals:
  "ieee 0 = Inr 0" "ieee 1 = Inr 1" "ieee 2 = Inr 2" "ieee 50 = Inr 50" "ieee (1 / 2) = Inr (1 / 2)"
  using ieee_int [of 0] ieee_int [of 1] ieee_int [of 2] ieee_int [of 50] ieee_pow [of "1 / 2" 0] dbl_inverse_pow [of 1] by simp_all

lemma sample_log_speedup:
  assumes "h \<in> {1, 10, 100, 1000}"
  shows "log_speedup (sample_evidence 4) 1 h (sample_trial 4 order) = Inr 1"
proof -
  have e: "float_of_int (h - 1) = Inr (of_int (h - 1))" using assms by (intro float_of_int_exact) auto
  have i: "ieee (of_int m) = Inr (of_int m)" if "m \<in> {0, 4, (h - 1) * 8, (h - 1) * 4, h * 8, h * 4}" for m
    using that assms by (intro ieee_int) auto
  have w: "ieee (of_int (h - 1) * 8) = Inr (of_int ((h - 1) * 8))" "ieee (of_int (h - 1) * 4) = Inr (of_int ((h - 1) * 4))"
    "ieee (8 + of_int ((h - 1) * 8)) = Inr (of_int (h * 8))" "ieee (4 + of_int ((h - 1) * 4)) = Inr (of_int (h * 4))"
    "ieee 4 = Inr 4" "ieee (of_int (h * 4)) = Inr (of_int (h * 4))"
    using i [of "(h - 1) * 8"] i [of "(h - 1) * 4"] i [of "h * 8"] i [of "h * 4"] i [of 4] by (simp_all add: algebra_simps)
  have b: "baseline_total h (sample_trial 4 order) = Inr (of_int (h * 8))"
    unfolding baseline_total_def e rbind_Inr by (simp only: sample_trial_def interleaved_trial.simps float_val.simps w rbind_Inr)
  have c: "candidate_total (sample_evidence 4) 1 h (sample_trial 4 order) = Inr (of_int (h * 4))"
    unfolding candidate_total_def e rbind_Inr
    by (simp only: sample_trial_def sample_evidence_def interleaved_trial.simps benchmark_evidence.simps float_val.simps w
        rbind_Inr add_0 mult_1_right)
  have r: "of_int (h * 8) / of_int (h * 4) = (2 :: real)" "of_int (h * 4) \<noteq> (0 :: real)" using assms by auto
  show ?thesis
    unfolding log_speedup_def b c rbind_Inr ieee_div_def if_not_P [OF r(2)] r(1) ieee_numerals(3)
    by (simp add: math_log2_def)
qed

lemma constant_winsorized_mean:
  assumes "0 < n" "n \<le> 2 ^ 30" "0 \<le> f" "f < 1 / 2"
  shows "winsorized_mean (replicate n 1) f 1 = Inr 1"
proof -
  obtain m where m: "winsorized_mean (replicate n 1) f 1 = Inr m"
    using winsorized_mean_ok [of "replicate n 1" f 1] assms by auto
  have n: "int (length (replicate n (1 :: real))) \<le> 2 ^ 30" using assms(2) by simp
  have "of_int 1 \<le> x \<and> x \<le> of_int 1" if "x \<in> set (replicate n (1 :: real))" for x using that by auto
  from winsorized_mean_bounds [OF m this _ _ n] have "m = 1" by simp
  with m show ?thesis by simp
qed

lemma sample_horizon:
  assumes "h \<in> {1, 10, 100, 1000}"
  shows "score_horizon (sample_evidence 4) DEFAULT_BENCHMARK_POLICY 1 (be_trials (sample_evidence 4)) h
    = Inr \<lparr>hs_horizon = h, hs_relative_speedup = 2, hs_lower_confidence_speedup = 2, hs_relative_savings = 1 / 2\<rparr>"
proof -
  have t: "rmap (log_speedup (sample_evidence 4) 1 h) (be_trials (sample_evidence 4)) = Inr (replicate 6 1)"
  proof -
    have "be_trials (sample_evidence 4) = map (sample_trial 4) [''baseline-first'', ''candidate-first'', ''baseline-first'',
       ''candidate-first'', ''baseline-first'', ''candidate-first'']" by (simp add: sample_evidence_def)
    then show ?thesis using sample_log_speedup [OF assms] by (simp add: numeral_eq_Suc)
  qed
  have m: "winsorized_mean (replicate 6 1) (float_val (bp_winsor_fraction DEFAULT_BENCHMARK_POLICY)) 1 = Inr 1"
    using valid_policyD(6,7) [OF default_policy_valid] by (intro constant_winsorized_mean) simp_all
  have s: "robust_standard_error (replicate 6 1) = Inr 0"
  proof -
    have r: "replicate 6 (1::real) = [1, 1, 1, 1, 1, 1]" by (simp add: numeral_eq_Suc)
    have m: "median [x, x, x, x, x, x] = Inr (dbl (fl (x + x) / 2))" for x
      by (simp add: median_def Let_def)
    show ?thesis unfolding r by (simp add: robust_standard_error_def m small_floats)
  qed
  have two: "two_power 1 = Inr 2" using ieee_numerals(3) by (simp add: two_power_def or_overflow_def ieee_def split: if_splits)
  have sav: "savings_of 2 = Inr (1 / 2)" by (simp add: savings_of_def ieee_div_def ieee_numerals)
  show ?thesis
    unfolding score_horizon_def t rbind_Inr m s mult_zero_right ieee_numerals(1) diff_zero ieee_numerals(2) two sav ..
qed

lemma half_weighted_sum:
  "fl (fl (15 / 100) * (1 / 2)) = 5404319552844595 / 2 ^ 56" "fl (fl (25 / 100) * (1 / 2)) = 1 / 8"
  "fl (fl (30 / 100) * (1 / 2)) = 5404319552844595 / 2 ^ 55"
  "fl (5404319552844595 / 2 ^ 56) = 5404319552844595 / 2 ^ 56"
  "fl (5404319552844595 / 2 ^ 56 + 1 / 8) = 7205759403792794 / 2 ^ 55"
  "fl (7205759403792794 / 2 ^ 55 + 5404319552844595 / 2 ^ 55) = 6305039478318694 / 2 ^ 54"
  "fl (6305039478318694 / 2 ^ 54 + 5404319552844595 / 2 ^ 55) = 1 / 2"
proof -
  have h: "fl (fl x * (1 / 2)) = fl x / 2" for x
    using fl_scale [of "-1" "fl x"] by (simp add: powr_minus_divide)
  show "fl (5404319552844595 / 2 ^ 56 + 1 / 8) = 7205759403792794 / 2 ^ 55"
    by (subst fl_nearest [where k = 55 and m = 7205759403792794]) simp_all
  show "fl (7205759403792794 / 2 ^ 55 + 5404319552844595 / 2 ^ 55) = 6305039478318694 / 2 ^ 54"
    by (subst fl_nearest [where k = 54 and m = 6305039478318694]) simp_all
  show "fl (6305039478318694 / 2 ^ 54 + 5404319552844595 / 2 ^ 55) = 1 / 2"
    by (subst fl_nearest [where k = 54 and m = 9007199254740992]) simp_all
  show "fl (fl (15 / 100) * (1 / 2)) = 5404319552844595 / 2 ^ 56" "fl (fl (25 / 100) * (1 / 2)) = 1 / 8"
    "fl (fl (30 / 100) * (1 / 2)) = 5404319552844595 / 2 ^ 55"
    unfolding h by (simp_all only: default_weight_values) simp_all
  show "fl (5404319552844595 / 2 ^ 56) = 5404319552844595 / 2 ^ 56"
    using fl_idem [of "15 / 100"] fl_scale [of "-1" "fl (15 / 100)"] unfolding default_weight_values(1)
    by (simp add: powr_minus_divide)
qed

lemma ieee_unit: "1 / 2 ^ 53 \<le> x \<Longrightarrow> x \<le> 1 \<Longrightarrow> fl x = y \<Longrightarrow> ieee x = Inr y"
  using ieee_pow [of x 0] dbl_unit [of x] by (simp add: order_trans [of 0 "1 / 2 ^ 53" x])

lemma sample_score:
  obtains s where "score_benchmark (sample_evidence 4) DEFAULT_BENCHMARK_POLICY = Inr s" "bs_eligible s" "bs_reward s = 50"
    "map hs_relative_speedup (bs_horizons s) = [2, 2, 2, 2]"
proof -
  let ?e = "sample_evidence 4" and ?p = DEFAULT_BENCHMARK_POLICY
  let ?s = "\<lambda>h. \<lparr>hs_horizon = h, hs_relative_speedup = 2, hs_lower_confidence_speedup = 2, hs_relative_savings = 1 / 2\<rparr>"
  have h: "score_horizons ?e ?p 1 (be_trials ?e) = Inr (map ?s [1, 10, 100, 1000], 1 / 2)"
  proof -
    have z: "zip (bp_horizons ?p) (bp_horizon_weights ?p) = [(1, Fin (fl (15 / 100))), (10, Fin (fl (25 / 100))),
        (100, Fin (fl (30 / 100))), (1000, Fin (fl (30 / 100)))]"
      by (simp add: DEFAULT_BENCHMARK_POLICY_def HORIZONS_def)
    have c: "rcheck (length (bp_horizons ?p) = length (bp_horizon_weights ?p))
        (ValueError ''zip() argument lengths differ'') = Inr ()"
      by (simp add: DEFAULT_BENCHMARK_POLICY_def HORIZONS_def)
    have step: "weigh_horizon ?e ?p 1 (be_trials ?e) (ss, acc) (h, Fin w) = Inr (ss @ [?s h], y)"
      if "h \<in> {1, 10, 100, 1000}" "ieee (w * (1 / 2)) = Inr x" "ieee (acc + x) = Inr y" for h ss acc w x y
      using that(2,3) by (simp add: weigh_horizon_def sample_horizon [OF that(1)])
    have p: "ieee (fl (15 / 100) * (1 / 2)) = Inr (5404319552844595 / 2 ^ 56)" "ieee (fl (25 / 100) * (1 / 2)) = Inr (1 / 8)"
      "ieee (fl (30 / 100) * (1 / 2)) = Inr (5404319552844595 / 2 ^ 55)"
      using half_weighted_sum(1-3) by (intro ieee_unit; simp only: default_weight_values; simp)+
    have q: "ieee (0 + 5404319552844595 / 2 ^ 56) = Inr (5404319552844595 / 2 ^ 56)"
      "ieee (5404319552844595 / 2 ^ 56 + 1 / 8) = Inr (7205759403792794 / 2 ^ 55)"
      "ieee (7205759403792794 / 2 ^ 55 + 5404319552844595 / 2 ^ 55) = Inr (6305039478318694 / 2 ^ 54)"
      "ieee (6305039478318694 / 2 ^ 54 + 5404319552844595 / 2 ^ 55) = Inr (1 / 2)"
      using half_weighted_sum(4-7) by (intro ieee_unit; simp)+
    have m: "1 \<in> {1, 10, 100, 1000 :: int}" "10 \<in> {1, 10, 100, 1000 :: int}" "100 \<in> {1, 10, 100, 1000 :: int}"
      "1000 \<in> {1, 10, 100, 1000 :: int}" by simp_all
    show ?thesis
      unfolding score_horizons_def c z
      by (simp only: rfold.simps rbind_Inr step [OF m(1) p(1) q(1)] step [OF m(2) p(2) q(2)] step [OF m(3) p(3) q(3)]
          step [OF m(4) p(3) q(4)] list.map append.simps)
  qed
  have six: "dbl 6 = 6" "fl 6 = 6" using dbl_numeral fl_of_int [of 6] by simp_all
  have tr: "filter (\<lambda>t. \<not> it_candidate_timed_out t) (be_trials ?e) = be_trials ?e" "\<not> list_ex it_baseline_timed_out (be_trials ?e)"
    "length (be_trials ?e) = 6" "map it_worker_id (be_trials ?e) = replicate 6 ''w''"
    "balanced_orders (be_trials ?e)" "map (\<lambda>t. if it_candidate_timed_out t then 1 else 0) (be_trials ?e) = replicate 6 (0 :: real)"
    by (simp_all add: sample_evidence_def sample_trial_def balanced_orders_def order_count_def numeral_eq_Suc)
  have r: "int_div (be_artifact_storage_bytes ?e) (be_database_bytes ?e) = Inr 0"
    using ieee_numerals(1) by (simp add: sample_evidence_def int_div_def or_overflow_def ieee_def split: if_splits)
  have "score_benchmark ?e ?p = score_completed ?e ?p (Some (it_worker_id (hd (be_trials ?e)))) 0 0 (be_trials ?e)"
    unfolding score_benchmark_def r rbind_Inr
    using tr valid_policyD(9) [OF default_policy_valid]
    by (simp add: gate_benchmark_def Let_def fmean_def fsum_def sum_list_replicate)
       (simp add: sample_evidence_def DEFAULT_BENCHMARK_POLICY_def)
  also have "\<dots> = Inr \<lparr>bs_eligible = True, bs_benchmark_valid = True, bs_reward = 50, bs_failure_code = None,
      bs_worker_id = Some (it_worker_id (hd (be_trials ?e))), bs_timeout_rate = 0, bs_storage_ratio = 0,
      bs_horizons = map ?s [1, 10, 100, 1000]\<rparr>"
    using h by (simp add: score_completed_def ieee_numerals)
  finally show ?thesis by (rule that) simp_all
qed

section \<open>Benchmark scores\<close>

text \<open>C10: scores are bounded, and inputs of a moderate size always get one. Take a valid policy and valid
  evidence. Every score computed without reaching an infinity has a reward between zero and the
  rounded weighted bound of the policy, which is positive exactly when the evidence is eligible,
  which is exactly when no failure code is set; every horizon's savings lie in the unit interval,
  with a lower confidence speedup below the central one. Scoring neither raises nor reaches an
  infinity when every timing lies between \<open>2^-40\<close> and \<open>2^40\<close> milliseconds, the setup takes at most
  \<open>2^40\<close> milliseconds, there are at most \<open>2^30\<close> trials, the storage is at most \<open>2^20\<close> times the
  database, and the policy's horizons, weights, confidence and penalty are bounded likewise (at
  most \<open>2^20\<close> horizons of at most \<open>2^20\<close>, weights and confidence at most 2, penalty at most \<open>2^20\<close>).\<close>

theorem score_is_total_and_bounded:
  assumes "valid_policy p" "valid_evidence e"
  shows "(if moderate_policy p \<and> moderate_evidence e then is_ok (score_benchmark e p) else True)
    \<and> (case score_benchmark e p of
         Inl _ \<Rightarrow> True
       | Inr s \<Rightarrow> 0 \<le> bs_reward s \<and> bs_reward s \<le> dbl (100 * savings_bound (bp_horizon_weights p))
           \<and> bs_eligible s = (0 < bs_reward s) \<and> bs_eligible s = (bs_failure_code s = None)
           \<and> list_all (\<lambda>h. 0 \<le> hs_relative_savings h \<and> hs_relative_savings h \<le> 1
                \<and> hs_lower_confidence_speedup h \<le> hs_relative_speedup h) (bs_horizons s))"
  using moderate_scored [OF assms] score_benchmark_sound [OF assms]
  by (auto simp: is_ok_iff sound_score_def split: sum.split)

lemma sample_moderate: "moderate_evidence (sample_evidence 4)" "moderate_evidence (sample_evidence 16)"
  by (simp_all add: moderate_evidence_def moderate_trial_def moderate_time_def sample_evidence_def sample_trial_def)

theorem score_is_total_and_bounded_witness:
  "\<exists>s. score_benchmark (sample_evidence 4) DEFAULT_BENCHMARK_POLICY = Inr s \<and> 0 \<le> bs_reward s
    \<and> bs_reward s \<le> dbl (100 * savings_bound (bp_horizon_weights DEFAULT_BENCHMARK_POLICY))
    \<and> bs_eligible s = (0 < bs_reward s)"
proof -
  have "0 < (4 :: real)" by simp
  note c = score_is_total_and_bounded [OF default_policy_valid sample_evidence_valid [OF this]]
  then obtain s where "score_benchmark (sample_evidence 4) DEFAULT_BENCHMARK_POLICY = Inr s"
    using default_policy_moderate sample_moderate(1) by (auto simp: is_ok_iff)
  with c show ?thesis by auto
qed

text \<open>A candidate as fast as twice the baseline at every horizon, with correct, compliant and
  storage-free evidence, earns exactly half of the maximal reward under the default policy.\<close>

theorem twice_as_fast_earns_half:
  "\<exists>s. score_benchmark (sample_evidence 4) DEFAULT_BENCHMARK_POLICY = Inr s \<and> bs_eligible s \<and> bs_reward s = 50
    \<and> map hs_relative_speedup (bs_horizons s) = [2, 2, 2, 2]"
proof -
  obtain s where "score_benchmark (sample_evidence 4) DEFAULT_BENCHMARK_POLICY = Inr s" "bs_eligible s" "bs_reward s = 50"
    "map hs_relative_speedup (bs_horizons s) = [2, 2, 2, 2]" by (rule sample_score)
  then show ?thesis by (intro exI [of _ s] conjI)
qed

text \<open>C11: no speedup, no reward. If every completed trial of valid evidence has timings that are doubles
  and a candidate at least as slow as the baseline, cold and warm, then every score computed without reaching an infinity has
  reward zero and is ineligible; and timings and policies of a moderate size (as for the bounds of
  scores: timings between \<open>2^-40\<close> and \<open>2^40\<close> milliseconds) always get such a score.\<close>

theorem no_speedup_no_reward:
  assumes "valid_policy p" "valid_evidence e"
    and "list_all (\<lambda>t. it_candidate_timed_out t \<or> trial_doubles t \<and> not_faster t) (be_trials e)"
  shows "(if moderate_policy p \<and> moderate_evidence e then is_ok (score_benchmark e p) else True)
    \<and> (case score_benchmark e p of Inl _ \<Rightarrow> True | Inr s \<Rightarrow> bs_reward s = 0 \<and> \<not> bs_eligible s)"
  using moderate_scored [OF assms(1,2)] score_benchmark_sound [OF assms(1,2)] assms(3)
  by (auto simp: is_ok_iff sound_score_def split: sum.split)

theorem no_speedup_no_reward_witness:
  "\<exists>s. score_benchmark (sample_evidence 16) DEFAULT_BENCHMARK_POLICY = Inr s \<and> bs_reward s = 0 \<and> \<not> bs_eligible s"
proof -
  have "dbl 8 = 8" "dbl 16 = 16" by (rule dbl_numeral, simp)+
  then have "list_all (\<lambda>t. it_candidate_timed_out t \<or> trial_doubles t \<and> not_faster t) (be_trials (sample_evidence 16))"
    by (simp add: sample_evidence_def sample_trial_def trial_doubles_def not_faster_def)
  note c = no_speedup_no_reward [OF default_policy_valid sample_evidence_valid this]
  then obtain s where "score_benchmark (sample_evidence 16) DEFAULT_BENCHMARK_POLICY = Inr s"
    using default_policy_moderate sample_moderate(2) by (auto simp: is_ok_iff)
  with c show ?thesis by auto
qed

text \<open>Outside that range the code misbehaves: with a timing that is too small against the baseline's the
  ratio of the totals underflows to zero, and \<open>log2\<close> raises instead of the candidate being paid.\<close>

lemma tiny_ratio_raises:
  assumes "baseline_total h t = Inr b" "candidate_total e m h t = Inr c" "0 < b" "0 < c" "b / c < subnormal_unit / 2"
  shows "log_speedup e m h t = Inl (ValueError ''math domain error'')"
proof -
  have z: "0 < b / c" using assms(3,4) by simp
  have "subnormal_unit < min_normal" unfolding subnormal_unit_def min_normal_def by (rule powr_less_mono) simp_all
  moreover have "\<bar>b / c\<bar> = b / c" "subnormal_unit / 2 < subnormal_unit" using z by (simp_all only: abs_of_pos, simp)
  ultimately have "\<bar>b / c\<bar> < min_normal" using assms(5) by linarith
  moreover have "rne (b / c / subnormal_unit) = 0"
  proof (rule rne_nearest, rule disjI1)
    have "b / c / subnormal_unit < 1 / 2" "0 < b / c / subnormal_unit"
      using z assms(5) by (auto intro!: divide_pos_pos simp only: pos_divide_less_eq [OF subnormal_unit_pos(1)] subnormal_unit_pos)
    then show "\<bar>b / c / subnormal_unit - of_int 0\<bar> < 1 / 2" by simp
  qed
  ultimately have "dbl (b / c) = 0" by (simp add: dbl_small)
  then show ?thesis using assms(1,2,4) min_normal_pos(1)
    by (simp add: log_speedup_def ieee_div_def ieee_def in_range_def float_bound_def math_log2_def)
qed

text \<open>Eligibility means every gate was passed: enough trials by one worker in balanced order, no
  baseline timeout, a correct and compliant candidate, a tolerated timeout rate, and at least
  one horizon whose lower confidence bound is a true speedup.\<close>

theorem eligible_score_passed_every_gate:
  assumes "valid_policy p" "valid_evidence e" "score_benchmark e p = Inr s" "bs_eligible s"
  shows "bp_minimum_trials p \<le> int (length (be_trials e))
    \<and> card (set (map it_worker_id (be_trials e))) = 1 \<and> balanced_orders (be_trials e)
    \<and> \<not> list_ex it_baseline_timed_out (be_trials e) \<and> be_correct e \<and> be_compliant e
    \<and> bs_timeout_rate s \<le> float_val (bp_maximum_timeout_rate p)
    \<and> list_ex (\<lambda>h. 1 < hs_lower_confidence_speedup h) (bs_horizons s)"
  using score_benchmark_sound [OF assms(1-3)] assms(4) by (simp add: sound_score_def gates_passed_def)

theorem eligible_score_passed_every_gate_witness:
  "bp_minimum_trials DEFAULT_BENCHMARK_POLICY \<le> int (length (be_trials (sample_evidence 4)))"
proof -
  obtain s where s: "score_benchmark (sample_evidence 4) DEFAULT_BENCHMARK_POLICY = Inr s" "bs_eligible s"
    by (rule sample_score)
  from eligible_score_passed_every_gate [OF default_policy_valid sample_evidence_valid s]
  show ?thesis by simp
qed

text \<open>Under the default policy a reward never exceeds 100, the bound that epoch observations
  enforce, although the weights and their products are rounded.\<close>

theorem default_reward_at_most_hundred:
  assumes "valid_evidence e" "score_benchmark e DEFAULT_BENCHMARK_POLICY = Inr s"
  shows "0 \<le> bs_reward s \<and> bs_reward s \<le> 100"
proof -
  have "dbl 100 = 100" by (rule dbl_numeral) simp
  then show ?thesis
    using score_benchmark_sound [OF default_policy_valid assms] by (simp add: sound_score_def default_weights_bound)
qed

theorem default_reward_at_most_hundred_witness:
  "\<exists>s. score_benchmark (sample_evidence 4) DEFAULT_BENCHMARK_POLICY = Inr s \<and> 0 \<le> bs_reward s \<and> bs_reward s \<le> 100"
proof -
  obtain s where s: "score_benchmark (sample_evidence 4) DEFAULT_BENCHMARK_POLICY = Inr s" by (rule sample_score)
  from default_reward_at_most_hundred [OF sample_evidence_valid s] s show ?thesis by simp
qed

section \<open>Evaluate-once accounting\<close>

definition sample_observation :: "string \<Rightarrow> epoch_observation" where
  "sample_observation miner = \<lparr>eo_miner_id = miner, eo_epoch = 0, eo_family = ''f'', eo_task_id = ''t'',
     eo_task_commitment = ''c'', eo_evidence_digest = ''e'', eo_reward = Fin 6, eo_available = True,
     eo_correct = True, eo_compliant = True, eo_strategy_digest = ''s'', eo_behavior_digest = ''b'',
     eo_duplicate_group_size = 1\<rparr>"

lemma sample_deduplicate:
  obtains out where "deduplicate_task_rewards [sample_observation ''a'', sample_observation ''b''] = Inr out"
proof -
  have f: "fl 3 = 3" "0 \<le> fl (1 / 1000000000)" using fl_of_int [of 3] by (simp_all add: fl.rnd_nonneg)
  show thesis
    by (rule that) (simp add: deduplicate_task_rewards_def group_step_def counts_for_reward_def sample_observation_def
      dict_append_def dict_values_def share_group_def share_reward_def eo_value_def f not_less
      epoch_observation_check_def require_finite_non_negative_def)
qed

lemma mset_concat_update:
  "map_of d k = None \<Longrightarrow> mset (concat (map snd (AList.update k v d))) = mset (concat (map snd d)) + mset v"
  "wf_dict d \<Longrightarrow> map_of d k = Some u \<Longrightarrow>
     mset (concat (map snd (AList.update k (u @ v) d))) = mset (concat (map snd d)) + mset v"
  by (induction d) (auto simp: wf_dict_def keys_def split: if_splits)

lemma mset_concat_group_by: "mset (concat (dict_values (group_by f xs))) = mset xs"
proof (induction xs rule: rev_induct)
  case Nil
  then show ?case by (simp add: group_by_def dict_values_def)
next
  case (snoc x xs)
  let ?d = "group_by f xs"
  have wf: "wf_dict ?d" by (simp add: wf_dict_def distinct_keys_group_by)
  show ?case
  proof (cases "map_of ?d (f x)")
    case None
    then show ?thesis using snoc mset_concat_update(1) [OF None, of "[x]"]
      by (simp add: group_by_snoc dict_append_def dict_values_def)
  next
    case (Some u)
    then show ?thesis using snoc mset_concat_update(2) [OF wf Some, of "[x]"]
      by (simp add: group_by_snoc dict_append_def dict_values_def)
  qed
qed

text \<open>What accounting never changes: everything but the reward and the group size.\<close>

definition observation_identity :: "epoch_observation \<Rightarrow> epoch_observation" where
  "observation_identity ob = ob\<lparr>eo_reward := Fin 0, eo_duplicate_group_size := 0\<rparr>"

lemma deduplicate_identities:
  assumes "deduplicate_task_rewards obs = Inr out"
  shows "mset (map observation_identity out) = mset (map observation_identity obs)"
proof -
  obtain md groups untouched shared where f: "rfold group_step ([], [], []) obs = Inr (md, groups, untouched)"
    and sh: "rmap share_group (dict_values groups) = Inr shared"
    and out: "out = sort_key (\<lambda>ob. (eo_miner_id ob, eo_epoch ob)) (untouched @ concat shared)"
    using assms by (auto simp: deduplicate_task_rewards_def rbind_eq_Inr)
  have gr: "groups = group_by task_strategy (filter counts_for_reward obs)"
    "untouched = filter (\<lambda>ob. \<not> counts_for_reward ob) obs" using group_fold [OF f] by auto
  have id: "map observation_identity ns = map observation_identity ms" if "share_group ms = Inr ns" for ms ns
  proof (cases "ms = []")
    case True
    then show ?thesis using that by (auto simp: share_group_def Let_def rbind_eq_Inr)
  next
    case False
    from share_group_Inr [OF that False] have "ns = map (with_share ms) ms" by blast
    then show ?thesis by (simp add: observation_identity_def with_share_def)
  qed
  have "map (map observation_identity) shared = map (map observation_identity) (dict_values groups)"
    using sh id by (auto simp: rmap_Inr_iff list_eq_iff_nth_eq)
  then have "map observation_identity (concat shared) = map observation_identity (concat (dict_values groups))"
    by (simp only: map_concat)
  then have "mset (map observation_identity (concat shared))
      = image_mset observation_identity (mset (filter counts_for_reward obs))"
    by (metis gr(1) mset_concat_group_by mset_map)
  then have "mset (map observation_identity out)
      = image_mset observation_identity (filter_mset (\<lambda>ob. \<not> counts_for_reward ob) (mset obs))
        + image_mset observation_identity (filter_mset counts_for_reward (mset obs))"
    by (simp add: out gr(2))
  also have "\<dots> = mset (map observation_identity obs)"
    by (metis add.commute image_mset_union mset_map multiset_partition)
  finally show ?thesis .
qed

text \<open>C12: duplicated strategies share one reward. After accounting, the earning observations of a task
  and strategy belong to distinct miners and together carry, up to one rounding, the reward the
  strategy had before: copying a strategy onto more hotkeys earns nothing.\<close>

theorem duplicates_share_one_reward:
  assumes "deduplicate_task_rewards obs = Inr out" "strategy_group k obs \<noteq> []"
  shows "distinct (map eo_miner_id (strategy_group k obs))
    \<and> mset (map eo_miner_id (strategy_group k out)) = mset (map eo_miner_id (strategy_group k obs))
    \<and> \<bar>sum_list (map eo_value (strategy_group k out)) - eo_value (hd (strategy_group k obs))\<bar>
        \<le> \<bar>eo_value (hd (strategy_group k obs))\<bar> / 2 ^ 53"
proof -
  note g = deduplicate_group [OF assms]
  have "mset (map eo_miner_id (strategy_group k out)) = mset (map eo_miner_id (strategy_group k obs))"
    using g by (simp add: multiset.map_comp comp_def)
  then show ?thesis using g group_mass [OF assms] by blast
qed

theorem duplicates_share_one_reward_witness:
  "\<exists>out. \<bar>sum_list (map eo_value (strategy_group (''c'', ''s'') out)) - 6\<bar> \<le> 6 / 2 ^ 53"
proof -
  obtain out where out: "deduplicate_task_rewards [sample_observation ''a'', sample_observation ''b''] = Inr out"
    by (rule sample_deduplicate)
  have "strategy_group (''c'', ''s'') [sample_observation ''a'', sample_observation ''b'']
      = [sample_observation ''a'', sample_observation ''b'']"
    by (simp add: strategy_group_def sample_observation_def counts_for_reward_def task_strategy_def)
  then show ?thesis
    using duplicates_share_one_reward [OF out, of "(''c'', ''s'')"]
    by (intro exI [of _ out]) (simp add: eo_value_def sample_observation_def)
qed

text \<open>Accounting neither loses nor invents an observation: up to order, its output is its input with
  only rewards and group sizes changed.\<close>

theorem deduplication_keeps_observations:
  assumes "deduplicate_task_rewards obs = Inr out"
  shows "mset (map observation_identity out) = mset (map observation_identity obs) \<and> length out = length obs"
  using deduplicate_identities [OF assms] by (metis length_map mset_eq_length)

theorem deduplication_keeps_observations_witness:
  "\<exists>out. deduplicate_task_rewards [sample_observation ''a'', sample_observation ''b''] = Inr out \<and> length out = 2"
proof -
  obtain out where out: "deduplicate_task_rewards [sample_observation ''a'', sample_observation ''b''] = Inr out"
    by (rule sample_deduplicate)
  with deduplication_keeps_observations [OF out] show ?thesis by simp
qed

section \<open>Aggregates\<close>

definition sample_aggregation_policy :: aggregation_policy where
  "sample_aggregation_policy = \<lparr>ap_required_families = [''f''],
     ap_task_schedule = [\<lparr>st_epoch = 0, st_family = ''f'', st_task_id = ''t'', st_task_commitment = ''c''\<rparr>],
     ap_minimum_tasks = 1, ap_minimum_tasks_per_family = 1, ap_minimum_availability = Fin (1 / 2),
     ap_minimum_compliance = Fin (1 / 2), ap_minimum_correctness = Fin (1 / 2), ap_winsor_fraction = Fin 0,
     ap_confidence_z = Fin 1, ap_maximum_weight = Fin 1, ap_minimum_distinct_strategies = 1\<rparr>"

lemma sample_aggregation_policy_valid: "valid_aggregation_policy sample_aggregation_policy"
  by (simp add: valid_aggregation_policy_def is_ok_iff aggregation_policy_check_def scheduled_task_check_def
      sample_aggregation_policy_def rbind_eq_Inr in_unit_iff in_half_open_iff finite_non_negative family_count_def)

lemma network_aggregate:
  assumes "valid_aggregation_policy p" "aggregate_network obs ids p = Inr ags"
  shows "length ags = length ids"
    and "i < length ids \<Longrightarrow> \<exists>os by_task. aggregate_scheduled_miner (ids ! i) os p = Inr (ags ! i)
      \<and> rfold (match_step (schedule_dict p)) [] os = Inr by_task"
proof -
  obtain dd where d: "rmap (\<lambda>m. aggregate_scheduled_miner m
      (case map_of (group_by eo_miner_id dd) m of Some os \<Rightarrow> os | None \<Rightarrow> []) p) ids = Inr ags"
    using assms(2) by (auto simp: aggregate_network_def Let_def rbind_eq_Inr)
  then show "length ags = length ids" by (rule rmap_length)
  assume "i < length ids"
  with d obtain os where a: "aggregate_scheduled_miner (ids ! i) os p = Inr (ags ! i)" by (auto simp: rmap_Inr_iff)
  then obtain by_task where "rfold (match_step (schedule_dict p)) [] os = Inr by_task"
    by (auto simp: aggregate_scheduled_miner_def rbind_eq_Inr)
  with a show "\<exists>os by_task. aggregate_scheduled_miner (ids ! i) os p = Inr (ags ! i)
      \<and> rfold (match_step (schedule_dict p)) [] os = Inr by_task" by blast
qed

text \<open>The facts of one aggregate, from those of \<open>aggregate_ok\<close>.\<close>

lemma network_aggregate_facts:
  assumes "valid_aggregation_policy p" "aggregate_network obs ids p = Inr ags" "i < length ids"
  shows "ma_miner_id (ags ! i) = ids ! i" "0 \<le> ma_reward (ags ! i)"
    "ma_eligible (ags ! i) = (0 < ma_reward (ags ! i))" "ma_eligible (ags ! i) = (ma_failure_code (ags ! i) = None)"
    "0 \<le> ma_availability (ags ! i)" "ma_availability (ags ! i) \<le> 1"
    "map fst (ma_family_scores (ags ! i)) = ap_required_families p"
    "ma_eligible (ags ! i) \<longrightarrow> ap_minimum_tasks p \<le> ma_task_count (ags ! i)
         \<and> float_val (ap_minimum_availability p) \<le> ma_availability (ags ! i)
         \<and> float_val (ap_minimum_compliance p) \<le> ma_compliance (ags ! i)
         \<and> float_val (ap_minimum_correctness p) \<le> ma_correctness (ags ! i)
         \<and> list_all (\<lambda>(f, s). 0 < s) (ma_family_scores (ags ! i))"
proof -
  obtain os by_task where a: "aggregate_scheduled_miner (ids ! i) os p = Inr (ags ! i)"
    and b: "rfold (match_step (schedule_dict p)) [] os = Inr by_task"
    using network_aggregate(2) [OF assms] by blast
  obtain m where "aggregate_scheduled_miner (ids ! i) os p = Inr m" and m: "ma_miner_id m = ids ! i" "0 \<le> ma_reward m"
    "ma_eligible m \<longleftrightarrow> 0 < ma_reward m" "ma_eligible m \<longleftrightarrow> ma_failure_code m = None" "0 \<le> ma_availability m"
    "ma_availability m \<le> 1" "map fst (ma_family_scores m) = ap_required_families p"
    "ma_eligible m \<longrightarrow> ap_minimum_tasks p \<le> ma_task_count m
         \<and> list_all (\<lambda>f. ap_minimum_tasks_per_family p \<le> family_count f (map eo_family (filter eo_available os)))
             (ap_required_families p)
         \<and> float_val (ap_minimum_availability p) \<le> ma_availability m
         \<and> float_val (ap_minimum_compliance p) \<le> ma_compliance m
         \<and> float_val (ap_minimum_correctness p) \<le> ma_correctness m
         \<and> list_all (\<lambda>(f, s). 0 < s) (ma_family_scores m)"
    using aggregate_ok [OF assms(1) b, of "ids ! i"] by (elim exE conjE)
  then have e: "ags ! i = m" using a by simp
  show "ma_miner_id (ags ! i) = ids ! i" "0 \<le> ma_reward (ags ! i)"
    "ma_eligible (ags ! i) = (0 < ma_reward (ags ! i))" "ma_eligible (ags ! i) = (ma_failure_code (ags ! i) = None)"
    "0 \<le> ma_availability (ags ! i)" "ma_availability (ags ! i) \<le> 1"
    "map fst (ma_family_scores (ags ! i)) = ap_required_families p"
    unfolding e by (rule m)+
  show "ma_eligible (ags ! i) \<longrightarrow> ap_minimum_tasks p \<le> ma_task_count (ags ! i)
         \<and> float_val (ap_minimum_availability p) \<le> ma_availability (ags ! i)
         \<and> float_val (ap_minimum_compliance p) \<le> ma_compliance (ags ! i)
         \<and> float_val (ap_minimum_correctness p) \<le> ma_correctness (ags ! i)
         \<and> list_all (\<lambda>(f, s). 0 < s) (ma_family_scores (ags ! i))"
    unfolding e using m(8) by blast
qed

lemma sample_network:
  obtains ags where "aggregate_network [sample_observation ''a''] [''a'', ''b''] sample_aggregation_policy = Inr ags"
proof -
  let ?o = "sample_observation ''a''" and ?p = sample_aggregation_policy
  have f: "fl 6 = 6" "0 \<le> fl (1 / 1000000000)" using fl_of_int [of 6] by (simp_all add: fl.rnd_nonneg)
  have dd: "deduplicate_task_rewards [?o] = Inr [?o]"
    by (simp add: deduplicate_task_rewards_def group_step_def counts_for_reward_def sample_observation_def
      dict_append_def dict_values_def share_group_def share_reward_def eo_value_def f not_less
      epoch_observation_check_def require_finite_non_negative_def)
  have grp: "group_by eo_miner_id [?o] = [(''a'', [?o])]"
    by (simp add: group_by_def dict_append_def sample_observation_def)
  have m: "rfold (match_step (schedule_dict ?p)) [] [?o] = Inr [(''t'', ?o)]" "rfold (match_step (schedule_dict ?p)) [] [] = Inr []"
    by (simp_all add: match_step_def schedule_dict_def sample_aggregation_policy_def sample_observation_def)
  obtain a where a: "aggregate_scheduled_miner ''a'' [?o] ?p = Inr a"
    using aggregate_ok [OF sample_aggregation_policy_valid m(1), of "''a''"] by (elim exE conjE)
  obtain b where b: "aggregate_scheduled_miner ''b'' [] ?p = Inr b"
    using aggregate_ok [OF sample_aggregation_policy_valid m(2), of "''b''"] by (elim exE conjE)
  have "eo_miner_id ?o = ''a''" by (simp add: sample_observation_def)
  then show thesis
    by (intro that [of "[a, b]"]) (simp add: aggregate_network_def dd grp a b Let_def)
qed

text \<open>A network aggregate has one entry per roster miner, in roster order, silent miners included.\<close>

theorem network_aggregate_follows_roster:
  assumes "valid_aggregation_policy p" "aggregate_network obs ids p = Inr ags"
  shows "map ma_miner_id ags = ids \<and> distinct (map ma_miner_id ags)"
proof -
  have "map ma_miner_id ags = ids"
    using network_aggregate_facts(1) [OF assms] network_aggregate(1) [OF assms] by (simp add: list_eq_iff_nth_eq)
  moreover have "distinct ids" using assms(2) by (auto simp: aggregate_network_def rbind_eq_Inr)
  ultimately show ?thesis by simp
qed

theorem network_aggregate_follows_roster_witness:
  "\<exists>ags. aggregate_network [sample_observation ''a''] [''a'', ''b''] sample_aggregation_policy = Inr ags
    \<and> map ma_miner_id ags = [''a'', ''b'']"
proof -
  obtain ags where ags: "aggregate_network [sample_observation ''a''] [''a'', ''b''] sample_aggregation_policy = Inr ags"
    by (rule sample_network)
  from network_aggregate_follows_roster [OF sample_aggregation_policy_valid ags] ags show ?thesis by simp
qed

text \<open>An aggregate pays exactly when every gate is passed: its reward is positive only with no
  failure code, enough tasks, availability, compliance and correctness at their minima and a
  positive robust score in every required family; availability is a proper rate.\<close>

theorem network_aggregate_gates:
  assumes "valid_aggregation_policy p" "aggregate_network obs ids p = Inr ags"
  shows "list_all (\<lambda>m. 0 \<le> ma_reward m \<and> ma_eligible m = (0 < ma_reward m) \<and> ma_eligible m = (ma_failure_code m = None)
      \<and> 0 \<le> ma_availability m \<and> ma_availability m \<le> 1 \<and> map fst (ma_family_scores m) = ap_required_families p
      \<and> (ma_eligible m \<longrightarrow> ap_minimum_tasks p \<le> ma_task_count m
           \<and> float_val (ap_minimum_availability p) \<le> ma_availability m
           \<and> float_val (ap_minimum_compliance p) \<le> ma_compliance m
           \<and> float_val (ap_minimum_correctness p) \<le> ma_correctness m
           \<and> list_all (\<lambda>(f, s). 0 < s) (ma_family_scores m))) ags"
  unfolding list_all_length [of _ ags]
  using network_aggregate_facts(2-8) [OF assms] network_aggregate(1) [OF assms] by simp

theorem network_aggregate_gates_witness:
  "\<exists>ags. aggregate_network [sample_observation ''a''] [''a'', ''b''] sample_aggregation_policy = Inr ags
    \<and> list_all (\<lambda>m. 0 \<le> ma_reward m) ags"
proof -
  obtain ags where ags: "aggregate_network [sample_observation ''a''] [''a'', ''b''] sample_aggregation_policy = Inr ags"
    by (rule sample_network)
  from network_aggregate_gates [OF sample_aggregation_policy_valid ags] ags show ?thesis
    by (auto simp: list_all_iff)
qed

section \<open>Allocation\<close>

definition sample_aggregate :: "string \<Rightarrow> string \<Rightarrow> miner_aggregate" where
  "sample_aggregate miner strategy = \<lparr>ma_miner_id = miner, ma_eligible = True, ma_reward = 10, ma_center = 10,
     ma_uncertainty = 0, ma_availability = 1, ma_compliance = 1, ma_correctness = 1, ma_task_count = 1,
     ma_family_scores = [(''f'', 10)], ma_strategy_digest = strategy, ma_behavior_digest = ''b'',
     ma_failure_code = None\<rparr>"

lemma sample_allocation:
  obtains r where "allocate_weights [sample_aggregate ''a'' ''s''] sample_aggregation_policy = Inr r" "al_planned r"
proof -
  let ?a = "sample_aggregate ''a'' ''s''" and ?p = sample_aggregation_policy
  have f: "fl 10 = 10" "fl (1 / 1000000000000) \<le> 1" "0 < fl (1 / 1000000000000000)"
    using fl_of_int [of 10] by (auto simp: fl.rnd_le_one fl.rnd_positive)
  have c: "0 \<le> fl (1 / 1000000000000)" "0 \<le> fl (1 / 1000000000000000)" by (simp_all add: fl.rnd_nonneg)
  have el: "eligible_aggregates [?a] = [?a]" by (simp add: eligible_aggregates_def sample_aggregate_def)
  have g: "group_by ma_behavior_digest [?a] = [(''b'', [?a])]"
    by (simp add: group_by_def dict_append_def sample_aggregate_def)
  have raw: "raw_group [?a] = 10"
    by (simp add: raw_group_def exact_strategy_mass_def dict_values_def sample_aggregate_def f)
  have slack: "1 \<le> cap_slack 1" unfolding cap_slack_def by (intro fl.rnd_ge_one) (use c in simp)
  have loop: "cap_loop 1 [(''b'', 10)] 1 [] = [(''b'', 1)]"
    using slack by (simp add: cap_loop.simps dict_values_def fsum_def f proposed_weights_def capped_keys_def dict_merge_def)
  have "\<not> 1 < fl (1 - fl (1 / 1000000000000))" using fl.rnd_le_one [of "1 - fl (1 / 1000000000000)"] c by simp
  then have n: "capped_normalize [(''b'', 10)] 1 = Inr [(''b'', 1)]"
    using c by (simp add: capped_normalize_def loop place_residue_def dict_values_def fsum_def)
  have mw: "member_weights 1 [?a] = Inr [(''a'', 1)]"
    by (simp add: member_weights_def fsum_def py_div_def sample_aggregate_def f)
  have p: "ap_minimum_distinct_strategies ?p = 1" "float_val (ap_maximum_weight ?p) = 1"
    by (simp_all add: sample_aggregation_policy_def)
  show thesis
    by (rule that, simp add: allocate_weights_def Let_def el g raw n mw p concentration_metrics_def
        dict_values_def fsum_def py_div_def, simp)
qed

text \<open>C13: a planned allocation covers exactly the eligible miners and their observed behaviours, once
  each; there are at least the required number of distinct behaviours and no behaviour gets
  more than the concentration cap (up to the residue allowance of one part in \<open>10^12\<close>).\<close>

theorem planned_allocation_respects_cap:
  assumes "valid_aggregation_policy p" "allocate_weights ags p = Inr r" "al_planned r"
  shows "set (map fst (al_weights r)) = ma_miner_id ` set (eligible_aggregates ags)
    \<and> set (map fst (al_strategy_weights r)) = ma_behavior_digest ` set (eligible_aggregates ags)
    \<and> distinct (map fst (al_weights r)) \<and> distinct (map fst (al_strategy_weights r))
    \<and> ap_minimum_distinct_strategies p \<le> int (length (al_strategy_weights r))
    \<and> list_all (\<lambda>(d, w). 0 \<le> w \<and> w \<le> cap_bound (float_val (ap_maximum_weight p))) (al_strategy_weights r)"
proof -
  note a = allocate_planned [OF assms(2,3,1)]
  have "int (card (set (map fst (al_strategy_weights r)))) = int (length (al_strategy_weights r))"
    using a distinct_card [of "map fst (al_strategy_weights r)"] by simp
  then show ?thesis using a by simp
qed

theorem planned_allocation_respects_cap_witness:
  "\<exists>r. allocate_weights [sample_aggregate ''a'' ''s''] sample_aggregation_policy = Inr r
    \<and> set (map fst (al_weights r)) = {''a''}"
proof -
  obtain r where r: "allocate_weights [sample_aggregate ''a'' ''s''] sample_aggregation_policy = Inr r" "al_planned r"
    by (rule sample_allocation)
  have "eligible_aggregates [sample_aggregate ''a'' ''s''] = [sample_aggregate ''a'' ''s'']" "ma_miner_id (sample_aggregate ''a'' ''s'') = ''a''"
    by (simp_all add: eligible_aggregates_def sample_aggregate_def)
  with planned_allocation_respects_cap [OF sample_aggregation_policy_valid r] r(1) show ?thesis by simp
qed

text \<open>A refused allocation sets no weight at all and says why.\<close>

theorem refused_allocation_is_empty:
  assumes "allocate_weights ags p = Inr r" "\<not> al_planned r"
  shows "al_weights r = [] \<and> al_strategy_weights r = [] \<and> al_concentration r = empty_metrics
    \<and> list_ex (\<lambda>reason. al_reason r = Some reason)
        [''all_failed'', ''insufficient_strategy_diversity'', ''insufficient_recipients_for_cap'']"
  using assms by (auto simp: allocate_weights_def Let_def unplanned_def rbind_eq_Inr split: if_splits sum.splits)

theorem refused_allocation_is_empty_witness:
  "al_weights (unplanned ''all_failed'' []) = []"
  using refused_allocation_is_empty [of "[]" sample_aggregation_policy "unplanned ''all_failed'' []"]
  by (simp add: allocate_weights_def eligible_aggregates_def unplanned_def)

text \<open>A behaviour gains nothing from more encodings: adding a miner with a new executable
  strategy to the group of an observed behaviour never raises the mass of that group.\<close>

theorem encoding_variant_never_pays:
  assumes "ms \<noteq> []" "ma_strategy_digest m \<notin> ma_strategy_digest ` set ms"
  shows "raw_group (ms @ [m]) \<le> raw_group ms"
  using assms by (rule raw_group_variant)

theorem encoding_variant_never_pays_witness:
  "raw_group ([sample_aggregate ''a'' ''s''] @ [sample_aggregate ''b'' ''s2'']) \<le> raw_group [sample_aggregate ''a'' ''s'']"
  by (rule encoding_variant_never_pays) (simp_all add: sample_aggregate_def)

text \<open>Kendall's tau-b of two rankings of up to ten thousand items is a correlation: despite the
  rounding of the root and the quotient it never leaves the interval from minus one to one.\<close>

theorem kendall_is_a_correlation:
  assumes "kendall_tau_b d e = Inr t" "length d \<le> 10000"
  shows "- 1 \<le> t \<and> t \<le> 1"
  using assms by (rule kendall_range)

theorem kendall_is_a_correlation_witness:
  "\<exists>t. kendall_tau_b [(''a'', 1), (''b'', 2)] [(''a'', 4), (''b'', 3)] = Inr t \<and> - 1 \<le> t \<and> t \<le> 1"
proof -
  have f: "fl (- 1) = - 1" using fl_minus [of 1] by simp
  have "kendall_tau_b [(''a'', 1), (''b'', 2)] [(''a'', 4), (''b'', 3)] = Inr (- 1)"
    by (simp add: kendall_tau_b_def kendall_counts_def count_pair_def keys_def f py_div_def)
  from this kendall_is_a_correlation [OF this] show ?thesis by simp
qed

section \<open>Weight planning and submission\<close>

text \<open>A planned update is a proper weight vector: at least the required number of distinct UIDs in
  increasing order, exactly those with a positive score, no weight is negative, and the rounded
  weights sum to one within \<open>2^-51\<close> and one subnormal unit for each weight.\<close>

theorem planned_weights_are_normalized:
  assumes "wf_dict scores" "plan_weights scores minimum = Inr p" "wp_planned p"
  shows "minimum \<le> int (length (wp_uids p)) \<and> length (wp_weights p) = length (wp_uids p)
    \<and> sorted_wrt (<) (wp_uids p)
    \<and> set (wp_uids p) = uid_of ` {k. \<exists>v. (k, v) \<in> set scores \<and> float_lt (Fin 0) v}
    \<and> list_all (\<lambda>w. 0 \<le> w) (wp_weights p)
    \<and> \<bar>sum_list (wp_weights p) - 1\<bar> \<le> 1 / 2 ^ 51 + real (length (wp_weights p)) * subnormal_unit"
proof -
  let ?pos = "positive_scores uid_of scores"
  have ok: "list_all valid_uid (keys scores)" "\<not> list_ex bad_score (dict_values scores)" "1 \<le> minimum"
    and n: "\<not> int (length ?pos) < minimum" and nw: "normalized_weights ?pos = Inr (wp_weights p)"
    and u: "wp_uids p = map fst (sort_key fst ?pos)"
    using assms(2,3) by (auto simp: plan_weights_def Let_def rbind_eq_Inr split: if_splits)
  have "valid_uid a \<Longrightarrow> valid_uid b \<Longrightarrow> uid_of a = uid_of b \<Longrightarrow> a = b" for a b by (cases a; cases b) auto
  then have d: "distinct (map fst ?pos)" by (rule distinct_positive_scores [OF assms(1) ok(1)])
  have ne: "?pos \<noteq> []" using n ok(3) by auto
  have "set (map fst ?pos) = uid_of ` {k. \<exists>v. (k, v) \<in> set scores \<and> float_lt (Fin 0) v}"
    by (force simp: positive_scores_def)
  moreover note normalized_plan [OF ne positive_scores_pos [OF ok(2), of _ uid_of] d nw]
  moreover have "length (wp_weights p) = length ?pos"
    using normalized_plan [OF ne positive_scores_pos [OF ok(2), of _ uid_of] d nw] by blast
  ultimately show ?thesis using n by (simp add: u)
qed

lemma sample_plan: "plan_weights [(PInt 3, Fin 1), (PInt 1, Fin 0)] 1
    = Inr \<lparr>wp_planned = True, wp_reason = None, wp_uids = [3], wp_weights = [1]\<rparr>"
proof -
  have "1 < float_bound" using powr_less_mono [of 0 1024 2] by (simp add: float_bound_def)
  then show ?thesis
    by (simp add: plan_weights_def keys_def dict_values_def bad_score_def positive_scores_def
      normalized_weights_def fsum_def dbl_div_def)
qed

theorem planned_weights_are_normalized_witness:
  "sorted_wrt (<) [3 :: int] \<and> \<bar>sum_list [1 :: real] - 1\<bar> \<le> 1 / 2 ^ 51 + subnormal_unit"
  using planned_weights_are_normalized [OF _ sample_plan] by (simp add: wf_dict_def keys_def)

text \<open>Planning weights by hotkey accepts exactly a positive minimum and finite, non-negative scores
  of non-empty hotkeys whose total does not overflow (unless there are too few to plan), and then
  never raises: the rounded total of positive scores is not zero.\<close>

theorem hotkey_planning_is_total:
  "is_ok (plan_hotkey_weights scores minimum) =
     (1 \<le> minimum \<and> list_all valid_hotkey_key (keys scores) \<and> \<not> list_ex bad_score (dict_values scores)
      \<and> (int (length (positive_scores hotkey_of scores)) < minimum
          \<or> fsum (dict_values (positive_scores hotkey_of scores)) < float_bound))"
proof (cases "1 \<le> minimum \<and> list_all valid_hotkey_key (keys scores) \<and> \<not> list_ex bad_score (dict_values scores)")
  case True
  let ?pos = "positive_scores hotkey_of scores"
  have "is_ok (normalized_weights ?pos) = (fsum (dict_values ?pos) < float_bound)" if "\<not> int (length ?pos) < minimum"
  proof -
    have "?pos \<noteq> []" using that True by auto
    from normalized_weights_ok(1) [OF this positive_scores_pos [of scores _ hotkey_of]] True show ?thesis
      by (simp add: is_ok_iff)
  qed
  then show ?thesis using True by (auto simp: is_ok_iff plan_hotkey_weights_def Let_def rbind_eq_Inr)
next
  case False
  then show ?thesis by (auto simp: is_ok_iff plan_hotkey_weights_def Let_def rbind_eq_Inr not_less)
qed

lemma zip_tagged: "zip (map f (map fst qs)) (map snd qs) = map (\<lambda>(u, w). (f u, w)) qs"
  by (induction qs) auto

lemma resolved_pairs:
  fixes ws :: "real list"
  assumes v: "list_all valid_uid uids" and d: "distinct uids" and l: "length uids = length ws"
  defines "ps \<equiv> sort (zip (map uid_of uids) ws)"
  shows "sorted_wrt (<) (map fst ps)" "list_all (\<lambda>u. 0 \<le> u) (map fst ps)"
    "mset (zip (map PInt (map fst ps)) (map snd ps)) = mset (zip uids ws)"
proof -
  have pu: "map (\<lambda>u. PInt (uid_of u)) uids = uids"
    using v by (intro map_idI) (auto simp: list_all_iff elim!: valid_uid.elims)
  have "distinct (map PInt (map uid_of uids))" using d pu by (simp add: comp_def)
  then have du: "distinct (map uid_of uids)" by (simp only: distinct_map)
  have "mset (map fst ps) = mset (map fst (zip (map uid_of uids) ws))" by (simp add: ps_def)
  then have m: "mset (map fst ps) = mset (map uid_of uids)" using l by (simp only: map_fst_zip length_map)
  have "sorted (map fst ps)"
    unfolding ps_def by (rule sorted_map_mono [OF sorted_sort]) (auto intro!: mono_onI simp: less_eq_prod_def)
  then show "sorted_wrt (<) (map fst ps)"
    using du m by (metis strict_sorted_iff mset_eq_imp_distinct_iff)
  have "set (map fst ps) = set (map uid_of uids)" using m by (metis set_mset_mset)
  then show "list_all (\<lambda>u. 0 \<le> u) (map fst ps)" using v by (fastforce simp: list_all_iff elim!: valid_uid.elims)
  have "zip (map PInt (map fst ps)) (map snd ps) = map (\<lambda>(u, w). (PInt u, w)) ps" by (simp only: zip_tagged)
  then have "mset (zip (map PInt (map fst ps)) (map snd ps)) = mset (map (\<lambda>(u, w). (PInt u, w)) (zip (map uid_of uids) ws))"
    by (simp add: ps_def)
  also have "map (\<lambda>(u, w). (PInt u, w)) (zip (map uid_of uids) ws) = zip (map (\<lambda>u. PInt (uid_of u)) uids) ws"
    by (simp add: zip_map1 comp_def case_prod_beta')
  finally show "mset (zip (map PInt (map fst ps)) (map snd ps)) = mset (zip uids ws)" by (simp only: pu)
qed

text \<open>Resolving a hotkey plan binds each hotkey's weight to the UID the finalized snapshot records
  for that hotkey: the pairs are a permutation of the plan's, over distinct non-negative UIDs in
  increasing order.\<close>

theorem resolution_follows_snapshot:
  assumes "resolve_hotkey_weight_plan plan snapshot = Inr p" "wp_planned p"
  shows "hp_planned plan \<and> sorted_wrt (<) (wp_uids p) \<and> list_all (\<lambda>u. 0 \<le> u) (wp_uids p)
    \<and> mset (zip (map PInt (wp_uids p)) (wp_weights p))
        = mset (zip (map (\<lambda>h. the (map_of (ms_uid_by_hotkey snapshot) h)) (hp_hotkeys plan)) (hp_weights plan))"
proof -
  obtain uids where r: "rmap (snapshot_uid snapshot) (hp_hotkeys plan) = Inr uids"
    and v: "list_all valid_uid uids" "distinct uids" "length uids = length (hp_weights plan)" and hp: "hp_planned plan"
    and p: "wp_uids p = map fst (sort (zip (map uid_of uids) (hp_weights plan)))"
      "wp_weights p = map snd (sort (zip (map uid_of uids) (hp_weights plan)))"
    using assms by (auto simp: resolve_hotkey_weight_plan_def Let_def rbind_eq_Inr split: if_splits)
  have "snapshot_uid snapshot h = Inr u \<Longrightarrow> u = the (map_of (ms_uid_by_hotkey snapshot) h)" for h u
    by (auto simp: snapshot_uid_def split: option.splits)
  then have "uids = map (\<lambda>h. the (map_of (ms_uid_by_hotkey snapshot) h)) (hp_hotkeys plan)"
    using r by (auto simp: rmap_Inr_iff list_eq_iff_nth_eq)
  then show ?thesis using hp resolved_pairs [OF v] by (simp only: p)
qed

theorem resolution_follows_snapshot_witness:
  "\<exists>p :: weight_plan. wp_uids p = [7] \<and> sorted_wrt (<) (wp_uids p)"
proof -
  let ?plan = "\<lparr>hp_planned = True, hp_reason = None, hp_hotkeys = [''h''], hp_weights = [1]\<rparr>"
  let ?snap = "\<lparr>ms_block_hash = ''0x'' @ replicate 64 CHR ''a'', ms_uid_by_hotkey = [(''h'', PInt 7)]\<rparr>"
  let ?p = "\<lparr>wp_planned = True, wp_reason = None, wp_uids = [7], wp_weights = [1 :: real]\<rparr>"
  have "py_len (''0x'' @ replicate 64 CHR ''a'') = 66" by code_simp
  then have "resolve_hotkey_weight_plan ?plan ?snap = Inr ?p"
    by (simp add: resolve_hotkey_weight_plan_def snapshot_uid_def starts_with_def)
  from resolution_follows_snapshot [OF this] show ?thesis by (intro exI [of _ ?p]) simp
qed

text \<open>C14: no accidental chain write. A submission either leaves the world untouched or is a real run of
  a planned update on an allowlisted network with a valid subnet id, and then the world
  changes by exactly one \<open>set_weights\<close> call carrying the plan.\<close>

theorem submission_is_guarded:
  "fst (submit_weight_plan setter world plan network netuid wallet hotkey dry_run) = world
   \<or> wp_planned plan \<and> 0 \<le> netuid \<and> dry_run = False \<and> py_lower (py_strip network) \<in> {''local'', ''test''}
     \<and> fst (submit_weight_plan setter world plan network netuid wallet hotkey dry_run)
       = fst (setter world \<lparr>sw_netuid = netuid, sw_weights = wp_weights plan, sw_uids = wp_uids plan,
                sw_wallet = wallet, sw_hotkey = hotkey, sw_network = py_lower (py_strip network)\<rparr>)"
proof (cases "ensure_supported_network network")
  case (Inr n)
  then have "n = py_lower (py_strip network)" "n \<in> {''local'', ''test''}"
    by (auto simp: ensure_supported_network_def Let_def ALLOWED_NETWORKS_def split: if_splits)
  then show ?thesis using Inr by (auto simp: submit_weight_plan_def split: prod.splits)
qed (simp add: submit_weight_plan_def)

end
