(* ===== verification/World.thy ===== *)
theory World
  imports Prelude
begin

text \<open>
  Computations on an outside world: a step takes the world and gives a result or an
  exception with the next world. The clock, files, database connections and processes of
  the sandbox are such steps, so their order is the order of the code. \<open>try/except\<close>,
  \<open>finally\<close> and \<open>for\<close> are functions on them.
\<close>

type_synonym ('w, 'a) io = "'w \<Rightarrow> 'a result \<times> 'w"

definition io_return :: "'a \<Rightarrow> ('w, 'a) io" where
  "io_return x w = (Inr x, w)"

definition io_raise :: "pyerr \<Rightarrow> ('w, 'a) io" where
  "io_raise e w = (Inl e, w)"

definition io_bind :: "('w, 'a) io \<Rightarrow> ('a \<Rightarrow> ('w, 'b) io) \<Rightarrow> ('w, 'b) io" where
  "io_bind m f w = (case m w of (Inl e, w') \<Rightarrow> (Inl e, w') | (Inr x, w') \<Rightarrow> f x w')"

text \<open>A pure computation that may raise, and a step that cannot.\<close>

definition io_lift :: "'a result \<Rightarrow> ('w, 'a) io" where
  "io_lift r w = (r, w)"

definition io_get :: "('w \<Rightarrow> 'a \<times> 'w) \<Rightarrow> ('w, 'a) io" where
  "io_get f w = (case f w of (x, w') \<Rightarrow> (Inr x, w'))"

definition io_do :: "('w \<Rightarrow> 'w) \<Rightarrow> ('w, unit) io" where
  "io_do f w = (Inr (), f w)"

definition io_catch :: "('w, 'a) io \<Rightarrow> (pyerr \<Rightarrow> ('w, 'a) io) \<Rightarrow> ('w, 'a) io" where
  "io_catch m h w = (case m w of (Inl e, w') \<Rightarrow> h e w' | (Inr x, w') \<Rightarrow> (Inr x, w'))"

definition io_finally :: "('w, 'a) io \<Rightarrow> ('w \<Rightarrow> 'w) \<Rightarrow> ('w, 'a) io" where
  "io_finally m f w = (case m w of (r, w') \<Rightarrow> (r, f w'))"

text \<open>\<open>try: x = m except: ...\<close> with the rest of the function after it.\<close>

definition io_try :: "('w, 'a) io \<Rightarrow> (pyerr \<Rightarrow> ('w, 'b) io) \<Rightarrow> ('a \<Rightarrow> ('w, 'b) io) \<Rightarrow> ('w, 'b) io" where
  "io_try m h k w = (case m w of (Inl e, w') \<Rightarrow> h e w' | (Inr x, w') \<Rightarrow> k x w')"

fun io_map :: "('a \<Rightarrow> ('w, 'b) io) \<Rightarrow> 'a list \<Rightarrow> ('w, 'b list) io" where
  "io_map f [] = io_return []"
| "io_map f (x # xs) = io_bind (f x) (\<lambda>y. io_bind (io_map f xs) (\<lambda>ys. io_return (y # ys)))"

definition io_each :: "('a \<Rightarrow> ('w, unit) io) \<Rightarrow> 'a list \<Rightarrow> ('w, unit) io" where
  "io_each f xs = io_bind (io_map f xs) (\<lambda>_. io_return ())"

section \<open>Rules\<close>

named_theorems io_simps \<open>what a computation returns, by its parts\<close>

lemma io_return_simp [simp, io_simps]: "io_return x w = (Inr x, w)"
  by (simp add: io_return_def)

lemma io_raise_simp [simp, io_simps]: "io_raise e w = (Inl e, w)"
  by (simp add: io_raise_def)

lemma io_lift_simp [simp, io_simps]: "io_lift r w = (r, w)"
  by (simp add: io_lift_def)

lemma io_do_simp [simp, io_simps]: "io_do f w = (Inr (), f w)"
  by (simp add: io_do_def)

lemma io_get_simp [io_simps]: "io_get f w = (Inr (fst (f w)), snd (f w))"
  by (simp add: io_get_def split: prod.splits)

lemma io_bind_Inr [io_simps]:
  "io_bind m f w = (Inr y, w2) \<longleftrightarrow> (\<exists>x w1. m w = (Inr x, w1) \<and> f x w1 = (Inr y, w2))"
  by (auto simp: io_bind_def split: prod.splits sum.splits)

lemma io_bind_Inl [io_simps]:
  "io_bind m f w = (Inl e, w2) \<longleftrightarrow> m w = (Inl e, w2) \<or> (\<exists>x w1. m w = (Inr x, w1) \<and> f x w1 = (Inl e, w2))"
  by (auto simp: io_bind_def split: prod.splits sum.splits)

lemma io_catch_Inr:
  "io_catch m h w = (Inr y, w2) \<longleftrightarrow> m w = (Inr y, w2) \<or> (\<exists>e w1. m w = (Inl e, w1) \<and> h e w1 = (Inr y, w2))"
  by (auto simp: io_catch_def split: prod.splits sum.splits)

lemma io_try_Inr [io_simps]:
  "io_try m h k w = (Inr y, w2) \<longleftrightarrow> (\<exists>x w1. m w = (Inr x, w1) \<and> k x w1 = (Inr y, w2))
     \<or> (\<exists>e w1. m w = (Inl e, w1) \<and> h e w1 = (Inr y, w2))"
  by (auto simp: io_try_def split: prod.splits sum.splits)

lemma io_finally_fst: "fst (io_finally m f w) = fst (m w)"
  by (simp add: io_finally_def split: prod.splits)

lemma io_finally_Inr [io_simps]:
  "io_finally m f w = (Inr y, w2) \<longleftrightarrow> (\<exists>w1. m w = (Inr y, w1) \<and> w2 = f w1)"
  by (auto simp: io_finally_def split: prod.splits)

lemma io_finally_Inl [io_simps]:
  "io_finally m f w = (Inl e, w2) \<longleftrightarrow> (\<exists>w1. m w = (Inl e, w1) \<and> w2 = f w1)"
  by (auto simp: io_finally_def split: prod.splits)

text \<open>Evaluation, for running a computation on a concrete world.\<close>

lemmas io_run = io_bind_def io_catch_def io_try_def io_finally_def io_get_def io_each_def

lemma io_bind_assoc: "io_bind (io_bind m f) g = io_bind m (\<lambda>x. io_bind (f x) g)"
  by (rule ext) (simp add: io_bind_def split: prod.splits sum.splits)

lemma io_bind_return [simp]: "io_bind (io_return x) f = f x"
  by (rule ext) (simp add: io_bind_def)

lemma io_map_length: "io_map f xs w = (Inr ys, w') \<Longrightarrow> length ys = length xs"
  by (induction xs arbitrary: ys w w') (auto simp: io_bind_Inr)

lemma io_map_each: "io_map f xs w = (Inr ys, w') \<Longrightarrow> list_all2 (\<lambda>x y. \<exists>u u'. f x u = (Inr y, u')) xs ys"
  by (induction xs arbitrary: ys w) (auto simp: io_bind_Inr)

text \<open>What is returned when every step satisfies a predicate.\<close>

definition io_all :: "('w, 'a) io \<Rightarrow> ('a \<Rightarrow> bool) \<Rightarrow> bool" where
  "io_all m P \<longleftrightarrow> (\<forall>w y w'. m w = (Inr y, w') \<longrightarrow> P y)"

lemma io_all_return [intro]: "P x \<Longrightarrow> io_all (io_return x) P"
  by (simp add: io_all_def)

lemma io_all_raise [intro]: "io_all (io_raise e) P"
  by (simp add: io_all_def)

lemma io_all_bind: "(\<And>x. io_all (f x) P) \<Longrightarrow> io_all (io_bind m f) P"
  unfolding io_all_def by (simp add: io_bind_Inr) blast

lemma io_all_bind_post: "io_all m Q \<Longrightarrow> (\<And>x. Q x \<Longrightarrow> io_all (f x) P) \<Longrightarrow> io_all (io_bind m f) P"
  unfolding io_all_def by (simp add: io_bind_Inr) blast

lemma io_all_bind_self: "(\<And>x w w'. m w = (Inr x, w') \<Longrightarrow> io_all (f x) P) \<Longrightarrow> io_all (io_bind m f) P"
  unfolding io_all_def by (simp add: io_bind_Inr) blast

text \<open>What a step can return.\<close>

definition returns :: "('w, 'a) io \<Rightarrow> 'a \<Rightarrow> bool" where
  "returns m x \<longleftrightarrow> (\<exists>u u'. m u = (Inr x, u'))"

lemma io_all_bind_returns: "(\<And>x. returns m x \<Longrightarrow> io_all (f x) P) \<Longrightarrow> io_all (io_bind m f) P"
  by (rule io_all_bind_self) (auto simp: returns_def)

lemma io_all_lift: "(\<And>x. r = Inr x \<Longrightarrow> P x) \<Longrightarrow> io_all (io_lift r) P"
  by (auto simp: io_all_def)

lemma io_all_catch: "io_all m P \<Longrightarrow> (\<And>e. io_all (h e) P) \<Longrightarrow> io_all (io_catch m h) P"
  unfolding io_all_def by (simp add: io_catch_Inr) blast

lemma io_all_try: "(\<And>x. io_all (k x) P) \<Longrightarrow> (\<And>e. io_all (h e) P) \<Longrightarrow> io_all (io_try m h k) P"
  unfolding io_all_def by (simp add: io_try_Inr) blast

lemma io_all_try_self:
  "(\<And>x w w'. m w = (Inr x, w') \<Longrightarrow> io_all (k x) P) \<Longrightarrow> (\<And>e. io_all (h e) P) \<Longrightarrow> io_all (io_try m h k) P"
  unfolding io_all_def by (simp add: io_try_Inr) blast

lemma io_all_finally: "io_all m P \<Longrightarrow> io_all (io_finally m f) P"
  unfolding io_all_def by (auto simp: io_finally_Inr)

lemma io_all_if: "(b \<Longrightarrow> io_all m P) \<Longrightarrow> (\<not> b \<Longrightarrow> io_all n P) \<Longrightarrow> io_all (if b then m else n) P"
  by simp

lemma io_allD: "io_all m P \<Longrightarrow> m w = (Inr y, w') \<Longrightarrow> P y"
  unfolding io_all_def by blast

text \<open>Which exceptions a computation may raise.\<close>

definition io_raises :: "('w, 'a) io \<Rightarrow> (pyerr \<Rightarrow> bool) \<Rightarrow> bool" where
  "io_raises m E \<longleftrightarrow> (\<forall>w e w'. m w = (Inl e, w') \<longrightarrow> E e)"

lemma io_raises_return [intro, simp]: "io_raises (io_return x) E"
  by (simp add: io_raises_def)

lemma io_raises_raise [simp]: "io_raises (io_raise e) E \<longleftrightarrow> E e"
  by (auto simp: io_raises_def)

lemma io_raises_lift [simp]: "io_raises (io_lift r) E \<longleftrightarrow> (\<forall>e. r = Inl e \<longrightarrow> E e)"
  by (auto simp: io_raises_def)

lemma io_raises_get [simp]: "io_raises (io_get f) E"
  by (simp add: io_raises_def io_get_simp)

lemma io_raises_do [simp]: "io_raises (io_do f) E"
  by (simp add: io_raises_def)

lemma io_raises_bind [intro]: "io_raises m E \<Longrightarrow> (\<And>x. io_raises (f x) E) \<Longrightarrow> io_raises (io_bind m f) E"
  unfolding io_raises_def by (simp add: io_bind_Inl) blast

lemma io_raises_finally [intro]: "io_raises m E \<Longrightarrow> io_raises (io_finally m f) E"
  unfolding io_raises_def by (auto simp: io_finally_Inl)

lemma io_raises_if [intro]: "io_raises m E \<Longrightarrow> io_raises n E \<Longrightarrow> io_raises (if b then m else n) E"
  by simp

lemma io_raises_map [intro]: "(\<And>x. x \<in> set xs \<Longrightarrow> io_raises (f x) E) \<Longrightarrow> io_raises (io_map f xs) E"
  by (induction xs) auto

lemma io_raises_each [intro]: "(\<And>x. x \<in> set xs \<Longrightarrow> io_raises (f x) E) \<Longrightarrow> io_raises (io_each f xs) E"
  unfolding io_each_def by auto

lemma io_raises_try:
  assumes "\<And>x. io_raises (k x) E" "\<And>w e w'. m w = (Inl e, w') \<Longrightarrow> io_raises (h e) E"
  shows "io_raises (io_try m h k) E"
  unfolding io_raises_def
proof (intro allI impI)
  fix w e w2
  assume "io_try m h k w = (Inl e, w2)"
  then consider x w1 where "k x w1 = (Inl e, w2)" | e1 w1 where "m w = (Inl e1, w1)" "h e1 w1 = (Inl e, w2)"
    by (auto simp: io_try_def split: prod.splits sum.splits)
  then show "E e"
    by cases (use assms in \<open>unfold io_raises_def, blast+\<close>)
qed

lemma io_raises_catch:
  assumes "\<And>w e w'. m w = (Inl e, w') \<Longrightarrow> io_raises (h e) E"
  shows "io_raises (io_catch m h) E"
  unfolding io_raises_def
proof (intro allI impI)
  fix w e w2
  assume "io_catch m h w = (Inl e, w2)"
  then obtain e1 w1 where "m w = (Inl e1, w1)" "h e1 w1 = (Inl e, w2)"
    by (auto simp: io_catch_def split: prod.splits sum.splits)
  with assms show "E e" unfolding io_raises_def by blast
qed

end
