(* ===== verification/Oracle.thy ===== *)
theory Oracle
  imports Digest "HOL-Library.Word"
begin

text \<open>
  The exact-result oracle of \<open>planrace/oracle_v2.py\<close>: typed cells, their canonical text
  (\<open>float.hex\<close>, base64, canonical decimals), the bounded canonicalization of a result and the
  comparison of two results. The lemmas show that cell and row encodings are injective up to
  the storage value, that the newline-joined payload can be taken apart again, and what
  equality of two digests says about the rows.
\<close>

section \<open>Cells and their canonical text\<close>

text \<open>A Python \<open>decimal.Decimal\<close>: finite with sign, coefficient and exponent, or special.\<close>

datatype decimal =
    DFinite bool nat int
  | DInfinity bool
  | DNaN

text \<open>What a result row may hold. A float is its 64 bits.\<close>

datatype cell =
    CNull
  | CBool bool
  | CInt int
  | CDecimal decimal
  | CFloat "64 word"
  | CStr string
  | CMemoryview bytes
  | CBytearray bytes
  | CBytes bytes
  | COther string \<comment> \<open>another type, by its name\<close>

subsection \<open>\<open>float.hex\<close>\<close>

fun hex_fixed :: "nat \<Rightarrow> nat \<Rightarrow> string" where
  "hex_fixed 0 n = []"
| "hex_fixed (Suc w) n = hex_fixed w (n div 16) @ [hex_digit (n mod 16)]"

definition signed_str :: "int \<Rightarrow> string" where
  "signed_str e = (if e < 0 then ''-'' else ''+'') @ nat_str (nat \<bar>e\<bar>)"

definition float_sign :: "64 word \<Rightarrow> bool" where
  "float_sign w \<longleftrightarrow> 2 ^ 63 \<le> unat w"

definition float_exponent :: "64 word \<Rightarrow> nat" where
  "float_exponent w = unat w div 2 ^ 52 mod 2048"

definition float_mantissa :: "64 word \<Rightarrow> nat" where
  "float_mantissa w = unat w mod 2 ^ 52"

definition float_hex :: "64 word \<Rightarrow> string" where
  "float_hex w = (if float_sign w then ''-'' else []) @
     (if float_exponent w = 0 \<and> float_mantissa w = 0 then ''0x0.0p+0''
      else if float_exponent w = 0 then ''0x0.'' @ hex_fixed 13 (float_mantissa w) @ ''p-1022''
      else ''0x1.'' @ hex_fixed 13 (float_mantissa w) @ ''p'' @ signed_str (int (float_exponent w) - 1023))"

definition float_text :: "64 word \<Rightarrow> string" where
  "float_text w =
     (if float_exponent w = 2047 \<and> float_mantissa w \<noteq> 0 then ''nan''
      else if float_exponent w = 2047 then (if float_sign w then ''-infinity'' else ''+infinity'')
      else float_hex w)"

subsection \<open>Base64\<close>

definition b64_char :: "nat \<Rightarrow> char" where
  "b64_char n = (if n < 26 then char_of (65 + n) else if n < 52 then char_of (71 + n)
     else if n < 62 then char_of (n - 4) else if n = 62 then CHR ''+'' else CHR ''/'')"

fun b64encode :: "bytes \<Rightarrow> string" where
  "b64encode [] = []"
| "b64encode [a] = [b64_char (of_char a div 4), b64_char (of_char a mod 4 * 16), CHR ''='', CHR ''='']"
| "b64encode [a, b] = [b64_char (of_char a div 4), b64_char (of_char a mod 4 * 16 + of_char b div 16),
     b64_char (of_char b mod 16 * 4), CHR ''='']"
| "b64encode (a # b # c # r) = [b64_char (of_char a div 4), b64_char (of_char a mod 4 * 16 + of_char b div 16),
     b64_char (of_char b mod 16 * 4 + of_char c div 64), b64_char (of_char c mod 64)] @ b64encode r"

subsection \<open>Canonical decimals\<close>

text \<open>
  \<open>Decimal.normalize()\<close> first rounds to the default context (28 digits, half even, exponents
  up to 999999) and then drops trailing zeros.
\<close>

definition DECIMAL_PREC :: nat where "DECIMAL_PREC = 28"
definition DECIMAL_ETINY :: int where "DECIMAL_ETINY = - 1000026"
definition DECIMAL_ETOP :: int where "DECIMAL_ETOP = 999972"
definition DECIMAL_EMAX :: int where "DECIMAL_EMAX = 999999"

definition round_half_even :: "nat \<Rightarrow> nat \<Rightarrow> nat" where
  "round_half_even c p = (let q = c div p; r = c mod p in
     if p < 2 * r \<or> (2 * r = p \<and> odd q) then q + 1 else q)"

definition decimal_fix :: "nat \<Rightarrow> int \<Rightarrow> (nat \<times> int) result" where
  "decimal_fix c e =
     (let lead = int (length (nat_str c)) + e - int DECIMAL_PREC in
      if DECIMAL_ETOP < lead then Inl DecimalOverflow
      else let e_min = max lead DECIMAL_ETINY in
        if e_min \<le> e then Inr (c, e)
        else let q = round_half_even c (10 ^ nat (e_min - e));
                 (q', e') = (if DECIMAL_PREC < length (nat_str q) then (q div 10, e_min + 1) else (q, e_min))
             in if DECIMAL_ETOP < e' then Inl DecimalOverflow else Inr (q', e'))"

function strip_zeros :: "nat \<Rightarrow> int \<Rightarrow> nat \<times> int" where
  "strip_zeros c e = (if c \<noteq> 0 \<and> c mod 10 = 0 \<and> e < DECIMAL_EMAX then strip_zeros (c div 10) (e + 1) else (c, e))"
  by pat_completeness auto
termination
  by (relation "measure fst") auto

declare strip_zeros.simps [simp del]

definition decimal_normalize :: "nat \<Rightarrow> int \<Rightarrow> (nat \<times> int) result" where
  "decimal_normalize c e = rbind (decimal_fix c e) (\<lambda>(q, e').
     Inr (if q = 0 then (0, 0) else strip_zeros q e'))"

text \<open>\<open>format(value, "f")\<close> without a precision.\<close>

definition decimal_plain :: "nat \<Rightarrow> int \<Rightarrow> string" where
  "decimal_plain c e =
     (let digits = nat_str c; point = int (length digits) + e in
      if point < 0 then ''0.'' @ replicate (nat (- point)) (CHR ''0'') @ digits
      else if int (length digits) \<le> point then digits @ replicate (nat point - length digits) (CHR ''0'')
      else (if point = 0 then ''0'' else take (nat point) digits) @ ''.'' @ drop (nat point) digits)"

definition rstrip_char :: "char \<Rightarrow> string \<Rightarrow> string" where
  "rstrip_char c s = rev (dropWhile (\<lambda>d. d = c) (rev s))"

fun canonical_decimal :: "decimal \<Rightarrow> string result" where
  "canonical_decimal DNaN = Inr ''nan''"
| "canonical_decimal (DInfinity negative) = Inr (if negative then ''-infinity'' else ''+infinity'')"
| "canonical_decimal (DFinite negative c e) =
     (if c = 0 then Inr (if negative then ''-0'' else ''0'')
      else rbind (decimal_normalize c e) (\<lambda>(q, e').
        let rendered = (if negative then ''-'' else []) @ decimal_plain q e'
        in Inr (if CHR ''.'' \<in> set rendered then rstrip_char (CHR ''.'') (rstrip_char (CHR ''0'') rendered)
                else rendered)))"

subsection \<open>\<open>_encode_cell\<close>\<close>

fun encode_cell :: "cell \<Rightarrow> (string \<times> string) result" where
  "encode_cell CNull = Inr (''null'', '''')"
| "encode_cell (CBool b) = Inr (''integer'', if b then ''1'' else ''0'')"
| "encode_cell (CInt i) = Inr (''integer'', int_str i)"
| "encode_cell (CDecimal d) = rbind (canonical_decimal d) (\<lambda>t. Inr (''decimal'', t))"
| "encode_cell (CFloat w) = Inr (''float64'', float_text w)"
| "encode_cell (CStr s) = Inr (''string'', s)"
| "encode_cell (CMemoryview bs) = Inr (''blob-base64'', b64encode bs)"
| "encode_cell (CBytearray bs) = Inr (''blob-base64'', b64encode bs)"
| "encode_cell (CBytes bs) = Inr (''blob-base64'', b64encode bs)"
| "encode_cell (COther t) = Inl (UnsupportedResultType (''unsupported SQL result type: '' @ t))"

section \<open>Policy and result\<close>

definition RESULT_DOMAIN_V2 :: bytes where "RESULT_DOMAIN_V2 = ''planrace/2:exact-result''"
definition PINNED_SQLITE_ENGINE :: string where "PINNED_SQLITE_ENGINE = ''sqlite-3.46.1''"

record result_policy =
  rp_engine :: string
  rp_ordered :: bool
  rp_collation :: string
  rp_max_rows :: int
  rp_max_cells :: int
  rp_max_output_bytes :: int

definition result_policy_check :: "result_policy \<Rightarrow> unit result" where
  "result_policy_check p =
     rbind (rcheck (rp_engine p = PINNED_SQLITE_ENGINE)
              (ValueError (''engine must be exactly '' @ PINNED_SQLITE_ENGINE))) (\<lambda>_.
     rbind (rcheck (rp_collation p \<in> {''sqlite-binary'', ''sqlite-nocase'', ''sqlite-rtrim''})
              (ValueError ''collation is not in the v2 SQLite policy'')) (\<lambda>_.
       rcheck (\<not> (rp_max_rows p < 0 \<or> rp_max_cells p < 0 \<or> rp_max_output_bytes p < 256))
         (ValueError ''result bounds must be non-negative and output must allow a header'')))"

definition DEFAULT_RESULT_POLICY :: result_policy where
  "DEFAULT_RESULT_POLICY = \<lparr>rp_engine = PINNED_SQLITE_ENGINE, rp_ordered = True,
     rp_collation = ''sqlite-binary'', rp_max_rows = 10000, rp_max_cells = 100000,
     rp_max_output_bytes = 2 * 1024 * 1024\<rparr>"

record canonical_result =
  cr_digest :: string
  cr_row_count :: nat
  cr_column_count :: nat
  cr_cell_count :: nat
  cr_canonical_bytes :: bytes

text \<open>
  An iterable of rows, as the source can observe it: the \<open>description\<close> attribute, the rows,
  and the error the iteration raises after the last row, if it raises one.
\<close>

datatype description = NoDescription | BadDescription | Description nat

datatype result_row = Row "cell list" | BadRow

record result_stream =
  rs_description :: description
  rs_rows :: "result_row list"
  rs_error :: "pyerr option"

fun projection_count_from_cursor :: "description \<Rightarrow> nat option result" where
  "projection_count_from_cursor NoDescription = Inr None"
| "projection_count_from_cursor BadDescription = Inl (ResultOracleError ''cursor.description must be a sequence'')"
| "projection_count_from_cursor (Description n) = Inr (Some n)"

definition validate_projection_column_count :: "pyval \<Rightarrow> result_policy \<Rightarrow> nat result" where
  "validate_projection_column_count v p =
     (case v of
        PInt n \<Rightarrow> if n < 0 then Inl (ResultOracleError ''projection_column_count must be a non-negative integer'')
                  else if rp_max_cells p < n then Inl (ResultLimitExceeded ''cell_limit'')
                  else Inr (nat n)
      | _ \<Rightarrow> Inl (ResultOracleError ''projection_column_count must be a non-negative integer''))"

section \<open>\<open>canonicalize_result\<close>\<close>

definition row_json :: "(string \<times> string) list \<Rightarrow> json" where
  "row_json cells = JArr (map (\<lambda>(t, v). jstrs [t, v]) cells)"

record oracle_state =
  os_rows :: "bytes list"
  os_columns :: "nat option"
  os_cells :: nat
  os_size :: nat

definition oracle_step :: "result_policy \<Rightarrow> oracle_state \<Rightarrow> result_row \<Rightarrow> oracle_state result" where
  "oracle_step p s row =
     rbind (rcheck (\<not> rp_max_rows p < int (length (os_rows s)) + 1) (ResultLimitExceeded ''row_limit'')) (\<lambda>_.
     case row of
       BadRow \<Rightarrow> Inl (UnsupportedResultType ''each result row must be a non-string sequence'')
     | Row vs \<Rightarrow>
         rbind (rcheck (os_columns s = None \<or> os_columns s = Some (length vs))
                 (ResultOracleError ''result rows have inconsistent column counts'')) (\<lambda>_.
         rbind (rcheck (\<not> rp_max_cells p < int (os_cells s + length vs)) (ResultLimitExceeded ''cell_limit'')) (\<lambda>_.
         rbind (rmap encode_cell vs) (\<lambda>cells.
          let encoded = json_dumps (row_json cells)
          in rbind (rcheck (\<not> rp_max_output_bytes p < int (os_size s + length encoded))
                     (ResultLimitExceeded ''output_limit'')) (\<lambda>_.
             Inr \<lparr>os_rows = os_rows s @ [encoded], os_columns = Some (length vs),
                  os_cells = os_cells s + length vs, os_size = os_size s + length encoded\<rparr>)))))"

definition result_header :: "result_policy \<Rightarrow> nat \<Rightarrow> nat \<Rightarrow> json" where
  "result_header p columns rows = JObj
     [(''collation'', JStr (rp_collation p)), (''column_count'', JInt (int columns)),
      (''engine'', JStr (rp_engine p)), (''order'', JStr (if rp_ordered p then ''ordered'' else ''multiset'')),
      (''protocol'', JStr ''planrace/2''), (''row_count'', JInt (int rows))]"

definition newline :: char where "newline = CHR 0x0A"

definition canonical_payload :: "result_policy \<Rightarrow> nat \<Rightarrow> bytes list \<Rightarrow> bytes" where
  "canonical_payload p columns rows =
     json_dumps (result_header p columns (length rows)) @ [newline] @ join [newline] rows"

text \<open>The column count known before the first row.\<close>

definition initial_columns :: "result_stream \<Rightarrow> result_policy \<Rightarrow> pyval option \<Rightarrow> nat option result" where
  "initial_columns stream p projection =
     rbind (projection_count_from_cursor (rs_description stream)) (\<lambda>cursor_count.
     case projection of
       None \<Rightarrow> Inr cursor_count
     | Some v \<Rightarrow>
         rbind (validate_projection_column_count v p) (\<lambda>n.
         rbind (rcheck (cursor_count = None \<or> cursor_count = Some n)
                 (ResultOracleError ''projection_column_count disagrees with cursor.description'')) (\<lambda>_.
           Inr (Some n))))"

definition canonicalize_result :: "result_stream \<Rightarrow> result_policy \<Rightarrow> pyval option \<Rightarrow> canonical_result result" where
  "canonicalize_result stream p projection =
     rbind (initial_columns stream p projection) (\<lambda>columns.
     rbind (rfold (oracle_step p) \<lparr>os_rows = [], os_columns = columns, os_cells = 0, os_size = 0\<rparr> (rs_rows stream)) (\<lambda>s.
     rbind (case rs_error stream of Some e \<Rightarrow> Inl e | None \<Rightarrow> Inr ()) (\<lambda>_.
     case os_columns s of
       None \<Rightarrow> Inl (ResultOracleError ''empty results require projection_column_count or cursor.description'')
     | Some column_count \<Rightarrow>
         let encoded_rows = (if rp_ordered p then os_rows s else sort (os_rows s));
             canonical = canonical_payload p column_count encoded_rows
         in rbind (rcheck (\<not> rp_max_output_bytes p < int (length canonical)) (ResultLimitExceeded ''output_limit'')) (\<lambda>_.
            rbind (to_bytes_big 2 (length RESULT_DOMAIN_V2)) (\<lambda>domain_length.
            rbind (to_bytes_big 8 (length canonical)) (\<lambda>canonical_length.
              Inr \<lparr>cr_digest = ''sha256:'' @ sha256_hex (domain_length @ RESULT_DOMAIN_V2 @ canonical_length @ canonical),
                   cr_row_count = length encoded_rows, cr_column_count = column_count,
                   cr_cell_count = os_cells s, cr_canonical_bytes = canonical\<rparr>))))))"

definition exact_results_equal :: "result_stream \<Rightarrow> result_stream \<Rightarrow> result_policy \<Rightarrow> pyval option \<Rightarrow> bool result" where
  "exact_results_equal reference candidate p projection =
     rbind (canonicalize_result reference p projection) (\<lambda>r.
     rbind (canonicalize_result candidate p projection) (\<lambda>c.
       Inr (cr_digest r = cr_digest c)))"

section \<open>Cell texts are injective\<close>

lemma length_hex_fixed [simp]: "length (hex_fixed w n) = w"
  by (induction w arbitrary: n) auto

lemma hex_fixed_inject: "m < 16 ^ w \<Longrightarrow> n < 16 ^ w \<Longrightarrow> hex_fixed w m = hex_fixed w n \<longleftrightarrow> m = n"
proof (induction w arbitrary: m n)
  case (Suc w)
  have "m div 16 < 16 ^ w" "n div 16 < 16 ^ w"
    using Suc.prems by (simp_all add: less_mult_imp_div_less mult.commute)
  note IH = Suc.IH [OF this]
  show ?case
  proof
    assume "hex_fixed (Suc w) m = hex_fixed (Suc w) n"
    then have "m div 16 = n div 16" "m mod 16 = n mod 16" using IH by (auto simp: hex_digit_inject)
    then show "m = n" by (metis div_mult_mod_eq)
  qed simp
qed simp

lemma signed_str_inject: "signed_str i = signed_str j \<Longrightarrow> i = j"
  by (auto simp: signed_str_def split: if_splits)

text \<open>A float is its sign, exponent and mantissa.\<close>

lemma split_64:
  assumes "(n :: nat) < 2 ^ 64"
  shows "n = (if 2 ^ 63 \<le> n then 2 ^ 63 else 0) + n div 2 ^ 52 mod 2048 * 2 ^ 52 + n mod 2 ^ 52"
proof -
  define m where "m = (if 2 ^ 63 \<le> n then n - 2 ^ 63 else n)"
  have n: "n = (if 2 ^ 63 \<le> n then 2 ^ 63 else 0) + m" and m: "m < 2 ^ 63"
    using assms by (auto simp: m_def)
  have "(2 ^ 63 + m) div 2 ^ 52 mod 2048 = m div 2 ^ 52 mod 2048" "(2 ^ 63 + m) mod 2 ^ 52 = m mod 2 ^ 52"
    using div_mult_self3 [of "2 ^ 52" "2048 :: nat" m] mod_mult_self3 [of "2048 :: nat" "2 ^ 52" m] by simp_all
  moreover have "m div 2 ^ 52 mod 2048 = m div 2 ^ 52" using m by (simp add: less_mult_imp_div_less)
  ultimately have "n div 2 ^ 52 mod 2048 = m div 2 ^ 52" "n mod 2 ^ 52 = m mod 2 ^ 52" using n by (auto split: if_splits)
  then have "n div 2 ^ 52 mod 2048 * 2 ^ 52 + n mod 2 ^ 52 = m" by (simp only: div_mult_mod_eq)
  then show ?thesis using n by linarith
qed

lemma float_fields_inject:
  assumes "float_sign v = float_sign w" "float_exponent v = float_exponent w" "float_mantissa v = float_mantissa w"
  shows "v = w"
proof -
  have "unat u = (if float_sign u then 2 ^ 63 else 0) + float_exponent u * 2 ^ 52 + float_mantissa u" for u :: "64 word"
    unfolding float_sign_def float_exponent_def float_mantissa_def
    by (rule split_64) (use unsigned_less [of u] in simp)
  then have "unat v = unat w" using assms by metis
  then show ?thesis by (rule unsigned_word_eqI)
qed

lemma mantissa_hex_inject:
  "hex_fixed 13 (float_mantissa v) = hex_fixed 13 (float_mantissa w) \<longleftrightarrow> float_mantissa v = float_mantissa w"
  by (rule hex_fixed_inject) (simp_all add: float_mantissa_def)

definition float_body :: "64 word \<Rightarrow> string" where
  "float_body w =
     (if float_exponent w = 0 \<and> float_mantissa w = 0 then ''0x0.0p+0''
      else if float_exponent w = 0 then ''0x0.'' @ hex_fixed 13 (float_mantissa w) @ ''p-1022''
      else ''0x1.'' @ hex_fixed 13 (float_mantissa w) @ ''p'' @ signed_str (int (float_exponent w) - 1023))"

lemma float_hex_body: "float_hex w = (if float_sign w then CHR ''-'' # float_body w else float_body w)"
  by (simp add: float_hex_def float_body_def)

lemma float_body_Cons: "\<exists>r. float_body w = CHR ''0'' # CHR ''x'' # r"
  by (simp add: float_body_def)

lemma float_body_fields:
  assumes "float_body v = float_body w"
  shows "float_exponent v = float_exponent w \<and> float_mantissa v = float_mantissa w"
proof -
  have third: "float_body u ! 2 = (if float_exponent u = 0 then CHR ''0'' else CHR ''1'')" for u
    by (simp add: float_body_def)
  then have e: "float_exponent v = 0 \<longleftrightarrow> float_exponent w = 0" 
    using third [of v] third [of w] unfolding assms by (simp split: if_splits)
  show ?thesis
  proof (cases "float_exponent v = 0")
    case True
    then have ew: "float_exponent w = 0" using e by simp
    have len: "length (float_body u) = (if float_mantissa u = 0 then 8 else 23)" if "float_exponent u = 0" for u
      using that by (simp add: float_body_def)
    have "float_mantissa v = 0 \<longleftrightarrow> float_mantissa w = 0"
      using len [OF True] len [OF ew] assms by (auto split: if_splits)
    then show ?thesis using assms True ew by (auto simp: float_body_def mantissa_hex_inject split: if_splits)
  next
    case False
    then have "hex_fixed 13 (float_mantissa v) @ ''p'' @ signed_str (int (float_exponent v) - 1023)
        = hex_fixed 13 (float_mantissa w) @ ''p'' @ signed_str (int (float_exponent w) - 1023)"
      using assms e by (simp add: float_body_def)
    then have "hex_fixed 13 (float_mantissa v) = hex_fixed 13 (float_mantissa w)"
      "signed_str (int (float_exponent v) - 1023) = signed_str (int (float_exponent w) - 1023)"
      by (simp_all add: append_eq_append_conv)
    then show ?thesis by (auto simp: mantissa_hex_inject dest: signed_str_inject)
  qed
qed

lemma float_hex_inject:
  assumes "float_hex v = float_hex w"
  shows "v = w"
proof -
  obtain r q where "float_body v = CHR ''0'' # CHR ''x'' # r" "float_body w = CHR ''0'' # CHR ''x'' # q"
    using float_body_Cons by blast
  then have "float_sign v = float_sign w \<and> float_body v = float_body w"
    using assms unfolding float_hex_body by (cases "float_sign v"; cases "float_sign w") simp_all
  with float_body_fields [of v w] show ?thesis by (intro float_fields_inject) auto
qed

lemma b64_char_inject: "m < 64 \<Longrightarrow> n < 64 \<Longrightarrow> b64_char m = b64_char n \<longleftrightarrow> m = n"
  by (auto simp: b64_char_def dest!: arg_cong [where f = "of_char :: char \<Rightarrow> nat"] split: if_splits)

lemma b64_char_not_pad [simp]: "n < 64 \<Longrightarrow> b64_char n \<noteq> CHR ''=''" "n < 64 \<Longrightarrow> CHR ''='' \<noteq> b64_char n"
  by (auto simp: b64_char_def dest!: arg_cong [where f = "of_char :: char \<Rightarrow> nat"] split: if_splits)

lemma b64_pair: "(a :: nat) * m + b = a' * m + b' \<Longrightarrow> b < m \<Longrightarrow> b' < m \<Longrightarrow> a = a' \<and> b = b'"
  by (metis Euclidean_Rings.div_eq_0_iff add.right_neutral div_mult_self3 mod_less mod_mult_self3 nat_neq_iff not_less_zero)

lemma b64_bounds:
  fixes a b :: char
  shows "of_char a div 4 < (64 :: nat)" "of_char a mod 4 * 16 + of_char b div 16 < (64 :: nat)"
    "of_char a mod 16 * 4 + of_char b div 64 < (64 :: nat)" "of_char a mod 64 < (64 :: nat)"
    "of_char a mod 4 * 16 < (64 :: nat)" "of_char a mod 16 * 4 < (64 :: nat)" "of_char a div 64 < (4 :: nat)"
proof -
  have l: "(of_char c :: nat) < 256" for c by (rule nat_of_char_less_256)
  have m: "(of_char c :: nat) mod 4 < 4" "(of_char c :: nat) mod 16 < 16" "(of_char c :: nat) mod 64 < 64" for c by simp_all
  show "of_char a div 4 < (64 :: nat)" "of_char a div 64 < (4 :: nat)" using l [of a] by (simp_all add: less_mult_imp_div_less)
  show "of_char a mod 4 * 16 + of_char b div 16 < (64 :: nat)"
    using m(1) [of a] of_char_div_16 [of b] by linarith
  have "of_char b div 64 < (4 :: nat)" using l [of b] by (simp add: less_mult_imp_div_less)
  then show "of_char a mod 16 * 4 + of_char b div 64 < (64 :: nat)" using m(2) [of a] by linarith
  show "of_char a mod 64 < (64 :: nat)" "of_char a mod 4 * 16 < (64 :: nat)" "of_char a mod 16 * 4 < (64 :: nat)"
    using m [of a] by linarith+
qed

lemma char_div_mod_eq:
  "of_char a div m = (of_char b div m :: nat) \<Longrightarrow> of_char a mod m = (of_char b mod m :: nat) \<Longrightarrow> a = (b :: char)"
  by (metis div_mult_mod_eq of_char_eq_iff)

lemma b64encode_inject: "b64encode xs = b64encode ys \<Longrightarrow> xs = ys"
proof (induction xs arbitrary: ys rule: b64encode.induct)
  case 1
  then show ?case by (cases ys rule: b64encode.cases) auto
next
  case (2 a)
  then show ?case
    by (cases ys rule: b64encode.cases) (auto simp: b64_char_inject b64_bounds intro: char_div_mod_eq [of a 4])
next
  case (3 a b)
  show ?case
  proof (cases ys rule: b64encode.cases)
    case (3 a' b')
    with \<open>b64encode [a, b] = b64encode ys\<close> have
      "of_char a div 4 = (of_char a' div 4 :: nat)" "of_char b mod 16 = (of_char b' mod 16 :: nat)"
      "of_char a mod 4 * 16 + of_char b div 16 = (of_char a' mod 4 * 16 + of_char b' div 16 :: nat)"
      by (simp_all add: b64_char_inject b64_bounds)
    moreover from b64_pair [OF this(3)] have
      "of_char a mod 4 = (of_char a' mod 4 :: nat) \<and> of_char b div 16 = (of_char b' div 16 :: nat)" by simp
    ultimately have "a = a'" "b = b'" by (blast intro: char_div_mod_eq)+
    with 3 show ?thesis by simp
  qed (use 3 in \<open>auto simp: b64_bounds\<close>)
next
  case (4 a b c r)
  show ?case
  proof (cases ys rule: b64encode.cases)
    case y: (4 a' b' c' r')
    with "4.prems" have
      "of_char a div 4 = (of_char a' div 4 :: nat)" "of_char c mod 64 = (of_char c' mod 64 :: nat)"
      "of_char a mod 4 * 16 + of_char b div 16 = (of_char a' mod 4 * 16 + of_char b' div 16 :: nat)"
      "of_char b mod 16 * 4 + of_char c div 64 = (of_char b' mod 16 * 4 + of_char c' div 64 :: nat)"
      and r: "b64encode r = b64encode r'"
      by (simp_all add: b64_char_inject b64_bounds)
    moreover from b64_pair [OF this(3)] have
      "of_char a mod 4 = (of_char a' mod 4 :: nat) \<and> of_char b div 16 = (of_char b' div 16 :: nat)" by simp
    moreover from b64_pair [OF calculation(4)] have
      "of_char b mod 16 = (of_char b' mod 16 :: nat) \<and> of_char c div 64 = (of_char c' div 64 :: nat)"
      by (simp add: b64_bounds)
    ultimately have "a = a'" "b = b'" "c = c'" by (blast intro: char_div_mod_eq)+
    with y "4.IH" [OF r] show ?thesis by simp
  qed (use 4 in \<open>auto simp: b64_bounds\<close>)
qed

section \<open>Storage values: what a cell encoding determines\<close>

datatype storage_value =
    SNull | SInteger int | SDecimal string | SNaN | SInfinity bool | SFloat "64 word" | SText string | SBlob bytes

fun encoded_value :: "cell \<Rightarrow> storage_value" where
  "encoded_value CNull = SNull"
| "encoded_value (CBool b) = SInteger (if b then 1 else 0)"
| "encoded_value (CInt i) = SInteger i"
| "encoded_value (CDecimal d) = SDecimal (case canonical_decimal d of Inr t \<Rightarrow> t | Inl _ \<Rightarrow> [])"
| "encoded_value (CFloat w) = (if float_exponent w = 2047
     then (if float_mantissa w \<noteq> 0 then SNaN else SInfinity (float_sign w)) else SFloat w)"
| "encoded_value (CStr s) = SText s"
| "encoded_value (CMemoryview bs) = SBlob bs"
| "encoded_value (CBytearray bs) = SBlob bs"
| "encoded_value (CBytes bs) = SBlob bs"
| "encoded_value (COther _) = SNull"

fun value_text :: "storage_value \<Rightarrow> string \<times> string" where
  "value_text SNull = (''null'', '''')"
| "value_text (SInteger i) = (''integer'', int_str i)"
| "value_text (SDecimal t) = (''decimal'', t)"
| "value_text SNaN = (''float64'', ''nan'')"
| "value_text (SInfinity negative) = (''float64'', if negative then ''-infinity'' else ''+infinity'')"
| "value_text (SFloat w) = (''float64'', float_hex w)"
| "value_text (SText s) = (''string'', s)"
| "value_text (SBlob bs) = (''blob-base64'', b64encode bs)"

lemma int_str_bits: "int_str 1 = ''1''" "int_str 0 = ''0''"
  by code_simp+

text \<open>The value determines the text, except that infinite and NaN floats are values of their own.\<close>

lemma encode_cell_encoded: "encode_cell c = Inr e \<Longrightarrow> e = value_text (encoded_value c)"
  by (cases c) (auto simp: float_text_def int_str_bits rbind_eq_Inr)

lemma float_hex_special [simp]:
  "float_hex w \<noteq> ''nan''" "float_hex w \<noteq> ''-infinity''" "float_hex w \<noteq> ''+infinity''"
  "''nan'' \<noteq> float_hex w" "''-infinity'' \<noteq> float_hex w" "''+infinity'' \<noteq> float_hex w"
  using float_body_Cons [of w] by (auto simp: float_hex_body)

lemma value_text_inject: "value_text u = value_text v \<longleftrightarrow> u = v"
  by (cases u; cases v) (auto dest: float_hex_inject b64encode_inject)

section \<open>Rows\<close>

fun row_width :: "result_row \<Rightarrow> nat" where
  "row_width (Row vs) = length vs"
| "row_width BadRow = 0"

fun row_encoding :: "result_row \<Rightarrow> bytes result" where
  "row_encoding (Row vs) = rbind (rmap encode_cell vs) (\<lambda>cells. Inr (json_dumps (row_json cells)))"
| "row_encoding BadRow = Inl (UnsupportedResultType ''each result row must be a non-string sequence'')"

definition row_bytes :: "result_row \<Rightarrow> bytes" where
  "row_bytes r = (case row_encoding r of Inr b \<Rightarrow> b | Inl _ \<Rightarrow> [])"

fun row_encoded :: "result_row \<Rightarrow> storage_value list" where
  "row_encoded (Row vs) = map encoded_value vs"
| "row_encoded BadRow = []"

lemma row_encoding_encoded:
  assumes "row_encoding r = Inr b"
  shows "b = json_dumps (row_json (map value_text (row_encoded r)))"
proof -
  obtain vs where r: "r = Row vs" using assms by (cases r) auto
  obtain cells where c: "rmap encode_cell vs = Inr cells" "b = json_dumps (row_json cells)"
    using assms r by (auto simp: rbind_eq_Inr)
  have "cells = map (\<lambda>v. value_text (encoded_value v)) vs"
    using c(1) encode_cell_encoded by (auto simp: rmap_Inr_iff list_eq_iff_nth_eq)
  with c(2) r show ?thesis by (simp add: comp_def)
qed

lemma canon_row_json [simp]: "canon (row_json cells) = row_json cells"
  by (simp add: row_json_def case_prod_beta')

lemma row_json_inject: "row_json xs = row_json ys \<longleftrightarrow> xs = ys"
proof -
  have "inj (\<lambda>(t, v). jstrs [t, v])" by (auto simp: inj_def)
  then show ?thesis by (simp add: row_json_def inj_map_eq_map)
qed

lemma row_bytes_inject:
  assumes "is_ok (row_encoding r)" "is_ok (row_encoding q)"
  shows "row_bytes r = row_bytes q \<longleftrightarrow> row_encoded r = row_encoded q"
proof -
  obtain b c where bc: "row_encoding r = Inr b" "row_encoding q = Inr c" using assms by (auto simp: is_ok_iff)
  have "inj value_text" by (rule injI) (simp add: value_text_inject)
  then show ?thesis
    using row_encoding_encoded [OF bc(1)] row_encoding_encoded [OF bc(2)] bc
    by (simp add: row_bytes_def json_dumps_eq_iff row_json_inject inj_map_eq_map)
qed

text \<open>When canonicalization accepts the rows, and the state it then reaches.\<close>

definition good_rows :: "result_policy \<Rightarrow> nat option \<Rightarrow> result_row list \<Rightarrow> bool" where
  "good_rows p columns rows \<longleftrightarrow> list_all (\<lambda>r. is_ok (row_encoding r)) rows
     \<and> list_all (\<lambda>r. columns = None \<or> columns = Some (row_width r)) rows
     \<and> list_all (\<lambda>r. row_width r = row_width (hd rows)) rows
     \<and> (rows = [] \<or> int (length rows) \<le> rp_max_rows p \<and> int (sum_list (map row_width rows)) \<le> rp_max_cells p
          \<and> int (sum_list (map (length \<circ> row_bytes) rows)) \<le> rp_max_output_bytes p)"

definition final_state :: "nat option \<Rightarrow> result_row list \<Rightarrow> oracle_state" where
  "final_state columns rows = \<lparr>os_rows = map row_bytes rows,
     os_columns = (if rows = [] then columns else Some (row_width (hd rows))),
     os_cells = sum_list (map row_width rows), os_size = sum_list (map (length \<circ> row_bytes) rows)\<rparr>"

lemma oracle_step_Inr:
  "oracle_step p s r = Inr s' \<longleftrightarrow> is_ok (row_encoding r) \<and> int (length (os_rows s)) + 1 \<le> rp_max_rows p
     \<and> (os_columns s = None \<or> os_columns s = Some (row_width r))
     \<and> int (os_cells s + row_width r) \<le> rp_max_cells p
     \<and> int (os_size s + length (row_bytes r)) \<le> rp_max_output_bytes p
     \<and> s' = \<lparr>os_rows = os_rows s @ [row_bytes r], os_columns = Some (row_width r),
            os_cells = os_cells s + row_width r, os_size = os_size s + length (row_bytes r)\<rparr>"
proof (cases r)
  case (Row vs)
  show ?thesis
  proof (cases "rmap encode_cell vs")
    case (Inr cells)
    then show ?thesis
      by (auto simp: oracle_step_def Row row_bytes_def Let_def rbind_eq_Inr not_less)
  qed (auto simp: oracle_step_def Row rbind_eq_Inr)
qed (simp add: oracle_step_def rbind_eq_Inr)

lemma good_rows_snoc:
  "good_rows p columns (rows @ [r]) \<longleftrightarrow> good_rows p columns rows \<and> is_ok (row_encoding r)
     \<and> int (length rows) + 1 \<le> rp_max_rows p
     \<and> (os_columns (final_state columns rows) = None \<or> os_columns (final_state columns rows) = Some (row_width r))
     \<and> int (os_cells (final_state columns rows) + row_width r) \<le> rp_max_cells p
     \<and> int (os_size (final_state columns rows) + length (row_bytes r)) \<le> rp_max_output_bytes p"
proof (cases rows)
  case (Cons a as)
  define cells where "cells = sum_list (map row_width rows)"
  define bytes where "bytes = sum_list (map (length \<circ> row_bytes) rows)"
  have state: "os_columns (final_state columns rows) = Some (row_width (hd rows))"
    "os_cells (final_state columns rows) = cells" "os_size (final_state columns rows) = bytes"
    by (simp_all add: final_state_def Cons cells_def bytes_def)
  have good: "good_rows p columns rows \<longleftrightarrow> list_all (\<lambda>r. is_ok (row_encoding r)) rows
     \<and> list_all (\<lambda>r. columns = None \<or> columns = Some (row_width r)) rows
     \<and> list_all (\<lambda>r. row_width r = row_width (hd rows)) rows
     \<and> int (length rows) \<le> rp_max_rows p \<and> int cells \<le> rp_max_cells p \<and> int bytes \<le> rp_max_output_bytes p"
    by (simp add: good_rows_def Cons cells_def bytes_def)
  have snoc: "good_rows p columns (rows @ [r]) \<longleftrightarrow> list_all (\<lambda>r. is_ok (row_encoding r)) rows \<and> is_ok (row_encoding r)
     \<and> list_all (\<lambda>r. columns = None \<or> columns = Some (row_width r)) rows \<and> (columns = None \<or> columns = Some (row_width r))
     \<and> list_all (\<lambda>r. row_width r = row_width (hd rows)) rows \<and> row_width r = row_width (hd rows)
     \<and> int (length rows) + 1 \<le> rp_max_rows p \<and> int (cells + row_width r) \<le> rp_max_cells p
     \<and> int (bytes + length (row_bytes r)) \<le> rp_max_output_bytes p"
    by (simp add: good_rows_def Cons cells_def bytes_def add_ac conj_ac)
  have "columns = None \<or> columns = Some (row_width (hd rows))"
    if "list_all (\<lambda>r. columns = None \<or> columns = Some (row_width r)) rows" using that by (simp add: Cons)
  then show ?thesis unfolding state good snoc
    by (intro iffI; elim conjE; intro conjI) (assumption | linarith | simp)+
qed (auto simp: good_rows_def final_state_def)

lemma oracle_fold:
  "rfold (oracle_step p) \<lparr>os_rows = [], os_columns = columns, os_cells = 0, os_size = 0\<rparr> rows = Inr s
    \<longleftrightarrow> good_rows p columns rows \<and> s = final_state columns rows"
proof (induction rows arbitrary: s rule: rev_induct)
  case Nil
  show ?case by (auto simp: good_rows_def final_state_def)
next
  case (snoc r rows)
  let ?s = "final_state columns rows"
  have "rfold (oracle_step p) \<lparr>os_rows = [], os_columns = columns, os_cells = 0, os_size = 0\<rparr> (rows @ [r]) = Inr s
    \<longleftrightarrow> good_rows p columns rows \<and> oracle_step p ?s r = Inr s"
    by (auto simp: rfold_append rbind_eq_Inr snoc.IH)
  also have "\<dots> \<longleftrightarrow> good_rows p columns (rows @ [r]) \<and> s = final_state columns (rows @ [r])"
  proof -
    have "final_state columns (rows @ [r]) = \<lparr>os_rows = os_rows ?s @ [row_bytes r], os_columns = Some (row_width r),
            os_cells = os_cells ?s + row_width r, os_size = os_size ?s + length (row_bytes r)\<rparr>"
      if "good_rows p columns (rows @ [r])"
      using that by (cases rows) (simp_all add: final_state_def good_rows_def)
    moreover have "length (os_rows ?s) = length rows" by (simp add: final_state_def)
    ultimately show ?thesis unfolding oracle_step_Inr good_rows_snoc by auto
  qed
  finally show ?case .
qed

section \<open>The payload can be taken apart\<close>

lemma newline_not_digit: "\<not> is_digit newline" "\<not> is_lower_hex newline"
  by (simp_all add: newline_def char_class_defs)

lemma newline_not_nat_str: "newline \<notin> set (nat_str n)"
  using nat_str_digits newline_not_digit by blast

lemma newline_not_int_str: "newline \<notin> set (int_str i)"
  using newline_not_nat_str by (simp add: int_str_def) (simp add: newline_def)

lemma newline_not_byte_hex: "newline \<notin> set (byte_hex c)"
  using bytes_hex_lower_hex [of newline "[c]"] newline_not_digit by auto

lemma newline_not_escape: "newline \<notin> set (escape_char c)"
  using newline_not_byte_hex [of c] by (auto simp: escape_char_def newline_def)

lemma newline_not_render_str: "newline \<notin> set (render_str s)"
  using newline_not_escape by (auto simp: render_str_def) (simp add: newline_def)+

lemma set_join: "set (join sep xs) \<subseteq> set sep \<union> (\<Union>x \<in> set xs. set x)"
  by (induction sep xs rule: join.induct) auto

lemma newline_not_join: "(\<And>x. x \<in> set xs \<Longrightarrow> newline \<notin> set x) \<Longrightarrow> newline \<notin> set (join '','' xs)"
  using set_join [of "'',''" xs] by (auto simp: newline_def)

lemma newline_not_render: "newline \<notin> set (render v)"
proof (induction v)
  case (JArr xs)
  then have "newline \<notin> set (join '','' (map render xs))" by (intro newline_not_join) auto
  then show ?case by (simp add: newline_def)
next
  case (JObj kvs)
  have "newline \<notin> set (join '','' (map (\<lambda>(k, v). render_str k @ '':'' @ render v) kvs))"
  proof (rule newline_not_join)
    fix x assume "x \<in> set (map (\<lambda>(k, v). render_str k @ '':'' @ render v) kvs)"
    then obtain k v where kv: "(k, v) \<in> set kvs" "x = render_str k @ '':'' @ render v" by auto
    then have "newline \<notin> set (render v)" using JObj by fastforce
    then show "newline \<notin> set x" using newline_not_render_str [of k] by (simp add: kv(2)) (simp add: newline_def)
  qed
  then show ?case by (simp add: newline_def)
next
  case (JInt i)
  show ?case by (simp add: newline_not_int_str)
next
  case (JStr t)
  show ?case by (simp add: newline_not_render_str)
qed (simp_all add: newline_def)

lemma append_newline_inject:
  assumes "newline \<notin> set x" "newline \<notin> set y"
  shows "x @ newline # r = y @ newline # q \<longleftrightarrow> x = y \<and> r = q"
proof
  assume "x @ newline # r = y @ newline # q"
  with assms show "x = y \<and> r = q"
  proof (induction x arbitrary: y)
    case Nil
    then show ?case by (cases y) auto
  next
    case (Cons c x)
    then show ?case by (cases y) auto
  qed
qed simp

lemma join_newline_inject:
  assumes "\<And>x. x \<in> set xs \<union> set ys \<Longrightarrow> x \<noteq> [] \<and> newline \<notin> set x" "join [newline] xs = join [newline] ys"
  shows "xs = ys"
  using assms
proof (induction xs arbitrary: ys)
  case Nil
  show ?case
  proof (cases ys)
    case (Cons y ys')
    then have "join [newline] ys \<noteq> []" using Nil.prems(1) [of y] by (cases ys') auto
    then show ?thesis using Nil.prems(2) by simp
  qed simp
next
  case (Cons x xs)
  have free: "newline \<notin> set z" if "z \<in> set (x # xs) \<union> set ys" for z using Cons.prems(1) that by blast
  obtain y ys' where ys: "ys = y # ys'" using Cons.prems by (cases ys; cases xs) auto
  show ?case
  proof (cases "xs = [] \<or> ys' = []")
    case True
    have "xs = [] \<and> ys' = []"
    proof (rule ccontr)
      assume "\<not> (xs = [] \<and> ys' = [])"
      then have "newline \<in> set (join [newline] (x # xs)) \<and> ys' = [] \<or> newline \<in> set (join [newline] ys) \<and> xs = []"
        using True ys by (cases xs; cases ys') auto
      then show False using Cons.prems(2) free ys by auto
    qed
    then show ?thesis using Cons.prems(2) ys by simp
  next
    case False
    then have "x @ newline # join [newline] xs = y @ newline # join [newline] ys'"
      using Cons.prems(2) ys by (cases xs; cases ys') auto
    then have "x = y \<and> join [newline] xs = join [newline] ys'"
      using append_newline_inject [of x y] free ys by simp
    then show ?thesis using Cons.IH [of ys'] Cons.prems(1) ys by auto
  qed
qed

lemma row_bytes_text:
  assumes "is_ok (row_encoding r)"
  shows "row_bytes r \<noteq> [] \<and> newline \<notin> set (row_bytes r)"
proof -
  obtain b where b: "row_encoding r = Inr b" using assms by (auto simp: is_ok_iff)
  with row_encoding_encoded [OF b] show ?thesis by (simp add: row_bytes_def json_dumps_def newline_not_render)
qed

lemma payload_inject:
  assumes "canonical_payload p c xs = canonical_payload p d ys"
    and "\<And>x. x \<in> set xs \<union> set ys \<Longrightarrow> x \<noteq> [] \<and> newline \<notin> set x"
  shows "c = d \<and> xs = ys"
proof -
  have "json_dumps (result_header p c (length xs)) = json_dumps (result_header p d (length ys))"
    and j: "join [newline] xs = join [newline] ys"
    using assms(1) append_newline_inject [of "json_dumps (result_header p c (length xs))" "json_dumps (result_header p d (length ys))"]
    by (simp_all add: canonical_payload_def json_dumps_def newline_not_render)
  then have "c = d" by (simp add: json_dumps_eq_iff result_header_def canon_obj)
  with join_newline_inject [OF assms(2) j] show ?thesis by simp
qed

section \<open>Accepted results\<close>

definition stream_rows :: "result_policy \<Rightarrow> result_stream \<Rightarrow> bytes list" where
  "stream_rows p stream = (if rp_ordered p then map row_bytes (rs_rows stream) else sort (map row_bytes (rs_rows stream)))"

definition oracle_preimage :: "result_policy \<Rightarrow> nat \<Rightarrow> bytes list \<Rightarrow> bytes" where
  "oracle_preimage p columns rows = frame RESULT_DOMAIN_V2 (canonical_payload p columns rows)"

lemma canonicalize_Inr:
  "canonicalize_result stream p projection = Inr r \<longleftrightarrow>
     (\<exists>columns. initial_columns stream p projection = Inr columns \<and> good_rows p columns (rs_rows stream)
        \<and> rs_error stream = None \<and> os_columns (final_state columns (rs_rows stream)) = Some (cr_column_count r)
        \<and> int (length (cr_canonical_bytes r)) \<le> rp_max_output_bytes p \<and> length (cr_canonical_bytes r) < 256 ^ 8
        \<and> cr_canonical_bytes r = canonical_payload p (cr_column_count r) (stream_rows p stream)
        \<and> cr_digest r = ''sha256:'' @ sha256_hex (oracle_preimage p (cr_column_count r) (stream_rows p stream))
        \<and> cr_row_count r = length (rs_rows stream) \<and> cr_cell_count r = sum_list (map row_width (rs_rows stream)))"
  (is "?l \<longleftrightarrow> ?r")
proof -
  have rows: "os_rows (final_state columns (rs_rows stream)) = map row_bytes (rs_rows stream)" for columns
    by (simp add: final_state_def)
  have cells: "os_cells (final_state columns (rs_rows stream)) = sum_list (map row_width (rs_rows stream))" for columns
    by (simp add: final_state_def)
  have err: "(case rs_error stream of Some e \<Rightarrow> Inl e | None \<Rightarrow> Inr ()) = Inr u \<longleftrightarrow> rs_error stream = None" for u
    by (cases "rs_error stream") auto
  have tb: "to_bytes_big 2 (length RESULT_DOMAIN_V2) = Inr b \<longleftrightarrow> b = be_bytes 2 (length RESULT_DOMAIN_V2)"
    "to_bytes_big 8 n = Inr b \<longleftrightarrow> n < 256 ^ 8 \<and> b = be_bytes 8 n" for b n
    by (auto simp: to_bytes_big_def RESULT_DOMAIN_V2_def)
  show ?thesis
    unfolding canonicalize_result_def rbind_eq_Inr oracle_fold err
    by (cases r) (auto simp: rbind_eq_Inr tb Let_def stream_rows_def oracle_preimage_def frame_def rows cells
        not_less split: option.splits)
qed

section \<open>What the digest determines\<close>

lemma good_rows_perm:
  assumes "mset rows = mset rows'" "good_rows p columns rows"
  shows "good_rows p columns rows' \<and> os_columns (final_state columns rows') = os_columns (final_state columns rows)"
proof -
  have sets: "set rows = set rows'" using assms(1) by (metis set_mset_mset)
  have len: "length rows = length rows'" using assms(1) by (metis size_mset)
  have nil: "rows = [] \<longleftrightarrow> rows' = []" using len by auto
  have sums: "sum_list (map f rows) = sum_list (map f rows')" for f :: "result_row \<Rightarrow> nat"
    using assms(1) by (metis mset_map sum_mset_sum_list)
  have hd: "row_width (hd rows') = row_width (hd rows)" if "rows \<noteq> []"
  proof -
    have "hd rows' \<in> set rows" using that nil sets by (metis list.set_sel(1))
    then show ?thesis using assms(2) by (auto simp: good_rows_def list_all_iff)
  qed
  show ?thesis
  proof (cases "rows = []")
    case False
    then show ?thesis using assms(2) hd [OF False] nil
      unfolding good_rows_def final_state_def list_all_iff sets len sums by simp metis
  qed (use nil in \<open>simp add: good_rows_def final_state_def\<close>)
qed

lemma canonicalize_perm:
  assumes "\<not> rp_ordered p" "mset (rs_rows s) = mset (rs_rows t)" "rs_description s = rs_description t"
    and "rs_error s = rs_error t" "canonicalize_result s p projection = Inr r"
  shows "canonicalize_result t p projection = Inr r"
proof -
  obtain columns where c: "initial_columns s p projection = Inr columns" "good_rows p columns (rs_rows s)"
    "rs_error s = None" "os_columns (final_state columns (rs_rows s)) = Some (cr_column_count r)"
    and r: "int (length (cr_canonical_bytes r)) \<le> rp_max_output_bytes p" "length (cr_canonical_bytes r) < 256 ^ 8"
      "cr_canonical_bytes r = canonical_payload p (cr_column_count r) (stream_rows p s)"
      "cr_digest r = ''sha256:'' @ sha256_hex (oracle_preimage p (cr_column_count r) (stream_rows p s))"
      "cr_row_count r = length (rs_rows s)" "cr_cell_count r = sum_list (map row_width (rs_rows s))"
    using assms(5) unfolding canonicalize_Inr by blast
  have rows: "stream_rows p t = stream_rows p s"
    using assms(1,2) by (simp add: stream_rows_def) (metis mset_map properties_for_sort mset_sort sorted_sort)
  have init: "initial_columns t p projection = initial_columns s p projection"
    by (simp add: initial_columns_def assms(3))
  have "length (rs_rows t) = length (rs_rows s)" using assms(2) by (metis size_mset)
  moreover have "sum_list (map row_width (rs_rows t)) = sum_list (map row_width (rs_rows s))"
    using assms(2) by (metis mset_map sum_mset_sum_list)
  ultimately show ?thesis
    using c r good_rows_perm [OF assms(2) c(2)] assms(4) unfolding canonicalize_Inr
    by (intro exI [of _ columns]) (simp add: rows init)
qed

lemma digest_determines_rows:
  assumes s: "canonicalize_result s p projection = Inr r" and t: "canonicalize_result t p projection' = Inr q"
    and "cr_digest r = cr_digest q"
  shows "cr_column_count r = cr_column_count q
      \<and> (if rp_ordered p then map row_encoded (rs_rows s) = map row_encoded (rs_rows t)
         else mset (map row_encoded (rs_rows s)) = mset (map row_encoded (rs_rows t)))
    \<or> sha256_collision (oracle_preimage p (cr_column_count r) (stream_rows p s))
        (oracle_preimage p (cr_column_count q) (stream_rows p t))"
proof (cases "oracle_preimage p (cr_column_count r) (stream_rows p s) = oracle_preimage p (cr_column_count q) (stream_rows p t)")
  case False
  have "sha256_hex (oracle_preimage p (cr_column_count r) (stream_rows p s))
      = sha256_hex (oracle_preimage p (cr_column_count q) (stream_rows p t))"
    using s t assms(3) unfolding canonicalize_Inr by auto
  then show ?thesis using False by (auto simp: sha256_hex_inject dest: sha256_eq_or_collision)
next
  case True
  have ok: "is_ok (row_encoding x)" if "x \<in> set (rs_rows s) \<union> set (rs_rows t)" for x
    using s t that unfolding canonicalize_Inr good_rows_def list_all_iff by blast
  have "canonical_payload p (cr_column_count r) (stream_rows p s) = canonical_payload p (cr_column_count q) (stream_rows p t)"
    using True frame_inject [of RESULT_DOMAIN_V2 RESULT_DOMAIN_V2] by (simp add: oracle_preimage_def RESULT_DOMAIN_V2_def)
  moreover have "x \<noteq> [] \<and> newline \<notin> set x" if "x \<in> set (stream_rows p s) \<union> set (stream_rows p t)" for x
    using that ok row_bytes_text by (fastforce simp: stream_rows_def split: if_splits)
  ultimately have cols: "cr_column_count r = cr_column_count q" and rows: "stream_rows p s = stream_rows p t"
    using payload_inject by blast+
  define the_value where "the_value b = row_encoded (SOME y. is_ok (row_encoding y) \<and> row_bytes y = b)" for b
  have vals: "row_encoded x = the_value (row_bytes x)" if "x \<in> set (rs_rows s) \<union> set (rs_rows t)" for x
  proof -
    let ?y = "SOME y. is_ok (row_encoding y) \<and> row_bytes y = row_bytes x"
    have "is_ok (row_encoding ?y) \<and> row_bytes ?y = row_bytes x" using ok [OF that] by (intro someI) auto
    then show ?thesis using row_bytes_inject [of x ?y] ok [OF that] by (simp add: the_value_def)
  qed
  have m: "map row_encoded (rs_rows s) = map the_value (map row_bytes (rs_rows s))"
    "map row_encoded (rs_rows t) = map the_value (map row_bytes (rs_rows t))"
    using vals by (simp_all add: comp_def)
  show ?thesis
  proof (cases "rp_ordered p")
    case True
    then have "map row_bytes (rs_rows s) = map row_bytes (rs_rows t)" using rows by (simp add: stream_rows_def)
    then show ?thesis using cols True m by simp
  next
    case False
    then have "mset (map row_bytes (rs_rows s)) = mset (map row_bytes (rs_rows t))"
      using rows unfolding stream_rows_def by (metis mset_sort)
    then have "mset (map row_encoded (rs_rows s)) = mset (map row_encoded (rs_rows t))"
      unfolding m by (metis mset_map)
    then show ?thesis using cols False by simp
  qed
qed

end
