(* ===== verification/FloatText.thy ===== *)
theory FloatText
  imports PyFloat Oracle
begin

text \<open>
  \<open>format(value, ".17g")\<close>, the text of a float in the committed measurement policy
  (\<open>planrace/sandbox_v2.py\<close>). Seventeen digits identify a double: equal texts come from equal
  numbers.
\<close>

section \<open>\<open>format(value, ".17g")\<close>\<close>

text \<open>
  The decimal exponent of a positive number is searched in the range of doubles. The number
  is rounded to 17 digits, ties to even; a carry moves the exponent up.
\<close>

definition decimal_exponents :: "int list" where "decimal_exponents = [- 330..310]"

definition power10 :: "int \<Rightarrow> real" where
  "power10 e = (if 0 \<le> e then 10 ^ nat e else 1 / 10 ^ nat (- e))"

definition decimal_exponent :: "real \<Rightarrow> int" where
  "decimal_exponent x = (case find (\<lambda>e. power10 e \<le> x \<and> x < power10 (e + 1)) decimal_exponents of
     Some e \<Rightarrow> e | None \<Rightarrow> 0)"

definition digits17 :: "real \<Rightarrow> nat \<times> int" where
  "digits17 x = (let e = decimal_exponent x; d = nat (rne (x / power10 (e - 16))) in
     if d = 10 ^ 17 then (10 ^ 16, e + 1) else (d, e))"

definition trim_fraction :: "string \<Rightarrow> string" where
  "trim_fraction fraction = (let f = rstrip_char (CHR ''0'') fraction in if f = [] then [] else ''.'' @ f)"

definition exponent_text :: "int \<Rightarrow> string" where
  "exponent_text e = (if e < 0 then ''e-'' else ''e+'') @ (let t = nat_str (nat \<bar>e\<bar>) in if length t < 2 then ''0'' @ t else t)"

definition g17_positive :: "real \<Rightarrow> string" where
  "g17_positive x = (let (d, e) = digits17 x; t = nat_str d in
     if e < - 4 \<or> 17 \<le> e then take 1 t @ trim_fraction (drop 1 t) @ exponent_text e
     else if e < 0 then ''0'' @ trim_fraction (replicate (nat (- e - 1)) (CHR ''0'') @ t)
     else take (nat e + 1) t @ trim_fraction (drop (nat e + 1) t))"

fun g17 :: "pyfloat \<Rightarrow> string" where
  "g17 (Fin x) = (if x = 0 then ''0'' else if x < 0 then ''-'' @ g17_positive (- x) else g17_positive x)"
| "g17 PosInf = ''inf''"
| "g17 NegInf = ''-inf''"
| "g17 NaN = ''nan''"

section \<open>Doubles keep a distance\<close>

lemma double_multiple:
  assumes "0 < x" "fl x = x"
  obtains m :: int where "x = of_int m * 2 powr of_int (\<lfloor>log 2 x\<rfloor> - 52)"
  using fl_pos_eq [OF assms(1)] assms(2) by metis

lemma double_gap:
  assumes "0 < x" "x < y" "fl x = x" "fl y = y"
  shows "y / 2 ^ 53 \<le> y - x"
proof (rule ccontr)
  assume "\<not> y / 2 ^ 53 \<le> y - x"
  then have near: "y - x < y / 2 ^ 53" by simp
  define a b where "a = \<lfloor>log 2 x\<rfloor> - 52" and "b = \<lfloor>log 2 y\<rfloor> - 52"
  have y: "0 < y" using assms by simp
  have half: "y < 2 * x" using near y by simp
  note bx = fl_binade [OF assms(1), folded a_def] and by' = fl_binade [OF y, folded b_def]
  have "log 2 x \<le> log 2 y" using assms by simp
  then have "a \<le> b" unfolding a_def b_def by (simp add: floor_mono)
  have "log 2 y < log 2 (2 * x)" using half y assms by simp
  then have "log 2 y < 1 + log 2 x" using assms(1) by (simp add: log_mult)
  then have "\<lfloor>log 2 y\<rfloor> \<le> \<lfloor>log 2 x\<rfloor> + 1" by linarith
  then have "b \<le> a + 1" unfolding a_def b_def by simp
  obtain m where m: "x = of_int m * 2 powr of_int a" using double_multiple [OF assms(1,3)] a_def by metis
  obtain n where n: "y = of_int n * 2 powr of_int b" using double_multiple [OF y assms(4)] b_def by metis
  have p: "0 < 2 powr real_of_int a" by simp
  consider "b = a" | "b = a + 1" using \<open>a \<le> b\<close> \<open>b \<le> a + 1\<close> by linarith
  then show False
  proof cases
    case 1
    have "m < n" using assms(2) m n 1 by simp
    then have "of_int m + 1 \<le> (of_int n :: real)" by linarith
    then have "(of_int m + 1) * 2 powr of_int a \<le> y" unfolding n 1 by (intro mult_right_mono) simp_all
    then have "2 powr of_int a \<le> y - x" unfolding m by (simp add: algebra_simps)
    moreover have "y / 2 ^ 53 < 2 powr of_int a" using by'(2) 1 p by (simp add: field_simps)
    ultimately show False using near by simp
  next
    case 2
    have "of_int m < (2 :: real) ^ 53" using bx(2) p m by (simp add: field_simps)
    then have "of_int m < (of_int (2 ^ 53) :: real)" by simp
    then have "m \<le> 2 ^ 53 - 1" unfolding of_int_less_iff by simp
    then have "of_int m \<le> (of_int (2 ^ 53 - 1) :: real)" unfolding of_int_le_iff .
    then have "of_int m \<le> (2 :: real) ^ 53 - 1" by simp
    then have upper: "x \<le> (2 ^ 53 - 1) * 2 powr of_int a" unfolding m by (intro mult_right_mono) simp_all
    have "2 ^ 53 * 2 powr of_int a \<le> y" using by'(1) 2 p by (simp add: field_simps powr_add)
    then have "(2 ^ 53 * 2 powr of_int a) * (1 - 1 / 2 ^ 53) \<le> y * (1 - 1 / 2 ^ 53)" by (intro mult_right_mono) simp_all
    then have "(2 ^ 53 - 1) * 2 powr of_int a \<le> y - y / 2 ^ 53" by (simp add: algebra_simps)
    with upper near show False by simp
  qed
qed

section \<open>Seventeen digits\<close>

definition decimal_range :: "real \<Rightarrow> bool" where
  "decimal_range x \<longleftrightarrow> power10 (- 330) \<le> x \<and> x < power10 311"

lemma power10_pos [simp]: "0 < power10 e"
  by (simp add: power10_def)

lemma power10_Suc: "power10 (e + 1) = 10 * power10 e"
proof (cases "0 \<le> e")
  case True
  then show ?thesis by (simp add: power10_def nat_add_distrib)
next
  case False
  then show ?thesis
  proof (cases "e = - 1")
    case False
    with \<open>\<not> 0 \<le> e\<close> have "nat (- e) = Suc (nat (- e - 1))" "\<not> 0 \<le> e + 1" by simp_all
    then show ?thesis using \<open>\<not> 0 \<le> e\<close> by (simp add: power10_def)
  qed (simp add: power10_def)
qed

lemma power10_add: "power10 (e + int n) = 10 ^ n * power10 e"
proof (induction n)
  case (Suc n)
  have "power10 (e + int (Suc n)) = power10 ((e + int n) + 1)" by (simp add: algebra_simps)
  also have "\<dots> = 10 * power10 (e + int n)" by (rule power10_Suc)
  finally show ?case using Suc.IH by simp
qed simp

lemma decimal_exponent:
  assumes "decimal_range x"
  shows "power10 (decimal_exponent x) \<le> x \<and> x < power10 (decimal_exponent x + 1)"
proof -
  have ex: "\<exists>k \<le> n. power10 (- 330 + int k) \<le> x \<and> x < power10 (- 330 + int k + 1)"
    if "x < power10 (- 330 + int n + 1)" for n
    using that
  proof (induction n)
    case 0
    then show ?case using assms by (simp add: decimal_range_def)
  next
    case (Suc n)
    show ?case
    proof (cases "x < power10 (- 330 + int n + 1)")
      case True
      with Suc.IH show ?thesis using le_SucI by blast
    next
      case False
      then have "power10 (- 330 + int (Suc n)) \<le> x" by (simp add: algebra_simps)
      then show ?thesis using Suc.prems by blast
    qed
  qed
  have "x < power10 (- 330 + int 640 + 1)" using assms by (simp add: decimal_range_def)
  from ex [OF this] obtain k where k: "k \<le> 640" "power10 (- 330 + int k) \<le> x \<and> x < power10 (- 330 + int k + 1)" by blast
  let ?P = "\<lambda>e. power10 e \<le> x \<and> x < power10 (e + 1)"
  have "find ?P decimal_exponents \<noteq> None"
  proof
    assume "find ?P decimal_exponents = None"
    then have "\<not> (\<exists>e. e \<in> set decimal_exponents \<and> ?P e)" by (simp only: find_None_iff not_False_eq_True)
    moreover have "- 330 + int k \<in> set decimal_exponents" using k(1) unfolding decimal_exponents_def set_upto by simp
    ultimately show False using k(2) by blast
  qed
  then obtain e where e: "find ?P decimal_exponents = Some e" by blast
  then have "?P e" by (metis find_Some_iff)
  with e show ?thesis by (simp add: decimal_exponent_def)
qed

lemma digits17:
  assumes "decimal_range x" "digits17 x = (d, e)"
  shows "10 ^ 16 \<le> d" "d < 10 ^ 17" "\<bar>x - real d * power10 (e - 16)\<bar> \<le> power10 (e - 16) / 2"
proof -
  define k where "k = decimal_exponent x"
  define p where "p = power10 (k - 16)"
  define r where "r = rne (x / p)"
  have p: "0 < p" "power10 k = 10 ^ 16 * p" "power10 (k + 1) = 10 ^ 17 * p"
    using power10_add [of "k - 16" 16] power10_add [of "k - 16" 17] by (simp_all add: p_def add.commute)
  have x: "10 ^ 16 \<le> x / p" "x / p \<le> 10 ^ 17"
    using decimal_exponent [OF assms(1)] p by (simp_all add: k_def [symmetric] field_simps)
  have "rne (of_int (10 ^ 16)) \<le> r" unfolding r_def by (rule rne_mono) (use x in simp)
  then have lo: "10 ^ 16 \<le> r" unfolding rne_of_int .
  have "r \<le> rne (of_int (10 ^ 17))" unfolding r_def by (rule rne_mono) (use x in simp)
  then have hi: "r \<le> 10 ^ 17" unfolding rne_of_int .
  have "\<bar>of_int r - x / p\<bar> \<le> 1 / 2" unfolding r_def by (rule rne_error)
  then have "\<bar>of_int r - x / p\<bar> * p \<le> 1 / 2 * p" using p by (intro mult_right_mono) simp_all
  moreover have "\<bar>of_int r - x / p\<bar> * p = \<bar>(of_int r - x / p) * p\<bar>" using p by (simp add: abs_mult)
  moreover have "(of_int r - x / p) * p = of_int r * p - x" using p by (simp add: field_simps)
  ultimately have err: "\<bar>x - of_int r * p\<bar> \<le> p / 2" by (simp add: abs_minus_commute)
  have n: "real (nat r) = of_int r" using lo by simp
  have split: "(d, e) = (if nat r = 10 ^ 17 then (10 ^ 16, k + 1) else (nat r, k))"
    unfolding assms(2) [symmetric] digits17_def Let_def k_def p_def r_def ..
  show "10 ^ 16 \<le> d" "d < 10 ^ 17" using split lo hi by (auto split: if_splits)
  show "\<bar>x - real d * power10 (e - 16)\<bar> \<le> power10 (e - 16) / 2"
  proof (cases "nat r = 10 ^ 17")
    case True
    then have de: "d = 10 ^ 16" "e = k + 1" using split by simp_all
    have q: "power10 (e - 16) = 10 * p" using power10_Suc [of "k - 16"] by (simp add: de p_def algebra_simps)
    have "of_int r = (10 ^ 17 :: real)" using True n by simp
    then have "\<bar>x - 10 ^ 17 * p\<bar> \<le> p / 2" using err by simp
    then show ?thesis using p(1) unfolding q de(1) by simp
  next
    case False
    then have "d = nat r" "e = k" using split by simp_all
    then show ?thesis using err n by (simp add: p_def)
  qed
qed

text \<open>Two doubles with the same decimal value are equal.\<close>

lemma digits17_separate:
  assumes "decimal_range x" "decimal_range y" "fl x = x" "fl y = y"
    and "digits17 x = (d, e)" "digits17 y = (d', e')"
    and V: "real d * power10 (e - 16) = real d' * power10 (e' - 16)"
  shows "x = y"
proof -
  define v where "v = real d * power10 (e - 16)"
  have close: "\<bar>z - v\<bar> \<le> v / (2 * 10 ^ 16)" if "decimal_range z" "digits17 z = (c, f)" "v = real c * power10 (f - 16)" for z c f
  proof -
    have "10 ^ 16 * power10 (f - 16) \<le> v"
      unfolding that(3) using digits17(1) [OF that(1,2)] by (intro mult_right_mono) (auto simp: less_imp_le simp flip: of_nat_le_iff)
    then have "power10 (f - 16) / 2 \<le> v / (2 * 10 ^ 16)" by simp
    with digits17(3) [OF that(1,2)] show ?thesis unfolding that(3) by (rule order_trans)
  qed
  have pos: "0 < x" "0 < y" using assms(1,2) power10_pos [of "- 330"] unfolding decimal_range_def by (linarith, linarith)
  have sep: "\<not> a < b" if "fl a = a" "fl b = b" "0 < a" "\<bar>a - v\<bar> \<le> v / (2 * 10 ^ 16)" "\<bar>b - v\<bar> \<le> v / (2 * 10 ^ 16)" for a b
  proof
    assume "a < b"
    then have "b / 2 ^ 53 \<le> b - a" using that by (intro double_gap) simp_all
    moreover have "a \<ge> v - v / (2 * 10 ^ 16)" "b \<le> v + v / (2 * 10 ^ 16)" using that(4,5) unfolding abs_le_iff by linarith+
    then have "b - a \<le> 2 * (v / (2 * 10 ^ 16))" by linarith
    moreover have "v - v / (2 * 10 ^ 16) \<le> b" "0 < b" using that \<open>a < b\<close> unfolding abs_le_iff by linarith+
    ultimately show False by simp
  qed
  show ?thesis
    using sep [OF assms(3,4) pos(1)] sep [OF assms(4,3) pos(2)] close [OF assms(1,5)] close [OF assms(2,6)] V
    by (metis linorder_cases v_def)
qed

section \<open>Reading the text back\<close>

definition read_exponent :: "string \<Rightarrow> int" where
  "read_exponent s = (case s of
       CHR ''e'' # CHR ''-'' # t \<Rightarrow> - int (str_nat t)
     | CHR ''e'' # CHR ''+'' # t \<Rightarrow> int (str_nat t)
     | _ \<Rightarrow> 0)"

definition read_decimal :: "string \<Rightarrow> real" where
  "read_decimal s = (let m = takeWhile (\<lambda>c. c \<noteq> CHR ''e'') s;
       i = takeWhile (\<lambda>c. c \<noteq> CHR ''.'') m; f = drop 1 (dropWhile (\<lambda>c. c \<noteq> CHR ''.'') m)
     in (real (str_nat i) + real (str_nat f) / 10 ^ length f) * power10 (read_exponent (dropWhile (\<lambda>c. c \<noteq> CHR ''e'') s)))"

lemma str_nat_append: "str_nat (s @ t) = str_nat s * 10 ^ length t + str_nat t"
proof (induction t rule: rev_induct)
  case Nil
  then show ?case by (simp add: str_nat_def)
next
  case (snoc c t)
  then show ?case using str_nat_snoc [of "s @ t" c] str_nat_snoc [of t c] by (simp add: algebra_simps)
qed

lemma str_nat_zeros [simp]: "str_nat (replicate n (CHR ''0'')) = 0"
  by (induction n) (simp_all add: str_nat_def char_digit_def)

lemma rstrip_split: "\<exists>n. s = rstrip_char c s @ replicate n c"
proof -
  have "rev s = takeWhile (\<lambda>d. d = c) (rev s) @ dropWhile (\<lambda>d. d = c) (rev s)" by simp
  then have "s = rev (dropWhile (\<lambda>d. d = c) (rev s)) @ rev (takeWhile (\<lambda>d. d = c) (rev s))"
    by (metis rev_append rev_rev_ident)
  moreover have "takeWhile (\<lambda>d. d = c) (rev s) = replicate (length (takeWhile (\<lambda>d. d = c) (rev s))) c"
    by (rule replicate_eqI [symmetric, THEN sym]) (auto dest: set_takeWhileD)
  ultimately show ?thesis unfolding rstrip_char_def by (metis rev_replicate)
qed

text \<open>Trailing zeros of a fraction do not change its value.\<close>

lemma fraction_value:
  "real (str_nat (rstrip_char (CHR ''0'') f)) / 10 ^ length (rstrip_char (CHR ''0'') f) = real (str_nat f) / 10 ^ length f"
proof -
  obtain n where n: "f = rstrip_char (CHR ''0'') f @ replicate n (CHR ''0'')" using rstrip_split by blast
  let ?r = "rstrip_char (CHR ''0'') f"
  have "str_nat f = str_nat ?r * 10 ^ n" "length f = length ?r + n"
    using arg_cong [OF n, of str_nat] arg_cong [OF n, of length] by (simp_all add: str_nat_append)
  then show ?thesis by (simp add: power_add)
qed

definition all_digits :: "string \<Rightarrow> bool" where
  "all_digits s \<longleftrightarrow> list_all is_digit s"

lemma digit_not_mark [simp]: "\<not> is_digit (CHR ''e'')" "\<not> is_digit (CHR ''.'')"
  by (simp_all add: char_class_defs)

lemma digits_takeWhile:
  assumes "all_digits i" "\<not> is_digit c"
  shows "takeWhile (\<lambda>d. d \<noteq> c) (i @ s) = i @ takeWhile (\<lambda>d. d \<noteq> c) s"
    "dropWhile (\<lambda>d. d \<noteq> c) (i @ s) = dropWhile (\<lambda>d. d \<noteq> c) s"
  using assms by (induction i) (auto simp: all_digits_def)

lemma digits_whole:
  assumes "all_digits i" "\<not> is_digit c"
  shows "takeWhile (\<lambda>d. d \<noteq> c) i = i" "dropWhile (\<lambda>d. d \<noteq> c) i = []"
  using digits_takeWhile [OF assms, of "[]"] by simp_all

lemma all_digits_rstrip: "all_digits f \<Longrightarrow> all_digits (rstrip_char c f)"
  by (auto simp: all_digits_def rstrip_char_def list_all_iff dest: set_dropWhileD)

lemma read_decimal_text:
  assumes i: "all_digits i" and f: "all_digits f"
    and s: "s = [] \<or> (\<exists>r. s = CHR ''e'' # r)"
  shows "read_decimal (i @ trim_fraction f @ s)
    = (real (str_nat i) + real (str_nat f) / 10 ^ length f) * power10 (read_exponent s)"
proof -
  let ?r = "rstrip_char (CHR ''0'') f"
  note r = all_digits_rstrip [OF f, of "CHR ''0''"]
  have e: "takeWhile (\<lambda>c. c \<noteq> CHR ''e'') s = []" "dropWhile (\<lambda>c. c \<noteq> CHR ''e'') s = s" using s by auto
  have "takeWhile (\<lambda>c. c \<noteq> CHR ''e'') (i @ trim_fraction f @ s) = i @ trim_fraction f
    \<and> dropWhile (\<lambda>c. c \<noteq> CHR ''e'') (i @ trim_fraction f @ s) = s"
    by (simp add: digits_takeWhile [OF i] digits_takeWhile [OF r] trim_fraction_def Let_def e)
  moreover have "takeWhile (\<lambda>c. c \<noteq> CHR ''.'') (i @ trim_fraction f) = i
    \<and> drop 1 (dropWhile (\<lambda>c. c \<noteq> CHR ''.'') (i @ trim_fraction f)) = ?r"
    by (simp add: digits_takeWhile [OF i] digits_whole [OF i] trim_fraction_def Let_def)
  ultimately show ?thesis unfolding read_decimal_def Let_def by (elim conjE) (simp only: fraction_value)
qed

lemma read_exponent_text: "read_exponent (exponent_text e) = e"
proof -
  have "str_nat (CHR ''0'' # t) = str_nat t" for t
    using str_nat_append [of "''0''" t] by (simp add: str_nat_def char_digit_def)
  then show ?thesis by (simp add: read_exponent_def exponent_text_def Let_def)
qed

lemma exponent_text_Cons: "\<exists>r. exponent_text e = CHR ''e'' # r"
  by (simp add: exponent_text_def)

lemma nat_str_bound: "n < 10 ^ length (nat_str n)"
proof (induction n rule: nat_str.induct)
  case (1 n)
  then show ?case by (subst nat_str.simps) (auto simp: not_less)
qed

lemma nat_str_length_le: "n < 10 ^ Suc k \<Longrightarrow> length (nat_str n) \<le> Suc k"
proof (induction k arbitrary: n)
  case 0
  then show ?case by (subst nat_str.simps) simp
next
  case (Suc k)
  then have "n div 10 < 10 ^ Suc k" by (simp add: less_mult_imp_div_less)
  from Suc.IH [OF this] show ?case by (subst nat_str.simps) simp
qed

lemma nat_str_length17: "10 ^ 16 \<le> d \<Longrightarrow> d < 10 ^ 17 \<Longrightarrow> length (nat_str d) = 17"
proof -
  assume d: "10 ^ 16 \<le> d" "d < 10 ^ 17"
  have "length (nat_str d) \<le> 17" using nat_str_length_le [of d 16] d by simp
  moreover have "16 < length (nat_str d)"
  proof (rule ccontr)
    assume "\<not> 16 < length (nat_str d)"
    then have "(10 :: nat) ^ length (nat_str d) \<le> 10 ^ 16" by (intro power_increasing) simp_all
    with nat_str_bound [of d] d show False by simp
  qed
  ultimately show ?thesis by simp
qed

lemma all_digits_nat_str [simp]: "all_digits (nat_str n)" "all_digits (take k (nat_str n))" "all_digits (drop k (nat_str n))"
  using nat_str_digits by (auto simp: all_digits_def list_all_iff dest: in_set_takeD in_set_dropD)

lemma split_value:
  assumes "length t = 17" "k \<le> 17"
  shows "real (str_nat (take k t)) + real (str_nat (drop k t)) / 10 ^ length (drop k t) = real (str_nat t) / 10 ^ (17 - k)"
proof -
  have "str_nat t = str_nat (take k t) * 10 ^ (17 - k) + str_nat (drop k t)"
    using str_nat_append [of "take k t" "drop k t"] assms by simp
  then show ?thesis using assms by (simp add: field_simps)
qed

lemma power10_diff: "power10 (e - int n) = power10 e / 10 ^ n"
  using power10_add [of "e - int n" n] by simp

lemma g17_positive_value:
  assumes "decimal_range x" "digits17 x = (d, e)"
  shows "read_decimal (g17_positive x) = real d * power10 (e - 16)"
proof -
  note d = digits17(1,2) [OF assms]
  define t where "t = nat_str d"
  have len: "length t = 17" and val: "str_nat t = d" and dig: "all_digits t" "all_digits (take k t)" "all_digits (drop k t)" for k
    using nat_str_length17 [OF d] by (simp_all add: t_def)
  consider (exp) "e < - 4 \<or> 17 \<le> e" | (small) "- 4 \<le> e" "e < 0" | (mid) "0 \<le> e" "e < 17" by linarith
  then show ?thesis
  proof cases
    case exp
    then have "g17_positive x = take 1 t @ trim_fraction (drop 1 t) @ exponent_text e"
      by (simp add: g17_positive_def assms(2) t_def Let_def)
    then have "read_decimal (g17_positive x)
        = (real (str_nat (take 1 t)) + real (str_nat (drop 1 t)) / 10 ^ length (drop 1 t)) * power10 e"
      using read_decimal_text [OF dig(2,3), of "exponent_text e" 1 1] exponent_text_Cons [of e]
      by (simp only: read_exponent_text simp_thms)
    also have "\<dots> = real d / 10 ^ 16 * power10 e" using split_value [OF len, of 1] val by simp
    also have "\<dots> = real d * power10 (e - 16)" using power10_diff [of e 16] by simp
    finally show ?thesis .
  next
    case small
    define z where "z = replicate (nat (- e - 1)) (CHR ''0'')"
    have "g17_positive x = ''0'' @ trim_fraction (z @ t) @ []"
      using small by (simp add: g17_positive_def assms(2) t_def z_def Let_def)
    moreover have "all_digits ''0''" "all_digits (z @ t)"
      using dig(1) by (auto simp: all_digits_def z_def list_all_iff char_class_defs)
    moreover have "str_nat ''0'' = 0" using str_nat_zeros [of 1] by simp
    moreover have "str_nat (z @ t) = d" by (simp add: str_nat_append z_def val)
    moreover have "length (z @ t) = nat (16 - e)" using small len by (simp add: z_def)
    moreover have "power10 (e - 16) = 1 / 10 ^ nat (16 - e)" using small by (simp add: power10_def)
    moreover have "read_exponent [] = 0" "power10 0 = 1" by (simp_all add: read_exponent_def power10_def)
    ultimately show ?thesis using read_decimal_text [of "''0''" "z @ t" "[]"] by simp
  next
    case mid
    define k where "k = nat e + 1"
    have k: "k \<le> 17" "17 - k = nat (16 - e)" using mid by (auto simp: k_def)
    have "g17_positive x = take k t @ trim_fraction (drop k t) @ []"
      using mid by (simp add: g17_positive_def assms(2) t_def k_def Let_def)
    moreover have "real (str_nat (take k t)) + real (str_nat (drop k t)) / 10 ^ length (drop k t) = real d / 10 ^ nat (16 - e)"
      using split_value [OF len k(1)] val k(2) by simp
    moreover have "power10 (e - 16) = 1 / 10 ^ nat (16 - e)" using mid by (cases "e = 16") (simp_all add: power10_def)
    moreover have "read_exponent [] = 0" "power10 0 = 1" by (simp_all add: read_exponent_def power10_def)
    ultimately show ?thesis using read_decimal_text [OF dig(2,3), of "[]" k k] by simp
  qed
qed

lemma g17_positive_inject:
  assumes "decimal_range x" "decimal_range y" "fl x = x" "fl y = y" "g17_positive x = g17_positive y"
  shows "x = y"
proof -
  obtain d e d' e' where "digits17 x = (d, e)" "digits17 y = (d', e')" by (metis surj_pair)
  note de = this
  have "real d * power10 (e - 16) = real d' * power10 (e' - 16)"
    using g17_positive_value [OF assms(1) de(1)] g17_positive_value [OF assms(2) de(2)] assms(5) by simp
  with de show ?thesis by (rule digits17_separate [OF assms(1-4)])
qed

text \<open>The first character of the text of a positive number is a digit.\<close>

lemma g17_positive_digit:
  assumes "decimal_range x"
  shows "\<exists>c r. g17_positive x = c # r \<and> is_digit c \<and> (c = CHR ''0'' \<longrightarrow> r \<noteq> [])"
proof -
  obtain d e where de: "digits17 x = (d, e)" by fastforce
  note d = digits17(1,2) [OF assms de]
  have "nat_str d \<noteq> []" by simp
  then obtain c t where t: "nat_str d = c # t" by (cases "nat_str d") auto
  have c: "is_digit c" using nat_str_digits [of c d] t by simp
  have zero: "g17_positive x \<noteq> ''0''"
  proof
    assume "g17_positive x = ''0''"
    then have "read_decimal (g17_positive x) = 0"
      by (simp add: read_decimal_def str_nat_def char_digit_def)
    moreover have "0 < real d * power10 (e - 16)" using d(1) by (intro mult_pos_pos) simp_all
    ultimately show False using g17_positive_value [OF assms de] by (simp only: less_irrefl)
  qed
  have "\<exists>c r. g17_positive x = c # r \<and> is_digit c"
    using c by (auto simp: g17_positive_def de t Let_def char_class_defs)
  with zero show ?thesis by auto
qed

definition text_safe :: "pyfloat \<Rightarrow> bool" where
  "text_safe v \<longleftrightarrow> (case v of Fin x \<Rightarrow> fl x = x \<and> (x = 0 \<or> decimal_range \<bar>x\<bar>) | _ \<Rightarrow> True)"

text \<open>The text of a double identifies it, infinities and NaN included.\<close>

lemma g17_inject:
  assumes "text_safe v" "text_safe w" "g17 v = g17 w"
  shows "v = w"
proof -
  have shape: "(\<exists>c r. g17 (Fin x) = c # r \<and> (is_digit c \<and> 0 \<le> x \<or> c = CHR ''-'' \<and> x < 0 \<and> (\<exists>d s. r = d # s \<and> is_digit d)))"
    if "text_safe (Fin x)" for x
  proof -
    consider "x = 0" | "0 < x" "decimal_range x" | "x < 0" "decimal_range (- x)"
      using \<open>text_safe (Fin x)\<close> by (cases "x = 0"; cases "x < 0") (auto simp: text_safe_def)
    then show ?thesis
      by cases (use g17_positive_digit [of x] g17_positive_digit [of "- x"] in \<open>auto simp: char_class_defs\<close>)
  qed
  have finite: "g17 (Fin x) \<notin> {''inf'', ''-inf'', ''nan''}" if "text_safe (Fin x)" for x
    using shape [OF that] by (auto simp: char_class_defs)
  show ?thesis
  proof (cases "\<exists>x y. v = Fin x \<and> w = Fin y")
    case False
    have "g17 v = g17 w \<Longrightarrow> v = w" if "\<And>x. v = Fin x \<Longrightarrow> g17 v \<notin> {''inf'', ''-inf'', ''nan''}"
      "\<And>x. w = Fin x \<Longrightarrow> g17 w \<notin> {''inf'', ''-inf'', ''nan''}"
      using that False by (cases v; cases w) (simp_all del: g17.simps(1))
    then show ?thesis using assms finite by blast
  next
    case True
    then obtain x y where v: "v = Fin x" "w = Fin y" by blast
    have fl: "fl x = x" "fl y = y" "x = 0 \<or> decimal_range \<bar>x\<bar>" "y = 0 \<or> decimal_range \<bar>y\<bar>"
      using assms(1,2) by (simp_all add: v text_safe_def)
    have eq: "g17 (Fin x) = g17 (Fin y)" using assms(3) by (simp add: v)
    have nz: "g17_positive z \<noteq> ''0''" if "decimal_range z" for z using g17_positive_digit [OF that] by auto
    have sign: "x < 0 \<longleftrightarrow> y < 0"
      using shape [of x] shape [of y] assms(1,2) eq by (auto simp: v char_class_defs)
    have "x = y"
    proof (cases "x = 0 \<or> y = 0")
      case True
      then show ?thesis using eq sign fl(3,4) nz [of x] nz [of y] by (auto split: if_splits)
    next
      case False
      then show ?thesis
        using eq sign fl g17_positive_inject [of x y] g17_positive_inject [of "- x" "- y"]
        by (cases "x < 0") (auto simp: fl_minus)
    qed
    then show ?thesis by (simp add: v)
  qed
qed

end
