(* ===== verification/Benchmark.thy ===== *)
theory Benchmark
  imports Commitment
begin

text \<open>
  The fixture generator of \<open>planrace/benchmark_v2.py\<close>: query families, holdout profiles,
  HMAC seed derivation, the deterministic expansion of a seed into customers, orders and
  query parameters, and the logical and parameter digests. \<open>random.Random\<close> is a parameter,
  a generator state with \<open>randrange\<close> and \<open>random\<close>, and so is the SQLite image of a fixture.
\<close>

section \<open>Constants\<close>

definition text_lines :: "string list \<Rightarrow> string" where
  "text_lines = join [CHR 0x0A]"

definition SCHEMA_V2 :: string where
  "SCHEMA_V2 = text_lines [''CREATE TABLE customers ('', ''    id INTEGER PRIMARY KEY,'',
     ''    segment TEXT NOT NULL,'', ''    region TEXT NOT NULL,'',
     ''    active INTEGER NOT NULL CHECK(active IN (0, 1)),'', ''    tier TEXT'', '');'',
     ''CREATE TABLE orders ('', ''    id INTEGER PRIMARY KEY,'', ''    customer_id INTEGER NOT NULL,'',
     ''    amount_cents INTEGER NOT NULL CHECK(amount_cents >= 0),'', ''    status TEXT NOT NULL,'',
     ''    channel TEXT NOT NULL,'', ''    created_day INTEGER NOT NULL,'', ''    coupon_code TEXT,'',
     ''    FOREIGN KEY(customer_id) REFERENCES customers(id)'', '');'']"

definition PUBLIC_TRAINING_SEED :: bytes where
  "PUBLIC_TRAINING_SEED = map char_of [142, 28, 19, 57, 120, 103, 134, 114, 245, 227, 17, 131, 221, 134, 239, 144,
     246, 6, 26, 89, 217, 248, 42, 100, 59, 112, 134, 41, 245, 173, 206, 27 :: nat]"

definition GENERATOR_VERSION :: string where "GENERATOR_VERSION = ''planrace-benchmark-v2.1''"

definition nul :: bytes where "nul = [CHR 0x00]"

text \<open>The digest of the generator source; the file's bytes are an argument.\<close>

definition benchmark_generator_source_digest :: "bytes \<Rightarrow> string" where
  "benchmark_generator_source_digest source =
     ''sha256:'' @ sha256_hex (''planrace/2:benchmark-generator'' @ nul @ GENERATOR_VERSION @ nul @ source)"

record query_family =
  qf_family_id :: string
  qf_sql :: string
  qf_parameter_kinds :: "value_type list"
  qf_ordered :: bool

definition QUERY_FAMILIES :: "query_family list" where
  "QUERY_FAMILIES = [
     \<lparr>qf_family_id = ''paid-revenue-by-segment'',
      qf_sql = text_lines [''SELECT c.segment, SUM(o.amount_cents) AS revenue_cents, COUNT(*) AS order_count'',
        ''        FROM customers AS c JOIN orders AS o ON o.customer_id = c.id'',
        ''        WHERE c.active = ? AND o.status = ? AND o.created_day BETWEEN ? AND ?'',
        ''        GROUP BY c.segment ORDER BY c.segment''],
      qf_parameter_kinds = [BooleanType, TextType, IntegerType, IntegerType], qf_ordered = True\<rparr>,
     \<lparr>qf_family_id = ''customer-order-threshold'',
      qf_sql = text_lines [''SELECT c.id, COUNT(o.id) AS orders, SUM(o.amount_cents) AS spend_cents'',
        ''        FROM customers AS c JOIN orders AS o ON o.customer_id = c.id'',
        ''        WHERE o.amount_cents >= ? AND o.status = ?'',
        ''        GROUP BY c.id HAVING COUNT(o.id) >= ? ORDER BY spend_cents DESC, c.id''],
      qf_parameter_kinds = [IntegerType, TextType, IntegerType], qf_ordered = True\<rparr>,
     \<lparr>qf_family_id = ''bounded-range-scan'',
      qf_sql = text_lines [''SELECT id, customer_id, amount_cents'', ''        FROM orders'',
        ''        WHERE status = ? AND amount_cents BETWEEN ? AND ?'', ''        ORDER BY amount_cents, id''],
      qf_parameter_kinds = [TextType, IntegerType, IntegerType], qf_ordered = True\<rparr>,
     \<lparr>qf_family_id = ''region-channel-aggregate'',
      qf_sql = text_lines [''SELECT c.region, o.channel, COUNT(*) AS orders, SUM(o.amount_cents) AS cents'',
        ''        FROM customers AS c JOIN orders AS o ON o.customer_id = c.id'',
        ''        WHERE c.region = ? AND o.channel = ?'',
        ''        GROUP BY c.region, o.channel ORDER BY c.region, o.channel''],
      qf_parameter_kinds = [TextType, TextType], qf_ordered = True\<rparr>,
     \<lparr>qf_family_id = ''nullable-coupon'',
      qf_sql = text_lines [''SELECT status, COUNT(*) AS orders, SUM(amount_cents) AS cents'', ''        FROM orders'',
        ''        WHERE coupon_code IS NULL AND created_day >= ?'', ''        GROUP BY status ORDER BY status''],
      qf_parameter_kinds = [IntegerType], qf_ordered = True\<rparr>,
     \<lparr>qf_family_id = ''intentional-zero-result'',
      qf_sql = text_lines [''SELECT id, amount_cents FROM orders'',
        ''        WHERE status = ? AND amount_cents > ? ORDER BY id''],
      qf_parameter_kinds = [TextType, IntegerType], qf_ordered = True\<rparr>]"

record fixture_profile =
  fp_fixture_id :: string
  fp_customers :: int
  fp_orders :: int
  fp_paid_bps :: int
  fp_null_bps :: int
  fp_duplicate_bps :: int
  fp_skew_power_milli :: int
  fp_correlation_bps :: int
  fp_legacy_test_family_index :: nat

definition mk_profile :: "string \<Rightarrow> int list \<Rightarrow> nat \<Rightarrow> fixture_profile" where
  "mk_profile fixture_id ns legacy = \<lparr>fp_fixture_id = fixture_id, fp_customers = ns ! 0, fp_orders = ns ! 1,
     fp_paid_bps = ns ! 2, fp_null_bps = ns ! 3, fp_duplicate_bps = ns ! 4, fp_skew_power_milli = ns ! 5,
     fp_correlation_bps = ns ! 6, fp_legacy_test_family_index = legacy\<rparr>"

definition HOLDOUT_PROFILES :: "fixture_profile list" where
  "HOLDOUT_PROFILES = [
     mk_profile ''holdout_00_zero'' [32, 0, 1000, 0, 0, 1000, 0] 5,
     mk_profile ''holdout_01_small'' [80, 420, 5000, 1000, 0, 1000, 1000] 0,
     mk_profile ''holdout_02_skew'' [500, 8000, 800, 200, 500, 2800, 2000] 1,
     mk_profile ''holdout_03_null'' [900, 12000, 3500, 6500, 300, 1500, 4000] 4,
     mk_profile ''holdout_04_duplicates'' [1200, 18000, 6000, 1000, 5000, 1100, 3000] 2,
     mk_profile ''holdout_05_correlated'' [1600, 24000, 2000, 500, 500, 1800, 9000] 3,
     mk_profile ''holdout_06_boundary'' [2000, 30000, 50, 2000, 1000, 3500, 7000] 2,
     mk_profile ''holdout_07_large_agg'' [2500, 42000, 4300, 800, 2000, 2200, 8000] 0]"

definition training_profile :: fixture_profile where
  "training_profile = mk_profile ''training_public_v2'' [180, 2000, 2500, 800, 500, 1400, 4000] 0"

section \<open>Families and published ranges\<close>

definition query_family_of :: "string \<Rightarrow> query_family result" where
  "query_family_of family_id =
     (case find (\<lambda>f. qf_family_id f = family_id) QUERY_FAMILIES of
        Some f \<Rightarrow> Inr f
      | None \<Rightarrow> Inl (ValueError (''unknown query family: '' @ family_id)))"

definition mk_range :: "string \<Rightarrow> value_type \<Rightarrow> param_value \<Rightarrow> param_value \<Rightarrow> distribution \<Rightarrow> parameter_range" where
  "mk_range name value_type minimum maximum distribution = \<lparr>pr_name = name, pr_value_type = value_type,
     pr_minimum = minimum, pr_maximum = maximum, pr_distribution = distribution\<rparr>"

definition family_ranges :: "string \<Rightarrow> parameter_range list option" where
  "family_ranges family_id =
     (if family_id = ''paid-revenue-by-segment'' then Some
        [mk_range ''active'' BooleanType (BoolValue False) (BoolValue True) Categorical,
         mk_range ''status'' TextType (StrValue ''failed'') (StrValue ''refunded'') Categorical,
         mk_range ''created_day_start'' IntegerType (IntValue 0) (IntValue 3650) OrderedUniformPairLow,
         mk_range ''created_day_end'' IntegerType (IntValue 0) (IntValue 3650) OrderedUniformPairHigh]
      else if family_id = ''customer-order-threshold'' then Some
        [mk_range ''minimum_amount_cents'' IntegerType (IntValue 0) (IntValue 5000000) Uniform,
         mk_range ''status'' TextType (StrValue ''failed'') (StrValue ''refunded'') Categorical,
         mk_range ''minimum_order_count'' IntegerType (IntValue 1) (IntValue 12) Uniform]
      else if family_id = ''bounded-range-scan'' then Some
        [mk_range ''status'' TextType (StrValue ''failed'') (StrValue ''refunded'') Categorical,
         mk_range ''minimum_amount_cents'' IntegerType (IntValue 0) (IntValue 5000000) OrderedUniformPairLow,
         mk_range ''maximum_amount_cents'' IntegerType (IntValue 0) (IntValue 5000000) OrderedUniformPairHigh]
      else if family_id = ''region-channel-aggregate'' then Some
        [mk_range ''region'' TextType (StrValue ''apac'') (StrValue ''north-america'') Categorical,
         mk_range ''channel'' TextType (StrValue ''api'') (StrValue ''web'') Categorical]
      else if family_id = ''nullable-coupon'' then Some
        [mk_range ''created_day_minimum'' IntegerType (IntValue 0) (IntValue 3650) Uniform]
      else if family_id = ''intentional-zero-result'' then Some
        [mk_range ''status'' TextType (StrValue ''nonexistent-status'') (StrValue ''nonexistent-status'') Categorical,
         mk_range ''amount_cents_exclusive_floor'' IntegerType (IntValue 5000000) (IntValue 5000000) Categorical]
      else None)"

definition published_parameter_ranges :: "string \<Rightarrow> parameter_range list result" where
  "published_parameter_ranges family_id =
     rbind (query_family_of family_id) (\<lambda>_.
     case family_ranges family_id of
       None \<Rightarrow> Inl (AssertionError ''unreachable query family'')
     | Some ranges \<Rightarrow> rmap (\<lambda>r. rbind (rcheck (valid_parameter_range r) (ValueError ''validation error'')) (\<lambda>_. Inr r)) ranges)"

section \<open>The generator\<close>

text \<open>\<open>random.Random\<close>: seeding, \<open>randrange(lo, hi)\<close> and \<open>random()\<close>.\<close>

record 'g prng =
  rng_seed :: "nat \<Rightarrow> 'g"
  rng_randrange :: "int \<Rightarrow> int \<Rightarrow> 'g \<Rightarrow> int \<times> 'g"
  rng_random :: "'g \<Rightarrow> real \<times> 'g"

definition pick :: "'g prng \<Rightarrow> 'a list \<Rightarrow> 'g \<Rightarrow> 'a \<times> 'g" where
  "pick r xs g = (let (i, g') = rng_randrange r 0 (int (length xs)) g in (xs ! nat i, g'))"

definition chance :: "'g prng \<Rightarrow> int \<Rightarrow> 'g \<Rightarrow> bool \<times> 'g" where
  "chance r bps g = (let (n, g') = rng_randrange r 0 10000 g in (n < bps, g'))"

record customer =
  cu_id :: int
  cu_segment :: string
  cu_region :: string
  cu_active :: int
  cu_tier :: "string option"

record order_payload =
  op_customer_id :: int
  op_amount_cents :: int
  op_status :: string
  op_channel :: string
  op_created_day :: int
  op_coupon :: "string option"

definition SEGMENTS :: "string list" where "SEGMENTS = [''enterprise'', ''midmarket'', ''small'']"
definition REGIONS :: "string list" where "REGIONS = [''apac'', ''emea'', ''latam'', ''north-america'']"
definition TIERS :: "string option list" where "TIERS = [Some ''gold'', Some ''silver'', Some ''bronze'', None]"
definition STATUSES :: "string list" where "STATUSES = [''pending'', ''failed'', ''refunded'']"
definition CHANNELS :: "string list" where "CHANNELS = [''api'', ''mobile'', ''partner'', ''web'']"

definition gen_customer :: "'g prng \<Rightarrow> int \<Rightarrow> 'g \<Rightarrow> customer \<times> 'g" where
  "gen_customer r customer_id g0 =
     (let (region, g1) = pick r REGIONS g0;
          (shift, g2) = rng_randrange r 0 (int (length SEGMENTS)) g1;
          (active, g3) = rng_randrange r 0 10000 g2;
          (tier, g4) = pick r TIERS g3
      in (\<lparr>cu_id = customer_id, cu_segment = SEGMENTS ! nat ((customer_id + shift) mod int (length SEGMENTS)),
           cu_region = region, cu_active = (if 1300 \<le> active then 1 else 0), cu_tier = tier\<rparr>, g4))"

fun gen_customers :: "'g prng \<Rightarrow> int list \<Rightarrow> 'g \<Rightarrow> customer list \<times> 'g" where
  "gen_customers r [] g = ([], g)"
| "gen_customers r (i # is) g =
     (let (c, g') = gen_customer r i g; (cs, g'') = gen_customers r is g' in (c # cs, g''))"

definition py_pow :: "real \<Rightarrow> real \<Rightarrow> real" where
  "py_pow x e = (if e = 0 then 1 else fl (x powr e))"

definition coupon_code :: "int \<Rightarrow> string" where
  "coupon_code n = ''C'' @ (if n < 10 then ''0'' else []) @ nat_str (nat n)"

text \<open>The index of a channel by region, \<open>channels[regions.index(region)]\<close>.\<close>

definition index_of :: "'a \<Rightarrow> 'a list \<Rightarrow> nat result" where
  "index_of x xs = (if x \<in> set xs then Inr (length (takeWhile (\<lambda>y. y \<noteq> x) xs))
     else Inl (ValueError ''tuple.index(x): x not in tuple''))"

definition fresh_payload ::
  "'g prng \<Rightarrow> fixture_profile \<Rightarrow> customer list \<Rightarrow> int \<Rightarrow> 'g \<Rightarrow> (order_payload \<times> 'g) result" where
  "fresh_payload r p customers order_id g0 =
     (let exponent = fl (of_int (fp_skew_power_milli p) / 1000);
          (x, g1) = rng_random r g0;
          customer_id = min (fp_customers p) (1 + \<lfloor>fl (py_pow x exponent * of_int (fp_customers p))\<rfloor>)
      in if customers = [] \<or> int (length customers) < customer_id then Inl IndexError
         else let region = cu_region (customers ! nat (customer_id - 1));
                  (correlated, g2) = chance r (fp_correlation_bps p) g1
              in rbind (if correlated then rbind (index_of region REGIONS) (\<lambda>i. Inr (CHANNELS ! i, g2))
                        else Inr (pick r CHANNELS g2)) (\<lambda>(channel, g3).
                 let (paid, g4) = chance r (fp_paid_bps p) g3;
                     (status, g5) = (if paid then (''paid'', g4) else pick r STATUSES g4);
                     (y, g6) = rng_random r g5;
                     amount = min 5000000 \<lfloor>fl (py_pow y (fl (26 / 10)) * 5000001)\<rfloor>;
                     amount_cents = (if order_id mod 997 = 0 then 5000000 else if order_id mod 499 = 0 then 0 else amount);
                     (created_day, g7) = rng_randrange r 0 3651 g6;
                     (missing, g8) = chance r (fp_null_bps p) g7;
                     (coupon, g9) = (if missing then (None, g8)
                       else let (n, g) = rng_randrange r 0 40 g8 in (Some (coupon_code n), g))
                 in Inr (\<lparr>op_customer_id = customer_id, op_amount_cents = amount_cents, op_status = status,
                      op_channel = channel, op_created_day = created_day, op_coupon = coupon\<rparr>, g9)))"

text \<open>The order loop; the previous payload is only ever the last fresh one.\<close>

fun gen_orders ::
  "'g prng \<Rightarrow> fixture_profile \<Rightarrow> customer list \<Rightarrow> order_payload option \<Rightarrow> int list \<Rightarrow> 'g
    \<Rightarrow> ((int \<times> order_payload) list \<times> 'g) result" where
  "gen_orders r p customers previous [] g = Inr ([], g)"
| "gen_orders r p customers previous (i # is) g =
     (let (repeat, g1) = (case previous of None \<Rightarrow> (False, g) | Some _ \<Rightarrow> chance r (fp_duplicate_bps p) g)
      in rbind (if repeat then Inr (the previous, previous, g1)
                else rbind (fresh_payload r p customers i g1) (\<lambda>(q, g2). Inr (q, Some q, g2))) (\<lambda>(payload, previous', g2).
         rbind (gen_orders r p customers previous' is g2) (\<lambda>(os, g3). Inr ((i, payload) # os, g3))))"

section \<open>Parameters\<close>

definition PARAMETER_STATUSES :: "string list" where
  "PARAMETER_STATUSES = [''failed'', ''paid'', ''pending'', ''refunded'']"

definition ordered_pair :: "'g prng \<Rightarrow> int \<Rightarrow> 'g \<Rightarrow> (int \<times> int) \<times> 'g" where
  "ordered_pair r n g0 = (let (a, g1) = rng_randrange r 0 n g0; (b, g2) = rng_randrange r 0 n g1
     in ((min a b, max a b), g2))"

definition parameters_for :: "'g prng \<Rightarrow> string \<Rightarrow> 'g \<Rightarrow> param_value list result" where
  "parameters_for r family_id g0 =
     (if family_id = ''paid-revenue-by-segment''
      then let ((start_day, end_day), g1) = ordered_pair r 3651 g0; (b, g2) = rng_randrange r 0 2 g1;
               (status, _) = pick r PARAMETER_STATUSES g2
           in Inr [BoolValue (b \<noteq> 0), StrValue status, IntValue start_day, IntValue end_day]
      else if family_id = ''customer-order-threshold''
      then let (amount, g1) = rng_randrange r 0 5000001 g0; (status, g2) = pick r PARAMETER_STATUSES g1;
               (n, _) = rng_randrange r 1 13 g2
           in Inr [IntValue amount, StrValue status, IntValue n]
      else if family_id = ''bounded-range-scan''
      then let ((minimum_cents, maximum_cents), g1) = ordered_pair r 5000001 g0; (status, _) = pick r PARAMETER_STATUSES g1
           in Inr [StrValue status, IntValue minimum_cents, IntValue maximum_cents]
      else if family_id = ''region-channel-aggregate''
      then let (region, g1) = pick r REGIONS g0; (channel, _) = pick r CHANNELS g1
           in Inr [StrValue region, StrValue channel]
      else if family_id = ''nullable-coupon''
      then let (day, _) = rng_randrange r 0 3651 g0 in Inr [IntValue day]
      else if family_id = ''intentional-zero-result'' then Inr [StrValue ''nonexistent-status'', IntValue 5000000]
      else Inl (ValueError (''unknown query family: '' @ family_id)))"

section \<open>Digests\<close>

text \<open>A value of a fixture row; a real number comes with the text \<open>json.dumps\<close> gives it.\<close>

datatype row_value = RNull | RInt int | RText string | RReal string | RBlob bytes

fun row_value_text :: "row_value \<Rightarrow> string result" where
  "row_value_text RNull = Inr ''null''"
| "row_value_text (RInt i) = Inr (int_str i)"
| "row_value_text (RText s) = Inr (render_str s)"
| "row_value_text (RReal t) = Inr t"
| "row_value_text (RBlob _) = Inl (TypeError ''Object of type bytes is not JSON serializable'')"

definition iter_row :: "string \<Rightarrow> row_value list \<Rightarrow> bytes result" where
  "iter_row relation row = rbind (rmap row_value_text row) (\<lambda>ts.
     Inr (''{'' @ render_str ''relation'' @ '':'' @ render_str relation @ '','' @ render_str ''row'' @ '':[''
       @ join '','' ts @ '']}''))"

definition customer_row :: "customer \<Rightarrow> row_value list" where
  "customer_row c = [RInt (cu_id c), RText (cu_segment c), RText (cu_region c), RInt (cu_active c),
     case cu_tier c of None \<Rightarrow> RNull | Some t \<Rightarrow> RText t]"

definition order_row :: "int \<times> order_payload \<Rightarrow> row_value list" where
  "order_row e = (let (i, p) = e in [RInt i, RInt (op_customer_id p), RInt (op_amount_cents p), RText (op_status p),
     RText (op_channel p), RInt (op_created_day p), case op_coupon p of None \<Rightarrow> RNull | Some t \<Rightarrow> RText t])"

definition framed_row :: "string \<Rightarrow> row_value list \<Rightarrow> bytes result" where
  "framed_row relation row = rbind (iter_row relation row) (\<lambda>b.
     rbind (to_bytes_big 4 (length b)) (\<lambda>n. Inr (n @ b)))"

definition logical_fixture_content_digest :: "row_value list list \<Rightarrow> row_value list list \<Rightarrow> string result" where
  "logical_fixture_content_digest customers orders =
     rbind (rmap (framed_row ''customers'') customers) (\<lambda>cs.
     rbind (rmap (framed_row ''orders'') orders) (\<lambda>os.
       Inr (''sha256:'' @ sha256_hex (''planrace/2:logical-fixture'' @ nul @ concat cs @ concat os))))"

definition digest_json :: "string \<Rightarrow> json \<Rightarrow> string" where
  "digest_json domain v = ''sha256:'' @ sha256_hex (domain @ nul @ json_dumps v)"

definition is_sha256_digest :: "string \<Rightarrow> bool" where
  "is_sha256_digest v \<longleftrightarrow> py_len v = 71 \<and> starts_with ''sha256:'' v \<and> list_all is_lower_hex (drop 7 v)"

text \<open>The rows a database returns, or the error of reading them, are an argument.\<close>

definition verify_logical_fixture_content_digest ::
  "(row_value list list \<times> row_value list list) result \<Rightarrow> string \<Rightarrow> bool result" where
  "verify_logical_fixture_content_digest db expected =
     rbind (rcheck (is_sha256_digest expected) (ValueError ''expected_digest must be a lowercase sha256 digest'')) (\<lambda>_.
     rbind db (\<lambda>(customers, orders).
     rbind (logical_fixture_content_digest customers orders) (\<lambda>actual. Inr (actual = expected))))"

definition fixture_parameter_set_digest :: "string \<Rightarrow> json list \<Rightarrow> string result" where
  "fixture_parameter_set_digest family_id parameters =
     rbind (rcheck (\<not> (family_id = [] \<or> 63 < py_len family_id))
              (ValueError ''family_id must be non-empty and at most 63 characters'')) (\<lambda>_.
       Inr (digest_json ''planrace/2:fixture-parameters''
         (JObj [(''family'', JStr family_id), (''parameters'', JArr parameters)])))"

section \<open>Fixtures\<close>

text \<open>HMAC-SHA256; a key longer than the block is hashed first.\<close>

definition xor_byte :: "nat \<Rightarrow> char \<Rightarrow> char" where
  "xor_byte n c = char_of (Bit_Operations.xor n (of_char c))"

definition hmac_sha256 :: "bytes \<Rightarrow> bytes \<Rightarrow> bytes" where
  "hmac_sha256 secret message =
     (let k = (if 64 < length secret then sha256 secret else secret);
          padded = k @ replicate (64 - length k) (CHR 0x00)
      in sha256 (map (xor_byte 0x5c) padded @ sha256 (map (xor_byte 0x36) padded @ message)))"

definition derive_seed :: "bytes \<Rightarrow> string \<Rightarrow> string \<Rightarrow> bytes" where
  "derive_seed secret_seed fixture_id family_id =
     hmac_sha256 secret_seed (''planrace/2:hidden-fixture:'' @ family_id @ '':'' @ fixture_id)"

definition int_from_bytes_big :: "bytes \<Rightarrow> nat" where
  "int_from_bytes_big bs = foldl (\<lambda>n c. 256 * n + of_char c) 0 bs"

record generated_fixture =
  gf_descriptor :: hidden_fixture
  gf_profile :: fixture_profile
  gf_query_family :: query_family
  gf_parameters :: "param_value list"
  gf_customers :: "customer list"
  gf_orders :: "(int \<times> order_payload) list"

text \<open>\<open>sqlite_image\<close> is the serialized database of the rows.\<close>

type_synonym sqlite_image = "row_value list list \<Rightarrow> row_value list list \<Rightarrow> bytes result"

definition generate_fixture ::
  "'g prng \<Rightarrow> sqlite_image \<Rightarrow> bytes \<Rightarrow> fixture_profile \<Rightarrow> query_family \<Rightarrow> generated_fixture result" where
  "generate_fixture r sqlite_image seed p family =
     (let (customers, g1) = gen_customers r [1..fp_customers p] (rng_seed r (int_from_bytes_big seed)) in
      rbind (gen_orders r p customers None [1..fp_orders p] g1) (\<lambda>(orders, g2).
      rbind (parameters_for r (qf_family_id family) g2) (\<lambda>parameters.
      rbind (logical_fixture_content_digest (map customer_row customers) (map order_row orders)) (\<lambda>content_digest.
      rbind (sqlite_image (map customer_row customers) (map order_row orders)) (\<lambda>image.
      rbind (fixture_parameter_set_digest (qf_family_id family) (map json_of_value parameters)) (\<lambda>parameter_digest.
       let descriptor = \<lparr>hf_fixture_id = fp_fixture_id p, hf_content_digest = content_digest,
             hf_database_file_digest = Some (''sha256:'' @ sha256_hex image),
             hf_parameter_set_digest = parameter_digest, hf_row_count = int (length orders)\<rparr>
       in rbind (rcheck (valid_hidden_fixture descriptor) (ValueError ''validation error'')) (\<lambda>_.
            Inr \<lparr>gf_descriptor = descriptor, gf_profile = p, gf_query_family = family,
                 gf_parameters = parameters, gf_customers = customers, gf_orders = orders\<rparr>)))))))"

definition validate_hidden_seed :: "bytes \<Rightarrow> unit result" where
  "validate_hidden_seed secret_seed =
     rcheck (length secret_seed = 32) (ValueError ''hidden fixture seed must contain exactly 32 bytes'')"

definition generate_hidden_fixtures ::
  "'g prng \<Rightarrow> sqlite_image \<Rightarrow> string \<Rightarrow> bytes \<Rightarrow> generated_fixture list result" where
  "generate_hidden_fixtures r sqlite_image family_id secret_seed =
     rbind (validate_hidden_seed secret_seed) (\<lambda>_.
     rbind (query_family_of family_id) (\<lambda>family.
       rmap (\<lambda>p. generate_fixture r sqlite_image (derive_seed secret_seed (fp_fixture_id p) (qf_family_id family)) p family)
         HOLDOUT_PROFILES))"

definition describe_hidden_fixtures ::
  "'g prng \<Rightarrow> sqlite_image \<Rightarrow> string \<Rightarrow> bytes \<Rightarrow> hidden_fixture list result" where
  "describe_hidden_fixtures r sqlite_image family_id secret_seed =
     rbind (generate_hidden_fixtures r sqlite_image family_id secret_seed) (\<lambda>fs. Inr (map gf_descriptor fs))"

definition generate_mixed_family_fixtures ::
  "'g prng \<Rightarrow> sqlite_image \<Rightarrow> bytes \<Rightarrow> generated_fixture list result" where
  "generate_mixed_family_fixtures r sqlite_image secret_seed =
     rbind (validate_hidden_seed secret_seed) (\<lambda>_.
       rmap (\<lambda>p. let family = QUERY_FAMILIES ! fp_legacy_test_family_index p
                 in generate_fixture r sqlite_image (derive_seed secret_seed (fp_fixture_id p) (qf_family_id family)) p family)
         HOLDOUT_PROFILES)"

definition generate_public_training_fixture :: "'g prng \<Rightarrow> sqlite_image \<Rightarrow> string \<Rightarrow> generated_fixture result" where
  "generate_public_training_fixture r sqlite_image family_id =
     rbind (query_family_of family_id) (\<lambda>family.
       generate_fixture r sqlite_image
         (derive_seed PUBLIC_TRAINING_SEED (fp_fixture_id training_profile) (qf_family_id family)) training_profile family)"

text \<open>
  Writing a fixture's image: a file system from paths to contents. The image is written
  first and removed again when it does not match the descriptor.
\<close>

definition materialize_fixture ::
  "sqlite_image \<Rightarrow> generated_fixture \<Rightarrow> string \<Rightarrow> (string \<rightharpoonup> bytes) \<Rightarrow> (string \<rightharpoonup> bytes) \<times> string result" where
  "materialize_fixture sqlite_image f path files =
     (if files path \<noteq> None then (files, Inl (OSError (''FileExistsError: '' @ path)))
      else case sqlite_image (map customer_row (gf_customers f)) (map order_row (gf_orders f)) of
             Inl e \<Rightarrow> (files, Inl e)
           | Inr payload \<Rightarrow>
               let digest = ''sha256:'' @ sha256_hex payload
               in if hf_database_file_digest (gf_descriptor f) \<noteq> Some digest
                  then (files(path := None), Inl (ValueError ''canonical database image does not match fixture commitment''))
                  else (files(path \<mapsto> payload), Inr digest))"

section \<open>What the generator guarantees\<close>

text \<open>The documented contract of \<open>randrange\<close> and \<open>random\<close>.\<close>

definition prng_ok :: "'g prng \<Rightarrow> bool" where
  "prng_ok r \<longleftrightarrow> (\<forall>lo hi g. lo < hi \<longrightarrow> lo \<le> fst (rng_randrange r lo hi g) \<and> fst (rng_randrange r lo hi g) < hi)
     \<and> (\<forall>g. 0 \<le> fst (rng_random r g) \<and> fst (rng_random r g) < 1)"

lemma prng_range:
  assumes "prng_ok r" "rng_randrange r lo hi g = (n, g')" "lo < hi"
  shows "lo \<le> n \<and> n < hi"
  using assms unfolding prng_ok_def by (metis fst_conv)

lemma prng_random:
  assumes "prng_ok r" "rng_random r g = (x, g')"
  shows "0 \<le> x \<and> x < 1"
  using assms unfolding prng_ok_def by (metis fst_conv)

lemma pick_mem:
  assumes "prng_ok r" "pick r xs g = (x, g')" "xs \<noteq> []"
  shows "x \<in> set xs"
proof -
  obtain i g1 where i: "rng_randrange r 0 (int (length xs)) g = (i, g1)" by fastforce
  then have "0 \<le> i \<and> i < int (length xs)" using prng_range [OF assms(1)] assms(3) by simp
  then have "xs ! nat i \<in> set xs" by (intro nth_mem) linarith
  moreover have "x = xs ! nat i" using assms(2) i by (simp add: pick_def)
  ultimately show ?thesis by simp
qed

lemma gen_customers_ids:
  assumes "gen_customers r is g = (cs, g')"
  shows "map cu_id cs = is"
  using assms
proof (induction "is" arbitrary: g cs g')
  case (Cons i "is")
  obtain c g1 cs' g2 where "gen_customer r i g = (c, g1)" "gen_customers r is g1 = (cs', g2)" by fastforce
  note parts = this
  have "cu_id c = i" using parts(1) by (auto simp: gen_customer_def Let_def split: prod.splits)
  moreover have "cs = c # cs'" using Cons.prems parts by simp
  moreover have "map cu_id cs' = is" using Cons.IH parts(2) .
  ultimately show ?case by simp
qed simp

definition payload_ok :: "fixture_profile \<Rightarrow> order_payload \<Rightarrow> bool" where
  "payload_ok p q \<longleftrightarrow> 1 \<le> op_customer_id q \<and> op_customer_id q \<le> fp_customers p
     \<and> 0 \<le> op_amount_cents q \<and> op_amount_cents q \<le> 5000000
     \<and> 0 \<le> op_created_day q \<and> op_created_day q \<le> 3650
     \<and> (op_status q = ''paid'' \<or> op_status q \<in> set STATUSES)"

lemma py_pow_unit: "0 \<le> x \<Longrightarrow> x < 1 \<Longrightarrow> 0 \<le> e \<Longrightarrow> 0 \<le> py_pow x e \<and> py_pow x e \<le> 1"
  using powr_mono2 [of e x 1] by (auto simp: py_pow_def fl.rnd_nonneg fl.rnd_le_one)

lemma scaled_floor:
  assumes "0 \<le> x" "x < 1" "0 \<le> e" "0 \<le> n" "n \<le> 2 ^ 53"
  shows "0 \<le> \<lfloor>fl (py_pow x e * of_int n)\<rfloor> \<and> \<lfloor>fl (py_pow x e * of_int n)\<rfloor> \<le> n"
proof -
  note p = py_pow_unit [OF assms(1-3)]
  have "fl (of_int n) = of_int n" using assms(4,5) by (intro fl_of_int) simp
  moreover have "py_pow x e * of_int n \<le> of_int n" using p assms(4) mult_right_mono [of "py_pow x e" 1 "of_int n"] by simp
  ultimately have "fl (py_pow x e * of_int n) \<le> of_int n" by (intro fl.rnd_upper)
  moreover have "0 \<le> fl (py_pow x e * of_int n)" using p assms(4) by (intro fl.rnd_nonneg) simp
  ultimately show ?thesis by (simp add: floor_le_iff)
qed

lemma fresh_payload_ok:
  assumes r: "prng_ok r" and p: "0 \<le> fp_skew_power_milli p" "1 \<le> fp_customers p" "fp_customers p \<le> 2 ^ 53"
    and f: "fresh_payload r p customers i g = Inr (q, g')"
  shows "payload_ok p q"
proof -
  define exponent where "exponent = fl (of_int (fp_skew_power_milli p) / 1000)"
  obtain x g1 where x: "rng_random r g = (x, g1)" by fastforce
  define customer_id where "customer_id = min (fp_customers p) (1 + \<lfloor>fl (py_pow x exponent * of_int (fp_customers p))\<rfloor>)"
  obtain channel g3 where rest: "rbind (if fst (chance r (fp_correlation_bps p) g1)
        then rbind (index_of (cu_region (customers ! nat (customer_id - 1))) REGIONS) (\<lambda>i. Inr (CHANNELS ! i, snd (chance r (fp_correlation_bps p) g1)))
        else Inr (pick r CHANNELS (snd (chance r (fp_correlation_bps p) g1)))) (\<lambda>c. Inr c) = Inr (channel, g3)"
    and q: "(let (paid, g4) = chance r (fp_paid_bps p) g3;
                     (status, g5) = (if paid then (''paid'', g4) else pick r STATUSES g4);
                     (y, g6) = rng_random r g5;
                     amount = min 5000000 \<lfloor>fl (py_pow y (fl (26 / 10)) * 5000001)\<rfloor>;
                     amount_cents = (if i mod 997 = 0 then 5000000 else if i mod 499 = 0 then 0 else amount);
                     (created_day, g7) = rng_randrange r 0 3651 g6;
                     (missing, g8) = chance r (fp_null_bps p) g7;
                     (coupon, g9) = (if missing then (None, g8)
                       else let (n, g) = rng_randrange r 0 40 g8 in (Some (coupon_code n), g))
                 in (\<lparr>op_customer_id = customer_id, op_amount_cents = amount_cents, op_status = status,
                      op_channel = channel, op_created_day = created_day, op_coupon = coupon\<rparr>, g9)) = (q, g')"
    using f x by (auto simp: fresh_payload_def Let_def exponent_def customer_id_def case_prod_beta rbind_eq_Inr split: if_splits)
  obtain paid g4 where paid: "chance r (fp_paid_bps p) g3 = (paid, g4)" by fastforce
  obtain status g5 where status: "(if paid then (''paid'', g4) else pick r STATUSES g4) = (status, g5)" by fastforce
  obtain y g6 where y: "rng_random r g5 = (y, g6)" by fastforce
  obtain day g7 where day: "rng_randrange r 0 3651 g6 = (day, g7)" by fastforce
  have fields: "op_customer_id q = customer_id" "op_status q = status" "op_created_day q = day"
    "op_amount_cents q = (if i mod 997 = 0 then 5000000 else if i mod 499 = 0 then 0
       else min 5000000 \<lfloor>fl (py_pow y (fl (26 / 10)) * 5000001)\<rfloor>)"
    using q unfolding paid Let_def case_prod_conv status y day by (auto simp: case_prod_beta)
  have exponent: "0 \<le> exponent" using p(1) unfolding exponent_def by (intro fl.rnd_nonneg) simp
  have "0 \<le> \<lfloor>fl (py_pow x exponent * of_int (fp_customers p))\<rfloor>"
    using scaled_floor [of x exponent "fp_customers p"] prng_random [OF r x] exponent p by simp
  then have "1 \<le> customer_id \<and> customer_id \<le> fp_customers p" using p(2) by (simp add: customer_id_def)
  moreover have "0 \<le> \<lfloor>fl (py_pow y (fl (26 / 10)) * of_int 5000001)\<rfloor>"
    using scaled_floor [of y "fl (26 / 10)" 5000001] prng_random [OF r y] fl.rnd_nonneg [of "26 / 10"] by simp
  moreover have "0 \<le> day \<and> day \<le> 3650" using prng_range [OF r day] by simp
  moreover have "status = ''paid'' \<or> status \<in> set STATUSES"
    using status pick_mem [OF r, of STATUSES g4 status g5] by (auto simp: STATUSES_def split: if_splits)
  ultimately show ?thesis by (simp add: payload_ok_def fields)
qed

lemma gen_orders_ok:
  assumes r: "prng_ok r" and p: "0 \<le> fp_skew_power_milli p" "1 \<le> fp_customers p" "fp_customers p \<le> 2 ^ 53"
    and "gen_orders r p customers previous is g = Inr (os, g')" "pred_option (payload_ok p) previous"
  shows "map fst os = is \<and> list_all (\<lambda>(i, q). payload_ok p q) os"
  using assms(5,6)
proof (induction "is" arbitrary: previous g os g')
  case (Cons i "is")
  obtain repeat g1 where rp: "(case previous of None \<Rightarrow> (False, g) | Some _ \<Rightarrow> chance r (fp_duplicate_bps p) g) = (repeat, g1)"
    by fastforce
  from Cons.prems(1) rp obtain q previous' g2 os' g3 where
    q: "(if repeat then Inr (the previous, previous, g1)
         else rbind (fresh_payload r p customers i g1) (\<lambda>(q, g2). Inr (q, Some q, g2))) = Inr (q, previous', g2)"
    and os: "gen_orders r p customers previous' is g2 = Inr (os', g3)" "os = (i, q) # os'"
    by (auto simp: rbind_eq_Inr split: prod.splits)
  have "payload_ok p q \<and> pred_option (payload_ok p) previous'"
  proof (cases repeat)
    case True
    then have "previous \<noteq> None" using rp by (auto split: option.splits)
    with True q Cons.prems(2) show ?thesis by auto
  next
    case False
    with q obtain g2' where "fresh_payload r p customers i g1 = Inr (q, g2')" "previous' = Some q"
      by (auto simp: rbind_eq_Inr)
    with fresh_payload_ok [OF r p this(1)] show ?thesis by simp
  qed
  with Cons.IH [OF os(1)] os(2) show ?case by simp
qed simp

lemma holdout_profiles:
  assumes "p \<in> set HOLDOUT_PROFILES"
  shows "0 \<le> fp_skew_power_milli p" "1 \<le> fp_customers p" "fp_customers p \<le> 2 ^ 53" "0 \<le> fp_orders p"
  using assms by (auto simp: HOLDOUT_PROFILES_def mk_profile_def)

lemma generate_fixture_ok:
  assumes r: "prng_ok r" and p: "p \<in> set HOLDOUT_PROFILES"
    and f: "generate_fixture r sqlite_image seed p family = Inr f"
  shows "map cu_id (gf_customers f) = [1..fp_customers p] \<and> map fst (gf_orders f) = [1..fp_orders p]
    \<and> list_all (\<lambda>(i, q). payload_ok p q) (gf_orders f)
    \<and> hf_fixture_id (gf_descriptor f) = fp_fixture_id p \<and> hf_row_count (gf_descriptor f) = fp_orders p
    \<and> valid_hidden_fixture (gf_descriptor f) \<and> gf_query_family f = family"
proof -
  obtain customers g1 where c: "gen_customers r [1..fp_customers p] (rng_seed r (int_from_bytes_big seed)) = (customers, g1)"
    by fastforce
  from f c obtain orders g2 where g: "gen_orders r p customers None [1..fp_orders p] g1 = Inr (orders, g2)"
    and fields: "gf_customers f = customers" "gf_orders f = orders" "hf_fixture_id (gf_descriptor f) = fp_fixture_id p"
      "hf_row_count (gf_descriptor f) = int (length orders)" "valid_hidden_fixture (gf_descriptor f)" "gf_query_family f = family"
    by (auto simp: generate_fixture_def Let_def rbind_eq_Inr)
  have ok: "map fst orders = [1..fp_orders p] \<and> list_all (\<lambda>(i, q). payload_ok p q) orders"
    by (rule gen_orders_ok [OF r holdout_profiles(1-3) [OF p] g]) simp
  then have "length orders = length [1..fp_orders p]" by (metis length_map)
  then have "int (length orders) = fp_orders p" using holdout_profiles(4) [OF p] by simp
  with ok fields gen_customers_ids [OF c] show ?thesis by simp
qed

end
