(* ===== verification/SandboxModels.thy ===== *)
theory SandboxModels
  imports FloatText Scoring IndexSql Benchmark
begin

text \<open>
  The pure part of \<open>planrace/sandbox_v2.py\<close>: requests, trials, results and the resource
  policy with their validators, the digest of the measurement policy, the admission checks
  on the reference query, on a bundle and on the schema, the SQLite authorizer, the
  interleaving of the trials and the command line of the worker container. The SQL parser
  (sqlglot) is a parameter: it gives a syntax tree as the list of its nodes with the
  properties the code reads.
\<close>

section \<open>Constants\<close>

definition PINNED_SQLITE_VERSION :: string where
  "PINNED_SQLITE_VERSION = drop (length ''sqlite-'') PINNED_SQLITE_ENGINE"

definition ALLOWED_FUNCTIONS :: "string list" where
  "ALLOWED_FUNCTIONS = [''abs'', ''avg'', ''cast'', ''coalesce'', ''count'', ''ifnull'', ''instr'', ''length'',
     ''lower'', ''max'', ''min'', ''nullif'', ''round'', ''substr'', ''substring'', ''sum'', ''total'', ''typeof'',
     ''unicode'', ''upper'']"

section \<open>Requests\<close>

text \<open>\<open>ParameterValue = int | str | bool | None\<close>.\<close>

type_synonym parameter_value = "param_value option"

definition json_of_parameter :: "parameter_value \<Rightarrow> json" where
  "json_of_parameter = jopt json_of_value"

record sandbox_request =
  sr_protocol_version :: string
  sr_task :: public_task
  sr_reveal :: task_reveal
  sr_fixture :: hidden_fixture
  sr_bundle :: optimization_bundle
  sr_parameters :: "parameter_value list"
  sr_ordered :: bool
  sr_collation :: string
  sr_trial_count :: int
  sr_benchmark_policy :: benchmark_policy

definition valid_sandbox_fields :: "sandbox_request \<Rightarrow> bool" where
  "valid_sandbox_fields r \<longleftrightarrow> sr_protocol_version r = PROTOCOL_VERSION_V2
     \<and> valid_public_task (sr_task r) \<and> valid_task_reveal (sr_reveal r) \<and> valid_hidden_fixture (sr_fixture r)
     \<and> is_ok (validate_bundle (sr_bundle r)) \<and> length (sr_parameters r) \<le> 32
     \<and> sr_collation r \<in> {''sqlite-binary'', ''sqlite-nocase'', ''sqlite-rtrim''}
     \<and> 6 \<le> sr_trial_count r \<and> sr_trial_count r \<le> 24 \<and> valid_policy (sr_benchmark_policy r)"

definition require_balanced_trials :: "sandbox_request \<Rightarrow> sandbox_request result" where
  "require_balanced_trials r =
     rbind (rcheck (sr_trial_count r mod 2 = 0) (ValueError ''trial_count must be even for balanced interleaving'')) (\<lambda>_.
     rbind (rcheck (\<not> (ob_task_id (sr_bundle r) \<noteq> pt_task_id (sr_task r)
                \<or> tr_task_id (sr_reveal r) \<noteq> pt_task_id (sr_task r)))
              (ValueError ''task, reveal, and bundle IDs must match'')) (\<lambda>_.
     rbind (rcheck (ob_engine_image_digest (sr_bundle r) = pt_engine_image_digest (sr_task r))
              (ValueError ''bundle engine must match the committed task engine'')) (\<lambda>_.
     rbind (rcheck (sr_fixture r \<in> set (tr_hidden_fixtures (sr_reveal r)))
              (ValueError ''fixture must be a member of the committed reveal'')) (\<lambda>_. Inr r))))"

definition sandbox_request_create :: "sandbox_request \<Rightarrow> sandbox_request result" where
  "sandbox_request_create r =
     rbind (rcheck (valid_sandbox_fields r) (ValueError ''validation error'')) (\<lambda>_. require_balanced_trials r)"

section \<open>Trials and results\<close>

record sandbox_trial =
  st_worker_id :: string
  st_order :: string
  st_baseline_cold_ms :: pyfloat
  st_candidate_cold_ms :: pyfloat
  st_baseline_warm_ms :: pyfloat
  st_candidate_warm_ms :: pyfloat
  st_baseline_timed_out :: bool
  st_candidate_timed_out :: bool

definition valid_sandbox_trial :: "sandbox_trial \<Rightarrow> bool" where
  "valid_sandbox_trial t \<longleftrightarrow> 1 \<le> py_len (st_worker_id t) \<and> py_len (st_worker_id t) \<le> 128
     \<and> st_order t \<in> {''baseline-first'', ''candidate-first''}
     \<and> float_lt (Fin 0) (st_baseline_cold_ms t) \<and> float_lt (Fin 0) (st_candidate_cold_ms t)
     \<and> float_lt (Fin 0) (st_baseline_warm_ms t) \<and> float_lt (Fin 0) (st_candidate_warm_ms t)"

record sandbox_result =
  sx_success :: bool
  sx_failure_code :: "string option"
  sx_engine :: string
  sx_artifact_digest :: string
  sx_task_id :: string
  sx_task_commitment :: string
  sx_fixture_id :: string
  sx_fixture_content_digest :: string
  sx_hidden_fixture_merkle_root :: string
  sx_reference_digest :: "string option"
  sx_candidate_digest :: "string option"
  sx_correct :: bool
  sx_compliant :: bool
  sx_row_count :: int
  sx_setup_ms :: pyfloat
  sx_worker_id :: "string option"
  sx_trials :: "sandbox_trial list"
  sx_database_bytes :: int
  sx_artifact_storage_bytes :: int
  sx_candidate_plan :: "string list"
  sx_used_index_names :: "string list"

definition sandbox_result_check :: "sandbox_result \<Rightarrow> sandbox_result result" where
  "sandbox_result_check x =
     rbind (rcheck (0 \<le> sx_row_count x \<and> float_le (Fin 0) (sx_setup_ms x) \<and> list_all valid_sandbox_trial (sx_trials x)
              \<and> 0 \<le> sx_database_bytes x \<and> 0 \<le> sx_artifact_storage_bytes x) (ValueError ''validation error'')) (\<lambda>_. Inr x)"

text \<open>\<open>_failure\<close>: the result of a request that was not measured.\<close>

definition failure_result :: "sandbox_request \<Rightarrow> string \<Rightarrow> int \<Rightarrow> int \<Rightarrow> sandbox_result" where
  "failure_result r code database_bytes artifact_bytes = \<lparr>sx_success = False, sx_failure_code = Some code,
     sx_engine = PINNED_SQLITE_ENGINE, sx_artifact_digest = ob_artifact_digest (sr_bundle r),
     sx_task_id = pt_task_id (sr_task r), sx_task_commitment = pt_commitment (sr_task r),
     sx_fixture_id = hf_fixture_id (sr_fixture r), sx_fixture_content_digest = hf_content_digest (sr_fixture r),
     sx_hidden_fixture_merkle_root = tr_hidden_fixture_merkle_root (sr_reveal r),
     sx_reference_digest = None, sx_candidate_digest = None, sx_correct = False, sx_compliant = False,
     sx_row_count = 0, sx_setup_ms = Fin 0, sx_worker_id = None, sx_trials = [],
     sx_database_bytes = database_bytes, sx_artifact_storage_bytes = artifact_bytes,
     sx_candidate_plan = [], sx_used_index_names = []\<rparr>"

definition sandbox_failure :: "sandbox_request \<Rightarrow> string \<Rightarrow> int \<Rightarrow> int \<Rightarrow> sandbox_result result" where
  "sandbox_failure r code database_bytes artifact_bytes =
     sandbox_result_check (failure_result r code database_bytes artifact_bytes)"

section \<open>The resource policy and its digest\<close>

record sandbox_policy =
  sp_wall_timeout_seconds :: pyfloat
  sp_query_timeout_ms :: int
  sp_memory_bytes :: int
  sp_cpu_seconds :: int
  sp_pids_limit :: int
  sp_max_database_bytes :: int
  sp_max_rows :: int
  sp_max_cells :: int
  sp_max_result_bytes :: int
  sp_max_worker_input_bytes :: int
  sp_max_worker_output_bytes :: int

definition int_between :: "int \<Rightarrow> int \<Rightarrow> int \<Rightarrow> bool" where
  "int_between lo hi n \<longleftrightarrow> lo \<le> n \<and> n \<le> hi"

definition valid_sandbox_policy :: "sandbox_policy \<Rightarrow> bool" where
  "valid_sandbox_policy p \<longleftrightarrow> float_lt (Fin 0) (sp_wall_timeout_seconds p) \<and> float_le (sp_wall_timeout_seconds p) (Fin 60)
     \<and> int_between 10 10000 (sp_query_timeout_ms p) \<and> 64 * 1024 * 1024 \<le> sp_memory_bytes p
     \<and> int_between 1 30 (sp_cpu_seconds p) \<and> int_between 4 64 (sp_pids_limit p)
     \<and> 1024 * 1024 \<le> sp_max_database_bytes p \<and> int_between 1 100000 (sp_max_rows p)
     \<and> int_between 1 1000000 (sp_max_cells p) \<and> int_between 1024 (16 * 1024 * 1024) (sp_max_result_bytes p)
     \<and> int_between (64 * 1024) (1024 * 1024) (sp_max_worker_input_bytes p)
     \<and> int_between 1024 (1024 * 1024) (sp_max_worker_output_bytes p)"

definition DEFAULT_SANDBOX_POLICY :: sandbox_policy where
  "DEFAULT_SANDBOX_POLICY = \<lparr>sp_wall_timeout_seconds = Fin 20, sp_query_timeout_ms = 750,
     sp_memory_bytes = 256 * 1024 * 1024, sp_cpu_seconds = 10, sp_pids_limit = 16,
     sp_max_database_bytes = 64 * 1024 * 1024, sp_max_rows = 10000, sp_max_cells = 100000,
     sp_max_result_bytes = 2 * 1024 * 1024, sp_max_worker_input_bytes = 256 * 1024,
     sp_max_worker_output_bytes = 64 * 1024\<rparr>"

definition jfloat :: "pyfloat \<Rightarrow> json" where
  "jfloat v = JStr (g17 v)"

definition runtime_policy_json :: "sandbox_policy \<Rightarrow> benchmark_policy \<Rightarrow> int \<Rightarrow> bool \<Rightarrow> string \<Rightarrow> json" where
  "runtime_policy_json sp bp trial_count ordered collation = JObj [
     (''policy_version'', JStr ''planrace-benchmark-policy/2.1''),
     (''engine'', JStr PINNED_SQLITE_ENGINE),
     (''interleaving'', JStr ''abba-fresh-connections-cold-warm-v1''),
     (''trial_count'', JInt trial_count), (''ordered'', JBool ordered), (''collation'', JStr collation),
     (''scoring'', JObj [
       (''horizons'', JArr (map JInt (bp_horizons bp))),
       (''horizon_weights'', JArr (map jfloat (bp_horizon_weights bp))),
       (''minimum_trials'', JInt (bp_minimum_trials bp)),
       (''winsor_fraction'', jfloat (bp_winsor_fraction bp)),
       (''confidence_z'', jfloat (bp_confidence_z bp)),
       (''maximum_timeout_rate'', jfloat (bp_maximum_timeout_rate bp)),
       (''storage_penalty_at_database_size'', jfloat (bp_storage_penalty_at_database_size bp))]),
     (''sandbox'', JObj [
       (''wall_timeout_seconds'', jfloat (sp_wall_timeout_seconds sp)),
       (''query_timeout_ms'', JInt (sp_query_timeout_ms sp)), (''memory_bytes'', JInt (sp_memory_bytes sp)),
       (''cpu_seconds'', JInt (sp_cpu_seconds sp)), (''pids_limit'', JInt (sp_pids_limit sp)),
       (''max_database_bytes'', JInt (sp_max_database_bytes sp)), (''max_rows'', JInt (sp_max_rows sp)),
       (''max_cells'', JInt (sp_max_cells sp)), (''max_result_bytes'', JInt (sp_max_result_bytes sp)),
       (''max_worker_input_bytes'', JInt (sp_max_worker_input_bytes sp)),
       (''max_worker_output_bytes'', JInt (sp_max_worker_output_bytes sp))])]"

definition RUNTIME_POLICY_DOMAIN :: string where
  "RUNTIME_POLICY_DOMAIN = ''planrace/2:benchmark-runtime-policy''"

definition benchmark_runtime_policy_digest ::
  "sandbox_policy \<Rightarrow> benchmark_policy \<Rightarrow> int \<Rightarrow> bool \<Rightarrow> string \<Rightarrow> string" where
  "benchmark_runtime_policy_digest sp bp trial_count ordered collation =
     v2_digest RUNTIME_POLICY_DOMAIN (runtime_policy_json sp bp trial_count ordered collation)"

section \<open>The reference query\<close>

text \<open>
  A node of a parsed statement: the expression classes it is an instance of and the
  properties read from it. \<open>stmt_rest\<close> are the nodes below the root, in the order of \<open>walk\<close>.
\<close>

datatype on_clause = NoOn | OnTrue | OnOther

record ast_node =
  nd_classes :: "string list"
  nd_recursive :: bool
  nd_join_kind :: string
  nd_join_on :: on_clause
  nd_sql_name :: string
  nd_name :: string

record sql_statement =
  stmt_root :: ast_node
  stmt_rest :: "ast_node list"
  stmt_kind :: string
  stmt_sql :: string

text \<open>
  \<open>parse(sql, read="sqlite")\<close>: the statements (an absent one for an empty one), a \<open>ParseError\<close>, or
  another exception, such as the \<open>TokenError\<close> of an unfinished literal or comment.
\<close>

datatype parse_outcome =
    Parsed "sql_statement option list"
  | ParseError
  | Raised pyerr

type_synonym sql_parser = "string \<Rightarrow> parse_outcome"

definition isinstance :: "ast_node \<Rightarrow> string \<Rightarrow> bool" where
  "isinstance n c \<longleftrightarrow> c \<in> set (nd_classes n)"

definition stmt_walk :: "sql_statement \<Rightarrow> ast_node list" where
  "stmt_walk s = stmt_root s # stmt_rest s"

definition find_all :: "sql_statement \<Rightarrow> string \<Rightarrow> ast_node list" where
  "find_all s c = filter (\<lambda>n. isinstance n c) (stmt_walk s)"

definition FORBIDDEN_NODES :: "string list" where
  "FORBIDDEN_NODES = [''Alter'', ''Attach'', ''Command'', ''Create'', ''Delete'', ''Detach'', ''Drop'', ''Insert'',
     ''Merge'', ''Pragma'', ''Transaction'', ''Update'', ''Use'']"

definition py_upper :: "string \<Rightarrow> string" where
  "py_upper = map (\<lambda>c. if is_lower c then char_of ((of_char c :: nat) - 32) else c)"

definition unbounded_join :: "ast_node \<Rightarrow> bool" where
  "unbounded_join n \<longleftrightarrow> py_upper (nd_join_kind n) = ''CROSS'' \<or> nd_join_on n = NoOn \<or> nd_join_on n = OnTrue"

definition function_name :: "ast_node \<Rightarrow> string" where
  "function_name n = (let name = py_lower (nd_sql_name n) in
     if name = ''anonymous'' then py_lower (nd_name n) else name)"

definition forbidden_function :: "ast_node \<Rightarrow> bool" where
  "forbidden_function n \<longleftrightarrow> \<not> isinstance n ''Binary'' \<and> function_name n \<notin> set ALLOWED_FUNCTIONS"

definition validate_reference_query :: "sql_parser \<Rightarrow> string \<Rightarrow> string result" where
  "validate_reference_query parse sql =
     rbind (rcheck (\<not> 65536 < length sql) (AdmissionError ''sql_size'')) (\<lambda>_.
     case parse sql of
       ParseError \<Rightarrow> Inl (AdmissionError ''parse_error'')
     | Raised e \<Rightarrow> Inl e
     | Parsed [Some statement] \<Rightarrow>
         rbind (rcheck (isinstance (stmt_root statement) ''Query'') (AdmissionError ''read_only_query_required'')) (\<lambda>_.
         rbind (rcheck (\<not> list_ex (\<lambda>n. list_ex (isinstance n) FORBIDDEN_NODES) (stmt_walk statement))
                  (AdmissionError ''forbidden_statement'')) (\<lambda>_.
         rbind (rcheck (\<not> list_ex nd_recursive (find_all statement ''With'')) (AdmissionError ''recursive_cte'')) (\<lambda>_.
         rbind (rcheck (\<not> list_ex unbounded_join (find_all statement ''Join'')) (AdmissionError ''unbounded_join'')) (\<lambda>_.
         rbind (rcheck (\<not> list_ex forbidden_function (find_all statement ''Func'')) (AdmissionError ''forbidden_function'')) (\<lambda>_.
           Inr (stmt_sql statement))))))
     | Parsed _ \<Rightarrow> Inl (AdmissionError ''multiple_statements''))"

section \<open>Admission of a bundle\<close>

definition index_policy_check :: "artifact_budget \<Rightarrow> artifact_grammar \<Rightarrow> index_spec \<Rightarrow> unit result" where
  "index_policy_check budget grammar spec =
     rbind (rcheck (\<not> ab_max_columns_per_index budget < int (length (ix_key_columns spec) + length (ix_include_columns spec)))
              (AdmissionError ''index_column_policy'')) (\<lambda>_.
     rbind (rcheck (\<not> (ix_unique spec \<and> \<not> ag_allows_unique grammar)) (AdmissionError ''unique_index_policy'')) (\<lambda>_.
     case ix_predicate spec of
       None \<Rightarrow> Inr ()
     | Some predicate \<Rightarrow>
         rbind (rcheck (ag_allows_partial grammar) (AdmissionError ''partial_index_policy'')) (\<lambda>_.
         rbind (rcheck (\<not> ab_max_predicates_per_index budget < int (length (pred_atoms predicate)))
                  (AdmissionError ''predicate_count_policy'')) (\<lambda>_.
           rcheck (\<not> list_ex (\<lambda>a. atom_operator a \<notin> set (ag_allowed_predicate_operators grammar)) (pred_atoms predicate))
             (AdmissionError ''predicate_operator_policy'')))))"

definition validate_task_artifact_policy :: "sandbox_request \<Rightarrow> unit result" where
  "validate_task_artifact_policy r =
     (let budget = pt_artifact_budget (sr_task r); grammar = pt_artifact_grammar (sr_task r);
          indexes = ob_indexes (sr_bundle r)
      in rbind (rcheck (\<not> ab_max_indexes budget < int (length indexes)) (AdmissionError ''index_count_policy'')) (\<lambda>_.
           rfold (\<lambda>_. index_policy_check budget grammar) () indexes))"

text \<open>A schema: the tables with their columns.\<close>

type_synonym schema = "(string \<times> string list) list"

definition spec_columns :: "index_spec \<Rightarrow> string list" where
  "spec_columns spec = map col_column (ix_key_columns spec) @ ix_include_columns spec
     @ (case ix_predicate spec of None \<Rightarrow> [] | Some p \<Rightarrow> map atom_column (pred_atoms p))"

definition index_schema_check :: "schema \<Rightarrow> index_spec \<Rightarrow> unit result" where
  "index_schema_check schema spec =
     (case map_of schema (ix_table spec) of
        None \<Rightarrow> Inl (AdmissionError ''unknown_table'')
      | Some columns \<Rightarrow> rcheck (list_all (\<lambda>c. c \<in> set columns) (spec_columns spec)) (AdmissionError ''unknown_column''))"

definition validate_bundle_schema :: "optimization_bundle \<Rightarrow> schema \<Rightarrow> unit result" where
  "validate_bundle_schema b schema = rfold (\<lambda>_. index_schema_check schema) () (ob_indexes b)"

section \<open>The schema fingerprint\<close>

text \<open>A row of \<open>sqlite_schema\<close>: type, name and table name as text, and its SQL.\<close>

fun schema_object :: "sql_parser \<Rightarrow> string option list \<Rightarrow> json result" where
  "schema_object parse [object_type, name, table_name, sql] =
     rbind (case sql of
              None \<Rightarrow> Inr None
            | Some text \<Rightarrow> (case parse text of
                Parsed [Some s] \<Rightarrow> Inr (Some (stmt_sql s))
              | Raised e \<Rightarrow> Inl e
              | _ \<Rightarrow> Inl (AdmissionError ''schema_parse_error''))) (\<lambda>normalized_sql.
       let str = case_option ''None'' id in
       Inr (JArr [JStr (str object_type), JStr (str name), JStr (str table_name), jopt JStr normalized_sql]))"
| "schema_object parse _ = Inl (ValueError ''wrong number of values to unpack'')"

definition schema_digest :: "sql_parser \<Rightarrow> string option list list \<Rightarrow> string result" where
  "schema_digest parse rows = rbind (rmap (schema_object parse) rows) (\<lambda>normalized.
     Inr (v2_digest ''planrace/2:sqlite-schema'' (JObj [(''objects'', JArr normalized)])))"

text \<open>The statements of a committed schema: plain \<open>CREATE TABLE\<close> only.\<close>

definition create_statement_check :: "sql_statement option \<Rightarrow> sql_statement result" where
  "create_statement_check statement =
     (case statement of
        None \<Rightarrow> Inl (AdmissionError ''schema_create_table_only'')
      | Some s \<Rightarrow>
          rbind (rcheck (\<not> (\<not> isinstance (stmt_root s) ''Create'' \<or> py_upper (stmt_kind s) \<noteq> ''TABLE''))
                   (AdmissionError ''schema_create_table_only'')) (\<lambda>_.
          rbind (rcheck (\<not> list_ex (\<lambda>n. isinstance n ''VirtualProperty'' \<or> isinstance n ''ModuleProperty'') (stmt_walk s))
                   (AdmissionError ''virtual_table_forbidden'')) (\<lambda>_. Inr s)))"

definition create_statements :: "sql_parser \<Rightarrow> string \<Rightarrow> sql_statement list result" where
  "create_statements parse schema_sql =
     (case parse schema_sql of
        ParseError \<Rightarrow> Inl (AdmissionError ''schema_parse_error'')
      | Raised e \<Rightarrow> Inl e
      | Parsed [] \<Rightarrow> Inl (AdmissionError ''empty_schema'')
      | Parsed statements \<Rightarrow> rmap create_statement_check statements)"

section \<open>The authorizer\<close>

definition SQLITE_OK :: int where "SQLITE_OK = 0"
definition SQLITE_DENY :: int where "SQLITE_DENY = 1"
definition SQLITE_CREATE_INDEX :: int where "SQLITE_CREATE_INDEX = 1"
definition SQLITE_INSERT :: int where "SQLITE_INSERT = 18"
definition SQLITE_READ :: int where "SQLITE_READ = 20"
definition SQLITE_SELECT :: int where "SQLITE_SELECT = 21"
definition SQLITE_REINDEX :: int where "SQLITE_REINDEX = 27"
definition SQLITE_FUNCTION :: int where "SQLITE_FUNCTION = 31"

lemmas sqlite_codes = SQLITE_OK_def SQLITE_DENY_def SQLITE_CREATE_INDEX_def SQLITE_INSERT_def SQLITE_READ_def
  SQLITE_SELECT_def SQLITE_REINDEX_def SQLITE_FUNCTION_def

definition allowed_actions :: "bool \<Rightarrow> int list" where
  "allowed_actions allow_create_index = [SQLITE_READ, SQLITE_SELECT, SQLITE_FUNCTION]
     @ (if allow_create_index then [SQLITE_CREATE_INDEX, SQLITE_INSERT, SQLITE_REINDEX] else [])"

text \<open>An optional argument that must name a table of the schema; \<open>x or ""\<close>.\<close>

definition names_table :: "schema \<Rightarrow> string option \<Rightarrow> bool" where
  "names_table schema arg = (case arg of None \<Rightarrow> False | Some t \<Rightarrow> t \<in> set (map fst schema))"

definition or_empty :: "string option \<Rightarrow> string" where
  "or_empty arg = case_option [] id arg"

type_synonym authorizer = "int \<Rightarrow> string option \<Rightarrow> string option \<Rightarrow> int"

definition authorizer :: "schema \<Rightarrow> bool \<Rightarrow> authorizer" where
  "authorizer schema allow_create_index action arg1 arg2 =
     (if action \<notin> set (allowed_actions allow_create_index) then SQLITE_DENY
      else if action = SQLITE_READ \<and> \<not> names_table schema arg1 then SQLITE_DENY
      else if action = SQLITE_CREATE_INDEX \<and> \<not> names_table schema arg2 then SQLITE_DENY
      else if action = SQLITE_INSERT \<and> arg1 \<noteq> Some ''sqlite_master'' then SQLITE_DENY
      else if action = SQLITE_REINDEX \<and> \<not> starts_with ''planrace_'' (or_empty arg1) then SQLITE_DENY
      else if action = SQLITE_FUNCTION \<and> py_lower (or_empty arg2) \<notin> set ALLOWED_FUNCTIONS then SQLITE_DENY
      else SQLITE_OK)"

section \<open>Interleaving\<close>

definition ORDER_PATTERN :: "string list" where
  "ORDER_PATTERN = [''baseline-first'', ''candidate-first'', ''candidate-first'', ''baseline-first'']"

definition balanced_interleave_orders :: "int \<Rightarrow> string list result" where
  "balanced_interleave_orders trial_count =
     rbind (rcheck (\<not> (trial_count < 6 \<or> trial_count mod 2 \<noteq> 0)) (AdmissionError ''unbalanced_trial_count'')) (\<lambda>_.
      let orders = map (\<lambda>i. ORDER_PATTERN ! (i mod length ORDER_PATTERN)) [0..<nat trial_count];
          baseline_count = length (filter (\<lambda>x. x = ''baseline-first'') orders);
          candidate_count = length (filter (\<lambda>x. x = ''candidate-first'') orders)
      in Inr (if baseline_count \<noteq> candidate_count
              then take (length orders - 2) orders @ [''baseline-first'', ''candidate-first''] else orders))"

section \<open>The worker container\<close>

definition hex64 :: "string \<Rightarrow> bool" where
  "hex64 s \<longleftrightarrow> length s = 64 \<and> list_all is_lower_hex s"

definition is_image_char :: "char \<Rightarrow> bool" where
  "is_image_char c \<longleftrightarrow> is_lower c \<or> is_digit c \<or> c \<in> set ''./_:-''"

definition repository_digest_image :: "string \<Rightarrow> bool" where
  "repository_digest_image img \<longleftrightarrow> (let n = length img - 72; name = take n img; rest = drop n img in
     72 < length img \<and> list_all is_image_char name \<and> starts_with ''@sha256:'' rest \<and> hex64 (drop 8 rest))"

definition local_content_digest_image :: "string \<Rightarrow> bool" where
  "local_content_digest_image img \<longleftrightarrow> starts_with ''sha256:'' img \<and> hex64 (drop 7 img)"

definition worker_image_digest :: "string \<Rightarrow> string option" where
  "worker_image_digest img =
     (if repository_digest_image img then Some (rev (takeWhile (\<lambda>c. c \<noteq> CHR ''@'') (rev img)))
      else if local_content_digest_image img then Some img
      else None)"

definition tmpfs_option :: "sandbox_policy \<Rightarrow> string" where
  "tmpfs_option p = (let memory_mib = sp_memory_bytes p div (1024 * 1024); tmpfs_mib = min 128 (max 32 (memory_mib div 2))
     in ''/work:rw,noexec,nosuid,nodev,size='' @ int_str tmpfs_mib @ ''m,mode=1777'')"

definition docker_security_prefix :: "sandbox_policy \<Rightarrow> int option \<Rightarrow> string list" where
  "docker_security_prefix p cpu_seconds =
     (let cpu = (case cpu_seconds of None \<Rightarrow> sp_cpu_seconds p | Some n \<Rightarrow> if n = 0 then sp_cpu_seconds p else n) in
      [''docker'', ''run'', ''--rm'', ''--interactive'', ''--pull'', ''never'', ''--network'', ''none'', ''--read-only'',
       ''--tmpfs'', tmpfs_option p, ''--cap-drop'', ''ALL'', ''--security-opt'', ''no-new-privileges:true'',
       ''--pids-limit'', int_str (sp_pids_limit p), ''--memory'', int_str (sp_memory_bytes p),
       ''--memory-swap'', int_str (sp_memory_bytes p), ''--cpus'', ''1.0'', ''--user'', ''65532:65532'',
       ''--ulimit'', ''nofile=64:64'', ''--ulimit'', ''cpu='' @ int_str cpu @ '':'' @ int_str cpu])"

text \<open>The command of a single evaluation, for a database path that is already resolved.\<close>

definition docker_worker_command :: "string \<Rightarrow> string \<Rightarrow> sandbox_policy \<Rightarrow> string list" where
  "docker_worker_command resolved img p =
     [''docker'', ''run'', ''--rm'', ''--interactive'', ''--pull'', ''never'', ''--network'', ''none'', ''--read-only'',
      ''--tmpfs'', tmpfs_option p, ''--cap-drop'', ''ALL'', ''--security-opt'', ''no-new-privileges:true'',
      ''--pids-limit'', int_str (sp_pids_limit p), ''--memory'', int_str (sp_memory_bytes p),
      ''--memory-swap'', int_str (sp_memory_bytes p), ''--cpus'', ''1.0'', ''--user'', ''65532:65532'',
      ''--ulimit'', ''nofile=64:64'', ''--ulimit'', ''cpu='' @ int_str (sp_cpu_seconds p) @ '':'' @ int_str (sp_cpu_seconds p),
      ''--volume'', resolved @ '':/input/fixture.sqlite3:ro'', ''--workdir'', ''/work'',
      ''--env'', ''PYTHONDONTWRITEBYTECODE=1'', img, ''--database'', ''/input/fixture.sqlite3'']"

definition docker_batch_command :: "string \<Rightarrow> string \<Rightarrow> sandbox_policy \<Rightarrow> nat \<Rightarrow> string list" where
  "docker_batch_command root_directory img p n =
     docker_security_prefix p (Some (min 300 (sp_cpu_seconds p * int n)))
     @ [''--volume'', root_directory @ '':/input:ro'', ''--workdir'', ''/work'', ''--env'', ''PYTHONDONTWRITEBYTECODE=1'',
        img, ''--batch-directory'', ''/input'']"

section \<open>The measurement policy is pinned by its digest\<close>

definition policy_safe :: "sandbox_policy \<Rightarrow> benchmark_policy \<Rightarrow> bool" where
  "policy_safe sp bp \<longleftrightarrow> text_safe (sp_wall_timeout_seconds sp) \<and> list_all text_safe (bp_horizon_weights bp)
     \<and> text_safe (bp_winsor_fraction bp) \<and> text_safe (bp_confidence_z bp) \<and> text_safe (bp_maximum_timeout_rate bp)
     \<and> text_safe (bp_storage_penalty_at_database_size bp)"

lemma canon_jfloat [simp]: "canon (jfloat v) = jfloat v"
  by (simp add: jfloat_def)

lemma jfloat_inject: "text_safe v \<Longrightarrow> text_safe w \<Longrightarrow> jfloat v = jfloat w \<longleftrightarrow> v = w"
  by (auto simp: jfloat_def dest: g17_inject)

lemma map_jfloat_inject:
  "list_all text_safe vs \<Longrightarrow> list_all text_safe ws \<Longrightarrow> map jfloat vs = map jfloat ws \<longleftrightarrow> vs = ws"
  by (auto simp: list_all_iff jfloat_inject intro!: map_inj_on [where f = jfloat] inj_onI)

lemma map_JInt_inject: "map JInt xs = map JInt ys \<longleftrightarrow> xs = ys"
  by (rule inj_map_eq_map) (simp add: inj_def)

lemma runtime_policy_json_inject:
  assumes "policy_safe sp bp" "policy_safe sp' bp'"
  shows "canon (runtime_policy_json sp bp n o1 c) = canon (runtime_policy_json sp' bp' n' o2 c')
    \<longleftrightarrow> sp = sp' \<and> bp = bp' \<and> n = n' \<and> o1 = o2 \<and> c = c'"
  using assms
  by (auto simp: runtime_policy_json_def canon_obj policy_safe_def jfloat_inject map_jfloat_inject map_JInt_inject comp_def
      simp del: canon.simps(2) intro: sandbox_policy.equality benchmark_policy.equality)

lemma runtime_policy_binding:
  assumes "policy_safe sp bp" "policy_safe sp' bp'"
    and "benchmark_runtime_policy_digest sp bp n o1 c = benchmark_runtime_policy_digest sp' bp' n' o2 c'"
  shows "sp = sp' \<and> bp = bp' \<and> n = n' \<and> o1 = o2 \<and> c = c'
    \<or> sha256_collision (v2_preimage RUNTIME_POLICY_DOMAIN (runtime_policy_json sp bp n o1 c))
        (v2_preimage RUNTIME_POLICY_DOMAIN (runtime_policy_json sp' bp' n' o2 c'))"
  using v2.binding_same_domain [of RUNTIME_POLICY_DOMAIN "runtime_policy_json sp bp n o1 c" "runtime_policy_json sp' bp' n' o2 c'"]
    assms(3) runtime_policy_json_inject [OF assms(1,2)]
  by (simp add: benchmark_runtime_policy_digest_def RUNTIME_POLICY_DOMAIN_def)

section \<open>Admission\<close>

lemma rfold_unit_iff: "rfold (\<lambda>_. f) () xs = Inr () \<longleftrightarrow> (\<forall>x \<in> set xs. f x = Inr ())"
  by (induction xs) (auto simp: rbind_eq_Inr)

lemma validate_bundle_schema_iff:
  "validate_bundle_schema b schema = Inr () \<longleftrightarrow>
   (\<forall>spec \<in> set (ob_indexes b). \<exists>columns. map_of schema (ix_table spec) = Some columns \<and> set (spec_columns spec) \<subseteq> set columns)"
proof -
  have "index_schema_check schema spec = Inr ()
      \<longleftrightarrow> (\<exists>columns. map_of schema (ix_table spec) = Some columns \<and> set (spec_columns spec) \<subseteq> set columns)" for spec
    by (auto simp: index_schema_check_def list_all_iff split: option.splits)
  then show ?thesis by (simp add: validate_bundle_schema_def rfold_unit_iff)
qed

lemma validate_task_artifact_policy_iff:
  "validate_task_artifact_policy r = Inr () \<longleftrightarrow>
   int (length (ob_indexes (sr_bundle r))) \<le> ab_max_indexes (pt_artifact_budget (sr_task r))
   \<and> (\<forall>spec \<in> set (ob_indexes (sr_bundle r)).
        index_policy_check (pt_artifact_budget (sr_task r)) (pt_artifact_grammar (sr_task r)) spec = Inr ())"
  by (auto simp: validate_task_artifact_policy_def Let_def rbind_eq_Inr rfold_unit_iff)

lemma validate_reference_query_Inr:
  "validate_reference_query parse sql = Inr query \<longleftrightarrow>
   length sql \<le> 65536 \<and> (\<exists>s. parse sql = Parsed [Some s] \<and> query = stmt_sql s \<and> isinstance (stmt_root s) ''Query''
     \<and> (\<forall>n \<in> set (stmt_walk s). (\<forall>c \<in> set FORBIDDEN_NODES. \<not> isinstance n c)
          \<and> (isinstance n ''With'' \<longrightarrow> \<not> nd_recursive n) \<and> (isinstance n ''Join'' \<longrightarrow> \<not> unbounded_join n)
          \<and> (isinstance n ''Func'' \<longrightarrow> \<not> forbidden_function n)))"
  by (auto simp: validate_reference_query_def rbind_eq_Inr list_ex_iff find_all_def split: parse_outcome.splits option.splits list.splits)

section \<open>The authorizer\<close>

text \<open>In the query phase only reads, selects and allowlisted functions pass.\<close>

lemma authorizer_query_phase:
  "authorizer schema False action arg1 arg2 = SQLITE_OK \<longleftrightarrow>
     action = SQLITE_SELECT \<or> action = SQLITE_READ \<and> names_table schema arg1
     \<or> action = SQLITE_FUNCTION \<and> py_lower (or_empty arg2) \<in> set ALLOWED_FUNCTIONS"
  unfolding authorizer_def allowed_actions_def sqlite_codes by auto

lemma authorizer_setup_phase:
  "authorizer schema True action arg1 arg2 = SQLITE_OK \<longleftrightarrow>
     authorizer schema False action arg1 arg2 = SQLITE_OK
     \<or> action = SQLITE_CREATE_INDEX \<and> names_table schema arg2
     \<or> action = SQLITE_INSERT \<and> arg1 = Some ''sqlite_master''
     \<or> action = SQLITE_REINDEX \<and> starts_with ''planrace_'' (or_empty arg1)"
  unfolding authorizer_def allowed_actions_def sqlite_codes by auto

section \<open>Interleaving is balanced\<close>

definition count_order :: "string \<Rightarrow> string list \<Rightarrow> nat" where
  "count_order o1 orders = length (filter (\<lambda>x. x = o1) orders)"

lemma count_order_append [simp]: "count_order o1 (xs @ ys) = count_order o1 xs + count_order o1 ys"
  by (simp add: count_order_def)

lemma pattern_balanced:
  "count_order ''baseline-first'' (map (\<lambda>i. ORDER_PATTERN ! (i mod 4)) [0..<2 * m]) = m
   \<and> count_order ''candidate-first'' (map (\<lambda>i. ORDER_PATTERN ! (i mod 4)) [0..<2 * m]) = m"
proof (induction m)
  case 0
  then show ?case by (simp add: count_order_def)
next
  case (Suc m)
  have "2 * m mod 4 = 0 \<and> Suc (2 * m) mod 4 = 1 \<or> 2 * m mod 4 = 2 \<and> Suc (2 * m) mod 4 = 3" by presburger
  with Suc show ?case by (auto simp: count_order_def ORDER_PATTERN_def)
qed

lemma balanced_interleave_orders_Inr:
  assumes "balanced_interleave_orders n = Inr orders"
  shows "6 \<le> n \<and> even n \<and> int (length orders) = n \<and> orders = map (\<lambda>i. ORDER_PATTERN ! (i mod 4)) [0..<nat n]
    \<and> 2 * count_order ''baseline-first'' orders = length orders \<and> 2 * count_order ''candidate-first'' orders = length orders
    \<and> set orders \<subseteq> {''baseline-first'', ''candidate-first''}"
proof -
  have n: "6 \<le> n" "even n" using assms by (auto simp: balanced_interleave_orders_def rbind_eq_Inr)
  then obtain m where m: "nat n = 2 * m" "n = int (2 * m)" by (metis dvd_def even_nat_iff int_nat_eq nat_int zero_le_numeral order_trans)
  have four: "length ORDER_PATTERN = 4" by (simp add: ORDER_PATTERN_def)
  have "orders = map (\<lambda>i. ORDER_PATTERN ! (i mod 4)) [0..<nat n]"
    using assms pattern_balanced [of m] n
    by (auto simp: balanced_interleave_orders_def rbind_eq_Inr Let_def four m(1) count_order_def)
  moreover have "ORDER_PATTERN ! (i mod 4) \<in> {''baseline-first'', ''candidate-first''}" for i
  proof -
    have "ORDER_PATTERN ! (i mod 4) \<in> set ORDER_PATTERN" using four by (intro nth_mem) simp
    then show ?thesis by (auto simp: ORDER_PATTERN_def)
  qed
  ultimately show ?thesis using n pattern_balanced [of m] m by auto
qed

lemma balanced_interleave_orders_ok: "6 \<le> n \<Longrightarrow> even n \<Longrightarrow> \<exists>orders. balanced_interleave_orders n = Inr orders"
  by (auto simp: balanced_interleave_orders_def Let_def even_iff_mod_2_eq_zero)

section \<open>Images and commands\<close>

lemma takeWhile_stop: "c \<notin> set xs \<Longrightarrow> takeWhile (\<lambda>d. d \<noteq> c) (xs @ c # ys) = xs"
  by (induction xs) auto

lemma worker_image_digest_Some:
  assumes "worker_image_digest img = Some d"
  shows "valid_sha256_digest d \<and> (\<exists>prefix. img = prefix @ d)"
proof (cases "repository_digest_image img")
  case True
  define n where "n = length img - 72"
  define rest where "rest = drop n img"
  from True have r: "starts_with ''@sha256:'' rest" "hex64 (drop 8 rest)"
    by (simp_all add: repository_digest_image_def Let_def n_def rest_def del: drop_drop)
  then obtain h where h: "rest = ''@sha256:'' @ h" "hex64 h" by (auto simp: starts_with_iff)
  have at: "CHR ''@'' \<notin> set (''sha256:'' @ h)" using h(2) by (auto simp: hex64_def list_all_iff char_class_defs)
  have img: "img = take n img @ CHR ''@'' # ''sha256:'' @ h" using h(1) by (metis append_Cons append_take_drop_id rest_def append_Nil)
  have "takeWhile (\<lambda>c. c \<noteq> CHR ''@'') (rev img) = rev (''sha256:'' @ h)"
    using takeWhile_stop [of "CHR ''@''" "rev (''sha256:'' @ h)" "rev (take n img)"] at by (subst img) simp
  then have "d = ''sha256:'' @ h" using assms True by (simp add: worker_image_digest_def)
  moreover have "\<exists>prefix. img = prefix @ ''sha256:'' @ h"
    using img by (intro exI [of _ "take n img @ ''@''"]) simp
  ultimately show ?thesis using h(2) by (auto simp: valid_sha256_digest_def hex64_def starts_with_iff)
next
  case False
  then have "d = img" "local_content_digest_image img" using assms by (auto simp: worker_image_digest_def split: if_splits)
  then show ?thesis by (auto simp: local_content_digest_image_def valid_sha256_digest_def hex64_def starts_with_iff)
qed

text \<open>The single and the batch command start with the same isolation options.\<close>

lemma docker_worker_command_prefix:
  "docker_worker_command resolved img p = docker_security_prefix p None
     @ [''--volume'', resolved @ '':/input/fixture.sqlite3:ro'', ''--workdir'', ''/work'',
        ''--env'', ''PYTHONDONTWRITEBYTECODE=1'', img, ''--database'', ''/input/fixture.sqlite3'']"
  by (simp add: docker_worker_command_def docker_security_prefix_def Let_def)

end
