(* ===== verification/SandboxExec.thy ===== *)
theory SandboxExec
  imports World SandboxModels
begin

text \<open>
  \<open>execute_request\<close> of \<open>planrace/sandbox_v2.py\<close>, the measurement of one bundle on one
  fixture. Files, SQLite connections, the clock and the process identity are steps on a
  world, the fields of \<open>engine\<close>; everything the code itself decides is defined here: the
  order of the checks, the configuration of a connection, the two phases and their
  authorizers, the interleaved trials with their early exits and what each exception
  becomes. The \<open>finally\<close> blocks are written around the part in which the connection or
  directory they clean up exists.
\<close>

section \<open>The engine\<close>

text \<open>
  \<open>en_rows\<close> are all rows of a statement with each value as \<open>str\<close> gives it, and no value for
  \<open>NULL\<close>; \<open>en_query\<close> is a cursor over a result (see Oracle). A progress handler stops a
  statement at its deadline.
\<close>

record ('w, 'c) engine =
  en_file_size :: "string \<Rightarrow> ('w, int \<times> bool) io"
  en_file_bytes :: "string \<Rightarrow> ('w, bytes) io"
  en_fixture_rows :: "string \<Rightarrow> ('w, row_value list list \<times> row_value list list) io"
  en_generator_source :: "('w, bytes) io"
  en_sqlite_version :: string
  en_is_dir :: "string \<Rightarrow> 'w \<Rightarrow> bool \<times> 'w"
  en_mkdtemp :: "string \<Rightarrow> string option \<Rightarrow> ('w, string) io"
  en_copyfile :: "string \<Rightarrow> string \<Rightarrow> ('w, unit) io"
  en_rmtree :: "string \<Rightarrow> 'w \<Rightarrow> 'w"
  en_connect :: "string \<Rightarrow> bool \<Rightarrow> ('w, 'c) io"
  en_setconfig :: "'c \<Rightarrow> string \<Rightarrow> bool \<Rightarrow> ('w, unit) io"
  en_enable_load_extension :: "'c \<Rightarrow> bool \<Rightarrow> ('w, unit) io"
  en_setlimit :: "'c \<Rightarrow> string \<Rightarrow> int \<Rightarrow> ('w, unit) io"
  en_execute :: "'c \<Rightarrow> string \<Rightarrow> ('w, unit) io"
  en_rows :: "'c \<Rightarrow> string \<Rightarrow> parameter_value list \<Rightarrow> ('w, string option list list) io"
  en_query :: "'c \<Rightarrow> string \<Rightarrow> parameter_value list \<Rightarrow> ('w, result_stream) io"
  en_set_authorizer :: "'c \<Rightarrow> authorizer option \<Rightarrow> 'w \<Rightarrow> 'w"
  en_set_progress_handler :: "'c \<Rightarrow> real \<Rightarrow> int \<Rightarrow> 'w \<Rightarrow> 'w"
  en_commit :: "'c \<Rightarrow> ('w, unit) io"
  en_close :: "'c \<Rightarrow> 'w \<Rightarrow> 'w"
  en_perf_counter_ns :: "'w \<Rightarrow> int \<times> 'w"
  en_monotonic :: "'w \<Rightarrow> real \<times> 'w"
  en_getpid :: "'w \<Rightarrow> int \<times> 'w"
  en_token_hex :: "nat \<Rightarrow> 'w \<Rightarrow> string \<times> 'w"
  en_bundle_json :: "optimization_bundle \<Rightarrow> bytes"
  en_parse :: sql_parser

text \<open>The subclasses of \<open>ValueError\<close>.\<close>

fun is_value_error :: "pyerr \<Rightarrow> bool" where
  "is_value_error (ValueError _) = True"
| "is_value_error (AdmissionError _) = True"
| "is_value_error StatisticsError = True"
| "is_value_error (ResponseVerificationError _) = True"
| "is_value_error (UnsupportedNetworkError _) = True"
| "is_value_error (ResultOracleError _) = True"
| "is_value_error (ResultLimitExceeded _) = True"
| "is_value_error (UnsupportedResultType _) = True"
| "is_value_error (EvaluationConfigurationError _) = True"
| "is_value_error _ = False"

fun is_os_error :: "pyerr \<Rightarrow> bool" where
  "is_os_error (OSError _) = True"
| "is_os_error _ = False"

fun is_database_error :: "pyerr \<Rightarrow> bool" where
  "is_database_error (DatabaseError _) = True"
| "is_database_error _ = False"

fun worker_failure_code :: "pyerr \<Rightarrow> string option" where
  "worker_failure_code (WorkerFailure code) = Some code"
| "worker_failure_code _ = None"

fun admission_code :: "pyerr \<Rightarrow> string option" where
  "admission_code (AdmissionError code) = Some code"
| "admission_code _ = None"

section \<open>Files\<close>

definition safe_database_size :: "('w, 'c) engine \<Rightarrow> sandbox_policy \<Rightarrow> string \<Rightarrow> ('w, int) io" where
  "safe_database_size E policy path =
     io_try (en_file_size E path)
       (\<lambda>e. if is_os_error e then io_raise (WorkerFailure ''database_missing'') else io_raise e)
       (\<lambda>(bytes, is_file). if \<not> is_file \<or> sp_max_database_bytes policy < bytes
          then io_raise (WorkerFailure ''database_limit'') else io_return bytes)"

definition sha256_file :: "('w, 'c) engine \<Rightarrow> string \<Rightarrow> ('w, string) io" where
  "sha256_file E path = io_bind (en_file_bytes E path) (\<lambda>content. io_return (''sha256:'' @ sha256_hex content))"

text \<open>\<open>verify_logical_fixture_content_digest\<close> on a database file.\<close>

definition logical_content_matches :: "('w, 'c) engine \<Rightarrow> string \<Rightarrow> string \<Rightarrow> ('w, bool) io" where
  "logical_content_matches E path expected w =
     (case en_fixture_rows E path w of (db, w') \<Rightarrow> (verify_logical_fixture_content_digest db expected, w'))"

section \<open>Connections\<close>

definition sqlite_limits :: "sandbox_policy \<Rightarrow> (string \<times> int) list" where
  "sqlite_limits policy = [
     (''SQLITE_LIMIT_LENGTH'', min (sp_max_result_bytes policy) 1000000), (''SQLITE_LIMIT_SQL_LENGTH'', 65536),
     (''SQLITE_LIMIT_COLUMN'', 100), (''SQLITE_LIMIT_EXPR_DEPTH'', 20), (''SQLITE_LIMIT_COMPOUND_SELECT'', 3),
     (''SQLITE_LIMIT_VDBE_OP'', 25000), (''SQLITE_LIMIT_FUNCTION_ARG'', 8), (''SQLITE_LIMIT_ATTACHED'', 0),
     (''SQLITE_LIMIT_LIKE_PATTERN_LENGTH'', 128), (''SQLITE_LIMIT_VARIABLE_NUMBER'', 32),
     (''SQLITE_LIMIT_TRIGGER_DEPTH'', 0), (''SQLITE_LIMIT_WORKER_THREADS'', 0)]"

definition apply_sqlite_limits :: "('w, 'c) engine \<Rightarrow> 'c \<Rightarrow> sandbox_policy \<Rightarrow> ('w, unit) io" where
  "apply_sqlite_limits E c policy = io_each (\<lambda>(category, v). en_setlimit E c category v) (sqlite_limits policy)"

definition CONNECTION_CONFIG :: "(string \<times> bool) list" where
  "CONNECTION_CONFIG = [(''SQLITE_DBCONFIG_DEFENSIVE'', True), (''SQLITE_DBCONFIG_TRUSTED_SCHEMA'', False),
     (''SQLITE_DBCONFIG_DQS_DDL'', False), (''SQLITE_DBCONFIG_DQS_DML'', False),
     (''SQLITE_DBCONFIG_ENABLE_LOAD_EXTENSION'', False), (''SQLITE_DBCONFIG_ENABLE_TRIGGER'', False),
     (''SQLITE_DBCONFIG_ENABLE_VIEW'', False), (''SQLITE_DBCONFIG_WRITABLE_SCHEMA'', False)]"

definition CONNECTION_PRAGMAS :: "string list" where
  "CONNECTION_PRAGMAS = [''PRAGMA trusted_schema=OFF'', ''PRAGMA recursive_triggers=OFF'', ''PRAGMA mmap_size=0'',
     ''PRAGMA cell_size_check=ON'', ''PRAGMA temp_store=MEMORY'']"

text \<open>The flag of \<open>en_connect\<close> says whether the path is opened by a read-only, immutable URI.\<close>

definition open_connection :: "('w, 'c) engine \<Rightarrow> string \<Rightarrow> bool \<Rightarrow> sandbox_policy \<Rightarrow> ('w, 'c) io" where
  "open_connection E path read_only policy =
     io_bind (en_connect E path read_only) (\<lambda>c.
     io_bind (io_each (\<lambda>(option, v). en_setconfig E c option v) CONNECTION_CONFIG) (\<lambda>_.
     io_bind (en_enable_load_extension E c False) (\<lambda>_.
     io_bind (io_each (en_execute E c) CONNECTION_PRAGMAS) (\<lambda>_.
     io_bind (apply_sqlite_limits E c policy) (\<lambda>_. io_return c)))))"

definition install_deadline :: "('w, 'c) engine \<Rightarrow> 'c \<Rightarrow> int \<Rightarrow> ('w, unit) io" where
  "install_deadline E c timeout_ms =
     io_bind (io_get (en_monotonic E)) (\<lambda>now.
       io_do (en_set_progress_handler E c (fl (now + fl (of_int timeout_ms / 1000))) 1000))"

definition enable_setup_phase :: "('w, 'c) engine \<Rightarrow> 'c \<Rightarrow> schema \<Rightarrow> sandbox_policy \<Rightarrow> ('w, unit) io" where
  "enable_setup_phase E c schema policy =
     io_bind (en_execute E c ''PRAGMA query_only=OFF'') (\<lambda>_.
     io_bind (io_do (en_set_authorizer E c (Some (authorizer schema True)))) (\<lambda>_.
       install_deadline E c (sp_query_timeout_ms policy)))"

definition enable_query_phase :: "('w, 'c) engine \<Rightarrow> 'c \<Rightarrow> schema \<Rightarrow> sandbox_policy \<Rightarrow> ('w, unit) io" where
  "enable_query_phase E c schema policy =
     io_bind (io_do (en_set_authorizer E c None)) (\<lambda>_.
     io_bind (en_execute E c ''PRAGMA query_only=ON'') (\<lambda>_.
     io_bind (io_do (en_set_authorizer E c (Some (authorizer schema False)))) (\<lambda>_.
       install_deadline E c (sp_query_timeout_ms policy))))"

section \<open>Inspecting the fixture\<close>

definition py_str :: "string option \<Rightarrow> string" where
  "py_str = case_option ''None'' id"

definition sql_quoted :: "string \<Rightarrow> string" where
  "sql_quoted s = [CHR 0x27] @ s @ [CHR 0x27]"

definition LIST_TABLES :: string where
  "LIST_TABLES = ''SELECT name FROM sqlite_schema WHERE type='' @ sql_quoted ''table'' @ '' AND name NOT LIKE ''
     @ sql_quoted ''sqlite_%''"

definition LIST_INDEXES :: string where
  "LIST_INDEXES = ''SELECT 1 FROM sqlite_schema WHERE type='' @ sql_quoted ''index'' @ '' AND sql IS NOT NULL LIMIT 1''"

definition LIST_OBJECTS :: string where
  "LIST_OBJECTS = text_lines [[], ''        SELECT type, name, tbl_name, sql'', ''        FROM sqlite_schema'',
     ''        WHERE name NOT LIKE '' @ sql_quoted ''sqlite_%'' @ '' AND type IN ('' @ sql_quoted ''table'' @ '', ''
       @ sql_quoted ''view'' @ '', '' @ sql_quoted ''trigger'' @ '')'', ''        ORDER BY type, name'', ''        '']"

definition table_info_sql :: "string \<Rightarrow> string" where
  "table_info_sql table = ''PRAGMA table_info('' @ [CHR 0x22]
     @ concat (map (\<lambda>c. if c = CHR 0x22 then [CHR 0x22, CHR 0x22] else [c]) table) @ [CHR 0x22] @ '')''"

definition column_name :: "string option list \<Rightarrow> string result" where
  "column_name row = (if length row \<le> 1 then Inl IndexError else Inr (py_str (row ! 1)))"

definition read_table :: "('w, 'c) engine \<Rightarrow> 'c \<Rightarrow> string option list \<Rightarrow> ('w, string \<times> string list) io" where
  "read_table E c row =
     (case row of
        [table] \<Rightarrow> io_bind (en_rows E c (table_info_sql (py_str table)) []) (\<lambda>columns.
          io_bind (io_lift (rmap column_name columns)) (\<lambda>names. io_return (py_str table, names)))
      | _ \<Rightarrow> io_raise (ValueError ''wrong number of values to unpack''))"

text \<open>A later row for the same table replaces the earlier one.\<close>

definition read_schema :: "('w, 'c) engine \<Rightarrow> 'c \<Rightarrow> ('w, schema) io" where
  "read_schema E c =
     io_bind (en_rows E c LIST_TABLES []) (\<lambda>tables.
     io_bind (io_map (read_table E c) tables) (\<lambda>entries.
      let schema = fold (\<lambda>(t, names). AList.update t names) entries []
      in if schema = [] then io_raise (AdmissionError ''empty_schema'') else io_return schema))"

definition schema_fingerprint :: "('w, 'c) engine \<Rightarrow> 'c \<Rightarrow> ('w, string) io" where
  "schema_fingerprint E c =
     io_bind (en_rows E c LIST_OBJECTS []) (\<lambda>rows. io_lift (schema_digest (en_parse E) rows))"

definition expected_schema_fingerprint :: "('w, 'c) engine \<Rightarrow> string \<Rightarrow> ('w, string) io" where
  "expected_schema_fingerprint E schema_sql =
     io_bind (io_lift (create_statements (en_parse E) schema_sql)) (\<lambda>statements.
     io_bind (en_connect E '':memory:'' False) (\<lambda>c.
       io_finally (io_catch
         (io_bind (io_each (\<lambda>option. en_setconfig E c option False)
              [''SQLITE_DBCONFIG_TRUSTED_SCHEMA'', ''SQLITE_DBCONFIG_DQS_DDL'', ''SQLITE_DBCONFIG_DQS_DML'']) (\<lambda>_.
          io_bind (io_each (\<lambda>s. en_execute E c (stmt_sql s)) statements) (\<lambda>_. schema_fingerprint E c)))
         (\<lambda>e. if is_database_error e then io_raise (AdmissionError ''schema_rejected'') else io_raise e))
       (en_close E c)))"

text \<open>The first part of the measurement: a read-only look at the fixture gives its schema.\<close>

definition inspect_fixture ::
  "('w, 'c) engine \<Rightarrow> sandbox_policy \<Rightarrow> string \<Rightarrow> sandbox_request \<Rightarrow> ('w, schema) io" where
  "inspect_fixture E policy path r =
     io_bind (open_connection E path True policy) (\<lambda>baseline.
       io_finally
         (io_bind (read_schema E baseline) (\<lambda>allowed_schema.
          io_bind (en_rows E baseline LIST_INDEXES []) (\<lambda>indexes.
          if indexes \<noteq> [] then io_raise (AdmissionError ''preexisting_index'')
          else io_bind (schema_fingerprint E baseline) (\<lambda>actual.
               io_bind (expected_schema_fingerprint E (pt_schema_sql (sr_task r))) (\<lambda>expected.
               if actual \<noteq> expected then io_raise (AdmissionError ''fixture_schema_mismatch'')
               else io_bind (io_lift (validate_bundle_schema (sr_bundle r) allowed_schema)) (\<lambda>_.
                      io_return allowed_schema))))))
         (en_close E baseline))"

section \<open>One execution\<close>

definition FLOAT_MIN :: real where "FLOAT_MIN = 1 / 2 ^ 1022"

definition elapsed_ms :: "int \<Rightarrow> int \<Rightarrow> real" where
  "elapsed_ms start stop = fl (of_int (stop - start) / 1000000)"

definition run_once ::
  "('w, 'c) engine \<Rightarrow> 'c \<Rightarrow> string \<Rightarrow> parameter_value list \<Rightarrow> result_policy \<Rightarrow> int \<Rightarrow> ('w, canonical_result \<times> real) io" where
  "run_once E c query parameters rp timeout_ms =
     io_bind (install_deadline E c timeout_ms) (\<lambda>_.
     io_bind (io_get (en_perf_counter_ns E)) (\<lambda>start.
     io_bind (en_query E c query parameters) (\<lambda>cursor.
     io_bind (io_lift (canonicalize_result cursor rp None)) (\<lambda>canonical.
     io_bind (io_get (en_perf_counter_ns E)) (\<lambda>stop.
       io_return (canonical, max (elapsed_ms start stop) FLOAT_MIN))))))"

text \<open>Whether an exception is the interruption of a statement at its deadline.\<close>

fun interrupted :: "pyerr \<Rightarrow> bool" where
  "interrupted (DatabaseError m) = is_infix ''interrupted'' (py_lower m)"
| "interrupted _ = False"

definition run_candidate_once ::
  "('w, 'c) engine \<Rightarrow> 'c \<Rightarrow> string \<Rightarrow> parameter_value list \<Rightarrow> result_policy \<Rightarrow> int
    \<Rightarrow> ('w, canonical_result option \<times> real \<times> bool) io" where
  "run_candidate_once E c query parameters rp timeout_ms =
     io_bind (io_get (en_perf_counter_ns E)) (\<lambda>start.
     io_try (run_once E c query parameters rp timeout_ms)
       (\<lambda>e. if \<not> interrupted e then io_raise e
            else io_bind (io_get (en_perf_counter_ns E)) (\<lambda>stop.
                   io_return (None, max (elapsed_ms start stop) FLOAT_MIN, True)))
       (\<lambda>(canonical, ms). io_return (Some canonical, ms, False)))"

section \<open>One trial\<close>

record trial_outcome =
  to_order :: string
  to_baseline_cold :: canonical_result
  to_baseline_cold_ms :: real
  to_baseline_warm :: canonical_result
  to_baseline_warm_ms :: real
  to_candidate_cold :: "canonical_result option"
  to_candidate_cold_ms :: real
  to_candidate_cold_timeout :: bool
  to_candidate_warm :: "canonical_result option"
  to_candidate_warm_ms :: real
  to_candidate_warm_timeout :: bool

text \<open>After a cold timeout the warm run is skipped and counts as the same timeout.\<close>

definition candidate_warm_run ::
  "('w, canonical_result option \<times> real \<times> bool) io \<Rightarrow> real \<Rightarrow> bool \<Rightarrow> ('w, canonical_result option \<times> real \<times> bool) io" where
  "candidate_warm_run candidate cold_ms cold_timeout =
     (if cold_timeout then io_return (None, cold_ms, True) else candidate)"

definition mk_outcome ::
  "string \<Rightarrow> canonical_result \<times> real \<Rightarrow> canonical_result \<times> real \<Rightarrow> canonical_result option \<times> real \<times> bool
    \<Rightarrow> canonical_result option \<times> real \<times> bool \<Rightarrow> trial_outcome" where
  "mk_outcome order bc bw cc cw = \<lparr>to_order = order, to_baseline_cold = fst bc, to_baseline_cold_ms = snd bc,
     to_baseline_warm = fst bw, to_baseline_warm_ms = snd bw,
     to_candidate_cold = fst cc, to_candidate_cold_ms = fst (snd cc), to_candidate_cold_timeout = snd (snd cc),
     to_candidate_warm = fst cw, to_candidate_warm_ms = fst (snd cw), to_candidate_warm_timeout = snd (snd cw)\<rparr>"

definition interleaved_runs ::
  "string \<Rightarrow> ('w, canonical_result \<times> real) io \<Rightarrow> ('w, canonical_result option \<times> real \<times> bool) io \<Rightarrow> ('w, trial_outcome) io" where
  "interleaved_runs order baseline candidate =
     (if order = ''baseline-first''
      then io_bind baseline (\<lambda>bc. io_bind candidate (\<lambda>cc. io_bind baseline (\<lambda>bw.
           io_bind (candidate_warm_run candidate (fst (snd cc)) (snd (snd cc))) (\<lambda>cw.
             io_return (mk_outcome order bc bw cc cw)))))
      else io_bind candidate (\<lambda>cc. io_bind baseline (\<lambda>bc.
           io_bind (candidate_warm_run candidate (fst (snd cc)) (snd (snd cc))) (\<lambda>cw.
           io_bind baseline (\<lambda>bw. io_return (mk_outcome order bc bw cc cw))))))"

text \<open>Fresh read-only connections for both arms, closed whatever happens.\<close>

record measurement =
  me_baseline_path :: string
  me_candidate_path :: string
  me_schema :: schema
  me_query :: string
  me_parameters :: "parameter_value list"
  me_result_policy :: result_policy
  me_policy :: sandbox_policy

definition run_trial :: "('w, 'c) engine \<Rightarrow> measurement \<Rightarrow> string \<Rightarrow> ('w, trial_outcome) io" where
  "run_trial E m order =
     io_bind (open_connection E (me_baseline_path m) True (me_policy m)) (\<lambda>baseline_trial.
     io_bind (open_connection E (me_candidate_path m) True (me_policy m)) (\<lambda>candidate_trial.
       io_finally
         (io_bind (enable_query_phase E baseline_trial (me_schema m) (me_policy m)) (\<lambda>_.
          io_bind (enable_query_phase E candidate_trial (me_schema m) (me_policy m)) (\<lambda>_.
            interleaved_runs order
              (run_once E baseline_trial (me_query m) (me_parameters m) (me_result_policy m)
                 (sp_query_timeout_ms (me_policy m)))
              (run_candidate_once E candidate_trial (me_query m) (me_parameters m) (me_result_policy m)
                 (sp_query_timeout_ms (me_policy m))))))
         (en_close E candidate_trial \<circ> en_close E baseline_trial)))"

section \<open>Comparing results, trial after trial\<close>

text \<open>What is known about the whole measurement when the trials start.\<close>

record setup_facts =
  sf_setup_ms :: real
  sf_worker_id :: string
  sf_database_bytes :: int
  sf_artifact_storage_bytes :: int
  sf_candidate_plan :: "string list"
  sf_used_index_names :: "string list"

definition measured_result ::
  "sandbox_request \<Rightarrow> setup_facts \<Rightarrow> sandbox_trial list \<Rightarrow> string option \<Rightarrow> string \<Rightarrow> canonical_result option \<Rightarrow> sandbox_result result" where
  "measured_result r f trials failure reference_digest candidate =
     sandbox_result_check \<lparr>sx_success = (failure = None), sx_failure_code = failure,
       sx_engine = PINNED_SQLITE_ENGINE, sx_artifact_digest = ob_artifact_digest (sr_bundle r),
       sx_task_id = pt_task_id (sr_task r), sx_task_commitment = pt_commitment (sr_task r),
       sx_fixture_id = hf_fixture_id (sr_fixture r), sx_fixture_content_digest = hf_content_digest (sr_fixture r),
       sx_hidden_fixture_merkle_root = tr_hidden_fixture_merkle_root (sr_reveal r),
       sx_reference_digest = Some reference_digest, sx_candidate_digest = map_option cr_digest candidate,
       sx_correct = (failure = None), sx_compliant = True,
       sx_row_count = (case candidate of None \<Rightarrow> 0 | Some c \<Rightarrow> int (cr_row_count c)),
       sx_setup_ms = Fin (sf_setup_ms f), sx_worker_id = Some (sf_worker_id f), sx_trials = trials,
       sx_database_bytes = sf_database_bytes f, sx_artifact_storage_bytes = sf_artifact_storage_bytes f,
       sx_candidate_plan = sf_candidate_plan f, sx_used_index_names = sf_used_index_names f\<rparr>"

definition completed_candidates :: "trial_outcome \<Rightarrow> canonical_result list" where
  "completed_candidates o1 = map the (filter (\<lambda>x. x \<noteq> None) [to_candidate_cold o1, to_candidate_warm o1])"

definition trial_of_outcome :: "setup_facts \<Rightarrow> trial_outcome \<Rightarrow> sandbox_trial" where
  "trial_of_outcome f o1 = \<lparr>st_worker_id = sf_worker_id f, st_order = to_order o1,
     st_baseline_cold_ms = Fin (to_baseline_cold_ms o1), st_candidate_cold_ms = Fin (to_candidate_cold_ms o1),
     st_baseline_warm_ms = Fin (to_baseline_warm_ms o1), st_candidate_warm_ms = Fin (to_candidate_warm_ms o1),
     st_baseline_timed_out = False,
     st_candidate_timed_out = (to_candidate_cold_timeout o1 \<or> to_candidate_warm_timeout o1)\<rparr>"

record loop_state =
  ls_reference :: "canonical_result option"
  ls_candidate :: "canonical_result option"
  ls_trials :: "sandbox_trial list"

text \<open>The checks after a trial: an early result, or the state of the next trial.\<close>

definition check_trial ::
  "sandbox_request \<Rightarrow> setup_facts \<Rightarrow> loop_state \<Rightarrow> trial_outcome \<Rightarrow> (sandbox_result + loop_state) result" where
  "check_trial r f s o1 =
     rbind (rcheck (cr_digest (to_baseline_cold o1) = cr_digest (to_baseline_warm o1))
              (AdmissionError ''nondeterministic_result'')) (\<lambda>_.
     case find (\<lambda>c. cr_digest c \<noteq> cr_digest (to_baseline_cold o1)) (completed_candidates o1) of
       Some mismatched \<Rightarrow>
         rbind (measured_result r f (ls_trials s) (Some ''result_mismatch'') (cr_digest (to_baseline_cold o1)) (Some mismatched))
           (\<lambda>x. Inr (Inl x))
     | None \<Rightarrow>
         rbind (rcheck (case ls_reference s of None \<Rightarrow> True
                        | Some reference \<Rightarrow> cr_digest reference = cr_digest (to_baseline_cold o1))
                  (AdmissionError ''nondeterministic_result'')) (\<lambda>_.
         rbind (rcheck (valid_sandbox_trial (trial_of_outcome f o1)) (ValueError ''validation error'')) (\<lambda>_.
           Inr (Inr \<lparr>ls_reference = Some (to_baseline_cold o1),
                ls_candidate = (case completed_candidates o1 of [] \<Rightarrow> ls_candidate s | c # _ \<Rightarrow> Some c),
                ls_trials = ls_trials s @ [trial_of_outcome f o1]\<rparr>))))"

fun trial_loop ::
  "('w, 'c) engine \<Rightarrow> measurement \<Rightarrow> sandbox_request \<Rightarrow> setup_facts \<Rightarrow> string list \<Rightarrow> loop_state
    \<Rightarrow> ('w, sandbox_result + loop_state) io" where
  "trial_loop E m r f [] s = io_return (Inr s)"
| "trial_loop E m r f (order # orders) s =
     io_bind (run_trial E m order) (\<lambda>outcome.
     io_bind (io_lift (check_trial r f s outcome)) (\<lambda>next_state.
     case next_state of
       Inl early \<Rightarrow> io_return (Inl early)
     | Inr s' \<Rightarrow> trial_loop E m r f orders s'))"

definition finish_trials :: "sandbox_request \<Rightarrow> setup_facts \<Rightarrow> loop_state \<Rightarrow> sandbox_result result" where
  "finish_trials r f s =
     (case ls_reference s of
        None \<Rightarrow> Inl (AdmissionError ''missing_result'')
      | Some reference \<Rightarrow>
          (case ls_candidate s of
             None \<Rightarrow> measured_result r f (ls_trials s) (Some ''candidate_timeout'') (cr_digest reference) None
           | Some candidate \<Rightarrow>
               if cr_digest reference \<noteq> cr_digest candidate
               then measured_result r f (ls_trials s) (Some ''result_mismatch'') (cr_digest reference) (Some candidate)
               else measured_result r f (ls_trials s) None (cr_digest reference) (Some candidate)))"

section \<open>Setting the candidate up\<close>

definition install_indexes ::
  "('w, 'c) engine \<Rightarrow> 'c \<Rightarrow> sandbox_policy \<Rightarrow> index_spec list \<Rightarrow> ('w, unit) io" where
  "install_indexes E c policy indexes =
     io_each (\<lambda>spec. io_bind (install_deadline E c (sp_query_timeout_ms policy)) (\<lambda>_.
       io_bind (io_lift (compile_index_sql spec)) (\<lambda>sql. en_execute E c sql))) indexes"

definition plan_detail :: "string option list \<Rightarrow> string result" where
  "plan_detail row = (if length row \<le> 3 then Inl IndexError else Inr (py_take 512 (py_str (row ! 3))))"

definition used_index_names :: "index_spec list \<Rightarrow> string list \<Rightarrow> string list" where
  "used_index_names indexes plan =
     sort (filter (\<lambda>name. list_ex (is_infix name) plan) (remdups (map validator_index_name indexes)))"

text \<open>The setup of the candidate copy: a failure result, or the facts of the measurement
  (the worker identity is drawn after it).\<close>

definition setup_candidate ::
  "('w, 'c) engine \<Rightarrow> sandbox_policy \<Rightarrow> sandbox_request \<Rightarrow> string \<Rightarrow> schema \<Rightarrow> string \<Rightarrow> int \<Rightarrow> int
    \<Rightarrow> ('w, sandbox_result + setup_facts) io" where
  "setup_candidate E policy r candidate_path allowed_schema query database_bytes artifact_bytes =
     io_bind (open_connection E candidate_path False policy) (\<lambda>candidate.
       io_finally
         (io_bind (enable_setup_phase E candidate allowed_schema policy) (\<lambda>_.
          io_bind (io_get (en_perf_counter_ns E)) (\<lambda>setup_start.
          io_bind (install_indexes E candidate policy (ob_indexes (sr_bundle r))) (\<lambda>_.
          io_bind (en_commit E candidate) (\<lambda>_.
          io_bind (io_get (en_perf_counter_ns E)) (\<lambda>setup_stop.
          io_try (safe_database_size E policy candidate_path)
            (\<lambda>e. case worker_failure_code e of
                Some code \<Rightarrow> io_bind (en_file_size E candidate_path) (\<lambda>(size_now, _).
                  io_bind (io_lift (sandbox_failure r code database_bytes (max artifact_bytes (size_now - database_bytes))))
                    (\<lambda>x. io_return (Inl x)))
              | None \<Rightarrow> io_raise e)
            (\<lambda>candidate_database_bytes.
          io_bind (enable_query_phase E candidate allowed_schema policy) (\<lambda>_.
          io_bind (install_deadline E candidate (sp_query_timeout_ms policy)) (\<lambda>_.
          io_bind (en_rows E candidate (''EXPLAIN QUERY PLAN '' @ query) (sr_parameters r)) (\<lambda>plan_rows.
          io_bind (io_lift (rmap plan_detail (take 64 plan_rows))) (\<lambda>candidate_plan.
            io_return (Inr \<lparr>sf_setup_ms = elapsed_ms setup_start setup_stop, sf_worker_id = [],
              sf_database_bytes = database_bytes,
              sf_artifact_storage_bytes = max 0 (candidate_database_bytes - database_bytes),
              sf_candidate_plan = candidate_plan,
              sf_used_index_names = used_index_names (ob_indexes (sr_bundle r)) candidate_plan\<rparr>))))))))))))
         (en_close E candidate))"

definition worker_identity :: "('w, 'c) engine \<Rightarrow> ('w, string) io" where
  "worker_identity E = io_bind (io_get (en_getpid E)) (\<lambda>pid. io_bind (io_get (en_token_hex E 8)) (\<lambda>token.
     io_return (''worker-'' @ int_str pid @ ''-'' @ token)))"

section \<open>\<open>execute_request\<close>\<close>

text \<open>The body of its \<open>try\<close>.\<close>

definition measure_bundle ::
  "('w, 'c) engine \<Rightarrow> sandbox_policy \<Rightarrow> string \<Rightarrow> sandbox_request \<Rightarrow> result_policy \<Rightarrow> int \<Rightarrow> int \<Rightarrow> ('w, sandbox_result) io" where
  "measure_bundle E policy path r rp database_bytes artifact_bytes =
     io_bind (io_lift (validate_reference_query (en_parse E) (pt_reference_sql (sr_task r)))) (\<lambda>query.
     io_bind (inspect_fixture E policy path r) (\<lambda>allowed_schema.
     io_bind (io_get (en_is_dir E ''/work'')) (\<lambda>work_is_dir.
     io_bind (en_mkdtemp E ''planrace-worker-'' (if work_is_dir then Some ''/work'' else None)) (\<lambda>worker_dir.
       io_finally
         (let baseline_path = worker_dir @ ''/baseline.sqlite3''; candidate_path = worker_dir @ ''/fixture.sqlite3'' in
          io_bind (en_copyfile E path baseline_path) (\<lambda>_.
          io_bind (en_copyfile E path candidate_path) (\<lambda>_.
          io_bind (setup_candidate E policy r candidate_path allowed_schema query database_bytes artifact_bytes) (\<lambda>setup.
          case setup of
            Inl failure \<Rightarrow> io_return failure
          | Inr facts \<Rightarrow>
              io_bind (worker_identity E) (\<lambda>worker_id.
              io_bind (io_lift (balanced_interleave_orders (sr_trial_count r))) (\<lambda>orders.
               let f = facts\<lparr>sf_worker_id := worker_id\<rparr>;
                   m = \<lparr>me_baseline_path = baseline_path, me_candidate_path = candidate_path, me_schema = allowed_schema,
                        me_query = query, me_parameters = sr_parameters r, me_result_policy = rp, me_policy = policy\<rparr>
               in io_bind (trial_loop E m r f orders \<lparr>ls_reference = None, ls_candidate = None, ls_trials = []\<rparr>) (\<lambda>outcome.
                    case outcome of
                      Inl early \<Rightarrow> io_return early
                    | Inr s \<Rightarrow> io_lift (finish_trials r f s))))))))
         (en_rmtree E worker_dir)))))"

text \<open>Its exception handlers, in their order.\<close>

definition database_error_code :: "string \<Rightarrow> string" where
  "database_error_code m = (let message = py_lower m in
     if is_infix ''interrupted'' message then ''query_timeout''
     else if is_infix ''utf-8'' message \<or> is_infix ''decode'' message then ''malformed_text''
     else ''sqlite_rejected'')"

fun exception_code :: "pyerr \<Rightarrow> string option" where
  "exception_code (AdmissionError code) = Some code"
| "exception_code (ResultLimitExceeded m) = Some m"
| "exception_code (DatabaseError m) = Some (database_error_code m)"
| "exception_code e = (if is_os_error e \<or> is_value_error e then Some ''worker_rejected'' else None)"

definition handle_failure ::
  "sandbox_request \<Rightarrow> int \<Rightarrow> int \<Rightarrow> pyerr \<Rightarrow> ('w, sandbox_result) io" where
  "handle_failure r database_bytes artifact_bytes e =
     (case exception_code e of
        None \<Rightarrow> io_raise e
      | Some code \<Rightarrow> io_lift (sandbox_failure r code database_bytes artifact_bytes))"

definition request_result_policy :: "sandbox_request \<Rightarrow> sandbox_policy \<Rightarrow> result_policy" where
  "request_result_policy r policy = \<lparr>rp_engine = PINNED_SQLITE_ENGINE, rp_ordered = sr_ordered r,
     rp_collation = sr_collation r, rp_max_rows = sp_max_rows policy, rp_max_cells = sp_max_cells policy,
     rp_max_output_bytes = sp_max_result_bytes policy\<rparr>"

definition execute_request ::
  "('w, 'c) engine \<Rightarrow> sandbox_policy \<Rightarrow> bool \<Rightarrow> string \<Rightarrow> sandbox_request \<Rightarrow> ('w, sandbox_result) io" where
  "execute_request E policy require_pinned_engine path r =
     (let artifact_bytes = int (length (en_bundle_json E (sr_bundle r))) in
      io_try (safe_database_size E policy path)
        (\<lambda>e. case worker_failure_code e of
             Some code \<Rightarrow> io_lift (sandbox_failure r code 0 artifact_bytes) | None \<Rightarrow> io_raise e)
        (\<lambda>database_bytes.
      let fail = (\<lambda>code. io_lift (sandbox_failure r code database_bytes artifact_bytes)) in
      io_bind (io_lift (audit_task_reveal (sr_task r) (sr_reveal r) None)) (\<lambda>audited.
      if \<not> audited then fail ''task_reveal_mismatch'' else
      io_bind (en_generator_source E) (\<lambda>source.
      if pt_generator_source_digest (sr_task r) \<noteq> benchmark_generator_source_digest source
      then fail ''generator_source_mismatch'' else
      if pt_benchmark_policy_digest (sr_task r) \<noteq> benchmark_runtime_policy_digest policy (sr_benchmark_policy r)
           (sr_trial_count r) (sr_ordered r) (sr_collation r)
      then fail ''benchmark_policy_mismatch'' else
      if sr_fixture r \<notin> set (tr_hidden_fixtures (sr_reveal r)) then fail ''fixture_not_committed'' else
      case hf_database_file_digest (sr_fixture r) of
        None \<Rightarrow> fail ''fixture_file_digest_missing''
      | Some file_digest \<Rightarrow>
      io_bind (sha256_file E path) (\<lambda>actual_file_digest.
      if actual_file_digest \<noteq> file_digest then fail ''fixture_file_mismatch'' else
      io_try (logical_content_matches E path (hf_content_digest (sr_fixture r)))
        (\<lambda>e. if is_os_error e \<or> is_database_error e \<or> is_value_error e then fail ''fixture_digest_rejected'' else io_raise e)
        (\<lambda>matches.
      if \<not> matches then fail ''fixture_content_mismatch'' else
      io_bind (io_lift (fixture_parameter_set_digest (pt_benchmark_family_id (sr_task r))
                 (map json_of_parameter (sr_parameters r)))) (\<lambda>expected_parameters.
      if expected_parameters \<noteq> hf_parameter_set_digest (sr_fixture r) then fail ''fixture_parameters_mismatch'' else
      if ab_max_bundle_bytes (pt_artifact_budget (sr_task r)) < artifact_bytes then fail ''artifact_size'' else
      io_try (io_lift (validate_task_artifact_policy r))
        (\<lambda>e. case admission_code e of Some code \<Rightarrow> fail code | None \<Rightarrow> io_raise e)
        (\<lambda>_.
      if require_pinned_engine \<and> en_sqlite_version E \<noteq> PINNED_SQLITE_VERSION then fail ''engine_mismatch'' else
      io_bind (io_lift (result_policy_check (request_result_policy r policy))) (\<lambda>_.
      io_catch (measure_bundle E policy path r (request_result_policy r policy) database_bytes artifact_bytes)
        (handle_failure r database_bytes artifact_bytes))))))))))"

section \<open>Every result names its request\<close>

definition echoes :: "sandbox_request \<Rightarrow> sandbox_result \<Rightarrow> bool" where
  "echoes r x \<longleftrightarrow> sx_engine x = PINNED_SQLITE_ENGINE \<and> sx_artifact_digest x = ob_artifact_digest (sr_bundle r)
     \<and> sx_task_id x = pt_task_id (sr_task r) \<and> sx_task_commitment x = pt_commitment (sr_task r)
     \<and> sx_fixture_id x = hf_fixture_id (sr_fixture r) \<and> sx_fixture_content_digest x = hf_content_digest (sr_fixture r)
     \<and> sx_hidden_fixture_merkle_root x = tr_hidden_fixture_merkle_root (sr_reveal r)"

text \<open>The shape of any result: it echoes, and success, correctness and the failure code agree.\<close>

definition well_formed_result :: "sandbox_request \<Rightarrow> sandbox_result \<Rightarrow> bool" where
  "well_formed_result r x \<longleftrightarrow> echoes r x \<and> (sx_success x \<longleftrightarrow> sx_failure_code x = None) \<and> (sx_correct x \<longleftrightarrow> sx_success x)
     \<and> (sx_success x \<longrightarrow> sx_compliant x) \<and> (sx_trials x \<noteq> [] \<longrightarrow> sx_compliant x)
     \<and> list_all valid_sandbox_trial (sx_trials x) \<and> 0 \<le> sx_row_count x \<and> 0 \<le> sx_database_bytes x
     \<and> 0 \<le> sx_artifact_storage_bytes x"

lemma sandbox_failure_Inr:
  "sandbox_failure r code d a = Inr x \<longleftrightarrow> x = failure_result r code d a \<and> 0 \<le> d \<and> 0 \<le> a"
  by (auto simp: sandbox_failure_def sandbox_result_check_def failure_result_def rbind_eq_Inr)

lemma failure_result_simps [simp]:
  "\<not> sx_success (failure_result r code d a)" "sx_failure_code (failure_result r code d a) = Some code"
  "sx_trials (failure_result r code d a) = []"
  by (simp_all add: failure_result_def)

lemma failure_well_formed: "0 \<le> d \<Longrightarrow> 0 \<le> a \<Longrightarrow> well_formed_result r (failure_result r code d a)"
  by (simp add: well_formed_result_def echoes_def failure_result_def)

lemma sandbox_failure_wf: "io_all (io_lift (sandbox_failure r code d a)) (well_formed_result r)"
  by (auto simp: io_all_def sandbox_failure_Inr failure_well_formed)

lemma measured_result_wf:
  "measured_result r f trials failure d c = Inr x \<Longrightarrow> well_formed_result r x \<and> (sx_success x \<longleftrightarrow> failure = None)"
  by (auto simp: measured_result_def sandbox_result_check_def rbind_eq_Inr well_formed_result_def echoes_def)

lemma check_trial_early: "check_trial r f s o1 = Inr (Inl x) \<Longrightarrow> well_formed_result r x \<and> \<not> sx_success x"
  by (auto simp: check_trial_def rbind_eq_Inr split: option.splits dest: measured_result_wf)

lemma trial_loop_early:
  "trial_loop E m r f orders s w = (Inr (Inl x), w') \<Longrightarrow> well_formed_result r x \<and> \<not> sx_success x"
proof (induction orders arbitrary: s w)
  case (Cons order orders)
  from Cons.prems obtain outcome w1 n where n: "check_trial r f s outcome = Inr n"
    and rest: "(case n of Inl early \<Rightarrow> io_return (Inl early) | Inr s' \<Rightarrow> trial_loop E m r f orders s') w1 = (Inr (Inl x), w')"
    by (auto simp: io_bind_Inr)
  then show ?case by (cases n) (auto dest: Cons.IH check_trial_early)
qed simp

lemma finish_trials_wf: "finish_trials r f s = Inr x \<Longrightarrow> well_formed_result r x"
  by (auto simp: finish_trials_def split: option.splits if_splits dest: measured_result_wf)

lemma setup_candidate_early:
  "setup_candidate E policy r path schema query d a w = (Inr (Inl x), w') \<Longrightarrow> well_formed_result r x \<and> \<not> sx_success x"
  by (auto simp: setup_candidate_def io_simps sandbox_failure_Inr failure_well_formed split: option.splits prod.splits)

text \<open>A returned measurement failed its setup, stopped early, or finished its trials.\<close>

lemma io_all_measure:
  assumes early: "\<And>x. well_formed_result r x \<Longrightarrow> \<not> sx_success x \<Longrightarrow> P x"
    and finished: "\<And>query schema dir facts worker_id orders m f s x u1 u2 u3 u4 u5 u6.
      validate_reference_query (en_parse E) (pt_reference_sql (sr_task r)) = Inr query
      \<Longrightarrow> inspect_fixture E policy path r u1 = (Inr schema, u2)
      \<Longrightarrow> setup_candidate E policy r (dir @ ''/fixture.sqlite3'') schema query d a u3 = (Inr (Inr facts), u4)
      \<Longrightarrow> f = facts\<lparr>sf_worker_id := worker_id\<rparr>
      \<Longrightarrow> balanced_interleave_orders (sr_trial_count r) = Inr orders
      \<Longrightarrow> m = \<lparr>me_baseline_path = dir @ ''/baseline.sqlite3'', me_candidate_path = dir @ ''/fixture.sqlite3'',
            me_schema = schema, me_query = query, me_parameters = sr_parameters r, me_result_policy = rp, me_policy = policy\<rparr>
      \<Longrightarrow> trial_loop E m r f orders \<lparr>ls_reference = None, ls_candidate = None, ls_trials = []\<rparr> u5 = (Inr (Inr s), u6)
      \<Longrightarrow> finish_trials r f s = Inr x \<Longrightarrow> P x"
  shows "io_all (measure_bundle E policy path r rp d a) P"
  unfolding measure_bundle_def Let_def
  apply (rule io_all_bind_self)
  apply (rule io_all_bind_self)
  apply (rule io_all_bind_self)
  apply (rule io_all_bind_self)
  apply (rule io_all_finally)
  apply (rule io_all_bind_self)
  apply (rule io_all_bind_self)
  apply (rule io_all_bind_self)
  subgoal for query w1 w2 schema w3 w4 work w5 w6 dir w7 w8 u w9 w10 v w11 w12 facts w13 w14
    apply (cases facts)
     apply (simp only: sum.case)
     apply (rule io_all_return)
     apply (drule setup_candidate_early)
     apply (erule conjE)
     apply (erule early)
     apply assumption
    apply (simp only: sum.case)
    apply (rule io_all_bind_self)
    apply (rule io_all_bind_self)
    apply (rule io_all_bind_self)
    subgoal for facts' worker_id w15 w16 orders w17 w18 outcome w19 w20
      apply (cases outcome)
       apply (simp only: sum.case)
       apply (rule io_all_return)
       apply (drule trial_loop_early)
       apply (erule conjE)
       apply (erule early)
       apply assumption
      apply (simp only: sum.case)
      apply (rule io_all_lift)
      apply (simp only: io_lift_simp prod.inject)
      apply (elim conjE)
      apply (rule finished)
             apply (assumption | rule refl)+
      done
    done
  done

lemma measure_wf: "io_all (measure_bundle E policy path r rp d a) (well_formed_result r)"
  by (rule io_all_measure) (auto dest: finish_trials_wf)

lemma io_all_failure:
  assumes early: "\<And>x. well_formed_result r x \<Longrightarrow> \<not> sx_success x \<Longrightarrow> P x"
  shows "io_all (io_lift (sandbox_failure r code d a)) P"
  by (rule io_all_lift, rule early) (auto simp: sandbox_failure_Inr failure_well_formed)

lemma io_all_handle_failure:
  assumes early: "\<And>x. well_formed_result r x \<Longrightarrow> \<not> sx_success x \<Longrightarrow> P x"
  shows "io_all (handle_failure r d a e) P"
  by (cases "exception_code e") (auto simp: handle_failure_def intro: io_all_failure early)

text \<open>The admission: what holds when a request is measured at all.\<close>

definition admitted ::
  "('w, 'c) engine \<Rightarrow> sandbox_policy \<Rightarrow> bool \<Rightarrow> string \<Rightarrow> sandbox_request \<Rightarrow> bool" where
  "admitted E policy require_pinned_engine path r \<longleftrightarrow>
     audit_task_reveal (sr_task r) (sr_reveal r) None = Inr True
     \<and> (\<exists>source w w'. en_generator_source E w = (Inr source, w')
          \<and> pt_generator_source_digest (sr_task r) = benchmark_generator_source_digest source)
     \<and> pt_benchmark_policy_digest (sr_task r) = benchmark_runtime_policy_digest policy (sr_benchmark_policy r)
          (sr_trial_count r) (sr_ordered r) (sr_collation r)
     \<and> sr_fixture r \<in> set (tr_hidden_fixtures (sr_reveal r))
     \<and> (\<exists>content w w'. en_file_bytes E path w = (Inr content, w')
          \<and> hf_database_file_digest (sr_fixture r) = Some (''sha256:'' @ sha256_hex content))
     \<and> (\<exists>customers orders w w'. en_fixture_rows E path w = (Inr (customers, orders), w')
          \<and> logical_fixture_content_digest customers orders = Inr (hf_content_digest (sr_fixture r)))
     \<and> fixture_parameter_set_digest (pt_benchmark_family_id (sr_task r)) (map json_of_parameter (sr_parameters r))
          = Inr (hf_parameter_set_digest (sr_fixture r))
     \<and> int (length (en_bundle_json E (sr_bundle r))) \<le> ab_max_bundle_bytes (pt_artifact_budget (sr_task r))
     \<and> validate_task_artifact_policy r = Inr ()
     \<and> (require_pinned_engine \<longrightarrow> en_sqlite_version E = PINNED_SQLITE_VERSION)"

lemma sha256_file_Inr: "sha256_file E path w = (Inr d, w') \<longleftrightarrow>
  (\<exists>content. en_file_bytes E path w = (Inr content, w') \<and> d = ''sha256:'' @ sha256_hex content)"
  by (auto simp: sha256_file_def io_bind_Inr)

lemma logical_content_matches_True: "logical_content_matches E path d w = (Inr True, w') \<Longrightarrow>
  \<exists>customers orders. en_fixture_rows E path w = (Inr (customers, orders), w') \<and> logical_fixture_content_digest customers orders = Inr d"
  by (auto simp: logical_content_matches_def verify_logical_fixture_content_digest_def rbind_eq_Inr split: prod.splits)

lemma io_all_execute:
  assumes early: "\<And>x. well_formed_result r x \<Longrightarrow> \<not> sx_success x \<Longrightarrow> P x"
    and measured: "\<And>d w x w'. admitted E policy pinned path r
      \<Longrightarrow> measure_bundle E policy path r (request_result_policy r policy) d (int (length (en_bundle_json E (sr_bundle r)))) w = (Inr x, w')
      \<Longrightarrow> P x"
  shows "io_all (execute_request E policy pinned path r) P"
  unfolding execute_request_def Let_def
  apply (rule io_all_try)
   prefer 2
  subgoal for e by (cases "worker_failure_code e") (auto intro: io_all_failure early)
  subgoal for d
    apply (rule io_all_bind_self)
    apply (rule io_all_if, rule io_all_failure [OF early], assumption, assumption)
    apply (rule io_all_bind_self)
    apply (rule io_all_if, rule io_all_failure [OF early], assumption, assumption)
    apply (rule io_all_if, rule io_all_failure [OF early], assumption, assumption)
    apply (rule io_all_if, rule io_all_failure [OF early], assumption, assumption)
    subgoal for audited w1 w2 source w3 w4
      apply (cases "hf_database_file_digest (sr_fixture r)")
       apply (simp only: option.case)
       apply (rule io_all_failure [OF early], assumption, assumption)
      apply (simp only: option.case)
      apply (rule io_all_bind_self)
      apply (rule io_all_if, rule io_all_failure [OF early], assumption, assumption)
      apply (rule io_all_try_self)
       prefer 2
      subgoal for file_digest actual w5 w6 e
        by (auto intro: io_all_failure early)
      apply (rule io_all_if, rule io_all_failure [OF early], assumption, assumption)
      apply (rule io_all_bind_self)
      apply (rule io_all_if, rule io_all_failure [OF early], assumption, assumption)
      apply (rule io_all_if, rule io_all_failure [OF early], assumption, assumption)
      apply (rule io_all_try_self)
       prefer 2
      subgoal for file_digest actual w5 w6 matches w7 w8 expected w9 w10 e
        by (cases "admission_code e") (auto intro: io_all_failure early)
      apply (rule io_all_if, rule io_all_failure [OF early], assumption, assumption)
      apply (rule io_all_bind_self)
      apply (rule io_all_catch)
       prefer 2
       apply (rule io_all_handle_failure [OF early], assumption, assumption)
      subgoal for file_digest actual w5 w6 matches w7 w8 expected w9 w10 u w11 w12 v w13 w14
        unfolding io_all_def
        apply (intro allI impI)
        apply (erule measured [rotated])
        unfolding admitted_def
        apply (simp only: io_lift_simp prod.inject not_not simp_thms sha256_file_Inr option.inject not_less)
        apply (elim exE conjE)
        apply (intro conjI)
        subgoal by blast
        subgoal by blast
        subgoal using logical_content_matches_True [of E path _ w7 w8] by (simp only: simp_thms) blast
        subgoal by simp
        subgoal by blast
        done
      done
    done
  done

lemma execute_wf: "io_all (execute_request E policy pinned path r) (well_formed_result r)"
  by (rule io_all_execute) (auto intro: io_allD [OF measure_wf])

section \<open>The early-exit loop refines "run all trials, then compare"\<close>

text \<open>The abstract comparison: all completed runs of a trial gave the digest \<open>d\<close>.\<close>

definition agrees :: "string \<Rightarrow> trial_outcome \<Rightarrow> bool" where
  "agrees d o1 \<longleftrightarrow> cr_digest (to_baseline_cold o1) = d \<and> cr_digest (to_baseline_warm o1) = d
     \<and> (\<forall>c \<in> set (completed_candidates o1). cr_digest c = d)"

definition last_candidate :: "trial_outcome list \<Rightarrow> canonical_result option \<Rightarrow> canonical_result option" where
  "last_candidate = fold (\<lambda>o1 c. case completed_candidates o1 of [] \<Rightarrow> c | x # _ \<Rightarrow> Some x)"

definition after_outcomes :: "setup_facts \<Rightarrow> loop_state \<Rightarrow> trial_outcome list \<Rightarrow> loop_state" where
  "after_outcomes f s outs = \<lparr>ls_reference = (if outs = [] then ls_reference s else Some (to_baseline_cold (List.last outs))),
     ls_candidate = last_candidate outs (ls_candidate s), ls_trials = ls_trials s @ map (trial_of_outcome f) outs\<rparr>"

lemma find_None_all: "find P xs = None \<longleftrightarrow> (\<forall>x \<in> set xs. \<not> P x)"
  by (auto simp: find_None_iff)

lemma find_Some_bad: "find P xs = Some x \<Longrightarrow> x \<in> set xs \<and> P x"
  by (metis find_Some_iff nth_mem)

lemma early_exit_Inr:
  "(case n of Inl x \<Rightarrow> io_return (Inl x) | Inr s1 \<Rightarrow> k s1) w = (Inr (Inr y), w') \<longleftrightarrow> (\<exists>s1. n = Inr s1 \<and> k s1 w = (Inr (Inr y), w'))"
  by (cases n) auto

lemma check_trial_next:
  "check_trial r f s o1 = Inr (Inr s') \<longleftrightarrow>
     agrees (cr_digest (to_baseline_cold o1)) o1
     \<and> (\<forall>reference. ls_reference s = Some reference \<longrightarrow> cr_digest reference = cr_digest (to_baseline_cold o1))
     \<and> valid_sandbox_trial (trial_of_outcome f o1) \<and> s' = after_outcomes f s [o1]"
  by (auto simp: check_trial_def rbind_eq_Inr agrees_def find_None_all after_outcomes_def last_candidate_def
      split: option.splits dest!: find_Some_bad)

lemma after_outcomes_Cons: "after_outcomes f (after_outcomes f s [o1]) outs = after_outcomes f s (o1 # outs)"
  by (auto simp: after_outcomes_def last_candidate_def)

text \<open>All trials gave one digest, also that of an earlier reference.\<close>

definition trials_agree :: "setup_facts \<Rightarrow> loop_state \<Rightarrow> trial_outcome list \<Rightarrow> bool" where
  "trials_agree f s outs \<longleftrightarrow> (\<exists>d. (\<forall>reference. ls_reference s = Some reference \<longrightarrow> cr_digest reference = d)
     \<and> (\<forall>o1 \<in> set outs. agrees d o1 \<and> valid_sandbox_trial (trial_of_outcome f o1)))"

lemma trials_agree_Cons:
  "trials_agree f s (o1 # outs) \<longleftrightarrow> agrees (cr_digest (to_baseline_cold o1)) o1
     \<and> (\<forall>reference. ls_reference s = Some reference \<longrightarrow> cr_digest reference = cr_digest (to_baseline_cold o1))
     \<and> valid_sandbox_trial (trial_of_outcome f o1) \<and> trials_agree f (after_outcomes f s [o1]) outs"
proof -
  have "agrees d o1 \<Longrightarrow> d = cr_digest (to_baseline_cold o1)" for d by (simp add: agrees_def)
  moreover have "ls_reference (after_outcomes f s [o1]) = Some (to_baseline_cold o1)" by (simp add: after_outcomes_def)
  ultimately show ?thesis unfolding trials_agree_def by (auto; blast)
qed

lemma io_map_Cons: "io_map g (x # xs) w = (Inr outs, w') \<longleftrightarrow>
    (\<exists>y w1 ys. g x w = (Inr y, w1) \<and> io_map g xs w1 = (Inr ys, w') \<and> outs = y # ys)"
  by (auto simp: io_bind_Inr)

lemma trial_loop_Cons: "trial_loop E m r f (order # orders) s w = (Inr (Inr s'), w') \<longleftrightarrow>
    (\<exists>o1 w1 s1. run_trial E m order w = (Inr o1, w1) \<and> check_trial r f s o1 = Inr (Inr s1)
       \<and> trial_loop E m r f orders s1 w1 = (Inr (Inr s'), w'))"
  by (auto simp: io_bind_Inr early_exit_Inr)

lemma trial_loop_refines:
  "trial_loop E m r f orders s w = (Inr (Inr s'), w') \<longleftrightarrow>
     (\<exists>outs. io_map (run_trial E m) orders w = (Inr outs, w') \<and> trials_agree f s outs \<and> s' = after_outcomes f s outs)"
proof (induction orders arbitrary: s w)
  case Nil
  have "after_outcomes f s [] = s" by (simp add: after_outcomes_def last_candidate_def)
  moreover have "trials_agree f s []" by (cases "ls_reference s") (simp_all add: trials_agree_def)
  ultimately show ?case by auto
next
  case (Cons order orders)
  have "trial_loop E m r f (order # orders) s w = (Inr (Inr s'), w') \<longleftrightarrow>
    (\<exists>o1 w1 outs. run_trial E m order w = (Inr o1, w1) \<and> io_map (run_trial E m) orders w1 = (Inr outs, w')
       \<and> trials_agree f s (o1 # outs) \<and> s' = after_outcomes f s (o1 # outs))"
    unfolding trial_loop_Cons Cons.IH check_trial_next trials_agree_Cons by (auto simp: after_outcomes_Cons)
  then show ?case unfolding io_map_Cons by blast
qed

section \<open>What a success means\<close>

lemma run_trial_order: "run_trial E m order w = (Inr o1, w') \<Longrightarrow> to_order o1 = order"
  by (auto simp: run_trial_def io_simps interleaved_runs_def mk_outcome_def split: if_splits)

lemma io_map_run_trial_orders: "io_map (run_trial E m) orders w = (Inr outs, w') \<Longrightarrow> map to_order outs = orders"
  by (induction orders arbitrary: w outs) (auto simp: io_bind_Inr run_trial_order)

lemma completed_candidates_Nil: "completed_candidates o1 = [] \<longleftrightarrow> to_candidate_cold o1 = None \<and> to_candidate_warm o1 = None"
  by (auto simp: completed_candidates_def)

lemma last_candidate_Some:
  "last_candidate outs c = Some x \<Longrightarrow> c = Some x \<or> (\<exists>o1 \<in> set outs. x \<in> set (completed_candidates o1))"
proof (induction outs arbitrary: c)
  case (Cons o1 outs)
  then show ?case by (cases "completed_candidates o1") (fastforce simp: last_candidate_def)+
qed (simp add: last_candidate_def)

text \<open>
  A successful result: every balanced trial ran, every completed run of both arms gave the
  digest of the result, and the trials of the result are those runs.
\<close>

definition measured_all ::
  "('w, 'c) engine \<Rightarrow> sandbox_policy \<Rightarrow> sandbox_request \<Rightarrow> sandbox_result \<Rightarrow> bool" where
  "measured_all E policy r x \<longleftrightarrow>
     (\<exists>m f orders outs d w w'. balanced_interleave_orders (sr_trial_count r) = Inr orders
        \<and> me_parameters m = sr_parameters r \<and> me_result_policy m = request_result_policy r policy \<and> me_policy m = policy
        \<and> validate_reference_query (en_parse E) (pt_reference_sql (sr_task r)) = Inr (me_query m)
        \<and> validate_bundle_schema (sr_bundle r) (me_schema m) = Inr ()
        \<and> io_map (run_trial E m) orders w = (Inr outs, w')
        \<and> (\<forall>o1 \<in> set outs. agrees d o1) \<and> (\<exists>o1 \<in> set outs. completed_candidates o1 \<noteq> [])
        \<and> sx_reference_digest x = Some d \<and> sx_candidate_digest x = Some d
        \<and> sx_worker_id x = Some (sf_worker_id f)
        \<and> sx_trials x = map (trial_of_outcome f) outs)"

lemma inspect_fixture_schema:
  "inspect_fixture E policy path r w = (Inr schema, w') \<Longrightarrow> validate_bundle_schema (sr_bundle r) schema = Inr ()"
  by (auto simp: inspect_fixture_def io_simps split: if_splits)

lemma measured_result_fields:
  "measured_result r f trials failure d c = Inr x \<Longrightarrow>
     sx_trials x = trials \<and> sx_worker_id x = Some (sf_worker_id f) \<and> sx_reference_digest x = Some d
     \<and> sx_candidate_digest x = map_option cr_digest c \<and> sx_database_bytes x = sf_database_bytes f
     \<and> sx_artifact_storage_bytes x = sf_artifact_storage_bytes f \<and> sx_used_index_names x = sf_used_index_names f
     \<and> (sx_success x \<longleftrightarrow> failure = None)"
  by (auto simp: measured_result_def sandbox_result_check_def rbind_eq_Inr)

lemma finish_success:
  assumes "finish_trials r f s = Inr x" "sx_success x"
  obtains reference candidate where "ls_reference s = Some reference" "ls_candidate s = Some candidate"
    "cr_digest candidate = cr_digest reference" "sx_trials x = ls_trials s" "sx_worker_id x = Some (sf_worker_id f)"
    "sx_reference_digest x = Some (cr_digest reference)" "sx_candidate_digest x = Some (cr_digest reference)"
  using assms
  by (auto simp: finish_trials_def split: option.splits if_splits dest!: measured_result_fields)

lemma measure_success: "io_all (measure_bundle E policy path r (request_result_policy r policy) d a)
  (\<lambda>x. sx_success x \<longrightarrow> measured_all E policy r x)"
proof (rule io_all_measure, goal_cases)
  case (2 query schema dir facts worker_id orders m f s x u1 u2 u3 u4 u5 u6)
  show ?case
  proof
    assume ok: "sx_success x"
    obtain reference candidate where fin: "ls_reference s = Some reference" "ls_candidate s = Some candidate"
      "cr_digest candidate = cr_digest reference" "sx_trials x = ls_trials s" "sx_worker_id x = Some (sf_worker_id f)"
      "sx_reference_digest x = Some (cr_digest reference)" "sx_candidate_digest x = Some (cr_digest reference)"
      using finish_success [OF 2(8) ok] .
    obtain outs where outs: "io_map (run_trial E m) orders u5 = (Inr outs, u6)"
      "trials_agree f \<lparr>ls_reference = None, ls_candidate = None, ls_trials = []\<rparr> outs"
      "s = after_outcomes f \<lparr>ls_reference = None, ls_candidate = None, ls_trials = []\<rparr> outs"
      using 2(7) unfolding trial_loop_refines by blast
    obtain d' where d: "\<forall>o1 \<in> set outs. agrees d' o1" using outs(2) by (auto simp: trials_agree_def)
    have "outs \<noteq> []" "reference = to_baseline_cold (List.last outs)"
      using fin(1) outs(3) by (auto simp: after_outcomes_def split: if_splits)
    then have "cr_digest reference = d'" using d last_in_set [of outs] by (auto simp: agrees_def)
    moreover have "\<exists>o1 \<in> set outs. completed_candidates o1 \<noteq> []"
      using fin(2) outs(3) last_candidate_Some [of outs None candidate] by (force simp: after_outcomes_def)
    moreover have "sx_trials x = map (trial_of_outcome f) outs" using fin(4) outs(3) by (simp add: after_outcomes_def)
    moreover note 2(1,5) inspect_fixture_schema [OF 2(2)] outs(1) d fin(5-7)
    ultimately show "measured_all E policy r x"
      unfolding measured_all_def 2(6)
      by (intro exI [of _ m] exI [of _ f] exI [of _ orders] exI [of _ outs] exI [of _ d'] exI [of _ u5] exI [of _ u6] conjI)
         (simp_all add: 2(6))
  qed
qed simp

lemma execute_success:
  assumes "execute_request E policy pinned path r w = (Inr x, w')" "sx_success x"
  shows "admitted E policy pinned path r \<and> measured_all E policy r x"
proof -
  have "io_all (execute_request E policy pinned path r)
    (\<lambda>x. sx_success x \<longrightarrow> admitted E policy pinned path r \<and> measured_all E policy r x)"
    by (rule io_all_execute) (auto dest: io_allD [OF measure_success])
  from io_allD [OF this assms(1)] assms(2) show ?thesis by blast
qed

text \<open>Enough trials, in balanced order, by one worker.\<close>

lemma measured_all_trials:
  assumes "measured_all E policy r x"
  shows "int (length (sx_trials x)) = sr_trial_count r
    \<and> 2 * count_order ''baseline-first'' (map st_order (sx_trials x)) = length (sx_trials x)
    \<and> 2 * count_order ''candidate-first'' (map st_order (sx_trials x)) = length (sx_trials x)
    \<and> (\<forall>t \<in> set (sx_trials x). Some (st_worker_id t) = sx_worker_id x \<and> \<not> st_baseline_timed_out t)
    \<and> 6 \<le> sr_trial_count r"
proof -
  obtain f orders outs m w w' where o: "balanced_interleave_orders (sr_trial_count r) = Inr orders"
    "io_map (run_trial E m) orders w = (Inr outs, w')" "sx_worker_id x = Some (sf_worker_id f)"
    "sx_trials x = map (trial_of_outcome f) outs"
    using assms unfolding measured_all_def by blast
  have "map st_order (sx_trials x) = orders"
    using io_map_run_trial_orders [OF o(2)] o(4) by (simp add: trial_of_outcome_def comp_def)
  then show ?thesis
    using balanced_interleave_orders_Inr [OF o(1)] io_map_length [OF o(2)] o(3,4) by (auto simp: trial_of_outcome_def)
qed

end
