(* ===== verification/SandboxProcess.thy ===== *)
theory SandboxProcess
  imports SandboxExec
begin

text \<open>
  The process boundary of \<open>planrace/sandbox_v2.py\<close>: a worker process with bounded input,
  output and time, the Docker workers for one request and for a batch, and the entry point
  inside the container. Processes, paths and the JSON codecs of pydantic are steps and
  functions of \<open>host\<close>.
\<close>

section \<open>The host\<close>

text \<open>
  \<open>ho_communicate\<close> says whether the process ended in time. The codecs give no value where
  pydantic raises a validation error.
\<close>

record ('w, 'c, 'p) host =
  ho_engine :: "('w, 'c) engine"
  ho_linux :: bool
  ho_has_nproc :: bool
  ho_resolve :: "string \<Rightarrow> ('w, string) io"
  ho_is_dir :: "string \<Rightarrow> 'w \<Rightarrow> bool \<times> 'w"
  ho_is_symlink :: "string \<Rightarrow> 'w \<Rightarrow> bool \<times> 'w"
  ho_popen :: "string list \<Rightarrow> (string \<times> int) list option \<Rightarrow> ('w, 'p) io"
  ho_communicate :: "'p \<Rightarrow> bytes \<Rightarrow> real \<Rightarrow> ('w, bool) io"
  ho_killpg :: "'p \<Rightarrow> ('w, unit) io"
  ho_wait :: "'p \<Rightarrow> real \<Rightarrow> ('w, unit) io"
  ho_returncode :: "'p \<Rightarrow> 'w \<Rightarrow> int option \<times> 'w"
  ho_stdout :: "'p \<Rightarrow> 'w \<Rightarrow> bytes \<times> 'w"
  ho_request_json :: "sandbox_request \<Rightarrow> bytes"
  ho_decode_request :: "bytes \<Rightarrow> sandbox_request option"
  ho_result_json :: "sandbox_result \<Rightarrow> bytes"
  ho_decode_result :: "bytes \<Rightarrow> sandbox_result option"
  ho_batch_json :: "(string \<times> sandbox_request) list \<Rightarrow> bytes"
  ho_decode_batch :: "bytes \<Rightarrow> (string \<times> sandbox_request) list option"
  ho_results_json :: "sandbox_result list \<Rightarrow> bytes"
  ho_decode_results :: "bytes \<Rightarrow> sandbox_result list option"

section \<open>\<open>run_bounded_process\<close>\<close>

datatype process_status = StatusOk | StatusTimeout | StatusCrash | StatusInputLimit | StatusOutputLimit | StatusSpawnError

fun status_str :: "process_status \<Rightarrow> string" where
  "status_str StatusOk = ''ok''"
| "status_str StatusTimeout = ''timeout''"
| "status_str StatusCrash = ''crash''"
| "status_str StatusInputLimit = ''input_limit''"
| "status_str StatusOutputLimit = ''output_limit''"
| "status_str StatusSpawnError = ''spawn_error''"

record process_outcome =
  po_status :: process_status
  po_returncode :: "int option"
  po_stdout :: bytes

definition mk_process_outcome :: "process_status \<Rightarrow> int option \<Rightarrow> bytes \<Rightarrow> process_outcome" where
  "mk_process_outcome status returncode stdout = \<lparr>po_status = status, po_returncode = returncode, po_stdout = stdout\<rparr>"

definition resource_limits :: "sandbox_policy \<Rightarrow> bool \<Rightarrow> (string \<times> int) list" where
  "resource_limits policy has_nproc = [
     (''RLIMIT_CORE'', 0), (''RLIMIT_CPU'', sp_cpu_seconds policy), (''RLIMIT_AS'', sp_memory_bytes policy),
     (''RLIMIT_FSIZE'', sp_max_worker_output_bytes policy), (''RLIMIT_NOFILE'', 64)]
     @ (if has_nproc then [(''RLIMIT_NPROC'', sp_pids_limit policy)] else [])"

definition kill_process_group :: "('w, 'c, 'p) host \<Rightarrow> 'p \<Rightarrow> ('w, unit) io" where
  "kill_process_group H p =
     io_catch (ho_killpg H p) (\<lambda>e. if e = OSError ''ProcessLookupError'' then io_return () else io_raise e)"

text \<open>The limits of a call; the wall clock of the policy is finite.\<close>

record process_limits =
  pl_input :: int
  pl_output :: int
  pl_wall :: real

definition default_limits :: "sandbox_policy \<Rightarrow> process_limits" where
  "default_limits policy = \<lparr>pl_input = sp_max_worker_input_bytes policy, pl_output = sp_max_worker_output_bytes policy,
     pl_wall = float_val (sp_wall_timeout_seconds policy)\<rparr>"

definition collect_output :: "('w, 'c, 'p) host \<Rightarrow> process_limits \<Rightarrow> 'p \<Rightarrow> ('w, process_outcome) io" where
  "collect_output H limits p =
     io_bind (io_get (ho_stdout H p)) (\<lambda>content.
     io_bind (io_get (ho_returncode H p)) (\<lambda>returncode.
     if pl_output limits < int (length content) then io_return (mk_process_outcome StatusOutputLimit returncode [])
     else let output = take (nat (pl_output limits + 1)) content in
          if returncode \<noteq> Some 0 then io_return (mk_process_outcome StatusCrash returncode output)
          else io_return (mk_process_outcome StatusOk (Some 0) output)))"

definition run_bounded_process ::
  "('w, 'c, 'p) host \<Rightarrow> string list \<Rightarrow> bytes \<Rightarrow> sandbox_policy \<Rightarrow> bool \<Rightarrow> process_limits \<Rightarrow> ('w, process_outcome) io" where
  "run_bounded_process H argv stdin policy apply_rlimits limits =
     (if pl_input limits \<le> 0 \<or> pl_output limits \<le> 0 \<or> pl_wall limits \<le> 0
      then io_raise (ValueError ''process limits must be positive'')
      else if pl_input limits < int (length stdin) then io_return (mk_process_outcome StatusInputLimit None [])
      else io_try (ho_popen H argv (if apply_rlimits \<and> ho_linux H then Some (resource_limits policy (ho_has_nproc H)) else None))
        (\<lambda>e. if is_os_error e then io_return (mk_process_outcome StatusSpawnError None []) else io_raise e)
        (\<lambda>process.
           io_bind (ho_communicate H process stdin (pl_wall limits)) (\<lambda>ended.
           if \<not> ended
           then io_bind (kill_process_group H process) (\<lambda>_.
                io_bind (ho_wait H process 2) (\<lambda>_.
                io_bind (io_get (ho_returncode H process)) (\<lambda>returncode.
                  io_return (mk_process_outcome StatusTimeout returncode []))))
           else collect_output H limits process)))"

section \<open>The Docker worker for one request\<close>

definition build_docker_worker_command ::
  "('w, 'c, 'p) host \<Rightarrow> string \<Rightarrow> string \<Rightarrow> sandbox_policy \<Rightarrow> bool \<Rightarrow> ('w, string list) io" where
  "build_docker_worker_command H path img policy require_digest =
     io_bind (ho_resolve H path) (\<lambda>resolved.
     io_bind (safe_database_size (ho_engine H) policy resolved) (\<lambda>_.
     if require_digest \<and> worker_image_digest img = None
     then io_raise (ValueError ''production worker image must be pinned by sha256 digest'')
     else io_return (docker_worker_command resolved img policy)))"

definition run_docker_worker ::
  "('w, 'c, 'p) host \<Rightarrow> string \<Rightarrow> sandbox_request \<Rightarrow> string \<Rightarrow> sandbox_policy \<Rightarrow> bool \<Rightarrow> ('w, sandbox_result) io" where
  "run_docker_worker H path r img policy require_digest =
     (let artifact_bytes = int (length (en_bundle_json (ho_engine H) (sr_bundle r))) in
      io_try (io_bind (safe_database_size (ho_engine H) policy path) (\<lambda>database_bytes.
              io_bind (build_docker_worker_command H path img policy require_digest) (\<lambda>command.
                io_return (database_bytes, command))))
        (\<lambda>e. case worker_failure_code e of
             Some code \<Rightarrow> io_lift (sandbox_failure r code 0 artifact_bytes) | None \<Rightarrow> io_raise e)
        (\<lambda>(database_bytes, command).
      let fail = (\<lambda>code. io_lift (sandbox_failure r code database_bytes artifact_bytes)) in
      if require_digest \<and> worker_image_digest img \<noteq> Some (ob_engine_image_digest (sr_bundle r))
      then fail ''engine_image_mismatch''
      else io_bind (run_bounded_process H command (ho_request_json H r) policy False (default_limits policy)) (\<lambda>outcome.
           if po_status outcome \<noteq> StatusOk then fail (''worker_'' @ status_str (po_status outcome))
           else case ho_decode_result H (po_stdout outcome) of
                  Some x \<Rightarrow> io_return x
                | None \<Rightarrow> fail ''worker_malformed_output'')))"

section \<open>The Docker worker for a batch\<close>

definition valid_database_name :: "string \<Rightarrow> bool" where
  "valid_database_name name \<longleftrightarrow> (let digits = take 3 (drop 8 name) in
     name = ''fixture-'' @ digits @ ''.sqlite3'' \<and> length digits = 3 \<and> list_all is_digit digits)"

text \<open>\<open>Path.parent\<close> of a resolved path.\<close>

definition path_parent :: "string \<Rightarrow> string" where
  "path_parent p = (let parent = rev (drop 1 (dropWhile (\<lambda>c. c \<noteq> CHR ''/'') (rev p))) in
     if parent = [] then ''/'' else parent)"

definition check_batch_item ::
  "('w, 'c, 'p) host \<Rightarrow> sandbox_policy \<Rightarrow> string \<Rightarrow> string \<Rightarrow> string \<times> sandbox_request \<Rightarrow> ('w, string \<times> sandbox_request) io" where
  "check_batch_item H policy root_directory image_digest item =
     (let (name, r) = item; candidate = root_directory @ ''/'' @ name in
      io_bind (io_get (ho_is_symlink H candidate)) (\<lambda>is_symlink.
      io_bind (if is_symlink then io_return True
               else io_bind (ho_resolve H candidate) (\<lambda>resolved. io_return (path_parent resolved \<noteq> root_directory))) (\<lambda>rejected.
      if rejected then io_raise (WorkerFailure ''database_path_rejected'') else
      io_bind (safe_database_size (ho_engine H) policy candidate) (\<lambda>_.
      if ob_engine_image_digest (sr_bundle r) \<noteq> image_digest then io_raise (WorkerFailure ''engine_image_mismatch'') else
      if valid_database_name name then io_return (name, r) else io_raise (ValueError ''validation error'')))))"

definition batch_limits :: "sandbox_policy \<Rightarrow> nat \<Rightarrow> process_limits" where
  "batch_limits policy n = \<lparr>pl_input = 4 * 1024 * 1024, pl_output = 4 * 1024 * 1024,
     pl_wall = min 900 (max 60 (fl (float_val (sp_wall_timeout_seconds policy) * real n)))\<rparr>"

definition run_docker_batch_worker ::
  "('w, 'c, 'p) host \<Rightarrow> string \<Rightarrow> (string \<times> sandbox_request) list \<Rightarrow> string \<Rightarrow> sandbox_policy \<Rightarrow> ('w, sandbox_result list) io" where
  "run_docker_batch_worker H directory items img policy =
     (case worker_image_digest img of
        None \<Rightarrow> io_raise (ValueError ''batch worker image must be pinned by sha256 digest'')
      | Some image_digest \<Rightarrow>
          io_bind (ho_resolve H directory) (\<lambda>root_directory.
          io_bind (io_get (ho_is_dir H root_directory)) (\<lambda>is_dir.
          if \<not> is_dir then io_raise (WorkerFailure ''database_directory_missing'') else
          io_bind (io_map (check_batch_item H policy root_directory image_digest) items) (\<lambda>batch.
          if \<not> (1 \<le> length batch \<and> length batch \<le> 64) then io_raise (ValueError ''validation error'') else
          io_bind (run_bounded_process H (docker_batch_command root_directory img policy (length items))
                     (ho_batch_json H batch) policy False (batch_limits policy (length items))) (\<lambda>outcome.
          if po_status outcome \<noteq> StatusOk then io_raise (WorkerFailure (''worker_'' @ status_str (po_status outcome))) else
          case ho_decode_results H (po_stdout outcome) of
            None \<Rightarrow> io_raise (WorkerFailure ''worker_malformed_output'')
          | Some results \<Rightarrow>
              if length results \<noteq> length items then io_raise (WorkerFailure ''worker_result_count'')
              else io_return results)))))"

section \<open>The entry point in the container\<close>

text \<open>What \<open>argparse\<close> accepts: exactly one of the two options.\<close>

datatype worker_arguments = DatabaseArgument string | BatchDirectoryArgument string

definition MAX_BATCH_INPUT :: nat where "MAX_BATCH_INPUT = 4 * 1024 * 1024"

text \<open>One item of a batch; a database outside the directory gives up the whole batch.\<close>

definition execute_item ::
  "('w, 'c, 'p) host \<Rightarrow> string \<Rightarrow> string \<times> sandbox_request \<Rightarrow> ('w, sandbox_result) io" where
  "execute_item H root_directory item =
     (let (name, r) = item; database = root_directory @ ''/'' @ name in
      io_bind (io_get (ho_is_symlink H database)) (\<lambda>is_symlink.
      io_bind (if is_symlink then io_return True
               else io_bind (ho_resolve H database) (\<lambda>resolved. io_return (path_parent resolved \<noteq> root_directory))) (\<lambda>rejected.
      if rejected then io_raise (WorkerFailure ''return 70'')
      else execute_request (ho_engine H) DEFAULT_SANDBOX_POLICY True database r)))"

definition worker_output :: "('w, 'c, 'p) host \<Rightarrow> worker_arguments \<Rightarrow> bytes \<Rightarrow> ('w, bytes) io" where
  "worker_output H arguments stdin =
     (case arguments of
        DatabaseArgument database \<Rightarrow>
          let raw = take (nat (sp_max_worker_input_bytes DEFAULT_SANDBOX_POLICY + 1)) stdin in
          if sp_max_worker_input_bytes DEFAULT_SANDBOX_POLICY < int (length raw) then io_raise (WorkerFailure ''return 70'')
          else (case ho_decode_request H raw of
                  None \<Rightarrow> io_raise (ValueError ''validation error'')
                | Some r \<Rightarrow> io_bind (execute_request (ho_engine H) DEFAULT_SANDBOX_POLICY True database r)
                    (\<lambda>x. io_return (ho_result_json H x)))
      | BatchDirectoryArgument directory \<Rightarrow>
          let raw = take (MAX_BATCH_INPUT + 1) stdin in
          if MAX_BATCH_INPUT < length raw then io_raise (WorkerFailure ''return 70'')
          else (case ho_decode_batch H raw of
                  None \<Rightarrow> io_raise (ValueError ''validation error'')
                | Some items \<Rightarrow>
                    io_bind (ho_resolve H directory) (\<lambda>root_directory.
                    io_bind (io_map (execute_item H root_directory) items) (\<lambda>results.
                      io_return (ho_results_json H results)))))"

text \<open>The exit code and what was written: every exception, and every early return, is code 70.\<close>

definition worker_main :: "('w, 'c, 'p) host \<Rightarrow> worker_arguments \<Rightarrow> bytes \<Rightarrow> 'w \<Rightarrow> (int \<times> bytes) \<times> 'w" where
  "worker_main H arguments stdin w =
     (case worker_output H arguments stdin w of
        (Inl _, w') \<Rightarrow> ((70, []), w')
      | (Inr output, w') \<Rightarrow> ((0, output @ [newline]), w'))"

section \<open>Bounds of a worker process\<close>

lemma run_bounded_process_Inr:
  assumes "run_bounded_process H argv stdin policy apply_rlimits limits w = (Inr outcome, w')"
  shows "0 < pl_output limits \<and> int (length (po_stdout outcome)) \<le> pl_output limits
    \<and> (po_status outcome = StatusOk \<longrightarrow> po_returncode outcome = Some 0)
    \<and> (po_status outcome \<notin> {StatusOk, StatusCrash} \<longrightarrow> po_stdout outcome = [])
    \<and> (po_status outcome = StatusInputLimit \<longleftrightarrow> pl_input limits < int (length stdin))"
proof -
  have ok: "\<not> (pl_input limits \<le> 0 \<or> pl_output limits \<le> 0 \<or> pl_wall limits \<le> 0)"
    using assms by (auto simp: run_bounded_process_def split: if_splits)
  have collect: "po_status out \<in> {StatusOutputLimit, StatusCrash, StatusOk} \<and> int (length (po_stdout out)) \<le> pl_output limits
      \<and> (po_status out = StatusOk \<longrightarrow> po_returncode out = Some 0) \<and> (po_status out = StatusOutputLimit \<longrightarrow> po_stdout out = [])"
    if "collect_output H limits p u = (Inr out, u')" for p u out u'
    using that ok
    by (auto simp: collect_output_def io_simps mk_process_outcome_def Let_def split: if_splits)
  show ?thesis
  proof (cases "pl_input limits < int (length stdin)")
    case True
    then show ?thesis using assms ok by (auto simp: run_bounded_process_def mk_process_outcome_def)
  next
    case False
    have "po_status outcome \<noteq> StatusInputLimit \<and> int (length (po_stdout outcome)) \<le> pl_output limits
      \<and> (po_status outcome = StatusOk \<longrightarrow> po_returncode outcome = Some 0)
      \<and> (po_status outcome \<notin> {StatusOk, StatusCrash} \<longrightarrow> po_stdout outcome = [])"
      using assms ok False
      by (auto simp: run_bounded_process_def io_simps mk_process_outcome_def split: if_splits dest!: collect)
    then show ?thesis using ok False by auto
  qed
qed

section \<open>The isolated single worker\<close>

text \<open>A result of the Docker worker is a failure of its own, or the decoded output of a process
  with the fixed isolation options, running the image the bundle was made for.\<close>

lemma run_docker_worker_Inr:
  assumes "run_docker_worker H path r img policy require_digest w = (Inr x, w')"
  shows "(\<exists>code d a. x = failure_result r code d a)
    \<or> (\<exists>resolved outcome w1 w2.
         run_bounded_process H (docker_worker_command resolved img policy) (ho_request_json H r) policy False
           (default_limits policy) w1 = (Inr outcome, w2)
         \<and> po_status outcome = StatusOk \<and> ho_decode_result H (po_stdout outcome) = Some x
         \<and> (require_digest \<longrightarrow> worker_image_digest img = Some (ob_engine_image_digest (sr_bundle r))))"
proof -
  have build: "\<exists>resolved. command = docker_worker_command resolved img policy"
    if "build_docker_worker_command H path img policy require_digest u = (Inr command, u')" for u command u'
    using that by (auto simp: build_docker_worker_command_def io_simps split: if_splits)
  from assms show ?thesis
    unfolding run_docker_worker_def Let_def io_try_Inr
  proof (elim disjE exE conjE)
    fix e w1
    assume "(case worker_failure_code e of None \<Rightarrow> io_raise e
      | Some code \<Rightarrow> io_lift (sandbox_failure r code 0 (int (length (en_bundle_json (ho_engine H) (sr_bundle r)))))) w1 = (Inr x, w')"
    then show ?thesis by (auto simp: sandbox_failure_Inr split: option.splits)
  next
    fix dc w1
    assume start: "io_bind (safe_database_size (ho_engine H) policy path) (\<lambda>database_bytes.
        io_bind (build_docker_worker_command H path img policy require_digest) (\<lambda>command. io_return (database_bytes, command))) w = (Inr dc, w1)"
      and rest: "(case dc of (database_bytes, command) \<Rightarrow>
        if require_digest \<and> worker_image_digest img \<noteq> Some (ob_engine_image_digest (sr_bundle r))
        then io_lift (sandbox_failure r ''engine_image_mismatch'' database_bytes (int (length (en_bundle_json (ho_engine H) (sr_bundle r)))))
        else io_bind (run_bounded_process H command (ho_request_json H r) policy False (default_limits policy)) (\<lambda>outcome.
          if po_status outcome \<noteq> StatusOk
          then io_lift (sandbox_failure r (''worker_'' @ status_str (po_status outcome)) database_bytes (int (length (en_bundle_json (ho_engine H) (sr_bundle r)))))
          else case ho_decode_result H (po_stdout outcome) of
             None \<Rightarrow> io_lift (sandbox_failure r ''worker_malformed_output'' database_bytes (int (length (en_bundle_json (ho_engine H) (sr_bundle r)))))
           | Some x \<Rightarrow> io_return x)) w1 = (Inr x, w')"
    obtain d command where dc: "dc = (d, command)" by fastforce
    obtain resolved where "command = docker_worker_command resolved img policy"
      using start unfolding dc by (auto simp: io_bind_Inr dest: build)
    with rest consider code where "x = failure_result r code d (int (length (en_bundle_json (ho_engine H) (sr_bundle r))))"
      | outcome where "run_bounded_process H (docker_worker_command resolved img policy) (ho_request_json H r) policy False
           (default_limits policy) w1 = (Inr outcome, w')" "po_status outcome = StatusOk"
          "ho_decode_result H (po_stdout outcome) = Some x"
          "require_digest \<longrightarrow> worker_image_digest img = Some (ob_engine_image_digest (sr_bundle r))"
      unfolding dc by (fastforce simp: io_bind_Inr sandbox_failure_Inr split: if_splits option.splits)
    then show ?thesis by cases blast+
  qed
qed

section \<open>Transport: the container's result is the result of \<open>execute_request\<close>\<close>

lemma worker_main_result:
  assumes "worker_main H (DatabaseArgument database) (ho_request_json H r) w = ((0, out), w')"
    and "ho_decode_request H (ho_request_json H r) = Some r"
    and "int (length (ho_request_json H r)) \<le> sp_max_worker_input_bytes DEFAULT_SANDBOX_POLICY"
  obtains x where "execute_request (ho_engine H) DEFAULT_SANDBOX_POLICY True database r w = (Inr x, w')"
    "out = ho_result_json H x @ [newline]"
proof -
  have "take (nat (sp_max_worker_input_bytes DEFAULT_SANDBOX_POLICY + 1)) (ho_request_json H r) = ho_request_json H r"
    using assms(3) by simp
  then show thesis
    using assms that
    by (auto simp: worker_main_def worker_output_def Let_def io_bind_def split: prod.splits sum.splits if_splits)
qed

text \<open>Every result the container writes is well formed for its request.\<close>

lemma transported_result_wf:
  assumes "worker_main H (DatabaseArgument database) (ho_request_json H r) w = ((0, out), w')"
    and "ho_decode_request H (ho_request_json H r) = Some r"
    and "int (length (ho_request_json H r)) \<le> sp_max_worker_input_bytes DEFAULT_SANDBOX_POLICY"
    and "\<And>y. ho_decode_result H (ho_result_json H y @ [newline]) = Some y"
  shows "\<exists>x. ho_decode_result H out = Some x \<and> well_formed_result r x
    \<and> (sx_success x \<longrightarrow> admitted (ho_engine H) DEFAULT_SANDBOX_POLICY True database r
         \<and> measured_all (ho_engine H) DEFAULT_SANDBOX_POLICY r x)"
proof -
  obtain x where "execute_request (ho_engine H) DEFAULT_SANDBOX_POLICY True database r w = (Inr x, w')"
    "out = ho_result_json H x @ [newline]" using worker_main_result [OF assms(1-3)] .
  note x = this
  have "sx_success x \<longrightarrow> admitted (ho_engine H) DEFAULT_SANDBOX_POLICY True database r
      \<and> measured_all (ho_engine H) DEFAULT_SANDBOX_POLICY r x"
    using execute_success [OF x(1)] by blast
  with x(2) io_allD [OF execute_wf x(1)] assms(4) [of x] show ?thesis by auto
qed

section \<open>The batch worker\<close>

lemma check_batch_item_Inr:
  "check_batch_item H policy root_directory image_digest item w = (Inr item', w') \<Longrightarrow>
   item' = item \<and> ob_engine_image_digest (sr_bundle (snd item)) = image_digest \<and> valid_database_name (fst item)"
  by (auto simp: check_batch_item_def Let_def io_simps split: prod.splits if_splits)

lemma check_batch_items_Inr:
  "io_map (check_batch_item H policy root_directory image_digest) items w = (Inr batch, w') \<Longrightarrow>
   batch = items \<and> (\<forall>item \<in> set items. ob_engine_image_digest (sr_bundle (snd item)) = image_digest
      \<and> valid_database_name (fst item))"
  by (induction items arbitrary: w batch) (auto simp: io_bind_Inr dest!: check_batch_item_Inr)

lemma run_docker_batch_worker_Inr:
  assumes "run_docker_batch_worker H directory items img policy w = (Inr results, w')"
  shows "length results = length items \<and> 1 \<le> length items \<and> length items \<le> 64
    \<and> (\<forall>item \<in> set items. worker_image_digest img = Some (ob_engine_image_digest (sr_bundle (snd item)))
         \<and> valid_database_name (fst item))
    \<and> (\<exists>root_directory outcome w1 w2.
         run_bounded_process H (docker_batch_command root_directory img policy (length items)) (ho_batch_json H items)
           policy False (batch_limits policy (length items)) w1 = (Inr outcome, w2)
         \<and> po_status outcome = StatusOk \<and> ho_decode_results H (po_stdout outcome) = Some results)"
proof -
  obtain d where d: "worker_image_digest img = Some d"
    using assms by (auto simp: run_docker_batch_worker_def split: option.splits)
  obtain root_directory u1 u2 batch u3 outcome where parts:
    "io_map (check_batch_item H policy root_directory d) items u1 = (Inr batch, u2)" "1 \<le> length batch \<and> length batch \<le> 64"
    "run_bounded_process H (docker_batch_command root_directory img policy (length items))
       (ho_batch_json H batch) policy False (batch_limits policy (length items)) u2 = (Inr outcome, u3)"
    "po_status outcome = StatusOk" "ho_decode_results H (po_stdout outcome) = Some results" "length results = length items"
    using assms by (auto simp: run_docker_batch_worker_def d io_bind_Inr split: if_splits option.splits)
  note items = check_batch_items_Inr [OF parts(1)]
  with parts(2-6) d show ?thesis by auto
qed

end
