(* ===== verification/Evaluation.thy ===== *)
theory Evaluation
  imports SandboxProcess Aggregation Weights
begin

text \<open>
  The end-to-end evaluation of \<open>planrace/evaluation_v2.py\<close>: creating a benchmark task,
  re-deriving a revealed task, measuring a bundle on every committed holdout, the gates and
  the robust reward, the evidence and behaviour digests, and the evaluate-once cohort, with
  the bridge \<open>benchmark_evidence_from_sandbox\<close> of \<open>scoring_v2.py\<close>. The worker is a parameter,
  a step on the world; so are the pseudo-random generator and the SQLite image of a fixture.
\<close>

section \<open>Environment\<close>

text \<open>
  \<open>ev_reload\<close> is the JSON round trip of a task in \<open>_validated_task_material\<close>; its cache holds
  values of a pure function and is not modelled. \<open>ev_files\<close> are the files of the world.
\<close>

record ('g, 'w) evaluator =
  ev_prng :: "'g prng"
  ev_image :: sqlite_image
  ev_source :: bytes
  ev_reload :: "private_task \<Rightarrow> private_task result"
  ev_tempdir :: "('w, string) io"
  ev_rmtree :: "string \<Rightarrow> 'w \<Rightarrow> 'w"
  ev_files :: "'w \<Rightarrow> (string \<rightharpoonup> bytes)"
  ev_set_files :: "(string \<rightharpoonup> bytes) \<Rightarrow> 'w \<Rightarrow> 'w"

type_synonym 'w worker_runner = "string \<Rightarrow> sandbox_request \<Rightarrow> ('w, sandbox_result) io"

text \<open>The default runner.\<close>

definition docker_runner :: "('w, 'c, 'p) host \<Rightarrow> string \<Rightarrow> sandbox_policy \<Rightarrow> 'w worker_runner" where
  "docker_runner H img policy database r = run_docker_worker H database r img policy True"

section \<open>Creating a task\<close>

definition find_family :: "string \<Rightarrow> query_family result" where
  "find_family family_id =
     (case find (\<lambda>f. qf_family_id f = family_id) QUERY_FAMILIES of
        Some f \<Rightarrow> Inr f | None \<Rightarrow> Inl (EvaluationConfigurationError ''unknown benchmark family''))"

definition published_statistics_v2 :: published_statistics where
  "published_statistics_v2 = \<lparr>ps_row_count_min = Min (set (map fp_orders HOLDOUT_PROFILES)),
     ps_row_count_max = Max (set (map fp_orders HOLDOUT_PROFILES)),
     ps_selectivity_min_bps = 0, ps_selectivity_max_bps = 10000,
     ps_data_profiles = [UniformProfile, SkewedProfile, CorrelatedProfile, NullHeavyProfile, DuplicateHeavyProfile]\<rparr>"

definition training_of :: "generated_fixture \<Rightarrow> public_training_fixture" where
  "training_of f = \<lparr>tf_fixture_id = hf_fixture_id (gf_descriptor f), tf_generator_seed_hex = bytes_hex PUBLIC_TRAINING_SEED,
     tf_content_digest = hf_content_digest (gf_descriptor f), tf_row_count = hf_row_count (gf_descriptor f)\<rparr>"

definition benchmark_task_spec ::
  "bytes \<Rightarrow> string \<Rightarrow> string \<Rightarrow> query_family \<Rightarrow> int \<Rightarrow> sandbox_policy \<Rightarrow> benchmark_policy \<Rightarrow> int
    \<Rightarrow> public_training_fixture \<Rightarrow> parameter_range list \<Rightarrow> artifact_budget option \<Rightarrow> artifact_grammar option \<Rightarrow> task_spec" where
  "benchmark_task_spec source validator engine family deadline sp bp trial_count training ranges budget grammar =
     \<lparr>ts_validator_hotkey = validator, ts_engine_image_digest = engine,
      ts_generator_source_digest = benchmark_generator_source_digest source,
      ts_benchmark_policy_digest = benchmark_runtime_policy_digest sp bp trial_count (qf_ordered family) ''sqlite-binary'',
      ts_benchmark_family_id = qf_family_id family, ts_schema_sql = SCHEMA_V2, ts_reference_sql = qf_sql family,
      ts_public_training_fixture = training, ts_parameter_ranges = ranges,
      ts_published_statistics = published_statistics_v2, ts_artifact_budget = budget,
      ts_artifact_grammar = grammar, ts_deadline_unix_ms = deadline\<rparr>"

definition create_benchmark_task_v2 ::
  "('g, 'w) evaluator \<Rightarrow> string \<Rightarrow> string \<Rightarrow> string \<Rightarrow> int \<Rightarrow> sandbox_policy \<Rightarrow> benchmark_policy \<Rightarrow> int
    \<Rightarrow> artifact_budget option \<Rightarrow> artifact_grammar option \<Rightarrow> 'e entropy \<Rightarrow> 'e \<Rightarrow> private_task result" where
  "create_benchmark_task_v2 V validator engine family_id deadline sp bp trial_count budget grammar token_bytes e0 =
     rbind (find_family family_id) (\<lambda>family.
     rbind (generate_public_training_fixture (ev_prng V) (ev_image V) (qf_family_id family)) (\<lambda>training.
     rbind (rcheck (valid_training_fixture (training_of training)) (ValueError ''validation error'')) (\<lambda>_.
     rbind (published_parameter_ranges (qf_family_id family)) (\<lambda>ranges.
     rbind (rcheck (valid_published_statistics published_statistics_v2) (ValueError ''validation error'')) (\<lambda>_.
       create_task_v2
         (benchmark_task_spec (ev_source V) validator engine family deadline sp bp trial_count (training_of training)
            ranges budget grammar)
         (describe_hidden_fixtures (ev_prng V) (ev_image V) (qf_family_id family)) token_bytes e0)))))"

section \<open>Re-deriving a revealed task\<close>

definition regenerate_fixtures :: "('g, 'w) evaluator \<Rightarrow> query_family \<Rightarrow> bytes \<Rightarrow> hidden_fixture list result" where
  "regenerate_fixtures V family seed =
     rbind (generate_hidden_fixtures (ev_prng V) (ev_image V) (qf_family_id family) seed) (\<lambda>fs. Inr (map gf_descriptor fs))"

text \<open>The fields that do not depend on the platform's database file.\<close>

definition portable_equal :: "hidden_fixture \<Rightarrow> hidden_fixture \<Rightarrow> bool" where
  "portable_equal claimed actual \<longleftrightarrow> hf_fixture_id claimed = hf_fixture_id actual
     \<and> hf_content_digest claimed = hf_content_digest actual
     \<and> hf_parameter_set_digest claimed = hf_parameter_set_digest actual \<and> hf_row_count claimed = hf_row_count actual"

definition reveal_valid :: "('g, 'w) evaluator \<Rightarrow> private_task \<Rightarrow> query_family \<Rightarrow> bool \<Rightarrow> bool result" where
  "reveal_valid V task family portable =
     (if portable
      then rbind (bytes_fromhex (tr_secret_seed_hex (pv_reveal task))) (\<lambda>seed.
           rbind (regenerate_fixtures V family seed) (\<lambda>regenerated.
            let claimed = tr_hidden_fixtures (pv_reveal task);
                portable_match = (length regenerated = length claimed
                  \<and> list_all (\<lambda>(c, a). portable_equal c a) (zip claimed regenerated))
            in rbind (audit_task_reveal (pv_public task) (pv_reveal task) None) (\<lambda>audited. Inr (audited \<and> portable_match))))
      else audit_task_reveal (pv_public task) (pv_reveal task) (Some (regenerate_fixtures V family)))"

definition validate_and_regenerate_task ::
  "('g, 'w) evaluator \<Rightarrow> private_task \<Rightarrow> bool \<Rightarrow> query_family result" where
  "validate_and_regenerate_task V task portable =
     (let public = pv_public task; config = EvaluationConfigurationError in
     rbind (find_family (pt_benchmark_family_id public)) (\<lambda>family.
     rbind (reveal_valid V task family portable) (\<lambda>ok.
     rbind (rcheck ok (config ''task reveal or regenerated fixtures do not verify'')) (\<lambda>_.
     rbind (rcheck (py_strip (pt_reference_sql public) = py_strip (qf_sql family))
              (config ''reference SQL does not match benchmark family'')) (\<lambda>_.
     rbind (rcheck (py_strip (pt_schema_sql public) = py_strip SCHEMA_V2)
              (config ''schema does not match benchmark v2'')) (\<lambda>_.
     rbind (published_parameter_ranges (qf_family_id family)) (\<lambda>ranges.
     rbind (rcheck (pt_parameter_ranges public = ranges)
              (config ''published parameter ranges do not match generator'')) (\<lambda>_.
     rbind (generate_public_training_fixture (ev_prng V) (ev_image V) (qf_family_id family)) (\<lambda>training.
     rbind (rcheck (pt_public_training_fixture public = training_of training)
              (config ''public training fixture does not match generator'')) (\<lambda>_.
       Inr family))))))))))"

section \<open>The bridge to the scorer\<close>

definition trial_from_sandbox :: "sandbox_trial \<Rightarrow> interleaved_trial" where
  "trial_from_sandbox t = \<lparr>it_worker_id = st_worker_id t, it_order = st_order t,
     it_baseline_cold_ms = st_baseline_cold_ms t, it_candidate_cold_ms = st_candidate_cold_ms t,
     it_baseline_warm_ms = st_baseline_warm_ms t, it_candidate_warm_ms = st_candidate_warm_ms t,
     it_baseline_timed_out = st_baseline_timed_out t, it_candidate_timed_out = st_candidate_timed_out t\<rparr>"

definition evidence_from_sandbox :: "sandbox_result \<Rightarrow> benchmark_evidence" where
  "evidence_from_sandbox x = \<lparr>be_correct = sx_correct x, be_compliant = sx_compliant x, be_setup_ms = sx_setup_ms x,
     be_artifact_storage_bytes = sx_artifact_storage_bytes x, be_database_bytes = max 1 (sx_database_bytes x),
     be_trials = map trial_from_sandbox (sx_trials x)\<rparr>"

definition benchmark_evidence_from_sandbox :: "sandbox_result \<Rightarrow> benchmark_evidence result" where
  "benchmark_evidence_from_sandbox x =
     rbind (rmap (\<lambda>t. interleaved_trial_check (trial_from_sandbox t)) (sx_trials x)) (\<lambda>_.
     rbind (benchmark_evidence_check (evidence_from_sandbox x)) (\<lambda>_. Inr (evidence_from_sandbox x)))"

section \<open>Evaluating one bundle\<close>

record fixture_evaluation =
  fe_fixture_id :: string
  fe_result :: sandbox_result
  fe_score :: benchmark_score

record holdout_evaluation =
  he_task_id :: string
  he_task_commitment :: string
  he_artifact_digest :: string
  he_strategy_digest :: string
  he_behavior_digest :: string
  he_family_id :: string
  he_exact_passed :: bool
  he_compliant :: bool
  he_eligible :: bool
  he_reward :: real
  he_failure_code :: "string option"
  he_fixture_evaluations :: "fixture_evaluation list"

definition verify_worker_echo :: "sandbox_request \<Rightarrow> sandbox_result \<Rightarrow> unit result" where
  "verify_worker_echo r x =
     rcheck ([sx_task_id x, sx_task_commitment x, sx_fixture_id x, sx_fixture_content_digest x,
              sx_hidden_fixture_merkle_root x, sx_artifact_digest x]
           = [pt_task_id (sr_task r), pt_commitment (sr_task r), hf_fixture_id (sr_fixture r),
              hf_content_digest (sr_fixture r), tr_hidden_fixture_merkle_root (sr_reveal r), ob_artifact_digest (sr_bundle r)])
       (EvaluationConfigurationError ''worker result is not bound to its request'')"

definition fixture_request ::
  "private_task \<Rightarrow> optimization_bundle \<Rightarrow> query_family \<Rightarrow> int \<Rightarrow> benchmark_policy \<Rightarrow> generated_fixture \<Rightarrow> hidden_fixture
    \<Rightarrow> sandbox_request result" where
  "fixture_request task bundle family trial_count bp fixture descriptor =
     sandbox_request_create \<lparr>sr_protocol_version = PROTOCOL_VERSION_V2, sr_task = pv_public task, sr_reveal = pv_reveal task,
       sr_fixture = descriptor, sr_bundle = bundle, sr_parameters = map Some (gf_parameters fixture),
       sr_ordered = qf_ordered family, sr_collation = ''sqlite-binary'', sr_trial_count = trial_count,
       sr_benchmark_policy = bp\<rparr>"

text \<open>The result of a worker, bound to its request and scored.\<close>

definition score_result ::
  "sandbox_request \<Rightarrow> benchmark_policy \<Rightarrow> string \<Rightarrow> sandbox_result \<Rightarrow> fixture_evaluation result" where
  "score_result r bp fixture_id x =
     rbind (verify_worker_echo r x) (\<lambda>_.
     rbind (benchmark_evidence_from_sandbox x) (\<lambda>evidence.
     rbind (score_benchmark evidence bp) (\<lambda>score.
       Inr \<lparr>fe_fixture_id = fixture_id, fe_result = x, fe_score = score\<rparr>)))"

definition materialize :: "('g, 'w) evaluator \<Rightarrow> generated_fixture \<Rightarrow> string \<Rightarrow> ('w, string) io" where
  "materialize V fixture path w =
     (case materialize_fixture (ev_image V) fixture path (ev_files V w) of (files, r) \<Rightarrow> (r, ev_set_files V files w))"

definition evaluate_fixture ::
  "('g, 'w) evaluator \<Rightarrow> 'w worker_runner \<Rightarrow> private_task \<Rightarrow> optimization_bundle \<Rightarrow> query_family \<Rightarrow> int
    \<Rightarrow> benchmark_policy \<Rightarrow> string \<Rightarrow> generated_fixture \<Rightarrow> ('w, fixture_evaluation) io" where
  "evaluate_fixture V runner task bundle family trial_count bp directory fixture =
     (let fixture_id = hf_fixture_id (gf_descriptor fixture); database = directory @ ''/'' @ fixture_id @ ''.sqlite3'' in
      io_bind (materialize V fixture database) (\<lambda>_.
      io_bind (io_lift (fixture_request task bundle family trial_count bp fixture (gf_descriptor fixture))) (\<lambda>r.
      io_bind (runner database r) (\<lambda>x.
        io_lift (score_result r bp fixture_id x)))))"

section \<open>Rewards and digests\<close>

definition robust_holdout_reward :: "real list \<Rightarrow> real result" where
  "robust_holdout_reward rewards =
     rbind (rcheck (\<not> (rewards = [] \<or> list_ex (\<lambda>v. v < 0) rewards))
              (EvaluationConfigurationError ''invalid holdout rewards'')) (\<lambda>_.
      let ordered = sort rewards; lower_width = nat (max 1 \<lceil>fl (real (length ordered) / 4)\<rceil>) in
     rbind (fmean (take lower_width ordered)) (\<lambda>lower_quartile.
     rbind (rmap math_log1p ordered) (\<lambda>logs.
     rbind (fmean logs) (\<lambda>m.
      let geometric = fl (math_exp m - 1)
      in Inr (fl (fl (fl (60 / 100) * lower_quartile) + fl (fl (40 / 100) * geometric)))))))"

text \<open>\<open>_VALIDATOR_INDEX_NAME.sub\<close>: an index name between word boundaries is replaced. Bytes of
  non-ASCII characters count as word characters.\<close>

definition is_word_char :: "char \<Rightarrow> bool" where
  "is_word_char c \<longleftrightarrow> is_ident_char c \<or> 128 \<le> (of_char c :: nat)"

definition index_name_here :: "string \<Rightarrow> bool" where
  "index_name_here s \<longleftrightarrow> starts_with ''planrace_'' s \<and> length (take 20 (drop 9 s)) = 20
     \<and> list_all is_lower_hex (take 20 (drop 9 s)) \<and> (case drop 29 s of [] \<Rightarrow> True | c # _ \<Rightarrow> \<not> is_word_char c)"

function sub_index_names :: "bool \<Rightarrow> string \<Rightarrow> string" where
  "sub_index_names after_word [] = []"
| "sub_index_names after_word (c # s) =
     (if \<not> after_word \<and> index_name_here (c # s) then ''planrace_<candidate>'' @ sub_index_names True (drop 28 s)
      else c # sub_index_names (is_word_char c) s)"
  by pat_completeness auto
termination
  by (relation "measure (\<lambda>(_, s). length s)") auto

definition plan_json :: "fixture_evaluation \<Rightarrow> json" where
  "plan_json item = JObj [(''fixture_id'', JStr (fe_fixture_id item)),
     (''candidate_plan'', jstrs (map (sub_index_names False) (sx_candidate_plan (fe_result item)))),
     (''used_index_count'', JInt (int (length (sx_used_index_names (fe_result item)))))]"

definition PLAN_DOMAIN :: string where "PLAN_DOMAIN = ''planrace/2:holdout-plan-behavior''"

definition holdout_behavior_digest :: "fixture_evaluation list \<Rightarrow> string" where
  "holdout_behavior_digest evaluations = v2_digest PLAN_DOMAIN (JObj [(''plans'', JArr (map plan_json evaluations))])"

section \<open>The evidence digest\<close>

definition number_json :: "pyfloat \<Rightarrow> json result" where
  "number_json v = rbind (rcheck (isfinite v) (EvaluationConfigurationError ''evidence contains a non-finite measurement''))
     (\<lambda>_. Inr (JStr (g17 v)))"

definition obj_json :: "(string \<times> json result) list \<Rightarrow> json result" where
  "obj_json kvs = rbind (rmap (\<lambda>(k, v). rbind v (\<lambda>j. Inr (k, j))) kvs) (\<lambda>entries. Inr (JObj entries))"

definition arr_json :: "('a \<Rightarrow> json result) \<Rightarrow> 'a list \<Rightarrow> json result" where
  "arr_json f xs = rbind (rmap f xs) (\<lambda>js. Inr (JArr js))"

definition str_json :: "string \<Rightarrow> json result" where "str_json s = Inr (JStr s)"
definition opt_str_json :: "string option \<Rightarrow> json result" where "opt_str_json s = Inr (jopt JStr s)"
definition bool_json :: "bool \<Rightarrow> json result" where "bool_json b = Inr (JBool b)"
definition int_json :: "int \<Rightarrow> json result" where "int_json i = Inr (JInt i)"
definition real_json :: "real \<Rightarrow> json result" where "real_json x = number_json (Fin x)"

definition trial_json :: "sandbox_trial \<Rightarrow> json result" where
  "trial_json t = obj_json [(''worker_id'', str_json (st_worker_id t)), (''order'', str_json (st_order t)),
     (''baseline_cold_ms'', number_json (st_baseline_cold_ms t)), (''candidate_cold_ms'', number_json (st_candidate_cold_ms t)),
     (''baseline_warm_ms'', number_json (st_baseline_warm_ms t)), (''candidate_warm_ms'', number_json (st_candidate_warm_ms t)),
     (''baseline_timed_out'', bool_json (st_baseline_timed_out t)),
     (''candidate_timed_out'', bool_json (st_candidate_timed_out t))]"

text \<open>\<open>model_dump(exclude={"artifact_digest"})\<close>.\<close>

definition result_json :: "sandbox_result \<Rightarrow> json result" where
  "result_json x = obj_json [(''protocol_version'', str_json PROTOCOL_VERSION_V2),
     (''success'', bool_json (sx_success x)), (''failure_code'', opt_str_json (sx_failure_code x)),
     (''engine'', str_json (sx_engine x)), (''task_id'', str_json (sx_task_id x)),
     (''task_commitment'', str_json (sx_task_commitment x)), (''fixture_id'', str_json (sx_fixture_id x)),
     (''fixture_content_digest'', str_json (sx_fixture_content_digest x)),
     (''hidden_fixture_merkle_root'', str_json (sx_hidden_fixture_merkle_root x)),
     (''reference_digest'', opt_str_json (sx_reference_digest x)), (''candidate_digest'', opt_str_json (sx_candidate_digest x)),
     (''correct'', bool_json (sx_correct x)), (''compliant'', bool_json (sx_compliant x)),
     (''row_count'', int_json (sx_row_count x)), (''setup_ms'', number_json (sx_setup_ms x)),
     (''worker_id'', opt_str_json (sx_worker_id x)), (''trials'', arr_json trial_json (sx_trials x)),
     (''database_bytes'', int_json (sx_database_bytes x)), (''artifact_storage_bytes'', int_json (sx_artifact_storage_bytes x)),
     (''candidate_plan'', Inr (jstrs (sx_candidate_plan x))), (''used_index_names'', Inr (jstrs (sx_used_index_names x)))]"

definition horizon_json :: "horizon_score \<Rightarrow> json result" where
  "horizon_json h = obj_json [(''horizon'', int_json (hs_horizon h)), (''relative_speedup'', real_json (hs_relative_speedup h)),
     (''lower_confidence_speedup'', real_json (hs_lower_confidence_speedup h)),
     (''relative_savings'', real_json (hs_relative_savings h))]"

definition score_json :: "benchmark_score \<Rightarrow> json result" where
  "score_json s = obj_json [(''eligible'', bool_json (bs_eligible s)), (''benchmark_valid'', bool_json (bs_benchmark_valid s)),
     (''reward'', real_json (bs_reward s)), (''failure_code'', opt_str_json (bs_failure_code s)),
     (''worker_id'', opt_str_json (bs_worker_id s)), (''timeout_rate'', real_json (bs_timeout_rate s)),
     (''storage_ratio'', real_json (bs_storage_ratio s)), (''horizons'', arr_json horizon_json (bs_horizons s))]"

definition fixture_json :: "fixture_evaluation \<Rightarrow> json result" where
  "fixture_json item = obj_json [(''fixture_id'', str_json (fe_fixture_id item)),
     (''result'', result_json (fe_result item)), (''score'', score_json (fe_score item))]"

definition evidence_json :: "holdout_evaluation \<Rightarrow> json result" where
  "evidence_json e =
     rbind (arr_json fixture_json (he_fixture_evaluations e)) (\<lambda>fixtures.
     obj_json [(''task_id'', str_json (he_task_id e)), (''task_commitment'', str_json (he_task_commitment e)),
       (''strategy_digest'', str_json (he_strategy_digest e)), (''behavior_digest'', str_json (he_behavior_digest e)),
       (''family_id'', str_json (he_family_id e)), (''exact_passed'', bool_json (he_exact_passed e)),
       (''compliant'', bool_json (he_compliant e)), (''eligible'', bool_json (he_eligible e)),
       (''reward'', real_json (he_reward e)), (''failure_code'', opt_str_json (he_failure_code e)),
       (''fixtures'', Inr fixtures)])"

definition EVIDENCE_DOMAIN :: string where "EVIDENCE_DOMAIN = ''planrace/2:holdout-evidence''"

definition holdout_evidence_digest :: "holdout_evaluation \<Rightarrow> string result" where
  "holdout_evidence_digest e = rbind (evidence_json e) (\<lambda>payload. Inr (v2_digest EVIDENCE_DOMAIN payload))"

section \<open>The gates\<close>

definition failed_evaluation ::
  "private_task \<Rightarrow> optimization_bundle \<Rightarrow> string \<Rightarrow> fixture_evaluation list \<Rightarrow> string \<Rightarrow> holdout_evaluation" where
  "failed_evaluation task bundle family_id evaluations code = \<lparr>he_task_id = pt_task_id (pv_public task),
     he_task_commitment = pt_commitment (pv_public task), he_artifact_digest = ob_artifact_digest bundle,
     he_strategy_digest = optimization_strategy_digest bundle, he_behavior_digest = holdout_behavior_digest evaluations,
     he_family_id = family_id, he_exact_passed = list_all (\<lambda>i. sx_correct (fe_result i)) evaluations,
     he_compliant = list_all (\<lambda>i. sx_compliant (fe_result i)) evaluations, he_eligible = False, he_reward = 0,
     he_failure_code = Some code, he_fixture_evaluations = evaluations\<rparr>"

definition finalize_holdout_evaluation ::
  "private_task \<Rightarrow> optimization_bundle \<Rightarrow> string \<Rightarrow> fixture_evaluation list \<Rightarrow> holdout_evaluation result" where
  "finalize_holdout_evaluation task bundle family_id evaluations =
     (let exact_passed = list_all (\<lambda>i. sx_correct (fe_result i)) evaluations;
          compliant = list_all (\<lambda>i. sx_compliant (fe_result i)) evaluations;
          failed = (\<lambda>code. Inr (failed_evaluation task bundle family_id evaluations code))
      in if \<not> exact_passed then failed ''exact_result_gate''
         else if \<not> compliant then failed ''artifact_policy_gate''
         else if list_ex (\<lambda>i. \<not> bs_benchmark_valid (fe_score i)) evaluations then failed ''benchmark_invalid''
         else if ob_indexes bundle = [] \<or> \<not> list_ex (\<lambda>i. sx_used_index_names (fe_result i) \<noteq> []) evaluations
         then failed ''no_robust_improvement''
         else rbind (robust_holdout_reward (map (\<lambda>i. bs_reward (fe_score i)) evaluations)) (\<lambda>reward.
           Inr \<lparr>he_task_id = pt_task_id (pv_public task), he_task_commitment = pt_commitment (pv_public task),
             he_artifact_digest = ob_artifact_digest bundle, he_strategy_digest = optimization_strategy_digest bundle,
             he_behavior_digest = holdout_behavior_digest evaluations, he_family_id = family_id,
             he_exact_passed = True, he_compliant = True, he_eligible = (0 < reward), he_reward = reward,
             he_failure_code = (if 0 < reward then None else Some ''no_robust_improvement''),
             he_fixture_evaluations = evaluations\<rparr>))"

definition evaluate_bundle_on_committed_holdouts ::
  "('g, 'w) evaluator \<Rightarrow> 'w worker_runner \<Rightarrow> private_task \<Rightarrow> optimization_bundle \<Rightarrow> benchmark_policy \<Rightarrow> int
    \<Rightarrow> ('w, holdout_evaluation) io" where
  "evaluate_bundle_on_committed_holdouts V runner task bundle bp trial_count =
     io_bind (io_lift (validate_and_regenerate_task V task False)) (\<lambda>family.
     if ob_task_id bundle \<noteq> pt_task_id (pv_public task)
     then io_raise (EvaluationConfigurationError ''bundle belongs to another task'')
     else if ob_engine_image_digest bundle \<noteq> pt_engine_image_digest (pv_public task)
     then io_raise (EvaluationConfigurationError ''bundle engine differs from task engine'')
     else if trial_count < bp_minimum_trials bp \<or> trial_count mod 2 \<noteq> 0
     then io_raise (EvaluationConfigurationError ''trial_count must be even and satisfy the scorer'')
     else io_bind (io_lift (bytes_fromhex (tr_secret_seed_hex (pv_reveal task)))) (\<lambda>seed.
          io_bind (io_lift (generate_hidden_fixtures (ev_prng V) (ev_image V) (qf_family_id family) seed)) (\<lambda>fixtures.
          io_bind (ev_tempdir V) (\<lambda>directory.
          io_bind (io_finally (io_map (evaluate_fixture V runner task bundle family trial_count bp directory) fixtures)
                     (ev_rmtree V directory)) (\<lambda>evaluations.
            io_lift (finalize_holdout_evaluation task bundle (qf_family_id family) evaluations))))))"

text \<open>Scoring results that come from an isolated batch worker.\<close>

definition evaluate_bundle_from_sandbox_results ::
  "('g, 'w) evaluator \<Rightarrow> private_task \<Rightarrow> optimization_bundle \<Rightarrow> sandbox_result list \<Rightarrow> benchmark_policy \<Rightarrow> int \<Rightarrow> bool
    \<Rightarrow> holdout_evaluation result" where
  "evaluate_bundle_from_sandbox_results V task bundle results bp trial_count portable =
     rbind (ev_reload V task) (\<lambda>reloaded.
     rbind (validate_and_regenerate_task V reloaded portable) (\<lambda>family.
     rbind (bytes_fromhex (tr_secret_seed_hex (pv_reveal reloaded))) (\<lambda>seed.
     rbind (generate_hidden_fixtures (ev_prng V) (ev_image V) (qf_family_id family) seed) (\<lambda>fixtures.
     rbind (rcheck (length results = length fixtures)
              (EvaluationConfigurationError ''worker result count does not match holdouts'')) (\<lambda>_.
     rbind (rmap (\<lambda>(i, fixture, x).
              rbind (if portable then if i < length (tr_hidden_fixtures (pv_reveal task))
                                      then Inr (tr_hidden_fixtures (pv_reveal task) ! i) else Inl IndexError
                     else Inr (gf_descriptor fixture)) (\<lambda>descriptor.
              rbind (fixture_request task bundle family trial_count bp fixture descriptor) (\<lambda>r.
                score_result r bp (hf_fixture_id (gf_descriptor fixture)) x)))
            (zip [0..<length fixtures] (zip fixtures results))) (\<lambda>evaluations.
       finalize_holdout_evaluation task bundle (qf_family_id family) evaluations))))))"

section \<open>The cohort of a task\<close>

record cohort_evaluation =
  ce_task_id :: string
  ce_task_commitment :: string
  ce_unique_strategy_count :: int
  ce_cache_hit_count :: int
  ce_strategy_evaluations :: "(string \<times> holdout_evaluation) list"
  ce_observations :: "epoch_observation list"

type_synonym submissions = "(string, optimization_bundle) dict"

definition DEFAULT_MAX_UNIQUE_STRATEGIES_PER_TASK :: int where
  "DEFAULT_MAX_UNIQUE_STRATEGIES_PER_TASK = 64"

definition cohort_guards :: "submissions \<Rightarrow> int \<Rightarrow> int \<Rightarrow> unit result" where
  "cohort_guards submissions epoch max_unique =
     (let config = EvaluationConfigurationError in
      rbind (rcheck (\<not> epoch < 0) (config ''epoch must be non-negative'')) (\<lambda>_.
      rbind (rcheck (submissions \<noteq> []) (config ''at least one submission is required'')) (\<lambda>_.
      rbind (rcheck (\<not> max_unique < 1) (config ''max_unique_strategies must be positive'')) (\<lambda>_.
        rcheck (\<not> list_ex (\<lambda>(m, _). m = []) submissions) (config ''miner IDs must be non-empty'')))))"

definition check_submission :: "public_task \<Rightarrow> string \<times> optimization_bundle \<Rightarrow> unit result" where
  "check_submission public = (\<lambda>(_, bundle).
     rbind (rcheck (ob_task_id bundle = pt_task_id public)
              (EvaluationConfigurationError ''bundle belongs to another task'')) (\<lambda>_.
       rcheck (ob_engine_image_digest bundle = pt_engine_image_digest public)
         (EvaluationConfigurationError ''bundle engine differs from task engine'')))"

text \<open>Submissions by strategy digest, in the order of the miner IDs.\<close>

definition group_submissions :: "public_task \<Rightarrow> submissions \<Rightarrow> (string, (string \<times> optimization_bundle) list) dict result" where
  "group_submissions public submissions =
     (let ordered = sort_key fst submissions in
      rbind (rmap (check_submission public) ordered) (\<lambda>_.
        Inr (group_by (\<lambda>(_, bundle). optimization_strategy_digest bundle) ordered)))"

definition observation_of ::
  "public_task \<Rightarrow> int \<Rightarrow> string \<Rightarrow> string \<Rightarrow> holdout_evaluation \<Rightarrow> string \<Rightarrow> epoch_observation" where
  "observation_of public epoch strategy_digest evidence_digest e miner_id = \<lparr>eo_miner_id = miner_id, eo_epoch = epoch,
     eo_family = pt_benchmark_family_id public, eo_task_id = pt_task_id public, eo_task_commitment = pt_commitment public,
     eo_evidence_digest = evidence_digest, eo_reward = Fin (he_reward e), eo_available = True,
     eo_correct = he_exact_passed e, eo_compliant = he_compliant e, eo_strategy_digest = strategy_digest,
     eo_behavior_digest = he_behavior_digest e, eo_duplicate_group_size = 1\<rparr>"

definition create_observation ::
  "public_task \<Rightarrow> int \<Rightarrow> string \<Rightarrow> string \<Rightarrow> holdout_evaluation \<Rightarrow> string \<Rightarrow> epoch_observation result" where
  "create_observation public epoch strategy_digest evidence_digest e miner_id =
     (let ob = observation_of public epoch strategy_digest evidence_digest e miner_id
      in rbind (epoch_observation_check ob) (\<lambda>_. Inr ob))"

text \<open>One strategy: its single evaluation and the observation of each member.\<close>

definition evaluate_strategy ::
  "('g, 'w) evaluator \<Rightarrow> 'w worker_runner \<Rightarrow> private_task \<Rightarrow> int \<Rightarrow> benchmark_policy \<Rightarrow> int
    \<Rightarrow> string \<times> (string \<times> optimization_bundle) list
    \<Rightarrow> ('w, (string \<times> holdout_evaluation) \<times> epoch_observation list) io" where
  "evaluate_strategy V runner task epoch bp trial_count = (\<lambda>(strategy_digest, members).
     io_bind (evaluate_bundle_on_committed_holdouts V runner task (snd (hd members)) bp trial_count) (\<lambda>e.
     if he_strategy_digest e \<noteq> strategy_digest
     then io_raise (EvaluationConfigurationError ''evaluation strategy digest mismatch'')
     else io_bind (io_lift (holdout_evidence_digest e)) (\<lambda>evidence_digest.
          io_bind (io_lift (rmap (\<lambda>(miner_id, _).
              create_observation (pv_public task) epoch strategy_digest evidence_digest e miner_id) members)) (\<lambda>obs.
            io_return ((strategy_digest, e), obs)))))"

definition evaluate_task_cohort ::
  "('g, 'w) evaluator \<Rightarrow> 'w worker_runner \<Rightarrow> private_task \<Rightarrow> submissions \<Rightarrow> int \<Rightarrow> benchmark_policy \<Rightarrow> int \<Rightarrow> int
    \<Rightarrow> ('w, cohort_evaluation) io" where
  "evaluate_task_cohort V runner task submissions epoch bp trial_count max_unique =
     io_bind (io_lift (cohort_guards submissions epoch max_unique)) (\<lambda>_.
     io_bind (io_lift (group_submissions (pv_public task) submissions)) (\<lambda>by_strategy.
     if max_unique < int (length by_strategy)
     then io_raise (EvaluationConfigurationError ''unique strategy evaluation budget exceeded'')
     else io_bind (io_map (evaluate_strategy V runner task epoch bp trial_count) (sort_key fst by_strategy)) (\<lambda>evaluated.
          io_return \<lparr>ce_task_id = pt_task_id (pv_public task), ce_task_commitment = pt_commitment (pv_public task),
            ce_unique_strategy_count = int (length by_strategy),
            ce_cache_hit_count = int (length submissions) - int (length by_strategy),
            ce_strategy_evaluations = map fst evaluated,
            ce_observations = sort_key eo_miner_id (concat (map snd evaluated))\<rparr>)))"

section \<open>The echo check\<close>

lemma verify_worker_echo_iff:
  "verify_worker_echo r x = Inr () \<longleftrightarrow>
     sx_task_id x = pt_task_id (sr_task r) \<and> sx_task_commitment x = pt_commitment (sr_task r)
     \<and> sx_fixture_id x = hf_fixture_id (sr_fixture r) \<and> sx_fixture_content_digest x = hf_content_digest (sr_fixture r)
     \<and> sx_hidden_fixture_merkle_root x = tr_hidden_fixture_merkle_root (sr_reveal r)
     \<and> sx_artifact_digest x = ob_artifact_digest (sr_bundle r)"
  by (auto simp: verify_worker_echo_def)

text \<open>A worker that runs \<open>execute_request\<close> always passes.\<close>

lemma echo_passes: "well_formed_result r x \<Longrightarrow> verify_worker_echo r x = Inr ()"
  by (simp add: verify_worker_echo_iff well_formed_result_def echoes_def)

section \<open>Rewards\<close>

lemma math_log1p_ok: "0 \<le> v \<Longrightarrow> math_log1p v = Inr (fl (ln (1 + v)))"
  by (simp add: math_log1p_def)

lemma lower_width: "0 < n \<Longrightarrow> 1 \<le> nat (max 1 \<lceil>fl (real n / 4)\<rceil>)"
  by simp

lemma fl_fraction_pos: "0 < fl (60 / 100)" "0 < fl (40 / 100)"
  by (rule fl.rnd_positive, simp)+

lemma robust_holdout_reward_ok:
  assumes "rewards \<noteq> []" "\<And>v. v \<in> set rewards \<Longrightarrow> 0 \<le> v"
  shows "\<exists>reward. robust_holdout_reward rewards = Inr reward \<and> 0 \<le> reward"
proof -
  define s where "s = sort rewards"
  define width where "width = nat (max 1 \<lceil>fl (real (length s) / 4)\<rceil>)"
  have s: "s \<noteq> []" "\<And>v. v \<in> set s \<Longrightarrow> 0 \<le> v" using assms by (simp_all add: s_def)
  have "take width s \<noteq> []" using s(1) lower_width [of "length s"] by (simp add: width_def)
  then obtain lq where lq: "fmean (take width s) = Inr lq" using fmean_ok by blast
  have "0 \<le> lq" by (rule fmean_ge [OF lq]) (use s(2) in_set_takeD in fast)
  have logs: "rmap math_log1p s = Inr (map (\<lambda>v. fl (ln (1 + v))) s)" by (rule rmap_map) (simp add: s(2) math_log1p_ok)
  obtain m where m: "fmean (map (\<lambda>v. fl (ln (1 + v))) s) = Inr m" using fmean_ok s(1) by blast
  have "0 \<le> m" by (rule fmean_ge [OF m]) (auto simp: s(2) intro!: fl.rnd_nonneg)
  then have "1 \<le> math_exp m" unfolding math_exp_def by (intro fl.rnd_ge_one) simp
  then have geo: "0 \<le> fl (math_exp m - 1)" by (intro fl.rnd_nonneg) simp
  have "robust_holdout_reward rewards = Inr (fl (fl (fl (60 / 100) * lq) + fl (fl (40 / 100) * fl (math_exp m - 1))))"
    using assms lq logs m by (auto simp: robust_holdout_reward_def Let_def list_ex_iff not_less simp flip: s_def width_def)
  moreover have "0 \<le> fl (fl (fl (60 / 100) * lq) + fl (fl (40 / 100) * fl (math_exp m - 1)))"
  proof -
    have "0 \<le> fl (fl (60 / 100) * lq)" "0 \<le> fl (fl (40 / 100) * fl (math_exp m - 1))"
      by (intro fl.rnd_nonneg mult_nonneg_nonneg less_imp_le [OF fl_fraction_pos(1)] less_imp_le [OF fl_fraction_pos(2)]
          \<open>0 \<le> lq\<close> geo)+
    then show ?thesis by (intro fl.rnd_nonneg) simp
  qed
  ultimately show ?thesis by blast
qed

text \<open>A reward needs a holdout that was earned: if every holdout earned nothing, so does the bundle.\<close>

lemma robust_holdout_reward_zero:
  assumes "robust_holdout_reward rewards = Inr reward" "\<And>v. v \<in> set rewards \<Longrightarrow> v = 0"
  shows "reward = 0"
proof -
  define s where "s = sort rewards"
  define width where "width = nat (max 1 \<lceil>fl (real (length s) / 4)\<rceil>)"
  have z: "v = 0" if "v \<in> set s" for v using that assms(2) by (simp add: s_def)
  obtain lq logs m where parts: "fmean (take width s) = Inr lq" "rmap math_log1p s = Inr logs" "fmean logs = Inr m"
    "reward = fl (fl (fl (60 / 100) * lq) + fl (fl (40 / 100) * fl (math_exp m - 1)))"
    using assms(1) by (auto simp: robust_holdout_reward_def Let_def rbind_eq_Inr simp flip: s_def width_def)
  have zero_mean: "q = 0" if "fmean xs = Inr q" "\<And>v. v \<in> set xs \<Longrightarrow> v = 0" for xs q
    using fmean_ge [OF that(1)] fmean_le [OF that(1)] that(2) by fastforce
  have "lq = 0" using zero_mean [OF parts(1)] z by (meson in_set_takeD)
  have "rmap math_log1p s = Inr (map (\<lambda>v. fl (ln (1 + v))) s)" by (rule rmap_map) (auto dest: z simp: math_log1p_ok)
  then have "logs = map (\<lambda>v. fl (ln (1 + v))) s" using parts(2) by simp
  moreover have "v = 0" if "v \<in> set (map (\<lambda>v. fl (ln (1 + v))) s)" for v using that z by (fastforce simp: fl.rnd_zero)
  ultimately have "m = 0" using zero_mean [OF parts(3)] by blast
  then have "math_exp m = 1" by (simp add: math_exp_def fl.rnd_one)
  then show ?thesis using parts(4) \<open>lq = 0\<close> by (simp add: fl.rnd_zero)
qed

section \<open>The gates\<close>

text \<open>An eligible evaluation passed every gate.\<close>

lemma finalize_eligible:
  assumes "finalize_holdout_evaluation task bundle family_id evaluations = Inr e" "he_eligible e"
  shows "(\<forall>i \<in> set evaluations. sx_correct (fe_result i) \<and> sx_compliant (fe_result i) \<and> bs_benchmark_valid (fe_score i))
    \<and> ob_indexes bundle \<noteq> [] \<and> (\<exists>i \<in> set evaluations. sx_used_index_names (fe_result i) \<noteq> [])
    \<and> 0 < he_reward e \<and> he_failure_code e = None
    \<and> robust_holdout_reward (map (\<lambda>i. bs_reward (fe_score i)) evaluations) = Inr (he_reward e)"
  using assms
  by (auto simp: finalize_holdout_evaluation_def Let_def failed_evaluation_def rbind_eq_Inr list_all_iff list_ex_iff
      split: if_splits)

lemma finalize_fields:
  assumes "finalize_holdout_evaluation task bundle family_id evaluations = Inr e"
  shows "he_task_id e = pt_task_id (pv_public task) \<and> he_task_commitment e = pt_commitment (pv_public task)
    \<and> he_artifact_digest e = ob_artifact_digest bundle \<and> he_strategy_digest e = optimization_strategy_digest bundle
    \<and> he_behavior_digest e = holdout_behavior_digest evaluations \<and> he_fixture_evaluations e = evaluations
    \<and> (he_eligible e \<longleftrightarrow> 0 < he_reward e) \<and> (he_eligible e \<longleftrightarrow> he_failure_code e = None)
    \<and> (he_eligible e \<longrightarrow> he_exact_passed e \<and> he_compliant e)
    \<and> he_exact_passed e = list_all (\<lambda>i. sx_correct (fe_result i)) evaluations
    \<and> he_compliant e = list_all (\<lambda>i. sx_compliant (fe_result i)) evaluations"
  using assms
  by (auto simp: finalize_holdout_evaluation_def Let_def failed_evaluation_def rbind_eq_Inr split: if_splits)

section \<open>The cohort: one evaluation per strategy, one observation per miner\<close>

definition strategy_done ::
  "private_task \<Rightarrow> int \<Rightarrow> string \<times> (string \<times> optimization_bundle) list \<Rightarrow> (string \<times> holdout_evaluation) \<times> epoch_observation list \<Rightarrow> bool" where
  "strategy_done task epoch grp evaluated \<longleftrightarrow> fst (fst evaluated) = fst grp
     \<and> he_strategy_digest (snd (fst evaluated)) = fst grp
     \<and> (\<exists>evidence. holdout_evidence_digest (snd (fst evaluated)) = Inr evidence
          \<and> snd evaluated = map (\<lambda>(m, _). observation_of (pv_public task) epoch (fst grp) evidence (snd (fst evaluated)) m) (snd grp)
          \<and> list_all valid_observation (snd evaluated))"

lemma evaluate_strategy_done:
  assumes "evaluate_strategy V runner task epoch bp trial_count grp w = (Inr evaluated, w')"
  shows "strategy_done task epoch grp evaluated"
proof -
  obtain d members where grp: "grp = (d, members)" by fastforce
  obtain e evidence obs where e: "he_strategy_digest e = d" "holdout_evidence_digest e = Inr evidence"
    "rmap (\<lambda>(m, _). create_observation (pv_public task) epoch d evidence e m) members = Inr obs" "evaluated = ((d, e), obs)"
    using assms by (auto simp: evaluate_strategy_def grp io_bind_Inr split: if_splits)
  have "create_observation (pv_public task) epoch d evidence e m = Inr ob \<longleftrightarrow>
      ob = observation_of (pv_public task) epoch d evidence e m \<and> valid_observation ob" for m ob
    by (auto simp: create_observation_def Let_def rbind_eq_Inr valid_observation_def is_ok_iff)
  then have "obs = map (\<lambda>(m, _). observation_of (pv_public task) epoch d evidence e m) members" "list_all valid_observation obs"
    using e(3) by (auto simp: rmap_Inr_iff list_eq_iff_nth_eq list_all_length case_prod_beta)
  then show ?thesis using e(1,2) by (simp add: strategy_done_def grp e(4))
qed

text \<open>What a successful cohort is made of.\<close>

lemma evaluate_task_cohort_Inr:
  assumes "evaluate_task_cohort V runner task submissions epoch bp trial_count max_unique w = (Inr c, w')"
  obtains by_strategy evaluated where
    "by_strategy = group_by (\<lambda>(_, bundle). optimization_strategy_digest bundle) (sort_key fst submissions)"
    "list_all2 (strategy_done task epoch) (sort_key fst by_strategy) evaluated"
    "int (length by_strategy) \<le> max_unique" "0 \<le> epoch" "submissions \<noteq> []"
    "\<forall>(m, b) \<in> set submissions. m \<noteq> [] \<and> ob_task_id b = pt_task_id (pv_public task)
        \<and> ob_engine_image_digest b = pt_engine_image_digest (pv_public task)"
    "ce_unique_strategy_count c = int (length by_strategy)"
    "ce_cache_hit_count c = int (length submissions) - int (length by_strategy)"
    "ce_strategy_evaluations c = map fst evaluated"
    "ce_observations c = sort_key eo_miner_id (concat (map snd evaluated))"
proof -
  obtain by_strategy evaluated u u' where parts: "cohort_guards submissions epoch max_unique = Inr ()"
    "group_submissions (pv_public task) submissions = Inr by_strategy" "\<not> max_unique < int (length by_strategy)"
    "io_map (evaluate_strategy V runner task epoch bp trial_count) (sort_key fst by_strategy) u = (Inr evaluated, u')"
    "ce_unique_strategy_count c = int (length by_strategy)"
    "ce_cache_hit_count c = int (length submissions) - int (length by_strategy)"
    "ce_strategy_evaluations c = map fst evaluated"
    "ce_observations c = sort_key eo_miner_id (concat (map snd evaluated))"
    using assms by (auto simp: evaluate_task_cohort_def io_bind_Inr split: if_splits)
  have guards: "0 \<le> epoch" "submissions \<noteq> []" "\<forall>(m, b) \<in> set submissions. m \<noteq> []"
    using parts(1) by (auto simp: cohort_guards_def Let_def rbind_eq_Inr list_ex_iff)
  have grouped: "by_strategy = group_by (\<lambda>(_, bundle). optimization_strategy_digest bundle) (sort_key fst submissions)"
    using parts(2) by (auto simp: group_submissions_def Let_def rbind_eq_Inr)
  obtain us where "rmap (check_submission (pv_public task)) (sort_key fst submissions) = Inr us"
    using parts(2) by (auto simp: group_submissions_def Let_def rbind_eq_Inr)
  then have "\<forall>x \<in> set (sort_key fst submissions). is_ok (check_submission (pv_public task) x)"
    unfolding rmap_Inr_iff is_ok_iff by (metis in_set_conv_nth)
  then have checked: "\<forall>(m, b) \<in> set submissions. ob_task_id b = pt_task_id (pv_public task)
        \<and> ob_engine_image_digest b = pt_engine_image_digest (pv_public task)"
    by (auto simp: check_submission_def is_ok_iff rbind_eq_Inr)
  have "list_all2 (strategy_done task epoch) (sort_key fst by_strategy) evaluated"
    using io_map_each [OF parts(4)] by (rule list_all2_mono) (auto dest: evaluate_strategy_done)
  moreover have "\<forall>(m, b) \<in> set submissions. m \<noteq> [] \<and> ob_task_id b = pt_task_id (pv_public task)
        \<and> ob_engine_image_digest b = pt_engine_image_digest (pv_public task)"
    using guards(3) checked by blast
  ultimately show thesis using that [OF grouped] parts(3,5-8) guards(1,2) by (meson not_less)
qed

lemma strategy_done_miners:
  "list_all2 (strategy_done task epoch) groups evaluated \<Longrightarrow>
   map eo_miner_id (concat (map snd evaluated)) = map fst (concat (dict_values groups))"
  by (induction rule: list_all2_induct)
     (auto simp: strategy_done_def dict_values_def observation_of_def comp_def case_prod_beta)

lemma sort_key_mset_map: "mset xs = mset ys \<Longrightarrow> sort (map f xs) = sort (map f ys :: 'a::linorder list)"
  by (rule sort_mset_eqI) simp

lemma map_sort_key: "map f (sort_key f xs) = sort (map f xs)"
  by (intro properties_for_sort [symmetric]) (simp_all add: sorted_sort_key)

lemma mset_dict_values_sort: "mset (concat (dict_values (sort_key fst d))) = mset (concat (dict_values d))"
proof -
  have concat: "mset (concat xss) = sum_mset (image_mset mset (mset xss))" for xss :: "'a list list"
    by (induction xss) simp_all
  show ?thesis unfolding concat dict_values_def by simp
qed

text \<open>The miners of a cohort's observations are exactly the submitters.\<close>

lemma cohort_miners:
  assumes "evaluate_task_cohort V runner task submissions epoch bp trial_count max_unique w = (Inr c, w')"
  shows "map eo_miner_id (ce_observations c) = sort (keys submissions)"
  using assms
proof (rule evaluate_task_cohort_Inr)
  fix by_strategy evaluated
  assume g: "by_strategy = group_by (\<lambda>(_, bundle). optimization_strategy_digest bundle) (sort_key fst submissions)"
    and d: "list_all2 (strategy_done task epoch) (sort_key fst by_strategy) evaluated"
    and o1: "ce_observations c = sort_key eo_miner_id (concat (map snd evaluated))"
  have "mset (concat (dict_values (sort_key fst by_strategy))) = mset (sort_key fst submissions)"
    unfolding mset_dict_values_sort g mset_group_by ..
  then have "sort (map fst (concat (dict_values (sort_key fst by_strategy)))) = sort (map fst (sort_key fst submissions))"
    by (rule sort_key_mset_map)
  then have "sort (map eo_miner_id (concat (map snd evaluated))) = sort (map fst (sort_key fst submissions))"
    unfolding strategy_done_miners [OF d] .
  also have "\<dots> = sort (map fst submissions)" by (rule sort_key_mset_map) simp
  finally show ?thesis unfolding o1 map_sort_key keys_def .
qed

text \<open>Every observation comes from the evaluation of its strategy.\<close>

definition observed :: "private_task \<Rightarrow> int \<Rightarrow> (string \<times> holdout_evaluation) list \<Rightarrow> epoch_observation \<Rightarrow> bool" where
  "observed task epoch evaluations ob \<longleftrightarrow> (\<exists>d e evidence. (d, e) \<in> set evaluations \<and> he_strategy_digest e = d
     \<and> holdout_evidence_digest e = Inr evidence \<and> valid_observation ob
     \<and> ob = observation_of (pv_public task) epoch d evidence e (eo_miner_id ob))"

lemma strategy_done_observed:
  "list_all2 (strategy_done task epoch) groups evaluated \<Longrightarrow> ob \<in> set (concat (map snd evaluated))
   \<Longrightarrow> observed task epoch (map fst evaluated) ob"
proof (induction rule: list_all2_induct)
  case (Cons grp groups ev evs)
  show ?case
  proof (cases "ob \<in> set (snd ev)")
    case True
    obtain d e obs where ev: "ev = ((d, e), obs)" by (metis surj_pair)
    obtain evidence where e: "he_strategy_digest e = d" "holdout_evidence_digest e = Inr evidence"
      "obs = map (\<lambda>(m, _). observation_of (pv_public task) epoch d evidence e m) (snd grp)" "list_all valid_observation obs"
      using Cons.hyps(1) by (auto simp: strategy_done_def ev)
    have "\<exists>m. ob = observation_of (pv_public task) epoch d evidence e m" using True e(3) by (auto simp: ev)
    then have "ob = observation_of (pv_public task) epoch d evidence e (eo_miner_id ob)" by (auto simp: observation_of_def)
    moreover have "valid_observation ob" using True e(4) by (simp add: ev list_all_iff)
    moreover have "(d, e) \<in> set (map fst (ev # evs))" by (simp add: ev)
    ultimately show ?thesis using e(1,2) unfolding observed_def by blast
  next
    case False
    then have "observed task epoch (map fst evs) ob" using Cons by simp
    then show ?thesis by (auto simp: observed_def)
  qed
qed simp

lemma strategy_done_keys:
  "list_all2 (strategy_done task epoch) groups evaluated \<Longrightarrow> map fst (map fst evaluated) = keys groups"
  by (induction rule: list_all2_induct) (auto simp: strategy_done_def keys_def)

lemma cohort_observed:
  assumes "evaluate_task_cohort V runner task submissions epoch bp trial_count max_unique w = (Inr c, w')"
  shows "(\<forall>ob \<in> set (ce_observations c). observed task epoch (ce_strategy_evaluations c) ob)
    \<and> distinct (keys (ce_strategy_evaluations c)) \<and> sorted (keys (ce_strategy_evaluations c))
    \<and> set (keys (ce_strategy_evaluations c)) = optimization_strategy_digest ` snd ` set submissions
    \<and> ce_unique_strategy_count c = int (length (ce_strategy_evaluations c))
    \<and> ce_unique_strategy_count c + ce_cache_hit_count c = int (length submissions)
    \<and> ce_unique_strategy_count c \<le> max_unique"
  using assms
proof (rule evaluate_task_cohort_Inr)
  fix by_strategy evaluated
  assume a: "by_strategy = group_by (\<lambda>(_, bundle). optimization_strategy_digest bundle) (sort_key fst submissions)"
    "list_all2 (strategy_done task epoch) (sort_key fst by_strategy) evaluated"
    "int (length by_strategy) \<le> max_unique"
    "ce_unique_strategy_count c = int (length by_strategy)"
    "ce_cache_hit_count c = int (length submissions) - int (length by_strategy)"
    "ce_strategy_evaluations c = map fst evaluated"
    "ce_observations c = sort_key eo_miner_id (concat (map snd evaluated))"
  have k: "keys (ce_strategy_evaluations c) = sort (keys by_strategy)"
    using strategy_done_keys [OF a(2)] by (simp add: a(6) keys_def map_sort_key)
  have "set (keys by_strategy) = optimization_strategy_digest ` snd ` set submissions"
    unfolding a(1) by (force simp: case_prod_beta)
  moreover have "distinct (keys by_strategy)" unfolding a(1) by simp
  moreover have "length (ce_strategy_evaluations c) = length by_strategy"
    using list_all2_lengthD [OF a(2)] by (simp add: a(6))
  moreover have "\<forall>ob \<in> set (ce_observations c). observed task epoch (ce_strategy_evaluations c) ob"
    using strategy_done_observed [OF a(2)] by (simp add: a(6,7))
  ultimately show ?thesis using k a(3-5) by simp
qed

section \<open>The cohort feeds the evaluate-once accounting\<close>

text \<open>Observations of one task from distinct miners that agree per strategy.\<close>

definition one_task :: "epoch_observation list \<Rightarrow> bool" where
  "one_task obs \<longleftrightarrow> distinct (map eo_miner_id obs) \<and> list_all valid_observation obs
     \<and> (\<exists>metadata. \<forall>ob \<in> set obs. (eo_task_id ob, eo_epoch ob, eo_family ob, eo_task_commitment ob) = metadata)
     \<and> (\<forall>a \<in> set obs. \<forall>b \<in> set obs. eo_strategy_digest a = eo_strategy_digest b
          \<longrightarrow> eo_evidence_digest a = eo_evidence_digest b \<and> eo_value a = eo_value b)"

lemma group_fold_ok:
  assumes "\<forall>ob \<in> set obs. (eo_task_id ob, eo_epoch ob, eo_family ob, eo_task_commitment ob) = (t, metadata)"
    and "\<forall>m. map_of md t = Some m \<longrightarrow> m = metadata"
  shows "\<exists>r. rfold group_step (md, groups, untouched) obs = Inr r"
  using assms
proof (induction obs arbitrary: md groups untouched)
  case (Cons ob obs)
  then have meta: "eo_task_id ob = t" "(eo_epoch ob, eo_family ob, eo_task_commitment ob) = metadata" by auto
  let ?md = "if map_of md t = None then AList.update t metadata md else md"
  have "\<forall>m. map_of ?md t = Some m \<longrightarrow> m = metadata" using Cons.prems(2) by (auto simp: update_conv')
  then have "\<exists>r. rfold group_step (?md, g, u) obs = Inr r" for g u
    using Cons.IH [of ?md] Cons.prems(1) by auto
  then show ?case using Cons.prems(2) meta
    by (cases "map_of md t") (auto simp: group_step_def Let_def)
qed simp

lemma map_to_constant:
  assumes "xs \<noteq> []" "\<And>x. x \<in> set xs \<Longrightarrow> f x = c"
  shows "set (map f xs) = {c}"
  using assms by (cases xs) auto

lemma valid_observation_value:
  assumes "valid_observation ob"
  shows "\<exists>v. eo_reward ob = Fin v \<and> 0 \<le> v \<and> v \<le> 100"
  using assms
  by (cases "eo_reward ob")
    (auto simp: valid_observation_def is_ok_iff epoch_observation_check_def rbind_eq_Inr require_finite_non_negative_def)

lemma share_reward_ok:
  assumes "valid_observation ob" "0 \<le> v" "v \<le> 100" "0 < n"
  shows "share_reward v n ob = Inr (ob\<lparr>eo_reward := Fin v, eo_duplicate_group_size := int n\<rparr>)"
proof -
  have "epoch_observation_check (ob\<lparr>eo_reward := Fin v, eo_duplicate_group_size := int n\<rparr>) = Inr ()"
    using assms by (simp add: epoch_observation_check_def rbind_eq_Inr valid_observation_def is_ok_iff
        require_finite_non_negative_def)
  then show ?thesis by (simp add: share_reward_def)
qed

lemma share_group_ok:
  assumes "ms \<noteq> []" "distinct (map eo_miner_id ms)" "\<And>ob. ob \<in> set ms \<Longrightarrow> valid_observation ob"
    and "\<And>a b. a \<in> set ms \<Longrightarrow> b \<in> set ms \<Longrightarrow> eo_evidence_digest a = eo_evidence_digest b \<and> eo_value a = eo_value b"
  shows "\<exists>ns. share_group ms = Inr ns"
proof -
  have hd: "hd ms \<in> set ms" using assms(1) by simp
  have same: "eo_evidence_digest a = eo_evidence_digest (hd ms)" "eo_value a = eo_value (hd ms)" if "a \<in> set ms" for a
    using assms(4) [OF that hd] by simp_all
  have sets: "set (map eo_evidence_digest ms) = {eo_evidence_digest (hd ms)}" "set (map eo_value ms) = {eo_value (hd ms)}"
    by (rule map_to_constant [OF assms(1) same(1)], assumption, rule map_to_constant [OF assms(1) same(2)], assumption)
  have consistent: "card (set (map eo_evidence_digest ms)) = 1" "Max (set (map eo_value ms)) - Min (set (map eo_value ms)) = 0"
    unfolding sets by simp_all
  define share where "share = fl (hd (map eo_value ms) / real (length ms))"
  have v: "0 \<le> eo_value (hd ms)" "eo_value (hd ms) \<le> 100"
    using valid_observation_value [OF assms(3) [OF hd]] by (auto simp: eo_value_def)
  have n: "1 \<le> real (length ms)" using assms(1) by (cases ms) simp_all
  have hdm: "hd (map eo_value ms) = eo_value (hd ms)" using assms(1) by (rule hd_map)
  have "eo_value (hd ms) / real (length ms) \<le> eo_value (hd ms) / 1" using v n assms(1) by (intro divide_left_mono) simp_all
  then have "eo_value (hd ms) / real (length ms) \<le> 100" using v by simp
  then have "share \<le> 100" unfolding share_def hdm by (rule fl.rnd_upper) (use fl_of_int [of 100] in simp)
  moreover have "0 \<le> share" unfolding share_def hdm using v n by (intro fl.rnd_nonneg) simp
  moreover have "0 < length ms" using assms(1) by simp
  ultimately have "share_reward share (length ms) ob
      = Inr (ob\<lparr>eo_reward := Fin share, eo_duplicate_group_size := int (length ms)\<rparr>)"
    if "ob \<in> set ms" for ob
    by (intro share_reward_ok assms(3) that)
  then have shared: "rmap (share_reward share (length ms)) ms
      = Inr (map (\<lambda>ob. ob\<lparr>eo_reward := Fin share, eo_duplicate_group_size := int (length ms)\<rparr>) ms)"
    by (rule rmap_map)
  have "fl (1 / 10 ^ 9) \<ge> 0" by (rule fl.rnd_nonneg) simp
  then show ?thesis
    using consistent assms(2) shared by (simp add: share_group_def Let_def share_def fl.rnd_zero del: set_map)
qed

lemma one_task_deduplicates:
  assumes "one_task obs"
  shows "\<exists>out. deduplicate_task_rewards obs = Inr out"
proof -
  obtain t metadata where "\<forall>ob \<in> set obs. (eo_task_id ob, eo_epoch ob, eo_family ob, eo_task_commitment ob) = (t, metadata)"
    using assms unfolding one_task_def by (metis surj_pair)
  then obtain md groups untouched where f: "rfold group_step ([], [], []) obs = Inr (md, groups, untouched)"
    using group_fold_ok [of obs t metadata "[]" "[]" "[]"] by auto
  have groups: "groups = group_by task_strategy (filter counts_for_reward obs)" using group_fold [OF f] by simp
  have "\<exists>ns. share_group ms = Inr ns" if "ms \<in> set (dict_values groups)" for ms
  proof -
    have "ms \<in> snd ` set groups" using that by (simp add: dict_values_def)
    then obtain k where k: "(k, ms) \<in> set groups" by (metis imageE prod.collapse)
    note entry = k [unfolded groups]
    have ms: "ms = filter (\<lambda>ob. task_strategy ob = k) (filter counts_for_reward obs)"
      by (rule conjunct2 [OF group_by_entry [OF entry]])
    have "ms \<noteq> []" by (rule group_by_entry_nonempty [OF entry])
    have sub: "set ms \<subseteq> set obs" unfolding ms by auto
    have same: "eo_strategy_digest a = snd k" if "a \<in> set ms" for a using that unfolding ms by (auto simp: task_strategy_def)
    show ?thesis
    proof (rule share_group_ok [OF \<open>ms \<noteq> []\<close>])
      show "distinct (map eo_miner_id ms)" using assms unfolding ms one_task_def by (simp add: distinct_map_filter)
      show "valid_observation ob" if "ob \<in> set ms" for ob using assms sub that by (auto simp: one_task_def list_all_iff)
      show "eo_evidence_digest a = eo_evidence_digest b \<and> eo_value a = eo_value b" if "a \<in> set ms" "b \<in> set ms" for a b
        using assms sub that same unfolding one_task_def by (metis subsetD)
    qed
  qed
  then obtain g where "\<And>ms. ms \<in> set (dict_values groups) \<Longrightarrow> share_group ms = Inr (g ms)" by metis
  then have "rmap share_group (dict_values groups) = Inr (map g (dict_values groups))" by (rule rmap_map)
  then show ?thesis by (simp add: deduplicate_task_rewards_def f)
qed

lemma cohort_one_task:
  assumes c: "evaluate_task_cohort V runner task submissions epoch bp trial_count max_unique w = (Inr c, w')"
    and "wf_dict submissions"
  shows "one_task (ce_observations c)"
proof -
  note obs = conjunct1 [OF cohort_observed [OF c]]
  note dist = conjunct1 [OF conjunct2 [OF cohort_observed [OF c]]]
  have "distinct (map eo_miner_id (ce_observations c))"
    using assms(2) by (simp add: cohort_miners [OF c] wf_dict_def)
  moreover have "list_all valid_observation (ce_observations c)" using obs by (auto simp: list_all_iff observed_def)
  moreover have "\<forall>ob \<in> set (ce_observations c). (eo_task_id ob, eo_epoch ob, eo_family ob, eo_task_commitment ob)
      = (pt_task_id (pv_public task), epoch, pt_benchmark_family_id (pv_public task), pt_commitment (pv_public task))"
  proof
    fix ob assume "ob \<in> set (ce_observations c)"
    then obtain d e ev where "ob = observation_of (pv_public task) epoch d ev e (eo_miner_id ob)"
      using obs by (auto simp: observed_def)
    from arg_cong [OF this, of "\<lambda>ob. (eo_task_id ob, eo_epoch ob, eo_family ob, eo_task_commitment ob)"]
    show "(eo_task_id ob, eo_epoch ob, eo_family ob, eo_task_commitment ob)
      = (pt_task_id (pv_public task), epoch, pt_benchmark_family_id (pv_public task), pt_commitment (pv_public task))"
      by (simp add: observation_of_def)
  qed
  moreover have "eo_evidence_digest a = eo_evidence_digest b \<and> eo_value a = eo_value b"
    if "a \<in> set (ce_observations c)" "b \<in> set (ce_observations c)" "eo_strategy_digest a = eo_strategy_digest b" for a b
  proof -
    obtain d e ev where a: "(d, e) \<in> set (ce_strategy_evaluations c)" "holdout_evidence_digest e = Inr ev"
      "a = observation_of (pv_public task) epoch d ev e (eo_miner_id a)" using obs \<open>a \<in> _\<close> by (auto simp: observed_def)
    obtain d' e' ev' where b: "(d', e') \<in> set (ce_strategy_evaluations c)" "holdout_evidence_digest e' = Inr ev'"
      "b = observation_of (pv_public task) epoch d' ev' e' (eo_miner_id b)" using obs \<open>b \<in> _\<close> by (auto simp: observed_def)
    have "eo_strategy_digest a = d" "eo_strategy_digest b = d'"
      using arg_cong [OF a(3), of eo_strategy_digest] arg_cong [OF b(3), of eo_strategy_digest] by (simp_all add: observation_of_def)
    then have "d = d'" using that(3) by simp
    then have "e = e'" using a(1) b(1) dist by (metis keys_def map_of_is_SomeI option.inject)
    then have "ev = ev'" using a(2) b(2) by simp
    show ?thesis
      using arg_cong [OF a(3), of eo_evidence_digest] arg_cong [OF b(3), of eo_evidence_digest]
        arg_cong [OF a(3), of eo_value] arg_cong [OF b(3), of eo_value] \<open>ev = ev'\<close> \<open>e = e'\<close>
      by (simp add: observation_of_def eo_value_def)
  qed
  ultimately show ?thesis unfolding one_task_def by blast
qed

end
