(* ===== verification/BenchmarkTotal.thy ===== *)
theory BenchmarkTotal
  imports Benchmark
begin

text \<open>
  The fixture generator never fails: for a pseudo-random generator that keeps its documented
  ranges and a database image that can be built, every family expands a 32-byte seed into its
  eight holdouts and its public training fixture.
\<close>

section \<open>Rows are small\<close>

text \<open>Every value of a generated row is small, so a framed row is far below its 4-byte length.\<close>

fun small_value :: "row_value \<Rightarrow> bool" where
  "small_value RNull = True"
| "small_value (RInt i) = (\<bar>i\<bar> \<le> 10000000)"
| "small_value (RText s) = (length s \<le> 100)"
| "small_value _ = False"

lemma length_nat_str: "length (nat_str n) \<le> n + 1"
proof (induction n rule: less_induct)
  case (less n)
  show ?case
  proof (cases "n < 10")
    case True
    then show ?thesis by (simp add: nat_str.simps [of n])
  next
    case False
    then have "length (nat_str (n div 10)) \<le> n div 10 + 1" by (intro less.IH) simp
    with False show ?thesis by (subst nat_str.simps) simp
  qed
qed

lemma length_int_str: "length (int_str i) \<le> nat \<bar>i\<bar> + 2"
  using length_nat_str [of "nat i"] length_nat_str [of "nat (- i)"] by (simp add: int_str_def)

lemma length_escape_char: "length (escape_char c) \<le> 6"
  by (simp add: escape_char_def)

lemma length_render_str: "length (render_str s) \<le> 6 * length s + 2"
proof -
  have "length (concat (map escape_char s)) \<le> 6 * length s"
  proof (induction s)
    case (Cons c s)
    then show ?case using length_escape_char [of c] by simp
  qed simp
  then show ?thesis by (simp add: render_str_def)
qed

lemma small_value_text:
  assumes "small_value v"
  shows "\<exists>t. row_value_text v = Inr t \<and> length t \<le> 10000002"
proof (cases v)
  case (RInt i)
  then show ?thesis using assms length_int_str [of i] by auto
next
  case (RText s)
  then show ?thesis using assms length_render_str [of s] by auto
qed (use assms in auto)

lemma length_join_comma: "(\<And>t. t \<in> set ts \<Longrightarrow> length t \<le> n) \<Longrightarrow> length (join '','' ts) \<le> length ts * (n + 1)"
proof (induction "'',''" ts rule: join.induct)
  case (3 x y ys)
  then have "length (join '','' (y # ys)) \<le> length (y # ys) * (n + 1)" "length x \<le> n" by auto
  then show ?case by simp
qed auto

lemma framed_row_total:
  assumes "list_all small_value row" "length row \<le> 7" "length relation \<le> 100"
  shows "is_ok (framed_row relation row)"
proof -
  have "\<forall>v \<in> set row. \<exists>t. row_value_text v = Inr t \<and> length t \<le> 10000002"
    using assms(1) small_value_text by (auto simp: list_all_iff)
  then obtain f where f: "\<And>v. v \<in> set row \<Longrightarrow> row_value_text v = Inr (f v) \<and> length (f v) \<le> 10000002" by metis
  then have texts: "rmap row_value_text row = Inr (map f row)" by (intro rmap_map) simp
  have "length (join '','' (map f row)) \<le> length (map f row) * (10000002 + 1)"
    by (rule length_join_comma) (use f in auto)
  also have "\<dots> \<le> 7 * 10000003" using assms(2) by simp
  finally have j: "length (join '','' (map f row)) \<le> 70000021" by simp
  have names: "length (render_str ''relation'') \<le> 100" "length (render_str ''row'') \<le> 100" "length (render_str relation) \<le> 1000"
    using length_render_str [of "''relation''"] length_render_str [of "''row''"] length_render_str [of relation] assms(3) by simp_all
  obtain b where b: "iter_row relation row = Inr b"
    "b = ''{'' @ render_str ''relation'' @ '':'' @ render_str relation @ '','' @ render_str ''row'' @ '':['' @ join '','' (map f row) @ '']}''"
    by (simp add: iter_row_def texts)
  have "length b \<le> 70002000" using j names by (simp add: b(2))
  then have "length b < 256 ^ 4" by simp
  then show ?thesis by (simp add: framed_row_def b(1) to_bytes_big_def is_ok_iff)
qed

lemma is_ok_rmap: "(\<And>x. x \<in> set xs \<Longrightarrow> is_ok (f x)) \<Longrightarrow> is_ok (rmap f xs)"
  by (induction xs) (fastforce simp: is_ok_iff)+

lemma logical_digest_total:
  assumes "\<And>row. row \<in> set customers \<union> set orders \<Longrightarrow> list_all small_value row \<and> length row \<le> 7"
  shows "is_ok (logical_fixture_content_digest customers orders)"
proof -
  have "is_ok (rmap (framed_row relation) rows)"
    if "set rows \<subseteq> set customers \<union> set orders" "length relation \<le> 100" for relation rows
    by (rule is_ok_rmap, rule framed_row_total) (use that assms in blast)+
  from this [of customers "''customers''"] this [of orders "''orders''"]
  show ?thesis by (auto simp: logical_fixture_content_digest_def is_ok_iff)
qed

section \<open>Customers and orders\<close>

definition customer_ok :: "customer \<Rightarrow> bool" where
  "customer_ok c \<longleftrightarrow> cu_segment c \<in> set SEGMENTS \<and> cu_region c \<in> set REGIONS \<and> cu_active c \<in> {0, 1} \<and> cu_tier c \<in> set TIERS"

lemma gen_customer_ok:
  assumes "prng_ok r" "gen_customer r i g = (c, g')"
  shows "customer_ok c"
proof -
  obtain region g1 where 1: "pick r REGIONS g = (region, g1)" by fastforce
  obtain shift g2 where 2: "rng_randrange r 0 (int (length SEGMENTS)) g1 = (shift, g2)" by fastforce
  obtain active g3 where 3: "rng_randrange r 0 10000 g2 = (active, g3)" by fastforce
  obtain tier g4 where 4: "pick r TIERS g3 = (tier, g4)" by fastforce
  have "c = \<lparr>cu_id = i, cu_segment = SEGMENTS ! nat ((i + shift) mod int (length SEGMENTS)),
           cu_region = region, cu_active = (if 1300 \<le> active then 1 else 0), cu_tier = tier\<rparr>"
    using assms(2) by (simp add: gen_customer_def Let_def 1 2 3 4)
  moreover have "region \<in> set REGIONS" "tier \<in> set TIERS"
    using pick_mem [OF assms(1) 1] pick_mem [OF assms(1) 4] by (simp_all add: REGIONS_def TIERS_def)
  moreover have "SEGMENTS ! nat ((i + shift) mod int (length SEGMENTS)) \<in> set SEGMENTS"
    by (intro nth_mem) (simp add: SEGMENTS_def nat_less_iff)
  ultimately show ?thesis by (simp add: customer_ok_def)
qed

lemma gen_customers_ok: "prng_ok r \<Longrightarrow> gen_customers r is g = (cs, g') \<Longrightarrow> list_all customer_ok cs"
proof (induction "is" arbitrary: g cs)
  case (Cons i "is")
  obtain c g1 cs' g2 where "gen_customer r i g = (c, g1)" "gen_customers r is g1 = (cs', g2)" by fastforce
  then show ?case using Cons gen_customer_ok by auto
qed simp

text \<open>A payload with all its fields from the generator's ranges.\<close>

definition payload_full :: "fixture_profile \<Rightarrow> order_payload \<Rightarrow> bool" where
  "payload_full p q \<longleftrightarrow> payload_ok p q \<and> op_channel q \<in> set CHANNELS
     \<and> (\<forall>t. op_coupon q = Some t \<longrightarrow> (\<exists>n. 0 \<le> n \<and> n < 40 \<and> t = coupon_code n))"

lemma index_of_channel: "region \<in> set REGIONS \<Longrightarrow> \<exists>i. index_of region REGIONS = Inr i \<and> CHANNELS ! i \<in> set CHANNELS"
  by (auto simp: index_of_def REGIONS_def CHANNELS_def)

lemma fresh_payload_total:
  assumes r: "prng_ok r" and p: "0 \<le> fp_skew_power_milli p" "1 \<le> fp_customers p" "fp_customers p \<le> 2 ^ 53"
    and customers: "int (length customers) = fp_customers p" "list_all customer_ok customers"
  shows "\<exists>q g'. fresh_payload r p customers i g = Inr (q, g') \<and> payload_full p q"
proof -
  define exponent where "exponent = fl (of_int (fp_skew_power_milli p) / 1000)"
  obtain x g1 where x: "rng_random r g = (x, g1)" by fastforce
  define customer_id where "customer_id = min (fp_customers p) (1 + \<lfloor>fl (py_pow x exponent * of_int (fp_customers p))\<rfloor>)"
  have exponent: "0 \<le> exponent" using p(1) unfolding exponent_def by (intro fl.rnd_nonneg) simp
  have "0 \<le> \<lfloor>fl (py_pow x exponent * of_int (fp_customers p))\<rfloor>"
    using scaled_floor [of x exponent "fp_customers p"] prng_random [OF r x] exponent p by simp
  then have id: "1 \<le> customer_id" "customer_id \<le> fp_customers p" using p(2) by (simp_all add: customer_id_def)
  have guard: "\<not> (customers = [] \<or> int (length customers) < customer_id)" using id customers(1) p(2) by auto
  have "nat (customer_id - 1) < length customers" using id customers(1) by linarith
  then have "cu_region (customers ! nat (customer_id - 1)) \<in> set REGIONS"
    using customers(2) by (auto simp: list_all_iff customer_ok_def)
  then obtain j where j: "index_of (cu_region (customers ! nat (customer_id - 1))) REGIONS = Inr j" "CHANNELS ! j \<in> set CHANNELS"
    using index_of_channel by blast
  obtain correlated g2 where co: "chance r (fp_correlation_bps p) g1 = (correlated, g2)" by fastforce
  obtain channel g3 where ch: "(if correlated then rbind (index_of (cu_region (customers ! nat (customer_id - 1))) REGIONS) (\<lambda>i. Inr (CHANNELS ! i, g2))
      else Inr (pick r CHANNELS g2)) = Inr (channel, g3)" "channel \<in> set CHANNELS"
  proof (cases correlated)
    case True
    then show thesis using that [of "CHANNELS ! j" g2] j by simp
  next
    case False
    obtain c g3 where "pick r CHANNELS g2 = (c, g3)" by fastforce
    then show thesis using that [of c g3] False pick_mem [OF r, of CHANNELS g2 c g3] by (simp add: CHANNELS_def)
  qed
  obtain paid g4 where paid: "chance r (fp_paid_bps p) g3 = (paid, g4)" by fastforce
  obtain status g5 where status: "(if paid then (''paid'', g4) else pick r STATUSES g4) = (status, g5)" by fastforce
  obtain y g6 where y: "rng_random r g5 = (y, g6)" by fastforce
  obtain day g7 where day: "rng_randrange r 0 3651 g6 = (day, g7)" by fastforce
  obtain missing g8 where missing: "chance r (fp_null_bps p) g7 = (missing, g8)" by fastforce
  obtain n g9 where n: "rng_randrange r 0 40 g8 = (n, g9)" by fastforce
  have "fresh_payload r p customers i g = Inr (\<lparr>op_customer_id = customer_id,
      op_amount_cents = (if i mod 997 = 0 then 5000000 else if i mod 499 = 0 then 0 else min 5000000 \<lfloor>fl (py_pow y (fl (26 / 10)) * 5000001)\<rfloor>),
      op_status = status, op_channel = channel, op_created_day = day,
      op_coupon = (if missing then None else Some (coupon_code n))\<rparr>, if missing then g8 else g9)"
    unfolding fresh_payload_def Let_def exponent_def [symmetric] x case_prod_conv customer_id_def [symmetric] if_not_P [OF guard] co ch(1)
      rbind_Inr paid status y day missing n
    by simp
  note eq = this
  have "payload_ok p \<lparr>op_customer_id = customer_id,
      op_amount_cents = (if i mod 997 = 0 then 5000000 else if i mod 499 = 0 then 0 else min 5000000 \<lfloor>fl (py_pow y (fl (26 / 10)) * 5000001)\<rfloor>),
      op_status = status, op_channel = channel, op_created_day = day,
      op_coupon = (if missing then None else Some (coupon_code n))\<rparr>"
    by (rule fresh_payload_ok [OF r p eq])
  with eq ch(2) prng_range [OF r n] show ?thesis by (auto simp: payload_full_def)
qed

lemma gen_orders_total:
  assumes r: "prng_ok r" and p: "0 \<le> fp_skew_power_milli p" "1 \<le> fp_customers p" "fp_customers p \<le> 2 ^ 53"
    and customers: "int (length customers) = fp_customers p" "list_all customer_ok customers"
    and "pred_option (payload_full p) previous"
  shows "\<exists>os g'. gen_orders r p customers previous is g = Inr (os, g') \<and> list_all (\<lambda>(_, q). payload_full p q) os \<and> map fst os = is"
  using assms(7)
proof (induction "is" arbitrary: previous g)
  case (Cons i "is")
  obtain repeat g1 where rp: "(case previous of None \<Rightarrow> (False, g) | Some _ \<Rightarrow> chance r (fp_duplicate_bps p) g) = (repeat, g1)"
    by fastforce
  obtain q previous' g2 where q: "(if repeat then Inr (the previous, previous, g1)
       else rbind (fresh_payload r p customers i g1) (\<lambda>(q, g2). Inr (q, Some q, g2))) = Inr (q, previous', g2)"
    "payload_full p q" "pred_option (payload_full p) previous'"
  proof (cases repeat)
    case True
    then have "previous \<noteq> None" using rp by (auto split: option.splits)
    then show thesis using True that [of "the previous" previous g1] Cons.prems by auto
  next
    case False
    obtain q g2 where "fresh_payload r p customers i g1 = Inr (q, g2)" "payload_full p q"
      using fresh_payload_total [OF r p customers] by blast
    then show thesis using False that [of q "Some q" g2] by simp
  qed
  from Cons.IH [OF q(3), of g2] obtain os g' where "gen_orders r p customers previous' is g2 = Inr (os, g')"
    "list_all (\<lambda>(_, q). payload_full p q) os" "map fst os = is" by blast
  then show ?case using rp q(1,2) by simp
qed simp

section \<open>Parameters\<close>

text \<open>A value of the published type between the published endpoints.\<close>

definition in_published_range :: "parameter_range \<Rightarrow> param_value \<Rightarrow> bool" where
  "in_published_range pr v \<longleftrightarrow> type_of_value v = pr_value_type pr
     \<and> \<not> value_greater (pr_minimum pr) v \<and> \<not> value_greater v (pr_maximum pr)"

lemma ordered_pair_range:
  assumes "prng_ok r" "ordered_pair r n g = ((a, b), g')" "0 < n"
  shows "0 \<le> a \<and> a \<le> b \<and> b < n"
proof -
  obtain x g1 where x: "rng_randrange r 0 n g = (x, g1)" by fastforce
  obtain y g2 where y: "rng_randrange r 0 n g1 = (y, g2)" by fastforce
  show ?thesis using assms(2) x y prng_range [OF assms(1) x assms(3)] prng_range [OF assms(1) y assms(3)]
    by (auto simp: ordered_pair_def)
qed

lemma parameter_texts:
  "s \<in> set PARAMETER_STATUSES \<Longrightarrow> \<not> value_greater (StrValue ''failed'') (StrValue s) \<and> \<not> value_greater (StrValue s) (StrValue ''refunded'')"
  "s \<in> set REGIONS \<Longrightarrow> \<not> value_greater (StrValue ''apac'') (StrValue s) \<and> \<not> value_greater (StrValue s) (StrValue ''north-america'')"
  "s \<in> set CHANNELS \<Longrightarrow> \<not> value_greater (StrValue ''api'') (StrValue s) \<and> \<not> value_greater (StrValue s) (StrValue ''web'')"
  by (auto simp: PARAMETER_STATUSES_def REGIONS_def CHANNELS_def)

lemma family_ranges_cases:
  assumes "family_ranges family_id = Some ranges"
  obtains "family_id = ''paid-revenue-by-segment''" | "family_id = ''customer-order-threshold''"
    | "family_id = ''bounded-range-scan''" | "family_id = ''region-channel-aggregate''"
    | "family_id = ''nullable-coupon''" | "family_id = ''intentional-zero-result''"
  using assms unfolding family_ranges_def by (metis option.distinct(1))

lemma parameters_in_range:
  assumes r: "prng_ok r" and f: "family_ranges family_id = Some ranges"
  shows "\<exists>ps. parameters_for r family_id g = Inr ps \<and> list_all2 in_published_range ranges ps"
proof -
  obtain a b g1 where o3: "ordered_pair r 3651 g = ((a, b), g1)" by (metis surj_pair)
  obtain a' b' g1' where o5: "ordered_pair r 5000001 g = ((a', b'), g1')" by (metis surj_pair)
  obtain n1 h1 where n1: "rng_randrange r 0 5000001 g = (n1, h1)" by fastforce
  obtain n2 h2 where n2: "rng_randrange r 0 3651 g = (n2, h2)" by fastforce
  obtain b2 g2 where b2: "rng_randrange r 0 2 g1 = (b2, g2)" by fastforce
  obtain s1 g3 where s1: "pick r PARAMETER_STATUSES g2 = (s1, g3)" by fastforce
  obtain s2 h3 where s2: "pick r PARAMETER_STATUSES h1 = (s2, h3)" by fastforce
  obtain n3 h4 where n3: "rng_randrange r 1 13 h3 = (n3, h4)" by fastforce
  obtain s3 h5 where s3: "pick r PARAMETER_STATUSES g1' = (s3, h5)" by fastforce
  obtain t1 h6 where t1: "pick r REGIONS g = (t1, h6)" by fastforce
  obtain t2 h7 where t2: "pick r CHANNELS h6 = (t2, h7)" by fastforce
  note draws = o3 o5 n1 n2 b2 s1 s2 n3 s3 t1 t2
  have mem: "s1 \<in> set PARAMETER_STATUSES" "s2 \<in> set PARAMETER_STATUSES" "s3 \<in> set PARAMETER_STATUSES"
    "t1 \<in> set REGIONS" "t2 \<in> set CHANNELS"
    using pick_mem [OF r s1] pick_mem [OF r s2] pick_mem [OF r s3] pick_mem [OF r t1] pick_mem [OF r t2]
    by (simp_all add: PARAMETER_STATUSES_def REGIONS_def CHANNELS_def)
  note texts = parameter_texts(1) [OF mem(1)] parameter_texts(1) [OF mem(2)] parameter_texts(1) [OF mem(3)]
    parameter_texts(2) [OF mem(4)] parameter_texts(3) [OF mem(5)]
  note ranges = ordered_pair_range [OF r o3] ordered_pair_range [OF r o5] prng_range [OF r n1] prng_range [OF r n2] prng_range [OF r n3]
  show ?thesis
  proof (rule family_ranges_cases [OF f])
    assume "family_id = ''paid-revenue-by-segment''"
    then show ?thesis using f texts(1) ranges(1) by (auto simp: family_ranges_def parameters_for_def draws in_published_range_def mk_range_def)
  next
    assume "family_id = ''customer-order-threshold''"
    then show ?thesis using f texts(2) ranges(3,5) by (auto simp: family_ranges_def parameters_for_def draws in_published_range_def mk_range_def)
  next
    assume "family_id = ''bounded-range-scan''"
    then show ?thesis using f texts(3) ranges(2) by (auto simp: family_ranges_def parameters_for_def draws in_published_range_def mk_range_def)
  next
    assume "family_id = ''region-channel-aggregate''"
    then show ?thesis using f texts(4,5) by (auto simp: family_ranges_def parameters_for_def draws in_published_range_def mk_range_def)
  next
    assume "family_id = ''nullable-coupon''"
    then show ?thesis using f ranges(4) by (auto simp: family_ranges_def parameters_for_def draws in_published_range_def mk_range_def)
  next
    assume "family_id = ''intentional-zero-result''"
    then show ?thesis using f by (auto simp: family_ranges_def parameters_for_def in_published_range_def mk_range_def)
  qed
qed

section \<open>Fixtures\<close>

lemma valid_sha256_of_bytes: "valid_sha256_digest (''sha256:'' @ sha256_hex x)"
  by (auto simp: valid_sha256_digest_def starts_with_def list_all_iff sha256_hex_lower_hex)

lemmas valid_sha256_bytes_simp [simp] = valid_sha256_of_bytes [simplified append_Cons append_Nil]

lemma coupon_short: "0 \<le> n \<Longrightarrow> n < 40 \<Longrightarrow> length (coupon_code n) \<le> 100"
proof -
  assume "0 \<le> n" "n < 40"
  then have "nat n \<le> 40" by simp
  then have "length (nat_str (nat n)) \<le> 50" using length_nat_str [of "nat n"] by linarith
  then show "length (coupon_code n) \<le> 100" by (simp add: coupon_code_def)
qed

lemma generator_texts:
  "\<And>s. s \<in> set SEGMENTS \<Longrightarrow> length s \<le> 100" "\<And>s. s \<in> set REGIONS \<Longrightarrow> length s \<le> 100"
  "\<And>s. s \<in> set STATUSES \<Longrightarrow> length s \<le> 100" "\<And>s. s \<in> set CHANNELS \<Longrightarrow> length s \<le> 100"
  "\<And>s. Some s \<in> set TIERS \<Longrightarrow> length s \<le> 100"
  by (auto simp: SEGMENTS_def REGIONS_def STATUSES_def CHANNELS_def TIERS_def)

lemma customer_row_small:
  assumes "customer_ok c" "\<bar>cu_id c\<bar> \<le> 10000000"
  shows "list_all small_value (customer_row c) \<and> length (customer_row c) \<le> 7"
proof (cases "cu_tier c")
  case None
  then show ?thesis using assms by (auto simp: customer_row_def customer_ok_def generator_texts)
next
  case (Some t)
  then have "Some t \<in> set TIERS" using assms(1) by (simp add: customer_ok_def)
  then show ?thesis using assms Some by (auto simp: customer_row_def customer_ok_def generator_texts)
qed

lemma order_row_small:
  assumes "payload_full p q" "\<bar>i\<bar> \<le> 10000000" "fp_customers p \<le> 10000000"
  shows "list_all small_value (order_row (i, q)) \<and> length (order_row (i, q)) \<le> 7"
proof -
  have "length (op_status q) \<le> 100"
    using assms(1) generator_texts(3) by (auto simp: payload_full_def payload_ok_def)
  moreover have "small_value (case op_coupon q of None \<Rightarrow> RNull | Some t \<Rightarrow> RText t)"
    using assms(1) coupon_short by (cases "op_coupon q") (auto simp: payload_full_def)
  ultimately show ?thesis
    using assms generator_texts(4) by (simp add: order_row_def payload_full_def payload_ok_def)
qed

lemma families_valid:
  "list_all (\<lambda>f. qf_family_id f \<noteq> [] \<and> \<not> 63 < py_len (qf_family_id f) \<and> family_ranges (qf_family_id f) \<noteq> None
     \<and> valid_family_id (qf_family_id f)) QUERY_FAMILIES"
  by code_simp

lemma family_valid:
  assumes "family \<in> set QUERY_FAMILIES"
  shows "qf_family_id family \<noteq> []" "\<not> 63 < py_len (qf_family_id family)" "family_ranges (qf_family_id family) \<noteq> None"
    "valid_family_id (qf_family_id family)"
  using assms families_valid by (simp_all add: list_all_iff)

text \<open>The identifiers of the families are distinct, so looking one up finds it.\<close>

lemma find_distinct_key: "distinct (map k xs) \<Longrightarrow> x \<in> set xs \<Longrightarrow> find (\<lambda>y. k y = k x) xs = Some x"
  by (induction xs) force+

lemma families_distinct: "distinct (map qf_family_id QUERY_FAMILIES)"
  by (simp add: QUERY_FAMILIES_def)

lemma query_family_of_member: "family \<in> set QUERY_FAMILIES \<Longrightarrow> query_family_of (qf_family_id family) = Inr family"
  by (simp add: query_family_of_def find_distinct_key [OF families_distinct])

definition profile_ok :: "fixture_profile \<Rightarrow> bool" where
  "profile_ok p \<longleftrightarrow> 0 \<le> fp_skew_power_milli p \<and> 1 \<le> fp_customers p \<and> fp_customers p \<le> 1000000
     \<and> 0 \<le> fp_orders p \<and> fp_orders p \<le> 1000000 \<and> valid_safe_identifier (fp_fixture_id p)"

lemma profiles_ok: "profile_ok training_profile" "p \<in> set HOLDOUT_PROFILES \<Longrightarrow> profile_ok p"
  by (auto simp: profile_ok_def training_profile_def HOLDOUT_PROFILES_def mk_profile_def valid_safe_identifier_def
      char_class_defs)

section \<open>The schema accepts every generated row\<close>

text \<open>The two tables of \<open>SCHEMA_V2\<close> as data: what SQLite enforces when a row is inserted. \<open>SCHEMA_V2\<close>
  is their text (\<open>SCHEMA_V2_text\<close>).\<close>

datatype column_type = IntegerColumn | TextColumn

datatype column_check = Unchecked | OneOf "int list" | AtLeast int

record column =
  co_name :: string
  co_type :: column_type
  co_primary :: bool
  co_not_null :: bool
  co_check :: column_check

record sql_table =
  tb_name :: string
  tb_columns :: "column list"
  tb_foreign :: "(string \<times> string \<times> string) list"

definition V2_TABLES :: "sql_table list" where
  "V2_TABLES =
    [\<lparr>tb_name = ''customers'',
      tb_columns = [\<lparr>co_name = ''id'', co_type = IntegerColumn, co_primary = True, co_not_null = False, co_check = Unchecked\<rparr>,
        \<lparr>co_name = ''segment'', co_type = TextColumn, co_primary = False, co_not_null = True, co_check = Unchecked\<rparr>,
        \<lparr>co_name = ''region'', co_type = TextColumn, co_primary = False, co_not_null = True, co_check = Unchecked\<rparr>,
        \<lparr>co_name = ''active'', co_type = IntegerColumn, co_primary = False, co_not_null = True, co_check = OneOf [0, 1]\<rparr>,
        \<lparr>co_name = ''tier'', co_type = TextColumn, co_primary = False, co_not_null = False, co_check = Unchecked\<rparr>],
      tb_foreign = []\<rparr>,
     \<lparr>tb_name = ''orders'',
      tb_columns = [\<lparr>co_name = ''id'', co_type = IntegerColumn, co_primary = True, co_not_null = False, co_check = Unchecked\<rparr>,
        \<lparr>co_name = ''customer_id'', co_type = IntegerColumn, co_primary = False, co_not_null = True, co_check = Unchecked\<rparr>,
        \<lparr>co_name = ''amount_cents'', co_type = IntegerColumn, co_primary = False, co_not_null = True, co_check = AtLeast 0\<rparr>,
        \<lparr>co_name = ''status'', co_type = TextColumn, co_primary = False, co_not_null = True, co_check = Unchecked\<rparr>,
        \<lparr>co_name = ''channel'', co_type = TextColumn, co_primary = False, co_not_null = True, co_check = Unchecked\<rparr>,
        \<lparr>co_name = ''created_day'', co_type = IntegerColumn, co_primary = False, co_not_null = True, co_check = Unchecked\<rparr>,
        \<lparr>co_name = ''coupon_code'', co_type = TextColumn, co_primary = False, co_not_null = False, co_check = Unchecked\<rparr>],
      tb_foreign = [(''customer_id'', ''customers'', ''id'')]\<rparr>]"

fun check_text :: "string \<Rightarrow> column_check \<Rightarrow> string" where
  "check_text name Unchecked = []"
| "check_text name (OneOf is) = '' CHECK('' @ name @ '' IN ('' @ join '', '' (map int_str is) @ ''))''"
| "check_text name (AtLeast i) = '' CHECK('' @ name @ '' >= '' @ int_str i @ '')''"

definition column_text :: "column \<Rightarrow> string" where
  "column_text c = ''    '' @ co_name c @ (case co_type c of IntegerColumn \<Rightarrow> '' INTEGER'' | TextColumn \<Rightarrow> '' TEXT'')
     @ (if co_primary c then '' PRIMARY KEY'' else []) @ (if co_not_null c then '' NOT NULL'' else [])
     @ check_text (co_name c) (co_check c)"

definition foreign_text :: "string \<times> string \<times> string \<Rightarrow> string" where
  "foreign_text k = (let (child, parent, key) = k
     in ''    FOREIGN KEY('' @ child @ '') REFERENCES '' @ parent @ ''('' @ key @ '')'')"

definition table_text :: "sql_table \<Rightarrow> string" where
  "table_text t = text_lines [''CREATE TABLE '' @ tb_name t @ '' ('',
     join ('','' @ [CHR 0x0A]) (map column_text (tb_columns t) @ map foreign_text (tb_foreign t)), '');'']"

definition schema_text :: "sql_table list \<Rightarrow> string" where
  "schema_text ts = text_lines (map table_text ts)"

lemma SCHEMA_V2_text: "SCHEMA_V2 = schema_text V2_TABLES"
  by code_simp

text \<open>A value a column takes without an error or a conversion: of the column's type and a 64-bit integer or
  a short text, not NULL where that is refused, and passing the column's check (a NULL passes every check).\<close>

fun passes_check :: "column_check \<Rightarrow> int \<Rightarrow> bool" where
  "passes_check Unchecked i = True"
| "passes_check (OneOf is) i = (i \<in> set is)"
| "passes_check (AtLeast n) i = (n \<le> i)"

fun column_takes :: "column \<Rightarrow> row_value \<Rightarrow> bool" where
  "column_takes c RNull = (\<not> co_primary c \<and> \<not> co_not_null c)"
| "column_takes c (RInt i) = (co_type c = IntegerColumn \<and> - (2 ^ 63) \<le> i \<and> i < 2 ^ 63 \<and> passes_check (co_check c) i)"
| "column_takes c (RText s) = (co_type c = TextColumn \<and> length s \<le> 100 \<and> co_check c = Unchecked)"
| "column_takes c _ = False"

text \<open>The value of a named column in a row, and of the primary key.\<close>

definition column_value :: "sql_table \<Rightarrow> string \<Rightarrow> row_value list \<Rightarrow> row_value option" where
  "column_value t name row = map_of (zip (map co_name (tb_columns t)) row) name"

definition primary_key :: "sql_table \<Rightarrow> row_value list \<Rightarrow> row_value list" where
  "primary_key t row = map snd (filter (\<lambda>(c, _). co_primary c) (zip (tb_columns t) row))"

text \<open>Each reference of a row names a row of the parent table.\<close>

definition references_hold :: "(sql_table \<times> row_value list list) list \<Rightarrow> sql_table \<Rightarrow> row_value list \<Rightarrow> bool" where
  "references_hold db t row = list_all (\<lambda>(child, parent, key).
     list_ex (\<lambda>(t', rows). tb_name t' = parent \<and> list_ex (\<lambda>row'. column_value t' key row' = column_value t child row) rows) db)
     (tb_foreign t)"

text \<open>What the inserts of \<open>canonical_sqlite_database_bytes\<close> need in order not to raise: rows of the right
  width whose values their columns take, distinct primary keys and references that hold. The number of
  rows is bounded, as memory is.\<close>

definition schema_accepts :: "sql_table list \<Rightarrow> row_value list list list \<Rightarrow> bool" where
  "schema_accepts ts inserted \<longleftrightarrow> length ts = length inserted
     \<and> list_all (\<lambda>(t, rows). length rows \<le> 1000000
          \<and> list_all (\<lambda>row. list_all2 column_takes (tb_columns t) row \<and> references_hold (zip ts inserted) t row) rows
          \<and> distinct (map (primary_key t) rows)) (zip ts inserted)"

text \<open>The contract of the database writer: rows that the published schema accepts are written.\<close>

definition image_writes :: "sqlite_image \<Rightarrow> bool" where
  "image_writes sqlite_image \<longleftrightarrow> SCHEMA_V2 = schema_text V2_TABLES \<longrightarrow>
     (\<forall>customers orders. schema_accepts V2_TABLES [customers, orders] \<longrightarrow> is_ok (sqlite_image customers orders))"

text \<open>What a generated fixture is: the rows its profile asks for, parameters in the published ranges
  and a descriptor that commits to the rows' database image.\<close>

definition generated_for :: "sqlite_image \<Rightarrow> query_family \<Rightarrow> fixture_profile \<Rightarrow> generated_fixture \<Rightarrow> bool" where
  "generated_for sqlite_image family p f \<longleftrightarrow> gf_query_family f = family
     \<and> (\<exists>ranges. family_ranges (qf_family_id family) = Some ranges \<and> list_all2 in_published_range ranges (gf_parameters f))
     \<and> map cu_id (gf_customers f) = [1..fp_customers p] \<and> list_all customer_ok (gf_customers f)
     \<and> map fst (gf_orders f) = [1..fp_orders p] \<and> list_all (\<lambda>(_, q). payload_full p q) (gf_orders f)
     \<and> hf_fixture_id (gf_descriptor f) = fp_fixture_id p \<and> hf_row_count (gf_descriptor f) = fp_orders p
     \<and> valid_hidden_fixture (gf_descriptor f)
     \<and> (\<exists>x. sqlite_image (map customer_row (gf_customers f)) (map order_row (gf_orders f)) = Inr x
          \<and> hf_database_file_digest (gf_descriptor f) = Some (''sha256:'' @ sha256_hex x))
     \<and> logical_fixture_content_digest (map customer_row (gf_customers f)) (map order_row (gf_orders f))
         = Inr (hf_content_digest (gf_descriptor f))
     \<and> fixture_parameter_set_digest (qf_family_id family) (map json_of_value (gf_parameters f))
         = Inr (hf_parameter_set_digest (gf_descriptor f))"

lemma generated_rows_small:
  assumes "map cu_id customers = [1..fp_customers p]" "list_all customer_ok customers"
    and "map fst orders = [1..fp_orders p]" "list_all (\<lambda>(_, q). payload_full p q) orders" "profile_ok p"
    and "row \<in> set (map customer_row customers) \<union> set (map order_row orders)"
  shows "list_all small_value row \<and> length row \<le> 7"
proof -
  from assms(6) consider c where "c \<in> set customers" "row = customer_row c" | i q where "(i, q) \<in> set orders" "row = order_row (i, q)"
    by auto
  then show ?thesis
  proof cases
    case 1
    then have "cu_id c \<in> set [1..fp_customers p]" using assms(1) by (metis image_eqI set_map)
    then show ?thesis using 1 assms(2,5) by (intro customer_row_small [of c, folded 1(2)]) (auto simp: list_all_iff profile_ok_def)
  next
    case 2
    then have "i \<in> set [1..fp_orders p]" using assms(3) by (metis fst_conv image_eqI set_map)
    then show ?thesis using 2 assms(4,5) by (intro order_row_small [of p q i, folded 2(2)]) (auto simp: list_all_iff profile_ok_def)
  qed
qed

text \<open>Generated rows meet the schema.\<close>

lemma customer_row_taken:
  assumes "customer_ok c" "1 \<le> cu_id c" "cu_id c \<le> 1000000"
  shows "list_all2 column_takes (tb_columns (V2_TABLES ! 0)) (customer_row c)"
proof (cases "cu_tier c")
  case None
  then show ?thesis using assms generator_texts by (auto simp: V2_TABLES_def customer_row_def customer_ok_def)
next
  case (Some t)
  then have "Some t \<in> set TIERS" using assms(1) by (simp add: customer_ok_def)
  then show ?thesis using assms Some generator_texts by (auto simp: V2_TABLES_def customer_row_def customer_ok_def)
qed

lemma order_row_taken:
  assumes "payload_full p q" "1 \<le> i" "i \<le> 1000000" "fp_customers p \<le> 1000000"
  shows "list_all2 column_takes (tb_columns (V2_TABLES ! 1)) (order_row (i, q))"
proof -
  have "length (op_status q) \<le> 100"
    using assms(1) generator_texts(3) by (auto simp: payload_full_def payload_ok_def)
  moreover have "column_takes (tb_columns (V2_TABLES ! 1) ! 6) (case op_coupon q of None \<Rightarrow> RNull | Some t \<Rightarrow> RText t)"
    using assms(1) coupon_short by (cases "op_coupon q") (auto simp: payload_full_def V2_TABLES_def)
  ultimately show ?thesis
    using assms generator_texts(4) by (simp add: V2_TABLES_def order_row_def payload_full_def payload_ok_def)
qed

lemma generated_accepted:
  assumes "map cu_id customers = [1..fp_customers p]" "list_all customer_ok customers"
    and "map fst orders = [1..fp_orders p]" "list_all (\<lambda>(_, q). payload_full p q) orders" "profile_ok p"
  shows "schema_accepts V2_TABLES [map customer_row customers, map order_row orders]"
proof -
  define ct ot where "ct = V2_TABLES ! 0" and "ot = V2_TABLES ! 1"
  have tables: "V2_TABLES = [ct, ot]" by (simp add: ct_def ot_def V2_TABLES_def)
  have bounds: "fp_customers p \<le> 1000000" "fp_orders p \<le> 1000000" "0 \<le> fp_orders p" "1 \<le> fp_customers p"
    using assms(5) by (simp_all add: profile_ok_def)
  have "length customers = length [1..fp_customers p]" "length orders = length [1..fp_orders p]"
    using assms(1,3) by (metis length_map)+
  then have len: "length customers \<le> 1000000" "length orders \<le> 1000000" using bounds by simp_all
  have cu: "list_all2 column_takes (tb_columns ct) (customer_row c)" if "c \<in> set customers" for c
  proof -
    have "cu_id c \<in> set [1..fp_customers p]" using that assms(1) by (metis image_eqI set_map)
    then show ?thesis using that assms(2) bounds unfolding ct_def by (intro customer_row_taken) (auto simp: list_all_iff)
  qed
  have od: "list_all2 column_takes (tb_columns ot) (order_row e)" "references_hold [(ct, map customer_row customers), (ot, rows)] ot (order_row e)"
    if "e \<in> set orders" for e rows
  proof -
    obtain i q where e: "e = (i, q)" by fastforce
    have "i \<in> set [1..fp_orders p]" using that assms(3) unfolding e by (metis fst_conv image_eqI set_map)
    moreover have q: "payload_full p q" using that assms(4) by (auto simp: list_all_iff e)
    ultimately show "list_all2 column_takes (tb_columns ot) (order_row e)"
      using bounds unfolding ot_def e by (intro order_row_taken) auto
    have "op_customer_id q \<in> set (map cu_id customers)" using q unfolding assms(1) by (simp add: payload_full_def payload_ok_def)
    then obtain c where "c \<in> set customers" "cu_id c = op_customer_id q" by auto
    then show "references_hold [(ct, map customer_row customers), (ot, rows)] ot (order_row e)"
      by (auto simp: references_hold_def ct_def ot_def V2_TABLES_def column_value_def customer_row_def order_row_def e list_ex_iff)
  qed
  have pk: "primary_key ct (customer_row c) = [RInt (cu_id c)]" "primary_key ot (order_row e) = [RInt (fst e)]" for c e
    by (simp_all add: primary_key_def ct_def ot_def V2_TABLES_def customer_row_def order_row_def split: prod.split)
  have injective: "distinct (map (\<lambda>x. [RInt (k x)]) xs)" if "distinct (map k xs)" for k :: "'a \<Rightarrow> int" and xs
    using that by (auto simp: distinct_map inj_on_def)
  have "distinct (map cu_id customers)" "distinct (map fst orders)" unfolding assms(1,3) by simp_all
  then have keys: "distinct (map (primary_key ct) (map customer_row customers))" "distinct (map (primary_key ot) (map order_row orders))"
    using injective [of cu_id customers] injective [of fst orders] by (simp_all add: comp_def pk)
  have "tb_foreign ct = []" by (simp add: ct_def V2_TABLES_def)
  then show ?thesis using len cu od keys
    by (auto simp: schema_accepts_def tables list_all_iff references_hold_def [of _ ct])
qed

lemma generate_fixture_total:
  assumes r: "prng_ok r" and image: "image_writes sqlite_image" and p: "profile_ok p"
    and family: "family \<in> set QUERY_FAMILIES"
  shows "\<exists>f. generate_fixture r sqlite_image seed p family = Inr f \<and> generated_for sqlite_image family p f"
proof -
  have p': "0 \<le> fp_skew_power_milli p" "1 \<le> fp_customers p" "fp_customers p \<le> 2 ^ 53" "0 \<le> fp_orders p"
    using p by (simp_all add: profile_ok_def)
  obtain customers g1 where c: "gen_customers r [1..fp_customers p] (rng_seed r (int_from_bytes_big seed)) = (customers, g1)"
    by fastforce
  note ids = gen_customers_ids [OF c] and cok = gen_customers_ok [OF r c]
  have "length customers = length [1..fp_customers p]" using ids by (metis length_map)
  then have len: "int (length customers) = fp_customers p" using p' by simp
  obtain orders g2 where o1: "gen_orders r p customers None [1..fp_orders p] g1 = Inr (orders, g2)"
    "list_all (\<lambda>(_, q). payload_full p q) orders" "map fst orders = [1..fp_orders p]"
    using gen_orders_total [OF r p'(1-3) len cok, of None "[1..fp_orders p]" g1] by auto
  obtain ranges where ranges: "family_ranges (qf_family_id family) = Some ranges" using family_valid(3) [OF family] by auto
  obtain ps where ps: "parameters_for r (qf_family_id family) g2 = Inr ps" "list_all2 in_published_range ranges ps"
    using parameters_in_range [OF r ranges] by blast
  obtain content where content: "logical_fixture_content_digest (map customer_row customers) (map order_row orders) = Inr content"
    using logical_digest_total [OF generated_rows_small [OF ids cok o1(3,2) p]] unfolding is_ok_iff by blast
  then have "valid_sha256_digest content" by (auto simp: logical_fixture_content_digest_def rbind_eq_Inr)
  obtain x where x: "sqlite_image (map customer_row customers) (map order_row orders) = Inr x"
    using image generated_accepted [OF ids cok o1(3,2) p] unfolding image_writes_def is_ok_iff SCHEMA_V2_text by blast
  obtain pd where pd: "fixture_parameter_set_digest (qf_family_id family) (map json_of_value ps) = Inr pd" "valid_sha256_digest pd"
    using family_valid(1,2) [OF family] by (simp add: fixture_parameter_set_digest_def digest_json_def)
  have "length orders = length [1..fp_orders p]" using o1(3) by (metis length_map)
  then have n: "int (length orders) = fp_orders p" using p' by simp
  have "valid_hidden_fixture \<lparr>hf_fixture_id = fp_fixture_id p, hf_content_digest = content,
      hf_database_file_digest = Some (''sha256:'' @ sha256_hex x), hf_parameter_set_digest = pd, hf_row_count = int (length orders)\<rparr>"
    using p \<open>valid_sha256_digest content\<close> pd(2) by (simp add: valid_hidden_fixture_def profile_ok_def)
  then have "generate_fixture r sqlite_image seed p family = Inr \<lparr>gf_descriptor = \<lparr>hf_fixture_id = fp_fixture_id p,
        hf_content_digest = content, hf_database_file_digest = Some (''sha256:'' @ sha256_hex x), hf_parameter_set_digest = pd,
        hf_row_count = int (length orders)\<rparr>, gf_profile = p, gf_query_family = family, gf_parameters = ps,
      gf_customers = customers, gf_orders = orders\<rparr>" (is "_ = Inr ?f")
    by (simp add: generate_fixture_def Let_def c o1(1) ps(1) content x pd(1))
  moreover have "generated_for sqlite_image family p ?f"
    using ranges ps(2) ids cok o1(2,3) n x content pd(1) \<open>valid_hidden_fixture _\<close> by (simp add: generated_for_def)
  ultimately show ?thesis by blast
qed

text \<open>Every family expands every 32-byte seed, one fixture per profile, in the profiles' order.\<close>

lemma generate_hidden_fixtures_total:
  assumes "prng_ok r" "image_writes sqlite_image" "family \<in> set QUERY_FAMILIES" "length seed = 32"
  shows "\<exists>fs. generate_hidden_fixtures r sqlite_image (qf_family_id family) seed = Inr fs
    \<and> list_all2 (generated_for sqlite_image family) HOLDOUT_PROFILES fs"
proof -
  let ?gen = "\<lambda>p. generate_fixture r sqlite_image (derive_seed seed (fp_fixture_id p) (qf_family_id family)) p family"
  have "\<forall>p \<in> set HOLDOUT_PROFILES. \<exists>f. ?gen p = Inr f \<and> generated_for sqlite_image family p f"
    using generate_fixture_total [OF assms(1,2) _ assms(3)] profiles_ok(2) by blast
  then obtain g where g: "\<And>p. p \<in> set HOLDOUT_PROFILES \<Longrightarrow> ?gen p = Inr (g p) \<and> generated_for sqlite_image family p (g p)"
    by metis
  then have "rmap ?gen HOLDOUT_PROFILES = Inr (map g HOLDOUT_PROFILES)" by (intro rmap_map) simp
  moreover have "list_all2 (generated_for sqlite_image family) HOLDOUT_PROFILES (map g HOLDOUT_PROFILES)"
    using g by (auto simp: list_all2_conv_all_nth)
  ultimately show ?thesis
    using assms(3,4) by (simp add: generate_hidden_fixtures_def validate_hidden_seed_def query_family_of_member)
qed

lemma generate_training_total:
  assumes "prng_ok r" "image_writes sqlite_image" "family \<in> set QUERY_FAMILIES"
  shows "\<exists>f. generate_public_training_fixture r sqlite_image (qf_family_id family) = Inr f
    \<and> generated_for sqlite_image family training_profile f"
  using generate_fixture_total [OF assms(1,2) profiles_ok(1) assms(3)] assms(3)
  by (simp add: generate_public_training_fixture_def query_family_of_member)

text \<open>The fixture identifiers are the profiles', so they are distinct and as many as the profiles.\<close>

lemma hidden_fixture_ids:
  assumes "list_all2 (generated_for sqlite_image family) HOLDOUT_PROFILES fs"
  shows "map (hf_fixture_id \<circ> gf_descriptor) fs = map fp_fixture_id HOLDOUT_PROFILES" "length fs = 8"
    "distinct (map hf_fixture_id (map gf_descriptor fs))" "list_all valid_hidden_fixture (map gf_descriptor fs)"
proof -
  show ids: "map (hf_fixture_id \<circ> gf_descriptor) fs = map fp_fixture_id HOLDOUT_PROFILES"
    using assms by (induction rule: list_all2_induct) (simp_all add: generated_for_def)
  have "distinct (map fp_fixture_id HOLDOUT_PROFILES)" "length HOLDOUT_PROFILES = 8"
    by (simp_all add: HOLDOUT_PROFILES_def mk_profile_def)
  then show "distinct (map hf_fixture_id (map gf_descriptor fs))" "length fs = 8"
    using ids list_all2_lengthD [OF assms] by simp_all
  show "list_all valid_hidden_fixture (map gf_descriptor fs)"
    using assms by (induction rule: list_all2_induct) (simp_all add: generated_for_def)
qed

end
