(* ===== verification/SandboxTotal.thy ===== *)
theory SandboxTotal
  imports SandboxExec
begin

text \<open>
  Which exceptions leave \<open>execute_request\<close>: the handlers of its \<open>try\<close> catch what a SQLite engine
  and the file system documentedly raise, so a valid request whose integer parameters fit in 64
  bits gets a result unless the SQL parser raises something other than a \<open>ParseError\<close>. What the
  handlers do not cover (such an exception, an integer SQLite cannot bind, an unreadable database
  or generator source, a row that JSON cannot render) escapes.
\<close>

section \<open>Rules\<close>

lemma io_raises_bind_self:
  "io_raises m E \<Longrightarrow> (\<And>x w w'. m w = (Inr x, w') \<Longrightarrow> io_raises (f x) E) \<Longrightarrow> io_raises (io_bind m f) E"
  unfolding io_raises_def by (simp add: io_bind_Inl) blast

lemma io_raises_try_self:
  assumes "\<And>x w w'. m w = (Inr x, w') \<Longrightarrow> io_raises (k x) E" "\<And>w e w'. m w = (Inl e, w') \<Longrightarrow> io_raises (h e) E"
  shows "io_raises (io_try m h k) E"
  unfolding io_raises_def
proof (intro allI impI)
  fix w e w2
  assume "io_try m h k w = (Inl e, w2)"
  then consider x w1 where "m w = (Inr x, w1)" "k x w1 = (Inl e, w2)" | e1 w1 where "m w = (Inl e1, w1)" "h e1 w1 = (Inl e, w2)"
    by (auto simp: io_try_def split: prod.splits sum.splits)
  then show "E e" by cases (use assms in \<open>unfold io_raises_def, blast+\<close>)
qed

lemma io_raises_mono: "io_raises m E \<Longrightarrow> (\<And>e. E e \<Longrightarrow> E' e) \<Longrightarrow> io_raises m E'"
  unfolding io_raises_def by blast

lemma io_raises_catch_with:
  assumes "io_raises m E'" "\<And>e. E' e \<Longrightarrow> io_raises (h e) E"
  shows "io_raises (io_catch m h) E"
proof (rule io_raises_catch)
  fix w e w' assume "m w = (Inl e, w')"
  then have "E' e" using assms(1) unfolding io_raises_def by blast
  then show "io_raises (h e) E" by (rule assms(2))
qed

text \<open>Results of pure computations whose errors satisfy a predicate.\<close>

definition raises :: "'a result \<Rightarrow> (pyerr \<Rightarrow> bool) \<Rightarrow> bool" where
  "raises r E \<longleftrightarrow> (\<forall>e. r = Inl e \<longrightarrow> E e)"

lemma raises_simps [simp]: "raises (Inr x) E" "raises (Inl e) E \<longleftrightarrow> E e" "raises (rcheck b e) E \<longleftrightarrow> b \<or> E e"
  by (auto simp: raises_def rcheck_def)

lemma io_raises_lift': "raises r E \<Longrightarrow> io_raises (io_lift r) E"
  by (simp add: raises_def)

lemma raises_bind: "raises m E \<Longrightarrow> (\<And>x. m = Inr x \<Longrightarrow> raises (f x) E) \<Longrightarrow> raises (rbind m f) E"
  by (cases m) (auto simp: rbind_def)

lemma raises_rmap: "(\<And>x. x \<in> set xs \<Longrightarrow> raises (f x) E) \<Longrightarrow> raises (rmap f xs) E"
  by (induction xs) (auto intro!: raises_bind)

lemma raises_rfold: "(\<And>s x. x \<in> set xs \<Longrightarrow> raises (f s x) E) \<Longrightarrow> raises (rfold f s xs) E"
  by (induction xs arbitrary: s) (auto intro!: raises_bind)

section \<open>The errors the handlers catch\<close>

definition handled :: "pyerr \<Rightarrow> bool" where
  "handled e \<longleftrightarrow> exception_code e \<noteq> None"

lemma handled_simps [simp]:
  "handled (AdmissionError c)" "handled (ResultLimitExceeded c)" "handled (DatabaseError c)" "handled (OSError c)"
  "handled (ValueError c)" "handled (ResultOracleError c)" "handled (UnsupportedResultType c)"
  "\<not> handled (TypeError c)" "\<not> handled IndexError" "\<not> handled OverflowError" "\<not> handled DecimalOverflow"
  by (simp_all add: handled_def)

text \<open>What a parser raises besides a \<open>ParseError\<close>, for some text; no handler covers it.\<close>

definition parser_error :: "sql_parser \<Rightarrow> pyerr \<Rightarrow> bool" where
  "parser_error parse e \<longleftrightarrow> (\<exists>sql. parse sql = Raised e)"

definition tolerated :: "sql_parser \<Rightarrow> pyerr \<Rightarrow> bool" where
  "tolerated parse e \<longleftrightarrow> handled e \<or> parser_error parse e"

lemma handled_tolerated [simp]: "handled e \<Longrightarrow> tolerated parse e"
  by (simp add: tolerated_def)

lemma raised_tolerated [simp]: "parse sql = Raised e \<Longrightarrow> tolerated parse e"
  by (auto simp: tolerated_def parser_error_def)

lemma handle_failure_total:
  "handled e \<Longrightarrow> 0 \<le> d \<Longrightarrow> 0 \<le> a \<Longrightarrow> io_raises (handle_failure r d a e) (\<lambda>_. False)"
  by (auto simp: handled_def handle_failure_def io_raises_def sandbox_failure_def sandbox_result_check_def failure_result_def)

lemma handle_failure_raises:
  assumes "tolerated parse e" "0 \<le> d" "0 \<le> a"
  shows "io_raises (handle_failure r d a e) (parser_error parse)"
proof (cases "handled e")
  case True
  show ?thesis by (rule io_raises_mono [OF handle_failure_total [OF True assms(2,3)]]) simp
next
  case False
  then have "parser_error parse e" "exception_code e = None" using assms(1) by (simp_all add: tolerated_def handled_def)
  then show ?thesis by (simp add: handle_failure_def)
qed

lemma sandbox_failure_total: "0 \<le> d \<Longrightarrow> 0 \<le> a \<Longrightarrow> raises (sandbox_failure r code d a) E"
  by (simp add: sandbox_failure_def sandbox_result_check_def failure_result_def)

subsection \<open>Pure admission checks\<close>

lemma raises_reference_query: "raises (validate_reference_query parse sql) (tolerated parse)"
  unfolding validate_reference_query_def
  by (intro raises_bind) (auto split: parse_outcome.splits option.splits list.splits intro!: raises_bind)

lemma raises_bundle_schema: "raises (validate_bundle_schema b schema) handled"
  unfolding validate_bundle_schema_def
  by (rule raises_rfold) (auto simp: index_schema_check_def split: option.splits)

lemma raises_artifact_policy: "raises (validate_task_artifact_policy r) (\<lambda>e. admission_code e \<noteq> None)"
  unfolding validate_task_artifact_policy_def Let_def
  by (intro raises_bind raises_rfold) (auto simp: index_policy_check_def split: option.splits intro!: raises_bind)

lemma raises_schema_digest: "raises (schema_digest parse rows) (tolerated parse)"
proof -
  have "raises (schema_object parse row) (tolerated parse)" for row
    by (cases "(parse, row)" rule: schema_object.cases)
       (auto simp: Let_def split: parse_outcome.splits option.splits list.splits intro!: raises_bind)
  then show ?thesis unfolding schema_digest_def by (intro raises_bind raises_rmap) simp_all
qed

lemma raises_create_statements: "raises (create_statements parse sql) (tolerated parse)"
proof -
  have "raises (create_statement_check s) handled" for s
    by (auto simp: create_statement_check_def split: option.splits intro!: raises_bind)
  then have "raises (rmap create_statement_check ss) (tolerated parse)" for ss
    by (intro raises_rmap) (auto simp: raises_def)
  then show ?thesis unfolding create_statements_def by (auto split: parse_outcome.split list.split simp del: rmap.simps)
qed

lemma raises_compile_index: "raises (compile_index_sql spec) handled"
proof -
  have literal: "raises (compile_literal l) handled" for l by (cases l) auto
  have "raises (compile_predicate a) handled" for a
    by (cases "atom_operator a") (auto simp: compile_predicate_def intro!: raises_bind literal)
  then show ?thesis unfolding compile_index_sql_def Let_def
    by (auto split: option.splits intro!: raises_bind raises_rmap)
qed

lemma raises_measured: "raises (measured_result r f trials failure d c) handled"
  by (auto simp: measured_result_def sandbox_result_check_def intro!: raises_bind)

lemma raises_check_trial: "raises (check_trial r f s o1) handled"
  unfolding check_trial_def
  by (intro raises_bind) (auto split: option.splits intro!: raises_bind raises_measured)

lemma raises_finish: "raises (finish_trials r f s) handled"
  unfolding finish_trials_def by (auto split: option.splits intro!: raises_measured)

lemma raises_orders: "raises (balanced_interleave_orders n) handled"
  unfolding balanced_interleave_orders_def Let_def by (intro raises_bind) auto


section \<open>An engine that behaves as documented\<close>

text \<open>
  SQLite and the file system fail with database and operating system errors, or with the
  \<open>ValueError\<close>s of the standard library, on parameters that can be bound: an integer beyond 64
  bits makes \<open>sqlite3\<close> raise an \<open>OverflowError\<close>, so nothing is said of those; \<open>PRAGMA table_info\<close> rows name a column, plan rows carry
  a detail, and a query returns SQLite values, never a \<open>Decimal\<close>.
\<close>

definition bindable :: "parameter_value list \<Rightarrow> bool" where
  "bindable ps \<longleftrightarrow> list_all (\<lambda>p. case p of Some (IntValue i) \<Rightarrow> - (2 ^ 63) \<le> i \<and> i < 2 ^ 63 | _ \<Rightarrow> True) ps"

lemma bindable_Nil [simp]: "bindable []"
  by (simp add: bindable_def)

definition sqlite_cell :: "cell \<Rightarrow> bool" where
  "sqlite_cell c \<longleftrightarrow> (\<forall>d. c \<noteq> CDecimal d)"

definition sqlite_stream :: "result_stream \<Rightarrow> bool" where
  "sqlite_stream s \<longleftrightarrow> pred_option handled (rs_error s)
     \<and> list_all (\<lambda>row. case row of Row vs \<Rightarrow> list_all sqlite_cell vs | BadRow \<Rightarrow> True) (rs_rows s)"

definition engine_ok :: "('w, 'c) engine \<Rightarrow> bool" where
  "engine_ok E \<longleftrightarrow>
     (\<forall>p. io_raises (en_file_size E p) is_os_error \<and> io_all (en_file_size E p) (\<lambda>(n, _). 0 \<le> n))
     \<and> (\<forall>p d. io_raises (en_mkdtemp E p d) handled) \<and> (\<forall>p q. io_raises (en_copyfile E p q) handled)
     \<and> (\<forall>p b. io_raises (en_connect E p b) handled) \<and> (\<forall>c n b. io_raises (en_setconfig E c n b) handled)
     \<and> (\<forall>c b. io_raises (en_enable_load_extension E c b) handled) \<and> (\<forall>c n v. io_raises (en_setlimit E c n v) handled)
     \<and> (\<forall>c q. io_raises (en_execute E c q) handled) \<and> (\<forall>c. io_raises (en_commit E c) handled)
     \<and> (\<forall>c q ps. if bindable ps then io_raises (en_rows E c q ps) handled \<and> io_raises (en_query E c q ps) handled else True)
     \<and> (\<forall>c t. io_all (en_rows E c (table_info_sql t) []) (list_all (\<lambda>row. 1 < length row)))
     \<and> (\<forall>c q ps. io_all (en_rows E c (''EXPLAIN QUERY PLAN '' @ q) ps) (list_all (\<lambda>row. 3 < length row)))
     \<and> (\<forall>c q ps. io_all (en_query E c q ps) sqlite_stream)"

lemma engine_raises:
  assumes "engine_ok E"
  shows "io_raises (en_file_size E p) is_os_error" "io_raises (en_mkdtemp E p d) handled" "io_raises (en_copyfile E p q) handled"
    "io_raises (en_connect E p b) handled" "io_raises (en_setconfig E c n b) handled"
    "io_raises (en_enable_load_extension E c b) handled" "io_raises (en_setlimit E c n v) handled"
    "io_raises (en_execute E c q) handled" "io_raises (en_commit E c) handled"
    "bindable ps \<Longrightarrow> io_raises (en_rows E c q ps) handled" "bindable ps \<Longrightarrow> io_raises (en_query E c q ps) handled"
  using assms unfolding engine_ok_def by auto

text \<open>The same rules with the larger set of errors.\<close>

lemma io_raises_tolerated: "io_raises m handled \<Longrightarrow> io_raises m (tolerated parse)"
  by (erule io_raises_mono) simp

lemma raises_tolerated: "raises m handled \<Longrightarrow> raises m (tolerated parse)"
  by (auto simp: raises_def)

lemma engine_file_size: "engine_ok E \<Longrightarrow> en_file_size E p w = (Inr (n, b), w') \<Longrightarrow> 0 \<le> n"
  unfolding engine_ok_def by (elim conjE) (auto dest!: spec [of _ p] io_allD)

lemma os_error_handled: "is_os_error e \<Longrightarrow> handled e"
  by (cases e) simp_all

lemma open_connection_raises: "engine_ok E \<Longrightarrow> io_raises (open_connection E path ro policy) handled"
  unfolding open_connection_def apply_sqlite_limits_def
  by (intro io_raises_bind io_raises_each) (simp_all add: engine_raises case_prod_beta)

lemma install_deadline_raises: "io_raises (install_deadline E c t) X"
  unfolding install_deadline_def by auto

lemma phase_raises:
  "engine_ok E \<Longrightarrow> io_raises (enable_setup_phase E c schema policy) handled"
  "engine_ok E \<Longrightarrow> io_raises (enable_query_phase E c schema policy) handled"
  unfolding enable_setup_phase_def enable_query_phase_def
  by (intro io_raises_bind; simp add: engine_raises install_deadline_raises)+

lemma safe_database_size_raises:
  "engine_ok E \<Longrightarrow> io_raises (safe_database_size E policy path) (\<lambda>e. worker_failure_code e \<noteq> None)"
  unfolding safe_database_size_def
  using engine_raises(1) by (fastforce intro!: io_raises_try simp: io_raises_def split: prod.splits if_splits)

lemma safe_database_size_nonneg:
  "engine_ok E \<Longrightarrow> safe_database_size E policy path w = (Inr n, w') \<Longrightarrow> 0 \<le> n"
  using engine_file_size by (auto simp: safe_database_size_def io_simps split: if_splits)


section \<open>The parts of a measurement\<close>

lemma read_schema_raises:
  assumes "engine_ok E"
  shows "io_raises (read_schema E c) handled"
proof -
  have names: "raises (rmap column_name columns) handled" if "list_all (\<lambda>row. 1 < length row) columns" for columns
    using that by (intro raises_rmap) (auto simp: column_name_def list_all_iff)
  have "io_all (en_rows E c (table_info_sql t) []) (list_all (\<lambda>row. 1 < length row))" for t
    using assms unfolding engine_ok_def by blast
  then have "io_raises (io_bind (en_rows E c (table_info_sql t) []) (\<lambda>columns.
      io_bind (io_lift (rmap column_name columns)) (\<lambda>names. io_return (t, names)))) handled" for t
    by (intro io_raises_bind_self [OF engine_raises(10) [OF assms bindable_Nil]] io_raises_bind io_raises_lift' names) (auto dest: io_allD)
  then have "io_raises (read_table E c row) handled" for row
    unfolding read_table_def by (simp split: list.split)
  then show ?thesis
    unfolding read_schema_def Let_def by (intro io_raises_bind io_raises_map io_raises_if) (simp_all add: engine_raises assms)
qed

lemma schema_fingerprint_raises: "engine_ok E \<Longrightarrow> io_raises (schema_fingerprint E c) (tolerated (en_parse E))"
  unfolding schema_fingerprint_def
  by (intro io_raises_bind io_raises_lift' raises_schema_digest io_raises_tolerated engine_raises bindable_Nil)

lemma expected_schema_raises: "engine_ok E \<Longrightarrow> io_raises (expected_schema_fingerprint E sql) (tolerated (en_parse E))"
  unfolding expected_schema_fingerprint_def
  by (intro io_raises_bind io_raises_finally io_raises_lift' raises_create_statements io_raises_each
      io_raises_catch_with [where E' = "tolerated (en_parse E)"])
     (simp_all add: engine_raises io_raises_tolerated schema_fingerprint_raises)

lemma inspect_fixture_raises: "engine_ok E \<Longrightarrow> io_raises (inspect_fixture E policy path r) (tolerated (en_parse E))"
  unfolding inspect_fixture_def
  by (intro io_raises_bind io_raises_finally io_raises_if io_raises_lift' raises_tolerated [OF raises_bundle_schema])
     (simp_all add: open_connection_raises read_schema_raises engine_raises io_raises_tolerated schema_fingerprint_raises
       expected_schema_raises)

text \<open>A result that fits a policy's bounds also fits its 8-byte length.\<close>

lemma raises_canonicalize:
  assumes "sqlite_stream s" "rp_max_output_bytes p < 2 ^ 60"
  shows "raises (canonicalize_result s p None) handled"
proof -
  have cell: "raises (encode_cell c) handled" if "sqlite_cell c" for c
    using that by (cases c) (auto simp: sqlite_cell_def)
  have step: "raises (oracle_step p st row) handled" if "row \<in> set (rs_rows s)" for st row
    using that assms(1) unfolding oracle_step_def Let_def
    by (intro raises_bind) (auto simp: sqlite_stream_def list_all_iff split: result_row.splits intro!: raises_bind raises_rmap cell)
  have columns: "raises (initial_columns s p None) handled"
    unfolding initial_columns_def by (cases "rs_description s") (auto intro!: raises_bind)
  have error: "raises (case rs_error s of Some e \<Rightarrow> Inl e | None \<Rightarrow> Inr ()) handled"
    using assms(1) by (cases "rs_error s") (simp_all add: sqlite_stream_def)
  have eight: "raises (to_bytes_big 8 (length b)) handled" if "\<not> rp_max_output_bytes p < int (length b)" for b :: bytes
    using that assms(2) by (simp add: to_bytes_big_def)
  have two: "raises (to_bytes_big 2 (length RESULT_DOMAIN_V2)) handled" by (simp add: to_bytes_big_def RESULT_DOMAIN_V2_def)
  show ?thesis unfolding canonicalize_result_def Let_def
    by (intro raises_bind columns raises_rfold step error)
       (auto split: option.split intro!: raises_bind two eight)
qed

lemma run_once_raises:
  assumes "engine_ok E" "rp_max_output_bytes rp < 2 ^ 60" "bindable parameters"
  shows "io_raises (run_once E c query parameters rp timeout) handled"
proof -
  have "io_all (en_query E c query parameters) sqlite_stream" using assms(1) unfolding engine_ok_def by blast
  then show ?thesis unfolding run_once_def
    by (intro io_raises_bind install_deadline_raises io_raises_get io_raises_return io_raises_lift'
          io_raises_bind_self [OF engine_raises(11) [OF assms(1,3)]] raises_canonicalize assms(2)) (auto dest: io_allD)
qed

lemma run_candidate_once_raises:
  assumes "engine_ok E" "rp_max_output_bytes rp < 2 ^ 60" "bindable parameters"
  shows "io_raises (run_candidate_once E c query parameters rp timeout) handled"
  unfolding run_candidate_once_def
proof (intro io_raises_bind io_raises_get io_raises_try)
  fix start e w w'
  assume "run_once E c query parameters rp timeout w = (Inl e, w')"
  then have "handled e" using run_once_raises [OF assms] unfolding io_raises_def by blast
  then show "io_raises (if \<not> interrupted e then io_raise e
      else io_bind (io_get (en_perf_counter_ns E)) (\<lambda>stop. io_return (None, max (elapsed_ms start stop) FLOAT_MIN, True))) handled"
    by (intro io_raises_if io_raises_bind) simp_all
qed (simp split: prod.split)

lemma run_trial_raises:
  assumes "engine_ok E" "rp_max_output_bytes (me_result_policy m) < 2 ^ 60" "bindable (me_parameters m)"
  shows "io_raises (run_trial E m order) handled"
  unfolding run_trial_def interleaved_runs_def candidate_warm_run_def
  by (intro io_raises_bind io_raises_finally io_raises_if io_raises_return open_connection_raises phase_raises
      run_once_raises run_candidate_once_raises assms)

lemma trial_loop_raises:
  assumes "engine_ok E" "rp_max_output_bytes (me_result_policy m) < 2 ^ 60" "bindable (me_parameters m)"
  shows "io_raises (trial_loop E m r f orders s) handled"
proof (induction orders arbitrary: s)
  case (Cons order orders)
  have "io_raises (case n of Inl early \<Rightarrow> io_return (Inl early) | Inr s' \<Rightarrow> trial_loop E m r f orders s') handled" for n
    using Cons.IH by (simp split: sum.split)
  then show ?case by (simp only: trial_loop.simps) (intro io_raises_bind run_trial_raises assms io_raises_lift' raises_check_trial)
qed simp

lemma install_indexes_raises: "engine_ok E \<Longrightarrow> io_raises (install_indexes E c policy indexes) handled"
  unfolding install_indexes_def
  by (intro io_raises_each io_raises_bind install_deadline_raises io_raises_lift' raises_compile_index engine_raises)

lemma setup_candidate_raises:
  assumes "engine_ok E" "0 \<le> d" "0 \<le> a" "bindable (sr_parameters r)"
  shows "io_raises (setup_candidate E policy r path schema query d a) handled"
proof -
  have plan: "raises (rmap plan_detail (take 64 rows)) handled" if "list_all (\<lambda>row. 3 < length row) rows" for rows
    using that by (intro raises_rmap) (fastforce simp: plan_detail_def list_all_iff dest: in_set_takeD)
  have explain: "io_all (en_rows E c (''EXPLAIN QUERY PLAN '' @ q) ps) (list_all (\<lambda>row. 3 < length row))" for c q ps
    using assms(1) unfolding engine_ok_def by blast
  have failure: "io_raises (io_bind (en_file_size E path) (\<lambda>(size_now, _).
      io_bind (io_lift (sandbox_failure r code d (max a (size_now - d)))) (\<lambda>x. io_return (Inl x)))) handled" for code
    using assms(2,3) engine_raises(1) [OF assms(1)]
    by (intro io_raises_bind io_raises_mono [OF engine_raises(1) [OF assms(1)] os_error_handled])
       (auto intro!: io_raises_bind io_raises_lift' sandbox_failure_total simp del: io_raises_lift)
  have plan_step: "io_raises (io_bind (en_rows E c (''EXPLAIN QUERY PLAN '' @ q) ps) (\<lambda>rows.
      io_bind (io_lift (rmap plan_detail (take 64 rows))) (\<lambda>p. io_return (k p)))) handled" if "bindable ps" for c q ps k
    by (rule io_raises_bind_self [OF engine_raises(10) [OF assms(1) that]])
       (intro io_raises_bind io_raises_lift' io_raises_return plan io_allD [OF explain])
  show ?thesis unfolding setup_candidate_def
    apply (intro io_raises_bind io_raises_finally open_connection_raises phase_raises io_raises_get install_indexes_raises
        engine_raises assms)
    apply (rule io_raises_try)
     apply (rule io_raises_bind, rule phase_raises, rule assms)
     apply (rule io_raises_bind, rule install_deadline_raises, rule plan_step, rule assms)
    subgoal for c u t1 u2 u3 t2 w e w'
      using failure by (cases "worker_failure_code e")
        (auto dest!: safe_database_size_raises [OF assms(1), unfolded io_raises_def, rule_format])
    done
qed

lemma measure_bundle_raises:
  assumes "engine_ok E" "rp_max_output_bytes rp < 2 ^ 60" "0 \<le> d" "0 \<le> a" "bindable (sr_parameters r)"
  shows "io_raises (measure_bundle E policy path r rp d a) (tolerated (en_parse E))"
proof -
  have finish: "io_raises (case n of Inl early \<Rightarrow> io_return early | Inr s \<Rightarrow> io_lift (finish_trials r f s)) handled" for f n
    by (cases n) (auto intro: io_raises_lift' raises_finish simp del: io_raises_lift)
  have identity: "io_raises (worker_identity E) handled"
    unfolding worker_identity_def by (intro io_raises_bind io_raises_get io_raises_return)
  have rest: "io_raises (case x of Inl failure \<Rightarrow> io_return failure
      | Inr facts \<Rightarrow> io_bind (worker_identity E) (\<lambda>worker_id.
          io_bind (io_lift (balanced_interleave_orders (sr_trial_count r))) (\<lambda>orders.
          io_bind (trial_loop E \<lparr>me_baseline_path = p, me_candidate_path = q, me_schema = schema, me_query = query,
              me_parameters = sr_parameters r, me_result_policy = rp, me_policy = policy\<rparr> r (facts\<lparr>sf_worker_id := worker_id\<rparr>)
              orders \<lparr>ls_reference = None, ls_candidate = None, ls_trials = []\<rparr>) (\<lambda>outcome.
          case outcome of Inl early \<Rightarrow> io_return early
            | Inr s \<Rightarrow> io_lift (finish_trials r (facts\<lparr>sf_worker_id := worker_id\<rparr>) s))))) handled"
    for x p q schema query
    by (cases x; simp only: sum.case)
       (intro io_raises_return io_raises_bind identity io_raises_lift' raises_orders trial_loop_raises finish assms(1);
        use assms(2,5) in simp)+
  show ?thesis unfolding measure_bundle_def Let_def
    by (intro io_raises_bind io_raises_finally io_raises_lift' raises_reference_query inspect_fixture_raises io_raises_get
        io_raises_tolerated [OF engine_raises(2)] io_raises_tolerated [OF engine_raises(3)]
        io_raises_tolerated [OF setup_candidate_raises] io_raises_tolerated [OF rest] assms)
qed

section \<open>What leaves the worker\<close>

lemma family_id_digest:
  assumes "valid_family_id family_id"
  shows "raises (fixture_parameter_set_digest family_id parameters) E"
proof -
  have "family_id \<noteq> []" "length family_id \<le> 63" using assms by (auto simp: valid_family_id_def)
  moreover have "py_len family_id \<le> length family_id" by (simp add: py_len_def)
  ultimately have "\<not> 63 < py_len family_id" by linarith
  then show ?thesis using \<open>family_id \<noteq> []\<close> by (simp add: fixture_parameter_set_digest_def)
qed

lemma audit_total:
  assumes "valid_public_task t" "valid_task_reveal v"
  shows "raises (audit_task_reveal t v None) E"
proof -
  have "raises (hidden_fixture_merkle_root (tr_hidden_fixtures v)) E"
    using assms(2) by (simp add: hidden_fixture_merkle_root_def valid_task_reveal_def)
  moreover have "raises (commitment_payload (pt_task_id t) (spec_of_public t) v) E"
    using assms unfolding commitment_payload_def Let_def
    by (intro raises_bind) (auto simp: valid_commitment_payload_def spec_of_public_def valid_public_task_def valid_task_reveal_def)
  ultimately show ?thesis unfolding audit_task_reveal_def regenerates_def
    by (auto intro!: raises_bind)
qed

text \<open>What the admission reads outside its handlers: the database file, the generator source and rows
  that JSON can render.\<close>

definition readable :: "('w, 'c) engine \<Rightarrow> string \<Rightarrow> bool" where
  "readable E path \<longleftrightarrow> io_raises (en_file_bytes E path) (\<lambda>_. False) \<and> io_raises (en_generator_source E) (\<lambda>_. False)
     \<and> io_raises (en_fixture_rows E path) (\<lambda>e. is_os_error e \<or> is_database_error e \<or> is_value_error e)
     \<and> io_all (en_fixture_rows E path) (\<lambda>(customers, orders). is_ok (logical_fixture_content_digest customers orders))"

lemma logical_content_raises:
  assumes "readable E path"
  shows "io_raises (logical_content_matches E path d) (\<lambda>e. is_os_error e \<or> is_database_error e \<or> is_value_error e)"
  unfolding io_raises_def
proof (intro allI impI)
  fix w e w'
  assume m: "logical_content_matches E path d w = (Inl e, w')"
  obtain db w1 where rows: "en_fixture_rows E path w = (db, w1)" by fastforce
  with m have v: "verify_logical_fixture_content_digest db d = Inl e" by (simp add: logical_content_matches_def)
  show "is_os_error e \<or> is_database_error e \<or> is_value_error e"
  proof (cases db)
    case (Inl e')
    then have "is_os_error e' \<or> is_database_error e' \<or> is_value_error e'"
      using assms rows unfolding readable_def io_raises_def by blast
    moreover have "e = e' \<or> is_value_error e"
      using v Inl by (auto simp: verify_logical_fixture_content_digest_def rbind_eq_Inl)
    ultimately show ?thesis by blast
  next
    case (Inr cs)
    obtain customers orders where cs: "cs = (customers, orders)" by fastforce
    have "is_ok (logical_fixture_content_digest customers orders)"
      using assms rows unfolding readable_def Inr cs by (auto dest: io_allD)
    then show ?thesis using v by (auto simp: verify_logical_fixture_content_digest_def Inr cs is_ok_iff rbind_eq_Inl)
  qed
qed

lemma result_policy_total:
  assumes "valid_sandbox_policy policy" "valid_sandbox_fields r"
  shows "raises (result_policy_check (request_result_policy r policy)) E"
  using assms unfolding result_policy_check_def request_result_policy_def
  by (auto simp: valid_sandbox_policy_def valid_sandbox_fields_def int_between_def PINNED_SQLITE_VERSION_def intro!: raises_bind)

lemma option_case_raises:
  "io_raises m E \<Longrightarrow> (\<And>x. io_raises (f x) E) \<Longrightarrow> io_raises (case v of None \<Rightarrow> m | Some x \<Rightarrow> f x) E"
  by (simp split: option.split)

lemma execute_request_raises:
  assumes E: "engine_ok E" "readable E path" and p: "valid_sandbox_policy policy" and r: "valid_sandbox_fields r"
    and b: "bindable (sr_parameters r)"
  shows "io_raises (execute_request E policy pinned path r) (parser_error (en_parse E))"
proof -
  have fields: "valid_public_task (sr_task r)" "valid_task_reveal (sr_reveal r)" "valid_family_id (pt_benchmark_family_id (sr_task r))"
    using r by (simp_all add: valid_sandbox_fields_def valid_public_task_def)
  have size: "rp_max_output_bytes (request_result_policy r policy) < 2 ^ 60"
    using p by (simp add: request_result_policy_def valid_sandbox_policy_def int_between_def)
  define a where "a = int (length (en_bundle_json E (sr_bundle r)))"
  have a: "0 \<le> a" by (simp add: a_def)
  note fail = io_raises_lift' [OF sandbox_failure_total]
  have none: "io_raises m (\<lambda>_. False) \<Longrightarrow> io_raises m (parser_error (en_parse E))" for m :: "('a, 'x) io"
    by (erule io_raises_mono) simp
  have admission: "io_raises (case admission_code e of Some code \<Rightarrow> io_lift (sandbox_failure r code d a) | None \<Rightarrow> io_raise e)
      (parser_error (en_parse E))" if "io_lift (validate_task_artifact_policy r) w = (Inl e, w')" "0 \<le> d" for e d and w w' :: 'a
    using that raises_artifact_policy [of r] a by (auto simp: raises_def intro!: fail simp del: io_raises_lift)
  have content: "io_raises (if is_os_error e \<or> is_database_error e \<or> is_value_error e
      then io_lift (sandbox_failure r code d a) else io_raise e) (parser_error (en_parse E))"
    if "logical_content_matches E path digest w = (Inl e, w')" "0 \<le> d" for digest e d code w w'
  proof -
    have "is_os_error e \<or> is_database_error e \<or> is_value_error e"
      using that(1) logical_content_raises [OF E(2), of digest] unfolding io_raises_def by blast
    then show ?thesis by (auto intro!: fail that(2) a simp del: io_raises_lift)
  qed
  have files: "io_raises (en_generator_source E) (parser_error (en_parse E))" "io_raises (sha256_file E path) (parser_error (en_parse E))"
    using E(2) unfolding readable_def sha256_file_def by (auto intro!: none io_raises_bind)
  show ?thesis
    unfolding execute_request_def Let_def a_def [symmetric]
  proof (rule io_raises_try_self, goal_cases)
    case (1 d w w')
    then have d: "0 \<le> d" by (rule safe_database_size_nonneg [OF E(1)])
    note ok = fail [OF d a]
    show ?case
      apply (rule io_raises_bind, rule io_raises_lift', rule audit_total, rule fields, rule fields)
      apply (rule io_raises_if, rule ok, rule io_raises_bind, rule files)
      apply (rule io_raises_if, rule ok, rule io_raises_if, rule ok, rule io_raises_if, rule ok, rule option_case_raises, rule ok)
      apply (rule io_raises_bind, rule files, rule io_raises_if, rule ok, rule io_raises_try_self)
       prefer 2
      subgoal by (rule content [OF _ d])
      apply (rule io_raises_if, rule ok, rule io_raises_bind, rule io_raises_lift', rule family_id_digest, rule fields)
      apply (rule io_raises_if, rule ok, rule io_raises_if, rule ok, rule io_raises_try_self)
       prefer 2
      subgoal by (rule admission [OF _ d])
      apply (rule io_raises_if, rule ok, rule io_raises_bind, rule io_raises_lift', rule result_policy_total, rule p, rule r)
      by (rule io_raises_catch_with [OF measure_bundle_raises [OF E(1) size d a b]], rule handle_failure_raises [OF _ d a])
  next
    case (2 w e w')
    then obtain code where "worker_failure_code e = Some code"
      using safe_database_size_raises [OF E(1), of policy path] unfolding io_raises_def by blast
    then show ?case using sandbox_failure_total [of 0 a r code "parser_error (en_parse E)"] a by (simp add: raises_def)
  qed
qed

end
