(* ===== verification/CommitmentTotal.thy ===== *)
theory CommitmentTotal
  imports Commitment
begin

text \<open>
  The commitment side never gets stuck: the Merkle loop of \<open>taskgen_v2.py\<close> ends after the
  logarithm of its leaves with one valid digest, and \<open>create_task_v2\<close> succeeds for every valid
  specification, an entropy source that returns what it is asked for and a factory of valid,
  distinctly named fixtures.
\<close>

section \<open>The Merkle loop\<close>

text \<open>The loop runs exactly the least number of rounds \<open>k\<close> with \<open>n \<le> 2^k\<close>.\<close>

lemma merkle_rounds:
  assumes "level \<noteq> []"
  shows "\<exists>k. merkle_loop level = (next_level ^^ k) level \<and> length (merkle_loop level) = 1
    \<and> length level \<le> 2 ^ k \<and> (k = 0 \<or> 2 ^ (k - 1) < length level)"
  using assms
proof (induction level rule: merkle_loop.induct)
  case (1 level)
  show ?case
  proof (cases "1 < length level")
    case False
    moreover have "length level \<noteq> 0" using "1.prems" by simp
    ultimately have "length level = 1" by linarith
    moreover have "merkle_loop level = level" using False by (subst merkle_loop.simps) simp
    ultimately show ?thesis by (intro exI [of _ 0]) simp
  next
    case True
    then have "length (next_level level) \<noteq> 0" by simp
    then have "next_level level \<noteq> []" by force
    with "1.IH" [OF True] obtain k where k: "merkle_loop (next_level level) = (next_level ^^ k) (next_level level)"
      "length (merkle_loop (next_level level)) = 1" "(length level + 1) div 2 \<le> 2 ^ k"
      "k = 0 \<or> 2 ^ (k - 1) < (length level + 1) div 2"
      by auto
    have step: "merkle_loop level = merkle_loop (next_level level)" using True by (subst merkle_loop.simps) simp
    have "length level \<le> 2 ^ Suc k" using k(3) by simp
    moreover have "2 ^ k < length level"
    proof (cases k)
      case (Suc j)
      then have "2 ^ j < (length level + 1) div 2" using k(4) by simp
      then have "2 ^ j + 1 \<le> (length level + 1) div 2" by simp
      then have "2 * (2 ^ j + 1) \<le> length level + 1" by simp
      then show ?thesis by (simp add: Suc)
    qed (use True in simp)
    ultimately show ?thesis using k(1,2) step by (intro exI [of _ "Suc k"]) (simp add: funpow_swap1)
  qed
qed

lemma pair_nodes_valid: "d \<in> set (pair_nodes level) \<Longrightarrow> valid_sha256_digest d"
  by (induction level rule: pair_nodes.induct) (auto simp: merkle_node_def)

lemma merkle_loop_valid: "list_all valid_sha256_digest level \<Longrightarrow> list_all valid_sha256_digest (merkle_loop level)"
proof (induction level rule: merkle_loop.induct)
  case (1 level)
  have "list_all valid_sha256_digest (next_level level)" by (auto simp: list_all_iff next_level_def dest: pair_nodes_valid)
  then show ?case using 1 by (subst merkle_loop.simps) simp
qed

lemma merkle_root_valid:
  assumes "2 \<le> length fs"
  shows "\<exists>d. hidden_fixture_merkle_root fs = Inr d \<and> valid_sha256_digest d"
proof -
  have "list_all valid_sha256_digest (fixture_leaves fs)" by (auto simp: list_all_iff fixture_leaves_def merkle_leaf_def)
  then have valid: "list_all valid_sha256_digest (merkle_loop (fixture_leaves fs))" by (rule merkle_loop_valid)
  have "fixture_leaves fs \<noteq> []" using length_fixture_leaves [of fs] assms by (cases "fixture_leaves fs") simp_all
  then have "length (merkle_loop (fixture_leaves fs)) = 1" using merkle_rounds [of "fixture_leaves fs"] by auto
  then have "hd (merkle_loop (fixture_leaves fs)) \<in> set (merkle_loop (fixture_leaves fs))" by (intro hd_in_set) auto
  then show ?thesis using valid assms by (auto simp: hidden_fixture_merkle_root_def list_all_iff)
qed

section \<open>Creation succeeds\<close>

definition valid_spec :: "task_spec \<Rightarrow> bool" where
  "valid_spec s \<longleftrightarrow> valid_hotkey (ts_validator_hotkey s) \<and> valid_sha256_digest (ts_engine_image_digest s)
     \<and> valid_sha256_digest (ts_generator_source_digest s) \<and> valid_sha256_digest (ts_benchmark_policy_digest s)
     \<and> valid_family_id (ts_benchmark_family_id s) \<and> valid_sql_text (ts_schema_sql s) \<and> valid_sql_text (ts_reference_sql s)
     \<and> valid_training_fixture (ts_public_training_fixture s) \<and> ts_parameter_ranges s \<noteq> []
     \<and> list_all valid_parameter_range (ts_parameter_ranges s) \<and> valid_published_statistics (ts_published_statistics s)
     \<and> valid_artifact_budget (spec_budget s) \<and> 0 < ts_deadline_unix_ms s"

text \<open>What \<open>create_task_v2\<close> draws: an identifier, a seed and another salt.\<close>

definition honest_entropy :: "'e entropy \<Rightarrow> 'e \<Rightarrow> bytes \<Rightarrow> bytes \<Rightarrow> bytes \<Rightarrow> bool" where
  "honest_entropy token_bytes e0 tid seed salt \<longleftrightarrow> seed \<noteq> salt
     \<and> (\<exists>e1 e2 e3. draw_exact token_bytes 16 e0 = Inr (e1, tid) \<and> draw_exact token_bytes 32 e1 = Inr (e2, seed)
          \<and> draw_exact token_bytes 32 e2 = Inr (e3, salt))"

lemma draw_exact_length: "draw_exact token_bytes n e = Inr (e', v) \<Longrightarrow> length v = n"
  by (auto simp: draw_exact_def split: prod.splits pyval.splits if_splits)

lemma valid_hex_of_bytes:
  "length v = 16 \<Longrightarrow> valid_opaque_id (bytes_hex v)" "length v = 32 \<Longrightarrow> valid_hex32 (bytes_hex v)"
  by (auto simp: valid_opaque_id_def valid_hex32_def list_all_iff bytes_hex_lower_hex)

lemma create_task_v2_ok:
  assumes s: "valid_spec s" and e: "honest_entropy token_bytes e0 tid seed salt"
    and f: "factory seed = Inr fs" "2 \<le> length fs" "length fs \<le> 64" "distinct (map hf_fixture_id fs)"
      "list_all valid_hidden_fixture fs"
  shows "is_ok (create_task_v2 s factory token_bytes e0)"
proof -
  obtain e1 e2 e3 where draws: "draw_exact token_bytes 16 e0 = Inr (e1, tid)" "draw_exact token_bytes 32 e1 = Inr (e2, seed)"
    "draw_exact token_bytes 32 e2 = Inr (e3, salt)" "salt \<noteq> seed"
    using e by (auto simp: honest_entropy_def)
  note hex = valid_hex_of_bytes(1) [OF draw_exact_length [OF draws(1)]]
    valid_hex_of_bytes(2) [OF draw_exact_length [OF draws(2)]] valid_hex_of_bytes(2) [OF draw_exact_length [OF draws(3)]]
  obtain d where d: "hidden_fixture_merkle_root fs = Inr d" "valid_sha256_digest d" using merkle_root_valid [OF f(2)] by blast
  have "card (set (map hf_fixture_id fs)) = length fs" using distinct_card [OF f(4)] by simp
  then show ?thesis using s f hex d draws(4)
    by (simp add: create_task_v2_def draws Let_def valid_task_reveal_def commitment_payload_def valid_commitment_payload_def
        valid_public_task_def public_of_spec_def valid_spec_def commitment_digest_def neq_Nil_conv Suc_le_eq)
qed

end
