(* ===== verification/Honest.thy ===== *)
theory Honest
  imports Evaluation BenchmarkTotal SandboxTotal CommitmentTotal
begin

text \<open>
  The honest path end to end: a task made by \<open>create_benchmark_task_v2\<close> re-derives from its own
  reveal, its creation never fails for a generator and an entropy source that keep their
  contracts, and eight well-formed worker results for it with timings of a moderate size are always
  scored.
\<close>

section \<open>A created task re-derives\<close>

lemma regenerate_describes:
  "regenerate_fixtures V family = describe_hidden_fixtures (ev_prng V) (ev_image V) (qf_family_id family)"
  by (rule ext) (simp add: regenerate_fixtures_def describe_hidden_fixtures_def)

lemma find_family_Inr: "find_family family_id = Inr family \<Longrightarrow> family \<in> set QUERY_FAMILIES \<and> qf_family_id family = family_id"
  by (auto simp: find_family_def find_Some_iff split: option.splits)

lemma find_family_member: "family \<in> set QUERY_FAMILIES \<Longrightarrow> find_family (qf_family_id family) = Inr family"
  by (simp add: find_family_def find_distinct_key [OF families_distinct])

lemma create_benchmark_Inr:
  assumes "create_benchmark_task_v2 V validator engine family_id deadline sp bp n budget grammar token_bytes e0 = Inr p"
  obtains family training ranges where "family \<in> set QUERY_FAMILIES" "qf_family_id family = family_id"
    "generate_public_training_fixture (ev_prng V) (ev_image V) family_id = Inr training"
    "published_parameter_ranges family_id = Inr ranges"
    "create_task_v2 (benchmark_task_spec (ev_source V) validator engine family deadline sp bp n (training_of training)
        ranges budget grammar) (describe_hidden_fixtures (ev_prng V) (ev_image V) family_id) token_bytes e0 = Inr p"
  using assms by (auto simp: create_benchmark_task_v2_def rbind_eq_Inr dest!: find_family_Inr)

lemma benchmark_spec_fields:
  assumes "create_task_v2 (benchmark_task_spec source validator engine family deadline sp bp n training ranges budget grammar)
      factory token_bytes e0 = Inr p"
  shows "pt_benchmark_family_id (pv_public p) = qf_family_id family" "pt_reference_sql (pv_public p) = qf_sql family"
    "pt_schema_sql (pv_public p) = SCHEMA_V2" "pt_parameter_ranges (pv_public p) = ranges"
    "pt_public_training_fixture (pv_public p) = training"
    "pt_generator_source_digest (pv_public p) = benchmark_generator_source_digest source"
    "pt_benchmark_policy_digest (pv_public p) = benchmark_runtime_policy_digest sp bp n (qf_ordered family) ''sqlite-binary''"
    "pt_engine_image_digest (pv_public p) = engine" "pt_validator_hotkey (pv_public p) = validator"
  using assms by (auto elim!: create_task_v2_Inr simp: public_of_spec_def benchmark_task_spec_def)

lemma created_benchmark_validates:
  assumes "create_benchmark_task_v2 V validator engine family_id deadline sp bp n budget grammar token_bytes e0 = Inr p"
  shows "\<exists>family. validate_and_regenerate_task V p False = Inr family \<and> qf_family_id family = family_id
    \<and> pt_generator_source_digest (pv_public p) = benchmark_generator_source_digest (ev_source V)
    \<and> pt_benchmark_policy_digest (pv_public p) = benchmark_runtime_policy_digest sp bp n (qf_ordered family) ''sqlite-binary''"
proof -
  obtain family training ranges where c: "family \<in> set QUERY_FAMILIES" "qf_family_id family = family_id"
    "generate_public_training_fixture (ev_prng V) (ev_image V) family_id = Inr training"
    "published_parameter_ranges family_id = Inr ranges"
    "create_task_v2 (benchmark_task_spec (ev_source V) validator engine family deadline sp bp n (training_of training)
        ranges budget grammar) (describe_hidden_fixtures (ev_prng V) (ev_image V) family_id) token_bytes e0 = Inr p"
    using assms by (rule create_benchmark_Inr)
  note fields = benchmark_spec_fields [OF c(5)]
  have "reveal_valid V p family False = Inr True"
    using create_audit [OF c(5)] c(2) by (simp add: reveal_valid_def regenerate_describes)
  then have "validate_and_regenerate_task V p False = Inr family"
    using c(2-4) find_family_member [OF c(1)] by (simp add: validate_and_regenerate_task_def Let_def fields)
  then show ?thesis using c(2) fields(6,7) by blast
qed

section \<open>Creation never fails\<close>

lemma sql_text_short:
  assumes "s \<noteq> []" "\<not> is_continuation (hd s)" "length s \<le> MAX_PUBLIC_SQL_BYTES_V2"
  shows "valid_sql_text s"
proof -
  have "hd s \<in> set (filter (\<lambda>c. \<not> is_continuation c) s)" using assms(1,2) by simp
  then have "1 \<le> py_len s" unfolding py_len_def by (metis One_nat_def Suc_leI length_pos_if_in_set)
  moreover have "py_len s \<le> length s" by (simp add: py_len_def)
  ultimately show ?thesis using assms(3) by (simp add: valid_sql_text_def)
qed

lemma published_sql: "family \<in> set QUERY_FAMILIES \<Longrightarrow> valid_sql_text (qf_sql family)" "valid_sql_text SCHEMA_V2"
proof -
  have "list_all (\<lambda>f. qf_sql f \<noteq> [] \<and> \<not> is_continuation (hd (qf_sql f)) \<and> length (qf_sql f) \<le> MAX_PUBLIC_SQL_BYTES_V2) QUERY_FAMILIES"
    by (simp add: QUERY_FAMILIES_def text_lines_def is_continuation_def MAX_PUBLIC_SQL_BYTES_V2_def)
  then show "valid_sql_text (qf_sql family)" if "family \<in> set QUERY_FAMILIES"
    using that by (auto simp: list_all_iff intro: sql_text_short)
  show "valid_sql_text SCHEMA_V2"
    by (rule sql_text_short) (simp_all add: SCHEMA_V2_def text_lines_def is_continuation_def MAX_PUBLIC_SQL_BYTES_V2_def)
qed

lemma published_ranges:
  assumes "family \<in> set QUERY_FAMILIES"
  shows "\<exists>ranges. published_parameter_ranges (qf_family_id family) = Inr ranges \<and> ranges \<noteq> []
    \<and> list_all valid_parameter_range ranges"
proof -
  obtain ranges where ranges: "family_ranges (qf_family_id family) = Some ranges" using family_valid(3) [OF assms] by auto
  have "list_all (\<lambda>f. case family_ranges f of Some rs \<Rightarrow> rs \<noteq> [] \<and> list_all valid_parameter_range rs | None \<Rightarrow> False)
    [''paid-revenue-by-segment'', ''customer-order-threshold'', ''bounded-range-scan'', ''region-channel-aggregate'',
     ''nullable-coupon'', ''intentional-zero-result'']" by code_simp
  then have valid: "ranges \<noteq> [] \<and> list_all valid_parameter_range ranges"
    using ranges by (cases rule: family_ranges_cases [OF ranges]) simp_all
  then have "rmap (\<lambda>r. rbind (rcheck (valid_parameter_range r) (ValueError ''validation error'')) (\<lambda>_. Inr r)) ranges = Inr ranges"
    by (subst rmap_map [of _ _ id]) (auto simp: list_all_iff)
  then show ?thesis using ranges valid query_family_of_member [OF assms] by (simp add: published_parameter_ranges_def)
qed

lemma published_facts:
  "valid_published_statistics published_statistics_v2" "length PUBLIC_TRAINING_SEED = 32"
  by (simp_all add: published_statistics_v2_def valid_published_statistics_def HOLDOUT_PROFILES_def mk_profile_def
      PUBLIC_TRAINING_SEED_def)

lemma public_training_id: "valid_safe_identifier ''training_public_v2''" by code_simp

lemma training_of_valid:
  assumes "generated_for img family training_profile f"
  shows "valid_training_fixture (training_of f)"
  using assms published_facts(2) public_training_id
  by (simp add: generated_for_def valid_training_fixture_def training_of_def valid_hidden_fixture_def training_profile_def
      mk_profile_def valid_hex_of_bytes)

lemma create_benchmark_total:
  assumes r: "prng_ok (ev_prng V)" "image_writes (ev_image V)" and family: "family \<in> set QUERY_FAMILIES"
    and s: "valid_hotkey validator" "valid_sha256_digest engine" "0 < deadline" "pred_option valid_artifact_budget budget"
    and e: "honest_entropy token_bytes e0 tid seed salt"
  shows "is_ok (create_benchmark_task_v2 V validator engine (qf_family_id family) deadline sp bp n budget grammar token_bytes e0)"
proof -
  obtain training where t: "generate_public_training_fixture (ev_prng V) (ev_image V) (qf_family_id family) = Inr training"
    "generated_for (ev_image V) family training_profile training" using generate_training_total [OF r family] by blast
  obtain ranges where ranges: "published_parameter_ranges (qf_family_id family) = Inr ranges" "ranges \<noteq> []"
    "list_all valid_parameter_range ranges" using published_ranges [OF family] by blast
  have "length seed = 32" using e by (auto simp: honest_entropy_def dest: draw_exact_length)
  then obtain fs where fs: "generate_hidden_fixtures (ev_prng V) (ev_image V) (qf_family_id family) seed = Inr fs"
    "list_all2 (generated_for (ev_image V) family) HOLDOUT_PROFILES fs"
    using generate_hidden_fixtures_total [OF r family] by blast
  then have described: "describe_hidden_fixtures (ev_prng V) (ev_image V) (qf_family_id family) seed = Inr (map gf_descriptor fs)"
    by (simp add: describe_hidden_fixtures_def)
  have budget: "valid_artifact_budget (case budget of Some b \<Rightarrow> b | None \<Rightarrow> default_artifact_budget)"
    using s(4) by (cases budget) (simp_all add: valid_artifact_budget_def default_artifact_budget_def v2_constants)
  have "valid_spec (benchmark_task_spec (ev_source V) validator engine family deadline sp bp n (training_of training) ranges budget grammar)"
    using s(1-3) ranges training_of_valid [OF t(2)] published_facts(1) published_sql(1) [OF family] published_sql(2) family_valid(4) [OF family] budget
    by (simp add: valid_spec_def benchmark_task_spec_def benchmark_generator_source_digest_def benchmark_runtime_policy_digest_def
        spec_budget_def)
  then have ok: "is_ok (create_task_v2 (benchmark_task_spec (ev_source V) validator engine family deadline sp bp n (training_of training)
      ranges budget grammar) (describe_hidden_fixtures (ev_prng V) (ev_image V) (qf_family_id family)) token_bytes e0)"
    by (rule create_task_v2_ok [where fs = "map gf_descriptor fs"])
      (use e described hidden_fixture_ids [OF fs(2)] in \<open>simp_all del: map_map\<close>)
  show ?thesis
    using ok ranges(1) training_of_valid [OF t(2)] published_facts(1)
    by (simp only: create_benchmark_task_v2_def find_family_member [OF family] t(1) rbind_Inr rcheck_True)
qed

section \<open>Worker results are always scored\<close>

text \<open>A result a worker may return for a fixture: bound to the request, with valid, finite timings.\<close>

fun finite_trial :: "sandbox_trial \<Rightarrow> bool" where
  "finite_trial t \<longleftrightarrow> valid_sandbox_trial t \<and> isfinite (st_baseline_cold_ms t) \<and> isfinite (st_candidate_cold_ms t)
     \<and> isfinite (st_baseline_warm_ms t) \<and> isfinite (st_candidate_warm_ms t)"

definition scorable :: "sandbox_request \<Rightarrow> sandbox_result \<Rightarrow> bool" where
  "scorable r x \<longleftrightarrow> verify_worker_echo r x = Inr () \<and> list_all finite_trial (sx_trials x)
     \<and> isfinite (sx_setup_ms x) \<and> float_le (Fin 0) (sx_setup_ms x) \<and> 0 \<le> sx_artifact_storage_bytes x"

lemma float_positive: "isfinite v \<Longrightarrow> float_lt (Fin 0) v \<Longrightarrow> positive_timing name v = Inr ()"
  by (cases v) (auto simp: positive_timing_def require_finite_non_negative_def)

lemma finite_trial_checks: "finite_trial t \<Longrightarrow> interleaved_trial_check (trial_from_sandbox t) = Inr ()"
  by (cases "st_worker_id t = []")
    (auto simp: interleaved_trial_check_def trial_from_sandbox_def valid_sandbox_trial_def float_positive py_len_def)

lemma scorable_evidence:
  assumes "scorable r x"
  shows "benchmark_evidence_from_sandbox x = Inr (evidence_from_sandbox x)" "valid_evidence (evidence_from_sandbox x)"
proof -
  have trials: "interleaved_trial_check (trial_from_sandbox t) = Inr ()" if "t \<in> set (sx_trials x)" for t
    using assms that by (simp add: scorable_def list_all_iff finite_trial_checks)
  have checked: "benchmark_evidence_check (evidence_from_sandbox x) = Inr ()"
    using assms by (cases "sx_setup_ms x")
      (auto simp: scorable_def benchmark_evidence_check_def evidence_from_sandbox_def require_finite_non_negative_def)
  show "benchmark_evidence_from_sandbox x = Inr (evidence_from_sandbox x)"
    using rmap_map [of "sx_trials x" "\<lambda>t. interleaved_trial_check (trial_from_sandbox t)" "\<lambda>_. ()"] trials checked
    by (simp add: benchmark_evidence_from_sandbox_def)
  show "valid_evidence (evidence_from_sandbox x)"
    using trials checked by (auto simp: valid_evidence_def evidence_from_sandbox_def list_all_iff)
qed

lemma score_result_ok:
  assumes "valid_policy bp" "moderate_policy bp" "scorable r x" "moderate_evidence (evidence_from_sandbox x)"
  shows "\<exists>e. score_result r bp fixture_id x = Inr e \<and> fe_fixture_id e = fixture_id \<and> fe_result e = x
    \<and> 0 \<le> bs_reward (fe_score e)"
proof -
  note evidence = scorable_evidence [OF assms(3)]
  obtain s where s: "score_benchmark (evidence_from_sandbox x) bp = Inr s"
    using moderate_scored [OF assms(1) evidence(2) assms(2,4)] by blast
  moreover have "0 \<le> bs_reward s" using score_benchmark_sound [OF assms(1) evidence(2) s] by (simp add: sound_score_def)
  ultimately show ?thesis using assms(3) evidence(1) by (simp add: score_result_def scorable_def)
qed

lemma finalize_total:
  assumes "\<And>i. i \<in> set evaluations \<Longrightarrow> 0 \<le> bs_reward (fe_score i)"
  shows "is_ok (finalize_holdout_evaluation task bundle family_id evaluations)"
proof (cases "evaluations = []")
  case False
  then obtain reward where "robust_holdout_reward (map (\<lambda>i. bs_reward (fe_score i)) evaluations) = Inr reward"
    using robust_holdout_reward_ok [of "map (\<lambda>i. bs_reward (fe_score i)) evaluations"] assms by auto
  then show ?thesis by (simp add: finalize_holdout_evaluation_def Let_def)
qed (simp add: finalize_holdout_evaluation_def)

text \<open>A submission that may be measured for a task: its own fields and the trial count.\<close>

definition submission_ok :: "private_task \<Rightarrow> optimization_bundle \<Rightarrow> benchmark_policy \<Rightarrow> int \<Rightarrow> bool" where
  "submission_ok p bundle bp n \<longleftrightarrow> validate_bundle bundle = Inr bundle \<and> ob_task_id bundle = pt_task_id (pv_public p)
     \<and> ob_engine_image_digest bundle = pt_engine_image_digest (pv_public p) \<and> valid_policy bp
     \<and> 6 \<le> n \<and> n \<le> 24 \<and> n mod 2 = 0"

definition holdout_request ::
  "private_task \<Rightarrow> optimization_bundle \<Rightarrow> query_family \<Rightarrow> int \<Rightarrow> benchmark_policy \<Rightarrow> generated_fixture \<Rightarrow> sandbox_request" where
  "holdout_request task bundle family n bp fixture = \<lparr>sr_protocol_version = PROTOCOL_VERSION_V2, sr_task = pv_public task,
     sr_reveal = pv_reveal task, sr_fixture = gf_descriptor fixture, sr_bundle = bundle,
     sr_parameters = map Some (gf_parameters fixture), sr_ordered = qf_ordered family, sr_collation = ''sqlite-binary'',
     sr_trial_count = n, sr_benchmark_policy = bp\<rparr>"

lemma generated_parameters:
  assumes "generated_for img family p f"
  shows "length (gf_parameters f) \<le> 32"
proof -
  obtain ranges where ranges: "family_ranges (qf_family_id family) = Some ranges" "list_all2 in_published_range ranges (gf_parameters f)"
    using assms by (auto simp: generated_for_def)
  have "length ranges \<le> 32"
    by (rule family_ranges_cases [OF ranges(1)]; use ranges(1) in \<open>simp add: family_ranges_def; hypsubst; simp\<close>)
  then show ?thesis using list_all2_lengthD [OF ranges(2)] by simp
qed

text \<open>The parameters of a generated fixture fit SQLite's integers.\<close>

definition small_range :: "parameter_range \<Rightarrow> bool" where
  "small_range pr \<longleftrightarrow> (case (pr_minimum pr, pr_maximum pr) of
     (IntValue a, IntValue b) \<Rightarrow> - (2 ^ 63) \<le> a \<and> b < 2 ^ 63
   | _ \<Rightarrow> pr_value_type pr \<noteq> IntegerType)"

lemma generated_bindable:
  assumes "generated_for img family p f"
  shows "bindable (map Some (gf_parameters f))"
proof -
  obtain ranges where ranges: "family_ranges (qf_family_id family) = Some ranges" "list_all2 in_published_range ranges (gf_parameters f)"
    using assms by (auto simp: generated_for_def)
  have "list_all small_range ranges"
    by (rule family_ranges_cases [OF ranges(1)]; use ranges(1) in \<open>simp add: family_ranges_def; hypsubst; simp add: small_range_def mk_range_def\<close>)
  with ranges(2) show ?thesis
    by (induction rule: list_all2_induct) (auto simp: bindable_def small_range_def in_published_range_def split: param_value.splits)
qed

lemma holdout_request_valid:
  assumes s: "submission_ok p bundle bp n" and t: "valid_public_task (pv_public p)" "valid_task_reveal (pv_reveal p)"
    "tr_task_id (pv_reveal p) = pt_task_id (pv_public p)"
    and f: "generated_for img family profile f" "gf_descriptor f \<in> set (tr_hidden_fixtures (pv_reveal p))"
  shows "fixture_request p bundle family n bp f (gf_descriptor f) = Inr (holdout_request p bundle family n bp f)"
    "valid_sandbox_fields (holdout_request p bundle family n bp f)"
proof -
  show "valid_sandbox_fields (holdout_request p bundle family n bp f)"
    using s t generated_parameters [OF f(1)] f(1)
    by (simp add: valid_sandbox_fields_def holdout_request_def submission_ok_def generated_for_def)
  then show "fixture_request p bundle family n bp f (gf_descriptor f) = Inr (holdout_request p bundle family n bp f)"
    using s t f(2) by (simp add: fixture_request_def sandbox_request_create_def require_balanced_trials_def
        submission_ok_def holdout_request_def)
qed

text \<open>Eight scorable results of an honest task are always turned into an evaluation.\<close>

definition worker_results_ok ::
  "('g, 'w) evaluator \<Rightarrow> private_task \<Rightarrow> optimization_bundle \<Rightarrow> benchmark_policy \<Rightarrow> int \<Rightarrow> sandbox_result list \<Rightarrow> bool" where
  "worker_results_ok V p bundle bp n results \<longleftrightarrow>
     (\<exists>family seed fixtures. find_family (pt_benchmark_family_id (pv_public p)) = Inr family
        \<and> bytes_fromhex (tr_secret_seed_hex (pv_reveal p)) = Inr seed
        \<and> generate_hidden_fixtures (ev_prng V) (ev_image V) (qf_family_id family) seed = Inr fixtures
        \<and> list_all2 (\<lambda>f x. scorable (holdout_request p bundle family n bp f) x) fixtures results)"

lemma rmap_total: "(\<And>x. x \<in> set xs \<Longrightarrow> \<exists>y. f x = Inr y \<and> Q y) \<Longrightarrow> \<exists>ys. rmap f xs = Inr ys \<and> (\<forall>y \<in> set ys. Q y)"
  by (induction xs) fastforce+

lemma honest_results_scored:
  assumes c: "create_benchmark_task_v2 V validator engine family_id deadline sp bp0 n0 budget grammar token_bytes e0 = Inr p"
    and g: "prng_ok (ev_prng V)" "image_writes (ev_image V)" and reload: "ev_reload V p = Inr p"
    and s: "submission_ok p bundle bp n" and results: "worker_results_ok V p bundle bp n results"
    and moderate: "moderate_policy bp" "list_all (\<lambda>x. moderate_evidence (evidence_from_sandbox x)) results"
  shows "is_ok (evaluate_bundle_from_sandbox_results V p bundle results bp n False)"
proof -
  obtain family where v: "validate_and_regenerate_task V p False = Inr family"
    using created_benchmark_validates [OF c] by blast
  obtain family' training ranges where family': "family' \<in> set QUERY_FAMILIES" "qf_family_id family' = family_id" and
    task: "create_task_v2 (benchmark_task_spec (ev_source V) validator engine family' deadline sp bp0 n0 (training_of training)
        ranges budget grammar) (describe_hidden_fixtures (ev_prng V) (ev_image V) family_id) token_bytes e0 = Inr p"
    using c by (rule create_benchmark_Inr)
  have id: "find_family (pt_benchmark_family_id (pv_public p)) = Inr family'"
    using find_family_member [OF family'(1)] benchmark_spec_fields(1) [OF task] by simp
  then have "family = family'" using v by (auto simp: validate_and_regenerate_task_def Let_def)
  obtain seed fixtures where seed: "bytes_fromhex (tr_secret_seed_hex (pv_reveal p)) = Inr seed"
    and fixtures: "generate_hidden_fixtures (ev_prng V) (ev_image V) (qf_family_id family) seed = Inr fixtures"
    and scored: "list_all2 (\<lambda>f x. scorable (holdout_request p bundle family n bp f) x) fixtures results"
    using results id \<open>family = family'\<close> unfolding worker_results_ok_def by auto
  obtain seed' fs where t: "bytes_fromhex (tr_secret_seed_hex (pv_reveal p)) = Inr seed'" "length seed' = 32"
    "describe_hidden_fixtures (ev_prng V) (ev_image V) family_id seed' = Inr fs" "tr_hidden_fixtures (pv_reveal p) = fs"
    "valid_public_task (pv_public p)" "valid_task_reveal (pv_reveal p)" "tr_task_id (pv_reveal p) = pt_task_id (pv_public p)"
    using task by (rule create_task_v2_Inr) (auto simp: public_of_spec_def)
  have generated: "list_all2 (generated_for (ev_image V) family) HOLDOUT_PROFILES fixtures"
    using generate_hidden_fixtures_total [OF g family'(1), of seed] t(1,2) seed fixtures \<open>family = family'\<close> by auto
  have members: "gf_descriptor f \<in> set (tr_hidden_fixtures (pv_reveal p))" if "f \<in> set fixtures" for f
    using t(1,3,4) seed fixtures family'(2) \<open>family = family'\<close> that by (auto simp: describe_hidden_fixtures_def)
  have each: "\<exists>e. rbind (fixture_request p bundle family n bp f (gf_descriptor f))
        (\<lambda>r. score_result r bp (hf_fixture_id (gf_descriptor f)) x) = Inr e \<and> 0 \<le> bs_reward (fe_score e)"
    if "(f, x) \<in> set (zip fixtures results)" for f x
  proof -
    have "f \<in> set fixtures" and x: "scorable (holdout_request p bundle family n bp f) x"
      using that scored by (auto simp: list_all2_iff dest: set_zip_leftD)
    moreover obtain profile where "generated_for (ev_image V) family profile f"
      using generated \<open>f \<in> set fixtures\<close> by (metis in_set_conv_nth list_all2_conv_all_nth)
    ultimately have r: "fixture_request p bundle family n bp f (gf_descriptor f) = Inr (holdout_request p bundle family n bp f)"
      using holdout_request_valid(1) [OF s t(5-7)] members by blast
    have "valid_policy bp" using s by (simp add: submission_ok_def)
    moreover have "moderate_evidence (evidence_from_sandbox x)"
      using moderate(2) that by (auto simp: list_all_iff dest: set_zip_rightD)
    ultimately have "\<exists>e. score_result (holdout_request p bundle family n bp f) bp (hf_fixture_id (gf_descriptor f)) x = Inr e
        \<and> fe_fixture_id e = hf_fixture_id (gf_descriptor f) \<and> fe_result e = x \<and> 0 \<le> bs_reward (fe_score e)"
      using moderate(1) x by (intro score_result_ok)
    then show ?thesis unfolding r by auto
  qed
  have len: "length results = length fixtures" using scored by (simp add: list_all2_lengthD)
  have "\<exists>evaluations. rmap (\<lambda>(i, f, x). rbind (Inr (gf_descriptor f)) (\<lambda>descriptor.
          rbind (fixture_request p bundle family n bp f descriptor) (\<lambda>r. score_result r bp (hf_fixture_id (gf_descriptor f)) x)))
        (zip [0..<length fixtures] (zip fixtures results)) = Inr evaluations
      \<and> (\<forall>e \<in> set evaluations. 0 \<le> bs_reward (fe_score e))"
    by (rule rmap_total) (use each in \<open>auto dest: set_zip_rightD\<close>)
  then show ?thesis using v seed fixtures len finalize_total
    by (auto simp: evaluate_bundle_from_sandbox_results_def reload)
qed

section \<open>What an evaluation is made of\<close>

text \<open>One holdout: the worker ran the request of the committed fixture, its result is bound to that
  request and was scored.\<close>

definition holdout_measured ::
  "'w worker_runner \<Rightarrow> private_task \<Rightarrow> optimization_bundle \<Rightarrow> query_family \<Rightarrow> int \<Rightarrow> benchmark_policy
    \<Rightarrow> generated_fixture \<Rightarrow> fixture_evaluation \<Rightarrow> bool" where
  "holdout_measured runner task bundle family n bp f fe \<longleftrightarrow> fe_fixture_id fe = hf_fixture_id (gf_descriptor f)
     \<and> (\<exists>r database w w' evidence. fixture_request task bundle family n bp f (gf_descriptor f) = Inr r
          \<and> runner database r w = (Inr (fe_result fe), w') \<and> verify_worker_echo r (fe_result fe) = Inr ()
          \<and> benchmark_evidence_from_sandbox (fe_result fe) = Inr evidence
          \<and> score_benchmark evidence bp = Inr (fe_score fe))"

definition holdouts_measured ::
  "('g, 'w) evaluator \<Rightarrow> 'w worker_runner \<Rightarrow> private_task \<Rightarrow> optimization_bundle \<Rightarrow> benchmark_policy \<Rightarrow> int
    \<Rightarrow> holdout_evaluation \<Rightarrow> bool" where
  "holdouts_measured V runner task bundle bp n e \<longleftrightarrow>
     (\<exists>family seed fixtures. validate_and_regenerate_task V task False = Inr family
        \<and> bytes_fromhex (tr_secret_seed_hex (pv_reveal task)) = Inr seed
        \<and> generate_hidden_fixtures (ev_prng V) (ev_image V) (qf_family_id family) seed = Inr fixtures
        \<and> list_all2 (holdout_measured runner task bundle family n bp) fixtures (he_fixture_evaluations e)
        \<and> finalize_holdout_evaluation task bundle (qf_family_id family) (he_fixture_evaluations e) = Inr e)
     \<and> ob_task_id bundle = pt_task_id (pv_public task)
     \<and> ob_engine_image_digest bundle = pt_engine_image_digest (pv_public task)
     \<and> bp_minimum_trials bp \<le> n \<and> even n"

lemma evaluate_fixture_measured:
  "evaluate_fixture V runner task bundle family n bp directory f w = (Inr fe, w')
   \<Longrightarrow> holdout_measured runner task bundle family n bp f fe"
  by (auto simp: evaluate_fixture_def Let_def io_bind_Inr score_result_def rbind_eq_Inr holdout_measured_def) blast

lemma evaluate_bundle_measured:
  "io_all (evaluate_bundle_on_committed_holdouts V runner task bundle bp n) (holdouts_measured V runner task bundle bp n)"
  unfolding io_all_def
proof (intro allI impI)
  fix w e w'
  assume "evaluate_bundle_on_committed_holdouts V runner task bundle bp n w = (Inr e, w')"
  then obtain family seed fixtures directory evaluations w1 w2 where
    parts: "validate_and_regenerate_task V task False = Inr family"
      "bytes_fromhex (tr_secret_seed_hex (pv_reveal task)) = Inr seed"
      "generate_hidden_fixtures (ev_prng V) (ev_image V) (qf_family_id family) seed = Inr fixtures"
      "finalize_holdout_evaluation task bundle (qf_family_id family) evaluations = Inr e"
    and ids: "ob_task_id bundle = pt_task_id (pv_public task)"
      "ob_engine_image_digest bundle = pt_engine_image_digest (pv_public task)" "bp_minimum_trials bp \<le> n" "n mod 2 = 0"
    and run: "io_map (evaluate_fixture V runner task bundle family n bp directory) fixtures w1 = (Inr evaluations, w2)"
    by (auto simp: evaluate_bundle_on_committed_holdouts_def io_simps split: if_splits)
  have "list_all2 (holdout_measured runner task bundle family n bp) fixtures evaluations"
    using io_map_each [OF run] by (rule list_all2_mono) (auto dest: evaluate_fixture_measured)
  moreover have "he_fixture_evaluations e = evaluations" using finalize_fields [OF parts(4)] by simp
  ultimately show "holdouts_measured V runner task bundle bp n e"
    using parts ids unfolding holdouts_measured_def even_iff_mod_2_eq_zero by blast
qed

end
