(* ===== verification/DecimalText.thy ===== *)
theory DecimalText
  imports FloatText
begin

text \<open>
  What the canonical text of a decimal says about its value. The exact value of a SQL cell is
  defined on its own, a decimal as a signed real; the canonical text of a decimal that needs no
  rounding in the default context reads back to that value, so the digest of a result fixes the
  exact values of its rows whenever all their decimals are of that kind.
\<close>

section \<open>Exact values\<close>

datatype exact_number = ExFinite bool real | ExInfinity bool | ExNaN

datatype exact_value =
    XNull | XInteger int | XDecimal exact_number | XNaN | XInfinity bool | XFloat "64 word" | XText string | XBlob bytes

text \<open>The sign is kept apart, because a negative zero is written as such.\<close>

fun decimal_value :: "decimal \<Rightarrow> exact_number" where
  "decimal_value (DFinite negative c e) = ExFinite negative (real c * power10 e)"
| "decimal_value (DInfinity negative) = ExInfinity negative"
| "decimal_value DNaN = ExNaN"

text \<open>Booleans are the integers SQLite stores for them, and every NaN is one value.\<close>

fun cell_value :: "cell \<Rightarrow> exact_value" where
  "cell_value CNull = XNull"
| "cell_value (CBool b) = XInteger (if b then 1 else 0)"
| "cell_value (CInt i) = XInteger i"
| "cell_value (CDecimal d) = XDecimal (decimal_value d)"
| "cell_value (CFloat w) = (if float_exponent w = 2047
     then (if float_mantissa w \<noteq> 0 then XNaN else XInfinity (float_sign w)) else XFloat w)"
| "cell_value (CStr s) = XText s"
| "cell_value (CMemoryview bs) = XBlob bs"
| "cell_value (CBytearray bs) = XBlob bs"
| "cell_value (CBytes bs) = XBlob bs"
| "cell_value (COther _) = XNull"

fun row_values :: "result_row \<Rightarrow> exact_value list" where
  "row_values (Row vs) = map cell_value vs"
| "row_values BadRow = []"

text \<open>Decimals the default context does not round: at most 28 digits, no exponent below its least.\<close>

fun exact_cell :: "cell \<Rightarrow> bool" where
  "exact_cell (CDecimal (DFinite _ c e)) \<longleftrightarrow> length (nat_str c) \<le> DECIMAL_PREC \<and> DECIMAL_ETINY \<le> e"
| "exact_cell _ \<longleftrightarrow> True"

fun exact_row :: "result_row \<Rightarrow> bool" where
  "exact_row (Row vs) \<longleftrightarrow> list_all exact_cell vs"
| "exact_row BadRow \<longleftrightarrow> True"

section \<open>Reading the canonical text\<close>

lemma strip_zeros_value:
  "strip_zeros c e = (q, e') \<Longrightarrow> real q * power10 e' = real c * power10 e \<and> (c \<noteq> 0 \<longrightarrow> q \<noteq> 0)"
proof (induction c e rule: strip_zeros.induct)
  case (1 c e)
  show ?case
  proof (cases "c \<noteq> 0 \<and> c mod 10 = 0 \<and> e < DECIMAL_EMAX")
    case True
    then have s: "strip_zeros (c div 10) (e + 1) = (q, e')" using "1.prems" by (subst (asm) strip_zeros.simps) simp
    have "c = 10 * (c div 10)" "c div 10 \<noteq> 0" using True by auto
    then have "real c = 10 * real (c div 10)" by linarith
    then show ?thesis using "1.IH" [OF True s] \<open>c div 10 \<noteq> 0\<close> by (simp add: power10_Suc)
  next
    case False
    then show ?thesis using "1.prems" by (subst (asm) strip_zeros.simps) auto
  qed
qed

text \<open>A text with its fraction, before trailing zeros are dropped.\<close>

definition point_text :: "string \<Rightarrow> string \<Rightarrow> string" where
  "point_text i f = i @ (if f = [] then [] else CHR ''.'' # f)"

lemma decimal_plain_parts:
  obtains i f where "decimal_plain c e = point_text i f" "all_digits i" "i \<noteq> []" "all_digits f"
    "real (str_nat i) + real (str_nat f) / 10 ^ length f = real c * power10 e"
proof -
  define t where "t = nat_str c"
  define k where "k = int (length t) + e"
  have dig: "all_digits t" "all_digits (take n t)" "all_digits (drop n t)" for n by (simp_all add: t_def)
  have val: "str_nat t = c" by (simp add: t_def)
  have zero: "all_digits ''0''" "str_nat ''0'' = 0" using str_nat_zeros [of 1] by (simp_all add: all_digits_def char_class_defs)
  consider (small) "k < 0" | (whole) "int (length t) \<le> k" | (mid) "0 \<le> k" "k < int (length t)" by linarith
  then show thesis
  proof cases
    case small
    let ?f = "replicate (nat (- k)) (CHR ''0'') @ t"
    have "length ?f = nat (- e)" "e < 0" using small by (auto simp: k_def)
    then have "real (str_nat ''0'') + real (str_nat ?f) / 10 ^ length ?f = real c * power10 e"
      by (simp add: str_nat_append val zero power10_def)
    moreover have "all_digits ?f" using dig(1) by (auto simp: all_digits_def list_all_iff char_class_defs)
    ultimately show thesis using small zero
      by (intro that [of "''0''" ?f]) (simp_all add: decimal_plain_def point_text_def t_def k_def Let_def)
  next
    case whole
    let ?i = "t @ replicate (nat k - length t) (CHR ''0'')"
    have "nat k - length t = nat e" "0 \<le> e" using whole by (auto simp: k_def)
    then have "real (str_nat ?i) + real (str_nat []) / 10 ^ length [] = real c * power10 e"
      by (simp add: str_nat_append val power10_def) (simp add: str_nat_def)
    moreover have "all_digits ?i" "t \<noteq> []" "all_digits []"
      using dig(1) by (auto simp: all_digits_def list_all_iff char_class_defs t_def)
    ultimately show thesis using whole
      by (intro that [of ?i "[]"]) (simp_all add: decimal_plain_def point_text_def t_def k_def Let_def)
  next
    case mid
    let ?f = "drop (nat k) t"
    have len: "length ?f = nat (- e)" "e < 0" using mid by (auto simp: k_def)
    then have f: "?f \<noteq> []" by auto
    have "str_nat t = str_nat (take (nat k) t) * 10 ^ length ?f + str_nat ?f"
      using str_nat_append [of "take (nat k) t" ?f] by simp
    then have v: "real (str_nat (take (nat k) t)) + real (str_nat ?f) / 10 ^ length ?f = real c * power10 e"
      using len val by (simp add: power10_def field_simps)
    show thesis
    proof (cases "k = 0")
      case True
      have "str_nat [] = 0" by (simp add: str_nat_def)
      then show thesis using mid f v zero True dig(3) [of 0]
        by (intro that [of "''0''" ?f]) (simp_all add: decimal_plain_def point_text_def t_def k_def Let_def)
    next
      case False
      then show thesis using mid f v dig
        by (intro that [of "take (nat k) t" ?f]) (simp_all add: decimal_plain_def point_text_def t_def k_def Let_def)
    qed
  qed
qed

lemma rstrip_none: "s = [] \<or> List.last s \<noteq> c \<Longrightarrow> rstrip_char c s = s"
  by (cases s rule: rev_cases) (auto simp: rstrip_char_def)

lemma rstrip_append: "rstrip_char c (s @ t) = (if rstrip_char c t = [] then rstrip_char c s else s @ rstrip_char c t)"
  by (auto simp: rstrip_char_def dropWhile_append)

lemma trimmed_text:
  assumes "all_digits i" "i \<noteq> []" "all_digits f" "f \<noteq> []"
  shows "rstrip_char (CHR ''.'') (rstrip_char (CHR ''0'') (i @ CHR ''.'' # f)) = i @ trim_fraction f"
proof -
  let ?r = "rstrip_char (CHR ''0'') f"
  have "rstrip_char (CHR ''0'') (CHR ''.'' # f) = CHR ''.'' # ?r"
    using rstrip_append [of "CHR ''0''" "''.''" f] by (auto simp: rstrip_char_def)
  then have a: "rstrip_char (CHR ''0'') (i @ CHR ''.'' # f) = i @ CHR ''.'' # ?r"
    by (simp add: rstrip_append)
  have i: "rstrip_char (CHR ''.'') i = i"
  proof (rule rstrip_none)
    have "is_digit (List.last i)" using assms(1) last_in_set [OF assms(2)] unfolding all_digits_def list_all_iff by blast
    then show "i = [] \<or> List.last i \<noteq> CHR ''.''" by auto
  qed
  show ?thesis
  proof (cases "?r = []")
    case True
    then show ?thesis using i unfolding a by (simp add: rstrip_append trim_fraction_def) (simp add: rstrip_char_def)
  next
    case False
    have "CHR ''.'' \<notin> set ?r" using all_digits_rstrip [OF assms(3), of "CHR ''0''"] by (auto simp: all_digits_def list_all_iff)
    then have "rstrip_char (CHR ''.'') ((i @ ''.'') @ ?r) = (i @ ''.'') @ ?r"
    proof (intro rstrip_none disjI2 notI)
      assume "List.last ((i @ ''.'') @ ?r) = CHR ''.''"
      then show False using False last_in_set [OF False] \<open>CHR ''.'' \<notin> set ?r\<close> by simp
    qed
    then show ?thesis using False unfolding a by (simp add: trim_fraction_def)
  qed
qed

text \<open>The number a canonical text means.\<close>

definition meant_decimal :: "string \<Rightarrow> exact_number" where
  "meant_decimal t =
     (if t = ''nan'' then ExNaN else if t = ''+infinity'' then ExInfinity False
      else if t = ''-infinity'' then ExInfinity True
      else case t of CHR ''-'' # u \<Rightarrow> ExFinite True (read_decimal u) | _ \<Rightarrow> ExFinite False (read_decimal t))"

lemma meant_decimal_text:
  assumes "u = d # r" "is_digit d"
  shows "meant_decimal ((if negative then ''-'' else []) @ u) = ExFinite negative (read_decimal u)"
  using assms by (auto simp: meant_decimal_def char_class_defs split: list.split char.split bool.split)

lemma canonical_decimal_meant:
  assumes "canonical_decimal d = Inr t" "exact_cell (CDecimal d)"
  shows "meant_decimal t = decimal_value d"
proof (cases d)
  case (DFinite negative c e)
  show ?thesis
  proof (cases "c = 0")
    case True
    have "read_decimal ''0'' = 0"
      by (simp add: read_decimal_def str_nat_def char_digit_def)
    then show ?thesis using assms(1) DFinite True meant_decimal_text [of "''0''" "CHR ''0''" "[]" negative]
      by (auto simp: char_class_defs split: if_splits)
  next
    case False
    have small: "length (nat_str c) \<le> DECIMAL_PREC" "DECIMAL_ETINY \<le> e" using assms(2) DFinite by simp_all
    obtain q e1 where fixed: "decimal_fix c e = Inr (q, e1)" using assms(1) DFinite False
      by (auto simp: decimal_normalize_def rbind_eq_Inr)
    have qe: "q = c \<and> e1 = e" using fixed small by (auto simp: decimal_fix_def Let_def split: if_splits)
    obtain q' e' where z: "strip_zeros c e = (q', e')" by fastforce
    note v = strip_zeros_value [OF z]
    obtain i f where p: "decimal_plain q' e' = point_text i f" "all_digits i" "i \<noteq> []" "all_digits f"
      "real (str_nat i) + real (str_nat f) / 10 ^ length f = real q' * power10 e'"
      by (rule decimal_plain_parts)
    let ?sg = "if negative then ''-'' else []"
    have t: "t = (let rendered = ?sg @ point_text i f in if CHR ''.'' \<in> set rendered
        then rstrip_char (CHR ''.'') (rstrip_char (CHR ''0'') rendered) else rendered)"
      using assms(1) DFinite False fixed qe z p(1) by (auto simp: decimal_normalize_def Let_def)
    have "t = ?sg @ i @ trim_fraction f"
    proof (cases "f = []")
      case True
      have "CHR ''.'' \<notin> set i" using p(2) by (auto simp: all_digits_def list_all_iff)
      then show ?thesis using True by (simp add: t point_text_def trim_fraction_def rstrip_char_def)
    next
      case False
      have "rstrip_char (CHR ''.'') (rstrip_char (CHR ''0'') (?sg @ i @ CHR ''.'' # f)) = ?sg @ i @ trim_fraction f"
      proof -
        have ne: "rstrip_char (CHR ''0'') (i @ CHR ''.'' # f) \<noteq> []" "i @ trim_fraction f \<noteq> []"
          using trimmed_text [OF p(2-4) False] p(3) by (auto simp: rstrip_char_def)
        then show ?thesis
          using trimmed_text [OF p(2-4) False] by (simp only: rstrip_append [of _ ?sg] if_False)
      qed
      then show ?thesis using False by (simp add: t point_text_def)
    qed
    moreover obtain a r where "i = a # r" "is_digit a" using p(2,3) by (cases i) (auto simp: all_digits_def)
    ultimately have "meant_decimal t = ExFinite negative (read_decimal (i @ trim_fraction f))"
      using meant_decimal_text [of "i @ trim_fraction f" a "r @ trim_fraction f" negative] by simp
    also have "read_decimal (i @ trim_fraction f) = real q' * power10 e'"
      using read_decimal_text [OF p(2,4), of "[]"] p(5) by (simp add: read_exponent_def power10_def)
    finally show ?thesis using v DFinite by simp
  qed
next
  case (DInfinity negative)
  then show ?thesis using assms(1) by (cases negative) (auto simp: meant_decimal_def)
qed (use assms(1) in \<open>auto simp: meant_decimal_def\<close>)

section \<open>The digest fixes the values\<close>

fun meant_value :: "storage_value \<Rightarrow> exact_value" where
  "meant_value SNull = XNull"
| "meant_value (SInteger i) = XInteger i"
| "meant_value (SDecimal t) = XDecimal (meant_decimal t)"
| "meant_value SNaN = XNaN"
| "meant_value (SInfinity negative) = XInfinity negative"
| "meant_value (SFloat w) = XFloat w"
| "meant_value (SText s) = XText s"
| "meant_value (SBlob bs) = XBlob bs"

lemma cell_value_meant: "is_ok (encode_cell c) \<Longrightarrow> exact_cell c \<Longrightarrow> cell_value c = meant_value (encoded_value c)"
  by (cases c) (auto simp: is_ok_iff rbind_eq_Inr canonical_decimal_meant)

lemma row_values_meant:
  assumes "is_ok (row_encoding r)" "exact_row r"
  shows "row_values r = map meant_value (row_encoded r)"
proof (cases r)
  case (Row vs)
  then obtain cells where "rmap encode_cell vs = Inr cells" using assms(1) by (auto simp: is_ok_iff rbind_eq_Inr)
  then have "is_ok (encode_cell c)" if "c \<in> set vs" for c
    using that by (auto simp: is_ok_iff rmap_Inr_iff in_set_conv_nth)
  then show ?thesis using Row assms(2) cell_value_meant by (auto simp: list_all_iff)
qed simp

lemma digest_determines_values:
  assumes s: "canonicalize_result s p projection = Inr r" and t: "canonicalize_result t p projection' = Inr q"
    and "cr_digest r = cr_digest q" "list_all exact_row (rs_rows s)" "list_all exact_row (rs_rows t)"
  shows "cr_column_count r = cr_column_count q
      \<and> (if rp_ordered p then map row_values (rs_rows s) = map row_values (rs_rows t)
         else mset (map row_values (rs_rows s)) = mset (map row_values (rs_rows t)))
    \<or> sha256_collision (oracle_preimage p (cr_column_count r) (stream_rows p s))
        (oracle_preimage p (cr_column_count q) (stream_rows p t))"
proof -
  have "is_ok (row_encoding x)" if "x \<in> set (rs_rows s) \<union> set (rs_rows t)" for x
    using s t that unfolding canonicalize_Inr good_rows_def list_all_iff by blast
  then have m: "map row_values (rs_rows s) = map (map meant_value) (map row_encoded (rs_rows s))"
    "map row_values (rs_rows t) = map (map meant_value) (map row_encoded (rs_rows t))"
    using assms(4,5) row_values_meant by (auto simp: list_all_iff)
  have "mset (map (map meant_value) xs) = mset (map (map meant_value) ys)" if "mset xs = mset ys" for xs ys
    using that by (metis mset_map)
  note same = this [of "map row_encoded (rs_rows s)" "map row_encoded (rs_rows t)"]
  show ?thesis
  proof (cases "rp_ordered p")
    case True
    then show ?thesis using digest_determines_rows [OF s t assms(3)] unfolding m if_P [OF True] by metis
  next
    case False
    then show ?thesis using digest_determines_rows [OF s t assms(3)] same unfolding m if_not_P [OF False] by blast
  qed
qed

end
