(* ===== verification/Worker_Samples.thy ===== *)
theory Worker_Samples
  imports Honest Samples Scoring_Properties DecimalText
begin

text \<open>
  Concrete inputs of the benchmark side: a created task, a submission to it, and an engine
  on which the worker answers the request that measures it.
\<close>

section \<open>A benchmark task\<close>

text \<open>A generator that always draws the least value, an image of constant bytes, and a world
  without files.\<close>

definition sample_prng :: "nat prng" where
  "sample_prng = \<lparr>rng_seed = id, rng_randrange = (\<lambda>lo hi g. (lo, Suc g)), rng_random = (\<lambda>g. (0, Suc g))\<rparr>"

definition sample_image :: sqlite_image where
  "sample_image customers orders = Inr ''SQLite format 3''"

definition sample_evaluator :: "(nat, unit) evaluator" where
  "sample_evaluator = \<lparr>ev_prng = sample_prng, ev_image = sample_image, ev_source = ''source'', ev_reload = Inr,
     ev_tempdir = io_return ''/tmp/holdouts'', ev_rmtree = (\<lambda>_ w. w), ev_files = (\<lambda>_. Map.empty), ev_set_files = (\<lambda>_ w. w)\<rparr>"

definition sample_family :: string where "sample_family = ''customer-order-threshold''"

definition sample_creation :: "private_task result" where
  "sample_creation = create_benchmark_task_v2 sample_evaluator sample_validator sample_digest sample_family 1000
     DEFAULT_SANDBOX_POLICY DEFAULT_BENCHMARK_POLICY 6 None None sample_entropy 0"

definition sample_benchmark :: private_task where
  "sample_benchmark = projr sample_creation"

lemma sample_generator [simp]: "prng_ok sample_prng" "image_writes sample_image"
  by (simp_all add: prng_ok_def sample_prng_def image_writes_def sample_image_def)

lemma sample_evaluator_simps [simp]:
  "ev_prng sample_evaluator = sample_prng" "ev_image sample_evaluator = sample_image" "ev_reload sample_evaluator p = Inr p"
  by (simp_all add: sample_evaluator_def)

lemma sample_family_known: "\<exists>family \<in> set QUERY_FAMILIES. qf_family_id family = sample_family"
  by (simp add: QUERY_FAMILIES_def sample_family_def)

lemma sample_honest: "honest_entropy sample_entropy 0 (replicate 16 (CHR 0x00)) (replicate 32 (CHR 0x01)) (replicate 32 (CHR 0x02))"
proof -
  have "draw_exact sample_entropy n k = Inr (Suc k, replicate n (char_of k))" for n k
    by (simp add: draw_exact_def sample_entropy_def)
  moreover have "char_of (0 :: nat) = CHR 0x00" "char_of (1 :: nat) = CHR 0x01" "char_of (2 :: nat) = CHR 0x02"
    by (simp_all add: char_of_eq_iff)
  ultimately show ?thesis by (simp add: honest_entropy_def numeral_2_eq_2)
qed

lemma sample_benchmark_created: "sample_creation = Inr sample_benchmark"
proof -
  obtain family where "family \<in> set QUERY_FAMILIES" "qf_family_id family = sample_family" using sample_family_known by blast
  then have "is_ok sample_creation"
    unfolding sample_creation_def
    using create_benchmark_total [of sample_evaluator family sample_validator sample_digest 1000 None, OF _ _ _ _ _ _ _ sample_honest]
    by simp
  then obtain p where "sample_creation = Inr p" by (auto simp: is_ok_iff)
  then show ?thesis unfolding sample_benchmark_def by (metis sum.sel(2))
qed

section \<open>A submission\<close>

definition sample_submission :: optimization_bundle where
  "sample_submission = projr (optimization_bundle_create (pt_task_id (pv_public sample_benchmark)) sample_digest
     [sample_index] sample_metadata)"

lemma sample_benchmark_task:
  "valid_public_task (pv_public sample_benchmark)" "pt_engine_image_digest (pv_public sample_benchmark) = sample_digest"
  "valid_opaque_id (pt_task_id (pv_public sample_benchmark))"
  "pt_benchmark_family_id (pv_public sample_benchmark) = sample_family"
proof -
  from sample_benchmark_created [unfolded sample_creation_def] show
    "valid_public_task (pv_public sample_benchmark)" "pt_engine_image_digest (pv_public sample_benchmark) = sample_digest"
    "valid_opaque_id (pt_task_id (pv_public sample_benchmark))"
    "pt_benchmark_family_id (pv_public sample_benchmark) = sample_family"
    by (auto elim!: create_benchmark_Inr create_task_v2_Inr simp: benchmark_spec_fields public_of_spec_def benchmark_task_spec_def
        valid_hex_of_bytes)
qed

lemma sample_submission_created:
  "optimization_bundle_create (pt_task_id (pv_public sample_benchmark)) sample_digest [sample_index] sample_metadata
   = Inr sample_submission"
proof -
  have "\<exists>b. optimization_bundle_create (pt_task_id (pv_public sample_benchmark)) sample_digest [sample_index] sample_metadata = Inr b"
    using sample_benchmark_task(3) by (intro bundle_create_ok) (simp_all add: MAX_INDEXES_V2_def)
  then show ?thesis unfolding sample_submission_def by (metis sum.sel(2))
qed

lemma created_bundle_fields:
  "optimization_bundle_create task_id engine indexes metadata = Inr b
   \<Longrightarrow> validate_bundle b = Inr b \<and> ob_task_id b = task_id \<and> ob_engine_image_digest b = engine"
  by (auto simp: optimization_bundle_create_def validate_bundle_def Let_def)

lemma sample_submission_ok: "submission_ok sample_benchmark sample_submission DEFAULT_BENCHMARK_POLICY 6"
proof -
  note created_bundle_fields [OF sample_submission_created]
  with default_policy_valid sample_benchmark_task(2) show ?thesis by (simp add: submission_ok_def)
qed


section \<open>An engine for its request\<close>

text \<open>The first hidden fixture of the task.\<close>

definition sample_query_family :: query_family where
  "sample_query_family = projr (find_family sample_family)"

definition sample_seed :: bytes where
  "sample_seed = projr (bytes_fromhex (tr_secret_seed_hex (pv_reveal sample_benchmark)))"

definition sample_holdout :: generated_fixture where
  "sample_holdout = hd (projr (generate_hidden_fixtures sample_prng sample_image sample_family sample_seed))"

lemma sample_query_family:
  "find_family sample_family = Inr sample_query_family" "sample_query_family \<in> set QUERY_FAMILIES"
  "qf_family_id sample_query_family = sample_family"
proof -
  obtain family where "family \<in> set QUERY_FAMILIES" "qf_family_id family = sample_family" using sample_family_known by blast
  then have "\<exists>family. find_family sample_family = Inr family" using find_family_member by metis
  then show f: "find_family sample_family = Inr sample_query_family" unfolding sample_query_family_def by (metis sum.sel(2))
  from find_family_Inr [OF f] show "sample_query_family \<in> set QUERY_FAMILIES" "qf_family_id sample_query_family = sample_family" by simp_all
qed

lemma sample_holdout:
  "generated_for sample_image sample_query_family (hd HOLDOUT_PROFILES) sample_holdout"
  "gf_descriptor sample_holdout \<in> set (tr_hidden_fixtures (pv_reveal sample_benchmark))"
proof -
  obtain seed where seed: "bytes_fromhex (tr_secret_seed_hex (pv_reveal sample_benchmark)) = Inr seed" "length seed = 32"
    "describe_hidden_fixtures sample_prng sample_image sample_family seed = Inr (tr_hidden_fixtures (pv_reveal sample_benchmark))"
    using sample_benchmark_created [unfolded sample_creation_def] by (auto elim!: create_benchmark_Inr create_task_v2_Inr)
  then have "sample_seed = seed" by (simp add: sample_seed_def)
  obtain fs where fs: "generate_hidden_fixtures sample_prng sample_image sample_family seed = Inr fs"
    "list_all2 (generated_for sample_image sample_query_family) HOLDOUT_PROFILES fs"
    using generate_hidden_fixtures_total [OF sample_generator sample_query_family(2) seed(2)] sample_query_family(3) by auto
  have nonempty: "fs \<noteq> []" using hidden_fixture_ids(2) [OF fs(2)] by auto
  have hd: "sample_holdout = hd fs" using fs(1) \<open>sample_seed = seed\<close> by (simp add: sample_holdout_def)
  have "sample_holdout \<in> set fs" unfolding hd by (rule list.set_sel(1) [OF nonempty])
  moreover have "generated_for sample_image sample_query_family (hd HOLDOUT_PROFILES) sample_holdout"
    using fs(2) nonempty unfolding hd by (metis list.rel_sel)
  moreover have "tr_hidden_fixtures (pv_reveal sample_benchmark) = map gf_descriptor fs"
    using seed(3) fs(1) by (simp add: describe_hidden_fixtures_def)
  ultimately show "generated_for sample_image sample_query_family (hd HOLDOUT_PROFILES) sample_holdout"
    "gf_descriptor sample_holdout \<in> set (tr_hidden_fixtures (pv_reveal sample_benchmark))" by simp_all
qed

definition sample_request_v2 :: sandbox_request where
  "sample_request_v2 = holdout_request sample_benchmark sample_submission sample_query_family 6 DEFAULT_BENCHMARK_POLICY sample_holdout"

text \<open>A database with one table and a parser that knows the schema and the query; every run of the
  query gives one row, and the clock stands still.\<close>

definition plain_node :: "string \<Rightarrow> ast_node" where
  "plain_node c = \<lparr>nd_classes = [c], nd_recursive = False, nd_join_kind = [], nd_join_on = NoOn, nd_sql_name = [], nd_name = []\<rparr>"

definition sample_parser :: sql_parser where
  "sample_parser sql = Parsed [Some \<lparr>stmt_root = plain_node (if sql = SCHEMA_V2 then ''Create'' else ''Query''), stmt_rest = [],
     stmt_kind = ''TABLE'', stmt_sql = ''SELECT 1''\<rparr>]"

definition sample_rows :: "string \<Rightarrow> string option list list" where
  "sample_rows sql = (if sql = LIST_TABLES then [[Some ''orders'']]
     else if sql = table_info_sql ''orders'' then map (\<lambda>c. [None, Some c]) [''customer_id'', ''amount'', ''status''] else [])"

definition one_row :: result_stream where
  "one_row = \<lparr>rs_description = Description 1, rs_rows = [Row [CInt 1]], rs_error = None\<rparr>"

definition sample_engine :: "(unit, unit) engine" where
  "sample_engine = \<lparr>en_file_size = (\<lambda>_. io_return (4096, True)), en_file_bytes = (\<lambda>_. io_return ''SQLite format 3''),
     en_fixture_rows = (\<lambda>_. io_return (map customer_row (gf_customers sample_holdout), map order_row (gf_orders sample_holdout))),
     en_generator_source = io_return ''source'', en_sqlite_version = PINNED_SQLITE_VERSION, en_is_dir = (\<lambda>_ w. (False, w)),
     en_mkdtemp = (\<lambda>_ _. io_return ''/tmp/worker''), en_copyfile = (\<lambda>_ _. io_return ()), en_rmtree = (\<lambda>_ w. w),
     en_connect = (\<lambda>_ _. io_return ()), en_setconfig = (\<lambda>_ _ _. io_return ()), en_enable_load_extension = (\<lambda>_ _. io_return ()),
     en_setlimit = (\<lambda>_ _ _. io_return ()), en_execute = (\<lambda>_ _. io_return ()), en_rows = (\<lambda>_ sql _. io_return (sample_rows sql)),
     en_query = (\<lambda>_ _ _. io_return one_row), en_set_authorizer = (\<lambda>_ _ w. w), en_set_progress_handler = (\<lambda>_ _ _ w. w),
     en_commit = (\<lambda>_. io_return ()), en_close = (\<lambda>_ w. w), en_perf_counter_ns = (\<lambda>w. (0, w)), en_monotonic = (\<lambda>w. (0, w)),
     en_getpid = (\<lambda>w. (7, w)), en_token_hex = (\<lambda>n w. (replicate (2 * n) (CHR ''a''), w)), en_bundle_json = (\<lambda>_. ''{}''),
     en_parse = sample_parser\<rparr>"

lemma sample_texts: "sample_rows LIST_TABLES = [[Some ''orders'']]" "sample_rows LIST_INDEXES = []" "sample_rows LIST_OBJECTS = []"
  "sample_rows (table_info_sql ''orders'') = map (\<lambda>c. [None, Some c]) [''customer_id'', ''amount'', ''status'']"
  "sample_rows (''EXPLAIN QUERY PLAN '' @ q) = []"
  by (simp_all add: sample_rows_def LIST_TABLES_def LIST_INDEXES_def LIST_OBJECTS_def table_info_sql_def sql_quoted_def text_lines_def)


lemma sample_request_fields [simp]:
  "sr_task sample_request_v2 = pv_public sample_benchmark" "sr_reveal sample_request_v2 = pv_reveal sample_benchmark"
  "sr_fixture sample_request_v2 = gf_descriptor sample_holdout" "sr_bundle sample_request_v2 = sample_submission"
  "sr_parameters sample_request_v2 = map Some (gf_parameters sample_holdout)" "sr_trial_count sample_request_v2 = 6"
  "sr_ordered sample_request_v2 = qf_ordered sample_query_family" "sr_collation sample_request_v2 = ''sqlite-binary''"
  "sr_benchmark_policy sample_request_v2 = DEFAULT_BENCHMARK_POLICY"
  by (simp_all add: sample_request_v2_def holdout_request_def)

lemma sample_spec_fields: "pt_schema_sql (pv_public sample_benchmark) = SCHEMA_V2"
  "pt_reference_sql (pv_public sample_benchmark) = qf_sql sample_query_family"
  "pt_generator_source_digest (pv_public sample_benchmark) = benchmark_generator_source_digest ''source''"
  "pt_benchmark_policy_digest (pv_public sample_benchmark)
     = benchmark_runtime_policy_digest DEFAULT_SANDBOX_POLICY DEFAULT_BENCHMARK_POLICY 6 (qf_ordered sample_query_family) ''sqlite-binary''"
  "pt_artifact_budget (pv_public sample_benchmark) = default_artifact_budget"
  "pt_artifact_grammar (pv_public sample_benchmark) = default_artifact_grammar"
  "audit_task_reveal (pv_public sample_benchmark) (pv_reveal sample_benchmark) None = Inr True"
proof -
  obtain family training ranges where family: "family \<in> set QUERY_FAMILIES" "qf_family_id family = sample_family" and
    c: "create_task_v2 (benchmark_task_spec ''source'' sample_validator sample_digest family 1000 DEFAULT_SANDBOX_POLICY
        DEFAULT_BENCHMARK_POLICY 6 (training_of training) ranges None None)
      (describe_hidden_fixtures sample_prng sample_image sample_family) sample_entropy 0 = Inr sample_benchmark"
    using sample_benchmark_created [unfolded sample_creation_def] by (rule create_benchmark_Inr) (simp add: sample_evaluator_def)
  have "family = sample_query_family" using find_family_member [OF family(1)] family(2) sample_query_family(1) by simp
  with benchmark_spec_fields [OF c] show "pt_schema_sql (pv_public sample_benchmark) = SCHEMA_V2"
    "pt_reference_sql (pv_public sample_benchmark) = qf_sql sample_query_family"
    "pt_generator_source_digest (pv_public sample_benchmark) = benchmark_generator_source_digest ''source''"
    "pt_benchmark_policy_digest (pv_public sample_benchmark)
       = benchmark_runtime_policy_digest DEFAULT_SANDBOX_POLICY DEFAULT_BENCHMARK_POLICY 6 (qf_ordered sample_query_family) ''sqlite-binary''"
    by simp_all
  show "pt_artifact_budget (pv_public sample_benchmark) = default_artifact_budget"
    "pt_artifact_grammar (pv_public sample_benchmark) = default_artifact_grammar"
    using c by (auto elim!: create_task_v2_Inr simp: public_of_spec_def benchmark_task_spec_def spec_budget_def spec_grammar_def)
  show "audit_task_reveal (pv_public sample_benchmark) (pv_reveal sample_benchmark) None = Inr True"
    by (rule create_audit [OF c]) simp
qed

end
