(* ===== verification/Evaluation_Properties.thy ===== *)
theory Evaluation_Properties
  imports Worker_Samples
begin

text \<open>
  The properties of the benchmark generator, the result oracle, the sandbox worker and the
  holdout evaluation, with the concrete inputs they are applied to.
\<close>

section \<open>The benchmark generator\<close>

text \<open>C34: the generator is total. For a pseudo-random generator that keeps its documented
  ranges and a database writer that writes all rows which satisfy the column types, NOT NULL, CHECK, PRIMARY KEY
  and FOREIGN KEY constraints of the published schema, every published family and every 32-byte seed give eight fixtures, one per profile in the
  published order: customers and orders are numbered consecutively as the profile asks, every order is
  within the published domains, the parameters lie in the ranges published for the family, and each
  descriptor is valid and commits to the bytes of the database image of its rows.\<close>

theorem hidden_fixtures_match_profiles:
  assumes "prng_ok r" "image_writes sqlite_image" "family \<in> set QUERY_FAMILIES" "length seed = 32"
  shows "\<exists>fs. generate_hidden_fixtures r sqlite_image (qf_family_id family) seed = Inr fs
    \<and> list_all2 (generated_for sqlite_image family) HOLDOUT_PROFILES fs \<and> length fs = 8
    \<and> distinct (map hf_fixture_id (map gf_descriptor fs))"
proof -
  obtain fs where fs: "generate_hidden_fixtures r sqlite_image (qf_family_id family) seed = Inr fs"
    "list_all2 (generated_for sqlite_image family) HOLDOUT_PROFILES fs"
    using generate_hidden_fixtures_total [OF assms] by blast
  then show ?thesis using hidden_fixture_ids(2,3) [OF fs(2)] by blast
qed

theorem hidden_fixtures_match_profiles_witness:
  "\<exists>fs. generate_hidden_fixtures sample_prng sample_image (qf_family_id (hd QUERY_FAMILIES)) (replicate 32 (CHR ''s'')) = Inr fs
    \<and> list_all2 (generated_for sample_image (hd QUERY_FAMILIES)) HOLDOUT_PROFILES fs \<and> length fs = 8
    \<and> distinct (map hf_fixture_id (map gf_descriptor fs))"
proof -
  have "hd QUERY_FAMILIES \<in> set QUERY_FAMILIES" by (simp add: QUERY_FAMILIES_def)
  from hidden_fixtures_match_profiles [OF sample_generator this] show ?thesis by simp
qed

text \<open>Creating a benchmark task never fails. With a generator that keeps its contract, an entropy
  source that returns the bytes asked for and a salt different from the seed, and valid arguments, a task
  is always created for every published family.\<close>

theorem benchmark_creation_never_fails:
  assumes "prng_ok (ev_prng V)" "image_writes (ev_image V)" "family \<in> set QUERY_FAMILIES"
    and "valid_hotkey validator" "valid_sha256_digest engine" "0 < deadline" "pred_option valid_artifact_budget budget"
    and "honest_entropy token_bytes e0 tid seed salt"
  shows "\<exists>p. create_benchmark_task_v2 V validator engine (qf_family_id family) deadline sp bp n budget grammar token_bytes e0 = Inr p"
  using create_benchmark_total [OF assms] by (simp add: is_ok_iff)

theorem benchmark_creation_never_fails_witness: "\<exists>p. sample_creation = Inr p"
proof -
  obtain family where family: "family \<in> set QUERY_FAMILIES" "qf_family_id family = sample_family"
    using sample_family_known by blast
  show ?thesis unfolding sample_creation_def
    using benchmark_creation_never_fails [of sample_evaluator family sample_validator sample_digest 1000 None, OF _ _ family(1) _ _ _ _ sample_honest]
    by (simp add: family(2))
qed

text \<open>C35: a created benchmark task re-derives from its own reveal. The evaluator that created a task
  accepts it: the reveal verifies, the eight fixtures are regenerated byte for byte from the revealed
  seed, and the query, schema, ranges and training fixture are the published ones of its family.\<close>

theorem created_benchmark_rederives:
  assumes "create_benchmark_task_v2 V validator engine family_id deadline sp bp n budget grammar token_bytes e0 = Inr p"
  shows "\<exists>family. validate_and_regenerate_task V p False = Inr family \<and> qf_family_id family = family_id
    \<and> pt_generator_source_digest (pv_public p) = benchmark_generator_source_digest (ev_source V)
    \<and> pt_benchmark_policy_digest (pv_public p) = benchmark_runtime_policy_digest sp bp n (qf_ordered family) ''sqlite-binary''"
  using assms by (rule created_benchmark_validates)

theorem created_benchmark_rederives_witness:
  "\<exists>family. validate_and_regenerate_task sample_evaluator sample_benchmark False = Inr family \<and> qf_family_id family = sample_family
    \<and> pt_generator_source_digest (pv_public sample_benchmark) = benchmark_generator_source_digest (ev_source sample_evaluator)
    \<and> pt_benchmark_policy_digest (pv_public sample_benchmark)
      = benchmark_runtime_policy_digest DEFAULT_SANDBOX_POLICY DEFAULT_BENCHMARK_POLICY 6 (qf_ordered family) ''sqlite-binary''"
  by (rule created_benchmark_rederives [OF sample_benchmark_created [unfolded sample_creation_def]])


section \<open>The exact-result oracle\<close>

definition sample_stream :: "int list \<Rightarrow> result_stream" where
  "sample_stream xs = \<lparr>rs_description = Description 1, rs_rows = map (\<lambda>i. Row [CInt i]) xs, rs_error = None\<rparr>"

definition multiset_policy :: result_policy where
  "multiset_policy = DEFAULT_RESULT_POLICY\<lparr>rp_ordered := False\<rparr>"

definition sample_result :: canonical_result where
  "sample_result = projr (canonicalize_result (sample_stream [1, 2]) multiset_policy None)"

lemma sample_canonical: "canonicalize_result (sample_stream [1, 2]) multiset_policy None = Inr sample_result"
proof -
  have rows: "json_dumps (JArr [jstrs [''integer'', int_str 1]]) = ''[[\"integer\",\"1\"]]''"
    "json_dumps (JArr [jstrs [''integer'', int_str 2]]) = ''[[\"integer\",\"2\"]]''" by code_simp+
  have "json_dumps (result_header multiset_policy 1 2) = ''{\"collation\":\"sqlite-binary\",\"column_count\":1,'' @
      ''\"engine\":\"sqlite-3.46.1\",\"order\":\"multiset\",\"protocol\":\"planrace/2\",\"row_count\":2}''" by code_simp
  then have header: "length (json_dumps (result_header multiset_policy 1 2)) = 128" by (simp only: append.simps list.size)
  have bytes: "length (canonical_payload multiset_policy 1 [a, b]) = 130 + length a + length b" for a b
    using header by (simp add: canonical_payload_def numeral_2_eq_2)
  have "is_ok (canonicalize_result (sample_stream [1, 2]) multiset_policy None)"
    using rows bytes
    by (simp add: canonicalize_result_def sample_stream_def multiset_policy_def DEFAULT_RESULT_POLICY_def initial_columns_def
        oracle_step_def row_json_def Let_def to_bytes_big_def RESULT_DOMAIN_V2_def)
  then obtain r where "canonicalize_result (sample_stream [1, 2]) multiset_policy None = Inr r" by (auto simp: is_ok_iff)
  then show ?thesis unfolding sample_result_def by (metis sum.sel(2))
qed

text \<open>C30: the result digest decides exact equality of results. Let two result streams have the same digest
  under one policy, and let all their decimals have at most 28 digits and an exponent of at least -1000026 (the
  precision and the least exponent of the context). Then they have the same columns and the same values: row by
  row when the query is ordered, as multisets of rows otherwise, unless the two canonical byte strings collide
  under SHA-256. The value of a cell is its number, text, bytes or kind of NaN itself; booleans are the integers
  0 and 1, the NaN of a float is one value, and equal decimals of different exponents are equal.\<close>

theorem result_digest_is_exact:
  assumes "canonicalize_result s p projection = Inr r" "canonicalize_result t p projection' = Inr q" "cr_digest r = cr_digest q"
    and "list_all exact_row (rs_rows s)" "list_all exact_row (rs_rows t)"
  shows "cr_column_count r = cr_column_count q
      \<and> (if rp_ordered p then map row_values (rs_rows s) = map row_values (rs_rows t)
         else mset (map row_values (rs_rows s)) = mset (map row_values (rs_rows t)))
    \<or> sha256_collision (oracle_preimage p (cr_column_count r) (stream_rows p s))
        (oracle_preimage p (cr_column_count q) (stream_rows p t))"
  using assms by (rule digest_determines_values)

text \<open>C31: an unordered result does not depend on the order of its rows. Streams with the same multiset of
  rows have the same canonical bytes and digest, and one is refused when the other is.\<close>

theorem row_order_is_irrelevant:
  assumes "\<not> rp_ordered p" "mset (rs_rows s) = mset (rs_rows t)" "rs_description s = rs_description t"
    "rs_error s = rs_error t"
  shows "canonicalize_result s p projection = Inr r \<longleftrightarrow> canonicalize_result t p projection = Inr r"
  using canonicalize_perm [OF assms(1) assms(2-4)] canonicalize_perm [OF assms(1) assms(2-4) [symmetric]] by blast

theorem row_order_is_irrelevant_witness: "canonicalize_result (sample_stream [2, 1]) multiset_policy None = Inr sample_result"
proof -
  have "canonicalize_result (sample_stream [1, 2]) multiset_policy None = Inr sample_result
      \<longleftrightarrow> canonicalize_result (sample_stream [2, 1]) multiset_policy None = Inr sample_result"
    by (rule row_order_is_irrelevant) (simp_all add: multiset_policy_def sample_stream_def)
  then show ?thesis using sample_canonical by simp
qed

theorem result_digest_is_exact_witness:
  "\<exists>r q. canonicalize_result (sample_stream [1, 2]) multiset_policy None = Inr r
    \<and> canonicalize_result (sample_stream [2, 1]) multiset_policy None = Inr q
    \<and> (mset (map row_values (rs_rows (sample_stream [1, 2]))) = mset (map row_values (rs_rows (sample_stream [2, 1])))
       \<or> sha256_collision (oracle_preimage multiset_policy (cr_column_count r) (stream_rows multiset_policy (sample_stream [1, 2])))
           (oracle_preimage multiset_policy (cr_column_count q) (stream_rows multiset_policy (sample_stream [2, 1]))))"
proof -
  have unordered: "\<not> rp_ordered multiset_policy" by (simp add: multiset_policy_def)
  then have t: "canonicalize_result (sample_stream [2, 1]) multiset_policy None = Inr sample_result"
    using canonicalize_perm [of multiset_policy "sample_stream [1, 2]" "sample_stream [2, 1]" None sample_result] sample_canonical
    by (simp add: sample_stream_def)
  have exact: "list_all exact_row (rs_rows (sample_stream xs))" for xs
    by (induction xs) (simp_all add: sample_stream_def)
  from result_digest_is_exact [OF sample_canonical t refl exact exact] show ?thesis using sample_canonical t unordered by auto
qed

text \<open>Decimals beyond the precision of the context are not distinguished. The canonical text of a
  decimal is that of its value rounded to 28 digits, so two exact decimals that differ in the 29th digit
  are taken for equal results.\<close>

theorem long_decimals_are_merged:
  "DFinite False (10 ^ 28) 0 \<noteq> DFinite False (10 ^ 28 + 1) 0
   \<and> encode_cell (CDecimal (DFinite False (10 ^ 28) 0)) = encode_cell (CDecimal (DFinite False (10 ^ 28 + 1) 0))"
proof -
  have length: "length (nat_str (10 ^ 28)) = 29" "length (nat_str (10 ^ 28 + 1)) = 29"
    "length (nat_str (10 ^ 27)) = 28" by (simp_all add: nat_str.simps)
  have "decimal_fix (10 ^ 28) 0 = Inr (10 ^ 27, 1)" "decimal_fix (10 ^ 28 + 1) 0 = Inr (10 ^ 27, 1)"
    using length by (simp_all add: decimal_fix_def round_half_even_def DECIMAL_PREC_def DECIMAL_ETOP_def DECIMAL_ETINY_def Let_def)
  then have "decimal_normalize (10 ^ 28) 0 = decimal_normalize (10 ^ 28 + 1) 0" by (simp add: decimal_normalize_def)
  then show ?thesis by simp
qed


section \<open>The sandbox worker\<close>

text \<open>C25: what a worker result means. Every result of \<open>execute_request\<close> names its request and is well
  formed; a successful one was admitted (the reveal audits, the generator, runtime policy, database file,
  rows and parameters are the committed ones, the bundle keeps the task's budget and grammar) and every
  run of every balanced trial, of the baseline and of each completed candidate, gave the one digest it
  reports; any other result carries a failure code and is not correct.\<close>

theorem worker_result_means:
  "io_all (execute_request E policy pinned path r) (\<lambda>x. well_formed_result r x
     \<and> (if sx_success x then admitted E policy pinned path r \<and> measured_all E policy r x
        else sx_failure_code x \<noteq> None \<and> \<not> sx_correct x))"
  unfolding io_all_def
proof (intro allI impI)
  fix w x w'
  assume x: "execute_request E policy pinned path r w = (Inr x, w')"
  have "well_formed_result r x" using io_allD [OF execute_wf x] .
  then show "well_formed_result r x \<and> (if sx_success x then admitted E policy pinned path r \<and> measured_all E policy r x
        else sx_failure_code x \<noteq> None \<and> \<not> sx_correct x)"
    using execute_success [OF x] by (auto simp: well_formed_result_def)
qed

text \<open>C32: a worker answers every bindable request. For an engine whose operations fail only with the exceptions
  SQLite and the file system document, and readable inputs, a valid policy and a valid request whose integer
  parameters fit 64 bits get a result, unless the SQL parser raises something other than a \<open>ParseError\<close>: the only
  exceptions that can leave \<open>execute_request\<close> are those of the parser (a \<open>TokenError\<close>, say).\<close>

theorem valid_requests_are_answered:
  assumes "engine_ok E" "readable E path" "valid_sandbox_policy policy" "valid_sandbox_fields r" "bindable (sr_parameters r)"
  shows "io_raises (execute_request E policy pinned path r) (parser_error (en_parse E))"
  using assms by (rule execute_request_raises)

lemma sample_raises [simp]: "io_raises (io_return x) P" "io_all (io_return x) Q \<longleftrightarrow> Q x"
  by (auto simp: io_all_def)

theorem valid_requests_are_answered_witness:
  "io_raises (execute_request sample_engine DEFAULT_SANDBOX_POLICY True ''/input/fixture.sqlite3'' sample_request_v2)
    (parser_error sample_parser)"
proof -
  have parser: "parser_error sample_parser = parser_error (en_parse sample_engine)" by (simp add: sample_engine_def)
  show ?thesis unfolding parser
  proof (rule valid_requests_are_answered)
  have long: "list_all (\<lambda>row. 1 < length row) (sample_rows (table_info_sql t))" for t
    by (auto simp: sample_rows_def table_info_sql_def LIST_TABLES_def)
  have "list_all (\<lambda>row. 3 < length row) (sample_rows (''EXPLAIN QUERY PLAN '' @ q))" for q
    unfolding sample_texts by simp
  then show "engine_ok sample_engine" using long
    by (simp add: engine_ok_def sample_engine_def one_row_def sqlite_stream_def sqlite_cell_def)
  have "logical_fixture_content_digest (map customer_row (gf_customers sample_holdout)) (map order_row (gf_orders sample_holdout))
      = Inr (hf_content_digest (gf_descriptor sample_holdout))"
    using sample_holdout(1) by (simp add: generated_for_def)
  then show "readable sample_engine ''/input/fixture.sqlite3''" by (simp add: readable_def sample_engine_def)
  show "valid_sandbox_policy DEFAULT_SANDBOX_POLICY"
    by (simp add: valid_sandbox_policy_def DEFAULT_SANDBOX_POLICY_def int_between_def)
  have "valid_task_reveal (pv_reveal sample_benchmark)" "tr_task_id (pv_reveal sample_benchmark) = pt_task_id (pv_public sample_benchmark)"
    using sample_benchmark_created [unfolded sample_creation_def]
    by (auto elim!: create_benchmark_Inr create_task_v2_Inr simp: public_of_spec_def)
  then show "valid_sandbox_fields sample_request_v2"
    unfolding sample_request_v2_def
    using holdout_request_valid(2) [OF sample_submission_ok sample_benchmark_task(1) _ _ sample_holdout] by blast
  show "bindable (sr_parameters sample_request_v2)"
    unfolding sample_request_fields by (rule generated_bindable [OF sample_holdout(1)])
  qed
qed

text \<open>An unreadable database escapes. \<open>execute_request\<close> is documented to turn all exceptions into a
  zero-score result; an error while the database file is read, after its size was taken, leaves it instead.\<close>

theorem unreadable_database_escapes:
  "execute_request (sample_engine\<lparr>en_file_bytes := \<lambda>_. io_raise (OSError ''EACCES'')\<rparr>) DEFAULT_SANDBOX_POLICY True
     ''/input/fixture.sqlite3'' sample_request_v2 () = (Inl (OSError ''EACCES''), ())"
proof -
  obtain d where "hf_database_file_digest (gf_descriptor sample_holdout) = Some d"
    using sample_holdout(1) by (auto simp: generated_for_def)
  then show ?thesis using sample_holdout(2)
    by (simp add: execute_request_def Let_def safe_database_size_def sample_engine_def DEFAULT_SANDBOX_POLICY_def sha256_file_def
        io_try_def io_bind_def sample_spec_fields [unfolded DEFAULT_SANDBOX_POLICY_def])
qed

text \<open>C33: the trial loop refines its specification. The loop that compares results run after run, with its
  early exits, goes on to its end exactly when all trials are run in order and all their results agree with
  one digest and with the reference known so far; its final state is then the one computed from the list of
  outcomes.\<close>

theorem trial_loop_refines_specification:
  "trial_loop E m r f orders s w = (Inr (Inr s'), w') \<longleftrightarrow>
     (\<exists>outs. io_map (run_trial E m) orders w = (Inr outs, w') \<and> trials_agree f s outs \<and> s' = after_outcomes f s outs)"
  by (rule trial_loop_refines)

text \<open>A query-phase connection cannot write. The authorizer of the query phase admits exactly selecting,
  reading a table of the fixture and the allowlisted functions.\<close>

theorem query_phase_is_read_only:
  "authorizer schema False action arg1 arg2 = SQLITE_OK \<longleftrightarrow>
     action = SQLITE_SELECT \<or> action = SQLITE_READ \<and> names_table schema arg1
     \<or> action = SQLITE_FUNCTION \<and> py_lower (or_empty arg2) \<in> set ALLOWED_FUNCTIONS"
  by (rule authorizer_query_phase)

text \<open>The order of the arms is balanced. Exactly the even trial counts from six on are accepted; the
  orders then follow the ABBA pattern, one per trial, half of them baseline first and half candidate first.\<close>

theorem interleaving_is_balanced:
  "balanced_interleave_orders n = (if 6 \<le> n \<and> even n
     then Inr (map (\<lambda>i. ORDER_PATTERN ! (i mod 4)) [0..<nat n]) else Inl (AdmissionError ''unbalanced_trial_count''))
   \<and> 2 * count_order ''baseline-first'' (map (\<lambda>i. ORDER_PATTERN ! (i mod 4)) [0..<2 * m]) = 2 * m
   \<and> 2 * count_order ''candidate-first'' (map (\<lambda>i. ORDER_PATTERN ! (i mod 4)) [0..<2 * m]) = 2 * m"
proof (cases "6 \<le> n \<and> even n")
  case True
  then obtain orders where "balanced_interleave_orders n = Inr orders" using balanced_interleave_orders_ok by blast
  then show ?thesis using True balanced_interleave_orders_Inr pattern_balanced [of m] by simp
next
  case False
  then have "balanced_interleave_orders n = Inl (AdmissionError ''unbalanced_trial_count'')"
    by (auto simp: balanced_interleave_orders_def not_le even_iff_mod_2_eq_zero rcheck_def)
  then show ?thesis using False pattern_balanced [of m] by simp
qed

text \<open>The runtime policy digest binds every parameter of a measurement. Two digests are equal only for
  equal sandbox policies, scoring policies, trial counts, order flags and collations, unless the two
  preimages collide under SHA-256.\<close>

theorem runtime_policy_is_bound:
  assumes "policy_safe sp bp" "policy_safe sp' bp'"
    and "benchmark_runtime_policy_digest sp bp n o1 c = benchmark_runtime_policy_digest sp' bp' n' o2 c'"
  shows "sp = sp' \<and> bp = bp' \<and> n = n' \<and> o1 = o2 \<and> c = c'
    \<or> sha256_collision (v2_preimage RUNTIME_POLICY_DOMAIN (runtime_policy_json sp bp n o1 c))
        (v2_preimage RUNTIME_POLICY_DOMAIN (runtime_policy_json sp' bp' n' o2 c'))"
  using assms by (rule runtime_policy_binding)

text \<open>The process boundary is bounded. A run of an untrusted command needs positive limits; its output
  never exceeds the limit, only a run that ended well keeps its output apart from a crash, success means
  return code zero, and it is refused at once exactly when its input is too long.\<close>

theorem worker_process_is_bounded:
  "io_all (run_bounded_process H argv stdin policy apply_rlimits limits) (\<lambda>outcome.
     0 < pl_output limits \<and> int (length (po_stdout outcome)) \<le> pl_output limits
     \<and> (case po_status outcome of StatusOk \<Rightarrow> po_returncode outcome = Some 0 | StatusCrash \<Rightarrow> True
        | _ \<Rightarrow> po_stdout outcome = [])
     \<and> (po_status outcome = StatusInputLimit) = (pl_input limits < int (length stdin)))"
  unfolding io_all_def
proof (intro allI impI)
  fix w outcome w'
  assume "run_bounded_process H argv stdin policy apply_rlimits limits w = (Inr outcome, w')"
  note facts = run_bounded_process_Inr [OF this]
  then show "0 < pl_output limits \<and> int (length (po_stdout outcome)) \<le> pl_output limits
     \<and> (case po_status outcome of StatusOk \<Rightarrow> po_returncode outcome = Some 0 | StatusCrash \<Rightarrow> True
        | _ \<Rightarrow> po_stdout outcome = [])
     \<and> (po_status outcome = StatusInputLimit) = (pl_input limits < int (length stdin))"
    by (cases "po_status outcome") auto
qed

text \<open>A Docker worker's result is a failure or the decoded output of the one isolated command. The
  command runs the pinned image without network, read-only and with the fixture as its only mount, its
  input is the request, and with digest pinning the image is the engine the bundle was built for.\<close>

theorem docker_worker_is_isolated:
  "io_all (run_docker_worker H path r img policy require_digest) (\<lambda>x.
     (\<exists>code d a. x = failure_result r code d a)
     \<or> (\<exists>resolved outcome w1 w2.
         run_bounded_process H (docker_security_prefix policy None
            @ [''--volume'', resolved @ '':/input/fixture.sqlite3:ro'', ''--workdir'', ''/work'',
               ''--env'', ''PYTHONDONTWRITEBYTECODE=1'', img, ''--database'', ''/input/fixture.sqlite3''])
           (ho_request_json H r) policy False (default_limits policy) w1 = (Inr outcome, w2)
         \<and> po_status outcome = StatusOk \<and> ho_decode_result H (po_stdout outcome) = Some x
         \<and> (if require_digest then worker_image_digest img = Some (ob_engine_image_digest (sr_bundle r)) else True)))"
  unfolding io_all_def
proof (intro allI impI, goal_cases)
  case (1 w x w')
  have conditional: "(if b then Q else True) = (b \<longrightarrow> Q)" for b Q by simp
  show ?case unfolding conditional by (rule run_docker_worker_Inr [OF 1, unfolded docker_worker_command_prefix])
qed


text \<open>The default policies keep the range in which the float texts are exact.\<close>

lemma text_safe_rounded:
  assumes "1 / 1000 \<le> q" "q \<le> 1000"
  shows "text_safe (Fin (fl q))"
proof -
  have e: "\<bar>fl q - q\<bar> \<le> q / 2" using fl.rnd_error [of q] assms by (simp add: field_simps)
  have low: "power10 (- 330) \<le> 1 / 10 ^ 4" and high: "(10 :: real) ^ 4 \<le> power10 311"
    by (simp_all add: power10_def powr_realpow [symmetric] powr_minus field_simps)
  have "q / 2 \<le> fl q" "fl q \<le> 2 * q" using e assms by linarith+
  moreover have "power10 (- 330) \<le> fl q" using low assms(1) calculation(1) by simp
  moreover have "fl q < power10 311" using high assms(2) calculation(2) by simp
  ultimately show ?thesis using fl.rnd_idem fl.rnd_nonneg [of q] assms by (simp add: text_safe_def decimal_range_def)
qed

lemma default_policies_safe: "policy_safe DEFAULT_SANDBOX_POLICY DEFAULT_BENCHMARK_POLICY"
proof -
  have "text_safe (Fin 20)" using text_safe_rounded [of 20] fl_of_int [of 20] by simp
  then show ?thesis
    by (simp add: policy_safe_def DEFAULT_SANDBOX_POLICY_def DEFAULT_BENCHMARK_POLICY_def text_safe_rounded)
qed

theorem runtime_policy_is_bound_witness:
  "(6 :: int) = 6 \<or> sha256_collision
     (v2_preimage RUNTIME_POLICY_DOMAIN (runtime_policy_json DEFAULT_SANDBOX_POLICY DEFAULT_BENCHMARK_POLICY 6 True ''sqlite-binary''))
     (v2_preimage RUNTIME_POLICY_DOMAIN (runtime_policy_json DEFAULT_SANDBOX_POLICY DEFAULT_BENCHMARK_POLICY 6 True ''sqlite-binary''))"
  using runtime_policy_is_bound [OF default_policies_safe default_policies_safe refl, of 6 True "''sqlite-binary''"] by blast

section \<open>The holdout evaluation\<close>

text \<open>C26: the evaluation of a bundle refines its specification. A bundle is evaluated only on a task that
  re-derives, for its own task and engine, with an even and sufficient trial count; the evaluation then has
  exactly the eight committed holdouts in order, each measured by the worker on the request of that fixture,
  bound to the request, turned into evidence and scored, and its outcome is computed from these alone.\<close>

theorem evaluation_measures_every_holdout:
  "io_all (evaluate_bundle_on_committed_holdouts V runner task bundle bp n)
     (\<lambda>e. holdouts_measured V runner task bundle bp n e \<and> length (he_fixture_evaluations e) = 8)"
  unfolding io_all_def
proof (intro allI impI)
  fix w e w'
  assume "evaluate_bundle_on_committed_holdouts V runner task bundle bp n w = (Inr e, w')"
  from io_allD [OF evaluate_bundle_measured this] have m: "holdouts_measured V runner task bundle bp n e" .
  then obtain family seed fixtures where
    "generate_hidden_fixtures (ev_prng V) (ev_image V) (qf_family_id family) seed = Inr fixtures"
    "list_all2 (holdout_measured runner task bundle family n bp) fixtures (he_fixture_evaluations e)"
    unfolding holdouts_measured_def by blast
  moreover have "length HOLDOUT_PROFILES = 8" by (simp add: HOLDOUT_PROFILES_def)
  ultimately show "holdouts_measured V runner task bundle bp n e \<and> length (he_fixture_evaluations e) = 8"
    using m by (auto simp: generate_hidden_fixtures_def rmap_Inr_iff dest!: list_all2_lengthD)
qed

lemma robust_reward_nonneg:
  assumes "robust_holdout_reward rewards = Inr reward"
  shows "0 \<le> reward"
proof -
  have "rewards \<noteq> []" "\<not> list_ex (\<lambda>v. v < 0) rewards" using assms by (auto simp: robust_holdout_reward_def Let_def rbind_eq_Inr)
  then have "\<exists>r. robust_holdout_reward rewards = Inr r \<and> 0 \<le> r"
    by (intro robust_holdout_reward_ok) (auto simp: list_ex_iff not_less)
  then show ?thesis using assms by simp
qed

text \<open>C27: no reward without every gate. Finalizing fails only on a negative reward; an eligible evaluation
  was correct, compliant and benchmark-valid on every holdout, has an index, used one, and its positive reward
  is the robust combination of the holdout rewards, not all of them zero; any other evaluation is worth
  exactly zero and says why.\<close>

theorem eligibility_needs_every_gate:
  "case finalize_holdout_evaluation task bundle family_id evaluations of
     Inl _ \<Rightarrow> list_ex (\<lambda>i. bs_reward (fe_score i) < 0) evaluations
   | Inr e \<Rightarrow> if he_eligible e
       then list_all (\<lambda>i. sx_correct (fe_result i) \<and> sx_compliant (fe_result i) \<and> bs_benchmark_valid (fe_score i)) evaluations
         \<and> ob_indexes bundle \<noteq> [] \<and> list_ex (\<lambda>i. sx_used_index_names (fe_result i) \<noteq> []) evaluations
         \<and> 0 < he_reward e \<and> robust_holdout_reward (map (\<lambda>i. bs_reward (fe_score i)) evaluations) = Inr (he_reward e)
         \<and> list_ex (\<lambda>i. bs_reward (fe_score i) \<noteq> 0) evaluations
       else he_reward e = 0 \<and> he_failure_code e \<noteq> None"
proof (cases "finalize_holdout_evaluation task bundle family_id evaluations")
  case (Inl err)
  then have failed: "\<exists>e. robust_holdout_reward (map (\<lambda>i. bs_reward (fe_score i)) evaluations) = Inl e" and "evaluations \<noteq> []"
    by (auto simp: finalize_holdout_evaluation_def Let_def rbind_eq_Inl split: if_splits)
  have "list_ex (\<lambda>i. bs_reward (fe_score i) < 0) evaluations"
  proof (rule ccontr)
    assume "\<not> list_ex (\<lambda>i. bs_reward (fe_score i) < 0) evaluations"
    then have "\<And>v. v \<in> set (map (\<lambda>i. bs_reward (fe_score i)) evaluations) \<Longrightarrow> 0 \<le> v" by (auto simp: list_ex_iff not_less)
    then show False using failed robust_holdout_reward_ok [of "map (\<lambda>i. bs_reward (fe_score i)) evaluations"] \<open>evaluations \<noteq> []\<close>
      by auto
  qed
  then show ?thesis using Inl by simp
next
  case (Inr e)
  note fields = finalize_fields [OF Inr]
  show ?thesis
  proof (cases "he_eligible e")
    case True
    note gates = finalize_eligible [OF Inr True]
    then have "\<not> list_all (\<lambda>i. bs_reward (fe_score i) = 0) evaluations"
      using robust_holdout_reward_zero [of "map (\<lambda>i. bs_reward (fe_score i)) evaluations" "he_reward e"]
      by (auto simp: list_all_iff)
    then show ?thesis using Inr True gates by (auto simp: list_all_iff list_ex_iff)
  next
    case False
    have "he_reward e = 0 \<or> robust_holdout_reward (map (\<lambda>i. bs_reward (fe_score i)) evaluations) = Inr (he_reward e)"
      using Inr by (auto simp: finalize_holdout_evaluation_def Let_def failed_evaluation_def rbind_eq_Inr split: if_splits)
    then have "0 \<le> he_reward e" using robust_reward_nonneg by auto
    then show ?thesis using Inr False fields by auto
  qed
qed


section \<open>Worker results are always scored\<close>

text \<open>C36: an honest task is always scored. Let the task be created with a generator and a database writer that
  keep their contracts, let the submission be valid for it and the scoring policy be of a moderate size. Then eight
  worker results that are bound to the eight holdout requests, with finite timings between 2^-40 and 2^40
  milliseconds, a setup of at most 2^40 milliseconds, at most 2^30 trials and an artifact of at most 2^20 times the
  database's size, are always turned into an evaluation, whatever they measured.\<close>

theorem honest_task_is_scored:
  assumes "create_benchmark_task_v2 V validator engine family_id deadline sp bp0 n0 budget grammar token_bytes e0 = Inr p"
    and "prng_ok (ev_prng V)" "image_writes (ev_image V)" "ev_reload V p = Inr p"
    and "submission_ok p bundle bp n" "worker_results_ok V p bundle bp n results"
    and "moderate_policy bp" "list_all (\<lambda>x. moderate_evidence (evidence_from_sandbox x)) results"
  shows "\<exists>e. evaluate_bundle_from_sandbox_results V p bundle results bp n False = Inr e"
  using honest_results_scored [OF assms] by (simp add: is_ok_iff)

theorem honest_task_is_scored_witness:
  "\<exists>results e. length results = 8
    \<and> evaluate_bundle_from_sandbox_results sample_evaluator sample_benchmark sample_submission results DEFAULT_BENCHMARK_POLICY 6 False = Inr e"
proof -
  obtain family where family: "family \<in> set QUERY_FAMILIES" "qf_family_id family = sample_family"
    using sample_family_known by blast
  obtain seed where seed: "bytes_fromhex (tr_secret_seed_hex (pv_reveal sample_benchmark)) = Inr seed" "length seed = 32"
    using sample_benchmark_created [unfolded sample_creation_def] by (auto elim!: create_benchmark_Inr create_task_v2_Inr)
  obtain fs where fs: "generate_hidden_fixtures sample_prng sample_image (qf_family_id family) seed = Inr fs"
    "list_all2 (generated_for sample_image family) HOLDOUT_PROFILES fs"
    using generate_hidden_fixtures_total [OF sample_generator family(1) seed(2)] by blast
  define results where "results = map (\<lambda>f. failure_result
    (holdout_request sample_benchmark sample_submission family 6 DEFAULT_BENCHMARK_POLICY f) ''sample'' 0 0) fs"
  have "scorable r (failure_result r ''sample'' 0 0)" for r
    using echo_passes [OF failure_well_formed] by (simp add: scorable_def failure_result_def)
  then have "worker_results_ok sample_evaluator sample_benchmark sample_submission DEFAULT_BENCHMARK_POLICY 6 results"
    using find_family_member [OF family(1)] family(2) seed(1) fs(1) sample_benchmark_task(4)
    by (auto simp: worker_results_ok_def results_def list_all2_conv_all_nth)
  moreover have "list_all (\<lambda>x. moderate_evidence (evidence_from_sandbox x)) results"
    by (simp add: results_def list_all_iff moderate_evidence_def evidence_from_sandbox_def failure_result_def)
  ultimately have "\<exists>e. evaluate_bundle_from_sandbox_results sample_evaluator sample_benchmark sample_submission results
      DEFAULT_BENCHMARK_POLICY 6 False = Inr e"
    by (intro honest_task_is_scored [OF sample_benchmark_created [unfolded sample_creation_def]])
      (simp_all add: sample_submission_ok default_policy_moderate)
  then
  obtain e where "evaluate_bundle_from_sandbox_results sample_evaluator sample_benchmark sample_submission results
      DEFAULT_BENCHMARK_POLICY 6 False = Inr e" by auto
  moreover have "length results = 8" using hidden_fixture_ids(2) [OF fs(2)] by (simp add: results_def)
  ultimately show ?thesis by blast
qed

section \<open>The cohort\<close>

text \<open>C28: a cohort is evaluated once per strategy. Every submitting miner has exactly one observation, in
  the order of the miners; each observation is valid and repeats the reward, evidence and behaviour of the one
  evaluation of its strategy digest; the evaluated strategies are the submitted ones, in order and without
  repetition, at most the budget; and the cache hits are the submissions that were not evaluated.\<close>

theorem cohort_evaluates_once:
  "io_all (evaluate_task_cohort V runner task submissions epoch bp n max_unique) (\<lambda>c.
     map eo_miner_id (ce_observations c) = sort (keys submissions)
     \<and> list_all (observed task epoch (ce_strategy_evaluations c)) (ce_observations c)
     \<and> distinct (keys (ce_strategy_evaluations c)) \<and> sorted (keys (ce_strategy_evaluations c))
     \<and> set (keys (ce_strategy_evaluations c)) = optimization_strategy_digest ` snd ` set submissions
     \<and> ce_unique_strategy_count c = int (length (ce_strategy_evaluations c))
     \<and> ce_unique_strategy_count c + ce_cache_hit_count c = int (length submissions)
     \<and> ce_unique_strategy_count c \<le> max_unique)"
  unfolding io_all_def list_all_iff using cohort_miners cohort_observed by fast

text \<open>C29: the accounting accepts every cohort. The observations of a cohort of distinct miners always pass the
  evaluate-once accounting: their metadata, evidence and rewards are consistent per strategy.\<close>

theorem cohort_is_accounted:
  assumes "wf_dict submissions"
  shows "io_all (evaluate_task_cohort V runner task submissions epoch bp n max_unique)
    (\<lambda>c. is_ok (deduplicate_task_rewards (ce_observations c)))"
  unfolding io_all_def is_ok_iff by (intro allI impI one_task_deduplicates) (rule cohort_one_task [OF _ assms])

theorem cohort_is_accounted_witness:
  "io_all (evaluate_task_cohort sample_evaluator (\<lambda>_ r. io_return (failure_result r ''sample'' 0 0)) sample_benchmark
      [(sample_miner, sample_submission), (sample_validator, sample_submission)] 0 DEFAULT_BENCHMARK_POLICY 6 64)
    (\<lambda>c. is_ok (deduplicate_task_rewards (ce_observations c)))"
  by (rule cohort_is_accounted) (simp add: wf_dict_def keys_def sample_miner_def sample_validator_def)

section \<open>The commitment tree\<close>

text \<open>C37: the Merkle loop ends after the least number of halvings. On a nonempty level the loop reaches one
  node after the least number k of rounds with at most 2^k leaves, and its result is the k-fold reduction.\<close>

theorem merkle_loop_halves:
  assumes "level \<noteq> []"
  shows "\<exists>k. merkle_loop level = (next_level ^^ k) level \<and> length (merkle_loop level) = 1
    \<and> length level \<le> 2 ^ k \<and> (k = 0 \<or> 2 ^ (k - 1) < length level)"
  using assms by (rule merkle_rounds)

theorem merkle_loop_halves_witness:
  "\<exists>k. merkle_loop [''a'', ''b'', ''c''] = (next_level ^^ k) [''a'', ''b'', ''c'']
    \<and> length (merkle_loop [''a'', ''b'', ''c'']) = 1
    \<and> length [''a'', ''b'', ''c''] \<le> 2 ^ k \<and> (k = 0 \<or> 2 ^ (k - 1) < length [''a'', ''b'', ''c''])"
  by (rule merkle_loop_halves) simp

end
