(* ===== verification/PyNumber.thy ===== *)
theory PyNumber
  imports FloatText Weights Doubles
begin

text \<open>
  Numbers as text: \<open>int(text)\<close>, \<open>float(text)\<close>, \<open>repr(float)\<close> and \<open>str.isdigit\<close> as the testnet
  modules use them on public scores and chain values. Here the range of doubles matters, so
  \<open>double_of\<close> rounds a real to the nearest double with subnormals and overflow. The main
  result is that \<open>float(repr(x)) == x\<close>. Signed zeros are not distinguished.
\<close>

section \<open>Doubles\<close>

definition normal_double :: "real \<Rightarrow> bool" where
  "normal_double x \<longleftrightarrow> fl x = x \<and> 2 * min_normal \<le> \<bar>x\<bar> \<and> \<bar>x\<bar> < float_bound"

fun negated :: "pyfloat \<Rightarrow> pyfloat" where
  "negated (Fin x) = Fin (- x)"
| "negated PosInf = NegInf"
| "negated NegInf = PosInf"
| "negated NaN = NaN"

section \<open>Reading numbers\<close>

text \<open>UTF-8 of a code point, and the decimal digits of Unicode 15 (\<open>unicodedata.decimal\<close>).\<close>

definition utf8 :: "nat \<Rightarrow> string" where
  "utf8 n = map char_of
     (if n < 128 then [n]
      else if n < 2048 then [192 + n div 64, 128 + n mod 64]
      else if n < 65536 then [224 + n div 4096, 128 + (n div 64) mod 64, 128 + n mod 64]
      else [240 + n div 262144, 128 + (n div 4096) mod 64, 128 + (n div 64) mod 64, 128 + n mod 64])"

definition decimal_zeros :: "nat list" where
  "decimal_zeros = [0x660, 0x6f0, 0x7c0, 0x966, 0x9e6, 0xa66, 0xae6, 0xb66, 0xbe6, 0xc66, 0xce6, 0xd66,
     0xde6, 0xe50, 0xed0, 0xf20, 0x1040, 0x1090, 0x17e0, 0x1810, 0x1946, 0x19d0, 0x1a80, 0x1a90, 0x1b50,
     0x1bb0, 0x1c40, 0x1c50, 0xa620, 0xa8d0, 0xa900, 0xa9d0, 0xa9f0, 0xaa50, 0xabf0, 0xff10, 0x104a0,
     0x10d30, 0x11066, 0x110f0, 0x11136, 0x111d0, 0x112f0, 0x11450, 0x114d0, 0x11650, 0x116c0, 0x11730,
     0x118e0, 0x11950, 0x11c50, 0x11d50, 0x11da0, 0x11f50, 0x16a60, 0x16ac0, 0x16b50, 0x1d7ce, 0x1d7d8,
     0x1d7e2, 0x1d7ec, 0x1d7f6, 0x1e140, 0x1e2f0, 0x1e4f0, 0x1e950, 0x1fbf0]"

definition digit_encodings :: "(string \<times> char) list" where
  "digit_encodings = concat (map (\<lambda>z. map (\<lambda>d. (utf8 (z + d), digit_char d)) [0..<10]) decimal_zeros)"

text \<open>
  \<open>int\<close> and \<open>float\<close> of a \<open>str\<close> first turn decimal digits and blanks above ASCII into ASCII;
  any other character above ASCII stays and is refused by the grammar.
\<close>

definition wide_table :: "(string \<times> char) list" where
  "wide_table = digit_encodings @ map (\<lambda>w. (w, CHR '' '')) (filter (\<lambda>w. 1 < length w) whitespace_encodings)"

function number_text :: "string \<Rightarrow> string" where
  "number_text [] = []"
| "number_text (c # s) =
     (if (of_char c :: nat) < 128 then c # number_text s
      else case find (\<lambda>(w, _). starts_with w (c # s)) wide_table of
          Some (w, d) \<Rightarrow> d # number_text (drop (length w - 1) s)
        | None \<Rightarrow> c # number_text s)"
  by pat_completeness auto
termination
  by (relation "measure length") auto

definition is_c_space :: "char \<Rightarrow> bool" where
  "is_c_space c \<longleftrightarrow> (of_char c :: nat) \<in> {9, 10, 11, 12, 13, 32}"

definition trim_space :: "string \<Rightarrow> string" where
  "trim_space s = rev (dropWhile is_c_space (rev (dropWhile is_c_space s)))"

text \<open>An underscore may stand between two digits only.\<close>

fun underscores_ok :: "bool \<Rightarrow> string \<Rightarrow> bool" where
  "underscores_ok after_digit [] = True"
| "underscores_ok after_digit (c # s) =
     (if c = CHR ''_'' then after_digit \<and> s \<noteq> [] \<and> is_digit (hd s) \<and> underscores_ok False s
      else underscores_ok (is_digit c) s)"

definition without_underscores :: "string \<Rightarrow> string" where
  "without_underscores = filter (\<lambda>c. c \<noteq> CHR ''_'')"

fun split_sign :: "string \<Rightarrow> bool \<times> string" where
  "split_sign (c # s) = (if c = CHR ''-'' then (True, s) else if c = CHR ''+'' then (False, s) else (False, c # s))"
| "split_sign [] = (False, [])"

definition MAX_INT_DIGITS :: nat where "MAX_INT_DIGITS = 4300"

definition int_of_text :: "string \<Rightarrow> int result" where
  "int_of_text text =
     (let (negative, body) = split_sign (trim_space text); digits = without_underscores body in
      if digits \<noteq> [] \<and> all_digits digits \<and> underscores_ok False body \<and> length digits \<le> MAX_INT_DIGITS
      then Inr (if negative then - int (str_nat digits) else int (str_nat digits))
      else Inl (ValueError ''invalid literal for int()''))"

text \<open>\<open>e\<close>, an optional sign and digits.\<close>

fun exponent_of_text :: "string \<Rightarrow> int option" where
  "exponent_of_text [] = Some 0"
| "exponent_of_text (c # s) =
     (let (negative, digits) = split_sign s in
      if py_lower [c] = ''e'' \<and> digits \<noteq> [] \<and> all_digits digits
      then Some (if negative then - int (str_nat digits) else int (str_nat digits)) else None)"

definition decimal_of_text :: "string \<Rightarrow> real option" where
  "decimal_of_text s =
     (let i = takeWhile is_digit s; r = dropWhile is_digit s;
          (f, r') = (if starts_with ''.'' r then (takeWhile is_digit (tl r), dropWhile is_digit (tl r)) else ([], r))
      in if i = [] \<and> f = [] then None
         else map_option (\<lambda>e. real (str_nat (i @ f)) * power10 (e - int (length f))) (exponent_of_text r'))"

definition unsigned_float_of_text :: "string \<Rightarrow> pyfloat option" where
  "unsigned_float_of_text s =
     (if py_lower s \<in> {''inf'', ''infinity''} then Some PosInf
      else if py_lower s = ''nan'' then Some NaN
      else map_option double_of (decimal_of_text s))"

definition float_of_text :: "string \<Rightarrow> pyfloat result" where
  "float_of_text text =
     (let t = trim_space text; (negative, body) = split_sign (without_underscores t) in
      case (if underscores_ok False t then unsigned_float_of_text body else None) of
        Some v \<Rightarrow> Inr (if negative then negated v else v)
      | None \<Rightarrow> Inl (ValueError ''could not convert string to float''))"

section \<open>\<open>repr\<close> of a float\<close>

text \<open>
  The shortest decimal that reads back as the number; among those of that length the nearest
  one, an even last digit on a tie. Seventeen digits always suffice.
\<close>

definition nearest_digits :: "real \<Rightarrow> int \<Rightarrow> nat option" where
  "nearest_digits x q =
     (let lo = nat \<lfloor>x / power10 q\<rfloor>; hi = lo + 1;
          reads = (\<lambda>c. double_of (real c * power10 q) = Fin x);
          below = x / power10 q - real lo; above = real hi - x / power10 q
      in if reads lo \<and> reads hi then Some (if below < above \<or> below = above \<and> even lo then lo else hi)
         else if reads lo then Some lo else if reads hi then Some hi else None)"

definition shortest_digits :: "real \<Rightarrow> (nat \<times> int) option" where
  "shortest_digits x =
     (let e = decimal_exponent x;
          tries = map (\<lambda>n. (nearest_digits x (e - int n + 1), e - int n + 1)) [1..<18]
      in case find (\<lambda>(c, q). c \<noteq> None) tries of Some (Some c, q) \<Rightarrow> Some (c, q) | _ \<Rightarrow> None)"

text \<open>
  The digits without trailing zeros, then positional notation for exponents from -4 to 15 and
  scientific notation outside.
\<close>

definition repr_text :: "string \<Rightarrow> int \<Rightarrow> string" where
  "repr_text t e =
     (if e < - 4 \<or> 16 \<le> e then take 1 t @ (if drop 1 t = [] then [] else ''.'' @ drop 1 t) @ exponent_text e
      else if e < 0 then ''0.'' @ replicate (nat (- e - 1)) (CHR ''0'') @ t
      else if length t \<le> nat e + 1 then t @ replicate (nat e + 1 - length t) (CHR ''0'') @ ''.0''
      else take (nat e + 1) t @ ''.'' @ drop (nat e + 1) t)"

definition repr_positive :: "real \<Rightarrow> string" where
  "repr_positive x = (case shortest_digits x of
       Some (c, q) \<Rightarrow> repr_text (rstrip_char (CHR ''0'') (nat_str c)) (q + int (length (nat_str c)) - 1)
     | None \<Rightarrow> g17_positive x)"

fun float_repr :: "pyfloat \<Rightarrow> string" where
  "float_repr (Fin x) = (if x = 0 then ''0.0'' else if x < 0 then ''-'' @ repr_positive (- x) else repr_positive x)"
| "float_repr PosInf = ''inf''"
| "float_repr NegInf = ''-inf''"
| "float_repr NaN = ''nan''"

section \<open>Reading back the shortest text\<close>

lemma rne_closest: "\<bar>of_int (rne y) - y\<bar> \<le> \<bar>of_int m - y\<bar>"
proof (cases "\<bar>of_int m - y\<bar> < 1 / 2")
  case True
  then have "rne y = m" by (intro rne_nearest) (simp add: abs_minus_commute)
  then show ?thesis by simp
qed (use rne_error [of y] in simp)

text \<open>No double is nearer to a positive number than its rounding.\<close>

lemma fl_closest:
  assumes v: "0 < v" and x: "0 < x" "fl x = x"
  shows "\<bar>fl v - v\<bar> \<le> \<bar>x - v\<bar>"
proof -
  define a where "a = \<lfloor>log 2 v\<rfloor> - 52"
  define b where "b = \<lfloor>log 2 x\<rfloor> - 52"
  define s :: real where "s = 2 powr of_int a"
  have s: "0 < s" by (simp add: s_def)
  have flv: "fl v = of_int (rne (v / s)) * s" using fl_pos_eq [OF v] by (simp add: s_def a_def)
  have multiple: "\<bar>fl v - v\<bar> \<le> \<bar>of_int m * s - v\<bar>" for m
  proof -
    have "\<bar>of_int (rne (v / s)) - v / s\<bar> * s \<le> \<bar>of_int m - v / s\<bar> * s"
      using rne_closest [of "v / s" m] s by (intro mult_right_mono) auto
    moreover have "\<bar>of_int k - v / s\<bar> * s = \<bar>of_int k * s - v\<bar>" for k
    proof -
      have "\<bar>of_int k - v / s\<bar> * s = \<bar>(of_int k - v / s) * s\<bar>" using s by (simp add: abs_mult)
      also have "(of_int k - v / s) * s = of_int k * s - v" using s by (simp add: left_diff_distrib)
      finally show ?thesis .
    qed
    ultimately show ?thesis unfolding flv by simp
  qed
  obtain m where m: "x = of_int m * 2 powr of_int b" using double_multiple [OF x] b_def by metis
  show ?thesis
  proof (cases "a \<le> b")
    case True
    then obtain k where k: "b = a + int k" by (metis zle_iff_zadd)
    have "x = of_int (m * 2 ^ k) * s" using m unfolding k by (simp add: powr_add powr_realpow s_def)
    then show ?thesis using multiple [of "m * 2 ^ k"] by simp
  next
    case False
    have "x < 2 powr 53 * 2 powr of_int b" using fl_binade(2) [OF x(1)] by (simp add: b_def divide_less_eq)
    also have "\<dots> = 2 powr of_int (53 + b)" by (simp add: powr_add)
    also have "\<dots> \<le> 2 powr of_int (52 + a)" using False by (intro powr_mono) auto
    also have "\<dots> = of_int (2 ^ 52) * s" by (simp add: powr_add s_def)
    finally have "x \<le> of_int (2 ^ 52) * s" by simp
    moreover have "of_int (2 ^ 52) * s \<le> v" using fl_binade(1) [OF v] s by (simp add: a_def s_def le_divide_eq)
    ultimately have "\<bar>of_int (2 ^ 52) * s - v\<bar> \<le> \<bar>x - v\<bar>" by linarith
    with multiple [of "2 ^ 52"] show ?thesis by linarith
  qed
qed

lemma digits17_reads:
  assumes "decimal_range x" "fl x = x" "digits17 x = (d, e)"
  shows "fl (real d * power10 (e - 16)) = x"
proof (rule ccontr)
  define v where "v = real d * power10 (e - 16)"
  assume "fl (real d * power10 (e - 16)) \<noteq> x"
  then have ne: "fl v \<noteq> x" by (simp add: v_def)
  note d = digits17 [OF assms(1,3), folded v_def]
  have p: "0 < power10 (e - 16)" by simp
  have v: "0 < v" using d(1) p by (simp add: v_def)
  have x: "0 < x" using assms(1) power10_pos [of "- 330"] unfolding decimal_range_def by linarith
  have "10 ^ 16 * power10 (e - 16) \<le> v"
    unfolding v_def using d(1) p by (intro mult_right_mono) (auto simp: less_imp_le simp flip: of_nat_le_iff)
  then have near: "\<bar>x - v\<bar> \<le> v / (2 * 10 ^ 16)" using d(3) by simp
  have fv: "\<bar>fl v - v\<bar> \<le> v / (2 * 10 ^ 16)" using fl_closest [OF v x assms(2)] near by linarith
  have fvp: "0 < fl v" using v by (rule fl.rnd_positive)
  define lo hi where "lo = min x (fl v)" and "hi = max x (fl v)"
  have lh: "0 < lo" "lo < hi" "fl lo = lo" "fl hi = hi"
    using x fvp ne assms(2) by (auto simp: lo_def hi_def min_def max_def)
  have "hi / 2 ^ 53 \<le> hi - lo" using double_gap [OF lh] .
  moreover have "hi - lo = \<bar>x - fl v\<bar>" by (auto simp: lo_def hi_def)
  moreover have "\<bar>x - fl v\<bar> \<le> v / (2 * 10 ^ 16) + v / (2 * 10 ^ 16)" using near fv unfolding abs_le_iff by linarith
  moreover have "v - v / (2 * 10 ^ 16) \<le> x" using near unfolding abs_le_iff by linarith
  moreover have "x \<le> hi" by (simp add: hi_def)
  ultimately show False using v by simp
qed

lemma power_bounds: "(2 :: real) ^ 1022 \<le> 10 ^ 330" "(2 :: real) ^ 1024 \<le> 10 ^ 311"
proof -
  have e: "33 * 33 = (1089 :: nat)" "10 * 33 = (330 :: nat)" "93 * 11 = (1023 :: nat)" "28 * 11 = (308 :: nat)"
    "1024 = Suc 1023" "311 = 308 + (3 :: nat)" by simp_all
  have s: "(2 :: real) ^ 33 \<le> 10 ^ 10" "(2 :: real) ^ 93 \<le> 10 ^ 28" by simp_all
  have p: "((2 :: real) ^ 33) ^ 33 \<le> (10 ^ 10) ^ 33" "((2 :: real) ^ 93) ^ 11 \<le> (10 ^ 28) ^ 11"
    by (rule power_mono [OF s(1)], simp only: zero_le_power zero_le_numeral)
      (rule power_mono [OF s(2)], simp only: zero_le_power zero_le_numeral)
  have q: "(2 :: real) ^ 1089 \<le> 10 ^ 330" "(2 :: real) ^ 1023 \<le> 10 ^ 308"
    using p unfolding power_mult [symmetric] e(1-4) .
  have "(2 :: real) ^ 1022 \<le> 2 ^ 1089" by (rule power_increasing) simp_all
  then show "(2 :: real) ^ 1022 \<le> 10 ^ 330" using q(1) by (rule order_trans)
  have "(2 :: real) * 2 ^ 1023 \<le> 10 ^ 3 * 10 ^ 308"
    by (rule mult_mono [OF _ q(2)]) (simp_all only: zero_le_power zero_le_numeral, simp)
  then show "(2 :: real) ^ 1024 \<le> 10 ^ 311" unfolding e(5,6) power_Suc power_add by (simp only: mult.commute)
qed

lemma min_normal_range: "power10 (- 330) \<le> min_normal" "float_bound \<le> power10 311" "0 < min_normal"
proof -
  have neg: "power10 (- 330) = 1 / 10 ^ 330" and pos: "power10 311 = 10 ^ 311"
    unfolding power10_def by (simp_all del: power_numeral_even power_numeral_odd)
  have "1 / 10 ^ 330 \<le> 1 / (2 :: real) ^ 1022"
    by (rule divide_left_mono [OF power_bounds(1)]) (simp_all only: zero_le_one mult_pos_pos zero_less_power zero_less_numeral)
  then show "power10 (- 330) \<le> min_normal"
    unfolding neg min_normal_def powr_minus inverse_eq_divide by (simp only: powr_numeral zero_less_numeral)
  show "float_bound \<le> power10 311"
    using power_bounds(2) unfolding pos float_bound_def by (simp only: powr_numeral zero_less_numeral)
  show "0 < min_normal" by (simp add: min_normal_def)
qed

lemma normal_decimal_range: "normal_double x \<Longrightarrow> 0 < x \<Longrightarrow> decimal_range x"
proof -
  assume "normal_double x" "0 < x"
  then show ?thesis
    using min_normal_range unfolding normal_double_def decimal_range_def by linarith
qed

text \<open>Away from the end of the range \<open>double_of\<close> is \<open>fl\<close>.\<close>

lemma double_of_fl:
  assumes "fl v = x" "normal_double x" "min_normal \<le> \<bar>v\<bar>"
  shows "double_of v = Fin x"
  using assms by (auto simp: double_of_def dbl_def normal_double_def Let_def abs_if split: if_splits)

lemma normal_one: "normal_double 1"
proof -
  have "2 * min_normal = 2 powr (- 1021)" by (simp add: min_normal_def powr_minus field_simps flip: powr_add powr_mult_base)
  moreover have "(2::real) powr (- 1021) \<le> 2 powr 0" by (rule powr_mono) simp_all
  moreover have "(2::real) powr 0 < 2 powr 1024" by (rule powr_less_mono) simp_all
  ultimately show ?thesis by (simp add: normal_double_def fl_one float_bound_def)
qed

lemma double_of_normal: "normal_double x \<Longrightarrow> double_of x = Fin x"
  using min_normal_range(3) by (intro double_of_fl) (auto simp: normal_double_def)

lemma digits17_double:
  assumes "normal_double x" "0 < x" "digits17 x = (d, e)"
  shows "double_of (real d * power10 (e - 16)) = Fin x"
proof -
  define v where "v = real d * power10 (e - 16)"
  note r = normal_decimal_range [OF assms(1,2)]
  have fl: "fl x = x" "2 * min_normal \<le> x" using assms(1,2) by (simp_all add: normal_double_def)
  have v: "fl v = x" unfolding v_def by (rule digits17_reads [OF r fl(1) assms(3)])
  have "\<bar>fl v - v\<bar> \<le> \<bar>v\<bar> / 2 ^ 53" by (rule fl_error)
  moreover have "0 \<le> v" by (simp add: v_def less_imp_le)
  ultimately have "x - v \<le> v" unfolding v abs_le_iff by simp
  then have "min_normal \<le> \<bar>v\<bar>" using fl(2) by linarith
  from double_of_fl [OF v assms(1) this] show ?thesis by (simp add: v_def)
qed

lemma rne_floor: "rne y = \<lfloor>y\<rfloor> \<or> rne y = \<lfloor>y\<rfloor> + 1"
  by (auto simp: rne_def Let_def)

lemma nearest_digits_reads: "nearest_digits x q = Some c \<Longrightarrow> double_of (real c * power10 q) = Fin x"
  by (auto simp: nearest_digits_def Let_def split: if_splits)

lemma nearest_digits_exists:
  assumes "0 < x" "double_of (real d * power10 q) = Fin x" "real d = of_int (rne (x / power10 q))"
  shows "nearest_digits x q \<noteq> None"
proof -
  define lo where "lo = nat \<lfloor>x / power10 q\<rfloor>"
  have "0 \<le> x / power10 q" using assms(1) by (simp add: less_imp_le)
  then have "int lo = \<lfloor>x / power10 q\<rfloor>" by (simp add: lo_def)
  moreover have "int d = rne (x / power10 q)" using assms(3) by (metis of_int_eq_iff of_int_of_nat_eq)
  ultimately have "int d = int lo \<or> int d = int (lo + 1)" using rne_floor [of "x / power10 q"] by auto
  then have "d = lo \<or> d = lo + 1" unfolding of_nat_eq_iff .
  then show ?thesis using assms(2) unfolding nearest_digits_def Let_def lo_def [symmetric] by auto
qed

lemma shortest_digits:
  assumes "normal_double x" "0 < x"
  obtains c q where "shortest_digits x = Some (c, q)" "double_of (real c * power10 q) = Fin x"
proof -
  define e where "e = decimal_exponent x"
  define tries where "tries = map (\<lambda>n. (nearest_digits x (e - int n + 1), e - int n + 1)) [1..<18]"
  obtain d k where dk: "digits17 x = (d, k)" by fastforce
  have v: "double_of (real d * power10 (k - 16)) = Fin x" by (rule digits17_double [OF assms dk])
  define r where "r = nat (rne (x / power10 (e - 16)))"
  have nn: "0 \<le> x / power10 (e - 16)" using assms(2) by (simp add: less_imp_le)
  then have "rne (of_int 0) \<le> rne (x / power10 (e - 16))" by (intro rne_mono) simp
  then have r: "real r = of_int (rne (x / power10 (e - 16)))" by (simp only: rne_of_int r_def of_nat_nat)
  have "real d * power10 (k - 16) = real r * power10 (e - 16)"
  proof (cases "r = 10 ^ 17")
    case True
    then have "d = 10 ^ 16" "k = e + 1" using dk by (simp_all add: digits17_def Let_def e_def r_def)
    moreover have "power10 (e - 16 + 1) = 10 * power10 (e - 16)" by (rule power10_Suc)
    ultimately show ?thesis using True by (simp add: algebra_simps)
  next
    case False
    then have "d = r" "k = e" using dk by (auto simp: digits17_def Let_def e_def r_def)
    then show ?thesis by simp
  qed
  with v have "nearest_digits x (e - 16) \<noteq> None" by (intro nearest_digits_exists [OF assms(2) _ r]) simp
  moreover have "(nearest_digits x (e - 16), e - 16) \<in> set tries"
    unfolding tries_def set_map by (rule image_eqI [of _ _ 17]) simp_all
  ultimately have "find (\<lambda>(c, q). c \<noteq> None) tries \<noteq> None" by (auto simp: find_None_iff)
  then obtain o1 q where f: "find (\<lambda>(c, q). c \<noteq> None) tries = Some (o1, q)" by auto
  then have "(o1, q) \<in> set tries" "o1 \<noteq> None" by (auto simp: find_Some_iff in_set_conv_nth)
  then obtain c where c: "o1 = Some c" by blast
  have c': "nearest_digits x q = Some c" using \<open>(o1, q) \<in> set tries\<close> c by (auto simp: tries_def dest: sym)
  have "shortest_digits x = Some (c, q)"
    using f c unfolding shortest_digits_def Let_def e_def [symmetric] tries_def [symmetric] by simp
  with nearest_digits_reads [OF c'] that show thesis by blast
qed

text \<open>The grammar of \<open>float\<close> gives the value of its parts.\<close>

lemma decimal_of_parts:
  assumes "all_digits i" "all_digits f" "i \<noteq> []" "exponent_of_text s = Some e" "s = [] \<or> (\<exists>r. s = CHR ''e'' # r)"
  shows "decimal_of_text (i @ ''.'' @ f @ s) = Some (real (str_nat (i @ f)) * power10 (e - int (length f)))"
    and "decimal_of_text (i @ s) = Some (real (str_nat i) * power10 e)"
proof -
  have digits: "takeWhile is_digit (t @ r) = t \<and> dropWhile is_digit (t @ r) = r"
    if "all_digits t" "r = [] \<or> \<not> is_digit (hd r)" for t r
  proof -
    have "takeWhile is_digit (t @ r) = t"
      by (rule takeWhile_digits) (use that in \<open>auto simp: all_digits_def list_all_iff\<close>)
    then show ?thesis by (metis append_eq_conv_conj dropWhile_eq_drop)
  qed
  have s: "s = [] \<or> \<not> is_digit (hd s)" "\<not> starts_with ''.'' s" using assms(5) by (auto simp: starts_with_def)
  have a: "takeWhile is_digit (i @ ''.'' @ f @ s) = i \<and> dropWhile is_digit (i @ ''.'' @ f @ s) = ''.'' @ f @ s"
    by (rule digits [OF assms(1)]) simp
  show "decimal_of_text (i @ ''.'' @ f @ s) = Some (real (str_nat (i @ f)) * power10 (e - int (length f)))"
    unfolding decimal_of_text_def Let_def using a digits [OF assms(2) s(1)] assms(3,4) by (simp add: starts_with_def)
  show "decimal_of_text (i @ s) = Some (real (str_nat i) * power10 e)"
    unfolding decimal_of_text_def Let_def using digits [OF assms(1) s(1)] s(2) assms(3,4) by simp
qed

lemma zero_digit [simp]: "is_digit (CHR ''0'')"
  by (simp add: char_class_defs)

lemma exponent_of_exponent_text: "exponent_of_text (exponent_text e) = Some e"
proof -
  define t where "t = (let t = nat_str (nat \<bar>e\<bar>) in if length t < 2 then ''0'' @ t else t)"
  have "str_nat (CHR ''0'' # u) = str_nat u" for u
    using str_nat_append [of "''0''" u] by (simp add: str_nat_def char_digit_def)
  then have t: "all_digits t" "t \<noteq> []" "str_nat t = nat \<bar>e\<bar>"
    using nat_str_nonempty [of "nat \<bar>e\<bar>"] all_digits_nat_str(1) [of "nat \<bar>e\<bar>"]
    by (simp_all add: t_def Let_def all_digits_def zero_digit)
  have "exponent_text e = CHR ''e'' # (if e < 0 then CHR ''-'' else CHR ''+'') # t" by (simp add: exponent_text_def t_def)
  moreover have "py_lower ''e'' = ''e''" by (simp add: py_lower_def char_class_defs)
  ultimately show ?thesis using t by simp
qed

text \<open>Reading the text of some digits and an exponent.\<close>

lemma power10_int: "power10 (e - int n) * 10 ^ n = power10 e"
  using power10_add [of "e - int n" n] by (simp add: mult.commute)

lemma all_digits_append [simp]: "all_digits (s @ t) \<longleftrightarrow> all_digits s \<and> all_digits t"
  by (simp add: all_digits_def)

lemma all_digits_zeros [simp]: "all_digits (replicate n (CHR ''0''))" "all_digits ''0''"
  by (simp_all add: all_digits_def list_all_iff)

lemma all_digits_parts: "all_digits t \<Longrightarrow> all_digits (take k t)" "all_digits t \<Longrightarrow> all_digits (drop k t)"
  by (auto simp: all_digits_def list_all_iff dest: in_set_takeD in_set_dropD)

lemma decimal_of_repr_text:
  assumes t: "all_digits t" "t \<noteq> []"
  shows "decimal_of_text (repr_text t e) = Some (real (str_nat t) * power10 (e + 1 - int (length t)))"
proof -
  note parts = all_digits_parts [OF t(1)]
  have zero: "exponent_of_text [] = Some 0" by simp
  consider (exp) "e < - 4 \<or> 16 \<le> e" | (small) "- 4 \<le> e" "e < 0"
    | (padded) "0 \<le> e" "e < 16" "length t \<le> nat e + 1" | (mid) "0 \<le> e" "e < 16" "nat e + 1 < length t" by linarith
  then show ?thesis
  proof cases
    case exp
    have ne: "take 1 t \<noteq> []" and et: "exponent_text e = [] \<or> (\<exists>r. exponent_text e = CHR ''e'' # r)"
      using t(2) exponent_text_Cons by auto
    show ?thesis
    proof (cases "drop 1 t = []")
      case True
      then have "length t = 1" using t(2) by (cases t) auto
      then show ?thesis
        using decimal_of_parts(2) [OF parts(1) parts(1) ne exponent_of_exponent_text et] exp True t(2)
        by (simp add: repr_text_def)
    next
      case False
      have eq: "e - int (length (drop 1 t)) = e + 1 - int (length t)" using t(2) by (cases t) simp_all
      show ?thesis
        using decimal_of_parts(1) [OF parts(1) parts(2) ne exponent_of_exponent_text et, of 1] exp False
        unfolding eq by (simp add: repr_text_def)
    qed
  next
    case small
    define f where "f = replicate (nat (- e - 1)) (CHR ''0'') @ t"
    have "repr_text t e = ''0'' @ ''.'' @ f @ []" using small by (simp add: repr_text_def f_def)
    moreover have "all_digits f" using t(1) by (simp add: f_def)
    moreover have "str_nat (''0'' @ f) = str_nat t"
      using str_nat_append [of "''0''" f] str_nat_zeros [of 1] by (simp add: f_def str_nat_append)
    moreover have "0 - int (length f) = e + 1 - int (length t)" using small by (simp add: f_def)
    ultimately show ?thesis using decimal_of_parts(1) [of "''0''" f "[]" 0] by simp
  next
    case padded
    define k where "k = nat e + 1 - length t"
    have "repr_text t e = (t @ replicate k (CHR ''0'')) @ ''.'' @ ''0'' @ []" using padded by (simp add: repr_text_def k_def)
    moreover have "str_nat ((t @ replicate k (CHR ''0'')) @ ''0'') = str_nat t * 10 ^ (k + 1)"
      using str_nat_append [of "t @ replicate k (CHR ''0'')" "''0''"] str_nat_zeros [of 1] by (simp add: str_nat_append)
    moreover have "e + 1 - int (length t) = - 1 + int (k + 1)" using padded by (simp add: k_def)
    then have "power10 (e + 1 - int (length t)) = 10 ^ (k + 1) * power10 (- 1)" by (simp only: power10_add)
    ultimately show ?thesis using decimal_of_parts(1) [of "t @ replicate k (CHR ''0'')" "''0''" "[]" 0] t by simp
  next
    case mid
    define k where "k = nat e + 1"
    have "repr_text t e = take k t @ ''.'' @ drop k t @ []" using mid by (simp add: repr_text_def k_def)
    moreover have "0 - int (length (drop k t)) = e + 1 - int (length t)" using mid by (simp add: k_def)
    moreover have "take k t \<noteq> []" using t(2) by (simp add: k_def)
    ultimately show ?thesis using decimal_of_parts(1) [OF parts(1) parts(2), of k "[]" 0 k] by simp
  qed
qed

text \<open>The characters of a number text.\<close>

definition is_plain :: "char \<Rightarrow> bool" where
  "is_plain c \<longleftrightarrow> is_digit c \<or> c \<in> {CHR ''.'', CHR ''e'', CHR ''-'', CHR ''+''}"

definition plain_text :: "string \<Rightarrow> bool" where
  "plain_text s \<longleftrightarrow> list_all is_plain s"

lemma plain_text_simps [simp]:
  "plain_text []" "plain_text (s @ t) \<longleftrightarrow> plain_text s \<and> plain_text t"
  "plain_text (c # s) \<longleftrightarrow> is_plain c \<and> plain_text s"
  by (simp_all add: plain_text_def)

lemma is_plain_simps [simp]: "is_plain (CHR ''.'')" "is_plain (CHR ''e'')" "is_plain (CHR ''-'')"
  "is_plain (CHR ''+'')" "is_plain (CHR ''0'')"
  by (simp_all add: is_plain_def)

lemma plain_digits: "all_digits s \<Longrightarrow> plain_text s"
  by (auto simp: all_digits_def plain_text_def list_all_iff is_plain_def)

lemma plain_char: "is_plain c \<Longrightarrow> (of_char c :: nat) < 128 \<and> c \<noteq> CHR ''_'' \<and> c \<noteq> CHR ''='' \<and> \<not> is_c_space c"
  by (auto simp: is_plain_def char_class_defs is_c_space_def)

lemma plain_number_text: "plain_text s \<Longrightarrow> number_text s = s"
  by (induction s) (simp_all add: plain_char)

lemma plain_trim: "plain_text s \<Longrightarrow> trim_space s = s"
proof -
  assume p: "plain_text s"
  have keep: "dropWhile is_c_space t = t" if "plain_text t" for t
    using that by (cases t) (simp_all add: plain_char)
  have "plain_text (rev s)" using p by (simp add: plain_text_def)
  then show ?thesis using keep [OF p] keep by (simp add: trim_space_def)
qed

lemma plain_underscores: "plain_text s \<Longrightarrow> underscores_ok b s \<and> without_underscores s = s"
  by (induction s arbitrary: b) (simp_all add: without_underscores_def plain_char)

lemma plain_exponent: "plain_text (exponent_text e)"
  using all_digits_nat_str(1) [of "nat \<bar>e\<bar>"] by (simp add: exponent_text_def Let_def plain_digits)

lemma plain_repr_text:
  assumes "all_digits t" "t \<noteq> []"
  shows "plain_text (repr_text t e)" "is_digit (hd (repr_text t e))" "repr_text t e \<noteq> []"
proof -
  note p = plain_digits [OF assms(1)] plain_digits [OF all_digits_parts(1) [OF assms(1)]]
    plain_digits [OF all_digits_parts(2) [OF assms(1)]] plain_digits [OF all_digits_zeros(1)]
  show "plain_text (repr_text t e)" using p plain_exponent by (simp add: repr_text_def)
  have "is_digit (hd t)" using assms by (cases t) (simp_all add: all_digits_def)
  then show "is_digit (hd (repr_text t e))" "repr_text t e \<noteq> []"
    using assms(2) by (cases t, simp, simp add: repr_text_def split: if_splits)+
qed

lemma rstrip_digits:
  assumes "0 < c"
  defines "t \<equiv> rstrip_char (CHR ''0'') (nat_str c)"
  shows "all_digits t" "t \<noteq> []"
    "real (str_nat t) * power10 (q + int (length (nat_str c)) - int (length t)) = real c * power10 q"
proof -
  obtain n where n: "nat_str c = t @ replicate n (CHR ''0'')" using rstrip_split t_def by blast
  have "str_nat (nat_str c) = str_nat t * 10 ^ n" unfolding n by (simp add: str_nat_append)
  then have v: "c = str_nat t * 10 ^ n" by simp
  show "all_digits t" unfolding t_def by (rule all_digits_rstrip) simp
  show "t \<noteq> []" using v assms(1) by (auto simp: str_nat_def)
  have "q + int (length (nat_str c)) - int (length t) = q + int n" using arg_cong [OF n, of length] by simp
  then show "real (str_nat t) * power10 (q + int (length (nat_str c)) - int (length t)) = real c * power10 q"
    using v by (simp only: power10_add) simp
qed

lemma repr_positive:
  assumes "normal_double x" "0 < x"
  shows "plain_text (repr_positive x)" "is_digit (hd (repr_positive x))" "repr_positive x \<noteq> []"
    "map_option double_of (decimal_of_text (repr_positive x)) = Some (Fin x)"
proof -
  obtain c q where s: "shortest_digits x = Some (c, q)" "double_of (real c * power10 q) = Fin x"
    using shortest_digits [OF assms] .
  define t where "t = rstrip_char (CHR ''0'') (nat_str c)"
  have "double_of 0 = Fin 0" using min_normal_range(3) by (simp add: double_of_def dbl_def float_bound_def rne_def)
  then have "0 < c" using s(2) assms(2) by (cases c) auto
  note t = rstrip_digits [OF this, folded t_def]
  define e where "e = q + int (length (nat_str c)) - 1"
  have r: "repr_positive x = repr_text t e" using s(1) by (simp add: repr_positive_def t_def e_def)
  show "plain_text (repr_positive x)" "is_digit (hd (repr_positive x))" "repr_positive x \<noteq> []"
    unfolding r by (rule plain_repr_text [OF t(1,2)])+
  have "e + 1 - int (length t) = q + int (length (nat_str c)) - int (length t)" by (simp add: e_def)
  then show "map_option double_of (decimal_of_text (repr_positive x)) = Some (Fin x)"
    unfolding r decimal_of_repr_text [OF t(1,2)] using t(3) s(2) by simp
qed

lemma unsigned_digit:
  assumes "is_digit (hd s)" "s \<noteq> []"
  shows "unsigned_float_of_text s = map_option double_of (decimal_of_text s)"
proof -
  obtain c r where s: "s = c # r" "is_digit c" using assms by (cases s) auto
  then have "py_lower s = c # py_lower r" by (simp add: py_lower_def char_class_defs)
  then show ?thesis using s(2) by (auto simp: unsigned_float_of_text_def char_class_defs)
qed

text \<open>\<open>float(repr(x)) == x\<close> for every double inside the normal range.\<close>

lemma float_of_repr:
  assumes "normal_double x"
  shows "float_of_text (float_repr (Fin x)) = Inr (Fin x)" "plain_text (float_repr (Fin x))"
proof -
  have "2 * min_normal \<le> \<bar>x\<bar>" using assms by (simp add: normal_double_def)
  then have "x \<noteq> 0" using min_normal_range(3) by (intro notI) simp
  then consider "0 < x" | "x < 0" by linarith
  then have "float_of_text (float_repr (Fin x)) = Inr (Fin x) \<and> plain_text (float_repr (Fin x))"
  proof cases
    case 1
    note r = repr_positive [OF assms 1]
    obtain c s where cs: "repr_positive x = c # s" "is_digit c" using r(2,3) by (cases "repr_positive x") auto
    then have sp: "split_sign (repr_positive x) = (False, repr_positive x)" by (auto simp: char_class_defs)
    have "float_repr (Fin x) = repr_positive x" using 1 by simp
    then show ?thesis
      using plain_trim [OF r(1)] plain_underscores [OF r(1)] sp unsigned_digit [OF r(2,3)] r(1,4)
      by (simp add: float_of_text_def Let_def)
  next
    case 2
    have n: "normal_double (- x)" using assms by (simp add: normal_double_def fl_minus)
    note r = repr_positive [OF n]
    have "float_repr (Fin x) = CHR ''-'' # repr_positive (- x)" using 2 \<open>x \<noteq> 0\<close> by simp
    moreover have p: "plain_text (CHR ''-'' # repr_positive (- x))" using r(1) 2 by simp
    ultimately show ?thesis
      using plain_trim [OF p] plain_underscores [OF p] unsigned_digit [OF r(2,3)] r(4) 2
      by (simp add: float_of_text_def Let_def)
  qed
  then show "float_of_text (float_repr (Fin x)) = Inr (Fin x)" "plain_text (float_repr (Fin x))" by blast+
qed

end
