(* ===== verification/JsonText.thy ===== *)
theory JsonText
  imports PyNumber Json
begin

text \<open>
  \<open>json.dumps(value, separators=(",", ":"), sort_keys=True)\<close> with its default
  \<open>ensure_ascii=True\<close> and floats, the preimage of the testnet plan digests. The text is
  unambiguous for ASCII strings and floats inside the normal range.
\<close>

datatype jval =
    VNull
  | VBool bool
  | VInt int
  | VFloat pyfloat
  | VStr string
  | VArr "jval list"
  | VObj "(string \<times> jval) list"

section \<open>Strings\<close>

text \<open>The code points of a UTF-8 string; a truncated sequence ends the string.\<close>

definition utf8_length :: "nat \<Rightarrow> nat" where
  "utf8_length n = (if n < 192 then 1 else if n < 224 then 2 else if n < 240 then 3 else 4)"

definition utf8_lead :: "nat \<Rightarrow> nat" where
  "utf8_lead n = (if n < 192 then n else if n < 224 then n - 192 else if n < 240 then n - 224 else n - 240)"

function code_points :: "string \<Rightarrow> nat list" where
  "code_points [] = []"
| "code_points (c # s) =
     (let n = of_char c; k = utf8_length n - 1
      in foldl (\<lambda>acc d. 64 * acc + (of_char d - 128)) (utf8_lead n) (take k s) # code_points (drop k s))"
  by pat_completeness auto
termination
  by (relation "measure length") auto

definition unicode_escape :: "nat \<Rightarrow> string" where
  "unicode_escape n = [CHR 0x5C, CHR ''u''] @ hex_fixed 4 n"

definition short_escapes :: "(nat \<times> char) list" where
  "short_escapes = [(0x22, CHR 0x22), (0x5C, CHR 0x5C), (0x0A, CHR ''n''), (0x0D, CHR ''r''),
     (0x09, CHR ''t''), (0x08, CHR ''b''), (0x0C, CHR ''f'')]"

definition escape_point :: "nat \<Rightarrow> string" where
  "escape_point n =
     (case map_of short_escapes n of
        Some c \<Rightarrow> [CHR 0x5C, c]
      | None \<Rightarrow> if 32 \<le> n \<and> n < 127 then [char_of n]
          else if n < 65536 then unicode_escape n
          else unicode_escape (0xD800 + (n - 65536) div 1024) @ unicode_escape (0xDC00 + (n - 65536) mod 1024))"

definition ascii_text :: "string \<Rightarrow> string" where
  "ascii_text s = CHR 0x22 # concat (map escape_point (code_points s)) @ [CHR 0x22]"

section \<open>Values\<close>

fun json_float :: "pyfloat \<Rightarrow> string" where
  "json_float (Fin x) = float_repr (Fin x)"
| "json_float PosInf = ''Infinity''"
| "json_float NegInf = ''-Infinity''"
| "json_float NaN = ''NaN''"

text \<open>The text of a value for a given rendering of strings; \<open>jtext\<close> is the one of
  \<open>ensure_ascii=True\<close>.\<close>

fun jtext_with :: "(string \<Rightarrow> string) \<Rightarrow> jval \<Rightarrow> string" where
  "jtext_with st VNull = ''null''"
| "jtext_with st (VBool b) = (if b then ''true'' else ''false'')"
| "jtext_with st (VInt i) = int_str i"
| "jtext_with st (VFloat x) = json_float x"
| "jtext_with st (VStr s) = st s"
| "jtext_with st (VArr xs) = ''['' @ join '','' (map (jtext_with st) xs) @ '']''"
| "jtext_with st (VObj kvs) = ''{'' @ join '','' (map (\<lambda>(k, v). st k @ '':'' @ jtext_with st v) kvs) @ ''}''"

abbreviation jtext :: "jval \<Rightarrow> string" where
  "jtext \<equiv> jtext_with ascii_text"

fun sort_keys :: "jval \<Rightarrow> jval" where
  "sort_keys (VArr xs) = VArr (map sort_keys xs)"
| "sort_keys (VObj kvs) = VObj (sort_key fst (map (\<lambda>(k, v). (k, sort_keys v)) kvs))"
| "sort_keys v = v"

definition dumps :: "jval \<Rightarrow> bytes" where
  "dumps v = jtext (sort_keys v)"

section \<open>The text is unambiguous\<close>

lemma code_points_ascii: "is_ascii s \<Longrightarrow> code_points s = map of_char s"
  by (induction s) (simp_all add: is_ascii_def utf8_length_def utf8_lead_def Let_def)

lemma escape_point_cases:
  assumes "n < 128"
  obtains (short) c where "map_of short_escapes n = Some c" "escape_point n = [CHR 0x5C, c]"
  | (plain) "n \<noteq> 0x22" "n \<noteq> 0x5C" "escape_point n = [char_of n]"
  | (hex) "escape_point n = [CHR 0x5C, CHR ''u''] @ hex_fixed 4 n"
proof (cases "map_of short_escapes n")
  case None
  then have "n \<noteq> 0x22" "n \<noteq> 0x5C" by (auto simp: short_escapes_def)
  then show ?thesis using None assms that by (cases "32 \<le> n \<and> n < 127") (auto simp: escape_point_def unicode_escape_def)
qed (use that in \<open>auto simp: escape_point_def\<close>)

lemma short_escape_inject: "map_of short_escapes m = Some c \<Longrightarrow> map_of short_escapes n = Some c \<Longrightarrow> m = n"
  by (auto simp: short_escapes_def split: if_splits)

lemma short_escape_not_u: "map_of short_escapes m \<noteq> Some (CHR ''u'')"
  by (auto simp: short_escapes_def split: if_splits)

lemma char_of_ascii: "(m :: nat) < 128 \<Longrightarrow> n < 128 \<Longrightarrow> char_of m = (char_of n :: char) \<longleftrightarrow> m = n"
  by (auto dest!: arg_cong [where f = "of_char :: char \<Rightarrow> nat"])

lemma char_of_const: "(n :: nat) < 128 \<Longrightarrow> char_of n = c \<longleftrightarrow> n = of_char c"
  by (auto simp: char_of_eq_iff take_bit_eq_mod)

lemma escape_point_prefix:
  assumes "m < 128" "n < 128" "escape_point m @ r = escape_point n @ s"
  shows "m = n \<and> r = s"
proof -
  have bs: "char_of k = (CHR 0x5C) \<longleftrightarrow> k = 0x5C" if "k < 128" for k :: nat
    using char_of_const [OF that, of "CHR 0x5C"] by simp
  from assms(1) show ?thesis
  proof (cases rule: escape_point_cases)
    case (short c)
    from assms(2) show ?thesis
    proof (cases rule: escape_point_cases)
      case (short d)
      with \<open>escape_point m = [CHR 0x5C, c]\<close> \<open>map_of short_escapes m = Some c\<close> assms(3) short_escape_inject show ?thesis by auto
    next
      case plain
      with short assms(2,3) bs [of n] show ?thesis by auto
    next
      case hex
      with short assms(3) short_escape_not_u [of m] show ?thesis by auto
    qed
  next
    case plain
    from assms(2) show ?thesis
    proof (cases rule: escape_point_cases)
      case (short d)
      with plain assms(1,3) bs [of m] show ?thesis by auto
    next
      case p: plain
      with plain assms char_of_ascii [OF assms(1,2)] show ?thesis by auto
    next
      case hex
      with plain assms(1,3) bs [of m] show ?thesis by auto
    qed
  next
    case hex
    from assms(2) show ?thesis
    proof (cases rule: escape_point_cases)
      case (short d)
      with hex assms(3) short_escape_not_u [of n] show ?thesis by auto
    next
      case plain
      with hex assms(2,3) bs [of n] show ?thesis by auto
    next
      case h: hex
      then have "hex_fixed 4 m @ r = hex_fixed 4 n @ s" using hex assms(3) by simp
      then have "hex_fixed 4 m = hex_fixed 4 n" "r = s" by (simp_all add: append_eq_append_conv length_hex_fixed)
      then show ?thesis using hex_fixed_inject [of m 4 n] assms(1,2) by simp
    qed
  qed
qed

lemma escape_point_start: "n < 128 \<Longrightarrow> escape_point n \<noteq> [] \<and> hd (escape_point n) \<noteq> CHR 0x22"
proof -
  assume n: "n < 128"
  have "char_of n = CHR 0x22 \<longleftrightarrow> n = 0x22" using char_of_const [OF n, of "CHR 0x22"] by simp
  then show ?thesis using n by (cases rule: escape_point_cases [OF n, case_names short plain hex]) simp_all
qed

lemma ascii_text_prefix:
  assumes "is_ascii s" "is_ascii t" "ascii_text s @ r = ascii_text t @ q"
  shows "s = t \<and> r = q"
proof -
  define f :: "char \<Rightarrow> string" where "f = (\<lambda>c. escape_point (of_char c))"
  have lt: "(of_char c :: nat) < 128" if "is_ascii u" "c \<in> set u" for c u using that by (simp add: is_ascii_def)
  have body: "a = b \<and> x = y" if "concat (map f a) @ CHR 0x22 # x = concat (map f b) @ CHR 0x22 # y"
    "is_ascii a" "is_ascii b" for a b x y
    using that
  proof (induction a arbitrary: b)
    case Nil
    show ?case
    proof (cases b)
      case (Cons d b')
      then have "(of_char d :: nat) < 128" using lt [OF Nil.prems(3)] by simp
      note d = escape_point_start [OF this]
      then have "hd (escape_point (of_char d)) = CHR 0x22"
        using Nil.prems(1) Cons by (cases "escape_point (of_char d)") (auto simp: f_def)
      with d show ?thesis by simp
    qed (use Nil in simp)
  next
    case (Cons c a)
    have c: "(of_char c :: nat) < 128" "is_ascii a" using Cons.prems(2) by (simp_all add: is_ascii_def)
    then obtain d b' where b: "b = d # b'"
      using escape_point_start [OF c(1)] Cons.prems(1) by (cases b) (auto simp: f_def append_eq_Cons_conv)
    have d: "(of_char d :: nat) < 128" "is_ascii b'" using Cons.prems(3) b by (simp_all add: is_ascii_def)
    have "escape_point (of_char c) @ concat (map f a) @ CHR 0x22 # x = escape_point (of_char d) @ concat (map f b') @ CHR 0x22 # y"
      using Cons.prems(1) b by (simp add: f_def)
    from escape_point_prefix [OF c(1) d(1) this] have "(of_char c :: nat) = of_char d"
      "concat (map f a) @ CHR 0x22 # x = concat (map f b') @ CHR 0x22 # y" by simp_all
    with Cons.IH [OF _ c(2) d(2)] b show ?case by simp
  qed
  have "ascii_text u = CHR 0x22 # concat (map f u) @ [CHR 0x22]" if "is_ascii u" for u
    using code_points_ascii [OF that] by (simp add: ascii_text_def f_def comp_def)
  then show ?thesis using body [of s r t q] assms by simp
qed

subsection \<open>Numbers\<close>

definition is_token :: "char \<Rightarrow> bool" where
  "is_token c \<longleftrightarrow> is_plain c \<or> c \<in> set ''InfinityNaN''"

definition token_end :: "string \<Rightarrow> bool" where
  "token_end r \<longleftrightarrow> r = [] \<or> \<not> is_token (hd r)"

lemma token_end_simps [simp]:
  "token_end []" "token_end (CHR '','' # r)" "token_end (CHR '']'' # r)" "token_end (CHR ''}'' # r)"
  by (simp_all add: token_end_def is_token_def is_plain_def char_class_defs)

fun float_ok :: "pyfloat \<Rightarrow> bool" where
  "float_ok (Fin x) = (x = 0 \<or> normal_double x)"
| "float_ok _ = True"

fun is_number :: "jval \<Rightarrow> bool" where
  "is_number (VInt _) = True"
| "is_number (VFloat _) = True"
| "is_number _ = False"

lemma plain_int_str: "plain_text (int_str i)" "list_all (\<lambda>c. is_digit c \<or> c = CHR ''-'') (int_str i)"
  using nat_str_digits by (auto simp: int_str_def plain_digits list_all_iff)

lemma float_repr_plain: "float_ok (Fin x) \<Longrightarrow> plain_text (float_repr (Fin x))"
  using float_of_repr(2) [of x] by (cases "x = 0") (auto simp: plain_text_def is_plain_def)

lemma repr_text_mark: "CHR ''.'' \<in> set (repr_text t e) \<or> CHR ''e'' \<in> set (repr_text t e)"
  using exponent_text_Cons [of e] by (auto simp: repr_text_def)

lemma float_repr_mark:
  assumes "float_ok (Fin x)"
  shows "CHR ''.'' \<in> set (float_repr (Fin x)) \<or> CHR ''e'' \<in> set (float_repr (Fin x))"
proof -
  have pos: "CHR ''.'' \<in> set (repr_positive y) \<or> CHR ''e'' \<in> set (repr_positive y)" if "normal_double y" "0 < y" for y
  proof -
    note n = that
    obtain c q where "shortest_digits y = Some (c, q)" using shortest_digits [OF n] .
    then show ?thesis using repr_text_mark by (simp add: repr_positive_def)
  qed
  have "normal_double (- x)" if "normal_double x" using that by (simp add: normal_double_def fl_minus)
  then show ?thesis using assms pos [of x] pos [of "- x"] by (cases "x = 0"; cases "0 < x") auto
qed

lemma float_of_zero: "float_of_text ''0.0'' = Inr (Fin 0)"
proof -
  have "plain_text ''0.0''" "is_digit (hd ''0.0'')" by simp_all
  moreover have "decimal_of_text ''0.0'' = Some 0"
    using decimal_of_parts(1) [of "''0''" "''0''" "[]" 0] str_nat_zeros [of 2] by (simp add: numeral_2_eq_2)
  moreover have "double_of 0 = Fin 0" using min_normal_range(3) by (simp add: double_of_def dbl_def float_bound_def rne_def)
  ultimately show ?thesis
    using plain_trim [of "''0.0''"] plain_underscores [of "''0.0''" False] unsigned_digit [of "''0.0''"]
    by (simp add: float_of_text_def Let_def)
qed

lemma float_repr_inject:
  assumes "float_ok (Fin x)" "float_ok (Fin y)" "float_repr (Fin x) = float_repr (Fin y)"
  shows "x = y"
proof -
  have "float_of_text (float_repr (Fin z)) = Inr (Fin z)" if "float_ok (Fin z)" for z
    using that float_of_zero float_of_repr(1) [of z] by (cases "z = 0") auto
  then show ?thesis using assms by (metis pyfloat.inject sum.inject(2))
qed

text \<open>Values whose strings satisfy a predicate and whose floats can be read back.\<close>

fun jval_ok_with :: "(string \<Rightarrow> bool) \<Rightarrow> jval \<Rightarrow> bool" where
  "jval_ok_with ok (VFloat x) = float_ok x"
| "jval_ok_with ok (VStr s) = ok s"
| "jval_ok_with ok (VArr xs) = list_all (jval_ok_with ok) xs"
| "jval_ok_with ok (VObj kvs) = list_all (\<lambda>(k, v). ok k \<and> jval_ok_with ok v) kvs"
| "jval_ok_with ok _ = True"

abbreviation jval_ok :: "jval \<Rightarrow> bool" where
  "jval_ok \<equiv> jval_ok_with is_ascii"

text \<open>What the rendering of strings has to promise: a quote in front, and no string's text
  starts the text of another one.\<close>

locale string_text =
  fixes st :: "string \<Rightarrow> string" and ok :: "string \<Rightarrow> bool"
  assumes quoted: "st s \<noteq> [] \<and> hd (st s) = CHR 0x22"
    and prefix: "ok s \<Longrightarrow> ok t \<Longrightarrow> st s @ r = st t @ q \<Longrightarrow> s = t \<and> r = q"

lemma float_text_inject:
  assumes "float_ok x" "float_ok y" "json_float x = json_float y"
  shows "x = y"
proof -
  have plain: "plain_text (json_float (Fin z))" if "float_ok (Fin z)" for z using float_repr_plain [OF that] by simp
  have "\<not> is_plain (CHR ''I'')" "\<not> is_plain (CHR ''N'')" by (simp_all add: is_plain_def char_class_defs)
  then have odd: "\<not> plain_text (json_float z)" if "\<not> isfinite z" for z using that by (cases z) simp_all
  show ?thesis
  proof (cases "isfinite x \<or> isfinite y")
    case True
    then have "isfinite x" "isfinite y"
      using assms plain odd by (cases x; cases y; simp del: json_float.simps; metis isfinite.simps)+
    then show ?thesis using assms float_repr_inject by (cases x; cases y) (auto simp del: float_repr.simps)
  qed (use assms in \<open>cases x; cases y; simp\<close>)
qed

definition first_class :: "char \<Rightarrow> nat" where
  "first_class c =
     (if c = CHR ''n'' then 0 else if c = CHR ''t'' \<or> c = CHR ''f'' then 1
      else if c = CHR 0x22 then 3 else if c = CHR ''['' then 4 else if c = CHR ''{'' then 5 else 2)"

fun jclass :: "jval \<Rightarrow> nat" where
  "jclass VNull = 0"
| "jclass (VBool _) = 1"
| "jclass (VStr _) = 3"
| "jclass (VArr _) = 4"
| "jclass (VObj _) = 5"
| "jclass _ = 2"

lemma jval_ok_sort_keys: "jval_ok_with ok v \<Longrightarrow> jval_ok_with ok (sort_keys v)"
proof (induction v)
  case (VObj kvs)
  have "ok k \<and> jval_ok_with ok (sort_keys v)" if "(k, v) \<in> set kvs" for k v
    using VObj that by (auto simp: list_all_iff)
  then show ?case by (auto simp: list_all_iff)
qed (auto simp: list_all_iff)

context string_text
begin

lemma number_tokens: "is_number v \<Longrightarrow> jval_ok_with ok v \<Longrightarrow> list_all is_token (jtext_with st v) \<and> jtext_with st v \<noteq> []"
proof -
  assume n: "is_number v" "jval_ok_with ok v"
  have tok: "list_all is_token s" if "plain_text s" for s using that by (auto simp: plain_text_def list_all_iff is_token_def)
  show ?thesis
  proof (cases v)
    case (VFloat x)
    show ?thesis
    proof (cases x)
      case (Fin y)
      then have ok: "float_ok (Fin y)" using n VFloat by simp
      then have "float_repr (Fin y) \<noteq> []" using float_repr_mark [OF ok] by (cases "float_repr (Fin y)") auto
      then show ?thesis using tok [OF float_repr_plain [OF ok]] VFloat Fin by simp
    qed (simp_all add: VFloat is_token_def is_plain_def)
  qed (use n tok plain_int_str in auto)
qed

lemma number_inject:
  assumes "is_number v" "is_number w" "jval_ok_with ok v" "jval_ok_with ok w" "jtext_with st v = jtext_with st w"
  shows "v = w"
proof -
  have mark: "\<exists>c \<in> set (json_float x). \<not> is_digit c \<and> c \<noteq> CHR ''-''" if "float_ok x" for x
  proof (cases x)
    case (Fin y)
    have "CHR ''.'' \<in> set (float_repr (Fin y)) \<or> CHR ''e'' \<in> set (float_repr (Fin y))"
      using that Fin by (intro float_repr_mark) simp
    then show ?thesis unfolding Fin json_float.simps
      by (elim disjE) (rule bexI [of _ "CHR ''.''"], simp, assumption, rule bexI [of _ "CHR ''e''"], simp, assumption)
  qed (auto simp: char_class_defs)
  have "json_float x \<noteq> int_str i" if "float_ok x" for x i
    using mark [OF that] plain_int_str(2) [of i] by (auto simp: list_all_iff)
  then show ?thesis using assms float_text_inject by (cases v; cases w) (auto simp del: json_float.simps dest: sym)
qed

subsection \<open>Documents\<close>

lemma number_first: "is_number v \<Longrightarrow> jval_ok_with ok v \<Longrightarrow> first_class (hd (jtext_with st v @ r)) = 2"
proof -
  assume n: "is_number v" "jval_ok_with ok v"
  have int: "first_class (hd (int_str i @ r)) = 2" for i
    using int_str_hd [of i r] by (auto simp: first_class_def char_class_defs)
  have pos: "first_class (hd (repr_positive y @ r)) = 2" if "normal_double y" "0 < y" for y
    using repr_positive(2,3) [OF that] by (auto simp: first_class_def char_class_defs)
  have "normal_double (- y)" if "normal_double y" for y using that by (simp add: normal_double_def fl_minus)
  then have "first_class (hd (float_repr (Fin y) @ r)) = 2" if "float_ok (Fin y)" for y
    using that pos [of y] pos [of "- y"] by (cases "y = 0"; cases "0 < y") (auto simp: first_class_def)
  note float = this
  show ?thesis
  proof (cases v)
    case (VFloat x)
    then show ?thesis using n float by (cases x) (simp_all del: float_repr.simps, simp_all add: first_class_def)
  qed (use n int in simp_all)
qed

lemma jtext_class: "jval_ok_with ok v \<Longrightarrow> first_class (hd (jtext_with st v @ r)) = jclass v"
  using number_first [of v r] by (cases v) (auto simp: first_class_def quoted hd_append)

lemma jtext_nonempty: "jval_ok_with ok v \<Longrightarrow> jtext_with st v \<noteq> []"
  using number_tokens [of v] by (cases v) (auto simp: quoted)

lemma jtext_number_prefix:
  assumes "is_number v" "is_number w" "jval_ok_with ok v" "jval_ok_with ok w" "jtext_with st v @ r = jtext_with st w @ q" "token_end r" "token_end q"
  shows "v = w \<and> r = q"
proof -
  have "takeWhile is_token (jtext_with st u @ t) = jtext_with st u" if "is_number u" "jval_ok_with ok u" "token_end t" for u t
    by (rule takeWhile_digits) (use number_tokens [OF that(1,2)] that(3) in \<open>auto simp: list_all_iff token_end_def\<close>)
  then have "jtext_with st v = jtext_with st w" using assms by metis
  with number_inject [OF assms(1-4)] assms(5) show ?thesis by simp
qed

lemma jtext_hd: "jval_ok_with ok v \<Longrightarrow> hd (jtext_with st v) \<noteq> CHR '']'' \<and> hd (jtext_with st v) \<noteq> CHR ''}''"
proof -
  assume v: "jval_ok_with ok v"
  have int: "hd (int_str i) = CHR ''-'' \<or> is_digit (hd (int_str i))" for i using int_str_hd [of i "[]"] by simp
  show ?thesis
  proof (cases "is_number v")
    case True
    then have "list_all is_token (jtext_with st v)" "jtext_with st v \<noteq> []" using number_tokens v by blast+
    then have "is_token (hd (jtext_with st v))" by (cases "jtext_with st v") simp_all
    then show ?thesis by (auto simp: is_token_def is_plain_def char_class_defs)
  next
    case False
    then show ?thesis by (cases v) (auto simp: quoted)
  qed
qed

theorem jtext_prefix:
  "jval_ok_with ok v \<Longrightarrow> jval_ok_with ok w \<Longrightarrow> jtext_with st v @ r = jtext_with st w @ q \<Longrightarrow> token_end r \<Longrightarrow> token_end q \<Longrightarrow> v = w \<and> r = q"
proof (induction v arbitrary: w r q)
  case VNull
  then show ?case using jtext_class [of w q] jtext_class [of VNull r] by (cases w) auto
next
  case (VBool b)
  then show ?case using jtext_class [of w q] jtext_class [of "VBool b" r] by (cases w) (auto split: if_splits)
next
  case (VInt i)
  have "jclass w = 2" using VInt.prems jtext_class [of w q] jtext_class [of "VInt i" r] by simp
  then have "is_number w" by (cases w) simp_all
  with VInt.prems show ?case by (intro jtext_number_prefix) simp_all
next
  case (VFloat x)
  have "jclass w = 2" using VFloat.prems jtext_class [of w q] jtext_class [of "VFloat x" r] by simp
  then have "is_number w" by (cases w) simp_all
  with VFloat.prems show ?case by (intro jtext_number_prefix) simp_all
next
  case (VStr s)
  have "jclass w = 3" using VStr.prems jtext_class [of w q] jtext_class [of "VStr s" r] by simp
  then obtain t where "w = VStr t" by (cases w) simp_all
  with VStr.prems prefix [of s t r q] show ?case by simp
next
  case (VArr xs)
  have "jclass w = 4" using VArr.prems jtext_class [of w q] jtext_class [of "VArr xs" r] by simp
  then obtain ys where w: "w = VArr ys" by (cases w) simp_all
  define f where "f = (\<lambda>v. if jval_ok_with ok v then jtext_with st v else ''x'')"
  have eq: "map (jtext_with st) xs = map f xs" "map (jtext_with st) ys = map f ys"
    using VArr.prems(1,2) w by (auto simp: f_def list_all_iff)
  have "xs = ys \<and> r = q"
  proof (rule join_prefix [where f = f and cl = "CHR '']''" and D = token_end])
    fix x y s t assume "x \<in> set xs" "y \<in> set ys" "f x @ s = f y @ t" "token_end s" "token_end t"
    with VArr.IH [of x y s t] VArr.prems(1,2) w show "x = y \<and> s = t" by (simp add: f_def list_all_iff)
  qed (use VArr.prems(3) w eq jtext_hd jtext_nonempty in \<open>auto simp: f_def\<close>)
  with w show ?case by simp
next
  case (VObj kvs)
  have "jclass w = 5" using VObj.prems jtext_class [of w q] jtext_class [of "VObj kvs" r] by simp
  then obtain lws where w: "w = VObj lws" by (cases w) simp_all
  let ?f = "\<lambda>(k, v). st k @ '':'' @ jtext_with st v"
  have "kvs = lws \<and> r = q"
  proof (rule join_prefix [where f = ?f and cl = "CHR ''}''" and D = token_end])
    fix p p' s t
    assume p: "p \<in> set kvs" "p' \<in> set lws" "?f p @ s = ?f p' @ t" "token_end s" "token_end t"
    obtain k v k' v' where kv: "p = (k, v)" "p' = (k', v')" by fastforce
    have ok: "ok k" "ok k'" "jval_ok_with ok v" "jval_ok_with ok v'"
      using VObj.prems(1,2) w p(1,2) kv by (auto simp: list_all_iff)
    have "k = k'" "jtext_with st v @ s = jtext_with st v' @ t"
      using p(3) kv prefix [OF ok(1,2), of "CHR '':'' # jtext_with st v @ s" "CHR '':'' # jtext_with st v' @ t"] by auto
    with VObj.IH [OF p(1), of v v' s t] p(4,5) kv ok show "p = p' \<and> s = t" by simp
  qed (use VObj.prems w in \<open>auto simp: quoted\<close>)
  with w show ?case by simp
qed

corollary text_inject:
  assumes "jval_ok_with ok v" "jval_ok_with ok w" "jtext_with st (sort_keys v) = jtext_with st (sort_keys w)"
  shows "sort_keys v = sort_keys w"
  using jtext_prefix [OF jval_ok_sort_keys [OF assms(1)] jval_ok_sort_keys [OF assms(2)], of "[]" "[]"] assms(3)
  by simp

end

interpretation ascii: string_text ascii_text is_ascii
  by unfold_locales (simp add: ascii_text_def, rule ascii_text_prefix)

interpretation unicode: string_text render_str "\<lambda>_. True"
  by unfold_locales (simp add: render_str_def, rule render_str_prefix)

corollary dumps_inject:
  assumes "jval_ok v" "jval_ok w" "dumps v = dumps w"
  shows "sort_keys v = sort_keys w"
  using ascii.text_inject assms by (simp add: dumps_def)

subsection \<open>Sorting keys\<close>

lemma sort_key_fst_inject:
  fixes kvs lws :: "('k::linorder \<times> 'v) list"
  assumes "map fst kvs = map fst lws" "distinct (map fst kvs)" "sort_key fst kvs = sort_key fst lws"
  shows "kvs = lws"
proof (rule nth_equalityI)
  show len: "length kvs = length lws" using assms(1) map_eq_imp_length_eq by blast
  fix i assume i: "i < length kvs"
  from arg_cong [OF assms(3), of set] have "set kvs = set lws" by simp
  then have "kvs ! i \<in> set lws" using i by (metis nth_mem)
  then obtain j where j: "j < length lws" "kvs ! i = lws ! j" by (auto simp: in_set_conv_nth)
  then have "map fst kvs ! i = map fst kvs ! j" using i len assms(1) by (metis nth_map)
  then have "i = j" using assms(2) i j(1) len by (metis length_map nth_eq_iff_index_eq)
  with j show "kvs ! i = lws ! i" by simp
qed

lemma sort_keys_obj:
  assumes "map fst kvs = map fst lws" "distinct (map fst kvs)" "sort_keys (VObj kvs) = sort_keys (VObj lws)"
  shows "map (sort_keys \<circ> snd) kvs = map (sort_keys \<circ> snd) lws"
proof -
  let ?f = "\<lambda>(k, v). (k, sort_keys v)"
  have fst: "map fst (map ?f xs) = map fst xs" for xs :: "(string \<times> jval) list" by (simp add: case_prod_beta comp_def)
  have "map ?f kvs = map ?f lws"
    by (rule sort_key_fst_inject) (use assms in \<open>simp_all only: fst sort_keys.simps jval.inject\<close>)
  from arg_cong [OF this, of "map snd"] show ?thesis by (simp add: case_prod_beta comp_def)
qed

end
