(* ===== verification/ChainValues.thy ===== *)
theory ChainValues
  imports World JsonText
begin

text \<open>
  Untrusted chain values and the client they come from, as \<open>planrace/testnet_preflight.py\<close> and
  \<open>planrace/testnet_weights.py\<close> read them: a value is any Python value (\<open>pyval\<close>), a field is
  a mapping entry or an attribute, and each coercion keeps the exceptions the code does not
  catch. A special method of another object (\<open>__int__\<close>, \<open>__float__\<close>, \<open>__bool__\<close>) is an
  attribute that holds what the method returns. The SDK client is a record of steps on the
  world, each of which may raise; \<open>endpoint\<close>, \<open>block\<close> and \<open>spec_version\<close> have the types its
  protocol class declares, so \<open>str\<close> and \<open>int\<close> of them are the identity.
\<close>

section \<open>Coercions\<close>

text \<open>Dictionary keys: numbers of any type are equal when their values are.\<close>

fun key_number :: "pyval \<Rightarrow> real option" where
  "key_number (PInt i) = Some (of_int i)"
| "key_number (PBool b) = Some (if b then 1 else 0)"
| "key_number (PFloat (Fin x)) = Some x"
| "key_number _ = None"

definition same_key :: "pyval \<Rightarrow> pyval \<Rightarrow> bool" where
  "same_key a b \<longleftrightarrow> a = b \<or> (key_number a \<noteq> None \<and> key_number a = key_number b)"

definition map_get :: "(pyval \<times> pyval) list \<Rightarrow> pyval \<Rightarrow> pyval option" where
  "map_get kvs k = map_option snd (find (\<lambda>(k', _). same_key k' k) kvs)"

fun py_field :: "pyval \<Rightarrow> string \<Rightarrow> pyval \<Rightarrow> pyval" where
  "py_field (PMap kvs) name dflt = (case map_get kvs (PStr name) of Some v \<Rightarrow> v | None \<Rightarrow> dflt)"
| "py_field (PObj _ attrs) name dflt = (case map_of attrs name of Some v \<Rightarrow> v | None \<Rightarrow> dflt)"
| "py_field _ name dflt = dflt"

fun py_indexed :: "pyval \<Rightarrow> nat \<Rightarrow> pyval \<Rightarrow> pyval" where
  "py_indexed (PSeq xs) i dflt = (if i < length xs then xs ! i else dflt)"
| "py_indexed _ i dflt = dflt"

text \<open>\<open>int(value)\<close>: truncation of floats, text, and the type errors.\<close>

fun int_of_float :: "pyfloat \<Rightarrow> int result" where
  "int_of_float (Fin x) = Inr (if x < 0 then - \<lfloor>- x\<rfloor> else \<lfloor>x\<rfloor>)"
| "int_of_float NaN = Inl (ValueError ''cannot convert float NaN to integer'')"
| "int_of_float _ = Inl OverflowError"

definition int_type_error :: pyerr where
  "int_type_error = TypeError ''int() argument must be a string, a bytes-like object or a real number''"

fun py_int :: "pyval \<Rightarrow> int result" where
  "py_int (PInt i) = Inr i"
| "py_int (PBool b) = Inr (if b then 1 else 0)"
| "py_int (PFloat x) = int_of_float x"
| "py_int (PStr s) = int_of_text (number_text s)"
| "py_int (PBytes s) = int_of_text s"
| "py_int (PObj _ attrs) = (case map_of attrs ''__int__'' of Some (PInt i) \<Rightarrow> Inr i | _ \<Rightarrow> Inl int_type_error)"
| "py_int _ = Inl int_type_error"

fun has_int :: "pyval \<Rightarrow> bool" where
  "has_int (PInt _) = True"
| "has_int (PBool _) = True"
| "has_int (PFloat _) = True"
| "has_int (PObj _ attrs) = (map_of attrs ''__int__'' \<noteq> None)"
| "has_int _ = False"

text \<open>\<open>list(value)\<close> of a sequence, the empty list for anything else.\<close>

fun py_list :: "pyval \<Rightarrow> pyval list" where
  "py_list (PSeq xs) = xs"
| "py_list (PStr s) = map (\<lambda>n. PStr (utf8 n)) (code_points s)"
| "py_list (PBytes s) = map (\<lambda>c. PInt (of_char c)) s"
| "py_list _ = []"

fun is_text :: "pyval \<Rightarrow> bool" where
  "is_text (PStr _) = True"
| "is_text (PBytes _) = True"
| "is_text _ = False"

fun is_bool :: "pyval \<Rightarrow> bool" where
  "is_bool (PBool _) = True"
| "is_bool _ = False"

text \<open>\<open>TypeError\<close> and \<open>ValueError\<close> become \<open>None\<close>; \<open>int(inf)\<close> still raises \<open>OverflowError\<close>.\<close>

definition optional_int :: "pyval \<Rightarrow> int option result" where
  "optional_int v =
     (if v = PNone \<or> is_bool v then Inr None
      else if is_text v \<or> has_int v
      then (case py_int v of
          Inr i \<Rightarrow> Inr (Some i)
        | Inl (TypeError _) \<Rightarrow> Inr None
        | Inl (ValueError _) \<Rightarrow> Inr None
        | Inl e \<Rightarrow> Inl e)
      else Inr None)"

fun optional_bool :: "pyval \<Rightarrow> bool option" where
  "optional_bool (PBool b) = Some b"
| "optional_bool _ = None"

text \<open>\<open>float(value)\<close> and \<open>_finite_float\<close>; an integer beyond the range raises \<open>OverflowError\<close>.\<close>

fun py_float :: "pyval \<Rightarrow> pyfloat result" where
  "py_float (PFloat x) = Inr x"
| "py_float (PInt i) = (case double_of (of_int i) of Fin x \<Rightarrow> Inr (Fin x) | _ \<Rightarrow> Inl OverflowError)"
| "py_float (PStr s) = float_of_text (number_text s)"
| "py_float (PBytes s) = float_of_text s"
| "py_float (PObj _ attrs) = (case map_of attrs ''__float__'' of Some (PFloat x) \<Rightarrow> Inr x
     | _ \<Rightarrow> Inl (TypeError ''float() argument must be a string or a real number''))"
| "py_float _ = Inl (TypeError ''float() argument must be a string or a real number'')"

definition finite_float :: "pyval \<Rightarrow> real option" where
  "finite_float v =
     (if is_bool v then None
      else case py_float v of Inr (Fin x) \<Rightarrow> Some x | _ \<Rightarrow> None)"

fun py_truth :: "pyval \<Rightarrow> bool" where
  "py_truth PNone = False"
| "py_truth (PBool b) = b"
| "py_truth (PInt i) = (i \<noteq> 0)"
| "py_truth (PFloat x) = (x \<noteq> Fin 0)"
| "py_truth (PStr s) = (s \<noteq> [])"
| "py_truth (PBytes s) = (s \<noteq> [])"
| "py_truth (PSeq xs) = (xs \<noteq> [])"
| "py_truth (PMap kvs) = (kvs \<noteq> [])"
| "py_truth (PObj _ attrs) = (map_of attrs ''__bool__'' \<noteq> Some (PBool False))"

text \<open>
  \<open>str(value)\<close>. The text of a container or of another object is a parameter; an integer with
  more than 4300 digits has no text.
\<close>

fun py_str :: "(pyval \<Rightarrow> string result) \<Rightarrow> pyval \<Rightarrow> string result" where
  "py_str repr_of (PStr s) = Inr s"
| "py_str repr_of PNone = Inr ''None''"
| "py_str repr_of (PBool b) = Inr (if b then ''True'' else ''False'')"
| "py_str repr_of (PInt i) = (if length (nat_str (nat \<bar>i\<bar>)) \<le> MAX_INT_DIGITS then Inr (int_str i)
     else Inl (ValueError ''Exceeds the limit (4300 digits) for integer string conversion''))"
| "py_str repr_of (PFloat x) = Inr (float_repr x)"
| "py_str repr_of v = repr_of v"

text \<open>\<open>type(error).__name__\<close> of an exception.\<close>

fun error_name :: "pyerr \<Rightarrow> string" where
  "error_name (ValueError _) = ''ValueError''"
| "error_name (TypeError _) = ''TypeError''"
| "error_name (RuntimeError _) = ''RuntimeError''"
| "error_name (KeyError _) = ''KeyError''"
| "error_name IndexError = ''IndexError''"
| "error_name OverflowError = ''OverflowError''"
| "error_name DecimalOverflow = ''Overflow''"
| "error_name (AssertionError _) = ''AssertionError''"
| "error_name (OSError _) = ''OSError''"
| "error_name ZeroDivisionError = ''ZeroDivisionError''"
| "error_name (UnsupportedNetworkError _) = ''UnsupportedNetworkError''"
| "error_name (SdkError name) = name"
| "error_name _ = ''Exception''"

section \<open>The client\<close>

record 'w snapshot =
  sn_block :: "('w, int) io"
  sn_read :: "string \<Rightarrow> (string \<times> pyval) list \<Rightarrow> ('w, pyval) io"
  sn_networks_added :: "int \<Rightarrow> ('w, pyval) io" \<comment> \<open>\<open>query(NetworksAdded, [netuid])\<close>\<close>
  sn_block_info :: "('w, pyval) io"

record 'w testnet_client =
  cl_endpoint :: "('w, string) io"
  cl_block :: "('w, int) io"
  cl_spec_version :: "('w, int) io"
  cl_at :: "int \<Rightarrow> ('w, 'w snapshot) io"
  cl_close :: "('w, unit) io"

text \<open>What the code takes from outside: the texts of \<open>str\<close>, the SDK version, the factory.\<close>

record 'w testnet =
  tn_repr :: "pyval \<Rightarrow> string result"
  tn_sdk_version :: string
  tn_client :: "('w, 'w testnet_client) io"

text \<open>
  \<open>try: client = factory(); body  except Exception: handler  finally: client.close()\<close>. The
  client is closed when the factory returned; an exception of \<open>close\<close> replaces the result.
\<close>

definition with_client :: "('w, 'c) io \<Rightarrow> ('c \<Rightarrow> ('w, unit) io) \<Rightarrow> ('c \<Rightarrow> ('w, 'a) io) \<Rightarrow> (pyerr \<Rightarrow> 'a) \<Rightarrow> ('w, 'a) io" where
  "with_client open_client close_client body handler w =
     (case open_client w of
        (Inl e, w1) \<Rightarrow> (Inr (handler e), w1)
      | (Inr client, w1) \<Rightarrow>
          (case body client w1 of (r, w2) \<Rightarrow>
             (case close_client client w2 of
                (Inl e, w3) \<Rightarrow> (Inl e, w3)
              | (Inr _, w3) \<Rightarrow> (Inr (case r of Inl e \<Rightarrow> handler e | Inr x \<Rightarrow> x), w3))))"

text \<open>\<open>testnet_subnet_exists\<close>.\<close>

definition testnet_subnet_exists :: "'w snapshot \<Rightarrow> int \<Rightarrow> ('w, bool) io" where
  "testnet_subnet_exists snapshot netuid =
     io_bind (sn_networks_added snapshot netuid) (\<lambda>v.
       case v of PBool b \<Rightarrow> io_return b
       | _ \<Rightarrow> io_raise (ValueError ''testnet returned an invalid subnet existence flag''))"

section \<open>Rules\<close>

lemma with_client_Inr:
  "with_client m c body h w = (Inr x, w') \<longleftrightarrow>
     (\<exists>e. m w = (Inl e, w') \<and> x = h e) \<or>
     (\<exists>client w1 r w2 u. m w = (Inr client, w1) \<and> body client w1 = (r, w2) \<and> c client w2 = (Inr u, w')
        \<and> x = (case r of Inl e \<Rightarrow> h e | Inr y \<Rightarrow> y))"
  by (auto simp: with_client_def split: prod.splits sum.splits)

text \<open>Nothing but \<open>close\<close> raises.\<close>

lemma with_client_Inl:
  "with_client m c body h w = (Inl e, w') \<longleftrightarrow>
     (\<exists>client w1 r w2. m w = (Inr client, w1) \<and> body client w1 = (r, w2) \<and> c client w2 = (Inl e, w'))"
  by (auto simp: with_client_def split: prod.splits sum.splits)

lemma with_client_all:
  assumes "\<And>client. io_all (body client) P" "\<And>e. P (h e)"
  shows "io_all (with_client m c body h) P"
  unfolding io_all_def
proof (intro allI impI)
  fix w y w' assume "with_client m c body h w = (Inr y, w')"
  then consider e where "y = h e" | client w1 r w2 where "body client w1 = (r, w2)" "y = (case r of Inl e \<Rightarrow> h e | Inr x \<Rightarrow> x)"
    unfolding with_client_Inr by blast
  then show "P y"
  proof cases
    case 2
    then show ?thesis using assms(1) [of client] assms(2) by (cases r) (auto simp: io_all_def)
  qed (use assms(2) in simp)
qed

lemma opened_report:
  assumes "with_client m c body h w = (Inr r, w')" "P r" "\<And>e. \<not> P (h e)"
  obtains client w1 w2 where "m w = (Inr client, w1)" "body client w1 = (Inr r, w2)"
proof -
  from assms(1) consider e where "r = h e"
    | client w1 x w2 where "m w = (Inr client, w1)" "body client w1 = (x, w2)" "r = (case x of Inl e \<Rightarrow> h e | Inr y \<Rightarrow> y)"
    unfolding with_client_Inr by blast
  then show thesis
  proof cases
    case (2 client w1 x w2)
    then have x: "x = Inr r" using assms(2,3) by (cases x) auto
    show thesis by (rule that [OF 2(1) 2(2) [unfolded x]])
  qed (use assms(2,3) in blast)
qed

lemma finite_float_text:
  "normal_double x \<Longrightarrow> finite_float (PStr (float_repr (Fin x))) = Some x"
  using float_of_repr [of x] plain_number_text [of "float_repr (Fin x)"] by (simp add: finite_float_def)

end
