(* ===== verification/TestnetPreflight.thy ===== *)
theory TestnetPreflight
  imports ChainValues
begin

text \<open>
  The read-only readiness check of \<open>planrace/testnet_preflight.py\<close>: public roles and
  addresses, the status of subnet, coldkey and roles read from one chain snapshot, the gates
  and the report. Whether a text is the address "unspecified" (\<open>ipaddress\<close>) is a parameter.
\<close>

definition TESTNET_ENDPOINT :: string where "TESTNET_ENDPOINT = ''wss://test.finney.opentensor.ai:443''"
definition PREFLIGHT_SCHEMA_VERSION :: string where "PREFLIGHT_SCHEMA_VERSION = ''planrace/testnet-preflight/2''"
definition MAX_NETUID :: int where "MAX_NETUID = 65535"

section \<open>Public identifiers\<close>

definition valid_ss58 :: "string \<Rightarrow> bool" where
  "valid_ss58 s \<longleftrightarrow> length s = 48 \<and> hd s = CHR ''5'' \<and> list_all is_base58 (tl s)"

definition valid_role :: "string \<Rightarrow> bool" where
  "valid_role s \<longleftrightarrow> s \<noteq> [] \<and> length s \<le> 32 \<and> is_lower (hd s)
     \<and> list_all (\<lambda>c. is_lower c \<or> is_digit c \<or> c = CHR ''_'' \<or> c = CHR ''-'') (tl s)"

definition validate_public_ss58 :: "string \<Rightarrow> string result" where
  "validate_public_ss58 address =
     (if valid_ss58 address then Inr address
      else Inl (ValueError ''public SS58 address must be a 48-character Bittensor address''))"

text \<open>\<open>value.split("=", 1)\<close> of a text that has the sign.\<close>

definition split_assignment :: "string \<Rightarrow> string \<times> string" where
  "split_assignment value = (takeWhile (\<lambda>c. c \<noteq> CHR ''='') value, drop 1 (dropWhile (\<lambda>c. c \<noteq> CHR ''='') value))"

text \<open>The quoted role is left out of the messages.\<close>

definition parse_public_role :: "(string \<times> string) list \<Rightarrow> string \<Rightarrow> (string \<times> string) list result" where
  "parse_public_role parsed value =
     rbind (rcheck (CHR ''='' \<in> set value) (ValueError ''hotkey must use role=SS58 format'')) (\<lambda>_.
     (let (role, address) = split_assignment value in
     rbind (rcheck (valid_role role) (ValueError ''invalid role name'')) (\<lambda>_.
     rbind (validate_public_ss58 address) (\<lambda>_.
     rbind (rcheck (role \<notin> set (map fst parsed)) (ValueError ''duplicate role'')) (\<lambda>_.
     rbind (rcheck (address \<notin> set (map snd parsed))
       (ValueError ''one public hotkey cannot be assigned to multiple roles'')) (\<lambda>_.
     Inr (parsed @ [(role, address)])))))))"

definition parse_public_roles :: "string list \<Rightarrow> (string \<times> string) list result" where
  "parse_public_roles values1 = rfold parse_public_role [] values1"

section \<open>Statuses\<close>

record public_axon =
  ax_ip :: string
  ax_port :: int
  ax_ip_type :: int
  ax_protocol :: int
  ax_version :: int

record role_status =
  rs_role :: string
  rs_hotkey_ss58 :: string
  rs_uid :: "nat option"
  rs_registered :: bool
  rs_coldkey_matches :: "bool option"
  rs_axon_served :: bool
  rs_axon :: "public_axon option"
  rs_validator_permit :: bool
  rs_is_subnet_owner :: bool
  rs_weight_setting_authorized :: bool
  rs_blocks_since_last_update :: "int option"

record subnet_status =
  ss_netuid :: int
  ss_exists :: bool
  ss_neuron_count :: "int option"
  ss_tempo :: "int option"
  ss_registration_allowed :: "bool option"
  ss_subnet_is_active :: "bool option"
  ss_max_uids :: "int option"
  ss_min_allowed_weights :: "int option"
  ss_max_weights_limit :: "int option"
  ss_weights_rate_limit :: "int option"
  ss_commit_reveal_weights_enabled :: "bool option"
  ss_commit_reveal_period :: "int option"

record coldkey_status =
  ck_ss58 :: string
  ck_balance_rao :: int
  ck_balance_tao :: string
  ck_positive_balance :: bool

record preflight_gates =
  pg_canonical_endpoint :: bool
  pg_snapshot_pinned :: bool
  pg_subnet_exists :: bool
  pg_coldkey_balance_positive :: bool
  pg_required_roles_present :: bool
  pg_all_roles_registered :: bool
  pg_validator_authorized :: bool
  pg_miner_axons_served :: bool
  pg_registration_requirement_met :: bool
  pg_served_axon_requirement_met :: bool

record preflight_report =
  pr_endpoint :: string
  pr_sdk_version :: string
  pr_block :: "int option"
  pr_runtime_spec_version :: "int option"
  pr_chain_reachable :: bool
  pr_subnet :: "subnet_status option"
  pr_coldkey :: "coldkey_status option"
  pr_roles :: "role_status list"
  pr_gates :: preflight_gates
  pr_ready_for_registration :: bool
  pr_ready_for_protocol_run :: bool
  pr_next_action :: string
  pr_limitations :: "string list"
  pr_errors :: "string list"

text \<open>The parameters: the client side and \<open>ip_address(text).is_unspecified\<close> (\<open>None\<close> for a \<open>ValueError\<close>).\<close>

record 'w preflight_env = "'w testnet" +
  tn_ip_unspecified :: "string \<Rightarrow> bool option"

definition int_or_zero :: "pyval \<Rightarrow> int result" where
  "int_or_zero v = rbind (optional_int v) (\<lambda>i. Inr (case i of None \<Rightarrow> 0 | Some n \<Rightarrow> n))"

definition axon_status :: "'w preflight_env \<Rightarrow> pyval \<Rightarrow> (bool \<times> public_axon option) result" where
  "axon_status env value =
     (if value = PNone then Inr (False, None) else
     rbind (py_str (tn_repr env) (py_field value ''ip'' (PStr []))) (\<lambda>ip.
     rbind (int_or_zero (py_field value ''port'' (PInt 0))) (\<lambda>port.
     rbind (int_or_zero (py_field value ''ip_type'' (PInt 0))) (\<lambda>ip_type.
     rbind (int_or_zero (py_field value ''protocol'' (PInt 0))) (\<lambda>protocol.
     rbind (int_or_zero (py_field value ''version'' (PInt 0))) (\<lambda>version.
     (let unspecified = (case tn_ip_unspecified env ip of Some u \<Rightarrow> u | None \<Rightarrow> ip = [])
      in Inr (0 < port \<and> \<not> unspecified,
           Some \<lparr>ax_ip = ip, ax_port = port, ax_ip_type = ip_type, ax_protocol = protocol, ax_version = version\<rparr>))))))))"

definition absent_subnet :: "int \<Rightarrow> subnet_status" where
  "absent_subnet netuid = \<lparr>ss_netuid = netuid, ss_exists = False, ss_neuron_count = None, ss_tempo = None,
     ss_registration_allowed = None, ss_subnet_is_active = None, ss_max_uids = None,
     ss_min_allowed_weights = None, ss_max_weights_limit = None, ss_weights_rate_limit = None,
     ss_commit_reveal_weights_enabled = None, ss_commit_reveal_period = None\<rparr>"

definition subnet_fields :: "int \<Rightarrow> pyval \<Rightarrow> pyval \<Rightarrow> subnet_status result" where
  "subnet_fields netuid subnet hyper =
     rbind (optional_int (py_field subnet ''neuron_count'' PNone)) (\<lambda>neuron_count.
     rbind (optional_int (py_field subnet ''tempo'' (py_field hyper ''tempo'' PNone))) (\<lambda>tempo.
     rbind (optional_int (py_field hyper ''max_uids'' PNone)) (\<lambda>max_uids.
     rbind (optional_int (py_field hyper ''min_allowed_weights'' PNone)) (\<lambda>min_allowed.
     rbind (optional_int (py_field hyper ''max_weights_limit'' PNone)) (\<lambda>max_limit.
     rbind (optional_int (py_field hyper ''weights_rate_limit'' PNone)) (\<lambda>rate_limit.
     rbind (optional_int (py_field hyper ''commit_reveal_period'' PNone)) (\<lambda>period.
     Inr \<lparr>ss_netuid = netuid, ss_exists = True, ss_neuron_count = neuron_count, ss_tempo = tempo,
       ss_registration_allowed = optional_bool (py_field hyper ''registration_allowed'' PNone),
       ss_subnet_is_active = optional_bool (py_field hyper ''subnet_is_active'' PNone),
       ss_max_uids = max_uids, ss_min_allowed_weights = min_allowed, ss_max_weights_limit = max_limit,
       ss_weights_rate_limit = rate_limit,
       ss_commit_reveal_weights_enabled = optional_bool (py_field hyper ''commit_reveal_weights_enabled'' PNone),
       ss_commit_reveal_period = period\<rparr>)))))))"

definition netuid_param :: "int \<Rightarrow> (string \<times> pyval) list" where
  "netuid_param netuid = [(''netuid'', PInt netuid)]"

definition subnet_status_of :: "'w snapshot \<Rightarrow> int \<Rightarrow> ('w, subnet_status) io" where
  "subnet_status_of snapshot netuid =
     io_bind (testnet_subnet_exists snapshot netuid) (\<lambda>there.
     if \<not> there then io_return (absent_subnet netuid) else
     io_bind (sn_read snapshot ''subnet'' (netuid_param netuid)) (\<lambda>subnet.
     if subnet = PNone then io_raise (ValueError ''existing testnet subnet returned no subnet data'') else
     io_bind (sn_read snapshot ''subnet_hyperparameters'' (netuid_param netuid)) (\<lambda>hyper.
     io_lift (subnet_fields netuid subnet hyper))))"

text \<open>
  \<open>format(Decimal(rao) / Decimal(1_000_000_000), "f")\<close>: the quotient with 29 digits and a
  sticky last digit, trailing zeros dropped down to the exponent zero, rounded to 28 digits.
\<close>

function strip_to_units :: "nat \<Rightarrow> int \<Rightarrow> nat \<times> int" where
  "strip_to_units c e = (if e < 0 \<and> c mod 10 = 0 then strip_to_units (c div 10) (e + 1) else (c, e))"
  by pat_completeness auto
termination
  by (relation "measure (\<lambda>(_, e). nat (- e))") auto

declare strip_to_units.simps [simp del]

definition decimal_quotient :: "nat \<Rightarrow> nat \<Rightarrow> (nat \<times> int) result" where
  "decimal_quotient a b =
     (let shift = int (length (nat_str b)) - int (length (nat_str a)) + int DECIMAL_PREC + 1;
          n = (if 0 \<le> shift then a * 10 ^ nat shift else a);
          d = (if 0 \<le> shift then b else b * 10 ^ nat (- shift));
          q = n div d
      in if a = 0 then Inr (0, 0)
         else if n mod d \<noteq> 0 then decimal_fix (if q mod 5 = 0 then q + 1 else q) (- shift)
         else (case strip_to_units q (- shift) of (c, e) \<Rightarrow> decimal_fix c e))"

definition balance_tao :: "nat \<Rightarrow> string result" where
  "balance_tao rao = rbind (decimal_quotient rao 1000000000) (\<lambda>(c, e). Inr (decimal_plain c e))"

definition coldkey_status_of :: "'w snapshot \<Rightarrow> string \<Rightarrow> ('w, coldkey_status) io" where
  "coldkey_status_of snapshot address =
     io_bind (sn_read snapshot ''balance'' [(''coldkey_ss58'', PStr address)]) (\<lambda>balance.
     io_bind (io_lift (optional_int (py_field balance ''rao'' PNone))) (\<lambda>rao.
     case rao of
       None \<Rightarrow> io_raise (ValueError ''testnet returned an invalid coldkey balance'')
     | Some n \<Rightarrow>
         if n < 0 then io_raise (ValueError ''testnet returned an invalid coldkey balance'') else
         io_bind (io_lift (balance_tao (nat n))) (\<lambda>tao.
         io_return \<lparr>ck_ss58 = address, ck_balance_rao = n, ck_balance_tao = tao, ck_positive_balance = 0 < n\<rparr>)))"

fun index_from :: "nat \<Rightarrow> pyval \<Rightarrow> pyval list \<Rightarrow> nat option" where
  "index_from i v [] = None"
| "index_from i v (x # xs) = (if x = v then Some i else index_from (Suc i) v xs)"

definition unregistered_role :: "string \<Rightarrow> string \<Rightarrow> role_status" where
  "unregistered_role role address = \<lparr>rs_role = role, rs_hotkey_ss58 = address, rs_uid = None,
     rs_registered = False, rs_coldkey_matches = None, rs_axon_served = False, rs_axon = None,
     rs_validator_permit = False, rs_is_subnet_owner = False, rs_weight_setting_authorized = False,
     rs_blocks_since_last_update = None\<rparr>"

text \<open>One turn of the loop over the roles.\<close>

definition role_status_of ::
  "'w preflight_env \<Rightarrow> 'w snapshot \<Rightarrow> pyval \<Rightarrow> string \<Rightarrow> string option \<Rightarrow> string \<times> string \<Rightarrow> ('w, role_status) io" where
  "role_status_of env snapshot metagraph owner_hotkey coldkey entry =
     (let (role, address) = entry in
      case index_from 0 (PStr address) (py_list (py_field metagraph ''hotkeys'' (PSeq []))) of
        None \<Rightarrow> io_return (unregistered_role role address)
      | Some uid \<Rightarrow>
     io_bind (io_lift (axon_status env (py_indexed (py_field metagraph ''axons'' (PSeq [])) uid PNone))) (\<lambda>(served, axon).
     (let registered_coldkey = py_indexed (py_field metagraph ''coldkeys'' (PSeq [])) uid PNone in
     io_bind (io_lift (optional_int (py_indexed (py_field metagraph ''last_update'' (PSeq [])) uid PNone))) (\<lambda>last_update.
     io_bind (case last_update of
         None \<Rightarrow> io_return None
       | Some u \<Rightarrow> io_bind (sn_block snapshot) (\<lambda>block. io_return (Some (max 0 (block - u))))) (\<lambda>blocks_since.
     (let permit = py_truth (py_indexed (py_field metagraph ''validator_permit'' (PSeq [])) uid (PBool False));
          owner = (owner_hotkey \<noteq> [] \<and> address = owner_hotkey) in
     io_bind (case coldkey of
         None \<Rightarrow> io_return None
       | Some key \<Rightarrow> if registered_coldkey = PNone then io_return None
           else io_bind (io_lift (py_str (tn_repr env) registered_coldkey)) (\<lambda>t. io_return (Some (t = key)))) (\<lambda>matches1.
     io_return \<lparr>rs_role = role, rs_hotkey_ss58 = address, rs_uid = Some uid, rs_registered = True,
       rs_coldkey_matches = matches1, rs_axon_served = served, rs_axon = axon, rs_validator_permit = permit,
       rs_is_subnet_owner = owner, rs_weight_setting_authorized = permit \<or> owner,
       rs_blocks_since_last_update = blocks_since\<rparr>)))))))"

definition role_statuses_of ::
  "'w preflight_env \<Rightarrow> 'w snapshot \<Rightarrow> int \<Rightarrow> (string \<times> string) list \<Rightarrow> string option \<Rightarrow> ('w, role_status list) io" where
  "role_statuses_of env snapshot netuid roles coldkey =
     (if roles = [] then io_return [] else
     io_bind (sn_read snapshot ''metagraph'' (netuid_param netuid)) (\<lambda>metagraph.
     io_bind (io_lift (py_str (tn_repr env) (py_field metagraph ''owner_hotkey'' (PStr [])))) (\<lambda>owner_hotkey.
     io_map (role_status_of env snapshot metagraph owner_hotkey coldkey) roles)))"

section \<open>The report\<close>

definition preflight_empty_gates :: preflight_gates where
  "preflight_empty_gates = \<lparr>pg_canonical_endpoint = False, pg_snapshot_pinned = False, pg_subnet_exists = False,
     pg_coldkey_balance_positive = False, pg_required_roles_present = False, pg_all_roles_registered = False,
     pg_validator_authorized = False, pg_miner_axons_served = False,
     pg_registration_requirement_met = False, pg_served_axon_requirement_met = False\<rparr>"

definition preflight_limitations :: "string list" where
  "preflight_limitations =
     [''This is a read-only latest-block snapshot, not finalized transaction evidence.'',
      ''A positive balance does not prove ownership or authorize spending.'',
      ''No registration, serving, staking, signing, or weight operation is performed.'']"

record preflight_request =
  pq_netuid :: "int option"
  pq_coldkey_ss58 :: "string option"
  pq_role_specs :: "string list"
  pq_require_registered :: bool
  pq_require_served_axon :: bool

text \<open>\<open>try: x = step; except Exception: errors.append(label + type name); x = fallback\<close>.\<close>

definition io_attempt :: "('w, 'a) io \<Rightarrow> (string \<Rightarrow> 'a \<times> string list) \<Rightarrow> ('w, 'a \<times> string list) io" where
  "io_attempt m fallback w = (case m w of
       (Inl e, w') \<Rightarrow> (Inr (fallback (error_name e)), w')
     | (Inr x, w') \<Rightarrow> (Inr (x, []), w'))"

definition preflight_failure :: "'w preflight_env \<Rightarrow> pyerr \<Rightarrow> preflight_report" where
  "preflight_failure env e = \<lparr>pr_endpoint = TESTNET_ENDPOINT, pr_sdk_version = tn_sdk_version env, pr_block = None,
     pr_runtime_spec_version = None, pr_chain_reachable = False, pr_subnet = None, pr_coldkey = None,
     pr_roles = [], pr_gates = preflight_empty_gates, pr_ready_for_registration = False,
     pr_ready_for_protocol_run = False,
     pr_next_action = ''Stop: restore read-only canonical testnet connectivity and rerun.'',
     pr_limitations = preflight_limitations, pr_errors = [''connection failed: '' @ error_name e]\<rparr>"

definition is_miner :: "string \<Rightarrow> bool" where
  "is_miner role \<longleftrightarrow> starts_with ''miner'' role"

text \<open>The gates and flags from what was read.\<close>

definition preflight_gates_of ::
  "preflight_request \<Rightarrow> bool \<Rightarrow> bool \<Rightarrow> subnet_status option \<Rightarrow> coldkey_status option
    \<Rightarrow> (string \<times> string) list \<Rightarrow> role_status list \<Rightarrow> preflight_gates" where
  "preflight_gates_of q canonical pinned subnet coldkey roles statuses =
     (let names = remdups (map fst roles);
          all_registered = (statuses \<noteq> [] \<and> list_all rs_registered statuses);
          miners = filter (\<lambda>r. is_miner (rs_role r)) statuses;
          miners_served = (2 \<le> length miners \<and> list_all rs_axon_served miners)
      in \<lparr>pg_canonical_endpoint = canonical,
          pg_snapshot_pinned = pinned,
          pg_subnet_exists = (case subnet of Some s \<Rightarrow> ss_exists s | None \<Rightarrow> False),
          pg_coldkey_balance_positive = (case coldkey of Some c \<Rightarrow> ck_positive_balance c | None \<Rightarrow> False),
          pg_required_roles_present = (''validator'' \<in> set names \<and> 2 \<le> length (filter is_miner names)),
          pg_all_roles_registered = all_registered,
          pg_validator_authorized = list_ex (\<lambda>r. rs_role r = ''validator'' \<and> rs_weight_setting_authorized r) statuses,
          pg_miner_axons_served = miners_served,
          pg_registration_requirement_met = (\<not> pq_require_registered q \<or> all_registered),
          pg_served_axon_requirement_met = (\<not> pq_require_served_axon q \<or> miners_served)\<rparr>)"

definition ready_for_registration :: "preflight_gates \<Rightarrow> string list \<Rightarrow> bool" where
  "ready_for_registration g errors \<longleftrightarrow> pg_canonical_endpoint g \<and> pg_snapshot_pinned g \<and> pg_subnet_exists g
     \<and> pg_coldkey_balance_positive g \<and> pg_required_roles_present g \<and> errors = []"

definition ready_for_protocol :: "preflight_gates \<Rightarrow> string list \<Rightarrow> role_status list \<Rightarrow> bool" where
  "ready_for_protocol g errors statuses \<longleftrightarrow> ready_for_registration g errors \<and> pg_all_roles_registered g
     \<and> (statuses \<noteq> [] \<and> list_all (\<lambda>r. rs_coldkey_matches r \<noteq> Some False) statuses)
     \<and> pg_validator_authorized g \<and> pg_miner_axons_served g
     \<and> pg_registration_requirement_met g \<and> pg_served_axon_requirement_met g"

definition preflight_next_action :: "preflight_request \<Rightarrow> preflight_gates \<Rightarrow> string" where
  "preflight_next_action q g =
     (if \<not> pg_canonical_endpoint g then ''Stop: inspect the SDK endpoint before any testnet action.''
      else if pq_netuid q = None \<or> pq_coldkey_ss58 q = None \<or> \<not> pg_required_roles_present g
      then ''Provide public netuid, coldkey, validator hotkey, and two miner hotkeys; never provide private keys or mnemonics.''
      else if \<not> pg_subnet_exists g then ''Choose an existing testnet subnet and rerun this read-only preflight.''
      else if \<not> pg_coldkey_balance_positive g then ''Obtain test TAO for the dedicated public coldkey, then rerun.''
      else if \<not> pg_all_roles_registered g
      then ''Registration is pending and requires an explicit user-authorized signature.''
      else if \<not> pg_validator_authorized g \<or> \<not> pg_miner_axons_served g
      then ''Serve public Axons and satisfy validator authorization before protocol run.''
      else ''Public readback gates pass; request explicit authorization before signing.'')"

text \<open>The body of the outer \<open>try\<close>; each of the three lookups has a \<open>try\<close> of its own.\<close>

definition preflight_body ::
  "'w preflight_env \<Rightarrow> preflight_request \<Rightarrow> (string \<times> string) list \<Rightarrow> 'w testnet_client \<Rightarrow> ('w, preflight_report) io" where
  "preflight_body env q roles client =
     io_bind (cl_endpoint client) (\<lambda>endpoint.
     (let canonical = (endpoint = TESTNET_ENDPOINT);
          errors0 = (if canonical then [] else [''SDK resolved an unexpected endpoint; further readiness is denied'']) in
     io_bind (cl_block client) (\<lambda>block.
     io_bind (cl_at client block) (\<lambda>snapshot.
     io_bind (sn_block snapshot) (\<lambda>snapshot_block.
     io_bind (case pq_netuid q of
         None \<Rightarrow> io_return (None, [])
       | Some netuid \<Rightarrow> io_attempt (io_bind (subnet_status_of snapshot netuid) (\<lambda>s. io_return (Some s)))
           (\<lambda>name. (Some (absent_subnet netuid), [''subnet lookup failed: '' @ name]))) (\<lambda>(subnet, errors1).
     io_bind (case pq_coldkey_ss58 q of
         None \<Rightarrow> io_return (None, [])
       | Some key \<Rightarrow> io_attempt (io_bind (coldkey_status_of snapshot key) (\<lambda>c. io_return (Some c)))
           (\<lambda>name. (None, [''coldkey balance lookup failed: '' @ name]))) (\<lambda>(coldkey, errors2).
     io_bind (case pq_netuid q of
         None \<Rightarrow> io_return ([], [])
       | Some netuid \<Rightarrow>
           if roles \<noteq> [] \<and> (case subnet of Some s \<Rightarrow> ss_exists s | None \<Rightarrow> False)
           then io_attempt (role_statuses_of env snapshot netuid roles (pq_coldkey_ss58 q))
             (\<lambda>name. ([], [''metagraph lookup failed: '' @ name]))
           else io_return ([], [])) (\<lambda>(statuses, errors3).
     (let errors = errors0 @ errors1 @ errors2 @ errors3;
          gates = preflight_gates_of q canonical (snapshot_block = block) subnet coldkey roles statuses in
     io_bind (cl_spec_version client) (\<lambda>spec_version.
     io_return \<lparr>pr_endpoint = endpoint, pr_sdk_version = tn_sdk_version env, pr_block = Some block,
       pr_runtime_spec_version = Some spec_version, pr_chain_reachable = True, pr_subnet = subnet,
       pr_coldkey = coldkey, pr_roles = statuses, pr_gates = gates,
       pr_ready_for_registration = ready_for_registration gates errors,
       pr_ready_for_protocol_run = ready_for_protocol gates errors statuses,
       pr_next_action = preflight_next_action q gates,
       pr_limitations = preflight_limitations, pr_errors = errors\<rparr>))))))))))"

definition preflight_arguments :: "preflight_request \<Rightarrow> (string \<times> string) list result" where
  "preflight_arguments q =
     rbind (ensure_supported_network ''test'') (\<lambda>_.
     rbind (case pq_netuid q of None \<Rightarrow> Inr ()
       | Some n \<Rightarrow> rcheck (0 \<le> n \<and> n \<le> MAX_NETUID) (ValueError ''netuid must be between 0 and 65535'')) (\<lambda>_.
     rbind (case pq_coldkey_ss58 q of None \<Rightarrow> Inr [] | Some key \<Rightarrow> validate_public_ss58 key) (\<lambda>_.
     parse_public_roles (pq_role_specs q))))"

definition collect_testnet_preflight :: "'w preflight_env \<Rightarrow> preflight_request \<Rightarrow> ('w, preflight_report) io" where
  "collect_testnet_preflight env q =
     io_bind (io_lift (preflight_arguments q)) (\<lambda>roles.
     with_client (tn_client env) cl_close (preflight_body env q roles) (preflight_failure env))"

section \<open>What the roles and the report mean\<close>

lemma parse_public_role_step:
  "parse_public_role parsed value1 = Inr parsed' \<longleftrightarrow> (\<exists>role address. parsed' = parsed @ [(role, address)]
     \<and> CHR ''='' \<in> set value1 \<and> split_assignment value1 = (role, address) \<and> valid_role role \<and> valid_ss58 address
     \<and> role \<notin> set (map fst parsed) \<and> address \<notin> set (map snd parsed))"
  by (auto simp: parse_public_role_def validate_public_ss58_def rbind_eq_Inr Let_def split: prod.splits if_splits)

definition roles_ok :: "(string \<times> string) list \<Rightarrow> bool" where
  "roles_ok roles \<longleftrightarrow> distinct (map fst roles) \<and> distinct (map snd roles)
     \<and> list_all (\<lambda>(role, address). valid_role role \<and> valid_ss58 address) roles"

lemma parse_public_roles_ok: "parse_public_roles values1 = Inr roles \<Longrightarrow> roles_ok roles"
  unfolding parse_public_roles_def
  by (erule rfold_invariant) (auto simp: roles_ok_def parse_public_role_step)

lemma io_attempt_Inr:
  "io_attempt m f w = (Inr (x, errors), w') \<longleftrightarrow>
     m w = (Inr x, w') \<and> errors = [] \<or> (\<exists>e. m w = (Inl e, w') \<and> f (error_name e) = (x, errors))"
  by (auto simp: io_attempt_def split: prod.splits sum.splits)

end
