(* ===== verification/TestnetWeights.thy ===== *)
theory TestnetWeights
  imports TestnetPreflight Digest
begin

text \<open>
  The transaction-free weight plan of \<open>planrace/testnet_weights.py\<close>: scores are parsed,
  planned, clipped to the subnet's maximum weight, quantized to 16 bits and bound to one chain
  snapshot by a digest; a saved plan is re-validated before anything is signed, and a later
  chain row is compared with it.
\<close>

definition WEIGHT_PLAN_SCHEMA :: string where "WEIGHT_PLAN_SCHEMA = ''planrace/testnet-weight-plan/3''"
definition U16_MAX :: int where "U16_MAX = 65535"

section \<open>Reports\<close>

record weight_target =
  tg_hotkey_ss58 :: string
  tg_uid :: int
  tg_score :: pyfloat
  tg_planned_weight :: pyfloat
  tg_weight :: pyfloat
  tg_u16_weight :: int

record weight_readback =
  rb_validator_uid :: "int option"
  rb_validator_permit :: bool
  rb_validator_is_subnet_owner :: bool
  rb_weight_setting_authorized :: bool
  rb_last_update :: "int option"
  rb_weights :: "(int \<times> pyfloat) list"

record weight_plan_gates =
  wg_canonical_endpoint :: bool
  wg_snapshot_pinned :: bool
  wg_subnet_exists :: bool
  wg_validator_registered :: bool
  wg_validator_authorized :: bool
  wg_all_targets_registered :: bool
  wg_rate_limit_elapsed :: bool
  wg_minimum_recipients_met :: bool
  wg_maximum_weight_limit_met :: bool

record plan_report =
  tp_read_only :: bool
  tp_transaction_constructed :: bool
  tp_signature_requested :: bool
  tp_network :: string
  tp_endpoint :: string
  tp_sdk_version :: string
  tp_netuid :: int
  tp_block :: "int option"
  tp_block_hash :: "string option"
  tp_runtime_spec_version :: "int option"
  tp_validator_hotkey_ss58 :: string
  tp_min_allowed_weights :: "int option"
  tp_max_weights_limit :: "int option"
  tp_weights_rate_limit :: "int option"
  tp_commit_reveal_weights_enabled :: "bool option"
  tp_commit_reveal_period :: "int option"
  tp_weights_were_clipped :: bool
  tp_targets :: "weight_target list"
  tp_current_readback :: weight_readback
  tp_gates :: weight_plan_gates
  tp_ready :: bool \<comment> \<open>\<open>ready_for_authorized_submission\<close>\<close>
  tp_plan_digest :: "string option"
  tp_next_action :: string
  tp_limitations :: "string list"
  tp_errors :: "string list"

definition all_plan_gates :: "weight_plan_gates \<Rightarrow> bool" where
  "all_plan_gates g \<longleftrightarrow> wg_canonical_endpoint g \<and> wg_snapshot_pinned g \<and> wg_subnet_exists g
     \<and> wg_validator_registered g \<and> wg_validator_authorized g \<and> wg_all_targets_registered g
     \<and> wg_rate_limit_elapsed g \<and> wg_minimum_recipients_met g \<and> wg_maximum_weight_limit_met g"

section \<open>Public scores\<close>

definition score_error :: pyerr where
  "score_error = ValueError ''scores must be finite and non-negative''"

definition parse_public_score :: "(string, real) dict \<Rightarrow> string \<Rightarrow> (string, real) dict result" where
  "parse_public_score scores value =
     rbind (rcheck (CHR ''='' \<in> set value) (ValueError ''score must use SS58=VALUE format'')) (\<lambda>_.
     (let (hotkey, raw_score) = split_assignment value in
     rbind (validate_public_ss58 hotkey) (\<lambda>_.
     case finite_float (PStr raw_score) of
       None \<Rightarrow> Inl score_error
     | Some score \<Rightarrow>
         rbind (rcheck (\<not> score < 0) score_error) (\<lambda>_.
         rbind (rcheck (hotkey \<notin> set (keys scores)) (ValueError (''duplicate scored hotkey '' @ hotkey))) (\<lambda>_.
         Inr (scores @ [(hotkey, score)]))))))"

text \<open>The sum of the non-negative scores overflows exactly when its rounding leaves the range.\<close>

definition parse_public_scores :: "string list \<Rightarrow> (string, real) dict result" where
  "parse_public_scores values1 =
     rbind (rfold parse_public_score [] values1) (\<lambda>scores.
     rbind (rcheck (scores \<noteq> []) (ValueError ''at least one public hotkey score is required'')) (\<lambda>_.
     rbind (rcheck (fsum (dict_values scores) < float_bound) (ValueError ''score total must be finite'')) (\<lambda>_.
     Inr scores)))"

section \<open>Conformity to the chain's encoding\<close>

text \<open>The vector is normalized, so nothing here overflows; quotients and products may underflow.\<close>

fun running_sums :: "real \<Rightarrow> real list \<Rightarrow> real list" where
  "running_sums acc [] = []"
| "running_sums acc (w # ws) = dbl (acc + w) # running_sums (dbl (acc + w)) ws"

definition clip_epsilon :: real where "clip_epsilon = fl (1 / 10 ^ 7)"

definition below_limit :: "real \<Rightarrow> nat \<Rightarrow> real list \<Rightarrow> nat \<times> real \<Rightarrow> bool result" where
  "below_limit limit n cumulative entry =
     (let (index, weight) = entry in
      rbind (dbl_div weight (dbl (dbl (dbl (real (n - index - 1) * weight) + cumulative ! index) + clip_epsilon)))
        (\<lambda>ratio. Inr (ratio < limit)))"

text \<open>\<open>cumulative[k - 1]\<close>: the last element for \<open>k = 0\<close>.\<close>

definition before :: "real list \<Rightarrow> nat \<Rightarrow> real" where
  "before xs k = (if k = 0 then List.last xs else xs ! (k - 1))"

definition clip_to_max_weight :: "real list \<Rightarrow> int \<Rightarrow> (real list \<times> bool) result" where
  "clip_to_max_weight weights raw_limit =
     rbind (rcheck (0 < raw_limit \<and> raw_limit \<le> U16_MAX)
       (ValueError ''max_weights_limit must be between 1 and 65535'')) (\<lambda>_.
     (let total = fsum weights in
     rbind (rcheck (weights \<noteq> [] \<and> 0 < total) (ValueError ''weight vector must have a finite positive total'')) (\<lambda>_.
     (let normalized = map (\<lambda>w. dbl (w / total)) weights;
          limit = dbl (of_int raw_limit / of_int U16_MAX);
          n = length normalized in
      if raw_limit = U16_MAX \<or> Max (set normalized) \<le> limit then Inr (normalized, False)
      else if dbl (real n * limit) \<le> 1 then Inr (replicate n (dbl (1 / real n)), True)
      else
       (let ordered = sort normalized; cumulative = running_sums 0 ordered in
        rbind (rmap (below_limit limit n cumulative) (List.enumerate 0 ordered)) (\<lambda>below.
        (let below_cutoff = length (filter (\<lambda>b. b) below) in
        rbind (dbl_div (dbl (dbl (limit * before cumulative below_cutoff) - clip_epsilon))
                 (dbl (1 - dbl (limit * real (n - below_cutoff))))) (\<lambda>cutoff_scale.
        (let cutoff = dbl (cutoff_scale * total);
             clipped = map (\<lambda>w. min w cutoff) weights in
         rbind (rmap (\<lambda>w. dbl_div w (fsum clipped)) clipped) (\<lambda>ws. Inr (ws, True))))))))))) "

definition quantize :: "real \<Rightarrow> real \<Rightarrow> int result" where
  "quantize highest weight = rbind (dbl_div weight highest) (\<lambda>q. Inr (rne (dbl (q * of_int U16_MAX))))"

definition conform_weight_vector :: "real list \<Rightarrow> int \<Rightarrow> ((nat \<times> real \<times> int) list \<times> bool) result" where
  "conform_weight_vector weights raw_limit =
     rbind (clip_to_max_weight weights raw_limit) (\<lambda>(conformed, clipped).
     rbind (rmap (quantize (Max (set conformed))) conformed) (\<lambda>quantized.
     (let nonzero = filter (\<lambda>(_, v). 0 < v) (List.enumerate 0 quantized);
          total = sum_list (map snd nonzero) in
      rbind (rcheck (nonzero \<noteq> [] \<and> 0 < total) (ValueError ''all weights became zero during u16 quantization'')) (\<lambda>_.
      Inr (map (\<lambda>(i, v). (i, fl (of_int v / of_int total), v)) nonzero, clipped)))))"

section \<open>Reading the chain\<close>

definition hotkeys_of :: "'w testnet \<Rightarrow> pyval \<Rightarrow> string list result" where
  "hotkeys_of env metagraph =
     (case py_field metagraph ''hotkeys'' (PSeq []) of
        PSeq items \<Rightarrow> rbind (rmap (py_str (tn_repr env)) items) (\<lambda>output.
          rbind (rcheck (distinct output) (ValueError ''testnet returned duplicate metagraph hotkeys'')) (\<lambda>_.
          Inr output))
      | _ \<Rightarrow> Inl (ValueError ''testnet returned invalid metagraph hotkeys''))"

definition empty_readback :: weight_readback where
  "empty_readback = \<lparr>rb_validator_uid = None, rb_validator_permit = False, rb_validator_is_subnet_owner = False,
     rb_weight_setting_authorized = False, rb_last_update = None, rb_weights = []\<rparr>"

definition weight_entry :: "(int \<times> pyfloat) list \<Rightarrow> pyval \<times> pyval \<Rightarrow> (int \<times> pyfloat) list result" where
  "weight_entry weights entry =
     rbind (optional_int (fst entry)) (\<lambda>uid.
     (case (uid, finite_float (snd entry)) of
        (Some u, Some w) \<Rightarrow>
          if u < 0 \<or> w < 0 then Inl (ValueError ''testnet returned an invalid weight entry'')
          else Inr (if 0 < w then weights @ [(u, Fin w)] else weights)
      | _ \<Rightarrow> Inl (ValueError ''testnet returned an invalid weight entry'')))"

text \<open>\<open>sorted\<close> of the pairs: by UID, then by weight.\<close>

definition sort_weights :: "(int \<times> pyfloat) list \<Rightarrow> (int \<times> pyfloat) list" where
  "sort_weights ws = map (\<lambda>(u, x). (u, Fin x)) (sort (map (\<lambda>(u, x). (u, float_val x)) ws))"

definition validator_row :: "nat \<Rightarrow> pyval \<Rightarrow> pyval result" where
  "validator_row uid rows =
     (case rows of
        PMap kvs \<Rightarrow> Inr (case map_get kvs (PInt (int uid)) of
            Some r \<Rightarrow> r
          | None \<Rightarrow> (case map_get kvs (PStr (nat_str uid)) of Some r \<Rightarrow> r | None \<Rightarrow> PMap []))
      | _ \<Rightarrow> Inl (ValueError ''testnet returned invalid weight rows''))"

definition row_weights :: "pyval \<Rightarrow> (int \<times> pyfloat) list result" where
  "row_weights row =
     (case row of
        PMap kvs \<Rightarrow> rbind (rfold weight_entry [] kvs) (\<lambda>ws. Inr (sort_weights ws))
      | _ \<Rightarrow> Inl (ValueError ''testnet returned an invalid validator weight row''))"

definition owns_subnet :: "'w testnet \<Rightarrow> pyval \<Rightarrow> string \<Rightarrow> nat \<Rightarrow> bool result" where
  "owns_subnet env metagraph owner_hotkey uid =
     (if owner_hotkey = [] then Inr False
      else rbind (hotkeys_of env metagraph) (\<lambda>hs.
        if uid < length hs then Inr (owner_hotkey = hs ! uid) else Inl IndexError))"

definition weight_readback_of ::
  "'w testnet \<Rightarrow> 'w snapshot \<Rightarrow> int \<Rightarrow> pyval \<Rightarrow> nat option \<Rightarrow> ('w, weight_readback) io" where
  "weight_readback_of env snapshot netuid metagraph validator_uid =
     io_bind (io_lift (py_str (tn_repr env) (py_field metagraph ''owner_hotkey'' (PStr [])))) (\<lambda>owner_hotkey.
     case validator_uid of
       None \<Rightarrow> io_return empty_readback
     | Some uid \<Rightarrow>
       (let permit = py_truth (py_indexed (py_field metagraph ''validator_permit'' (PSeq [])) uid (PBool False)) in
       io_bind (io_lift (owns_subnet env metagraph owner_hotkey uid)) (\<lambda>owner.
       io_bind (io_lift (optional_int (py_indexed (py_field metagraph ''last_update'' (PSeq [])) uid PNone))) (\<lambda>last_update.
       io_bind (sn_read snapshot ''weights'' (netuid_param netuid)) (\<lambda>rows.
       io_bind (io_lift (rbind (validator_row uid rows) row_weights)) (\<lambda>weights.
       io_return \<lparr>rb_validator_uid = Some (int uid), rb_validator_permit = permit,
         rb_validator_is_subnet_owner = owner, rb_weight_setting_authorized = permit \<or> owner,
         rb_last_update = last_update, rb_weights = weights\<rparr>))))))"

section \<open>The plan digest\<close>

definition vopt_int :: "int option \<Rightarrow> jval" where
  "vopt_int x = (case x of None \<Rightarrow> VNull | Some i \<Rightarrow> VInt i)"

definition jval_of_target :: "weight_target \<Rightarrow> jval" where
  "jval_of_target t = VObj [(''hotkey_ss58'', VStr (tg_hotkey_ss58 t)), (''uid'', VInt (tg_uid t)),
     (''score'', VFloat (tg_score t)), (''planned_weight'', VFloat (tg_planned_weight t)),
     (''weight'', VFloat (tg_weight t)), (''u16_weight'', VInt (tg_u16_weight t))]"

definition jval_of_readback :: "weight_readback \<Rightarrow> jval" where
  "jval_of_readback r = VObj [(''validator_uid'', vopt_int (rb_validator_uid r)),
     (''validator_permit'', VBool (rb_validator_permit r)),
     (''validator_is_subnet_owner'', VBool (rb_validator_is_subnet_owner r)),
     (''weight_setting_authorized'', VBool (rb_weight_setting_authorized r)),
     (''last_update'', vopt_int (rb_last_update r)),
     (''weights'', VArr (map (\<lambda>(u, w). VArr [VInt u, VFloat w]) (rb_weights r)))]"

record digest_input =
  di_endpoint :: string
  di_sdk_version :: string
  di_netuid :: int
  di_block :: int
  di_block_hash :: string
  di_runtime_spec_version :: int
  di_validator_hotkey :: string
  di_min_allowed_weights :: int
  di_max_weights_limit :: int
  di_weights_rate_limit :: int
  di_commit_reveal_weights_enabled :: bool
  di_commit_reveal_period :: int
  di_weights_were_clipped :: bool
  di_targets :: "weight_target list"
  di_current_readback :: weight_readback

definition digest_payload :: "digest_input \<Rightarrow> jval" where
  "digest_payload d = VObj [
     (''schema_version'', VStr WEIGHT_PLAN_SCHEMA),
     (''network'', VStr ''test''),
     (''endpoint'', VStr (di_endpoint d)),
     (''sdk_version'', VStr (di_sdk_version d)),
     (''block'', VInt (di_block d)),
     (''block_hash'', VStr (di_block_hash d)),
     (''runtime_spec_version'', VInt (di_runtime_spec_version d)),
     (''netuid'', VInt (di_netuid d)),
     (''min_allowed_weights'', VInt (di_min_allowed_weights d)),
     (''max_weights_limit'', VInt (di_max_weights_limit d)),
     (''weights_rate_limit'', VInt (di_weights_rate_limit d)),
     (''commit_reveal_weights_enabled'', VBool (di_commit_reveal_weights_enabled d)),
     (''commit_reveal_period'', VInt (di_commit_reveal_period d)),
     (''weights_were_clipped'', VBool (di_weights_were_clipped d)),
     (''targets'', VArr (map jval_of_target (di_targets d))),
     (''current_readback'', jval_of_readback (di_current_readback d)),
     (''validator_hotkey_ss58'', VStr (di_validator_hotkey d))]"

definition plan_digest :: "digest_input \<Rightarrow> string" where
  "plan_digest d = ''sha256:'' @ sha256_hex (dumps (digest_payload d))"

section \<open>Validation of a saved plan\<close>

definition valid_block_hash :: "string \<Rightarrow> bool" where
  "valid_block_hash h \<longleftrightarrow> starts_with ''0x'' h \<and> py_len h = 66"

text \<open>The operation a report proposes, when it is complete.\<close>

definition proposed_operation :: "plan_report \<Rightarrow> digest_input option" where
  "proposed_operation r =
     (case (tp_block r, tp_block_hash r, tp_runtime_spec_version r, tp_min_allowed_weights r,
            tp_max_weights_limit r, tp_weights_rate_limit r, tp_commit_reveal_weights_enabled r,
            tp_commit_reveal_period r, tp_plan_digest r) of
        (Some block, Some hash, Some spec, Some minimum, Some limit, Some rate, Some reveal, Some period, Some _) \<Rightarrow>
          if tp_targets r = [] then None
          else Some \<lparr>di_endpoint = tp_endpoint r, di_sdk_version = tp_sdk_version r, di_netuid = tp_netuid r,
            di_block = block, di_block_hash = hash, di_runtime_spec_version = spec,
            di_validator_hotkey = tp_validator_hotkey_ss58 r, di_min_allowed_weights = minimum,
            di_max_weights_limit = limit, di_weights_rate_limit = rate,
            di_commit_reveal_weights_enabled = reveal, di_commit_reveal_period = period,
            di_weights_were_clipped = tp_weights_were_clipped r, di_targets = tp_targets r,
            di_current_readback = tp_current_readback r\<rparr>
      | _ \<Rightarrow> None)"

definition positive_finite :: "pyfloat \<Rightarrow> bool" where
  "positive_finite x \<longleftrightarrow> isfinite x \<and> float_lt (Fin 0) x"

definition check_target :: "string \<Rightarrow> weight_target \<Rightarrow> unit result" where
  "check_target validator t =
     rbind (validate_public_ss58 (tg_hotkey_ss58 t)) (\<lambda>_.
     rbind (rcheck (\<not> (tg_hotkey_ss58 t = validator \<or> tg_uid t < 0))
       (ValueError ''weight plan contains an invalid target identity'')) (\<lambda>_.
     rcheck (positive_finite (tg_score t) \<and> positive_finite (tg_planned_weight t) \<and> positive_finite (tg_weight t)
         \<and> 0 < tg_u16_weight t \<and> tg_u16_weight t \<le> U16_MAX)
       (ValueError ''weight plan contains an invalid target value'')))"

definition total_u16 :: "weight_target list \<Rightarrow> int" where
  "total_u16 targets = sum_list (map tg_u16_weight targets)"

definition target_weight :: "weight_target \<Rightarrow> real" where
  "target_weight t = float_val (tg_weight t)"

definition weight_tolerance :: real where "weight_tolerance = fl (1 / 10 ^ 12)"

text \<open>The checks of the vector after the digest and the gates.\<close>

definition check_vector :: "int \<Rightarrow> weight_target list \<Rightarrow> unit result" where
  "check_vector limit targets =
     rbind (rcheck (distinct (map tg_uid targets)) (ValueError ''weight plan contains duplicate target UIDs'')) (\<lambda>_.
     rbind (rcheck (distinct (map tg_hotkey_ss58 targets))
       (ValueError ''weight plan contains duplicate target hotkeys'')) (\<lambda>_.
     rbind (rcheck (isclose (fsum (map target_weight targets)) 1 weight_tolerance)
       (ValueError ''weight plan target weights are not normalized'')) (\<lambda>_.
     rbind (rcheck (\<not> (total_u16 targets \<le> 0 \<or> list_ex (\<lambda>t. tg_u16_weight t \<le> 0) targets))
       (ValueError ''weight plan contains an invalid u16 weight'')) (\<lambda>_.
     rbind (rcheck (\<not> list_ex (\<lambda>t. \<not> isclose (target_weight t)
           (fl (of_int (tg_u16_weight t) / of_int (total_u16 targets))) weight_tolerance) targets)
       (ValueError ''weight plan normalized weights do not match its u16 vector'')) (\<lambda>_.
     rcheck (\<not> limit * total_u16 targets < Max (set (map tg_u16_weight targets)) * U16_MAX)
       (ValueError ''weight plan exceeds max_weights_limit''))))))"

definition validated_plan_digest :: "plan_report \<Rightarrow> string result" where
  "validated_plan_digest r =
     (case (proposed_operation r, tp_plan_digest r) of
        (Some d, Some digest) \<Rightarrow>
          rbind (validate_public_ss58 (tp_validator_hotkey_ss58 r)) (\<lambda>_.
          rbind (rcheck (\<not> (tp_netuid r < 0 \<or> di_block d < 0))
            (ValueError ''weight plan contains an invalid chain location'')) (\<lambda>_.
          rbind (rcheck (valid_block_hash (di_block_hash d))
            (ValueError ''weight plan contains an invalid block hash'')) (\<lambda>_.
          rbind (rcheck (\<not> (di_min_allowed_weights d < 0
                \<or> \<not> (0 < di_max_weights_limit d \<and> di_max_weights_limit d \<le> U16_MAX)
                \<or> di_weights_rate_limit d < 0 \<or> di_commit_reveal_period d < 0))
            (ValueError ''weight plan contains invalid subnet parameters'')) (\<lambda>_.
          rbind (rfold (\<lambda>_. check_target (tp_validator_hotkey_ss58 r)) () (tp_targets r)) (\<lambda>_.
          rbind (rcheck (digest = plan_digest d) (ValueError ''weight plan digest mismatch'')) (\<lambda>_.
          rbind (rcheck (\<not> (tp_endpoint r \<noteq> TESTNET_ENDPOINT \<or> tp_network r \<noteq> ''test'' \<or> \<not> tp_read_only r
                \<or> tp_transaction_constructed r \<or> tp_signature_requested r \<or> tp_errors r \<noteq> []
                \<or> \<not> tp_ready r \<or> \<not> all_plan_gates (tp_gates r)))
            (ValueError ''source weight plan did not pass every pre-signing gate'')) (\<lambda>_.
          rbind (check_vector (di_max_weights_limit d) (tp_targets r)) (\<lambda>_.
          Inr (plan_digest d)))))))))
      | _ \<Rightarrow> Inl (ValueError ''weight plan has no complete proposed operation''))"

text \<open>\<open>load_testnet_weight_plan\<close>; reading the file and decoding the model are parameters.\<close>

definition load_testnet_weight_plan ::
  "('w, bytes) io \<Rightarrow> (bytes \<Rightarrow> plan_report result) \<Rightarrow> ('w, plan_report) io" where
  "load_testnet_weight_plan read_bytes decode =
     io_try (io_bind read_bytes (\<lambda>data. io_lift (decode data)))
       (\<lambda>e. case e of
            OSError _ \<Rightarrow> io_raise (ValueError (''cannot read weight plan: '' @ error_name e))
          | ValueError _ \<Rightarrow> io_raise (ValueError ''weight plan schema validation failed'')
          | _ \<Rightarrow> io_raise e)
       (\<lambda>report. io_bind (io_lift (validated_plan_digest report)) (\<lambda>_. io_return report))"

section \<open>Collecting a plan\<close>

record plan_request =
  lq_netuid :: int
  lq_validator_hotkey_ss58 :: string
  lq_score_specs :: "string list"
  lq_minimum_positive_hotkeys :: int

definition plan_limitations :: "string list" where
  "plan_limitations =
     [''This exact-block snapshot is not proof that the block is finalized.'',
      ''The plan can become stale if UID bindings or subnet parameters change.'',
      ''No wallet path, private key, transaction, signature, or submission is used.'']"

definition hotkey_scores :: "(string, real) dict \<Rightarrow> (pyval, pyfloat) dict" where
  "hotkey_scores scores = map (\<lambda>(k, v). (PStr k, Fin v)) scores"

text \<open>The argument checks and the planned weights; nothing has been read from the chain.\<close>

definition plan_arguments :: "plan_request \<Rightarrow> ((string, real) dict \<times> hotkey_weight_plan) result" where
  "plan_arguments q =
     rbind (ensure_supported_network ''test'') (\<lambda>_.
     rbind (rcheck (0 \<le> lq_netuid q \<and> lq_netuid q \<le> MAX_NETUID) (ValueError ''netuid must be between 0 and 65535'')) (\<lambda>_.
     rbind (rcheck (\<not> lq_minimum_positive_hotkeys q < 1) (ValueError ''minimum_positive_hotkeys must be positive'')) (\<lambda>_.
     rbind (validate_public_ss58 (lq_validator_hotkey_ss58 q)) (\<lambda>_.
     rbind (parse_public_scores (lq_score_specs q)) (\<lambda>scores.
     rbind (rcheck (lq_validator_hotkey_ss58 q \<notin> set (keys scores))
       (ValueError ''validator hotkey cannot be a scored miner'')) (\<lambda>_.
     rbind (plan_hotkey_weights (hotkey_scores scores) (lq_minimum_positive_hotkeys q)) (\<lambda>proposed.
     Inr (scores, proposed))))))))"

text \<open>What the block under \<open>if subnet_exists\<close> leaves in the local variables.\<close>

record plan_state =
  ps_validator_uid :: "nat option"
  ps_targets :: "weight_target list"
  ps_readback :: weight_readback
  ps_min_allowed :: "int option"
  ps_max_weights_limit :: "int option"
  ps_rate_limit :: "int option"
  ps_commit_reveal :: "bool option"
  ps_reveal_period :: "int option"
  ps_weights_were_clipped :: bool
  ps_all_targets_registered :: bool

definition initial_plan_state :: plan_state where
  "initial_plan_state = \<lparr>ps_validator_uid = None, ps_targets = [], ps_readback = empty_readback,
     ps_min_allowed = None, ps_max_weights_limit = None, ps_rate_limit = None, ps_commit_reveal = None,
     ps_reveal_period = None, ps_weights_were_clipped = False, ps_all_targets_registered = False\<rparr>"

text \<open>\<open>{hotkey: uid for uid, hotkey in enumerate(hotkeys)}\<close> of distinct hotkeys.\<close>

definition uid_of_hotkey :: "string list \<Rightarrow> string \<Rightarrow> nat option" where
  "uid_of_hotkey hotkeys = map_of (zip hotkeys [0..<length hotkeys])"

definition make_target ::
  "(string, real) dict \<Rightarrow> hotkey_weight_plan \<Rightarrow> string list \<Rightarrow> nat \<times> real \<times> int \<Rightarrow> weight_target" where
  "make_target scores proposed hotkeys entry =
     (let (index, weight, u16) = entry; hotkey = hp_hotkeys proposed ! index in
      \<lparr>tg_hotkey_ss58 = hotkey, tg_uid = int (the (uid_of_hotkey hotkeys hotkey)),
       tg_score = Fin (the (map_of scores hotkey)), tg_planned_weight = Fin (hp_weights proposed ! index),
       tg_weight = Fin weight, tg_u16_weight = u16\<rparr>)"

definition plan_targets ::
  "(string, real) dict \<Rightarrow> hotkey_weight_plan \<Rightarrow> string list \<Rightarrow> bool \<Rightarrow> int option \<Rightarrow> (weight_target list \<times> bool) result" where
  "plan_targets scores proposed hotkeys registered max_weights_limit =
     (case max_weights_limit of
        Some limit \<Rightarrow>
          if hp_planned proposed \<and> registered
          then rbind (conform_weight_vector (hp_weights proposed) limit) (\<lambda>(conformed, clipped).
            Inr (sort_key tg_uid (map (make_target scores proposed hotkeys) conformed), clipped))
          else Inr ([], False)
      | None \<Rightarrow> Inr ([], False))"

definition read_plan_state ::
  "'w testnet \<Rightarrow> plan_request \<Rightarrow> (string, real) dict \<Rightarrow> hotkey_weight_plan \<Rightarrow> 'w snapshot \<Rightarrow> ('w, plan_state) io" where
  "read_plan_state env q scores proposed snapshot =
     io_bind (sn_read snapshot ''subnet_hyperparameters'' (netuid_param (lq_netuid q))) (\<lambda>hyper.
     io_bind (sn_read snapshot ''metagraph'' (netuid_param (lq_netuid q))) (\<lambda>metagraph.
     io_bind (io_lift (optional_int (py_field hyper ''min_allowed_weights'' PNone))) (\<lambda>min_allowed.
     io_bind (io_lift (optional_int (py_field hyper ''max_weights_limit'' PNone))) (\<lambda>max_limit.
     io_bind (io_lift (optional_int (py_field hyper ''weights_rate_limit'' PNone))) (\<lambda>rate_limit.
     io_bind (io_lift (optional_int (py_field hyper ''commit_reveal_period'' PNone))) (\<lambda>period.
     io_bind (io_lift (hotkeys_of env metagraph)) (\<lambda>hotkeys.
     (let validator_uid = uid_of_hotkey hotkeys (lq_validator_hotkey_ss58 q);
          registered = (hp_planned proposed \<and> list_all (\<lambda>h. h \<in> set hotkeys) (hp_hotkeys proposed)) in
     io_bind (io_lift (plan_targets scores proposed hotkeys registered max_limit)) (\<lambda>(targets, clipped).
     io_bind (weight_readback_of env snapshot (lq_netuid q) metagraph validator_uid) (\<lambda>readback.
     io_return \<lparr>ps_validator_uid = validator_uid, ps_targets = targets, ps_readback = readback,
       ps_min_allowed = min_allowed, ps_max_weights_limit = max_limit, ps_rate_limit = rate_limit,
       ps_commit_reveal = optional_bool (py_field hyper ''commit_reveal_weights_enabled'' PNone),
       ps_reveal_period = period, ps_weights_were_clipped = clipped,
       ps_all_targets_registered = registered\<rparr>))))))))))"

definition rate_limit_elapsed :: "int \<Rightarrow> plan_state \<Rightarrow> bool" where
  "rate_limit_elapsed block s =
     (case ps_rate_limit s of
        None \<Rightarrow> False
      | Some rate \<Rightarrow> rate = 0 \<or> rb_last_update (ps_readback s) = Some 0
          \<or> (case rb_last_update (ps_readback s) of None \<Rightarrow> False | Some u \<Rightarrow> u \<le> block \<and> rate \<le> block - u))"

definition maximum_weight_limit_met :: "int option \<Rightarrow> weight_target list \<Rightarrow> bool" where
  "maximum_weight_limit_met max_limit targets \<longleftrightarrow> targets \<noteq> []
     \<and> (case max_limit of None \<Rightarrow> False
        | Some limit \<Rightarrow> Max (set (map tg_u16_weight targets)) * U16_MAX \<le> limit * total_u16 targets)"

definition plan_gates_of :: "bool \<Rightarrow> bool \<Rightarrow> bool \<Rightarrow> int \<Rightarrow> plan_state \<Rightarrow> weight_plan_gates" where
  "plan_gates_of canonical pinned subnet_exists block s =
     \<lparr>wg_canonical_endpoint = canonical, wg_snapshot_pinned = pinned, wg_subnet_exists = subnet_exists,
      wg_validator_registered = (ps_validator_uid s \<noteq> None),
      wg_validator_authorized = rb_weight_setting_authorized (ps_readback s),
      wg_all_targets_registered = ps_all_targets_registered s,
      wg_rate_limit_elapsed = rate_limit_elapsed block s,
      wg_minimum_recipients_met = (ps_targets s \<noteq> [] \<and> (case ps_min_allowed s of None \<Rightarrow> False
        | Some m \<Rightarrow> m \<le> int (length (ps_targets s)))),
      wg_maximum_weight_limit_met = maximum_weight_limit_met (ps_max_weights_limit s) (ps_targets s)\<rparr>"

definition plan_next_action :: "bool \<Rightarrow> weight_plan_gates \<Rightarrow> string" where
  "plan_next_action has_errors g =
     (if \<not> wg_canonical_endpoint g \<or> has_errors then ''Stop: restore canonical read-only testnet state and rerun.''
      else if \<not> wg_subnet_exists g then ''Choose an existing testnet subnet and rerun.''
      else if \<not> wg_validator_registered g
      then ''Register the validator only after explicit signing authorization.''
      else if \<not> wg_validator_authorized g
      then ''Wait for validator permit or use the registered subnet-owner hotkey before any weight operation.''
      else if \<not> wg_all_targets_registered g
      then ''Register every scored miner and rerun against a fresh block.''
      else if \<not> wg_rate_limit_elapsed g
      then ''Wait for the subnet weight rate limit, then build a fresh plan.''
      else if \<not> wg_minimum_recipients_met g
      then ''Provide enough positive scored miners for the subnet minimum.''
      else if \<not> wg_maximum_weight_limit_met g
      then ''Provide enough recipients to satisfy max_weights_limit.''
      else ''Review this digest, rerun at a fresh block, then explicitly authorize signing.'')"

text \<open>One look at the chain, shared by planning and readback.\<close>

record 'w chain_view =
  cv_endpoint :: string
  cv_block :: int
  cv_snapshot :: "'w snapshot"
  cv_block_hash :: string
  cv_pinned :: bool

definition view_chain :: "'w testnet \<Rightarrow> 'w testnet_client \<Rightarrow> ('w, 'w chain_view) io" where
  "view_chain env client =
     io_bind (cl_endpoint client) (\<lambda>endpoint.
     io_bind (cl_block client) (\<lambda>block.
     io_bind (cl_at client block) (\<lambda>snapshot.
     io_bind (sn_block_info snapshot) (\<lambda>info.
     io_bind (io_lift (py_str (tn_repr env) (py_field info ''hash'' (PStr [])))) (\<lambda>block_hash.
     io_bind (io_lift (optional_int (py_field info ''number'' PNone))) (\<lambda>info_number.
     io_bind (sn_block snapshot) (\<lambda>snapshot_block.
     io_return \<lparr>cv_endpoint = endpoint, cv_block = block, cv_snapshot = snapshot, cv_block_hash = block_hash,
       cv_pinned = (snapshot_block = block \<and> info_number = Some block)\<rparr>)))))))"

definition view_errors :: "string \<Rightarrow> 'w chain_view \<Rightarrow> string list" where
  "view_errors denial v =
     (if cv_endpoint v = TESTNET_ENDPOINT then [] else [denial])
     @ (if valid_block_hash (cv_block_hash v) then [] else [''testnet returned an invalid block hash''])"

text \<open>The digest is only computed for a complete error-free proposal; it reads the runtime version.\<close>

definition digest_of_state ::
  "'w testnet \<Rightarrow> plan_request \<Rightarrow> 'w testnet_client \<Rightarrow> 'w chain_view \<Rightarrow> string list \<Rightarrow> plan_state \<Rightarrow> ('w, string option) io" where
  "digest_of_state env q client v errors s =
     (case (ps_min_allowed s, ps_max_weights_limit s, ps_rate_limit s, ps_commit_reveal s, ps_reveal_period s) of
        (Some minimum, Some limit, Some rate, Some reveal, Some period) \<Rightarrow>
          if ps_targets s \<noteq> [] \<and> errors = []
          then io_bind (cl_spec_version client) (\<lambda>spec. io_return (Some (plan_digest
            \<lparr>di_endpoint = cv_endpoint v, di_sdk_version = tn_sdk_version env, di_netuid = lq_netuid q,
             di_block = cv_block v, di_block_hash = cv_block_hash v, di_runtime_spec_version = spec,
             di_validator_hotkey = lq_validator_hotkey_ss58 q, di_min_allowed_weights = minimum,
             di_max_weights_limit = limit, di_weights_rate_limit = rate,
             di_commit_reveal_weights_enabled = reveal, di_commit_reveal_period = period,
             di_weights_were_clipped = ps_weights_were_clipped s, di_targets = ps_targets s,
             di_current_readback = ps_readback s\<rparr>)))
          else io_return None
      | _ \<Rightarrow> io_return None)"

definition plan_body ::
  "'w testnet \<Rightarrow> plan_request \<Rightarrow> (string, real) dict \<Rightarrow> hotkey_weight_plan \<Rightarrow> 'w testnet_client \<Rightarrow> ('w, plan_report) io" where
  "plan_body env q scores proposed client =
     io_bind (view_chain env client) (\<lambda>v.
     (let errors = view_errors ''SDK resolved an unexpected endpoint; planning is denied'' v in
     io_bind (testnet_subnet_exists (cv_snapshot v) (lq_netuid q)) (\<lambda>there.
     io_bind (if there then read_plan_state env q scores proposed (cv_snapshot v) else io_return initial_plan_state) (\<lambda>s.
     (let gates = plan_gates_of (cv_endpoint v = TESTNET_ENDPOINT) (cv_pinned v) there (cv_block v) s;
          ready = (hp_planned proposed \<and> all_plan_gates gates \<and> errors = [] \<and> valid_block_hash (cv_block_hash v)) in
     io_bind (digest_of_state env q client v errors s) (\<lambda>digest.
     io_bind (cl_spec_version client) (\<lambda>spec.
     io_return \<lparr>tp_read_only = True, tp_transaction_constructed = False, tp_signature_requested = False,
       tp_network = ''test'', tp_endpoint = cv_endpoint v, tp_sdk_version = tn_sdk_version env,
       tp_netuid = lq_netuid q, tp_block = Some (cv_block v),
       tp_block_hash = (if cv_block_hash v = [] then None else Some (cv_block_hash v)),
       tp_runtime_spec_version = Some spec, tp_validator_hotkey_ss58 = lq_validator_hotkey_ss58 q,
       tp_min_allowed_weights = ps_min_allowed s, tp_max_weights_limit = ps_max_weights_limit s,
       tp_weights_rate_limit = ps_rate_limit s, tp_commit_reveal_weights_enabled = ps_commit_reveal s,
       tp_commit_reveal_period = ps_reveal_period s, tp_weights_were_clipped = ps_weights_were_clipped s,
       tp_targets = ps_targets s, tp_current_readback = ps_readback s, tp_gates = gates, tp_ready = ready,
       tp_plan_digest = digest, tp_next_action = plan_next_action (errors \<noteq> []) gates,
       tp_limitations = plan_limitations, tp_errors = errors\<rparr>)))))))"

definition closed_plan_gates :: weight_plan_gates where
  "closed_plan_gates = \<lparr>wg_canonical_endpoint = False, wg_snapshot_pinned = False, wg_subnet_exists = False,
     wg_validator_registered = False, wg_validator_authorized = False, wg_all_targets_registered = False,
     wg_rate_limit_elapsed = False, wg_minimum_recipients_met = False, wg_maximum_weight_limit_met = False\<rparr>"

definition plan_failure :: "'w testnet \<Rightarrow> plan_request \<Rightarrow> pyerr \<Rightarrow> plan_report" where
  "plan_failure env q e = \<lparr>tp_read_only = True, tp_transaction_constructed = False, tp_signature_requested = False,
     tp_network = ''test'', tp_endpoint = TESTNET_ENDPOINT, tp_sdk_version = tn_sdk_version env,
     tp_netuid = lq_netuid q, tp_block = None, tp_block_hash = None, tp_runtime_spec_version = None,
     tp_validator_hotkey_ss58 = lq_validator_hotkey_ss58 q, tp_min_allowed_weights = None,
     tp_max_weights_limit = None, tp_weights_rate_limit = None, tp_commit_reveal_weights_enabled = None,
     tp_commit_reveal_period = None, tp_weights_were_clipped = False, tp_targets = [],
     tp_current_readback = empty_readback, tp_gates = closed_plan_gates, tp_ready = False,
     tp_plan_digest = None, tp_next_action = ''Stop: restore canonical read-only testnet state and rerun.'',
     tp_limitations = plan_limitations, tp_errors = [''read-only planning failed: '' @ error_name e]\<rparr>"

definition collect_testnet_weight_plan :: "'w testnet \<Rightarrow> plan_request \<Rightarrow> ('w, plan_report) io" where
  "collect_testnet_weight_plan env q =
     io_bind (io_lift (plan_arguments q)) (\<lambda>(scores, proposed).
     with_client (tn_client env) cl_close (plan_body env q scores proposed) (plan_failure env q))"

section \<open>Verifying a later chain row\<close>

record weight_comparison =
  wc_uid :: int
  wc_hotkey_ss58 :: string
  wc_expected :: pyfloat
  wc_observed :: "pyfloat option"
  wc_absolute_error :: "pyfloat option"
  wc_matches :: bool

record readback_gates =
  xg_canonical_endpoint :: bool
  xg_snapshot_pinned :: bool
  xg_later_block :: bool
  xg_subnet_exists :: bool
  xg_validator_uid_stable :: bool
  xg_target_uids_stable :: bool
  xg_validator_authorized :: bool
  xg_last_update_advanced :: bool
  xg_recipient_set_matches :: bool
  xg_weight_values_match :: bool

record readback_report =
  xr_endpoint :: string
  xr_sdk_version :: string
  xr_netuid :: int
  xr_source_plan_digest :: string
  xr_source_block :: int
  xr_block :: "int option"
  xr_block_hash :: "string option"
  xr_runtime_spec_version :: "int option"
  xr_validator_hotkey_ss58 :: string
  xr_comparisons :: "weight_comparison list"
  xr_current_readback :: weight_readback
  xr_gates :: readback_gates
  xr_ready :: bool \<comment> \<open>\<open>ready_for_testnet_evidence\<close>\<close>
  xr_next_action :: string
  xr_limitations :: "string list"
  xr_errors :: "string list"

definition all_readback_gates :: "readback_gates \<Rightarrow> bool" where
  "all_readback_gates g \<longleftrightarrow> xg_canonical_endpoint g \<and> xg_snapshot_pinned g \<and> xg_later_block g
     \<and> xg_subnet_exists g \<and> xg_validator_uid_stable g \<and> xg_target_uids_stable g \<and> xg_validator_authorized g
     \<and> xg_last_update_advanced g \<and> xg_recipient_set_matches g \<and> xg_weight_values_match g"

definition empty_readback_gates :: readback_gates where
  "empty_readback_gates = \<lparr>xg_canonical_endpoint = False, xg_snapshot_pinned = False, xg_later_block = False,
     xg_subnet_exists = False, xg_validator_uid_stable = False, xg_target_uids_stable = False,
     xg_validator_authorized = False, xg_last_update_advanced = False, xg_recipient_set_matches = False,
     xg_weight_values_match = False\<rparr>"

definition readback_limitations :: "string list" where
  "readback_limitations =
     [''This exact-block readback is not proof that the block is finalized.'',
      ''A matching row does not identify or prove success of a specific extrinsic.'',
      ''Final evidence must separately bind the finalized extrinsic and block hash.'',
      ''No wallet path, private key, transaction, signature, or submission is used.'']"

text \<open>\<open>dict(readback.weights)\<close>: of two entries with one UID the later wins.\<close>

definition observed_weight :: "weight_readback \<Rightarrow> int \<Rightarrow> pyfloat option" where
  "observed_weight r uid = map_of (rev (rb_weights r)) uid"

fun float_distance :: "pyfloat \<Rightarrow> pyfloat \<Rightarrow> pyfloat" where
  "float_distance (Fin x) (Fin y) = Fin (fl \<bar>x - y\<bar>)"
| "float_distance NaN _ = NaN"
| "float_distance _ NaN = NaN"
| "float_distance x y = (if x = y then NaN else PosInf)"

definition float_le :: "pyfloat \<Rightarrow> pyfloat \<Rightarrow> bool" where
  "float_le x y \<longleftrightarrow> float_lt x y \<or> (x = y \<and> x \<noteq> NaN)"

definition compare_target :: "weight_readback \<Rightarrow> pyfloat \<Rightarrow> weight_target \<Rightarrow> weight_comparison" where
  "compare_target r tolerance t =
     (let observed = observed_weight r (tg_uid t);
          error = map_option (\<lambda>w. float_distance w (tg_weight t)) observed
      in \<lparr>wc_uid = tg_uid t, wc_hotkey_ss58 = tg_hotkey_ss58 t, wc_expected = tg_weight t,
          wc_observed = observed, wc_absolute_error = error,
          wc_matches = (case error of None \<Rightarrow> False | Some e \<Rightarrow> float_le e tolerance)\<rparr>)"

record readback_state =
  rt_validator_uid_stable :: bool
  rt_target_uids_stable :: bool
  rt_readback :: weight_readback
  rt_comparisons :: "weight_comparison list"
  rt_recipient_set_matches :: bool
  rt_weight_values_match :: bool

definition initial_readback_state :: readback_state where
  "initial_readback_state = \<lparr>rt_validator_uid_stable = False, rt_target_uids_stable = False,
     rt_readback = empty_readback, rt_comparisons = [], rt_recipient_set_matches = False,
     rt_weight_values_match = False\<rparr>"

definition read_readback_state ::
  "'w testnet \<Rightarrow> plan_report \<Rightarrow> pyfloat \<Rightarrow> 'w snapshot \<Rightarrow> ('w, readback_state) io" where
  "read_readback_state env source tolerance snapshot =
     io_bind (sn_read snapshot ''metagraph'' (netuid_param (tp_netuid source))) (\<lambda>metagraph.
     io_bind (io_lift (hotkeys_of env metagraph)) (\<lambda>hotkeys.
     (let validator_uid = uid_of_hotkey hotkeys (tp_validator_hotkey_ss58 source) in
     io_bind (weight_readback_of env snapshot (tp_netuid source) metagraph validator_uid) (\<lambda>readback.
     (let comparisons = map (compare_target readback tolerance) (tp_targets source) in
     io_return \<lparr>rt_validator_uid_stable = (validator_uid \<noteq> None
         \<and> map_option int validator_uid = rb_validator_uid (tp_current_readback source)),
       rt_target_uids_stable = list_all (\<lambda>t. map_option int (uid_of_hotkey hotkeys (tg_hotkey_ss58 t)) = Some (tg_uid t))
         (tp_targets source),
       rt_readback = readback, rt_comparisons = comparisons,
       rt_recipient_set_matches = (set (map fst (rb_weights readback)) = set (map tg_uid (tp_targets source))),
       rt_weight_values_match = (comparisons \<noteq> [] \<and> list_all wc_matches comparisons)\<rparr>)))))"

definition readback_gates_of :: "'w chain_view \<Rightarrow> int \<Rightarrow> bool \<Rightarrow> readback_state \<Rightarrow> readback_gates" where
  "readback_gates_of v source_block there s =
     \<lparr>xg_canonical_endpoint = (cv_endpoint v = TESTNET_ENDPOINT), xg_snapshot_pinned = cv_pinned v,
      xg_later_block = (source_block < cv_block v), xg_subnet_exists = there,
      xg_validator_uid_stable = rt_validator_uid_stable s, xg_target_uids_stable = rt_target_uids_stable s,
      xg_validator_authorized = rb_weight_setting_authorized (rt_readback s),
      xg_last_update_advanced = (case rb_last_update (rt_readback s) of None \<Rightarrow> False | Some u \<Rightarrow> source_block < u),
      xg_recipient_set_matches = rt_recipient_set_matches s, xg_weight_values_match = rt_weight_values_match s\<rparr>"

definition readback_body ::
  "'w testnet \<Rightarrow> plan_report \<Rightarrow> pyfloat \<Rightarrow> int \<Rightarrow> string \<Rightarrow> 'w testnet_client \<Rightarrow> ('w, readback_report) io" where
  "readback_body env source tolerance source_block digest client =
     io_bind (view_chain env client) (\<lambda>v.
     (let errors = view_errors ''SDK resolved an unexpected endpoint; readback is denied'' v in
     io_bind (testnet_subnet_exists (cv_snapshot v) (tp_netuid source)) (\<lambda>there.
     io_bind (if there then read_readback_state env source tolerance (cv_snapshot v)
              else io_return initial_readback_state) (\<lambda>s.
     (let gates = readback_gates_of v source_block there s; ready = (all_readback_gates gates \<and> errors = []) in
     io_bind (cl_spec_version client) (\<lambda>spec.
     io_return \<lparr>xr_endpoint = cv_endpoint v, xr_sdk_version = tn_sdk_version env, xr_netuid = tp_netuid source,
       xr_source_plan_digest = digest, xr_source_block = source_block, xr_block = Some (cv_block v),
       xr_block_hash = (if cv_block_hash v = [] then None else Some (cv_block_hash v)),
       xr_runtime_spec_version = Some spec, xr_validator_hotkey_ss58 = tp_validator_hotkey_ss58 source,
       xr_comparisons = rt_comparisons s, xr_current_readback = rt_readback s, xr_gates = gates, xr_ready = ready,
       xr_next_action = (if ready
         then ''Bind this readback to the separately finalized extrinsic in signed evidence.''
         else ''Do not claim weight completion; inspect failed gates and rerun later.''),
       xr_limitations = readback_limitations, xr_errors = errors\<rparr>))))))"

definition readback_failure :: "'w testnet \<Rightarrow> plan_report \<Rightarrow> int \<Rightarrow> string \<Rightarrow> pyerr \<Rightarrow> readback_report" where
  "readback_failure env source source_block digest e =
     \<lparr>xr_endpoint = TESTNET_ENDPOINT, xr_sdk_version = tn_sdk_version env, xr_netuid = tp_netuid source,
      xr_source_plan_digest = digest, xr_source_block = source_block, xr_block = None, xr_block_hash = None,
      xr_runtime_spec_version = None, xr_validator_hotkey_ss58 = tp_validator_hotkey_ss58 source,
      xr_comparisons = [], xr_current_readback = empty_readback, xr_gates = empty_readback_gates, xr_ready = False,
      xr_next_action = ''Do not claim weight completion; restore canonical read-only state.'',
      xr_limitations = readback_limitations,
      xr_errors = [''read-only verification failed: '' @ error_name e]\<rparr>"

text \<open>Validation has shown that block and digest of the source are present.\<close>

definition verify_testnet_weight_readback :: "'w testnet \<Rightarrow> plan_report \<Rightarrow> pyfloat \<Rightarrow> ('w, readback_report) io" where
  "verify_testnet_weight_readback env source tolerance =
     io_bind (io_lift (rbind (rcheck (positive_finite tolerance)
         (ValueError ''quantization_tolerance must be finite and positive'')) (\<lambda>_. validated_plan_digest source))) (\<lambda>_.
     (let source_block = the (tp_block source); digest = the (tp_plan_digest source) in
      with_client (tn_client env) cl_close (readback_body env source tolerance source_block digest)
        (readback_failure env source source_block digest)))"

end
