(* ===== verification/TestnetSubmission.thy ===== *)
theory TestnetSubmission
  imports TestnetWeights
begin

text \<open>
  The digest-authorized submission of \<open>planrace/testnet_submission.py\<close>: the saved plan is
  validated again, the authorized digest and the signing hotkey must match it, a fresh plan of
  the same state must be equivalent, and only then the vector of 16-bit weights is handed to the
  SDK. The collector, the wallets, the submitter and the clock are parameters.
\<close>

definition SUBMISSION_SCHEMA_VERSION :: string where "SUBMISSION_SCHEMA_VERSION = ''planrace/testnet-weight-submission/1''"
definition WALLET_ALIAS :: string where "WALLET_ALIAS = ''planrace-testnet''"

record submitted_target =
  su_hotkey_ss58 :: string
  su_uid :: int
  su_u16_weight :: int

record submission_receipt =
  sr_schema_version :: string
  sr_network :: string
  sr_endpoint :: string
  sr_sdk_version :: string
  sr_source_plan_digest :: string
  sr_source_block :: int
  sr_pre_submit_block :: int
  sr_pre_submit_block_hash :: string
  sr_runtime_spec_version :: int
  sr_netuid :: int
  sr_validator_hotkey_ss58 :: string
  sr_wallet_alias :: string
  sr_hotkey_alias :: string
  sr_submitted_targets :: "submitted_target list"
  sr_transaction_constructed :: bool
  sr_signature_requested :: bool
  sr_sdk_reported_success :: bool
  sr_including_block_hash :: "string option"
  sr_extrinsic_id :: "string option"
  sr_explorer_url :: "string option"
  sr_fee_tao :: "string option"
  sr_reveal_round :: "int option"
  sr_submitted_at :: string
  sr_requires_delayed_readback :: bool
  sr_evidence_complete :: bool
  sr_next_action :: string

record extrinsic_result =
  er_success :: bool
  er_block_hash :: "string option"
  er_extrinsic_id :: "string option"
  er_explorer_url :: "string option"
  er_fee :: pyval
  er_data :: "(string, pyval) dict"

text \<open>\<open>wallet.hotkeypub.ss58_address\<close> is the text of a wallet; the clock gives its ISO text.\<close>

record ('w, 'k) submission_env =
  se_repr :: "pyval \<Rightarrow> string result"
  se_plan_collector :: "plan_request \<Rightarrow> ('w, plan_report) io"
  se_wallet_factory :: "string \<Rightarrow> string \<Rightarrow> ('w, 'k) io"
  se_ss58_address :: "'k \<Rightarrow> string"
  se_submitter :: "int \<Rightarrow> (int, int) dict \<Rightarrow> 'k \<Rightarrow> ('w, extrinsic_result) io"
  se_clock :: "('w, string) io"

record submission_request =
  sq_authorize_plan_digest :: string
  sq_hotkey_alias :: string
  sq_wallet_alias :: string
  sq_max_plan_age_blocks :: int

section \<open>\<open>str.isdigit\<close>\<close>

text \<open>Beyond the decimal digits: superscripts, circled and similar digits of Unicode 15.\<close>

definition other_digits :: "nat list" where
  "other_digits = [0xb2, 0xb3, 0xb9] @ [0x1369..<0x1372] @ [0x19da, 0x2070] @ [0x2074..<0x207a] @ [0x2080..<0x208a]
     @ [0x2460..<0x2469] @ [0x2474..<0x247d] @ [0x2488..<0x2491] @ [0x24ea] @ [0x24f5..<0x24fe] @ [0x24ff]
     @ [0x2776..<0x277f] @ [0x2780..<0x2789] @ [0x278a..<0x2793] @ [0x10a40..<0x10a44] @ [0x10e60..<0x10e69]
     @ [0x11052..<0x1105b] @ [0x1f100..<0x1f10b]"

definition is_digit_point :: "nat \<Rightarrow> bool" where
  "is_digit_point n \<longleftrightarrow> (48 \<le> n \<and> n \<le> 57) \<or> list_ex (\<lambda>z. z \<le> n \<and> n < z + 10) decimal_zeros \<or> n \<in> set other_digits"

definition isdigit :: "string \<Rightarrow> bool" where
  "isdigit s \<longleftrightarrow> s \<noteq> [] \<and> list_all is_digit_point (code_points s)"

definition valid_validator_alias :: "string \<Rightarrow> bool" where
  "valid_validator_alias s \<longleftrightarrow> starts_with ''validator-'' s \<and> isdigit (drop 10 s)"

section \<open>Freshness\<close>

definition same_chain_state :: "plan_report \<Rightarrow> plan_report \<Rightarrow> bool" where
  "same_chain_state source fresh \<longleftrightarrow>
     tp_endpoint source = tp_endpoint fresh
     \<and> tp_sdk_version source = tp_sdk_version fresh
     \<and> tp_network source = tp_network fresh
     \<and> tp_netuid source = tp_netuid fresh
     \<and> tp_runtime_spec_version source = tp_runtime_spec_version fresh
     \<and> tp_validator_hotkey_ss58 source = tp_validator_hotkey_ss58 fresh
     \<and> tp_min_allowed_weights source = tp_min_allowed_weights fresh
     \<and> tp_max_weights_limit source = tp_max_weights_limit fresh
     \<and> tp_weights_rate_limit source = tp_weights_rate_limit fresh
     \<and> tp_commit_reveal_weights_enabled source = tp_commit_reveal_weights_enabled fresh
     \<and> tp_commit_reveal_period source = tp_commit_reveal_period fresh
     \<and> tp_weights_were_clipped source = tp_weights_were_clipped fresh
     \<and> tp_current_readback source = tp_current_readback fresh"

definition target_fingerprint :: "weight_target list \<Rightarrow> (string \<times> int \<times> pyfloat \<times> pyfloat \<times> pyfloat \<times> int) list" where
  "target_fingerprint = map (\<lambda>t. (tg_hotkey_ss58 t, tg_uid t, tg_score t, tg_planned_weight t, tg_weight t, tg_u16_weight t))"

definition require_fresh_equivalent_plan :: "plan_report \<Rightarrow> plan_report \<Rightarrow> int \<Rightarrow> unit result" where
  "require_fresh_equivalent_plan source fresh max_plan_age_blocks =
     rbind (rcheck (\<not> (\<not> tp_ready fresh \<or> tp_errors fresh \<noteq> []))
       (ValueError ''fresh testnet plan did not pass every pre-signing gate'')) (\<lambda>_.
     (case (tp_block source, tp_block fresh) of
        (Some b, Some b') \<Rightarrow>
          (let age = b' - b in
           rbind (rcheck (\<not> (age < 0 \<or> max_plan_age_blocks < age))
             (ValueError (''weight plan is stale by '' @ int_str age @ '' blocks; create and authorize a fresh plan''))) (\<lambda>_.
           rbind (rcheck (same_chain_state source fresh)
             (ValueError ''testnet state changed after the authorized plan was created'')) (\<lambda>_.
           rcheck (target_fingerprint (tp_targets source) = target_fingerprint (tp_targets fresh))
             (ValueError ''testnet UID bindings or conformed weights changed after authorization''))))
      | _ \<Rightarrow> Inl (ValueError ''weight plan has no chain block'')))"

section \<open>Submission\<close>

text \<open>\<open>_fee_tao\<close>: the attribute \<open>tao\<close> of the fee as text.\<close>

definition fee_tao :: "(pyval \<Rightarrow> string result) \<Rightarrow> pyval \<Rightarrow> string option result" where
  "fee_tao repr_of value =
     (case value of
        PObj _ attrs \<Rightarrow> (case map_of attrs ''tao'' of
            None \<Rightarrow> Inr None
          | Some PNone \<Rightarrow> Inr None
          | Some t \<Rightarrow> rbind (py_str repr_of t) (\<lambda>s. Inr (Some s)))
      | _ \<Rightarrow> Inr None)"

definition reveal_round_of :: "(string, pyval) dict \<Rightarrow> int option result" where
  "reveal_round_of data =
     (case map_of data ''reveal_round'' of
        None \<Rightarrow> Inr None
      | Some PNone \<Rightarrow> Inr None
      | Some v \<Rightarrow> rbind (py_int v) (\<lambda>i. Inr (Some i)))"

text \<open>The checks before the wallet is opened.\<close>

definition authorize_submission :: "plan_report \<Rightarrow> submission_request \<Rightarrow> string result" where
  "authorize_submission source q =
     rbind (ensure_supported_network ''test'') (\<lambda>_.
     rbind (validated_plan_digest source) (\<lambda>digest.
     rbind (rcheck (sq_authorize_plan_digest q = digest)
       (ValueError ''authorized digest does not match the saved weight plan'')) (\<lambda>_.
     rbind (rcheck (sq_wallet_alias q = WALLET_ALIAS) 
       (ValueError (''wallet alias must be exactly '' @ [CHR 0x27] @ WALLET_ALIAS @ [CHR 0x27]))) (\<lambda>_.
     rbind (rcheck (valid_validator_alias (sq_hotkey_alias q))
       (ValueError ''hotkey alias must be a named PlanRace validator'')) (\<lambda>_.
     rbind (rcheck (\<not> (sq_max_plan_age_blocks q < 1 \<or> 24 < sq_max_plan_age_blocks q))
       (ValueError ''max plan age must be between 1 and 24 blocks'')) (\<lambda>_.
     Inr digest))))))"

definition refresh_request :: "plan_report \<Rightarrow> plan_request" where
  "refresh_request source = \<lparr>lq_netuid = tp_netuid source, lq_validator_hotkey_ss58 = tp_validator_hotkey_ss58 source,
     lq_score_specs = map (\<lambda>t. tg_hotkey_ss58 t @ ''='' @ float_repr (tg_score t)) (tp_targets source),
     lq_minimum_positive_hotkeys = 1\<rparr>"

definition fresh_coordinates :: "plan_report \<Rightarrow> (int \<times> string \<times> int) result" where
  "fresh_coordinates fresh =
     (case (tp_block fresh, tp_block_hash fresh, tp_runtime_spec_version fresh) of
        (Some b, Some h, Some v) \<Rightarrow> Inr (b, h, v)
      | _ \<Rightarrow> Inl (ValueError ''fresh weight plan has incomplete chain coordinates''))"

definition submitted_weights :: "weight_target list \<Rightarrow> (int, int) dict" where
  "submitted_weights targets = foldl (\<lambda>d t. AList.update (tg_uid t) (tg_u16_weight t) d) [] targets"

text \<open>Everything before the SDK call: the wallet and the fresh plan's coordinates.\<close>

definition prepare_submission ::
  "('w, 'k) submission_env \<Rightarrow> plan_report \<Rightarrow> submission_request \<Rightarrow> ('w, string \<times> 'k \<times> int \<times> string \<times> int) io" where
  "prepare_submission env source q =
     io_bind (io_lift (authorize_submission source q)) (\<lambda>digest.
     io_bind (se_wallet_factory env (sq_wallet_alias q) (sq_hotkey_alias q)) (\<lambda>wallet.
     if se_ss58_address env wallet \<noteq> tp_validator_hotkey_ss58 source
     then io_raise (ValueError ''local signing hotkey does not match the authorized validator'') else
     io_bind (se_plan_collector env (refresh_request source)) (\<lambda>fresh.
     io_bind (io_lift (require_fresh_equivalent_plan source fresh (sq_max_plan_age_blocks q))) (\<lambda>_.
     io_bind (io_lift (fresh_coordinates fresh)) (\<lambda>(b, h, v).
     io_return (digest, wallet, b, h, v))))))"

definition make_receipt ::
  "plan_report \<Rightarrow> submission_request \<Rightarrow> string \<Rightarrow> int \<times> string \<times> int \<Rightarrow> extrinsic_result \<Rightarrow> string option \<Rightarrow> int option
    \<Rightarrow> string \<Rightarrow> submission_receipt" where
  "make_receipt source q digest coordinates result fee reveal_round now =
     (let (b, h, v) = coordinates in
      \<lparr>sr_schema_version = SUBMISSION_SCHEMA_VERSION, sr_network = ''test'', sr_endpoint = TESTNET_ENDPOINT,
       sr_sdk_version = tp_sdk_version source, sr_source_plan_digest = digest, sr_source_block = the (tp_block source),
       sr_pre_submit_block = b, sr_pre_submit_block_hash = h, sr_runtime_spec_version = v,
       sr_netuid = tp_netuid source, sr_validator_hotkey_ss58 = tp_validator_hotkey_ss58 source,
       sr_wallet_alias = sq_wallet_alias q, sr_hotkey_alias = sq_hotkey_alias q,
       sr_submitted_targets = map (\<lambda>t. \<lparr>su_hotkey_ss58 = tg_hotkey_ss58 t, su_uid = tg_uid t,
         su_u16_weight = tg_u16_weight t\<rparr>) (tp_targets source),
       sr_transaction_constructed = True, sr_signature_requested = True, sr_sdk_reported_success = True,
       sr_including_block_hash = er_block_hash result, sr_extrinsic_id = er_extrinsic_id result,
       sr_explorer_url = er_explorer_url result, sr_fee_tao = fee, sr_reveal_round = reveal_round,
       sr_submitted_at = now, sr_requires_delayed_readback = (reveal_round \<noteq> None), sr_evidence_complete = False,
       sr_next_action = (if reveal_round \<noteq> None
         then ''Wait for the timelock reveal round, then verify a later metagraph readback.''
         else ''Verify a later metagraph readback and bind it to this receipt.'')\<rparr>)"

definition submit_testnet_weight_plan ::
  "('w, 'k) submission_env \<Rightarrow> plan_report \<Rightarrow> submission_request \<Rightarrow> ('w, submission_receipt) io" where
  "submit_testnet_weight_plan env source q =
     io_bind (prepare_submission env source q) (\<lambda>(digest, wallet, coordinates).
     io_bind (se_submitter env (tp_netuid source) (submitted_weights (tp_targets source)) wallet) (\<lambda>result.
     if \<not> er_success result
     then io_raise (RuntimeError ''Bittensor SDK reported an unsuccessful testnet submission'') else
     io_bind (io_lift (reveal_round_of (er_data result))) (\<lambda>reveal_round.
     io_bind (io_lift (fee_tao (se_repr env) (er_fee result))) (\<lambda>fee.
     io_bind (se_clock env) (\<lambda>now.
     io_return (make_receipt source q digest coordinates result fee reveal_round now))))))"

end
