(* ===== verification/PlanLemmas.thy ===== *)
theory PlanLemmas
  imports TestnetSubmission
begin

text \<open>
  What the weight plan of \<open>planrace/testnet_weights.py\<close> guarantees: facts about parsed scores,
  clipped and quantized vectors and resolved targets, combined into the agreement of the
  collector with the validator of saved plans.
\<close>

section \<open>Scores\<close>

lemma parse_public_score_Inr:
  "parse_public_score scores value1 = Inr scores' \<longleftrightarrow> (\<exists>hotkey raw score. scores' = scores @ [(hotkey, score)]
     \<and> CHR ''='' \<in> set value1 \<and> split_assignment value1 = (hotkey, raw) \<and> valid_ss58 hotkey
     \<and> finite_float (PStr raw) = Some score \<and> 0 \<le> score \<and> hotkey \<notin> set (keys scores))"
  by (auto simp: parse_public_score_def validate_public_ss58_def rbind_eq_Inr Let_def
      split: prod.splits if_splits option.splits)

definition scores_ok :: "(string, real) dict \<Rightarrow> bool" where
  "scores_ok scores \<longleftrightarrow> distinct (keys scores) \<and> list_all (\<lambda>(h, s). valid_ss58 h \<and> 0 \<le> s) scores"

lemma parse_public_scores_ok: "parse_public_scores specs = Inr scores \<Longrightarrow> scores_ok scores"
proof -
  assume "parse_public_scores specs = Inr scores"
  then have "rfold parse_public_score [] specs = Inr scores" by (auto simp: parse_public_scores_def)
  then show ?thesis
    by (rule rfold_invariant) (auto simp: scores_ok_def keys_def parse_public_score_Inr)
qed

lemma valid_ss58_facts: "valid_ss58 s \<Longrightarrow> s \<noteq> [] \<and> list_all is_base58 s"
  by (cases s) (auto simp: valid_ss58_def char_class_defs)

lemma base58_ascii: "list_all is_base58 s \<Longrightarrow> is_ascii s"
  by (induction s) (auto simp: is_ascii_def char_class_defs)

section \<open>Proposed weights\<close>

text \<open>A planned proposal: distinct scored hotkeys in order and weights that are not negative. A weight may be
  zero: the quotient of a score by the total of the scores can underflow.\<close>

definition proposal_ok :: "(string, real) dict \<Rightarrow> hotkey_weight_plan \<Rightarrow> bool" where
  "proposal_ok scores p \<longleftrightarrow> length (hp_weights p) = length (hp_hotkeys p) \<and> distinct (hp_hotkeys p)
     \<and> list_all (\<lambda>h. \<exists>s. (h, s) \<in> set scores \<and> 0 < s) (hp_hotkeys p) \<and> list_all (\<lambda>w. 0 \<le> w) (hp_weights p)
     \<and> hp_weights p \<noteq> []"

lemma planned_proposal_ok:
  assumes "scores_ok scores" "plan_hotkey_weights (hotkey_scores scores) n = Inr p" "hp_planned p"
  shows "proposal_ok scores p"
proof -
  let ?d = "hotkey_scores scores" and ?pos = "positive_scores hotkey_of (hotkey_scores scores)"
  have wf: "wf_dict ?d"
    using assms(1) by (simp add: scores_ok_def wf_dict_def keys_def hotkey_scores_def comp_def case_prod_beta' distinct_map inj_on_def)
  have ok: "list_all valid_hotkey_key (keys ?d)" "\<not> list_ex bad_score (dict_values ?d)" "1 \<le> n"
    and m: "\<not> int (length ?pos) < n" and nw: "normalized_weights ?pos = Inr (hp_weights p)"
    and h: "hp_hotkeys p = map fst (sort_key fst ?pos)"
    using assms(2,3) by (auto simp: plan_hotkey_weights_def Let_def rbind_eq_Inr split: if_splits)
  have "valid_hotkey_key a \<Longrightarrow> valid_hotkey_key b \<Longrightarrow> hotkey_of a = hotkey_of b \<Longrightarrow> a = b" for a b by (cases a; cases b) auto
  then have d: "distinct (map fst ?pos)" by (rule distinct_positive_scores [OF wf ok(1)])
  have ne: "?pos \<noteq> []" using m ok(3) by auto
  have "(k, v) \<in> set ?pos \<Longrightarrow> (k, v) \<in> set scores \<and> 0 < v" for k v
    by (auto simp: positive_scores_def hotkey_scores_def)
  then have "list_all (\<lambda>h. \<exists>s. (h, s) \<in> set scores \<and> 0 < s) (hp_hotkeys p)"
    by (fastforce simp: h list_all_iff)
  moreover have "distinct (hp_hotkeys p)" unfolding h using d by (metis distinct_map distinct_sort set_sort)
  moreover note normalized_plan [OF ne positive_scores_pos [OF ok(2), of _ hotkey_of] d nw]
  ultimately show ?thesis using ne by (auto simp: proposal_ok_def h)
qed

section \<open>Clipping and quantization\<close>

definition all_nonneg :: "real list \<Rightarrow> bool" where
  "all_nonneg xs \<longleftrightarrow> xs \<noteq> [] \<and> list_all (\<lambda>x. 0 \<le> x) xs"

text \<open>Dividing a vector of one sign by its total gives entries that are not negative.\<close>

lemma shares_nonneg:
  assumes "rmap (\<lambda>w. dbl_div w (fsum xs)) xs = Inr ys" "all_nonneg xs \<or> (xs \<noteq> [] \<and> list_all (\<lambda>x. x \<le> 0) xs)"
  shows "all_nonneg ys \<and> length ys = length xs"
proof -
  have ys: "length ys = length xs" "\<And>i. i < length xs \<Longrightarrow> ys ! i = dbl (xs ! i / fsum xs)"
    using assms(1) by (auto simp: rmap_Inr_iff dbl_div_Inr)
  have nonneg: "0 \<le> x / fsum xs" if "x \<in> set xs" for x
    using assms(2)
  proof
    assume "all_nonneg xs"
    then have a: "\<And>y. y \<in> set xs \<Longrightarrow> 0 \<le> y" by (simp add: all_nonneg_def list_all_iff)
    show ?thesis using a [OF that] fsum_nonneg [OF a] by simp
  next
    assume "xs \<noteq> [] \<and> list_all (\<lambda>x. x \<le> 0) xs"
    then have a: "\<And>y. y \<in> set xs \<Longrightarrow> y \<le> 0" by (simp add: list_all_iff)
    show ?thesis using a [OF that] fsum_nonpos [OF a] by (simp add: divide_nonpos_nonpos)
  qed
  have "0 \<le> y" if "y \<in> set ys" for y
  proof -
    obtain i where "i < length xs" "y = dbl (xs ! i / fsum xs)" using \<open>y \<in> set ys\<close> ys by (metis in_set_conv_nth)
    then show ?thesis using nonneg [of "xs ! i"] by (simp add: dbl.nonneg)
  qed
  then show ?thesis using ys(1) assms(2) by (auto simp: all_nonneg_def list_all_iff)
qed

lemma min_cutoff_sign:
  assumes "all_nonneg ws"
  shows "all_nonneg (map (\<lambda>w. min w c) ws) \<or> (map (\<lambda>w. min w c) ws \<noteq> [] \<and> list_all (\<lambda>x. x \<le> 0) (map (\<lambda>w. min w c) ws))"
  using assms by (cases "0 \<le> c") (auto simp: all_nonneg_def list_all_iff min_def)

text \<open>Clipping keeps the length and gives no negative entry, whatever branch is taken.\<close>

lemma clip_nonneg:
  assumes "all_nonneg ws" "clip_to_max_weight ws limit = Inr (cs, clipped)"
  shows "all_nonneg cs \<and> length cs = length ws" and "0 < limit" "limit \<le> U16_MAX"
proof -
  define T where "T = fsum ws"
  define normalized where "normalized = map (\<lambda>w. dbl (w / T)) ws"
  have T: "0 \<le> T" unfolding T_def using assms(1) by (intro fsum_nonneg) (simp add: all_nonneg_def list_all_iff)
  have ne: "ws \<noteq> []" using assms(1) by (simp add: all_nonneg_def)
  have n: "all_nonneg normalized" "length normalized = length ws"
    using assms(1) T by (auto simp: normalized_def all_nonneg_def list_all_iff intro!: dbl.nonneg)
  note c = assms(2) [unfolded clip_to_max_weight_def Let_def T_def [symmetric] normalized_def [symmetric]]
  show "0 < limit" "limit \<le> U16_MAX" using c by auto
  have uniform: "all_nonneg (replicate (length ws) (dbl (1 / real (length ws))))"
    using ne by (auto simp: all_nonneg_def list_all_iff intro!: dbl.nonneg)
  from c consider "cs = normalized" | "cs = replicate (length ws) (dbl (1 / real (length ws)))"
    | s where "rmap (\<lambda>w. dbl_div w (fsum (map (\<lambda>w. min w (dbl (s * T))) ws))) (map (\<lambda>w. min w (dbl (s * T))) ws) = Inr cs"
    using n(2) by (auto split: if_splits)
  then show "all_nonneg cs \<and> length cs = length ws"
  proof cases
    case (3 s)
    from shares_nonneg [OF 3 min_cutoff_sign [OF assms(1)]] show ?thesis by simp
  qed (use n uniform in simp_all)
qed

subsection \<open>Sixteen bits\<close>

lemma quantize_bounds:
  assumes "0 \<le> w" "w \<le> highest" "quantize highest w = Inr v"
  shows "0 \<le> v" "v \<le> U16_MAX"
proof -
  define q where "q = dbl (w / highest)"
  have v: "v = rne (dbl (q * 65535))" "highest \<noteq> 0" using assms by (auto simp: quantize_def q_def dbl_div_Inr U16_MAX_def)
  have q: "0 \<le> q" "q \<le> 1" using assms(1,2) v(2) by (auto simp: q_def intro!: dbl.nonneg dbl.le_one)
  have "dbl (q * 65535) \<le> of_int 65535" using q(2) by (intro dbl.upper dbl_of_int) simp_all
  from rne_mono [OF this] show "v \<le> U16_MAX" by (simp only: v rne_of_int U16_MAX_def)
  have "of_int 0 \<le> dbl (q * 65535)" using q(1) by (simp add: dbl.nonneg)
  from rne_mono [OF this] show "0 \<le> v" by (simp only: v rne_of_int)
qed

text \<open>The rows of a conformed vector: increasing indices, 16-bit values and their shares.\<close>

definition rows_ok :: "nat \<Rightarrow> (nat \<times> real \<times> int) list \<Rightarrow> bool" where
  "rows_ok n rows \<longleftrightarrow> rows \<noteq> [] \<and> distinct (map fst rows)
     \<and> list_all (\<lambda>(i, w, v). i < n \<and> 0 < v \<and> v \<le> U16_MAX
          \<and> w = fl (of_int v / of_int (sum_list (map (\<lambda>(_, _, v). v) rows)))) rows"

lemma conform_rows_ok:
  assumes "all_nonneg ws" "conform_weight_vector ws limit = Inr (rows, clipped)"
  shows "rows_ok (length ws) rows" "0 < limit" "limit \<le> U16_MAX"
proof -
  obtain cs where cs: "clip_to_max_weight ws limit = Inr (cs, clipped)" using assms(2) by (auto simp: conform_weight_vector_def Let_def)
  note c = clip_nonneg [OF assms(1) cs]
  show "0 < limit" "limit \<le> U16_MAX" by (rule c(2,3))+
  obtain qs where qs: "rmap (quantize (Max (set cs))) cs = Inr qs"
    and rows: "rows = map (\<lambda>(i, v). (i, fl (of_int v / of_int (sum_list (map snd (filter (\<lambda>(_, v). 0 < v) (List.enumerate 0 qs))))), v))
        (filter (\<lambda>(_, v). 0 < v) (List.enumerate 0 qs))"
    and ne: "filter (\<lambda>(_, v). 0 < v) (List.enumerate 0 qs) \<noteq> []"
    using assms(2) cs by (auto simp: conform_weight_vector_def Let_def)
  define kept where "kept = filter (\<lambda>(_, v). 0 < v) (List.enumerate 0 qs)"
  have len: "length qs = length ws" using rmap_length [OF qs] c(1) by simp
  have b: "v \<le> U16_MAX" if "v \<in> set qs" for v
  proof -
    note v = that
    obtain i where "i < length qs" "v = qs ! i" using v by (metis in_set_conv_nth)
    then have i: "i < length cs" "v = qs ! i" by (simp_all add: rmap_length [OF qs])
    then have "quantize (Max (set cs)) (cs ! i) = Inr v" using qs by (simp add: rmap_Inr_iff)
    moreover have "cs ! i \<le> Max (set cs)" using i(1) by simp
    moreover have "0 \<le> cs ! i" using c(1) i(1) by (simp add: all_nonneg_def list_all_length)
    ultimately show ?thesis by (intro quantize_bounds(2))
  qed
  have distinct: "distinct (map fst kept)" unfolding kept_def by (rule distinct_map_filter) (simp add: distinct_enumerate)
  have bounds: "i < length ws \<and> 0 < v \<and> v \<le> U16_MAX" if "(i, v) \<in> set kept" for i v
  proof -
    from that have "(i, v) \<in> set (List.enumerate 0 qs)" "0 < v" by (auto simp: kept_def)
    then have "i < length qs" "v \<in> set qs" by (auto simp: in_set_enumerate_eq)
    with b \<open>0 < v\<close> len show ?thesis by simp
  qed
  have r: "rows = map (\<lambda>(i, v). (i, fl (of_int v / of_int (sum_list (map snd kept))), v)) kept" "kept \<noteq> []"
    using rows ne unfolding kept_def by blast+
  then have sel: "map (\<lambda>(_, _, v). v) rows = map snd kept" "map fst rows = map fst kept"
    by (simp_all add: comp_def case_prod_beta')
  show "rows_ok (length ws) rows"
    unfolding rows_ok_def sel
  proof (intro conjI)
    show "rows \<noteq> []" using r by simp
    show "list_all (\<lambda>(i, w, v). i < length ws \<and> 0 < v \<and> v \<le> U16_MAX
        \<and> w = fl (of_int v / of_int (sum_list (map snd kept)))) rows"
      unfolding r(1) list_all_iff using bounds by auto
  qed (rule distinct)
qed

section \<open>Shares of a total\<close>

lemma sum_fl_error:
  "(\<And>x. x \<in> set xs \<Longrightarrow> 0 \<le> x) \<Longrightarrow> \<bar>sum_list (map fl xs) - sum_list xs\<bar> \<le> sum_list xs / 2 ^ 53"
proof (induction xs)
  case (Cons x xs)
  have "\<bar>sum_list (map fl xs) - sum_list xs\<bar> \<le> sum_list xs / 2 ^ 53" using Cons by simp
  moreover have "\<bar>fl x - x\<bar> \<le> x / 2 ^ 53" using fl_error [of x] Cons.prems [of x] by simp
  moreover have "\<bar>sum_list (map fl (x # xs)) - sum_list (x # xs)\<bar>
      \<le> \<bar>fl x - x\<bar> + \<bar>sum_list (map fl xs) - sum_list xs\<bar>" by simp
  moreover have "sum_list (x # xs) / 2 ^ 53 = x / 2 ^ 53 + sum_list xs / 2 ^ 53" by (simp add: add_divide_distrib)
  ultimately show ?case by linarith
qed simp

text \<open>The rounded shares of positive integers sum to one within the validator's tolerance.\<close>

lemma shares_sum:
  fixes vs :: "int list"
  assumes "vs \<noteq> []" "\<And>v. v \<in> set vs \<Longrightarrow> 0 < v"
  shows "isclose (fsum (map (\<lambda>v. fl (of_int v / of_int (sum_list vs))) vs)) 1 weight_tolerance"
proof -
  define N where "N = sum_list vs"
  define S where "S = sum_list (map (\<lambda>v. fl (of_int v / of_int N)) vs)"
  have "0 < hd vs" "hd vs \<le> N" using assms member_le_sum_list [of "hd vs" vs] by (auto simp: N_def less_imp_le)
  then have N: "(0 :: real) < of_int N" by simp
  have dist: "sum_list (map (\<lambda>v. of_int v / of_int N) xs) = (of_int (sum_list xs) :: real) / of_int N" for xs
    by (induction xs) (simp_all add: add_divide_distrib)
  then have one: "sum_list (map (\<lambda>v. of_int v / of_int N) vs) = (1 :: real)" using N by (simp add: N_def)
  have "\<bar>sum_list (map fl (map (\<lambda>v. of_int v / of_int N) vs)) - sum_list (map (\<lambda>v. of_int v / of_int N) vs)\<bar>
      \<le> sum_list (map (\<lambda>v. of_int v / of_int N) vs) / 2 ^ 53"
    using assms(2) N by (intro sum_fl_error) (auto intro!: divide_nonneg_pos simp: less_imp_le)
  then have s: "\<bar>S - 1\<bar> \<le> 1 / 2 ^ 53" by (simp only: one S_def map_map comp_def)
  then have "\<bar>S - 1\<bar> \<le> 1" by simp
  then have "S \<le> 2" "0 \<le> S" unfolding abs_le_iff by linarith+
  then have "\<bar>fl S - S\<bar> \<le> 2 / 2 ^ 53" using fl_error [of S] by simp
  with s have d: "\<bar>1 - fl S\<bar> \<le> 3 / 2 ^ 53" unfolding abs_le_iff by linarith
  define X where "X = \<bar>1 - fl S\<bar>"
  have "\<bar>fl X - X\<bar> \<le> X / 2 ^ 53" using fl_error [of X] by (simp add: X_def)
  moreover have "X / 2 ^ 53 \<le> X" by (simp add: X_def)
  ultimately have "fl X \<le> X + X" unfolding abs_le_iff by linarith
  then have "fl \<bar>1 - fl S\<bar> \<le> 6 / 2 ^ 53" using d unfolding X_def by linarith
  have "\<bar>weight_tolerance - 1 / 10 ^ 12\<bar> \<le> 1 / 10 ^ 12 / 2 ^ 53"
    using fl_error [of "1 / 10 ^ 12"] by (simp add: weight_tolerance_def)
  moreover have "6 / 2 ^ 53 + 1 / 10 ^ 12 / 2 ^ 53 \<le> (1 / 10 ^ 12 :: real)" by simp
  ultimately have "6 / 2 ^ 53 \<le> weight_tolerance" unfolding abs_le_iff by linarith
  with \<open>fl \<bar>1 - fl S\<bar> \<le> 6 / 2 ^ 53\<close> show ?thesis by (simp add: isclose_def fsum_def S_def N_def)
qed

section \<open>Resolved targets\<close>

lemma uid_of_hotkey_Some:
  assumes "distinct hs"
  shows "uid_of_hotkey hs h = Some u \<longleftrightarrow> u < length hs \<and> hs ! u = h"
proof -
  have "uid_of_hotkey hs h = Some u \<longleftrightarrow> (h, u) \<in> set (zip hs [0..<length hs])"
    unfolding uid_of_hotkey_def by (rule map_of_eq_Some_iff) (simp add: assms)
  then show ?thesis by (auto simp: in_set_zip)
qed

lemma uid_of_hotkey_set: "distinct hs \<Longrightarrow> h \<in> set hs \<Longrightarrow> \<exists>u. uid_of_hotkey hs h = Some u"
  by (simp add: uid_of_hotkey_Some in_set_conv_nth)

text \<open>What the validator of saved plans asks of the targets, the weight limit apart.\<close>

definition targets_ok :: "string \<Rightarrow> weight_target list \<Rightarrow> bool" where
  "targets_ok validator targets \<longleftrightarrow> targets \<noteq> [] \<and> rfold (\<lambda>_. check_target validator) () targets = Inr ()
     \<and> distinct (map tg_uid targets) \<and> distinct (map tg_hotkey_ss58 targets) \<and> 0 < total_u16 targets
     \<and> isclose (fsum (map target_weight targets)) 1 weight_tolerance
     \<and> list_all (\<lambda>t. target_weight t = fl (of_int (tg_u16_weight t) / of_int (total_u16 targets))) targets"

lemma check_vector_iff:
  assumes "targets_ok validator targets"
  shows "check_vector limit targets = Inr () \<longleftrightarrow> maximum_weight_limit_met (Some limit) targets"
proof -
  have u: "0 < tg_u16_weight t" if "t \<in> set targets" for t
  proof -
    have "check_target validator t = Inr ()"
    proof -
      have "rfold (\<lambda>_. check_target validator) () ts = Inr () \<Longrightarrow> t \<in> set ts \<Longrightarrow> check_target validator t = Inr ()" for ts
        by (induction ts) auto
      then show ?thesis using assms that by (auto simp: targets_ok_def)
    qed
    then show ?thesis by (simp add: check_target_def rbind_eq_Inr)
  qed
  have share: "isclose (target_weight t) (fl (of_int (tg_u16_weight t) / of_int (total_u16 targets))) weight_tolerance"
    if "t \<in> set targets" for t
    using assms that by (simp add: targets_ok_def list_all_iff isclose_def)
  show ?thesis
    using assms u share
    by (auto simp: check_vector_def targets_ok_def rbind_eq_Inr maximum_weight_limit_met_def list_ex_iff not_le not_less)
qed

lemma sum_list_sort_key: "sum_list (map f (sort_key k xs)) = (sum_list (map f xs) :: 'a::comm_monoid_add)"
proof -
  have "mset (map f (sort_key k xs)) = mset (map f xs)" by simp
  then show ?thesis by (metis sum_mset_sum_list)
qed

lemma distinct_sort_key: "distinct (map f (sort_key k xs)) \<longleftrightarrow> distinct (map f xs)"
proof -
  have "mset (map f (sort_key k xs)) = mset (map f xs)" by simp
  then show ?thesis by (rule mset_eq_imp_distinct_iff)
qed

text \<open>The planned weight of a target did not underflow to zero.\<close>

definition planned_positive :: "weight_target \<Rightarrow> bool" where
  "planned_positive t \<longleftrightarrow> tg_planned_weight t \<noteq> Fin 0"

lemma list_all_sort_key: "list_all P (sort_key k xs) \<longleftrightarrow> list_all P xs"
  by (simp add: list_all_iff)

lemma plan_targets_ok:
  assumes "scores_ok scores" "proposal_ok scores p" "distinct hotkeys" "list_all (\<lambda>h. h \<in> set hotkeys) (hp_hotkeys p)"
    and "validator \<notin> set (keys scores)" "rows_ok (length (hp_weights p)) rows"
    and "list_all planned_positive (map (make_target scores p hotkeys) rows)"
  shows "targets_ok validator (sort_key tg_uid (map (make_target scores p hotkeys) rows))"
proof -
  define ts where "ts = map (make_target scores p hotkeys) rows"
  define N where "N = sum_list (map (\<lambda>(_, _, v). v) rows)"
  have row: "i < length (hp_hotkeys p) \<and> 0 < v \<and> v \<le> U16_MAX \<and> w = fl (of_int v / of_int N)"
    if "(i, w, v) \<in> set rows" for i w v
    using assms(2,6) that unfolding rows_ok_def N_def proposal_ok_def list_all_iff by fastforce
  have ne: "rows \<noteq> []" "distinct (map fst rows)" using assms(6) by (simp_all add: rows_ok_def)
  have field: "tg_hotkey_ss58 (make_target scores p hotkeys (i, w, v)) = hp_hotkeys p ! i"
    "tg_u16_weight (make_target scores p hotkeys (i, w, v)) = v"
    "target_weight (make_target scores p hotkeys (i, w, v)) = w" for i w v
    by (simp_all add: make_target_def target_weight_def Let_def)
  have hot: "hp_hotkeys p ! i \<in> set hotkeys \<and> (\<exists>s. map_of scores (hp_hotkeys p ! i) = Some s \<and> 0 < s)
      \<and> valid_ss58 (hp_hotkeys p ! i) \<and> hp_hotkeys p ! i \<noteq> validator \<and> 0 \<le> hp_weights p ! i"
    if "i < length (hp_hotkeys p)" for i
  proof -
    have "hp_hotkeys p ! i \<in> set (hp_hotkeys p)" using that by simp
    then obtain s where s: "(hp_hotkeys p ! i, s) \<in> set scores" "0 < s" using assms(2) by (auto simp: proposal_ok_def list_all_iff)
    have "distinct (map fst scores)" using assms(1) by (simp add: scores_ok_def keys_def)
    with s have "map_of scores (hp_hotkeys p ! i) = Some s" by simp
    moreover have "valid_ss58 (hp_hotkeys p ! i)" using assms(1) s(1) by (auto simp: scores_ok_def list_all_iff)
    moreover have "hp_hotkeys p ! i \<noteq> validator" using assms(5) s(1) by (force simp: keys_def)
    moreover have "hp_hotkeys p ! i \<in> set hotkeys" using assms(4) that by (simp add: list_all_iff)
    moreover have "0 \<le> hp_weights p ! i" using assms(2) that by (simp add: proposal_ok_def list_all_length)
    ultimately show ?thesis using s(2) by simp
  qed
  have total: "total_u16 ts = N"
    by (simp add: total_u16_def ts_def N_def comp_def case_prod_beta' make_target_def Let_def)
  have keys: "distinct (map tg_hotkey_ss58 ts)"
  proof -
    have "map tg_hotkey_ss58 ts = map (nth (hp_hotkeys p)) (map fst rows)"
      by (simp add: ts_def comp_def case_prod_beta' make_target_def Let_def)
    moreover have "inj_on (nth (hp_hotkeys p)) (set (map fst rows))"
      using assms(2) row by (auto simp: proposal_ok_def intro!: inj_on_nth)
    ultimately show ?thesis using ne(2) by (metis distinct_map)
  qed
  have uids: "distinct (map tg_uid ts)"
  proof -
    have "map tg_uid ts = map (\<lambda>h. int (the (uid_of_hotkey hotkeys h))) (map tg_hotkey_ss58 ts)"
      by (simp add: ts_def comp_def case_prod_beta' make_target_def Let_def)
    moreover have "inj_on (\<lambda>h. int (the (uid_of_hotkey hotkeys h))) (set (map tg_hotkey_ss58 ts))"
    proof (rule inj_onI)
      fix h h' assume h: "h \<in> set (map tg_hotkey_ss58 ts)" "h' \<in> set (map tg_hotkey_ss58 ts)"
        and eq: "int (the (uid_of_hotkey hotkeys h)) = int (the (uid_of_hotkey hotkeys h'))"
      then have "h \<in> set hotkeys" "h' \<in> set hotkeys" using row hot by (auto simp: ts_def field)
      then obtain u u' where "uid_of_hotkey hotkeys h = Some u" "uid_of_hotkey hotkeys h' = Some u'"
        using uid_of_hotkey_set [OF assms(3)] by metis
      with eq uid_of_hotkey_Some [OF assms(3)] show "h = h'" by auto
    qed
    ultimately show ?thesis using keys by (metis distinct_map)
  qed
  have pos: "0 < N"
  proof -
    obtain i w v where t: "(i, w, v) \<in> set rows" using ne(1) by (cases rows) auto
    then have "v \<in> set (map (\<lambda>(_, _, v). v) rows)" by force
    moreover have "0 \<le> x" if "x \<in> set (map (\<lambda>(_, _, v). v) rows)" for x using that row by (auto simp: less_imp_le)
    ultimately have "v \<le> N" unfolding N_def by (intro member_le_sum_list)
    then show ?thesis using row [OF t] by simp
  qed
  have check: "check_target validator t = Inr ()" if "t \<in> set ts" for t
  proof -
    note m = that
    obtain i w v where t: "t = make_target scores p hotkeys (i, w, v)" "(i, w, v) \<in> set rows"
      using m by (auto simp: ts_def)
    note r = row [OF t(2)]
    have "0 < w" using r pos by (simp add: fl.rnd_positive)
    moreover have "hp_weights p ! i \<noteq> 0"
      using assms(7) t(2) by (force simp: list_all_iff planned_positive_def make_target_def Let_def)
    ultimately show ?thesis using r hot [of i]
      by (auto simp: t make_target_def Let_def check_target_def rbind_eq_Inr validate_public_ss58_def positive_finite_def)
  qed
  have weights: "target_weight t = fl (of_int (tg_u16_weight t) / of_int N)" if "t \<in> set ts" for t
    using that row by (auto simp: ts_def field)
  have sum: "isclose (fsum (map target_weight ts)) 1 weight_tolerance"
  proof -
    let ?vs = "map (\<lambda>(_, _, v). v) rows"
    have "map target_weight ts = map (\<lambda>v. fl (of_int v / of_int (sum_list ?vs))) ?vs"
      using row by (auto simp: ts_def field N_def)
    moreover have "isclose (fsum (map (\<lambda>v. fl (of_int v / of_int (sum_list ?vs))) ?vs)) 1 weight_tolerance"
      by (rule shares_sum) (use ne(1) row in auto)
    ultimately show ?thesis by simp
  qed
  have "rfold (\<lambda>_. check_target validator) () (sort_key tg_uid ts) = Inr ()"
    by (rule rfold_unit_ok) (simp add: check)
  moreover have "sort_key tg_uid ts \<noteq> []" using ne(1) by (metis ts_def length_0_conv length_sort map_is_Nil_conv)
  ultimately show ?thesis
    using uids keys pos total weights sum unfolding ts_def [symmetric]
    by (simp add: targets_ok_def distinct_sort_key total_u16_def sum_list_sort_key fsum_def list_all_iff)
qed

section \<open>The collector\<close>

lemma plan_arguments_Inr:
  assumes "plan_arguments q = Inr (scores, p)"
  shows "scores_ok scores" "lq_validator_hotkey_ss58 q \<notin> set (keys scores)" "valid_ss58 (lq_validator_hotkey_ss58 q)"
    "0 \<le> lq_netuid q" "hp_planned p \<Longrightarrow> proposal_ok scores p" "parse_public_scores (lq_score_specs q) = Inr scores"
proof -
  have p: "parse_public_scores (lq_score_specs q) = Inr scores" "lq_validator_hotkey_ss58 q \<notin> set (keys scores)"
    "valid_ss58 (lq_validator_hotkey_ss58 q)" "0 \<le> lq_netuid q"
    "plan_hotkey_weights (hotkey_scores scores) (lq_minimum_positive_hotkeys q) = Inr p"
    using assms by (auto simp: plan_arguments_def rbind_eq_Inr validate_public_ss58_def split: if_splits)
  then show "scores_ok scores" "lq_validator_hotkey_ss58 q \<notin> set (keys scores)" "valid_ss58 (lq_validator_hotkey_ss58 q)"
    "0 \<le> lq_netuid q" "parse_public_scores (lq_score_specs q) = Inr scores"
    using parse_public_scores_ok by auto
  show "proposal_ok scores p" if "hp_planned p"
    by (rule planned_proposal_ok [OF parse_public_scores_ok [OF p(1)] p(5) that])
qed

lemma hotkeys_of_distinct: "hotkeys_of env m = Inr hs \<Longrightarrow> distinct hs"
  by (auto simp: hotkeys_of_def split: pyval.splits)

text \<open>The targets of the state read from the chain are fit for the validator.\<close>

definition state_ok :: "string \<Rightarrow> plan_state \<Rightarrow> bool" where
  "state_ok validator s \<longleftrightarrow> (if ps_targets s = [] then True
     else (list_all planned_positive (ps_targets s) \<longrightarrow> targets_ok validator (ps_targets s)) \<and> (case ps_max_weights_limit s of None \<Rightarrow> False
       | Some limit \<Rightarrow> 0 < limit \<and> limit \<le> U16_MAX))"

lemma plan_targets_state:
  assumes "scores_ok scores" "hp_planned p \<Longrightarrow> proposal_ok scores p" "distinct hotkeys"
    and "validator \<notin> set (keys scores)"
    and "plan_targets scores p hotkeys (hp_planned p \<and> list_all (\<lambda>h. h \<in> set hotkeys) (hp_hotkeys p)) limit = Inr (targets, clipped)"
  shows "targets = [] \<or> ((list_all planned_positive targets \<longrightarrow> targets_ok validator targets) \<and> (\<exists>l. limit = Some l \<and> 0 < l \<and> l \<le> U16_MAX))"
proof (cases "targets = []")
  case False
  then obtain l rows where l: "limit = Some l" "hp_planned p" "list_all (\<lambda>h. h \<in> set hotkeys) (hp_hotkeys p)"
    "conform_weight_vector (hp_weights p) l = Inr (rows, clipped)"
    "targets = sort_key tg_uid (map (make_target scores p hotkeys) rows)"
    using assms(5) by (auto simp: plan_targets_def split: option.splits if_splits)
  note ok = assms(2) [OF l(2)]
  have "all_nonneg (hp_weights p)" using ok by (simp add: all_nonneg_def proposal_ok_def)
  note c = conform_rows_ok [OF this l(4)]
  show ?thesis using plan_targets_ok [OF assms(1) ok assms(3) l(3) assms(4) c(1)] c(2,3) l by (simp add: list_all_sort_key)
qed simp

lemma read_plan_state_ok:
  assumes "plan_arguments q = Inr (scores, p)"
  shows "io_all (read_plan_state env q scores p snapshot) (state_ok (lq_validator_hotkey_ss58 q))"
proof -
  note a = plan_arguments_Inr [OF assms]
  show ?thesis
    unfolding io_all_def
  proof (intro allI impI)
    fix w s w' assume "read_plan_state env q scores p snapshot w = (Inr s, w')"
    then obtain m hotkeys where h: "hotkeys_of env m = Inr hotkeys"
      "plan_targets scores p hotkeys (hp_planned p \<and> list_all (\<lambda>h. h \<in> set hotkeys) (hp_hotkeys p)) (ps_max_weights_limit s)
         = Inr (ps_targets s, ps_weights_were_clipped s)"
      unfolding read_plan_state_def Let_def
      by (auto simp: io_bind_Inr split: prod.splits)
    from plan_targets_state [OF a(1,5) hotkeys_of_distinct [OF h(1)] a(2) h(2)]
    show "state_ok (lq_validator_hotkey_ss58 q) s" by (auto simp: state_ok_def)
  qed
qed

text \<open>The report of a run that did not fail, by what it read.\<close>

lemma plan_body_Inr:
  assumes "plan_body env q scores p client w = (Inr r, w')"
  obtains v there s errors spec w1 w2 w3 where
    "if there then \<exists>u u'. read_plan_state env q scores p (cv_snapshot v) u = (Inr s, u') else s = initial_plan_state"
    "errors = view_errors ''SDK resolved an unexpected endpoint; planning is denied'' v"
    "digest_of_state env q client v errors s w1 = (Inr (tp_plan_digest r), w2)" "cl_spec_version client w2 = (Inr spec, w3)"
    "tp_read_only r" "\<not> tp_transaction_constructed r" "\<not> tp_signature_requested r" "tp_network r = ''test''"
    "tp_endpoint r = cv_endpoint v" "tp_sdk_version r = tn_sdk_version env" "tp_netuid r = lq_netuid q"
    "tp_block r = Some (cv_block v)" "tp_block_hash r = (if cv_block_hash v = [] then None else Some (cv_block_hash v))"
    "tp_runtime_spec_version r = Some spec" "tp_validator_hotkey_ss58 r = lq_validator_hotkey_ss58 q"
    "tp_min_allowed_weights r = ps_min_allowed s" "tp_max_weights_limit r = ps_max_weights_limit s"
    "tp_weights_rate_limit r = ps_rate_limit s" "tp_commit_reveal_weights_enabled r = ps_commit_reveal s"
    "tp_commit_reveal_period r = ps_reveal_period s" "tp_weights_were_clipped r = ps_weights_were_clipped s"
    "tp_targets r = ps_targets s" "tp_current_readback r = ps_readback s"
    "tp_gates r = plan_gates_of (cv_endpoint v = TESTNET_ENDPOINT) (cv_pinned v) there (cv_block v) s"
    "tp_ready r \<longleftrightarrow> hp_planned p \<and> all_plan_gates (tp_gates r) \<and> errors = [] \<and> valid_block_hash (cv_block_hash v)"
    "tp_errors r = errors"
proof -
  from assms obtain v u1 there u2 s u3 digest u4 spec u5 where b:
    "view_chain env client w = (Inr v, u1)" "testnet_subnet_exists (cv_snapshot v) (lq_netuid q) u1 = (Inr there, u2)"
    "(if there then read_plan_state env q scores p (cv_snapshot v) else io_return initial_plan_state) u2 = (Inr s, u3)"
    "digest_of_state env q client v (view_errors ''SDK resolved an unexpected endpoint; planning is denied'' v) s u3 = (Inr digest, u4)"
    "cl_spec_version client u4 = (Inr spec, u5)"
    and r: "r = \<lparr>tp_read_only = True, tp_transaction_constructed = False, tp_signature_requested = False,
       tp_network = ''test'', tp_endpoint = cv_endpoint v, tp_sdk_version = tn_sdk_version env,
       tp_netuid = lq_netuid q, tp_block = Some (cv_block v),
       tp_block_hash = (if cv_block_hash v = [] then None else Some (cv_block_hash v)),
       tp_runtime_spec_version = Some spec, tp_validator_hotkey_ss58 = lq_validator_hotkey_ss58 q,
       tp_min_allowed_weights = ps_min_allowed s, tp_max_weights_limit = ps_max_weights_limit s,
       tp_weights_rate_limit = ps_rate_limit s, tp_commit_reveal_weights_enabled = ps_commit_reveal s,
       tp_commit_reveal_period = ps_reveal_period s, tp_weights_were_clipped = ps_weights_were_clipped s,
       tp_targets = ps_targets s, tp_current_readback = ps_readback s,
       tp_gates = plan_gates_of (cv_endpoint v = TESTNET_ENDPOINT) (cv_pinned v) there (cv_block v) s,
       tp_ready = (hp_planned p \<and> all_plan_gates (plan_gates_of (cv_endpoint v = TESTNET_ENDPOINT) (cv_pinned v) there (cv_block v) s)
         \<and> view_errors ''SDK resolved an unexpected endpoint; planning is denied'' v = [] \<and> valid_block_hash (cv_block_hash v)),
       tp_plan_digest = digest,
       tp_next_action = plan_next_action (view_errors ''SDK resolved an unexpected endpoint; planning is denied'' v \<noteq> [])
         (plan_gates_of (cv_endpoint v = TESTNET_ENDPOINT) (cv_pinned v) there (cv_block v) s),
       tp_limitations = plan_limitations,
       tp_errors = view_errors ''SDK resolved an unexpected endpoint; planning is denied'' v\<rparr>"
    unfolding plan_body_def Let_def io_bind_Inr by (elim exE conjE) (simp only: io_return_simp prod.inject sum.inject)
  show thesis
    by (rule that [of there v s _ u3 u4 spec u5]) (use b in \<open>auto simp only: r plan_report.simps io_return_simp prod.inject sum.inject split: if_splits\<close>)
qed

text \<open>The parameters of the chain are present and not negative.\<close>

definition natural :: "int option \<Rightarrow> bool" where
  "natural x \<longleftrightarrow> (case x of None \<Rightarrow> False | Some i \<Rightarrow> 0 \<le> i)"

definition complete_parameters :: "plan_report \<Rightarrow> bool" where
  "complete_parameters r \<longleftrightarrow> natural (tp_block r) \<and> natural (tp_min_allowed_weights r) \<and> natural (tp_weights_rate_limit r)
     \<and> natural (tp_commit_reveal_period r) \<and> tp_commit_reveal_weights_enabled r \<noteq> None"

text \<open>A runtime version that does not change between two reads.\<close>

definition stable :: "('w, 'a) io \<Rightarrow> bool" where
  "stable m \<longleftrightarrow> (\<forall>u v. fst (m u) = fst (m v))"

lemma natural_iff: "natural x \<longleftrightarrow> (\<exists>i. x = Some i \<and> 0 \<le> i)"
  by (auto simp: natural_def split: option.splits)

lemma valid_block_hash_nonempty: "valid_block_hash h \<Longrightarrow> h \<noteq> []"
  by (auto simp: valid_block_hash_def starts_with_def)

lemma ready_body_validates:
  assumes "plan_arguments q = Inr (scores, p)" "stable (cl_spec_version client)"
    and "plan_body env q scores p client w = (Inr r, w')" "tp_ready r" "complete_parameters r"
  shows "\<exists>d. tp_plan_digest r = Some d \<and> (list_all planned_positive (tp_targets r) \<longrightarrow> validated_plan_digest r = Inr d)"
  using assms(3)
proof (rule plan_body_Inr)
  note a = plan_arguments_Inr [OF assms(1)]
  fix v :: "'a chain_view" and there s errors spec w1 w2 w3
  assume b: "if there then \<exists>u u'. read_plan_state env q scores p (cv_snapshot v) u = (Inr s, u') else s = initial_plan_state"
    "digest_of_state env q client v errors s w1 = (Inr (tp_plan_digest r), w2)" "cl_spec_version client w2 = (Inr spec, w3)"
    and r: "tp_read_only r" "\<not> tp_transaction_constructed r" "\<not> tp_signature_requested r" "tp_network r = ''test''"
    "tp_endpoint r = cv_endpoint v" "tp_sdk_version r = tn_sdk_version env" "tp_netuid r = lq_netuid q"
    "tp_block r = Some (cv_block v)" "tp_block_hash r = (if cv_block_hash v = [] then None else Some (cv_block_hash v))"
    "tp_runtime_spec_version r = Some spec" "tp_validator_hotkey_ss58 r = lq_validator_hotkey_ss58 q"
    "tp_min_allowed_weights r = ps_min_allowed s" "tp_max_weights_limit r = ps_max_weights_limit s"
    "tp_weights_rate_limit r = ps_rate_limit s" "tp_commit_reveal_weights_enabled r = ps_commit_reveal s"
    "tp_commit_reveal_period r = ps_reveal_period s" "tp_weights_were_clipped r = ps_weights_were_clipped s"
    "tp_targets r = ps_targets s" "tp_current_readback r = ps_readback s"
    "tp_gates r = plan_gates_of (cv_endpoint v = TESTNET_ENDPOINT) (cv_pinned v) there (cv_block v) s"
    "tp_ready r \<longleftrightarrow> hp_planned p \<and> all_plan_gates (tp_gates r) \<and> errors = [] \<and> valid_block_hash (cv_block_hash v)"
    "tp_errors r = errors"
  have ready: "hp_planned p" "all_plan_gates (tp_gates r)" "errors = []" "valid_block_hash (cv_block_hash v)"
    using assms(4) r(21) by simp_all
  have gates: "cv_endpoint v = TESTNET_ENDPOINT" "there" "ps_targets s \<noteq> []"
    "maximum_weight_limit_met (ps_max_weights_limit s) (ps_targets s)"
    using ready(2) unfolding r(20) by (simp_all add: all_plan_gates_def plan_gates_of_def)
  from b(1) gates(2) obtain u u' where "read_plan_state env q scores p (cv_snapshot v) u = (Inr s, u')" by auto
  from io_allD [OF read_plan_state_ok [OF assms(1)] this] gates(3) r(18) obtain limit where
    t: "list_all planned_positive (tp_targets r) \<Longrightarrow> targets_ok (lq_validator_hotkey_ss58 q) (ps_targets s)" "ps_max_weights_limit s = Some limit" "0 < limit" "limit \<le> U16_MAX"
    by (auto simp: state_ok_def split: option.splits)
  obtain minimum rate reveal period where c: "0 \<le> cv_block v" "ps_min_allowed s = Some minimum" "0 \<le> minimum"
    "ps_rate_limit s = Some rate" "0 \<le> rate" "ps_commit_reveal s = Some reveal" "ps_reveal_period s = Some period" "0 \<le> period"
    using assms(5) r by (auto simp: complete_parameters_def natural_iff)
  have hash: "tp_block_hash r = Some (cv_block_hash v)" using r(9) valid_block_hash_nonempty [OF ready(4)] by simp
  define d where "d = \<lparr>di_endpoint = cv_endpoint v, di_sdk_version = tn_sdk_version env, di_netuid = lq_netuid q,
     di_block = cv_block v, di_block_hash = cv_block_hash v, di_runtime_spec_version = spec,
     di_validator_hotkey = lq_validator_hotkey_ss58 q, di_min_allowed_weights = minimum,
     di_max_weights_limit = limit, di_weights_rate_limit = rate,
     di_commit_reveal_weights_enabled = reveal, di_commit_reveal_period = period,
     di_weights_were_clipped = ps_weights_were_clipped s, di_targets = ps_targets s,
     di_current_readback = ps_readback s\<rparr>"
  have spec: "spec' = spec" if "cl_spec_version client x = (Inr spec', y)" for spec' x y
  proof -
    have "fst (cl_spec_version client x) = fst (cl_spec_version client w2)" using assms(2) unfolding stable_def by blast
    then show ?thesis using that b(3) by simp
  qed
  have digest: "tp_plan_digest r = Some (plan_digest d)"
    using b(2) c t(2) gates(3) ready(3) spec by (auto simp: digest_of_state_def io_bind_Inr d_def)
  have op: "proposed_operation r = Some d"
    unfolding proposed_operation_def using r c t(2) hash digest gates(3) by (simp add: d_def)
  have di: "di_block d = cv_block v" "di_block_hash d = cv_block_hash v" "di_min_allowed_weights d = minimum"
    "di_max_weights_limit d = limit" "di_weights_rate_limit d = rate" "di_commit_reveal_period d = period"
    by (simp_all add: d_def)
  have errs: "tp_errors r = []" using r(22) ready(3) by simp
  have "validated_plan_digest r = Inr (plan_digest d)" if "list_all planned_positive (tp_targets r)"
  proof -
    note ok = t(1) [OF that]
    have vector: "check_vector limit (tp_targets r) = Inr ()"
      using check_vector_iff [OF ok] gates(4) t(2) r(18) by simp
    have targets: "rfold (\<lambda>_. check_target (tp_validator_hotkey_ss58 r)) () (tp_targets r) = Inr ()"
      using ok r(11,18) by (simp add: targets_ok_def)
    show ?thesis
      unfolding validated_plan_digest_def op digest
      using a(3,4) c t(3,4) r(1-7,11) ready(2,4) gates(1) targets vector errs assms(4) di
      by (simp add: validate_public_ss58_def)
  qed
  with digest show ?thesis by blast
qed

end
