(* ===== verification/Testnet_Samples.thy ===== *)
theory Testnet_Samples
  imports PlanLemmas
begin

text \<open>
  A concrete chain for the testnet path: one validator, one scored miner, one subnet. Its plan is
  computed here step by step, so the properties are applied to the plan the code really makes.
\<close>

lemma strip_front_same:
  assumes "s \<noteq> []" "list_all (\<lambda>w. (of_char (hd w) :: nat) \<noteq> of_char (hd s)) encodings"
  shows "strip_front encodings s = s"
proof -
  have "\<not> (w \<noteq> [] \<and> starts_with w s)" if "w \<in> set encodings" for w
  proof -
    have "hd w \<noteq> hd s" using assms(2) that by (auto simp: list_all_iff)
    then show ?thesis using assms(1) by (cases w; cases s) (auto simp: starts_with_def)
  qed
  then have "find (\<lambda>w. w \<noteq> [] \<and> starts_with w s) encodings = None" by (auto simp: find_None_iff)
  then show ?thesis by (simp add: strip_front.simps)
qed

lemma test_network: "ensure_supported_network ''test'' = Inr ''test''"
proof -
  have "list_all (\<lambda>w. (of_char (hd w) :: nat) \<noteq> 116) whitespace_encodings"
    "list_all (\<lambda>w. (of_char (hd w) :: nat) \<noteq> 116) (map rev whitespace_encodings)"
    by (simp_all add: whitespace_encodings_def upt_conv_Cons)
  then have "py_strip ''test'' = ''test''" by (simp add: py_strip_def strip_front_same)
  moreover have "py_lower ''test'' = ''test''" by code_simp
  ultimately show ?thesis by (simp add: ensure_supported_network_def ALLOWED_NETWORKS_def)
qed

lemma split_score: "valid_ss58 h \<Longrightarrow> split_assignment (h @ ''='' @ s) = (h, s)"
proof -
  assume v: "valid_ss58 h"
  have "c \<noteq> CHR ''=''" if "is_base58 c" for c using that by (auto simp: char_class_defs)
  then have ne: "\<And>c. c \<in> set h \<Longrightarrow> c \<noteq> CHR ''=''" using valid_ss58_facts [OF v] by (auto simp: list_all_iff)
  then have "takeWhile (\<lambda>c. c \<noteq> CHR ''='') (h @ ''='' @ s) = h" "dropWhile (\<lambda>c. c \<noteq> CHR ''='') (h @ ''='' @ s) = ''='' @ s"
    by (subst takeWhile_append2 dropWhile_append2; simp)+
  then show ?thesis by (simp add: split_assignment_def)
qed

definition demo_validator :: string where "demo_validator = replicate 48 (CHR ''5'')"
definition demo_miner :: string where "demo_miner = CHR ''5'' # replicate 47 (CHR ''6'')"
definition demo_hash :: string where "demo_hash = ''0x'' @ replicate 64 (CHR ''a'')"

lemma demo_addresses: "valid_ss58 demo_validator" "valid_ss58 demo_miner" "demo_miner \<noteq> demo_validator" "demo_miner \<noteq> []"
  by code_simp+

lemma demo_hash_valid: "valid_block_hash demo_hash" "demo_hash \<noteq> []"
  by code_simp+

definition demo_metagraph :: "int \<Rightarrow> pyval" where
  "demo_metagraph updated = PObj ''Metagraph'' [(''hotkeys'', PSeq [PStr demo_validator, PStr demo_miner]),
     (''validator_permit'', PSeq [PBool True, PBool False]), (''last_update'', PSeq [PInt updated, PInt 0])]"

definition demo_parameters :: pyval where
  "demo_parameters = PMap [(PStr ''min_allowed_weights'', PInt 1), (PStr ''max_weights_limit'', PInt 65535),
     (PStr ''weights_rate_limit'', PInt 100), (PStr ''commit_reveal_period'', PInt 1),
     (PStr ''commit_reveal_weights_enabled'', PBool False)]"

definition demo_snapshot :: "int \<Rightarrow> int \<Rightarrow> pyval \<Rightarrow> unit snapshot" where
  "demo_snapshot block updated rows = \<lparr>sn_block = io_return block,
     sn_read = (\<lambda>name _. io_return (if name = ''metagraph'' then demo_metagraph updated
       else if name = ''weights'' then rows else demo_parameters)),
     sn_networks_added = (\<lambda>_. io_return (PBool True)),
     sn_block_info = io_return (PMap [(PStr ''hash'', PStr demo_hash), (PStr ''number'', PInt block)])\<rparr>"

definition demo_client :: "int \<Rightarrow> int \<Rightarrow> pyval \<Rightarrow> unit testnet_client" where
  "demo_client block updated rows = \<lparr>cl_endpoint = io_return TESTNET_ENDPOINT, cl_block = io_return block,
     cl_spec_version = io_return 300, cl_at = (\<lambda>_. io_return (demo_snapshot block updated rows)),
     cl_close = io_return ()\<rparr>"

definition demo_chain :: "int \<Rightarrow> int \<Rightarrow> pyval \<Rightarrow> unit testnet" where
  "demo_chain block updated rows = \<lparr>tn_repr = (\<lambda>_. Inr []), tn_sdk_version = ''10'',
     tn_client = io_return (demo_client block updated rows)\<rparr>"

definition demo_request :: plan_request where
  "demo_request = \<lparr>lq_netuid = 7, lq_validator_hotkey_ss58 = demo_validator,
     lq_score_specs = [demo_miner @ ''='' @ float_repr (Fin 1)], lq_minimum_positive_hotkeys = 1\<rparr>"

definition demo_target :: weight_target where
  "demo_target = \<lparr>tg_hotkey_ss58 = demo_miner, tg_uid = 1, tg_score = Fin 1, tg_planned_weight = Fin 1,
     tg_weight = Fin 1, tg_u16_weight = 65535\<rparr>"

definition demo_row :: "int \<Rightarrow> (int \<times> pyfloat) list \<Rightarrow> weight_readback" where
  "demo_row updated ws = \<lparr>rb_validator_uid = Some 0, rb_validator_permit = True, rb_validator_is_subnet_owner = False,
     rb_weight_setting_authorized = True, rb_last_update = Some updated, rb_weights = ws\<rparr>"

definition demo_operation :: digest_input where
  "demo_operation = \<lparr>di_endpoint = TESTNET_ENDPOINT, di_sdk_version = ''10'', di_netuid = 7, di_block = 1000,
     di_block_hash = demo_hash, di_runtime_spec_version = 300, di_validator_hotkey = demo_validator,
     di_min_allowed_weights = 1, di_max_weights_limit = 65535, di_weights_rate_limit = 100,
     di_commit_reveal_weights_enabled = False, di_commit_reveal_period = 1, di_weights_were_clipped = False,
     di_targets = [demo_target], di_current_readback = demo_row 900 []\<rparr>"

definition open_plan_gates :: weight_plan_gates where
  "open_plan_gates = \<lparr>wg_canonical_endpoint = True, wg_snapshot_pinned = True, wg_subnet_exists = True,
     wg_validator_registered = True, wg_validator_authorized = True, wg_all_targets_registered = True,
     wg_rate_limit_elapsed = True, wg_minimum_recipients_met = True, wg_maximum_weight_limit_met = True\<rparr>"

definition demo_plan :: plan_report where
  "demo_plan = \<lparr>tp_read_only = True, tp_transaction_constructed = False, tp_signature_requested = False,
     tp_network = ''test'', tp_endpoint = TESTNET_ENDPOINT, tp_sdk_version = ''10'', tp_netuid = 7, tp_block = Some 1000,
     tp_block_hash = Some demo_hash, tp_runtime_spec_version = Some 300, tp_validator_hotkey_ss58 = demo_validator,
     tp_min_allowed_weights = Some 1, tp_max_weights_limit = Some 65535, tp_weights_rate_limit = Some 100,
     tp_commit_reveal_weights_enabled = Some False, tp_commit_reveal_period = Some 1, tp_weights_were_clipped = False,
     tp_targets = [demo_target], tp_current_readback = demo_row 900 [], tp_gates = open_plan_gates, tp_ready = True,
     tp_plan_digest = Some (plan_digest demo_operation), tp_next_action = plan_next_action False open_plan_gates,
     tp_limitations = plan_limitations, tp_errors = []\<rparr>"

section \<open>The plan the collector makes of it\<close>

definition demo_proposal :: hotkey_weight_plan where
  "demo_proposal = \<lparr>hp_planned = True, hp_reason = None, hp_hotkeys = [demo_miner], hp_weights = [1]\<rparr>"

lemma float_range_one: "1 < float_bound"
  using normal_one by (simp add: normal_double_def)

lemma demo_arguments: "plan_arguments demo_request = Inr ([(demo_miner, 1)], demo_proposal)"
proof -
  have "parse_public_score [] (demo_miner @ ''='' @ float_repr (Fin 1)) = Inr [(demo_miner, 1)]"
    using split_score [OF demo_addresses(2)] finite_float_text [OF normal_one] demo_addresses(2)
    by (auto simp: parse_public_score_Inr keys_def)
  then have "parse_public_scores [demo_miner @ ''='' @ float_repr (Fin 1)] = Inr [(demo_miner, 1)]"
    using float_range_one by (simp add: parse_public_scores_def dict_values_def fsum_def fl_one)
  then show ?thesis using demo_addresses
    by (simp add: plan_arguments_def demo_request_def test_network validate_public_ss58_def keys_def hotkey_scores_def
        plan_hotkey_weights_def dict_values_def bad_score_def positive_scores_def normalized_weights_def fsum_def
        dbl_div_def float_range_one demo_proposal_def MAX_NETUID_def fl_one)
qed

lemma demo_targets: "plan_targets [(demo_miner, 1)] demo_proposal [demo_validator, demo_miner] True (Some 65535) = Inr ([demo_target], False)"
proof -
  have "dbl 65535 = 65535" by (rule dbl_numeral) simp
  then have "conform_weight_vector [1] 65535 = Inr ([(0, 1, 65535)], False)"
    by (simp add: conform_weight_vector_def clip_to_max_weight_def fsum_def fl_one quantize_def dbl_div_def U16_MAX_def
        enumerate_eq_zip rne_def)
  then show ?thesis using demo_addresses(3)
    by (simp add: plan_targets_def demo_proposal_def make_target_def demo_target_def uid_of_hotkey_def)
qed

lemma demo_hotkeys: "hotkeys_of env (demo_metagraph u) = Inr [demo_validator, demo_miner]"
  using demo_addresses(3) by (auto simp: hotkeys_of_def demo_metagraph_def)

lemma demo_uids: "uid_of_hotkey [demo_validator, demo_miner] demo_validator = Some 0"
  "uid_of_hotkey [demo_validator, demo_miner] demo_miner = Some 1"
  using demo_addresses(3) by (simp_all add: uid_of_hotkey_def)

lemma demo_readback:
  assumes "row_weights (case map_get kvs (PInt 0) of Some r \<Rightarrow> r | None \<Rightarrow> PMap []) = Inr ws" "map_get kvs (PInt 0) = None \<longrightarrow> map_get kvs (PStr ''0'') = None"
  shows "weight_readback_of env (demo_snapshot b u (PMap kvs)) 7 (demo_metagraph u) (Some 0) w = (Inr (demo_row u ws), w)"
proof -
  have "nat_str 0 = ''0''" by code_simp
  then have "rbind (validator_row 0 (PMap kvs)) row_weights = Inr ws"
    using assms by (auto simp: validator_row_def split: option.splits)
  moreover have "optional_int (PInt u) = Inr (Some u)" by (simp add: optional_int_def)
  ultimately show ?thesis
    by (simp add: weight_readback_of_def io_bind_def demo_metagraph_def demo_snapshot_def owns_subnet_def demo_row_def Let_def)
qed

lemma demo_view: "view_chain env (demo_client b u rows) w = (Inr \<lparr>cv_endpoint = TESTNET_ENDPOINT, cv_block = b,
    cv_snapshot = demo_snapshot b u rows, cv_block_hash = demo_hash, cv_pinned = True\<rparr>, w)"
  by (simp add: view_chain_def io_bind_def demo_client_def demo_snapshot_def map_get_def same_key_def optional_int_def)

lemma demo_state:
  "read_plan_state env demo_request [(demo_miner, 1)] demo_proposal (demo_snapshot 1000 900 (PMap [])) w
    = (Inr \<lparr>ps_validator_uid = Some 0, ps_targets = [demo_target], ps_readback = demo_row 900 [], ps_min_allowed = Some 1,
        ps_max_weights_limit = Some 65535, ps_rate_limit = Some 100, ps_commit_reveal = Some False,
        ps_reveal_period = Some 1, ps_weights_were_clipped = False, ps_all_targets_registered = True\<rparr>, w)"
proof -
  have r: "weight_readback_of env (demo_snapshot 1000 900 (PMap [])) 7 (demo_metagraph 900) (Some 0) w = (Inr (demo_row 900 []), w)" for w
    by (rule demo_readback) (simp_all add: map_get_def row_weights_def sort_weights_def)
  have n: "sn_read (demo_snapshot b u rows) ''subnet_hyperparameters'' ps w = (Inr demo_parameters, w)"
    "sn_read (demo_snapshot b u rows) ''metagraph'' ps w = (Inr (demo_metagraph u), w)" for b u rows ps w
    by (simp_all add: demo_snapshot_def)
  have f: "py_field demo_parameters ''min_allowed_weights'' PNone = PInt 1" "py_field demo_parameters ''max_weights_limit'' PNone = PInt 65535"
    "py_field demo_parameters ''weights_rate_limit'' PNone = PInt 100" "py_field demo_parameters ''commit_reveal_period'' PNone = PInt 1"
    "py_field demo_parameters ''commit_reveal_weights_enabled'' PNone = PBool False"
    by (simp_all add: demo_parameters_def map_get_def same_key_def)
  have i: "optional_int (PInt k) = Inr (Some k)" for k by (simp add: optional_int_def)
  have p: "hp_planned demo_proposal" "hp_hotkeys demo_proposal = [demo_miner]" by (simp_all add: demo_proposal_def)
  have q: "lq_netuid demo_request = 7" "lq_validator_hotkey_ss58 demo_request = demo_validator" by (simp_all add: demo_request_def)
  show ?thesis
    unfolding read_plan_state_def Let_def
    by (simp add: io_bind_def n f i p q demo_hotkeys demo_uids demo_targets r)
qed

lemma demo_collected: "collect_testnet_weight_plan (demo_chain 1000 900 (PMap [])) demo_request w = (Inr demo_plan, w)"
proof -
  let ?env = "demo_chain 1000 900 (PMap [])" and ?c = "demo_client 1000 900 (PMap [])"
  have c: "tn_client ?env w = (Inr ?c, w)" "tn_sdk_version ?env = ''10''" for w by (simp_all add: demo_chain_def)
  have d: "testnet_subnet_exists (demo_snapshot b u rows) n w = (Inr True, w)" for b u rows n w
    by (simp add: testnet_subnet_exists_def demo_snapshot_def io_bind_def)
  have v: "cl_spec_version ?c w = (Inr 300, w)" "cl_close ?c w = (Inr (), w)" for w by (simp_all add: demo_client_def)
  have q: "lq_netuid demo_request = 7" "lq_validator_hotkey_ss58 demo_request = demo_validator" by (simp_all add: demo_request_def)
  have e: "view_errors m \<lparr>cv_endpoint = TESTNET_ENDPOINT, cv_block = b, cv_snapshot = sn, cv_block_hash = demo_hash, cv_pinned = True\<rparr> = []" for m b sn
    by (simp add: view_errors_def demo_hash_valid)
  have p: "hp_planned demo_proposal" by (simp add: demo_proposal_def)
  have "rate_limit_elapsed 1000 s" if "ps_rate_limit s = Some 100" "rb_last_update (ps_readback s) = Some 900" for s
    using that by (simp add: rate_limit_elapsed_def)
  then have "plan_body ?env demo_request [(demo_miner, 1)] demo_proposal ?c w = (Inr demo_plan, w)" for w
    unfolding plan_body_def Let_def
    by (simp add: io_bind_def demo_view d demo_state v q c(2) e digest_of_state_def demo_plan_def demo_operation_def
        open_plan_gates_def plan_gates_of_def all_plan_gates_def maximum_weight_limit_met_def demo_hash_valid demo_row_def
        p total_u16_def demo_target_def U16_MAX_def)
  then show ?thesis
    by (simp add: collect_testnet_weight_plan_def io_bind_def demo_arguments with_client_def c v)
qed

section \<open>The plan is valid and a later row confirms it\<close>

lemma demo_validates: "validated_plan_digest demo_plan = Inr (plan_digest demo_operation)"
proof -
  have o: "proposed_operation demo_plan = Some demo_operation"
    by (simp add: proposed_operation_def demo_plan_def demo_operation_def)
  have t: "check_target demo_validator demo_target = Inr ()"
    using demo_addresses by (simp add: check_target_def validate_public_ss58_def demo_target_def positive_finite_def U16_MAX_def)
  have v: "check_vector 65535 [demo_target] = Inr ()"
    by (simp add: check_vector_def demo_target_def target_weight_def total_u16_def U16_MAX_def fsum_def fl_one isclose_def)
  have d: "di_block demo_operation = 1000" "di_block_hash demo_operation = demo_hash" "di_min_allowed_weights demo_operation = 1"
    "di_max_weights_limit demo_operation = 65535" "di_weights_rate_limit demo_operation = 100"
    "di_commit_reveal_period demo_operation = 1" by (simp_all add: demo_operation_def)
  have p: "tp_plan_digest demo_plan = Some (plan_digest demo_operation)" "tp_validator_hotkey_ss58 demo_plan = demo_validator"
    "tp_netuid demo_plan = 7" "tp_targets demo_plan = [demo_target]" "tp_errors demo_plan = []" "tp_ready demo_plan"
    "tp_endpoint demo_plan = TESTNET_ENDPOINT" "tp_network demo_plan = ''test''" "tp_read_only demo_plan"
    "\<not> tp_transaction_constructed demo_plan" "\<not> tp_signature_requested demo_plan" "tp_gates demo_plan = open_plan_gates"
    by (simp_all add: demo_plan_def)
  have g: "all_plan_gates open_plan_gates" by (simp add: all_plan_gates_def open_plan_gates_def)
  show ?thesis
    unfolding validated_plan_digest_def o p option.case prod.case
    using demo_addresses(1) demo_hash_valid(1) g by (simp add: d p t v validate_public_ss58_def U16_MAX_def)
qed

definition demo_later :: "unit testnet" where
  "demo_later = demo_chain 1100 1050 (PMap [(PInt 0, PMap [(PInt 1, PFloat (Fin 1))])])"

lemma demo_verified:
  "\<exists>r. verify_testnet_weight_readback demo_later demo_plan (Fin 1) w = (Inr r, w) \<and> xr_ready r
     \<and> xr_current_readback r = demo_row 1050 [(1, Fin 1)]"
proof -
  let ?rows = "[(PInt 0, PMap [(PInt 1, PFloat (Fin 1))])]"
  let ?c = "demo_client 1100 1050 (PMap ?rows)" and ?s = "demo_snapshot 1100 1050 (PMap ?rows)"
  have c: "tn_client demo_later w = (Inr ?c, w)" "tn_sdk_version demo_later = ''10''" for w
    by (simp_all add: demo_later_def demo_chain_def)
  have d: "testnet_subnet_exists (demo_snapshot b u rows) n w = (Inr True, w)" for b u rows n w
    by (simp add: testnet_subnet_exists_def demo_snapshot_def io_bind_def)
  have v: "cl_spec_version ?c w = (Inr 300, w)" "cl_close ?c w = (Inr (), w)" for w by (simp_all add: demo_client_def)
  have e: "view_errors m \<lparr>cv_endpoint = TESTNET_ENDPOINT, cv_block = b, cv_snapshot = sn, cv_block_hash = demo_hash, cv_pinned = True\<rparr> = []" for m b sn
    by (simp add: view_errors_def demo_hash_valid)
  have i: "optional_int (PInt k) = Inr (Some k)" for k by (simp add: optional_int_def)
  have n: "sn_read ?s ''metagraph'' ps w = (Inr (demo_metagraph 1050), w)" for ps w by (simp add: demo_snapshot_def)
  have r: "weight_readback_of env ?s 7 (demo_metagraph 1050) (Some 0) w = (Inr (demo_row 1050 [(1, Fin 1)]), w)" for env w
    by (rule demo_readback) (simp_all add: map_get_def same_key_def row_weights_def weight_entry_def i finite_float_def sort_weights_def)
  have p: "tp_netuid demo_plan = 7" "tp_validator_hotkey_ss58 demo_plan = demo_validator" "tp_targets demo_plan = [demo_target]"
    "tp_current_readback demo_plan = demo_row 900 []" "tp_block demo_plan = Some 1000" by (simp_all add: demo_plan_def)
  have t: "tg_hotkey_ss58 demo_target = demo_miner" "tg_uid demo_target = 1" "tg_weight demo_target = Fin 1"
    by (simp_all add: demo_target_def)
  have m: "compare_target (demo_row u [(1, Fin 1)]) (Fin 1) demo_target = \<lparr>wc_uid = 1, wc_hotkey_ss58 = demo_miner, wc_expected = Fin 1,
      wc_observed = Some (Fin 1), wc_absolute_error = Some (Fin 0), wc_matches = True\<rparr>" for u
    by (simp add: compare_target_def observed_weight_def demo_row_def t float_le_def Let_def)
  have rows: "rb_weights (demo_row u ws) = ws" "rb_validator_uid (demo_row u ws) = Some 0" "rb_weight_setting_authorized (demo_row u ws)"
    "rb_last_update (demo_row u ws) = Some u" for u ws by (simp_all add: demo_row_def)
  have s: "read_readback_state demo_later demo_plan (Fin 1) ?s w = (Inr \<lparr>rt_validator_uid_stable = True, rt_target_uids_stable = True,
      rt_readback = demo_row 1050 [(1, Fin 1)], rt_comparisons = [compare_target (demo_row 1050 [(1, Fin 1)]) (Fin 1) demo_target],
      rt_recipient_set_matches = True, rt_weight_values_match = True\<rparr>, w)" for w
    unfolding read_readback_state_def Let_def
    by (simp add: io_bind_def n p demo_hotkeys demo_uids r t m rows)
  have b: "\<exists>x. readback_body demo_later demo_plan (Fin 1) 1000 digest ?c w = (Inr x, w) \<and> xr_ready x
      \<and> xr_current_readback x = demo_row 1050 [(1, Fin 1)]" for digest w
    unfolding readback_body_def Let_def
    by (simp add: io_bind_def demo_view d p s v e c(2) readback_gates_of_def all_readback_gates_def rows)
  then obtain x where x: "readback_body demo_later demo_plan (Fin 1) 1000 (the (tp_plan_digest demo_plan)) ?c w = (Inr x, w)" "xr_ready x"
    "xr_current_readback x = demo_row 1050 [(1, Fin 1)]" by blast
  have "verify_testnet_weight_readback demo_later demo_plan (Fin 1) w = (Inr x, w)"
    using x(1) by (simp add: verify_testnet_weight_readback_def io_bind_def demo_validates positive_finite_def Let_def p(5)
        with_client_def c v)
  with x(2,3) show ?thesis by blast
qed

lemma demo_operation_fields: "proposed_operation demo_plan = Some demo_operation" "tp_targets demo_plan = [demo_target]"
  by (simp_all add: proposed_operation_def demo_plan_def demo_operation_def)

end
