(* ===== verification/Testnet_Properties.thy ===== *)
theory Testnet_Properties
  imports Testnet_Samples
begin

text \<open>
  Properties of the testnet path: what a submission proves, what a ready plan is worth, what the
  plan digest binds, what a readback confirms, and how the read-only collectors fail.
\<close>

section \<open>Validated plans\<close>

lemma rfold_unit_list_all: "rfold (\<lambda>_. f) () xs = Inr () \<longleftrightarrow> list_all (\<lambda>x. f x = Inr ()) xs"
  by (induction xs) auto

lemma validated_plan_facts:
  assumes "validated_plan_digest r = Inr d"
  obtains op where "proposed_operation r = Some op" "tp_plan_digest r = Some d" "d = plan_digest op"
    "tp_endpoint r = TESTNET_ENDPOINT" "tp_network r = ''test''" "tp_errors r = []" "tp_ready r"
    "all_plan_gates (tp_gates r)" "list_all (\<lambda>t. check_target (tp_validator_hotkey_ss58 r) t = Inr ()) (tp_targets r)"
    "check_vector (di_max_weights_limit op) (tp_targets r) = Inr ()" "0 \<le> tp_netuid r" "0 \<le> di_block op"
    "valid_block_hash (di_block_hash op)" "valid_ss58 (tp_validator_hotkey_ss58 r)"
    "0 < di_max_weights_limit op" "di_max_weights_limit op \<le> U16_MAX"
proof -
  obtain op digest where o: "proposed_operation r = Some op" "tp_plan_digest r = Some digest"
    using assms by (auto simp: validated_plan_digest_def split: option.splits)
  note v = assms [unfolded validated_plan_digest_def o option.case prod.case rbind_eq_Inr rcheck_Inr]
  show thesis
    by (rule that [of op]) (use o v in \<open>simp_all add: validate_public_ss58_def rfold_unit_list_all not_less split: if_splits\<close>)
qed

lemma validated_uids_distinct: "validated_plan_digest r = Inr d \<Longrightarrow> distinct (map tg_uid (tp_targets r))"
  by (erule validated_plan_facts) (simp add: check_vector_def rbind_eq_Inr)

lemma proposed_operation_fields:
  assumes "proposed_operation r = Some op"
  shows "tp_block r = Some (di_block op)" "tp_block_hash r = Some (di_block_hash op)"
    "tp_runtime_spec_version r = Some (di_runtime_spec_version op)" "tp_targets r = di_targets op" "tp_targets r \<noteq> []"
    "tp_netuid r = di_netuid op" "tp_current_readback r = di_current_readback op" "tp_sdk_version r = di_sdk_version op"
    "tp_validator_hotkey_ss58 r = di_validator_hotkey op" "tp_endpoint r = di_endpoint op"
    "tp_max_weights_limit r = Some (di_max_weights_limit op)"
  using assms by (auto simp: proposed_operation_def split: option.splits if_splits)

text \<open>The dictionary handed to the SDK is the targets' UIDs with their 16-bit weights.\<close>

lemma submitted_weights_distinct:
  assumes "distinct (map tg_uid ts)"
  shows "submitted_weights ts = map (\<lambda>t. (tg_uid t, tg_u16_weight t)) ts"
  using assms
proof (induction ts rule: rev_induct)
  case (snoc t ts)
  then have "tg_uid t \<notin> set (keys (submitted_weights ts))" by (auto simp: keys_def)
  then have "AList.update (tg_uid t) (tg_u16_weight t) (submitted_weights ts) = submitted_weights ts @ [(tg_uid t, tg_u16_weight t)]"
    by (rule update_new_key)
  then show ?case using snoc by (simp add: submitted_weights_def)
qed (simp add: submitted_weights_def)

text \<open>A vector the chain accepts: distinct UIDs, 16-bit weights, no share above the limit.\<close>

definition vector_fits :: "int \<Rightarrow> (int, int) dict \<Rightarrow> bool" where
  "vector_fits limit ws \<longleftrightarrow> ws \<noteq> [] \<and> distinct (map fst ws)
     \<and> list_all (\<lambda>(u, v). 0 \<le> u \<and> 0 < v \<and> v \<le> U16_MAX \<and> v * U16_MAX \<le> limit * sum_list (map snd ws)) ws"

lemma validated_vector_fits:
  assumes "validated_plan_digest r = Inr d"
  shows "vector_fits (the (tp_max_weights_limit r)) (submitted_weights (tp_targets r))"
proof -
  obtain op where o: "proposed_operation r = Some op" "list_all (\<lambda>t. check_target (tp_validator_hotkey_ss58 r) t = Inr ()) (tp_targets r)"
    "check_vector (di_max_weights_limit op) (tp_targets r) = Inr ()"
    by (rule validated_plan_facts [OF assms]) (rule that)
  note f = proposed_operation_fields [OF o(1)]
  have v: "distinct (map tg_uid (tp_targets r))"
    "Max (set (map tg_u16_weight (tp_targets r))) * U16_MAX \<le> di_max_weights_limit op * total_u16 (tp_targets r)"
    using o(3) by (auto simp: check_vector_def rbind_eq_Inr)
  have "tg_u16_weight t * U16_MAX \<le> di_max_weights_limit op * total_u16 (tp_targets r)" if "t \<in> set (tp_targets r)" for t
  proof -
    have "tg_u16_weight t \<le> Max (set (map tg_u16_weight (tp_targets r)))" using that by simp
    then have "tg_u16_weight t * U16_MAX \<le> Max (set (map tg_u16_weight (tp_targets r))) * U16_MAX"
      by (rule mult_right_mono) (simp add: U16_MAX_def)
    with v(2) show ?thesis by (rule order_trans [rotated])
  qed
  then show ?thesis
    using o(2) f(5,11) v(1)
    by (auto simp: vector_fits_def submitted_weights_distinct [OF v(1)] list_all_iff check_target_def rbind_eq_Inr
        total_u16_def comp_def)
qed

section \<open>Submission\<close>

lemma authorize_submission_Inr:
  "authorize_submission source q = Inr digest \<longleftrightarrow> validated_plan_digest source = Inr digest
     \<and> sq_authorize_plan_digest q = digest \<and> sq_wallet_alias q = WALLET_ALIAS
     \<and> valid_validator_alias (sq_hotkey_alias q) \<and> 1 \<le> sq_max_plan_age_blocks q \<and> sq_max_plan_age_blocks q \<le> 24"
  by (auto simp: authorize_submission_def rbind_eq_Inr test_network)

lemma target_fingerprint_inject: "target_fingerprint ts = target_fingerprint us \<longleftrightarrow> ts = us"
proof -
  have "inj (\<lambda>t :: weight_target. (tg_hotkey_ss58 t, tg_uid t, tg_score t, tg_planned_weight t, tg_weight t, tg_u16_weight t))"
  proof (rule injI)
    fix x y :: weight_target
    assume "(tg_hotkey_ss58 x, tg_uid x, tg_score x, tg_planned_weight x, tg_weight x, tg_u16_weight x)
      = (tg_hotkey_ss58 y, tg_uid y, tg_score y, tg_planned_weight y, tg_weight y, tg_u16_weight y)"
    then show "x = y" by (cases x; cases y) simp
  qed
  then show ?thesis by (simp add: target_fingerprint_def inj_map_eq_map)
qed

definition fresh_for :: "plan_report \<Rightarrow> int \<Rightarrow> plan_report \<Rightarrow> bool" where
  "fresh_for source max_age fresh \<longleftrightarrow> tp_ready fresh \<and> tp_errors fresh = [] \<and> same_chain_state source fresh
     \<and> tp_targets fresh = tp_targets source
     \<and> (case (tp_block source, tp_block fresh) of (Some b, Some b') \<Rightarrow> b \<le> b' \<and> b' - b \<le> max_age | _ \<Rightarrow> False)"

lemma require_fresh_iff: "require_fresh_equivalent_plan source fresh n = Inr () \<longleftrightarrow> fresh_for source n fresh"
  by (auto simp: require_fresh_equivalent_plan_def fresh_for_def rbind_eq_Inr target_fingerprint_inject Let_def
      split: option.splits)

text \<open>What has happened when the SDK is called, and with which arguments.\<close>

lemma prepare_submission_Inr:
  assumes "prepare_submission env source q w = (Inr (digest, wallet, coordinates), u1)"
  obtains fresh u0 where "validated_plan_digest source = Inr digest" "sq_authorize_plan_digest q = digest"
    "sq_max_plan_age_blocks q \<le> 24" "se_wallet_factory env WALLET_ALIAS (sq_hotkey_alias q) w = (Inr wallet, u0)"
    "se_ss58_address env wallet = tp_validator_hotkey_ss58 source"
    "se_plan_collector env (refresh_request source) u0 = (Inr fresh, u1)" "fresh_for source (sq_max_plan_age_blocks q) fresh"
proof -
  from assms obtain fresh u0 where p: "authorize_submission source q = Inr digest"
    "se_wallet_factory env (sq_wallet_alias q) (sq_hotkey_alias q) w = (Inr wallet, u0)"
    "se_ss58_address env wallet = tp_validator_hotkey_ss58 source"
    "se_plan_collector env (refresh_request source) u0 = (Inr fresh, u1)"
    "require_fresh_equivalent_plan source fresh (sq_max_plan_age_blocks q) = Inr ()"
    unfolding prepare_submission_def by (auto simp: io_bind_Inr split: if_splits prod.splits)
  from p(1,2) show thesis
    by (intro that [of u0 fresh]) (use p(3-5) in \<open>simp_all add: authorize_submission_Inr require_fresh_iff\<close>)
qed

text \<open>When the preparation fails, at most the wallet factory and then the collector have run.\<close>

lemma prepare_submission_Inl:
  assumes "prepare_submission env source q w = (Inl e, w')"
  shows "w' = w \<or> w' = snd (se_wallet_factory env WALLET_ALIAS (sq_hotkey_alias q) w)
    \<or> w' = snd (se_plan_collector env (refresh_request source) (snd (se_wallet_factory env WALLET_ALIAS (sq_hotkey_alias q) w)))"
proof (cases "authorize_submission source q")
  case (Inr digest)
  obtain wallet u0 where f: "se_wallet_factory env WALLET_ALIAS (sq_hotkey_alias q) w = (wallet, u0)" by fastforce
  obtain fresh u1 where c: "se_plan_collector env (refresh_request source) u0 = (fresh, u1)" by fastforce
  have a: "sq_wallet_alias q = WALLET_ALIAS" using Inr by (simp add: authorize_submission_Inr)
  show ?thesis
    using assms unfolding prepare_submission_def by (auto simp: io_bind_def a f c Inr split: sum.splits if_splits prod.splits)
qed (use assms in \<open>simp add: prepare_submission_def io_bind_def\<close>)

text \<open>After a call of the SDK that returned, only the clock is read, and only after a success.\<close>

lemma submit_after_call:
  assumes "submit_testnet_weight_plan env source q w = (r, w')" "prepare_submission env source q w = (p, u1)"
    and "p = Inr c" "c = (digest, wallet, coordinates)"
    and "se_submitter env (tp_netuid source) (submitted_weights (tp_targets source)) wallet u1 = (result, u2)"
    and "result = Inr x"
  shows "case r of
      Inl e \<Rightarrow> (if er_success x then w' = u2 \<or> w' = snd (se_clock env u2)
         else w' = u2 \<and> e = RuntimeError ''Bittensor SDK reported an unsuccessful testnet submission'')
    | Inr receipt \<Rightarrow> er_success x \<and> w' = snd (se_clock env u2)
         \<and> (\<exists>fee rr now. receipt = make_receipt source q digest coordinates x fee rr now)"
proof -
  have "(if \<not> er_success x then io_raise (RuntimeError ''Bittensor SDK reported an unsuccessful testnet submission'') else
     io_bind (io_lift (reveal_round_of (er_data x))) (\<lambda>reveal_round.
     io_bind (io_lift (fee_tao (se_repr env) (er_fee x))) (\<lambda>fee.
     io_bind (se_clock env) (\<lambda>now.
     io_return (make_receipt source q digest coordinates x fee reveal_round now))))) u2 = (r, w')"
    using assms(1) unfolding submit_testnet_weight_plan_def io_bind_def [of "prepare_submission env source q"]
      assms(2-4) prod.case sum.case io_bind_def [of "se_submitter _ _ _ _"] assms(5,6) .
  then show ?thesis by (auto simp: io_bind_def split: if_splits sum.splits prod.splits)
qed

text \<open>C15: The chain is called at most once and only under authorization. Either the submission raises
  before the SDK call, with the world as it was, or as the wallet factory, or the plan collector
  after it, left it; or all of this holds: the saved plan validates and has the authorized
  digest; the wallet's hotkey is the plan's validator; a plan collected after the wallet was
  opened is ready, at most the permitted number of blocks (never more than 24) younger, and
  equal in chain state and targets; the SDK is called in the world the collector left, with the
  plan's vector, whose UIDs are distinct and whose 16-bit weights do not exceed the subnet's
  share limit; and the submission ends in the world that one call left, except that after a
  success the clock is read once. An error of the SDK is passed on, an unsuccessful result is
  reported as the error it is, and a receipt is only given for a success.\<close>

theorem submission_is_authorized:
  "case submit_testnet_weight_plan env source q w of (r, w') \<Rightarrow>
     (\<exists>e. r = Inl e \<and> (let opened = snd (se_wallet_factory env WALLET_ALIAS (sq_hotkey_alias q) w) in
        w' = w \<or> w' = opened \<or> w' = snd (se_plan_collector env (refresh_request source) opened)))
     \<or> (\<exists>wallet fresh u0 u1 u2 result.
          validated_plan_digest source = Inr (sq_authorize_plan_digest q)
        \<and> se_wallet_factory env WALLET_ALIAS (sq_hotkey_alias q) w = (Inr wallet, u0)
        \<and> se_ss58_address env wallet = tp_validator_hotkey_ss58 source
        \<and> se_plan_collector env (refresh_request source) u0 = (Inr fresh, u1)
        \<and> fresh_for source (min 24 (sq_max_plan_age_blocks q)) fresh
        \<and> se_submitter env (tp_netuid source) (submitted_weights (tp_targets source)) wallet u1 = (result, u2)
        \<and> vector_fits (the (tp_max_weights_limit source)) (submitted_weights (tp_targets source))
        \<and> (case (result, r) of
             (Inl e, _) \<Rightarrow> r = Inl e \<and> w' = u2
           | (Inr x, Inl e) \<Rightarrow> (if er_success x then w' = u2 \<or> w' = snd (se_clock env u2)
               else w' = u2 \<and> e = RuntimeError ''Bittensor SDK reported an unsuccessful testnet submission'')
           | (Inr x, Inr receipt) \<Rightarrow> er_success x \<and> w' = snd (se_clock env u2)
               \<and> sr_source_plan_digest receipt = sq_authorize_plan_digest q
               \<and> map (\<lambda>t. (su_uid t, su_u16_weight t)) (sr_submitted_targets receipt) = submitted_weights (tp_targets source)))"
proof (cases "prepare_submission env source q w")
  case (Pair p u1)
  obtain r w' where s: "submit_testnet_weight_plan env source q w = (r, w')" by fastforce
  show ?thesis
  proof (cases p)
    case (Inl e)
    then have "r = Inl e" "w' = u1" using s Pair by (simp_all add: submit_testnet_weight_plan_def io_bind_def)
    then show ?thesis
      unfolding s prod.case Let_def using prepare_submission_Inl [OF Pair [unfolded Inl]] by blast
  next
    case (Inr c)
    obtain digest wallet coordinates where c: "c = (digest, wallet, coordinates)" by (cases c)
    obtain fresh u0 where f: "validated_plan_digest source = Inr digest" "sq_authorize_plan_digest q = digest"
      "sq_max_plan_age_blocks q \<le> 24" "se_wallet_factory env WALLET_ALIAS (sq_hotkey_alias q) w = (Inr wallet, u0)"
      "se_ss58_address env wallet = tp_validator_hotkey_ss58 source"
      "se_plan_collector env (refresh_request source) u0 = (Inr fresh, u1)" "fresh_for source (sq_max_plan_age_blocks q) fresh"
      by (rule prepare_submission_Inr [OF Pair [unfolded Inr c]]) (rule that)
    obtain result u2 where sub: "se_submitter env (tp_netuid source) (submitted_weights (tp_targets source)) wallet u1 = (result, u2)"
      by fastforce
    have ws: "map (\<lambda>t. (su_uid t, su_u16_weight t)) (sr_submitted_targets (make_receipt source q digest coordinates x fee rr now))
        = submitted_weights (tp_targets source)"
      "sr_source_plan_digest (make_receipt source q digest coordinates x fee rr now) = digest" for x fee rr now
    proof -
      have "distinct (map tg_uid (tp_targets source))" by (rule validated_uids_distinct [OF f(1)])
      then show "map (\<lambda>t. (su_uid t, su_u16_weight t)) (sr_submitted_targets (make_receipt source q digest coordinates x fee rr now))
        = submitted_weights (tp_targets source)"
        "sr_source_plan_digest (make_receipt source q digest coordinates x fee rr now) = digest"
        by (simp_all add: submitted_weights_distinct make_receipt_def comp_def split: prod.splits)
    qed
    have tail: "case (result, r) of (Inl e, _) \<Rightarrow> r = Inl e \<and> w' = u2
        | (Inr x, Inl e) \<Rightarrow> (if er_success x then w' = u2 \<or> w' = snd (se_clock env u2)
            else w' = u2 \<and> e = RuntimeError ''Bittensor SDK reported an unsuccessful testnet submission'')
        | (Inr x, Inr receipt) \<Rightarrow> er_success x \<and> w' = snd (se_clock env u2)
            \<and> sr_source_plan_digest receipt = sq_authorize_plan_digest q
            \<and> map (\<lambda>t. (su_uid t, su_u16_weight t)) (sr_submitted_targets receipt) = submitted_weights (tp_targets source)"
    proof (cases result)
      case (Inl e)
      then show ?thesis using s Pair \<open>p = Inr c\<close> c sub by (simp add: submit_testnet_weight_plan_def io_bind_def)
    next
      case (Inr x)
      from submit_after_call [OF s Pair \<open>p = Inr c\<close> c sub Inr] show ?thesis
        using ws f(2) Inr by (cases r) auto
    qed
    have fr: "fresh_for source (min 24 (sq_max_plan_age_blocks q)) fresh" using f(3,7) by (simp add: min_absorb2)
    have v: "validated_plan_digest source = Inr (sq_authorize_plan_digest q)" using f(1,2) by simp
    show ?thesis
      unfolding s prod.case
      by (intro disjI2 exI conjI) (rule v f(4) f(5) f(6) fr sub validated_vector_fits [OF f(1)] tail [unfolded prod.case])+
  qed
qed

section \<open>The digest\<close>

lemma sort_keys_target_inject:
  assumes "sort_keys (jval_of_target t) = sort_keys (jval_of_target u)"
  shows "t = (u :: weight_target)"
proof -
  have "tg_hotkey_ss58 t = tg_hotkey_ss58 u \<and> tg_uid t = tg_uid u \<and> tg_score t = tg_score u
    \<and> tg_planned_weight t = tg_planned_weight u \<and> tg_weight t = tg_weight u \<and> tg_u16_weight t = tg_u16_weight u"
    using sort_keys_obj [OF _ _ assms [unfolded jval_of_target_def]] by simp
  then show ?thesis by (cases t; cases u) simp
qed

lemma vopt_int_inject: "sort_keys (vopt_int x) = sort_keys (vopt_int y) \<longleftrightarrow> x = y"
  by (cases x; cases y) (simp_all add: vopt_int_def)

lemma sort_keys_readback_inject:
  assumes "sort_keys (jval_of_readback r) = sort_keys (jval_of_readback s)"
  shows "r = (s :: weight_readback)"
proof -
  have weights: "map (sort_keys \<circ> (\<lambda>(u, w). VArr [VInt u, VFloat w])) xs = map (sort_keys \<circ> (\<lambda>(u, w). VArr [VInt u, VFloat w])) ys
      \<Longrightarrow> xs = ys" for xs ys
    by (rule map_injective) (auto simp: inj_def)
  have "rb_validator_uid r = rb_validator_uid s \<and> rb_validator_permit r = rb_validator_permit s
    \<and> rb_validator_is_subnet_owner r = rb_validator_is_subnet_owner s
    \<and> rb_weight_setting_authorized r = rb_weight_setting_authorized s \<and> rb_last_update r = rb_last_update s
    \<and> rb_weights r = rb_weights s"
    using sort_keys_obj [OF _ _ assms [unfolded jval_of_readback_def]] weights
    by (simp add: vopt_int_inject)
  then show ?thesis by (cases r; cases s) simp
qed

lemma digest_payload_inject:
  assumes "sort_keys (digest_payload d) = sort_keys (digest_payload e)"
  shows "d = (e :: digest_input)"
proof -
  have targets: "map (sort_keys \<circ> jval_of_target) xs = map (sort_keys \<circ> jval_of_target) ys \<Longrightarrow> xs = ys"
    for xs ys :: "weight_target list"
    by (rule map_injective) (auto simp: inj_def dest: sort_keys_target_inject)
  have "di_endpoint d = di_endpoint e \<and> di_sdk_version d = di_sdk_version e \<and> di_netuid d = di_netuid e
    \<and> di_block d = di_block e \<and> di_block_hash d = di_block_hash e \<and> di_runtime_spec_version d = di_runtime_spec_version e
    \<and> di_validator_hotkey d = di_validator_hotkey e \<and> di_min_allowed_weights d = di_min_allowed_weights e
    \<and> di_max_weights_limit d = di_max_weights_limit e \<and> di_weights_rate_limit d = di_weights_rate_limit e
    \<and> di_commit_reveal_weights_enabled d = di_commit_reveal_weights_enabled e
    \<and> di_commit_reveal_period d = di_commit_reveal_period e
    \<and> di_weights_were_clipped d = di_weights_were_clipped e \<and> di_targets d = di_targets e
    \<and> di_current_readback d = di_current_readback e"
    using sort_keys_obj [OF _ _ assms [unfolded digest_payload_def]] targets
    by (simp add: sort_keys_readback_inject)
  then show ?thesis by (cases d; cases e) simp
qed

text \<open>Plans whose texts are ASCII and whose floats are zero or inside the normal range.\<close>

definition digest_safe :: "digest_input \<Rightarrow> bool" where
  "digest_safe d \<longleftrightarrow> is_ascii (di_sdk_version d) \<and> is_ascii (di_block_hash d)
     \<and> list_all (\<lambda>t. float_ok (tg_score t) \<and> float_ok (tg_planned_weight t) \<and> float_ok (tg_weight t)) (di_targets d)
     \<and> list_all (\<lambda>(_, w). float_ok w) (rb_weights (di_current_readback d))"

lemma ascii_const: "list_all (\<lambda>c. (of_char c :: nat) < 128) s \<Longrightarrow> is_ascii s"
  by (simp add: is_ascii_def list_all_iff)

lemma digest_payload_ok:
  assumes "digest_safe d" "is_ascii (di_endpoint d)" "is_ascii (di_validator_hotkey d)"
    "list_all (\<lambda>t. is_ascii (tg_hotkey_ss58 t)) (di_targets d)"
  shows "jval_ok (digest_payload d)"
proof -
  have t: "jval_ok (jval_of_target t)" if "t \<in> set (di_targets d)" for t
    using assms(1,4) that by (auto simp: jval_of_target_def digest_safe_def list_all_iff intro!: ascii_const)
  have "list_all jval_ok (map (\<lambda>(u, w). VArr [VInt u, VFloat w]) (rb_weights (di_current_readback d)))"
    using assms(1) by (auto simp: digest_safe_def list_all_iff)
  then have "jval_ok (jval_of_readback (di_current_readback d))"
    by (auto simp: jval_of_readback_def vopt_int_def intro!: ascii_const split: option.splits)
  moreover have "is_ascii WEIGHT_PLAN_SCHEMA" "is_ascii ''test''"
    by (rule ascii_const, simp add: WEIGHT_PLAN_SCHEMA_def)+
  moreover have "list_all (\<lambda>k. is_ascii k) (map fst kvs)" if "digest_payload d = VObj kvs" for kvs
    using that by (auto simp: digest_payload_def intro!: ascii_const)
  ultimately show ?thesis
    using assms t by (auto simp: digest_payload_def digest_safe_def list_all_iff intro!: ascii_const)
qed

text \<open>C38: The authorized digest fixes the operation. For saved plans whose SDK version and block hash are
  ASCII and whose weights, planned weights, scores and readback weights are each zero or inside
  the normal range of doubles (validation itself checks none of this), two plans that validate
  under one digest propose the same operation, that is the same subnet, validator, chain snapshot, parameters,
  readback and targets with their UIDs and 16-bit weights, unless the canonical texts collide
  under SHA-256.\<close>

theorem plan_digest_binds:
  assumes "validated_plan_digest r = Inr d" "validated_plan_digest s = Inr d"
    and "proposed_operation r = Some a" "proposed_operation s = Some b" "digest_safe a" "digest_safe b"
  shows "a = b \<or> sha256_collision (dumps (digest_payload a)) (dumps (digest_payload b))"
proof -
  have ok: "jval_ok (digest_payload op) \<and> plan_digest op = d"
    if v: "validated_plan_digest p = Inr d" "proposed_operation p = Some op" "digest_safe op" for p op
    using v(1)
  proof (rule validated_plan_facts)
    note f = proposed_operation_fields [OF v(2)]
    fix op'
    assume a: "proposed_operation p = Some op'" "d = plan_digest op'" "tp_endpoint p = TESTNET_ENDPOINT"
      "list_all (\<lambda>t. check_target (tp_validator_hotkey_ss58 p) t = Inr ()) (tp_targets p)" "valid_ss58 (tp_validator_hotkey_ss58 p)"
    have ascii: "is_ascii x" if "valid_ss58 x" for x
      using base58_ascii [OF conjunct2 [OF valid_ss58_facts [OF that]]] that
      by (cases x) (auto simp: valid_ss58_def)
    have "list_all (\<lambda>t. is_ascii (tg_hotkey_ss58 t)) (di_targets op)"
      using a(4) f(4) ascii by (auto simp: list_all_iff check_target_def rbind_eq_Inr validate_public_ss58_def split: if_splits)
    moreover have "is_ascii (di_endpoint op)" using a(3) f(10) by (auto simp: TESTNET_ENDPOINT_def intro!: ascii_const)
    moreover have "is_ascii (di_validator_hotkey op)" using a(5) f(9) ascii by simp
    ultimately show "jval_ok (digest_payload op) \<and> plan_digest op = d"
      using digest_payload_ok [OF v(3)] a(1,2) v(2) by simp
  qed
  note ra = ok [OF assms(1,3,5)] and sb = ok [OF assms(2,4,6)]
  have "plan_digest a = plan_digest b" using ra sb by simp
  then have "sha256 (dumps (digest_payload a)) = sha256 (dumps (digest_payload b))"
    by (simp add: plan_digest_def sha256_hex_inject)
  then have "dumps (digest_payload a) = dumps (digest_payload b)
      \<or> sha256_collision (dumps (digest_payload a)) (dumps (digest_payload b))"
    by (rule sha256_eq_or_collision)
  then show ?thesis using dumps_inject ra sb digest_payload_inject by blast
qed

lemma demo_digest_safe: "digest_safe demo_operation"
proof -
  have "is_ascii (di_sdk_version demo_operation)" "is_ascii (di_block_hash demo_operation)"
    by (auto simp: demo_operation_def demo_hash_def list_all_iff intro!: ascii_const)
  then show ?thesis using normal_one by (simp add: digest_safe_def demo_operation_def demo_target_def demo_row_def)
qed

theorem plan_digest_binds_witness:
  "validated_plan_digest demo_plan = Inr (plan_digest demo_operation) \<and> proposed_operation demo_plan = Some demo_operation
    \<and> (demo_operation = demo_operation
        \<or> sha256_collision (dumps (digest_payload demo_operation)) (dumps (digest_payload demo_operation)))"
  using plan_digest_binds [OF demo_validates demo_validates demo_operation_fields(1) demo_operation_fields(1)
      demo_digest_safe demo_digest_safe] demo_operation_fields(1) demo_validates by blast

section \<open>Collectors\<close>

definition stable_version :: "'w testnet \<Rightarrow> bool" where
  "stable_version env \<longleftrightarrow> (\<forall>client w w'. tn_client env w = (Inr client, w') \<longrightarrow> stable (cl_spec_version client))"

text \<open>C16: The collector and the validator agree. On a chain whose runtime version is the same at every
  read of one client, whenever a collected plan is ready and its block, minimum, rate limit,
  commit-reveal flag and reveal period are present and not negative, the plan has a digest and
  passes the validation of saved plans with it exactly when no target's planned weight has
  underflowed to zero. So the targets, after clipping, 16-bit quantization, resolution to UIDs
  and sorting, are distinct miners other than the validator with normalized weights that match
  their 16-bit vector, none above the subnet's limit; the one thing readiness does not check is
  that the quotient of a score by the total of the scores is still positive.\<close>

theorem ready_plan_validates:
  assumes "stable_version env" "collect_testnet_weight_plan env q w = (Inr r, w')" "tp_ready r" "complete_parameters r"
  shows "\<exists>d. tp_plan_digest r = Some d \<and>
    (validated_plan_digest r = Inr d \<longleftrightarrow> list_all (\<lambda>t. tg_planned_weight t \<noteq> Fin 0) (tp_targets r))"
proof -
  obtain scores p where a: "plan_arguments q = Inr (scores, p)"
    and c: "with_client (tn_client env) cl_close (plan_body env q scores p) (plan_failure env q) w = (Inr r, w')"
    using assms(2) by (auto simp: collect_testnet_weight_plan_def io_bind_Inr)
  have no: "\<not> tp_ready (plan_failure env q e)" for e by (simp add: plan_failure_def)
  from c consider e where "r = plan_failure env q e"
    | client w1 x w2 where "tn_client env w = (Inr client, w1)" "plan_body env q scores p client w1 = (x, w2)"
      "r = (case x of Inl e \<Rightarrow> plan_failure env q e | Inr y \<Rightarrow> y)"
    unfolding with_client_Inr by blast
  then show ?thesis
  proof cases
    case (2 client w1 x w2)
    then have x: "x = Inr r" using assms(3) no by (cases x) auto
    have "stable (cl_spec_version client)" using assms(1) 2(1) by (auto simp: stable_version_def)
    note b = ready_body_validates [OF a this 2(2) [unfolded x] assms(3,4)]
    have pos: "planned_positive t" if "check_target v t = Inr ()" for t v
      using that by (cases "tg_planned_weight t") (auto simp: check_target_def rbind_eq_Inr planned_positive_def positive_finite_def)
    have "list_all planned_positive (tp_targets r)" if "validated_plan_digest r = Inr d" for d
      using that
    proof (rule validated_plan_facts)
      assume "list_all (\<lambda>t. check_target (tp_validator_hotkey_ss58 r) t = Inr ()) (tp_targets r)"
      then show ?thesis using pos by (auto simp: list_all_iff)
    qed
    with b show ?thesis by (auto simp: planned_positive_def [abs_def])
  qed (use assms(3) no in simp)
qed

theorem ready_plan_validates_witness:
  "\<exists>r d. collect_testnet_weight_plan (demo_chain 1000 900 (PMap [])) demo_request () = (Inr r, ()) \<and> tp_ready r
     \<and> tp_plan_digest r = Some d \<and> validated_plan_digest r = Inr d"
proof -
  have s: "stable_version (demo_chain 1000 900 (PMap []))"
    by (simp add: stable_version_def demo_chain_def demo_client_def stable_def)
  have r: "tp_ready demo_plan" "complete_parameters demo_plan" "list_all (\<lambda>t. tg_planned_weight t \<noteq> Fin 0) (tp_targets demo_plan)"
    by (simp_all add: demo_plan_def complete_parameters_def natural_iff demo_target_def)
  show ?thesis using ready_plan_validates [OF s demo_collected r(1,2)] demo_collected r(1,3) by blast
qed

text \<open>Saved scores survive the refresh: the score arguments built from a validated plan with
  \<open>repr\<close> parse back to exactly the targets' hotkeys and scores, so the fresh plan is computed
  from the authorized scores and not from rounded ones.\<close>

theorem refreshed_scores_are_exact:
  assumes "validated_plan_digest r = Inr d" "list_all (\<lambda>t. normal_double (float_val (tg_score t))) (tp_targets r)"
    and "fsum (map (\<lambda>t. float_val (tg_score t)) (tp_targets r)) < float_bound"
  shows "parse_public_scores (lq_score_specs (refresh_request r))
    = Inr (map (\<lambda>t. (tg_hotkey_ss58 t, float_val (tg_score t))) (tp_targets r))"
  using assms(1)
proof (rule validated_plan_facts)
  fix op
  assume o: "proposed_operation r = Some op" "check_vector (di_max_weights_limit op) (tp_targets r) = Inr ()"
    "list_all (\<lambda>t. check_target (tp_validator_hotkey_ss58 r) t = Inr ()) (tp_targets r)"
  let ?spec = "\<lambda>t. tg_hotkey_ss58 t @ ''='' @ float_repr (tg_score t)"
  let ?entry = "\<lambda>t :: weight_target. (tg_hotkey_ss58 t, float_val (tg_score t))"
  have key: "valid_ss58 (tg_hotkey_ss58 t)" "tg_score t = Fin (float_val (tg_score t))" "0 < float_val (tg_score t)"
    "normal_double (float_val (tg_score t))" if "t \<in> set (tp_targets r)" for t
  proof -
    have c: "check_target (tp_validator_hotkey_ss58 r) t = Inr ()" using o(3) that by (simp add: list_all_iff)
    then show "valid_ss58 (tg_hotkey_ss58 t)"
      by (auto simp: check_target_def rbind_eq_Inr validate_public_ss58_def split: if_splits)
    from c have "positive_finite (tg_score t)" by (simp add: check_target_def rbind_eq_Inr)
    then show "tg_score t = Fin (float_val (tg_score t))" "0 < float_val (tg_score t)"
      by (cases "tg_score t"; simp add: positive_finite_def)+
    show "normal_double (float_val (tg_score t))" using assms(2) that by (simp add: list_all_iff)
  qed
  have split: "split_assignment (?spec t) = (tg_hotkey_ss58 t, float_repr (tg_score t))" if "t \<in> set (tp_targets r)" for t
    by (rule split_score [OF key(1) [OF that]])
  have step: "parse_public_score scores (?spec t) = Inr (scores @ [?entry t])"
    if "t \<in> set (tp_targets r)" "tg_hotkey_ss58 t \<notin> set (keys scores)" for t scores
    unfolding parse_public_score_Inr
    using split [OF that(1)] key [OF that(1)] finite_float_text [OF key(4) [OF that(1)]] that(2)
    by (intro exI [of _ "tg_hotkey_ss58 t"] exI [of _ "float_repr (tg_score t)"] exI [of _ "float_val (tg_score t)"]) simp
  have fold: "rfold parse_public_score acc (map ?spec ts) = Inr (acc @ map ?entry ts)"
    if "set ts \<subseteq> set (tp_targets r)" "distinct (map tg_hotkey_ss58 ts)" "set (map tg_hotkey_ss58 ts) \<inter> set (keys acc) = {}" for acc ts
    using that
  proof (induction ts arbitrary: acc)
    case (Cons t ts)
    have "parse_public_score acc (?spec t) = Inr (acc @ [?entry t])" using Cons.prems by (intro step) auto
    moreover have "rfold parse_public_score (acc @ [?entry t]) (map ?spec ts) = Inr ((acc @ [?entry t]) @ map ?entry ts)"
      using Cons.prems by (intro Cons.IH) (auto simp: keys_def)
    ultimately show ?case by simp
  qed simp
  have "distinct (map tg_hotkey_ss58 (tp_targets r))" using o(2) by (simp add: check_vector_def rbind_eq_Inr)
  then have "rfold parse_public_score [] (map ?spec (tp_targets r)) = Inr (map ?entry (tp_targets r))"
    using fold [of "tp_targets r" "[]"] by (simp add: keys_def)
  moreover have "tp_targets r \<noteq> []" using proposed_operation_fields(5) [OF o(1)] .
  moreover have "dict_values (map ?entry (tp_targets r)) = map (\<lambda>t. float_val (tg_score t)) (tp_targets r)"
    by (simp add: dict_values_def comp_def)
  ultimately show ?thesis using assms(3) by (simp add: parse_public_scores_def refresh_request_def comp_def)
qed

theorem refreshed_scores_are_exact_witness:
  "parse_public_scores (lq_score_specs (refresh_request demo_plan)) = Inr [(demo_miner, 1)]"
  using refreshed_scores_are_exact [OF demo_validates] normal_one float_range_one
  by (simp add: demo_operation_fields(2) demo_target_def fsum_def fl_one)

lemma ready_plan_facts:
  assumes "collect_testnet_weight_plan env q w = (Inr r, w')" "tp_ready r"
  shows "tp_errors r = []" "tp_endpoint r = TESTNET_ENDPOINT" "all_plan_gates (tp_gates r)" "tp_block r \<noteq> None"
proof -
  obtain scores p where
    c: "with_client (tn_client env) cl_close (plan_body env q scores p) (plan_failure env q) w = (Inr r, w')"
    using assms(1) by (auto simp: collect_testnet_weight_plan_def io_bind_Inr)
  obtain client w1 w2 where "plan_body env q scores p client w1 = (Inr r, w2)"
    by (rule opened_report [OF c, of tp_ready]) (simp_all add: assms(2) plan_failure_def)
  then show "tp_errors r = []" "tp_endpoint r = TESTNET_ENDPOINT" "all_plan_gates (tp_gates r)" "tp_block r \<noteq> None"
    using assms(2) by (elim plan_body_Inr; simp add: all_plan_gates_def plan_gates_of_def)+
qed

lemma readback_body_Inr:
  assumes "readback_body env source tolerance source_block digest client w = (Inr r, w')"
  obtains v there s u u' where "returns (view_chain env client) v" "xr_endpoint r = cv_endpoint v" "xr_block r = Some (cv_block v)"
    "xr_gates r = readback_gates_of v source_block there s" "xr_source_plan_digest r = digest"
    "xr_ready r \<longleftrightarrow> all_readback_gates (xr_gates r) \<and> xr_errors r = []"
    "if there then read_readback_state env source tolerance (cv_snapshot v) u = (Inr s, u') else s = initial_readback_state"
    "xr_current_readback r = rt_readback s"
proof -
  from assms obtain v u1 there u2 s u3 spec u4 where b: "view_chain env client w = (Inr v, u1)"
    "testnet_subnet_exists (cv_snapshot v) (tp_netuid source) u1 = (Inr there, u2)"
    "cl_spec_version client u3 = (Inr spec, u4)"
    "(if there then read_readback_state env source tolerance (cv_snapshot v) else io_return initial_readback_state) u2 = (Inr s, u3)"
    and r: "r = \<lparr>xr_endpoint = cv_endpoint v, xr_sdk_version = tn_sdk_version env, xr_netuid = tp_netuid source,
       xr_source_plan_digest = digest, xr_source_block = source_block, xr_block = Some (cv_block v),
       xr_block_hash = (if cv_block_hash v = [] then None else Some (cv_block_hash v)),
       xr_runtime_spec_version = Some spec, xr_validator_hotkey_ss58 = tp_validator_hotkey_ss58 source,
       xr_comparisons = rt_comparisons s, xr_current_readback = rt_readback s,
       xr_gates = readback_gates_of v source_block there s,
       xr_ready = (all_readback_gates (readback_gates_of v source_block there s)
         \<and> view_errors ''SDK resolved an unexpected endpoint; readback is denied'' v = []),
       xr_next_action = (if all_readback_gates (readback_gates_of v source_block there s)
           \<and> view_errors ''SDK resolved an unexpected endpoint; readback is denied'' v = []
         then ''Bind this readback to the separately finalized extrinsic in signed evidence.''
         else ''Do not claim weight completion; inspect failed gates and rerun later.''),
       xr_limitations = readback_limitations,
       xr_errors = view_errors ''SDK resolved an unexpected endpoint; readback is denied'' v\<rparr>"
    unfolding readback_body_def Let_def io_bind_Inr by (elim exE conjE) (simp only: io_return_simp prod.inject sum.inject)
  show thesis
    by (rule that [of v there s u2 u3]) (use b in \<open>auto simp only: r readback_report.simps io_return_simp prod.inject sum.inject returns_def split: if_splits\<close>)
qed

text \<open>C17: A readback that is ready for evidence confirms the plan: the source plan still validates under
  the reported digest; the chain was read at a later block of the canonical endpoint, where the
  validator keeps its UID and may set weights and its row was updated after the plan's block;
  every target keeps its UID; the row holds exactly the targets' UIDs, and each observed weight
  differs from the planned one by at most the tolerance.\<close>

theorem readback_confirms_plan:
  assumes "verify_testnet_weight_readback env source tolerance w = (Inr r, w')" "xr_ready r"
  shows "validated_plan_digest source = Inr (xr_source_plan_digest r) \<and> xr_endpoint r = TESTNET_ENDPOINT \<and> xr_errors r = []
    \<and> the (tp_block source) < the (xr_block r)
    \<and> rb_weight_setting_authorized (xr_current_readback r)
    \<and> (\<exists>client u view metagraph hotkeys v. tn_client env w = (Inr client, u) \<and> returns (view_chain env client) view
        \<and> xr_block r = Some (cv_block view)
        \<and> returns (sn_read (cv_snapshot view) ''metagraph'' (netuid_param (tp_netuid source))) metagraph
        \<and> returns (weight_readback_of env (cv_snapshot view) (tp_netuid source) metagraph (Some v)) (xr_current_readback r)
        \<and> hotkeys_of env metagraph = Inr hotkeys
        \<and> uid_of_hotkey hotkeys (tp_validator_hotkey_ss58 source) = Some v
        \<and> rb_validator_uid (tp_current_readback source) = Some (int v)
        \<and> list_all (\<lambda>t. map_option int (uid_of_hotkey hotkeys (tg_hotkey_ss58 t)) = Some (tg_uid t)) (tp_targets source))
    \<and> (case rb_last_update (xr_current_readback r) of None \<Rightarrow> False | Some u \<Rightarrow> the (tp_block source) < u)
    \<and> set (map fst (rb_weights (xr_current_readback r))) = set (map tg_uid (tp_targets source))
    \<and> list_all (\<lambda>t. case observed_weight (xr_current_readback r) (tg_uid t) of None \<Rightarrow> False
        | Some x \<Rightarrow> float_le (float_distance x (tg_weight t)) tolerance) (tp_targets source)"
proof -
  obtain d where d: "validated_plan_digest source = Inr d"
    and c: "with_client (tn_client env) cl_close (readback_body env source tolerance (the (tp_block source)) (the (tp_plan_digest source)))
      (readback_failure env source (the (tp_block source)) (the (tp_plan_digest source))) w = (Inr r, w')"
    using assms(1) by (auto simp: verify_testnet_weight_readback_def io_bind_Inr Let_def)
  have digest: "the (tp_plan_digest source) = d" using d by (rule validated_plan_facts) simp
  obtain client w1 w2 where open1: "tn_client env w = (Inr client, w1)"
    and b: "readback_body env source tolerance (the (tp_block source)) d client w1 = (Inr r, w2)"
    by (rule opened_report [OF c [unfolded digest], of xr_ready]) (simp_all add: assms(2) readback_failure_def)
  from b show ?thesis
  proof (rule readback_body_Inr)
    fix v :: "'a chain_view" and there s u u'
    assume seen: "returns (view_chain env client) v"
    assume e: "xr_endpoint r = cv_endpoint v" "xr_block r = Some (cv_block v)"
      "xr_gates r = readback_gates_of v (the (tp_block source)) there s" "xr_source_plan_digest r = d"
      "xr_ready r \<longleftrightarrow> all_readback_gates (xr_gates r) \<and> xr_errors r = []"
      "if there then read_readback_state env source tolerance (cv_snapshot v) u = (Inr s, u') else s = initial_readback_state"
      "xr_current_readback r = rt_readback s"
    have g: "all_readback_gates (readback_gates_of v (the (tp_block source)) there s)" "xr_errors r = []"
      using assms(2) e(3,5) by simp_all
    then have flags: "there" "cv_endpoint v = TESTNET_ENDPOINT" "the (tp_block source) < cv_block v"
      "rt_validator_uid_stable s" "rt_target_uids_stable s" "rb_weight_setting_authorized (rt_readback s)"
      "case rb_last_update (rt_readback s) of None \<Rightarrow> False | Some u \<Rightarrow> the (tp_block source) < u"
      "rt_recipient_set_matches s" "rt_weight_values_match s"
      by (simp_all add: all_readback_gates_def readback_gates_of_def)
    from e(6) flags(1) obtain m hotkeys rb u1 where m: "sn_read (cv_snapshot v) ''metagraph'' (netuid_param (tp_netuid source)) u = (Inr m, u1)"
      and hk: "hotkeys_of env m = Inr hotkeys"
      and rb: "weight_readback_of env (cv_snapshot v) (tp_netuid source) m (uid_of_hotkey hotkeys (tp_validator_hotkey_ss58 source)) u1 = (Inr rb, u')"
      and sr: "s = \<lparr>rt_validator_uid_stable = (uid_of_hotkey hotkeys (tp_validator_hotkey_ss58 source) \<noteq> None
           \<and> map_option int (uid_of_hotkey hotkeys (tp_validator_hotkey_ss58 source)) = rb_validator_uid (tp_current_readback source)),
         rt_target_uids_stable = list_all (\<lambda>t. map_option int (uid_of_hotkey hotkeys (tg_hotkey_ss58 t)) = Some (tg_uid t)) (tp_targets source),
         rt_readback = rb, rt_comparisons = map (compare_target rb tolerance) (tp_targets source),
         rt_recipient_set_matches = (set (map fst (rb_weights rb)) = set (map tg_uid (tp_targets source))),
         rt_weight_values_match = (map (compare_target rb tolerance) (tp_targets source) \<noteq> []
           \<and> list_all wc_matches (map (compare_target rb tolerance) (tp_targets source)))\<rparr>"
      unfolding read_readback_state_def Let_def if_P [OF flags(1)] io_bind_Inr
      by (elim exE conjE) (simp only: io_lift_simp io_return_simp prod.inject sum.inject)
    have h: "hotkeys_of env m = Inr hotkeys" "returns (sn_read (cv_snapshot v) ''metagraph'' (netuid_param (tp_netuid source))) m"
      "returns (weight_readback_of env (cv_snapshot v) (tp_netuid source) m (uid_of_hotkey hotkeys (tp_validator_hotkey_ss58 source))) (rt_readback s)"
      using m hk rb by (auto simp: returns_def sr)
    have s: "rt_validator_uid_stable s \<longleftrightarrow> uid_of_hotkey hotkeys (tp_validator_hotkey_ss58 source) \<noteq> None
          \<and> map_option int (uid_of_hotkey hotkeys (tp_validator_hotkey_ss58 source)) = rb_validator_uid (tp_current_readback source)"
        "rt_target_uids_stable s \<longleftrightarrow> list_all (\<lambda>t. map_option int (uid_of_hotkey hotkeys (tg_hotkey_ss58 t)) = Some (tg_uid t)) (tp_targets source)"
        "rt_recipient_set_matches s \<longleftrightarrow> set (map fst (rb_weights (rt_readback s))) = set (map tg_uid (tp_targets source))"
        "rt_weight_values_match s \<longleftrightarrow> map (compare_target (rt_readback s) tolerance) (tp_targets source) \<noteq> []
          \<and> list_all wc_matches (map (compare_target (rt_readback s) tolerance) (tp_targets source))"
      by (simp_all only: sr readback_state.simps)
    obtain vu where "uid_of_hotkey hotkeys (tp_validator_hotkey_ss58 source) = Some vu"
      "rb_validator_uid (tp_current_readback source) = Some (int vu)" using flags(4) s(1) by (auto dest: sym)
    note vu = this
    have "list_all (\<lambda>t. case observed_weight (rt_readback s) (tg_uid t) of None \<Rightarrow> False
        | Some x \<Rightarrow> float_le (float_distance x (tg_weight t)) tolerance) (tp_targets source)"
      using flags(9) s(4) by (auto simp: list_all_iff compare_target_def Let_def split: option.splits)
    moreover have "map_option int (uid_of_hotkey hotkeys (tg_hotkey_ss58 t)) = Some (tg_uid t)" if "t \<in> set (tp_targets source)" for t
      using flags(5) s(2) that by (simp add: list_all_iff)
    then have "list_all (\<lambda>t. map_option int (uid_of_hotkey hotkeys (tg_hotkey_ss58 t)) = Some (tg_uid t)) (tp_targets source)"
      by (simp add: list_all_iff)
    note seen_chain = open1 seen e(2) h(2) h(3) [unfolded vu(1) e(7) [symmetric]] h(1) vu this
    ultimately show ?thesis using d e(1,4,7) e(2) flags(2,3,6,7,8) g(2) s(3)
      by (intro conjI exI; (rule seen_chain)?) simp_all
  qed
qed

theorem readback_confirms_plan_witness:
  "\<exists>r. verify_testnet_weight_readback demo_later demo_plan (Fin 1) () = (Inr r, ()) \<and> the (xr_block r) > 1000
     \<and> rb_weights (xr_current_readback r) = [(1, Fin 1)]"
proof -
  obtain r where r: "verify_testnet_weight_readback demo_later demo_plan (Fin 1) () = (Inr r, ())" "xr_ready r"
    "xr_current_readback r = demo_row 1050 [(1, Fin 1)]" using demo_verified by blast
  have "the (tp_block demo_plan) < the (xr_block r)" using readback_confirms_plan [OF r(1,2)] by blast
  then show ?thesis using r by (simp add: demo_plan_def demo_row_def)
qed

text \<open>C39: Planning fails closed. Bad arguments raise before any client is opened; after that the only
  exception that leaves is one that closing the opened client raises, and in every other case a
  report is returned, whatever the chain or the SDK raises. It says that nothing was constructed
  or signed, and it is ready only with every gate passed on the canonical endpoint and without
  an error.\<close>

theorem plan_collection_fails_closed:
  "case collect_testnet_weight_plan env q w of (r, w') \<Rightarrow>
     (case plan_arguments q of
        Inl e \<Rightarrow> r = Inl e \<and> w' = w
      | Inr _ \<Rightarrow> (case r of
          Inl e \<Rightarrow> (\<exists>client opened u. tn_client env w = (Inr client, opened) \<and> cl_close client u = (Inl e, w'))
        | Inr report \<Rightarrow> tp_read_only report \<and> \<not> tp_transaction_constructed report \<and> \<not> tp_signature_requested report
            \<and> tp_netuid report = lq_netuid q \<and> tp_validator_hotkey_ss58 report = lq_validator_hotkey_ss58 q
            \<and> (if tp_ready report then all_plan_gates (tp_gates report) \<and> tp_errors report = []
                 \<and> tp_endpoint report = TESTNET_ENDPOINT else True)))"
proof (cases "plan_arguments q")
  case (Inr a)
  obtain scores p where a: "a = (scores, p)" by (cases a)
  obtain x w' where b: "with_client (tn_client env) cl_close (plan_body env q scores p) (plan_failure env q) w = (x, w')"
    by fastforce
  then have c: "collect_testnet_weight_plan env q w = (x, w')"
    using Inr a by (simp add: collect_testnet_weight_plan_def io_bind_def)
  show ?thesis
  proof (cases x)
    case (Inl e)
    from b [unfolded Inl with_client_Inl] show ?thesis using c Inr Inl by auto
  next
    case (Inr r)
    have "tp_read_only r \<and> \<not> tp_transaction_constructed r \<and> \<not> tp_signature_requested r
        \<and> tp_netuid r = lq_netuid q \<and> tp_validator_hotkey_ss58 r = lq_validator_hotkey_ss58 q"
      (is "?P r")
    proof (rule io_allD [OF with_client_all b [unfolded Inr]])
      show "io_all (plan_body env q scores p client) ?P" for client
        unfolding io_all_def by (intro allI impI) (erule plan_body_Inr, simp)
      show "?P (plan_failure env q e)" for e by (simp add: plan_failure_def)
    qed
    then show ?thesis using c \<open>plan_arguments q = Inr a\<close> Inr ready_plan_facts [OF c [unfolded Inr]] by simp
  qed
qed (simp add: collect_testnet_weight_plan_def io_bind_def)

section \<open>Preflight\<close>

lemma role_status_named: "io_all (role_status_of env sn m owner key entry) (\<lambda>s. (rs_role s, rs_hotkey_ss58 s) = entry)"
  by (cases entry) (auto simp: role_status_of_def Let_def unregistered_role_def io_all_def io_bind_Inr split: option.splits prod.splits)

lemma role_statuses_named: "io_all (role_statuses_of env sn n roles key) (\<lambda>ss. map (\<lambda>s. (rs_role s, rs_hotkey_ss58 s)) ss = roles)"
proof -
  have "map (\<lambda>s. (rs_role s, rs_hotkey_ss58 s)) ys = xs"
    if "io_map (role_status_of env sn m owner key) xs u = (Inr ys, u')" for m owner xs ys u u'
    using that
  proof (induction xs arbitrary: ys u)
    case (Cons x xs)
    then obtain z zs v where "role_status_of env sn m owner key x u = (Inr z, v)" "ys = z # zs"
      "io_map (role_status_of env sn m owner key) xs v = (Inr zs, u')" by (auto simp: io_bind_Inr)
    with Cons.IH io_allD [OF role_status_named] show ?case by fastforce
  qed simp
  then show ?thesis by (auto simp: role_statuses_of_def io_bind_Inr io_all_def split: if_splits)
qed

lemma coldkey_status_facts:
  "io_all (coldkey_status_of sn key) (\<lambda>c. ck_ss58 c = key \<and> ck_positive_balance c = (0 < ck_balance_rao c))"
  unfolding coldkey_status_of_def
  by (intro io_all_bind) (auto intro!: io_all_bind io_all_if split: option.split)

lemma io_all_attempt: "io_all m (\<lambda>x. Q (x, [])) \<Longrightarrow> (\<And>name. Q (f name)) \<Longrightarrow> io_all (io_attempt m f) Q"
  by (auto simp: io_all_def io_attempt_Inr) metis

text \<open>A preflight that is ready for the protocol run means what it says: on the canonical endpoint
  and without an error, every requested role has one status in the order of the request and is
  registered, none of them under another coldkey than the funded one; a validator may set
  weights; at least two roles are miners and every miner serves an axon.\<close>

theorem preflight_ready_means:
  "case collect_testnet_preflight env q w of
     (Inl _, _) \<Rightarrow> True
   | (Inr r, _) \<Rightarrow> (if pr_ready_for_protocol_run r
       then parse_public_roles (pq_role_specs q) = Inr (map (\<lambda>s. (rs_role s, rs_hotkey_ss58 s)) (pr_roles r))
         \<and> pr_endpoint r = TESTNET_ENDPOINT \<and> pr_errors r = []
         \<and> list_all rs_registered (pr_roles r) \<and> list_all (\<lambda>s. rs_coldkey_matches s \<noteq> Some False) (pr_roles r)
         \<and> list_ex (\<lambda>s. rs_role s = ''validator'' \<and> rs_weight_setting_authorized s) (pr_roles r)
         \<and> 2 \<le> length (filter (\<lambda>s. is_miner (rs_role s)) (pr_roles r))
         \<and> list_all rs_axon_served (filter (\<lambda>s. is_miner (rs_role s)) (pr_roles r))
         \<and> (case (pr_coldkey r, pq_coldkey_ss58 q) of (Some c, Some key) \<Rightarrow> ck_ss58 c = key \<and> 0 < ck_balance_rao c | _ \<Rightarrow> False)
       else True)"
proof -
  let ?names = "map (\<lambda>s. (rs_role s, rs_hotkey_ss58 s))"
  let ?key = "\<lambda>(c, errors :: string list). case (c, pq_coldkey_ss58 q) of
      (Some c, Some key) \<Rightarrow> ck_ss58 c = key \<and> ck_positive_balance c = (0 < ck_balance_rao c) | (Some c, None) \<Rightarrow> False | _ \<Rightarrow> True"
  let ?P = "\<lambda>roles r. pr_ready_for_protocol_run r \<longrightarrow> roles = ?names (pr_roles r)
     \<and> pr_endpoint r = TESTNET_ENDPOINT \<and> pr_errors r = []
     \<and> list_all rs_registered (pr_roles r) \<and> list_all (\<lambda>s. rs_coldkey_matches s \<noteq> Some False) (pr_roles r)
     \<and> list_ex (\<lambda>s. rs_role s = ''validator'' \<and> rs_weight_setting_authorized s) (pr_roles r)
     \<and> 2 \<le> length (filter (\<lambda>s. is_miner (rs_role s)) (pr_roles r))
     \<and> list_all rs_axon_served (filter (\<lambda>s. is_miner (rs_role s)) (pr_roles r))
     \<and> (case (pr_coldkey r, pq_coldkey_ss58 q) of (Some c, Some key) \<Rightarrow> ck_ss58 c = key \<and> 0 < ck_balance_rao c | _ \<Rightarrow> False)"
  let ?named = "\<lambda>roles (statuses, errors :: string list). statuses \<noteq> [] \<longrightarrow> ?names statuses = roles"
  have key: "io_all (case pq_coldkey_ss58 q of None \<Rightarrow> io_return (None, [])
       | Some key \<Rightarrow> io_attempt (io_bind (coldkey_status_of sn key) (\<lambda>c. io_return (Some c))) (\<lambda>name. (None, [label @ name]))) ?key"
    for sn label
    by (cases "pq_coldkey_ss58 q") (auto intro!: io_all_attempt io_all_bind_post [OF coldkey_status_facts])
  have named: "io_all (case pq_netuid q of None \<Rightarrow> io_return ([], [])
       | Some netuid \<Rightarrow> if roles \<noteq> [] \<and> b
           then io_attempt (role_statuses_of env sn netuid roles k) (\<lambda>name. ([], [label @ name]))
           else io_return ([], [])) (?named roles)" for sn label roles b k
  proof -
    have "io_all (role_statuses_of env sn netuid roles k) (\<lambda>ss. ?named roles (ss, []))" for netuid
      using role_statuses_named [of env sn netuid roles k] by (auto simp: io_all_def)
    then show ?thesis by (cases "pq_netuid q") (auto intro!: io_all_attempt io_all_if)
  qed
  have body: "io_all (preflight_body env q roles client) (?P roles)" for roles client
    unfolding preflight_body_def Let_def
    apply (rule io_all_bind, rule io_all_bind, rule io_all_bind, rule io_all_bind, rule io_all_bind)
    subgoal for endpoint block sn sb x
      apply (cases x)
      apply (simp only: prod.case)
      apply (rule io_all_bind_post [OF key])
      subgoal for subnet errors1 y
        apply (cases y)
        apply (simp only: prod.case)
        apply (rule io_all_bind_post [OF named [of roles]])
        subgoal for coldkey errors2 z
          apply (cases z)
          apply (simp only: prod.case)
          apply (intro io_all_bind io_all_return)
          apply (auto simp: ready_for_protocol_def ready_for_registration_def preflight_gates_of_def Let_def split: option.splits if_splits)
          done
        done
      done
    done
  have "?P roles (preflight_failure env e)" for roles e by (simp add: preflight_failure_def)
  with body have all: "io_all (with_client (tn_client env) cl_close (preflight_body env q roles) (preflight_failure env)) (?P roles)" for roles
    by (rule with_client_all)
  have args: "preflight_arguments q = Inr roles \<Longrightarrow> parse_public_roles (pq_role_specs q) = Inr roles" for roles
    by (auto simp: preflight_arguments_def rbind_eq_Inr)
  have "io_all (collect_testnet_preflight env q) (\<lambda>r. \<exists>roles. parse_public_roles (pq_role_specs q) = Inr roles \<and> ?P roles r)"
    unfolding io_all_def
  proof (intro allI impI)
    fix u r u' assume "collect_testnet_preflight env q u = (Inr r, u')"
    then obtain roles where "preflight_arguments q = Inr roles"
      "with_client (tn_client env) cl_close (preflight_body env q roles) (preflight_failure env) u = (Inr r, u')"
      by (auto simp: collect_testnet_preflight_def io_bind_Inr)
    then show "\<exists>roles. parse_public_roles (pq_role_specs q) = Inr roles \<and> ?P roles r"
      using args io_allD [OF all] by blast
  qed
  then show ?thesis unfolding io_all_def by (auto split: prod.split sum.split if_split)
qed

end
