(* ===== verification/TestnetProvisioning.thy ===== *)
theory TestnetProvisioning
  imports TestnetPreflight Digest
begin

text \<open>
  The read-only plan of \<open>planrace/testnet_provisioning.py\<close> for creating the dedicated subnet:
  the public identities are checked, costs, ownership and registrations are read at one block,
  fourteen gates decide readiness and a digest binds the whole report. A saved plan is validated
  again, gate by gate, before anything is signed. Decoding a file is a parameter.
\<close>

definition OWNER_HOTKEY_ALIAS :: string where "OWNER_HOTKEY_ALIAS = ''validator-00''"
definition PROVISION_WALLET_ALIAS :: string where "PROVISION_WALLET_ALIAS = ''planrace-testnet''"
definition MAX_TESTNET_BUDGET_RAO :: int where "MAX_TESTNET_BUDGET_RAO = 5000000000"
definition MAX_SUBNET_CREATION_REVIEW_COST_RAO :: int where "MAX_SUBNET_CREATION_REVIEW_COST_RAO = 1250000000"
definition MAX_TRANSACTION_FEE_RAO :: int where "MAX_TRANSACTION_FEE_RAO = 10000000"
definition MAX_CREATION_WALLET_BALANCE_RAO :: int where "MAX_CREATION_WALLET_BALANCE_RAO = 1260001000"
definition EXPECTED_VALIDATORS :: nat where "EXPECTED_VALIDATORS = 3"
definition EXPECTED_MINERS :: nat where "EXPECTED_MINERS = 10"

section \<open>Records\<close>

record identity_entry =
  ie_name :: string
  ie_hotkey_ss58 :: string

record identity_balance =
  ib_block :: int
  ib_coldkey_balance_rao :: int
  ib_coldkey_balance_tao :: string
  ib_runtime_spec_version :: int

record identity_registration =
  ir_netuid :: "int option"
  ir_registered_hotkeys :: int
  ir_status :: string

record identity_security =
  is_coldkey_encrypted :: bool
  is_keyfile_mode :: string
  is_mainnet_authorized :: bool
  is_mnemonic_or_private_key_in_repository :: bool
  is_wallet_directory_mode :: string

record identity_manifest =
  im_sdk_version :: string
  im_wallet_alias :: string
  im_custody :: string
  im_generated_on :: string
  im_coldkey_ss58 :: string
  im_validators :: "identity_entry list"
  im_miners :: "identity_entry list"
  im_balance_snapshot :: identity_balance
  im_registration :: identity_registration
  im_security :: identity_security

record provision_role =
  pv_role :: string
  pv_alias :: string
  pv_hotkey_ss58 :: string
  pv_registered_netuids :: "int list"
  pv_created_with_subnet :: bool
  pv_requires_burn_registration :: bool

record provision_gates =
  vg_canonical_endpoint :: bool
  vg_snapshot_pinned :: bool
  vg_identities_valid :: bool
  vg_dedicated_wallet_only :: bool
  vg_exact_role_count :: bool
  vg_public_hotkeys_unique :: bool
  vg_owner_is_validator_00 :: bool
  vg_coldkey_has_no_owned_hotkeys :: bool
  vg_all_hotkeys_unregistered :: bool
  vg_coldkey_balance_positive :: bool
  vg_balance_within_total_budget :: bool
  vg_creation_wallet_balance_within_exposure_cap :: bool
  vg_subnet_cost_snapshot_within_review_cap :: bool
  vg_can_cover_snapshot_cost_deposit_and_fee_cap :: bool

record provision_plan =
  pp_read_only :: bool
  pp_transaction_constructed :: bool
  pp_signature_requested :: bool
  pp_network :: string
  pp_endpoint :: string
  pp_sdk_version :: string
  pp_block :: "int option"
  pp_block_hash :: "string option"
  pp_runtime_spec_version :: "int option"
  pp_wallet_alias :: string
  pp_coldkey_ss58 :: string
  pp_owner_hotkey_alias :: string
  pp_owner_hotkey_ss58 :: string
  pp_coldkey_owned_hotkeys :: "string list"
  pp_roles :: "provision_role list"
  pp_subnet_creation_cost_rao :: "int option"
  pp_subnet_creation_cost_tao :: "string option"
  pp_existential_deposit_rao :: "int option"
  pp_existential_deposit_tao :: "string option"
  pp_coldkey_balance_rao :: "int option"
  pp_coldkey_balance_tao :: "string option"
  pp_max_testnet_budget_rao :: int
  pp_max_subnet_creation_review_cost_rao :: int
  pp_max_transaction_fee_rao :: int
  pp_max_creation_wallet_balance_rao :: int
  pp_onchain_creation_cost_limit_available :: bool
  pp_burn_registrations_after_creation :: int
  pp_gates :: provision_gates
  pp_ready :: bool \<comment> \<open>\<open>ready_for_authorized_subnet_creation\<close>\<close>
  pp_plan_digest :: "string option"
  pp_next_action :: string
  pp_limitations :: "string list"
  pp_errors :: "string list"

section \<open>Chain values\<close>

definition rao_of :: "pyval \<Rightarrow> int result" where
  "rao_of value =
     rbind (optional_int (py_field value ''rao'' PNone)) (\<lambda>amount.
     case amount of
       Some n \<Rightarrow> if n < 0 then Inl (ValueError ''testnet returned an invalid TAO balance'') else Inr n
     | None \<Rightarrow> Inl (ValueError ''testnet returned an invalid TAO balance''))"

definition int_tuple :: "string \<Rightarrow> pyval \<Rightarrow> int list result" where
  "int_tuple field value =
     (case value of
        PSeq xs \<Rightarrow> rbind (rmap optional_int xs) (\<lambda>output.
          if list_ex (\<lambda>i. case i of None \<Rightarrow> True | Some n \<Rightarrow> n < 0) output
          then Inl (ValueError (''testnet returned invalid '' @ field)) else Inr (map the output))
      | _ \<Rightarrow> Inl (ValueError (''testnet returned invalid '' @ field)))"

definition string_tuple :: "(pyval \<Rightarrow> string result) \<Rightarrow> string \<Rightarrow> pyval \<Rightarrow> string list result" where
  "string_tuple repr_of field value =
     (case value of
        PSeq xs \<Rightarrow> rbind (rmap (py_str repr_of) xs) (\<lambda>output.
          if [] \<in> set output then Inl (ValueError (''testnet returned invalid '' @ field)) else Inr output)
      | _ \<Rightarrow> Inl (ValueError (''testnet returned invalid '' @ field)))"

text \<open>\<open>_tao_string\<close>: floor division, nine digits, trailing zeros dropped.\<close>

definition pad_digits :: "nat \<Rightarrow> nat \<Rightarrow> string" where
  "pad_digits width n = replicate (width - length (nat_str n)) (CHR ''0'') @ nat_str n"

definition tao_string :: "int \<Rightarrow> string" where
  "tao_string rao =
     (let whole = rao div 1000000000; fraction = rao mod 1000000000
      in if fraction = 0 then int_str whole
         else rstrip_char (CHR ''0'') (int_str whole @ ''.'' @ pad_digits 9 (nat fraction)))"

section \<open>Identities and roles\<close>

definition validator_aliases :: "string list" where
  "validator_aliases = map (\<lambda>i. ''validator-'' @ pad_digits 2 i) [0..<EXPECTED_VALIDATORS]"

definition miner_aliases :: "string list" where
  "miner_aliases = map (\<lambda>i. ''miner-'' @ pad_digits 2 i) [0..<EXPECTED_MINERS]"

definition manifest_hotkeys :: "identity_manifest \<Rightarrow> string list" where
  "manifest_hotkeys m = map ie_hotkey_ss58 (im_validators m @ im_miners m)"

definition check_identities :: "identity_manifest \<Rightarrow> unit result" where
  "check_identities m =
     rbind (validate_public_ss58 (im_coldkey_ss58 m)) (\<lambda>_.
     rbind (rcheck (length (im_validators m) = EXPECTED_VALIDATORS \<and> length (im_miners m) = EXPECTED_MINERS)
       (ValueError ''public identity manifest must contain exactly 3 validators and 10 miners'')) (\<lambda>_.
     rbind (rcheck (map ie_name (im_validators m) = validator_aliases)
       (ValueError ''validator aliases must be validator-00 through validator-02'')) (\<lambda>_.
     rbind (rcheck (map ie_name (im_miners m) = miner_aliases)
       (ValueError ''miner aliases must be miner-00 through miner-09'')) (\<lambda>_.
     rbind (rmap validate_public_ss58 (manifest_hotkeys m)) (\<lambda>_.
     rbind (rcheck (distinct (manifest_hotkeys m) \<and> im_coldkey_ss58 m \<notin> set (manifest_hotkeys m))
       (ValueError ''public coldkey and hotkeys must all be unique'')) (\<lambda>_.
     rcheck (\<not> (is_mainnet_authorized (im_security m) \<or> is_mnemonic_or_private_key_in_repository (im_security m)
         \<or> is_keyfile_mode (im_security m) \<noteq> ''0600'' \<or> is_wallet_directory_mode (im_security m) \<noteq> ''0700''))
       (ValueError ''public identity manifest does not satisfy the testnet custody boundary'')))))))"

definition load_public_identities ::
  "('w, bytes) io \<Rightarrow> (bytes \<Rightarrow> identity_manifest result) \<Rightarrow> ('w, identity_manifest) io" where
  "load_public_identities read_bytes decode =
     io_try (io_bind read_bytes (\<lambda>data. io_lift (decode data)))
       (\<lambda>e. case e of
            OSError _ \<Rightarrow> io_raise (ValueError (''cannot read public identity manifest: '' @ error_name e))
          | ValueError _ \<Rightarrow> io_raise (ValueError ''public identity manifest schema validation failed'')
          | _ \<Rightarrow> io_raise e)
       (\<lambda>m. io_bind (io_lift (check_identities m)) (\<lambda>_. io_return m))"

definition validator_provision_role :: "(string, int list) dict \<Rightarrow> identity_entry \<Rightarrow> provision_role" where
  "validator_provision_role registrations item = \<lparr>pv_role = ''validator'', pv_alias = ie_name item,
     pv_hotkey_ss58 = ie_hotkey_ss58 item,
     pv_registered_netuids = (case map_of registrations (ie_hotkey_ss58 item) of None \<Rightarrow> [] | Some ns \<Rightarrow> ns),
     pv_created_with_subnet = (ie_name item = OWNER_HOTKEY_ALIAS),
     pv_requires_burn_registration = (ie_name item \<noteq> OWNER_HOTKEY_ALIAS)\<rparr>"

definition miner_provision_role :: "(string, int list) dict \<Rightarrow> identity_entry \<Rightarrow> provision_role" where
  "miner_provision_role registrations item = \<lparr>pv_role = ''miner'', pv_alias = ie_name item,
     pv_hotkey_ss58 = ie_hotkey_ss58 item,
     pv_registered_netuids = (case map_of registrations (ie_hotkey_ss58 item) of None \<Rightarrow> [] | Some ns \<Rightarrow> ns),
     pv_created_with_subnet = False, pv_requires_burn_registration = True\<rparr>"

definition provision_roles :: "identity_manifest \<Rightarrow> (string, int list) dict \<Rightarrow> provision_role list" where
  "provision_roles m registrations =
     map (validator_provision_role registrations) (im_validators m) @ map (miner_provision_role registrations) (im_miners m)"

section \<open>The digest\<close>

definition payload_digest :: "jval \<Rightarrow> string" where
  "payload_digest payload = ''sha256:'' @ sha256_hex (dumps payload)"

definition vopt :: "('a \<Rightarrow> jval) \<Rightarrow> 'a option \<Rightarrow> jval" where
  "vopt f x = (case x of None \<Rightarrow> VNull | Some a \<Rightarrow> f a)"

definition jval_of_role :: "provision_role \<Rightarrow> jval" where
  "jval_of_role r = VObj [(''role'', VStr (pv_role r)), (''alias'', VStr (pv_alias r)),
     (''hotkey_ss58'', VStr (pv_hotkey_ss58 r)), (''registered_netuids'', VArr (map VInt (pv_registered_netuids r))),
     (''created_with_subnet'', VBool (pv_created_with_subnet r)),
     (''requires_burn_registration'', VBool (pv_requires_burn_registration r))]"

definition jval_of_provision_gates :: "provision_gates \<Rightarrow> jval" where
  "jval_of_provision_gates g = VObj [
     (''canonical_endpoint'', VBool (vg_canonical_endpoint g)), (''snapshot_pinned'', VBool (vg_snapshot_pinned g)),
     (''identities_valid'', VBool (vg_identities_valid g)), (''dedicated_wallet_only'', VBool (vg_dedicated_wallet_only g)),
     (''exact_role_count'', VBool (vg_exact_role_count g)), (''public_hotkeys_unique'', VBool (vg_public_hotkeys_unique g)),
     (''owner_is_validator_00'', VBool (vg_owner_is_validator_00 g)),
     (''coldkey_has_no_owned_hotkeys'', VBool (vg_coldkey_has_no_owned_hotkeys g)),
     (''all_hotkeys_unregistered'', VBool (vg_all_hotkeys_unregistered g)),
     (''coldkey_balance_positive'', VBool (vg_coldkey_balance_positive g)),
     (''balance_within_total_budget'', VBool (vg_balance_within_total_budget g)),
     (''creation_wallet_balance_within_exposure_cap'', VBool (vg_creation_wallet_balance_within_exposure_cap g)),
     (''subnet_cost_snapshot_within_review_cap'', VBool (vg_subnet_cost_snapshot_within_review_cap g)),
     (''can_cover_snapshot_cost_deposit_and_fee_cap'', VBool (vg_can_cover_snapshot_cost_deposit_and_fee_cap g))]"

text \<open>\<open>model_dump(mode="json", exclude={"plan_digest", "next_action"})\<close>.\<close>

definition provision_payload :: "provision_plan \<Rightarrow> jval" where
  "provision_payload r = VObj [
     (''schema_version'', VStr ''planrace/testnet-provision-plan/2''),
     (''read_only'', VBool (pp_read_only r)), (''transaction_constructed'', VBool (pp_transaction_constructed r)),
     (''signature_requested'', VBool (pp_signature_requested r)), (''network'', VStr (pp_network r)),
     (''endpoint'', VStr (pp_endpoint r)), (''sdk_version'', VStr (pp_sdk_version r)),
     (''block'', vopt VInt (pp_block r)), (''block_hash'', vopt VStr (pp_block_hash r)),
     (''runtime_spec_version'', vopt VInt (pp_runtime_spec_version r)), (''wallet_alias'', VStr (pp_wallet_alias r)),
     (''coldkey_ss58'', VStr (pp_coldkey_ss58 r)), (''owner_hotkey_alias'', VStr (pp_owner_hotkey_alias r)),
     (''owner_hotkey_ss58'', VStr (pp_owner_hotkey_ss58 r)),
     (''coldkey_owned_hotkeys'', VArr (map VStr (pp_coldkey_owned_hotkeys r))),
     (''roles'', VArr (map jval_of_role (pp_roles r))),
     (''subnet_creation_cost_rao'', vopt VInt (pp_subnet_creation_cost_rao r)),
     (''subnet_creation_cost_tao'', vopt VStr (pp_subnet_creation_cost_tao r)),
     (''existential_deposit_rao'', vopt VInt (pp_existential_deposit_rao r)),
     (''existential_deposit_tao'', vopt VStr (pp_existential_deposit_tao r)),
     (''coldkey_balance_rao'', vopt VInt (pp_coldkey_balance_rao r)),
     (''coldkey_balance_tao'', vopt VStr (pp_coldkey_balance_tao r)),
     (''max_testnet_budget_rao'', VInt (pp_max_testnet_budget_rao r)),
     (''max_subnet_creation_review_cost_rao'', VInt (pp_max_subnet_creation_review_cost_rao r)),
     (''max_transaction_fee_rao'', VInt (pp_max_transaction_fee_rao r)),
     (''max_creation_wallet_balance_rao'', VInt (pp_max_creation_wallet_balance_rao r)),
     (''onchain_creation_cost_limit_available'', VBool (pp_onchain_creation_cost_limit_available r)),
     (''burn_registrations_after_creation'', VInt (pp_burn_registrations_after_creation r)),
     (''gates'', jval_of_provision_gates (pp_gates r)),
     (''ready_for_authorized_subnet_creation'', VBool (pp_ready r)),
     (''limitations'', VArr (map VStr (pp_limitations r))), (''errors'', VArr (map VStr (pp_errors r)))]"

definition provision_digest :: "provision_plan \<Rightarrow> string" where
  "provision_digest r = payload_digest (provision_payload r)"

section \<open>Validation of a saved plan\<close>

definition all_provision_gates :: "provision_gates \<Rightarrow> bool" where
  "all_provision_gates g \<longleftrightarrow> vg_canonical_endpoint g \<and> vg_snapshot_pinned g \<and> vg_identities_valid g
     \<and> vg_dedicated_wallet_only g \<and> vg_exact_role_count g \<and> vg_public_hotkeys_unique g
     \<and> vg_owner_is_validator_00 g \<and> vg_coldkey_has_no_owned_hotkeys g \<and> vg_all_hotkeys_unregistered g
     \<and> vg_coldkey_balance_positive g \<and> vg_balance_within_total_budget g
     \<and> vg_creation_wallet_balance_within_exposure_cap g \<and> vg_subnet_cost_snapshot_within_review_cap g
     \<and> vg_can_cover_snapshot_cost_deposit_and_fee_cap g"

record provision_coordinates =
  pc_block :: int
  pc_runtime :: int
  pc_cost :: int
  pc_deposit :: int
  pc_balance :: int

definition coordinates_of :: "provision_plan \<Rightarrow> provision_coordinates result" where
  "coordinates_of r =
     (case (pp_block r, pp_runtime_spec_version r, pp_subnet_creation_cost_rao r, pp_existential_deposit_rao r,
            pp_coldkey_balance_rao r) of
        (Some block, Some runtime, Some cost, Some deposit, Some balance) \<Rightarrow>
          if block < 0 \<or> runtime < 0 \<or> cost < 0 \<or> deposit < 0 \<or> balance < 0
          then Inl (ValueError ''provision plan has incomplete chain or cost coordinates'')
          else Inr \<lparr>pc_block = block, pc_runtime = runtime, pc_cost = cost, pc_deposit = deposit, pc_balance = balance\<rparr>
      | _ \<Rightarrow> Inl (ValueError ''provision plan has incomplete chain or cost coordinates''))"

definition provision_block_hash_ok :: "string option \<Rightarrow> bool" where
  "provision_block_hash_ok h = (case h of None \<Rightarrow> False | Some s \<Rightarrow> starts_with ''0x'' s \<and> py_len s = 66)"

definition within_safety_boundary :: "provision_plan \<Rightarrow> bool" where
  "within_safety_boundary r \<longleftrightarrow> pp_endpoint r = TESTNET_ENDPOINT \<and> pp_network r = ''test''
     \<and> pp_wallet_alias r = PROVISION_WALLET_ALIAS \<and> pp_owner_hotkey_alias r = OWNER_HOTKEY_ALIAS
     \<and> \<not> pp_onchain_creation_cost_limit_available r
     \<and> pp_max_testnet_budget_rao r = MAX_TESTNET_BUDGET_RAO
     \<and> pp_max_subnet_creation_review_cost_rao r = MAX_SUBNET_CREATION_REVIEW_COST_RAO
     \<and> pp_max_transaction_fee_rao r = MAX_TRANSACTION_FEE_RAO
     \<and> pp_max_creation_wallet_balance_rao r = MAX_CREATION_WALLET_BALANCE_RAO"

definition role_state_ok :: "nat \<times> provision_role \<Rightarrow> bool" where
  "role_state_ok entry = (let (index, r) = entry in
     pv_role r = (if index < EXPECTED_VALIDATORS then ''validator'' else ''miner'')
     \<and> pv_registered_netuids r = [] \<and> pv_created_with_subnet r = (index = 0)
     \<and> pv_requires_burn_registration r = (index \<noteq> 0))"

definition expected_provision_gates :: "provision_coordinates \<Rightarrow> provision_gates" where
  "expected_provision_gates c =
     \<lparr>vg_canonical_endpoint = True, vg_snapshot_pinned = (0 \<le> pc_block c \<and> 0 \<le> pc_runtime c), vg_identities_valid = True,
      vg_dedicated_wallet_only = True, vg_exact_role_count = True, vg_public_hotkeys_unique = True,
      vg_owner_is_validator_00 = True, vg_coldkey_has_no_owned_hotkeys = True, vg_all_hotkeys_unregistered = True,
      vg_coldkey_balance_positive = (0 < pc_balance c),
      vg_balance_within_total_budget = (0 < pc_balance c \<and> pc_balance c \<le> MAX_TESTNET_BUDGET_RAO),
      vg_creation_wallet_balance_within_exposure_cap = (pc_balance c \<le> MAX_CREATION_WALLET_BALANCE_RAO),
      vg_subnet_cost_snapshot_within_review_cap = (pc_cost c \<le> MAX_SUBNET_CREATION_REVIEW_COST_RAO),
      vg_can_cover_snapshot_cost_deposit_and_fee_cap = (pc_cost c + pc_deposit c + MAX_TRANSACTION_FEE_RAO \<le> pc_balance c)\<rparr>"

definition check_provision_roles :: "provision_plan \<Rightarrow> unit result" where
  "check_provision_roles r =
     rbind (rcheck (length (pp_roles r) = EXPECTED_VALIDATORS + EXPECTED_MINERS)
       (ValueError ''provision plan must contain exactly 3 validators and 10 miners'')) (\<lambda>_.
     rbind (rcheck (map pv_alias (pp_roles r) = validator_aliases @ miner_aliases)
       (ValueError ''provision plan contains unexpected role aliases'')) (\<lambda>_.
     (let hotkeys = map pv_hotkey_ss58 (pp_roles r) in
     rbind (rmap validate_public_ss58 hotkeys) (\<lambda>_.
     rbind (rcheck (distinct hotkeys \<and> pp_coldkey_ss58 r \<notin> set hotkeys \<and> pp_owner_hotkey_ss58 r = hd hotkeys)
       (ValueError ''provision plan contains invalid public identities'')) (\<lambda>_.
     rbind (rcheck (list_all role_state_ok (List.enumerate 0 (pp_roles r)))
       (ValueError ''provision plan contains unexpected role state'')) (\<lambda>_.
     rcheck (pp_coldkey_owned_hotkeys r = [] \<and> pp_burn_registrations_after_creation r = 12)
       (ValueError ''provision plan contains existing ownership or an invalid topology'')))))))"

definition validated_provision_plan_digest :: "provision_plan \<Rightarrow> string result" where
  "validated_provision_plan_digest r =
     rbind (coordinates_of r) (\<lambda>c.
     rbind (rcheck (provision_block_hash_ok (pp_block_hash r)) (ValueError ''provision plan has an invalid block hash'')) (\<lambda>_.
     rbind (validate_public_ss58 (pp_coldkey_ss58 r)) (\<lambda>_.
     rbind (validate_public_ss58 (pp_owner_hotkey_ss58 r)) (\<lambda>_.
     rbind (rcheck (within_safety_boundary r)
       (ValueError ''provision plan violates the fixed testnet safety boundary'')) (\<lambda>_.
     rbind (check_provision_roles r) (\<lambda>_.
     rbind (rcheck (pp_subnet_creation_cost_tao r = Some (tao_string (pc_cost c))
         \<and> pp_existential_deposit_tao r = Some (tao_string (pc_deposit c))
         \<and> pp_coldkey_balance_tao r = Some (tao_string (pc_balance c)))
       (ValueError ''provision plan TAO renderings do not match exact rao values'')) (\<lambda>_.
     rbind (rcheck (\<not> (pp_gates r \<noteq> expected_provision_gates c \<or> \<not> pp_ready r \<or> pp_errors r \<noteq> []
         \<or> \<not> pp_read_only r \<or> pp_transaction_constructed r \<or> pp_signature_requested r
         \<or> \<not> all_provision_gates (pp_gates r)))
       (ValueError ''source provision plan did not pass every pre-signing gate'')) (\<lambda>_.
     case pp_plan_digest r of
       None \<Rightarrow> Inl (ValueError ''provision plan has no digest'')
     | Some digest \<Rightarrow>
         rbind (rcheck (digest = provision_digest r) (ValueError ''provision plan digest mismatch'')) (\<lambda>_.
         Inr (provision_digest r))))))))))"

definition load_testnet_provision_plan ::
  "('w, bytes) io \<Rightarrow> (bytes \<Rightarrow> provision_plan result) \<Rightarrow> ('w, provision_plan) io" where
  "load_testnet_provision_plan read_bytes decode =
     io_try (io_bind read_bytes (\<lambda>data. io_lift (decode data)))
       (\<lambda>e. case e of
            OSError _ \<Rightarrow> io_raise (ValueError (''cannot read provision plan: '' @ error_name e))
          | ValueError _ \<Rightarrow> io_raise (ValueError ''provision plan schema validation failed'')
          | _ \<Rightarrow> io_raise e)
       (\<lambda>report. io_bind (io_lift (validated_provision_plan_digest report)) (\<lambda>_. io_return report))"

section \<open>Collecting a plan\<close>

text \<open>The parameters: the client side, and the identity file with its decoder.\<close>

record 'w provision_env = "'w testnet" +
  tn_read_identities :: "('w, bytes) io"
  tn_decode_identities :: "bytes \<Rightarrow> identity_manifest result"

definition provision_limitations :: "string list" where
  "provision_limitations =
     [''This latest-block plan is not finalized transaction evidence.'',
      ''The subnet creation price is dynamic and can change before inclusion.'',
      ''Runtime v454 has no subnet-creation price-limit argument; 1.25 test TAO is a pre-signing review cap, not an on-chain execution cap.'',
      ''Creation requires a staged wallet balance no greater than 1.260001 test TAO; the 5 test TAO value is only the total project budget.'',
      ''Because anyone can send funds to a public address, even the staged balance is not an on-chain execution-price limit.'',
      ''The new subnet creates validator-00 as UID 0; the other 12 hotkeys require later burns.'',
      ''No transaction, wallet unlock, signature, registration, or mainnet access is performed.'']"

text \<open>What is read from the chain, in the order of the reads.\<close>

record provision_reads =
  vr_endpoint :: string
  vr_block :: int
  vr_info_number :: "int option"
  vr_block_hash :: string
  vr_pinned :: bool
  vr_balance :: int
  vr_cost :: int
  vr_deposit :: int
  vr_owned_hotkeys :: "string list"
  vr_registrations :: "(string, int list) dict"

definition read_registration :: "'w snapshot \<Rightarrow> provision_role \<Rightarrow> ('w, string \<times> int list) io" where
  "read_registration snapshot r =
     io_bind (sn_read snapshot ''netuids_for_hotkey'' [(''hotkey_ss58'', PStr (pv_hotkey_ss58 r))]) (\<lambda>v.
     io_bind (io_lift (int_tuple (''netuids for '' @ pv_alias r) v)) (\<lambda>ns.
     io_return (pv_hotkey_ss58 r, ns)))"

definition coldkey_param :: "string \<Rightarrow> (string \<times> pyval) list" where
  "coldkey_param key = [(''coldkey_ss58'', PStr key)]"

definition read_provision ::
  "('w, 'b) testnet_scheme \<Rightarrow> string \<Rightarrow> provision_role list \<Rightarrow> 'w testnet_client \<Rightarrow> ('w, provision_reads) io" where
  "read_provision env coldkey roles client =
     io_bind (cl_endpoint client) (\<lambda>endpoint.
     io_bind (cl_block client) (\<lambda>block.
     io_bind (cl_at client block) (\<lambda>snapshot.
     io_bind (sn_block_info snapshot) (\<lambda>info.
     io_bind (io_lift (optional_int (py_field info ''number'' PNone))) (\<lambda>info_number.
     io_bind (io_lift (py_str (tn_repr env) (py_field info ''hash'' (PStr [])))) (\<lambda>block_hash.
     io_bind (sn_block snapshot) (\<lambda>snapshot_block.
     io_bind (io_bind (sn_read snapshot ''balance'' (coldkey_param coldkey)) (\<lambda>v. io_lift (rao_of v))) (\<lambda>balance.
     io_bind (io_bind (sn_read snapshot ''subnet_registration_cost'' []) (\<lambda>v. io_lift (rao_of v))) (\<lambda>cost.
     io_bind (io_bind (sn_read snapshot ''existential_deposit'' []) (\<lambda>v. io_lift (rao_of v))) (\<lambda>deposit.
     io_bind (io_bind (sn_read snapshot ''owned_hotkeys'' (coldkey_param coldkey))
       (\<lambda>v. io_lift (string_tuple (tn_repr env) ''owned hotkeys'' v))) (\<lambda>owned.
     io_bind (io_map (read_registration snapshot) roles) (\<lambda>registrations.
     io_return \<lparr>vr_endpoint = endpoint, vr_block = block, vr_info_number = info_number, vr_block_hash = block_hash,
       vr_pinned = (snapshot_block = block \<and> info_number = Some block), vr_balance = balance, vr_cost = cost,
       vr_deposit = deposit, vr_owned_hotkeys = owned, vr_registrations = rev registrations\<rparr>))))))))))))"

definition provision_gates_of :: "identity_manifest \<Rightarrow> provision_role list \<Rightarrow> provision_reads \<Rightarrow> provision_gates" where
  "provision_gates_of m roles v =
     \<lparr>vg_canonical_endpoint = (vr_endpoint v = TESTNET_ENDPOINT), vg_snapshot_pinned = vr_pinned v, vg_identities_valid = True,
      vg_dedicated_wallet_only = (im_wallet_alias m = PROVISION_WALLET_ALIAS),
      vg_exact_role_count = (length (im_validators m) = 3 \<and> length (im_miners m) = 10),
      vg_public_hotkeys_unique = distinct (map pv_hotkey_ss58 roles),
      vg_owner_is_validator_00 = (pv_alias (hd roles) = OWNER_HOTKEY_ALIAS),
      vg_coldkey_has_no_owned_hotkeys = (vr_owned_hotkeys v = []),
      vg_all_hotkeys_unregistered = list_all (\<lambda>r. pv_registered_netuids r = []) roles,
      vg_coldkey_balance_positive = (0 < vr_balance v),
      vg_balance_within_total_budget = (0 < vr_balance v \<and> vr_balance v \<le> MAX_TESTNET_BUDGET_RAO),
      vg_creation_wallet_balance_within_exposure_cap = (vr_balance v \<le> MAX_CREATION_WALLET_BALANCE_RAO),
      vg_subnet_cost_snapshot_within_review_cap = (vr_cost v \<le> MAX_SUBNET_CREATION_REVIEW_COST_RAO),
      vg_can_cover_snapshot_cost_deposit_and_fee_cap = (vr_cost v + vr_deposit v + MAX_TRANSACTION_FEE_RAO \<le> vr_balance v)\<rparr>"

definition provision_errors :: "provision_reads \<Rightarrow> string list" where
  "provision_errors v =
     (if vr_endpoint v = TESTNET_ENDPOINT then [] else [''SDK resolved an unexpected endpoint; provisioning is denied''])
     @ (if provision_block_hash_ok (Some (vr_block_hash v)) then [] else [''testnet returned an invalid block hash''])"

definition provision_next_action :: "provision_role list \<Rightarrow> provision_reads \<Rightarrow> string" where
  "provision_next_action roles v =
     (if provision_errors v \<noteq> [] \<or> vr_endpoint v \<noteq> TESTNET_ENDPOINT \<or> \<not> vr_pinned v
      then ''Stop: restore canonical pinned testnet reads and rerun.''
      else if vr_owned_hotkeys v \<noteq> [] \<or> list_ex (\<lambda>r. pv_registered_netuids r \<noteq> []) roles
      then ''Stop: reconcile existing ownership or registrations; do not create again.''
      else if vr_balance v = 0 then ''Obtain the approved test TAO allocation, then rerun this plan.''
      else if MAX_TESTNET_BUDGET_RAO < vr_balance v
      then ''Stop: balance exceeds the approved 5 test TAO project budget.''
      else if MAX_CREATION_WALLET_BALANCE_RAO < vr_balance v
      then ''Stop: staged creation-wallet balance exceeds 1.260001 test TAO.''
      else if MAX_SUBNET_CREATION_REVIEW_COST_RAO < vr_cost v
      then ''Stop: subnet creation snapshot exceeds the 1.25 test TAO review cap.''
      else if vr_balance v < vr_cost v + vr_deposit v + MAX_TRANSACTION_FEE_RAO
      then ''Obtain enough test TAO to cover the snapshot cost, deposit, and estimated-fee policy cap.''
      else ''Review this plan and explicitly authorize its digest before signing.'')"

definition burn_registrations :: "provision_role list \<Rightarrow> int" where
  "burn_registrations roles = sum_list (map (\<lambda>r. if pv_requires_burn_registration r then 1 else 0) roles)"

definition provision_report ::
  "('w, 'b) testnet_scheme \<Rightarrow> identity_manifest \<Rightarrow> provision_role list \<Rightarrow> provision_reads \<Rightarrow> int \<Rightarrow> provision_plan" where
  "provision_report env m roles v spec =
     (let gates = provision_gates_of m roles v; errors = provision_errors v in
      \<lparr>pp_read_only = True, pp_transaction_constructed = False, pp_signature_requested = False, pp_network = ''test'',
       pp_endpoint = vr_endpoint v, pp_sdk_version = tn_sdk_version env, pp_block = Some (vr_block v),
       pp_block_hash = (if vr_block_hash v = [] then None else Some (vr_block_hash v)),
       pp_runtime_spec_version = Some spec, pp_wallet_alias = PROVISION_WALLET_ALIAS, pp_coldkey_ss58 = im_coldkey_ss58 m,
       pp_owner_hotkey_alias = OWNER_HOTKEY_ALIAS, pp_owner_hotkey_ss58 = ie_hotkey_ss58 (hd (im_validators m)),
       pp_coldkey_owned_hotkeys = vr_owned_hotkeys v, pp_roles = roles,
       pp_subnet_creation_cost_rao = Some (vr_cost v), pp_subnet_creation_cost_tao = Some (tao_string (vr_cost v)),
       pp_existential_deposit_rao = Some (vr_deposit v), pp_existential_deposit_tao = Some (tao_string (vr_deposit v)),
       pp_coldkey_balance_rao = Some (vr_balance v), pp_coldkey_balance_tao = Some (tao_string (vr_balance v)),
       pp_max_testnet_budget_rao = MAX_TESTNET_BUDGET_RAO,
       pp_max_subnet_creation_review_cost_rao = MAX_SUBNET_CREATION_REVIEW_COST_RAO,
       pp_max_transaction_fee_rao = MAX_TRANSACTION_FEE_RAO,
       pp_max_creation_wallet_balance_rao = MAX_CREATION_WALLET_BALANCE_RAO,
       pp_onchain_creation_cost_limit_available = False,
       pp_burn_registrations_after_creation = burn_registrations roles, pp_gates = gates,
       pp_ready = (all_provision_gates gates \<and> errors = []), pp_plan_digest = None,
       pp_next_action = provision_next_action roles v, pp_limitations = provision_limitations, pp_errors = errors\<rparr>)"

definition closed_provision_gates :: provision_gates where
  "closed_provision_gates = \<lparr>vg_canonical_endpoint = False, vg_snapshot_pinned = False, vg_identities_valid = False,
     vg_dedicated_wallet_only = False, vg_exact_role_count = False, vg_public_hotkeys_unique = False,
     vg_owner_is_validator_00 = False, vg_coldkey_has_no_owned_hotkeys = False, vg_all_hotkeys_unregistered = False,
     vg_coldkey_balance_positive = False, vg_balance_within_total_budget = False,
     vg_creation_wallet_balance_within_exposure_cap = False, vg_subnet_cost_snapshot_within_review_cap = False,
     vg_can_cover_snapshot_cost_deposit_and_fee_cap = False\<rparr>"

definition provision_failure ::
  "('w, 'b) testnet_scheme \<Rightarrow> identity_manifest \<Rightarrow> provision_role list \<Rightarrow> pyerr \<Rightarrow> provision_plan" where
  "provision_failure env m roles e =
     \<lparr>pp_read_only = True, pp_transaction_constructed = False, pp_signature_requested = False, pp_network = ''test'',
      pp_endpoint = TESTNET_ENDPOINT, pp_sdk_version = tn_sdk_version env, pp_block = None, pp_block_hash = None,
      pp_runtime_spec_version = None, pp_wallet_alias = PROVISION_WALLET_ALIAS, pp_coldkey_ss58 = im_coldkey_ss58 m,
      pp_owner_hotkey_alias = OWNER_HOTKEY_ALIAS, pp_owner_hotkey_ss58 = ie_hotkey_ss58 (hd (im_validators m)),
      pp_coldkey_owned_hotkeys = [], pp_roles = roles, pp_subnet_creation_cost_rao = None,
      pp_subnet_creation_cost_tao = None, pp_existential_deposit_rao = None, pp_existential_deposit_tao = None,
      pp_coldkey_balance_rao = None, pp_coldkey_balance_tao = None,
      pp_max_testnet_budget_rao = MAX_TESTNET_BUDGET_RAO,
      pp_max_subnet_creation_review_cost_rao = MAX_SUBNET_CREATION_REVIEW_COST_RAO,
      pp_max_transaction_fee_rao = MAX_TRANSACTION_FEE_RAO,
      pp_max_creation_wallet_balance_rao = MAX_CREATION_WALLET_BALANCE_RAO,
      pp_onchain_creation_cost_limit_available = False,
      pp_burn_registrations_after_creation = burn_registrations roles, pp_gates = closed_provision_gates,
      pp_ready = False, pp_plan_digest = None,
      pp_next_action = ''Stop: restore canonical read-only testnet state and rerun.'',
      pp_limitations = provision_limitations,
      pp_errors = [''read-only provisioning plan failed: '' @ error_name e]\<rparr>"

text \<open>
  The body of the \<open>try\<close>. The local variable \<open>roles\<close> is rebound once the registrations are
  known, so a failure after that point reports the new roles: the inner handler.
\<close>

definition provision_body ::
  "('w, 'b) testnet_scheme \<Rightarrow> identity_manifest \<Rightarrow> 'w testnet_client \<Rightarrow> ('w, provision_plan) io" where
  "provision_body env m client =
     io_bind (read_provision env (im_coldkey_ss58 m) (provision_roles m []) client) (\<lambda>v.
     (let roles = provision_roles m (vr_registrations v) in
      io_catch
        (io_bind (cl_spec_version client) (\<lambda>spec.
         (let report = provision_report env m roles v spec in
          io_return (report\<lparr>pp_plan_digest := Some (provision_digest report)\<rparr>))))
        (\<lambda>e. io_return (provision_failure env m roles e))))"

definition collect_testnet_provision_plan :: "'w provision_env \<Rightarrow> ('w, provision_plan) io" where
  "collect_testnet_provision_plan env =
     io_bind (io_lift (ensure_supported_network ''test'')) (\<lambda>_.
     io_bind (load_public_identities (tn_read_identities env) (tn_decode_identities env)) (\<lambda>m.
     with_client (tn_client env) cl_close (provision_body env m) (provision_failure env m (provision_roles m []))))"

section \<open>Facts\<close>

lemma pad_digits_9: "n < 10 ^ 9 \<Longrightarrow> length (pad_digits 9 n) = 9"
  using nat_str_length_le [of n 8] by (simp add: pad_digits_def)

lemma str_nat_pad [simp]: "str_nat (pad_digits k n) = n"
  by (simp add: pad_digits_def str_nat_append)

lemma pad_digits_digit: "c \<in> set (pad_digits k n) \<Longrightarrow> is_digit c"
  using nat_str_digits by (auto simp: pad_digits_def char_class_defs)

lemma rstrip_char_append:
  assumes "\<exists>x \<in> set t. x \<noteq> c"
  shows "rstrip_char c (s @ t) = s @ rstrip_char c t"
proof -
  from assms obtain x where "x \<in> set (rev t)" "\<not> x = c" by auto
  then have "dropWhile (\<lambda>d. d = c) (rev t @ rev s) = dropWhile (\<lambda>d. d = c) (rev t) @ rev s"
    by (rule dropWhile_append1)
  then show ?thesis by (simp add: rstrip_char_def)
qed

text \<open>The rendering of an amount determines it.\<close>

lemma tao_string_split:
  assumes "rao mod 1000000000 \<noteq> 0"
  shows "tao_string rao = int_str (rao div 1000000000) @ ''.'' @ rstrip_char (CHR ''0'') (pad_digits 9 (nat (rao mod 1000000000)))"
proof -
  let ?p = "pad_digits 9 (nat (rao mod 1000000000))"
  have "\<exists>x \<in> set ?p. x \<noteq> CHR ''0''"
  proof (rule ccontr)
    assume "\<not> ?thesis"
    then have "?p = replicate (length ?p) (CHR ''0'')" by (intro replicate_eqI) auto
    then have "str_nat ?p = 0" by (metis str_nat_zeros)
    then show False using assms by (simp add: nat_eq_iff)
  qed
  from rstrip_char_append [OF this, of "int_str (rao div 1000000000) @ ''.''"]
  show ?thesis using assms by (simp add: tao_string_def Let_def)
qed

lemma tao_string_inject: "tao_string a = tao_string b \<longleftrightarrow> a = b"
proof
  let ?w = "\<lambda>x. x div 1000000000 :: int" and ?f = "\<lambda>x. x mod 1000000000 :: int"
  let ?p = "\<lambda>x. pad_digits 9 (nat (?f x))"
  assume eq: "tao_string a = tao_string b"
  have dot: "CHR ''.'' \<notin> set (int_str i)" for i
    using nat_str_digits by (auto simp: int_str_def char_class_defs dest: nat_str_digits)
  have whole: "takeWhile (\<lambda>c. c \<noteq> CHR ''.'') (tao_string x) = int_str (?w x)" for x
  proof (cases "?f x = 0")
    case True
    then show ?thesis using dot [of "?w x"] by (auto simp: tao_string_def takeWhile_eq_all_conv)
  next
    case False
    have "takeWhile (\<lambda>c. c \<noteq> CHR ''.'') (int_str (?w x) @ ''.'' @ t) = int_str (?w x)" for t
      using dot [of "?w x"] by (subst takeWhile_append2) auto
    then show ?thesis by (simp only: tao_string_split [OF False])
  qed
  have len: "length (?p x) = 9" for x by (rule pad_digits_9) (simp add: nat_less_iff)
  have fraction: "str_nat (rstrip_char (CHR ''0'') (?p x)) * 10 ^ (9 - length (rstrip_char (CHR ''0'') (?p x))) = nat (?f x)" for x
  proof -
    obtain n where n: "?p x = rstrip_char (CHR ''0'') (?p x) @ replicate n (CHR ''0'')" using rstrip_split by blast
    have "nat (?f x) = str_nat (rstrip_char (CHR ''0'') (?p x)) * 10 ^ n"
      using arg_cong [OF n, of str_nat] by (simp add: str_nat_append)
    moreover have "9 - length (rstrip_char (CHR ''0'') (?p x)) = n" using arg_cong [OF n, of length] len [of x] by simp
    ultimately show ?thesis by simp
  qed
  have "?w a = ?w b" using arg_cong [OF eq, of "takeWhile (\<lambda>c. c \<noteq> CHR ''.'')"] by (simp add: whole)
  moreover have "?f a = ?f b"
  proof (cases "?f a = 0 \<or> ?f b = 0")
    case True
    have has: "CHR ''.'' \<in> set (tao_string x) \<longleftrightarrow> ?f x \<noteq> 0" for x
    proof (cases "?f x = 0")
      case False
      show ?thesis by (simp add: tao_string_split [OF False] False)
    qed (simp add: tao_string_def dot)
    show ?thesis using True has [of a] has [of b] eq by auto
  next
    case False
    then have "rstrip_char (CHR ''0'') (?p a) = rstrip_char (CHR ''0'') (?p b)"
      using eq \<open>?w a = ?w b\<close> by (simp add: tao_string_split)
    then have "nat (?f a) = nat (?f b)" using fraction [of a] fraction [of b] by metis
    then show ?thesis by simp
  qed
  ultimately show "a = b" by (metis div_mult_mod_eq)
qed simp

end
