(* ===== verification/ProvisionSubmission.thy ===== *)
theory ProvisionSubmission
  imports TestnetProvisioning TestnetSubmission
begin

text \<open>
  The digest-authorized subnet creation of \<open>planrace/testnet_provisioning_submission.py\<close>: a saved
  plan is validated and authorized, a fresh plan must validate too and be equivalent, the wallet
  must hold both public keys, and then the SDK is called once. The receipt carries a digest of
  its own, and a saved receipt is validated before it is read back.
\<close>

definition PROVISION_SUBMISSION_SCHEMA :: string where
  "PROVISION_SUBMISSION_SCHEMA = ''planrace/testnet-provision-submission/1''"

record provision_receipt =
  vt_schema_version :: string
  vt_network :: string
  vt_endpoint :: string
  vt_sdk_version :: string
  vt_source_plan_digest :: string
  vt_source_block :: int
  vt_pre_submit_block :: int
  vt_pre_submit_block_hash :: string
  vt_runtime_spec_version :: int
  vt_wallet_alias :: string
  vt_coldkey_ss58 :: string
  vt_owner_hotkey_alias :: string
  vt_owner_hotkey_ss58 :: string
  vt_creation_cost_snapshot_rao :: int
  vt_creation_cost_snapshot_tao :: string
  vt_wallet_balance_rao :: int \<comment> \<open>\<open>authorized_wallet_balance_snapshot_rao\<close>\<close>
  vt_wallet_balance_tao :: string
  vt_max_transaction_fee_rao :: int
  vt_onchain_creation_cost_limit_available :: bool
  vt_dynamic_cost_acknowledged :: bool
  vt_transaction_constructed :: bool
  vt_signature_requested :: bool
  vt_sdk_reported_success :: bool
  vt_netuid :: int
  vt_registration_mode :: "string option"
  vt_actual_price_rao :: "int option" \<comment> \<open>\<open>actual_registration_price_rao\<close>\<close>
  vt_actual_price_tao :: "string option"
  vt_review_cap_exceeded :: "bool option" \<comment> \<open>\<open>snapshot_review_cap_exceeded_at_inclusion\<close>\<close>
  vt_including_block_hash :: "string option"
  vt_extrinsic_id :: "string option"
  vt_explorer_url :: "string option"
  vt_fee_tao :: "string option"
  vt_submitted_at :: string
  vt_requires_finalized_readback :: bool
  vt_evidence_complete :: bool
  vt_receipt_digest :: "string option"
  vt_next_action :: string

text \<open>The wallet's two public keys, the fresh plan, the SDK call and the clock are parameters.\<close>

record ('w, 'k) creation_env =
  ce_repr :: "pyval \<Rightarrow> string result"
  ce_plan_collector :: "('w, provision_plan) io"
  ce_wallet_factory :: "string \<Rightarrow> string \<Rightarrow> ('w, 'k) io"
  ce_coldkey_ss58 :: "'k \<Rightarrow> string"
  ce_hotkey_ss58 :: "'k \<Rightarrow> string"
  ce_submitter :: "'k \<Rightarrow> string \<Rightarrow> ('w, extrinsic_result) io"
  ce_clock :: "('w, string) io"

record creation_request =
  cq_authorize_plan_digest :: string
  cq_acknowledge_dynamic_cost :: bool
  cq_wallet_alias :: string
  cq_owner_hotkey_alias :: string
  cq_max_plan_age_blocks :: int

section \<open>Freshness\<close>

definition same_provision_state :: "provision_plan \<Rightarrow> provision_plan \<Rightarrow> bool" where
  "same_provision_state source fresh \<longleftrightarrow>
     pp_endpoint source = pp_endpoint fresh
     \<and> pp_sdk_version source = pp_sdk_version fresh
     \<and> pp_network source = pp_network fresh
     \<and> pp_runtime_spec_version source = pp_runtime_spec_version fresh
     \<and> pp_wallet_alias source = pp_wallet_alias fresh
     \<and> pp_coldkey_ss58 source = pp_coldkey_ss58 fresh
     \<and> pp_owner_hotkey_alias source = pp_owner_hotkey_alias fresh
     \<and> pp_owner_hotkey_ss58 source = pp_owner_hotkey_ss58 fresh
     \<and> pp_roles source = pp_roles fresh
     \<and> pp_coldkey_owned_hotkeys source = pp_coldkey_owned_hotkeys fresh
     \<and> pp_subnet_creation_cost_rao source = pp_subnet_creation_cost_rao fresh
     \<and> pp_existential_deposit_rao source = pp_existential_deposit_rao fresh
     \<and> pp_coldkey_balance_rao source = pp_coldkey_balance_rao fresh
     \<and> pp_max_testnet_budget_rao source = pp_max_testnet_budget_rao fresh
     \<and> pp_max_subnet_creation_review_cost_rao source = pp_max_subnet_creation_review_cost_rao fresh
     \<and> pp_max_transaction_fee_rao source = pp_max_transaction_fee_rao fresh
     \<and> pp_max_creation_wallet_balance_rao source = pp_max_creation_wallet_balance_rao fresh
     \<and> pp_onchain_creation_cost_limit_available source = pp_onchain_creation_cost_limit_available fresh
     \<and> pp_burn_registrations_after_creation source = pp_burn_registrations_after_creation fresh
     \<and> pp_gates source = pp_gates fresh"

definition require_fresh_provision_plan :: "provision_plan \<Rightarrow> provision_plan \<Rightarrow> int \<Rightarrow> unit result" where
  "require_fresh_provision_plan source fresh max_plan_age_blocks =
     rbind (validated_provision_plan_digest fresh) (\<lambda>_.
     (case (pp_block source, pp_block fresh) of
        (Some b, Some b') \<Rightarrow>
          (let age = b' - b in
           rbind (rcheck (\<not> (age < 0 \<or> max_plan_age_blocks < age))
             (ValueError (''provision plan is stale by '' @ int_str age @ '' blocks; authorize a fresh plan''))) (\<lambda>_.
           rcheck (same_provision_state source fresh)
             (ValueError ''testnet ownership, registration, balance, or price changed after approval'')))
      | _ \<Rightarrow> Inl (ValueError ''provision plan has no chain block'')))"

definition optional_nonnegative_int :: "pyval \<Rightarrow> int option result" where
  "optional_nonnegative_int v =
     rbind (optional_int v) (\<lambda>i. Inr (case i of None \<Rightarrow> None | Some n \<Rightarrow> if 0 \<le> n then Some n else None))"

section \<open>The receipt and its digest\<close>

definition receipt_payload :: "provision_receipt \<Rightarrow> jval" where
  "receipt_payload r = VObj [
     (''schema_version'', VStr (vt_schema_version r)), (''network'', VStr (vt_network r)), (''endpoint'', VStr (vt_endpoint r)),
     (''sdk_version'', VStr (vt_sdk_version r)), (''source_plan_digest'', VStr (vt_source_plan_digest r)),
     (''source_block'', VInt (vt_source_block r)), (''pre_submit_block'', VInt (vt_pre_submit_block r)),
     (''pre_submit_block_hash'', VStr (vt_pre_submit_block_hash r)),
     (''runtime_spec_version'', VInt (vt_runtime_spec_version r)), (''wallet_alias'', VStr (vt_wallet_alias r)),
     (''coldkey_ss58'', VStr (vt_coldkey_ss58 r)), (''owner_hotkey_alias'', VStr (vt_owner_hotkey_alias r)),
     (''owner_hotkey_ss58'', VStr (vt_owner_hotkey_ss58 r)),
     (''creation_cost_snapshot_rao'', VInt (vt_creation_cost_snapshot_rao r)),
     (''creation_cost_snapshot_tao'', VStr (vt_creation_cost_snapshot_tao r)),
     (''authorized_wallet_balance_snapshot_rao'', VInt (vt_wallet_balance_rao r)),
     (''authorized_wallet_balance_snapshot_tao'', VStr (vt_wallet_balance_tao r)),
     (''max_transaction_fee_rao'', VInt (vt_max_transaction_fee_rao r)),
     (''onchain_creation_cost_limit_available'', VBool (vt_onchain_creation_cost_limit_available r)),
     (''dynamic_cost_acknowledged'', VBool (vt_dynamic_cost_acknowledged r)),
     (''transaction_constructed'', VBool (vt_transaction_constructed r)),
     (''signature_requested'', VBool (vt_signature_requested r)),
     (''sdk_reported_success'', VBool (vt_sdk_reported_success r)), (''netuid'', VInt (vt_netuid r)),
     (''registration_mode'', vopt VStr (vt_registration_mode r)),
     (''actual_registration_price_rao'', vopt VInt (vt_actual_price_rao r)),
     (''actual_registration_price_tao'', vopt VStr (vt_actual_price_tao r)),
     (''snapshot_review_cap_exceeded_at_inclusion'', vopt VBool (vt_review_cap_exceeded r)),
     (''including_block_hash'', vopt VStr (vt_including_block_hash r)), (''extrinsic_id'', vopt VStr (vt_extrinsic_id r)),
     (''explorer_url'', vopt VStr (vt_explorer_url r)), (''fee_tao'', vopt VStr (vt_fee_tao r)),
     (''submitted_at'', VStr (vt_submitted_at r)),
     (''requires_finalized_readback'', VBool (vt_requires_finalized_readback r)),
     (''evidence_complete'', VBool (vt_evidence_complete r))]"

definition receipt_digest :: "provision_receipt \<Rightarrow> string" where
  "receipt_digest r = payload_digest (receipt_payload r)"

definition receipt_within_boundary :: "provision_receipt \<Rightarrow> bool" where
  "receipt_within_boundary r \<longleftrightarrow> vt_network r = ''test'' \<and> vt_endpoint r = TESTNET_ENDPOINT
     \<and> vt_wallet_alias r = PROVISION_WALLET_ALIAS \<and> vt_owner_hotkey_alias r = OWNER_HOTKEY_ALIAS
     \<and> \<not> vt_onchain_creation_cost_limit_available r \<and> vt_dynamic_cost_acknowledged r \<and> vt_transaction_constructed r
     \<and> vt_signature_requested r \<and> vt_sdk_reported_success r \<and> vt_requires_finalized_readback r
     \<and> \<not> vt_evidence_complete r \<and> vt_max_transaction_fee_rao r = MAX_TRANSACTION_FEE_RAO"

definition snapshot_amounts_ok :: "provision_receipt \<Rightarrow> bool" where
  "snapshot_amounts_ok r \<longleftrightarrow> 0 \<le> vt_creation_cost_snapshot_rao r \<and> 0 < vt_wallet_balance_rao r
     \<and> vt_wallet_balance_rao r \<le> MAX_CREATION_WALLET_BALANCE_RAO
     \<and> vt_creation_cost_snapshot_tao r = tao_string (vt_creation_cost_snapshot_rao r)
     \<and> vt_wallet_balance_tao r = tao_string (vt_wallet_balance_rao r)"

definition check_actual_price :: "provision_receipt \<Rightarrow> unit result" where
  "check_actual_price r =
     (case vt_actual_price_rao r of
        None \<Rightarrow> rcheck (vt_actual_price_tao r = None \<and> vt_review_cap_exceeded r = None)
          (ValueError ''provision receipt has an inconsistent actual price'')
      | Some price \<Rightarrow> rcheck (0 \<le> price \<and> vt_actual_price_tao r = Some (tao_string price)
            \<and> vt_review_cap_exceeded r = Some (MAX_SUBNET_CREATION_REVIEW_COST_RAO < price))
          (ValueError ''provision receipt contains an inconsistent actual price''))"

definition validated_provision_receipt_digest :: "provision_receipt \<Rightarrow> string result" where
  "validated_provision_receipt_digest r =
     rbind (rcheck (receipt_within_boundary r)
       (ValueError ''provision receipt violates the fixed testnet safety boundary'')) (\<lambda>_.
     rbind (rcheck (0 < vt_netuid r \<and> vt_netuid r \<le> MAX_NETUID \<and> 0 \<le> vt_source_block r \<and> 0 \<le> vt_pre_submit_block r)
       (ValueError ''provision receipt contains an invalid chain location'')) (\<lambda>_.
     rbind (rcheck (vt_source_block r \<le> vt_pre_submit_block r)
       (ValueError ''provision receipt source block is later than its pre-submit block'')) (\<lambda>_.
     rbind (rcheck (provision_block_hash_ok (Some (vt_pre_submit_block_hash r)))
       (ValueError ''provision receipt contains an invalid pre-submit block hash'')) (\<lambda>_.
     rbind (rcheck (vt_including_block_hash r \<noteq> None)
       (ValueError ''provision receipt is missing its finalized including block hash'')) (\<lambda>_.
     rbind (rcheck (provision_block_hash_ok (vt_including_block_hash r))
       (ValueError ''provision receipt contains an invalid including block hash'')) (\<lambda>_.
     rbind (rcheck (vt_extrinsic_id r \<noteq> None \<and> vt_extrinsic_id r \<noteq> Some [])
       (ValueError ''provision receipt is missing its extrinsic identifier'')) (\<lambda>_.
     rbind (rcheck (starts_with ''sha256:'' (vt_source_plan_digest r) \<and> py_len (vt_source_plan_digest r) = 71)
       (ValueError ''provision receipt contains an invalid source digest'')) (\<lambda>_.
     rbind (validate_public_ss58 (vt_coldkey_ss58 r)) (\<lambda>_.
     rbind (validate_public_ss58 (vt_owner_hotkey_ss58 r)) (\<lambda>_.
     rbind (rcheck (vt_coldkey_ss58 r \<noteq> vt_owner_hotkey_ss58 r)
       (ValueError ''provision receipt reuses its coldkey as the owner hotkey'')) (\<lambda>_.
     rbind (rcheck (snapshot_amounts_ok r) (ValueError ''provision receipt contains invalid snapshot amounts'')) (\<lambda>_.
     rbind (rcheck (vt_registration_mode r \<in> {None, Some ''immediate'', Some ''queued''})
       (ValueError ''provision receipt contains an invalid registration mode'')) (\<lambda>_.
     rbind (check_actual_price r) (\<lambda>_.
     case vt_receipt_digest r of
       None \<Rightarrow> Inl (ValueError ''provision receipt has no digest'')
     | Some digest \<Rightarrow>
         rbind (rcheck (digest = receipt_digest r) (ValueError ''provision receipt digest mismatch'')) (\<lambda>_.
         Inr (receipt_digest r))))))))))))))))"

definition load_testnet_provision_receipt ::
  "('w, bytes) io \<Rightarrow> (bytes \<Rightarrow> provision_receipt result) \<Rightarrow> ('w, provision_receipt) io" where
  "load_testnet_provision_receipt read_bytes decode =
     io_try (io_bind read_bytes (\<lambda>data. io_lift (decode data)))
       (\<lambda>e. case e of
            OSError _ \<Rightarrow> io_raise (ValueError (''cannot read provision receipt: '' @ error_name e))
          | ValueError _ \<Rightarrow> io_raise (ValueError ''provision receipt schema validation failed'')
          | _ \<Rightarrow> io_raise e)
       (\<lambda>r. io_bind (io_lift (validated_provision_receipt_digest r)) (\<lambda>_. io_return r))"

section \<open>Submission\<close>

text \<open>The checks before the chain is read again.\<close>

definition authorize_creation :: "provision_plan \<Rightarrow> creation_request \<Rightarrow> string result" where
  "authorize_creation source q =
     rbind (ensure_supported_network ''test'') (\<lambda>_.
     rbind (validated_provision_plan_digest source) (\<lambda>digest.
     rbind (rcheck (cq_authorize_plan_digest q = digest)
       (ValueError ''authorized digest does not match the saved provision plan'')) (\<lambda>_.
     rbind (rcheck (cq_acknowledge_dynamic_cost q)
       (ValueError ''runtime price has no on-chain limit; explicitly acknowledge execution-block risk'')) (\<lambda>_.
     rbind (rcheck (cq_wallet_alias q = PROVISION_WALLET_ALIAS \<and> cq_owner_hotkey_alias q = OWNER_HOTKEY_ALIAS)
       (ValueError ''submission is pinned to planrace-testnet and validator-00'')) (\<lambda>_.
     rbind (rcheck (\<not> (cq_max_plan_age_blocks q < 1 \<or> 24 < cq_max_plan_age_blocks q))
       (ValueError ''max plan age must be between 1 and 24 blocks'')) (\<lambda>_.
     Inr digest))))))"

record creation_coordinates =
  cc_block :: int
  cc_block_hash :: string
  cc_runtime :: int
  cc_cost :: int
  cc_balance :: int

definition creation_coordinates_of :: "provision_plan \<Rightarrow> creation_coordinates result" where
  "creation_coordinates_of fresh =
     (case (pp_block fresh, pp_block_hash fresh, pp_runtime_spec_version fresh, pp_subnet_creation_cost_rao fresh,
            pp_coldkey_balance_rao fresh) of
        (Some b, Some h, Some v, Some c, Some m) \<Rightarrow>
          rbind (rcheck (m \<le> MAX_TESTNET_BUDGET_RAO)
            (ValueError ''fresh wallet exposure exceeds the approved testnet budget'')) (\<lambda>_.
          Inr \<lparr>cc_block = b, cc_block_hash = h, cc_runtime = v, cc_cost = c, cc_balance = m\<rparr>)
      | _ \<Rightarrow> Inl (ValueError ''fresh provision plan has incomplete chain coordinates''))"

text \<open>Everything before the SDK call.\<close>

definition prepare_creation ::
  "('w, 'k) creation_env \<Rightarrow> provision_plan \<Rightarrow> creation_request
    \<Rightarrow> ('w, string \<times> provision_plan \<times> creation_coordinates \<times> 'k) io" where
  "prepare_creation env source q =
     io_bind (io_lift (authorize_creation source q)) (\<lambda>digest.
     io_bind (ce_plan_collector env) (\<lambda>fresh.
     io_bind (io_lift (require_fresh_provision_plan source fresh (cq_max_plan_age_blocks q))) (\<lambda>_.
     io_bind (io_lift (creation_coordinates_of fresh)) (\<lambda>c.
     io_bind (ce_wallet_factory env (cq_wallet_alias q) (cq_owner_hotkey_alias q)) (\<lambda>wallet.
     if ce_coldkey_ss58 env wallet \<noteq> pp_coldkey_ss58 fresh
     then io_raise (ValueError ''local signing coldkey does not match the authorized plan'')
     else if ce_hotkey_ss58 env wallet \<noteq> pp_owner_hotkey_ss58 fresh
     then io_raise (ValueError ''local owner hotkey does not match the authorized plan'')
     else io_return (digest, fresh, c, wallet))))))"

text \<open>What the code takes from the SDK result, in the order it takes it.\<close>

record creation_outcome =
  co_netuid :: int
  co_actual_price :: "int option"
  co_registration_mode :: "string option"

definition data_get :: "(string, pyval) dict \<Rightarrow> string \<Rightarrow> pyval" where
  "data_get data k = (case map_of data k of Some v \<Rightarrow> v | None \<Rightarrow> PNone)"

definition creation_outcome_of :: "(pyval \<Rightarrow> string result) \<Rightarrow> (string, pyval) dict \<Rightarrow> creation_outcome result" where
  "creation_outcome_of repr_of data =
     rbind (optional_nonnegative_int (data_get data ''netuid'')) (\<lambda>netuid.
     case netuid of
       None \<Rightarrow> Inl (RuntimeError ''successful subnet creation result did not contain a non-root netuid'')
     | Some n \<Rightarrow>
         rbind (rcheck (0 < n \<and> n \<le> MAX_NETUID)
           (RuntimeError ''successful subnet creation result did not contain a non-root netuid'')) (\<lambda>_.
         rbind (optional_nonnegative_int (data_get data ''registration_price_rao'')) (\<lambda>price.
         rbind (case data_get data ''registration_mode'' of PNone \<Rightarrow> Inr None
           | v \<Rightarrow> rbind (py_str repr_of v) (\<lambda>s. Inr (Some s))) (\<lambda>mode.
         Inr \<lparr>co_netuid = n, co_actual_price = price, co_registration_mode = mode\<rparr>))))"

definition make_provision_receipt ::
  "provision_plan \<Rightarrow> creation_request \<Rightarrow> string \<Rightarrow> provision_plan \<Rightarrow> creation_coordinates \<Rightarrow> extrinsic_result
    \<Rightarrow> creation_outcome \<Rightarrow> string option \<Rightarrow> string \<Rightarrow> provision_receipt" where
  "make_provision_receipt source q digest fresh c result out fee now =
     \<lparr>vt_schema_version = PROVISION_SUBMISSION_SCHEMA, vt_network = ''test'', vt_endpoint = TESTNET_ENDPOINT,
      vt_sdk_version = pp_sdk_version fresh, vt_source_plan_digest = digest, vt_source_block = the (pp_block source),
      vt_pre_submit_block = cc_block c, vt_pre_submit_block_hash = cc_block_hash c,
      vt_runtime_spec_version = cc_runtime c, vt_wallet_alias = cq_wallet_alias q,
      vt_coldkey_ss58 = pp_coldkey_ss58 fresh, vt_owner_hotkey_alias = cq_owner_hotkey_alias q,
      vt_owner_hotkey_ss58 = pp_owner_hotkey_ss58 fresh, vt_creation_cost_snapshot_rao = cc_cost c,
      vt_creation_cost_snapshot_tao = tao_string (cc_cost c), vt_wallet_balance_rao = cc_balance c,
      vt_wallet_balance_tao = tao_string (cc_balance c), vt_max_transaction_fee_rao = MAX_TRANSACTION_FEE_RAO,
      vt_onchain_creation_cost_limit_available = False, vt_dynamic_cost_acknowledged = True,
      vt_transaction_constructed = True, vt_signature_requested = True, vt_sdk_reported_success = True,
      vt_netuid = co_netuid out, vt_registration_mode = co_registration_mode out,
      vt_actual_price_rao = co_actual_price out, vt_actual_price_tao = map_option tao_string (co_actual_price out),
      vt_review_cap_exceeded = map_option (\<lambda>p. pp_max_subnet_creation_review_cost_rao fresh < p) (co_actual_price out),
      vt_including_block_hash = er_block_hash result, vt_extrinsic_id = er_extrinsic_id result,
      vt_explorer_url = er_explorer_url result, vt_fee_tao = fee, vt_submitted_at = now,
      vt_requires_finalized_readback = True, vt_evidence_complete = False, vt_receipt_digest = None,
      vt_next_action = ''Verify the finalized subnet owner, validator-00 UID 0 binding, locked price, and extrinsic before any activation or additional registration.''\<rparr>"

definition seal_receipt :: "provision_receipt \<Rightarrow> provision_receipt" where
  "seal_receipt r = r\<lparr>vt_receipt_digest := Some (receipt_digest r)\<rparr>"

definition submit_testnet_provision_plan ::
  "('w, 'k) creation_env \<Rightarrow> provision_plan \<Rightarrow> creation_request \<Rightarrow> ('w, provision_receipt) io" where
  "submit_testnet_provision_plan env source q =
     io_bind (prepare_creation env source q) (\<lambda>(digest, fresh, c, wallet).
     io_bind (ce_submitter env wallet (pp_owner_hotkey_ss58 fresh)) (\<lambda>result.
     if \<not> er_success result
     then io_raise (RuntimeError ''Bittensor SDK reported unsuccessful testnet subnet creation'') else
     io_bind (io_lift (creation_outcome_of (ce_repr env) (er_data result))) (\<lambda>out.
     io_bind (io_lift (fee_tao (ce_repr env) (er_fee result))) (\<lambda>fee.
     io_bind (ce_clock env) (\<lambda>now.
     io_return (seal_receipt (make_provision_receipt source q digest fresh c result out fee now)))))))"

end
