(* ===== verification/ProvisionReadback.thy ===== *)
theory ProvisionReadback
  imports ProvisionSubmission
begin

text \<open>
  The finalized readback of \<open>planrace/testnet_provisioning_readback.py\<close>: a saved creation receipt is
  validated, the including block is looked up by the coordinate in its extrinsic id, and ownership,
  UID 0, registration block and locked price are compared at a finalized snapshot. The client
  is a record of steps; \<open>next\<close> of the finalized stream may raise, and the stream is closed
  when it can be.
\<close>

record provision_readback_gates =
  bg_canonical_endpoint :: bool
  bg_finalized_snapshot_pinned :: bool
  bg_readback_not_before_inclusion :: bool
  bg_including_block_hash_matches :: bool
  bg_including_extrinsic_index_valid :: bool
  bg_including_extrinsic_is_register_network :: bool
  bg_including_extrinsic_owner_hotkey_matches :: bool
  bg_subnet_exists :: bool
  bg_owner_coldkey_matches :: bool
  bg_owner_hotkey_matches :: bool
  bg_metagraph_owners_match_storage :: bool
  bg_owner_hotkey_is_uid_zero :: bool
  bg_owner_hotkey_registered_on_netuid :: bool
  bg_owner_hotkey_owned_by_coldkey :: bool
  bg_registration_block_plausible :: bool
  bg_locked_price_positive_and_receipt_consistent :: bool

record provision_readback =
  br_endpoint :: string
  br_sdk_version :: string
  br_runtime_spec_version :: "int option"
  br_source_receipt_digest :: string
  br_netuid :: int
  br_receipt_including_block :: "int option"
  br_receipt_including_block_hash :: "string option"
  br_including_extrinsic_index :: "int option"
  br_including_extrinsic_hash :: "string option"
  br_including_call_module :: "string option"
  br_including_call_function :: "string option"
  br_finalized_readback_block :: "int option"
  br_finalized_readback_block_hash :: "string option"
  br_network_registered_at :: "int option"
  br_subnet_locked_rao :: "int option"
  br_subnet_locked_tao :: "string option"
  br_owner_coldkey_ss58 :: "string option"
  br_owner_hotkey_ss58 :: "string option"
  br_uid_zero_hotkey_ss58 :: "string option"
  br_owner_hotkey_netuids :: "int list"
  br_coldkey_owned_hotkeys :: "string list"
  br_gates :: provision_readback_gates
  br_ready :: bool \<comment> \<open>\<open>ready_for_testnet_evidence\<close>\<close>
  br_next_action :: string
  br_limitations :: "string list"
  br_errors :: "string list"

text \<open>\<open>snapshot.query\<close> takes one of the five storage items of the subnet and its netuid.\<close>

datatype storage_item = NetworksAdded | SubnetOwner | SubnetOwnerHotkey | SubnetLocked | NetworkRegisteredAt

record 'w final_snapshot =
  fs_block :: "('w, int) io"
  fs_read :: "string \<Rightarrow> (string \<times> pyval) list \<Rightarrow> ('w, pyval) io"
  fs_query :: "storage_item \<Rightarrow> int \<Rightarrow> ('w, pyval) io"
  fs_block_info :: "('w, pyval) io"

record 'w header_stream =
  hs_next :: "('w, int) io" \<comment> \<open>\<open>int(next(stream).number)\<close>\<close>
  hs_close :: "('w, unit) io option"

record 'w final_client =
  fc_endpoint :: "('w, string) io"
  fc_spec_version :: "('w, int) io"
  fc_blocks :: "('w, 'w header_stream) io"
  fc_at :: "int \<Rightarrow> ('w, 'w final_snapshot) io"
  fc_close :: "('w, unit) io"

record 'w final_env =
  fe_repr :: "pyval \<Rightarrow> string result"
  fe_sdk_version :: string
  fe_client :: "('w, 'w final_client) io"

section \<open>Helpers\<close>

definition plain_strings :: "(pyval \<Rightarrow> string result) \<Rightarrow> pyval \<Rightarrow> string list result" where
  "plain_strings repr_of value =
     (case value of
        PSeq xs \<Rightarrow> rmap (py_str repr_of) xs
      | _ \<Rightarrow> Inl (ValueError ''testnet returned invalid owned hotkeys''))"

text \<open>\<open>extrinsic_id.partition("-")\<close>, two digit strings, and their \<open>int\<close>, which raises for digits
  such as superscripts.\<close>

definition including_coordinate :: "string option \<Rightarrow> (int \<times> int) option result" where
  "including_coordinate extrinsic_id =
     (case extrinsic_id of
        None \<Rightarrow> Inr None
      | Some s \<Rightarrow>
          if s = [] \<or> CHR ''-'' \<notin> set s then Inr None else
          (let height = takeWhile (\<lambda>c. c \<noteq> CHR ''-'') s; index = drop 1 (dropWhile (\<lambda>c. c \<noteq> CHR ''-'') s) in
           if \<not> isdigit height \<or> \<not> isdigit index then Inr None
           else rbind (int_of_text (number_text height)) (\<lambda>h.
             rbind (int_of_text (number_text index)) (\<lambda>i. Inr (Some (h, i))))))"

definition call_arg :: "pyval \<Rightarrow> string \<Rightarrow> pyval" where
  "call_arg call name =
     (case py_field call ''call_args'' (PSeq []) of
        PSeq arguments \<Rightarrow>
          (case find (\<lambda>a. case a of PMap kvs \<Rightarrow> map_get kvs (PStr ''name'') = Some (PStr name) | _ \<Rightarrow> False) arguments of
             Some (PMap kvs) \<Rightarrow> (case map_get kvs (PStr ''value'') of Some v \<Rightarrow> v | None \<Rightarrow> PNone)
           | _ \<Rightarrow> PNone)
      | _ \<Rightarrow> PNone)"

definition all_provision_readback_gates :: "provision_readback_gates \<Rightarrow> bool" where
  "all_provision_readback_gates g \<longleftrightarrow> bg_canonical_endpoint g \<and> bg_finalized_snapshot_pinned g
     \<and> bg_readback_not_before_inclusion g \<and> bg_including_block_hash_matches g
     \<and> bg_including_extrinsic_index_valid g \<and> bg_including_extrinsic_is_register_network g
     \<and> bg_including_extrinsic_owner_hotkey_matches g \<and> bg_subnet_exists g \<and> bg_owner_coldkey_matches g
     \<and> bg_owner_hotkey_matches g \<and> bg_metagraph_owners_match_storage g \<and> bg_owner_hotkey_is_uid_zero g
     \<and> bg_owner_hotkey_registered_on_netuid g \<and> bg_owner_hotkey_owned_by_coldkey g
     \<and> bg_registration_block_plausible g \<and> bg_locked_price_positive_and_receipt_consistent g"

definition closed_provision_readback_gates :: provision_readback_gates where
  "closed_provision_readback_gates = \<lparr>bg_canonical_endpoint = False, bg_finalized_snapshot_pinned = False,
     bg_readback_not_before_inclusion = False, bg_including_block_hash_matches = False,
     bg_including_extrinsic_index_valid = False, bg_including_extrinsic_is_register_network = False,
     bg_including_extrinsic_owner_hotkey_matches = False, bg_subnet_exists = False,
     bg_owner_coldkey_matches = False, bg_owner_hotkey_matches = False,
     bg_metagraph_owners_match_storage = False, bg_owner_hotkey_is_uid_zero = False,
     bg_owner_hotkey_registered_on_netuid = False, bg_owner_hotkey_owned_by_coldkey = False,
     bg_registration_block_plausible = False, bg_locked_price_positive_and_receipt_consistent = False\<rparr>"

section \<open>Reading\<close>

text \<open>\<open>try: number = int(next(stream).number)  finally: stream.close()\<close> if it has a close.\<close>

definition first_finalized :: "'w header_stream \<Rightarrow> ('w, int) io" where
  "first_finalized stream w =
     (case hs_next stream w of (r, w1) \<Rightarrow>
        (case hs_close stream of
           None \<Rightarrow> (r, w1)
         | Some close1 \<Rightarrow> (case close1 w1 of (Inl e, w2) \<Rightarrow> (Inl e, w2) | (Inr _, w2) \<Rightarrow> (r, w2))))"

text \<open>The extrinsic at the receipt's coordinate of the including block.\<close>

record inclusion =
  in_block_hash :: string
  in_index_valid :: bool
  in_extrinsic_hash :: string
  in_call_module :: string
  in_call_function :: string
  in_call_hotkey :: string

definition inclusion_of :: "(pyval \<Rightarrow> string result) \<Rightarrow> int \<Rightarrow> pyval \<Rightarrow> inclusion result" where
  "inclusion_of repr_of index info =
     rbind (py_str repr_of (py_field info ''hash'' (PStr []))) (\<lambda>block_hash.
     (let extrinsics = py_field info ''extrinsics'' (PSeq []);
          found = (case extrinsics of PSeq xs \<Rightarrow> if index < int (length xs) then Some (xs ! nat index) else None | _ \<Rightarrow> None);
          extrinsic = (case found of Some x \<Rightarrow> x | None \<Rightarrow> PNone);
          call = py_field extrinsic ''call'' (PMap []);
          hotkey = call_arg call ''hotkey'' in
     rbind (py_str repr_of (py_field extrinsic ''extrinsic_hash'' (PStr []))) (\<lambda>extrinsic_hash.
     rbind (py_str repr_of (py_field call ''call_module'' (PStr []))) (\<lambda>module.
     rbind (py_str repr_of (py_field call ''call_function'' (PStr []))) (\<lambda>function1.
     rbind (if py_truth hotkey then py_str repr_of hotkey else Inr []) (\<lambda>call_hotkey.
     Inr \<lparr>in_block_hash = block_hash, in_index_valid = (found \<noteq> None), in_extrinsic_hash = extrinsic_hash,
       in_call_module = module, in_call_function = function1, in_call_hotkey = call_hotkey\<rparr>))))))"

text \<open>What the finalized snapshot says of the subnet.\<close>

record ownership =
  ow_exists :: bool
  ow_owner_coldkey :: string
  ow_owner_hotkey :: string
  ow_locked :: "int option"
  ow_registered_at :: "int option"
  ow_graph_hotkeys :: "string list"
  ow_graph_owner_coldkey :: string
  ow_graph_owner_hotkey :: string
  ow_owner_netuids :: "int list"
  ow_owned_hotkeys :: "string list"

definition read_ownership :: "(pyval \<Rightarrow> string result) \<Rightarrow> provision_receipt \<Rightarrow> 'w final_snapshot \<Rightarrow> ('w, ownership) io" where
  "read_ownership repr_of receipt snapshot =
     (let text = (\<lambda>item. io_bind (fs_query snapshot item (vt_netuid receipt)) (\<lambda>v. io_lift (py_str repr_of v)));
          number = (\<lambda>item. io_bind (fs_query snapshot item (vt_netuid receipt)) (\<lambda>v. io_lift (optional_int v))) in
     io_bind (fs_query snapshot NetworksAdded (vt_netuid receipt)) (\<lambda>added.
     io_bind (text SubnetOwner) (\<lambda>owner_coldkey.
     io_bind (text SubnetOwnerHotkey) (\<lambda>owner_hotkey.
     io_bind (number SubnetLocked) (\<lambda>locked.
     io_bind (number NetworkRegisteredAt) (\<lambda>registered_at.
     io_bind (fs_read snapshot ''metagraph'' (netuid_param (vt_netuid receipt))) (\<lambda>metagraph.
     io_bind (io_lift (plain_strings repr_of (py_field metagraph ''hotkeys'' (PSeq [])))) (\<lambda>graph_hotkeys.
     io_bind (io_lift (py_str repr_of (py_field metagraph ''owner_coldkey'' (PStr [])))) (\<lambda>graph_coldkey.
     io_bind (io_lift (py_str repr_of (py_field metagraph ''owner_hotkey'' (PStr [])))) (\<lambda>graph_hotkey.
     io_bind (io_bind (fs_read snapshot ''netuids_for_hotkey'' [(''hotkey_ss58'', PStr (vt_owner_hotkey_ss58 receipt))])
       (\<lambda>v. io_lift (int_tuple ''hotkey netuids'' v))) (\<lambda>netuids.
     io_bind (io_bind (fs_read snapshot ''owned_hotkeys'' (coldkey_param (vt_coldkey_ss58 receipt)))
       (\<lambda>v. io_lift (plain_strings repr_of v))) (\<lambda>owned.
     io_return \<lparr>ow_exists = py_truth added, ow_owner_coldkey = owner_coldkey, ow_owner_hotkey = owner_hotkey,
       ow_locked = locked, ow_registered_at = registered_at, ow_graph_hotkeys = graph_hotkeys,
       ow_graph_owner_coldkey = graph_coldkey, ow_graph_owner_hotkey = graph_hotkey,
       ow_owner_netuids = netuids, ow_owned_hotkeys = owned\<rparr>))))))))))))"

definition price_consistent :: "provision_receipt \<Rightarrow> int option \<Rightarrow> bool" where
  "price_consistent receipt locked =
     (case locked of None \<Rightarrow> False
      | Some l \<Rightarrow> 0 < l \<and> (vt_actual_price_rao receipt = None \<or> vt_actual_price_rao receipt = Some l))"

record final_view =
  fv_endpoint :: string
  fv_block :: int
  fv_hash :: string
  fv_number :: "int option"
  fv_snapshot_block :: int

definition provision_readback_gates_of ::
  "provision_receipt \<Rightarrow> int \<Rightarrow> final_view \<Rightarrow> inclusion \<Rightarrow> ownership \<Rightarrow> provision_readback_gates" where
  "provision_readback_gates_of receipt included v i s =
     \<lparr>bg_canonical_endpoint = (fv_endpoint v = TESTNET_ENDPOINT),
      bg_finalized_snapshot_pinned = (fv_snapshot_block v = fv_block v \<and> fv_number v = Some (fv_block v)
        \<and> provision_block_hash_ok (Some (fv_hash v))),
      bg_readback_not_before_inclusion = (included \<le> fv_block v),
      bg_including_block_hash_matches = (Some (in_block_hash i) = vt_including_block_hash receipt),
      bg_including_extrinsic_index_valid = in_index_valid i,
      bg_including_extrinsic_is_register_network =
        (in_call_module i = ''SubtensorModule'' \<and> in_call_function i = ''register_network''),
      bg_including_extrinsic_owner_hotkey_matches = (in_call_hotkey i = vt_owner_hotkey_ss58 receipt),
      bg_subnet_exists = ow_exists s,
      bg_owner_coldkey_matches = (ow_owner_coldkey s = vt_coldkey_ss58 receipt),
      bg_owner_hotkey_matches = (ow_owner_hotkey s = vt_owner_hotkey_ss58 receipt),
      bg_metagraph_owners_match_storage =
        (ow_graph_owner_coldkey s = ow_owner_coldkey s \<and> ow_graph_owner_hotkey s = ow_owner_hotkey s),
      bg_owner_hotkey_is_uid_zero = (ow_graph_hotkeys s \<noteq> [] \<and> hd (ow_graph_hotkeys s) = vt_owner_hotkey_ss58 receipt),
      bg_owner_hotkey_registered_on_netuid = (vt_netuid receipt \<in> set (ow_owner_netuids s)),
      bg_owner_hotkey_owned_by_coldkey = (vt_owner_hotkey_ss58 receipt \<in> set (ow_owned_hotkeys s)),
      bg_registration_block_plausible = (case ow_registered_at s of None \<Rightarrow> False
        | Some b \<Rightarrow> vt_source_block receipt \<le> b \<and> b \<le> fv_block v),
      bg_locked_price_positive_and_receipt_consistent = price_consistent receipt (ow_locked s)\<rparr>"

section \<open>The report\<close>

definition provision_readback_limitations :: "string list" where
  "provision_readback_limitations =
     [''This verifies finalized public chain state, not control of the private keys.'',
      ''The receipt digest provides file integrity, not an independent trusted signature.'',
      ''Activation, Axon serving, additional registrations, and weights are separate evidence.'']"

definition nonempty :: "string \<Rightarrow> string option" where
  "nonempty s = (if s = [] then None else Some s)"

definition provision_readback_body ::
  "'w final_env \<Rightarrow> provision_receipt \<Rightarrow> string \<Rightarrow> int \<Rightarrow> int \<Rightarrow> 'w final_client \<Rightarrow> ('w, provision_readback) io" where
  "provision_readback_body env receipt digest included index client =
     io_bind (fc_endpoint client) (\<lambda>endpoint.
     io_bind (io_bind (fc_blocks client) first_finalized) (\<lambda>block.
     io_bind (fc_at client block) (\<lambda>snapshot.
     io_bind (fs_block_info snapshot) (\<lambda>info.
     io_bind (io_lift (py_str (fe_repr env) (py_field info ''hash'' (PStr [])))) (\<lambda>readback_hash.
     io_bind (io_lift (optional_int (py_field info ''number'' PNone))) (\<lambda>readback_number.
     io_bind (io_bind (fc_at client included) fs_block_info) (\<lambda>inclusion_info.
     io_bind (io_lift (inclusion_of (fe_repr env) index inclusion_info)) (\<lambda>i.
     io_bind (read_ownership (fe_repr env) receipt snapshot) (\<lambda>s.
     io_bind (fs_block snapshot) (\<lambda>snapshot_block.
     (let v = \<lparr>fv_endpoint = endpoint, fv_block = block, fv_hash = readback_hash, fv_number = readback_number,
            fv_snapshot_block = snapshot_block\<rparr>;
          gates = provision_readback_gates_of receipt included v i s; ready = all_provision_readback_gates gates in
     io_bind (fc_spec_version client) (\<lambda>spec.
     io_return \<lparr>br_endpoint = endpoint, br_sdk_version = fe_sdk_version env, br_runtime_spec_version = Some spec,
       br_source_receipt_digest = digest, br_netuid = vt_netuid receipt, br_receipt_including_block = Some included,
       br_receipt_including_block_hash = vt_including_block_hash receipt, br_including_extrinsic_index = Some index,
       br_including_extrinsic_hash = nonempty (in_extrinsic_hash i),
       br_including_call_module = nonempty (in_call_module i), br_including_call_function = nonempty (in_call_function i),
       br_finalized_readback_block = Some block, br_finalized_readback_block_hash = nonempty readback_hash,
       br_network_registered_at = ow_registered_at s, br_subnet_locked_rao = ow_locked s,
       br_subnet_locked_tao = map_option tao_string (ow_locked s),
       br_owner_coldkey_ss58 = nonempty (ow_owner_coldkey s), br_owner_hotkey_ss58 = nonempty (ow_owner_hotkey s),
       br_uid_zero_hotkey_ss58 = (if ow_graph_hotkeys s = [] then None else Some (hd (ow_graph_hotkeys s))),
       br_owner_hotkey_netuids = ow_owner_netuids s, br_coldkey_owned_hotkeys = ow_owned_hotkeys s,
       br_gates = gates, br_ready = ready,
       br_next_action = (if ready then ''Bind this finalized readback and receipt into the signed testnet manifest.''
         else ''Stop: reconcile the failed finalized ownership or receipt gates.''),
       br_limitations = provision_readback_limitations, br_errors = []\<rparr>)))))))))))) "

definition provision_readback_failure ::
  "'w final_env \<Rightarrow> provision_receipt \<Rightarrow> string \<Rightarrow> (int \<times> int) option \<Rightarrow> pyerr \<Rightarrow> provision_readback" where
  "provision_readback_failure env receipt digest coordinate e =
     \<lparr>br_endpoint = TESTNET_ENDPOINT, br_sdk_version = fe_sdk_version env, br_runtime_spec_version = None,
      br_source_receipt_digest = digest, br_netuid = vt_netuid receipt,
      br_receipt_including_block = map_option fst coordinate,
      br_receipt_including_block_hash = vt_including_block_hash receipt,
      br_including_extrinsic_index = map_option snd coordinate, br_including_extrinsic_hash = None,
      br_including_call_module = None, br_including_call_function = None, br_finalized_readback_block = None,
      br_finalized_readback_block_hash = None, br_network_registered_at = None, br_subnet_locked_rao = None,
      br_subnet_locked_tao = None, br_owner_coldkey_ss58 = None, br_owner_hotkey_ss58 = None,
      br_uid_zero_hotkey_ss58 = None, br_owner_hotkey_netuids = [], br_coldkey_owned_hotkeys = [],
      br_gates = closed_provision_readback_gates, br_ready = False,
      br_next_action = ''Stop: restore canonical finalized testnet reads and rerun.'',
      br_limitations = provision_readback_limitations,
      br_errors = [''finalized provision readback failed: '' @ error_name e]\<rparr>"

text \<open>Without a coordinate the body raises before a client is opened, which the handler reports.\<close>

definition verify_testnet_provision_readback :: "'w final_env \<Rightarrow> provision_receipt \<Rightarrow> ('w, provision_readback) io" where
  "verify_testnet_provision_readback env receipt =
     io_bind (io_lift (ensure_supported_network ''test'')) (\<lambda>_.
     io_bind (io_lift (validated_provision_receipt_digest receipt)) (\<lambda>digest.
     io_bind (io_lift (including_coordinate (vt_extrinsic_id receipt))) (\<lambda>coordinate.
     case coordinate of
       None \<Rightarrow> io_return (provision_readback_failure env receipt digest None
         (ValueError ''receipt extrinsic identifier has no block-index coordinate''))
     | Some (included, index) \<Rightarrow>
         with_client (fe_client env) fc_close (provision_readback_body env receipt digest included index)
           (provision_readback_failure env receipt digest coordinate))))"

end
