(* ===== verification/Provision_Properties.thy ===== *)
theory Provision_Properties
  imports ProvisionReadback Testnet_Samples
begin

text \<open>
  Properties of the subnet provisioning path: what a submission proves, that the collector and
  the validator of plans agree, which receipts pass their own validation, what a readback
  confirms, and that the rendering of an amount is exact.
\<close>

section \<open>Validated plans\<close>

lemma rmap_validate: "is_ok (rmap validate_public_ss58 xs) = list_all valid_ss58 xs"
  by (induction xs) (auto simp: is_ok_iff validate_public_ss58_def)

lemma rmap_validate_Inr: "rmap validate_public_ss58 xs = Inr ys \<longleftrightarrow> list_all valid_ss58 xs \<and> ys = xs"
  by (induction xs arbitrary: ys) (auto simp: validate_public_ss58_def rbind_eq_Inr)

definition roles_valid :: "provision_plan \<Rightarrow> bool" where
  "roles_valid r \<longleftrightarrow> length (pp_roles r) = 13 \<and> map pv_alias (pp_roles r) = validator_aliases @ miner_aliases
     \<and> list_all valid_ss58 (map pv_hotkey_ss58 (pp_roles r)) \<and> distinct (map pv_hotkey_ss58 (pp_roles r))
     \<and> pp_coldkey_ss58 r \<notin> set (map pv_hotkey_ss58 (pp_roles r))
     \<and> pp_owner_hotkey_ss58 r = hd (map pv_hotkey_ss58 (pp_roles r))
     \<and> list_all role_state_ok (List.enumerate 0 (pp_roles r))
     \<and> pp_coldkey_owned_hotkeys r = [] \<and> pp_burn_registrations_after_creation r = 12"

lemma check_provision_roles_iff: "check_provision_roles r = Inr () \<longleftrightarrow> roles_valid r"
  by (auto simp: check_provision_roles_def roles_valid_def rbind_eq_Inr rmap_validate_Inr Let_def
      EXPECTED_VALIDATORS_def EXPECTED_MINERS_def)

text \<open>A validated plan is the conjunction of all checks.\<close>

definition amounts_rendered :: "provision_plan \<Rightarrow> provision_coordinates \<Rightarrow> bool" where
  "amounts_rendered r c \<longleftrightarrow> pp_subnet_creation_cost_tao r = Some (tao_string (pc_cost c))
     \<and> pp_existential_deposit_tao r = Some (tao_string (pc_deposit c))
     \<and> pp_coldkey_balance_tao r = Some (tao_string (pc_balance c))"

lemma validated_provision_iff:
  "validated_provision_plan_digest r = Inr d \<longleftrightarrow> (\<exists>c. coordinates_of r = Inr c
     \<and> provision_block_hash_ok (pp_block_hash r) \<and> valid_ss58 (pp_coldkey_ss58 r) \<and> valid_ss58 (pp_owner_hotkey_ss58 r)
     \<and> within_safety_boundary r \<and> roles_valid r \<and> amounts_rendered r c
     \<and> pp_gates r = expected_provision_gates c \<and> pp_ready r \<and> pp_errors r = [] \<and> pp_read_only r
     \<and> \<not> pp_transaction_constructed r \<and> \<not> pp_signature_requested r \<and> all_provision_gates (pp_gates r)
     \<and> pp_plan_digest r = Some d \<and> d = provision_digest r)"
  by (auto simp: validated_provision_plan_digest_def rbind_eq_Inr check_provision_roles_iff amounts_rendered_def
      validate_public_ss58_def split: option.splits if_splits)

lemma coordinates_of_Inr:
  "coordinates_of r = Inr c \<longleftrightarrow> pp_block r = Some (pc_block c) \<and> pp_runtime_spec_version r = Some (pc_runtime c)
     \<and> pp_subnet_creation_cost_rao r = Some (pc_cost c) \<and> pp_existential_deposit_rao r = Some (pc_deposit c)
     \<and> pp_coldkey_balance_rao r = Some (pc_balance c) \<and> 0 \<le> pc_block c \<and> 0 \<le> pc_runtime c \<and> 0 \<le> pc_cost c
     \<and> 0 \<le> pc_deposit c \<and> 0 \<le> pc_balance c"
  by (cases c) (auto simp: coordinates_of_def split: option.splits if_splits)

lemma validated_balance:
  assumes "validated_provision_plan_digest r = Inr d" "coordinates_of r = Inr c"
  shows "0 < pc_balance c" "pc_balance c \<le> MAX_CREATION_WALLET_BALANCE_RAO"
    "pc_cost c \<le> MAX_SUBNET_CREATION_REVIEW_COST_RAO" "pc_cost c + pc_deposit c + MAX_TRANSACTION_FEE_RAO \<le> pc_balance c"
  using assms by (auto simp: validated_provision_iff all_provision_gates_def expected_provision_gates_def)

section \<open>Submission\<close>

lemma authorize_creation_Inr:
  "authorize_creation source q = Inr digest \<longleftrightarrow> validated_provision_plan_digest source = Inr digest
     \<and> cq_authorize_plan_digest q = digest \<and> cq_acknowledge_dynamic_cost q
     \<and> cq_wallet_alias q = PROVISION_WALLET_ALIAS \<and> cq_owner_hotkey_alias q = OWNER_HOTKEY_ALIAS
     \<and> 1 \<le> cq_max_plan_age_blocks q \<and> cq_max_plan_age_blocks q \<le> 24"
  by (auto simp: authorize_creation_def rbind_eq_Inr test_network)

definition fresh_provision :: "provision_plan \<Rightarrow> int \<Rightarrow> provision_plan \<Rightarrow> bool" where
  "fresh_provision source max_age fresh \<longleftrightarrow> is_ok (validated_provision_plan_digest fresh)
     \<and> same_provision_state source fresh
     \<and> (case (pp_block source, pp_block fresh) of (Some b, Some b') \<Rightarrow> b \<le> b' \<and> b' - b \<le> max_age | _ \<Rightarrow> False)"

lemma require_fresh_provision_iff: "require_fresh_provision_plan source fresh n = Inr () \<longleftrightarrow> fresh_provision source n fresh"
  by (auto simp: require_fresh_provision_plan_def fresh_provision_def rbind_eq_Inr Let_def is_ok_iff split: option.splits)

lemma prepare_creation_Inr:
  assumes "prepare_creation env source q w = (Inr (digest, fresh, c, wallet), u2)"
  obtains u0 u1 where "validated_provision_plan_digest source = Inr digest" "cq_authorize_plan_digest q = digest"
    "cq_acknowledge_dynamic_cost q" "cq_wallet_alias q = PROVISION_WALLET_ALIAS" "cq_owner_hotkey_alias q = OWNER_HOTKEY_ALIAS"
    "cq_max_plan_age_blocks q \<le> 24" "ce_plan_collector env w = (Inr fresh, u0)"
    "fresh_provision source (cq_max_plan_age_blocks q) fresh" "creation_coordinates_of fresh = Inr c"
    "ce_wallet_factory env PROVISION_WALLET_ALIAS OWNER_HOTKEY_ALIAS u0 = (Inr wallet, u1)"
    "ce_coldkey_ss58 env wallet = pp_coldkey_ss58 fresh" "ce_hotkey_ss58 env wallet = pp_owner_hotkey_ss58 fresh" "u2 = u1"
proof -
  from assms obtain u0 u1 where p: "authorize_creation source q = Inr digest" "ce_plan_collector env w = (Inr fresh, u0)"
    "require_fresh_provision_plan source fresh (cq_max_plan_age_blocks q) = Inr ()" "creation_coordinates_of fresh = Inr c"
    "ce_wallet_factory env (cq_wallet_alias q) (cq_owner_hotkey_alias q) u0 = (Inr wallet, u1)"
    "ce_coldkey_ss58 env wallet = pp_coldkey_ss58 fresh" "ce_hotkey_ss58 env wallet = pp_owner_hotkey_ss58 fresh" "u2 = u1"
    unfolding prepare_creation_def by (auto simp: io_bind_Inr split: if_splits)
  show thesis
    by (rule that [of u0 u1]) (use p in \<open>auto simp: authorize_creation_Inr require_fresh_provision_iff\<close>)
qed

lemma creation_coordinates_of_Inr:
  assumes "creation_coordinates_of fresh = Inr c"
  shows "pp_block fresh = Some (cc_block c)" "pp_block_hash fresh = Some (cc_block_hash c)"
    "pp_runtime_spec_version fresh = Some (cc_runtime c)" "pp_subnet_creation_cost_rao fresh = Some (cc_cost c)"
    "pp_coldkey_balance_rao fresh = Some (cc_balance c)"
  using assms by (auto simp: creation_coordinates_of_def rbind_eq_Inr split: option.splits)

lemma creation_outcome_Inr:
  assumes "creation_outcome_of f data = Inr out"
  shows "0 < co_netuid out" "co_netuid out \<le> MAX_NETUID" "case co_actual_price out of None \<Rightarrow> True | Some p \<Rightarrow> 0 \<le> p"
  using assms
  by (auto simp: creation_outcome_of_def rbind_eq_Inr optional_nonnegative_int_def split: option.splits if_splits)

lemma submit_creation_Inr:
  assumes "submit_testnet_provision_plan env source q w = (Inr receipt, w')"
  obtains digest fresh c wallet u result u' out fee now where
    "prepare_creation env source q w = (Inr (digest, fresh, c, wallet), u)"
    "ce_submitter env wallet (pp_owner_hotkey_ss58 fresh) u = (Inr result, u')" "er_success result"
    "creation_outcome_of (ce_repr env) (er_data result) = Inr out"
    "receipt = seal_receipt (make_provision_receipt source q digest fresh c result out fee now)"
proof -
  from assms show thesis
    unfolding submit_testnet_provision_plan_def
    by (auto simp: io_bind_Inr split: if_splits intro: that)
qed

text \<open>What has happened when the subnet is created, in terms of the saved plan.\<close>

lemma fresh_creation_facts:
  assumes "validated_provision_plan_digest source = Inr digest" "fresh_provision source n fresh" "creation_coordinates_of fresh = Inr c"
  shows "pp_coldkey_ss58 fresh = pp_coldkey_ss58 source" "pp_owner_hotkey_ss58 fresh = pp_owner_hotkey_ss58 source"
    "0 < cc_balance c" "cc_balance c \<le> MAX_CREATION_WALLET_BALANCE_RAO" "0 \<le> cc_cost c"
    "cc_cost c \<le> MAX_SUBNET_CREATION_REVIEW_COST_RAO" "0 \<le> the (pp_block source)" "the (pp_block source) \<le> cc_block c"
    "cc_block c - the (pp_block source) \<le> n" "provision_block_hash_ok (Some (cc_block_hash c))"
    "pp_max_subnet_creation_review_cost_rao fresh = MAX_SUBNET_CREATION_REVIEW_COST_RAO"
    "valid_ss58 (pp_coldkey_ss58 fresh)" "valid_ss58 (pp_owner_hotkey_ss58 fresh)"
    "pp_coldkey_ss58 fresh \<noteq> pp_owner_hotkey_ss58 fresh"
    "pp_subnet_creation_cost_rao source = Some (cc_cost c)" "pp_coldkey_balance_rao source = Some (cc_balance c)"
proof -
  obtain d where v: "validated_provision_plan_digest fresh = Inr d" using assms(2) by (auto simp: fresh_provision_def is_ok_iff)
  obtain p where p: "coordinates_of fresh = Inr p" "provision_block_hash_ok (pp_block_hash fresh)" "within_safety_boundary fresh"
    "roles_valid fresh" "valid_ss58 (pp_coldkey_ss58 fresh)" "valid_ss58 (pp_owner_hotkey_ss58 fresh)"
    using v by (auto simp: validated_provision_iff)
  obtain s where s: "coordinates_of source = Inr s" using assms(1) by (auto simp: validated_provision_iff)
  note c = creation_coordinates_of_Inr [OF assms(3)]
  have pc: "pc_cost p = cc_cost c" "pc_balance p = cc_balance c" "pc_block p = cc_block c" "0 \<le> pc_cost p"
    using p(1) c by (auto simp: coordinates_of_Inr)
  note b = validated_balance [OF v p(1)]
  show "0 < cc_balance c" "cc_balance c \<le> MAX_CREATION_WALLET_BALANCE_RAO" "0 \<le> cc_cost c"
    "cc_cost c \<le> MAX_SUBNET_CREATION_REVIEW_COST_RAO" using b pc by simp_all
  have st: "same_provision_state source fresh" using assms(2) by (simp add: fresh_provision_def)
  then show "pp_coldkey_ss58 fresh = pp_coldkey_ss58 source" "pp_owner_hotkey_ss58 fresh = pp_owner_hotkey_ss58 source"
    "pp_subnet_creation_cost_rao source = Some (cc_cost c)" "pp_coldkey_balance_rao source = Some (cc_balance c)"
    using c by (simp_all add: same_provision_state_def)
  show "0 \<le> the (pp_block source)" using s by (simp add: coordinates_of_Inr)
  show "the (pp_block source) \<le> cc_block c" "cc_block c - the (pp_block source) \<le> n"
    using assms(2) c(1) by (auto simp: fresh_provision_def split: option.splits)
  show "provision_block_hash_ok (Some (cc_block_hash c))" using p(2) c(2) by simp
  show "pp_max_subnet_creation_review_cost_rao fresh = MAX_SUBNET_CREATION_REVIEW_COST_RAO"
    using p(3) by (simp add: within_safety_boundary_def)
  show "valid_ss58 (pp_coldkey_ss58 fresh)" "valid_ss58 (pp_owner_hotkey_ss58 fresh)" using p by simp_all
  have "pp_owner_hotkey_ss58 fresh \<in> set (map pv_hotkey_ss58 (pp_roles fresh))"
  proof -
    have "pp_roles fresh \<noteq> []" using p(4) by (auto simp: roles_valid_def)
    then show ?thesis using p(4) by (simp add: roles_valid_def hd_map)
  qed
  then show "pp_coldkey_ss58 fresh \<noteq> pp_owner_hotkey_ss58 fresh" using p(4) by (auto simp: roles_valid_def)
qed

text \<open>When the preparation fails, at most the collector and then the wallet factory have run.\<close>

lemma prepare_creation_Inl:
  assumes "prepare_creation env source q w = (Inl e, w')"
  shows "w' = w \<or> w' = snd (ce_plan_collector env w)
    \<or> w' = snd (ce_wallet_factory env PROVISION_WALLET_ALIAS OWNER_HOTKEY_ALIAS (snd (ce_plan_collector env w)))"
proof (cases "authorize_creation source q")
  case (Inr digest)
  obtain fresh u0 where f: "ce_plan_collector env w = (fresh, u0)" by fastforce
  obtain wallet u1 where c: "ce_wallet_factory env PROVISION_WALLET_ALIAS OWNER_HOTKEY_ALIAS u0 = (wallet, u1)" by fastforce
  have a: "cq_wallet_alias q = PROVISION_WALLET_ALIAS" "cq_owner_hotkey_alias q = OWNER_HOTKEY_ALIAS"
    using Inr by (simp_all add: authorize_creation_Inr)
  show ?thesis
    using assms unfolding prepare_creation_def by (auto simp: io_bind_def a f c Inr split: sum.splits if_splits)
qed (use assms in \<open>simp add: prepare_creation_def io_bind_def\<close>)

text \<open>After a call of the SDK that returned, only the clock is read, and only after a success.\<close>

lemma create_after_call:
  assumes "submit_testnet_provision_plan env source q w = (r, w')" "prepare_creation env source q w = (p, u1)"
    and "p = Inr a" "a = (digest, fresh, c, wallet)"
    and "ce_submitter env wallet (pp_owner_hotkey_ss58 fresh) u1 = (result, u2)" and "result = Inr x"
  shows "case r of
      Inl e \<Rightarrow> (if er_success x then w' = u2 \<or> w' = snd (ce_clock env u2)
         else w' = u2 \<and> e = RuntimeError ''Bittensor SDK reported unsuccessful testnet subnet creation'')
    | Inr receipt \<Rightarrow> er_success x \<and> w' = snd (ce_clock env u2)
         \<and> (\<exists>out fee now. creation_outcome_of (ce_repr env) (er_data x) = Inr out
              \<and> receipt = seal_receipt (make_provision_receipt source q digest fresh c x out fee now))"
proof -
  have "(if \<not> er_success x then io_raise (RuntimeError ''Bittensor SDK reported unsuccessful testnet subnet creation'') else
     io_bind (io_lift (creation_outcome_of (ce_repr env) (er_data x))) (\<lambda>out.
     io_bind (io_lift (fee_tao (ce_repr env) (er_fee x))) (\<lambda>fee.
     io_bind (ce_clock env) (\<lambda>now.
     io_return (seal_receipt (make_provision_receipt source q digest fresh c x out fee now)))))) u2 = (r, w')"
    using assms(1) unfolding submit_testnet_provision_plan_def io_bind_def [of "prepare_creation env source q"]
      assms(2-4) prod.case sum.case io_bind_def [of "ce_submitter _ _ _"] assms(5,6) .
  then show ?thesis by (auto simp: io_bind_def split: if_splits sum.splits prod.splits)
qed

text \<open>C18: The subnet is created at most once and only under authorization. Either the submission raises
  before the SDK call, with the world as it was, or as the plan collector, or the wallet factory
  after it, left it; or all of this holds: the saved plan validates and has the authorized
  digest, and the dynamic cost was acknowledged; a plan collected after that validates too,
  agrees in the whole chain state, and is at most the permitted number of blocks (never more
  than 24) younger; the wallet was opened under the fixed aliases after that, and its two keys
  are the plan's; the wallet holds no more than the exposure cap and the cost snapshot is within
  the review cap; the SDK is called in the world the wallet factory left, and the submission ends
  in the world that one call left, except that after a success the clock is read once. An error
  of the SDK is passed on, an unsuccessful result is reported as the error it is, and a receipt
  is only returned for a success with a non-root subnet and names the authorized plan.\<close>

theorem provision_submission_is_authorized:
  "case submit_testnet_provision_plan env source q w of (r, w') \<Rightarrow>
     (\<exists>e. r = Inl e \<and> (let collected = snd (ce_plan_collector env w) in
        w' = w \<or> w' = collected \<or> w' = snd (ce_wallet_factory env PROVISION_WALLET_ALIAS OWNER_HOTKEY_ALIAS collected)))
     \<or> (\<exists>fresh wallet u0 u1 u2 result.
          validated_provision_plan_digest source = Inr (cq_authorize_plan_digest q) \<and> cq_acknowledge_dynamic_cost q
        \<and> ce_plan_collector env w = (Inr fresh, u0) \<and> fresh_provision source (min 24 (cq_max_plan_age_blocks q)) fresh
        \<and> ce_wallet_factory env PROVISION_WALLET_ALIAS OWNER_HOTKEY_ALIAS u0 = (Inr wallet, u1)
        \<and> ce_coldkey_ss58 env wallet = pp_coldkey_ss58 source \<and> ce_hotkey_ss58 env wallet = pp_owner_hotkey_ss58 source
        \<and> the (pp_coldkey_balance_rao source) \<le> MAX_CREATION_WALLET_BALANCE_RAO
        \<and> the (pp_subnet_creation_cost_rao source) \<le> MAX_SUBNET_CREATION_REVIEW_COST_RAO
        \<and> ce_submitter env wallet (pp_owner_hotkey_ss58 source) u1 = (result, u2)
        \<and> (case (result, r) of
             (Inl e, _) \<Rightarrow> r = Inl e \<and> w' = u2
           | (Inr x, Inl e) \<Rightarrow> (if er_success x then w' = u2 \<or> w' = snd (ce_clock env u2)
               else w' = u2 \<and> e = RuntimeError ''Bittensor SDK reported unsuccessful testnet subnet creation'')
           | (Inr x, Inr receipt) \<Rightarrow> er_success x \<and> w' = snd (ce_clock env u2)
               \<and> 0 < vt_netuid receipt \<and> vt_netuid receipt \<le> MAX_NETUID
               \<and> vt_source_plan_digest receipt = cq_authorize_plan_digest q))"
proof (cases "prepare_creation env source q w")
  case (Pair p u1)
  obtain r w' where s: "submit_testnet_provision_plan env source q w = (r, w')" by fastforce
  show ?thesis
  proof (cases p)
    case (Inl e)
    then have "r = Inl e" "w' = u1" using s Pair by (simp_all add: submit_testnet_provision_plan_def io_bind_def)
    then show ?thesis
      unfolding s prod.case Let_def using prepare_creation_Inl [OF Pair [unfolded Inl]] by blast
  next
    case (Inr a)
    obtain digest fresh c wallet where a: "a = (digest, fresh, c, wallet)" by (cases a)
    obtain u0 u1' where f: "validated_provision_plan_digest source = Inr digest" "cq_authorize_plan_digest q = digest"
      "cq_acknowledge_dynamic_cost q" "cq_max_plan_age_blocks q \<le> 24" "ce_plan_collector env w = (Inr fresh, u0)"
      "fresh_provision source (cq_max_plan_age_blocks q) fresh" "creation_coordinates_of fresh = Inr c"
      "ce_wallet_factory env PROVISION_WALLET_ALIAS OWNER_HOTKEY_ALIAS u0 = (Inr wallet, u1')"
      "ce_coldkey_ss58 env wallet = pp_coldkey_ss58 fresh" "ce_hotkey_ss58 env wallet = pp_owner_hotkey_ss58 fresh" "u1 = u1'"
      by (rule prepare_creation_Inr [OF Pair [unfolded Inr a]]) (rule that)
    note k = fresh_creation_facts [OF f(1,6,7)]
    obtain result u2 where sub: "ce_submitter env wallet (pp_owner_hotkey_ss58 source) u1 = (result, u2)" by fastforce
    have tail: "case (result, r) of (Inl e, _) \<Rightarrow> r = Inl e \<and> w' = u2
        | (Inr x, Inl e) \<Rightarrow> (if er_success x then w' = u2 \<or> w' = snd (ce_clock env u2)
            else w' = u2 \<and> e = RuntimeError ''Bittensor SDK reported unsuccessful testnet subnet creation'')
        | (Inr x, Inr receipt) \<Rightarrow> er_success x \<and> w' = snd (ce_clock env u2)
            \<and> 0 < vt_netuid receipt \<and> vt_netuid receipt \<le> MAX_NETUID
            \<and> vt_source_plan_digest receipt = cq_authorize_plan_digest q"
    proof (cases result)
      case (Inl e)
      then show ?thesis using s Pair Inr a sub k(2) \<open>p = Inr a\<close> by (simp add: submit_testnet_provision_plan_def io_bind_def)
    next
      case x: (Inr x)
      from create_after_call [OF s Pair \<open>p = Inr a\<close> a sub [folded k(2)] x] show ?thesis
        using f(2) x creation_outcome_Inr(1,2)
        by (cases r) (auto simp: seal_receipt_def make_provision_receipt_def)
    qed
    have "fresh_provision source (min 24 (cq_max_plan_age_blocks q)) fresh" using f(4,6) by simp
    then show ?thesis using s f k sub tail by (intro case_prodI2) auto
  qed
qed

section \<open>Receipts\<close>

lemma py_len_digest: "py_len (''sha256:'' @ sha256_hex m) = 71" "starts_with ''sha256:'' (''sha256:'' @ sha256_hex m)"
proof -
  have plain: "\<not> is_continuation c" if "is_lower_hex c" for c
    using that by (auto simp: is_continuation_def char_class_defs)
  have "filter (\<lambda>c. \<not> is_continuation c) (sha256_hex m) = sha256_hex m"
    using sha256_hex_lower_hex plain by (auto simp: filter_id_conv)
  then show "py_len (''sha256:'' @ sha256_hex m) = 71" by (simp add: py_len_def is_continuation_def)
  show "starts_with ''sha256:'' (''sha256:'' @ sha256_hex m)" by (simp add: starts_with_def)
qed

text \<open>C20: A receipt is only as good as the coordinates the SDK returned: the receipt of a submission
  passes the validation that the readback demands exactly when the SDK gave a well-formed
  including block hash, a non-empty extrinsic id and a known registration mode; everything else
  the validator checks holds by construction.\<close>

theorem creation_receipt_validates:
  "case submit_testnet_provision_plan env source q w of
     (Inl _, _) \<Rightarrow> True
   | (Inr receipt, _) \<Rightarrow> is_ok (validated_provision_receipt_digest receipt) \<longleftrightarrow>
       provision_block_hash_ok (vt_including_block_hash receipt)
       \<and> (case vt_extrinsic_id receipt of None \<Rightarrow> False | Some x \<Rightarrow> x \<noteq> [])
       \<and> (case vt_registration_mode receipt of None \<Rightarrow> True | Some m \<Rightarrow> m = ''immediate'' \<or> m = ''queued'')"
proof (cases "submit_testnet_provision_plan env source q w")
  case (Pair r w')
  show ?thesis
  proof (cases r)
    case (Inr receipt)
    obtain digest fresh c wallet u result u' out fee now where
      g: "prepare_creation env source q w = (Inr (digest, fresh, c, wallet), u)"
      "creation_outcome_of (ce_repr env) (er_data result) = Inr out"
      "receipt = seal_receipt (make_provision_receipt source q digest fresh c result out fee now)"
      by (rule submit_creation_Inr [OF Pair [unfolded Inr]]) (rule that)
    have f: "validated_provision_plan_digest source = Inr digest" "fresh_provision source (cq_max_plan_age_blocks q) fresh"
      "creation_coordinates_of fresh = Inr c" "cq_wallet_alias q = PROVISION_WALLET_ALIAS" "cq_owner_hotkey_alias q = OWNER_HOTKEY_ALIAS"
      by (rule prepare_creation_Inr [OF g(1)], assumption)+
    note k = fresh_creation_facts [OF f(1-3)] and o = creation_outcome_Inr [OF g(2)]
    let ?r = "make_provision_receipt source q digest fresh c result out fee now"
    have digest: "starts_with ''sha256:'' digest" "py_len digest = 71"
    proof -
      have "digest = ''sha256:'' @ sha256_hex (dumps (provision_payload source))"
        using f(1) unfolding validated_provision_iff provision_digest_def payload_digest_def by blast
      then show "starts_with ''sha256:'' digest" "py_len digest = 71" by (simp_all only: py_len_digest)
    qed
    have seal: "vt_receipt_digest (seal_receipt x) = Some (receipt_digest (seal_receipt x))" for x
      by (simp add: seal_receipt_def receipt_digest_def receipt_payload_def)
    have flags: "receipt_within_boundary receipt" "0 < vt_netuid receipt" "vt_netuid receipt \<le> MAX_NETUID"
      "0 \<le> vt_source_block receipt" "vt_source_block receipt \<le> vt_pre_submit_block receipt"
      "provision_block_hash_ok (Some (vt_pre_submit_block_hash receipt))" "vt_source_plan_digest receipt = digest"
      "valid_ss58 (vt_coldkey_ss58 receipt)" "valid_ss58 (vt_owner_hotkey_ss58 receipt)"
      "vt_coldkey_ss58 receipt \<noteq> vt_owner_hotkey_ss58 receipt" "snapshot_amounts_ok receipt"
      using k o f(4,5) by (simp_all add: g(3) seal_receipt_def make_provision_receipt_def receipt_within_boundary_def
          snapshot_amounts_ok_def)
    have sealed: "vt_receipt_digest receipt = Some (receipt_digest receipt)" by (simp only: g(3) seal)
    have price: "check_actual_price receipt = Inr ()"
      using o(3) k(11) by (auto simp: g(3) check_actual_price_def seal_receipt_def make_provision_receipt_def split: option.splits)
    have "0 \<le> vt_pre_submit_block receipt" using flags(4,5) by simp
    moreover have "provision_block_hash_ok h \<Longrightarrow> h \<noteq> None" for h by (cases h) (simp_all add: provision_block_hash_ok_def)
    ultimately have "is_ok (validated_provision_receipt_digest receipt) \<longleftrightarrow>
       provision_block_hash_ok (vt_including_block_hash receipt)
       \<and> vt_extrinsic_id receipt \<noteq> None \<and> vt_extrinsic_id receipt \<noteq> Some []
       \<and> vt_registration_mode receipt \<in> {None, Some ''immediate'', Some ''queued''}"
      using flags digest price sealed
      by (auto simp: is_ok_iff validated_provision_receipt_digest_def rbind_eq_Inr validate_public_ss58_def split: if_splits)
    then show ?thesis using Pair Inr by (auto split: option.splits)
  qed (use Pair in simp)
qed

section \<open>Readback\<close>

lemma receipt_digest_Inr:
  "validated_provision_receipt_digest receipt = Inr d \<Longrightarrow> d = receipt_digest receipt \<and> vt_receipt_digest receipt = Some d"
  by (auto simp: validated_provision_receipt_digest_def rbind_eq_Inr split: option.splits)

text \<open>What a report of the body was computed from.\<close>

definition report_of :: "'w final_env \<Rightarrow> provision_receipt \<Rightarrow> string \<Rightarrow> int \<Rightarrow> int \<Rightarrow> 'w final_client \<Rightarrow> provision_readback
    \<Rightarrow> final_view \<Rightarrow> pyval \<Rightarrow> inclusion \<Rightarrow> 'w final_snapshot \<Rightarrow> ownership \<Rightarrow> bool" where
  "report_of env receipt digest included index client r v info i snapshot s \<longleftrightarrow>
     returns (io_bind (fc_blocks client) first_finalized) (fv_block v) \<and> returns (fc_at client (fv_block v)) snapshot
     \<and> returns (io_bind (fc_at client included) fs_block_info) info \<and> inclusion_of (fe_repr env) index info = Inr i
     \<and> returns (read_ownership (fe_repr env) receipt snapshot) s
     \<and> br_gates r = provision_readback_gates_of receipt included v i s
     \<and> br_ready r = all_provision_readback_gates (provision_readback_gates_of receipt included v i s)
     \<and> br_endpoint r = fv_endpoint v
     \<and> br_source_receipt_digest r = digest \<and> br_receipt_including_block r = Some included
     \<and> br_including_extrinsic_index r = Some index \<and> br_finalized_readback_block r = Some (fv_block v)
     \<and> br_uid_zero_hotkey_ss58 r = (if ow_graph_hotkeys s = [] then None else Some (hd (ow_graph_hotkeys s)))
     \<and> br_owner_hotkey_netuids r = ow_owner_netuids s \<and> br_coldkey_owned_hotkeys r = ow_owned_hotkeys s
     \<and> br_network_registered_at r = ow_registered_at s \<and> br_subnet_locked_rao r = ow_locked s
     \<and> (if br_ready r then True
        else br_next_action r = ''Stop: reconcile the failed finalized ownership or receipt gates.'')"

lemma provision_readback_body_report:
  "io_all (provision_readback_body env receipt digest included index client)
     (\<lambda>r. \<exists>v info i snapshot s. report_of env receipt digest included index client r v info i snapshot s)"
  unfolding provision_readback_body_def Let_def
  apply (rule io_all_bind, rule io_all_bind_returns, rule io_all_bind_returns, rule io_all_bind, rule io_all_bind, rule io_all_bind)
  apply (rule io_all_bind_returns, rule io_all_bind_returns, rule io_all_bind_returns, rule io_all_bind, rule io_all_bind)
  subgoal for endpoint block snapshot info hash number inclusion_info i s snapshot_block spec
    by (rule io_all_return, rule exI [of _ "\<lparr>fv_endpoint = endpoint, fv_block = block, fv_hash = hash,
        fv_number = number, fv_snapshot_block = snapshot_block\<rparr>"], rule exI [of _ inclusion_info], rule exI [of _ i],
        rule exI [of _ snapshot], rule exI [of _ s])
      (auto simp: report_of_def returns_def)
  done

text \<open>C21: A readback that is ready for evidence confirms the creation: the receipt validates under the
  reported digest; its extrinsic id names a block at which the canonical chain has the receipt's
  block hash and, at the named index, the call that registers a network for the owner hotkey;
  and a finalized snapshot not before it, on the canonical endpoint, has the subnet owned by the
  receipt's coldkey and hotkey, in storage and metagraph alike, with the owner as UID 0, the
  registration inside the window of the receipt and a positive locked price equal to the
  reported one.\<close>

theorem provision_readback_confirms:
  "case verify_testnet_provision_readback env receipt w of
     (Inl _, _) \<Rightarrow> True
   | (Inr r, _) \<Rightarrow> (if br_ready r then
       validated_provision_receipt_digest receipt = Inr (br_source_receipt_digest r) \<and> br_endpoint r = TESTNET_ENDPOINT
       \<and> (\<exists>client u block included index info i snapshot s. fe_client env w = (Inr client, u)
          \<and> including_coordinate (vt_extrinsic_id receipt) = Inr (Some (included, index))
          \<and> returns (io_bind (fc_at client included) fs_block_info) info \<and> inclusion_of (fe_repr env) index info = Inr i
          \<and> Some (in_block_hash i) = vt_including_block_hash receipt \<and> in_index_valid i
          \<and> in_call_module i = ''SubtensorModule'' \<and> in_call_function i = ''register_network''
          \<and> in_call_hotkey i = vt_owner_hotkey_ss58 receipt
          \<and> returns (io_bind (fc_blocks client) first_finalized) block \<and> included \<le> block
          \<and> returns (fc_at client block) snapshot \<and> returns (read_ownership (fe_repr env) receipt snapshot) s
          \<and> ow_exists s \<and> ow_owner_coldkey s = vt_coldkey_ss58 receipt \<and> ow_owner_hotkey s = vt_owner_hotkey_ss58 receipt
          \<and> ow_graph_owner_coldkey s = vt_coldkey_ss58 receipt \<and> ow_graph_owner_hotkey s = vt_owner_hotkey_ss58 receipt
          \<and> ow_graph_hotkeys s \<noteq> [] \<and> hd (ow_graph_hotkeys s) = vt_owner_hotkey_ss58 receipt
          \<and> vt_netuid receipt \<in> set (ow_owner_netuids s) \<and> vt_owner_hotkey_ss58 receipt \<in> set (ow_owned_hotkeys s)
          \<and> (case ow_registered_at s of None \<Rightarrow> False | Some b \<Rightarrow> vt_source_block receipt \<le> b \<and> b \<le> block)
          \<and> price_consistent receipt (ow_locked s))
     else br_next_action r \<noteq> ''Bind this finalized readback and receipt into the signed testnet manifest.'')"
proof (cases "verify_testnet_provision_readback env receipt w")
  case (Pair x w')
  show ?thesis
  proof (cases x)
    case (Inr r)
    from Pair [unfolded Inr] obtain digest coordinate where d: "validated_provision_receipt_digest receipt = Inr digest"
      and c: "including_coordinate (vt_extrinsic_id receipt) = Inr coordinate"
      and r: "(case coordinate of None \<Rightarrow> io_return (provision_readback_failure env receipt digest None
           (ValueError ''receipt extrinsic identifier has no block-index coordinate''))
         | Some (included, index) \<Rightarrow> with_client (fe_client env) fc_close
             (provision_readback_body env receipt digest included index)
             (provision_readback_failure env receipt digest coordinate)) w = (Inr r, w')"
      by (auto simp: verify_testnet_provision_readback_def io_bind_Inr)
    have closed: "\<not> br_ready (provision_readback_failure env receipt digest k e)"
      "br_next_action (provision_readback_failure env receipt digest k e)
         \<noteq> ''Bind this finalized readback and receipt into the signed testnet manifest.''" for k e
      by (simp_all add: provision_readback_failure_def)
    show ?thesis
    proof (cases coordinate)
      case None
      then have "r = provision_readback_failure env receipt digest None
          (ValueError ''receipt extrinsic identifier has no block-index coordinate'')" using r by simp
      then have "\<not> br_ready r" "br_next_action r \<noteq> ''Bind this finalized readback and receipt into the signed testnet manifest.''"
        using closed by metis+
      then show ?thesis using Pair Inr by simp
    next
      case (Some k)
      obtain included index where k: "k = (included, index)" by (cases k)
      from r have "with_client (fe_client env) fc_close (provision_readback_body env receipt digest included index)
          (provision_readback_failure env receipt digest coordinate) w = (Inr r, w')" by (simp add: Some k)
      then consider e where "r = provision_readback_failure env receipt digest coordinate e"
        | client w1 y w2 where "fe_client env w = (Inr client, w1)" "provision_readback_body env receipt digest included index client w1 = (y, w2)"
          "r = (case y of Inl e \<Rightarrow> provision_readback_failure env receipt digest coordinate e | Inr z \<Rightarrow> z)"
        unfolding with_client_Inr by blast
      then consider e where "r = provision_readback_failure env receipt digest coordinate e"
        | client w1 w2 where "fe_client env w = (Inr client, w1)" "provision_readback_body env receipt digest included index client w1 = (Inr r, w2)"
        by cases (auto split: sum.splits)
      then show ?thesis
      proof cases
        case (1 e)
        then have "\<not> br_ready r" "br_next_action r \<noteq> ''Bind this finalized readback and receipt into the signed testnet manifest.''"
          using closed by metis+
        then show ?thesis using Pair Inr by simp
      next
        case (2 client w1 w2)
        obtain v info i snapshot s where b: "report_of env receipt digest included index client r v info i snapshot s"
          using io_allD [OF provision_readback_body_report 2(2)] by blast
        show ?thesis
        proof (cases "br_ready r")
          case True
          then have g: "all_provision_readback_gates (provision_readback_gates_of receipt included v i s)"
            using b by (simp add: report_of_def)
          note g = g [unfolded all_provision_readback_gates_def provision_readback_gates_of_def provision_readback_gates.simps]
          show ?thesis
            unfolding Pair Inr prod.case sum.case if_P [OF True]
          proof (intro conjI)
            show "validated_provision_receipt_digest receipt = Inr (br_source_receipt_digest r)" "br_endpoint r = TESTNET_ENDPOINT"
              using b d g by (simp_all add: report_of_def)
          qed (rule exI [of _ client], rule exI [of _ w1], rule exI [of _ "fv_block v"], rule exI [of _ included],
              rule exI [of _ index], rule exI [of _ info], rule exI [of _ i], rule exI [of _ snapshot], rule exI [of _ s],
              use b c Some k g 2(1) in \<open>simp add: report_of_def\<close>)
        next
          case False
          then show ?thesis using Pair Inr b by (simp add: report_of_def)
        qed
      qed
    qed
  qed (use Pair in simp)
qed

section \<open>Collected plans\<close>

lemma check_identities_Inr:
  "check_identities m = Inr () \<longleftrightarrow> valid_ss58 (im_coldkey_ss58 m) \<and> length (im_validators m) = 3 \<and> length (im_miners m) = 10
     \<and> map ie_name (im_validators m) = validator_aliases \<and> map ie_name (im_miners m) = miner_aliases
     \<and> list_all valid_ss58 (manifest_hotkeys m) \<and> distinct (manifest_hotkeys m)
     \<and> im_coldkey_ss58 m \<notin> set (manifest_hotkeys m)
     \<and> \<not> (is_mainnet_authorized (im_security m) \<or> is_mnemonic_or_private_key_in_repository (im_security m)
         \<or> is_keyfile_mode (im_security m) \<noteq> ''0600'' \<or> is_wallet_directory_mode (im_security m) \<noteq> ''0700'')"
  by (auto simp: check_identities_def rbind_eq_Inr rmap_validate_Inr validate_public_ss58_def EXPECTED_VALIDATORS_def
      EXPECTED_MINERS_def split: if_splits)

lemma load_public_identities_Inr: "load_public_identities f d w = (Inr m, w') \<Longrightarrow> check_identities m = Inr ()"
proof -
  have "(case e of OSError x \<Rightarrow> io_raise (a x) | ValueError y \<Rightarrow> io_raise b | _ \<Rightarrow> io_raise e) u \<noteq> (Inr m, w')" for e a b u
    by (cases e) simp_all
  then show "load_public_identities f d w = (Inr m, w') \<Longrightarrow> check_identities m = Inr ()"
    by (auto simp: load_public_identities_def io_try_Inr io_bind_Inr)
qed

lemma aliases_explicit: "validator_aliases = [''validator-00'', ''validator-01'', ''validator-02'']" "length miner_aliases = 10"
  by code_simp (simp add: miner_aliases_def EXPECTED_MINERS_def)

lemma provision_roles_facts:
  assumes "check_identities m = Inr ()"
  shows "length (provision_roles m regs) = 13" "map pv_alias (provision_roles m regs) = validator_aliases @ miner_aliases"
    "map pv_hotkey_ss58 (provision_roles m regs) = manifest_hotkeys m"
    "burn_registrations (provision_roles m regs) = 12"
    "hd (map pv_hotkey_ss58 (provision_roles m regs)) = ie_hotkey_ss58 (hd (im_validators m))"
    "list_all (\<lambda>r. pv_registered_netuids r = []) (provision_roles m regs)
       \<Longrightarrow> list_all role_state_ok (List.enumerate 0 (provision_roles m regs))"
proof -
  have c: "length (im_validators m) = 3" "length (im_miners m) = 10" "map ie_name (im_validators m) = validator_aliases"
    "map ie_name (im_miners m) = miner_aliases" using assms by (simp_all add: check_identities_Inr)
  obtain a b d where v: "im_validators m = [a, b, d]"
    using c(1) by (auto simp: numeral_3_eq_3 length_Suc_conv)
  have n: "ie_name a = OWNER_HOTKEY_ALIAS" "ie_name b \<noteq> OWNER_HOTKEY_ALIAS" "ie_name d \<noteq> OWNER_HOTKEY_ALIAS"
    using c(3) by (simp_all add: v aliases_explicit OWNER_HOTKEY_ALIAS_def)
  have fields: "pv_alias (validator_provision_role regs x) = ie_name x" "pv_alias (miner_provision_role regs x) = ie_name x"
    "pv_hotkey_ss58 (validator_provision_role regs x) = ie_hotkey_ss58 x" "pv_hotkey_ss58 (miner_provision_role regs x) = ie_hotkey_ss58 x"
    "pv_role (validator_provision_role regs x) = ''validator''" "pv_role (miner_provision_role regs x) = ''miner''"
    "pv_created_with_subnet (validator_provision_role regs x) = (ie_name x = OWNER_HOTKEY_ALIAS)"
    "pv_requires_burn_registration (validator_provision_role regs x) = (ie_name x \<noteq> OWNER_HOTKEY_ALIAS)"
    "\<not> pv_created_with_subnet (miner_provision_role regs x)" "pv_requires_burn_registration (miner_provision_role regs x)" for x
    by (simp_all add: validator_provision_role_def miner_provision_role_def)
  show "length (provision_roles m regs) = 13" using c(1,2) by (simp add: provision_roles_def)
  show "map pv_alias (provision_roles m regs) = validator_aliases @ miner_aliases"
    using c(3,4) by (simp add: provision_roles_def fields comp_def)
  show h: "map pv_hotkey_ss58 (provision_roles m regs) = manifest_hotkeys m"
    by (simp add: provision_roles_def manifest_hotkeys_def fields comp_def)
  show "hd (map pv_hotkey_ss58 (provision_roles m regs)) = ie_hotkey_ss58 (hd (im_validators m))"
    by (simp add: h manifest_hotkeys_def v)
  have "sum_list (map (\<lambda>r. if pv_requires_burn_registration r then 1 else 0) (map (miner_provision_role regs) xs)) = int (length xs)" for xs
    by (induction xs) (simp_all add: fields)
  then show "burn_registrations (provision_roles m regs) = 12"
    using c(2) by (simp add: burn_registrations_def provision_roles_def v fields n comp_def)
  assume r: "list_all (\<lambda>r. pv_registered_netuids r = []) (provision_roles m regs)"
  have miners: "list_all role_state_ok (List.enumerate k (map (miner_provision_role regs) xs))"
    if "3 \<le> k" "list_all (\<lambda>r. pv_registered_netuids r = []) (map (miner_provision_role regs) xs)" for k xs
    using that by (induction xs arbitrary: k) (simp_all add: role_state_ok_def fields EXPECTED_VALIDATORS_def)
  show "list_all role_state_ok (List.enumerate 0 (provision_roles m regs))"
    using r miners by (simp add: provision_roles_def v enumerate_append_eq role_state_ok_def fields n EXPECTED_VALIDATORS_def)
qed

lemma rao_of_natural: "rao_of v = Inr n \<Longrightarrow> 0 \<le> n"
  by (auto simp: rao_of_def rbind_eq_Inr split: option.splits if_splits)

lemma read_provision_amounts: "io_all (read_provision env key roles client) (\<lambda>v. 0 \<le> vr_balance v \<and> 0 \<le> vr_cost v \<and> 0 \<le> vr_deposit v)"
  unfolding io_all_def read_provision_def by (auto simp: io_bind_Inr dest!: rao_of_natural)

text \<open>C19: The collector and the validator of provision plans agree: whenever a collected plan is ready and
  its block and runtime version are not negative, it passes the validation of saved plans with its
  own digest. So the gates the collector computes from the chain are the ones the validator
  recomputes from the report, over exactly three validators and ten miners in the fixed order,
  with one creation and twelve burns.\<close>

theorem ready_provision_plan_validates:
  assumes "collect_testnet_provision_plan env w = (Inr r, w')" "pp_ready r"
    and "0 \<le> the (pp_block r)" "0 \<le> the (pp_runtime_spec_version r)"
  shows "validated_provision_plan_digest r = Inr (provision_digest r) \<and> pp_plan_digest r = Some (provision_digest r)"
proof -
  obtain m u where m: "check_identities m = Inr ()"
    and c: "with_client (tn_client env) cl_close (provision_body env m) (provision_failure env m (provision_roles m [])) u = (Inr r, w')"
    using assms(1) by (auto simp: collect_testnet_provision_plan_def io_bind_Inr dest: load_public_identities_Inr)
  have no: "\<not> pp_ready (provision_failure env m roles e)" for roles e by (simp add: provision_failure_def)
  obtain client w1 w2 where "provision_body env m client w1 = (Inr r, w2)"
    by (rule opened_report [OF c, of pp_ready]) (simp_all add: assms(2) no)
  then obtain v u1 where v: "read_provision env (im_coldkey_ss58 m) (provision_roles m []) client w1 = (Inr v, u1)"
    and t: "(\<exists>spec. r = (provision_report env m (provision_roles m (vr_registrations v)) v spec)
          \<lparr>pp_plan_digest := Some (provision_digest (provision_report env m (provision_roles m (vr_registrations v)) v spec))\<rparr>)"
    using assms(2) no unfolding provision_body_def Let_def
    by (auto simp: io_bind_Inr io_catch_Inr)
  let ?roles = "provision_roles m (vr_registrations v)"
  note amounts = io_allD [OF read_provision_amounts v]
  obtain spec where r: "r = (provision_report env m ?roles v spec)\<lparr>pp_plan_digest := Some (provision_digest (provision_report env m ?roles v spec))\<rparr>"
    using t by blast
  note f = r [unfolded provision_report_def Let_def provision_plan.simps]
  have digest: "pp_plan_digest r = Some (provision_digest r)" by (simp add: r provision_digest_def provision_payload_def)
  have g: "all_provision_gates (provision_gates_of m ?roles v)" "provision_errors v = []"
    using assms(2) by (simp_all add: f)
  have hash: "provision_block_hash_ok (Some (vr_block_hash v))" "vr_endpoint v = TESTNET_ENDPOINT" "vr_block_hash v \<noteq> []"
    using g(2) by (auto simp: provision_errors_def provision_block_hash_ok_def starts_with_def split: if_splits)
  have i: "valid_ss58 (im_coldkey_ss58 m)" "list_all valid_ss58 (manifest_hotkeys m)" "distinct (manifest_hotkeys m)"
    "im_coldkey_ss58 m \<notin> set (manifest_hotkeys m)" "length (im_validators m) = 3"
    using m by (simp_all add: check_identities_Inr)
  have owner: "valid_ss58 (ie_hotkey_ss58 (hd (im_validators m)))"
    using i(2,5) by (cases "im_validators m") (auto simp: manifest_hotkeys_def)
  let ?c = "\<lparr>pc_block = vr_block v, pc_runtime = spec, pc_cost = vr_cost v, pc_deposit = vr_deposit v, pc_balance = vr_balance v\<rparr>"
  have gates: "provision_gates_of m ?roles v = expected_provision_gates ?c"
    using g(1) assms(3,4) hash(2) by (simp add: f expected_provision_gates_def provision_gates_of_def all_provision_gates_def)
  have reg: "list_all (\<lambda>r. pv_registered_netuids r = []) ?roles" and own: "vr_owned_hotkeys v = []"
    using g(1) by (simp_all add: all_provision_gates_def provision_gates_of_def)
  note roles = provision_roles_facts [OF m, of "vr_registrations v"]
  have "validated_provision_plan_digest r = Inr (provision_digest r)"
    unfolding validated_provision_iff
  proof (intro exI [of _ ?c] conjI)
    show "coordinates_of r = Inr ?c" using assms(3,4) amounts by (simp add: coordinates_of_Inr f)
    show "provision_block_hash_ok (pp_block_hash r)" using hash by (simp add: f)
    show "within_safety_boundary r" using hash(2) by (simp add: within_safety_boundary_def f)
    show "roles_valid r" using roles roles(6) [OF reg] i own by (simp add: roles_valid_def f)
    show "amounts_rendered r ?c" by (simp add: amounts_rendered_def f)
    show "pp_gates r = expected_provision_gates ?c" "all_provision_gates (pp_gates r)" using gates g(1) by (simp_all add: f)
  qed (use i owner g(2) digest assms(2) in \<open>simp_all add: f\<close>)
  with digest show ?thesis by simp
qed

text \<open>A concrete wallet of thirteen hotkeys, and a chain that has none of them.\<close>

definition demo_key :: "char \<Rightarrow> string" where
  "demo_key c = CHR ''5'' # replicate 46 (CHR ''6'') @ [c]"

definition demo_entries :: "string list \<Rightarrow> string \<Rightarrow> identity_entry list" where
  "demo_entries names marks = map (\<lambda>(n, c). \<lparr>ie_name = n, ie_hotkey_ss58 = demo_key c\<rparr>) (zip names marks)"

definition demo_manifest :: identity_manifest where
  "demo_manifest = \<lparr>im_sdk_version = ''10'', im_wallet_alias = PROVISION_WALLET_ALIAS, im_custody = [], im_generated_on = [],
     im_coldkey_ss58 = demo_key CHR ''E'', im_validators = demo_entries validator_aliases ''123'',
     im_miners = demo_entries miner_aliases ''456789ABCD'',
     im_balance_snapshot = \<lparr>ib_block = 0, ib_coldkey_balance_rao = 0, ib_coldkey_balance_tao = ''0'', ib_runtime_spec_version = 0\<rparr>,
     im_registration = \<lparr>ir_netuid = None, ir_registered_hotkeys = 0, ir_status = []\<rparr>,
     im_security = \<lparr>is_coldkey_encrypted = True, is_keyfile_mode = ''0600'', is_mainnet_authorized = False,
       is_mnemonic_or_private_key_in_repository = False, is_wallet_directory_mode = ''0700''\<rparr>\<rparr>"

definition provision_snapshot :: "unit snapshot" where
  "provision_snapshot = \<lparr>sn_block = io_return 1000,
     sn_read = (\<lambda>name _. io_return (if name = ''balance'' then PMap [(PStr ''rao'', PInt 1200000000)]
       else if name = ''subnet_registration_cost'' then PMap [(PStr ''rao'', PInt 1000000000)]
       else if name = ''existential_deposit'' then PMap [(PStr ''rao'', PInt 500)] else PSeq [])),
     sn_networks_added = (\<lambda>_. io_return (PBool True)),
     sn_block_info = io_return (PMap [(PStr ''hash'', PStr demo_hash), (PStr ''number'', PInt 1000)])\<rparr>"

definition provision_client :: "unit testnet_client" where
  "provision_client = \<lparr>cl_endpoint = io_return TESTNET_ENDPOINT, cl_block = io_return 1000, cl_spec_version = io_return 300,
     cl_at = (\<lambda>_. io_return provision_snapshot), cl_close = io_return ()\<rparr>"

definition provision_chain :: "unit provision_env" where
  "provision_chain = \<lparr>tn_repr = (\<lambda>_. Inr []), tn_sdk_version = ''10'', tn_client = io_return provision_client,
     tn_read_identities = io_return [], tn_decode_identities = (\<lambda>_. Inr demo_manifest)\<rparr>"

lemma demo_manifest_ok: "check_identities demo_manifest = Inr ()"
proof -
  have inj: "demo_key a = demo_key b \<longleftrightarrow> a = b" for a b by (simp add: demo_key_def)
  have ok: "is_base58 c \<Longrightarrow> valid_ss58 (demo_key c)" for c
    by (simp add: demo_key_def valid_ss58_def char_class_defs list_all_iff)
  have l: "length validator_aliases = 3" by (simp add: validator_aliases_def EXPECTED_VALIDATORS_def)
  have names: "map ie_name (demo_entries ns cs) = ns" "map ie_hotkey_ss58 (demo_entries ns cs) = map demo_key cs"
    if "length ns = length cs" for ns cs
    using that by (induction ns cs rule: list_induct2) (simp_all add: demo_entries_def)
  have k: "manifest_hotkeys demo_manifest = map demo_key (''123'' @ ''456789ABCD'')"
    using names(2) [of validator_aliases "''123''"] names(2) [of miner_aliases "''456789ABCD''"] l aliases_explicit(2)
    by (simp add: manifest_hotkeys_def demo_manifest_def)
  have base: "list_all is_base58 ''123456789ABCDE''" by code_simp
  show ?thesis
    unfolding check_identities_Inr k
    using names [of validator_aliases "''123''"] names [of miner_aliases "''456789ABCD''"] l aliases_explicit(2) ok base
    by (simp add: demo_manifest_def inj demo_entries_def)
qed

lemma demo_provision_read:
  "read_provision provision_chain key roles provision_client w = (Inr \<lparr>vr_endpoint = TESTNET_ENDPOINT, vr_block = 1000,
     vr_info_number = Some 1000, vr_block_hash = demo_hash, vr_pinned = True, vr_balance = 1200000000, vr_cost = 1000000000,
     vr_deposit = 500, vr_owned_hotkeys = [], vr_registrations = rev (map (\<lambda>r. (pv_hotkey_ss58 r, [])) roles)\<rparr>, w)"
proof -
  have m: "io_map (read_registration provision_snapshot) rs w = (Inr (map (\<lambda>r. (pv_hotkey_ss58 r, [])) rs), w)" for rs w
    by (induction rs) (simp_all add: io_bind_def read_registration_def provision_snapshot_def int_tuple_def)
  have i: "optional_int (PInt k) = Inr (Some k)" for k by (simp add: optional_int_def)
  have s: "sn_block provision_snapshot w = (Inr 1000, w)"
    "sn_block_info provision_snapshot w = (Inr (PMap [(PStr ''hash'', PStr demo_hash), (PStr ''number'', PInt 1000)]), w)"
    "sn_read provision_snapshot ''balance'' ps w = (Inr (PMap [(PStr ''rao'', PInt 1200000000)]), w)"
    "sn_read provision_snapshot ''subnet_registration_cost'' ps w = (Inr (PMap [(PStr ''rao'', PInt 1000000000)]), w)"
    "sn_read provision_snapshot ''existential_deposit'' ps w = (Inr (PMap [(PStr ''rao'', PInt 500)]), w)"
    "sn_read provision_snapshot ''owned_hotkeys'' ps w = (Inr (PSeq []), w)" for ps w
    by (simp_all add: provision_snapshot_def)
  have c: "cl_endpoint provision_client w = (Inr TESTNET_ENDPOINT, w)" "cl_block provision_client w = (Inr 1000, w)"
    "cl_at provision_client b w = (Inr provision_snapshot, w)" for w b
    by (simp_all add: provision_client_def)
  show ?thesis
    unfolding read_provision_def
    by (simp add: io_bind_def m s c i rao_of_def string_tuple_def map_get_def same_key_def)
qed

lemma demo_first_role: "pv_alias (hd (provision_roles demo_manifest regs)) = ''validator-00''"
proof -
  note f = provision_roles_facts(1,2) [OF demo_manifest_ok, of regs]
  have "provision_roles demo_manifest regs \<noteq> []" using f(1) by auto
  then have "pv_alias (hd (provision_roles demo_manifest regs)) = hd (map pv_alias (provision_roles demo_manifest regs))"
    by (rule hd_map [symmetric])
  also have "\<dots> = ''validator-00''" by (simp only: f(2) aliases_explicit) simp
  finally show ?thesis .
qed

lemma demo_provision_collected:
  "\<exists>r. collect_testnet_provision_plan provision_chain w = (Inr r, w) \<and> pp_ready r \<and> pp_block r = Some 1000
     \<and> pp_runtime_spec_version r = Some 300"
proof -
  let ?v = "\<lparr>vr_endpoint = TESTNET_ENDPOINT, vr_block = 1000, vr_info_number = Some 1000, vr_block_hash = demo_hash,
     vr_pinned = True, vr_balance = 1200000000, vr_cost = 1000000000, vr_deposit = 500, vr_owned_hotkeys = [],
     vr_registrations = rev (map (\<lambda>r. (pv_hotkey_ss58 r, [])) (provision_roles demo_manifest []))\<rparr>"
  let ?roles = "provision_roles demo_manifest (vr_registrations ?v)"
  let ?p = "provision_report provision_chain demo_manifest ?roles ?v 300"
  have spec: "cl_spec_version provision_client w = (Inr 300, w)" "cl_close provision_client w = (Inr (), w)" for w
    by (simp_all add: provision_client_def)
  have env: "tn_client provision_chain w = (Inr provision_client, w)" "tn_read_identities provision_chain w = (Inr [], w)"
    "tn_decode_identities provision_chain x = Inr demo_manifest" for w x by (simp_all add: provision_chain_def)
  have body: "provision_body provision_chain demo_manifest provision_client w = (Inr (?p\<lparr>pp_plan_digest := Some (provision_digest ?p)\<rparr>), w)" for w
    by (simp add: provision_body_def io_bind_def io_catch_def demo_provision_read spec Let_def)
  have c: "collect_testnet_provision_plan provision_chain w = (Inr (?p\<lparr>pp_plan_digest := Some (provision_digest ?p)\<rparr>), w)" for w
    by (simp add: collect_testnet_provision_plan_def load_public_identities_def io_bind_def io_try_def test_network env
        demo_manifest_ok with_client_def body spec)
  have none: "pv_registered_netuids r = []" if "r \<in> set (provision_roles demo_manifest (map (\<lambda>r. (pv_hotkey_ss58 r, [])) rs))" for r rs
  proof -
    have "x = []" if "map_of (map (\<lambda>r. (pv_hotkey_ss58 r, [])) rs) k = Some x" for k x
      using map_of_SomeD [OF that] by auto
    then show ?thesis using that
      by (auto simp: provision_roles_def validator_provision_role_def miner_provision_role_def split: option.splits)
  qed
  have "list_all (\<lambda>r. pv_registered_netuids r = []) ?roles"
    using none [of _ "rev (provision_roles demo_manifest [])"] by (simp add: list_all_iff rev_map)
  moreover have "distinct (map pv_hotkey_ss58 ?roles)"
    using provision_roles_facts(3) [OF demo_manifest_ok] demo_manifest_ok by (simp add: check_identities_Inr)
  moreover have "pv_alias (hd ?roles) = OWNER_HOTKEY_ALIAS"
    using demo_first_role by (simp add: OWNER_HOTKEY_ALIAS_def)
  moreover have "length (im_validators demo_manifest) = 3" "length (im_miners demo_manifest) = 10"
    "im_wallet_alias demo_manifest = PROVISION_WALLET_ALIAS"
    using demo_manifest_ok by (simp_all add: check_identities_Inr) (simp add: demo_manifest_def)
  moreover have "provision_block_hash_ok (Some demo_hash)" using demo_hash_valid by (simp add: provision_block_hash_ok_def valid_block_hash_def)
  ultimately have "pp_ready ?p" 
    by (simp add: provision_report_def Let_def all_provision_gates_def provision_gates_of_def provision_errors_def
        MAX_TESTNET_BUDGET_RAO_def MAX_CREATION_WALLET_BALANCE_RAO_def MAX_SUBNET_CREATION_REVIEW_COST_RAO_def MAX_TRANSACTION_FEE_RAO_def)
  moreover have "pp_block ?p = Some 1000" "pp_runtime_spec_version ?p = Some 300" by (simp_all add: provision_report_def Let_def)
  ultimately show ?thesis using c by simp
qed

theorem ready_provision_plan_validates_witness:
  "\<exists>r. collect_testnet_provision_plan provision_chain () = (Inr r, ()) \<and> pp_ready r
     \<and> validated_provision_plan_digest r = Inr (provision_digest r)"
proof -
  obtain r where r: "collect_testnet_provision_plan provision_chain () = (Inr r, ())" "pp_ready r" "pp_block r = Some 1000"
    "pp_runtime_spec_version r = Some 300" using demo_provision_collected by blast
  show ?thesis using ready_provision_plan_validates [OF r(1,2)] r by auto
qed

end
