(* ===== verification/JsonParse.thy ===== *)
theory JsonParse
  imports JsonText Auth
begin

text \<open>
  \<open>json.loads\<close> of the standard library on a UTF-8 text: whitespace, strings with escapes and
  surrogate pairs, the number grammar, the constants \<open>NaN\<close> and \<open>Infinity\<close>, objects in which
  the last value of a key wins. The theorem at the end: what \<open>json.dumps\<close> writes without
  \<open>ensure_ascii\<close> is read back as it was.
\<close>

definition json_error :: "'a result" where
  "json_error = Inl (ValueError ''invalid JSON document'')"

definition skip_space :: "string \<Rightarrow> string" where
  "skip_space = dropWhile (\<lambda>c. (of_char c :: nat) \<in> {9, 10, 13, 32})"

section \<open>Strings\<close>

fun hex4 :: "string \<Rightarrow> (nat \<times> string) result" where
  "hex4 (a # b # c # d # s) =
     (case (hex_value a, hex_value b, hex_value c, hex_value d) of
        (Some k, Some l, Some m, Some n) \<Rightarrow> Inr (4096 * k + 256 * l + 16 * m + n, s)
      | _ \<Rightarrow> json_error)"
| "hex4 _ = json_error"

text \<open>After a backslash. A high surrogate joins with a low one that follows.\<close>

definition scan_escape :: "string \<Rightarrow> (string \<times> string) result" where
  "scan_escape s =
     (case s of
        [] \<Rightarrow> json_error
      | e # s1 \<Rightarrow>
          if e = CHR ''u'' then
            rbind (hex4 s1) (\<lambda>(n, s2).
              if 0xD800 \<le> n \<and> n < 0xDC00 \<and> starts_with [CHR 0x5C, CHR ''u''] s2 then
                rbind (hex4 (drop 2 s2)) (\<lambda>(m, s3).
                  if 0xDC00 \<le> m \<and> m < 0xE000
                  then Inr (utf8 (0x10000 + 1024 * (n - 0xD800) + (m - 0xDC00)), s3)
                  else Inr (utf8 n, s2))
              else Inr (utf8 n, s2))
          else if e = CHR 0x2F then Inr (''/'', s1)
          else case find (\<lambda>(n, c). c = e) short_escapes of
              Some (n, _) \<Rightarrow> Inr ([char_of n], s1)
            | None \<Rightarrow> json_error)"

lemma hex4_length: "hex4 s = Inr (n, r) \<Longrightarrow> length r \<le> length s"
  by (cases s rule: hex4.cases) (auto simp: json_error_def split: option.splits)

lemma scan_escape_length: "scan_escape s = Inr (t, r) \<Longrightarrow> length r \<le> length s"
  by (cases s) (auto simp: scan_escape_def json_error_def split: if_splits option.splits dest!: hex4_length)

function scan_chars :: "string \<Rightarrow> (string \<times> string) result" where
  "scan_chars [] = json_error"
| "scan_chars (c # s) =
     (if c = CHR 0x22 then Inr ([], s)
      else if c = CHR 0x5C then
        rbind (scan_escape s) (\<lambda>(t, s1). rbind (scan_chars s1) (\<lambda>(u, r). Inr (t @ u, r)))
      else if (of_char c :: nat) < 32 then json_error
      else rbind (scan_chars s) (\<lambda>(u, r). Inr (c # u, r)))"
  by pat_completeness auto
termination
  by (relation "measure length") (auto dest!: scan_escape_length)

lemma scan_chars_length: "scan_chars s = Inr (t, r) \<Longrightarrow> length r \<le> length s"
proof (induction s arbitrary: t rule: scan_chars.induct)
  case (2 c s)
  show ?case
  proof (cases "c = CHR 0x5C")
    case True
    then obtain t1 s1 u where s: "scan_escape s = Inr (t1, s1)" "scan_chars s1 = Inr (u, r)"
      using 2(3) by (auto simp: rbind_eq_Inr)
    from 2(1) [OF _ True s(1) refl s(2)] True scan_escape_length [OF s(1)] show ?thesis by simp
  next
    case False
    then show ?thesis using 2 by (fastforce simp: json_error_def rbind_eq_Inr split: if_splits)
  qed
qed (simp add: json_error_def)

section \<open>Numbers\<close>

text \<open>\<open>(-?(?:0|[1-9][0-9]*))(\.[0-9]+)?([eE][-+]?[0-9]+)?\<close>, matched from the left.\<close>

definition digit_run :: "string \<Rightarrow> string \<times> string" where
  "digit_run s = (takeWhile is_digit s, dropWhile is_digit s)"

definition scan_integer :: "string \<Rightarrow> string \<times> string" where
  "scan_integer s = (if starts_with ''0'' s then (''0'', tl s) else digit_run s)"

definition scan_fraction :: "string \<Rightarrow> string \<times> string" where
  "scan_fraction s =
     (if starts_with ''.'' s \<and> fst (digit_run (tl s)) \<noteq> []
      then (''.'' @ fst (digit_run (tl s)), snd (digit_run (tl s))) else ([], s))"

definition scan_exponent :: "string \<Rightarrow> string \<times> string" where
  "scan_exponent s =
     (if starts_with ''e'' s \<or> starts_with ''E'' s
      then (let sign = (if starts_with ''-'' (tl s) \<or> starts_with ''+'' (tl s) then take 1 (tl s) else []);
                (digits, r) = digit_run (drop (length sign) (tl s))
            in if digits \<noteq> [] then (take 1 s @ sign @ digits, r) else ([], s))
      else ([], s))"

definition scan_number :: "string \<Rightarrow> (jval \<times> string) result" where
  "scan_number s =
     (let sign = (if starts_with ''-'' s then ''-'' else []);
          (i, r1) = scan_integer (drop (length sign) s);
          (f, r2) = scan_fraction r1;
          (e, r3) = scan_exponent r2
      in if i = [] then json_error
         else if f = [] \<and> e = [] then rbind (int_of_text (sign @ i)) (\<lambda>n. Inr (VInt n, r3))
         else rbind (float_of_text (sign @ i @ f @ e)) (\<lambda>x. Inr (VFloat x, r3)))"

section \<open>Documents\<close>

definition json_words :: "(string \<times> jval) list" where
  "json_words = [(''null'', VNull), (''true'', VBool True), (''false'', VBool False), (''NaN'', VFloat NaN),
     (''Infinity'', VFloat PosInf), (''-Infinity'', VFloat NegInf)]"

text \<open>
  The fuel bounds the depth of the recursion. An item takes two calls and at least one
  character, so twice the length of the text and one more is always enough (\<open>parse_fuel\<close>).
\<close>

definition no_fuel :: pyerr where
  "no_fuel = RuntimeError ''fuel''"

fun parse_value :: "nat \<Rightarrow> string \<Rightarrow> (jval \<times> string) result"
  and parse_items :: "nat \<Rightarrow> string \<Rightarrow> (jval list \<times> string) result"
  and parse_members :: "nat \<Rightarrow> string \<Rightarrow> ((string \<times> jval) list \<times> string) result" where
  "parse_value 0 s = Inl no_fuel"
| "parse_value (Suc n) s =
     (if starts_with [CHR 0x22] s then rbind (scan_chars (tl s)) (\<lambda>(t, r). Inr (VStr t, r))
      else if starts_with ''['' s then
        (let s1 = skip_space (tl s) in
         if starts_with '']'' s1 then Inr (VArr [], tl s1)
         else rbind (parse_items n s1) (\<lambda>(xs, r). Inr (VArr xs, r)))
      else if starts_with ''{'' s then
        (let s1 = skip_space (tl s) in
         if starts_with ''}'' s1 then Inr (VObj [], tl s1)
         else rbind (parse_members n s1) (\<lambda>(kvs, r). Inr (VObj (foldl (\<lambda>d (k, v). AList.update k v d) [] kvs), r)))
      else case find (\<lambda>(w, _). starts_with w s) json_words of
          Some (w, v) \<Rightarrow> Inr (v, drop (length w) s)
        | None \<Rightarrow> scan_number s)"
| "parse_items 0 s = Inl no_fuel"
| "parse_items (Suc n) s =
     rbind (parse_value n s) (\<lambda>(x, r).
       let r1 = skip_space r in
       if starts_with '']'' r1 then Inr ([x], tl r1)
       else if starts_with '','' r1
       then rbind (parse_items n (skip_space (tl r1))) (\<lambda>(xs, r2). Inr (x # xs, r2))
       else json_error)"
| "parse_members 0 s = Inl no_fuel"
| "parse_members (Suc n) s =
     (if \<not> starts_with [CHR 0x22] s then json_error
      else rbind (scan_chars (tl s)) (\<lambda>(k, r).
        let r1 = skip_space r in
        if \<not> starts_with '':'' r1 then json_error
        else rbind (parse_value n (skip_space (tl r1))) (\<lambda>(v, r2).
          let r3 = skip_space r2 in
          if starts_with ''}'' r3 then Inr ([(k, v)], tl r3)
          else if starts_with '','' r3
          then rbind (parse_members n (skip_space (tl r3))) (\<lambda>(kvs, r4). Inr ((k, v) # kvs, r4))
          else json_error)))"

definition json_loads :: "bytes \<Rightarrow> jval result" where
  "json_loads s =
     rbind (parse_value (2 * length s + 1) (skip_space s)) (\<lambda>(v, r).
       if skip_space r = [] then Inr v else json_error)"

section \<open>The fuel is enough\<close>

lemma skip_space_length: "length (skip_space s) \<le> length s"
  by (simp add: skip_space_def length_dropWhile_le)

lemma digit_run_append: "digit_run s = (d, r) \<Longrightarrow> s = d @ r"
  by (auto simp: digit_run_def)

lemma scan_integer_shorter:
  assumes "scan_integer s = (i, r)" "i \<noteq> []"
  shows "length r < length s"
proof (cases "starts_with ''0'' s")
  case True
  then have "s \<noteq> []" "r = tl s" using assms(1) by (auto simp: scan_integer_def starts_with_def)
  then show ?thesis by (cases s) simp_all
next
  case False
  then have "s = i @ r" using assms(1) digit_run_append by (simp add: scan_integer_def)
  with assms(2) show ?thesis by simp
qed

lemma scan_number_shorter: "scan_number s = Inr (v, r) \<Longrightarrow> length r < length s"
proof -
  assume s: "scan_number s = Inr (v, r)"
  define sign where "sign = (if starts_with ''-'' s then ''-'' else [])"
  obtain i r1 f r2 e r3 where p: "scan_integer (drop (length sign) s) = (i, r1)" "scan_fraction r1 = (f, r2)"
    "scan_exponent r2 = (e, r3)" by (meson surj_pair)
  have r: "r = r3" "i \<noteq> []"
    using s p by (auto simp: scan_number_def json_error_def rbind_eq_Inr simp flip: sign_def split: if_splits)
  have "length r3 \<le> length r2"
    using p(3) length_dropWhile_le [of is_digit "drop (length (take 1 (tl r2))) (tl r2)"] length_dropWhile_le [of is_digit "tl r2"]
    by (auto simp: scan_exponent_def digit_run_def Let_def split: if_splits)
  moreover have "length r2 \<le> length r1"
    using p(2) length_dropWhile_le [of is_digit "tl r1"] by (auto simp: scan_fraction_def digit_run_def split: if_splits)
  moreover have "length r1 < length (drop (length sign) s)" using scan_integer_shorter [OF p(1) r(2)] .
  ultimately show ?thesis using r(1) by simp
qed

lemma find_word: "find (\<lambda>(w, _). starts_with w s) json_words = Some (w, v) \<Longrightarrow> starts_with w s \<and> w \<noteq> []"
  by (auto simp: find_Some_iff json_words_def nth_Cons' split: if_splits)

lemma parse_shorter:
  "parse_value n s = Inr (v, r) \<Longrightarrow> length r < length s"
  "parse_items n s = Inr (xs, r) \<Longrightarrow> length r < length s"
  "parse_members n s = Inr (kvs, r) \<Longrightarrow> length r < length s"
proof (induction n s and n s and n s arbitrary: v r and xs r and kvs r
    rule: parse_value_parse_items_parse_members.induct)
  case (2 n s)
  consider (str) "starts_with [CHR 0x22] s" | (arr) "starts_with ''['' s" | (obj) "starts_with ''{'' s"
    | (other) "\<not> starts_with [CHR 0x22] s" "\<not> starts_with ''['' s" "\<not> starts_with ''{'' s" by blast
  then show ?case
  proof cases
    case str
    then obtain s' where "s = CHR 0x22 # s'" by (auto simp: starts_with_iff)
    then show ?thesis using 2(3) str by (auto simp: rbind_eq_Inr dest!: scan_chars_length)
  next
    case arr
    then obtain s' where s: "s = CHR ''['' # s'" by (auto simp: starts_with_iff)
    have "length r < length s" if "parse_items n (skip_space s') = Inr (ys, r)" "\<not> starts_with '']'' (skip_space s')" for ys
      using 2(1) [of "skip_space (tl s)" ys r] that s skip_space_length [of s'] by (simp add: starts_with_def)
    then show ?thesis
      using 2(3) s skip_space_length [of s'] by (auto simp: rbind_eq_Inr Let_def starts_with_def split: if_splits)
  next
    case obj
    then obtain s' where s: "s = CHR ''{'' # s'" by (auto simp: starts_with_iff)
    have "length r < length s" if "parse_members n (skip_space s') = Inr (ys, r)" "\<not> starts_with ''}'' (skip_space s')" for ys
      using 2(2) [of "skip_space (tl s)" ys r] that s skip_space_length [of s'] by (simp add: starts_with_def)
    then show ?thesis
      using 2(3) s skip_space_length [of s'] by (auto simp: rbind_eq_Inr Let_def starts_with_def split: if_splits)
  next
    case other
    show ?thesis
    proof (cases "find (\<lambda>(w, _). starts_with w s) json_words")
      case None
      with 2(3) other show ?thesis by (simp add: scan_number_shorter)
    next
      case (Some p)
      then obtain w u where p: "p = (w, u)" "starts_with w s" "w \<noteq> []" using find_word by (cases p) blast
      then have "s \<noteq> []" by (auto simp: starts_with_iff)
      with 2(3) other Some p show ?thesis by (cases s; cases w) auto
    qed
  qed
next
  case (4 n s)
  obtain x r0 where x: "parse_value n s = Inr (x, r0)" using 4(3) by (auto simp: rbind_eq_Inr)
  have l: "length r0 < length s" using 4(1) [OF x] .
  have s0: "length (skip_space r0) \<le> length r0" by (rule skip_space_length)
  show ?case
  proof (cases "starts_with '']'' (skip_space r0)")
    case True
    then show ?thesis using 4(3) x l s0 by (auto simp: Let_def)
  next
    case False
    then have c: "starts_with '','' (skip_space r0)" using 4(3) x by (auto simp: Let_def json_error_def split: if_splits)
    then obtain ys where ys: "parse_items n (skip_space (tl (skip_space r0))) = Inr (ys, r)"
      using 4(3) x False by (auto simp: Let_def rbind_eq_Inr)
    have "length r < length (skip_space (tl (skip_space r0)))" using 4(2) [OF x refl refl False c ys] .
    also have "\<dots> \<le> length r0" using skip_space_length [of "tl (skip_space r0)"] s0 by simp
    finally show ?thesis using l by simp
  qed
next
  case (6 n s)
  have q: "starts_with [CHR 0x22] s" using 6(3) by (auto simp: json_error_def split: if_splits)
  obtain k r0 where k: "scan_chars (tl s) = Inr (k, r0)" using 6(3) q by (auto simp: rbind_eq_Inr)
  have "s \<noteq> []" using q by (auto simp: starts_with_iff)
  then have r0: "length r0 < length s" using scan_chars_length [OF k] by (cases s) auto
  have colon: "starts_with '':'' (skip_space r0)" using 6(3) q k by (auto simp: json_error_def Let_def split: if_splits)
  define s1 where "s1 = skip_space (tl (skip_space r0))"
  have s1: "length s1 \<le> length r0"
    using skip_space_length [of "tl (skip_space r0)"] skip_space_length [of r0] by (simp add: s1_def)
  obtain x r2 where x: "parse_value n s1 = Inr (x, r2)" using 6(3) q k colon by (auto simp: rbind_eq_Inr Let_def s1_def)
  have r2: "length r2 < length s1" using 6(1) q k colon x by (auto simp: s1_def)
  define r3 where "r3 = skip_space r2"
  have r3: "length r3 \<le> length r2" by (simp add: r3_def skip_space_length)
  show ?case
  proof (cases "starts_with ''}'' r3")
    case True
    then show ?thesis using 6(3) q k colon x r0 s1 r2 r3 by (auto simp: Let_def simp flip: s1_def r3_def)
  next
    case False
    then have c: "starts_with '','' r3" using 6(3) q k colon x
      by (auto simp: Let_def json_error_def simp flip: s1_def r3_def split: if_splits)
    then obtain ys where ys: "parse_members n (skip_space (tl r3)) = Inr (ys, r)"
      using 6(3) q k colon x False by (auto simp: Let_def rbind_eq_Inr simp flip: s1_def r3_def)
    have "length r < length (skip_space (tl r3))" using 6(2) q k colon x False c ys by (auto simp: s1_def r3_def)
    also have "\<dots> \<le> length r3" using skip_space_length [of "tl r3"] by simp
    finally show ?thesis using r0 s1 r2 r3 by simp
  qed
qed (simp_all)

lemma scanners_fuel: "scan_chars s \<noteq> Inl no_fuel" "scan_number s \<noteq> Inl no_fuel"
proof -
  have h: "hex4 t \<noteq> Inl no_fuel" for t by (cases t rule: hex4.cases) (auto simp: json_error_def no_fuel_def split: option.splits)
  have "scan_escape t \<noteq> Inl no_fuel" for t
    using h by (auto simp: scan_escape_def json_error_def no_fuel_def rbind_eq_Inl split: list.splits option.splits if_splits)
  then show "scan_chars s \<noteq> Inl no_fuel"
    by (induction s rule: scan_chars.induct) (auto simp: json_error_def no_fuel_def rbind_eq_Inl)
  have "int_of_text t \<noteq> Inl no_fuel" "float_of_text t \<noteq> Inl no_fuel" for t
    by (simp_all add: int_of_text_def float_of_text_def no_fuel_def Let_def split: prod.splits option.splits)
  then show "scan_number s \<noteq> Inl no_fuel"
    by (auto simp: scan_number_def json_error_def no_fuel_def rbind_eq_Inl Let_def split: prod.splits)
qed

lemma parse_fuel:
  "2 * length s < n \<Longrightarrow> parse_value n s \<noteq> Inl no_fuel"
  "2 * length s + 1 < n \<Longrightarrow> parse_items n s \<noteq> Inl no_fuel"
  "2 * length s + 1 < n \<Longrightarrow> parse_members n s \<noteq> Inl no_fuel"
proof (induction n s and n s and n s rule: parse_value_parse_items_parse_members.induct)
  case (2 n s)
  have "s \<noteq> [] \<Longrightarrow> 2 * length (skip_space (tl s)) + 1 < n" using 2(3) skip_space_length [of "tl s"] by (cases s) auto
  then have l: "starts_with [c] s \<Longrightarrow> 2 * length (skip_space (tl s)) + 1 < n" for c by (cases s) (auto simp: starts_with_def)
  show ?case
    using 2(1,2) l scanners_fuel by (auto simp: rbind_eq_Inl Let_def split: option.splits)
next
  case (4 n s)
  have v: "parse_value n s \<noteq> Inl no_fuel" using 4(1,3) by simp
  have i: "parse_items n (skip_space (tl (skip_space r))) \<noteq> Inl no_fuel"
    if "parse_value n s = Inr (x, r)" "\<not> starts_with '']'' (skip_space r)" "starts_with '','' (skip_space r)" for x r
  proof (rule 4(2) [OF that(1) refl refl that(2,3)])
    have "length (skip_space (tl (skip_space r))) \<le> length r"
      using skip_space_length [of "tl (skip_space r)"] skip_space_length [of r] by simp
    then show "2 * length (skip_space (tl (skip_space r))) + 1 < n" using parse_shorter(1) [OF that(1)] 4(3) by simp
  qed
  show ?case using v i by (auto simp: rbind_eq_Inl Let_def json_error_def no_fuel_def)
next
  case (6 n s)
  have short: "length r < length s" if "starts_with [CHR 0x22] s" "scan_chars (tl s) = Inr (k, r)" for k r
    using that scan_chars_length [OF that(2)] by (cases s) (auto simp: starts_with_def)
  have two: "length (skip_space (tl (skip_space r))) \<le> length r" for r
    using skip_space_length [of "tl (skip_space r)"] skip_space_length [of r] by simp
  have v: "parse_value n (skip_space (tl (skip_space r))) \<noteq> Inl no_fuel"
    if "starts_with [CHR 0x22] s" "scan_chars (tl s) = Inr (k, r)" "starts_with '':'' (skip_space r)" for k r
    using 6(1) that short [OF that(1,2)] two [of r] 6(3) by auto
  have m: "parse_members n (skip_space (tl (skip_space r2))) \<noteq> Inl no_fuel"
    if "starts_with [CHR 0x22] s" "scan_chars (tl s) = Inr (k, r)" "starts_with '':'' (skip_space r)"
      "parse_value n (skip_space (tl (skip_space r))) = Inr (x, r2)"
      "\<not> starts_with ''}'' (skip_space r2)" "starts_with '','' (skip_space r2)" for k r x r2
    using 6(2) that short [OF that(1,2)] two [of r] two [of r2] parse_shorter(1) [OF that(4)] 6(3) by auto
  show ?case using v m scanners_fuel(1) by (auto simp: rbind_eq_Inl Let_def json_error_def no_fuel_def)
qed simp_all

corollary json_loads_fuel: "json_loads s \<noteq> Inl no_fuel"
  using parse_fuel(1) [of "skip_space s" "2 * length s + 1"] skip_space_length [of s]
  by (auto simp: json_loads_def rbind_eq_Inl json_error_def no_fuel_def)

section \<open>Reading what was written\<close>

text \<open>What may follow a value: nothing, a comma or a closing bracket.\<close>

definition value_end :: "string \<Rightarrow> bool" where
  "value_end r \<longleftrightarrow> r = [] \<or> hd r \<in> {CHR '','', CHR '']'', CHR ''}''}"

lemma value_end_simps [simp]:
  "value_end []" "value_end (CHR '','' # r)" "value_end (CHR '']'' # r)" "value_end (CHR ''}'' # r)"
  by (simp_all add: value_end_def)

lemma value_end_char: "value_end r \<Longrightarrow> r = [] \<or> \<not> is_digit (hd r)"
  and value_end_not: "value_end r \<Longrightarrow> \<not> starts_with ''.'' r \<and> \<not> starts_with ''e'' r \<and> \<not> starts_with ''E'' r"
  by (cases r; auto simp: value_end_def char_class_defs starts_with_def)+

subsection \<open>Strings\<close>

lemma scan_short_escape:
  "find (\<lambda>(n, c). c = e) short_escapes = Some (n, c) \<Longrightarrow> e \<noteq> CHR ''u'' \<Longrightarrow> e \<noteq> CHR 0x2F
    \<Longrightarrow> scan_escape (e # s) = Inr ([char_of n], s)"
  by (simp add: scan_escape_def)

lemma scan_escape_char: "scan_chars (escape_char c @ s) = rbind (scan_chars s) (\<lambda>(u, r). Inr (c # u, r))"
proof -
  consider (short) "c \<in> {CHR 0x0A, CHR 0x0D, CHR 0x09, CHR 0x08, CHR 0x0C, CHR 0x22, CHR 0x5C}"
    | (control) "c \<notin> {CHR 0x0A, CHR 0x0D, CHR 0x09, CHR 0x08, CHR 0x0C, CHR 0x22, CHR 0x5C}" "(of_char c :: nat) < 32"
    | (plain) "c \<notin> {CHR 0x22, CHR 0x5C}" "\<not> (of_char c :: nat) < 32" by blast
  then show ?thesis
  proof cases
    case short
    have esc: "scan_escape (CHR 0x22 # t) = Inr ([CHR 0x22], t)" "scan_escape (CHR 0x5C # t) = Inr ([CHR 0x5C], t)"
      "scan_escape (CHR ''n'' # t) = Inr ([CHR 0x0A], t)" "scan_escape (CHR ''r'' # t) = Inr ([CHR 0x0D], t)"
      "scan_escape (CHR ''t'' # t) = Inr ([CHR 0x09], t)" "scan_escape (CHR ''b'' # t) = Inr ([CHR 0x08], t)"
      "scan_escape (CHR ''f'' # t) = Inr ([CHR 0x0C], t)" for t
      by (simp_all add: scan_escape_def short_escapes_def char_of_const)
    have "\<exists>e. escape_char c = [CHR 0x5C, e] \<and> (\<forall>t. scan_escape (e # t) = Inr ([c], t))"
    proof -
      have "c = CHR 0x0A \<or> c = CHR 0x0D \<or> c = CHR 0x09 \<or> c = CHR 0x08 \<or> c = CHR 0x0C \<or> c = CHR 0x22 \<or> c = CHR 0x5C"
        using short by simp
      then show ?thesis by (elim disjE; simp only: escape_char_def; simp add: esc)
    qed
    then show ?thesis by auto
  next
    case control
    define h where "h = (of_char c :: nat) div 16"
    define l where "l = (of_char c :: nat) mod 16"
    have hl: "h < 16" "l < 16" "16 * h + l = of_char c" using control(2) by (simp_all add: h_def l_def)
    have z: "hex_value (CHR ''0'') = Some 0" by (simp add: hex_value_def Let_def)
    have "hex4 (CHR ''0'' # CHR ''0'' # byte_hex c @ s) = Inr (of_char c, s)"
      using hl z by (simp add: byte_hex_def flip: h_def l_def)
    moreover have "utf8 (of_char c) = [c]" using control(2) by (simp add: utf8_def)
    ultimately have "scan_escape (CHR ''u'' # CHR ''0'' # CHR ''0'' # byte_hex c @ s) = Inr ([c], s)"
      using control(2) by (simp add: scan_escape_def)
    then show ?thesis using control by (simp add: escape_char_def)
  next
    case plain
    then have "escape_char c = [c]" by (auto simp: escape_char_def)
    with plain show ?thesis by auto
  qed
qed

lemma scan_rendered: "scan_chars (tl (render_str s) @ r) = Inr (s, r)"
proof -
  have "scan_chars (concat (map escape_char s) @ CHR 0x22 # r) = Inr (s, r)"
    by (induction s) (simp_all add: scan_escape_char)
  then show ?thesis by (simp add: render_str_def)
qed

subsection \<open>Numbers\<close>

lemma digit_run_eq: "all_digits d \<Longrightarrow> (r = [] \<or> \<not> is_digit (hd r)) \<Longrightarrow> digit_run (d @ r) = (d, r)"
proof -
  assume a: "all_digits d" "r = [] \<or> \<not> is_digit (hd r)"
  have "takeWhile is_digit (d @ r) = d"
    by (rule takeWhile_digits) (use a in \<open>auto simp: all_digits_def list_all_iff\<close>)
  then show ?thesis unfolding digit_run_def by (metis append_eq_conv_conj dropWhile_eq_drop)
qed

lemma nat_str_no_zero: "0 < n \<Longrightarrow> hd (nat_str n) \<noteq> CHR ''0''"
proof (induction n rule: nat_str.induct)
  case (1 n)
  show ?case
  proof (cases "n < 10")
    case True
    then show ?thesis using 1(2) char_digit_digit_char [of n]
      by (subst nat_str.simps) (auto simp: char_digit_def dest: arg_cong [where f = char_digit])
  next
    case False
    then show ?thesis using 1(1) by (subst nat_str.simps) simp
  qed
qed

text \<open>The parts of a number text.\<close>

definition number_parts :: "string \<Rightarrow> string \<Rightarrow> string \<Rightarrow> bool" where
  "number_parts i f e \<longleftrightarrow> all_digits i \<and> i \<noteq> [] \<and> (i = ''0'' \<or> hd i \<noteq> CHR ''0'')
     \<and> (f = [] \<or> (\<exists>d. f = ''.'' @ d \<and> all_digits d \<and> d \<noteq> []))
     \<and> (e = [] \<or> (\<exists>k. e = exponent_text k))"

lemma scan_exponent_text: "value_end r \<Longrightarrow> scan_exponent (exponent_text k @ r) = (exponent_text k, r)"
proof -
  assume r: "value_end r"
  define t where "t = (let t = nat_str (nat \<bar>k\<bar>) in if length t < 2 then ''0'' @ t else t)"
  have t: "all_digits t" "t \<noteq> []" using all_digits_nat_str(1) [of "nat \<bar>k\<bar>"] by (simp_all add: t_def Let_def all_digits_def)
  define c where "c = (if k < 0 then CHR ''-'' else CHR ''+'')"
  have x: "exponent_text k = CHR ''e'' # c # t" by (simp add: exponent_text_def t_def c_def)
  have "digit_run (t @ r) = (t, r)" using digit_run_eq [OF t(1)] value_end_char [OF r] .
  then show ?thesis using t(2) by (auto simp: x scan_exponent_def starts_with_def c_def)
qed

lemma scan_parts:
  assumes "number_parts i f e" "value_end r"
  shows "scan_integer (i @ f @ e @ r) = (i, f @ e @ r)" "scan_fraction (f @ e @ r) = (f, e @ r)"
    "scan_exponent (e @ r) = (e, r)"
proof -
  note p = assms(1) [unfolded number_parts_def]
  have e0: "e = [] \<or> (\<exists>x. e = CHR ''e'' # x)" using p exponent_text_Cons by blast
  have e: "e @ r = [] \<or> \<not> is_digit (hd (e @ r))" "\<not> starts_with ''.'' (e @ r)"
    using e0 value_end_char [OF assms(2)] value_end_not [OF assms(2)] by (auto simp: starts_with_def char_class_defs)
  have f: "f @ e @ r = [] \<or> \<not> is_digit (hd (f @ e @ r))" using p e(1) by (auto simp: char_class_defs)
  show "scan_integer (i @ f @ e @ r) = (i, f @ e @ r)"
  proof (cases "starts_with ''0'' (i @ f @ e @ r)")
    case True
    then have "hd i = CHR ''0''" using p by (cases i) (auto simp: starts_with_def)
    then have "i = ''0''" using p by simp
    then show ?thesis by (simp add: scan_integer_def starts_with_def)
  next
    case False
    then show ?thesis using digit_run_eq [OF _ f] p by (simp add: scan_integer_def)
  qed
  show "scan_fraction (f @ e @ r) = (f, e @ r)"
    using p e digit_run_eq [OF _ e(1)] by (auto simp: scan_fraction_def starts_with_def)
  show "scan_exponent (e @ r) = (e, r)"
  proof (cases "e = []")
    case True
    then show ?thesis using value_end_not [OF assms(2)] by (simp add: scan_exponent_def)
  next
    case False
    then show ?thesis using p scan_exponent_text [OF assms(2)] by blast
  qed
qed

lemma scan_number_parts:
  assumes "number_parts i f e" "value_end r" "sign \<in> {[], ''-''}"
  shows "scan_number (sign @ i @ f @ e @ r) =
    (if f = [] \<and> e = [] then rbind (int_of_text (sign @ i)) (\<lambda>n. Inr (VInt n, r))
     else rbind (float_of_text (sign @ i @ f @ e)) (\<lambda>x. Inr (VFloat x, r)))"
proof -
  have i: "i \<noteq> []" "all_digits i" using assms(1) by (simp_all add: number_parts_def)
  then have "\<not> starts_with ''-'' (i @ f @ e @ r)" by (cases i) (auto simp: starts_with_def all_digits_def char_class_defs)
  then have "(if starts_with ''-'' (sign @ i @ f @ e @ r) then ''-'' else []) = sign" using assms(3) by (auto simp: starts_with_def)
  then show ?thesis using scan_parts [OF assms(1,2)] i(1) by (simp add: scan_number_def Let_def)
qed

lemma number_parts_repr_text:
  assumes "all_digits t" "t \<noteq> []" "hd t \<noteq> CHR ''0''"
  shows "\<exists>i f e'. number_parts i f e' \<and> repr_text t e = i @ f @ e' \<and> (f \<noteq> [] \<or> e' \<noteq> [])"
proof -
  note d = all_digits_parts [OF assms(1)]
  have ne: "exponent_text k \<noteq> []" for k using exponent_text_Cons [of k] by auto
  have hd: "k \<noteq> 0 \<Longrightarrow> take k t \<noteq> [] \<and> hd (take k t) = hd t" for k using assms(2) by simp
  consider (exp) "e < - 4 \<or> 16 \<le> e" | (small) "- 4 \<le> e" "e < 0"
    | (padded) "0 \<le> e" "e < 16" "length t \<le> nat e + 1" | (mid) "0 \<le> e" "e < 16" "nat e + 1 < length t" by linarith
  then show ?thesis
  proof cases
    case exp
    have "number_parts (take 1 t) (if drop 1 t = [] then [] else ''.'' @ drop 1 t) (exponent_text e)"
      using d hd [of 1] assms(3) by (auto simp: number_parts_def)
    then show ?thesis using exp ne unfolding repr_text_def by (simp only: simp_thms if_True) blast
  next
    case small
    have "number_parts ''0'' (''.'' @ replicate (nat (- e - 1)) (CHR ''0'') @ t) []"
      using assms(1,2) by (simp add: number_parts_def)
    moreover have "repr_text t e = ''0'' @ (''.'' @ replicate (nat (- e - 1)) (CHR ''0'') @ t) @ []"
      using small by (simp add: repr_text_def)
    ultimately show ?thesis by blast
  next
    case padded
    have "number_parts (t @ replicate (nat e + 1 - length t) (CHR ''0'')) ''.0'' []"
      using assms by (simp add: number_parts_def)
    moreover have "repr_text t e = (t @ replicate (nat e + 1 - length t) (CHR ''0'')) @ ''.0'' @ []"
      using padded by (simp add: repr_text_def)
    ultimately show ?thesis by blast
  next
    case mid
    have "number_parts (take (nat e + 1) t) (''.'' @ drop (nat e + 1) t) []"
      using d hd [of "nat e + 1"] assms(3) mid by (simp add: number_parts_def)
    moreover have "repr_text t e = take (nat e + 1) t @ (''.'' @ drop (nat e + 1) t) @ []"
      using mid by (simp add: repr_text_def)
    ultimately show ?thesis by blast
  qed
qed

lemma number_parts_repr:
  assumes "normal_double x" "0 < x"
  shows "\<exists>i f e. number_parts i f e \<and> repr_positive x = i @ f @ e \<and> (f \<noteq> [] \<or> e \<noteq> [])"
proof -
  obtain c q where s: "shortest_digits x = Some (c, q)" "double_of (real c * power10 q) = Fin x"
    using shortest_digits [OF assms] .
  define t where "t = rstrip_char (CHR ''0'') (nat_str c)"
  have "double_of 0 = Fin 0" using min_normal_range(3) by (simp add: double_of_def dbl_def float_bound_def rne_def)
  then have c: "0 < c" using s(2) assms(2) by (cases c) auto
  note t = rstrip_digits(1,2) [OF this, folded t_def]
  obtain n where "nat_str c = t @ replicate n (CHR ''0'')" using rstrip_split t_def by blast
  then have "hd t \<noteq> CHR ''0''" using nat_str_no_zero [OF c] t(2) by simp
  from number_parts_repr_text [OF t this] show ?thesis using s(1) by (simp add: repr_positive_def t_def)
qed

definition json_int_ok :: "int \<Rightarrow> bool" where
  "json_int_ok i \<longleftrightarrow> length (nat_str (nat \<bar>i\<bar>)) \<le> MAX_INT_DIGITS"

lemma int_of_int_str: "json_int_ok i \<Longrightarrow> int_of_text (int_str i) = Inr i"
proof -
  assume ok: "json_int_ok i"
  note p = plain_trim [OF plain_int_str(1) [of i]]
  have n: "all_digits (nat_str m)" "underscores_ok False (nat_str m) \<and> without_underscores (nat_str m) = nat_str m" for m
    using plain_underscores [OF plain_digits [OF all_digits_nat_str(1)]] by auto
  have s: "split_sign (nat_str m) = (False, nat_str m)" for m
    using n(1) [of m] nat_str_nonempty [of m] by (cases "nat_str m") (auto simp: all_digits_def char_class_defs)
  show ?thesis
    using ok n s unfolding int_of_text_def p by (cases "i < 0") (auto simp: int_str_def json_int_ok_def Let_def)
qed

lemma scan_int:
  assumes "json_int_ok i" "value_end r"
  shows "scan_number (int_str i @ r) = Inr (VInt i, r)"
proof -
  define sign where "sign = (if i < 0 then ''-'' else [])"
  let ?d = "nat_str (nat \<bar>i\<bar>)"
  have "nat_str 0 = ''0''" by (subst nat_str.simps) (simp add: digit_char_def char_of_const)
  then have "?d = ''0'' \<or> hd ?d \<noteq> CHR ''0''" using nat_str_no_zero [of "nat \<bar>i\<bar>"] by (cases "i = 0") auto
  then have p: "number_parts ?d [] []" by (simp add: number_parts_def)
  have t: "int_str i = sign @ ?d" by (simp add: int_str_def sign_def)
  have "sign \<in> {[], ''-''}" by (simp add: sign_def)
  from scan_number_parts [OF p assms(2) this] show ?thesis using int_of_int_str [OF assms(1)] unfolding t by simp
qed

lemma scan_float:
  assumes "x \<noteq> 0" "normal_double x" "value_end r"
  shows "scan_number (float_repr (Fin x) @ r) = Inr (VFloat (Fin x), r)"
proof -
  define sign where "sign = (if x < 0 then ''-'' else [])"
  have n: "normal_double (- x)" using assms(2) by (simp add: normal_double_def fl_minus)
  have "\<exists>i f e. number_parts i f e \<and> float_repr (Fin x) = sign @ i @ f @ e \<and> (f \<noteq> [] \<or> e \<noteq> [])"
    using number_parts_repr [OF assms(2)] number_parts_repr [OF n] assms(1)
    by (cases "0 < x") (auto simp: sign_def)
  then obtain i f e where p: "number_parts i f e" "float_repr (Fin x) = sign @ i @ f @ e" "f \<noteq> [] \<or> e \<noteq> []" by blast
  have "sign \<in> {[], ''-''}" by (simp add: sign_def)
  from scan_number_parts [OF p(1) assms(3) this] show ?thesis
    using float_of_repr(1) [OF assms(2)] p(2,3) by auto
qed

lemma scan_zero: "value_end r \<Longrightarrow> scan_number (''0.0'' @ r) = Inr (VFloat (Fin 0), r)"
proof -
  assume r: "value_end r"
  have "number_parts ''0'' ''.0'' []" by (simp add: number_parts_def)
  from scan_number_parts [OF this r, of "[]"] show ?thesis using float_of_zero by simp
qed

subsection \<open>Documents\<close>

text \<open>Values that \<open>json.dumps\<close> writes and \<open>json.loads\<close> reads as they are: floats that are
  read back, integers within the digit limit, objects with distinct keys.\<close>

fun readable_json :: "jval \<Rightarrow> bool" where
  "readable_json (VFloat x) = (isfinite x \<and> float_ok x)"
| "readable_json (VInt i) = json_int_ok i"
| "readable_json (VArr xs) = list_all readable_json xs"
| "readable_json (VObj kvs) = (distinct (map fst kvs) \<and> list_all (\<lambda>(k, v). readable_json v) kvs)"
| "readable_json _ = True"

abbreviation utext :: "jval \<Rightarrow> string" where
  "utext \<equiv> jtext_with render_str"

lemma readable_ok: "readable_json v \<Longrightarrow> jval_ok_with (\<lambda>_. True) v"
  by (induction v) (auto simp: list_all_iff)

lemma utext_start:
  assumes "readable_json v"
  shows "utext v \<noteq> []" "skip_space (utext v @ r) = utext v @ r"
    "\<not> starts_with '']'' (utext v @ r)" "\<not> starts_with ''}'' (utext v @ r)"
proof -
  note ok = readable_ok [OF assms]
  show ne: "utext v \<noteq> []" using unicode.jtext_nonempty [OF ok] .
  have "is_token (hd (utext v)) \<or> hd (utext v) \<in> {CHR 0x22, CHR ''['', CHR ''{'', CHR ''n'', CHR ''t'', CHR ''f''}"
  proof (cases "is_number v")
    case True
    then show ?thesis using unicode.number_tokens [OF True ok] ne by (cases "utext v") auto
  next
    case False
    then show ?thesis using unicode.quoted by (cases v) auto
  qed
  then have "(of_char (hd (utext v)) :: nat) \<notin> {9, 10, 13, 32}"
    by (auto simp: is_token_def is_plain_def char_class_defs)
  then show "skip_space (utext v @ r) = utext v @ r" using ne by (cases "utext v") (auto simp: skip_space_def)
  show "\<not> starts_with '']'' (utext v @ r)" "\<not> starts_with ''}'' (utext v @ r)"
    using unicode.jtext_hd [OF ok] ne by (cases "utext v"; auto simp: starts_with_def)+
qed

lemma parse_number:
  assumes "is_number v" "readable_json v" "value_end r"
  shows "parse_value (Suc n) (utext v @ r) = Inr (v, r)"
proof -
  have ne: "utext v \<noteq> []" using utext_start(1) [OF assms(2)] .
  have c: "first_class (hd (utext v @ r)) = 2" using unicode.number_first [OF assms(1) readable_ok [OF assms(2)]] .
  have scan: "scan_number (utext v @ r) = Inr (v, r)"
  proof (cases v)
    case (VInt i)
    then show ?thesis using scan_int assms by simp
  next
    case (VFloat x)
    then obtain y where "x = Fin y" using assms(2) by (cases x) simp_all
    then show ?thesis using scan_zero scan_float assms(2,3) VFloat by (cases "y = 0") (simp_all del: float_repr.simps, simp)
  qed (use assms(1) in simp_all)
  have plain: "plain_text (utext v)"
  proof (cases v)
    case (VInt i)
    then show ?thesis using plain_int_str(1) by simp
  next
    case (VFloat x)
    then obtain y where y: "x = Fin y" using assms(2) by (cases x) simp_all
    then show ?thesis using float_repr_plain [of y] assms(2) VFloat by simp
  qed (use assms(1) in simp_all)
  have "\<not> starts_with w (utext v @ r)" if "(w, u) \<in> set json_words" for w u
  proof
    assume s: "starts_with w (utext v @ r)"
    obtain a t where t: "utext v = a # t" using ne by (cases "utext v") auto
    have a: "is_plain a" "\<And>b t'. t = b # t' \<Longrightarrow> is_plain b" using plain t by (auto simp: plain_text_def)
    have "w = ''-Infinity''"
      using that s t a(1) by (auto simp: json_words_def starts_with_def is_plain_def char_class_defs)
    then have "hd (t @ r) = CHR ''I''" "t @ r \<noteq> []" using s t by (auto simp: starts_with_iff)
    then show False using a(2) assms(3) by (cases t) (auto simp: value_end_def is_plain_def char_class_defs)
  qed
  then have "find (\<lambda>(w, _). starts_with w (utext v @ r)) json_words = None" by (auto simp: find_None_iff)
  then show ?thesis using c scan ne by (auto simp: starts_with_def first_class_def neq_Nil_conv)
qed

lemma parse_word:
  "value_end r \<Longrightarrow> v \<in> {VNull, VBool True, VBool False} \<Longrightarrow> parse_value (Suc n) (utext v @ r) = Inr (v, r)"
  by (elim insertE emptyE; simp add: starts_with_def json_words_def)

lemma skip_space_mark [simp]:
  "skip_space (CHR '','' # r) = CHR '','' # r" "skip_space (CHR '':'' # r) = CHR '':'' # r"
  "skip_space (CHR '']'' # r) = CHR '']'' # r" "skip_space (CHR ''}'' # r) = CHR ''}'' # r"
  by (simp_all add: skip_space_def)

lemma parse_object_keys: "distinct (map fst kvs) \<Longrightarrow> foldl (\<lambda>d (k, v). AList.update k v d) [] kvs = kvs"
proof (induction kvs rule: rev_induct)
  case (snoc p kvs)
  obtain k v where "p = (k, v)" by fastforce
  with snoc show ?case by (simp add: update_new_key keys_def)
qed simp

lemma parse_items_text:
  assumes "\<And>v n r. v \<in> set xs \<Longrightarrow> length (utext v) \<le> n \<Longrightarrow> value_end r \<Longrightarrow> parse_value n (utext v @ r) = Inr (v, r)"
    and "list_all readable_json xs" "xs \<noteq> []" "length (join '','' (map utext xs)) < n"
  shows "parse_items n (join '','' (map utext xs) @ '']'' @ r) = Inr (xs, r)"
  using assms
proof (induction xs arbitrary: n)
  case (Cons x xs)
  obtain m where n: "n = Suc m" using Cons.prems(4) by (cases n) auto
  show ?case
  proof (cases xs)
    case Nil
    have "parse_value m (utext x @ CHR '']'' # r) = Inr (x, CHR '']'' # r)"
      using Cons.prems(1) [of x m "CHR '']'' # r"] Cons.prems(4) Nil n by simp
    then show ?thesis by (simp add: n Nil starts_with_def)
  next
    case (Cons y ys)
    let ?t = "join '','' (map utext xs) @ '']'' @ r"
    have "parse_value m (utext x @ CHR '','' # ?t) = Inr (x, CHR '','' # ?t)"
      using Cons.prems(1) [of x m "CHR '','' # ?t"] Cons.prems(4) Cons n by simp
    moreover have "skip_space ?t = ?t"
      using utext_start(2) [of y] Cons.prems(2) Cons by (cases ys) auto
    moreover have "parse_items m ?t = Inr (xs, r)"
      by (rule Cons.IH) (use Cons.prems Cons n in auto)
    ultimately show ?thesis by (simp add: n Cons starts_with_def)
  qed
qed simp

lemma parse_members_text:
  assumes "\<And>k v n r. (k, v) \<in> set kvs \<Longrightarrow> length (utext v) \<le> n \<Longrightarrow> value_end r \<Longrightarrow> parse_value n (utext v @ r) = Inr (v, r)"
    and "list_all (\<lambda>(k, v). readable_json v) kvs" "kvs \<noteq> []"
    and "length (join '','' (map (\<lambda>(k, v). render_str k @ '':'' @ utext v) kvs)) < n"
  shows "parse_members n (join '','' (map (\<lambda>(k, v). render_str k @ '':'' @ utext v) kvs) @ ''}'' @ r) = Inr (kvs, r)"
  using assms
proof (induction kvs arbitrary: n)
  case (Cons p kvs)
  obtain k v where p: "p = (k, v)" by fastforce
  obtain m where n: "n = Suc m" using Cons.prems(4) by (cases n) auto
  have v: "readable_json v" using Cons.prems(2) p by simp
  have quote: "render_str k = CHR 0x22 # tl (render_str k)" "scan_chars (tl (render_str k) @ q) = Inr (k, q)" for q
    using scan_rendered [of k q] by (simp_all add: render_str_def)
  show ?case
  proof (cases kvs)
    case Nil
    let ?q = "CHR ''}'' # r"
    have "parse_value m (utext v @ ?q) = Inr (v, ?q)" using Cons.prems(1) [of k v m ?q] Cons.prems(4) Nil n p by simp
    then show ?thesis unfolding n Nil p list.map join.simps prod.case
      by (subst quote(1)) (simp add: quote(2) starts_with_def utext_start(2) [OF v])
  next
    case (Cons y ys)
    let ?f = "\<lambda>(k, v). render_str k @ '':'' @ utext v"
    let ?t = "join '','' (map ?f kvs) @ ''}'' @ r"
    have "parse_value m (utext v @ CHR '','' # ?t) = Inr (v, CHR '','' # ?t)"
      using Cons.prems(1) [of k v m "CHR '','' # ?t"] Cons.prems(4) Cons n p by simp
    moreover have "skip_space ?t = ?t"
      using Cons by (cases ys; cases y) (auto simp: skip_space_def render_str_def)
    moreover have "parse_members m ?t = Inr (kvs, r)"
      by (rule Cons.IH) (use Cons.prems Cons n p in auto)
    ultimately have "parse_members (Suc m) (render_str k @ CHR '':'' # utext v @ CHR '','' # ?t) = Inr ((k, v) # kvs, r)"
      by (subst quote(1)) (simp add: quote(2) starts_with_def utext_start(2) [OF v])
    moreover have "join '','' (map ?f (p # kvs)) @ ''}'' @ r = render_str k @ CHR '':'' # utext v @ CHR '','' # ?t"
      by (simp add: p Cons)
    ultimately show ?thesis unfolding n by (simp only: p)
  qed
qed simp

lemma length_join: "x \<in> set xs \<Longrightarrow> length x \<le> length (join sep xs)"
  by (induction sep xs rule: join.induct) auto

lemma parse_text: "readable_json v \<Longrightarrow> length (utext v) \<le> n \<Longrightarrow> value_end r \<Longrightarrow> parse_value n (utext v @ r) = Inr (v, r)"
proof (induction v arbitrary: n r)
  case (VArr xs)
  obtain m where n: "n = Suc m" using VArr.prems(2) by (cases n) auto
  have "parse_items m (join '','' (map utext xs) @ '']'' @ r) = Inr (xs, r)" if "xs \<noteq> []"
  proof (rule parse_items_text)
    show "parse_value k (utext v @ q) = Inr (v, q)" if "v \<in> set xs" "length (utext v) \<le> k" "value_end q" for v k q
      using VArr.IH [OF that(1) _ that(2,3)] VArr.prems(1) that(1) by (simp add: list_all_iff)
    show "list_all readable_json xs" using VArr.prems(1) by simp
    show "xs \<noteq> []" by (rule that)
    show "length (join '','' (map utext xs)) < m" using VArr.prems(2) n by simp
  qed
  moreover have "skip_space (join '','' (map utext xs) @ '']'' @ r) = join '','' (map utext xs) @ '']'' @ r
      \<and> \<not> starts_with '']'' (join '','' (map utext xs) @ '']'' @ r)" if ne: "xs \<noteq> []"
  proof -
    obtain x ys where x: "xs = x # ys" using ne by (cases xs) auto
    then have "\<exists>q. join '','' (map utext xs) @ '']'' @ r = utext x @ q" by (cases ys) auto
    then show ?thesis using utext_start(2,3) [of x] VArr.prems(1) x by auto
  qed
  ultimately show ?case by (cases "xs = []") (simp_all add: n starts_with_def)
next
  case (VObj kvs)
  obtain m where n: "n = Suc m" using VObj.prems(2) by (cases n) auto
  let ?t = "join '','' (map (\<lambda>(k, v). render_str k @ '':'' @ utext v) kvs) @ ''}'' @ r"
  have m: "parse_members m ?t = Inr (kvs, r)" if "kvs \<noteq> []"
  proof (rule parse_members_text)
    show "parse_value j (utext v @ q) = Inr (v, q)"
      if "(k, v) \<in> set kvs" "length (utext v) \<le> j" "value_end q" for k v j q
      using VObj.IH [OF that(1), of v j q] VObj.prems(1) that by (auto simp: list_all_iff)
  qed (use VObj.prems n that in auto)
  have "skip_space ?t = ?t \<and> \<not> starts_with ''}'' ?t" if ne: "kvs \<noteq> []"
  proof -
    obtain k v ys where x: "kvs = (k, v) # ys" using ne by (cases kvs) auto
    then have "\<exists>q. ?t = CHR 0x22 # q" by (cases ys) (auto simp: render_str_def)
    then obtain q where "?t = CHR 0x22 # q" ..
    then show ?thesis by (simp only:) (simp add: skip_space_def starts_with_def)
  qed
  with m show ?case using VObj.prems(1)
    by (cases "kvs = []") (simp_all add: n starts_with_def parse_object_keys)
next
  case (VStr s)
  obtain m where n: "n = Suc m" using VStr.prems(2) utext_start(1) [OF VStr.prems(1)] by (cases n) auto
  have "render_str s @ r = CHR 0x22 # (tl (render_str s) @ r)" by (simp add: render_str_def)
  then show ?case unfolding n jtext_with.simps using scan_rendered [of s r]
    by (simp only: parse_value.simps) (simp add: starts_with_def)
next
  case VNull
  then show ?case using parse_word [of r VNull "n - 1"] by (cases n) simp_all
next
  case (VBool b)
  then show ?case using parse_word [of r "VBool b" "n - 1"] by (cases n; cases b) simp_all
next
  case (VInt i)
  then show ?case using parse_number [of "VInt i" r "n - 1"] utext_start(1) [of "VInt i"] by (cases n) simp_all
next
  case (VFloat x)
  then show ?case using parse_number [of "VFloat x" r "n - 1"] utext_start(1) [of "VFloat x"] by (cases n) simp_all
qed

theorem json_loads_text: "readable_json v \<Longrightarrow> json_loads (utext v) = Inr v"
  using parse_text [of v "2 * length (utext v) + 1" "[]"] utext_start(2) [of v "[]"]
  by (simp add: json_loads_def skip_space_def)

end
