(* ===== verification/Evidence.thy ===== *)
theory Evidence
  imports JsonParse
begin

text \<open>
  Signed evidence manifests, \<open>planrace/evidence.py\<close>: the models with their field constraints as
  readers of JSON values (strict, no unknown fields), their dumps, the canonical signed bytes,
  signing, verification and the summary. The JSON reader of pydantic and the sr25519 keys are
  parameters; \<open>json.loads\<close> is the one of \<open>JsonParse\<close>. A file is its bytes or the error of reading it.
\<close>

section \<open>Strict readers\<close>

definition schema_error :: "'a result" where
  "schema_error = Inl (ValueError ''validation error'')"

fun read_str :: "(string \<Rightarrow> bool) \<Rightarrow> jval \<Rightarrow> string result" where
  "read_str ok (VStr s) = (if ok s then Inr s else schema_error)"
| "read_str ok _ = schema_error"

fun read_bool :: "jval \<Rightarrow> bool result" where
  "read_bool (VBool b) = Inr b"
| "read_bool _ = schema_error"

fun read_int :: "int \<Rightarrow> jval \<Rightarrow> int result" where
  "read_int lo (VInt i) = (if lo \<le> i then Inr i else schema_error)"
| "read_int lo _ = schema_error"

text \<open>A strict float field takes an integer too. A constraint is violated only by a comparison
  that holds, so a NaN passes.\<close>

fun read_float :: "(pyfloat \<Rightarrow> bool) \<Rightarrow> jval \<Rightarrow> pyfloat result" where
  "read_float ok (VFloat x) = (if ok x then Inr x else schema_error)"
| "read_float ok (VInt i) = (if ok (double_of (of_int i)) then Inr (double_of (of_int i)) else schema_error)"
| "read_float ok _ = schema_error"

fun read_opt :: "(jval \<Rightarrow> 'a result) \<Rightarrow> jval \<Rightarrow> 'a option result" where
  "read_opt r VNull = Inr None"
| "read_opt r v = rbind (r v) (\<lambda>x. Inr (Some x))"

fun read_tuple :: "(jval \<Rightarrow> 'a result) \<Rightarrow> jval \<Rightarrow> 'a list result" where
  "read_tuple r (VArr xs) = rmap r xs"
| "read_tuple r _ = schema_error"

fun read_pair :: "(jval \<Rightarrow> 'a result) \<Rightarrow> (jval \<Rightarrow> 'b result) \<Rightarrow> jval \<Rightarrow> ('a \<times> 'b) result" where
  "read_pair r q (VArr [x, y]) = rbind (r x) (\<lambda>a. rbind (q y) (\<lambda>b. Inr (a, b)))"
| "read_pair r q _ = schema_error"

fun read_dict :: "(string \<Rightarrow> bool) \<Rightarrow> (jval \<Rightarrow> 'a result) \<Rightarrow> jval \<Rightarrow> (string, 'a) dict result" where
  "read_dict ok r (VObj kvs) =
     rmap (\<lambda>(k, v). if ok k then rbind (r v) (\<lambda>x. Inr (k, x)) else schema_error) kvs"
| "read_dict ok r _ = schema_error"

text \<open>An object with its required and optional keys and no other.\<close>

fun read_object :: "string list \<Rightarrow> string list \<Rightarrow> jval \<Rightarrow> (string \<Rightarrow> jval option) result" where
  "read_object required optional (VObj kvs) =
     (if list_all (\<lambda>k. map_of kvs k \<noteq> None) required
         \<and> list_all (\<lambda>(k, _). k \<in> set required \<or> k \<in> set optional) kvs
      then Inr (map_of kvs) else schema_error)"
| "read_object required optional _ = schema_error"

definition read_field :: "(string \<Rightarrow> jval option) \<Rightarrow> string \<Rightarrow> (jval \<Rightarrow> 'a result) \<Rightarrow> 'a result" where
  "read_field obj k r = (case obj k of Some v \<Rightarrow> r v | None \<Rightarrow> schema_error)"

definition read_default :: "(string \<Rightarrow> jval option) \<Rightarrow> string \<Rightarrow> 'a \<Rightarrow> (jval \<Rightarrow> 'a result) \<Rightarrow> 'a result" where
  "read_default obj k d r = (case obj k of Some v \<Rightarrow> r v | None \<Rightarrow> Inr d)"

definition dump_opt :: "('a \<Rightarrow> jval) \<Rightarrow> 'a option \<Rightarrow> jval" where
  "dump_opt d x = (case x of None \<Rightarrow> VNull | Some y \<Rightarrow> d y)"

section \<open>Constants and field types\<close>

definition EVIDENCE_SCHEMA_VERSION :: string where
  "EVIDENCE_SCHEMA_VERSION = ''planrace/evidence/2''"

definition EVIDENCE_SIGNATURE_DOMAINS :: "(string \<times> bytes) list" where
  "EVIDENCE_SIGNATURE_DOMAINS =
     [(''planrace/evidence/1'', ''planrace-evidence-manifest/v1'' @ [CHR 0x00]),
      (''planrace/evidence/2'', ''planrace-evidence-manifest/v2'' @ [CHR 0x00])]"

definition lower_hex :: "nat \<Rightarrow> string \<Rightarrow> bool" where
  "lower_hex n s \<longleftrightarrow> length s = n \<and> list_all is_lower_hex s"

definition non_empty_text :: "string \<Rightarrow> bool" where
  "non_empty_text s \<longleftrightarrow> 1 \<le> py_len s \<and> py_len s \<le> 4096"

definition evidence_hotkey :: "string \<Rightarrow> bool" where
  "evidence_hotkey s \<longleftrightarrow> 40 \<le> py_len s \<and> py_len s \<le> 64"

abbreviation read_digest :: "jval \<Rightarrow> string result" where "read_digest \<equiv> read_str (lower_hex 64)"
abbreviation read_text :: "jval \<Rightarrow> string result" where "read_text \<equiv> read_str non_empty_text"
abbreviation read_hotkey :: "jval \<Rightarrow> string result" where "read_hotkey \<equiv> read_str evidence_hotkey"

definition not_negative :: "pyfloat \<Rightarrow> bool" where "not_negative x \<longleftrightarrow> \<not> float_lt x (Fin 0)"
definition positive_float :: "pyfloat \<Rightarrow> bool" where "positive_float x \<longleftrightarrow> \<not> (float_lt x (Fin 0) \<or> x = Fin 0)"
definition unit_float :: "pyfloat \<Rightarrow> bool" where
  "unit_float x \<longleftrightarrow> \<not> float_lt x (Fin 0) \<and> \<not> float_lt (Fin 1) x"

section \<open>The models\<close>

record task_reveal_evidence =
  tv_task_id :: string
  tv_seed :: "int option"
  tv_salt :: "string option"
  tv_reveal_digest :: string
  tv_verified :: bool

definition read_task_reveal :: "jval \<Rightarrow> task_reveal_evidence result" where
  "read_task_reveal v =
     rbind (read_object [''task_id'', ''seed'', ''salt'', ''reveal_digest'', ''verified''] [] v) (\<lambda>obj.
     rbind (read_field obj ''task_id'' read_text) (\<lambda>task_id.
     rbind (read_field obj ''seed'' (read_opt (read_int 0))) (\<lambda>seed.
     rbind (read_field obj ''salt'' (read_opt read_text)) (\<lambda>salt.
     rbind (read_field obj ''reveal_digest'' read_digest) (\<lambda>reveal_digest.
     rbind (read_field obj ''verified'' read_bool) (\<lambda>verified.
     Inr \<lparr>tv_task_id = task_id, tv_seed = seed, tv_salt = salt, tv_reveal_digest = reveal_digest,
       tv_verified = verified\<rparr>))))))"

definition dump_task_reveal :: "task_reveal_evidence \<Rightarrow> jval" where
  "dump_task_reveal x = VObj [(''task_id'', VStr (tv_task_id x)), (''seed'', dump_opt VInt (tv_seed x)),
     (''salt'', dump_opt VStr (tv_salt x)), (''reveal_digest'', VStr (tv_reveal_digest x)),
     (''verified'', VBool (tv_verified x))]"

record authentication_evidence =
  ae_authenticated_requests :: int
  ae_signed_responses :: int
  ae_request_protocol :: string
  ae_response_protocol :: "string option"

definition read_authentication :: "jval \<Rightarrow> authentication_evidence result" where
  "read_authentication v =
     rbind (read_object [''authenticated_requests'', ''signed_responses'', ''request_protocol'', ''response_protocol''] [] v) (\<lambda>obj.
     rbind (read_field obj ''authenticated_requests'' (read_int 0)) (\<lambda>authenticated_requests.
     rbind (read_field obj ''signed_responses'' (read_int 0)) (\<lambda>signed_responses.
     rbind (read_field obj ''request_protocol'' read_text) (\<lambda>request_protocol.
     rbind (read_field obj ''response_protocol'' (read_opt read_text)) (\<lambda>response_protocol.
     Inr \<lparr>ae_authenticated_requests = authenticated_requests, ae_signed_responses = signed_responses,
       ae_request_protocol = request_protocol, ae_response_protocol = response_protocol\<rparr>)))))"

definition dump_authentication :: "authentication_evidence \<Rightarrow> jval" where
  "dump_authentication x = VObj [(''authenticated_requests'', VInt (ae_authenticated_requests x)),
     (''signed_responses'', VInt (ae_signed_responses x)), (''request_protocol'', VStr (ae_request_protocol x)),
     (''response_protocol'', dump_opt VStr (ae_response_protocol x))]"

record score_evidence =
  sv_uid :: int
  sv_miner_hotkey :: string
  sv_profile :: string
  sv_accepted :: bool
  sv_correct :: bool
  sv_score :: pyfloat
  sv_failure_code :: "string option"
  sv_result_hash :: "string option"
  sv_reference_hash :: "string option"
  sv_strategy_digest :: "string option"
  sv_schedule_digest :: "string option"
  sv_median_warm_ms :: "pyfloat option"
  sv_setup_ms :: "pyfloat option"
  sv_plan_cost :: "int option"
  sv_baseline_relative_speedup :: "pyfloat option"

definition read_score :: "jval \<Rightarrow> score_evidence result" where
  "read_score v =
     rbind (read_object [''uid'', ''miner_hotkey'', ''profile'', ''accepted'', ''correct'', ''score'', ''failure_code'',
         ''result_hash'', ''reference_hash'', ''median_warm_ms'', ''setup_ms'', ''plan_cost'', ''baseline_relative_speedup'']
       [''strategy_digest'', ''schedule_digest''] v) (\<lambda>obj.
     rbind (read_field obj ''uid'' (read_int 0)) (\<lambda>uid.
     rbind (read_field obj ''miner_hotkey'' read_hotkey) (\<lambda>miner_hotkey.
     rbind (read_field obj ''profile'' read_text) (\<lambda>profile.
     rbind (read_field obj ''accepted'' read_bool) (\<lambda>accepted.
     rbind (read_field obj ''correct'' read_bool) (\<lambda>correct.
     rbind (read_field obj ''score'' (read_float not_negative)) (\<lambda>score.
     rbind (read_field obj ''failure_code'' (read_opt read_text)) (\<lambda>failure_code.
     rbind (read_field obj ''result_hash'' (read_opt read_digest)) (\<lambda>result_hash.
     rbind (read_field obj ''reference_hash'' (read_opt read_digest)) (\<lambda>reference_hash.
     rbind (read_default obj ''strategy_digest'' None (read_opt read_digest)) (\<lambda>strategy_digest.
     rbind (read_default obj ''schedule_digest'' None (read_opt read_digest)) (\<lambda>schedule_digest.
     rbind (read_field obj ''median_warm_ms'' (read_opt (read_float not_negative))) (\<lambda>median_warm_ms.
     rbind (read_field obj ''setup_ms'' (read_opt (read_float not_negative))) (\<lambda>setup_ms.
     rbind (read_field obj ''plan_cost'' (read_opt (read_int 0))) (\<lambda>plan_cost.
     rbind (read_field obj ''baseline_relative_speedup'' (read_opt (read_float positive_float))) (\<lambda>speedup.
     Inr \<lparr>sv_uid = uid, sv_miner_hotkey = miner_hotkey, sv_profile = profile, sv_accepted = accepted,
       sv_correct = correct, sv_score = score, sv_failure_code = failure_code, sv_result_hash = result_hash,
       sv_reference_hash = reference_hash, sv_strategy_digest = strategy_digest,
       sv_schedule_digest = schedule_digest, sv_median_warm_ms = median_warm_ms, sv_setup_ms = setup_ms,
       sv_plan_cost = plan_cost, sv_baseline_relative_speedup = speedup\<rparr>))))))))))))))))"

definition dump_score :: "score_evidence \<Rightarrow> jval" where
  "dump_score x = VObj [(''uid'', VInt (sv_uid x)), (''miner_hotkey'', VStr (sv_miner_hotkey x)),
     (''profile'', VStr (sv_profile x)), (''accepted'', VBool (sv_accepted x)), (''correct'', VBool (sv_correct x)),
     (''score'', VFloat (sv_score x)), (''failure_code'', dump_opt VStr (sv_failure_code x)),
     (''result_hash'', dump_opt VStr (sv_result_hash x)), (''reference_hash'', dump_opt VStr (sv_reference_hash x)),
     (''strategy_digest'', dump_opt VStr (sv_strategy_digest x)), (''schedule_digest'', dump_opt VStr (sv_schedule_digest x)),
     (''median_warm_ms'', dump_opt VFloat (sv_median_warm_ms x)), (''setup_ms'', dump_opt VFloat (sv_setup_ms x)),
     (''plan_cost'', dump_opt VInt (sv_plan_cost x)),
     (''baseline_relative_speedup'', dump_opt VFloat (sv_baseline_relative_speedup x))]"

text \<open>\<open>sum\<close> of floats in CPython 3.12: Neumaier's compensated summation.\<close>

fun compensated_sum :: "real \<Rightarrow> real \<Rightarrow> real list \<Rightarrow> real" where
  "compensated_sum s c [] = (if c = 0 then s else fl (s + c))"
| "compensated_sum s c (x # xs) =
     (let t = fl (s + x)
      in compensated_sum t (if \<bar>x\<bar> \<le> \<bar>s\<bar> then fl (c + fl (fl (s - t) + x)) else fl (c + fl (fl (x - t) + s))) xs)"

text \<open>The weights are between zero and one or NaN; a NaN makes the sum NaN, and no comparison
  with it holds.\<close>

definition weights_are_normalized :: "pyfloat list \<Rightarrow> bool" where
  "weights_are_normalized ws \<longleftrightarrow>
     ws = [] \<or> \<not> list_all isfinite ws
     \<or> \<not> fl (1 / 10 ^ 9) < \<bar>fl (compensated_sum 0 0 (map float_val ws) - 1)\<bar>"

record weight_plan_evidence =
  wv_uids :: "int list"
  wv_weights :: "pyfloat list"

definition read_weight_plan :: "jval \<Rightarrow> weight_plan_evidence result" where
  "read_weight_plan v =
     rbind (read_object [''uids'', ''weights''] [] v) (\<lambda>obj.
     rbind (read_field obj ''uids'' (read_tuple (read_int 0))) (\<lambda>uids.
     rbind (read_field obj ''weights'' (read_tuple (read_float unit_float))) (\<lambda>weights.
     rbind (rcheck (weights_are_normalized weights) (ValueError ''non-empty weight plans must sum to one'')) (\<lambda>_.
     Inr \<lparr>wv_uids = uids, wv_weights = weights\<rparr>))))"

definition dump_weight_plan :: "weight_plan_evidence \<Rightarrow> jval" where
  "dump_weight_plan x = VObj [(''uids'', VArr (map VInt (wv_uids x))), (''weights'', VArr (map VFloat (wv_weights x)))]"

record extrinsic_evidence =
  xv_extrinsic_id :: string
  xv_block_hash :: string
  xv_success :: bool
  xv_message :: string
  xv_fee_tao :: pyfloat

definition read_extrinsic :: "jval \<Rightarrow> extrinsic_evidence result" where
  "read_extrinsic v =
     rbind (read_object [''extrinsic_id'', ''block_hash'', ''success'', ''message'', ''fee_tao''] [] v) (\<lambda>obj.
     rbind (read_field obj ''extrinsic_id'' read_text) (\<lambda>extrinsic_id.
     rbind (read_field obj ''block_hash'' read_digest) (\<lambda>block_hash.
     rbind (read_field obj ''success'' read_bool) (\<lambda>success.
     rbind (read_field obj ''message'' read_text) (\<lambda>message.
     rbind (read_field obj ''fee_tao'' (read_float not_negative)) (\<lambda>fee_tao.
     Inr \<lparr>xv_extrinsic_id = extrinsic_id, xv_block_hash = block_hash, xv_success = success,
       xv_message = message, xv_fee_tao = fee_tao\<rparr>))))))"

definition dump_extrinsic :: "extrinsic_evidence \<Rightarrow> jval" where
  "dump_extrinsic x = VObj [(''extrinsic_id'', VStr (xv_extrinsic_id x)), (''block_hash'', VStr (xv_block_hash x)),
     (''success'', VBool (xv_success x)), (''message'', VStr (xv_message x)), (''fee_tao'', VFloat (xv_fee_tao x))]"

record readback_evidence =
  rv_validator_uid :: int
  rv_last_update :: int
  rv_raw_weights :: "(int \<times> int) list"

definition read_readback :: "jval \<Rightarrow> readback_evidence result" where
  "read_readback v =
     rbind (read_object [''validator_uid'', ''last_update'', ''raw_weights''] [] v) (\<lambda>obj.
     rbind (read_field obj ''validator_uid'' (read_int 0)) (\<lambda>validator_uid.
     rbind (read_field obj ''last_update'' (read_int 0)) (\<lambda>last_update.
     rbind (read_field obj ''raw_weights'' (read_tuple (read_pair (read_int 0) (read_int 0)))) (\<lambda>raw_weights.
     Inr \<lparr>rv_validator_uid = validator_uid, rv_last_update = last_update, rv_raw_weights = raw_weights\<rparr>))))"

definition dump_readback :: "readback_evidence \<Rightarrow> jval" where
  "dump_readback x = VObj [(''validator_uid'', VInt (rv_validator_uid x)), (''last_update'', VInt (rv_last_update x)),
     (''raw_weights'', VArr (map (\<lambda>(u, w). VArr [VInt u, VInt w]) (rv_raw_weights x)))]"

record timestamp_evidence =
  mv_observed_at :: string
  mv_signed_at :: string

definition read_timestamps :: "jval \<Rightarrow> timestamp_evidence result" where
  "read_timestamps v =
     rbind (read_object [''observed_at'', ''signed_at''] [] v) (\<lambda>obj.
     rbind (read_field obj ''observed_at'' read_text) (\<lambda>observed_at.
     rbind (read_field obj ''signed_at'' read_text) (\<lambda>signed_at.
     Inr \<lparr>mv_observed_at = observed_at, mv_signed_at = signed_at\<rparr>)))"

definition dump_timestamps :: "timestamp_evidence \<Rightarrow> jval" where
  "dump_timestamps x = VObj [(''observed_at'', VStr (mv_observed_at x)), (''signed_at'', VStr (mv_signed_at x))]"

record source_artifact_evidence =
  av_path :: string
  av_sha256 :: string

definition read_source_artifact :: "jval \<Rightarrow> source_artifact_evidence result" where
  "read_source_artifact v =
     rbind (read_object [''path'', ''sha256''] [] v) (\<lambda>obj.
     rbind (read_field obj ''path'' read_text) (\<lambda>path.
     rbind (read_field obj ''sha256'' read_digest) (\<lambda>digest.
     Inr \<lparr>av_path = path, av_sha256 = digest\<rparr>)))"

definition dump_source_artifact :: "source_artifact_evidence \<Rightarrow> jval" where
  "dump_source_artifact x = VObj [(''path'', VStr (av_path x)), (''sha256'', VStr (av_sha256 x))]"

record validator_signature =
  vg_algorithm :: string
  vg_signer_hotkey :: string
  vg_signed_payload_sha256 :: string
  vg_signature_hex :: string

definition read_validator_signature :: "jval \<Rightarrow> validator_signature result" where
  "read_validator_signature v =
     rbind (read_object [''algorithm'', ''signer_hotkey'', ''signed_payload_sha256'', ''signature_hex''] [] v) (\<lambda>obj.
     rbind (read_field obj ''algorithm'' (read_str (\<lambda>s. s = ''sr25519''))) (\<lambda>algorithm.
     rbind (read_field obj ''signer_hotkey'' read_hotkey) (\<lambda>signer_hotkey.
     rbind (read_field obj ''signed_payload_sha256'' read_digest) (\<lambda>signed_payload_sha256.
     rbind (read_field obj ''signature_hex'' (read_str (lower_hex 128))) (\<lambda>signature_hex.
     Inr \<lparr>vg_algorithm = algorithm, vg_signer_hotkey = signer_hotkey,
       vg_signed_payload_sha256 = signed_payload_sha256, vg_signature_hex = signature_hex\<rparr>)))))"

definition dump_validator_signature :: "validator_signature \<Rightarrow> jval" where
  "dump_validator_signature x = VObj [(''algorithm'', VStr (vg_algorithm x)),
     (''signer_hotkey'', VStr (vg_signer_hotkey x)), (''signed_payload_sha256'', VStr (vg_signed_payload_sha256 x)),
     (''signature_hex'', VStr (vg_signature_hex x))]"

section \<open>The manifest\<close>

record evidence_manifest =
  em_schema_version :: string
  em_environment :: string
  em_network :: string
  em_netuid :: int
  em_run_id :: string
  em_epoch :: int
  em_git_commit :: string
  em_container_digests :: "(string, string) dict"
  em_protocol_version :: string
  em_validator_hotkeys :: "string list"
  em_miner_hotkeys :: "string list"
  em_task_commitment :: string
  em_task_reveal :: task_reveal_evidence
  em_request_digests :: "string list"
  em_response_digests :: "string list"
  em_authentication :: authentication_evidence
  em_scores :: "score_evidence list"
  em_weight_plan :: weight_plan_evidence
  em_extrinsics :: "extrinsic_evidence list"
  em_readback :: readback_evidence
  em_timestamps :: timestamp_evidence
  em_known_limitations :: "string list"
  em_source_artifacts :: "source_artifact_evidence list"
  em_validator_signature :: validator_signature

definition identities_are_unique :: "string list \<Rightarrow> unit result" where
  "identities_are_unique value =
     rbind (rcheck (value \<noteq> []) (ValueError ''at least one identity is required'')) (\<lambda>_.
     rcheck (distinct value) (ValueError ''identities must be unique''))"

definition score_hash_semantics :: "string \<Rightarrow> string \<Rightarrow> score_evidence \<Rightarrow> unit result" where
  "score_hash_semantics schema_version protocol_version score =
     (if schema_version = ''planrace/evidence/2'' then
        rbind (rcheck (protocol_version = ''planrace/2'') (ValueError ''evidence/2 is reserved for protocol v2'')) (\<lambda>_.
        rbind (rcheck (sv_result_hash score = None \<and> sv_reference_hash score = None)
          (ValueError ''evidence/2 cannot overload SQL result hash fields'')) (\<lambda>_.
        rcheck (sv_strategy_digest score \<noteq> None \<and> sv_schedule_digest score \<noteq> None)
          (ValueError ''evidence/2 scores require strategy and schedule digests'')))
      else rcheck (sv_strategy_digest score = None \<and> sv_schedule_digest score = None)
        (ValueError ''evidence/1 scores cannot contain v2 strategy digest fields''))"

definition score_hashes_match_schema_semantics :: "string \<Rightarrow> string \<Rightarrow> score_evidence list \<Rightarrow> unit result" where
  "score_hashes_match_schema_semantics schema_version protocol_version scores =
     rfold (\<lambda>_. score_hash_semantics schema_version protocol_version) () scores"

definition evidence_schema :: "string \<Rightarrow> bool" where
  "evidence_schema s \<longleftrightarrow> s \<in> {''planrace/evidence/1'', ''planrace/evidence/2''}"

definition evidence_environment :: "string \<Rightarrow> bool" where
  "evidence_environment s \<longleftrightarrow> s \<in> {''localnet'', ''testnet''}"

definition manifest_keys :: "string list" where
  "manifest_keys = [''environment'', ''network'', ''netuid'', ''run_id'', ''epoch'', ''git_commit'', ''container_digests'',
     ''protocol_version'', ''validator_hotkeys'', ''miner_hotkeys'', ''task_commitment'', ''task_reveal'',
     ''request_digests'', ''response_digests'', ''authentication'', ''scores'', ''weight_plan'', ''extrinsics'',
     ''readback'', ''timestamps'', ''known_limitations'', ''source_artifacts'', ''validator_signature'']"

definition read_manifest :: "jval \<Rightarrow> evidence_manifest result" where
  "read_manifest v =
     rbind (read_object manifest_keys [''schema_version''] v) (\<lambda>obj.
     rbind (read_default obj ''schema_version'' EVIDENCE_SCHEMA_VERSION
       (read_str evidence_schema)) (\<lambda>schema_version.
     rbind (read_field obj ''environment'' (read_str evidence_environment)) (\<lambda>environment.
     rbind (read_field obj ''network'' read_text) (\<lambda>network.
     rbind (read_field obj ''netuid'' (read_int 1)) (\<lambda>netuid.
     rbind (read_field obj ''run_id'' read_text) (\<lambda>run_id.
     rbind (read_field obj ''epoch'' (read_int 0)) (\<lambda>epoch.
     rbind (read_field obj ''git_commit'' (read_str (lower_hex 40))) (\<lambda>git_commit.
     rbind (read_field obj ''container_digests'' (read_dict non_empty_text read_digest)) (\<lambda>container_digests.
     rbind (read_field obj ''protocol_version'' read_text) (\<lambda>protocol_version.
     rbind (read_field obj ''validator_hotkeys'' (read_tuple read_hotkey)) (\<lambda>validator_hotkeys.
     rbind (identities_are_unique validator_hotkeys) (\<lambda>_.
     rbind (read_field obj ''miner_hotkeys'' (read_tuple read_hotkey)) (\<lambda>miner_hotkeys.
     rbind (identities_are_unique miner_hotkeys) (\<lambda>_.
     rbind (read_field obj ''task_commitment'' read_digest) (\<lambda>task_commitment.
     rbind (read_field obj ''task_reveal'' read_task_reveal) (\<lambda>task_reveal.
     rbind (read_field obj ''request_digests'' (read_tuple read_digest)) (\<lambda>request_digests.
     rbind (read_field obj ''response_digests'' (read_tuple read_digest)) (\<lambda>response_digests.
     rbind (read_field obj ''authentication'' read_authentication) (\<lambda>authentication.
     rbind (read_field obj ''scores'' (read_tuple read_score)) (\<lambda>scores.
     rbind (read_field obj ''weight_plan'' read_weight_plan) (\<lambda>weight_plan.
     rbind (read_field obj ''extrinsics'' (read_tuple read_extrinsic)) (\<lambda>extrinsics.
     rbind (read_field obj ''readback'' read_readback) (\<lambda>readback.
     rbind (read_field obj ''timestamps'' read_timestamps) (\<lambda>timestamps.
     rbind (read_field obj ''known_limitations'' (read_tuple read_text)) (\<lambda>known_limitations.
     rbind (read_field obj ''source_artifacts'' (read_tuple read_source_artifact)) (\<lambda>source_artifacts.
     rbind (read_field obj ''validator_signature'' read_validator_signature) (\<lambda>signature.
     rbind (score_hashes_match_schema_semantics schema_version protocol_version scores) (\<lambda>_.
     Inr \<lparr>em_schema_version = schema_version, em_environment = environment, em_network = network,
       em_netuid = netuid, em_run_id = run_id, em_epoch = epoch, em_git_commit = git_commit,
       em_container_digests = container_digests, em_protocol_version = protocol_version,
       em_validator_hotkeys = validator_hotkeys, em_miner_hotkeys = miner_hotkeys,
       em_task_commitment = task_commitment, em_task_reveal = task_reveal, em_request_digests = request_digests,
       em_response_digests = response_digests, em_authentication = authentication, em_scores = scores,
       em_weight_plan = weight_plan, em_extrinsics = extrinsics, em_readback = readback,
       em_timestamps = timestamps, em_known_limitations = known_limitations,
       em_source_artifacts = source_artifacts, em_validator_signature = signature\<rparr>))))))))))))))))))))))))))))"

text \<open>\<open>model_dump(mode="json", exclude={"validator_signature"})\<close> and with the signature.\<close>

definition dump_unsigned :: "evidence_manifest \<Rightarrow> (string \<times> jval) list" where
  "dump_unsigned m = [(''schema_version'', VStr (em_schema_version m)), (''environment'', VStr (em_environment m)),
     (''network'', VStr (em_network m)), (''netuid'', VInt (em_netuid m)), (''run_id'', VStr (em_run_id m)),
     (''epoch'', VInt (em_epoch m)), (''git_commit'', VStr (em_git_commit m)),
     (''container_digests'', VObj (map (\<lambda>(k, d). (k, VStr d)) (em_container_digests m))),
     (''protocol_version'', VStr (em_protocol_version m)),
     (''validator_hotkeys'', VArr (map VStr (em_validator_hotkeys m))),
     (''miner_hotkeys'', VArr (map VStr (em_miner_hotkeys m))), (''task_commitment'', VStr (em_task_commitment m)),
     (''task_reveal'', dump_task_reveal (em_task_reveal m)),
     (''request_digests'', VArr (map VStr (em_request_digests m))),
     (''response_digests'', VArr (map VStr (em_response_digests m))),
     (''authentication'', dump_authentication (em_authentication m)),
     (''scores'', VArr (map dump_score (em_scores m))), (''weight_plan'', dump_weight_plan (em_weight_plan m)),
     (''extrinsics'', VArr (map dump_extrinsic (em_extrinsics m))), (''readback'', dump_readback (em_readback m)),
     (''timestamps'', dump_timestamps (em_timestamps m)),
     (''known_limitations'', VArr (map VStr (em_known_limitations m))),
     (''source_artifacts'', VArr (map dump_source_artifact (em_source_artifacts m)))]"

definition dump_manifest :: "evidence_manifest \<Rightarrow> (string \<times> jval) list" where
  "dump_manifest m = dump_unsigned m @ [(''validator_signature'', dump_validator_signature (em_validator_signature m))]"

section \<open>Canonical bytes and the signature payload\<close>

text \<open>A float that is an integer is written as one.\<close>

fun normalize_json_numbers :: "jval \<Rightarrow> jval result" where
  "normalize_json_numbers (VFloat (Fin x)) = Inr (if of_int \<lfloor>x\<rfloor> = x then VInt \<lfloor>x\<rfloor> else VFloat (Fin x))"
| "normalize_json_numbers (VFloat _) = Inl (EvidenceVerificationError ''manifest numbers must be finite'')"
| "normalize_json_numbers (VObj kvs) =
     rbind (rmap (\<lambda>(k, v). rbind (normalize_json_numbers v) (\<lambda>u. Inr (k, u))) kvs) (\<lambda>us. Inr (VObj us))"
| "normalize_json_numbers (VArr xs) = rbind (rmap normalize_json_numbers xs) (\<lambda>us. Inr (VArr us))"
| "normalize_json_numbers v = Inr v"

text \<open>\<open>TypeError\<close> and \<open>ValueError\<close>, with its subclass here, become an evidence error.\<close>

definition evidence_error :: "string \<Rightarrow> 'a result \<Rightarrow> 'a result" where
  "evidence_error prefix r =
     (case r of
        Inl (ValueError e) \<Rightarrow> Inl (EvidenceVerificationError (prefix @ e))
      | Inl (TypeError e) \<Rightarrow> Inl (EvidenceVerificationError (prefix @ e))
      | Inl (EvidenceVerificationError e) \<Rightarrow> Inl (EvidenceVerificationError (prefix @ e))
      | _ \<Rightarrow> r)"

text \<open>After the normalization no float is infinite or NaN, so \<open>allow_nan=False\<close> never applies.\<close>

definition canonical_bytes :: "(string \<times> jval) list \<Rightarrow> bytes result" where
  "canonical_bytes payload =
     evidence_error ''manifest is not canonicalizable: ''
       (rbind (normalize_json_numbers (VObj payload)) (\<lambda>v. Inr (utext (sort_keys v))))"

text \<open>What is signed: a manifest or a mapping of JSON values.\<close>

datatype signed_data = ModelData evidence_manifest | MapData "(string \<times> jval) list"

fun canonical_manifest_bytes :: "signed_data \<Rightarrow> bytes result" where
  "canonical_manifest_bytes (ModelData m) = canonical_bytes (dump_unsigned m)"
| "canonical_manifest_bytes (MapData kvs) = canonical_bytes (filter (\<lambda>(k, _). k \<noteq> ''validator_signature'') kvs)"

text \<open>\<open>str\<close> of a value that is not a string never names a domain.\<close>

fun schema_of :: "signed_data \<Rightarrow> string option" where
  "schema_of (ModelData m) = Some (em_schema_version m)"
| "schema_of (MapData kvs) = (case map_of kvs ''schema_version'' of Some (VStr s) \<Rightarrow> Some s | _ \<Rightarrow> None)"

definition signature_payload :: "signed_data \<Rightarrow> bytes result" where
  "signature_payload data =
     (case Option.bind (schema_of data) (map_of EVIDENCE_SIGNATURE_DOMAINS) of
        None \<Rightarrow> Inl (EvidenceVerificationError ''unsupported evidence signature domain'')
      | Some domain \<Rightarrow> rbind (canonical_manifest_bytes data) (\<lambda>b. Inr (domain @ b)))"

section \<open>Signing and verification\<close>

text \<open>A key pair: its address and \<open>sign\<close>. \<open>kp_verify\<close> is the SDK's verification as in \<open>Auth\<close>;
  \<open>from_json\<close> is the JSON reader of pydantic.\<close>

record evidence_keypair =
  ek_ss58_address :: string
  ek_sign :: "bytes \<Rightarrow> bytes result"

definition validate_json :: "(bytes \<Rightarrow> jval result) \<Rightarrow> bytes \<Rightarrow> evidence_manifest result" where
  "validate_json from_json raw = rbind (from_json raw) read_manifest"

text \<open>\<open>json.dumps\<close> with \<open>allow_nan=False\<close>, in the order given.\<close>

fun has_nan :: "jval \<Rightarrow> bool" where
  "has_nan (VFloat x) = (\<not> isfinite x)"
| "has_nan (VArr xs) = list_ex has_nan xs"
| "has_nan (VObj kvs) = list_ex (\<lambda>(_, v). has_nan v) kvs"
| "has_nan _ = False"

definition dumps_strict :: "jval \<Rightarrow> bytes result" where
  "dumps_strict v = rbind (rcheck (\<not> has_nan v) (ValueError ''Out of range float values are not JSON compliant''))
     (\<lambda>_. Inr (utext v))"

definition signature_entry :: "string \<Rightarrow> string \<Rightarrow> string \<Rightarrow> string \<times> jval" where
  "signature_entry address digest signature = (''validator_signature'', VObj [(''algorithm'', VStr ''sr25519''),
     (''signer_hotkey'', VStr address), (''signed_payload_sha256'', VStr digest), (''signature_hex'', VStr signature)])"

definition verify_evidence_signature ::
  "(string \<Rightarrow> bytes \<Rightarrow> bytes \<Rightarrow> bool result) \<Rightarrow> signed_data \<Rightarrow> evidence_manifest \<Rightarrow> string option \<Rightarrow> string result" where
  "verify_evidence_signature kp_verify data manifest expected_signer =
     (let signature = em_validator_signature manifest in
      rbind (rcheck (case expected_signer of None \<Rightarrow> True | Some s \<Rightarrow> vg_signer_hotkey signature = s)
        (EvidenceVerificationError ''manifest signer does not match expected signer'')) (\<lambda>_.
      rbind (rcheck (vg_signer_hotkey signature \<in> set (em_validator_hotkeys manifest))
        (EvidenceVerificationError ''manifest signer is not a declared validator hotkey'')) (\<lambda>_.
      rbind (signature_payload data) (\<lambda>payload.
      let digest = sha256_hex payload in
      rbind (rcheck (digest = vg_signed_payload_sha256 signature)
        (EvidenceVerificationError ''signed payload digest mismatch'')) (\<lambda>_.
      rbind (evidence_error ''invalid validator signature: ''
        (rbind (bytes_fromhex (vg_signature_hex signature)) (\<lambda>sig. kp_verify (vg_signer_hotkey signature) payload sig)))
        (\<lambda>verified.
      rbind (rcheck verified (EvidenceVerificationError ''validator signature verification failed'')) (\<lambda>_.
      Inr digest)))))))"

definition verify_manifest ::
  "(string \<Rightarrow> bytes \<Rightarrow> bytes \<Rightarrow> bool result) \<Rightarrow> evidence_manifest \<Rightarrow> string option \<Rightarrow> string result" where
  "verify_manifest kp_verify manifest expected_signer =
     verify_evidence_signature kp_verify (ModelData manifest) manifest expected_signer"

definition sign_manifest ::
  "(bytes \<Rightarrow> jval result) \<Rightarrow> (string \<Rightarrow> bytes \<Rightarrow> bytes \<Rightarrow> bool result)
    \<Rightarrow> (string \<times> jval) list \<Rightarrow> evidence_keypair \<Rightarrow> evidence_manifest result" where
  "sign_manifest from_json kp_verify data keypair =
     (let placeholder = signature_entry (ek_ss58_address keypair) (replicate 64 (CHR ''0'')) (replicate 128 (CHR ''0''));
          unsigned = filter (\<lambda>(k, _). k \<noteq> ''validator_signature'') data @ [placeholder] in
      rbind (dumps_strict (VObj unsigned)) (\<lambda>text.
      rbind (validate_json from_json text) (\<lambda>validated.
      rbind (signature_payload (ModelData validated)) (\<lambda>payload.
      rbind (ek_sign keypair payload) (\<lambda>signature.
      let signed = dump_unsigned validated
        @ [signature_entry (ek_ss58_address keypair) (sha256_hex payload) (bytes_hex signature)] in
      rbind (dumps_strict (VObj signed)) (\<lambda>text.
      rbind (validate_json from_json text) (\<lambda>manifest.
      rbind (verify_manifest kp_verify manifest None) (\<lambda>_.
      Inr manifest))))))))"

section \<open>Files and the summary\<close>

definition read_file :: "bytes result \<Rightarrow> bytes result" where
  "read_file content =
     (case content of Inl (OSError e) \<Rightarrow> Inl (EvidenceVerificationError (''cannot read manifest: '' @ e)) | r \<Rightarrow> r)"

definition load_manifest :: "(bytes \<Rightarrow> jval result) \<Rightarrow> bytes result \<Rightarrow> evidence_manifest result" where
  "load_manifest from_json content =
     rbind (read_file content) (\<lambda>raw.
     evidence_error ''manifest schema validation failed: '' (validate_json from_json raw))"

definition verify_manifest_file ::
  "(bytes \<Rightarrow> jval result) \<Rightarrow> (string \<Rightarrow> bytes \<Rightarrow> bytes \<Rightarrow> bool result) \<Rightarrow> bytes result \<Rightarrow> string option
    \<Rightarrow> (evidence_manifest \<times> string) result" where
  "verify_manifest_file from_json kp_verify content expected_signer =
     rbind (read_file content) (\<lambda>raw.
     rbind (evidence_error ''manifest schema validation failed: ''
       (rbind (json_loads raw) (\<lambda>v. case v of
          VObj kvs \<Rightarrow> rbind (validate_json from_json raw) (\<lambda>manifest. Inr (kvs, manifest))
        | _ \<Rightarrow> Inl (TypeError ''manifest root must be an object'')))) (\<lambda>(signed_data, manifest).
     rbind (verify_evidence_signature kp_verify (MapData signed_data) manifest expected_signer) (\<lambda>digest.
     Inr (manifest, digest))))"

definition summarize_manifest ::
  "(string \<Rightarrow> bytes \<Rightarrow> bytes \<Rightarrow> bool result) \<Rightarrow> evidence_manifest \<Rightarrow> string option \<Rightarrow> (string \<times> jval) list result" where
  "summarize_manifest kp_verify m digest =
     rbind (case digest of Some d \<Rightarrow> if d = [] then verify_manifest kp_verify m None else Inr d
       | None \<Rightarrow> verify_manifest kp_verify m None) (\<lambda>payload_digest.
     let correct = length (filter sv_correct (em_scores m)) in
     Inr [(''environment'', VStr (em_environment m)), (''network'', VStr (em_network m)), (''netuid'', VInt (em_netuid m)),
       (''run_id'', VStr (em_run_id m)), (''epoch'', VInt (em_epoch m)), (''protocol_version'', VStr (em_protocol_version m)),
       (''git_commit'', VStr (em_git_commit m)), (''validator_count'', VInt (int (length (em_validator_hotkeys m)))),
       (''miner_count'', VInt (int (length (em_miner_hotkeys m)))),
       (''authenticated_requests'', VInt (ae_authenticated_requests (em_authentication m))),
       (''signed_responses'', VInt (ae_signed_responses (em_authentication m))),
       (''correctness_passed'', VInt (int correct)),
       (''correctness_failed'', VInt (int (length (em_scores m)) - int correct)),
       (''weight_recipients'', VInt (int (length (wv_uids (em_weight_plan m))))),
       (''extrinsic_count'', VInt (int (length (em_extrinsics m)))), (''payload_sha256'', VStr payload_digest),
       (''signer_hotkey'', VStr (vg_signer_hotkey (em_validator_signature m)))])"

section \<open>A dump is read back\<close>

named_theorems read_back \<open>reading the dump of what was read\<close>

lemma read_str_ok: "read_str ok v = Inr s \<Longrightarrow> ok s"
  and read_int_ok: "read_int lo v = Inr i \<Longrightarrow> lo \<le> i"
  by (cases v; auto simp: schema_error_def split: if_splits)+

lemma read_str_back [read_back]: "read_str ok v = Inr s \<Longrightarrow> read_str ok (VStr s) = Inr s"
  by (cases "(ok, v)" rule: read_str.cases) (auto simp: schema_error_def split: if_splits)

lemma read_bool_back [read_back]: "read_bool (VBool b) = Inr b"
  by simp

lemma read_int_back [read_back]: "read_int lo v = Inr i \<Longrightarrow> read_int lo (VInt i) = Inr i"
  by (cases "(lo, v)" rule: read_int.cases) (auto simp: schema_error_def split: if_splits)

lemma read_float_back [read_back]: "read_float ok v = Inr x \<Longrightarrow> read_float ok (VFloat x) = Inr x"
  by (cases "(ok, v)" rule: read_float.cases) (auto simp: schema_error_def split: if_splits)

lemma read_opt_Some: "(\<And>v x. r v = Inr x \<Longrightarrow> r (d x) = Inr x) \<Longrightarrow> (\<And>x. d x \<noteq> VNull)
    \<Longrightarrow> read_opt r v = Inr y \<Longrightarrow> read_opt r (dump_opt d y) = Inr y"
proof -
  assume r: "\<And>v x. r v = Inr x \<Longrightarrow> r (d x) = Inr x" and d: "\<And>x. d x \<noteq> VNull" and v: "read_opt r v = Inr y"
  show ?thesis
  proof (cases y)
    case (Some x)
    then have "r v = Inr x" using v by (cases v) (auto simp: rbind_eq_Inr)
    from r [OF this] d [of x] Some show ?thesis by (cases "d x") (auto simp: dump_opt_def)
  qed (simp add: dump_opt_def)
qed

lemma read_opt_back [read_back]:
  "read_opt (read_str ok) v = Inr s \<Longrightarrow> read_opt (read_str ok) (dump_opt VStr s) = Inr s"
  "read_opt (read_int lo) v = Inr i \<Longrightarrow> read_opt (read_int lo) (dump_opt VInt i) = Inr i"
  "read_opt (read_float fok) v = Inr x \<Longrightarrow> read_opt (read_float fok) (dump_opt VFloat x) = Inr x"
  by (rule read_opt_Some; (assumption | erule read_back | simp))+

lemma read_tuple_map: "(\<And>v x. r v = Inr x \<Longrightarrow> r (d x) = Inr x) \<Longrightarrow> read_tuple r v = Inr ys
    \<Longrightarrow> read_tuple r (VArr (map d ys)) = Inr ys"
proof -
  assume r: "\<And>v x. r v = Inr x \<Longrightarrow> r (d x) = Inr x" and v: "read_tuple r v = Inr ys"
  then obtain xs where xs: "rmap r xs = Inr ys" by (cases v) (simp_all add: schema_error_def)
  then show ?thesis
  proof (simp, induction xs arbitrary: ys)
    case (Cons x xs)
    then show ?case using r by (auto simp: rbind_eq_Inr)
  qed simp
qed

lemma read_tuple_back [read_back]:
  "read_tuple (read_str ok) v = Inr ss \<Longrightarrow> read_tuple (read_str ok) (VArr (map VStr ss)) = Inr ss"
  "read_tuple (read_int lo) v = Inr is \<Longrightarrow> read_tuple (read_int lo) (VArr (map VInt is)) = Inr is"
  "read_tuple (read_float fok) v = Inr xs \<Longrightarrow> read_tuple (read_float fok) (VArr (map VFloat xs)) = Inr xs"
  by (rule read_tuple_map; (assumption | erule read_back))+

lemma read_pairs_back [read_back]:
  "read_tuple (read_pair (read_int lo) (read_int lo')) v = Inr ps
    \<Longrightarrow> read_tuple (read_pair (read_int lo) (read_int lo')) (VArr (map (\<lambda>(u, w). VArr [VInt u, VInt w]) ps)) = Inr ps"
proof (rule read_tuple_map)
  show "read_pair (read_int lo) (read_int lo') (case p of (u, w) \<Rightarrow> VArr [VInt u, VInt w]) = Inr p"
    if "read_pair (read_int lo) (read_int lo') v = Inr p" for v p
    using that by (cases "(read_int lo, read_int lo', v)" rule: read_pair.cases)
      (auto simp: rbind_eq_Inr schema_error_def dest: read_int_ok)
qed

lemma read_dict_back [read_back]:
  "read_dict ok (read_str sok) v = Inr d \<Longrightarrow> read_dict ok (read_str sok) (VObj (map (\<lambda>(k, s). (k, VStr s)) d)) = Inr d"
proof -
  assume "read_dict ok (read_str sok) v = Inr d"
  then obtain kvs where "rmap (\<lambda>(k, v). if ok k then rbind (read_str sok v) (\<lambda>x. Inr (k, x)) else schema_error) kvs = Inr d"
    by (cases v) (simp_all add: schema_error_def)
  then show ?thesis
  proof (simp, induction kvs arbitrary: d)
    case (Cons p kvs)
    then show ?case by (cases p) (auto simp: rbind_eq_Inr schema_error_def dest: read_str_ok split: if_splits)
  qed simp
qed

lemma read_field_Inr: "read_field obj k r = Inr x \<longleftrightarrow> (\<exists>v. obj k = Some v \<and> r v = Inr x)"
  by (auto simp: read_field_def schema_error_def split: option.splits)

lemma read_default_Inr: "read_default obj k d r = Inr x \<Longrightarrow> x = d \<or> (\<exists>v. r v = Inr x)"
  by (auto simp: read_default_def split: option.splits)

text \<open>Reading a field of the dump gives what a read of some value gave.\<close>

lemma read_field_dump: "read_field obj k r = Inr x \<Longrightarrow> (\<And>v. r v = Inr x \<Longrightarrow> r u = Inr x) \<Longrightarrow> map_of kvs k = Some u
    \<Longrightarrow> read_field (map_of kvs) k r = Inr x"
  by (auto simp: read_field_Inr)

declare read_str.simps [simp del] read_bool.simps [simp del] read_int.simps [simp del]
  read_float.simps [simp del] read_opt.simps [simp del] read_tuple.simps [simp del] read_dict.simps [simp del]

lemmas read_object_simps = rbind_eq_Inr read_field_Inr

lemma read_back_parts [read_back]:
  "read_task_reveal v = Inr a \<Longrightarrow> read_task_reveal (dump_task_reveal a) = Inr a"
  "read_authentication v = Inr b \<Longrightarrow> read_authentication (dump_authentication b) = Inr b"
  "read_extrinsic v = Inr c \<Longrightarrow> read_extrinsic (dump_extrinsic c) = Inr c"
  by (auto simp: read_object_simps read_task_reveal_def dump_task_reveal_def intro: read_back,
      auto simp: read_object_simps read_authentication_def dump_authentication_def intro: read_back,
      auto simp: read_object_simps read_extrinsic_def dump_extrinsic_def intro: read_back)

lemma read_back_records [read_back]:
  "read_readback v = Inr d \<Longrightarrow> read_readback (dump_readback d) = Inr d"
  "read_timestamps v = Inr e \<Longrightarrow> read_timestamps (dump_timestamps e) = Inr e"
  "read_source_artifact v = Inr f \<Longrightarrow> read_source_artifact (dump_source_artifact f) = Inr f"
  "read_weight_plan v = Inr g \<Longrightarrow> read_weight_plan (dump_weight_plan g) = Inr g"
  "read_validator_signature v = Inr h \<Longrightarrow> read_validator_signature (dump_validator_signature h) = Inr h"
  by (auto simp: read_object_simps read_readback_def dump_readback_def intro: read_back,
      auto simp: read_object_simps read_timestamps_def dump_timestamps_def intro: read_back,
      auto simp: read_object_simps read_source_artifact_def dump_source_artifact_def intro: read_back,
      auto simp: read_object_simps read_weight_plan_def dump_weight_plan_def intro: read_back,
      auto simp: read_object_simps read_validator_signature_def dump_validator_signature_def intro: read_back)

lemma read_default_back:
  "read_default obj k None (read_opt (read_str ok)) = Inr x \<Longrightarrow> read_opt (read_str ok) (dump_opt VStr x) = Inr x"
  by (auto simp: read_default_def dump_opt_def read_opt.simps split: option.splits dest: read_opt_back(1))

lemma read_default_Some: "obj k = Some v \<Longrightarrow> read_default obj k d r = r v"
  by (simp add: read_default_def)

lemma read_version_back: "ok d \<Longrightarrow> read_default obj k d (read_str ok) = Inr s \<Longrightarrow> read_str ok (VStr s) = Inr s"
  by (auto simp: read_default_def read_str.simps split: option.splits dest: read_str_ok)

lemma read_score_back [read_back]: "read_score v = Inr x \<Longrightarrow> read_score (dump_score x) = Inr x"
proof -
  assume "read_score v = Inr x"
  then show ?thesis
    unfolding read_score_def dump_score_def
    by (clarsimp simp: rbind_eq_Inr read_field_Inr read_default_Some dest!: read_default_back)
      (intro conjI; (assumption | rule read_bool_back | erule read_back))
qed

lemma read_tuples_back [read_back]:
  "read_tuple read_score v = Inr ys \<Longrightarrow> read_tuple read_score (VArr (map dump_score ys)) = Inr ys"
  "read_tuple read_extrinsic v = Inr zs \<Longrightarrow> read_tuple read_extrinsic (VArr (map dump_extrinsic zs)) = Inr zs"
  "read_tuple read_source_artifact v = Inr ws
    \<Longrightarrow> read_tuple read_source_artifact (VArr (map dump_source_artifact ws)) = Inr ws"
  by (rule read_tuple_map; (assumption | erule read_back))+

text \<open>Signing replaces the signature only, so the reader accepts what it accepted before.\<close>

lemma read_manifest_back:
  assumes "read_manifest v = Inr m" "read_validator_signature u = Inr s"
  shows "read_manifest (VObj (dump_unsigned m @ [(''validator_signature'', u)])) = Inr (m\<lparr>em_validator_signature := s\<rparr>)"
proof -
  have version: "evidence_schema EVIDENCE_SCHEMA_VERSION" by (simp add: evidence_schema_def EVIDENCE_SCHEMA_VERSION_def)
  have object: "read_object manifest_keys [''schema_version''] (VObj (dump_unsigned m @ [(''validator_signature'', u)]))
      = Inr (map_of (dump_unsigned m @ [(''validator_signature'', u)]))"
    by (simp add: manifest_keys_def dump_unsigned_def)
  show ?thesis
    using assms unfolding read_manifest_def object
    by (clarsimp simp: rbind_eq_Inr read_field_Inr dump_unsigned_def read_default_Some dest!: read_version_back [where ok = evidence_schema, OF version])
      (intro conjI; (assumption | rule read_bool_back | erule read_back))
qed

lemma read_manifest_again: "read_manifest v = Inr m \<Longrightarrow> read_manifest (VObj (dump_manifest m)) = Inr m"
proof -
  assume m: "read_manifest v = Inr m"
  then have "\<exists>u. read_validator_signature u = Inr (em_validator_signature m)"
    unfolding read_manifest_def by (auto simp: rbind_eq_Inr read_field_Inr)
  then obtain u where "read_validator_signature u = Inr (em_validator_signature m)" ..
  from read_manifest_back [OF m read_back_records(5) [OF this]] show ?thesis by (simp add: dump_manifest_def)
qed

lemma read_manifest_schema: "read_manifest v = Inr m \<Longrightarrow> evidence_schema (em_schema_version m)"
proof -
  assume "read_manifest v = Inr m"
  then obtain obj where "read_default obj ''schema_version'' EVIDENCE_SCHEMA_VERSION (read_str evidence_schema) = Inr (em_schema_version m)"
    unfolding read_manifest_def by (auto simp: rbind_eq_Inr)
  then have "read_str evidence_schema (VStr (em_schema_version m)) = Inr (em_schema_version m)"
    by (rule read_version_back [rotated]) (simp add: evidence_schema_def EVIDENCE_SCHEMA_VERSION_def)
  then show ?thesis by (rule read_str_ok)
qed

section \<open>The payload\<close>

text \<open>The normalization of a value without infinities and NaNs.\<close>

fun normal_numbers :: "jval \<Rightarrow> jval" where
  "normal_numbers (VFloat (Fin x)) = (if of_int \<lfloor>x\<rfloor> = x then VInt \<lfloor>x\<rfloor> else VFloat (Fin x))"
| "normal_numbers (VObj kvs) = VObj (map (\<lambda>(k, v). (k, normal_numbers v)) kvs)"
| "normal_numbers (VArr xs) = VArr (map normal_numbers xs)"
| "normal_numbers v = v"

lemma normalize_total: "\<not> has_nan v \<Longrightarrow> normalize_json_numbers v = Inr (normal_numbers v)"
proof (induction v)
  case (VFloat x)
  then show ?case by (cases x) auto
next
  case (VArr xs)
  have "rmap normalize_json_numbers xs = Inr (map normal_numbers xs)"
    by (rule rmap_map) (use VArr in \<open>auto simp: list_ex_iff\<close>)
  then show ?case by simp
next
  case (VObj kvs)
  have "rmap (\<lambda>(k, v). rbind (normalize_json_numbers v) (\<lambda>u. Inr (k, u))) kvs
      = Inr (map (\<lambda>(k, v). (k, normal_numbers v)) kvs)"
    by (rule rmap_map) (use VObj in \<open>auto simp: list_ex_iff\<close>)
  then show ?case by simp
qed simp_all

lemma readable_no_nan: "readable_json v \<Longrightarrow> \<not> has_nan v"
  by (induction v) (auto simp: list_all_iff list_ex_iff)

lemma canonical_bytes_total:
  "\<not> has_nan (VObj kvs) \<Longrightarrow> canonical_bytes kvs = Inr (utext (sort_keys (normal_numbers (VObj kvs))))"
  unfolding canonical_bytes_def normalize_total by (simp add: evidence_error_def)

lemma payload_ignores_signature [simp]:
  "signature_payload (ModelData (m\<lparr>em_validator_signature := s\<rparr>)) = signature_payload (ModelData m)"
proof -
  have "canonical_manifest_bytes (ModelData (m\<lparr>em_validator_signature := s\<rparr>)) = canonical_manifest_bytes (ModelData m)"
    by (simp add: dump_unsigned_def)
  moreover have "schema_of (ModelData (m\<lparr>em_validator_signature := s\<rparr>)) = schema_of (ModelData m)" by simp
  ultimately show ?thesis by (simp only: signature_payload_def)
qed

lemma payload_of_dump: "signature_payload (MapData (dump_manifest m)) = signature_payload (ModelData m)"
proof -
  have "canonical_manifest_bytes (MapData (dump_manifest m)) = canonical_manifest_bytes (ModelData m)"
    by (simp add: dump_manifest_def dump_unsigned_def)
  moreover have "schema_of (MapData (dump_manifest m)) = schema_of (ModelData m)"
    by (simp add: dump_manifest_def dump_unsigned_def)
  ultimately show ?thesis by (simp only: signature_payload_def)
qed

definition evidence_domain :: "string \<Rightarrow> bytes" where
  "evidence_domain schema = the (map_of EVIDENCE_SIGNATURE_DOMAINS schema)"

lemma signature_payload_total:
  assumes "evidence_schema (em_schema_version m)" "\<not> has_nan (VObj (dump_unsigned m))"
  shows "signature_payload (ModelData m)
    = Inr (evidence_domain (em_schema_version m) @ utext (sort_keys (normal_numbers (VObj (dump_unsigned m)))))"
  using assms(1) canonical_bytes_total [OF assms(2)]
  by (auto simp: signature_payload_def evidence_schema_def evidence_domain_def EVIDENCE_SIGNATURE_DOMAINS_def)

section \<open>What a verified signature means\<close>

definition evidence_signed ::
  "(string \<Rightarrow> bytes \<Rightarrow> bytes \<Rightarrow> bool result) \<Rightarrow> evidence_manifest \<Rightarrow> bytes \<Rightarrow> bool" where
  "evidence_signed kp_verify m payload \<longleftrightarrow>
     vg_signer_hotkey (em_validator_signature m) \<in> set (em_validator_hotkeys m)
     \<and> vg_signed_payload_sha256 (em_validator_signature m) = sha256_hex payload
     \<and> (\<exists>sig. bytes_fromhex (vg_signature_hex (em_validator_signature m)) = Inr sig
          \<and> kp_verify (vg_signer_hotkey (em_validator_signature m)) payload sig = Inr True)"

lemma evidence_error_Inr: "evidence_error p r = Inr x \<longleftrightarrow> r = Inr x"
  by (auto simp: evidence_error_def split: sum.splits pyerr.splits)

lemma verify_evidence_iff:
  "verify_evidence_signature kp_verify data m expected = Inr d \<longleftrightarrow>
     (case expected of None \<Rightarrow> True | Some s \<Rightarrow> vg_signer_hotkey (em_validator_signature m) = s)
     \<and> (\<exists>payload. signature_payload data = Inr payload \<and> evidence_signed kp_verify m payload \<and> d = sha256_hex payload)"
  by (auto simp: verify_evidence_signature_def evidence_signed_def rbind_eq_Inr evidence_error_Inr Let_def)

section \<open>A signed manifest verifies\<close>

text \<open>The reader of pydantic reads the JSON that \<open>json.dumps\<close> writes.\<close>

definition reads_json :: "(bytes \<Rightarrow> jval result) \<Rightarrow> bool" where
  "reads_json from_json \<longleftrightarrow> (\<forall>v. readable_json v \<longrightarrow> from_json (utext v) = Inr v)"

lemma json_loads_reads: "reads_json json_loads"
  by (simp add: reads_json_def json_loads_text)

definition placeholder_signature :: "string \<Rightarrow> string \<times> jval" where
  "placeholder_signature address = signature_entry address (replicate 64 (CHR ''0'')) (replicate 128 (CHR ''0''))"

definition unsigned_data :: "(string \<times> jval) list \<Rightarrow> string \<Rightarrow> jval" where
  "unsigned_data data address = VObj (filter (\<lambda>(k, _). k \<noteq> ''validator_signature'') data @ [placeholder_signature address])"

text \<open>A key whose signature of a payload verifies.\<close>

definition honest_key :: "(string \<Rightarrow> bytes \<Rightarrow> bytes \<Rightarrow> bool result) \<Rightarrow> evidence_keypair \<Rightarrow> bytes \<Rightarrow> bytes \<Rightarrow> bool" where
  "honest_key kp_verify key payload sig \<longleftrightarrow>
     ek_sign key payload = Inr sig \<and> length sig = 64 \<and> kp_verify (ek_ss58_address key) payload sig = Inr True"

definition with_signature :: "evidence_manifest \<Rightarrow> string \<Rightarrow> bytes \<Rightarrow> bytes \<Rightarrow> evidence_manifest" where
  "with_signature m address payload sig = m\<lparr>em_validator_signature :=
     \<lparr>vg_algorithm = ''sr25519'', vg_signer_hotkey = address, vg_signed_payload_sha256 = sha256_hex payload,
      vg_signature_hex = bytes_hex sig\<rparr>\<rparr>"

lemma lower_hex_64: "lower_hex 64 (sha256_hex b)"
  by (auto simp: lower_hex_def list_all_iff sha256_hex_lower_hex)

lemma lower_hex_bytes: "length b = n \<Longrightarrow> lower_hex (2 * n) (bytes_hex b)"
  by (auto simp: lower_hex_def list_all_iff bytes_hex_lower_hex)

lemma read_signature_entry:
  assumes "evidence_hotkey address" "length sig = 64"
  shows "read_validator_signature (snd (signature_entry address (sha256_hex payload) (bytes_hex sig)))
    = Inr (em_validator_signature (with_signature m address payload sig))"
  using assms lower_hex_64 [of payload] lower_hex_bytes [OF assms(2)]
  by (simp add: read_validator_signature_def signature_entry_def read_object_simps read_field_def with_signature_def read_str.simps)

lemma dump_with_signature:
  "dump_manifest (with_signature m address payload sig)
    = dump_unsigned m @ [signature_entry address (sha256_hex payload) (bytes_hex sig)]"
  by (simp add: dump_manifest_def with_signature_def dump_unsigned_def dump_validator_signature_def signature_entry_def)

lemma readable_signed:
  "readable_json (VObj (dump_unsigned m)) \<Longrightarrow> readable_json (VObj (dump_manifest (with_signature m address payload sig)))"
  unfolding dump_with_signature by (simp add: dump_unsigned_def signature_entry_def)

lemma evidence_signed_with:
  assumes "honest_key kp_verify key payload sig" "ek_ss58_address key \<in> set (em_validator_hotkeys m)"
  shows "evidence_signed kp_verify (with_signature m (ek_ss58_address key) payload sig) payload"
  using assms by (simp add: evidence_signed_def with_signature_def honest_key_def)

text \<open>The address of a declared validator hotkey has the length of one.\<close>

lemma read_manifest_hotkeys:
  assumes "read_manifest v = Inr m" "a \<in> set (em_validator_hotkeys m)"
  shows "evidence_hotkey a"
proof -
  obtain u where "read_tuple read_hotkey u = Inr (em_validator_hotkeys m)"
    using assms(1) unfolding read_manifest_def by (auto simp: rbind_eq_Inr read_field_Inr)
  then obtain xs where "rmap read_hotkey xs = Inr (em_validator_hotkeys m)"
    by (cases u) (auto simp: read_tuple.simps schema_error_def)
  then have "list_all evidence_hotkey (em_validator_hotkeys m)"
  proof (induction xs arbitrary: m)
    case (Cons x xs)
    then obtain y ys where "read_hotkey x = Inr y" "rmap read_hotkey xs = Inr ys" "em_validator_hotkeys m = y # ys"
      by (auto simp: rbind_eq_Inr)
    then show ?case using Cons.IH [of "m\<lparr>em_validator_hotkeys := ys\<rparr>"] by (auto dest: read_str_ok)
  qed simp
  with assms(2) show ?thesis by (simp add: list_all_iff)
qed

theorem sign_manifest_total:
  assumes "reads_json from_json" "readable_json (unsigned_data data (ek_ss58_address key))"
    and m: "read_manifest (unsigned_data data (ek_ss58_address key)) = Inr m" "readable_json (VObj (dump_unsigned m))"
    and "signature_payload (ModelData m) = Inr payload"
    and key: "ek_ss58_address key \<in> set (em_validator_hotkeys m)" "honest_key kp_verify key payload sig"
  defines "s \<equiv> with_signature m (ek_ss58_address key) payload sig"
  shows "sign_manifest from_json kp_verify data key = Inr s" "read_manifest (VObj (dump_manifest s)) = Inr s"
    "verify_manifest kp_verify s None = Inr (sha256_hex payload)"
proof -
  have sig: "ek_sign key payload = Inr sig" "length sig = 64" using key(2) by (simp_all add: honest_key_def)
  have hot: "evidence_hotkey (ek_ss58_address key)" using read_manifest_hotkeys [OF m(1) key(1)] .
  note entry = read_signature_entry [OF hot sig(2), of payload m]
  have dump: "dump_manifest s = dump_unsigned m @ [signature_entry (ek_ss58_address key) (sha256_hex payload) (bytes_hex sig)]"
    by (simp add: s_def dump_with_signature)
  have r: "readable_json (VObj (dump_manifest s))" unfolding s_def by (rule readable_signed [OF m(2)])
  have "s = m\<lparr>em_validator_signature := em_validator_signature s\<rparr>" by (simp add: s_def with_signature_def)
  then have read: "read_manifest (VObj (dump_manifest s)) = Inr s"
    using read_manifest_back [OF m(1) entry] unfolding dump by (simp add: signature_entry_def s_def)
  then show "read_manifest (VObj (dump_manifest s)) = Inr s" .
  have "signature_payload (ModelData s) = Inr payload" using assms(5) by (simp add: s_def with_signature_def)
  then show verify: "verify_manifest kp_verify s None = Inr (sha256_hex payload)"
    using evidence_signed_with [OF key(2,1)] by (simp add: verify_manifest_def verify_evidence_iff s_def)
  have written: "dumps_strict v = Inr (utext v) \<and> from_json (utext v) = Inr v" if "readable_json v" for v
    using that assms(1) readable_no_nan [OF that] by (auto simp: dumps_strict_def reads_json_def)
  note t1 = written [OF assms(2)] and t2 = written [OF r]
  show "sign_manifest from_json kp_verify data key = Inr s"
    using t1 t2 m(1) assms(5) sig(1) read verify
    by (simp add: sign_manifest_def validate_json_def unsigned_data_def placeholder_signature_def Let_def flip: dump)
qed

section \<open>A signature binds the manifest\<close>

text \<open>What the payload contains: everything but the signature, the container digests by key.\<close>

definition no_signature :: validator_signature where
  "no_signature = \<lparr>vg_algorithm = [], vg_signer_hotkey = [], vg_signed_payload_sha256 = [], vg_signature_hex = []\<rparr>"

definition signed_content :: "evidence_manifest \<Rightarrow> evidence_manifest" where
  "signed_content m = m\<lparr>em_container_digests := sort_key fst (em_container_digests m), em_validator_signature := no_signature\<rparr>"

definition canonical_value :: "jval \<Rightarrow> jval" where
  "canonical_value v = sort_keys (normal_numbers v)"

named_theorems canonical_inject \<open>values with equal canonical forms\<close>

lemma canonical_leaves [canonical_inject]:
  "canonical_value (VStr s) = canonical_value (VStr t) \<longleftrightarrow> s = t"
  "canonical_value (VInt i) = canonical_value (VInt j) \<longleftrightarrow> i = j"
  "canonical_value (VBool a) = canonical_value (VBool b) \<longleftrightarrow> a = b"
  "canonical_value (VFloat x) = canonical_value (VFloat y) \<longleftrightarrow> x = y"
proof -
  have "x = y" if "canonical_value (VFloat x) = canonical_value (VFloat y)"
    using that by (cases x; cases y) (auto simp: canonical_value_def split: if_splits)
  then show "canonical_value (VFloat x) = canonical_value (VFloat y) \<longleftrightarrow> x = y" by blast
qed (simp_all add: canonical_value_def)

lemma canonical_list:
  "(\<And>x y. x \<in> set xs \<Longrightarrow> y \<in> set ys \<Longrightarrow> canonical_value (d x) = canonical_value (d y) \<Longrightarrow> x = y)
    \<Longrightarrow> canonical_value (VArr (map d xs)) = canonical_value (VArr (map d ys)) \<Longrightarrow> xs = ys"
proof -
  assume d: "\<And>x y. x \<in> set xs \<Longrightarrow> y \<in> set ys \<Longrightarrow> canonical_value (d x) = canonical_value (d y) \<Longrightarrow> x = y"
    and "canonical_value (VArr (map d xs)) = canonical_value (VArr (map d ys))"
  then have "map (\<lambda>x. canonical_value (d x)) xs = map (\<lambda>x. canonical_value (d x)) ys"
    by (simp add: canonical_value_def comp_def)
  with d show ?thesis
  proof (induction xs arbitrary: ys)
    case (Cons x xs)
    then show ?case by (cases ys) auto
  qed simp
qed

lemma canonical_lists [canonical_inject]:
  "canonical_value (VArr (map VStr ss)) = canonical_value (VArr (map VStr ts)) \<longleftrightarrow> ss = ts"
  "canonical_value (VArr (map VInt is)) = canonical_value (VArr (map VInt js)) \<longleftrightarrow> is = js"
  "canonical_value (VArr (map VFloat xs)) = canonical_value (VArr (map VFloat ys)) \<longleftrightarrow> xs = ys"
  using canonical_list [of ss ts VStr] canonical_list [of "is" js VInt] canonical_list [of xs ys VFloat]
  by (auto simp: canonical_inject)

lemma canonical_opt:
  "(\<And>x y. canonical_value (d x) = canonical_value (d y) \<longleftrightarrow> x = y) \<Longrightarrow> (\<And>x. canonical_value (d x) \<noteq> VNull)
    \<Longrightarrow> canonical_value (dump_opt d a) = canonical_value (dump_opt d b) \<longleftrightarrow> a = b"
proof -
  assume d: "\<And>x y. canonical_value (d x) = canonical_value (d y) \<longleftrightarrow> x = y" "\<And>x. canonical_value (d x) \<noteq> VNull"
  have "canonical_value VNull = VNull" by (simp add: canonical_value_def)
  with d d(2) [THEN not_sym] show ?thesis by (cases a; cases b) (simp_all add: dump_opt_def)
qed

lemma canonical_opts [canonical_inject]:
  "canonical_value (dump_opt VStr a) = canonical_value (dump_opt VStr b) \<longleftrightarrow> a = b"
  "canonical_value (dump_opt VInt i) = canonical_value (dump_opt VInt j) \<longleftrightarrow> i = j"
  "canonical_value (dump_opt VFloat x) = canonical_value (dump_opt VFloat y) \<longleftrightarrow> x = y"
proof -
  have no: "canonical_value (VFloat z) \<noteq> VNull" "canonical_value (VStr s) \<noteq> VNull" "canonical_value (VInt k) \<noteq> VNull" for z s k
    by (cases z; simp add: canonical_value_def)+
  show "canonical_value (dump_opt VStr a) = canonical_value (dump_opt VStr b) \<longleftrightarrow> a = b"
    "canonical_value (dump_opt VInt i) = canonical_value (dump_opt VInt j) \<longleftrightarrow> i = j"
    "canonical_value (dump_opt VFloat x) = canonical_value (dump_opt VFloat y) \<longleftrightarrow> x = y"
    using no by (auto intro!: canonical_opt simp: canonical_inject)
qed

text \<open>Two objects with the same distinct keys agree in the canonical form of every value.\<close>

lemma canonical_object:
  assumes "canonical_value (VObj kvs) = canonical_value (VObj lws)" "map fst kvs = map fst lws" "distinct (map fst kvs)"
  shows "map (canonical_value \<circ> snd) kvs = map (canonical_value \<circ> snd) lws"
proof -
  let ?n = "map (\<lambda>(k, v). (k, normal_numbers v))"
  have f: "map fst (?n xs) = map fst xs" for xs by (simp add: case_prod_beta comp_def)
  have "map (sort_keys \<circ> snd) (?n kvs) = map (sort_keys \<circ> snd) (?n lws)"
    by (rule sort_keys_obj) (use assms in \<open>simp_all only: f canonical_value_def normal_numbers.simps\<close>)
  then show ?thesis by (simp add: canonical_value_def comp_def case_prod_beta)
qed

lemma canonical_records [canonical_inject]:
  "canonical_value (dump_task_reveal a) = canonical_value (dump_task_reveal b) \<longleftrightarrow> a = b"
  "canonical_value (dump_authentication c) = canonical_value (dump_authentication d) \<longleftrightarrow> c = d"
  "canonical_value (dump_score e) = canonical_value (dump_score f) \<longleftrightarrow> e = f"
  "canonical_value (dump_weight_plan g) = canonical_value (dump_weight_plan h) \<longleftrightarrow> g = h"
  "canonical_value (dump_extrinsic i) = canonical_value (dump_extrinsic j) \<longleftrightarrow> i = j"
  "canonical_value (dump_timestamps k) = canonical_value (dump_timestamps l) \<longleftrightarrow> k = l"
  "canonical_value (dump_source_artifact m) = canonical_value (dump_source_artifact n) \<longleftrightarrow> m = n"
proof -
  show "canonical_value (dump_task_reveal a) = canonical_value (dump_task_reveal b) \<longleftrightarrow> a = b"
    by (auto simp: dump_task_reveal_def canonical_inject intro!: task_reveal_evidence.equality dest!: canonical_object)
  show "canonical_value (dump_authentication c) = canonical_value (dump_authentication d) \<longleftrightarrow> c = d"
    by (auto simp: dump_authentication_def canonical_inject intro!: authentication_evidence.equality dest!: canonical_object)
  show "canonical_value (dump_score e) = canonical_value (dump_score f) \<longleftrightarrow> e = f"
    by (auto simp: dump_score_def canonical_inject intro!: score_evidence.equality dest!: canonical_object)
  show "canonical_value (dump_weight_plan g) = canonical_value (dump_weight_plan h) \<longleftrightarrow> g = h"
    by (auto simp: dump_weight_plan_def canonical_inject intro!: weight_plan_evidence.equality dest!: canonical_object)
  show "canonical_value (dump_extrinsic i) = canonical_value (dump_extrinsic j) \<longleftrightarrow> i = j"
    by (auto simp: dump_extrinsic_def canonical_inject intro!: extrinsic_evidence.equality dest!: canonical_object)
  show "canonical_value (dump_timestamps k) = canonical_value (dump_timestamps l) \<longleftrightarrow> k = l"
    by (auto simp: dump_timestamps_def canonical_inject intro!: timestamp_evidence.equality dest!: canonical_object)
  show "canonical_value (dump_source_artifact m) = canonical_value (dump_source_artifact n) \<longleftrightarrow> m = n"
    by (auto simp: dump_source_artifact_def canonical_inject intro!: source_artifact_evidence.equality dest!: canonical_object)
qed

lemma insort_key_map: "insort_key g (f x) (map f xs) = map f (insort_key (\<lambda>x. g (f x)) x xs)"
  by (induction xs) auto

lemma sort_key_map: "sort_key g (map f xs) = map f (sort_key (\<lambda>x. g (f x)) xs)"
  by (induction xs) (simp_all add: insort_key_map)

lemma canonical_containers [canonical_inject]:
  "canonical_value (VObj (map (\<lambda>(k, d). (k, VStr d)) cs)) = canonical_value (VObj (map (\<lambda>(k, d). (k, VStr d)) ds))
    \<longleftrightarrow> sort_key fst cs = sort_key fst ds"
proof -
  let ?f = "\<lambda>(k :: string, d :: string). (k, VStr d)"
  have "canonical_value (VObj (map ?f xs)) = VObj (map ?f (sort_key fst xs))" for xs :: "(string \<times> string) list"
    by (simp add: canonical_value_def comp_def case_prod_beta sort_key_map)
  moreover have "inj ?f" by (auto simp: inj_on_def)
  ultimately show ?thesis by (simp add: inj_map_eq_map)
qed

lemma canonical_readback [canonical_inject]:
  "canonical_value (dump_readback a) = canonical_value (dump_readback b) \<longleftrightarrow> a = b"
proof -
  have "canonical_value (VArr (map (\<lambda>(u, w). VArr [VInt u, VInt w]) ps)) = canonical_value (VArr (map (\<lambda>(u, w). VArr [VInt u, VInt w]) qs))
      \<longleftrightarrow> ps = qs" for ps qs
    using canonical_list [of ps qs "\<lambda>(u, w). VArr [VInt u, VInt w]"] by (auto simp: canonical_value_def)
  then show ?thesis
    by (auto simp: dump_readback_def canonical_inject intro!: readback_evidence.equality dest!: canonical_object)
qed

lemma canonical_record_lists [canonical_inject]:
  "canonical_value (VArr (map dump_score es)) = canonical_value (VArr (map dump_score fs)) \<longleftrightarrow> es = fs"
  "canonical_value (VArr (map dump_extrinsic xs)) = canonical_value (VArr (map dump_extrinsic ys)) \<longleftrightarrow> xs = ys"
  "canonical_value (VArr (map dump_source_artifact ms)) = canonical_value (VArr (map dump_source_artifact ns)) \<longleftrightarrow> ms = ns"
  using canonical_list [of es fs dump_score] canonical_list [of xs ys dump_extrinsic]
    canonical_list [of ms ns dump_source_artifact]
  by (auto simp: canonical_inject)

lemma dump_unsigned_keys: "map fst (dump_unsigned m) = map fst (dump_unsigned n)" "distinct (map fst (dump_unsigned m))"
  by (simp_all add: dump_unsigned_def)

lemma canonical_manifest:
  assumes "canonical_value (VObj (dump_unsigned m)) = canonical_value (VObj (dump_unsigned n))"
  shows "signed_content m = signed_content n"
  using canonical_object [OF assms dump_unsigned_keys]
  by (auto simp: dump_unsigned_def canonical_inject signed_content_def intro!: evidence_manifest.equality)

lemma normal_numbers_readable: "readable_json v \<Longrightarrow> jval_ok_with (\<lambda>_. True) (normal_numbers v)"
proof (induction v)
  case (VFloat x)
  then show ?case by (cases x) auto
qed (auto simp: list_all_iff)

text \<open>Domain and JSON are recovered from the payload: the domains have one length.\<close>

theorem payload_binds_content:
  assumes "evidence_schema (em_schema_version m)" "evidence_schema (em_schema_version n)"
    and "readable_json (VObj (dump_unsigned m))" "readable_json (VObj (dump_unsigned n))"
    and "signature_payload (ModelData m) = signature_payload (ModelData n)"
  shows "signed_content m = signed_content n"
proof -
  have "length (evidence_domain (em_schema_version m)) = length (evidence_domain (em_schema_version n))"
    using assms(1,2) by (auto simp: evidence_schema_def evidence_domain_def EVIDENCE_SIGNATURE_DOMAINS_def)
  then have "utext (canonical_value (VObj (dump_unsigned m))) = utext (canonical_value (VObj (dump_unsigned n)))"
    using assms(5) signature_payload_total [OF assms(1) readable_no_nan [OF assms(3)]]
      signature_payload_total [OF assms(2) readable_no_nan [OF assms(4)]]
    by (simp add: canonical_value_def)
  then have "canonical_value (VObj (dump_unsigned m)) = canonical_value (VObj (dump_unsigned n))"
    using unicode.text_inject [OF normal_numbers_readable [OF assms(3)] normal_numbers_readable [OF assms(4)]]
    by (simp add: canonical_value_def)
  then show ?thesis by (rule canonical_manifest)
qed

end
