(* ===== verification/Evidence_Properties.thy ===== *)
theory Evidence_Properties
  imports Evidence
begin

text \<open>
  Properties of signed evidence manifests and the concrete manifest they are applied to.
\<close>

text \<open>C24: Verification of a manifest file is about the bytes of that file: when it succeeds the file is a
  JSON object, the manifest is what pydantic reads from the same bytes, the digest that is
  returned is the hash of the domain and the canonical JSON of the object without its signature,
  it is the digest the manifest claims, the signature verifies over exactly these bytes under the
  signer's key, and the signer is a declared validator and the expected one.\<close>

theorem verified_file_is_signed:
  "case verify_manifest_file from_json kp_verify content expected of
     Inl _ \<Rightarrow> True
   | Inr (m, d) \<Rightarrow> (\<exists>raw kvs payload. content = Inr raw \<and> json_loads raw = Inr (VObj kvs)
       \<and> validate_json from_json raw = Inr m \<and> signature_payload (MapData kvs) = Inr payload
       \<and> d = sha256_hex payload \<and> evidence_signed kp_verify m payload
       \<and> (case expected of None \<Rightarrow> True | Some s \<Rightarrow> vg_signer_hotkey (em_validator_signature m) = s))"
proof (cases "verify_manifest_file from_json kp_verify content expected")
  case (Inr p)
  obtain m d where p: "p = (m, d)" by fastforce
  have opened: "read_file c = Inr raw \<longleftrightarrow> c = Inr raw" for c raw
    by (auto simp: read_file_def split: sum.splits pyerr.splits)
  have kvs: "(case v of VObj kvs \<Rightarrow> r kvs | _ \<Rightarrow> Inl e) = Inr x \<longleftrightarrow> (\<exists>kvs. v = VObj kvs \<and> r kvs = Inr x)"
    for v and r :: "(string \<times> jval) list \<Rightarrow> ((string \<times> jval) list \<times> evidence_manifest) result" and e x
    by (cases v) simp_all
  have "\<exists>raw kvs payload. content = Inr raw \<and> json_loads raw = Inr (VObj kvs) \<and> validate_json from_json raw = Inr m
      \<and> signature_payload (MapData kvs) = Inr payload \<and> d = sha256_hex payload \<and> evidence_signed kp_verify m payload
      \<and> (case expected of None \<Rightarrow> True | Some s \<Rightarrow> vg_signer_hotkey (em_validator_signature m) = s)"
    using Inr unfolding p
    by (auto simp: verify_manifest_file_def rbind_eq_Inr evidence_error_Inr opened kvs verify_evidence_iff)
  then show ?thesis unfolding Inr p by simp
qed simp

text \<open>A file without a schema version is a valid manifest of the default version, but its signature
  can never be verified.\<close>

lemma file_needs_schema_version:
  "map_of kvs ''schema_version'' = None \<Longrightarrow> verify_evidence_signature kp_verify (MapData kvs) m expected \<noteq> Inr d"
  by (simp add: verify_evidence_iff signature_payload_def)

text \<open>C22: A signature binds the content of its manifest: two manifests that verify with the same
  digest agree in every field except the signature and the order of the container digests,
  whatever their schema versions, unless two payloads collide under SHA-256.\<close>

theorem manifest_signature_binds:
  assumes "verify_manifest kp_verify m expected = Inr d" "verify_manifest kp_verify n expected' = Inr d"
    and "read_manifest v = Inr m" "read_manifest w = Inr n"
    and "readable_json (VObj (dump_unsigned m))" "readable_json (VObj (dump_unsigned n))"
  shows "signed_content m = signed_content n
    \<or> (\<exists>p q. signature_payload (ModelData m) = Inr p \<and> signature_payload (ModelData n) = Inr q \<and> sha256_collision p q)"
proof -
  obtain p q where p: "signature_payload (ModelData m) = Inr p" "signature_payload (ModelData n) = Inr q"
    "sha256_hex p = sha256_hex q"
    using assms(1,2) by (auto simp: verify_manifest_def verify_evidence_iff)
  show ?thesis
  proof (cases "p = q")
    case True
    with payload_binds_content [OF read_manifest_schema [OF assms(3)] read_manifest_schema [OF assms(4)] assms(5,6)] p
    show ?thesis by simp
  next
    case False
    with p show ?thesis by (auto simp: sha256_collision_def sha256_hex_inject)
  qed
qed

text \<open>C23: Signing succeeds and survives the file: for data that is a valid manifest, readable as JSON,
  a declared validator whose signature of the payload verifies, and a JSON reader that reads what
  \<open>json.dumps\<close> writes, signing returns the manifest of the data with exactly the signature
  replaced, it verifies, and the file with its JSON verifies again to the same manifest and the
  same digest with that signer expected.\<close>

theorem signed_manifest_verifies:
  assumes "reads_json from_json" "readable_json (unsigned_data data (ek_ss58_address key))"
    and "read_manifest (unsigned_data data (ek_ss58_address key)) = Inr m" "readable_json (VObj (dump_unsigned m))"
    and "signature_payload (ModelData m) = Inr payload"
    and "ek_ss58_address key \<in> set (em_validator_hotkeys m)" "honest_key kp_verify key payload sig"
  shows "\<exists>s :: evidence_manifest. sign_manifest from_json kp_verify data key = Inr s
    \<and> signed_content s = signed_content m
    \<and> verify_manifest kp_verify s None = Inr (sha256_hex payload)
    \<and> verify_manifest_file from_json kp_verify (Inr (utext (VObj (dump_manifest s)))) (Some (ek_ss58_address key))
        = Inr (s, sha256_hex payload)"
proof -
  define s where "s = with_signature m (ek_ss58_address key) payload sig"
  note t = sign_manifest_total [OF assms, folded s_def]
  have r: "readable_json (VObj (dump_manifest s))" unfolding s_def by (rule readable_signed [OF assms(4)])
  have "signature_payload (MapData (dump_manifest s)) = Inr payload"
    using assms(5) unfolding payload_of_dump by (simp add: s_def with_signature_def)
  moreover have "evidence_signed kp_verify s payload" unfolding s_def by (rule evidence_signed_with [OF assms(7,6)])
  ultimately have v: "verify_evidence_signature kp_verify (MapData (dump_manifest s)) s (Some (ek_ss58_address key)) = Inr (sha256_hex payload)"
    by (simp add: verify_evidence_iff s_def with_signature_def)
  have "from_json (utext (VObj (dump_manifest s))) = Inr (VObj (dump_manifest s))"
    using assms(1) r by (simp only: reads_json_def)
  then have "verify_manifest_file from_json kp_verify (Inr (utext (VObj (dump_manifest s)))) (Some (ek_ss58_address key))
      = Inr (s, sha256_hex payload)"
    using json_loads_text [OF r] t(2) v by (simp add: verify_manifest_file_def read_file_def validate_json_def evidence_error_def del: jtext_with.simps)
  moreover have "signed_content s = signed_content m" by (simp add: signed_content_def s_def with_signature_def)
  ultimately show ?thesis using t by blast
qed

section \<open>A concrete manifest\<close>

definition alice :: string where "alice = ''5GrwvaEF5zXb26Fz9rcQpDWS57CtERHpNehXCPcNoHGKutQY''"
definition bob :: string where "bob = ''5FHneW46xGXgs5mUiveU4sbTyGBzmstUspZC92UhjJM694ty''"
definition evidence_hash :: string where "evidence_hash = replicate 64 (CHR ''a'')"

definition demo_score :: score_evidence where
  "demo_score = \<lparr>sv_uid = 1, sv_miner_hotkey = bob, sv_profile = ''honest'', sv_accepted = True, sv_correct = True,
     sv_score = Fin 1, sv_failure_code = None, sv_result_hash = None, sv_reference_hash = None,
     sv_strategy_digest = Some evidence_hash, sv_schedule_digest = Some evidence_hash, sv_median_warm_ms = Some (Fin 1),
     sv_setup_ms = None, sv_plan_cost = Some 10, sv_baseline_relative_speedup = Some (Fin 1)\<rparr>"

definition demo_manifest :: evidence_manifest where
  "demo_manifest = \<lparr>em_schema_version = ''planrace/evidence/2'', em_environment = ''localnet'', em_network = ''local'',
     em_netuid = 2, em_run_id = ''local-2-epoch-8'', em_epoch = 8, em_git_commit = replicate 40 (CHR ''b''),
     em_container_digests = [(''subtensor'', evidence_hash)], em_protocol_version = ''planrace/2'',
     em_validator_hotkeys = [alice], em_miner_hotkeys = [bob], em_task_commitment = evidence_hash,
     em_task_reveal = \<lparr>tv_task_id = ''task-8'', tv_seed = Some 8, tv_salt = Some ''fixture'', tv_reveal_digest = evidence_hash,
       tv_verified = True\<rparr>, em_request_digests = [evidence_hash], em_response_digests = [],
     em_authentication = \<lparr>ae_authenticated_requests = 2, ae_signed_responses = 1, ae_request_protocol = ''btauth/1'',
       ae_response_protocol = None\<rparr>, em_scores = [demo_score],
     em_weight_plan = \<lparr>wv_uids = [1], wv_weights = [Fin 1]\<rparr>,
     em_extrinsics = [\<lparr>xv_extrinsic_id = ''9-1'', xv_block_hash = evidence_hash, xv_success = True, xv_message = ''ok'',
       xv_fee_tao = Fin 0\<rparr>],
     em_readback = \<lparr>rv_validator_uid = 0, rv_last_update = 9, rv_raw_weights = [(1, 65535)]\<rparr>,
     em_timestamps = \<lparr>mv_observed_at = ''2026-01-01'', mv_signed_at = ''2026-01-01''\<rparr>,
     em_known_limitations = [''local''], em_source_artifacts = [\<lparr>av_path = ''results'', av_sha256 = evidence_hash\<rparr>],
     em_validator_signature = \<lparr>vg_algorithm = ''sr25519'', vg_signer_hotkey = alice,
       vg_signed_payload_sha256 = replicate 64 (CHR ''0''), vg_signature_hex = replicate 128 (CHR ''0'')\<rparr>\<rparr>"

lemma lower_hex_replicate [simp]: "lower_hex n (replicate n c) \<longleftrightarrow> n = 0 \<or> is_lower_hex c"
  by (auto simp: lower_hex_def list_all_iff)

lemma demo_texts: "evidence_hotkey alice" "evidence_hotkey bob" "lower_hex 64 evidence_hash" "alice \<noteq> bob"
  by (simp_all add: evidence_hotkey_def alice_def bob_def py_len_def is_continuation_def evidence_hash_def char_class_defs)

lemma demo_readable: "readable_json (VObj (dump_unsigned demo_manifest))"
proof -
  have "json_int_ok i" if "0 \<le> i" "i < 10 ^ 5" for i
  proof -
    have "nat i < 10 ^ Suc 4" using that by simp
    from nat_str_length_le [OF this] show ?thesis using that(1) by (simp add: json_int_ok_def MAX_INT_DIGITS_def)
  qed
  then show ?thesis
    using normal_one
    by (simp add: dump_unsigned_def demo_manifest_def demo_score_def dump_score_def dump_opt_def dump_task_reveal_def
        dump_authentication_def dump_weight_plan_def dump_extrinsic_def dump_readback_def dump_timestamps_def dump_source_artifact_def)
qed

lemma demo_plan: "weights_are_normalized [Fin 1]"
  using fl.rnd_nonneg [of "1 / 10 ^ 9"] by (simp add: weights_are_normalized_def fl_one not_less)

lemma demo_strings:
  "list_all non_empty_text [''local'', ''local-2-epoch-8'', ''planrace/2'', ''task-8'', ''fixture'', ''btauth/1'',
      ''honest'', ''9-1'', ''ok'', ''2026-01-01'', ''results'', ''subtensor'']"
  by code_simp

lemma demo_parts:
  "read_task_reveal (dump_task_reveal (em_task_reveal demo_manifest)) = Inr (em_task_reveal demo_manifest)"
  "read_authentication (dump_authentication (em_authentication demo_manifest)) = Inr (em_authentication demo_manifest)"
  "read_timestamps (dump_timestamps (em_timestamps demo_manifest)) = Inr (em_timestamps demo_manifest)"
  "read_readback (dump_readback (em_readback demo_manifest)) = Inr (em_readback demo_manifest)"
  "read_weight_plan (dump_weight_plan (em_weight_plan demo_manifest)) = Inr (em_weight_plan demo_manifest)"
  using demo_strings demo_texts demo_plan
  by (simp_all add: demo_manifest_def read_task_reveal_def dump_task_reveal_def read_authentication_def
      dump_authentication_def read_timestamps_def dump_timestamps_def read_readback_def dump_readback_def
      read_weight_plan_def dump_weight_plan_def read_field_def dump_opt_def read_str.simps read_bool.simps
      read_int.simps read_opt.simps read_tuple.simps read_float.simps unit_float_def)

lemma demo_lists:
  "read_score (dump_score demo_score) = Inr demo_score"
  "read_extrinsic (dump_extrinsic (hd (em_extrinsics demo_manifest))) = Inr (hd (em_extrinsics demo_manifest))"
  "read_source_artifact (dump_source_artifact (hd (em_source_artifacts demo_manifest))) = Inr (hd (em_source_artifacts demo_manifest))"
  using demo_strings demo_texts
  by (simp_all add: demo_manifest_def demo_score_def read_score_def dump_score_def read_extrinsic_def dump_extrinsic_def
      read_source_artifact_def dump_source_artifact_def read_field_def read_default_def dump_opt_def read_str.simps
      read_bool.simps read_int.simps read_opt.simps read_float.simps not_negative_def positive_float_def)
lemma demo_fields:
  "evidence_schema (em_schema_version demo_manifest)" "evidence_environment (em_environment demo_manifest)"
  "non_empty_text (em_network demo_manifest)" "1 \<le> em_netuid demo_manifest" "non_empty_text (em_run_id demo_manifest)"
  "0 \<le> em_epoch demo_manifest" "lower_hex 40 (em_git_commit demo_manifest)" "non_empty_text (em_protocol_version demo_manifest)"
  "lower_hex 64 (em_task_commitment demo_manifest)"
  "read_dict non_empty_text read_digest (VObj (map (\<lambda>(k, d). (k, VStr d)) (em_container_digests demo_manifest)))
    = Inr (em_container_digests demo_manifest)"
  "read_tuple read_hotkey (VArr (map VStr (em_validator_hotkeys demo_manifest))) = Inr (em_validator_hotkeys demo_manifest)"
  "read_tuple read_hotkey (VArr (map VStr (em_miner_hotkeys demo_manifest))) = Inr (em_miner_hotkeys demo_manifest)"
  "read_tuple read_digest (VArr (map VStr (em_request_digests demo_manifest))) = Inr (em_request_digests demo_manifest)"
  "read_tuple read_digest (VArr (map VStr (em_response_digests demo_manifest))) = Inr (em_response_digests demo_manifest)"
  "read_tuple read_text (VArr (map VStr (em_known_limitations demo_manifest))) = Inr (em_known_limitations demo_manifest)"
  "read_tuple read_score (VArr (map dump_score (em_scores demo_manifest))) = Inr (em_scores demo_manifest)"
  "read_tuple read_extrinsic (VArr (map dump_extrinsic (em_extrinsics demo_manifest))) = Inr (em_extrinsics demo_manifest)"
  "read_tuple read_source_artifact (VArr (map dump_source_artifact (em_source_artifacts demo_manifest))) = Inr (em_source_artifacts demo_manifest)"
  "identities_are_unique (em_validator_hotkeys demo_manifest) = Inr ()" "identities_are_unique (em_miner_hotkeys demo_manifest) = Inr ()"
  "score_hashes_match_schema_semantics (em_schema_version demo_manifest) (em_protocol_version demo_manifest) (em_scores demo_manifest) = Inr ()"
  using demo_strings demo_texts demo_lists
  by (simp_all add: demo_manifest_def read_str.simps read_tuple.simps read_dict.simps identities_are_unique_def
      evidence_schema_def evidence_environment_def char_class_defs,
      simp add: demo_score_def score_hashes_match_schema_semantics_def score_hash_semantics_def)

lemma demo_reads:
  "read_validator_signature u = Inr (em_validator_signature demo_manifest)
    \<Longrightarrow> read_manifest (VObj (dump_unsigned demo_manifest @ [(''validator_signature'', u)])) = Inr demo_manifest"
  unfolding read_manifest_def dump_unsigned_def manifest_keys_def
  by (simp add: read_field_def read_default_Some read_str.simps read_int.simps demo_fields demo_parts)

definition demo_key :: evidence_keypair where
  "demo_key = \<lparr>ek_ss58_address = alice, ek_sign = (\<lambda>_. Inr (replicate 64 (CHR 0x01)))\<rparr>"

definition demo_verify :: "string \<Rightarrow> bytes \<Rightarrow> bytes \<Rightarrow> bool result" where
  "demo_verify address payload sig = Inr (address = alice \<and> length sig = 64)"

definition demo_payload :: bytes where
  "demo_payload = evidence_domain (em_schema_version demo_manifest)
     @ utext (sort_keys (normal_numbers (VObj (dump_unsigned demo_manifest))))"

lemma demo_payload: "signature_payload (ModelData demo_manifest) = Inr demo_payload"
  unfolding demo_payload_def by (rule signature_payload_total [OF demo_fields(1) readable_no_nan [OF demo_readable]])

lemma demo_data:
  "read_manifest (unsigned_data (dump_unsigned demo_manifest) alice) = Inr demo_manifest"
  "readable_json (unsigned_data (dump_unsigned demo_manifest) alice)"
proof -
  have d: "unsigned_data (dump_unsigned demo_manifest) alice
      = VObj (dump_unsigned demo_manifest @ [(''validator_signature'', snd (placeholder_signature alice))])"
    by (simp add: unsigned_data_def dump_unsigned_def placeholder_signature_def signature_entry_def)
  have "read_validator_signature (snd (placeholder_signature alice)) = Inr (em_validator_signature demo_manifest)"
    using demo_texts by (simp add: placeholder_signature_def signature_entry_def read_validator_signature_def
        demo_manifest_def read_field_def read_str.simps char_class_defs)
  then show "read_manifest (unsigned_data (dump_unsigned demo_manifest) alice) = Inr demo_manifest"
    unfolding d by (rule demo_reads)
  show "readable_json (unsigned_data (dump_unsigned demo_manifest) alice)"
    using demo_readable unfolding d by (simp add: dump_unsigned_def placeholder_signature_def signature_entry_def)
qed

lemma demo_honest: "length sig = 64 \<Longrightarrow> honest_key demo_verify (demo_key\<lparr>ek_sign := \<lambda>_. Inr sig\<rparr>) demo_payload sig"
  by (simp add: honest_key_def demo_key_def demo_verify_def)

lemma demo_declared: "alice \<in> set (em_validator_hotkeys demo_manifest)"
  by (simp add: demo_manifest_def)

theorem signed_manifest_verifies_witness:
  "\<exists>s :: evidence_manifest. sign_manifest json_loads demo_verify (dump_unsigned demo_manifest) demo_key = Inr s
    \<and> signed_content s = signed_content demo_manifest
    \<and> verify_manifest demo_verify s None = Inr (sha256_hex demo_payload)
    \<and> verify_manifest_file json_loads demo_verify (Inr (utext (VObj (dump_manifest s)))) (Some (ek_ss58_address demo_key))
        = Inr (s, sha256_hex demo_payload)"
proof (rule signed_manifest_verifies [OF json_loads_reads])
  have a: "ek_ss58_address demo_key = alice" by (simp add: demo_key_def)
  show "readable_json (unsigned_data (dump_unsigned demo_manifest) (ek_ss58_address demo_key))"
    "read_manifest (unsigned_data (dump_unsigned demo_manifest) (ek_ss58_address demo_key)) = Inr demo_manifest"
    unfolding a by (rule demo_data)+
  show "readable_json (VObj (dump_unsigned demo_manifest))" by (rule demo_readable)
  show "signature_payload (ModelData demo_manifest) = Inr demo_payload" by (rule demo_payload)
  show "ek_ss58_address demo_key \<in> set (em_validator_hotkeys demo_manifest)" unfolding a by (rule demo_declared)
  show "honest_key demo_verify demo_key demo_payload (replicate 64 (CHR 0x01))"
    by (simp add: honest_key_def demo_key_def demo_verify_def)
qed

text \<open>The demo manifest with two different signatures.\<close>

definition demo_signed :: "char \<Rightarrow> evidence_manifest" where
  "demo_signed c = with_signature demo_manifest alice demo_payload (replicate 64 c)"

lemma demo_signed_verifies:
  "verify_manifest demo_verify (demo_signed c) None = Inr (sha256_hex demo_payload)"
  "read_manifest (VObj (dump_manifest (demo_signed c))) = Inr (demo_signed c)"
proof -
  let ?key = "demo_key\<lparr>ek_sign := \<lambda>_. Inr (replicate 64 c)\<rparr>"
  have a: "ek_ss58_address ?key = alice" by (simp add: demo_key_def)
  have h: "honest_key demo_verify ?key demo_payload (replicate 64 c)" by (rule demo_honest) simp
  have d: "readable_json (unsigned_data (dump_unsigned demo_manifest) (ek_ss58_address ?key))"
    "read_manifest (unsigned_data (dump_unsigned demo_manifest) (ek_ss58_address ?key)) = Inr demo_manifest"
    "ek_ss58_address ?key \<in> set (em_validator_hotkeys demo_manifest)"
    unfolding a by (rule demo_data demo_declared)+
  note t = sign_manifest_total [OF json_loads_reads d(1,2) demo_readable demo_payload d(3) h]
  show "verify_manifest demo_verify (demo_signed c) None = Inr (sha256_hex demo_payload)"
    using t(3) unfolding a demo_signed_def .
  show "read_manifest (VObj (dump_manifest (demo_signed c))) = Inr (demo_signed c)"
    using t(2) unfolding a demo_signed_def .
qed

theorem manifest_signature_binds_witness:
  "demo_signed (CHR 0x01) \<noteq> demo_signed (CHR 0x02)
    \<and> (signed_content (demo_signed (CHR 0x01)) = signed_content (demo_signed (CHR 0x02))
      \<or> (\<exists>p q. signature_payload (ModelData (demo_signed (CHR 0x01))) = Inr p
          \<and> signature_payload (ModelData (demo_signed (CHR 0x02))) = Inr q \<and> sha256_collision p q))"
proof
  have "bytes_hex (replicate 64 (CHR 0x01)) \<noteq> bytes_hex (replicate 64 (CHR 0x02))" by (simp only: bytes_hex_inject) simp
  moreover have "vg_signature_hex (em_validator_signature (demo_signed c)) = bytes_hex (replicate 64 c)" for c
    by (simp only: demo_signed_def with_signature_def) simp
  ultimately show "demo_signed (CHR 0x01) \<noteq> demo_signed (CHR 0x02)" by metis
  have r: "readable_json (VObj (dump_unsigned (demo_signed c)))" for c
  proof -
    have "dump_unsigned (demo_signed c) = dump_unsigned demo_manifest"
      by (simp add: demo_signed_def with_signature_def dump_unsigned_def)
    then show ?thesis using demo_readable by (simp only:)
  qed
  show "signed_content (demo_signed (CHR 0x01)) = signed_content (demo_signed (CHR 0x02))
      \<or> (\<exists>p q. signature_payload (ModelData (demo_signed (CHR 0x01))) = Inr p
          \<and> signature_payload (ModelData (demo_signed (CHR 0x02))) = Inr q \<and> sha256_collision p q)"
    by (rule manifest_signature_binds [OF demo_signed_verifies(1) demo_signed_verifies(1) demo_signed_verifies(2) demo_signed_verifies(2) r r])
qed

end
