(* ===== verification/Spec2Isabelle.thy ===== *)
theory Spec2Isabelle
  imports Protocol_Properties Scoring_Properties Evaluation_Properties Testnet_Properties
    Provision_Properties Evidence_Properties
begin

text \<open>
  Verification development of the PlanRace v2 subnet (the Python package under
  \<open>src/planrace\<close>). A validator commits to a benchmark task, miners answer with signed index
  bundles, the validator seals and reveals the task, measures every bundle in a sandbox on
  eight hidden fixtures, scores the measurements, shares the reward of equal strategies,
  aggregates over epochs and plans the weights it writes to the chain.

  Parts and theories, in the order of that pipeline.

  \<^item> Common ground: \<open>Prelude\<close> (results \<open>pyerr + 'a\<close>, strings as UTF-8 bytes, dictionaries),
    \<open>PyFloat\<close> (IEEE doubles as rounded reals, the locales \<open>rounding\<close> and \<open>monotone_rounding\<close>, \<open>fsum\<close>,
    means and medians), \<open>Doubles\<close> (arithmetic with the exponent range of doubles),
    \<open>Sha256\<close> (the hash on 32-bit words), \<open>World\<close> (steps on an outside world, \<open>try\<close>, \<open>finally\<close>).
  \<^item> \<open>models_v2.py\<close>: \<open>Json\<close> (canonical JSON), \<open>Digest\<close> (domain-separated digests, the locale
    \<open>binding_digest\<close>), \<open>Models\<close> and \<open>TaskModels\<close> (wire records, validators, digests),
    \<open>IndexSql\<close> (the SQL compiler and a lexer that reads it back).
  \<^item> \<open>auth_v2.py\<close>, \<open>nonce.py\<close>, \<open>auth.py\<close>: \<open>Replay\<close> (three replay stores behind the locale
    \<open>replay_store\<close>), \<open>Auth\<close> (signing and verification of responses).
  \<^item> \<open>taskgen_v2.py\<close>: \<open>Commitment\<close> (Merkle root, commitment, creation, audit), \<open>CommitmentTotal\<close>
    (the loop ends, creation does not fail), \<open>Lifecycle\<close> (the phase machine as a state, its
    operations and the runs of any sequence of events).
  \<^item> \<open>benchmark_v2.py\<close>: \<open>Benchmark\<close> (profiles, families, rows, fixtures, logical digests),
    \<open>BenchmarkTotal\<close> (the generator is total and within its published domains, and its rows meet every
    constraint of the published schema, whose text is read from its tables and columns).
  \<^item> \<open>oracle_v2.py\<close>: \<open>Oracle\<close> (cell texts, row canonicalization with limits, result digest),
    \<open>DecimalText\<close> (the decimal texts that determine their numbers).
  \<^item> \<open>sandbox_v2.py\<close>, \<open>sandbox_worker.py\<close>: \<open>FloatText\<close> (\<open>format(x, ".17g")\<close> and its reading),
    \<open>SandboxModels\<close> (requests, results, policies, admission, authorizer), \<open>SandboxExec\<close>
    (\<open>execute_request\<close> step by step, its soundness), \<open>SandboxTotal\<close> (which exceptions
    escape), \<open>SandboxProcess\<close> (process limits, containers,
    batches, the worker's entry point).
  \<^item> \<open>evaluation_v2.py\<close>: \<open>Evaluation\<close> (creating, re-deriving and evaluating tasks, cohorts),
    \<open>Honest\<close> (the honest path end to end and what an evaluation is made of).
  \<^item> \<open>scoring_v2.py\<close>, \<open>weights.py\<close>, \<open>network.py\<close>: \<open>Scoring\<close>, \<open>Aggregation\<close>, \<open>Allocation\<close>,
    \<open>Weights\<close>.
  \<^item> Testnet operations, \<open>testnet_*.py\<close>: \<open>PyNumber\<close> (\<open>float\<close>, \<open>int\<close> and \<open>repr\<close> of numbers as text),
    \<open>JsonText\<close> (\<open>json.dumps\<close> of reports), \<open>ChainValues\<close> (SDK values, their coercions and
    attributes, a client as a record of reads, \<open>with_client\<close>), \<open>TestnetPreflight\<close>,
    \<open>TestnetWeights\<close> (plan, validation, readback), \<open>TestnetSubmission\<close>, \<open>PlanLemmas\<close>,
    \<open>TestnetProvisioning\<close> (identities, roles, plan), \<open>ProvisionSubmission\<close> (the one creating
    call and its receipt), \<open>ProvisionReadback\<close> (finalized ownership).
  \<^item> \<open>evidence.py\<close>: \<open>JsonParse\<close> (\<open>json.loads\<close>, reading back what \<open>json.dumps\<close> writes), \<open>Evidence\<close> (models as
    strict readers, canonical bytes, signing, verification, files).
  \<^item> Properties and the concrete inputs they are applied to: \<open>Samples\<close>, \<open>Worker_Samples\<close>,
    \<open>Testnet_Samples\<close>,
    \<open>Protocol_Properties\<close>, \<open>Scoring_Properties\<close>, \<open>Evaluation_Properties\<close>,
    \<open>Testnet_Properties\<close>, \<open>Provision_Properties\<close>, \<open>Evidence_Properties\<close>.

  How the model reads. A Python function that may raise returns \<open>Inl\<close> an exception or \<open>Inr\<close> a
  value; one that touches files, SQLite, processes or the clock is a step \<open>('w, 'a) io\<close> on an
  abstract world \<open>'w\<close>, so the order of its effects is the order of the code and \<open>finally\<close>
  blocks run on every path. Frozen models are records with a validity predicate; dictionaries
  are association lists in insertion order; strings are their UTF-8 bytes (\<open>py_len\<close> counts
  characters); integers are \<open>int\<close>, SHA-256 and float bits are words. A float is a real number
  that was rounded to a double, or infinity or NaN. Two roundings are used. Scoring, the weight
  plans and the clipping of testnet plans use \<open>dbl\<close>, the rounding with subnormals and underflow to
  zero, and the operations of \<open>Doubles\<close>, which raise what Python raises: \<open>OverflowError\<close> of integer
  division, \<open>fsum\<close> and \<open>pow\<close>, \<open>ZeroDivisionError\<close>, \<open>ValueError\<close> of \<open>log2\<close> at zero. Where Python's \<open>+\<close>,
  \<open>*\<close> or \<open>/\<close> would give an infinity the model stops with \<open>InfinityReached\<close>: what the code computes from
  infinities and NaNs is not followed (\<open>Scoring_Properties.tiny_ratio_raises\<close> and the findings say
  what goes wrong there). The sharing of rewards, the aggregation over epochs, the cap loop, the
  robust holdout reward, the generator's powers and the 16-bit shares use \<open>fl\<close>, the rounding to 53
  bits without exponent limits: they are right for rewards and weights that are zero or between
  \<open>2^-1000\<close> and \<open>2^1000\<close>, say. \<open>log1p\<close>, \<open>exp\<close> and powers are rounded once.
  Python refuses to convert integers of more than 4300 digits to text; \<open>Json.render\<close> and
  \<open>IndexSql.compile_literal\<close> do not have that limit (a specification inside a digested bundle cannot
  reach it in the code), the conversions of \<open>ChainValues\<close> and \<open>PyNumber\<close> do.

  What is a parameter, with its contract as a named hypothesis where a theorem needs one:
  \<open>random.Random\<close> (\<open>prng_ok\<close>), the bytes of a SQLite database (\<open>image_writes\<close>: rows that meet the
  types, NOT NULL, CHECK, PRIMARY KEY and FOREIGN KEY constraints of the schema are written; other
  rows may raise), the operating system's entropy (\<open>honest_entropy\<close>), SQLite, the file system and the clock of the sandbox
  (the record \<open>engine\<close>, with \<open>engine_ok\<close>, which promises nothing for parameters beyond 64 bits, and \<open>readable\<close>), the SQL
  parser \<open>sqlglot\<close> (its outcome is a tree, a \<open>ParseError\<close>, or any other exception, such as \<open>TokenError\<close>),
  processes and pydantic's decoding (the record \<open>host\<close>), sr25519 (\<open>kp_verify\<close>, \<open>sg_sign\<close>), and the
  chain client (\<open>setter\<close>; on the testnet the records \<open>testnet\<close>, \<open>snapshot\<close> and \<open>final_client\<close>, with
  the plan collector, wallet factory, submitter and clock as arguments as in the code). \<open>str\<close> of
  an SDK container, \<open>ipaddress\<close> and the reading of a saved file are parameters too, and so is
  pydantic's JSON reader, with the hypothesis that it reads what \<open>json.dumps\<close> writes
  (\<open>reads_json\<close>). Collision freedom of SHA-256 is never assumed: a binding theorem
  ends in the equality or an explicit collision of two byte strings (\<open>sha256_collision\<close>).

  What the lemma groups show. Protocol: canonical JSON and every digest are injective up to
  collisions; accepted SQL has exactly the tokens of its specification; a response is accepted
  exactly under the protocol's conditions and once; runs of the lifecycle keep its invariant,
  seal before reveal, and nothing is added after the seal; reveals open a commitment one way.
  Benchmark: generation, creation and re-derivation succeed and agree. Sandbox: a successful
  result was admitted and every run agreed; the trial loop is its specification; every valid
  request with bindable parameters is answered, exceptions of the SQL parser apart. Evaluation: exactly the committed holdouts
  are measured, no reward without every gate, one evaluation per strategy, and the accounting
  accepts every cohort. Scoring: bounds of the score and its totality for moderate inputs, no reward without speedup,
  duplicates share one reward, the concentration cap, normalized weights, guarded submission.
  Testnet: a ready plan passes its own validator unless a planned weight underflowed, its digest fixes
  the operation, at most one call is sent, whatever it answers, and only under authorization, and a readback that is ready confirms the chain.
  Evidence: a signed manifest verifies, from its file too, and its signature binds its content.

  Bounds and fuel. Only the JSON parser has fuel, two calls for each character and one more,
  and never runs out of it (\<open>json_loads_fuel\<close>). All other loops are structural recursion over
  their input or functions with a measure (the Merkle loop halves its level, the lexer shortens its text, the
  cap loop drops a recipient, zero stripping divides). Lengths are below \<open>256 ^ 8\<close> where the
  code writes eight length bytes, otherwise the \<open>OverflowError\<close> of the code is the result.

  Not modelled: SQLite files, locking and pages; the contents of OCI and Docker output; HTTP
  transport, command line and dashboard; the v1 modules; the offline mechanism simulation; the
  local-network and testnet orchestration scripts, which drive processes and a chain.
\<close>

end
